(* ===== verification/Rns8_Prelude.thy ===== *)
theory Rns8_Prelude
  imports Main "HOL-Library.List_Lexorder" "HOL-Library.Char_ord"
begin

text \<open>
  Prelude of the development: the named collections, the error monad in which every Python
  function that can raise is written, and the lemmas on lists that the components share.

  \<^item> \<open>res_simps\<close> collects how a successful or failing run decomposes;
  \<^item> \<open>exc\<close> are the exceptions the modelled code raises, or that Python raises for it; the
    argument is the message where the code builds one.
\<close>

named_theorems res_simps \<open>decomposition of runs in the error monad\<close>
named_theorems py_simps \<open>evaluation of Python value operations\<close>

section \<open>Exceptions and results\<close>

datatype exc =
    SystemExit string
  | CacheInstallError string
  | ArgumentTypeError string
  | BenchmarkSchemaError string
  | MetadataRegistryError string
  | ValueError
  | TypeError
  | KeyError string
  | IndexError
  | AttributeError
  | ZeroDivisionError
  | OverflowError
  | FileNotFoundError string
  | RuntimeError string

type_synonym 'a res = "exc + 'a"

definition rbind :: "'a res \<Rightarrow> ('a \<Rightarrow> 'b res) \<Rightarrow> 'b res" where
  "rbind m f = (case m of Inl e \<Rightarrow> Inl e | Inr x \<Rightarrow> f x)"

text \<open>\<open>raise_if c e k\<close> is \<open>if c: raise e\<close> followed by \<open>k\<close>.\<close>

definition raise_if :: "bool \<Rightarrow> exc \<Rightarrow> 'a res \<Rightarrow> 'a res" where
  "raise_if c e k = (if c then Inl e else k)"

fun rmapM :: "('a \<Rightarrow> 'b res) \<Rightarrow> 'a list \<Rightarrow> 'b list res" where
  "rmapM f [] = Inr []"
| "rmapM f (x # xs) = rbind (f x) (\<lambda>y. rbind (rmapM f xs) (\<lambda>ys. Inr (y # ys)))"

fun rfoldM :: "('s \<Rightarrow> 'a \<Rightarrow> 's res) \<Rightarrow> 's \<Rightarrow> 'a list \<Rightarrow> 's res" where
  "rfoldM f s [] = Inr s"
| "rfoldM f s (x # xs) = rbind (f s x) (\<lambda>s'. rfoldM f s' xs)"

text \<open>Two statements in sequence, and a loop run for its effect.\<close>

definition rthen :: "'a res \<Rightarrow> 'b res \<Rightarrow> 'b res" where
  "rthen a b = rbind a (\<lambda>_. b)"

fun rforM :: "('a \<Rightarrow> unit res) \<Rightarrow> 'a list \<Rightarrow> unit res" where
  "rforM f [] = Inr ()"
| "rforM f (x # xs) = rthen (f x) (rforM f xs)"

text \<open>\<open>if c: raise e\<close> as a statement.\<close>

definition check :: "bool \<Rightarrow> exc \<Rightarrow> unit res" where
  "check c e = (if c then Inl e else Inr ())"

text \<open>Short-circuit \<open>and\<close> and \<open>or\<close> over conditions that may raise.\<close>

definition rand :: "bool res \<Rightarrow> bool res \<Rightarrow> bool res" where
  "rand a b = rbind a (\<lambda>x. if x then b else Inr False)"

definition ror :: "bool res \<Rightarrow> bool res \<Rightarrow> bool res" where
  "ror a b = rbind a (\<lambda>x. if x then Inr True else b)"

definition returns :: "'a res \<Rightarrow> bool" where
  "returns m \<longleftrightarrow> (case m of Inl _ \<Rightarrow> False | Inr _ \<Rightarrow> True)"

lemma rbind_Inr [simp]: "rbind (Inr x) f = f x"
  by (simp add: rbind_def)

lemma rbind_Inl [simp]: "rbind (Inl e) f = Inl e"
  by (simp add: rbind_def)

lemma rbind_eq_Inr [res_simps]: "rbind m f = Inr y \<longleftrightarrow> (\<exists>x. m = Inr x \<and> f x = Inr y)"
  by (simp add: rbind_def split: sum.splits)

lemma rbind_eq_Inl: "rbind m f = Inl e \<longleftrightarrow> m = Inl e \<or> (\<exists>x. m = Inr x \<and> f x = Inl e)"
  by (auto simp add: rbind_def split: sum.splits)

lemma rbind_assoc: "rbind (rbind m f) g = rbind m (\<lambda>x. rbind (f x) g)"
  by (simp add: rbind_def split: sum.splits)

lemma rbind_cong [fundef_cong]:
  "m = m' \<Longrightarrow> (\<And>x. m' = Inr x \<Longrightarrow> f x = f' x) \<Longrightarrow> rbind m f = rbind m' f'"
  by (simp add: rbind_def split: sum.splits)

lemma raise_if_eq_Inr [res_simps]: "raise_if c e k = Inr y \<longleftrightarrow> \<not> c \<and> k = Inr y"
  by (simp add: raise_if_def)

lemma raise_if_eq_Inl: "raise_if c e k = Inl x \<longleftrightarrow> (c \<and> x = e) \<or> (\<not> c \<and> k = Inl x)"
  by (auto simp add: raise_if_def)

lemma raise_if_True [simp]: "raise_if True e k = Inl e"
  by (simp add: raise_if_def)

lemma raise_if_False [simp]: "raise_if False e k = k"
  by (simp add: raise_if_def)

lemma returns_Inr [simp]: "returns (Inr x)"
  by (simp add: returns_def)

lemma returns_Inl [simp]: "\<not> returns (Inl e)"
  by (simp add: returns_def)

lemma returns_iff: "returns m \<longleftrightarrow> (\<exists>x. m = Inr x)"
  by (simp add: returns_def split: sum.splits)

lemma rthen_eq_Inr [res_simps]: "rthen a b = Inr y \<longleftrightarrow> (\<exists>x. a = Inr x) \<and> b = Inr y"
  by (auto simp: rthen_def rbind_eq_Inr)

lemma rthen_eq_Inl: "rthen a b = Inl e \<longleftrightarrow> a = Inl e \<or> (\<exists>x. a = Inr x) \<and> b = Inl e"
  by (auto simp: rthen_def rbind_eq_Inl)

lemma rthen_Inr [simp]: "rthen (Inr x) b = b"
  by (simp add: rthen_def)

lemma rthen_Inl [simp]: "rthen (Inl e) b = Inl e"
  by (simp add: rthen_def)

lemma check_eq_Inr [res_simps]: "check c e = Inr u \<longleftrightarrow> \<not> c"
  by (simp add: check_def)

lemma check_eq_Inl: "check c e = Inl x \<longleftrightarrow> c \<and> x = e"
  by (auto simp: check_def)

lemma check_True [simp]: "check True e = Inl e"
  by (simp add: check_def)

lemma check_False [simp]: "check False e = Inr ()"
  by (simp add: check_def)

lemma rforM_Inr_iff [res_simps]: "rforM f xs = Inr u \<longleftrightarrow> list_all (\<lambda>x. f x = Inr ()) xs"
  by (induction xs) (auto simp: rthen_eq_Inr)

lemma rforM_cong [fundef_cong]:
  "xs = ys \<Longrightarrow> (\<And>x. x \<in> set ys \<Longrightarrow> f x = g x) \<Longrightarrow> rforM f xs = rforM g ys"
  by (induction xs arbitrary: ys) auto

lemma rand_Inr [simp]: "rand (Inr a) m = (if a then m else Inr False)"
  by (simp add: rand_def)

lemma ror_Inr [simp]: "ror (Inr a) m = (if a then Inr True else m)"
  by (simp add: ror_def)

lemma rmapM_Inr_iff [res_simps]:
  "rmapM f xs = Inr ys \<longleftrightarrow> list_all2 (\<lambda>x y. f x = Inr y) xs ys"
proof (induction xs arbitrary: ys)
  case Nil
  then show ?case by auto
next
  case (Cons x xs)
  then show ?case by (cases ys) (auto simp: rbind_eq_Inr)
qed

lemma rmapM_length: "rmapM f xs = Inr ys \<Longrightarrow> length ys = length xs"
  by (auto simp: rmapM_Inr_iff dest: list_all2_lengthD)

lemma rmapM_set:
  assumes "rmapM f xs = Inr ys" and "y \<in> set ys"
  shows "\<exists>x \<in> set xs. f x = Inr y"
proof -
  from assms(1) have "list_all2 (\<lambda>x y. f x = Inr y) xs ys"
    by (simp add: rmapM_Inr_iff)
  then show ?thesis
    using assms(2) by (induction rule: list_all2_induct) auto
qed

lemma rmapM_append:
  "rmapM f (xs @ ys) = rbind (rmapM f xs) (\<lambda>us. rbind (rmapM f ys) (\<lambda>vs. Inr (us @ vs)))"
  by (induction xs) (auto simp: rbind_def split: sum.splits)

lemma rmapM_cong [fundef_cong]:
  "xs = ys \<Longrightarrow> (\<And>x. x \<in> set ys \<Longrightarrow> f x = g x) \<Longrightarrow> rmapM f xs = rmapM g ys"
  by (induction xs arbitrary: ys) (auto)

lemma rmapM_total: "(\<And>x. x \<in> set xs \<Longrightarrow> \<exists>y. f x = Inr y) \<Longrightarrow> \<exists>ys. rmapM f xs = Inr ys"
proof (induction xs)
  case (Cons x xs)
  then obtain y ys where "f x = Inr y" "rmapM f xs = Inr ys" by force
  then show ?case by simp
qed simp

lemma rfoldM_total:
  "(\<And>s x. x \<in> set xs \<Longrightarrow> \<exists>s'. f s x = Inr s') \<Longrightarrow> \<exists>t. rfoldM f s xs = Inr t"
proof (induction xs arbitrary: s)
  case (Cons x xs)
  then obtain s' where "f s x = Inr s'" by force
  with Cons show ?case by auto
qed simp

text \<open>A loop whose iterations return lists.\<close>

lemma rmapM_concat_entry:
  assumes "rbind (rmapM f xs) (\<lambda>ys. Inr (concat ys)) = Inr zs" "z \<in> set zs"
  obtains x ys where "x \<in> set xs" "f x = Inr ys" "z \<in> set ys"
proof -
  from assms obtain yss ys where "rmapM f xs = Inr yss" "ys \<in> set yss" "z \<in> set ys"
    by (auto simp: rbind_eq_Inr)
  then show ?thesis using that by (auto dest: rmapM_set)
qed

lemma list_all2_concat_map:
  assumes "list_all2 (\<lambda>x ys. f x = Inr ys) xs yss"
    and "\<And>x ys. x \<in> set xs \<Longrightarrow> f x = Inr ys \<Longrightarrow> map g ys = h x"
  shows "map g (concat yss) = concat (map h xs)"
  using assms by (induction rule: list_all2_induct) auto

lemma rmapM_concat_map:
  assumes "rbind (rmapM f xs) (\<lambda>ys. Inr (concat ys)) = Inr zs"
    and "\<And>x ys. x \<in> set xs \<Longrightarrow> f x = Inr ys \<Longrightarrow> map g ys = h x"
  shows "map g zs = concat (map h xs)"
proof -
  from assms(1) obtain yss where "list_all2 (\<lambda>x ys. f x = Inr ys) xs yss" "zs = concat yss"
    by (auto simp: rbind_eq_Inr rmapM_Inr_iff)
  then show ?thesis using list_all2_concat_map [of f xs yss g h] assms(2) by simp
qed

text \<open>A loop in the error monad keeps what each of its iterations keeps.\<close>

lemma rfoldM_invariant:
  assumes "rfoldM f s xs = Inr t" and "I s"
    and "\<And>s x s'. I s \<Longrightarrow> x \<in> set xs \<Longrightarrow> f s x = Inr s' \<Longrightarrow> I s'"
  shows "I t"
  using assms
proof (induction xs arbitrary: s)
  case Nil
  then show ?case by simp
next
  case (Cons x xs)
  from Cons.prems(1) obtain s' where s': "f s x = Inr s'" "rfoldM f s' xs = Inr t"
    by (auto simp: rbind_eq_Inr)
  from Cons.prems(2) s'(1) have "I s'" using Cons.prems(3) [of s x s'] by simp
  then show ?case by (rule Cons.IH [OF s'(2)]) (use Cons.prems(3) in auto)
qed

section \<open>Lists\<close>

text \<open>\<open>sorted(set(xs))\<close> for strings and integers: duplicates removed, ascending.\<close>

definition sorted_set :: "'a::linorder list \<Rightarrow> 'a list" where
  "sorted_set xs = sort (remdups xs)"

lemma set_sorted_set [simp]: "set (sorted_set xs) = set xs"
  by (simp add: sorted_set_def)

lemma distinct_sorted_set [simp]: "distinct (sorted_set xs)"
  by (simp add: sorted_set_def)

lemma sorted_sorted_set [simp]: "sorted (sorted_set xs)"
  by (simp add: sorted_set_def)

lemma sorted_set_Nil_iff [simp]: "sorted_set xs = [] \<longleftrightarrow> xs = []"
  by (metis set_sorted_set set_empty)

lemma sorted_set_cong: "set xs = set ys \<Longrightarrow> sorted_set xs = sorted_set ys"
  by (intro sorted_distinct_set_unique) simp_all

text \<open>
  \<open>min(xs, key=f)\<close>: the first element whose key is least, as Python's \<open>min\<close> keeps the first
  of equal keys.
\<close>

fun min_by :: "('a \<Rightarrow> 'k::linorder) \<Rightarrow> 'a \<Rightarrow> 'a list \<Rightarrow> 'a" where
  "min_by f b [] = b"
| "min_by f b (x # xs) = min_by f (if f x < f b then x else b) xs"

lemma min_by_in: "min_by f b xs \<in> set (b # xs)"
proof (induction xs arbitrary: b)
  case Nil
  then show ?case by simp
next
  case (Cons x xs)
  from Cons.IH [of "if f x < f b then x else b"] show ?case by (auto split: if_splits)
qed

lemma min_by_le: "y \<in> set (b # xs) \<Longrightarrow> f (min_by f b xs) \<le> f y"
proof (induction xs arbitrary: b y)
  case Nil
  then show ?case by simp
next
  case (Cons x xs)
  let ?c = "if f x < f b then x else b"
  have c: "f (min_by f ?c xs) \<le> f ?c" by (rule Cons.IH) simp
  show ?case
  proof (cases "y \<in> set xs")
    case True
    then have "f (min_by f ?c xs) \<le> f y" by (intro Cons.IH) simp
    then show ?thesis by simp
  next
    case False
    with Cons.prems have "y = b \<or> y = x" by auto
    with c show ?thesis by (auto split: if_splits)
  qed
qed

lemma distinct_concat_map:
  assumes "distinct xs" "\<And>x. x \<in> set xs \<Longrightarrow> distinct (f x)"
    and "\<And>x y. x \<in> set xs \<Longrightarrow> y \<in> set xs \<Longrightarrow> x \<noteq> y \<Longrightarrow> set (f x) \<inter> set (f y) = {}"
  shows "distinct (concat (map f xs))"
  using assms by (induction xs) auto

lemma find_Some_iff_first:
  "List.find P xs = Some x \<Longrightarrow> \<exists>ys zs. xs = ys @ x # zs \<and> P x \<and> (\<forall>y \<in> set ys. \<not> P y)"
proof (induction xs)
  case Nil
  then show ?case by simp
next
  case (Cons a xs)
  show ?case
  proof (cases "P a")
    case True
    with Cons.prems show ?thesis by (intro exI [of _ "[]"] exI [of _ xs]) auto
  next
    case False
    with Cons.prems obtain ys zs where "xs = ys @ x # zs" "P x" "\<forall>y \<in> set ys. \<not> P y"
      using Cons.IH by auto
    with False show ?thesis by (intro exI [of _ "a # ys"] exI [of _ zs]) auto
  qed
qed

end
