(* ===== verification/Py_Value.thy ===== *)
theory Py_Value
  imports Rns8_Prelude "HOL-Library.Log_Nat" Complex_Main
begin

text \<open>
  The Python values the tools read from JSON and pass around.

  \<^item> A float is a finite rational, an infinity or NaN; comparisons are exact (as in Python, also
    between \<open>int\<close> and \<open>float\<close>), and the result of an operation is rounded to binary64 by
    \<open>rnd64\<close>. The sign of zero is not kept: nothing modelled here tells the two zeros apart.
  \<^item> A dict is an association list in insertion order with one entry per key, as \<open>json.loads\<close>
    and \<open>d[k] = v\<close> build it; \<open>dict_set\<close> keeps that invariant (\<open>dict_wf\<close>).
  \<^item> \<open>bool\<close> is a subclass of \<open>int\<close>: \<open>isinstance(True, int)\<close> holds and \<open>True == 1 == 1.0\<close>.
\<close>

section \<open>Floats\<close>

datatype pyfloat = FFin rat | FInf | FNegInf | FNaN

definition pow2 :: "int \<Rightarrow> rat" where
  "pow2 e = (if 0 \<le> e then 2 ^ nat e else 1 / 2 ^ nat (- e))"

text \<open>The exponent \<open>e\<close> with \<open>2^e \<le> x < 2^(e+1)\<close>, for positive \<open>x\<close>.\<close>

definition ilog2 :: "rat \<Rightarrow> int" where
  "ilog2 x = (case quotient_of x of (n, d) \<Rightarrow>
     let e = bitlen n - bitlen d
     in if x < pow2 e then e - 1 else e)"

definition round_half_even :: "rat \<Rightarrow> int" where
  "round_half_even q =
     (let f = \<lfloor>q\<rfloor>; r = q - of_int f
      in if r < 1 / 2 then f else if 1 / 2 < r then f + 1 else if even f then f else f + 1)"

text \<open>IEEE 754 binary64, round to nearest, ties to even, with gradual underflow and overflow.\<close>

definition rnd64 :: "rat \<Rightarrow> pyfloat" where
  "rnd64 x =
     (if x = 0 then FFin 0
      else let a = \<bar>x\<bar>; e = max (ilog2 a - 52) (- 1074);
               r = of_int (round_half_even (a / pow2 e)) * pow2 e
           in if 2 ^ 1024 \<le> r then (if 0 < x then FInf else FNegInf)
              else FFin (if 0 < x then r else - r))"

fun flt_lt :: "pyfloat \<Rightarrow> pyfloat \<Rightarrow> bool" where
  "flt_lt (FFin a) (FFin b) = (a < b)"
| "flt_lt (FFin _) FInf = True"
| "flt_lt FNegInf (FFin _) = True"
| "flt_lt FNegInf FInf = True"
| "flt_lt _ _ = False"

definition flt_eq :: "pyfloat \<Rightarrow> pyfloat \<Rightarrow> bool" where
  "flt_eq a b \<longleftrightarrow> a = b \<and> a \<noteq> FNaN"

definition flt_le :: "pyfloat \<Rightarrow> pyfloat \<Rightarrow> bool" where
  "flt_le a b \<longleftrightarrow> flt_lt a b \<or> flt_eq a b"

fun flt_neg :: "pyfloat \<Rightarrow> pyfloat" where
  "flt_neg (FFin a) = FFin (- a)"
| "flt_neg FInf = FNegInf"
| "flt_neg FNegInf = FInf"
| "flt_neg FNaN = FNaN"

fun flt_add :: "pyfloat \<Rightarrow> pyfloat \<Rightarrow> pyfloat" where
  "flt_add (FFin a) (FFin b) = rnd64 (a + b)"
| "flt_add FNaN _ = FNaN"
| "flt_add _ FNaN = FNaN"
| "flt_add FInf FNegInf = FNaN"
| "flt_add FNegInf FInf = FNaN"
| "flt_add FInf _ = FInf"
| "flt_add FNegInf _ = FNegInf"
| "flt_add (FFin _) x = x"

definition flt_sub :: "pyfloat \<Rightarrow> pyfloat \<Rightarrow> pyfloat" where
  "flt_sub a b = flt_add a (flt_neg b)"

text \<open>True division; Python raises \<open>ZeroDivisionError\<close> on a zero divisor, which every modelled
  use excludes by a guard.\<close>

fun flt_div :: "pyfloat \<Rightarrow> pyfloat \<Rightarrow> pyfloat" where
  "flt_div (FFin a) (FFin b) = rnd64 (a / b)"
| "flt_div FNaN _ = FNaN"
| "flt_div _ FNaN = FNaN"
| "flt_div (FFin _) _ = FFin 0"
| "flt_div FInf (FFin b) = (if b < 0 then FNegInf else FInf)"
| "flt_div FNegInf (FFin b) = (if b < 0 then FInf else FNegInf)"
| "flt_div _ _ = FNaN"

definition flt_is_zero :: "pyfloat \<Rightarrow> bool" where
  "flt_is_zero a \<longleftrightarrow> a = FFin 0"

definition flt_finite :: "pyfloat \<Rightarrow> bool" where
  "flt_finite a \<longleftrightarrow> (case a of FFin _ \<Rightarrow> True | _ \<Rightarrow> False)"

text \<open>\<open>float(n)\<close> of an integer: rounded, \<open>OverflowError\<close> where it does not fit.\<close>

definition float_of_int :: "int \<Rightarrow> pyfloat res" where
  "float_of_int n = (case rnd64 (of_int n) of FFin r \<Rightarrow> Inr (FFin r) | _ \<Rightarrow> Inl OverflowError)"

lemma rnd64_zero [simp]: "rnd64 0 = FFin 0"
  by (simp add: rnd64_def)

lemma round_half_even_of_int [simp]: "round_half_even (of_int n) = n"
  by (simp add: round_half_even_def)

lemma ilog2_of_int:
  assumes "0 < n" "n < 2 ^ 53"
  shows "ilog2 (of_int n) \<le> 52"
proof -
  have "bitlen n \<le> 53" using assms by (simp add: bitlen_le_iff_power)
  moreover have "bitlen 1 = 1" by (simp add: bitlen_def floorlog_def)
  ultimately show ?thesis by (simp add: ilog2_def quotient_of_int Let_def)
qed

lemma pow2_nonpos: "e \<le> 0 \<Longrightarrow> a / pow2 e = a * 2 ^ nat (- e)"
  by (cases "e = 0") (simp_all add: pow2_def)

lemma rnd64_int:
  assumes "\<bar>n\<bar> < 2 ^ 53"
  shows "rnd64 (of_int n) = FFin (of_int n)"
proof (cases "n = 0")
  case False
  let ?a = "\<bar>n\<bar>" and ?e = "max (ilog2 (of_int \<bar>n\<bar>) - 52) (- 1074)"
  have "?e \<le> 0" using ilog2_of_int [of ?a] assms False by simp
  then have scaled: "of_int ?a / pow2 ?e = (of_int (?a * 2 ^ nat (- ?e)) :: rat)" by (simp add: pow2_nonpos)
  have "pow2 ?e \<noteq> 0" by (simp add: pow2_def)
  then have "of_int (round_half_even (of_int ?a / pow2 ?e)) * pow2 ?e = (of_int ?a :: rat)"
    unfolding scaled round_half_even_of_int using scaled by (simp add: field_simps)
  moreover have "(of_int ?a :: rat) < 2 ^ 1024"
  proof -
    have "?a < 2 ^ 1024" using assms power_increasing [of 53 1024 "2::int"] by linarith
    then show ?thesis by (metis of_int_less_iff of_int_numeral of_int_power)
  qed
  ultimately show ?thesis using False by (auto simp: rnd64_def Let_def)
qed simp

text \<open>Evaluation: an integer of at most 53 bits is its own double.\<close>

definition rnd64_any :: "rat \<Rightarrow> pyfloat" where
  "rnd64_any x =
     (let a = \<bar>x\<bar>; e = max (ilog2 a - 52) (- 1074); r = of_int (round_half_even (a / pow2 e)) * pow2 e
      in if 2 ^ 1024 \<le> r then (if 0 < x then FInf else FNegInf) else FFin (if 0 < x then r else - r))"

lemma rnd64_code [code]:
  "rnd64 x = (case quotient_of x of (n, d) \<Rightarrow> if d = 1 \<and> \<bar>n\<bar> < 2 ^ 53 then FFin x else rnd64_any x)"
proof -
  obtain n d where nd: "quotient_of x = (n, d)" by force
  show ?thesis
  proof (cases "d = 1 \<and> \<bar>n\<bar> < 2 ^ 53")
    case True
    then have "x = of_int n" using quotient_of_div [OF nd] by simp
    with True nd show ?thesis by (simp add: rnd64_int)
  next
    case False
    then have "x \<noteq> 0" using nd by (auto simp: quotient_of_int)
    with False nd show ?thesis by (auto simp: rnd64_def rnd64_any_def)
  qed
qed

lemma flt_lt_irrefl [simp]: "\<not> flt_lt a a"
  by (cases a) auto

lemma flt_lt_trans: "flt_lt a b \<Longrightarrow> flt_lt b c \<Longrightarrow> flt_lt a c"
  by (cases a; cases b; cases c) auto

lemma flt_eq_sym: "flt_eq a b \<longleftrightarrow> flt_eq b a"
  by (auto simp: flt_eq_def)

lemma flt_sub_self: "flt_finite a \<Longrightarrow> flt_sub a a = FFin 0"
  by (cases a) (auto simp: flt_sub_def flt_finite_def)

section \<open>Values\<close>

datatype pyval =
    PNone
  | PBool bool
  | PInt int
  | PFloat pyfloat
  | PStr string
  | PList "pyval list"
  | PDict "(string \<times> pyval) list"

type_synonym pydict = "(string \<times> pyval) list"

text \<open>The number a value stands for in an arithmetic comparison.\<close>

fun num_of :: "pyval \<Rightarrow> pyfloat option" where
  "num_of (PBool b) = Some (FFin (if b then 1 else 0))"
| "num_of (PInt n) = Some (FFin (of_int n))"
| "num_of (PFloat x) = Some x"
| "num_of _ = None"

text \<open>
  \<open>==\<close>. Numbers compare by value, lists element by element, dicts as maps. A container takes two
  elements that are one object as equal, and every NaN that the JSON parser returns is the same
  object: NaN differs from itself, but a list holding it does not.
\<close>

definition both_nan :: "pyval \<Rightarrow> pyval \<Rightarrow> bool" where
  "both_nan x y \<longleftrightarrow> x = PFloat FNaN \<and> y = PFloat FNaN"

fun py_eq :: "pyval \<Rightarrow> pyval \<Rightarrow> bool" where
  "py_eq (PStr s) y = (case y of PStr t \<Rightarrow> s = t | _ \<Rightarrow> False)"
| "py_eq PNone y = (case y of PNone \<Rightarrow> True | _ \<Rightarrow> False)"
| "py_eq (PList xs) y =
     (case y of PList ys \<Rightarrow> list_all2 (\<lambda>a b. both_nan a b \<or> py_eq a b) xs ys | _ \<Rightarrow> False)"
| "py_eq (PDict xs) y =
     (case y of
        PDict ys \<Rightarrow> length xs = length ys \<and>
          list_all (\<lambda>p. case map_of ys (fst p) of None \<Rightarrow> False
             | Some w \<Rightarrow> both_nan (snd p) w \<or> py_eq (snd p) w) xs
      | _ \<Rightarrow> False)"
| "py_eq x y =
     (case num_of x of None \<Rightarrow> False
      | Some a \<Rightarrow> (case num_of y of None \<Rightarrow> False | Some b \<Rightarrow> flt_eq a b))"

text \<open>Membership in a list, \<open>v in xs\<close>, compares elements the same way.\<close>

definition elem_eq :: "pyval \<Rightarrow> pyval \<Rightarrow> bool" where
  "elem_eq a b \<longleftrightarrow> both_nan a b \<or> py_eq a b"

text \<open>\<open>bool(v)\<close>.\<close>

fun truthy :: "pyval \<Rightarrow> bool" where
  "truthy PNone = False"
| "truthy (PBool b) = b"
| "truthy (PInt n) = (n \<noteq> 0)"
| "truthy (PFloat x) = (\<not> flt_is_zero x)"
| "truthy (PStr s) = (s \<noteq> [])"
| "truthy (PList xs) = (xs \<noteq> [])"
| "truthy (PDict xs) = (xs \<noteq> [])"

text \<open>\<open>a or b\<close>.\<close>

definition py_or :: "pyval \<Rightarrow> pyval \<Rightarrow> pyval" where
  "py_or a b = (if truthy a then a else b)"

fun is_str :: "pyval \<Rightarrow> bool" where
  "is_str (PStr _) = True"
| "is_str _ = False"

fun is_nonempty_str :: "pyval \<Rightarrow> bool" where
  "is_nonempty_str (PStr s) = (s \<noteq> [])"
| "is_nonempty_str _ = False"

fun is_dict :: "pyval \<Rightarrow> bool" where
  "is_dict (PDict _) = True"
| "is_dict _ = False"

fun is_list :: "pyval \<Rightarrow> bool" where
  "is_list (PList _) = True"
| "is_list _ = False"

fun is_bool :: "pyval \<Rightarrow> bool" where
  "is_bool (PBool _) = True"
| "is_bool _ = False"

text \<open>\<open>isinstance(v, int)\<close>, which includes the booleans, and \<open>isinstance(v, (int, float))\<close>.\<close>

fun isinstance_int :: "pyval \<Rightarrow> bool" where
  "isinstance_int (PInt _) = True"
| "isinstance_int (PBool _) = True"
| "isinstance_int _ = False"

fun isinstance_num :: "pyval \<Rightarrow> bool" where
  "isinstance_num (PFloat _) = True"
| "isinstance_num v = isinstance_int v"

text \<open>\<open>isinstance(v, int) and not isinstance(v, bool)\<close>.\<close>

definition is_int_value :: "pyval \<Rightarrow> bool" where
  "is_int_value v \<longleftrightarrow> isinstance_int v \<and> \<not> is_bool v"

fun int_of :: "pyval \<Rightarrow> int" where
  "int_of (PInt n) = n"
| "int_of (PBool b) = (if b then 1 else 0)"
| "int_of _ = 0"

fun str_of :: "pyval \<Rightarrow> string" where
  "str_of (PStr s) = s"
| "str_of _ = []"

fun items_of :: "pyval \<Rightarrow> pydict" where
  "items_of (PDict d) = d"
| "items_of _ = []"

fun elems_of :: "pyval \<Rightarrow> pyval list" where
  "elems_of (PList xs) = xs"
| "elems_of _ = []"

text \<open>\<open>v is True\<close>, \<open>v is False\<close>, \<open>v is None\<close>.\<close>

definition is_True :: "pyval \<Rightarrow> bool" where
  "is_True v \<longleftrightarrow> (case v of PBool b \<Rightarrow> b | _ \<Rightarrow> False)"

definition is_False :: "pyval \<Rightarrow> bool" where
  "is_False v \<longleftrightarrow> (case v of PBool b \<Rightarrow> \<not> b | _ \<Rightarrow> False)"

definition is_None :: "pyval \<Rightarrow> bool" where
  "is_None v \<longleftrightarrow> (case v of PNone \<Rightarrow> True | _ \<Rightarrow> False)"

text \<open>\<open>v == 's'\<close> for a string constant.\<close>

definition eq_str :: "pyval \<Rightarrow> string \<Rightarrow> bool" where
  "eq_str v s \<longleftrightarrow> (case v of PStr t \<Rightarrow> t = s | _ \<Rightarrow> False)"

text \<open>
  \<open>v in {s1, s2, ...}\<close> for a set of string constants: a list or a dict is not hashable, and the
  test raises \<open>TypeError\<close>.
\<close>

definition in_str_set :: "pyval \<Rightarrow> string list \<Rightarrow> bool res" where
  "in_str_set v ss = (case v of PList _ \<Rightarrow> Inl TypeError | PDict _ \<Rightarrow> Inl TypeError
     | PStr s \<Rightarrow> Inr (s \<in> set ss) | _ \<Rightarrow> Inr False)"

section \<open>Dicts\<close>

definition dict_wf :: "(string \<times> 'v) list \<Rightarrow> bool" where
  "dict_wf d \<longleftrightarrow> distinct (map fst d)"

text \<open>\<open>d.get(k)\<close> and \<open>d.get(k, default)\<close>.\<close>

definition dget :: "pydict \<Rightarrow> string \<Rightarrow> pyval" where
  "dget d k = (case map_of d k of None \<Rightarrow> PNone | Some v \<Rightarrow> v)"

definition dget_or :: "pydict \<Rightarrow> string \<Rightarrow> pyval \<Rightarrow> pyval" where
  "dget_or d k v = (case map_of d k of None \<Rightarrow> v | Some w \<Rightarrow> w)"

definition has_key :: "(string \<times> 'v) list \<Rightarrow> string \<Rightarrow> bool" where
  "has_key d k \<longleftrightarrow> k \<in> set (map fst d)"

text \<open>\<open>d[k] = v\<close>: an existing key keeps its place, a new one goes to the end.\<close>

fun dict_set :: "'k \<Rightarrow> 'v \<Rightarrow> ('k \<times> 'v) list \<Rightarrow> ('k \<times> 'v) list" where
  "dict_set k v [] = [(k, v)]"
| "dict_set k v ((k', v') # d) =
     (if k' = k then (k, v) # d else (k', v') # dict_set k v d)"

lemma map_of_dict_set [simp]: "map_of (dict_set k v d) = (map_of d)(k \<mapsto> v)"
  by (induction d) (auto simp: fun_eq_iff)

lemma keys_dict_set:
  "map fst (dict_set k v d) = (if k \<in> set (map fst d) then map fst d else map fst d @ [k])"
  by (induction d) (auto simp: rev_image_eqI)

lemma dict_wf_dict_set: "dict_wf d \<Longrightarrow> dict_wf (dict_set k v d)"
  by (simp add: dict_wf_def keys_dict_set)

lemma set_keys_dict_set: "set (map fst (dict_set k v d)) = insert k (set (map fst d))"
  by (simp only: keys_dict_set set_append list.set split: if_split) (simp add: insert_absorb)

lemma set_dict_set:
  "distinct (map fst d) \<Longrightarrow>
   set (dict_set k v d) = insert (k, v) {p \<in> set d. fst p \<noteq> k}"
  by (induction d) force+

lemma has_key_map_of: "has_key d k \<longleftrightarrow> map_of d k \<noteq> None"
  by (simp add: has_key_def map_of_eq_None_iff)

lemma dget_has_key: "\<not> has_key d k \<Longrightarrow> dget d k = PNone"
  by (simp add: dget_def has_key_map_of)

lemma dget_dict_set [simp]: "dget (dict_set k v d) k' = (if k' = k then v else dget d k')"
  by (simp add: dget_def)

text \<open>\<open>d.update(e)\<close>, or \<open>{**d, **e}\<close>, and a dict display in which a key may occur twice.\<close>

definition dict_update :: "pydict \<Rightarrow> pydict \<Rightarrow> pydict" where
  "dict_update d e = fold (\<lambda>(k, v). dict_set k v) e d"

definition dict_of :: "pydict \<Rightarrow> pydict" where
  "dict_of d = dict_update [] d"

lemma map_of_dict_update: "map_of (dict_update d e) = map_of d ++ map_of (rev e)"
  by (induction e arbitrary: d) (auto simp: dict_update_def map_add_def fun_eq_iff split: option.split)

lemma map_of_dict_of [simp]: "map_of (dict_of d) = map_of (rev d)"
  by (simp add: dict_of_def map_of_dict_update)

text \<open>\<open>data.get(a)\<close> of a value already known to be a dict; \<open>isinstance\<close> guards every use.\<close>

definition vget :: "pyval \<Rightarrow> string \<Rightarrow> pyval" where
  "vget v k = dget (items_of v) k"

text \<open>\<open>d[k]\<close> of a dict, and \<open>v[k]\<close> of any value with a string key.\<close>

definition dindex :: "(string \<times> 'v) list \<Rightarrow> string \<Rightarrow> 'v res" where
  "dindex d k = (case map_of d k of None \<Rightarrow> Inl (KeyError k) | Some v \<Rightarrow> Inr v)"

definition vindex :: "pyval \<Rightarrow> string \<Rightarrow> pyval res" where
  "vindex v k = (case v of PDict d \<Rightarrow> dindex d k | _ \<Rightarrow> Inl TypeError)"

lemma dindex_eq_Inr [res_simps]: "dindex d k = Inr v \<longleftrightarrow> map_of d k = Some v"
  by (simp add: dindex_def split: option.splits)

lemma dindex_has_key: "has_key d k \<Longrightarrow> \<exists>x. dindex d k = Inr x"
  by (auto simp: has_key_map_of dindex_def)

lemma vindex_eq_Inr [res_simps]: "vindex v k = Inr w \<longleftrightarrow> (\<exists>d. v = PDict d \<and> map_of d k = Some w)"
  by (simp add: vindex_def res_simps split: pyval.splits)

lemma dget_eq_dindex: "dget d k = (case dindex d k of Inl _ \<Rightarrow> PNone | Inr v \<Rightarrow> v)"
  by (simp add: dget_def dindex_def split: option.splits)

section \<open>JSON files\<close>

text \<open>What a path holds: nothing, a text that is not JSON (with the parser's message), or a value.\<close>

datatype json_file = Missing | Malformed string | Parsed pyval

section \<open>Values read from JSON\<close>

text \<open>Every dict of a value read from JSON has distinct keys.\<close>

fun json_wf :: "pyval \<Rightarrow> bool" where
  "json_wf (PList xs) = list_all json_wf xs"
| "json_wf (PDict xs) = (distinct (map fst xs) \<and> list_all (\<lambda>p. json_wf (snd p)) xs)"
| "json_wf _ = True"

lemma map_of_snd: "distinct (map fst xs) \<Longrightarrow> p \<in> set xs \<Longrightarrow> map_of xs (fst p) = Some (snd p)"
  by (cases p) simp

lemma elem_eq_refl: "json_wf v \<Longrightarrow> elem_eq v v"
proof (induction v)
  case (PList xs)
  then show ?case by (auto simp: elem_eq_def list_all_iff list_all2_same)
next
  case (PDict xs)
  have "elem_eq (snd p) (snd p)" if "p \<in> set xs" for p
    using PDict.IH [OF that, of "snd p"] PDict.prems that
    by (cases p) (auto simp: list_all_iff)
  with PDict.prems show ?case by (simp add: list_all_iff map_of_snd elem_eq_def)
next
  case (PFloat x)
  then show ?case by (cases x) (auto simp: elem_eq_def both_nan_def flt_eq_def)
qed (auto simp: flt_eq_def elem_eq_def)

lemma py_eq_dict_refl: "json_wf (PDict d) \<Longrightarrow> py_eq (PDict d) (PDict d)"
  using elem_eq_refl [of "PDict d"] by (simp add: elem_eq_def both_nan_def)

lemma py_eq_PStr [simp]: "py_eq v (PStr s) \<longleftrightarrow> v = PStr s"
  by (cases v) auto

lemma py_eq_PNone [simp]: "py_eq v PNone \<longleftrightarrow> v = PNone"
  by (cases v) auto

lemma isinstance_int_cases:
  "isinstance_int v \<longleftrightarrow> (\<exists>n. v = PInt n) \<or> (\<exists>b. v = PBool b)"
  by (cases v) auto

lemma is_str_iff: "is_str v \<longleftrightarrow> (\<exists>s. v = PStr s)"
  by (cases v) auto

lemma is_nonempty_str_iff: "is_nonempty_str v \<longleftrightarrow> (\<exists>s. v = PStr s \<and> s \<noteq> [])"
  by (cases v) auto

lemma is_dict_iff: "is_dict v \<longleftrightarrow> (\<exists>d. v = PDict d)"
  by (cases v) auto

lemma is_list_iff: "is_list v \<longleftrightarrow> (\<exists>xs. v = PList xs)"
  by (cases v) auto

lemma is_None_iff [simp]: "is_None v \<longleftrightarrow> v = PNone"
  by (cases v) (auto simp: is_None_def)

lemma is_True_iff: "is_True v \<longleftrightarrow> v = PBool True"
  by (cases v) (auto simp: is_True_def)

lemma is_False_iff: "is_False v \<longleftrightarrow> v = PBool False"
  by (cases v) (auto simp: is_False_def)

lemma eq_str_iff: "eq_str v s \<longleftrightarrow> v = PStr s"
  by (cases v) (auto simp: eq_str_def)

lemma in_str_set_Inr: "in_str_set v ss = Inr b \<Longrightarrow> b \<longleftrightarrow> (\<exists>s \<in> set ss. v = PStr s)"
  by (cases v) (auto simp: in_str_set_def)

end
