(* ===== verification/Py_String.thy ===== *)
theory Py_String
  imports Rns8_Prelude
begin

text \<open>
  The operations of Python's \<open>str\<close> the tools use, on strings of code points below 256 (a
  \<open>char\<close> is such a code point): \<open>split\<close>, \<open>join\<close>, \<open>strip\<close>, \<open>lower\<close>, \<open>startswith\<close>,
  \<open>endswith\<close>, the substring test \<open>in\<close>, \<open>str(int)\<close> and \<open>int(str, base)\<close>. The lemmas give the
  round trips the key parsers rest on. The interpreter's limit on the number of digits of
  \<open>int(str)\<close> (4300) is not modelled.
\<close>

section \<open>Searching and splitting\<close>

fun starts_with :: "string \<Rightarrow> string \<Rightarrow> bool" where
  "starts_with [] s = True"
| "starts_with (p # ps) [] = False"
| "starts_with (p # ps) (c # cs) = (p = c \<and> starts_with ps cs)"

definition ends_with :: "string \<Rightarrow> string \<Rightarrow> bool" where
  "ends_with p s = starts_with (rev p) (rev s)"

text \<open>\<open>sub in s\<close>.\<close>

fun contains :: "string \<Rightarrow> string \<Rightarrow> bool" where
  "contains sub [] = (sub = [])"
| "contains sub (c # cs) = (starts_with sub (c # cs) \<or> contains sub cs)"

text \<open>\<open>s.split(c)\<close> for a one-character separator.\<close>

fun split_on :: "char \<Rightarrow> string \<Rightarrow> string list" where
  "split_on c [] = [[]]"
| "split_on c (x # xs) =
     (if x = c then [] # split_on c xs
      else (case split_on c xs of [] \<Rightarrow> [[x]] | y # ys \<Rightarrow> (x # y) # ys))"

text \<open>\<open>s.split(c, 1)\<close> when \<open>c in s\<close>.\<close>

fun split_once :: "char \<Rightarrow> string \<Rightarrow> (string \<times> string) option" where
  "split_once c [] = None"
| "split_once c (x # xs) =
     (if x = c then Some ([], xs)
      else map_option (\<lambda>p. (x # fst p, snd p)) (split_once c xs))"

fun join_with :: "string \<Rightarrow> string list \<Rightarrow> string" where
  "join_with sep [] = []"
| "join_with sep [x] = x"
| "join_with sep (x # y # ys) = x @ sep @ join_with sep (y # ys)"

lemma join_with_Cons: "join_with sep (x # xs) = x @ concat (map (\<lambda>w. sep @ w) xs)"
  by (induction xs arbitrary: x) simp_all

lemma join_with_append:
  "xs \<noteq> [] \<Longrightarrow> join_with sep (xs @ ys) = join_with sep xs @ concat (map (\<lambda>w. sep @ w) ys)"
  by (cases xs) (simp_all add: join_with_Cons)

text \<open>Equal words before the first separator, and equal rests.\<close>

lemma append_sep_eq:
  "c \<notin> set xs \<Longrightarrow> c \<notin> set ys \<Longrightarrow> xs @ c # us = ys @ c # vs \<longleftrightarrow> xs = ys \<and> us = vs"
proof (induction xs arbitrary: ys)
  case Nil
  then show ?case by (cases ys) auto
next
  case (Cons x xs)
  then show ?case by (cases ys) auto
qed

lemma starts_with_iff: "starts_with p s \<longleftrightarrow> (\<exists>t. s = p @ t)"
  by (induction p s rule: starts_with.induct) auto

lemma contains_iff: "contains p s \<longleftrightarrow> (\<exists>a b. s = a @ p @ b)"
proof (induction s)
  case Nil
  then show ?case by auto
next
  case IH: (Cons c cs)
  show ?case
  proof
    assume "contains p (c # cs)"
    with IH show "\<exists>a b. c # cs = a @ p @ b"
      by (metis append.left_neutral append_Cons contains.simps(2) starts_with_iff)
  next
    assume "\<exists>a b. c # cs = a @ p @ b"
    then obtain a b where ab: "c # cs = a @ p @ b" by blast
    show "contains p (c # cs)"
    proof (cases a)
      case Nil
      with ab have "starts_with p (c # cs)" by (simp add: starts_with_iff)
      then show ?thesis by simp
    next
      case (Cons d ds)
      with ab have "cs = ds @ p @ b" by simp
      with IH show ?thesis by auto
    qed
  qed
qed

lemma split_on_not_Nil [simp]: "split_on c s \<noteq> []"
  by (cases s) (auto split: list.splits)

lemma split_on_no_sep: "c \<notin> set s \<Longrightarrow> split_on c s = [s]"
  by (induction s) auto

lemma split_on_append:
  "c \<notin> set s \<Longrightarrow> split_on c (s @ c # t) = s # split_on c t"
  by (induction s) auto

lemma split_on_join:
  assumes "xs \<noteq> []" and "\<forall>x \<in> set xs. c \<notin> set x"
  shows "split_on c (join_with [c] xs) = xs"
  using assms
proof (induction "[c]" xs rule: join_with.induct)
  case 1
  then show ?case by simp
next
  case (2 x)
  then show ?case by (simp add: split_on_no_sep)
next
  case (3 x y ys)
  then show ?case by (simp add: split_on_append)
qed

lemma join_split_on: "join_with [c] (split_on c s) = s"
proof (induction s)
  case Nil
  then show ?case by simp
next
  case (Cons x xs)
  obtain y ys where y: "split_on c xs = y # ys" by (cases "split_on c xs") auto
  show ?case
  proof (cases "x = c")
    case True
    with Cons y show ?thesis by simp
  next
    case False
    with Cons y show ?thesis by (cases ys) auto
  qed
qed

lemma split_on_parts: "x \<in> set (split_on c s) \<Longrightarrow> c \<notin> set x"
  by (induction s arbitrary: x) (auto split: list.splits if_splits)

lemma split_once_append: "c \<notin> set a \<Longrightarrow> split_once c (a @ c # b) = Some (a, b)"
  by (induction a) auto

lemma split_once_None: "split_once c s = None \<longleftrightarrow> c \<notin> set s"
  by (induction s) auto

lemma split_once_SomeD: "split_once c s = Some (a, b) \<Longrightarrow> s = a @ c # b \<and> c \<notin> set a"
  by (induction s arbitrary: a b) (auto split: if_splits)

section \<open>Characters\<close>

definition code :: "char \<Rightarrow> nat" where
  "code c = of_char c"

definition is_space :: "char \<Rightarrow> bool" where
  "is_space c \<longleftrightarrow> (let n = code c in
     (9 \<le> n \<and> n \<le> 13) \<or> (28 \<le> n \<and> n \<le> 32) \<or> n = 133 \<or> n = 160)"

definition lower_char :: "char \<Rightarrow> char" where
  "lower_char c = (let n = code c in
     if (65 \<le> n \<and> n \<le> 90) \<or> (192 \<le> n \<and> n \<le> 222 \<and> n \<noteq> 215)
     then char_of (n + 32) else c)"

definition lower :: "string \<Rightarrow> string" where
  "lower s = map lower_char s"

definition strip :: "string \<Rightarrow> string" where
  "strip s = rev (dropWhile is_space (rev (dropWhile is_space s)))"

lemma strip_id: "s = [] \<or> (\<not> is_space (hd s) \<and> \<not> is_space (last s)) \<Longrightarrow> strip s = s"
proof (cases s rule: rev_cases)
  case Nil
  then show ?thesis by (simp add: strip_def)
next
  case (snoc ys y)
  assume "s = [] \<or> (\<not> is_space (hd s) \<and> \<not> is_space (last s))"
  with snoc have h: "\<not> is_space (hd s)" and y: "\<not> is_space y" by auto
  from snoc have "s \<noteq> []" by simp
  with h have "dropWhile is_space s = s" by (cases s) auto
  with snoc y show ?thesis by (simp add: strip_def)
qed

lemma lower_idem: "lower (lower s) = lower s"
proof -
  have "lower_char (lower_char c) = lower_char c" for c
    by (auto simp: lower_char_def code_def Let_def)
  then show ?thesis by (simp add: lower_def)
qed

section \<open>Integers\<close>

definition digit_char :: "nat \<Rightarrow> char" where
  "digit_char d = char_of (48 + d)"

text \<open>The value of a digit, letters counting from ten.\<close>

definition digit_val :: "char \<Rightarrow> nat option" where
  "digit_val c = (let n = code c in
     if 48 \<le> n \<and> n \<le> 57 then Some (n - 48)
     else if 97 \<le> n \<and> n \<le> 122 then Some (n - 87)
     else if 65 \<le> n \<and> n \<le> 90 then Some (n - 55) else None)"

fun show_nat :: "nat \<Rightarrow> string" where
  "show_nat n = (if n < 10 then [digit_char n] else show_nat (n div 10) @ [digit_char (n mod 10)])"

declare show_nat.simps [simp del]

definition show_int :: "int \<Rightarrow> string" where
  "show_int n = (if n < 0 then CHR ''-'' # show_nat (nat (- n)) else show_nat (nat n))"

text \<open>The printer on \<open>int\<close>, which evaluates without unary numbers.\<close>

function show_pos :: "int \<Rightarrow> string" where
  "show_pos n = (if n < 10 then [digit_char (nat n)]
                 else show_pos (n div 10) @ [digit_char (nat (n mod 10))])"
  by pat_completeness auto
termination
  by (relation "measure nat") auto

declare show_pos.simps [simp del]

lemma show_pos_nat: "0 \<le> n \<Longrightarrow> show_pos n = show_nat (nat n)"
proof (induction n rule: show_pos.induct)
  case (1 n)
  then show ?case
    by (subst show_pos.simps, subst show_nat.simps) (auto simp: nat_div_distrib nat_mod_distrib)
qed

lemma show_int_code [code]:
  "show_int n = (if n < 0 then CHR ''-'' # show_pos (- n) else show_pos n)"
  by (simp add: show_int_def show_pos_nat)

text \<open>
  The digits of a literal: single underscores between digits are allowed. \<open>prev\<close> says that the
  last character was a digit.
\<close>

fun parse_digits :: "nat \<Rightarrow> nat \<Rightarrow> bool \<Rightarrow> string \<Rightarrow> nat option" where
  "parse_digits base acc prev [] = (if prev then Some acc else None)"
| "parse_digits base acc prev (c # cs) =
     (if c = CHR ''_'' then (if prev then parse_digits base acc False cs else None)
      else (case digit_val c of
          None \<Rightarrow> None
        | Some d \<Rightarrow> if d < base then parse_digits base (acc * base + d) True cs else None))"

definition parse_sign :: "string \<Rightarrow> bool \<times> string" where
  "parse_sign s = (case s of [] \<Rightarrow> (False, [])
     | c # cs \<Rightarrow> if c = CHR ''-'' then (True, cs)
                 else if c = CHR ''+'' then (False, cs) else (False, s))"

definition signed :: "bool \<Rightarrow> nat option \<Rightarrow> int option" where
  "signed neg r = map_option (\<lambda>n. if neg then - int n else int n) r"

text \<open>\<open>int(s, 10)\<close>; \<open>None\<close> is \<open>ValueError\<close>.\<close>

definition py_int10 :: "string \<Rightarrow> int option" where
  "py_int10 s = (case parse_sign (strip s) of (neg, ds) \<Rightarrow> signed neg (parse_digits 10 0 False ds))"

definition skip_underscore :: "string \<Rightarrow> string" where
  "skip_underscore s = (case s of [] \<Rightarrow> [] | c # cs \<Rightarrow> if c = CHR ''_'' then cs else s)"

text \<open>
  The digits of \<open>int(s, 0)\<close>: the base follows the prefix; a decimal literal with a leading zero
  is accepted only when its value is zero.
\<close>

fun parse_base0 :: "string \<Rightarrow> nat option" where
  "parse_base0 (z # p # rest) =
     (if z \<noteq> CHR ''0'' then parse_digits 10 0 False (z # p # rest)
      else if lower_char p = CHR ''x'' then parse_digits 16 0 False (skip_underscore rest)
      else if lower_char p = CHR ''o'' then parse_digits 8 0 False (skip_underscore rest)
      else if lower_char p = CHR ''b'' then parse_digits 2 0 False (skip_underscore rest)
      else (case parse_digits 10 0 False (z # p # rest) of
          Some n \<Rightarrow> if n = 0 then Some 0 else None
        | None \<Rightarrow> None))"
| "parse_base0 s = parse_digits 10 0 False s"

definition py_int0 :: "string \<Rightarrow> int option" where
  "py_int0 s = (case parse_sign (strip s) of (neg, ds) \<Rightarrow> signed neg (parse_base0 ds))"

lemma code_digit_char: "d < 10 \<Longrightarrow> code (digit_char d) = 48 + d"
  by (simp add: code_def digit_char_def)

lemma digit_val_digit_char: "d < 10 \<Longrightarrow> digit_val (digit_char d) = Some d"
  by (simp add: digit_val_def code_digit_char)

lemma digit_char_neq: "d < 10 \<Longrightarrow> code c < 48 \<or> 57 < code c \<Longrightarrow> digit_char d \<noteq> c"
  using code_digit_char [of d] by auto

lemma code_consts [simp]:
  "code CHR ''_'' = 95" "code CHR ''-'' = 45" "code CHR ''+'' = 43" "code CHR '';'' = 59"
  "code CHR ''='' = 61" "code CHR '' '' = 32"
  by (simp_all add: code_def)

lemma parse_digits_show_nat:
  "parse_digits 10 acc prev (show_nat n @ t) =
   parse_digits 10 (acc * 10 ^ length (show_nat n) + n) True t"
proof (induction n arbitrary: acc prev t rule: show_nat.induct)
  case (1 n)
  have us: "digit_char d \<noteq> CHR ''_''" if "d < 10" for d
    using digit_char_neq [OF that] by simp
  show ?case
  proof (cases "n < 10")
    case True
    then show ?thesis
      by (subst (1 2) show_nat.simps) (simp add: us digit_val_digit_char)
  next
    case False
    define q where "q = n div 10"
    have s: "show_nat n = show_nat q @ [digit_char (n mod 10)]"
      using False by (simp add: q_def show_nat.simps [of n])
    have d: "n mod 10 < 10" by simp
    have "parse_digits 10 acc prev (show_nat n @ t) =
      parse_digits 10 (acc * 10 ^ length (show_nat q) + q) True (digit_char (n mod 10) # t)"
      using "1.IH" [OF False, of acc prev "digit_char (n mod 10) # t"] by (simp add: s q_def)
    also have "\<dots> = parse_digits 10 ((acc * 10 ^ length (show_nat q) + q) * 10 + n mod 10) True t"
      using d by (simp add: us digit_val_digit_char)
    also have "(acc * 10 ^ length (show_nat q) + q) * 10 + n mod 10 =
      acc * 10 ^ length (show_nat n) + n"
      by (simp add: s q_def algebra_simps)
    finally show ?thesis .
  qed
qed

lemma show_nat_not_Nil [simp]: "show_nat n \<noteq> []"
  by (subst show_nat.simps) simp

lemma show_nat_digits: "c \<in> set (show_nat n) \<Longrightarrow> \<exists>d < 10. c = digit_char d"
proof (induction n rule: show_nat.induct)
  case (1 n)
  show ?case
  proof (cases "n < 10")
    case True
    with "1.prems" show ?thesis by (subst (asm) show_nat.simps) auto
  next
    case False
    with "1.prems" have "c \<in> set (show_nat (n div 10)) \<or> c = digit_char (n mod 10)"
      by (subst (asm) show_nat.simps) auto
    moreover have "n mod 10 < 10" by simp
    ultimately show ?thesis using "1.IH" [OF False] by blast
  qed
qed

lemma show_nat_no_char: "code c < 48 \<or> 57 < code c \<Longrightarrow> c \<notin> set (show_nat m)"
  using show_nat_digits digit_char_neq by metis

lemma digit_not_space: "d < 10 \<Longrightarrow> \<not> is_space (digit_char d)"
  by (simp add: is_space_def code_digit_char)

lemma is_space_sign [simp]: "\<not> is_space CHR ''-''"
  by (simp add: is_space_def)

lemma show_int_not_space: "c \<in> set (show_int n) \<Longrightarrow> \<not> is_space c"
  using show_nat_digits digit_not_space by (fastforce simp: show_int_def split: if_splits)

lemma show_int_not_Nil [simp]: "show_int n \<noteq> []"
  by (simp add: show_int_def)

lemma strip_show_int: "strip (show_int n) = show_int n"
  using show_int_not_space [OF hd_in_set [OF show_int_not_Nil]]
    show_int_not_space [OF last_in_set [OF show_int_not_Nil]]
  by (intro strip_id) simp

lemma parse_sign_show_nat: "parse_sign (show_nat m) = (False, show_nat m)"
proof -
  have "CHR ''-'' \<notin> set (show_nat m)" "CHR ''+'' \<notin> set (show_nat m)"
    by (rule show_nat_no_char; simp)+
  with show_nat_not_Nil [of m] show ?thesis
    by (cases "show_nat m") (auto simp: parse_sign_def)
qed

lemma parse_show_nat: "parse_digits 10 0 False (show_nat m) = Some m"
  using parse_digits_show_nat [of 0 False m "[]"] by simp

lemma py_int10_show_int: "py_int10 (show_int n) = Some n"
proof (cases "n < 0")
  case True
  then have "parse_sign (show_int n) = (True, show_nat (nat (- n)))"
    by (simp add: show_int_def parse_sign_def)
  with True show ?thesis
    by (simp add: py_int10_def strip_show_int signed_def parse_show_nat)
next
  case False
  then have "parse_sign (show_int n) = (False, show_nat (nat n))"
    by (simp add: show_int_def parse_sign_show_nat)
  with False show ?thesis
    by (simp add: py_int10_def strip_show_int signed_def parse_show_nat)
qed

end
