(* ===== verification/Rns_Ladder.thy ===== *)
theory Rns_Ladder
  imports Complex_Main
begin

text \<open>
  The interface of a residue-number-system ladder, as the components that own a list of moduli
  (the offline search, the sweep scenarios, the kernel generator) provide it and its clients use
  it. \<open>rns_ladder\<close> promises moduli above one that are pairwise coprime; \<open>rns_decoder\<close> adds
  inverses of the prior products, which is what a Garner decoder consumes. The lemmas proved in
  the locales are the reason a prefix of the ladder may stand for integers: residues determine
  every value below the product, and Garner's digits rebuild it.

  \<open>garner\<close> and \<open>centered\<close> are specification functions: they say what the constants are for.
\<close>

section \<open>Specification of the decoder\<close>

text \<open>One digit per ladder position: (modulus, inverse of the prior product, residue).\<close>

fun garner :: "int \<Rightarrow> int \<Rightarrow> (int \<times> int \<times> int) list \<Rightarrow> int" where
  "garner prior acc [] = acc"
| "garner prior acc ((m, iv, r) # rest) =
     garner (prior * m) (acc + (((r - acc) * iv) mod m) * prior) rest"

definition garner_decode :: "int list \<Rightarrow> (nat \<Rightarrow> int) \<Rightarrow> (int \<Rightarrow> int) \<Rightarrow> int" where
  "garner_decode moduli prior_inverse residue =
     garner 1 0 (map (\<lambda>i. (moduli ! i, prior_inverse i, residue (moduli ! i))) [0..<length moduli])"

definition centered :: "int \<Rightarrow> int \<Rightarrow> int" where
  "centered P v = (if P < 2 * v then v - P else v)"

lemma garner_digit:
  fixes m iv prior x :: int
  assumes "0 < m" and "(prior * iv) mod m = 1"
  shows "((x mod m - x mod prior) * iv) mod m = (x div prior) mod m"
proof -
  have "((x mod m - x mod prior) * iv) mod m = ((x - x mod prior) * iv) mod m"
    by (metis mod_diff_left_eq mod_mult_left_eq)
  also have "x - x mod prior = prior * (x div prior)"
    by (simp add: minus_mod_eq_mult_div)
  also have "(prior * (x div prior) * iv) mod m = ((prior * iv) * (x div prior)) mod m"
    by (simp add: ac_simps)
  also have "\<dots> = ((prior * iv) mod m * (x div prior)) mod m"
    by (simp add: mod_mult_left_eq)
  finally show ?thesis using assms(2) by simp
qed

lemma garner_step:
  fixes m iv prior x :: int
  assumes "0 < m" and "(prior * iv) mod m = 1"
  shows "x mod prior + (((x mod m - x mod prior) * iv) mod m) * prior = x mod (prior * m)"
proof -
  from assms(1) have "x mod (prior * m) = prior * (x div prior mod m) + x mod prior"
    by (simp add: zmod_zmult2_eq)
  with garner_digit [OF assms, of x] show ?thesis by (simp add: mult.commute)
qed

text \<open>The digits rebuild a value modulo the product, whatever the coprimality.\<close>

lemma garner_mod:
  assumes "\<And>i. i < length ms \<Longrightarrow> 0 < ms ! i"
    and "\<And>i. i < length ms \<Longrightarrow> (prior * prod_list (take i ms) * iv (k + i)) mod ms ! i = 1"
  shows "garner prior (x mod prior)
           (map (\<lambda>i. (ms ! i, iv (k + i), x mod ms ! i)) [0..<length ms]) =
         x mod (prior * prod_list ms)"
  using assms
proof (induction ms arbitrary: prior k)
  case Nil
  then show ?case by simp
next
  case (Cons m ms)
  have m: "0 < m" "(prior * iv k) mod m = 1"
    using Cons.prems(1) [of 0] Cons.prems(2) [of 0] by simp_all
  have tail: "map (\<lambda>i. ((m # ms) ! i, iv (k + i), x mod (m # ms) ! i)) [0..<length (m # ms)] =
    (m, iv k, x mod m) # map (\<lambda>i. (ms ! i, iv (Suc k + i), x mod ms ! i)) [0..<length ms]"
    by (simp add: map_upt_Suc del: upt_Suc)
  have "garner (prior * m) (x mod (prior * m))
          (map (\<lambda>i. (ms ! i, iv (Suc k + i), x mod ms ! i)) [0..<length ms]) =
        x mod (prior * m * prod_list ms)"
  proof (rule Cons.IH)
    fix i assume i: "i < length ms"
    show "0 < ms ! i" using Cons.prems(1) [of "Suc i"] i by simp
    show "(prior * m * prod_list (take i ms) * iv (Suc k + i)) mod ms ! i = 1"
      using Cons.prems(2) [of "Suc i"] i by (simp add: ac_simps)
  qed
  with m show ?case by (simp only: tail garner.simps garner_step prod_list.Cons) (simp add: ac_simps)
qed

section \<open>Ladders\<close>

locale rns_ladder =
  fixes moduli :: "int list"
  assumes gt_one: "m \<in> set moduli \<Longrightarrow> 1 < m"
    and pairwise_coprime: "sorted_wrt coprime moduli"
begin

lemma prod_pos: "0 < prod_list (take i moduli)"
proof -
  have "0 < prod_list xs" if "\<And>m. m \<in> set xs \<Longrightarrow> 1 < m" for xs :: "int list"
    using that
  proof (induction xs)
    case Nil
    then show ?case by simp
  next
    case (Cons m xs)
    have "1 < m" by (rule Cons.prems) simp
    moreover have "0 < prod_list xs" by (rule Cons.IH) (simp add: Cons.prems)
    ultimately show ?case by simp
  qed
  moreover have "1 < m" if "m \<in> set (take i moduli)" for m
    using that by (meson gt_one in_set_takeD)
  ultimately show ?thesis by blast
qed

lemma prior_coprime:
  assumes "i < length moduli"
  shows "coprime (prod_list (take i moduli)) (moduli ! i)"
proof -
  have "coprime m (moduli ! i)" if "m \<in> set (take i moduli)" for m
  proof -
    from that obtain j where "j < i" "m = moduli ! j"
      using assms by (auto simp: in_set_conv_nth)
    with assms pairwise_coprime show ?thesis by (simp add: sorted_wrt_iff_nth_less)
  qed
  then have "coprime (prod_list xs) (moduli ! i)" if "set xs \<subseteq> set (take i moduli)" for xs
    using that by (induction xs) auto
  then show ?thesis by blast
qed

lemma prefix_grows:
  assumes "i < length moduli"
  shows "2 * prod_list (take i moduli) \<le> prod_list (take (Suc i) moduli)"
proof -
  have "2 \<le> moduli ! i" using gt_one [of "moduli ! i"] assms by simp
  with prod_pos [of i] assms show ?thesis
    by (simp add: take_Suc_conv_app_nth mult.commute)
qed

lemma prefix_is_ladder: "rns_ladder (take i moduli)"
  by unfold_locales (auto dest: in_set_takeD gt_one simp: pairwise_coprime sorted_wrt_take)

end

locale rns_decoder = rns_ladder +
  fixes prior_inverse :: "nat \<Rightarrow> int"
  assumes inverse_law:
    "i < length moduli \<Longrightarrow> (prod_list (take i moduli) * prior_inverse i) mod moduli ! i = 1"
begin

lemma decode_mod: "garner_decode moduli prior_inverse (\<lambda>m. x mod m) = x mod prod_list moduli"
proof -
  have "0 < moduli ! i" if "i < length moduli" for i
    using gt_one [of "moduli ! i"] that by simp
  then show ?thesis
    using garner_mod [of moduli 1 prior_inverse 0 x] inverse_law by (simp add: garner_decode_def)
qed

lemma decode_unsigned: "0 \<le> x \<Longrightarrow> x < prod_list moduli \<Longrightarrow> garner_decode moduli prior_inverse (\<lambda>m. x mod m) = x"
  by (simp add: decode_mod)

lemma decode_signed:
  assumes "\<bar>x\<bar> \<le> bound" and "2 * bound < prod_list moduli"
  shows "centered (prod_list moduli) (garner_decode moduli prior_inverse (\<lambda>m. x mod m)) = x"
proof (cases "0 \<le> x")
  case True
  with assms show ?thesis by (simp add: decode_mod centered_def)
next
  case False
  with assms have "x mod prod_list moduli = x + prod_list moduli"
    by (intro int_mod_pos_eq [of _ _ "- 1"]) auto
  with False assms show ?thesis by (simp add: decode_mod centered_def)
qed

lemma residues_determine:
  assumes "0 \<le> x" "x < prod_list moduli" "0 \<le> y" "y < prod_list moduli"
    and "\<And>m. m \<in> set moduli \<Longrightarrow> x mod m = y mod m"
  shows "x = y"
proof -
  have "garner_decode moduli prior_inverse (\<lambda>m. x mod m) = garner_decode moduli prior_inverse (\<lambda>m. y mod m)"
    unfolding garner_decode_def using assms(5)
    by (intro arg_cong [where f = "garner 1 0"] map_cong) auto
  with assms(1-4) show ?thesis by (simp add: decode_mod)
qed

end

end
