(* ===== verification/Modulus_Search.thy ===== *)
theory Modulus_Search
  imports Py_Value Py_String Rns_Ladder "HOL-Library.Product_Lexorder"
begin

text \<open>
  \<open>tools/modulus_set_search.py\<close>: the offline search over residue-number-system ladders. The
  definitions follow the file from top to bottom; a report row that the code builds as a dict
  with fixed keys is a record here, a dict keyed by data stays an association list.

  The lemmas show the number theory the report rests on: the coprimality and primality tests
  decide what they name, the prefix rows are monotone and the required prefix is the least one,
  the CRT constants invert the prior product, and the generated ladders are pairwise coprime.
\<close>

section \<open>Constants\<close>

definition DEFAULT_MODULI :: "int list" where
  "DEFAULT_MODULI =
     [256, 255, 253, 251, 247, 239, 233, 229, 227, 223, 217, 211, 199, 197, 191, 181, 179, 173,
      167, 163, 157, 151, 149, 139, 137, 131, 127, 113]"

definition HOT_REDUCER_MODULI :: "int list" where
  "HOT_REDUCER_MODULI = [251, 253, 255, 256]"

definition DEFAULT_REQUIRED_BITS :: "(string \<times> int) list" where
  "DEFAULT_REQUIRED_BITS =
     [(''bounded_i64_full_signed'', 65),
      (''bounded_u64_full_unsigned'', 64),
      (''exact_wide_signed_512'', 137),
      (''exact_wide_unsigned_512'', 138),
      (''exact_wide_signed_1024'', 138),
      (''exact_wide_unsigned_1024'', 139),
      (''exact_wide_signed_2048'', 139),
      (''exact_wide_unsigned_2048'', 140)]"

section \<open>Coprimality, primality, products\<close>

text \<open>The nested loop: every element against the elements after it.\<close>

fun is_coprime_set :: "int list \<Rightarrow> bool" where
  "is_coprime_set [] = True"
| "is_coprime_set (left # rest) =
     (list_all (\<lambda>right. gcd left right = 1) rest \<and> is_coprime_set rest)"

lemma le_square: "(d::int) \<le> d * d"
proof (cases "d \<le> 0")
  case True
  then show ?thesis by (simp add: mult_nonpos_nonpos order_trans)
next
  case False
  then have "1 * d \<le> d * d" by (intro mult_right_mono) auto
  then show ?thesis by simp
qed

function odd_divisor_loop :: "int \<Rightarrow> int \<Rightarrow> bool" where
  "odd_divisor_loop value divisor =
     (if divisor * divisor \<le> value
      then if value mod divisor = 0 then False else odd_divisor_loop value (divisor + 2)
      else True)"
  by pat_completeness auto

termination
proof (relation "measure (\<lambda>(value, divisor). nat (value + 1 - divisor))", goal_cases)
  case (2 v d)
  with le_square [of d] show ?case by auto
qed simp

declare odd_divisor_loop.simps [simp del]

definition is_prime :: "int \<Rightarrow> bool" where
  "is_prime value =
     (if value < 2 then False
      else if value = 2 then True
      else if value mod 2 = 0 then False
      else odd_divisor_loop value 3)"

fun product_from :: "int \<Rightarrow> int list \<Rightarrow> int" where
  "product_from result [] = result"
| "product_from result (value # rest) = product_from (result * value) rest"

definition product :: "int list \<Rightarrow> int" where
  "product values = product_from 1 values"

definition bit_length :: "int \<Rightarrow> int" where
  "bit_length n = bitlen \<bar>n\<bar>"

definition product_bits :: "int list \<Rightarrow> int" where
  "product_bits values = bit_length (product values)"

definition reducer_cost_hint :: "int \<Rightarrow> string" where
  "reducer_cost_hint value =
     (if value = 256 then ''hot_shift_mask_mod256''
      else if value = 255 then ''hot_mersenne_fold_mod255''
      else if value = 251 \<or> value = 253 then ''hot_existing_reducer_or_shift_mask''
      else if is_prime value then ''generic_prime_reciprocal_candidate''
      else if value \<le> 256 then ''single_byte_modulus_reciprocal_candidate''
      else ''non_byte_modulus_not_current_kernel_candidate'')"

text \<open>The doubling loop; \<open>len\<close> starts at 1 and only doubles, so it stays positive.\<close>

function ntt_loop :: "int \<Rightarrow> int \<Rightarrow> int \<Rightarrow> int list" where
  "ntt_loop value len max_length =
     (if 0 < len \<and> len \<le> max_length
      then (if (value - 1) mod (2 * len) = 0 then [len] else [])
             @ ntt_loop value (len * 2) max_length
      else [])"
  by pat_completeness auto
termination
  by (relation "measure (\<lambda>(value, len, max_length). nat (max_length + 1 - len))") auto

declare ntt_loop.simps [simp del]

definition ntt_friendly_lengths :: "int \<Rightarrow> int \<Rightarrow> int list" where
  "ntt_friendly_lengths value max_length =
     (if \<not> is_prime value then [] else ntt_loop value 1 max_length)"

section \<open>Prefix rows and required prefixes\<close>

record prefix_row =
  pr_prefix :: nat
  pr_last_modulus :: int
  pr_product_bits :: int
  pr_satisfies :: "(string \<times> bool) list"

fun prefix_products_from ::
  "nat \<Rightarrow> int list \<Rightarrow> int list \<Rightarrow> (string \<times> int) list \<Rightarrow> prefix_row list" where
  "prefix_products_from index running [] required_bits = []"
| "prefix_products_from index running (modulus # moduli) required_bits =
     (let running' = running @ [modulus]; bits = product_bits running'
      in \<lparr>pr_prefix = index, pr_last_modulus = modulus, pr_product_bits = bits,
          pr_satisfies = map (\<lambda>(name, required). (name, required \<le> bits)) required_bits\<rparr>
         # prefix_products_from (index + 1) running' moduli required_bits)"

definition prefix_products :: "int list \<Rightarrow> (string \<times> int) list \<Rightarrow> prefix_row list" where
  "prefix_products moduli required_bits = prefix_products_from 1 [] moduli required_bits"

definition row_satisfies :: "string \<Rightarrow> prefix_row \<Rightarrow> bool" where
  "row_satisfies name row \<longleftrightarrow> map_of (pr_satisfies row) name = Some True"

definition required_prefixes :: "int list \<Rightarrow> (string \<times> int) list \<Rightarrow> (string \<times> nat option) list" where
  "required_prefixes moduli required_bits =
     (let rows = prefix_products moduli required_bits
      in map (\<lambda>(name, required).
           (name, map_option pr_prefix (List.find (row_satisfies name) rows))) required_bits)"

section \<open>CRT constants\<close>

record crt_row =
  cr_prefix :: nat
  cr_modulus :: int
  cr_prior :: int
  cr_inverse :: "int option"

text \<open>\<open>pow(a, -1, m)\<close> where \<open>gcd(a, m) = 1\<close>, by the extended Euclidean algorithm.\<close>

definition py_modinv :: "int \<Rightarrow> int \<Rightarrow> int" where
  "py_modinv a m = (sgn a * fst (bezw (nat \<bar>a\<bar>) (nat \<bar>m\<bar>))) mod m"

fun crt_constants_from :: "nat \<Rightarrow> int \<Rightarrow> int list \<Rightarrow> crt_row list" where
  "crt_constants_from index prefix_product [] = []"
| "crt_constants_from index prefix_product (modulus # moduli) =
     (if index = 0
      then \<lparr>cr_prefix = 1, cr_modulus = modulus, cr_prior = 1 mod modulus,
            cr_inverse = Some (1 mod modulus)\<rparr>
      else let prior_mod = prefix_product mod modulus
           in \<lparr>cr_prefix = index + 1, cr_modulus = modulus, cr_prior = prior_mod,
               cr_inverse = (if gcd prior_mod modulus = 1
                             then Some (py_modinv prior_mod modulus) else None)\<rparr>)
     # crt_constants_from (index + 1) (prefix_product * modulus) moduli"

definition crt_prefix_constants :: "int list \<Rightarrow> crt_row list" where
  "crt_prefix_constants moduli = crt_constants_from 0 1 moduli"

section \<open>Summaries and disposition\<close>

record reducer_summary =
  hot_reducer_count :: nat
  byte_modulus_count :: nat
  prime_count :: nat
  generic_reciprocal_count :: nat
  non_byte_modulus_count :: nat

definition count_if :: "('a \<Rightarrow> bool) \<Rightarrow> 'a list \<Rightarrow> nat" where
  "count_if P xs = length (filter P xs)"

definition reducer_cost_summary :: "int list \<Rightarrow> reducer_summary" where
  "reducer_cost_summary moduli =
     (let hints = map reducer_cost_hint moduli
      in \<lparr>hot_reducer_count = count_if (\<lambda>value. value \<in> set HOT_REDUCER_MODULI) moduli,
          byte_modulus_count = count_if (\<lambda>value. 2 \<le> value \<and> value \<le> 256) moduli,
          prime_count = count_if is_prime moduli,
          generic_reciprocal_count = count_if (contains ''reciprocal'') hints,
          non_byte_modulus_count = count_if (\<lambda>value. 256 < value) moduli\<rparr>)"

text \<open>\<open>max(lengths or [0])\<close>.\<close>

definition max_or_zero :: "int list \<Rightarrow> int" where
  "max_or_zero lengths = (case lengths of [] \<Rightarrow> 0 | x # xs \<Rightarrow> fold max xs x)"

record ntt_summary_row =
  max_power2_length :: int
  per_modulus_power2_lengths :: "(string \<times> int list) list"

definition ntt_summary :: "int list \<Rightarrow> int \<Rightarrow> ntt_summary_row" where
  "ntt_summary moduli max_ntt_length =
     (let per_modulus =
            fold (\<lambda>value. if ntt_friendly_lengths value max_ntt_length \<noteq> []
                          then dict_set (show_int value) (ntt_friendly_lengths value max_ntt_length)
                          else id)
              moduli [];
          max_length = fold (\<lambda>(_, lengths) acc. if lengths \<noteq> [] then max acc (max_or_zero lengths)
                                                else acc) per_modulus 0
      in \<lparr>max_power2_length = max_length, per_modulus_power2_lengths = per_modulus\<rparr>)"

record candidate =
  cand_name :: string
  cand_moduli :: "int list"
  cand_prefix_count :: nat
  cand_product_bits :: int
  cand_pairwise_coprime :: bool
  cand_reducer_cost_hints :: "(string \<times> string) list"
  cand_reducer_cost_summary :: reducer_summary
  cand_required_prefixes :: "(string \<times> nat option) list"
  cand_prefix_products :: "prefix_row list"
  cand_crt_prefix_constants :: "crt_row list"
  cand_ntt_friendliness :: ntt_summary_row
  cand_promotion_eligible :: bool
  cand_runtime_selectable :: bool
  cand_cache_promotion_blocker :: string
  cand_disposition :: string
  cand_satisfies_min_bits :: "bool option"

definition candidate_disposition :: "candidate \<Rightarrow> int \<Rightarrow> string" where
  "candidate_disposition item min_bits =
     (if \<not> cand_pairwise_coprime item then ''reject_not_pairwise_coprime''
      else if cand_product_bits item < min_bits then ''reject_insufficient_range_bits''
      else if 0 < non_byte_modulus_count (cand_reducer_cost_summary item)
      then ''keep_research_non_byte_modulus''
      else ''candidate_ready_for_benchmark'')"

text \<open>The key \<open>satisfies_min_bits\<close> is absent until \<open>build_report\<close> adds it.\<close>

definition candidate_report :: "int list \<Rightarrow> string \<Rightarrow> candidate" where
  "candidate_report moduli name =
     (let item =
        \<lparr>cand_name = name,
         cand_moduli = moduli,
         cand_prefix_count = length moduli,
         cand_product_bits = product_bits moduli,
         cand_pairwise_coprime = is_coprime_set moduli,
         cand_reducer_cost_hints =
           fold (\<lambda>value. dict_set (show_int value) (reducer_cost_hint value)) moduli [],
         cand_reducer_cost_summary = reducer_cost_summary moduli,
         cand_required_prefixes = required_prefixes moduli DEFAULT_REQUIRED_BITS,
         cand_prefix_products = prefix_products moduli DEFAULT_REQUIRED_BITS,
         cand_crt_prefix_constants = crt_prefix_constants moduli,
         cand_ntt_friendliness = ntt_summary moduli 128,
         cand_promotion_eligible = False,
         cand_runtime_selectable = False,
         cand_cache_promotion_blocker = ''offline_modulus_set_search_not_runtime_selectable'',
         cand_disposition = [],
         cand_satisfies_min_bits = None\<rparr>
      in item\<lparr>cand_disposition := candidate_disposition item 72\<rparr>)"

section \<open>Parsing and generated candidates\<close>

definition parse_moduli :: "string \<Rightarrow> int list res" where
  "parse_moduli text =
     rbind (rmapM (\<lambda>part. case py_int0 (strip part) of None \<Rightarrow> Inl ValueError | Some n \<Rightarrow> Inr n)
              (filter (\<lambda>part. strip part \<noteq> []) (split_on CHR '','' text)))
       (\<lambda>values. raise_if (values = [] \<or> list_ex (\<lambda>value. value \<le> 1) values)
          (ArgumentTypeError ''moduli must be comma-separated integers > 1'')
          (Inr values))"

text \<open>\<open>range(hi, 1, -1)\<close>.\<close>

definition down_to_2 :: "int \<Rightarrow> int list" where
  "down_to_2 hi = rev [2..hi]"

text \<open>
  \<open>sorted(xs, key=key, reverse=True)\<close>: descending, and elements with equal keys keep their
  order, so the reversed list is sorted stably and reversed again.
\<close>

definition sorted_reverse :: "('a \<Rightarrow> 'k::linorder) \<Rightarrow> 'a list \<Rightarrow> 'a list" where
  "sorted_reverse key xs = rev (sort_key key (rev xs))"

fun coprime_desc_loop :: "nat \<Rightarrow> int list \<Rightarrow> int list \<Rightarrow> int list" where
  "coprime_desc_loop limit coprime_desc [] = coprime_desc"
| "coprime_desc_loop limit coprime_desc (value # rest) =
     (let coprime_desc' =
            (if list_all (\<lambda>existing. gcd value existing = 1) coprime_desc
             then coprime_desc @ [value] else coprime_desc)
      in if limit \<le> length coprime_desc' then coprime_desc'
         else coprime_desc_loop limit coprime_desc' rest)"

definition generated_primes :: "int list" where
  "generated_primes = filter is_prime (down_to_2 251)"

definition ntt_sort_key :: "int \<Rightarrow> int \<times> int" where
  "ntt_sort_key value = (max_or_zero (ntt_friendly_lengths value 128), value)"

definition generated_candidates :: "(string \<times> int list) list" where
  "generated_candidates =
     (let primes = generated_primes;
          ntt_primes = sorted_reverse ntt_sort_key primes;
          odd_coprime = filter (\<lambda>value. value mod 2 = 1) (down_to_2 255);
          coprime_desc = coprime_desc_loop (length DEFAULT_MODULI) [256] odd_coprime
      in [(''default'', DEFAULT_MODULI),
          (''default-prefix9'', take 9 DEFAULT_MODULI),
          (''default-prefix20'', take 20 DEFAULT_MODULI),
          (''prime-ntt-front-byte'', [256] @ take 27 ntt_primes),
          (''coprime-desc-byte'', coprime_desc),
          (''hot-four-anchor'', take 4 DEFAULT_MODULI)])"

section \<open>The report\<close>

record search_report =
  sr_schema_version :: int
  sr_policy :: string
  sr_minimum_product_bits :: int
  sr_required_bits :: "(string \<times> int) list"
  sr_search_dimensions :: "string list"
  sr_runtime_policy :: string
  sr_default_change_gate :: string
  sr_candidates :: "candidate list"

definition all_candidates :: "(string \<times> int list) list \<Rightarrow> bool \<Rightarrow> (string \<times> int list) list" where
  "all_candidates candidates include_generated =
     (if include_generated \<or> candidates = []
      then candidates @ filter (\<lambda>(name, _). name \<notin> set (map fst candidates)) generated_candidates
      else candidates)"

definition finish_candidate :: "int \<Rightarrow> candidate \<Rightarrow> candidate" where
  "finish_candidate min_bits item =
     item\<lparr>cand_satisfies_min_bits :=
            Some (min_bits \<le> cand_product_bits item \<and> cand_pairwise_coprime item),
          cand_disposition := candidate_disposition item min_bits\<rparr>"

definition build_search_report ::
  "(string \<times> int list) list \<Rightarrow> int \<Rightarrow> bool \<Rightarrow> search_report" where
  "build_search_report candidates min_bits include_generated =
     (let reports = map (\<lambda>(name, values). candidate_report values name)
                      (all_candidates candidates include_generated)
      in \<lparr>sr_schema_version = 2,
          sr_policy = ''offline_search_evidence_only_non_promoting'',
          sr_minimum_product_bits = min_bits,
          sr_required_bits = DEFAULT_REQUIRED_BITS,
          sr_search_dimensions =
            [''candidate_rns_ladders'', ''modulus_ordering'', ''prefix_counts'', ''reducer_cost'',
             ''crt_prefix_constants'', ''ntt_friendly_prime_hints'', ''exact_range_products''],
          sr_runtime_policy = ''report_only_runtime_ladder_unchanged'',
          sr_default_change_gate = ''spec_cache_schema_proof_and_same_target_review_required'',
          sr_candidates = map (finish_candidate min_bits) reports\<rparr>)"

text \<open>\<open>main\<close>'s loop over \<open>--candidate NAME=moduli\<close>.\<close>

definition parse_candidate :: "string \<Rightarrow> (string \<times> int list) res" where
  "parse_candidate raw =
     (case split_once CHR ''='' raw of
        None \<Rightarrow> Inl (SystemExit (''--candidate must be NAME=moduli: '' @ raw))
      | Some (name, values) \<Rightarrow> rbind (parse_moduli values) (\<lambda>moduli. Inr (name, moduli)))"

definition search_main :: "string list \<Rightarrow> int \<Rightarrow> bool \<Rightarrow> search_report res" where
  "search_main raws min_bits generated =
     rbind (rmapM parse_candidate raws)
       (\<lambda>candidates. Inr (build_search_report candidates min_bits generated))"

section \<open>The tests decide what they name\<close>

lemma is_coprime_set_iff: "is_coprime_set xs \<longleftrightarrow> sorted_wrt coprime xs"
  by (induction xs) (simp_all add: list_all_iff coprime_iff_gcd_eq_1)

text \<open>Specification of primality.\<close>

definition prime_number :: "int \<Rightarrow> bool" where
  "prime_number p \<longleftrightarrow> 1 < p \<and> (\<forall>d. 1 < d \<and> d < p \<longrightarrow> \<not> d dvd p)"

lemma odd_divisor_loop_iff:
  "0 < d \<Longrightarrow> odd_divisor_loop v d \<longleftrightarrow> (\<forall>e. d \<le> e \<and> even (e - d) \<and> e * e \<le> v \<longrightarrow> \<not> e dvd v)"
proof (induction v d rule: odd_divisor_loop.induct)
  case (1 v d)
  consider (past) "v < d * d" | (hit) "d * d \<le> v" "d dvd v" | (miss) "d * d \<le> v" "\<not> d dvd v"
    by linarith
  then show ?case
  proof cases
    case past
    have "v < e * e" if "d \<le> e" for e
      using past mult_mono [OF that that] "1.prems" that by linarith
    then have "\<forall>e. d \<le> e \<and> even (e - d) \<and> e * e \<le> v \<longrightarrow> \<not> e dvd v"
      using leD by blast
    moreover have "odd_divisor_loop v d"
      using past by (subst odd_divisor_loop.simps) simp
    ultimately show ?thesis by simp
  next
    case hit
    then show ?thesis by (subst odd_divisor_loop.simps) (auto simp: dvd_eq_mod_eq_0)
  next
    case miss
    have split: "d \<le> e \<and> even (e - d) \<longleftrightarrow> e = d \<or> d + 2 \<le> e \<and> even (e - (d + 2))" for e
      by (auto simp: even_diff) presburger+
    have "odd_divisor_loop v d = odd_divisor_loop v (d + 2)"
      using miss by (subst odd_divisor_loop.simps) (auto simp: dvd_eq_mod_eq_0)
    also have "\<dots> \<longleftrightarrow> (\<forall>e. d + 2 \<le> e \<and> even (e - (d + 2)) \<and> e * e \<le> v \<longrightarrow> \<not> e dvd v)"
      using "1.IH" "1.prems" miss by (simp add: dvd_eq_mod_eq_0)
    also have "\<dots> \<longleftrightarrow> (\<forall>e. d \<le> e \<and> even (e - d) \<and> e * e \<le> v \<longrightarrow> \<not> e dvd v)"
      using miss(2) by (metis split)
    finally show ?thesis .
  qed
qed

lemma small_divisor:
  fixes v :: int
  assumes "1 < d" "d < v" "d dvd v"
  obtains e where "1 < e" "e * e \<le> v" "e dvd v"
proof -
  from assms(3) obtain k where k: "v = d * k" by (rule dvdE)
  with assms(1,2) have "1 < k"
    by (metis less_trans mult.right_neutral not_less_iff_gr_or_eq zero_less_one
        mult_less_cancel_left_pos order.strict_trans)
  show ?thesis
  proof (cases "d \<le> k")
    case True
    with assms(1) have "d * d \<le> d * k" by (intro mult_left_mono) auto
    with assms k show ?thesis by (intro that [of d]) auto
  next
    case False
    with \<open>1 < k\<close> have "k * k \<le> d * k" by (intro mult_right_mono) auto
    with \<open>1 < k\<close> k show ?thesis by (intro that [of k]) auto
  qed
qed

lemma is_prime_iff: "is_prime v \<longleftrightarrow> prime_number v"
proof -
  consider "v < 2" | "v = 2" | (even) "2 < v" "even v" | (odd) "2 < v" "odd v" by linarith
  then show ?thesis
  proof cases
    case odd
    have "odd_divisor_loop v 3 \<longleftrightarrow> (\<forall>e. 3 \<le> e \<and> even (e - 3) \<and> e * e \<le> v \<longrightarrow> \<not> e dvd v)"
      by (simp add: odd_divisor_loop_iff)
    also have "\<dots> \<longleftrightarrow> prime_number v"
    proof
      assume none: "\<forall>e. 3 \<le> e \<and> even (e - 3) \<and> e * e \<le> v \<longrightarrow> \<not> e dvd v"
      have False if "1 < d" "d < v" "d dvd v" for d
      proof -
        obtain e where e: "1 < e" "e * e \<le> v" "e dvd v"
          using small_divisor [OF \<open>1 < d\<close> \<open>d < v\<close> \<open>d dvd v\<close>] .
        from e(3) \<open>odd v\<close> have "odd e" by auto
        with e(1) have "3 \<le> e" "even (e - 3)" by (presburger, simp)
        with none e show False by blast
      qed
      with odd show "prime_number v" by (auto simp: prime_number_def)
    next
      assume p: "prime_number v"
      have "\<not> e dvd v" if "3 \<le> e" "e * e \<le> v" for e
      proof -
        from that have "3 * e \<le> e * e" by (intro mult_right_mono) auto
        with that have "e < v" by linarith
        with p that show ?thesis by (auto simp: prime_number_def)
      qed
      then show "\<forall>e. 3 \<le> e \<and> even (e - 3) \<and> e * e \<le> v \<longrightarrow> \<not> e dvd v" by blast
    qed
    finally show ?thesis using odd by (simp add: is_prime_def) presburger
  next
    case even
    then have "\<not> prime_number v" by (auto simp: prime_number_def intro!: exI [of _ 2])
    with even show ?thesis by (simp add: is_prime_def)
  qed (auto simp: is_prime_def prime_number_def)
qed

section \<open>Products and prefixes\<close>

lemma product_from_eq: "product_from r xs = r * prod_list xs"
  by (induction xs arbitrary: r) simp_all

lemma product_eq: "product xs = prod_list xs"
  by (simp add: product_def product_from_eq)

lemma bit_length_ge_iff: "0 < n \<Longrightarrow> 0 < w \<Longrightarrow> w \<le> bit_length n \<longleftrightarrow> 2 ^ (nat w - 1) \<le> n"
  by (simp add: bit_length_def bitlen_ge_iff_power)

lemma bit_length_mono: "0 < n \<Longrightarrow> n \<le> m \<Longrightarrow> bit_length n \<le> bit_length m"
  using bit_length_ge_iff [of m "bit_length n"] bit_length_ge_iff [of n "bit_length n"]
  by (cases "0 < bit_length n") (auto simp: bit_length_def bitlen_nonneg not_less dest: order_antisym)

lemma prefix_products_from_length [simp]:
  "length (prefix_products_from index running moduli rb) = length moduli"
  by (induction moduli arbitrary: index running) (simp_all add: Let_def)

lemma prefix_products_from_nth:
  "i < length moduli \<Longrightarrow>
   prefix_products_from index running moduli rb ! i =
   \<lparr>pr_prefix = index + i, pr_last_modulus = moduli ! i,
    pr_product_bits = product_bits (running @ take (Suc i) moduli),
    pr_satisfies = map (\<lambda>(name, required).
      (name, required \<le> product_bits (running @ take (Suc i) moduli))) rb\<rparr>"
proof (induction moduli arbitrary: index running i)
  case Nil
  then show ?case by simp
next
  case (Cons m ms)
  then show ?case by (cases i) (simp_all add: Let_def)
qed

lemma length_prefix_products [simp]: "length (prefix_products moduli rb) = length moduli"
  by (simp add: prefix_products_def)

lemma prefix_products_nth:
  "i < length moduli \<Longrightarrow>
   prefix_products moduli rb ! i =
   \<lparr>pr_prefix = Suc i, pr_last_modulus = moduli ! i,
    pr_product_bits = product_bits (take (Suc i) moduli),
    pr_satisfies = map (\<lambda>(name, required).
      (name, required \<le> product_bits (take (Suc i) moduli))) rb\<rparr>"
  by (simp add: prefix_products_def prefix_products_from_nth)

lemma row_satisfies_nth:
  assumes "i < length moduli" and "distinct (map fst rb)" and "(name, required) \<in> set rb"
  shows "row_satisfies name (prefix_products moduli rb ! i) \<longleftrightarrow>
         required \<le> product_bits (take (Suc i) moduli)"
proof -
  have "map_of (map (\<lambda>(n, r). (n, r \<le> b)) rb) name = map_option (\<lambda>r. r \<le> b) (map_of rb name)" for b
    by (induction rb) auto
  moreover have "map_of rb name = Some required"
    using assms(2,3) by simp
  ultimately show ?thesis
    using assms(1) by (simp add: row_satisfies_def prefix_products_nth)
qed

lemma find_least:
  "List.find P xs = Some x \<longleftrightarrow> (\<exists>i < length xs. x = xs ! i \<and> P (xs ! i) \<and> (\<forall>j < i. \<not> P (xs ! j)))"
  by (auto simp: find_Some_iff)

lemma map_of_required_prefixes:
  assumes "distinct (map fst rb)" and "(name, required) \<in> set rb"
  shows "map_of (required_prefixes moduli rb) name =
         Some (map_option pr_prefix (List.find (row_satisfies name) (prefix_products moduli rb)))"
proof -
  have "map_of (map (\<lambda>(n, r). (n, f n)) rb) name = map_option (\<lambda>_. f name) (map_of rb name)"
    for f :: "string \<Rightarrow> nat option"
    by (induction rb) auto
  with assms show ?thesis by (simp add: required_prefixes_def Let_def)
qed

section \<open>Reciprocals\<close>

lemma py_modinv_law:
  assumes "1 < m" and "0 \<le> a" and "gcd a m = 1"
  shows "(a * py_modinv a m) mod m = 1" and "0 \<le> py_modinv a m" and "py_modinv a m < m"
proof -
  let ?x = "fst (bezw (nat a) (nat m))" and ?y = "snd (bezw (nat a) (nat m))"
  have "?x * int (nat a) + ?y * int (nat m) = int (gcd (nat a) (nat m))"
    by (rule bezw_aux [symmetric])
  moreover have "int (gcd (nat a) (nat m)) = gcd a m"
    using assms(1,2) by (simp add: gcd_int_int_eq [symmetric])
  ultimately have bez: "a * ?x = 1 + m * (- ?y)"
    using assms by (simp add: algebra_simps)
  have "a \<noteq> 0" using assms by auto
  with assms(2) have s: "sgn a = 1" by simp
  have "(a * py_modinv a m) mod m = (a * ?x) mod m"
    using assms by (simp add: py_modinv_def s mod_mult_right_eq)
  also have "\<dots> = 1" using mod_mult_self2 [of 1 m "- ?y"] assms(1) by (simp only: bez) simp
  finally show "(a * py_modinv a m) mod m = 1" .
  show "0 \<le> py_modinv a m" "py_modinv a m < m"
    using assms(1) by (simp_all add: py_modinv_def)
qed

lemma length_crt_constants_from [simp]: "length (crt_constants_from index p moduli) = length moduli"
  by (induction moduli arbitrary: index p) simp_all

lemma length_crt_prefix_constants [simp]: "length (crt_prefix_constants moduli) = length moduli"
  by (simp add: crt_prefix_constants_def)

lemma crt_constants_from_nth:
  "i < length moduli \<Longrightarrow>
   crt_constants_from index p moduli ! i =
   (let prior = p * prod_list (take i moduli); m = moduli ! i
    in if index + i = 0
       then \<lparr>cr_prefix = 1, cr_modulus = m, cr_prior = 1 mod m, cr_inverse = Some (1 mod m)\<rparr>
       else \<lparr>cr_prefix = index + i + 1, cr_modulus = m, cr_prior = prior mod m,
             cr_inverse = (if gcd (prior mod m) m = 1
                           then Some (py_modinv (prior mod m) m) else None)\<rparr>)"
proof (induction moduli arbitrary: index p i)
  case Nil
  then show ?case by simp
next
  case (Cons m ms)
  then show ?case by (cases i) (auto simp: Let_def ac_simps)
qed

lemma crt_prefix_constants_nth:
  assumes "i < length moduli" and "\<And>m. m \<in> set moduli \<Longrightarrow> 1 < m"
  shows "cr_prefix (crt_prefix_constants moduli ! i) = i + 1"
    and "cr_modulus (crt_prefix_constants moduli ! i) = moduli ! i"
    and "cr_prior (crt_prefix_constants moduli ! i) = prod_list (take i moduli) mod moduli ! i"
    and "i \<noteq> 0 \<Longrightarrow> cr_inverse (crt_prefix_constants moduli ! i) =
           (if gcd (prod_list (take i moduli)) (moduli ! i) = 1
            then Some (py_modinv (prod_list (take i moduli) mod moduli ! i) (moduli ! i)) else None)"
    and "cr_inverse (crt_prefix_constants moduli ! 0) = Some 1 \<or> i \<noteq> 0"
  using assms(1) assms(2) [of "moduli ! i"]
  by (auto simp: crt_prefix_constants_def crt_constants_from_nth Let_def)

lemma crt_inverse_law:
  assumes "i < length moduli" and "\<And>m. m \<in> set moduli \<Longrightarrow> 1 < m"
    and "cr_inverse (crt_prefix_constants moduli ! i) = Some v"
  shows "(prod_list (take i moduli) * v) mod moduli ! i = 1"
proof (cases "i = 0")
  case True
  with assms show ?thesis using crt_prefix_constants_nth(5) [OF assms(1,2)] by simp
next
  case False
  let ?P = "prod_list (take i moduli)" and ?m = "moduli ! i"
  have m: "1 < ?m" using assms(1,2) by simp
  from False assms have g: "gcd ?P ?m = 1" and v: "v = py_modinv (?P mod ?m) ?m"
    using crt_prefix_constants_nth(4) [OF assms(1,2)] by (auto split: if_splits)
  have "(?P mod ?m * v) mod ?m = 1"
    unfolding v using m g by (intro py_modinv_law(1)) auto
  then show ?thesis by (simp add: mod_mult_left_eq)
qed

text \<open>
  The constants of a pairwise coprime ladder are what a Garner decoder needs: the interface
  \<open>rns_decoder\<close> holds of every ladder the search accepts.
\<close>

definition ladder_inverse :: "int list \<Rightarrow> nat \<Rightarrow> int" where
  "ladder_inverse moduli i =
     (case cr_inverse (crt_prefix_constants moduli ! i) of None \<Rightarrow> 0 | Some v \<Rightarrow> v)"

lemma rns_ladder_iff: "rns_ladder moduli \<longleftrightarrow> list_all (\<lambda>m. 1 < m) moduli \<and> is_coprime_set moduli"
  by (auto simp: rns_ladder_def list_all_iff is_coprime_set_iff)

lemma rns_decoder_of_ladder:
  assumes "rns_ladder moduli"
  shows "rns_decoder moduli (ladder_inverse moduli)"
proof (rule rns_decoder.intro [OF assms], unfold_locales)
  fix i assume i: "i < length moduli"
  have gt: "\<And>m. m \<in> set moduli \<Longrightarrow> 1 < m" by (rule rns_ladder.gt_one [OF assms])
  have "\<exists>v. cr_inverse (crt_prefix_constants moduli ! i) = Some v"
    using crt_prefix_constants_nth(4,5) [OF i gt] rns_ladder.prior_coprime [OF assms i]
    by (cases "i = 0") (auto simp: coprime_iff_gcd_eq_1)
  then show "(prod_list (take i moduli) * ladder_inverse moduli i) mod moduli ! i = 1"
    using crt_inverse_law [OF i gt] by (auto simp: ladder_inverse_def)
qed

interpretation default_ladder: rns_decoder DEFAULT_MODULI "ladder_inverse DEFAULT_MODULI"
  by (rule rns_decoder_of_ladder, subst rns_ladder_iff, code_simp)

section \<open>Generated ladders\<close>

lemma coprime_desc_loop_coprime:
  "sorted_wrt coprime acc \<Longrightarrow> sorted_wrt coprime (coprime_desc_loop limit acc vs)"
  by (induction limit acc vs rule: coprime_desc_loop.induct)
    (auto simp: Let_def sorted_wrt_append list_all_iff coprime_iff_gcd_eq_1 gcd.commute)

lemma coprime_desc_loop_set: "set (coprime_desc_loop limit acc vs) \<subseteq> set acc \<union> set vs"
  by (induction limit acc vs rule: coprime_desc_loop.induct) (auto simp: Let_def)

lemma set_down_to_2: "set (down_to_2 n) = {2..n}"
  by (simp add: down_to_2_def)

lemma coprime_desc_candidate:
  "is_coprime_set (coprime_desc_loop limit [256] vs)"
  by (simp add: is_coprime_set_iff coprime_desc_loop_coprime)

lemma coprime_desc_bounds:
  "m \<in> set (coprime_desc_loop limit [256] (filter P (down_to_2 255))) \<Longrightarrow> 1 < m \<and> m \<le> 256"
  using coprime_desc_loop_set [of limit "[256]" "filter P (down_to_2 255)"]
  by (auto simp: set_down_to_2)

text \<open>Sorting by a costly key is sorting the pairs of key and element.\<close>

lemma insort_key_map: "insort_key f (g x) (map g xs) = map g (insort_key (\<lambda>x. f (g x)) x xs)"
  by (induction xs) simp_all

lemma sort_key_map: "sort_key f (map g xs) = map g (sort_key (\<lambda>x. f (g x)) xs)"
  by (induction xs) (simp_all add: insort_key_map)

lemma sorted_reverse_decorated:
  "sorted_reverse key xs = map snd (sorted_reverse fst (map (\<lambda>x. (key x, x)) xs))"
  by (simp add: sorted_reverse_def rev_map sort_key_map o_def)

lemma set_sorted_reverse [simp]: "set (sorted_reverse key xs) = set xs"
  by (simp add: sorted_reverse_def)

lemma ntt_candidate:
  "is_coprime_set (256 # take 27 (sorted_reverse ntt_sort_key generated_primes))"
  by (subst sorted_reverse_decorated) code_simp

lemma ntt_bounds:
  "m \<in> set (take n (sorted_reverse key generated_primes)) \<Longrightarrow> 1 < m \<and> m \<le> 256"
  by (drule in_set_takeD) (simp add: generated_primes_def set_down_to_2)

lemma default_prefix_coprime: "is_coprime_set (take n DEFAULT_MODULI)"
  using default_ladder.prefix_is_ladder [of n] by (simp add: rns_ladder_iff)

lemma default_coprime: "is_coprime_set DEFAULT_MODULI"
  using default_ladder.pairwise_coprime by (simp add: is_coprime_set_iff)

lemma default_bounds: "m \<in> set DEFAULT_MODULI \<Longrightarrow> 1 < m \<and> m \<le> 256"
  unfolding DEFAULT_MODULI_def by auto

text \<open>A ladder whose residues fit a byte each and whose moduli are pairwise coprime.\<close>

definition byte_ladder :: "int list \<Rightarrow> bool" where
  "byte_ladder moduli \<longleftrightarrow> is_coprime_set moduli \<and> list_all (\<lambda>m. 1 < m \<and> m \<le> 256) moduli"

lemma byte_ladderI:
  "is_coprime_set ms \<Longrightarrow> (\<And>m. m \<in> set ms \<Longrightarrow> 1 < m \<and> m \<le> 256) \<Longrightarrow> byte_ladder ms"
  by (simp add: byte_ladder_def list_all_iff)

lemma byte_ladder_default_prefix: "byte_ladder (take n DEFAULT_MODULI)"
  by (rule byte_ladderI [OF default_prefix_coprime default_bounds]) (rule in_set_takeD)

lemma byte_ladder_default: "byte_ladder DEFAULT_MODULI"
  by (rule byte_ladderI [OF default_coprime default_bounds])

lemma byte_ladder_ntt:
  "byte_ladder ([256] @ take 27 (sorted_reverse ntt_sort_key generated_primes))"
proof (rule byte_ladderI)
  show "is_coprime_set ([256] @ take 27 (sorted_reverse ntt_sort_key generated_primes))"
    using ntt_candidate by (simp only: append.simps)
  show "1 < m \<and> m \<le> 256"
    if "m \<in> set ([256] @ take 27 (sorted_reverse ntt_sort_key generated_primes))" for m
    using that ntt_bounds [of m 27 ntt_sort_key]
    by (simp only: append.simps list.set insert_iff) auto
qed

lemma byte_ladder_coprime_desc:
  "byte_ladder (coprime_desc_loop limit [256] (filter P (down_to_2 255)))"
  by (rule byte_ladderI [OF coprime_desc_candidate coprime_desc_bounds])

lemma ntt_loop_set:
  "0 < len \<Longrightarrow> L \<in> set (ntt_loop v len hi) \<longleftrightarrow>
     (\<exists>k. L = len * 2 ^ k \<and> L \<le> hi \<and> (v - 1) mod (2 * L) = 0)"
proof (induction v len hi rule: ntt_loop.induct)
  case (1 v len hi)
  have split: "(\<exists>k. P (k::nat)) \<longleftrightarrow> P 0 \<or> (\<exists>k. P (Suc k))" for P
    by (metis not0_implies_Suc)
  show ?case
  proof (cases "len \<le> hi")
    case True
    with "1.prems" have "L \<in> set (ntt_loop v len hi) \<longleftrightarrow>
        (L = len \<and> (v - 1) mod (2 * len) = 0) \<or> L \<in> set (ntt_loop v (len * 2) hi)"
      by (subst ntt_loop.simps) auto
    also have "L \<in> set (ntt_loop v (len * 2) hi) \<longleftrightarrow>
        (\<exists>k. L = len * 2 ^ Suc k \<and> L \<le> hi \<and> (v - 1) mod (2 * L) = 0)"
      using "1.IH" "1.prems" True by (simp add: mult.assoc)
    finally show ?thesis using True by (subst split) auto
  next
    case False
    have "len \<le> len * 2 ^ k" for k :: nat
      using "1.prems" by (simp add: mult_le_cancel_left1)
    with False have "\<not> len * 2 ^ k \<le> hi" for k :: nat
      using order_trans by blast
    with False show ?thesis by (subst ntt_loop.simps) auto
  qed
qed

lemma ntt_loop_sorted: "0 < len \<Longrightarrow> sorted_wrt (<) (ntt_loop v len hi)"
proof (induction v len hi rule: ntt_loop.induct)
  case (1 v len hi)
  have "len < L" if "L \<in> set (ntt_loop v (len * 2) hi)" for L
  proof -
    from that obtain k :: nat where "L = len * 2 * 2 ^ k"
      using ntt_loop_set [of "len * 2" L v hi] "1.prems" by auto
    moreover have "len * 2 * 1 \<le> len * 2 * 2 ^ k"
      using "1.prems" by (intro mult_left_mono) auto
    ultimately show ?thesis using "1.prems" by linarith
  qed
  with 1 show ?case by (subst ntt_loop.simps) (auto simp: sorted_wrt_append)
qed

section \<open>Properties\<close>

text \<open>C1: the CRT constants the search emits for a pairwise coprime ladder are the right ones: a
  Garner decoder driven by the inverses of \<open>crt_prefix_constants\<close> rebuilds every integer in
  \<open>[0, P)\<close>, \<open>P\<close> the ladder's product, from its residues.\<close>

theorem crt_constants_reconstruct:
  assumes "list_all (\<lambda>m. 1 < m) moduli" and "is_coprime_set moduli"
    and "0 \<le> x" and "x < product moduli"
  shows "garner_decode moduli (ladder_inverse moduli) (\<lambda>m. x mod m) = x"
proof -
  from assms(1,2) have "rns_decoder moduli (ladder_inverse moduli)"
    by (intro rns_decoder_of_ladder) (simp add: rns_ladder_iff)
  with assms(3,4) show ?thesis by (simp add: rns_decoder.decode_unsigned product_eq)
qed

theorem crt_constants_reconstruct_witness:
  "garner_decode [256, 255, 253] (ladder_inverse [256, 255, 253]) (\<lambda>m. 1000000 mod m) = 1000000"
  by (rule crt_constants_reconstruct) code_simp+

text \<open>nine moduli of the search's default ladder carry every signed 64-bit bound: a value of
  absolute value at most \<open>2^63\<close> is recovered from its nine residues and the emitted constants
  by centring the decoded value, as the README promises of prefix 9.\<close>

theorem default_prefix9_covers_i64:
  assumes "\<bar>x\<bar> \<le> 2 ^ 63"
  shows "centered (product (take 9 DEFAULT_MODULI))
           (garner_decode (take 9 DEFAULT_MODULI) (ladder_inverse (take 9 DEFAULT_MODULI))
              (\<lambda>m. x mod m)) = x"
proof -
  have "rns_decoder (take 9 DEFAULT_MODULI) (ladder_inverse (take 9 DEFAULT_MODULI))"
    by (rule rns_decoder_of_ladder [OF default_ladder.prefix_is_ladder])
  moreover have "2 * 2 ^ 63 < product (take 9 DEFAULT_MODULI)" by code_simp
  ultimately show ?thesis
    using assms rns_decoder.decode_signed by (simp add: product_eq)
qed

theorem default_prefix9_covers_i64_witness:
  "centered (product (take 9 DEFAULT_MODULI))
     (garner_decode (take 9 DEFAULT_MODULI) (ladder_inverse (take 9 DEFAULT_MODULI))
        (\<lambda>m. (- (2 ^ 63)) mod m)) = - (2 ^ 63)"
  by (rule default_prefix9_covers_i64) simp

text \<open>C2: every constant row: its position and modulus, the product of the earlier moduli reduced
  by it, an inverse that is absent exactly when that product is not coprime to the modulus and
  is otherwise the unique inverse in \<open>[0, m)\<close>.\<close>

theorem crt_rows_correct:
  assumes "i < length moduli" and "\<forall>m \<in> set moduli. 1 < m"
  shows "let row = crt_prefix_constants moduli ! i; prior = product (take i moduli); m = moduli ! i
         in cr_prefix row = i + 1 \<and> cr_modulus row = m \<and> cr_prior row = prior mod m \<and>
            (cr_inverse row = None \<longleftrightarrow> gcd prior m \<noteq> 1) \<and>
            (\<forall>v. cr_inverse row = Some v \<longrightarrow> 0 \<le> v \<and> v < m \<and> (prior * v) mod m = 1)"
proof -
  have gt: "\<And>m. m \<in> set moduli \<Longrightarrow> 1 < m" using assms(2) by blast
  have m: "1 < moduli ! i" using gt assms(1) by simp
  note nth = crt_prefix_constants_nth [OF assms(1) gt]
  have "0 \<le> v \<and> v < moduli ! i" if "cr_inverse (crt_prefix_constants moduli ! i) = Some v" for v
  proof (cases "i = 0")
    case True
    with that nth(5) m show ?thesis by simp
  next
    case False
    with that nth(4) m show ?thesis
      using py_modinv_law(2,3) [of "moduli ! i" "prod_list (take i moduli) mod moduli ! i"]
      by (auto split: if_splits)
  qed
  moreover have "cr_inverse (crt_prefix_constants moduli ! i) = None \<longleftrightarrow>
      gcd (prod_list (take i moduli)) (moduli ! i) \<noteq> 1"
    using nth(4,5) by (cases "i = 0") auto
  ultimately show ?thesis
    using nth(1-3) crt_inverse_law [OF assms(1) gt] by (auto simp: Let_def product_eq)
qed

theorem crt_rows_correct_witness:
  "let row = crt_prefix_constants [6, 35, 10] ! 2; prior = product (take 2 [6, 35, 10]);
       m = [6, 35, 10] ! 2
   in cr_prefix row = 2 + 1 \<and> cr_modulus row = m \<and> cr_prior row = prior mod m \<and>
      (cr_inverse row = None \<longleftrightarrow> gcd prior m \<noteq> 1) \<and>
      (\<forall>v. cr_inverse row = Some v \<longrightarrow> 0 \<le> v \<and> v < m \<and> (prior * v) mod m = 1)"
  by (rule crt_rows_correct) simp_all

text \<open>\<open>required_prefixes\<close> reports the least prefix whose product has the required number of
  bits, and None exactly when no prefix has.\<close>

theorem required_prefix_least:
  assumes "distinct (map fst required_bits)" and "(name, required) \<in> set required_bits"
  shows "map_of (required_prefixes moduli required_bits) name =
           Some (if \<exists>p \<in> {1..length moduli}. required \<le> product_bits (take p moduli)
                 then Some (LEAST p. 1 \<le> p \<and> required \<le> product_bits (take p moduli))
                 else None)"
proof -
  let ?rows = "prefix_products moduli required_bits" and ?Q = "\<lambda>p. required \<le> product_bits (take p moduli)"
  have sat: "row_satisfies name (?rows ! i) \<longleftrightarrow> ?Q (Suc i)" if "i < length moduli" for i
    using row_satisfies_nth [OF that assms] .
  show ?thesis
  proof (cases "List.find (row_satisfies name) ?rows")
    case None
    then have "\<not> row_satisfies name (?rows ! i)" if "i < length moduli" for i
      using that by (simp add: find_None_iff nth_mem)
    then have "\<not> ?Q p" if "p \<in> {1..length moduli}" for p
      using that sat [of "p - 1"] by (cases p) auto
    with None show ?thesis by (auto simp: map_of_required_prefixes [OF assms])
  next
    case (Some row)
    then obtain i where i: "i < length moduli" "row = ?rows ! i" "?Q (Suc i)"
        and least: "\<forall>j < i. \<not> ?Q (Suc j)"
      by (auto simp: find_least sat)
    have "(LEAST p. 1 \<le> p \<and> ?Q p) = Suc i"
    proof (rule Least_equality)
      show "Suc i \<le> p" if "1 \<le> p \<and> ?Q p" for p
      proof (rule ccontr)
        assume "\<not> Suc i \<le> p"
        with that obtain j where "p = Suc j" "j < i" by (cases p) auto
        with least that show False by simp
      qed
    qed (use i in simp)
    moreover have "\<exists>p \<in> {1..length moduli}. ?Q p" using i by (intro bexI [of _ "Suc i"]) auto
    ultimately show ?thesis
      using Some i by (simp add: map_of_required_prefixes [OF assms] prefix_products_nth)
  qed
qed

theorem required_prefix_least_witness:
  "map_of (required_prefixes [7, 5, 3] [(''range'', 5)]) ''range'' =
     Some (if \<exists>p \<in> {1..length [7, 5, 3 :: int]}. 5 \<le> product_bits (take p [7, 5, 3])
           then Some (LEAST p. 1 \<le> p \<and> 5 \<le> product_bits (take p [7, 5, 3])) else None)"
  by (rule required_prefix_least) simp_all

text \<open>
  the trial division of \<open>is_prime\<close> decides primality.\<close>

theorem is_prime_correct: "is_prime v \<longleftrightarrow> 1 < v \<and> {d. 1 < d \<and> d < v \<and> d dvd v} = {}"
  by (auto simp: is_prime_iff prime_number_def)

text \<open>for a prime modulus the reported NTT lengths are exactly the powers of two \<open>L\<close> up to the
  limit with \<open>2 L\<close> dividing \<open>p - 1\<close>, in ascending order.\<close>

theorem ntt_lengths_exact:
  assumes "is_prime p"
  shows "set (ntt_friendly_lengths p hi) = {L. \<exists>k. L = 2 ^ k \<and> L \<le> hi \<and> 2 * L dvd p - 1} \<and>
         sorted_wrt (<) (ntt_friendly_lengths p hi)"
proof
  have lengths: "ntt_friendly_lengths p hi = ntt_loop p 1 hi"
    using assms by (simp add: ntt_friendly_lengths_def)
  show "sorted_wrt (<) (ntt_friendly_lengths p hi)"
    unfolding lengths by (rule ntt_loop_sorted) simp
  show "set (ntt_friendly_lengths p hi) = {L. \<exists>k. L = 2 ^ k \<and> L \<le> hi \<and> 2 * L dvd p - 1}"
    unfolding lengths by (rule set_eqI) (simp add: ntt_loop_set dvd_eq_mod_eq_0)
qed

theorem ntt_lengths_exact_witness:
  "set (ntt_friendly_lengths 97 128) = {L. \<exists>k. L = 2 ^ k \<and> L \<le> 128 \<and> 2 * L dvd 97 - 1} \<and>
   sorted_wrt (<) (ntt_friendly_lengths 97 128)"
proof -
  have "is_prime 97" by code_simp
  from ntt_lengths_exact [OF this] show ?thesis .
qed

text \<open>A report never makes a ladder promotable or selectable at run time, and its disposition
  is "ready for benchmark" exactly for a pairwise coprime ladder with enough product bits whose
  moduli all fit a byte residue (at most 256).\<close>

theorem report_disposition:
  assumes "row \<in> set (sr_candidates (build_search_report candidates min_bits generated))"
  shows "\<not> cand_promotion_eligible row \<and> \<not> cand_runtime_selectable row \<and>
         (cand_disposition row = ''candidate_ready_for_benchmark'' \<longleftrightarrow>
            sorted_wrt coprime (cand_moduli row) \<and>
            min_bits \<le> product_bits (cand_moduli row) \<and> (\<forall>m \<in> set (cand_moduli row). m \<le> 256))"
proof -
  from assms obtain name moduli where row: "row = finish_candidate min_bits (candidate_report moduli name)"
    by (auto simp: build_search_report_def Let_def)
  show ?thesis
    by (auto simp: row finish_candidate_def candidate_report_def Let_def candidate_disposition_def
        reducer_cost_summary_def count_if_def is_coprime_set_iff filter_empty_conv not_less)
qed

theorem report_disposition_witness:
  "\<not> cand_promotion_eligible (finish_candidate 8 (candidate_report [16, 15] ''a'')) \<and>
   \<not> cand_runtime_selectable (finish_candidate 8 (candidate_report [16, 15] ''a'')) \<and>
   (cand_disposition (finish_candidate 8 (candidate_report [16, 15] ''a'')) =
      ''candidate_ready_for_benchmark'' \<longleftrightarrow>
      sorted_wrt coprime (cand_moduli (finish_candidate 8 (candidate_report [16, 15] ''a''))) \<and>
      8 \<le> product_bits (cand_moduli (finish_candidate 8 (candidate_report [16, 15] ''a''))) \<and>
      (\<forall>m \<in> set (cand_moduli (finish_candidate 8 (candidate_report [16, 15] ''a''))). m \<le> 256))"
  by (rule report_disposition [of _ "[(''a'', [16, 15])]" 8 False])
    (simp add: build_search_report_def all_candidates_def)

text \<open>C3: every generated ladder is pairwise coprime with moduli between 2 and 256.\<close>

theorem generated_ladders_coprime:
  "list_all (\<lambda>(name, moduli). byte_ladder moduli) generated_candidates"
  unfolding generated_candidates_def Let_def list.pred_inject(2) prod.case
  by (intro conjI byte_ladder_default byte_ladder_default_prefix byte_ladder_ntt
      byte_ladder_coprime_desc list.pred_inject(1))

end
