(* ===== verification/Py_Repr.thy ===== *)
theory Py_Repr
  imports Py_Value Py_String
begin

text \<open>
  \<open>repr(v)\<close> and \<open>str(v)\<close> of the values the tools put into messages, keys and generated files.
  Strings follow CPython's quoting and escapes on the code points below 256; a float prints the
  shortest decimal that reads back as itself, as \<open>float.__repr__\<close> does. (The sign of a zero is
  not kept by \<open>pyfloat\<close>, so \<open>-0.0\<close> prints as \<open>0.0\<close>.)
\<close>

section \<open>Strings\<close>

definition hex_digit :: "nat \<Rightarrow> char" where
  "hex_digit d = (if d < 10 then digit_char d else char_of (87 + d))"

definition quote_char :: "string \<Rightarrow> char" where
  "quote_char s = (if CHR 0x27 \<in> set s \<and> CHR 0x22 \<notin> set s then CHR 0x22 else CHR 0x27)"

definition repr_char :: "char \<Rightarrow> char \<Rightarrow> string" where
  "repr_char q c =
     (let n = code c in
      if c = q \<or> n = 92 then [CHR 0x5C, c]
      else if n = 9 then [CHR 0x5C, CHR ''t'']
      else if n = 10 then [CHR 0x5C, CHR ''n'']
      else if n = 13 then [CHR 0x5C, CHR ''r'']
      else if n < 32 \<or> (127 \<le> n \<and> n \<le> 160) \<or> n = 173
      then [CHR 0x5C, CHR ''x'', hex_digit (n div 16), hex_digit (n mod 16)]
      else [c])"

definition repr_str :: "string \<Rightarrow> string" where
  "repr_str s = (let q = quote_char s in [q] @ concat (map (repr_char q) s) @ [q])"

section \<open>Floats\<close>

definition pow10 :: "int \<Rightarrow> rat" where
  "pow10 e = (if 0 \<le> e then 10 ^ nat e else 1 / 10 ^ nat (- e))"

text \<open>The decimal exponent of a positive number; 400 steps cover every binary64 value.\<close>

primrec dec_exp :: "nat \<Rightarrow> rat \<Rightarrow> int" where
  "dec_exp 0 x = 0"
| "dec_exp (Suc fuel) x =
     (if 10 \<le> x then 1 + dec_exp fuel (x / 10)
      else if x < 1 then dec_exp fuel (x * 10) - 1 else 0)"

text \<open>The shortest digit string (with its digit count) that rounds back to \<open>x\<close>; 17 digits do.\<close>

primrec shortest_digits :: "nat \<Rightarrow> nat \<Rightarrow> int \<Rightarrow> rat \<Rightarrow> int \<times> nat" where
  "shortest_digits 0 n k x = (round_half_even (x * pow10 (int n - 1 - k)), n)"
| "shortest_digits (Suc fuel) n k x =
     (let s = pow10 (int n - 1 - k); y = x * s; near = round_half_even y;
          other = (if near = \<lfloor>y\<rfloor> then near + 1 else \<lfloor>y\<rfloor>)
      in if rnd64 (of_int near / s) = FFin x then (near, n)
         else if rnd64 (of_int other / s) = FFin x then (other, n)
         else shortest_digits fuel (Suc n) k x)"

definition strip_zeros :: "string \<Rightarrow> string" where
  "strip_zeros s = rev (dropWhile (\<lambda>c. c = CHR ''0'') (rev s))"

definition repr_pos_float :: "rat \<Rightarrow> string" where
  "repr_pos_float x =
     (let k = dec_exp 400 x; (m, n) = shortest_digits 16 1 k x; ds0 = show_int m;
          decpt = k + 1 + int (length ds0) - int n; ds = strip_zeros ds0; len = int (length ds)
      in if - 4 < decpt \<and> decpt \<le> 16
         then if decpt \<le> 0 then ''0.'' @ replicate (nat (- decpt)) CHR ''0'' @ ds
              else if len \<le> decpt then ds @ replicate (nat (decpt - len)) CHR ''0'' @ ''.0''
              else take (nat decpt) ds @ ''.'' @ drop (nat decpt) ds
         else let e = decpt - 1; es = show_nat (nat \<bar>e\<bar>)
              in take 1 ds @ (if len = 1 then [] else ''.'' @ drop 1 ds) @ ''e''
                 @ (if e < 0 then ''-'' else ''+'') @ (if length es < 2 then ''0'' @ es else es))"

fun repr_float :: "pyfloat \<Rightarrow> string" where
  "repr_float (FFin x) =
     (if x = 0 then ''0.0'' else if x < 0 then ''-'' @ repr_pos_float (- x) else repr_pos_float x)"
| "repr_float FInf = ''inf''"
| "repr_float FNegInf = ''-inf''"
| "repr_float FNaN = ''nan''"

section \<open>Values\<close>

fun py_repr :: "pyval \<Rightarrow> string" where
  "py_repr PNone = ''None''"
| "py_repr (PBool b) = (if b then ''True'' else ''False'')"
| "py_repr (PInt n) = show_int n"
| "py_repr (PFloat x) = repr_float x"
| "py_repr (PStr s) = repr_str s"
| "py_repr (PList xs) = ''['' @ join_with '', '' (map py_repr xs) @ '']''"
| "py_repr (PDict d) =
     ''{'' @ join_with '', '' (map (\<lambda>p. repr_str (fst p) @ '': '' @ py_repr (snd p)) d) @ ''}''"

definition py_str :: "pyval \<Rightarrow> string" where
  "py_str v = (case v of PStr s \<Rightarrow> s | _ \<Rightarrow> py_repr v)"

text \<open>\<open>repr\<close> of a list of strings, as \<open>f"{sorted(names)}"\<close> prints it.\<close>

definition repr_strs :: "string list \<Rightarrow> string" where
  "repr_strs xs = ''['' @ join_with '', '' (map repr_str xs) @ '']''"

lemma py_str_PStr [simp]: "py_str (PStr s) = s"
  by (simp add: py_str_def)

text \<open>An identifier-like string is printed between single quotes, unescaped.\<close>

definition plain_char :: "char \<Rightarrow> bool" where
  "plain_char c \<longleftrightarrow> 32 \<le> code c \<and> code c < 127 \<and> c \<noteq> CHR 0x27 \<and> code c \<noteq> 92"

lemma repr_str_plain:
  assumes "list_all plain_char s"
  shows "repr_str s = CHR 0x27 # s @ [CHR 0x27]"
proof -
  have q: "quote_char s = CHR 0x27"
    using assms by (auto simp: quote_char_def list_all_iff plain_char_def)
  have plain: "repr_char (CHR 0x27) c = [c]" if "plain_char c" for c
    using that by (simp add: repr_char_def Let_def plain_char_def)
  have "concat (map (repr_char (CHR 0x27)) s) = s"
    using assms by (induction s) (simp_all add: plain)
  with q show ?thesis by (simp add: repr_str_def Let_def)
qed

end
