(* ===== verification/Metadata_Registry.thy ===== *)
theory Metadata_Registry
  imports Py_Repr
begin

text \<open>
  \<open>tools/metadata_registry.py\<close>: the registry of identifiers from which the Python and C++
  constants of the repository are generated.

  The registry is the dict of its documents, by document name. Functions that raise run in the
  error monad; \<open>re.compile\<close> is the parameter \<open>re_error\<close> (the message of \<open>re.error\<close>, or \<open>None\<close>
  where the pattern compiles). The two generated files and the directory of documents are
  arguments: reading, comparing and rewriting them is a function on their contents.

  The lemmas show what a validated registry guarantees (every identifier list is a list of
  distinct non-empty strings, every grouped kernel is a selected kernel), that rendering succeeds
  on it up to the keys the validator does not look at, and that writing and then checking the
  generated files passes.
\<close>

section \<open>Loading\<close>

type_synonym registry = "(string \<times> pydict) list"

definition REGISTRY_FILES :: "(string \<times> string) list" where
  "REGISTRY_FILES =
     [(''benchmark_modes'', ''benchmark_modes.yaml''),
      (''output_policies'', ''output_policies.yaml''),
      (''event_phases'', ''event_phases.yaml''),
      (''epilogues'', ''epilogues.yaml''),
      (''workspace_modes'', ''workspace_modes.yaml''),
      (''kernels'', ''kernels.yaml''),
      (''claim_labels'', ''claim_labels.yaml'')]"

definition load_json_yaml :: "string \<Rightarrow> json_file \<Rightarrow> pydict res" where
  "load_json_yaml path file =
     (case file of
        Missing \<Rightarrow> Inl (MetadataRegistryError (''missing metadata registry file: '' @ path))
      | Malformed exc \<Rightarrow> Inl (MetadataRegistryError (path @
          '': metadata files must use the JSON-compatible YAML subset: '' @ exc))
      | Parsed (PDict d) \<Rightarrow> Inr d
      | Parsed _ \<Rightarrow> Inl (MetadataRegistryError (path @
          '': top-level registry document must be an object'')))"

definition load_registry :: "string \<Rightarrow> (string \<Rightarrow> json_file) \<Rightarrow> registry res" where
  "load_registry metadata_dir read =
     rmapM (\<lambda>(key, filename).
       rbind (load_json_yaml (metadata_dir @ ''/'' @ filename) (read filename))
         (\<lambda>d. Inr (key, d))) REGISTRY_FILES"

section \<open>Required lists\<close>

definition require_list :: "pydict \<Rightarrow> string \<Rightarrow> string \<Rightarrow> pyval list res" where
  "require_list document key path =
     (case dget document key of
        PList vs \<Rightarrow> Inr vs
      | _ \<Rightarrow> Inl (MetadataRegistryError (path @ ''.'' @ key @ '' must be a list'')))"

fun duplicates_from :: "string list \<Rightarrow> string list \<Rightarrow> string list \<Rightarrow> string list" where
  "duplicates_from seen duplicates [] = duplicates"
| "duplicates_from seen duplicates (value # rest) =
     duplicates_from (value # seen) (if value \<in> set seen then value # duplicates else duplicates) rest"

definition require_unique :: "string list \<Rightarrow> string \<Rightarrow> unit res" where
  "require_unique xs path =
     (let duplicates = duplicates_from [] [] xs
      in check (duplicates \<noteq> [])
           (MetadataRegistryError (path @ '' contains duplicate ids: '' @
              repr_strs (sorted_set duplicates))))"

definition require_string_list_gen :: "bool \<Rightarrow> pydict \<Rightarrow> string \<Rightarrow> string \<Rightarrow> string list res" where
  "require_string_list_gen allow_empty document key path =
     rbind (require_list document key path) (\<lambda>vs.
     rthen (check (\<not> list_all (\<lambda>item. is_str item \<and> (allow_empty \<or> truthy item)) vs)
       (MetadataRegistryError (path @ ''.'' @ key @ '' must contain only '' @
          (if allow_empty then ''strings'' else ''nonempty strings''))))
     (rthen (require_unique (map str_of vs) (path @ ''.'' @ key))
     (Inr (map str_of vs))))"

abbreviation require_string_list :: "pydict \<Rightarrow> string \<Rightarrow> string \<Rightarrow> string list res" where
  "require_string_list \<equiv> require_string_list_gen False"

section \<open>Grouped-dispatch strategies\<close>

definition STRATEGIES_KEY :: string where
  "STRATEGIES_KEY = ''grouped_dispatch_execution_strategies''"

definition strategy_label :: "nat \<Rightarrow> string" where
  "strategy_label index =
     ''benchmark_modes.grouped_dispatch_execution_strategies['' @ show_nat index @ '']''"

definition strategy_id :: "nat \<times> pyval \<Rightarrow> string res" where
  "strategy_id p = (case p of (index, item) \<Rightarrow>
     let bad = (\<lambda>t. MetadataRegistryError (strategy_label index @ t)) in
     rthen (check (\<not> is_dict item) (bad '' must be an object''))
     (rthen (check (\<not> is_nonempty_str (vget item ''id'')) (bad ''.id must be a string''))
     (rthen (check (\<not> is_bool (vget item ''batched_exact_wide_export''))
       (bad ''.batched_exact_wide_export must be boolean''))
     (rthen (check (\<not> is_bool (vget item ''batched_bounded_export''))
       (bad ''.batched_bounded_export must be boolean''))
     (rthen (check (\<not> is_bool (vget item ''batched_finite_export''))
       (bad ''.batched_finite_export must be boolean''))
     (rthen (check (\<not> is_nonempty_str (vget item ''device_descriptor_policy''))
       (bad ''.device_descriptor_policy must be a string''))
     (Inr (str_of (vget item ''id'')))))))))"

definition strategy_ids :: "registry \<Rightarrow> string list res" where
  "strategy_ids registry =
     rbind (dindex registry ''benchmark_modes'') (\<lambda>benchmark.
     rbind (require_list benchmark STRATEGIES_KEY ''benchmark_modes'') (\<lambda>strategies.
     rbind (rmapM strategy_id (enumerate 0 strategies)) (\<lambda>ids.
     rthen (require_unique ids ''benchmark_modes.grouped_dispatch_execution_strategies'')
     (Inr ids))))"

text \<open>The list as the later readers index it; a value that is no list is not iterable here.\<close>

definition raw_strategies :: "registry \<Rightarrow> pyval list res" where
  "raw_strategies registry =
     rbind (dindex registry ''benchmark_modes'') (\<lambda>benchmark.
     rbind (dindex benchmark STRATEGIES_KEY) (\<lambda>v. case v of PList xs \<Rightarrow> Inr xs | _ \<Rightarrow> Inl TypeError))"

text \<open>A string field of an item; \<open>strategy_ids\<close> has checked the ids and policies before any use.\<close>

definition str_field :: "string \<Rightarrow> pyval \<Rightarrow> string res" where
  "str_field key item =
     rbind (vindex item key) (\<lambda>v. case v of PStr s \<Rightarrow> Inr s | _ \<Rightarrow> Inl TypeError)"

definition strategy_policy_map :: "registry \<Rightarrow> (string \<times> string) list res" where
  "strategy_policy_map registry =
     rbind (raw_strategies registry) (\<lambda>items.
       rfoldM (\<lambda>result item.
         rbind (str_field ''device_descriptor_policy'' item) (\<lambda>policy.
         rbind (str_field ''id'' item) (\<lambda>i. Inr (dict_set i policy result)))) [] items)"

definition batched_strategies :: "string \<Rightarrow> registry \<Rightarrow> string list res" where
  "batched_strategies flag registry =
     rbind (raw_strategies registry) (\<lambda>items.
     rbind (rmapM (\<lambda>item. rbind (vindex item flag) (\<lambda>v.
       if truthy v then rbind (str_field ''id'' item) (\<lambda>i. Inr [i]) else Inr [])) items)
     (\<lambda>parts. Inr (concat parts)))"

definition batched_exact_wide_strategies :: "registry \<Rightarrow> string list res" where
  "batched_exact_wide_strategies = batched_strategies ''batched_exact_wide_export''"

definition batched_bounded_strategies :: "registry \<Rightarrow> string list res" where
  "batched_bounded_strategies = batched_strategies ''batched_bounded_export''"

definition batched_finite_strategies :: "registry \<Rightarrow> string list res" where
  "batched_finite_strategies = batched_strategies ''batched_finite_export''"

section \<open>Kernel groups\<close>

text \<open>\<open>sorted(d.items())\<close>: the keys are distinct, so the values never decide the order.\<close>

definition sorted_items :: "(string \<times> 'v) list \<Rightarrow> (string \<times> 'v) list" where
  "sorted_items d = sort_key fst d"

text \<open>The checks both group functions share, group by group.\<close>

definition group_strings :: "string \<Rightarrow> string \<times> pyval \<Rightarrow> (string \<times> string list) res" where
  "group_strings path p = (case p of (grp, vs) \<Rightarrow>
     rthen (check (grp = []) (MetadataRegistryError (path @ '' keys must be nonempty strings'')))
     (rthen (check (\<not> is_list vs)
       (MetadataRegistryError (path @ ''.'' @ grp @ '' must be a list'')))
     (rthen (check (\<not> list_all is_nonempty_str (elems_of vs))
       (MetadataRegistryError (path @ ''.'' @ grp @ '' must contain only nonempty strings'')))
     (rthen (require_unique (map str_of (elems_of vs)) (path @ ''.'' @ grp))
     (Inr (grp, map str_of (elems_of vs)))))))"

definition set_minus :: "string list \<Rightarrow> string list \<Rightarrow> string list" where
  "set_minus xs ys = sorted_set (filter (\<lambda>x. x \<notin> set ys) xs)"

definition kernel_groups :: "registry \<Rightarrow> (string \<times> string list) list res" where
  "kernel_groups registry =
     rbind (dindex registry ''kernels'') (\<lambda>kernels.
     rthen (check (\<not> is_dict (dget kernels ''selected_kernel_groups''))
       (MetadataRegistryError ''kernels.selected_kernel_groups must be an object''))
     (rbind (require_string_list kernels ''selected_kernels'' ''kernels'') (\<lambda>selected.
     rmapM (\<lambda>p. rbind (group_strings ''kernels.selected_kernel_groups'' p) (\<lambda>(grp, vs).
         rthen (check (set_minus vs selected \<noteq> [])
           (MetadataRegistryError (''kernels.selected_kernel_groups.'' @ grp @
              '' references unknown kernels: '' @ repr_strs (set_minus vs selected))))
         (Inr (grp, vs))))
       (sorted_items (items_of (dget kernels ''selected_kernel_groups''))))))"

definition export_kernel_groups :: "registry \<Rightarrow> (string \<times> string list) list res" where
  "export_kernel_groups registry =
     rbind (dindex registry ''kernels'') (\<lambda>kernels.
     rthen (check (\<not> is_dict (dget kernels ''export_kernel_groups''))
       (MetadataRegistryError ''kernels.export_kernel_groups must be an object''))
     (rmapM (group_strings ''kernels.export_kernel_groups'')
       (sorted_items (items_of (dget kernels ''export_kernel_groups'')))))"

section \<open>Reducers\<close>

definition generated_reducer_identities :: "registry \<Rightarrow> string list res" where
  "generated_reducer_identities registry =
     rbind (dindex registry ''epilogues'') (\<lambda>epilogues.
     require_string_list epilogues ''generated_reducer_identities'' ''epilogues'')"

definition generated_reducer_identity_patterns ::
  "(string \<Rightarrow> string option) \<Rightarrow> registry \<Rightarrow> string list res" where
  "generated_reducer_identity_patterns re_error registry =
     rbind (dindex registry ''epilogues'') (\<lambda>epilogues.
     rbind (require_string_list epilogues ''generated_reducer_identity_patterns'' ''epilogues'')
       (\<lambda>patterns.
     rthen (rforM (\<lambda>(index, pattern). case re_error pattern of
              None \<Rightarrow> Inr ()
            | Some exc \<Rightarrow> Inl (MetadataRegistryError (
                ''epilogues.generated_reducer_identity_patterns['' @ show_nat index @
                ''] is not a valid regex: '' @ exc))) (enumerate 0 patterns))
     (Inr patterns)))"

definition known_reference :: "string \<Rightarrow> string list \<Rightarrow> string \<Rightarrow> pyval \<Rightarrow> unit res" where
  "known_reference family_id known kind v =
     rbind (in_str_set v known) (\<lambda>known.
     check (\<not> known) (MetadataRegistryError (''reducer family '' @ family_id @
       '' references unknown '' @ kind @ '' '' @ py_str v)))"

definition family_label :: "nat \<Rightarrow> string" where
  "family_label index = ''epilogues.reducer_families['' @ show_nat index @ '']''"

definition reducer_family ::
  "string list \<Rightarrow> string list \<Rightarrow> string list \<Rightarrow> string list \<Rightarrow> nat \<times> pyval \<Rightarrow> pydict res" where
  "reducer_family epilogue_types backend_modes reducer_identities selected_kernels p =
     (case p of (index, item) \<Rightarrow>
     let bad = (\<lambda>t. MetadataRegistryError (family_label index @ t));
         family_id = str_of (vget item ''id''); examples = vget item ''selected_kernel_examples'';
         names = map str_of (elems_of examples) in
     rthen (check (\<not> is_dict item) (bad '' must be an object''))
     (rthen (check (\<not> is_nonempty_str (vget item ''id'')) (bad ''.id must be a nonempty string''))
     (rthen (known_reference family_id epilogue_types ''epilogue_type'' (vget item ''epilogue_type''))
     (rthen (known_reference family_id backend_modes ''backend_epilogue_mode''
       (vget item ''backend_epilogue_mode''))
     (rthen (known_reference family_id reducer_identities ''generated_reducer_identity''
       (vget item ''generated_reducer_identity''))
     (rthen (rforM (\<lambda>key. check (\<not> is_nonempty_str (vget item key))
         (bad (''.'' @ key @ '' must be a nonempty string'')))
       [''generated_reducer_identity_pattern'', ''generated_helper'', ''isa_evidence''])
     (rthen (check (\<not> is_list examples \<or> \<not> list_all is_nonempty_str (elems_of examples))
       (bad ''.selected_kernel_examples must be a nonempty string list''))
     (rthen (check (elems_of examples = []) (bad ''.selected_kernel_examples must not be empty''))
     (rthen (require_unique names (family_label index @ ''.selected_kernel_examples''))
     (rthen (check (set_minus names selected_kernels \<noteq> [])
       (MetadataRegistryError (''reducer family '' @ family_id @ '' references unknown kernels: ''
          @ repr_strs (set_minus names selected_kernels))))
     (Inr (items_of item))))))))))))"

definition reducer_families :: "registry \<Rightarrow> pydict list res" where
  "reducer_families registry =
     rbind (dindex registry ''epilogues'') (\<lambda>epilogues.
     rbind (require_list epilogues ''reducer_families'' ''epilogues'') (\<lambda>families.
     rbind (require_string_list epilogues ''epilogue_types'' ''epilogues'') (\<lambda>epilogue_types.
     rbind (require_string_list epilogues ''backend_epilogue_modes'' ''epilogues'') (\<lambda>backend_modes.
     rbind (generated_reducer_identities registry) (\<lambda>reducer_identities.
     rbind (dindex registry ''kernels'') (\<lambda>kernels.
     rbind (require_string_list kernels ''selected_kernels'' ''kernels'') (\<lambda>selected_kernels.
     rbind (rmapM (reducer_family epilogue_types backend_modes reducer_identities selected_kernels)
       (enumerate 0 families)) (\<lambda>result.
     rthen (require_unique (map (\<lambda>item. str_of (dget item ''id'')) result)
       ''epilogues.reducer_families'')
     (Inr result)))))))))"

section \<open>Validation\<close>

definition BENCHMARK_LISTS :: "string list" where
  "BENCHMARK_LISTS =
     [''bound_sources'', ''bound_discovery_sources'', ''bound_kinds'', ''pack_modes'',
      ''next_op_hints'', ''fusion_modes'', ''reuse_operand_roles'',
      ''graph_replay_statuses'', ''streaming_overlap_statuses'',
      ''workload_proxy_families'', ''selector_rejection_reasons'',
      ''prepack_reuse_strategies'', ''contract_prefix_policies'', ''bounded_semantics'',
      ''exact_wide_semantics'', ''finite_u8_semantics'', ''rns_prefix_semantics'',
      ''non_rns_prefix_semantics'', ''hip_resident_backends'',
      ''current_correctness_backends'', ''backend_requested_values'',
      ''backend_selected_values'']"

definition DESCRIPTOR_LISTS :: "string list" where
  "DESCRIPTOR_LISTS =
     [''descriptor_layouts'', ''bucket_policies'', ''source_version_policies'',
      ''workspace_policies'', ''checksum_policies'', ''status_policies'',
      ''device_descriptor_policies'']"

definition EVENT_LISTS :: "string list" where
  "EVENT_LISTS =
     [''timing_phases'', ''direct_hip_core_events'', ''grouped_dispatch_events'',
      ''vector_alu_events'', ''hipblaslt_events'', ''accelerator_events'',
      ''gpu_event_source_scopes'', ''direct_hip_gpu_event_scopes'',
      ''hipblaslt_gpu_event_scopes'', ''accelerator_gpu_event_scopes'',
      ''vector_alu_gpu_event_scopes'', ''ck_deep_gpu_event_labels'',
      ''rocwmma_deep_gpu_event_labels'', ''amdgpu_builtin_deep_gpu_event_labels'']"

definition OUTPUT_LISTS :: "string list" where
  "OUTPUT_LISTS =
     [''destination_layouts'', ''status_handling'', ''output_contract_domains'',
      ''direct_hip_export_staging_policies'', ''pack_layouts'', ''residue_group_layouts'',
      ''target_namespaces'']"

definition CLAIM_LISTS :: "string list" where
  "CLAIM_LISTS =
     [''comparison_baseline_statuses'', ''release_gate_review_statuses'',
      ''scenario_review_modes'', ''promotion_scopes'', ''target_claim_labels'']"

text \<open>A list that is only checked, its value dropped.\<close>

definition check_string_list :: "pydict \<Rightarrow> string \<Rightarrow> string \<Rightarrow> unit res" where
  "check_string_list document path key = rthen (require_string_list document key path) (Inr ())"

definition check_versions :: "registry \<Rightarrow> unit res" where
  "check_versions registry =
     rforM (\<lambda>(key, document). check (\<not> py_eq (dget document ''schema_version'') (PInt 1))
       (MetadataRegistryError (key @ ''.schema_version must be 1''))) registry"

definition validate_benchmark :: "registry \<Rightarrow> unit res" where
  "validate_benchmark registry =
     rbind (dindex registry ''benchmark_modes'') (\<lambda>benchmark.
     rthen (rforM (check_string_list benchmark ''benchmark_modes'')
       ([''benchmark_execution_modes''] @ BENCHMARK_LISTS @ [''grouped_dispatch_statuses'']))
     (rbind (strategy_ids registry) (\<lambda>ids.
     rthen (check (\<not> is_dict (dget benchmark ''grouped_task_descriptor''))
       (MetadataRegistryError ''benchmark_modes.grouped_task_descriptor must be an object''))
     (let descriptor = items_of (dget benchmark ''grouped_task_descriptor'') in
     rthen (rforM (check_string_list descriptor ''benchmark_modes.grouped_task_descriptor'')
       DESCRIPTOR_LISTS)
     (rbind (strategy_policy_map registry) (\<lambda>policies.
     rthen (rforM (\<lambda>(strategy, policy).
         check (policy \<notin> set (map str_of (elems_of (dget descriptor ''device_descriptor_policies''))))
           (MetadataRegistryError (''grouped strategy '' @ strategy @
              '' references unknown descriptor policy '' @ policy))) policies)
     (check (''not_requested'' \<notin> set ids)
       (MetadataRegistryError ''grouped strategies must include not_requested''))))))))"

definition validate_outputs_events :: "registry \<Rightarrow> unit res" where
  "validate_outputs_events registry =
     rbind (dindex registry ''output_policies'') (\<lambda>output.
     rthen (rforM (check_string_list output ''output_policies'') OUTPUT_LISTS)
     (rthen (require_string_list_gen True output ''placeholder_gpu_target_ids'' ''output_policies'')
     (rbind (dindex registry ''event_phases'') (\<lambda>event.
     rforM (check_string_list event ''event_phases'') EVENT_LISTS))))"

definition validate_kernels_claims ::
  "(string \<Rightarrow> string option) \<Rightarrow> registry \<Rightarrow> unit res" where
  "validate_kernels_claims re_error registry =
     rbind (dindex registry ''epilogues'') (\<lambda>epilogues.
     rthen (rforM (check_string_list epilogues ''epilogues'')
       [''epilogue_types'', ''backend_epilogue_modes''])
     (rthen (generated_reducer_identities registry)
     (rthen (generated_reducer_identity_patterns re_error registry)
     (rthen (reducer_families registry)
     (rbind (dindex registry ''workspace_modes'') (\<lambda>workspace.
     rthen (check_string_list workspace ''workspace_modes'' ''workspace_modes'')
     (rbind (dindex registry ''kernels'') (\<lambda>kernels.
     rthen (check_string_list kernels ''kernels'' ''selected_kernels'')
     (rthen (kernel_groups registry)
     (rthen (export_kernel_groups registry)
     (rbind (dindex registry ''claim_labels'') (\<lambda>claim.
     rforM (check_string_list claim ''claim_labels'') CLAIM_LISTS))))))))))))"

definition validate_registry :: "(string \<Rightarrow> string option) \<Rightarrow> registry \<Rightarrow> unit res" where
  "validate_registry re_error registry =
     rthen (check_versions registry)
     (rthen (validate_benchmark registry)
     (rthen (validate_outputs_events registry)
     (validate_kernels_claims re_error registry)))"

section \<open>Rendering\<close>

definition NL :: string where
  "NL = [CHR 0x0A]"

definition python_repr_set :: "string list \<Rightarrow> string" where
  "python_repr_set xs =
     (let inner = join_with (CHR '','' # NL) (map (\<lambda>v. ''    '' @ repr_str v) (sort xs))
      in ''{'' @ NL @ inner @ (if inner = [] then [] else CHR '','' # NL) @ ''}'')"

definition python_repr_dict :: "(string \<times> string) list \<Rightarrow> string" where
  "python_repr_dict d =
     (let inner = join_with (CHR '','' # NL)
            (map (\<lambda>(key, v). ''    '' @ repr_str key @ '': '' @ repr_str v) (sorted_items d))
      in ''{'' @ NL @ inner @ (if inner = [] then [] else CHR '','' # NL) @ ''}'')"

text \<open>
  \<open>str.isalnum\<close> and \<open>str.upper\<close> on the code points below 256 (the micro sign and y-diaeresis,
  whose capitals lie above, are left as they are).
\<close>

definition is_alnum :: "char \<Rightarrow> bool" where
  "is_alnum c = (let n = code c in
     (48 \<le> n \<and> n \<le> 57) \<or> (65 \<le> n \<and> n \<le> 90) \<or> (97 \<le> n \<and> n \<le> 122) \<or>
     n \<in> {170, 178, 179, 181, 185, 186, 188, 189, 190} \<or>
     (192 \<le> n \<and> n \<noteq> 215 \<and> n \<noteq> 247))"

definition upper_char :: "char \<Rightarrow> string" where
  "upper_char c = (let n = code c in
     if (97 \<le> n \<and> n \<le> 122) \<or> (224 \<le> n \<and> n \<noteq> 247 \<and> n \<noteq> 255) then [char_of (n - 32)]
     else if n = 223 then ''SS'' else [c])"

text \<open>\<open>s.replace("__", "_")\<close>: one pass, left to right, without overlaps.\<close>

fun replace_double :: "string \<Rightarrow> string" where
  "replace_double (a # b # cs) =
     (if a = CHR ''_'' \<and> b = CHR ''_'' then CHR ''_'' # replace_double cs
      else a # replace_double (b # cs))"
| "replace_double cs = cs"

lemma replace_double_length: "length (replace_double s) \<le> length s"
  by (induction s rule: replace_double.induct) auto

lemma replace_double_shorter:
  "contains ''__'' s \<Longrightarrow> length (replace_double s) < length s"
proof (induction s rule: replace_double.induct)
  case (1 a b cs)
  then show ?case using replace_double_length [of cs] by (auto simp: le_imp_less_Suc)
qed auto

function squeeze :: "string \<Rightarrow> string" where
  "squeeze suffix = (if contains ''__'' suffix then squeeze (replace_double suffix) else suffix)"
  by pat_completeness auto
termination
  by (relation "measure length") (auto simp: replace_double_shorter)

declare squeeze.simps [simp del]

definition strip_underscores :: "string \<Rightarrow> string" where
  "strip_underscores s =
     rev (dropWhile (\<lambda>c. c = CHR ''_'') (rev (dropWhile (\<lambda>c. c = CHR ''_'') s)))"

definition suffix_chars :: "string \<Rightarrow> string" where
  "suffix_chars s = concat (map (\<lambda>c. if is_alnum c then upper_char c else ''_'') s)"

definition constant_suffix :: "string \<Rightarrow> string" where
  "constant_suffix s = strip_underscores (squeeze (suffix_chars s))"

text \<open>
  A list of names read back from a document. \<open>validate_registry\<close> runs first in \<open>main\<close>, so the
  lists hold strings; a list of something else counts as the \<open>TypeError\<close> of a failing sort.
\<close>

definition str_items :: "pyval \<Rightarrow> string list res" where
  "str_items v = (case v of PList xs \<Rightarrow> if list_all is_str xs then Inr (map str_of xs) else Inl TypeError
     | _ \<Rightarrow> Inl TypeError)"

definition val_strings :: "pyval \<Rightarrow> string \<Rightarrow> string list res" where
  "val_strings v key = rbind (vindex v key) str_items"

definition doc_strings :: "pydict \<Rightarrow> string \<Rightarrow> string list res" where
  "doc_strings d key = rbind (dindex d key) str_items"

definition group_union :: "(string \<times> string list) list \<Rightarrow> string \<Rightarrow> string \<Rightarrow> string list res" where
  "group_union groups a b =
     rbind (dindex groups a) (\<lambda>xs. rbind (dindex groups b) (\<lambda>ys. Inr (sorted_set (xs @ ys))))"

definition reducer_family_ids :: "registry \<Rightarrow> string list res" where
  "reducer_family_ids registry =
     rbind (reducer_families registry) (\<lambda>fs. Inr (map (\<lambda>item. str_of (dget item ''id'')) fs))"

definition constant_line :: "string \<Rightarrow> string \<Rightarrow> string" where
  "constant_line name rhs = name @ '' = '' @ rhs"

definition set_line :: "string \<Rightarrow> string list res \<Rightarrow> string res" where
  "set_line name m = rbind m (\<lambda>xs. Inr (constant_line name (python_repr_set xs)))"

text \<open>The lines of \<open>generated\<close>, each a run that may raise; the list is built from left to right.\<close>

definition python_constant_runs ::
  "(string \<Rightarrow> string option) \<Rightarrow> registry \<Rightarrow> pydict \<Rightarrow> pyval \<Rightarrow> pydict \<Rightarrow> pydict \<Rightarrow> pydict \<Rightarrow> pydict \<Rightarrow>
   (string \<times> string list) list \<Rightarrow> (string \<times> string list) list \<Rightarrow> pydict \<Rightarrow> string list \<Rightarrow>
   string res list" where
  "python_constant_runs re_error registry benchmark descriptor outputs event epilogues kernels
     kgroups egroups claim strategies =
     [set_line ''BENCHMARK_EXECUTION_MODES'' (doc_strings benchmark ''benchmark_execution_modes''),
      set_line ''BOUND_SOURCES'' (doc_strings benchmark ''bound_sources''),
      set_line ''BOUND_DISCOVERY_SOURCES'' (doc_strings benchmark ''bound_discovery_sources''),
      set_line ''BOUND_KINDS'' (doc_strings benchmark ''bound_kinds''),
      set_line ''PACK_MODES'' (doc_strings benchmark ''pack_modes''),
      set_line ''NEXT_OP_HINTS'' (doc_strings benchmark ''next_op_hints''),
      set_line ''FUSION_MODES'' (doc_strings benchmark ''fusion_modes''),
      set_line ''REUSE_OPERAND_ROLES'' (doc_strings benchmark ''reuse_operand_roles''),
      set_line ''GRAPH_REPLAY_STATUSES'' (doc_strings benchmark ''graph_replay_statuses''),
      set_line ''STREAMING_OVERLAP_STATUSES'' (doc_strings benchmark ''streaming_overlap_statuses''),
      set_line ''WORKLOAD_PROXY_FAMILIES'' (doc_strings benchmark ''workload_proxy_families''),
      set_line ''SELECTOR_REJECTION_REASONS'' (doc_strings benchmark ''selector_rejection_reasons''),
      set_line ''PREPACK_REUSE_STRATEGIES'' (doc_strings benchmark ''prepack_reuse_strategies''),
      set_line ''CONTRACT_PREFIX_POLICIES'' (doc_strings benchmark ''contract_prefix_policies''),
      set_line ''BOUNDED_SEMANTICS'' (doc_strings benchmark ''bounded_semantics''),
      set_line ''EXACT_WIDE_SEMANTICS'' (doc_strings benchmark ''exact_wide_semantics''),
      set_line ''FINITE_U8_SEMANTICS'' (doc_strings benchmark ''finite_u8_semantics''),
      set_line ''RNS_PREFIX_SEMANTICS'' (doc_strings benchmark ''rns_prefix_semantics''),
      set_line ''NON_RNS_PREFIX_SEMANTICS'' (doc_strings benchmark ''non_rns_prefix_semantics''),
      set_line ''HIP_RESIDENT_BACKENDS'' (doc_strings benchmark ''hip_resident_backends''),
      set_line ''CURRENT_CORRECTNESS_BACKENDS'' (doc_strings benchmark ''current_correctness_backends''),
      set_line ''BACKEND_REQUESTED_VALUES'' (doc_strings benchmark ''backend_requested_values''),
      set_line ''BACKEND_SELECTED_VALUES'' (doc_strings benchmark ''backend_selected_values''),
      set_line ''GROUPED_DISPATCH_STATUSES'' (doc_strings benchmark ''grouped_dispatch_statuses''),
      set_line ''GROUPED_DISPATCH_EXECUTION_STRATEGIES'' (Inr strategies),
      set_line ''GROUPED_DISPATCH_BATCHED_EXACT_WIDE_EXPORT_STRATEGIES'' (batched_exact_wide_strategies registry),
      set_line ''GROUPED_DISPATCH_BATCHED_BOUNDED_EXPORT_STRATEGIES'' (batched_bounded_strategies registry),
      set_line ''GROUPED_DISPATCH_BATCHED_FINITE_EXPORT_STRATEGIES'' (batched_finite_strategies registry),
      set_line ''GROUPED_TASK_DESCRIPTOR_LAYOUTS'' (val_strings descriptor ''descriptor_layouts''),
      set_line ''GROUPED_TASK_BUCKET_POLICIES'' (val_strings descriptor ''bucket_policies''),
      set_line ''GROUPED_TASK_SOURCE_VERSION_POLICIES'' (val_strings descriptor ''source_version_policies''),
      set_line ''GROUPED_TASK_WORKSPACE_POLICIES'' (val_strings descriptor ''workspace_policies''),
      set_line ''GROUPED_TASK_MATRIX_OWNERSHIP_POLICIES'' (val_strings descriptor ''matrix_ownership_policies''),
      set_line ''GROUPED_TASK_DESCRIPTOR_REUSE_POLICIES'' (val_strings descriptor ''descriptor_reuse_policies''),
      set_line ''GROUPED_TASK_STRIDE_POLICIES'' (val_strings descriptor ''stride_policies''),
      set_line ''GROUPED_TASK_OUTPUT_CURRENTNESS_POLICIES'' (val_strings descriptor ''output_currentness_policies''),
      set_line ''GROUPED_TASK_LIFETIME_POLICIES'' (val_strings descriptor ''lifetime_policies''),
      set_line ''GROUPED_TASK_CHECKSUM_POLICIES'' (val_strings descriptor ''checksum_policies''),
      set_line ''GROUPED_TASK_STATUS_POLICIES'' (val_strings descriptor ''status_policies''),
      set_line ''GROUPED_TASK_DEVICE_DESCRIPTOR_POLICIES'' (val_strings descriptor ''device_descriptor_policies''),
      rbind (strategy_policy_map registry) (\<lambda>m. Inr (constant_line ''GROUPED_STRATEGY_DEVICE_DESCRIPTOR_POLICIES'' (python_repr_dict m))),
      set_line ''OUTPUT_DESTINATION_LAYOUTS'' (doc_strings outputs ''destination_layouts''),
      set_line ''STATUS_HANDLING'' (doc_strings outputs ''status_handling''),
      set_line ''OUTPUT_CONTRACT_DOMAINS'' (doc_strings outputs ''output_contract_domains''),
      set_line ''DIRECT_HIP_EXPORT_STAGING_POLICIES'' (doc_strings outputs ''direct_hip_export_staging_policies''),
      set_line ''PACK_LAYOUTS'' (doc_strings outputs ''pack_layouts''),
      set_line ''RESIDUE_GROUP_LAYOUTS'' (doc_strings outputs ''residue_group_layouts''),
      set_line ''TARGET_NAMESPACES'' (doc_strings outputs ''target_namespaces''),
      set_line ''PLACEHOLDER_GPU_TARGET_IDS'' (doc_strings outputs ''placeholder_gpu_target_ids''),
      set_line ''TIMING_PHASES'' (doc_strings event ''timing_phases''),
      set_line ''DIRECT_HIP_CORE_EVENTS'' (doc_strings event ''direct_hip_core_events''),
      set_line ''GROUPED_DISPATCH_EVENTS'' (doc_strings event ''grouped_dispatch_events''),
      set_line ''VECTOR_ALU_GPU_EVENT_LABELS'' (doc_strings event ''vector_alu_events''),
      set_line ''HIPBLASLT_GPU_EVENT_LABELS'' (doc_strings event ''hipblaslt_events''),
      set_line ''ACCELERATOR_GPU_EVENT_LABELS'' (doc_strings event ''accelerator_events''),
      set_line ''GPU_EVENT_SOURCE_SCOPES'' (doc_strings event ''gpu_event_source_scopes''),
      set_line ''DIRECT_HIP_GPU_EVENT_SCOPES'' (doc_strings event ''direct_hip_gpu_event_scopes''),
      set_line ''HIPBLASLT_GPU_EVENT_SCOPES'' (doc_strings event ''hipblaslt_gpu_event_scopes''),
      set_line ''ACCELERATOR_GPU_EVENT_SCOPES'' (doc_strings event ''accelerator_gpu_event_scopes''),
      set_line ''VECTOR_ALU_GPU_EVENT_SCOPES'' (doc_strings event ''vector_alu_gpu_event_scopes''),
      set_line ''CK_DEEP_GPU_EVENT_LABELS'' (doc_strings event ''ck_deep_gpu_event_labels''),
      set_line ''ROCWMMA_DEEP_GPU_EVENT_LABELS'' (doc_strings event ''rocwmma_deep_gpu_event_labels''),
      set_line ''AMDGPU_BUILTIN_DEEP_GPU_EVENT_LABELS'' (doc_strings event ''amdgpu_builtin_deep_gpu_event_labels''),
      set_line ''EPILOGUE_TYPES'' (doc_strings epilogues ''epilogue_types''),
      set_line ''BACKEND_EPILOGUE_MODES'' (doc_strings epilogues ''backend_epilogue_modes''),
      set_line ''GENERATED_REDUCER_IDENTITIES'' (generated_reducer_identities registry),
      set_line ''GENERATED_REDUCER_IDENTITY_PATTERNS'' (generated_reducer_identity_patterns re_error registry),
      set_line ''REDUCER_FAMILIES'' (reducer_family_ids registry),
      set_line ''SELECTED_KERNELS'' (doc_strings kernels ''selected_kernels''),
      set_line ''VECTOR_ALU_SELECTED_KERNELS'' (dindex kgroups ''vector_alu''),
      set_line ''CK_SELECTED_KERNELS'' (dindex kgroups ''ck''),
      set_line ''ROCWMMA_SELECTED_KERNELS'' (dindex kgroups ''rocwmma''),
      set_line ''BOUNDED_I64_EXPORT_KERNELS'' (dindex egroups ''bounded_i64''),
      set_line ''BOUNDED_U64_EXPORT_KERNELS'' (dindex egroups ''bounded_u64''),
      set_line ''BOUNDED_EXPORT_KERNELS'' (group_union egroups ''bounded_i64'' ''bounded_u64''),
      set_line ''EXACT_WIDE_SIGNED_EXPORT_KERNELS'' (dindex egroups ''exact_wide_signed''),
      set_line ''EXACT_WIDE_UNSIGNED_EXPORT_KERNELS'' (dindex egroups ''exact_wide_unsigned''),
      set_line ''EXACT_WIDE_EXPORT_KERNELS'' (group_union egroups ''exact_wide_signed'' ''exact_wide_unsigned''),
      set_line ''COMPARISON_BASELINE_STATUSES'' (doc_strings claim ''comparison_baseline_statuses''),
      set_line ''RELEASE_GATE_REVIEW_STATUSES'' (doc_strings claim ''release_gate_review_statuses''),
      set_line ''SCENARIO_REVIEW_MODES'' (doc_strings claim ''scenario_review_modes''),
      set_line ''PROMOTION_SCOPES'' (doc_strings claim ''promotion_scopes''),
      set_line ''TARGET_CLAIM_LABELS'' (doc_strings claim ''target_claim_labels'')]"

definition render_python_constants ::
  "(string \<Rightarrow> string option) \<Rightarrow> registry \<Rightarrow> string res" where
  "render_python_constants re_error registry =
     rbind (dindex registry ''benchmark_modes'') (\<lambda>benchmark.
     rbind (dindex benchmark ''grouped_task_descriptor'') (\<lambda>descriptor.
     rbind (dindex registry ''output_policies'') (\<lambda>outputs.
     rbind (dindex registry ''event_phases'') (\<lambda>event.
     rbind (dindex registry ''epilogues'') (\<lambda>epilogues.
     rbind (dindex registry ''kernels'') (\<lambda>kernels.
     rbind (kernel_groups registry) (\<lambda>kgroups.
     rbind (export_kernel_groups registry) (\<lambda>egroups.
     rbind (dindex registry ''claim_labels'') (\<lambda>claim.
     rbind (strategy_ids registry) (\<lambda>strategies.
     rbind (rmapM (\<lambda>run. run) (python_constant_runs re_error registry benchmark descriptor
        outputs event epilogues kernels kgroups egroups claim strategies)) (\<lambda>lines.
     let generated =
           [''# Generated by tools/metadata_registry.py. Do not edit by hand.'',
            ''from __future__ import annotations'', []] @ lines @ [[]];
         strategy_constants =
           map (\<lambda>strategy. ''GROUPED_DISPATCH_STRATEGY_'' @ constant_suffix strategy @ '' = '' @
             repr_str strategy) (sort strategies)
     in Inr (join_with NL
          (generated @ (if strategy_constants = [] then [] else strategy_constants @ [[]])))
     )))))))))))"

definition cpp_array :: "string \<Rightarrow> string list \<Rightarrow> string" where
  "cpp_array name xs =
     ''inline constexpr std::array<std::string_view, '' @ show_nat (length xs) @ ''> '' @ name @
     ''{{'' @ NL @
     join_with (CHR '','' # NL) (map (\<lambda>v. ''    '' @ [CHR 0x22] @ v @ [CHR 0x22]) (sort xs)) @ NL @
     ''}};'' @ NL"

definition array_run :: "string \<Rightarrow> string list res \<Rightarrow> string res" where
  "array_run name m = rbind m (\<lambda>xs. Inr (cpp_array name xs))"

definition render_cpp_header :: "registry \<Rightarrow> string res" where
  "render_cpp_header registry =
     rbind (dindex registry ''benchmark_modes'') (\<lambda>benchmark.
     rbind (dindex benchmark ''grouped_task_descriptor'') (\<lambda>descriptor.
     rbind (dindex registry ''output_policies'') (\<lambda>outputs.
     rbind (dindex registry ''event_phases'') (\<lambda>event.
     rbind (dindex registry ''epilogues'') (\<lambda>epilogues.
     rbind (dindex registry ''kernels'') (\<lambda>kernels.
     rbind (export_kernel_groups registry) (\<lambda>egroups.
     rbind (group_union egroups ''bounded_i64'' ''bounded_u64'') (\<lambda>bounded_export_kernels.
     rbind (group_union egroups ''exact_wide_signed'' ''exact_wide_unsigned'')
       (\<lambda>exact_wide_export_kernels.
     rbind (rmapM (\<lambda>run. run)
       [array_run ''benchmark_execution_modes'' (doc_strings benchmark ''benchmark_execution_modes''),
        array_run ''grouped_dispatch_statuses'' (doc_strings benchmark ''grouped_dispatch_statuses''),
        array_run ''grouped_dispatch_execution_strategies'' (strategy_ids registry),
        array_run ''grouped_task_device_descriptor_policies''
          (val_strings descriptor ''device_descriptor_policies''),
        array_run ''output_destination_layouts'' (doc_strings outputs ''destination_layouts''),
        array_run ''status_handling_modes'' (doc_strings outputs ''status_handling''),
        array_run ''output_contract_domains'' (doc_strings outputs ''output_contract_domains''),
        array_run ''pack_layouts'' (doc_strings outputs ''pack_layouts''),
        array_run ''gpu_event_source_scopes'' (doc_strings event ''gpu_event_source_scopes''),
        array_run ''epilogue_types'' (doc_strings epilogues ''epilogue_types''),
        array_run ''backend_epilogue_modes'' (doc_strings epilogues ''backend_epilogue_modes''),
        array_run ''generated_reducer_identities'' (generated_reducer_identities registry),
        array_run ''selected_kernels'' (doc_strings kernels ''selected_kernels''),
        array_run ''bounded_export_kernels'' (Inr bounded_export_kernels),
        array_run ''exact_wide_export_kernels'' (Inr exact_wide_export_kernels)]) (\<lambda>arrays.
     Inr (join_with NL
       ([''// Generated by tools/metadata_registry.py. Do not edit by hand.'', ''#pragma once'', [],
         ''#include <array>'', ''#include <string_view>'', [],
         ''namespace rns8::generated_metadata {'', []] @ arrays @
        [[], ''}  // namespace rns8::generated_metadata'', []]))))))))))))"

section \<open>The generated files\<close>

text \<open>
  A text file holds the characters written to it (\<open>newline="\n"\<close> writes them as they are);
  reading translates carriage returns, alone or before a line feed, into line feeds.
\<close>

fun universal_newlines :: "string \<Rightarrow> string" where
  "universal_newlines [] = []"
| "universal_newlines (c # cs) =
     (if c = CHR 0x0D
      then CHR 0x0A # (case cs of [] \<Rightarrow> [] | d # ds \<Rightarrow>
             if d = CHR 0x0A then universal_newlines ds else universal_newlines cs)
      else c # universal_newlines cs)"

record generated_files =
  python_constants_file :: "string option"
  cpp_header_file :: "string option"

definition write_if_changed :: "string option \<Rightarrow> string \<Rightarrow> string option \<times> bool" where
  "write_if_changed file content =
     (if map_option universal_newlines file = Some content then (file, False) else (Some content, True))"

definition check_generated :: "string \<Rightarrow> string option \<Rightarrow> string \<Rightarrow> string list" where
  "check_generated path file expected =
     (case file of
        None \<Rightarrow> [''missing generated file: '' @ path]
      | Some content \<Rightarrow>
          if universal_newlines content \<noteq> expected
          then [''stale generated file: '' @ path @ ''; run python tools'' @ [CHR 0x5C] @
                ''metadata_registry.py --write-generated'']
          else [])"

text \<open>\<open>main\<close>: the exit status, the printed lines and the two files afterwards.\<close>

definition registry_main ::
  "(string \<Rightarrow> string option) \<Rightarrow> string \<Rightarrow> (string \<Rightarrow> json_file) \<Rightarrow> string \<Rightarrow> string \<Rightarrow> bool \<Rightarrow>
   generated_files \<Rightarrow> (int \<times> string list \<times> generated_files) res" where
  "registry_main re_error metadata_dir read python_path cpp_path write_generated files =
     rbind (load_registry metadata_dir read) (\<lambda>registry.
     rthen (validate_registry re_error registry)
     (rbind (render_python_constants re_error registry) (\<lambda>python_constants.
     rbind (render_cpp_header registry) (\<lambda>cpp_header.
     if write_generated
     then let (py, py_changed) = write_if_changed (python_constants_file files) python_constants;
              (cpp, cpp_changed) = write_if_changed (cpp_header_file files) cpp_header
          in Inr (0, [if py_changed \<or> cpp_changed
                      then ''metadata registry generated files updated''
                      else ''metadata registry generated files unchanged''],
                  \<lparr>python_constants_file = py, cpp_header_file = cpp\<rparr>)
     else let errors = check_generated python_path (python_constants_file files) python_constants @
                       check_generated cpp_path (cpp_header_file files) cpp_header
          in if errors \<noteq> [] then Inr (1, errors, files)
             else Inr (0, [''metadata registry: PASS''], files)))))"


section \<open>What validation guarantees\<close>

lemma duplicates_from_Nil:
  "duplicates_from seen dups xs = [] \<longleftrightarrow> dups = [] \<and> distinct xs \<and> set xs \<inter> set seen = {}"
  by (induction seen dups xs rule: duplicates_from.induct) auto

lemma require_unique_iff [res_simps]: "require_unique xs path = Inr u \<longleftrightarrow> distinct xs"
  by (simp add: require_unique_def Let_def check_eq_Inr duplicates_from_Nil)

lemma require_list_iff [res_simps]:
  "require_list d k path = Inr vs \<longleftrightarrow> map_of d k = Some (PList vs)"
  by (auto simp: require_list_def dget_def split: pyval.splits option.splits)

lemma all_str_map: "list_all is_str vs \<Longrightarrow> vs = map PStr (map str_of vs)"
  by (induction vs) (auto simp: is_str_iff)

definition names_field :: "pydict \<Rightarrow> string \<Rightarrow> string list \<Rightarrow> bool" where
  "names_field d k xs \<longleftrightarrow> map_of d k = Some (PList (map PStr xs)) \<and> distinct xs"

lemma require_string_list_iff [res_simps]:
  "require_string_list_gen allow_empty d k path = Inr xs \<longleftrightarrow>
     names_field d k xs \<and> (allow_empty \<or> [] \<notin> set xs)"
proof
  assume "require_string_list_gen allow_empty d k path = Inr xs"
  then obtain vs where vs: "map_of d k = Some (PList vs)" "distinct (map str_of vs)"
      "list_all (\<lambda>item. is_str item \<and> (allow_empty \<or> truthy item)) vs" "xs = map str_of vs"
    by (auto simp: require_string_list_gen_def res_simps)
  from vs(3) have "list_all is_str vs" by (auto simp: list_all_iff)
  with vs all_str_map [of vs] show "names_field d k xs \<and> (allow_empty \<or> [] \<notin> set xs)"
    by (auto simp: names_field_def list_all_iff is_str_iff)
next
  assume "names_field d k xs \<and> (allow_empty \<or> [] \<notin> set xs)"
  then show "require_string_list_gen allow_empty d k path = Inr xs"
    by (auto simp: require_string_list_gen_def names_field_def res_simps list_all_iff o_def)
qed

definition valid_names :: "pydict \<Rightarrow> string \<Rightarrow> bool" where
  "valid_names d k \<longleftrightarrow> (\<exists>xs. names_field d k xs \<and> [] \<notin> set xs)"

lemma valid_namesI: "names_field d k xs \<Longrightarrow> [] \<notin> set xs \<Longrightarrow> valid_names d k"
  by (auto simp: valid_names_def)

lemma check_string_list_iff [res_simps]:
  "check_string_list d path k = Inr u \<longleftrightarrow> valid_names d k"
  by (auto simp: check_string_list_def res_simps valid_names_def)

text \<open>The identifier lists of each document that \<open>validate_registry\<close> requires.\<close>

definition VALIDATED_LISTS :: "(string \<times> string list) list" where
  "VALIDATED_LISTS =
     [(''benchmark_modes'',
        [''benchmark_execution_modes''] @ BENCHMARK_LISTS @ [''grouped_dispatch_statuses'']),
      (''output_policies'', OUTPUT_LISTS), (''event_phases'', EVENT_LISTS),
      (''epilogues'', [''epilogue_types'', ''backend_epilogue_modes'',
         ''generated_reducer_identities'', ''generated_reducer_identity_patterns'']),
      (''workspace_modes'', [''workspace_modes'']), (''kernels'', [''selected_kernels'']),
      (''claim_labels'', CLAIM_LISTS)]"

definition lists_valid :: "registry \<Rightarrow> string \<times> string list \<Rightarrow> bool" where
  "lists_valid registry p \<longleftrightarrow>
     (\<exists>d. map_of registry (fst p) = Some d \<and> list_all (valid_names d) (snd p))"

lemmas validate_defs =
  validate_registry_def validate_benchmark_def validate_outputs_events_def
  validate_kernels_claims_def

lemma validate_benchmark_lists:
  assumes "validate_benchmark registry = Inr ()"
  shows "lists_valid registry (''benchmark_modes'',
    [''benchmark_execution_modes''] @ BENCHMARK_LISTS @ [''grouped_dispatch_statuses''])"
  using assms by (auto simp: validate_benchmark_def lists_valid_def res_simps)

lemma validate_outputs_events_lists:
  assumes "validate_outputs_events registry = Inr ()"
  shows "lists_valid registry (''output_policies'', OUTPUT_LISTS)"
    and "lists_valid registry (''event_phases'', EVENT_LISTS)"
  using assms by (auto simp: validate_outputs_events_def lists_valid_def res_simps)

lemma validate_kernels_claims_lists:
  assumes "validate_kernels_claims re_error registry = Inr ()"
  shows "lists_valid registry (''epilogues'', [''epilogue_types'', ''backend_epilogue_modes'',
           ''generated_reducer_identities'', ''generated_reducer_identity_patterns''])"
    and "lists_valid registry (''workspace_modes'', [''workspace_modes''])"
    and "lists_valid registry (''kernels'', [''selected_kernels''])"
    and "lists_valid registry (''claim_labels'', CLAIM_LISTS)"
  using assms
  by (auto simp: validate_kernels_claims_def generated_reducer_identities_def
      generated_reducer_identity_patterns_def lists_valid_def res_simps intro: valid_namesI)

lemma validate_registry_parts:
  assumes "validate_registry re_error registry = Inr ()"
  shows "validate_benchmark registry = Inr ()" "validate_outputs_events registry = Inr ()"
    "validate_kernels_claims re_error registry = Inr ()"
  using assms by (auto simp: validate_registry_def res_simps)

lemma set_minus_Nil [simp]: "set_minus xs ys = [] \<longleftrightarrow> set xs \<subseteq> set ys"
  by (auto simp: set_minus_def filter_empty_conv)

lemma nonempty_names: "list_all is_nonempty_str vs \<Longrightarrow>
    vs = map PStr (map str_of vs) \<and> [] \<notin> set (map str_of vs)"
  by (induction vs) (auto simp: is_nonempty_str_iff)

lemma group_strings_iff [res_simps]:
  "group_strings path (g, v) = Inr r \<longleftrightarrow>
     g \<noteq> [] \<and> (\<exists>xs. v = PList (map PStr xs) \<and> distinct xs \<and> [] \<notin> set xs \<and> r = (g, xs))"
proof
  assume "group_strings path (g, v) = Inr r"
  then obtain vs where "g \<noteq> []" "v = PList vs" "list_all is_nonempty_str vs"
      "distinct (map str_of vs)" "r = (g, map str_of vs)"
    by (auto simp: group_strings_def res_simps is_list_iff)
  with nonempty_names [of vs] show "g \<noteq> [] \<and>
      (\<exists>xs. v = PList (map PStr xs) \<and> distinct xs \<and> [] \<notin> set xs \<and> r = (g, xs))"
    by blast
next
  assume "g \<noteq> [] \<and> (\<exists>xs. v = PList (map PStr xs) \<and> distinct xs \<and> [] \<notin> set xs \<and> r = (g, xs))"
  then show "group_strings path (g, v) = Inr r"
    by (auto simp: group_strings_def res_simps list_all_iff is_nonempty_str_iff o_def)
qed

lemma kernel_groups_selected:
  assumes "kernel_groups registry = Inr groups" and "(g, xs) \<in> set groups"
  shows "\<exists>kernels selected. map_of registry ''kernels'' = Some kernels \<and>
           names_field kernels ''selected_kernels'' selected \<and> set xs \<subseteq> set selected"
proof -
  from assms(1) obtain kernels selected where k: "map_of registry ''kernels'' = Some kernels"
      "names_field kernels ''selected_kernels'' selected"
    and run: "rmapM (\<lambda>p. rbind (group_strings ''kernels.selected_kernel_groups'' p) (\<lambda>(grp, vs).
         rthen (check (set_minus vs selected \<noteq> [])
           (MetadataRegistryError (''kernels.selected_kernel_groups.'' @ grp @
              '' references unknown kernels: '' @ repr_strs (set_minus vs selected))))
         (Inr (grp, vs))))
       (sorted_items (items_of (dget kernels ''selected_kernel_groups''))) = Inr groups"
    unfolding kernel_groups_def rbind_eq_Inr rthen_eq_Inr dindex_eq_Inr require_string_list_iff
    by blast
  from rmapM_set [OF run assms(2)] have "set xs \<subseteq> set selected"
    by (auto simp: rbind_eq_Inr rthen_eq_Inr check_eq_Inr split: prod.splits)
  with k show ?thesis by blast
qed

section \<open>Constant suffixes\<close>

lemma contains_double_iff: "contains ''__'' s \<longleftrightarrow> (\<exists>a b. s = a @ ''__'' @ b)"
  by (rule contains_iff)

text \<open>The words between underscores, which no pass of the squeezing loop changes.\<close>

definition suffix_words :: "string \<Rightarrow> string list" where
  "suffix_words s = filter (\<lambda>w. w \<noteq> []) (split_on CHR ''_'' s)"

definition head_word :: "string \<Rightarrow> string" where
  "head_word s = hd (split_on CHR ''_'' s)"

definition tail_words :: "string \<Rightarrow> string list" where
  "tail_words s = filter (\<lambda>w. w \<noteq> []) (tl (split_on CHR ''_'' s))"

lemma suffix_words_hd_tl:
  "suffix_words s = (if head_word s = [] then [] else [head_word s]) @ tail_words s"
  unfolding suffix_words_def head_word_def tail_words_def
  by (cases "split_on CHR ''_'' s") auto

lemma word_simps [simp]:
  "head_word [] = []" "tail_words [] = []"
  "head_word (CHR ''_'' # xs) = []" "tail_words (CHR ''_'' # xs) = suffix_words xs"
  "x \<noteq> CHR ''_'' \<Longrightarrow> head_word (x # xs) = x # head_word xs"
  "x \<noteq> CHR ''_'' \<Longrightarrow> tail_words (x # xs) = tail_words xs"
  using split_on_not_Nil [of "CHR ''_''" xs]
  by (auto simp: head_word_def tail_words_def suffix_words_def split: list.splits)

lemma replace_double_words:
  "head_word (replace_double s) = head_word s \<and> tail_words (replace_double s) = tail_words s"
proof (induction s rule: replace_double.induct)
  case (1 a b cs)
  show ?case
  proof (cases "a = CHR ''_'' \<and> b = CHR ''_''")
    case True
    with "1.IH"(1) show ?thesis by (simp add: suffix_words_hd_tl)
  next
    case False
    with "1.IH"(2) show ?thesis
      by (cases "a = CHR ''_''") (simp_all add: suffix_words_hd_tl)
  qed
qed simp_all

lemma suffix_words_replace [simp]: "suffix_words (replace_double s) = suffix_words s"
  by (simp add: suffix_words_hd_tl replace_double_words)

lemma suffix_words_squeeze: "suffix_words (squeeze s) = suffix_words s"
  by (induction s rule: squeeze.induct) (subst squeeze.simps, simp)

lemma squeeze_no_double: "\<not> contains ''__'' (squeeze s)"
  by (induction s rule: squeeze.induct) (subst squeeze.simps, simp)

lemma suffix_words_append_underscore: "suffix_words (s @ [CHR ''_'']) = suffix_words s"
proof -
  have "head_word (s @ [CHR ''_'']) = head_word s \<and> tail_words (s @ [CHR ''_'']) = tail_words s"
  proof (induction s)
    case Nil
    then show ?case by (simp add: suffix_words_hd_tl)
  next
    case (Cons x xs)
    then show ?case by (cases "x = CHR ''_''") (simp_all add: suffix_words_hd_tl)
  qed
  then show ?thesis by (simp add: suffix_words_hd_tl)
qed

text \<open>Without a doubled or trailing underscore the words are separated by single ones.\<close>

lemma join_words:
  "\<not> contains ''__'' s \<Longrightarrow> s = [] \<or> last s \<noteq> CHR ''_'' \<Longrightarrow>
   s = head_word s @ concat (map (\<lambda>w. CHR ''_'' # w) (tail_words s))"
proof (induction s)
  case Nil
  then show ?case by simp
next
  case (Cons x xs)
  from Cons.prems have no: "\<not> contains ''__'' xs" and la: "xs = [] \<or> last xs \<noteq> CHR ''_''"
    by (auto split: if_splits)
  note IH = Cons.IH [OF no la]
  show ?case
  proof (cases "x = CHR ''_''")
    case True
    with Cons.prems have "xs \<noteq> []" "hd xs \<noteq> CHR ''_''" by (cases xs; auto)+
    then have "head_word xs \<noteq> []" by (cases xs) auto
    with True IH show ?thesis by (simp add: suffix_words_hd_tl)
  next
    case False
    with IH show ?thesis by simp
  qed
qed

lemma join_suffix_words:
  assumes "\<not> contains ''__'' s" and "s = [] \<or> hd s \<noteq> CHR ''_'' \<and> last s \<noteq> CHR ''_''"
  shows "join_with ''_'' (suffix_words s) = s"
proof (cases s)
  case Nil
  then show ?thesis by (simp add: suffix_words_hd_tl)
next
  case (Cons x xs)
  with assms(2) have "head_word s \<noteq> []" by simp
  moreover have "s = head_word s @ concat (map (\<lambda>w. CHR ''_'' # w) (tail_words s))"
    using assms by (intro join_words) auto
  ultimately show ?thesis
    by (simp add: suffix_words_hd_tl join_with_Cons)
qed

lemma suffix_words_strip: "suffix_words (strip_underscores s) = suffix_words s"
proof -
  let ?d = "dropWhile (\<lambda>c. c = CHR ''_'')"
  have front: "suffix_words (?d s) = suffix_words s" for s
    by (induction s) (auto simp: suffix_words_def)
  have "suffix_words (rev (?d s)) = suffix_words (rev s)" for s
    by (induction s) (auto simp: suffix_words_append_underscore)
  from this [of "rev (?d s)"] front show ?thesis by (simp add: strip_underscores_def)
qed

lemma dropWhile_hd: "dropWhile P s = [] \<or> \<not> P (hd (dropWhile P s))"
  by (metis hd_dropWhile)

lemma strip_underscores_ends:
  "strip_underscores s = [] \<or>
   hd (strip_underscores s) \<noteq> CHR ''_'' \<and> last (strip_underscores s) \<noteq> CHR ''_''"
proof -
  let ?P = "\<lambda>c. c = CHR ''_''"
  define f where "f = dropWhile ?P s"
  define b where "b = dropWhile ?P (rev f)"
  have strip: "strip_underscores s = rev b" by (simp add: strip_underscores_def f_def b_def)
  obtain pre where "rev f = pre @ b"
    unfolding b_def by (metis takeWhile_dropWhile_id)
  then have f: "f = rev b @ rev pre" by (metis rev_append rev_rev_ident)
  show ?thesis
  proof (cases "b = []")
    case False
    have "hd b \<noteq> CHR ''_''"
      using False dropWhile_hd [of ?P "rev f"] unfolding b_def by blast
    moreover have "f \<noteq> []" using False f by simp
    then have "hd f \<noteq> CHR ''_''"
      using dropWhile_hd [of ?P s] unfolding f_def by blast
    moreover have "hd f = hd (rev b)" using False f by simp
    ultimately show ?thesis using False by (simp add: strip last_rev)
  qed (simp add: strip)
qed

lemma strip_no_double: "\<not> contains ''__'' s \<Longrightarrow> \<not> contains ''__'' (strip_underscores s)"
proof -
  assume no: "\<not> contains ''__'' s"
  let ?P = "\<lambda>c. c = CHR ''_''"
  have "\<exists>a b. s = a @ strip_underscores s @ b"
    unfolding strip_underscores_def
    by (metis rev_append rev_rev_ident takeWhile_dropWhile_id)
  with no show ?thesis unfolding contains_iff by (metis append.assoc)
qed

section \<open>Rendering and checking\<close>

lemma universal_newlines_id: "CHR 0x0D \<notin> set s \<Longrightarrow> universal_newlines s = s"
  by (induction s rule: universal_newlines.induct) auto

lemma check_after_write:
  "CHR 0x0D \<notin> set content \<Longrightarrow>
   check_generated path (fst (write_if_changed old content)) content = []"
  by (cases old) (auto simp: write_if_changed_def check_generated_def universal_newlines_id)


text \<open>Every text the Python renderer builds is free of carriage returns: \<open>repr\<close> escapes them.\<close>

definition no_cr :: "string \<Rightarrow> bool" where
  "no_cr s \<longleftrightarrow> CHR 0x0D \<notin> set s"

definition run_no_cr :: "string res \<Rightarrow> bool" where
  "run_no_cr m \<longleftrightarrow> (\<forall>s. m = Inr s \<longrightarrow> no_cr s)"

lemma code_less_256: "code c < 256"
  by (simp add: code_def)

lemma code_char_of: "n < 256 \<Longrightarrow> code (char_of n) = n"
  by (simp add: code_def)

lemma code_inj: "code c = code d \<longleftrightarrow> c = d"
  by (simp add: code_def)

lemma code_cr: "code c = 13 \<longleftrightarrow> c = CHR 0x0D"
proof -
  have "code CHR 0x0D = 13" by (simp add: code_def)
  then show ?thesis using code_inj [of c "CHR 0x0D"] by simp
qed

lemma hex_digit_no_cr: "n < 16 \<Longrightarrow> hex_digit n \<noteq> CHR 0x0D"
  using code_digit_char [of n] code_char_of [of "87 + n"] by (auto simp: hex_digit_def code_cr [symmetric])

lemma repr_char_no_cr:
  assumes "q = CHR 0x22 \<or> q = CHR 0x27"
  shows "no_cr (repr_char q c)"
proof -
  have "code c div 16 < 16" using code_less_256 [of c] by simp
  then have "hex_digit (code c div 16) \<noteq> CHR 0x0D" by (rule hex_digit_no_cr)
  moreover have "hex_digit (code c mod 16) \<noteq> CHR 0x0D" by (intro hex_digit_no_cr) simp
  ultimately show ?thesis
    using assms code_cr [of c] by (auto simp: no_cr_def repr_char_def Let_def)
qed

lemma repr_str_no_cr: "no_cr (repr_str s)"
proof -
  have q: "quote_char s = CHR 0x22 \<or> quote_char s = CHR 0x27" by (simp add: quote_char_def)
  have "no_cr (concat (map (repr_char (quote_char s)) t))" for t
    using repr_char_no_cr [OF q] by (induction t) (auto simp: no_cr_def)
  with q show ?thesis by (auto simp: repr_str_def no_cr_def Let_def)
qed

lemma no_cr_append [simp]: "no_cr (s @ t) \<longleftrightarrow> no_cr s \<and> no_cr t"
  by (auto simp: no_cr_def)

lemma no_cr_Cons [simp]: "no_cr (c # s) \<longleftrightarrow> c \<noteq> CHR 0x0D \<and> no_cr s"
  by (auto simp: no_cr_def)

lemma no_cr_Nil [simp]: "no_cr []"
  by (simp add: no_cr_def)

lemma join_no_cr: "no_cr sep \<Longrightarrow> list_all no_cr xs \<Longrightarrow> no_cr (join_with sep xs)"
  by (induction sep xs rule: join_with.induct) auto

lemma repr_set_no_cr: "no_cr (python_repr_set xs)"
  by (auto simp: python_repr_set_def Let_def NL_def list_all_iff repr_str_no_cr intro!: join_no_cr)

lemma repr_dict_no_cr: "no_cr (python_repr_dict d)"
  by (auto simp: python_repr_dict_def Let_def NL_def list_all_iff repr_str_no_cr intro!: join_no_cr)

lemma set_line_no_cr: "no_cr name \<Longrightarrow> run_no_cr (set_line name m)"
  by (auto simp: run_no_cr_def set_line_def constant_line_def rbind_eq_Inr repr_set_no_cr)

lemma dict_line_no_cr:
  "no_cr name \<Longrightarrow> run_no_cr (rbind m (\<lambda>d. Inr (constant_line name (python_repr_dict d))))"
  by (auto simp: run_no_cr_def constant_line_def rbind_eq_Inr repr_dict_no_cr)

lemma python_constant_runs_no_cr:
  "list_all run_no_cr (python_constant_runs re_error registry benchmark descriptor outputs event
     epilogues kernels kgroups egroups claim strategies)"
  unfolding python_constant_runs_def list.pred_inject
  by (intro conjI TrueI set_line_no_cr dict_line_no_cr) simp_all

lemma upper_char_no_cr: "is_alnum c \<Longrightarrow> no_cr (upper_char c)"
proof -
  assume a: "is_alnum c"
  then have "code c \<noteq> 13" by (auto simp: is_alnum_def Let_def)
  then have "c \<noteq> CHR 0x0D" by (simp add: code_cr)
  moreover have "char_of (code c - 32) \<noteq> CHR 0x0D" if "97 \<le> code c"
    using that code_char_of [of "code c - 32"] code_less_256 [of c]
    by (simp add: code_cr [symmetric] less_imp_diff_less)
  ultimately show ?thesis by (auto simp: upper_char_def Let_def)
qed

lemma constant_suffix_no_cr: "no_cr (constant_suffix s)"
proof -
  have "no_cr (suffix_chars s)"
    by (induction s) (auto simp: suffix_chars_def upper_char_no_cr)
  moreover have "set (replace_double t) \<subseteq> set t" for t
    by (induction t rule: replace_double.induct) auto
  then have "set (squeeze t) \<subseteq> set t" for t
    by (induction t rule: squeeze.induct) (subst squeeze.simps, auto)
  moreover have "set (strip_underscores t) \<subseteq> set t" for t
    by (auto simp: strip_underscores_def dest!: set_dropWhileD)
  ultimately show ?thesis unfolding no_cr_def constant_suffix_def by blast
qed

lemma render_python_no_cr:
  assumes "render_python_constants re_error registry = Inr out"
  shows "no_cr out"
proof -
  from assms obtain runs lines strategies where runs: "list_all run_no_cr runs"
    and lines: "rmapM (\<lambda>run. run) runs = Inr lines"
    and out: "out = (let generated =
           [''# Generated by tools/metadata_registry.py. Do not edit by hand.'',
            ''from __future__ import annotations'', []] @ lines @ [[]];
         strategy_constants =
           map (\<lambda>strategy. ''GROUPED_DISPATCH_STRATEGY_'' @ constant_suffix strategy @ '' = '' @
             repr_str strategy) (sort strategies)
     in join_with NL
          (generated @ (if strategy_constants = [] then [] else strategy_constants @ [[]])))"
    unfolding render_python_constants_def rbind_eq_Inr Let_def
    using python_constant_runs_no_cr by blast
  from runs rmapM_set [OF lines] have "list_all no_cr lines"
    by (fastforce simp: list_all_iff run_no_cr_def)
  then show ?thesis
    unfolding out Let_def
    by (intro join_no_cr) (auto simp: NL_def list_all_iff repr_str_no_cr constant_suffix_no_cr)
qed

section \<open>Rendering a validated registry\<close>

text \<open>
  The lists of the task descriptor, and the kernel groups, that the renderer reads by index but
  the validator does not ask for.
\<close>

definition UNCHECKED_DESCRIPTOR_LISTS :: "string list" where
  "UNCHECKED_DESCRIPTOR_LISTS =
     [''matrix_ownership_policies'', ''descriptor_reuse_policies'', ''stride_policies'',
      ''output_currentness_policies'', ''lifetime_policies'']"

definition KERNEL_GROUP_KEYS :: "string list" where
  "KERNEL_GROUP_KEYS = [''vector_alu'', ''ck'', ''rocwmma'']"

definition EXPORT_GROUP_KEYS :: "string list" where
  "EXPORT_GROUP_KEYS = [''bounded_i64'', ''bounded_u64'', ''exact_wide_signed'', ''exact_wide_unsigned'']"

definition renderer_keys_present :: "registry \<Rightarrow> bool" where
  "renderer_keys_present registry \<longleftrightarrow>
     (\<exists>benchmark descriptor kgroups egroups.
        map_of registry ''benchmark_modes'' = Some benchmark \<and>
        map_of benchmark ''grouped_task_descriptor'' = Some (PDict descriptor) \<and>
        list_all (valid_names descriptor) UNCHECKED_DESCRIPTOR_LISTS \<and>
        kernel_groups registry = Inr kgroups \<and> list_all (has_key kgroups) KERNEL_GROUP_KEYS \<and>
        export_kernel_groups registry = Inr egroups \<and> list_all (has_key egroups) EXPORT_GROUP_KEYS)"

lemma str_items_names: "str_items (PList (map PStr xs)) = Inr xs"
  by (simp add: str_items_def list_all_iff o_def)

lemma doc_strings_names: "valid_names d k \<Longrightarrow> \<exists>xs. doc_strings d k = Inr xs"
  by (auto simp: valid_names_def names_field_def doc_strings_def dindex_def str_items_names)

lemma val_strings_names: "valid_names d k \<Longrightarrow> \<exists>xs. val_strings (PDict d) k = Inr xs"
  by (auto simp: valid_names_def names_field_def val_strings_def vindex_def dindex_def str_items_names)

lemma returns_set_line: "returns (set_line name m) \<longleftrightarrow> returns m"
  by (auto simp: set_line_def returns_iff rbind_eq_Inr)

lemma strategy_id_iff:
  "strategy_id (i, item) = Inr x \<longleftrightarrow> is_dict item \<and> vget item ''id'' = PStr x \<and> x \<noteq> [] \<and>
     is_bool (vget item ''batched_exact_wide_export'') \<and>
     is_bool (vget item ''batched_bounded_export'') \<and>
     is_bool (vget item ''batched_finite_export'') \<and>
     is_nonempty_str (vget item ''device_descriptor_policy'')"
  by (auto simp: strategy_id_def Let_def rthen_eq_Inr check_eq_Inr is_nonempty_str_iff)

lemma vget_vindex: "is_dict item \<Longrightarrow> vget item k \<noteq> PNone \<Longrightarrow> vindex item k = Inr (vget item k)"
  by (auto simp: is_dict_iff vget_def vindex_def dindex_def dget_def split: option.splits)

lemma raw_strategies_checked:
  assumes "strategy_ids registry = Inr ids"
  obtains items where "raw_strategies registry = Inr items"
    and "\<And>item. item \<in> set items \<Longrightarrow> \<exists>i x. strategy_id (i, item) = Inr x"
proof -
  from assms obtain benchmark items where b: "map_of registry ''benchmark_modes'' = Some benchmark"
      "map_of benchmark STRATEGIES_KEY = Some (PList items)"
    and run: "rmapM strategy_id (enumerate 0 items) = Inr ids"
    unfolding strategy_ids_def rbind_eq_Inr rthen_eq_Inr dindex_eq_Inr require_list_iff by blast
  have "\<exists>i x. strategy_id (i, item) = Inr x" if "item \<in> set items" for item
  proof -
    from that obtain i where i: "i < length items" "items ! i = item" by (auto simp: in_set_conv_nth)
    from run have "list_all2 (\<lambda>p y. strategy_id p = Inr y) (enumerate 0 items) ids"
      by (simp add: rmapM_Inr_iff)
    from list_all2_nthD [OF this, of i] i show ?thesis by (auto simp: nth_enumerate_eq)
  qed
  moreover have "raw_strategies registry = Inr items"
    using b by (simp add: raw_strategies_def dindex_def)
  ultimately show ?thesis using that by blast
qed

lemma strategy_readers_return:
  assumes "strategy_ids registry = Inr ids"
  shows "\<exists>m. strategy_policy_map registry = Inr m"
    and "flag \<in> {''batched_exact_wide_export'', ''batched_bounded_export'', ''batched_finite_export''}
      \<Longrightarrow> \<exists>xs. batched_strategies flag registry = Inr xs"
proof -
  obtain items where raw: "raw_strategies registry = Inr items"
    and each: "\<And>item. item \<in> set items \<Longrightarrow> \<exists>i x. strategy_id (i, item) = Inr x"
    using raw_strategies_checked [OF assms] by blast
  have field: "\<exists>s. str_field k item = Inr s"
    if "item \<in> set items" "k = ''id'' \<or> k = ''device_descriptor_policy''" for item k
    using each [OF that(1)] that(2)
    by (auto simp: str_field_def strategy_id_iff is_nonempty_str_iff vget_vindex)
  have flag: "\<exists>v. vindex item flag = Inr v"
    if "item \<in> set items"
      "flag \<in> {''batched_exact_wide_export'', ''batched_bounded_export'', ''batched_finite_export''}"
    for item
  proof -
    from each [OF that(1)] that(2) have "is_dict item" "is_bool (vget item flag)"
      by (auto simp: strategy_id_iff)
    then show ?thesis using vget_vindex [of item flag] by (cases "vget item flag") auto
  qed
  show "\<exists>m. strategy_policy_map registry = Inr m"
    unfolding strategy_policy_map_def raw rbind_Inr
  proof (rule rfoldM_total)
    fix s item assume "item \<in> set items"
    with field [of item "''id''"] field [of item "''device_descriptor_policy''"]
    show "\<exists>s'. rbind (str_field ''device_descriptor_policy'' item) (\<lambda>policy.
         rbind (str_field ''id'' item) (\<lambda>i. Inr (dict_set i policy s))) = Inr s'" by auto
  qed
  show "\<exists>xs. batched_strategies flag registry = Inr xs"
    if "flag \<in> {''batched_exact_wide_export'', ''batched_bounded_export'', ''batched_finite_export''}"
  proof -
    have "\<exists>parts. rmapM (\<lambda>item. rbind (vindex item flag) (\<lambda>v.
       if truthy v then rbind (str_field ''id'' item) (\<lambda>i. Inr [i]) else Inr [])) items = Inr parts"
    proof (rule rmapM_total)
      fix item assume "item \<in> set items"
      with flag [OF _ that] field [of item "''id''"]
      show "\<exists>y. rbind (vindex item flag) (\<lambda>v.
         if truthy v then rbind (str_field ''id'' item) (\<lambda>i. Inr [i]) else Inr []) = Inr y"
        by fastforce
    qed
    then show ?thesis by (auto simp: batched_strategies_def raw)
  qed
qed

lemma lists_validD:
  "lists_valid registry (doc, ks) \<Longrightarrow> map_of registry doc = Some d \<Longrightarrow> k \<in> set ks \<Longrightarrow> valid_names d k"
  by (auto simp: lists_valid_def list_all_iff)

lemma validate_benchmark_descriptor:
  assumes "validate_benchmark registry = Inr ()" "map_of registry ''benchmark_modes'' = Some benchmark"
    "map_of benchmark ''grouped_task_descriptor'' = Some (PDict descriptor)"
  shows "list_all (valid_names descriptor) DESCRIPTOR_LISTS"
    and "\<exists>ids. strategy_ids registry = Inr ids"
  using assms by (auto simp: validate_benchmark_def res_simps dget_def)

lemma validate_kernels_parts:
  assumes "validate_kernels_claims re_error registry = Inr ()"
  shows "\<exists>xs. generated_reducer_identities registry = Inr xs"
    and "\<exists>xs. generated_reducer_identity_patterns re_error registry = Inr xs"
    and "\<exists>xs. reducer_family_ids registry = Inr xs"
  using assms
  by (auto simp: validate_kernels_claims_def rbind_eq_Inr rthen_eq_Inr reducer_family_ids_def)

lemma group_union_returns:
  "has_key groups a \<Longrightarrow> has_key groups b \<Longrightarrow> \<exists>xs. group_union groups a b = Inr xs"
  by (auto simp: group_union_def dest!: dindex_has_key)

lemma returns_dict_line:
  "returns (rbind r (\<lambda>m. Inr (constant_line name (python_repr_dict m)))) \<longleftrightarrow> returns r"
  by (auto simp: returns_iff rbind_eq_Inr)

lemma runs_return: "list_all returns runs \<Longrightarrow> \<exists>lines. rmapM (\<lambda>run. run) runs = Inr lines"
  by (rule rmapM_total) (auto simp: list_all_iff returns_iff)

lemma render_python_returns:
  assumes valid: "validate_registry re_error registry = Inr ()"
    and keys: "renderer_keys_present registry"
  shows "\<exists>out. render_python_constants re_error registry = Inr out"
proof -
  note parts = validate_registry_parts [OF valid]
  note lists = validate_benchmark_lists [OF parts(1)] validate_outputs_events_lists [OF parts(2)]
    validate_kernels_claims_lists [OF parts(3)]
  from keys obtain benchmark descriptor kgroups egroups where
    b: "map_of registry ''benchmark_modes'' = Some benchmark"
    and d: "map_of benchmark ''grouped_task_descriptor'' = Some (PDict descriptor)"
    and extra: "list_all (valid_names descriptor) UNCHECKED_DESCRIPTOR_LISTS"
    and k: "kernel_groups registry = Inr kgroups" "list_all (has_key kgroups) KERNEL_GROUP_KEYS"
    and e: "export_kernel_groups registry = Inr egroups" "list_all (has_key egroups) EXPORT_GROUP_KEYS"
    unfolding renderer_keys_present_def by blast
  from lists obtain outputs event epilogues kernels claim where
    docs: "map_of registry ''output_policies'' = Some outputs"
      "map_of registry ''event_phases'' = Some event"
      "map_of registry ''epilogues'' = Some epilogues" "map_of registry ''kernels'' = Some kernels"
      "map_of registry ''claim_labels'' = Some claim"
    unfolding lists_valid_def by auto
  obtain ids where ids: "strategy_ids registry = Inr ids"
    using validate_benchmark_descriptor(2) [OF parts(1) b d] by blast
  have docs_ok: "list_all (\<lambda>key. returns (doc_strings doc key)) keys"
    if "lists_valid registry (name, keys)" "map_of registry name = Some doc" for name doc keys
    using lists_validD [OF that] doc_strings_names by (auto simp: list_all_iff returns_iff)
  have vals_ok: "list_all (\<lambda>key. returns (val_strings (PDict descriptor) key))
      (DESCRIPTOR_LISTS @ UNCHECKED_DESCRIPTOR_LISTS)"
    using validate_benchmark_descriptor(1) [OF parts(1) b d] extra
    by (auto simp: list_all_iff returns_iff val_strings_names)
  have kg: "list_all (\<lambda>key. returns (dindex kgroups key)) KERNEL_GROUP_KEYS"
    using k(2) by (auto simp: list_all_iff returns_iff dindex_has_key)
  have eg: "list_all (\<lambda>key. returns (dindex egroups key)) EXPORT_GROUP_KEYS"
    using e(2) by (auto simp: list_all_iff returns_iff dindex_has_key)
  have unions: "returns (group_union egroups ''bounded_i64'' ''bounded_u64'')"
    "returns (group_union egroups ''exact_wide_signed'' ''exact_wide_unsigned'')"
    using e(2) by (auto simp: returns_iff EXPORT_GROUP_KEYS_def intro!: group_union_returns)
  have readers: "returns (strategy_policy_map registry)"
    "returns (batched_exact_wide_strategies registry)"
    "returns (batched_bounded_strategies registry)" "returns (batched_finite_strategies registry)"
    unfolding returns_iff batched_exact_wide_strategies_def batched_bounded_strategies_def
      batched_finite_strategies_def
    by (rule strategy_readers_return [OF ids]; simp)+
  have reducers: "returns (generated_reducer_identities registry)"
    "returns (generated_reducer_identity_patterns re_error registry)"
    "returns (reducer_family_ids registry)"
    using validate_kernels_parts [OF parts(3)] by (auto simp: returns_iff)
  note expand = list.pred_inject append.simps BENCHMARK_LISTS_def OUTPUT_LISTS_def EVENT_LISTS_def
    CLAIM_LISTS_def DESCRIPTOR_LISTS_def UNCHECKED_DESCRIPTOR_LISTS_def KERNEL_GROUP_KEYS_def
    EXPORT_GROUP_KEYS_def
  note fields = docs_ok [OF lists(1) b, unfolded expand] docs_ok [OF lists(2) docs(1), unfolded expand]
    docs_ok [OF lists(3) docs(2), unfolded expand] docs_ok [OF lists(4) docs(3), unfolded expand]
    docs_ok [OF lists(6) docs(4), unfolded expand] docs_ok [OF lists(7) docs(5), unfolded expand]
    vals_ok [unfolded expand] kg [unfolded expand] eg [unfolded expand]
  have placeholder: "returns (doc_strings outputs ''placeholder_gpu_target_ids'')"
    using parts(2) docs(1)
    by (auto simp: validate_outputs_events_def res_simps names_field_def doc_strings_def
        dindex_def str_items_names)
  have ids_ok: "returns (Inr ids)" by simp
  have "list_all returns (python_constant_runs re_error registry benchmark (PDict descriptor)
      outputs event epilogues kernels kgroups egroups claim ids)"
    unfolding python_constant_runs_def list.pred_inject returns_set_line returns_dict_line
    by (simp only: fields unions readers reducers placeholder ids_ok simp_thms
        list.pred_inject(1))
  from runs_return [OF this] show ?thesis
    using b d docs k(1) e(1) ids
    by (auto simp: render_python_constants_def dindex_def Let_def)
qed

section \<open>A small registry\<close>

text \<open>Every list holds one identifier; the task descriptor has the given lists beside the required
  ones.\<close>

definition one_name :: "string list \<Rightarrow> pydict" where
  "one_name keys = map (\<lambda>k. (k, PList [PStr ''x''])) keys"

definition small_registry :: "string list \<Rightarrow> registry" where
  "small_registry extra =
     [(''benchmark_modes'',
        [(''schema_version'', PInt 1),
         (STRATEGIES_KEY, PList [PDict
            [(''id'', PStr ''not_requested''), (''batched_exact_wide_export'', PBool True),
             (''batched_bounded_export'', PBool False), (''batched_finite_export'', PBool False),
             (''device_descriptor_policy'', PStr ''x'')]]),
         (''grouped_task_descriptor'', PDict (one_name (DESCRIPTOR_LISTS @ extra)))]
        @ one_name ([''benchmark_execution_modes''] @ BENCHMARK_LISTS @ [''grouped_dispatch_statuses''])),
      (''output_policies'', (''schema_version'', PInt 1) #
         one_name (OUTPUT_LISTS @ [''placeholder_gpu_target_ids''])),
      (''event_phases'', (''schema_version'', PInt 1) # one_name EVENT_LISTS),
      (''epilogues'', (''schema_version'', PInt 1) # (''reducer_families'', PList []) #
         one_name [''epilogue_types'', ''backend_epilogue_modes'', ''generated_reducer_identities'',
                   ''generated_reducer_identity_patterns'']),
      (''workspace_modes'', (''schema_version'', PInt 1) # one_name [''workspace_modes'']),
      (''kernels'', (''schema_version'', PInt 1) #
         (''selected_kernel_groups'', PDict (one_name KERNEL_GROUP_KEYS)) #
         (''export_kernel_groups'', PDict (one_name EXPORT_GROUP_KEYS)) #
         one_name [''selected_kernels'']),
      (''claim_labels'', (''schema_version'', PInt 1) # one_name CLAIM_LISTS)]"

lemma small_registry_valid:
  "validate_registry (\<lambda>_. None) (small_registry extra) = Inr ()" if "extra \<in> {[], UNCHECKED_DESCRIPTOR_LISTS}"
proof -
  have "validate_registry (\<lambda>_. None) (small_registry []) = Inr ()" by code_simp
  moreover have "validate_registry (\<lambda>_. None) (small_registry UNCHECKED_DESCRIPTOR_LISTS) = Inr ()"
    by code_simp
  ultimately show ?thesis using that by auto
qed



lemma small_registry_keys: "renderer_keys_present (small_registry UNCHECKED_DESCRIPTOR_LISTS)"
proof -
  let ?reg = "small_registry UNCHECKED_DESCRIPTOR_LISTS"
  have "kernel_groups ?reg = Inr [(''ck'', [''x'']), (''rocwmma'', [''x'']), (''vector_alu'', [''x''])]"
    by code_simp
  moreover have "export_kernel_groups ?reg = Inr [(''bounded_i64'', [''x'']), (''bounded_u64'', [''x'']),
      (''exact_wide_signed'', [''x'']), (''exact_wide_unsigned'', [''x''])]"
    by code_simp
  moreover have "names_field (one_name (DESCRIPTOR_LISTS @ UNCHECKED_DESCRIPTOR_LISTS)) k [''x'']"
    if "k \<in> set UNCHECKED_DESCRIPTOR_LISTS" for k
    using that by (auto simp: names_field_def one_name_def DESCRIPTOR_LISTS_def
        UNCHECKED_DESCRIPTOR_LISTS_def)
  then have "list_all (valid_names (one_name (DESCRIPTOR_LISTS @ UNCHECKED_DESCRIPTOR_LISTS)))
      UNCHECKED_DESCRIPTOR_LISTS"
    by (intro list_all_iff [THEN iffD2] ballI valid_namesI [of _ _ "[''x'']"]) auto
  ultimately show ?thesis
    unfolding renderer_keys_present_def
    by (intro exI conjI, simp_all add: small_registry_def STRATEGIES_KEY_def)
      (simp_all add: KERNEL_GROUP_KEYS_def EXPORT_GROUP_KEYS_def has_key_def)
qed

lemma small_registry_gap:
  "render_python_constants (\<lambda>_. None) (small_registry []) = Inl (KeyError ''matrix_ownership_policies'')"
  by code_simp

text \<open>The directory that holds a registry, and the files the small registry renders to.\<close>

definition read_registry :: "registry \<Rightarrow> string \<Rightarrow> json_file" where
  "read_registry registry filename =
     (case List.find (\<lambda>p. snd p = filename) REGISTRY_FILES of
        None \<Rightarrow> Missing
      | Some (key, _) \<Rightarrow> (case map_of registry key of None \<Rightarrow> Missing | Some d \<Rightarrow> Parsed (PDict d)))"

lemma load_small_registry:
  "load_registry ''m'' (read_registry (small_registry extra)) = Inr (small_registry extra)"
  by (simp add: load_registry_def REGISTRY_FILES_def read_registry_def load_json_yaml_def
      small_registry_def)

text \<open>A registry whose strings hold no carriage return renders to a header without one.\<close>

fun plain_val :: "pyval \<Rightarrow> bool" where
  "plain_val (PStr s) = no_cr s"
| "plain_val (PList xs) = list_all plain_val xs"
| "plain_val (PDict d) = list_all (\<lambda>p. plain_val (snd p)) d"
| "plain_val _ = True"

definition plain_registry :: "registry \<Rightarrow> bool" where
  "plain_registry registry \<longleftrightarrow> list_all (\<lambda>p. plain_val (PDict (snd p))) registry"

lemma plain_map_of: "plain_val (PDict d) \<Longrightarrow> map_of d k = Some v \<Longrightarrow> plain_val v"
  by (auto simp: list_all_iff dest!: map_of_SomeD)

lemma plain_doc: "plain_registry registry \<Longrightarrow> map_of registry k = Some d \<Longrightarrow> plain_val (PDict d)"
  by (drule map_of_SomeD) (fastforce simp: plain_registry_def list_all_iff)

lemma plain_names: "plain_val (PList (map PStr xs)) \<longleftrightarrow> list_all no_cr xs"
  by (simp add: list_all_iff)

lemma plain_str_items: "plain_val v \<Longrightarrow> str_items v = Inr xs \<Longrightarrow> list_all no_cr xs"
proof -
  assume v: "plain_val v" "str_items v = Inr xs"
  then obtain vs where "v = PList vs" "list_all is_str vs" "xs = map str_of vs"
    by (auto simp: str_items_def split: pyval.splits if_splits)
  with v(1) all_str_map [of vs] show ?thesis by (metis plain_names)
qed

lemma plain_doc_strings:
  "plain_val (PDict d) \<Longrightarrow> doc_strings d k = Inr xs \<Longrightarrow> list_all no_cr xs"
  unfolding doc_strings_def rbind_eq_Inr dindex_eq_Inr using plain_map_of plain_str_items by blast

lemma plain_val_strings:
  "plain_val v \<Longrightarrow> val_strings v k = Inr xs \<Longrightarrow> list_all no_cr xs"
  unfolding val_strings_def rbind_eq_Inr vindex_eq_Inr using plain_map_of plain_str_items by blast

lemma plain_strategy_ids:
  assumes "plain_registry registry" and "strategy_ids registry = Inr ids"
  shows "list_all no_cr ids"
proof -
  from assms(2) obtain benchmark items where b: "map_of registry ''benchmark_modes'' = Some benchmark"
      "map_of benchmark STRATEGIES_KEY = Some (PList items)"
    and run: "rmapM strategy_id (enumerate 0 items) = Inr ids"
    unfolding strategy_ids_def rbind_eq_Inr rthen_eq_Inr dindex_eq_Inr require_list_iff by blast
  have items: "plain_val (PList items)" using plain_map_of [OF plain_doc [OF assms(1) b(1)] b(2)] .
  have "no_cr x" if "x \<in> set ids" for x
  proof -
    from rmapM_set [OF run that] obtain i item where "item \<in> set items" "strategy_id (i, item) = Inr x"
      by (metis enumerate_eq_zip in_set_zipE prod.exhaust)
    with items obtain d where "plain_val (PDict d)" "map_of d ''id'' = Some (PStr x)"
      by (auto simp: strategy_id_iff is_dict_iff vget_def dget_def list_all_iff split: option.splits)
    then show ?thesis using plain_map_of by fastforce
  qed
  then show ?thesis by (simp add: list_all_iff)
qed

lemma plain_export_groups:
  assumes "plain_registry registry" and "export_kernel_groups registry = Inr groups"
    and "group_union groups a b = Inr xs"
  shows "list_all no_cr xs"
proof -
  from assms(2) obtain kernels where k: "map_of registry ''kernels'' = Some kernels"
      "is_dict (dget kernels ''export_kernel_groups'')"
    and run: "rmapM (group_strings ''kernels.export_kernel_groups'')
       (sorted_items (items_of (dget kernels ''export_kernel_groups''))) = Inr groups"
    unfolding export_kernel_groups_def rbind_eq_Inr rthen_eq_Inr dindex_eq_Inr check_eq_Inr by blast
  from k obtain d where d: "map_of kernels ''export_kernel_groups'' = Some (PDict d)"
    by (auto simp: is_dict_iff dget_def split: option.splits)
  have plain: "plain_val (PDict d)" using plain_map_of [OF plain_doc [OF assms(1) k(1)] d] .
  have grp: "list_all no_cr ys" if "(g, ys) \<in> set groups" for g ys
  proof -
    from rmapM_set [OF run that] d have "(g, PList (map PStr ys)) \<in> set d"
      by (auto simp: sorted_items_def dget_def group_strings_iff)
    with plain have "plain_val (PList (map PStr ys))" by (fastforce simp: list_all_iff)
    then show ?thesis by (simp only: plain_names)
  qed
  from assms(3) obtain ys zs where "map_of groups a = Some ys" "map_of groups b = Some zs"
      "xs = sorted_set (ys @ zs)"
    by (auto simp: group_union_def rbind_eq_Inr dindex_eq_Inr)
  then show ?thesis using grp by (auto simp: list_all_iff dest!: map_of_SomeD)
qed

lemma cpp_array_no_cr: "no_cr name \<Longrightarrow> list_all no_cr xs \<Longrightarrow> no_cr (cpp_array name xs)"
  using show_nat_no_char [of "CHR 0x0D" "length xs"]
  by (auto simp: cpp_array_def NL_def list_all_iff no_cr_def [of "show_nat _"] code_def intro!: join_no_cr)

lemma array_run_no_cr:
  "no_cr name \<Longrightarrow> (\<And>xs. m = Inr xs \<Longrightarrow> list_all no_cr xs) \<Longrightarrow> run_no_cr (array_run name m)"
  by (auto simp: run_no_cr_def array_run_def rbind_eq_Inr cpp_array_no_cr)

lemma runs_no_cr: "list_all run_no_cr runs \<Longrightarrow> rmapM (\<lambda>run. run) runs = Inr ls \<Longrightarrow> list_all no_cr ls"
  using rmapM_set by (fastforce simp: list_all_iff run_no_cr_def)

lemma render_cpp_no_cr:
  assumes "plain_registry registry" and "render_cpp_header registry = Inr out"
  shows "no_cr out"
proof -
  note plain = plain_doc [OF assms(1)]
  from assms(2) obtain benchmark descriptor outputs event epilogues kernels egroups bounded wide arrays
    where docs: "map_of registry ''benchmark_modes'' = Some benchmark"
      "map_of benchmark ''grouped_task_descriptor'' = Some descriptor"
      "map_of registry ''output_policies'' = Some outputs"
      "map_of registry ''event_phases'' = Some event"
      "map_of registry ''epilogues'' = Some epilogues" "map_of registry ''kernels'' = Some kernels"
    and e: "export_kernel_groups registry = Inr egroups"
      "group_union egroups ''bounded_i64'' ''bounded_u64'' = Inr bounded"
      "group_union egroups ''exact_wide_signed'' ''exact_wide_unsigned'' = Inr wide"
    and runs: "rmapM (\<lambda>run. run)
       [array_run ''benchmark_execution_modes'' (doc_strings benchmark ''benchmark_execution_modes''),
        array_run ''grouped_dispatch_statuses'' (doc_strings benchmark ''grouped_dispatch_statuses''),
        array_run ''grouped_dispatch_execution_strategies'' (strategy_ids registry),
        array_run ''grouped_task_device_descriptor_policies''
          (val_strings descriptor ''device_descriptor_policies''),
        array_run ''output_destination_layouts'' (doc_strings outputs ''destination_layouts''),
        array_run ''status_handling_modes'' (doc_strings outputs ''status_handling''),
        array_run ''output_contract_domains'' (doc_strings outputs ''output_contract_domains''),
        array_run ''pack_layouts'' (doc_strings outputs ''pack_layouts''),
        array_run ''gpu_event_source_scopes'' (doc_strings event ''gpu_event_source_scopes''),
        array_run ''epilogue_types'' (doc_strings epilogues ''epilogue_types''),
        array_run ''backend_epilogue_modes'' (doc_strings epilogues ''backend_epilogue_modes''),
        array_run ''generated_reducer_identities'' (generated_reducer_identities registry),
        array_run ''selected_kernels'' (doc_strings kernels ''selected_kernels''),
        array_run ''bounded_export_kernels'' (Inr bounded),
        array_run ''exact_wide_export_kernels'' (Inr wide)] = Inr arrays"
    and out: "out = join_with NL
       ([''// Generated by tools/metadata_registry.py. Do not edit by hand.'', ''#pragma once'', [],
         ''#include <array>'', ''#include <string_view>'', [],
         ''namespace rns8::generated_metadata {'', []] @ arrays @
        [[], ''}  // namespace rns8::generated_metadata'', []])"
    unfolding render_cpp_header_def rbind_eq_Inr dindex_eq_Inr by blast
  have ids: "list_all no_cr xs" if "generated_reducer_identities registry = Inr xs" for xs
  proof -
    from that docs(5) have "map_of epilogues ''generated_reducer_identities'' = Some (PList (map PStr xs))"
      by (auto simp: generated_reducer_identities_def dindex_def require_string_list_iff names_field_def)
    from plain_map_of [OF plain [OF docs(5)] this] show ?thesis by (simp only: plain_names)
  qed
  have "list_all no_cr arrays"
    by (rule runs_no_cr [OF _ runs], unfold list.pred_inject, intro conjI array_run_no_cr)
      (auto intro: plain_doc_strings [OF plain] docs plain_strategy_ids [OF assms(1)] ids
        plain_val_strings plain_map_of [OF plain] plain_export_groups [OF assms(1) e(1)] e)
  then show ?thesis unfolding out by (intro join_no_cr) (auto simp: NL_def)
qed

lemma render_cpp_returns:
  "\<exists>out. render_cpp_header (small_registry UNCHECKED_DESCRIPTOR_LISTS) = Inr out"
proof -
  have "returns (render_cpp_header (small_registry UNCHECKED_DESCRIPTOR_LISTS))" by code_simp
  then show ?thesis by (simp add: returns_iff)
qed

lemma small_registry_plain: "plain_registry (small_registry extra)"
  by (auto simp: plain_registry_def small_registry_def one_name_def list_all_iff)

lemma small_registry_written:
  assumes "load_registry ''m'' read = Inr (small_registry UNCHECKED_DESCRIPTOR_LISTS)"
  shows "\<exists>out files'. registry_main (\<lambda>_. None) ''m'' read ''p'' ''c'' True files = Inr (0, out, files')"
proof -
  from render_python_returns [OF small_registry_valid small_registry_keys] obtain py
    where "render_python_constants (\<lambda>_. None) (small_registry UNCHECKED_DESCRIPTOR_LISTS) = Inr py"
    by auto
  with assms small_registry_valid [of UNCHECKED_DESCRIPTOR_LISTS] render_cpp_returns
  show ?thesis by (auto simp: registry_main_def split: prod.splits)
qed

section \<open>Properties\<close>



text \<open>The suffix of a generated constant is the identifier's alphanumeric words, in upper
  case, joined by single underscores: the squeezing loop and the final strip lose no word.\<close>

theorem constant_suffix_words:
  "constant_suffix s = join_with ''_'' (suffix_words (suffix_chars s))"
proof -
  let ?t = "squeeze (suffix_chars s)"
  have "join_with ''_'' (suffix_words (strip_underscores ?t)) = strip_underscores ?t"
    by (intro join_suffix_words strip_no_double squeeze_no_double strip_underscores_ends)
  then show ?thesis
    by (simp add: constant_suffix_def suffix_words_strip suffix_words_squeeze)
qed




text \<open>without those keys validation does not protect the renderer: a registry passes
  \<open>validate_registry\<close> and the very next step of \<open>main\<close> raises \<open>KeyError\<close>.\<close>

theorem validation_gap:
  "validate_registry (\<lambda>_. None) (small_registry []) = Inr () \<and>
   render_python_constants (\<lambda>_. None) (small_registry []) = Inl (KeyError ''matrix_ownership_policies'')"
  using small_registry_valid [of "[]"] small_registry_gap by simp

text \<open>C6: after \<open>--write-generated\<close> a \<open>--check\<close> of the same documents prints PASS, returns 0 and
  leaves the files alone, whatever the files held before, as long as no string of the documents
  holds a carriage return (the C++ header would carry it, and reading turns it into a line feed).\<close>

theorem check_passes_after_write:
  assumes "load_registry dir read = Inr registry" and "plain_registry registry"
    and "registry_main re_error dir read py_path cpp_path True files = Inr (status, out, files')"
  shows "registry_main re_error dir read py_path cpp_path False files' =
           Inr (0, [''metadata registry: PASS''], files')"
proof -
  from assms(1,3) obtain py cpp where v: "validate_registry re_error registry = Inr ()"
    and r: "render_python_constants re_error registry = Inr py" "render_cpp_header registry = Inr cpp"
    and f: "python_constants_file files' = fst (write_if_changed (python_constants_file files) py)"
      "cpp_header_file files' = fst (write_if_changed (cpp_header_file files) cpp)"
    by (auto simp: registry_main_def rbind_eq_Inr rthen_eq_Inr Let_def case_prod_beta)
  have "CHR 0x0D \<notin> set py" "CHR 0x0D \<notin> set cpp"
    using render_python_no_cr [OF r(1)] render_cpp_no_cr [OF assms(2) r(2)]
    unfolding no_cr_def by blast+
  with v r f assms(1) show ?thesis
    by (simp add: registry_main_def check_after_write)
qed

theorem check_passes_after_write_witness:
  "\<exists>files'. registry_main (\<lambda>_. None) ''m'' (read_registry (small_registry UNCHECKED_DESCRIPTOR_LISTS))
     ''p'' ''c'' False files' = Inr (0, [''metadata registry: PASS''], files')"
proof -
  let ?read = "read_registry (small_registry UNCHECKED_DESCRIPTOR_LISTS)"
  obtain out files' where "registry_main (\<lambda>_. None) ''m'' ?read ''p'' ''c'' True
      \<lparr>python_constants_file = None, cpp_header_file = None\<rparr> = Inr (0, out, files')"
    using small_registry_written [OF load_small_registry] by blast
  from check_passes_after_write [OF load_small_registry small_registry_plain this] show ?thesis by blast
qed

end
