(* ===== verification/Py_Path.thy ===== *)
theory Py_Path
  imports Py_String
begin

text \<open>
  \<open>pathlib.PurePosixPath\<close> as the tools use it: an absolute flag and the parts, in which \<open>a / b\<close>
  appends the parts of \<open>b\<close> unless \<open>b\<close> is absolute. (A root written \<open>//\<close> counts as \<open>/\<close>.)
\<close>

datatype path = Path (absolute: bool) (path_parts: "string list")

definition path_of :: "string \<Rightarrow> path" where
  "path_of s = Path (starts_with ''/'' s)
     (filter (\<lambda>p. p \<noteq> [] \<and> p \<noteq> ''.'') (split_on CHR ''/'' s))"

definition path_join :: "path \<Rightarrow> string \<Rightarrow> path" where
  "path_join p s =
     (if absolute (path_of s) then path_of s
      else Path (absolute p) (path_parts p @ path_parts (path_of s)))"

definition path_parent :: "path \<Rightarrow> path" where
  "path_parent p = Path (absolute p) (butlast (path_parts p))"

definition path_name :: "path \<Rightarrow> string" where
  "path_name p = (if path_parts p = [] then [] else last (path_parts p))"

definition path_str :: "path \<Rightarrow> string" where
  "path_str p =
     (if absolute p then ''/'' @ join_with ''/'' (path_parts p)
      else if path_parts p = [] then ''.'' else join_with ''/'' (path_parts p))"

text \<open>A file name: one part of its own.\<close>

definition plain_name :: "string \<Rightarrow> bool" where
  "plain_name s \<longleftrightarrow> s \<noteq> [] \<and> s \<noteq> ''.'' \<and> CHR ''/'' \<notin> set s"

lemma starts_with_slash: "starts_with ''/'' s \<longleftrightarrow> (\<exists>t. s = CHR ''/'' # t)"
  by (simp add: starts_with_iff)

lemma path_of_plain: "plain_name s \<Longrightarrow> path_of s = Path False [s]"
  by (auto simp: path_of_def plain_name_def starts_with_slash split_on_no_sep)

lemma path_join_plain:
  "plain_name s \<Longrightarrow> path_join p s = Path (absolute p) (path_parts p @ [s])"
  by (simp add: path_join_def path_of_plain)

lemma path_join_plain_inj:
  "plain_name s \<Longrightarrow> plain_name t \<Longrightarrow> path_join p s = path_join p t \<longleftrightarrow> s = t"
  by (simp add: path_join_plain)

lemma path_name_join: "plain_name s \<Longrightarrow> path_name (path_join p s) = s"
  by (simp add: path_join_plain path_name_def)

lemma path_parent_join: "plain_name s \<Longrightarrow> path_parent (path_join p s) = p"
  by (cases p) (simp add: path_join_plain path_parent_def)

end
