(* ===== verification/Sweep_Config.thy ===== *)
theory Sweep_Config
  imports Py_Repr Py_Path
begin

text \<open>
  \<open>tools/benchmark_sweep_lib/config.py\<close>: the constants and the three data classes of the
  benchmark sweep, the registered identifiers it reads from
  \<open>tools/metadata_registry_constants.py\<close>, and the argument record that \<open>cli.py\<close>'s parser
  produces. A Python set of names is the list of its elements.
\<close>

section \<open>Registered identifiers\<close>

definition GROUPED_DISPATCH_EXECUTION_STRATEGIES :: "string list" where
  "GROUPED_DISPATCH_EXECUTION_STRATEGIES =
     [''device_grouped_exact_wide_export_kernel_batched_d2h'',
      ''device_grouped_pack_and_exact_wide_export_kernels_batched_d2h'',
      ''device_grouped_pack_gemm_and_bounded_export_kernels_batched_d2h'',
      ''device_grouped_pack_gemm_and_exact_wide_export_kernels_batched_d2h'',
      ''device_grouped_pack_gemm_and_finite_export_kernel_batched_d2h'',
      ''device_grouped_pack_gemm_host_exports'',
      ''host_phase_loop_batched_exact_wide_export_d2h'', ''host_phase_loop_per_task_export'',
      ''not_requested'']"

definition SCENARIO_REVIEW_MODES :: "string list" where
  "SCENARIO_REVIEW_MODES =
     [''release'', ''smoke'']"

definition PROMOTION_SCOPES :: "string list" where
  "PROMOTION_SCOPES =
     [''adaptive_grouped_scheduler_evidence_only'', ''autotune_cache_candidate'',
      ''baseline_only'', ''comparison_anchor_only'',
      ''cpu_backed_2048_release_review_candidate'', ''cpu_selector_threshold_evidence_only'',
      ''execution_path_evidence'', ''explicit_reuse_contract_only'', ''exploratory_only'',
      ''export_variant_evidence_only'', ''feature_boundary'',
      ''final_output_chain_evidence_only'', ''final_output_chain_reuse_evidence_only'',
      ''grouped_dispatch_evidence_only'', ''hip_graph_replay_evidence_only'',
      ''independent_export_repack_control_only'', ''larger_final_output_chain_evidence_only'',
      ''layout_comparison_only'', ''layout_metadata_evidence_only'',
      ''lazy_export_chain_evidence_only'', ''lazy_export_chain_reuse_evidence_only'',
      ''narrow_margin_review_only'', ''non_promoting_budgeted_dry_run'',
      ''non_promoting_modulus_map'', ''non_promoting_modulus_set_experiment'',
      ''not_promotable'', ''proxy_evidence_only'', ''reconstruction_variant_evidence_only'',
      ''release_gate_review_required'', ''release_review_candidate'',
      ''resident_lifetime_arena_evidence_only'', ''result_cache_contract_candidate'',
      ''result_cache_research_only'', ''reuse_contract_evidence_only'',
      ''scenario_surface_only'', ''streaming_overlap_evidence_only'',
      ''tile_shape_evidence_only'', ''workload_comparison_only'']"

definition PLACEHOLDER_GPU_TARGET_IDS :: "string list" where
  "PLACEHOLDER_GPU_TARGET_IDS =
     [[], ''cpu'', ''n/a'', ''none'', ''not_applicable'', ''null'', ''unknown'']"


section \<open>Sweep constants\<close>

definition BOUNDED_BACKENDS :: "string list" where
  "BOUNDED_BACKENDS = [''cpu'', ''hip-direct'', ''hip-vector-alu-int64'', ''hipblaslt'', ''ck'',
     ''rocwmma'', ''amdgpu-builtins'']"

definition HOST_API_BATCH_BACKENDS :: "string list" where
  "HOST_API_BATCH_BACKENDS = [''hip-direct'']"

definition PUBLIC_ONESHOT_BACKENDS :: "string list" where
  "PUBLIC_ONESHOT_BACKENDS = [''cpu'', ''hip-direct'']"

definition EXACT_WIDE_BACKENDS :: "string list" where
  "EXACT_WIDE_BACKENDS = [''cpu'', ''hip-direct'', ''hipblaslt'', ''ck'', ''rocwmma'', ''amdgpu-builtins'']"

definition FINITE_BACKENDS :: "string list" where
  "FINITE_BACKENDS = [''cpu'', ''hip-direct'', ''hipblaslt'', ''ck'', ''rocwmma'', ''amdgpu-builtins'']"

definition WRAP64_BACKENDS :: "string list" where
  "WRAP64_BACKENDS = [''wrap64-byte-limb'', ''hip-direct'']"

definition WRAP64_ROCWMMA_CANDIDATE_BACKEND :: string where
  "WRAP64_ROCWMMA_CANDIDATE_BACKEND = ''rocwmma-wrap64-candidate''"

definition BOUNDED_SEMANTICS :: "string list" where
  "BOUNDED_SEMANTICS = [''bounded-i64'', ''bounded-u64'']"

definition EXACT_WIDE_SEMANTICS :: "string list" where
  "EXACT_WIDE_SEMANTICS = [''exact-wide-signed'', ''exact-wide-unsigned'']"

definition RNS_CHAIN_SEMANTICS :: "string list" where
  "RNS_CHAIN_SEMANTICS = BOUNDED_SEMANTICS @ EXACT_WIDE_SEMANTICS"

definition RELEASE_MIN_WARMUPS :: int where
  "RELEASE_MIN_WARMUPS = 3"

definition RELEASE_MIN_REPEATS :: int where
  "RELEASE_MIN_REPEATS = 9"

definition PROMOTABLE_RELEASE_SHAPES :: "int list" where
  "PROMOTABLE_RELEASE_SHAPES = [64, 128, 512, 1024]"

definition EXPLORATORY_RELEASE_SHAPES :: "int list" where
  "EXPLORATORY_RELEASE_SHAPES = [2048, 4096, 8192]"

definition DEFAULT_ADAPTIVE_CASES :: "string list" where
  "DEFAULT_ADAPTIVE_CASES =
     [''tiny-adaptive:65,65,64,64,64'', ''medium-adaptive:1024,1024,1024,128,128'']"

definition ADAPTIVE_WORKLOAD_CASES :: "string list" where
  "ADAPTIVE_WORKLOAD_CASES =
     [''banded-adaptive-256:256,256,512,64,64,adaptive-bands'',
      ''banded-adaptive-1024:1024,1024,1024,128,128,adaptive-bands'',
      ''banded-rect-adaptive:512,1024,512,128,128,adaptive-bands'']"

definition DEFAULT_FINITE_RING_MODULI :: "int list" where
  "DEFAULT_FINITE_RING_MODULI = [251, 255]"

definition DEFAULT_FINITE_FIELD_MODULI :: "int list" where
  "DEFAULT_FINITE_FIELD_MODULI = [251]"

definition INPUT_PROFILES :: "string list" where
  "INPUT_PROFILES = [''adaptive-bands'', ''uniform-small'']"

definition DEFAULT_EXACT_WIDE_LIMB_COUNT :: int where
  "DEFAULT_EXACT_WIDE_LIMB_COUNT = 4"

definition EXACT_WIDE_LIMB_VARIANTS :: "int list" where
  "EXACT_WIDE_LIMB_VARIANTS = [1, 2, 3, 4, 8, 16, 32]"

section \<open>Cases, items and commands\<close>

record sweep_case =
  cs_name :: string
  cs_m :: int
  cs_n :: int
  cs_k :: int
  cs_tile_m :: int
  cs_tile_n :: int
  cs_bound_mode :: string
  cs_input_profile :: string
  cs_require_adaptive :: bool
  cs_promotable :: bool

text \<open>
  The backends of an item come from JSON unchecked, so they are values; the lists the loader
  checks are typed.
\<close>

record scenario_item =
  si_family :: string
  si_name :: string
  si_semantics :: string
  si_case :: sweep_case
  si_evidence_scope :: string
  si_output_domain :: string
  si_rationale :: string
  si_review_mode_expectation :: string
  si_promotion_eligibility :: string
  si_backends :: "pyval list option"
  si_pack_mode :: string
  si_finite_moduli :: "int option list"
  si_exact_wide_limb_counts :: "int option list"
  si_residue_chain_length :: int
  si_residue_chain_final_export :: bool
  si_residue_chain_independent_final_export :: bool
  si_output_ld_padding :: int
  si_host_api_batch_size :: int
  si_oneshot :: bool
  si_native_to_rns_bridge :: bool
  si_vector_to_rns_chain :: bool
  si_vector_to_rns_chain_host_repack_control :: bool
  si_transient_uniform_small_inputs :: bool
  si_sparse_a_4_to_2 :: bool
  si_sparse_a_4_to_2_dense_baseline :: bool
  si_prefix_policy :: "string option"
  si_max_prefix :: "int option"
  si_bound_source :: "string option"
  si_next_op_hint :: "string option"
  si_residue_channel_fusion :: bool
  si_modulus_set :: string
  si_tile_shape_variant :: string
  si_export_variant :: string
  si_reconstruction_variant :: string
  si_grouped_dispatch_tasks :: int
  si_hip_graph_replay :: bool
  si_workload_proxy :: string
  si_resident_lifetime :: bool
  si_workspace_arena :: bool
  si_adaptive_grouped_scheduler :: bool
  si_streaming_overlap :: bool
  si_k_block_policy :: string
  si_resident_redesign_candidate :: string
  si_resident_redesign_dimensions :: "string list"
  si_release_gate :: string
  si_verification_amortization :: string
  si_error_detection_policy :: string
  si_cpu_small_shape_selector :: string
  si_incremental_result_cache :: string
  si_include_wrap64_candidate :: bool
  si_metadata :: "pydict option"

record sweep_command =
  cmd_name :: string
  cmd_command :: "string list"
  cmd_output :: path
  cmd_scenario :: "pydict option"
  cmd_env :: "(string \<times> string) list option"

section \<open>Arguments\<close>

text \<open>
  The namespace of \<open>cli.py\<close>'s parser, with the attributes the planner reads. A repeatable option
  that is absent is \<open>None\<close> there and the empty list here: the code tests its truth only. The last
  group of attributes has no command-line option; \<open>scenario_args_for_item\<close> sets them and every
  reader falls back to the default.
\<close>

record sweep_args =
  sa_bench :: "path option"
  sa_bench_for :: "string list"
  sa_out_root :: path
  sa_skip_existing :: bool
  sa_max_new_captures :: "int option"
  sa_hip_visible_devices :: "string option"
  sa_rocr_visible_devices :: "string option"
  sa_gpu_device_ordinal :: "string option"
  sa_gpu_shards :: "string option"
  sa_scenario :: "string list"
  sa_backends :: "string list"
  sa_semantics :: "string list"
  sa_case :: "string list"
  sa_adaptive_case :: "string list"
  sa_shapes :: "string list"
  sa_modulus :: "int list"
  sa_exact_wide_limbs :: "int list"
  sa_bound_source :: "string option"
  sa_next_op_hint :: "string option"
  sa_prefix_policy :: "string option"
  sa_max_prefix :: "int option"
  sa_residue_chain_length :: int
  sa_residue_chain_final_export :: bool
  sa_residue_chain_independent_final_export :: bool
  sa_host_api_batch_size :: int
  sa_output_ld_padding :: int
  sa_residue_channel_fusion :: bool
  sa_modulus_set :: string
  sa_tile_shape_variant :: string
  sa_export_variant :: string
  sa_reconstruction_variant :: string
  sa_grouped_dispatch_tasks :: int
  sa_hip_graph_replay :: bool
  sa_workload_proxy :: string
  sa_resident_lifetime :: bool
  sa_workspace_arena :: bool
  sa_adaptive_grouped_scheduler :: bool
  sa_streaming_overlap :: bool
  sa_k_block_policy :: string
  sa_release_gate :: string
  sa_verification_amortization :: string
  sa_error_detection_policy :: string
  sa_cpu_small_shape_selector :: string
  sa_incremental_result_cache :: string
  sa_include_exact_wide_limb_variants :: bool
  sa_include_default_adaptive :: bool
  sa_include_adaptive_workloads :: bool
  sa_adaptive_only :: bool
  sa_include_wrap64 :: bool
  sa_include_wrap64_rocwmma_candidate :: bool
  sa_include_exact_wide :: bool
  sa_reuse_packed_inputs :: bool
  sa_reuse_packed_a :: bool
  sa_reuse_packed_b :: bool
  sa_include_oneshot :: bool
  sa_oneshot_only :: bool
  sa_release_matrix :: bool
  sa_include_exploratory_large :: bool
  sa_review_mode :: string
  sa_warmups :: int
  sa_repeats :: int
  sa_cpu_threads :: int
  sa_cpu_parallel_threshold :: int
  sa_cpu_reference_mode :: string
  sa_progress :: bool
  sa_seed :: int
  sa_capture_timeout_seconds :: "pyfloat option"
  sa_dry_run :: bool
  sa_review_only :: bool
  sa_native_to_rns_bridge :: bool
  sa_vector_to_rns_chain :: bool
  sa_vector_to_rns_chain_host_repack_control :: bool
  sa_transient_uniform_small_inputs :: bool
  sa_sparse_a_4_to_2 :: bool
  sa_sparse_a_4_to_2_dense_baseline :: bool
  sa_resident_redesign_candidate :: string
  sa_resident_redesign_dimensions :: "string list"

text \<open>The values of a command line without options.\<close>

definition default_args :: sweep_args where
  "default_args =
     \<lparr>sa_bench = None, sa_bench_for = [],
      sa_out_root = path_of ''temp/benchmark-sweeps/windows-gfx1100'',
      sa_skip_existing = False, sa_max_new_captures = None,
      sa_hip_visible_devices = None, sa_rocr_visible_devices = None,
      sa_gpu_device_ordinal = None, sa_gpu_shards = None,
      sa_scenario = [], sa_backends = [], sa_semantics = [], sa_case = [], sa_adaptive_case = [],
      sa_shapes = [], sa_modulus = [], sa_exact_wide_limbs = [],
      sa_bound_source = None, sa_next_op_hint = None, sa_prefix_policy = None,
      sa_max_prefix = None, sa_residue_chain_length = 1,
      sa_residue_chain_final_export = False, sa_residue_chain_independent_final_export = False,
      sa_host_api_batch_size = 1, sa_output_ld_padding = 0, sa_residue_channel_fusion = False,
      sa_modulus_set = ''default'', sa_tile_shape_variant = ''default'',
      sa_export_variant = ''default'', sa_reconstruction_variant = ''default_garner'',
      sa_grouped_dispatch_tasks = 1, sa_hip_graph_replay = False, sa_workload_proxy = ''none'',
      sa_resident_lifetime = False, sa_workspace_arena = False,
      sa_adaptive_grouped_scheduler = False, sa_streaming_overlap = False,
      sa_k_block_policy = ''auto'', sa_release_gate = ''none'',
      sa_verification_amortization = ''none'', sa_error_detection_policy = ''none'',
      sa_cpu_small_shape_selector = ''none'', sa_incremental_result_cache = ''none'',
      sa_include_exact_wide_limb_variants = False, sa_include_default_adaptive = False,
      sa_include_adaptive_workloads = False, sa_adaptive_only = False,
      sa_include_wrap64 = False, sa_include_wrap64_rocwmma_candidate = False,
      sa_include_exact_wide = False, sa_reuse_packed_inputs = False, sa_reuse_packed_a = False,
      sa_reuse_packed_b = False, sa_include_oneshot = False, sa_oneshot_only = False,
      sa_release_matrix = False, sa_include_exploratory_large = False,
      sa_review_mode = ''smoke'', sa_warmups = 1, sa_repeats = 3, sa_cpu_threads = 0,
      sa_cpu_parallel_threshold = 1048576, sa_cpu_reference_mode = ''timed-baseline'',
      sa_progress = False, sa_seed = 1, sa_capture_timeout_seconds = None,
      sa_dry_run = False, sa_review_only = False,
      sa_native_to_rns_bridge = False, sa_vector_to_rns_chain = False,
      sa_vector_to_rns_chain_host_repack_control = False,
      sa_transient_uniform_small_inputs = False, sa_sparse_a_4_to_2 = False,
      sa_sparse_a_4_to_2_dense_baseline = False, sa_resident_redesign_candidate = [],
      sa_resident_redesign_dimensions = []\<rparr>"

text \<open>\<open>str.isdecimal\<close> on the code points below 256.\<close>

definition is_decimal :: "string \<Rightarrow> bool" where
  "is_decimal s \<longleftrightarrow> s \<noteq> [] \<and> list_all (\<lambda>c. 48 \<le> code c \<and> code c \<le> 57) s"

definition device_list_ok :: "string option \<Rightarrow> bool" where
  "device_list_ok v =
     (case v of None \<Rightarrow> True
      | Some s \<Rightarrow> list_all (\<lambda>part. is_decimal (strip part)) (split_on CHR '','' s))"

definition given :: "string option \<Rightarrow> bool" where
  "given v = (case v of None \<Rightarrow> False | Some s \<Rightarrow> s \<noteq> [])"

text \<open>The checks after \<open>parser.parse_args()\<close>; \<open>parser.error\<close> exits.\<close>

definition check_args :: "sweep_args \<Rightarrow> sweep_args res" where
  "check_args args =
     (let err = SystemExit in
     rthen (check (case sa_max_new_captures args of None \<Rightarrow> False | Some n \<Rightarrow> n < 0)
       (err ''--max-new-captures must be non-negative''))
     (rthen (check (sa_dry_run args \<and> sa_review_only args)
       (err ''--dry-run cannot be combined with --review-only''))
     (rthen (check (case sa_capture_timeout_seconds args of None \<Rightarrow> False
                    | Some t \<Rightarrow> flt_le t (FFin 0))
       (err ''--capture-timeout-seconds must be positive''))
     (rthen (check (sa_cpu_threads args < 0) (err ''--cpu-threads must be non-negative''))
     (rthen (check (sa_cpu_parallel_threshold args < 0)
       (err ''--cpu-parallel-threshold must be non-negative''))
     (rthen (rforM (\<lambda>(name, v). check (\<not> device_list_ok v)
         (err (''--'' @ name @ '' must be a comma-separated list of nonnegative device indices'')))
       [(''hip-visible-devices'', sa_hip_visible_devices args),
        (''rocr-visible-devices'', sa_rocr_visible_devices args),
        (''gpu-device-ordinal'', sa_gpu_device_ordinal args),
        (''gpu-shards'', sa_gpu_shards args)])
     (rthen (check (given (sa_gpu_shards args) \<and>
         (given (sa_hip_visible_devices args) \<or> given (sa_rocr_visible_devices args)))
       (err (''--gpu-shards sets HIP_VISIBLE_DEVICES and ROCR_VISIBLE_DEVICES per shard and cannot be combined '' @
             ''with --hip-visible-devices or --rocr-visible-devices'')))
     (rthen (check (sa_grouped_dispatch_tasks args \<le> 0)
       (err ''--grouped-dispatch-tasks must be positive''))
     (rthen (check (sa_modulus_set args \<noteq> ''default'' \<and>
         \<not> starts_with ''experimental:'' (sa_modulus_set args))
       (err ''--modulus-set must be default or experimental:NAME''))
     (rthen (check (sa_release_gate args = []) (err ''--release-gate must not be empty''))
     (rthen (check (sa_verification_amortization args = [])
       (err ''--verification-amortization must not be empty''))
     (rthen (check (sa_error_detection_policy args = [])
       (err ''--error-detection-policy must not be empty''))
     (rthen (check (sa_cpu_small_shape_selector args = [])
       (err ''--cpu-small-shape-selector must not be empty''))
     (rthen (check (sa_incremental_result_cache args = [])
       (err ''--incremental-result-cache must not be empty''))
     (Inr args)))))))))))))))"

end
