(* ===== verification/Sweep_Scenarios.thy ===== *)
theory Sweep_Scenarios
  imports Sweep_Config
begin

text \<open>
  \<open>tools/benchmark_sweep_lib/parsing.py\<close> and \<open>scenarios.py\<close>: the parser of shape cases, and the
  loader that turns the JSON scenario files into \<open>scenario_item\<close> records.

  Every check of the loader is a branch of the error monad with the code's message. The lemmas
  show what a loaded item satisfies: the typed invariant \<open>item_ok\<close>, that an unexported prefix is
  never too short for the values it must carry, and that the parser inverts the printer of cases.
\<close>

section \<open>Cases\<close>

definition parse_int :: "string \<Rightarrow> string \<Rightarrow> int res" where
  "parse_int txt0 label =
     (case py_int10 txt0 of
        None \<Rightarrow> Inl (SystemExit (label @ '' must be an integer, got '' @ repr_str txt0))
      | Some v \<Rightarrow> if v \<le> 0
                  then Inl (SystemExit (label @ '' must be positive, got '' @ show_int v))
                  else Inr v)"

text \<open>\<open>body.replace("x", ",")\<close> and the trimmed, non-empty parts.\<close>

definition case_parts :: "string \<Rightarrow> string list" where
  "case_parts body =
     filter (\<lambda>p. p \<noteq> [])
       (map strip (split_on CHR '','' (map (\<lambda>c. if c = CHR ''x'' then CHR '','' else c) body)))"

definition shape_str :: "int \<Rightarrow> int \<Rightarrow> int \<Rightarrow> string" where
  "shape_str m n k = show_int m @ ''x'' @ show_int n @ ''x'' @ show_int k"

definition parse_case :: "bool \<Rightarrow> bool \<Rightarrow> string \<Rightarrow> sweep_case res" where
  "parse_case adaptive promotable raw =
     (let (name, body) = (case split_once CHR '':'' raw of None \<Rightarrow> ([], raw) | Some p \<Rightarrow> p);
          parts = case_parts body;
          min_expected = (if adaptive then 5 else 3); max_expected = (if adaptive then 6 else 3)
      in
     rthen (check (length parts < min_expected \<or> max_expected < length parts)
       (SystemExit (''case must use '' @ (if adaptive then ''NAME:M,N,K,TILE_M,TILE_N[,INPUT_PROFILE]''
          else ''NAME:M,N,K'') @ '', got '' @ repr_str raw)))
     (rbind (parse_int (parts ! 0) ''m'') (\<lambda>m.
     rbind (parse_int (parts ! 1) ''n'') (\<lambda>n.
     rbind (parse_int (parts ! 2) ''k'') (\<lambda>k.
     rbind (if adaptive then parse_int (parts ! 3) ''tile_m'' else Inr 128) (\<lambda>tile_m.
     rbind (if adaptive then parse_int (parts ! 4) ''tile_n'' else Inr 128) (\<lambda>tile_n.
     let input_profile = (if adaptive \<and> length parts = 6 then parts ! 5 else ''uniform-small'') in
     rthen (check (input_profile \<notin> set INPUT_PROFILES)
       (SystemExit (''adaptive input profile must be one of '' @ repr_strs INPUT_PROFILES @
          '', got '' @ repr_str input_profile)))
     (Inr \<lparr>cs_name = (if name = []
                      then (if adaptive then ''adaptive'' else ''shape'') @ ''-'' @ shape_str m n k
                      else name),
           cs_m = m, cs_n = n, cs_k = k, cs_tile_m = tile_m, cs_tile_n = tile_n,
           cs_bound_mode = (if adaptive then ''per-tile'' else ''global''),
           cs_input_profile = input_profile, cs_require_adaptive = adaptive,
           cs_promotable = promotable\<rparr>))))))))"

section \<open>Prefix bounds\<close>

definition SCENARIO_DEFAULT_MODULI :: "int list" where
  "SCENARIO_DEFAULT_MODULI =
     [256, 255, 253, 251, 247, 239, 233, 229, 227, 223, 217, 211, 199, 197, 193, 191, 181, 179,
      173, 167, 163, 157, 151, 149, 139, 137, 131, 127]"

definition default_prefix_product :: "nat \<Rightarrow> int" where
  "default_prefix_product prefix =
     fold (\<lambda>modulus product. product * modulus) (take prefix SCENARIO_DEFAULT_MODULI) 1"

definition required_static_uniform_small_prefix :: "string \<Rightarrow> int \<Rightarrow> nat option" where
  "required_static_uniform_small_prefix semantics k =
     (if semantics \<notin> {''bounded-i64'', ''bounded-u64''} then None
      else let output_bound = k * 16 * 16;
               required_range = (if semantics = ''bounded-i64'' then output_bound * 2 else output_bound)
           in List.find (\<lambda>prefix. required_range < default_prefix_product prefix)
                [1..<length SCENARIO_DEFAULT_MODULI + 1])"

definition fixed_prefix_static_export :: "scenario_item \<Rightarrow> bool" where
  "fixed_prefix_static_export item \<longleftrightarrow>
     si_prefix_policy item = Some ''fixed-requested'' \<and> si_max_prefix item \<noteq> None \<and>
     cs_input_profile (si_case item) = ''uniform-small'' \<and> si_output_domain item = ''host_export'' \<and>
     si_next_op_hint item \<in> {None, Some ''final-export''}"

definition validate_fixed_prefix_static_host_export :: "scenario_item \<Rightarrow> string \<Rightarrow> unit res" where
  "validate_fixed_prefix_static_host_export item label =
     (if \<not> fixed_prefix_static_export item then Inr ()
      else case (si_max_prefix item,
                 required_static_uniform_small_prefix (si_semantics item) (cs_k (si_case item))) of
          (Some max_prefix, Some required_prefix) \<Rightarrow>
            check (max_prefix < int required_prefix)
              (SystemExit (label @ '' fixed-requested max_prefix='' @ show_int max_prefix @
                 '' cannot host-export '' @ si_semantics item @ '' uniform-small k='' @
                 show_int (cs_k (si_case item)) @ ''; required_prefix='' @ show_nat required_prefix))
        | _ \<Rightarrow> Inr ())"

section \<open>Fields\<close>

definition optional_tuple :: "pyval \<Rightarrow> string \<Rightarrow> pyval list option res" where
  "optional_tuple v label =
     (if is_None v then Inr None
      else if \<not> is_list v \<or> elems_of v = []
      then Inl (SystemExit (label @ '' must be a nonempty list''))
      else Inr (Some (elems_of v)))"

definition tuple_or_default :: "pyval \<Rightarrow> string \<Rightarrow> pyval list \<Rightarrow> pyval list res" where
  "tuple_or_default v label dflt =
     rbind (optional_tuple v label) (\<lambda>converted. Inr (case converted of None \<Rightarrow> dflt | Some xs \<Rightarrow> xs))"

definition string_tuple_or_default :: "pyval \<Rightarrow> string \<Rightarrow> string list \<Rightarrow> string list res" where
  "string_tuple_or_default v label dflt =
     rbind (tuple_or_default v label (map PStr dflt)) (\<lambda>xs.
     rthen (rforM (\<lambda>item. check (\<not> is_nonempty_str item)
       (SystemExit (label @ '' must contain nonempty strings''))) xs)
     (Inr (map str_of xs)))"

definition required_string :: "pydict \<Rightarrow> string \<Rightarrow> string \<Rightarrow> string res" where
  "required_string raw key label =
     (if is_nonempty_str (dget raw key) then Inr (str_of (dget raw key))
      else Inl (SystemExit (label @ ''.'' @ key @ '' must be a nonempty string'')))"

definition optional_string :: "pydict \<Rightarrow> string \<Rightarrow> string \<Rightarrow> string option res" where
  "optional_string raw key label =
     (if is_None (dget raw key) then Inr None
      else if is_nonempty_str (dget raw key) then Inr (Some (str_of (dget raw key)))
      else Inl (SystemExit (label @ ''.'' @ key @ '' must be a nonempty string when present'')))"

fun is_plain_int :: "pyval \<Rightarrow> bool" where
  "is_plain_int (PInt _) = True"
| "is_plain_int _ = False"

definition required_int :: "pydict \<Rightarrow> string \<Rightarrow> string \<Rightarrow> bool \<Rightarrow> int res" where
  "required_int raw key label positive =
     (let v = dget raw key in
     rthen (check (\<not> is_plain_int v) (SystemExit (label @ ''.'' @ key @ '' must be an integer'')))
     (rthen (check (positive \<and> int_of v \<le> 0) (SystemExit (label @ ''.'' @ key @ '' must be positive'')))
     (Inr (int_of v))))"

definition optional_int :: "pydict \<Rightarrow> string \<Rightarrow> string \<Rightarrow> int option res" where
  "optional_int raw key label =
     (let v = dget raw key in
      if is_None v then Inr None
      else if is_plain_int v then Inr (Some (int_of v))
      else Inl (SystemExit (label @ ''.'' @ key @ '' must be an integer when present'')))"

definition bool_or_default :: "pydict \<Rightarrow> string \<Rightarrow> string \<Rightarrow> bool \<Rightarrow> bool res" where
  "bool_or_default raw key label dflt =
     (case dget_or raw key (PBool dflt) of
        PBool b \<Rightarrow> Inr b
      | _ \<Rightarrow> Inl (SystemExit (label @ ''.'' @ key @ '' must be boolean'')))"

text \<open>\<open>f(raw, key) if key in raw else default\<close>.\<close>

definition string_or :: "pydict \<Rightarrow> string \<Rightarrow> string \<Rightarrow> string \<Rightarrow> string res" where
  "string_or raw key dflt label =
     (if has_key raw key then required_string raw key label else Inr dflt)"

definition int_or :: "pydict \<Rightarrow> string \<Rightarrow> int \<Rightarrow> string \<Rightarrow> bool \<Rightarrow> int res" where
  "int_or raw key dflt label positive =
     (if has_key raw key then required_int raw key label positive else Inr dflt)"

definition case_from_data ::
  "pyval \<Rightarrow> (string \<times> sweep_case) list \<Rightarrow> string \<Rightarrow> sweep_case res" where
  "case_from_data v cases label =
     (case v of
        PStr s \<Rightarrow> (case map_of cases s of
            None \<Rightarrow> Inl (SystemExit (label @ '' references unknown case alias '' @ repr_str s))
          | Some c \<Rightarrow> Inr c)
      | PDict d \<Rightarrow>
          rbind (required_string d ''name'' label) (\<lambda>name.
          rbind (required_int d ''m'' label True) (\<lambda>m.
          rbind (required_int d ''n'' label True) (\<lambda>n.
          rbind (required_int d ''k'' label True) (\<lambda>k.
          rbind (required_int d ''tile_m'' label True) (\<lambda>tile_m.
          rbind (required_int d ''tile_n'' label True) (\<lambda>tile_n.
          rbind (required_string d ''bound_mode'' label) (\<lambda>bound_mode.
          rbind (required_string d ''input_profile'' label) (\<lambda>input_profile.
          rbind (bool_or_default d ''require_adaptive'' label False) (\<lambda>require_adaptive.
          rbind (bool_or_default d ''promotable'' label True) (\<lambda>promotable.
          Inr \<lparr>cs_name = name, cs_m = m, cs_n = n, cs_k = k, cs_tile_m = tile_m,
               cs_tile_n = tile_n, cs_bound_mode = bound_mode, cs_input_profile = input_profile,
               cs_require_adaptive = require_adaptive, cs_promotable = promotable\<rparr>))))))))))
      | _ \<Rightarrow> Inl (SystemExit (label @ '' must be a case alias string or object'')))"

fun positive_or_null :: "pyval \<Rightarrow> int option res" where
  "positive_or_null PNone = Inr None"
| "positive_or_null (PInt n) = (if 0 < n then Inr (Some n) else Inl ValueError)"
| "positive_or_null _ = Inl ValueError"

definition positive_or_null_list :: "pyval \<Rightarrow> string \<Rightarrow> int option list res" where
  "positive_or_null_list v label =
     rbind (tuple_or_default v label [PNone]) (\<lambda>xs.
     case rmapM positive_or_null xs of
       Inl _ \<Rightarrow> Inl (SystemExit (label @ '' must contain positive integers or null''))
     | Inr ys \<Rightarrow> Inr ys)"

definition finite_moduli :: "pyval \<Rightarrow> string \<Rightarrow> int option list res" where
  "finite_moduli v label = positive_or_null_list v label"

definition exact_wide_limb_counts :: "pyval \<Rightarrow> string \<Rightarrow> int option list res" where
  "exact_wide_limb_counts v label = positive_or_null_list v label"

definition metadata :: "pydict \<Rightarrow> string \<Rightarrow> pydict option res" where
  "metadata raw label =
     (case dget raw ''metadata'' of
        PNone \<Rightarrow> Inr None
      | PDict d \<Rightarrow>
          (let strategy = dget d ''grouped_strategy_expectation'' in
           if is_None strategy then Inr (Some d)
           else rbind (in_str_set strategy GROUPED_DISPATCH_EXECUTION_STRATEGIES) (\<lambda>known.
             if known then Inr (Some d)
             else Inl (SystemExit (label @ '' has unregistered grouped_strategy_expectation='' @
                    py_repr strategy))))
      | _ \<Rightarrow> Inl (SystemExit (label @ ''.metadata must be an object'')))"

definition scenario_review_mode :: "pydict \<Rightarrow> string \<Rightarrow> string res" where
  "scenario_review_mode raw label =
     rbind (required_string raw ''review_mode_expectation'' label) (\<lambda>v.
     raise_if (v \<notin> set SCENARIO_REVIEW_MODES)
       (SystemExit (label @ ''.review_mode_expectation must be a registered scenario review mode''))
       (Inr v))"

definition promotion_eligibility :: "pydict \<Rightarrow> string \<Rightarrow> string res" where
  "promotion_eligibility raw label =
     rbind (required_string raw ''promotion_eligibility'' label) (\<lambda>v.
     raise_if (v \<notin> set PROMOTION_SCOPES)
       (SystemExit (label @ ''.promotion_eligibility must be a registered promotion scope''))
       (Inr v))"

section \<open>Items\<close>

text \<open>The constructor call: its arguments are evaluated in this order.\<close>

definition build_item ::
  "string \<Rightarrow> pydict \<Rightarrow> (string \<times> sweep_case) list \<Rightarrow> string \<Rightarrow> int \<Rightarrow> string \<Rightarrow> string list \<Rightarrow>
   scenario_item res" where
  "build_item family raw cases label grouped_tasks resident_candidate resident_dimensions =
     rbind (required_string raw ''name'' label) (\<lambda>name.
     rbind (required_string raw ''semantics'' label) (\<lambda>semantics.
     rbind (case_from_data (dget raw ''case'') cases (label @ ''.case'')) (\<lambda>case0.
     rbind (required_string raw ''evidence_scope'' label) (\<lambda>evidence_scope.
     rbind (required_string raw ''output_domain'' label) (\<lambda>output_domain.
     rbind (required_string raw ''rationale'' label) (\<lambda>rationale.
     rbind (scenario_review_mode raw label) (\<lambda>review_mode_expectation.
     rbind (promotion_eligibility raw label) (\<lambda>promotion_eligibility.
     rbind (optional_tuple (dget raw ''backends'') (label @ ''.backends'')) (\<lambda>backends.
     rbind (string_or raw ''pack_mode'' ''per_repeat_repack'' label) (\<lambda>pack_mode.
     rbind (finite_moduli (dget raw ''finite_moduli'') (label @ ''.finite_moduli''))
       (\<lambda>finite_moduli.
     rbind (exact_wide_limb_counts (dget raw ''exact_wide_limb_counts'') (label @ ''.exact_wide_limb_counts''))
       (\<lambda>exact_wide_limb_counts.
     rbind (int_or raw ''residue_chain_length'' 1 label True) (\<lambda>residue_chain_length.
     rbind (bool_or_default raw ''residue_chain_final_export'' label False)
       (\<lambda>residue_chain_final_export.
     rbind (bool_or_default raw ''residue_chain_independent_final_export'' label False)
       (\<lambda>residue_chain_independent_final_export.
     rbind (int_or raw ''output_ld_padding'' 0 label False) (\<lambda>output_ld_padding.
     rbind (int_or raw ''host_api_batch_size'' 1 label True) (\<lambda>host_api_batch_size.
     rbind (bool_or_default raw ''oneshot'' label False) (\<lambda>oneshot.
     rbind (bool_or_default raw ''native_to_rns_bridge'' label False)
       (\<lambda>native_to_rns_bridge.
     rbind (bool_or_default raw ''vector_to_rns_chain'' label False) (\<lambda>vector_to_rns_chain.
     rbind (bool_or_default raw ''vector_to_rns_chain_host_repack_control'' label False)
       (\<lambda>vector_to_rns_chain_host_repack_control.
     rbind (bool_or_default raw ''transient_uniform_small_inputs'' label False)
       (\<lambda>transient_uniform_small_inputs.
     rbind (bool_or_default raw ''sparse_a_4_to_2'' label False) (\<lambda>sparse_a_4_to_2.
     rbind (bool_or_default raw ''sparse_a_4_to_2_dense_baseline'' label False)
       (\<lambda>sparse_a_4_to_2_dense_baseline.
     rbind (optional_string raw ''prefix_policy'' label) (\<lambda>prefix_policy.
     rbind (optional_int raw ''max_prefix'' label) (\<lambda>max_prefix.
     rbind (optional_string raw ''bound_source'' label) (\<lambda>bound_source.
     rbind (optional_string raw ''next_op_hint'' label) (\<lambda>next_op_hint.
     rbind (bool_or_default raw ''residue_channel_fusion'' label False)
       (\<lambda>residue_channel_fusion.
     rbind (string_or raw ''modulus_set'' ''default'' label) (\<lambda>modulus_set.
     rbind (string_or raw ''tile_shape_variant'' ''default'' label) (\<lambda>tile_shape_variant.
     rbind (string_or raw ''export_variant'' ''default'' label) (\<lambda>export_variant.
     rbind (string_or raw ''reconstruction_variant'' ''default_garner'' label)
       (\<lambda>reconstruction_variant.
     rbind (bool_or_default raw ''hip_graph_replay'' label False) (\<lambda>hip_graph_replay.
     rbind (string_or raw ''workload_proxy'' ''none'' label) (\<lambda>workload_proxy.
     rbind (bool_or_default raw ''resident_lifetime'' label False) (\<lambda>resident_lifetime.
     rbind (bool_or_default raw ''workspace_arena'' label False) (\<lambda>workspace_arena.
     rbind (bool_or_default raw ''adaptive_grouped_scheduler'' label False)
       (\<lambda>adaptive_grouped_scheduler.
     rbind (bool_or_default raw ''streaming_overlap'' label False) (\<lambda>streaming_overlap.
     rbind (string_or raw ''k_block_policy'' ''auto'' label) (\<lambda>k_block_policy.
     rbind (string_or raw ''release_gate'' ''none'' label) (\<lambda>release_gate.
     rbind (string_or raw ''verification_amortization'' ''none'' label)
       (\<lambda>verification_amortization.
     rbind (string_or raw ''error_detection_policy'' ''none'' label)
       (\<lambda>error_detection_policy.
     rbind (string_or raw ''cpu_small_shape_selector'' ''none'' label)
       (\<lambda>cpu_small_shape_selector.
     rbind (string_or raw ''incremental_result_cache'' ''none'' label)
       (\<lambda>incremental_result_cache.
     rbind (bool_or_default raw ''include_wrap64_candidate'' label False)
       (\<lambda>include_wrap64_candidate.
     rbind (metadata raw label) (\<lambda>metadata.
     Inr \<lparr>si_family = family,
        si_name = name,
        si_semantics = semantics,
        si_case = case0,
        si_evidence_scope = evidence_scope,
        si_output_domain = output_domain,
        si_rationale = rationale,
        si_review_mode_expectation = review_mode_expectation,
        si_promotion_eligibility = promotion_eligibility,
        si_backends = backends,
        si_pack_mode = pack_mode,
        si_finite_moduli = finite_moduli,
        si_exact_wide_limb_counts = exact_wide_limb_counts,
        si_residue_chain_length = residue_chain_length,
        si_residue_chain_final_export = residue_chain_final_export,
        si_residue_chain_independent_final_export = residue_chain_independent_final_export,
        si_output_ld_padding = output_ld_padding,
        si_host_api_batch_size = host_api_batch_size,
        si_oneshot = oneshot,
        si_native_to_rns_bridge = native_to_rns_bridge,
        si_vector_to_rns_chain = vector_to_rns_chain,
        si_vector_to_rns_chain_host_repack_control = vector_to_rns_chain_host_repack_control,
        si_transient_uniform_small_inputs = transient_uniform_small_inputs,
        si_sparse_a_4_to_2 = sparse_a_4_to_2,
        si_sparse_a_4_to_2_dense_baseline = sparse_a_4_to_2_dense_baseline,
        si_prefix_policy = prefix_policy,
        si_max_prefix = max_prefix,
        si_bound_source = bound_source,
        si_next_op_hint = next_op_hint,
        si_residue_channel_fusion = residue_channel_fusion,
        si_modulus_set = modulus_set,
        si_tile_shape_variant = tile_shape_variant,
        si_export_variant = export_variant,
        si_reconstruction_variant = reconstruction_variant,
        si_grouped_dispatch_tasks = grouped_tasks,
        si_hip_graph_replay = hip_graph_replay,
        si_workload_proxy = workload_proxy,
        si_resident_lifetime = resident_lifetime,
        si_workspace_arena = workspace_arena,
        si_adaptive_grouped_scheduler = adaptive_grouped_scheduler,
        si_streaming_overlap = streaming_overlap,
        si_k_block_policy = k_block_policy,
        si_resident_redesign_candidate = resident_candidate,
        si_resident_redesign_dimensions = resident_dimensions,
        si_release_gate = release_gate,
        si_verification_amortization = verification_amortization,
        si_error_detection_policy = error_detection_policy,
        si_cpu_small_shape_selector = cpu_small_shape_selector,
        si_incremental_result_cache = incremental_result_cache,
        si_include_wrap64_candidate = include_wrap64_candidate,
        si_metadata = metadata\<rparr>)))))))))))))))))))))))))))))))))))))))))))))))"

definition bounded_semantics :: "string \<Rightarrow> bool" where
  "bounded_semantics semantics \<longleftrightarrow> semantics \<in> {''bounded-i64'', ''bounded-u64''}"

definition rns_semantics :: "string \<Rightarrow> bool" where
  "rns_semantics semantics \<longleftrightarrow>
     semantics \<in> {''bounded-i64'', ''bounded-u64'', ''exact-wide-signed'', ''exact-wide-unsigned''}"

definition validate_transient :: "scenario_item \<Rightarrow> string \<Rightarrow> unit res" where
  "validate_transient item label =
     (let bad = (\<lambda>t. SystemExit (label @ ''.transient_uniform_small_inputs '' @ t)) in
      if \<not> si_transient_uniform_small_inputs item then Inr () else
      rthen (check (\<not> bounded_semantics (si_semantics item)) (bad ''requires bounded i64/u64 semantics''))
     (rthen (check (cs_input_profile (si_case item) \<noteq> ''uniform-small'' \<or>
         cs_bound_mode (si_case item) \<noteq> ''global'')
       (bad ''requires uniform-small global-bound inputs''))
     (rthen (check (si_backends item \<noteq> Some [PStr ''hip-direct''])
       (bad (''requires backends=['' @ [CHR 0x22] @ ''hip-direct'' @ [CHR 0x22] @ '']'')))
     (rthen (check (si_pack_mode item \<noteq> ''per_repeat_repack'' \<or> si_oneshot item)
       (bad ''cannot combine with packed reuse or one-shot''))
     (rthen (check (si_native_to_rns_bridge item \<or> si_vector_to_rns_chain item \<or>
         si_sparse_a_4_to_2 item \<or> si_residue_channel_fusion item \<or> si_residue_chain_length item \<noteq> 1)
       (bad ''cannot combine with bridge, chain, sparse, residue fusion, or residue-chain modes''))
     (check (si_prefix_policy item \<noteq> Some ''fixed-requested'' \<or> si_max_prefix item \<noteq> Some 9)
       (bad ''requires fixed-requested max_prefix=9'')))))))"

definition SPARSE_BACKENDS :: "string list" where
  "SPARSE_BACKENDS = [''cpu'', ''hip-direct'', ''hipblaslt'', ''ck'', ''rocwmma'', ''amdgpu-builtins'']"

definition item_backends :: "scenario_item \<Rightarrow> pyval list" where
  "item_backends item = (case si_backends item of None \<Rightarrow> [] | Some bs \<Rightarrow> bs)"

definition validate_sparse :: "scenario_item \<Rightarrow> string \<Rightarrow> unit res" where
  "validate_sparse item label =
     (let bad = (\<lambda>t. SystemExit (label @ ''.sparse_a_4_to_2'' @ t)) in
      if si_sparse_a_4_to_2 item then
      rthen (check (si_semantics item \<notin> {''finite-u8-ring'', ''finite-u8-field''} \<and>
          \<not> rns_semantics (si_semantics item))
        (bad '' requires finite-u8, bounded RNS, or exact-wide RNS semantics''))
     (rthen (check (cs_k (si_case item) mod 4 \<noteq> 0) (bad '' requires K divisible by 4''))
     (rthen (check (rns_semantics (si_semantics item) \<and>
         cs_input_profile (si_case item) \<noteq> ''uniform-small'')
       (bad '' RNS scenarios require uniform-small input_profile''))
     (rthen (check (si_pack_mode item \<noteq> ''per_repeat_repack'')
       (bad '' cannot use packed-input reuse in this pass''))
     (rbind (rmapM (\<lambda>backend. in_str_set backend SPARSE_BACKENDS) (item_backends item)) (\<lambda>supported.
     rthen (check (False \<in> set supported) (bad '' supports only CPU/direct/accelerator backends''))
     (check (si_oneshot item \<or> 1 < si_host_api_batch_size item \<or> 1 < si_grouped_dispatch_tasks item \<or>
         si_hip_graph_replay item \<or> si_incremental_result_cache item \<noteq> ''none'' \<or>
         si_residue_chain_length item \<noteq> 1 \<or> si_native_to_rns_bridge item \<or>
         si_vector_to_rns_chain item \<or> si_residue_channel_fusion item)
       (bad '' supports only persistent single-capture scenarios in this pass'')))))))
      else check (si_sparse_a_4_to_2_dense_baseline item)
        (bad ''_dense_baseline requires sparse_a_4_to_2=true''))"

definition validate_dense_baseline :: "scenario_item \<Rightarrow> string \<Rightarrow> unit res" where
  "validate_dense_baseline item label =
     check (si_sparse_a_4_to_2_dense_baseline item \<and> list_ex (\<lambda>b. eq_str b ''cpu'') (item_backends item))
       (SystemExit (label @ ''.sparse_a_4_to_2_dense_baseline requires GPU dense baseline backends''))"

text \<open>The body of the loop over \<open>raw_items\<close>.\<close>

definition load_item ::
  "string \<Rightarrow> string \<Rightarrow> (string \<times> sweep_case) list \<Rightarrow> nat \<times> pyval \<Rightarrow> scenario_item res" where
  "load_item path family cases p =
     (case p of (index, raw_value) \<Rightarrow>
     let label = path @ '': items['' @ show_nat index @ '']''; raw = items_of raw_value;
         grouped_tasks = dget_or raw ''grouped_dispatch_tasks'' (PInt 1) in
     rthen (check (\<not> is_dict raw_value) (SystemExit (label @ '' must be an object'')))
     (rthen (check (\<not> is_plain_int grouped_tasks \<or> int_of grouped_tasks \<le> 0)
       (SystemExit (label @ ''.grouped_dispatch_tasks must be a positive integer'')))
     (rbind (string_or raw ''resident_redesign_candidate'' [] label) (\<lambda>resident_candidate.
     rbind (string_tuple_or_default (dget raw ''resident_redesign_dimensions'')
       (label @ ''.resident_redesign_dimensions'') []) (\<lambda>resident_dimensions.
     rthen (check (resident_dimensions \<noteq> [] \<and> resident_candidate = [])
       (SystemExit (label @ ''.resident_redesign_dimensions requires resident_redesign_candidate'')))
     (rthen (check (resident_candidate \<noteq> [] \<and> resident_dimensions = [])
       (SystemExit (label @ ''.resident_redesign_candidate requires resident_redesign_dimensions'')))
     (rbind (build_item family raw cases label (int_of grouped_tasks) resident_candidate
       resident_dimensions) (\<lambda>item.
     rthen (validate_transient item label)
     (rthen (validate_sparse item label)
     (rthen (validate_dense_baseline item label)
     (rthen (validate_fixed_prefix_static_host_export item label)
     (Inr item))))))))))))"

definition load_scenario_data_family ::
  "string \<Rightarrow> json_file \<Rightarrow> (string \<times> sweep_case) list \<Rightarrow> scenario_item list res" where
  "load_scenario_data_family path file cases =
     (case file of
        Missing \<Rightarrow> Inl (FileNotFoundError path)
      | Malformed exc \<Rightarrow> Inl (SystemExit (path @ '': invalid scenario JSON: '' @ exc))
      | Parsed data \<Rightarrow>
          rthen (check (\<not> is_dict data \<or> \<not> py_eq (vget data ''schema_version'') (PInt 1))
            (SystemExit (path @ '': scenario data must be an object with schema_version=1'')))
         (rthen (check (\<not> is_nonempty_str (vget data ''family''))
            (SystemExit (path @ '': scenario data must declare a nonempty family'')))
         (rthen (check (\<not> is_list (vget data ''items''))
            (SystemExit (path @ '': scenario data must declare items'')))
         (rmapM (load_item path (str_of (vget data ''family'')) cases)
            (enumerate 0 (elems_of (vget data ''items'')))))))"

text \<open>
  The catalog. \<open>directory.glob\<close> is the list of paths with their contents; \<open>glob\<close> lists existing
  files, so \<open>Missing\<close> does not occur.
\<close>

definition load_scenario_data_catalog ::
  "string \<Rightarrow> (string \<times> json_file) list \<Rightarrow> (string \<times> scenario_item list) list res" where
  "load_scenario_data_catalog directory files =
     rbind (rfoldM (\<lambda>catalog (path, file).
       rbind (load_scenario_data_family path file []) (\<lambda>items.
       case items of [] \<Rightarrow> Inr catalog
       | item # _ \<Rightarrow>
           raise_if (has_key catalog (si_family item))
             (SystemExit (path @ '': duplicate scenario family '' @ repr_str (si_family item)))
             (Inr (dict_set (si_family item) items catalog)))) [] (sort_key fst files))
     (\<lambda>catalog. raise_if (catalog = [])
       (SystemExit (directory @ '': no scenario data files found'')) (Inr catalog))"

section \<open>What the field readers return\<close>

lemma required_string_iff [res_simps]:
  "required_string raw key label = Inr v \<longleftrightarrow> dget raw key = PStr v \<and> v \<noteq> []"
  by (auto simp: required_string_def is_nonempty_str_iff)

lemma is_plain_int_iff: "is_plain_int v \<longleftrightarrow> (\<exists>n. v = PInt n)"
  by (cases v) auto

lemma required_int_iff [res_simps]:
  "required_int raw key label positive = Inr n \<longleftrightarrow> dget raw key = PInt n \<and> (positive \<longrightarrow> 0 < n)"
  by (auto simp: required_int_def Let_def res_simps is_plain_int_iff)

lemma optional_int_iff [res_simps]:
  "optional_int raw key label = Inr v \<longleftrightarrow>
     (v = None \<and> dget raw key = PNone) \<or> (\<exists>n. v = Some n \<and> dget raw key = PInt n)"
  by (auto simp: optional_int_def Let_def is_plain_int_iff)

lemma optional_string_iff [res_simps]:
  "optional_string raw key label = Inr v \<longleftrightarrow>
     (v = None \<and> dget raw key = PNone) \<or> (\<exists>s. v = Some s \<and> s \<noteq> [] \<and> dget raw key = PStr s)"
  by (auto simp: optional_string_def is_nonempty_str_iff)

lemma bool_or_default_iff [res_simps]:
  "bool_or_default raw key label d = Inr b \<longleftrightarrow> dget_or raw key (PBool d) = PBool b"
  by (auto simp: bool_or_default_def split: pyval.splits)

lemma string_or_nonempty: "string_or raw key d label = Inr v \<Longrightarrow> d \<noteq> [] \<Longrightarrow> v \<noteq> []"
  by (auto simp: string_or_def res_simps split: if_splits)

lemma int_or_positive: "int_or raw key d label True = Inr n \<Longrightarrow> 0 < d \<Longrightarrow> 0 < n"
  by (auto simp: int_or_def res_simps split: if_splits)

lemma optional_tuple_iff [res_simps]:
  "optional_tuple v label = Inr r \<longleftrightarrow>
     (v = PNone \<and> r = None) \<or> (\<exists>xs. xs \<noteq> [] \<and> v = PList xs \<and> r = Some xs)"
  by (auto simp: optional_tuple_def is_list_iff)

lemma positive_or_null_iff:
  "positive_or_null v = Inr r \<longleftrightarrow> (v = PNone \<and> r = None) \<or> (\<exists>n. 0 < n \<and> v = PInt n \<and> r = Some n)"
  by (cases v) auto

definition positive_options :: "int option list \<Rightarrow> bool" where
  "positive_options xs \<longleftrightarrow> xs \<noteq> [] \<and> list_all (\<lambda>x. case x of None \<Rightarrow> True | Some n \<Rightarrow> 0 < n) xs"

lemma positive_or_null_list_ok:
  assumes "positive_or_null_list v label = Inr xs"
  shows "positive_options xs"
proof -
  from assms obtain vs where vs: "tuple_or_default v label [PNone] = Inr vs"
      and run: "rmapM positive_or_null vs = Inr xs"
    by (cases "tuple_or_default v label [PNone]")
      (auto simp: positive_or_null_list_def split: sum.splits)
  from vs have "vs \<noteq> []" by (auto simp: tuple_or_default_def res_simps)
  with run have "xs \<noteq> []" by (auto dest: rmapM_length)
  moreover have "case x of None \<Rightarrow> True | Some n \<Rightarrow> 0 < n" if "x \<in> set xs" for x
    using rmapM_set [OF run that] by (auto simp: positive_or_null_iff)
  ultimately show ?thesis by (simp add: positive_options_def list_all_iff)
qed

lemma registered_iff [res_simps]:
  "scenario_review_mode raw label = Inr v \<longleftrightarrow>
     dget raw ''review_mode_expectation'' = PStr v \<and> v \<noteq> [] \<and> v \<in> set SCENARIO_REVIEW_MODES"
  "promotion_eligibility raw label = Inr v \<longleftrightarrow>
     dget raw ''promotion_eligibility'' = PStr v \<and> v \<noteq> [] \<and> v \<in> set PROMOTION_SCOPES"
  by (auto simp: scenario_review_mode_def promotion_eligibility_def res_simps)

section \<open>The invariant of loaded items\<close>

definition case_ok :: "sweep_case \<Rightarrow> bool" where
  "case_ok c \<longleftrightarrow> cs_name c \<noteq> [] \<and> 0 < cs_m c \<and> 0 < cs_n c \<and> 0 < cs_k c \<and> 0 < cs_tile_m c \<and>
     0 < cs_tile_n c \<and> cs_bound_mode c \<noteq> [] \<and> cs_input_profile c \<noteq> []"

definition counts_ok :: "scenario_item \<Rightarrow> bool" where
  "counts_ok item \<longleftrightarrow> 0 < si_residue_chain_length item \<and> 0 < si_host_api_batch_size item \<and>
     0 < si_grouped_dispatch_tasks item \<and> positive_options (si_finite_moduli item) \<and>
     positive_options (si_exact_wide_limb_counts item)"

definition names_ok :: "scenario_item \<Rightarrow> bool" where
  "names_ok item \<longleftrightarrow> si_name item \<noteq> [] \<and> si_semantics item \<noteq> [] \<and> si_output_domain item \<noteq> [] \<and>
     si_pack_mode item \<noteq> [] \<and> si_modulus_set item \<noteq> [] \<and> si_tile_shape_variant item \<noteq> [] \<and>
     si_export_variant item \<noteq> [] \<and> si_reconstruction_variant item \<noteq> [] \<and>
     si_workload_proxy item \<noteq> [] \<and> si_k_block_policy item \<noteq> [] \<and> si_release_gate item \<noteq> [] \<and>
     si_prefix_policy item \<noteq> Some [] \<and> si_next_op_hint item \<noteq> Some [] \<and>
     si_review_mode_expectation item \<in> set SCENARIO_REVIEW_MODES \<and>
     si_promotion_eligibility item \<in> set PROMOTION_SCOPES"

definition redesign_ok :: "scenario_item \<Rightarrow> bool" where
  "redesign_ok item \<longleftrightarrow>
     (si_resident_redesign_candidate item = [] \<longleftrightarrow> si_resident_redesign_dimensions item = [])"

definition item_ok :: "scenario_item \<Rightarrow> bool" where
  "item_ok item \<longleftrightarrow> case_ok (si_case item) \<and> counts_ok item \<and> names_ok item \<and> redesign_ok item"

lemmas item_ok_defs = item_ok_def counts_ok_def names_ok_def redesign_ok_def

lemma case_from_data_ok:
  assumes "case_from_data v cases label = Inr c" and "\<And>s c. map_of cases s = Some c \<Longrightarrow> case_ok c"
  shows "case_ok c"
  using assms by (auto simp: case_from_data_def case_ok_def res_simps split: pyval.splits option.splits)

text \<open>The runs that produced the fields the invariant speaks of.\<close>

lemma build_item_fields:
  assumes "build_item family raw cases label tasks candidate dims = Inr item"
  shows "case_from_data (dget raw ''case'') cases (label @ ''.case'') = Inr (si_case item) \<and>
    required_string raw ''name'' label = Inr (si_name item) \<and>
    required_string raw ''semantics'' label = Inr (si_semantics item) \<and>
    required_string raw ''output_domain'' label = Inr (si_output_domain item) \<and>
    scenario_review_mode raw label = Inr (si_review_mode_expectation item) \<and>
    promotion_eligibility raw label = Inr (si_promotion_eligibility item) \<and>
    string_or raw ''pack_mode'' ''per_repeat_repack'' label = Inr (si_pack_mode item) \<and>
    positive_or_null_list (dget raw ''finite_moduli'') (label @ ''.finite_moduli'') =
      Inr (si_finite_moduli item) \<and>
    positive_or_null_list (dget raw ''exact_wide_limb_counts'') (label @ ''.exact_wide_limb_counts'') =
      Inr (si_exact_wide_limb_counts item) \<and>
    int_or raw ''residue_chain_length'' 1 label True = Inr (si_residue_chain_length item) \<and>
    int_or raw ''host_api_batch_size'' 1 label True = Inr (si_host_api_batch_size item) \<and>
    optional_string raw ''prefix_policy'' label = Inr (si_prefix_policy item) \<and>
    optional_string raw ''next_op_hint'' label = Inr (si_next_op_hint item) \<and>
    string_or raw ''modulus_set'' ''default'' label = Inr (si_modulus_set item) \<and>
    string_or raw ''tile_shape_variant'' ''default'' label = Inr (si_tile_shape_variant item) \<and>
    string_or raw ''export_variant'' ''default'' label = Inr (si_export_variant item) \<and>
    string_or raw ''reconstruction_variant'' ''default_garner'' label =
      Inr (si_reconstruction_variant item) \<and>
    string_or raw ''workload_proxy'' ''none'' label = Inr (si_workload_proxy item) \<and>
    string_or raw ''k_block_policy'' ''auto'' label = Inr (si_k_block_policy item) \<and>
    string_or raw ''release_gate'' ''none'' label = Inr (si_release_gate item) \<and>
    si_family item = family \<and> si_grouped_dispatch_tasks item = tasks \<and>
    si_resident_redesign_candidate item = candidate \<and> si_resident_redesign_dimensions item = dims"
  using assms unfolding build_item_def rbind_eq_Inr finite_moduli_def exact_wide_limb_counts_def
  by (elim exE conjE) (simp only: sum.inject, elim subst, simp)

lemma build_item_ok:
  assumes "build_item family raw cases label tasks candidate dims = Inr item"
    and "\<And>s c. map_of cases s = Some c \<Longrightarrow> case_ok c" and "0 < tasks"
  shows "case_ok (si_case item) \<and> counts_ok item \<and> names_ok item"
proof -
  note f = build_item_fields [OF assms(1)]
  have c: "case_from_data (dget raw ''case'') cases (label @ ''.case'') = Inr (si_case item)"
    using f by simp
  have "case_ok (si_case item)" by (rule case_from_data_ok [OF c assms(2)])
  moreover have counts:
    "int_or raw ''residue_chain_length'' 1 label True = Inr (si_residue_chain_length item)"
    "int_or raw ''host_api_batch_size'' 1 label True = Inr (si_host_api_batch_size item)"
    "positive_or_null_list (dget raw ''finite_moduli'') (label @ ''.finite_moduli'') =
      Inr (si_finite_moduli item)"
    "positive_or_null_list (dget raw ''exact_wide_limb_counts'') (label @ ''.exact_wide_limb_counts'') =
      Inr (si_exact_wide_limb_counts item)"
    "si_grouped_dispatch_tasks item = tasks"
    using f by simp_all
  then have "counts_ok item"
    using assms(3) by (simp add: counts_ok_def int_or_positive [OF counts(1)]
        int_or_positive [OF counts(2)] positive_or_null_list_ok [OF counts(3)]
        positive_or_null_list_ok [OF counts(4)])
  moreover have "names_ok item"
    using f unfolding names_ok_def required_string_iff registered_iff optional_string_iff
    by (elim conjE) (intro conjI; (rule string_or_nonempty, assumption, simp; fail)?; auto)
  ultimately show ?thesis by blast
qed

text \<open>A loaded item passed each of the checks of the loop body.\<close>

lemma load_itemD:
  assumes "load_item path family cases p = Inr item"
  obtains raw tasks label candidate dims where "0 < tasks"
    and "build_item family raw cases label tasks candidate dims = Inr item"
    and "candidate = [] \<longleftrightarrow> dims = []" and "validate_transient item label = Inr ()"
    and "validate_sparse item label = Inr ()" and "validate_dense_baseline item label = Inr ()"
    and "validate_fixed_prefix_static_host_export item label = Inr ()"
proof -
  obtain index v where p: "p = (index, v)" by (cases p)
  from assms show ?thesis
    unfolding load_item_def p prod.case Let_def rbind_eq_Inr rthen_eq_Inr check_eq_Inr
    by (elim exE conjE) (rule that; (assumption | force))
qed

lemma load_item_ok:
  assumes "load_item path family cases p = Inr item" and "\<And>s c. map_of cases s = Some c \<Longrightarrow> case_ok c"
  shows "item_ok item" and "si_family item = family"
proof -
  from assms(1) obtain raw tasks label candidate dims where t: "0 < tasks"
    and b: "build_item family raw cases label tasks candidate dims = Inr item"
    and "candidate = [] \<longleftrightarrow> dims = []"
    by (rule load_itemD)
  with build_item_ok [OF b assms(2) t] build_item_fields [OF b]
  show "item_ok item" "si_family item = family" by (simp_all add: item_ok_def redesign_ok_def)
qed

text \<open>The mode-specific constraints.\<close>

definition transient_ok :: "scenario_item \<Rightarrow> bool" where
  "transient_ok item \<longleftrightarrow> bounded_semantics (si_semantics item) \<and>
     cs_input_profile (si_case item) = ''uniform-small'' \<and> cs_bound_mode (si_case item) = ''global'' \<and>
     si_backends item = Some [PStr ''hip-direct''] \<and> si_pack_mode item = ''per_repeat_repack'' \<and>
     \<not> si_oneshot item \<and> \<not> si_native_to_rns_bridge item \<and> \<not> si_vector_to_rns_chain item \<and>
     \<not> si_sparse_a_4_to_2 item \<and> \<not> si_residue_channel_fusion item \<and>
     si_residue_chain_length item = 1 \<and> si_prefix_policy item = Some ''fixed-requested'' \<and>
     si_max_prefix item = Some 9"

lemma validate_transient_iff [res_simps]:
  "validate_transient item label = Inr u \<longleftrightarrow>
     (si_transient_uniform_small_inputs item \<longrightarrow> transient_ok item)"
  by (auto simp: validate_transient_def transient_ok_def Let_def res_simps)

definition sparse_ok :: "scenario_item \<Rightarrow> bool" where
  "sparse_ok item \<longleftrightarrow>
     (si_semantics item \<in> {''finite-u8-ring'', ''finite-u8-field''} \<or> rns_semantics (si_semantics item)) \<and>
     4 dvd cs_k (si_case item) \<and>
     (rns_semantics (si_semantics item) \<longrightarrow> cs_input_profile (si_case item) = ''uniform-small'') \<and>
     si_pack_mode item = ''per_repeat_repack'' \<and>
     list_all (\<lambda>b. \<exists>s \<in> set SPARSE_BACKENDS. b = PStr s) (item_backends item) \<and>
     \<not> si_oneshot item \<and> si_host_api_batch_size item \<le> 1 \<and> si_grouped_dispatch_tasks item \<le> 1 \<and>
     \<not> si_hip_graph_replay item \<and> si_incremental_result_cache item = ''none'' \<and>
     si_residue_chain_length item = 1 \<and> \<not> si_native_to_rns_bridge item \<and>
     \<not> si_vector_to_rns_chain item \<and> \<not> si_residue_channel_fusion item"

lemma rmapM_in_str_set:
  "rmapM (\<lambda>b. in_str_set b names) bs = Inr flags \<Longrightarrow>
   False \<notin> set flags \<longleftrightarrow> list_all (\<lambda>b. \<exists>s \<in> set names. b = PStr s) bs"
proof (induction bs arbitrary: flags)
  case Nil
  then show ?case by simp
next
  case (Cons b bs)
  then obtain f fs where "in_str_set b names = Inr f" "rmapM (\<lambda>b. in_str_set b names) bs = Inr fs"
      "flags = f # fs"
    by (auto simp: rbind_eq_Inr)
  with Cons.IH [of fs] in_str_set_Inr [of b names f] show ?case by auto
qed

lemma validate_sparseD:
  assumes "validate_sparse item label = Inr u"
  shows "si_sparse_a_4_to_2 item \<Longrightarrow> sparse_ok item"
    and "si_sparse_a_4_to_2_dense_baseline item \<Longrightarrow> si_sparse_a_4_to_2 item"
proof -
  assume s: "si_sparse_a_4_to_2 item"
  with assms obtain flags where
    flags: "rmapM (\<lambda>backend. in_str_set backend SPARSE_BACKENDS) (item_backends item) = Inr flags"
      "False \<notin> set flags"
    and rest: "si_semantics item \<in> {''finite-u8-ring'', ''finite-u8-field''} \<or> rns_semantics (si_semantics item)"
      "cs_k (si_case item) mod 4 = 0"
      "rns_semantics (si_semantics item) \<longrightarrow> cs_input_profile (si_case item) = ''uniform-small''"
      "si_pack_mode item = ''per_repeat_repack''"
      "\<not> (si_oneshot item \<or> 1 < si_host_api_batch_size item \<or> 1 < si_grouped_dispatch_tasks item \<or>
         si_hip_graph_replay item \<or> si_incremental_result_cache item \<noteq> ''none'' \<or>
         si_residue_chain_length item \<noteq> 1 \<or> si_native_to_rns_bridge item \<or>
         si_vector_to_rns_chain item \<or> si_residue_channel_fusion item)"
    unfolding validate_sparse_def Let_def
    by (simp only: s if_True rbind_eq_Inr rthen_eq_Inr check_eq_Inr) (elim exE conjE, rule that, assumption, simp_all)
  show "sparse_ok item"
    using rest rmapM_in_str_set [OF flags(1)] flags(2)
    by (auto simp: sparse_ok_def dvd_eq_mod_eq_0)
next
  assume "si_sparse_a_4_to_2_dense_baseline item"
  with assms show "si_sparse_a_4_to_2 item"
    by (auto simp: validate_sparse_def Let_def check_eq_Inr split: if_splits)
qed

section \<open>Prefix products\<close>

lemma default_prefix_product_eq: "default_prefix_product p = prod_list (take p SCENARIO_DEFAULT_MODULI)"
proof -
  have "fold (\<lambda>m r. r * m) xs r = r * prod_list xs" for xs :: "int list" and r
    by (induction xs arbitrary: r) (simp_all add: mult.assoc)
  then show ?thesis by (simp add: default_prefix_product_def)
qed

lemma default_prefix_product_mono:
  assumes "p \<le> q" shows "default_prefix_product p \<le> default_prefix_product q"
proof -
  have pos: "0 < prod_list (take i SCENARIO_DEFAULT_MODULI)" for i
  proof -
    have "0 < m" if "m \<in> set SCENARIO_DEFAULT_MODULI" for m
      using that unfolding SCENARIO_DEFAULT_MODULI_def by auto
    then have "0 < prod_list xs" if "set xs \<subseteq> set SCENARIO_DEFAULT_MODULI" for xs
      using that by (induction xs) auto
    then show ?thesis by (meson set_take_subset)
  qed
  have step: "default_prefix_product i \<le> default_prefix_product (Suc i)" for i
  proof (cases "i < length SCENARIO_DEFAULT_MODULI")
    case True
    then have "1 \<le> SCENARIO_DEFAULT_MODULI ! i"
      by (rule nth_mem [THEN in_set_conv_nth [THEN iffD1], THEN exE])
        (use nth_mem [OF True] in \<open>unfold SCENARIO_DEFAULT_MODULI_def, auto\<close>)
    with pos [of i] True show ?thesis
      by (simp add: default_prefix_product_eq take_Suc_conv_app_nth)
  qed (simp add: default_prefix_product_eq)
  show ?thesis using lift_Suc_mono_le [of default_prefix_product p q] step assms by blast
qed

lemma required_prefix_covers:
  assumes "required_static_uniform_small_prefix semantics k = Some p"
  shows "bounded_semantics semantics"
    and "(if semantics = ''bounded-i64'' then 2 * (256 * k) else 256 * k) < default_prefix_product p"
  using assms
  by (auto simp: required_static_uniform_small_prefix_def bounded_semantics_def Let_def find_Some_iff
      split: if_splits)

lemma validated_prefix_product:
  assumes "validate_fixed_prefix_static_host_export item label = Inr ()"
    and "fixed_prefix_static_export item" and "si_max_prefix item = Some p"
    and "required_static_uniform_small_prefix (si_semantics item) (cs_k (si_case item)) = Some q"
  shows "default_prefix_product q \<le> default_prefix_product (nat p)"
  using assms
  by (auto simp: validate_fixed_prefix_static_host_export_def check_eq_Inr
      intro!: default_prefix_product_mono)

section \<open>The parser of cases\<close>

lemma parse_int_show_int: "0 < n \<Longrightarrow> parse_int (show_int n) label = Inr n"
  by (simp add: parse_int_def py_int10_show_int)

lemma parse_int_positive: "parse_int s label = Inr n \<Longrightarrow> 0 < n"
  by (auto simp: parse_int_def split: option.splits if_splits)

lemma show_int_char: "0 < n \<Longrightarrow> c \<in> set (show_int n) \<Longrightarrow> 48 \<le> code c \<and> code c \<le> 57"
  using show_nat_digits [of c "nat n"] by (auto simp: show_int_def code_digit_char)

lemma case_parts_ints:
  assumes "0 < m" "0 < n" "0 < k" and sep: "sep = CHR '','' \<or> sep = CHR ''x''"
  shows "case_parts (show_int m @ sep # show_int n @ sep # show_int k) =
           [show_int m, show_int n, show_int k]"
proof -
  let ?f = "\<lambda>c. if c = CHR ''x'' then CHR '','' else c"
  have x: "map ?f (show_int i) = show_int i \<and> CHR '','' \<notin> set (show_int i)" if "0 < i" for i
    using show_int_char [OF that, of "CHR ''x''"] show_int_char [OF that, of "CHR '',''"]
    by (auto intro!: map_idI simp: code_def)
  have "map ?f (show_int m @ sep # show_int n @ sep # show_int k) =
      show_int m @ CHR '','' # show_int n @ CHR '','' # show_int k"
    using x assms by auto
  moreover have "split_on CHR '','' (show_int m @ CHR '','' # show_int n @ CHR '','' # show_int k) =
      [show_int m, show_int n, show_int k]"
    using x assms by (simp add: split_on_append split_on_no_sep)
  ultimately show ?thesis by (simp add: case_parts_def strip_show_int)
qed

section \<open>The catalog\<close>

definition catalog_ok :: "(string \<times> scenario_item list) list \<Rightarrow> bool" where
  "catalog_ok catalog \<longleftrightarrow> distinct (map fst catalog) \<and>
     list_all (\<lambda>(family, items). items \<noteq> [] \<and>
       list_all (\<lambda>item. item_ok item \<and> si_family item = family) items) catalog"

lemma load_family_ok:
  assumes "load_scenario_data_family path file [] = Inr items"
  shows "\<exists>family. list_all (\<lambda>item. item_ok item \<and> si_family item = family) items"
proof -
  from assms obtain family xs where run: "rmapM (load_item path family []) xs = Inr items"
    by (auto simp: load_scenario_data_family_def rthen_eq_Inr split: json_file.splits)
  have "item_ok item \<and> si_family item = family" if "item \<in> set items" for item
    using rmapM_set [OF run that] load_item_ok by fastforce
  then show ?thesis by (auto simp: list_all_iff)
qed

lemma catalog_ok_dict_set:
  assumes "catalog_ok catalog" "\<not> has_key catalog family" "items \<noteq> []"
    "list_all (\<lambda>item. item_ok item \<and> si_family item = family) items"
  shows "catalog_ok (dict_set family items catalog)"
  using assms
  by (auto simp: catalog_ok_def keys_dict_set has_key_def list_all_iff set_dict_set)

lemma catalog_loop_ok:
  assumes "rfoldM (\<lambda>catalog (path, file).
       rbind (load_scenario_data_family path file []) (\<lambda>items.
       case items of [] \<Rightarrow> Inr catalog
       | item # _ \<Rightarrow>
           raise_if (has_key catalog (si_family item))
             (SystemExit (path @ '': duplicate scenario family '' @ repr_str (si_family item)))
             (Inr (dict_set (si_family item) items catalog)))) [] files = Inr catalog"
  shows "catalog_ok catalog"
  using assms
proof (rule rfoldM_invariant [where I = catalog_ok])
  show "catalog_ok []" by (simp add: catalog_ok_def)
next
  fix s x s'
  assume ok: "catalog_ok s"
    and run: "(case x of (path, file) \<Rightarrow>
       rbind (load_scenario_data_family path file []) (\<lambda>items.
       case items of [] \<Rightarrow> Inr s
       | item # _ \<Rightarrow>
           raise_if (has_key s (si_family item))
             (SystemExit (path @ '': duplicate scenario family '' @ repr_str (si_family item)))
             (Inr (dict_set (si_family item) items s)))) = Inr s'"
  obtain path content where x: "x = (path, content)" by (cases x)
  from run obtain items where items: "load_scenario_data_family path content [] = Inr items"
    and s': "items = [] \<and> s' = s \<or> items \<noteq> [] \<and> \<not> has_key s (si_family (hd items)) \<and>
        s' = dict_set (si_family (hd items)) items s"
    by (cases "load_scenario_data_family path content []")
      (auto simp: x raise_if_eq_Inr split: list.splits)
  from load_family_ok [OF items] have
    "items \<noteq> [] \<longrightarrow> list_all (\<lambda>item. item_ok item \<and> si_family item = si_family (hd items)) items"
    by (cases items) (auto simp: list_all_iff)
  with ok s' catalog_ok_dict_set show "catalog_ok s'" by blast
qed

section \<open>A sample file\<close>

definition sample_case :: pyval where
  "sample_case = PDict
     [(''name'', PStr ''c64''), (''m'', PInt 64), (''n'', PInt 64), (''k'', PInt 64),
      (''tile_m'', PInt 128), (''tile_n'', PInt 128), (''bound_mode'', PStr ''global''),
      (''input_profile'', PStr ''uniform-small'')]"

definition sample_item_json :: pydict where
  "sample_item_json =
     [(''name'', PStr ''transient''), (''semantics'', PStr ''bounded-i64''), (''case'', sample_case),
      (''evidence_scope'', PStr ''e''), (''output_domain'', PStr ''host_export''),
      (''rationale'', PStr ''r''), (''review_mode_expectation'', PStr ''release''),
      (''promotion_eligibility'', PStr ''release_review_candidate''),
      (''backends'', PList [PStr ''hip-direct'']), (''transient_uniform_small_inputs'', PBool True),
      (''prefix_policy'', PStr ''fixed-requested''), (''max_prefix'', PInt 9)]"

definition sample_file :: json_file where
  "sample_file = Parsed (PDict [(''schema_version'', PInt 1), (''family'', PStr ''demo''),
     (''items'', PList [PDict sample_item_json])])"

lemma sample_item_loads:
  "\<exists>item. load_item ''f'' ''demo'' [] (0, PDict sample_item_json) = Inr item \<and>
     si_transient_uniform_small_inputs item"
proof -
  have "case load_item ''f'' ''demo'' [] (0, PDict sample_item_json) of Inl _ \<Rightarrow> False
      | Inr item \<Rightarrow> si_transient_uniform_small_inputs item"
    by code_simp
  then show ?thesis by (auto split: sum.splits)
qed

lemma sample_catalog_loads:
  "\<exists>catalog. load_scenario_data_catalog ''d'' [(''f'', sample_file)] = Inr catalog \<and> catalog \<noteq> []"
proof -
  have "case load_scenario_data_catalog ''d'' [(''f'', sample_file)] of Inl _ \<Rightarrow> False
      | Inr catalog \<Rightarrow> catalog \<noteq> []"
    by code_simp
  then show ?thesis by (auto split: sum.splits)
qed

section \<open>Properties\<close>

text \<open>C7: the case parser inverts the printer: a named \<open>NAME:M,N,K\<close> with positive sizes, with
  commas or with \<open>x\<close> between them, gives that case with the default tile and the global bound.\<close>

theorem parse_case_roundtrip:
  assumes "0 < m" and "0 < n" and "0 < k" and "CHR '':'' \<notin> set name" and "name \<noteq> []"
    and "sep = CHR '','' \<or> sep = CHR ''x''"
  shows "parse_case False promotable (name @ CHR '':'' # show_int m @ sep # show_int n @ sep # show_int k) =
           Inr \<lparr>cs_name = name, cs_m = m, cs_n = n, cs_k = k, cs_tile_m = 128, cs_tile_n = 128,
                cs_bound_mode = ''global'', cs_input_profile = ''uniform-small'',
                cs_require_adaptive = False, cs_promotable = promotable\<rparr>"
  using assms(5) case_parts_ints [OF assms(1-3,6)] parse_int_show_int [OF assms(1)]
    parse_int_show_int [OF assms(2)] parse_int_show_int [OF assms(3)]
  by (simp add: parse_case_def split_once_append [OF assms(4)] INPUT_PROFILES_def)

theorem parse_case_roundtrip_witness:
  "parse_case False True (''wrap64-64'' @ CHR '':'' # show_int 64 @ CHR ''x'' # show_int 64 @ CHR ''x'' # show_int 128) =
     Inr \<lparr>cs_name = ''wrap64-64'', cs_m = 64, cs_n = 64, cs_k = 128, cs_tile_m = 128, cs_tile_n = 128,
          cs_bound_mode = ''global'', cs_input_profile = ''uniform-small'',
          cs_require_adaptive = False, cs_promotable = True\<rparr>"
  by (rule parse_case_roundtrip) simp_all

text \<open>C8: whatever JSON the scenario files hold, a catalog that loads has one entry per family,
  no empty family, and every item in it is of that family and satisfies \<open>item_ok\<close>: positive
  sizes, tiles and counts, positive moduli and limb counts, registered review mode and promotion
  scope, non-empty names, and a redesign candidate exactly when it has dimensions.\<close>

theorem loaded_catalog_ok:
  assumes "load_scenario_data_catalog directory files = Inr catalog"
  shows "catalog_ok catalog"
  using assms unfolding load_scenario_data_catalog_def rbind_eq_Inr raise_if_eq_Inr
  by (elim exE conjE) (simp add: catalog_loop_ok)

theorem loaded_catalog_ok_witness:
  "\<exists>catalog. load_scenario_data_catalog ''d'' [(''f'', sample_file)] = Inr catalog \<and>
     catalog \<noteq> [] \<and> catalog_ok catalog"
  using sample_catalog_loads loaded_catalog_ok by blast

text \<open>the special modes of a loaded item exclude one another as the loader's checks say: a
  transient item is a single bounded direct-HIP capture at the fixed prefix 9, a sparse item is a
  persistent single capture on the supported backends with K divisible by 4, and a dense
  baseline is a sparse item that does not name the CPU.\<close>

theorem loaded_modes_consistent:
  assumes "load_item path family cases p = Inr item"
  shows "(si_transient_uniform_small_inputs item \<longrightarrow> transient_ok item \<and> \<not> si_sparse_a_4_to_2 item) \<and>
         (si_sparse_a_4_to_2 item \<longrightarrow> sparse_ok item) \<and>
         (si_sparse_a_4_to_2_dense_baseline item \<longrightarrow>
            sparse_ok item \<and> PStr ''cpu'' \<notin> set (item_backends item))"
proof -
  from assms obtain label where t: "validate_transient item label = Inr ()"
    and s: "validate_sparse item label = Inr ()" and d: "validate_dense_baseline item label = Inr ()"
    by (rule load_itemD)
  from t have "si_transient_uniform_small_inputs item \<longrightarrow> transient_ok item \<and> \<not> si_sparse_a_4_to_2 item"
    by (auto simp: validate_transient_iff transient_ok_def)
  moreover from d have "si_sparse_a_4_to_2_dense_baseline item \<longrightarrow> PStr ''cpu'' \<notin> set (item_backends item)"
    by (auto simp: validate_dense_baseline_def check_eq_Inr list_ex_iff eq_str_iff)
  ultimately show ?thesis using validate_sparseD [OF s] by blast
qed

theorem loaded_modes_consistent_witness:
  "\<exists>item. load_item ''f'' ''demo'' [] (0, PDict sample_item_json) = Inr item \<and>
     si_transient_uniform_small_inputs item \<and> transient_ok item \<and> \<not> si_sparse_a_4_to_2 item"
  using sample_item_loads loaded_modes_consistent by blast

end
