(* ===== verification/Sweep_Commands.thy ===== *)
theory Sweep_Commands
  imports Sweep_Scenarios
begin

text \<open>
  \<open>tools/benchmark_sweep_lib/commands.py\<close>, first half, with the helpers it takes from
  \<open>execution.py\<close> and \<open>capture_metadata.py\<close>: device visibility, default cases, backend selection,
  capture names and benchmark command lines.

  Functions of the namespace \<open>args\<close> are functions of the \<open>sweep_args\<close> record. The lemmas show that
  the selection functions stay within the allowed backends and limb counts, that a command line can be read back with \<open>_command_option\<close>, that capture names
  separate moduli and backends, and that device sharding partitions the captures.
\<close>

section \<open>Helpers of execution.py and capture_metadata.py\<close>

definition cli_backend :: "string \<Rightarrow> string" where
  "cli_backend backend =
     (if backend = ''hip-vector-alu-int64'' then ''hip-vector-alu-int64-runtime'' else backend)"

definition SEMANTICS_ALIASES :: "(string \<times> string) list" where
  "SEMANTICS_ALIASES =
     [(''bounded_i64'', ''bounded-i64''),
      (''bounded_u64'', ''bounded-u64''),
      (''exact_wide_signed'', ''exact-wide-signed''),
      (''exact-wide-i64'', ''exact-wide-signed''),
      (''exact_wide_unsigned'', ''exact-wide-unsigned''),
      (''exact-wide-u64'', ''exact-wide-unsigned''),
      (''wrap_u64_mod_2_64'', ''wrap-u64''),
      (''finite-ring-u8'', ''finite-u8-ring''),
      (''finite_ring_u8'', ''finite-u8-ring''),
      (''finite-field-u8'', ''finite-u8-field''),
      (''finite_field_u8'', ''finite-u8-field'')]"

definition normalize_semantics :: "string \<Rightarrow> string" where
  "normalize_semantics v = (case map_of SEMANTICS_ALIASES v of None \<Rightarrow> v | Some s \<Rightarrow> s)"

definition parse_backend_bench :: "string list \<Rightarrow> (string \<times> path) list res" where
  "parse_backend_bench raws =
     rfoldM (\<lambda>result raw.
       let bad = SystemExit (''--bench-for must use BACKEND=PATH, got '' @ repr_str raw) in
       case split_once CHR ''='' raw of
         None \<Rightarrow> Inl bad
       | Some (backend, p) \<Rightarrow>
           raise_if (backend = [] \<or> p = []) bad (Inr (dict_set backend (path_of p) result))) [] raws"

definition requested_pack_mode :: "sweep_args \<Rightarrow> string" where
  "requested_pack_mode args =
     (if sa_reuse_packed_inputs args then ''prepacked_reuse''
      else if sa_reuse_packed_a args \<and> sa_reuse_packed_b args then ''prepacked_reuse''
      else if sa_reuse_packed_a args then ''prepacked_reuse_a''
      else if sa_reuse_packed_b args then ''prepacked_reuse_b''
      else ''per_repeat_repack'')"

definition command_option :: "string list \<Rightarrow> string \<Rightarrow> string option" where
  "command_option command option =
     (case dropWhile (\<lambda>w. w \<noteq> option) command of
        _ # v # _ \<Rightarrow> Some v
      | _ \<Rightarrow> None)"

definition cpu_reference_dedupe_key ::
  "sweep_command \<Rightarrow> (string list \<times> (string \<times> string) list) option" where
  "cpu_reference_dedupe_key entry =
     (let backend0 = command_option (cmd_command entry) ''--backend'';
          backend = (if backend0 = Some ''cpu-reference'' then Some ''cpu'' else backend0)
      in if backend \<notin> {Some ''cpu'', Some ''wrap64-byte-limb''} then None
         else Some (cmd_command entry,
                sort_key fst (case cmd_env entry of None \<Rightarrow> [] | Some env \<Rightarrow> env)))"

section \<open>Device visibility\<close>

definition FINITE_SEMANTICS :: "string list" where
  "FINITE_SEMANTICS = [''finite-u8-ring'', ''finite-u8-field'']"

definition CPU_REFERENCE_CAPTURE_BACKENDS :: "string list" where
  "CPU_REFERENCE_CAPTURE_BACKENDS = [''cpu'', ''wrap64-byte-limb'']"

definition SPECIAL_SCENARIO_SELECTORS :: "string list" where
  "SPECIAL_SCENARIO_SELECTORS = [''all'', ''release-candidates'']"

definition RELEASE_CANDIDATE_PROMOTION_SCOPE :: string where
  "RELEASE_CANDIDATE_PROMOTION_SCOPE = ''release_review_candidate''"

definition device_list :: "string \<Rightarrow> string list" where
  "device_list v = filter (\<lambda>p. p \<noteq> []) (map strip (split_on CHR '','' v))"

text \<open>\<open>VISIBILITY_ENV_OPTIONS\<close> with the attribute values of \<open>args\<close>.\<close>

definition visibility_options :: "sweep_args \<Rightarrow> (string \<times> string option) list" where
  "visibility_options args =
     [(''HIP_VISIBLE_DEVICES'', sa_hip_visible_devices args),
      (''ROCR_VISIBLE_DEVICES'', sa_rocr_visible_devices args),
      (''GPU_DEVICE_ORDINAL'', sa_gpu_device_ordinal args)]"

definition visibility_env_overrides :: "sweep_args \<Rightarrow> (string \<times> string) list" where
  "visibility_env_overrides args =
     concat (map (\<lambda>(env_name, v). case v of None \<Rightarrow> [] | Some s \<Rightarrow> if s = [] then [] else [(env_name, s)])
       (visibility_options args))"

definition env_value :: "(string \<times> string) list \<Rightarrow> pyval" where
  "env_value env = PDict (map (\<lambda>(k, v). (k, PStr v)) env)"

definition shard_env :: "(string \<times> string) list \<Rightarrow> string \<Rightarrow> (string \<times> string) list" where
  "shard_env base_env shard =
     dict_set ''ROCR_VISIBLE_DEVICES'' shard (dict_set ''HIP_VISIBLE_DEVICES'' shard base_env)"

definition shard_entry :: "(string \<times> string) list \<Rightarrow> string \<Rightarrow> sweep_command \<Rightarrow> sweep_command" where
  "shard_entry base_env shard entry =
     (let env = shard_env base_env shard in
      \<lparr>cmd_name = ''gpu'' @ shard @ ''-'' @ cmd_name entry,
       cmd_command = cmd_command entry,
       cmd_output = path_join (path_join (path_parent (cmd_output entry)) (''gpu'' @ shard))
                      (path_name (cmd_output entry)),
       cmd_scenario = map_option (\<lambda>scenario. dict_set ''visibility_environment'' (env_value env)
                        (dict_set ''gpu_shard'' (PStr shard) scenario)) (cmd_scenario entry),
       cmd_env = Some env\<rparr>)"

definition apply_visibility_environment ::
  "sweep_args \<Rightarrow> sweep_command list \<Rightarrow> sweep_command list" where
  "apply_visibility_environment args entries =
     (let base_env = visibility_env_overrides args in
      if \<not> given (sa_gpu_shards args)
      then if base_env = [] then entries else map (\<lambda>entry. entry\<lparr>cmd_env := Some base_env\<rparr>) entries
      else concat (map (\<lambda>shard. map (shard_entry base_env shard) entries)
             (device_list (the (sa_gpu_shards args)))))"

section \<open>Cases\<close>

definition square_case :: "int \<Rightarrow> string" where
  "square_case shape = show_int shape @ '','' @ show_int shape @ '','' @ show_int shape"

definition default_cases :: "sweep_args \<Rightarrow> sweep_case list res" where
  "default_cases args =
     (if sa_case args \<noteq> [] then rmapM (parse_case False True) (sa_case args)
      else if sa_shapes args \<noteq> []
      then rmapM (\<lambda>shape. parse_case False True (shape @ '','' @ shape @ '','' @ shape)) (sa_shapes args)
      else let shapes = (if sa_release_matrix args then PROMOTABLE_RELEASE_SHAPES else [64, 128]);
               shapes' = (if sa_include_exploratory_large args
                          then shapes @ EXPLORATORY_RELEASE_SHAPES else shapes)
           in rmapM (\<lambda>shape. parse_case False (shape \<in> set PROMOTABLE_RELEASE_SHAPES)
                (square_case shape)) shapes')"

definition adaptive_cases :: "sweep_args \<Rightarrow> sweep_case list res" where
  "adaptive_cases args =
     rmapM (parse_case True True)
       (sa_adaptive_case args @
        (if sa_include_default_adaptive args then DEFAULT_ADAPTIVE_CASES else []) @
        (if sa_include_adaptive_workloads args then ADAPTIVE_WORKLOAD_CASES else []))"

definition wrap64_cases :: "sweep_args \<Rightarrow> sweep_case list res" where
  "wrap64_cases args =
     (if sa_case args \<noteq> [] then rmapM (parse_case False True) (sa_case args)
      else let shapes = (if sa_release_matrix args then PROMOTABLE_RELEASE_SHAPES else [64]);
               shapes' = (if sa_include_exploratory_large args
                          then shapes @ EXPLORATORY_RELEASE_SHAPES else shapes)
           in rmapM (\<lambda>shape. parse_case False (shape \<in> set PROMOTABLE_RELEASE_SHAPES)
                (''wrap64-'' @ show_int shape @ '':'' @ square_case shape)) shapes')"

definition wrap64_backends_for :: "sweep_args \<Rightarrow> string list" where
  "wrap64_backends_for args =
     WRAP64_BACKENDS @
     (if sa_include_wrap64_rocwmma_candidate args then [WRAP64_ROCWMMA_CANDIDATE_BACKEND] else [])"

definition finite_moduli_for :: "string \<Rightarrow> sweep_args \<Rightarrow> int option list" where
  "finite_moduli_for semantics args =
     (if semantics = ''finite-u8-ring''
      then map Some (if sa_modulus args \<noteq> [] then sa_modulus args else DEFAULT_FINITE_RING_MODULI)
      else if semantics = ''finite-u8-field''
      then map Some (if sa_modulus args \<noteq> [] then sa_modulus args else DEFAULT_FINITE_FIELD_MODULI)
      else [None])"

text \<open>\<open>list(dict.fromkeys(xs))\<close>: the first occurrences in order.\<close>

definition unique :: "'a list \<Rightarrow> 'a list" where
  "unique xs = rev (remdups (rev xs))"

definition repr_ints :: "int list \<Rightarrow> string" where
  "repr_ints xs = ''['' @ join_with '', '' (map show_int xs) @ '']''"

definition exact_wide_limb_counts_for :: "string \<Rightarrow> sweep_args \<Rightarrow> int option list res" where
  "exact_wide_limb_counts_for semantics args =
     (if semantics \<notin> set EXACT_WIDE_SEMANTICS then Inr [None]
      else let counts = (if sa_exact_wide_limbs args \<noteq> [] then sa_exact_wide_limbs args
                         else if sa_include_exact_wide_limb_variants args
                         then EXACT_WIDE_LIMB_VARIANTS else [DEFAULT_EXACT_WIDE_LIMB_COUNT]);
               invalid = filter (\<lambda>count. count < 1 \<or> 32 < count) counts
           in raise_if (invalid \<noteq> [])
                (SystemExit (''--exact-wide-limbs values must be in [1, 32], got '' @ repr_ints invalid))
                (Inr (map Some (unique counts))))"

section \<open>Scenario selection\<close>

definition scenario_names :: "(string \<times> scenario_item list) list \<Rightarrow> string list" where
  "scenario_names catalog = sort (map fst catalog)"

text \<open>\<open>scenario_catalog()\<close> reads the directory: its run is the argument \<open>catalog_run\<close>.\<close>

definition selected_scenario_items ::
  "(string \<times> scenario_item list) list res \<Rightarrow> sweep_args \<Rightarrow> scenario_item list res" where
  "selected_scenario_items catalog_run args =
     (let requested = unique (sa_scenario args) in
      if requested = [] then Inr []
      else
      rthen (rforM (\<lambda>selector. check (selector \<in> set requested \<and> 1 < length requested)
         (SystemExit (''--scenario '' @ selector @ '' cannot be combined with other --scenario values'')))
         SPECIAL_SCENARIO_SELECTORS)
     (rbind catalog_run (\<lambda>catalog.
      let unknown = filter (\<lambda>name. name \<notin> set SPECIAL_SCENARIO_SELECTORS \<and> \<not> has_key catalog name)
            requested in
      rthen (check (unknown \<noteq> [])
        (SystemExit (''--scenario must be one of '' @
           repr_strs (scenario_names catalog @ SPECIAL_SCENARIO_SELECTORS) @ '', got '' @
           repr_strs unknown)))
     (let names = (if list_ex (\<lambda>name. name \<in> set SPECIAL_SCENARIO_SELECTORS) requested
                   then scenario_names catalog else requested);
          release_candidates_only =
            (''release-candidates'' \<in> set requested \<and> ''all'' \<notin> set requested) in
      rbind (rmapM (dindex catalog) names) (\<lambda>families.
      Inr (filter (\<lambda>item. \<not> (release_candidates_only \<and>
             si_promotion_eligibility item \<noteq> RELEASE_CANDIDATE_PROMOTION_SCOPE))
           (concat families)))))))"

text \<open>\<open>a or b\<close> on strings and optional strings.\<close>

definition str_or :: "string \<Rightarrow> string \<Rightarrow> string" where
  "str_or a b = (if a \<noteq> [] then a else b)"

definition opt_or :: "string option \<Rightarrow> string option \<Rightarrow> string option" where
  "opt_or a b = (if given a then a else b)"

definition scenario_args_for_item :: "sweep_args \<Rightarrow> scenario_item \<Rightarrow> sweep_args" where
  "scenario_args_for_item args item = args\<lparr>
     sa_reuse_packed_inputs := si_pack_mode item = ''prepacked_reuse'',
     sa_reuse_packed_a := si_pack_mode item = ''prepacked_reuse_a'',
     sa_reuse_packed_b := si_pack_mode item = ''prepacked_reuse_b'',
     sa_residue_chain_length := si_residue_chain_length item,
     sa_residue_chain_final_export := si_residue_chain_final_export item,
     sa_residue_chain_independent_final_export := si_residue_chain_independent_final_export item,
     sa_output_ld_padding := si_output_ld_padding item,
     sa_host_api_batch_size := si_host_api_batch_size item,
     sa_native_to_rns_bridge := si_native_to_rns_bridge item,
     sa_vector_to_rns_chain := si_vector_to_rns_chain item,
     sa_vector_to_rns_chain_host_repack_control := si_vector_to_rns_chain_host_repack_control item,
     sa_transient_uniform_small_inputs := si_transient_uniform_small_inputs item,
     sa_sparse_a_4_to_2 := si_sparse_a_4_to_2 item,
     sa_sparse_a_4_to_2_dense_baseline := si_sparse_a_4_to_2_dense_baseline item,
     sa_prefix_policy := opt_or (si_prefix_policy item) (sa_prefix_policy args),
     sa_max_prefix := (if si_max_prefix item \<noteq> None then si_max_prefix item else sa_max_prefix args),
     sa_bound_source := opt_or (si_bound_source item) (sa_bound_source args),
     sa_next_op_hint := opt_or (si_next_op_hint item) (sa_next_op_hint args),
     sa_residue_channel_fusion := si_residue_channel_fusion item,
     sa_modulus_set := str_or (si_modulus_set item) (sa_modulus_set args),
     sa_tile_shape_variant := str_or (si_tile_shape_variant item) (sa_tile_shape_variant args),
     sa_export_variant := str_or (si_export_variant item) (sa_export_variant args),
     sa_reconstruction_variant := str_or (si_reconstruction_variant item) (sa_reconstruction_variant args),
     sa_grouped_dispatch_tasks := si_grouped_dispatch_tasks item,
     sa_hip_graph_replay := si_hip_graph_replay item,
     sa_workload_proxy := str_or (si_workload_proxy item) (sa_workload_proxy args),
     sa_resident_lifetime := si_resident_lifetime item \<or> sa_resident_lifetime args,
     sa_workspace_arena := si_workspace_arena item \<or> sa_workspace_arena args,
     sa_adaptive_grouped_scheduler :=
       si_adaptive_grouped_scheduler item \<or> sa_adaptive_grouped_scheduler args,
     sa_streaming_overlap := si_streaming_overlap item \<or> sa_streaming_overlap args,
     sa_k_block_policy := str_or (si_k_block_policy item) (sa_k_block_policy args),
     sa_resident_redesign_candidate :=
       str_or (si_resident_redesign_candidate item) (sa_resident_redesign_candidate args),
     sa_resident_redesign_dimensions :=
       (if si_resident_redesign_dimensions item \<noteq> [] then si_resident_redesign_dimensions item
        else sa_resident_redesign_dimensions args),
     sa_release_gate :=
       (if si_release_gate item \<noteq> [] \<and> si_release_gate item \<noteq> ''none'' then si_release_gate item
        else sa_release_gate args),
     sa_verification_amortization :=
       str_or (si_verification_amortization item) (sa_verification_amortization args),
     sa_error_detection_policy :=
       str_or (si_error_detection_policy item) (sa_error_detection_policy args),
     sa_cpu_small_shape_selector :=
       str_or (si_cpu_small_shape_selector item) (sa_cpu_small_shape_selector args),
     sa_incremental_result_cache :=
       str_or (si_incremental_result_cache item) (sa_incremental_result_cache args)\<rparr>"

section \<open>Backends\<close>

definition default_backends_for :: "string \<Rightarrow> sweep_case \<Rightarrow> string list" where
  "default_backends_for semantics case0 =
     (if semantics = ''bounded-i64''
      then if cs_bound_mode case0 = ''per-tile''
           then [''cpu'', ''hip-direct'', ''hip-vector-alu-int64'', ''ck'', ''rocwmma'']
           else BOUNDED_BACKENDS
      else if semantics = ''bounded-u64''
      then let backends = filter (\<lambda>backend. backend \<noteq> ''ck'') BOUNDED_BACKENDS
           in if cs_bound_mode case0 = ''per-tile''
              then filter (\<lambda>backend. backend \<noteq> ''hipblaslt'') backends else backends
      else if semantics \<in> {''finite-u8-ring'', ''finite-u8-field''} then FINITE_BACKENDS
      else if semantics \<in> {''exact-wide-signed'', ''exact-wide-unsigned''} then EXACT_WIDE_BACKENDS
      else if semantics = ''wrap-u64'' then WRAP64_BACKENDS
      else [])"

definition backend_allowed_for :: "string \<Rightarrow> sweep_case \<Rightarrow> string \<Rightarrow> bool" where
  "backend_allowed_for semantics case0 backend =
     (if semantics = ''wrap-u64''
      then backend \<in> set WRAP64_BACKENDS \<or> backend = WRAP64_ROCWMMA_CANDIDATE_BACKEND
      else if semantics \<in> {''finite-u8-ring'', ''finite-u8-field''} then backend \<in> set FINITE_BACKENDS
      else if semantics \<in> {''exact-wide-signed'', ''exact-wide-unsigned''}
      then cs_bound_mode case0 = ''global'' \<and> backend \<in> set EXACT_WIDE_BACKENDS
      else if semantics \<in> {''bounded-i64'', ''bounded-u64''}
      then if backend \<notin> set BOUNDED_BACKENDS then False
           else if semantics = ''bounded-u64'' \<and> backend = ''ck'' then False
           else if cs_bound_mode case0 = ''per-tile'' \<and> backend \<in> {''hipblaslt'', ''amdgpu-builtins''}
           then False else True
      else False)"

text \<open>
  An item's backends are values; the first occurrences of a list of them need hashing, which a
  list or a dict does not have.
\<close>

fun unique_vals_from :: "pyval list \<Rightarrow> pyval list \<Rightarrow> pyval list" where
  "unique_vals_from seen [] = []"
| "unique_vals_from seen (v # vs) =
     (if list_ex (elem_eq v) seen then unique_vals_from seen vs else v # unique_vals_from (v # seen) vs)"

definition unique_vals :: "pyval list \<Rightarrow> pyval list res" where
  "unique_vals vs =
     (if list_ex (\<lambda>v. is_list v \<or> is_dict v) vs then Inl TypeError else Inr (unique_vals_from [] vs))"

definition backend_locked :: "scenario_item \<Rightarrow> bool" where
  "backend_locked item \<longleftrightarrow>
     (let metadata = (case si_metadata item of None \<Rightarrow> [] | Some d \<Rightarrow> d) in
      si_oneshot item \<or> 1 < si_host_api_batch_size item \<or> si_hip_graph_replay item \<or>
      si_native_to_rns_bridge item \<or> si_vector_to_rns_chain item \<or>
      si_transient_uniform_small_inputs item \<or> si_sparse_a_4_to_2 item \<or>
      si_residue_channel_fusion item \<or> 1 < si_grouped_dispatch_tasks item \<or>
      si_resident_lifetime item \<or> si_workspace_arena item \<or> si_adaptive_grouped_scheduler item \<or>
      si_streaming_overlap item \<or> si_tile_shape_variant item \<noteq> ''default'' \<or>
      si_resident_redesign_candidate item \<noteq> [] \<or> si_verification_amortization item \<noteq> ''none'' \<or>
      si_error_detection_policy item \<noteq> ''none'' \<or> si_cpu_small_shape_selector item \<noteq> ''none'' \<or>
      si_incremental_result_cache item \<noteq> ''none'' \<or>
      eq_str (dget metadata ''workflow_name'') ''finite_u8_generic_modulus'' \<or>
      eq_str (dget metadata ''reuse_contract_role'') ''stable_b_production_candidate'')"

definition scenario_backends_for_item :: "sweep_args \<Rightarrow> scenario_item \<Rightarrow> pyval list res" where
  "scenario_backends_for_item args item =
     (let declared = (if item_backends item \<noteq> [] then item_backends item
            else map PStr (default_backends_for (si_semantics item) (si_case item)));
          requested = unique (sa_backends args);
          chosen = (if sa_backends args \<noteq> []
            then if backend_locked item
                 then filter (\<lambda>backend. list_ex (eq_str backend) requested) declared
                 else map PStr (filter (backend_allowed_for (si_semantics item) (si_case item)) requested)
            else declared);
          batched = (if 1 < si_host_api_batch_size item
            then filter (\<lambda>backend. list_ex (eq_str backend) HOST_API_BATCH_BACKENDS) chosen else chosen);
          graph = (if si_hip_graph_replay item
            then filter (\<lambda>backend. eq_str backend ''hip-direct'') batched else batched);
          wrapped = (if si_semantics item = ''wrap-u64'' \<and> si_include_wrap64_candidate item \<and>
              sa_include_wrap64_rocwmma_candidate args
            then graph @ [PStr WRAP64_ROCWMMA_CANDIDATE_BACKEND] else graph)
      in unique_vals wrapped)"

section \<open>Capture names and command lines\<close>

definition cpu_reference_capture_backend :: "string \<Rightarrow> bool" where
  "cpu_reference_capture_backend backend \<longleftrightarrow> backend \<in> set CPU_REFERENCE_CAPTURE_BACKENDS"

definition capture_timing_counts :: "sweep_args \<Rightarrow> string \<Rightarrow> int \<times> int" where
  "capture_timing_counts args backend =
     (if sa_cpu_reference_mode args = ''correctness-anchor'' \<and> cpu_reference_capture_backend backend
      then (0, 1) else (sa_warmups args, sa_repeats args))"

text \<open>The mode arguments of \<open>capture_name\<close>, in its parameter order.\<close>

record name_modes =
  nm_residue_chain_length :: int
  nm_residue_chain_final_export :: bool
  nm_output_ld_padding :: int
  nm_host_api_batch_size :: int
  nm_hip_graph_replay :: bool
  nm_oneshot :: bool
  nm_transient_uniform_small_inputs :: bool
  nm_residue_chain_independent_final_export :: bool
  nm_sparse_a_4_to_2 :: bool
  nm_sparse_a_4_to_2_dense_baseline :: bool

definition part_if :: "bool \<Rightarrow> string \<Rightarrow> string list" where
  "part_if c s = (if c then [s] else [])"

definition mode_parts :: "string \<Rightarrow> string \<Rightarrow> name_modes \<Rightarrow> string list" where
  "mode_parts semantics pack_mode modes =
     (if semantics \<in> set RNS_CHAIN_SEMANTICS \<and> 1 < nm_residue_chain_length modes
      then [''chain'' @ show_int (nm_residue_chain_length modes)] @
           (if nm_residue_chain_independent_final_export modes then [''indepfinalexport'']
            else part_if (nm_residue_chain_final_export modes) ''finalexport'')
      else []) @
     part_if (0 < nm_output_ld_padding modes) (''outpad'' @ show_int (nm_output_ld_padding modes)) @
     part_if (1 < nm_host_api_batch_size modes)
       (''hostbatch'' @ show_int (nm_host_api_batch_size modes)) @
     part_if (nm_hip_graph_replay modes) ''hipgraph'' @
     part_if (nm_oneshot modes) ''oneshot'' @
     part_if (nm_transient_uniform_small_inputs modes) ''transient-uniform-small'' @
     part_if (nm_sparse_a_4_to_2 modes) ''sparse-a-4to2'' @
     part_if (nm_sparse_a_4_to_2_dense_baseline modes) ''dense-baseline'' @
     (if pack_mode = ''prepacked_reuse'' then [''reuse-packed'']
      else if pack_mode = ''prepacked_reuse_a'' then [''reuse-packed-a'']
      else part_if (pack_mode = ''prepacked_reuse_b'') ''reuse-packed-b'')"

definition name_parts ::
  "string \<Rightarrow> sweep_case \<Rightarrow> string \<Rightarrow> int option \<Rightarrow> string \<Rightarrow> int option \<Rightarrow> name_modes \<Rightarrow> string list" where
  "name_parts semantics case0 backend modulus pack_mode exact_wide_limb_count modes =
     [semantics, cs_name case0, shape_str (cs_m case0) (cs_n case0) (cs_k case0)] @
     (case modulus of None \<Rightarrow> [] | Some m \<Rightarrow> [''mod'' @ show_int m]) @
     (case exact_wide_limb_count of
        None \<Rightarrow> []
      | Some n \<Rightarrow> part_if (semantics \<in> set EXACT_WIDE_SEMANTICS \<and> n \<noteq> DEFAULT_EXACT_WIDE_LIMB_COUNT)
          (''limbs'' @ show_int n)) @
     mode_parts semantics pack_mode modes @ [backend]"

definition capture_name ::
  "string \<Rightarrow> sweep_case \<Rightarrow> string \<Rightarrow> int option \<Rightarrow> string \<Rightarrow> int option \<Rightarrow> name_modes \<Rightarrow> string" where
  "capture_name semantics case0 backend modulus pack_mode exact_wide_limb_count modes =
     map (\<lambda>c. if c = CHR ''/'' then CHR ''_'' else c)
       (join_with ''-'' (name_parts semantics case0 backend modulus pack_mode exact_wide_limb_count modes))
     @ ''.json''"

definition pair_if :: "bool \<Rightarrow> string \<Rightarrow> string \<Rightarrow> string list" where
  "pair_if c option v = (if c then [option, v] else [])"

definition opt_pair :: "string option \<Rightarrow> string \<Rightarrow> string list" where
  "opt_pair v option = (case v of None \<Rightarrow> [] | Some s \<Rightarrow> if s = [] then [] else [option, s])"

definition int_pair :: "int option \<Rightarrow> string \<Rightarrow> string list" where
  "int_pair v option = (case v of None \<Rightarrow> [] | Some n \<Rightarrow> [option, show_int n])"

text \<open>\<open>if label and label != default: command.extend([option, label])\<close>.\<close>

definition label_pair :: "string \<Rightarrow> string \<Rightarrow> string \<Rightarrow> string list" where
  "label_pair option dflt label = pair_if (label \<noteq> [] \<and> label \<noteq> dflt) option label"

text \<open>The options every command has.\<close>

definition base_command ::
  "path \<Rightarrow> string \<Rightarrow> string \<Rightarrow> sweep_case \<Rightarrow> sweep_args \<Rightarrow> string list" where
  "base_command bench backend semantics case0 args =
     (let candidate = (semantics = ''wrap-u64'' \<and> backend = WRAP64_ROCWMMA_CANDIDATE_BACKEND);
          tile_m = (if candidate then 16 else cs_tile_m case0);
          tile_n = (if candidate then 16 else cs_tile_n case0);
          (warmups, repeats) = capture_timing_counts args backend
      in [path_str bench,
          ''--backend'', cli_backend backend,
          ''--semantics'', semantics,
          ''--m'', show_int (cs_m case0),
          ''--n'', show_int (cs_n case0),
          ''--k'', show_int (cs_k case0),
          ''--tile-m'', show_int tile_m,
          ''--tile-n'', show_int tile_n,
          ''--bound-mode'', cs_bound_mode case0,
          ''--warmups'', show_int warmups,
          ''--repeats'', show_int repeats,
          ''--seed'', show_int (sa_seed args),
          ''--cpu-threads'', show_int (sa_cpu_threads args),
          ''--cpu-parallel-threshold'', show_int (sa_cpu_parallel_threshold args),
          ''--cpu-reference-mode'', sa_cpu_reference_mode args])"

definition mode_options ::
  "string \<Rightarrow> sweep_case \<Rightarrow> int option \<Rightarrow> int option \<Rightarrow> sweep_args \<Rightarrow> bool \<Rightarrow> string list" where
  "mode_options backend case0 modulus exact_wide_limb_count args oneshot =
     part_if (sa_progress args) ''--progress'' @
     part_if (cs_require_adaptive case0 \<and> sa_prefix_policy args \<noteq> Some ''fixed-requested'')
       ''--require-adaptive-execution'' @
     pair_if (cs_input_profile case0 \<noteq> ''uniform-small'') ''--input-profile'' (cs_input_profile case0) @
     int_pair modulus ''--modulus'' @
     int_pair exact_wide_limb_count ''--exact-wide-limbs'' @
     opt_pair (sa_bound_source args) ''--bound-source'' @
     opt_pair (sa_next_op_hint args) ''--next-op-hint'' @
     opt_pair (sa_prefix_policy args) ''--prefix-policy'' @
     int_pair (sa_max_prefix args) ''--max-prefix'' @
     pair_if (1 < sa_residue_chain_length args) ''--residue-chain-length''
       (show_int (sa_residue_chain_length args)) @
     (if sa_residue_chain_independent_final_export args
      then [''--residue-chain-independent-final-export'']
      else part_if (sa_residue_chain_final_export args) ''--residue-chain-final-export'') @
     pair_if (1 < sa_host_api_batch_size args) ''--host-api-batch-size''
       (show_int (sa_host_api_batch_size args)) @
     pair_if (0 < sa_output_ld_padding args) ''--output-ld-padding''
       (show_int (sa_output_ld_padding args)) @
     part_if (sa_residue_channel_fusion args) ''--residue-channel-fusion'' @
     part_if (sa_transient_uniform_small_inputs args \<and> backend = ''hip-direct'')
       ''--transient-uniform-small-inputs'' @
     part_if oneshot ''--oneshot'' @
     (let pack_mode = requested_pack_mode args in
      if pack_mode = ''prepacked_reuse'' then [''--reuse-packed-inputs'']
      else if pack_mode = ''prepacked_reuse_a'' then [''--reuse-packed-a'']
      else part_if (pack_mode = ''prepacked_reuse_b'') ''--reuse-packed-b'') @
     part_if (sa_native_to_rns_bridge args) ''--native-to-rns-bridge'' @
     (if sa_vector_to_rns_chain args
      then if sa_vector_to_rns_chain_host_repack_control args
           then [''--vector-to-rns-chain-host-repack-control''] else [''--vector-to-rns-chain'']
      else []) @
     part_if (sa_sparse_a_4_to_2 args) ''--sparse-a-4-to-2'' @
     part_if (sa_sparse_a_4_to_2_dense_baseline args) ''--sparse-a-4-to-2-dense-baseline''"

definition label_options :: "sweep_args \<Rightarrow> string list" where
  "label_options args =
     label_pair ''--modulus-set'' ''default'' (sa_modulus_set args) @
     label_pair ''--tile-shape-variant'' ''default'' (sa_tile_shape_variant args) @
     label_pair ''--export-variant'' ''default'' (sa_export_variant args) @
     label_pair ''--reconstruction-variant'' ''default_garner'' (sa_reconstruction_variant args) @
     pair_if (1 < sa_grouped_dispatch_tasks args) ''--grouped-dispatch''
       (show_int (sa_grouped_dispatch_tasks args)) @
     part_if (sa_hip_graph_replay args) ''--hip-graph-replay'' @
     label_pair ''--workload-proxy'' ''none'' (sa_workload_proxy args) @
     part_if (sa_resident_lifetime args) ''--resident-lifetime'' @
     part_if (sa_workspace_arena args) ''--workspace-arena'' @
     part_if (sa_adaptive_grouped_scheduler args) ''--adaptive-grouped-scheduler'' @
     part_if (sa_streaming_overlap args) ''--streaming-overlap'' @
     label_pair ''--k-block-policy'' ''auto'' (sa_k_block_policy args) @
     (if sa_resident_redesign_candidate args \<noteq> []
      then [''--resident-redesign-candidate'', sa_resident_redesign_candidate args] @
           pair_if (sa_resident_redesign_dimensions args \<noteq> []) ''--resident-redesign-dimensions''
             (join_with '','' (sa_resident_redesign_dimensions args))
      else []) @
     label_pair ''--release-gate'' ''none'' (sa_release_gate args) @
     label_pair ''--verification-amortization'' ''none'' (sa_verification_amortization args) @
     label_pair ''--error-detection-policy'' ''none'' (sa_error_detection_policy args) @
     label_pair ''--cpu-small-shape-selector'' ''none'' (sa_cpu_small_shape_selector args) @
     label_pair ''--incremental-result-cache'' ''none'' (sa_incremental_result_cache args)"

definition command_for ::
  "path \<Rightarrow> string \<Rightarrow> string \<Rightarrow> sweep_case \<Rightarrow> int option \<Rightarrow> int option \<Rightarrow> sweep_args \<Rightarrow> bool \<Rightarrow>
   string list" where
  "command_for bench backend semantics case0 modulus exact_wide_limb_count args oneshot =
     base_command bench backend semantics case0 args @
     mode_options backend case0 modulus exact_wide_limb_count args oneshot @
     label_options args"

section \<open>Selection\<close>

lemma set_unique [simp]: "set (unique xs) = set xs"
  by (simp add: unique_def)

lemma distinct_unique [simp]: "distinct (unique xs)"
  by (simp add: unique_def)

lemma limb_counts_range:
  assumes "exact_wide_limb_counts_for semantics args = Inr counts"
    and "semantics \<in> set EXACT_WIDE_SEMANTICS"
  shows "\<exists>ns. counts = map Some ns \<and> distinct ns \<and> list_all (\<lambda>n. 1 \<le> n \<and> n \<le> 32) ns"
proof -
  define ns where "ns = (if sa_exact_wide_limbs args \<noteq> [] then sa_exact_wide_limbs args
     else if sa_include_exact_wide_limb_variants args then EXACT_WIDE_LIMB_VARIANTS
     else [DEFAULT_EXACT_WIDE_LIMB_COUNT])"
  from assms have "filter (\<lambda>count. count < 1 \<or> 32 < count) ns = []" "counts = map Some (unique ns)"
    by (auto simp: exact_wide_limb_counts_for_def Let_def ns_def raise_if_eq_Inr)
  then show ?thesis
    by (intro exI [of _ "unique ns"]) (auto simp: filter_empty_conv list_all_iff not_less)
qed

lemma limb_counts_other:
  "exact_wide_limb_counts_for semantics args = Inr counts \<Longrightarrow> semantics \<notin> set EXACT_WIDE_SEMANTICS \<Longrightarrow>
   counts = [None]"
  by (simp add: exact_wide_limb_counts_for_def)

definition KNOWN_BACKENDS :: "string list" where
  "KNOWN_BACKENDS = [''cpu'', ''hip-direct'', ''hip-vector-alu-int64'', ''hipblaslt'', ''ck'',
     ''rocwmma'', ''amdgpu-builtins'', ''wrap64-byte-limb'', ''rocwmma-wrap64-candidate'']"

lemmas backend_lists =
  BOUNDED_BACKENDS_def EXACT_WIDE_BACKENDS_def FINITE_BACKENDS_def WRAP64_BACKENDS_def
  WRAP64_ROCWMMA_CANDIDATE_BACKEND_def HOST_API_BATCH_BACKENDS_def PUBLIC_ONESHOT_BACKENDS_def

lemma allowed_known: "backend_allowed_for semantics case0 b \<Longrightarrow> b \<in> set KNOWN_BACKENDS"
  by (auto simp: backend_allowed_for_def KNOWN_BACKENDS_def backend_lists split: if_splits)

section \<open>Reading a command line back\<close>

lemma command_option_Cons:
  "command_option (w # ws) option =
     (if w = option then (case ws of [] \<Rightarrow> None | v # _ \<Rightarrow> Some v) else command_option ws option)"
  by (simp add: command_option_def split: list.splits)

lemma command_option_append:
  "command_option xs option = Some v \<Longrightarrow> command_option (xs @ ys) option = Some v"
proof (induction xs)
  case (Cons x xs)
  then show ?case by (cases xs) (auto simp: command_option_Cons split: if_splits)
qed (simp add: command_option_def)

text \<open>A word that cannot be an option.\<close>

definition plain_word :: "string \<Rightarrow> bool" where
  "plain_word w \<longleftrightarrow> \<not> starts_with ''--'' w"

lemma plain_show_int [simp]: "plain_word (show_int n)"
proof -
  have "CHR ''-'' \<notin> set (show_nat m)" for m by (rule show_nat_no_char) simp
  then have "show_nat m \<noteq> CHR ''-'' # t" for m t by (metis list.set_intros(1))
  then show ?thesis by (auto simp: plain_word_def starts_with_iff show_int_def)
qed

lemma plain_word_neq: "plain_word w \<Longrightarrow> w \<noteq> CHR ''-'' # CHR ''-'' # t"
  by (auto simp: plain_word_def)

lemma plain_cli_backend: "plain_word b \<Longrightarrow> plain_word (cli_backend b)"
  by (simp add: cli_backend_def plain_word_def)


text \<open>The options every command has, with the words \<open>command_for\<close> puts after them.\<close>

lemma base_command_words:
  "base_command bench backend semantics case0 args =
     (let candidate = semantics = ''wrap-u64'' \<and> backend = WRAP64_ROCWMMA_CANDIDATE_BACKEND in
      [path_str bench,
       ''--backend'', cli_backend backend, ''--semantics'', semantics,
       ''--m'', show_int (cs_m case0), ''--n'', show_int (cs_n case0), ''--k'', show_int (cs_k case0),
       ''--tile-m'', show_int (if candidate then 16 else cs_tile_m case0),
       ''--tile-n'', show_int (if candidate then 16 else cs_tile_n case0),
       ''--bound-mode'', cs_bound_mode case0,
       ''--warmups'', show_int (fst (capture_timing_counts args backend)),
       ''--repeats'', show_int (snd (capture_timing_counts args backend)),
       ''--seed'', show_int (sa_seed args), ''--cpu-threads'', show_int (sa_cpu_threads args),
       ''--cpu-parallel-threshold'', show_int (sa_cpu_parallel_threshold args),
       ''--cpu-reference-mode'', sa_cpu_reference_mode args])"
  by (simp add: base_command_def Let_def split_beta)

lemma show_int_neq_dashes [simp]: "show_int n \<noteq> CHR ''-'' # CHR ''-'' # t"
  by (rule plain_word_neq) simp

lemma command_words:
  assumes "plain_word (path_str bench)" "plain_word backend" "plain_word semantics"
    "plain_word (cs_bound_mode case0)"
  shows "map (command_option (command_for bench backend semantics case0 modulus count args oneshot))
      [''--backend'', ''--semantics'', ''--m'', ''--n'', ''--k'', ''--bound-mode'', ''--seed'',
       ''--cpu-reference-mode''] =
    [Some (cli_backend backend), Some semantics, Some (show_int (cs_m case0)),
     Some (show_int (cs_n case0)), Some (show_int (cs_k case0)), Some (cs_bound_mode case0),
     Some (show_int (sa_seed args)), Some (sa_cpu_reference_mode args)]"
  using assms [THEN plain_word_neq] plain_cli_backend [OF assms(2), THEN plain_word_neq]
  by (simp add: command_for_def base_command_words Let_def command_option_Cons)


text \<open>A square case, for the examples.\<close>

definition case64 :: sweep_case where
  "case64 = \<lparr>cs_name = ''64x64x64'', cs_m = 64, cs_n = 64, cs_k = 64, cs_tile_m = 0, cs_tile_n = 0,
     cs_bound_mode = ''global'', cs_input_profile = ''uniform-small'', cs_require_adaptive = False,
     cs_promotable = True\<rparr>"


section \<open>Capture names\<close>

definition no_slash :: "string \<Rightarrow> string" where
  "no_slash s = map (\<lambda>c. if c = CHR ''/'' then CHR ''_'' else c) s"

definition dashed :: "string list \<Rightarrow> string" where
  "dashed ws = concat (map (\<lambda>w. CHR ''-'' # w) ws)"

lemma dashed_simps [simp]:
  "dashed [] = []" "dashed (w # ws) = CHR ''-'' # w @ dashed ws" "dashed (us @ ws) = dashed us @ dashed ws"
  by (simp_all add: dashed_def)

lemma no_slash_simps [simp]:
  "no_slash [] = []" "no_slash (c # s) = (if c = CHR ''/'' then CHR ''_'' else c) # no_slash s"
  "no_slash (s @ t) = no_slash s @ no_slash t"
  by (simp_all add: no_slash_def)

lemma no_slash_id: "CHR ''/'' \<notin> set s \<Longrightarrow> no_slash s = s"
  by (induction s) auto

lemma no_slash_free: "CHR ''/'' \<notin> set (no_slash s)"
  by (induction s) auto

lemma no_slash_dashed: "no_slash (dashed ws) = dashed (map no_slash ws)"
  by (induction ws) auto

lemma no_slash_show_nat [simp]: "no_slash (show_nat n) = show_nat n"
  by (rule no_slash_id, rule show_nat_no_char) (simp add: code_def)

lemma dash_free_show_nat [simp]: "CHR ''-'' \<notin> set (show_nat n)"
  by (rule show_nat_no_char) simp

lemma show_nat_inj [simp]: "show_nat m = show_nat n \<longleftrightarrow> m = n"
  by (metis option.inject parse_show_nat)

lemma show_int_inj [simp]: "show_int m = show_int n \<longleftrightarrow> m = n"
  by (metis option.inject py_int10_show_int)

text \<open>The default arguments of \<open>capture_name\<close>.\<close>

definition default_modes :: "bool \<Rightarrow> name_modes" where
  "default_modes oneshot =
     \<lparr>nm_residue_chain_length = 1, nm_residue_chain_final_export = False, nm_output_ld_padding = 0,
      nm_host_api_batch_size = 1, nm_hip_graph_replay = False, nm_oneshot = oneshot,
      nm_transient_uniform_small_inputs = False, nm_residue_chain_independent_final_export = False,
      nm_sparse_a_4_to_2 = False, nm_sparse_a_4_to_2_dense_baseline = False\<rparr>"

text \<open>The parts of a name that vary within one case.\<close>

definition limb_parts :: "string \<Rightarrow> int option \<Rightarrow> string list" where
  "limb_parts semantics count =
     (case count of None \<Rightarrow> []
      | Some n \<Rightarrow> part_if (semantics \<in> set EXACT_WIDE_SEMANTICS \<and> n \<noteq> DEFAULT_EXACT_WIDE_LIMB_COUNT)
          (''limbs'' @ show_int n))"

definition modulus_parts :: "int option \<Rightarrow> string list" where
  "modulus_parts modulus = (case modulus of None \<Rightarrow> [] | Some m \<Rightarrow> [''mod'' @ show_int m])"

lemma capture_name_eq:
  "capture_name semantics case0 backend modulus pack_mode count modes =
     no_slash (join_with ''-'' [semantics, cs_name case0, shape_str (cs_m case0) (cs_n case0) (cs_k case0)]) @
     dashed (map no_slash (modulus_parts modulus)) @
     dashed (map no_slash (limb_parts semantics count)) @
     dashed (map no_slash (mode_parts semantics pack_mode modes)) @
     CHR ''-'' # no_slash backend @ ''.json''"
proof -
  have "join_with ''-'' (name_parts semantics case0 backend modulus pack_mode count modes) =
      join_with ''-'' [semantics, cs_name case0, shape_str (cs_m case0) (cs_n case0) (cs_k case0)] @
      dashed (modulus_parts modulus @ limb_parts semantics count @ mode_parts semantics pack_mode modes @ [backend])"
    by (simp add: name_parts_def join_with_Cons modulus_parts_def limb_parts_def dashed_def
        split: option.splits)
  then show ?thesis
    by (simp add: capture_name_def no_slash_def [symmetric] no_slash_dashed)
qed

lemma capture_name_plain: "plain_name (capture_name semantics case0 backend modulus pack_mode count modes)"
proof -
  have "CHR ''/'' \<notin> set (capture_name semantics case0 backend modulus pack_mode count modes)"
    unfolding capture_name_def no_slash_def [symmetric] using no_slash_free by auto
  moreover have "length (capture_name semantics case0 backend modulus pack_mode count modes) \<ge> 5"
    by (simp add: capture_name_def)
  ultimately show ?thesis by (auto simp: plain_name_def)
qed

lemma known_no_suffix:
  "list_all (\<lambda>b. list_all (\<lambda>b'. b = b' \<or> \<not> starts_with (rev b @ ''-'') (rev b' @ ''-''))
     KNOWN_BACKENDS) KNOWN_BACKENDS"
  by code_simp

lemma known_suffix:
  assumes "u @ CHR ''-'' # b = v @ CHR ''-'' # b'" "b \<in> set KNOWN_BACKENDS" "b' \<in> set KNOWN_BACKENDS"
  shows "b = b'"
proof -
  have "(rev b @ ''-'') @ rev u = (rev b' @ ''-'') @ rev v"
    using arg_cong [OF assms(1), of rev] by simp
  then have "starts_with (rev b @ ''-'') (rev b' @ ''-'') \<or> starts_with (rev b' @ ''-'') (rev b @ ''-'')"
    unfolding starts_with_iff append_eq_append_conv2 by metis
  with assms(2,3) known_no_suffix show ?thesis unfolding list_all_iff by metis
qed

lemma known_no_slash: "b \<in> set KNOWN_BACKENDS \<Longrightarrow> no_slash b = b"
  by (auto simp: KNOWN_BACKENDS_def)

lemma capture_name_backend:
  assumes "capture_name s c b m p l modes = capture_name s' c' b' m' p' l' modes'"
    and "b \<in> set KNOWN_BACKENDS" "b' \<in> set KNOWN_BACKENDS"
  shows "b = b'"
proof -
  from assms obtain u v where "u @ CHR ''-'' # b = v @ CHR ''-'' # b'"
    by (simp add: capture_name_eq known_no_slash append_assoc [symmetric] del: append_assoc)
  with assms show ?thesis using known_suffix by blast
qed

lemma dash_free_show_pos: "0 \<le> n \<Longrightarrow> CHR ''-'' \<notin> set (show_int n)"
  by (simp add: show_int_def)

lemma no_slash_show_int [simp]: "no_slash (show_int n) = show_int n"
  by (simp add: show_int_def)

lemma dash_sep_eq:
  "CHR ''-'' \<notin> set x \<Longrightarrow> CHR ''-'' \<notin> set y \<Longrightarrow> x @ CHR ''-'' # u = y @ CHR ''-'' # v \<longleftrightarrow> x = y \<and> u = v"
  by (rule append_sep_eq)

text \<open>No part after the limb count starts like one.\<close>

lemma list_all_part_if [simp]: "list_all P (part_if c w) \<longleftrightarrow> (c \<longrightarrow> P w)"
  by (simp add: part_if_def)

definition avoids :: "char \<Rightarrow> string \<Rightarrow> bool" where
  "avoids c w \<longleftrightarrow> w \<noteq> [] \<and> hd w \<noteq> c"

lemma avoids_Cons [simp]: "avoids c (x # w) \<longleftrightarrow> x \<noteq> c"
  by (simp add: avoids_def)

lemma avoids_ex: "avoids c w \<longleftrightarrow> (\<exists>x v. w = x # v \<and> x \<noteq> c)"
  by (cases w) (auto simp: avoids_def)

lemma mode_parts_not_limb: "list_all (avoids CHR ''l'') (mode_parts s p modes)"
  unfolding mode_parts_def by (simp split del: if_split) (simp split: if_split)

lemma known_avoids: "b \<in> set KNOWN_BACKENDS \<Longrightarrow> avoids CHR ''l'' b \<and> avoids CHR ''o'' b"
  by (auto simp: KNOWN_BACKENDS_def)

lemma tail_avoids:
  assumes "list_all (avoids c) ws" "avoids c b" "c \<noteq> CHR ''_''"
  shows "dashed (map no_slash ws) @ CHR ''-'' # b @ z \<noteq> CHR ''-'' # c # u"
  using assms by (cases ws) (auto simp: avoids_ex split: if_splits)

lemma dashed_Cons_ex: "\<exists>z. dashed ws @ CHR ''-'' # t = CHR ''-'' # z"
  by (cases ws) auto

definition nonneg_opt :: "int option \<Rightarrow> bool" where
  "nonneg_opt v \<longleftrightarrow> (case v of None \<Rightarrow> True | Some n \<Rightarrow> 0 \<le> n)"

lemma modulus_parts_cancel:
  assumes "dashed (map no_slash (modulus_parts m)) @ dashed us @ CHR ''-'' # t =
      dashed (map no_slash (modulus_parts m')) @ dashed vs @ CHR ''-'' # t'"
    and "nonneg_opt m" "nonneg_opt m'" "(m = None) = (m' = None)"
  shows "m = m' \<and> dashed us @ CHR ''-'' # t = dashed vs @ CHR ''-'' # t'"
proof (cases m)
  case None
  with assms show ?thesis by (simp add: modulus_parts_def)
next
  case (Some i)
  with assms(4) obtain j where j: "m' = Some j" by auto
  obtain x y where "dashed us @ CHR ''-'' # t = CHR ''-'' # x" "dashed vs @ CHR ''-'' # t' = CHR ''-'' # y"
    using dashed_Cons_ex by metis
  with assms(1-3) Some j show ?thesis
    by (simp add: modulus_parts_def nonneg_opt_def dash_sep_eq dash_free_show_pos)
qed

lemma limb_parts_cancel:
  assumes eq: "dashed (map no_slash (limb_parts s l)) @ dashed (map no_slash us) @ CHR ''-'' # b @ t =
      dashed (map no_slash (limb_parts s l')) @ dashed (map no_slash vs) @ CHR ''-'' # b' @ t'"
    and "nonneg_opt l" "nonneg_opt l'" "(l = None) = (l' = None)"
    and "l \<noteq> None \<Longrightarrow> s \<in> set EXACT_WIDE_SEMANTICS"
    and "list_all (avoids CHR ''l'') us" "list_all (avoids CHR ''l'') vs"
      "avoids CHR ''l'' b" "avoids CHR ''l'' b'"
  shows "l = l' \<and> dashed (map no_slash us) @ CHR ''-'' # b @ t = dashed (map no_slash vs) @ CHR ''-'' # b' @ t'"
proof (cases l)
  case None
  with assms show ?thesis by (simp add: limb_parts_def)
next
  case (Some i)
  with assms(4) obtain j where j: "l' = Some j" by auto
  obtain x y where xy: "dashed (map no_slash us) @ CHR ''-'' # b @ t = CHR ''-'' # x"
      "dashed (map no_slash vs) @ CHR ''-'' # b' @ t' = CHR ''-'' # y"
    using dashed_Cons_ex by metis
  have "x \<noteq> CHR ''l'' # z" "y \<noteq> CHR ''l'' # z" "CHR ''l'' # z \<noteq> x" "CHR ''l'' # z \<noteq> y" for z
    using tail_avoids [OF assms(6,8)] tail_avoids [OF assms(7,9)] xy by auto
  with eq assms(2,3,5) Some j show ?thesis
    unfolding xy
    by (cases "i = DEFAULT_EXACT_WIDE_LIMB_COUNT"; cases "j = DEFAULT_EXACT_WIDE_LIMB_COUNT")
      (simp_all add: limb_parts_def part_if_def nonneg_opt_def dash_sep_eq dash_free_show_pos)
qed

lemma capture_name_point:
  assumes eq: "capture_name s c b m p l modes = capture_name s c b' m' p l' modes'"
    and known: "b \<in> set KNOWN_BACKENDS" "b' \<in> set KNOWN_BACKENDS"
    and m: "nonneg_opt m" "nonneg_opt m'" "(m = None) = (m' = None)"
    and l: "nonneg_opt l" "nonneg_opt l'" "(l = None) = (l' = None)"
      "l \<noteq> None \<Longrightarrow> s \<in> set EXACT_WIDE_SEMANTICS"
  shows "b = b'" "m = m'" "l = l'"
    "dashed (map no_slash (mode_parts s p modes)) @ CHR ''-'' # b @ ''.json'' =
     dashed (map no_slash (mode_parts s p modes')) @ CHR ''-'' # b @ ''.json''"
proof -
  show b: "b = b'" using eq known by (rule capture_name_backend)
  have "dashed (map no_slash (modulus_parts m)) @
       dashed (map no_slash (limb_parts s l) @ map no_slash (mode_parts s p modes)) @ CHR ''-'' # b @ ''.json'' =
      dashed (map no_slash (modulus_parts m')) @
       dashed (map no_slash (limb_parts s l') @ map no_slash (mode_parts s p modes')) @ CHR ''-'' # b @ ''.json''"
    using eq known unfolding b capture_name_eq by (simp add: known_no_slash)
  from modulus_parts_cancel [OF this m]
  have mm: "m = m'" and "dashed (map no_slash (limb_parts s l)) @
       dashed (map no_slash (mode_parts s p modes)) @ CHR ''-'' # b @ ''.json'' =
      dashed (map no_slash (limb_parts s l')) @
       dashed (map no_slash (mode_parts s p modes')) @ CHR ''-'' # b @ ''.json''"
    by simp_all
  from limb_parts_cancel [OF this(2) l mode_parts_not_limb mode_parts_not_limb] known known_avoids
  show "m = m'" "l = l'" "dashed (map no_slash (mode_parts s p modes)) @ CHR ''-'' # b @ ''.json'' =
     dashed (map no_slash (mode_parts s p modes')) @ CHR ''-'' # b @ ''.json''"
    using mm by blast+
qed

text \<open>The parts of the modes before and after the one-shot mark.\<close>

definition modes_before :: "string \<Rightarrow> name_modes \<Rightarrow> string list" where
  "modes_before semantics modes =
     (if semantics \<in> set RNS_CHAIN_SEMANTICS \<and> 1 < nm_residue_chain_length modes
      then [''chain'' @ show_int (nm_residue_chain_length modes)] @
           (if nm_residue_chain_independent_final_export modes then [''indepfinalexport'']
            else part_if (nm_residue_chain_final_export modes) ''finalexport'')
      else []) @
     part_if (0 < nm_output_ld_padding modes) (''outpad'' @ show_int (nm_output_ld_padding modes)) @
     part_if (1 < nm_host_api_batch_size modes)
       (''hostbatch'' @ show_int (nm_host_api_batch_size modes)) @
     part_if (nm_hip_graph_replay modes) ''hipgraph''"

definition modes_after :: "string \<Rightarrow> name_modes \<Rightarrow> string list" where
  "modes_after pack_mode modes =
     part_if (nm_transient_uniform_small_inputs modes) ''transient-uniform-small'' @
     part_if (nm_sparse_a_4_to_2 modes) ''sparse-a-4to2'' @
     part_if (nm_sparse_a_4_to_2_dense_baseline modes) ''dense-baseline'' @
     (if pack_mode = ''prepacked_reuse'' then [''reuse-packed'']
      else if pack_mode = ''prepacked_reuse_a'' then [''reuse-packed-a'']
      else part_if (pack_mode = ''prepacked_reuse_b'') ''reuse-packed-b'')"

lemma mode_parts_split:
  "mode_parts s p modes = modes_before s modes @ part_if (nm_oneshot modes) ''oneshot'' @ modes_after p modes"
  by (simp add: mode_parts_def modes_before_def modes_after_def)

lemma modes_after_avoid: "list_all (avoids CHR ''o'') (modes_after p modes)"
  unfolding modes_after_def by (simp split del: if_split) (simp split: if_split)

lemma capture_name_oneshot:
  assumes eq: "dashed (map no_slash (mode_parts s p modes)) @ CHR ''-'' # b @ z =
      dashed (map no_slash (mode_parts s p modes')) @ CHR ''-'' # b @ z"
    and "modes_before s modes = modes_before s modes'" "b \<in> set KNOWN_BACKENDS"
  shows "nm_oneshot modes = nm_oneshot modes'"
proof -
  have "avoids CHR ''o'' b" using assms(3) known_avoids by blast
  then have "dashed (map no_slash (modes_after p md)) @ CHR ''-'' # b @ z \<noteq> CHR ''-'' # CHR ''o'' # u" for md u
    by (rule tail_avoids [OF modes_after_avoid]) simp
  then have "CHR ''-'' # CHR ''o'' # u \<noteq> dashed (map no_slash (modes_after p md)) @ CHR ''-'' # b @ z"
      "dashed (map no_slash (modes_after p md)) @ CHR ''-'' # b @ z \<noteq> CHR ''-'' # CHR ''o'' # u" for md u
    by metis+
  with eq assms(2) show ?thesis
    by (cases "nm_oneshot modes"; cases "nm_oneshot modes'") (auto simp: mode_parts_split part_if_def)
qed

text \<open>C9: within one case, a capture's file name tells its backend, its modulus and its limb count:
  captures that differ in one of them never share a file.
\<close>

theorem capture_name_separates:
  assumes "capture_name semantics case0 b m pack_mode l modes = capture_name semantics case0 b' m' pack_mode l' modes'"
    and "b \<in> set KNOWN_BACKENDS" "b' \<in> set KNOWN_BACKENDS"
    and "nonneg_opt m" "nonneg_opt m'" "(m = None) = (m' = None)"
    and "nonneg_opt l" "nonneg_opt l'" "(l = None) = (l' = None)"
    and "l \<noteq> None \<Longrightarrow> semantics \<in> set EXACT_WIDE_SEMANTICS"
  shows "b = b' \<and> m = m' \<and> l = l'"
  using capture_name_point(1-3) [OF assms] by simp

lemma capture_name_separates_witness:
  "capture_name ''finite-u8-ring'' case64 ''cpu'' (Some 251) [] None (default_modes False) \<noteq>
   capture_name ''finite-u8-ring'' case64 ''cpu'' (Some 255) [] None (default_modes False)"
  using capture_name_separates [of "''finite-u8-ring''" case64 "''cpu''" "Some 251" "[]" None
      "default_modes False" "''cpu''" "Some 255" None "default_modes False"]
  by (auto simp: KNOWN_BACKENDS_def nonneg_opt_def)

section \<open>Sharding\<close>

lemma decimal_plain:
  assumes "is_decimal shard"
  shows "plain_name (''gpu'' @ shard)"
proof -
  have "code CHR ''/'' = 47" by (simp add: code_def)
  with assms have "CHR ''/'' \<notin> set shard" by (auto simp: is_decimal_def list_all_iff)
  then show ?thesis by (auto simp: plain_name_def)
qed

lemma checked_shards_decimal:
  assumes "check_args args = Inr args" "given (sa_gpu_shards args)"
    and "shard \<in> set (device_list (the (sa_gpu_shards args)))"
  shows "is_decimal shard"
proof -
  have "device_list_ok (sa_gpu_shards args)"
    using assms(1) unfolding check_args_def Let_def by (simp add: res_simps)
  with assms(2,3) show ?thesis
    by (auto simp: given_def device_list_ok_def device_list_def list_all_iff split: option.splits)
qed

text \<open>An entry whose output is a file of some directory.\<close>

definition file_output :: "sweep_command \<Rightarrow> bool" where
  "file_output entry \<longleftrightarrow>
     path_parts (cmd_output entry) \<noteq> [] \<and> plain_name (path_name (cmd_output entry))"

lemma shard_output:
  assumes "file_output e" "is_decimal s"
  shows "cmd_output (shard_entry env s e) = Path (absolute (cmd_output e))
     (butlast (path_parts (cmd_output e)) @ [''gpu'' @ s, last (path_parts (cmd_output e))])"
proof -
  have "plain_name (last (path_parts (cmd_output e)))"
    using assms(1) by (auto simp: file_output_def path_name_def split: if_splits)
  then show ?thesis
    using assms decimal_plain [OF assms(2)]
    by (simp add: shard_entry_def Let_def path_parent_def path_name_def path_join_plain file_output_def)
qed

lemma shard_outputs_inj:
  assumes "file_output e" "file_output e'" "is_decimal s" "is_decimal s'"
    and "cmd_output (shard_entry env s e) = cmd_output (shard_entry env s' e')"
  shows "s = s' \<and> cmd_output e = cmd_output e'"
proof -
  have "path_parts (cmd_output e) = butlast (path_parts (cmd_output e)) @ [last (path_parts (cmd_output e))]"
      "path_parts (cmd_output e') = butlast (path_parts (cmd_output e')) @ [last (path_parts (cmd_output e'))]"
    using assms(1,2) by (simp_all add: file_output_def)
  then show ?thesis using assms(5) by (auto simp: shard_output assms(1-4) intro: path.expand)
qed

text \<open>sharding a plan over GPUs makes one capture per device and entry, and when the entries have
  files of their own, so have the shards: no two processes write one file.
\<close>

theorem sharded_outputs_distinct:
  assumes "check_args args = Inr args" "given (sa_gpu_shards args)"
    and "distinct (device_list (the (sa_gpu_shards args)))"
    and "distinct (map cmd_output entries)" "list_all file_output entries"
  shows "distinct (map cmd_output (apply_visibility_environment args entries)) \<and>
    length (apply_visibility_environment args entries) =
      length (device_list (the (sa_gpu_shards args))) * length entries"
proof -
  let ?devices = "device_list (the (sa_gpu_shards args))" and ?env = "visibility_env_overrides args"
  have dec: "is_decimal s" if "s \<in> set ?devices" for s
    using that checked_shards_decimal [OF assms(1,2)] by blast
  have fo: "file_output e" if "e \<in> set entries" for e using that assms(5) by (simp add: list_all_iff)
  have eq: "apply_visibility_environment args entries = concat (map (\<lambda>s. map (shard_entry ?env s) entries) ?devices)"
    using assms(2) by (simp add: apply_visibility_environment_def Let_def)
  have inj: "s = t \<and> cmd_output e = cmd_output e'"
    if "s \<in> set ?devices" "t \<in> set ?devices" "e \<in> set entries" "e' \<in> set entries"
      "cmd_output (shard_entry ?env s e) = cmd_output (shard_entry ?env t e')" for s t e e'
    using shard_outputs_inj [OF fo [OF that(3)] fo [OF that(4)] dec [OF that(1)] dec [OF that(2)] that(5)] .
  have ent: "distinct entries" "inj_on cmd_output (set entries)"
    using assms(4) by (simp_all add: distinct_map)
  have "distinct (map (\<lambda>e. cmd_output (shard_entry ?env s e)) entries)" if "s \<in> set ?devices" for s
    unfolding distinct_map using ent inj [OF that that] by (metis (mono_tags, lifting) inj_on_def)
  moreover have "set (map (\<lambda>e. cmd_output (shard_entry ?env s e)) entries) \<inter>
      set (map (\<lambda>e. cmd_output (shard_entry ?env t e)) entries) = {}"
    if "s \<in> set ?devices" "t \<in> set ?devices" "s \<noteq> t" for s t
    using inj [OF that(1,2)] that(3) by (auto 0 3)
  ultimately have "distinct (concat (map (\<lambda>s. map (\<lambda>e. cmd_output (shard_entry ?env s e)) entries) ?devices))"
    using assms(3) by (intro distinct_concat_map) auto
  then show ?thesis
    by (simp add: eq map_concat comp_def length_concat sum_list_triv)
qed

lemma sharded_outputs_distinct_witness:
  "map (path_str \<circ> cmd_output) (apply_visibility_environment (default_args\<lparr>sa_gpu_shards := Some ''0,1''\<rparr>)
     [\<lparr>cmd_name = ''c.json'', cmd_command = [], cmd_output = path_of ''out/c.json'',
       cmd_scenario = None, cmd_env = None\<rparr>]) = [''out/gpu0/c.json'', ''out/gpu1/c.json''] \<and>
   distinct (map cmd_output (apply_visibility_environment (default_args\<lparr>sa_gpu_shards := Some ''0,1''\<rparr>)
     [\<lparr>cmd_name = ''c.json'', cmd_command = [], cmd_output = path_of ''out/c.json'',
       cmd_scenario = None, cmd_env = None\<rparr>]))"
  (is "?out \<and> distinct (map cmd_output (apply_visibility_environment ?args ?entries))")
proof
  show ?out by code_simp
  have "check_args ?args = Inr ?args" "given (sa_gpu_shards ?args)"
      "distinct (device_list (the (sa_gpu_shards ?args)))" "distinct (map cmd_output ?entries)"
      "list_all file_output ?entries"
    by code_simp+
  from sharded_outputs_distinct [OF this]
  show "distinct (map cmd_output (apply_visibility_environment ?args ?entries))" ..
qed

end
