(* ===== verification/Sweep_Plan.thy ===== *)
theory Sweep_Plan
  imports Sweep_Commands
begin

text \<open>
  \<open>tools/benchmark_sweep_lib/commands.py\<close>, second half: the metadata of a scenario capture and
  the two planners, \<open>default_sweep_command_entries\<close> for a sweep described by options and
  \<open>scenario_sweep_command_entries\<close> for catalog items, and their composition with the device
  visibility.

  A nested loop that appends to \<open>commands\<close> is a nested \<open>rmapM\<close> whose lists are concatenated, in the
  order of the loops.
\<close>

section \<open>Scenario metadata\<close>

definition opt_int_value :: "int option \<Rightarrow> pyval" where
  "opt_int_value v = (case v of None \<Rightarrow> PNone | Some n \<Rightarrow> PInt n)"

definition opt_str_value :: "string option \<Rightarrow> pyval" where
  "opt_str_value v = (case v of None \<Rightarrow> PNone | Some s \<Rightarrow> PStr s)"

definition scenario_metadata ::
  "scenario_item \<Rightarrow> string \<Rightarrow> int option \<Rightarrow> int option \<Rightarrow> sweep_args \<Rightarrow> bool \<Rightarrow> pydict" where
  "scenario_metadata item backend modulus exact_wide_limb_count scenario_args oneshot =
     (let case0 = si_case item in
     [(''family'', PStr (si_family item)),
      (''name'', PStr (si_name item)),
      (''semantics'', PStr (si_semantics item)),
      (''backend'', PStr backend),
      (''modulus'', opt_int_value modulus),
      (''exact_wide_limb_count'', opt_int_value exact_wide_limb_count),
      (''shape'', PDict [(''m'', PInt (cs_m case0)), (''n'', PInt (cs_n case0)), (''k'', PInt (cs_k case0))]),
      (''tile'', PDict [(''m'', PInt (cs_tile_m case0)), (''n'', PInt (cs_tile_n case0))]),
      (''bound_mode'', PStr (cs_bound_mode case0)),
      (''input_profile'', PStr (cs_input_profile case0)),
      (''pack_mode'', PStr (requested_pack_mode scenario_args)),
      (''reuse_packed_inputs'', PBool (requested_pack_mode scenario_args \<noteq> ''per_repeat_repack'')),
      (''residue_chain_length'', PInt (si_residue_chain_length item)),
      (''residue_chain_final_export'', PBool (si_residue_chain_final_export item)),
      (''residue_chain_independent_final_export'',
         PBool (si_residue_chain_independent_final_export item)),
      (''output_ld_padding'', PInt (si_output_ld_padding item)),
      (''host_api_batch_size'', PInt (si_host_api_batch_size item)),
      (''native_to_rns_bridge'', PBool (si_native_to_rns_bridge item)),
      (''vector_to_rns_chain'', PBool (si_vector_to_rns_chain item)),
      (''vector_to_rns_chain_host_repack_control'',
         PBool (si_vector_to_rns_chain_host_repack_control item)),
      (''transient_uniform_small_inputs'',
         PBool (si_transient_uniform_small_inputs item \<and> backend = ''hip-direct'')),
      (''sparse_a_4_to_2'', PBool (si_sparse_a_4_to_2 item)),
      (''sparse_a_4_to_2_dense_baseline'', PBool (si_sparse_a_4_to_2_dense_baseline item)),
      (''next_op_hint'', opt_str_value (si_next_op_hint item)),
      (''residue_channel_fusion'', PBool (si_residue_channel_fusion item)),
      (''modulus_set'', PStr (si_modulus_set item)),
      (''tile_shape_variant'', PStr (si_tile_shape_variant item)),
      (''export_variant'', PStr (si_export_variant item)),
      (''reconstruction_variant'', PStr (si_reconstruction_variant item)),
      (''grouped_dispatch_tasks'', PInt (si_grouped_dispatch_tasks item)),
      (''hip_graph_replay'', PBool (si_hip_graph_replay item)),
      (''workload_proxy'', PStr (si_workload_proxy item)),
      (''resident_lifetime'', PBool (si_resident_lifetime item)),
      (''workspace_arena'', PBool (si_workspace_arena item)),
      (''adaptive_grouped_scheduler'', PBool (si_adaptive_grouped_scheduler item)),
      (''streaming_overlap'', PBool (si_streaming_overlap item)),
      (''k_block_policy'', PStr (si_k_block_policy item)),
      (''resident_redesign_candidate'', PStr (si_resident_redesign_candidate item)),
      (''resident_redesign_dimensions'', PList (map PStr (si_resident_redesign_dimensions item))),
      (''release_gate'', PStr (si_release_gate item)),
      (''verification_amortization'', PStr (si_verification_amortization item)),
      (''error_detection_policy'', PStr (si_error_detection_policy item)),
      (''cpu_small_shape_selector'', PStr (si_cpu_small_shape_selector item)),
      (''incremental_result_cache'', PStr (si_incremental_result_cache item)),
      (''cpu_reference_mode'', PStr (sa_cpu_reference_mode scenario_args)),
      (''cpu_threads'', PInt (sa_cpu_threads scenario_args)),
      (''cpu_parallel_threshold'', PInt (sa_cpu_parallel_threshold scenario_args)),
      (''progress'', PBool (sa_progress scenario_args)),
      (''oneshot'', PBool oneshot),
      (''evidence_scope'', PStr (si_evidence_scope item)),
      (''output_domain'', PStr (si_output_domain item)),
      (''rationale'', PStr (si_rationale item)),
      (''review_mode_expectation'', PStr (si_review_mode_expectation item)),
      (''promotion_eligibility'', PStr (si_promotion_eligibility item))] @
     (case si_metadata item of None \<Rightarrow> [] | Some d \<Rightarrow> if d = [] then [] else [(''metadata'', PDict d)]))"

section \<open>The checks of the option planner\<close>

definition exit_if :: "bool \<Rightarrow> string \<Rightarrow> unit res" where
  "exit_if c t = check c (SystemExit t)"

text \<open>\<open>any\<close>/\<open>all\<close> over the requested semantics.\<close>

definition all_sem :: "string list \<Rightarrow> string list \<Rightarrow> bool" where
  "all_sem semantics_values allowed \<longleftrightarrow> list_all (\<lambda>s. s \<in> set allowed) semantics_values"

definition check_host_batch :: "sweep_args \<Rightarrow> unit res" where
  "check_host_batch args =
     rthen (exit_if (sa_host_api_batch_size args < 0) ''--host-api-batch-size must be positive'')
     (exit_if (1 < sa_host_api_batch_size args \<and>
         (sa_include_oneshot args \<or> sa_oneshot_only args \<or> sa_reuse_packed_inputs args \<or>
          sa_reuse_packed_a args \<or> sa_reuse_packed_b args \<or> sa_native_to_rns_bridge args \<or>
          sa_vector_to_rns_chain args \<or> sa_residue_channel_fusion args \<or>
          sa_residue_chain_independent_final_export args \<or>
          sa_residue_chain_length args \<notin> {0, 1} \<or> sa_bound_source args = Some ''input-scan''))
       (''--host-api-batch-size > 1 cannot be combined with one-shot, reuse, bridge, chain, '' @
        ''residue-fusion, residue-chain, or input-scan modes''))"

text \<open>\<open>args.backends = [...]\<close> under host batching.\<close>

definition batch_filter :: "sweep_args \<Rightarrow> sweep_args" where
  "batch_filter args =
     (if 1 < sa_host_api_batch_size args \<and> sa_backends args \<noteq> []
      then args\<lparr>sa_backends := filter (\<lambda>b. b \<in> set HOST_API_BATCH_BACKENDS) (sa_backends args)\<rparr>
      else args)"

definition requested_semantics :: "sweep_args \<Rightarrow> string list" where
  "requested_semantics args =
     (let given0 = map normalize_semantics
            (if sa_semantics args \<noteq> [] then sa_semantics args else [''bounded-i64'', ''bounded-u64'']);
          wrap = (if (sa_include_wrap64 args \<or> sa_include_wrap64_rocwmma_candidate args) \<and>
                     ''wrap-u64'' \<notin> set given0
                  then given0 @ [''wrap-u64''] else given0)
      in if sa_include_exact_wide args
         then fold (\<lambda>s acc. if s \<in> set acc then acc else acc @ [s]) EXACT_WIDE_SEMANTICS wrap
         else wrap)"

definition check_prefix_bounds :: "sweep_args \<Rightarrow> string list \<Rightarrow> unit res" where
  "check_prefix_bounds args semantics_values =
     rthen (exit_if ((given (sa_prefix_policy args) \<or> sa_max_prefix args \<noteq> None) \<and>
         \<not> all_sem semantics_values RNS_CHAIN_SEMANTICS)
       ''--prefix-policy and --max-prefix are only valid for bounded or exact-wide RNS sweeps'')
     (rthen (exit_if (sa_bound_source args = Some ''input-scan'' \<and>
         \<not> all_sem semantics_values BOUNDED_SEMANTICS)
       ''--bound-source input-scan is only valid for bounded RNS sweeps'')
     (rthen (exit_if (case sa_max_prefix args of None \<Rightarrow> False | Some p \<Rightarrow> p \<le> 0)
       ''--max-prefix must be positive'')
     (exit_if (sa_output_ld_padding args < 0) ''--output-ld-padding must be nonnegative'')))"

definition check_fusion :: "sweep_args \<Rightarrow> string list \<Rightarrow> unit res" where
  "check_fusion args semantics_values =
     (if \<not> sa_residue_channel_fusion args then Inr () else
      rthen (exit_if (requested_pack_mode args \<noteq> ''per_repeat_repack'')
        ''--residue-channel-fusion cannot be combined with packed-input reuse'')
     (rthen (exit_if (sa_prefix_policy args \<noteq> Some ''fixed-requested'' \<or>
         sa_max_prefix args \<notin> {Some 9, None})
        ''--residue-channel-fusion requires --prefix-policy fixed-requested and --max-prefix 9'')
     (exit_if (\<not> all_sem semantics_values BOUNDED_SEMANTICS)
        ''--residue-channel-fusion is only valid for bounded semantics'')))"

text \<open>The four graph-replay modes.\<close>

definition single_export_graph :: "sweep_args \<Rightarrow> string list \<Rightarrow> string list \<Rightarrow> bool" where
  "single_export_graph args semantics_values allowed \<longleftrightarrow>
     sa_residue_chain_length args = 1 \<and> requested_pack_mode args = ''per_repeat_repack'' \<and>
     sa_next_op_hint args \<noteq> Some ''rns-gemm'' \<and> all_sem semantics_values allowed"

definition resident_chain_graph :: "sweep_args \<Rightarrow> string list \<Rightarrow> bool" where
  "resident_chain_graph args semantics_values \<longleftrightarrow>
     1 < sa_residue_chain_length args \<and> requested_pack_mode args = ''prepacked_reuse'' \<and>
     sa_next_op_hint args = Some ''rns-gemm'' \<and> all_sem semantics_values RNS_CHAIN_SEMANTICS"

definition check_graph :: "sweep_args \<Rightarrow> string list \<Rightarrow> unit res" where
  "check_graph args semantics_values =
     (if \<not> sa_hip_graph_replay args then Inr () else
      rthen (exit_if (sa_residue_chain_final_export args \<or> sa_residue_chain_independent_final_export args)
        ''--hip-graph-replay cannot be combined with residue-chain final-export modes'')
     (rthen (exit_if (\<not> single_export_graph args semantics_values BOUNDED_SEMANTICS \<and>
         \<not> single_export_graph args semantics_values FINITE_SEMANTICS \<and>
         \<not> single_export_graph args semantics_values [''wrap-u64''] \<and>
         \<not> resident_chain_graph args semantics_values)
        (''--hip-graph-replay requires either bounded/finite/wrap64 single-GEMM host-output no-reuse mode or '' @
         ''--reuse-packed-inputs --residue-chain-length > 1 --next-op-hint rns-gemm''))
     (rthen (exit_if (1 < sa_host_api_batch_size args \<or> sa_include_oneshot args \<or> sa_oneshot_only args)
        ''--hip-graph-replay cannot be combined with host batching or one-shot sweeps'')
     (rthen (exit_if (sa_native_to_rns_bridge args \<or> sa_vector_to_rns_chain args)
        ''--hip-graph-replay cannot be combined with bridge or vector-to-RNS chain sweeps'')
     (rthen (exit_if (sa_residue_channel_fusion args)
        ''--hip-graph-replay cannot be combined with residue-channel fusion'')
     (exit_if (sa_bound_source args = Some ''input-scan'')
        ''--hip-graph-replay currently requires static-profile bounds''))))))"

definition check_chain :: "sweep_args \<Rightarrow> string list \<Rightarrow> unit res" where
  "check_chain args semantics_values =
     rthen (exit_if (sa_residue_chain_length args < 1) ''--residue-chain-length must be positive'')
     (rthen (exit_if (sa_residue_chain_independent_final_export args \<and> sa_residue_chain_length args \<le> 1)
       ''--residue-chain-independent-final-export requires --residue-chain-length > 1'')
     (rthen (exit_if (sa_residue_chain_final_export args \<and> sa_residue_chain_length args \<le> 1)
       ''--residue-chain-final-export requires --residue-chain-length > 1'')
     (rthen (exit_if ((sa_residue_chain_final_export args \<or>
           sa_residue_chain_independent_final_export args) \<and> sa_next_op_hint args = Some ''rns-gemm'')
       ''residue-chain final-export modes cannot use --next-op-hint rns-gemm'')
     (rthen (exit_if (1 < sa_residue_chain_length args \<and> \<not> all_sem semantics_values RNS_CHAIN_SEMANTICS)
       ''--residue-chain-length > 1 currently requires bounded or exact-wide RNS semantics'')
     (if \<not> sa_residue_chain_independent_final_export args then Inr () else
      rthen (exit_if (\<not> all_sem semantics_values (BOUNDED_SEMANTICS @ EXACT_WIDE_SEMANTICS))
       ''--residue-chain-independent-final-export supports bounded or exact-wide RNS semantics only'')
     (rthen (exit_if (requested_pack_mode args \<noteq> ''per_repeat_repack'')
       ''--residue-chain-independent-final-export cannot be combined with packed-input reuse'')
     (exit_if (sa_include_oneshot args \<or> sa_oneshot_only args \<or> sa_native_to_rns_bridge args \<or>
         sa_vector_to_rns_chain args \<or> sa_residue_channel_fusion args \<or> 1 < sa_host_api_batch_size args)
       (''--residue-chain-independent-final-export cannot be combined with one-shot, bridge, '' @
        ''vector-to-RNS chain, residue-fusion, or host batching''))))))))"

definition check_oneshot :: "sweep_args \<Rightarrow> unit res" where
  "check_oneshot args =
     (if \<not> (sa_include_oneshot args \<or> sa_oneshot_only args) then Inr () else
      rthen (exit_if (sa_adaptive_only args) ''--include-oneshot cannot be combined with --adaptive-only'')
     (rthen (exit_if (requested_pack_mode args \<noteq> ''per_repeat_repack'')
        ''--include-oneshot cannot be combined with packed-input reuse modes'')
     (exit_if (1 < sa_residue_chain_length args)
        ''--include-oneshot cannot be combined with --residue-chain-length > 1'')))"

section \<open>The option planner\<close>

definition args_modes :: "sweep_args \<Rightarrow> bool \<Rightarrow> name_modes" where
  "args_modes args oneshot =
     \<lparr>nm_residue_chain_length = sa_residue_chain_length args,
      nm_residue_chain_final_export = sa_residue_chain_final_export args,
      nm_output_ld_padding = sa_output_ld_padding args,
      nm_host_api_batch_size = sa_host_api_batch_size args,
      nm_hip_graph_replay = sa_hip_graph_replay args,
      nm_oneshot = oneshot,
      nm_transient_uniform_small_inputs = False,
      nm_residue_chain_independent_final_export =
        (if oneshot then False else sa_residue_chain_independent_final_export args),
      nm_sparse_a_4_to_2 = False,
      nm_sparse_a_4_to_2_dense_baseline = False\<rparr>"

definition bench_for :: "(string \<times> path) list \<Rightarrow> path option \<Rightarrow> string \<Rightarrow> path res" where
  "bench_for backend_benches bench backend =
     (case (case map_of backend_benches backend of Some p \<Rightarrow> Some p | None \<Rightarrow> bench) of
        None \<Rightarrow> Inl (SystemExit (''no benchmark executable configured for backend '' @ backend))
      | Some p \<Rightarrow> Inr p)"

definition plan_capture ::
  "(string \<times> path) list \<Rightarrow> sweep_args \<Rightarrow> string \<Rightarrow> sweep_case \<Rightarrow> int option \<Rightarrow> int option \<Rightarrow> bool \<Rightarrow>
   string \<Rightarrow> sweep_command res" where
  "plan_capture backend_benches args semantics case0 modulus exact_wide_limb_count oneshot backend =
     rbind (bench_for backend_benches (sa_bench args) backend) (\<lambda>bench.
     let name = capture_name semantics case0 backend modulus (requested_pack_mode args)
           exact_wide_limb_count (args_modes args oneshot)
     in Inr \<lparr>cmd_name = name,
             cmd_command = command_for bench backend semantics case0 modulus exact_wide_limb_count
               args oneshot,
             cmd_output = path_join (sa_out_root args) name, cmd_scenario = None, cmd_env = None\<rparr>)"

definition skipped_backend :: "sweep_args \<Rightarrow> string \<Rightarrow> string \<Rightarrow> bool" where
  "skipped_backend args semantics backend \<longleftrightarrow>
     1 < sa_residue_chain_length args \<and> semantics \<in> set BOUNDED_SEMANTICS \<and>
     backend \<in> {''auto'', ''hip-vector-alu-int64''}"

definition case_backends :: "sweep_args \<Rightarrow> string \<Rightarrow> sweep_case \<Rightarrow> string list" where
  "case_backends args semantics case0 =
     (let backends = (if sa_backends args \<noteq> [] then sa_backends args
            else if semantics = ''wrap-u64'' then wrap64_backends_for args
            else default_backends_for semantics case0);
          batched = (if 1 < sa_host_api_batch_size args
            then filter (\<lambda>b. b \<in> set HOST_API_BATCH_BACKENDS) backends else backends);
          fused = (if sa_residue_channel_fusion args
            then filter (\<lambda>b. b = ''hip-direct'') batched else batched)
      in if sa_hip_graph_replay args then filter (\<lambda>b. b = ''hip-direct'') fused else fused)"

definition oneshot_backends :: "sweep_args \<Rightarrow> string list" where
  "oneshot_backends args =
     filter (\<lambda>b. b \<in> set PUBLIC_ONESHOT_BACKENDS)
       (if sa_backends args \<noteq> [] then sa_backends args else PUBLIC_ONESHOT_BACKENDS)"

definition oneshot_semantics :: "string \<Rightarrow> sweep_case \<Rightarrow> bool" where
  "oneshot_semantics semantics case0 \<longleftrightarrow>
     (semantics \<in> set BOUNDED_SEMANTICS \<and> cs_bound_mode case0 = ''global'') \<or>
     semantics \<in> {''finite-u8-ring'', ''finite-u8-field''}"

text \<open>The innermost loops: the persistent captures and then the one-shot ones.\<close>

definition plan_point ::
  "(string \<times> path) list \<Rightarrow> sweep_args \<Rightarrow> string \<Rightarrow> sweep_case \<Rightarrow> int option \<Rightarrow> int option \<Rightarrow>
   sweep_command list res" where
  "plan_point backend_benches args semantics case0 modulus exact_wide_limb_count =
     rbind (if sa_oneshot_only args then Inr []
            else rmapM (plan_capture backend_benches args semantics case0 modulus exact_wide_limb_count False)
              (filter (\<lambda>b. backend_allowed_for semantics case0 b \<and> \<not> skipped_backend args semantics b)
                (case_backends args semantics case0))) (\<lambda>persistent.
     rbind (if (sa_include_oneshot args \<or> sa_oneshot_only args) \<and> oneshot_semantics semantics case0
            then rmapM (plan_capture backend_benches args semantics case0 modulus exact_wide_limb_count True)
              (oneshot_backends args)
            else Inr []) (\<lambda>oneshots.
     Inr (persistent @ oneshots)))"

definition plan_case ::
  "(string \<times> path) list \<Rightarrow> sweep_args \<Rightarrow> string \<Rightarrow> sweep_case \<Rightarrow> sweep_command list res" where
  "plan_case backend_benches args semantics case0 =
     rthen (exit_if (1 < sa_residue_chain_length args \<and>
         (cs_m case0 \<noteq> cs_n case0 \<or> cs_n case0 \<noteq> cs_k case0))
       ''--residue-chain-length > 1 currently requires square RNS cases'')
     (rthen (exit_if (1 < sa_residue_chain_length args \<and> semantics \<in> set BOUNDED_SEMANTICS \<and>
         cs_bound_mode case0 \<noteq> ''global'')
       ''bounded --residue-chain-length > 1 currently requires global bound mode'')
     (rbind (rmapM (\<lambda>modulus.
         rbind (exact_wide_limb_counts_for semantics args) (\<lambda>counts.
         rbind (rmapM (plan_point backend_benches args semantics case0 modulus) counts) (\<lambda>xs.
         Inr (concat xs)))) (finite_moduli_for semantics args)) (\<lambda>xs.
     Inr (concat xs))))"

definition plan_semantics ::
  "(string \<times> path) list \<Rightarrow> sweep_args \<Rightarrow> sweep_case list \<Rightarrow> string \<Rightarrow> sweep_command list res" where
  "plan_semantics backend_benches args cases semantics =
     (if semantics = ''wrap-u64'' \<and> sa_adaptive_only args then Inr []
      else rbind (if semantics = ''wrap-u64'' then wrap64_cases args else Inr cases) (\<lambda>active_cases.
       rbind (rmapM (plan_case backend_benches args semantics) active_cases) (\<lambda>xs.
       Inr (concat xs))))"

definition default_sweep_command_entries :: "sweep_args \<Rightarrow> sweep_command list res" where
  "default_sweep_command_entries args0 =
     rbind (parse_backend_bench (sa_bench_for args0)) (\<lambda>backend_benches.
     rthen (check_host_batch args0)
     (let args = batch_filter args0 in
     rbind (if sa_adaptive_only args then Inr [] else default_cases args) (\<lambda>global_cases.
     rbind (adaptive_cases args) (\<lambda>adaptive.
     let cases = global_cases @ adaptive; semantics_values = requested_semantics args in
     rthen (exit_if (sa_adaptive_only args \<and> cases = [])
       ''--adaptive-only requires --adaptive-case, --include-default-adaptive, or --include-adaptive-workloads'')
     (rthen (check_prefix_bounds args semantics_values)
     (rthen (check_fusion args semantics_values)
     (rthen (check_graph args semantics_values)
     (rthen (check_chain args semantics_values)
     (rthen (check_oneshot args)
     (rbind (rmapM (plan_semantics backend_benches args cases) semantics_values) (\<lambda>xs.
     Inr (concat xs))))))))))))"

section \<open>The scenario planner\<close>

text \<open>The manual flags that \<open>--scenario\<close> excludes.\<close>

definition manual_flags :: "sweep_args \<Rightarrow> bool" where
  "manual_flags args \<longleftrightarrow>
     sa_case args \<noteq> [] \<or> sa_adaptive_case args \<noteq> [] \<or> sa_shapes args \<noteq> [] \<or>
     sa_include_default_adaptive args \<or> sa_include_adaptive_workloads args \<or> sa_adaptive_only args \<or>
     sa_include_wrap64 args \<or> sa_include_exact_wide args \<or> sa_include_oneshot args \<or>
     sa_oneshot_only args \<or> sa_reuse_packed_inputs args \<or> sa_reuse_packed_a args \<or>
     sa_reuse_packed_b args \<or> sa_release_matrix args \<or> sa_include_exploratory_large args \<or>
     given (sa_prefix_policy args) \<or> sa_max_prefix args \<noteq> None \<or> given (sa_bound_source args) \<or>
     given (sa_next_op_hint args) \<or> sa_residue_channel_fusion args \<or>
     sa_modulus_set args \<noteq> ''default'' \<or> sa_tile_shape_variant args \<noteq> ''default'' \<or>
     sa_export_variant args \<noteq> ''default'' \<or> sa_reconstruction_variant args \<noteq> ''default_garner'' \<or>
     sa_grouped_dispatch_tasks args \<notin> {0, 1} \<or> sa_hip_graph_replay args \<or>
     sa_residue_chain_final_export args \<or> sa_residue_chain_independent_final_export args \<or>
     sa_workload_proxy args \<noteq> ''none'' \<or> sa_resident_lifetime args \<or> sa_workspace_arena args \<or>
     sa_adaptive_grouped_scheduler args \<or> sa_streaming_overlap args \<or>
     sa_k_block_policy args \<noteq> ''auto'' \<or> sa_release_gate args \<noteq> ''none'' \<or>
     sa_verification_amortization args \<noteq> ''none'' \<or> sa_error_detection_policy args \<noteq> ''none'' \<or>
     sa_cpu_small_shape_selector args \<noteq> ''none'' \<or> sa_incremental_result_cache args \<noteq> ''none'' \<or>
     sa_output_ld_padding args \<noteq> 0 \<or> sa_residue_chain_length args \<notin> {0, 1} \<or>
     sa_host_api_batch_size args \<notin> {0, 1}"

definition item_modes :: "scenario_item \<Rightarrow> string \<Rightarrow> name_modes" where
  "item_modes item backend =
     \<lparr>nm_residue_chain_length = si_residue_chain_length item,
      nm_residue_chain_final_export = si_residue_chain_final_export item,
      nm_output_ld_padding = si_output_ld_padding item,
      nm_host_api_batch_size = si_host_api_batch_size item,
      nm_hip_graph_replay = si_hip_graph_replay item,
      nm_oneshot = si_oneshot item,
      nm_transient_uniform_small_inputs =
        (si_transient_uniform_small_inputs item \<and> backend = ''hip-direct''),
      nm_residue_chain_independent_final_export = si_residue_chain_independent_final_export item,
      nm_sparse_a_4_to_2 = si_sparse_a_4_to_2 item,
      nm_sparse_a_4_to_2_dense_baseline = si_sparse_a_4_to_2_dense_baseline item\<rparr>"

definition item_bench ::
  "(string \<times> path) list \<Rightarrow> path option \<Rightarrow> scenario_item \<Rightarrow> string \<Rightarrow> path res" where
  "item_bench backend_benches bench item backend =
     (let b0 = map_of backend_benches backend;
          b1 = (if b0 = None \<and> (si_native_to_rns_bridge item \<or> si_vector_to_rns_chain item) \<and>
                   backend = ''auto'' then map_of backend_benches ''hip-direct'' else b0);
          b2 = (if b1 = None then bench else b1)
      in case b2 of
           None \<Rightarrow> Inl (SystemExit (''no benchmark executable configured for backend '' @ backend))
         | Some p \<Rightarrow> Inr p)"

definition plan_item_capture ::
  "(string \<times> path) list \<Rightarrow> sweep_args \<Rightarrow> scenario_item \<Rightarrow> int option \<Rightarrow> int option \<Rightarrow> string \<Rightarrow>
   sweep_command res" where
  "plan_item_capture backend_benches args item modulus exact_wide_limb_count backend =
     (let scenario_args = scenario_args_for_item args item in
     rbind (item_bench backend_benches (sa_bench args) item backend) (\<lambda>bench.
     let name = si_family item @ ''-'' @ si_name item @ ''-'' @
           capture_name (si_semantics item) (si_case item) backend modulus
             (requested_pack_mode scenario_args) exact_wide_limb_count (item_modes item backend)
     in Inr \<lparr>cmd_name = name,
             cmd_command = command_for bench backend (si_semantics item) (si_case item) modulus
               exact_wide_limb_count scenario_args (si_oneshot item),
             cmd_output = path_join (path_join (path_join (sa_out_root args) ''scenarios'')
               (si_family item)) name,
             cmd_scenario = Some (scenario_metadata item backend modulus exact_wide_limb_count
               scenario_args (si_oneshot item)),
             cmd_env = None\<rparr>))"

definition bridged :: "scenario_item \<Rightarrow> bool" where
  "bridged item \<longleftrightarrow> si_native_to_rns_bridge item \<or> si_vector_to_rns_chain item"

text \<open>
  One backend value: a value that is no string is not allowed for any semantics and skipped,
  except in the bridge modes, where joining the capture name raises \<open>TypeError\<close> once a benchmark
  is configured.
\<close>

definition plan_item_backend ::
  "(string \<times> path) list \<Rightarrow> sweep_args \<Rightarrow> scenario_item \<Rightarrow> int option \<Rightarrow> int option \<Rightarrow> pyval \<Rightarrow>
   sweep_command list res" where
  "plan_item_backend backend_benches args item modulus exact_wide_limb_count v =
     (case v of
        PStr backend \<Rightarrow>
          if \<not> bridged item \<and> \<not> backend_allowed_for (si_semantics item) (si_case item) backend then Inr []
          else if 1 < si_residue_chain_length item \<and> si_semantics item \<in> set BOUNDED_SEMANTICS \<and>
              backend \<in> {''auto'', ''hip-vector-alu-int64''} then Inr []
          else rbind (plan_item_capture backend_benches args item modulus exact_wide_limb_count backend)
            (\<lambda>c. Inr [c])
      | _ \<Rightarrow>
          if \<not> bridged item then Inr []
          else if sa_bench args = None
          then Inl (SystemExit (''no benchmark executable configured for backend '' @ py_str v))
          else Inl TypeError)"

definition plan_item ::
  "(string \<times> path) list \<Rightarrow> sweep_args \<Rightarrow> scenario_item \<Rightarrow> sweep_command list res" where
  "plan_item backend_benches args item =
     rbind (scenario_backends_for_item args item) (\<lambda>backends.
     if backends = [] then Inr [] else
     let finite_moduli = (if sa_modulus args \<noteq> [] then finite_moduli_for (si_semantics item) args
            else si_finite_moduli item) in
     rbind (if sa_exact_wide_limbs args \<noteq> [] then exact_wide_limb_counts_for (si_semantics item) args
            else Inr (si_exact_wide_limb_counts item)) (\<lambda>counts.
     rbind (rmapM (\<lambda>(modulus, count). rbind
         (rmapM (plan_item_backend backend_benches args item modulus count) backends) (\<lambda>xs.
         Inr (concat xs)))
       (List.product finite_moduli counts)) (\<lambda>xs.
     Inr (concat xs))))"

definition scenario_sweep_command_entries ::
  "(string \<times> scenario_item list) list res \<Rightarrow> sweep_args \<Rightarrow> sweep_command list res" where
  "scenario_sweep_command_entries catalog_run args =
     rthen (exit_if (manual_flags args)
       ''--scenario cannot be combined with manual sweep shape/reuse/include flags'')
     (rbind (parse_backend_bench (sa_bench_for args)) (\<lambda>backend_benches.
     let semantics_filter = map normalize_semantics (sa_semantics args) in
     rbind (selected_scenario_items catalog_run args) (\<lambda>items.
     rbind (rmapM (plan_item backend_benches args)
       (filter (\<lambda>item. semantics_filter = [] \<or> si_semantics item \<in> set semantics_filter) items))
       (\<lambda>xs. Inr (concat xs)))))"

definition sweep_command_entries ::
  "(string \<times> scenario_item list) list res \<Rightarrow> sweep_args \<Rightarrow> sweep_command list res" where
  "sweep_command_entries catalog_run args =
     rbind (if sa_scenario args \<noteq> [] then scenario_sweep_command_entries catalog_run args
            else default_sweep_command_entries args) (\<lambda>entries.
     Inr (apply_visibility_environment args entries))"

definition sweep_commands ::
  "(string \<times> scenario_item list) list res \<Rightarrow> sweep_args \<Rightarrow> (string \<times> string list \<times> path) list res" where
  "sweep_commands catalog_run args =
     rbind (sweep_command_entries catalog_run args) (\<lambda>entries.
     Inr (map (\<lambda>entry. (cmd_name entry, cmd_command entry, cmd_output entry)) entries))"

section \<open>What the option planner plans\<close>

lemma plan_capture_fields:
  assumes "plan_capture benches args semantics case0 m l oneshot b = Inr entry"
  obtains bench where "cmd_command entry = command_for bench b semantics case0 m l args oneshot"
    "cmd_output entry = path_join (sa_out_root args) (capture_name semantics case0 b m
       (requested_pack_mode args) l (args_modes args oneshot))"
  using assms by (auto simp: plan_capture_def rbind_eq_Inr Let_def)

definition planned_by ::
  "sweep_args \<Rightarrow> string \<Rightarrow> sweep_case \<Rightarrow> int option \<Rightarrow> int option \<Rightarrow> bool \<Rightarrow> string \<Rightarrow> bool" where
  "planned_by args semantics case0 m l oneshot b \<longleftrightarrow>
     (if oneshot then b \<in> set PUBLIC_ONESHOT_BACKENDS \<and> oneshot_semantics semantics case0
      else backend_allowed_for semantics case0 b)"

lemma plan_point_entry:
  assumes "plan_point benches args semantics case0 m l = Inr entries" "entry \<in> set entries"
  obtains b oneshot where "plan_capture benches args semantics case0 m l oneshot b = Inr entry"
    "planned_by args semantics case0 m l oneshot b"
proof -
  from assms(1) obtain ps os where
      ps: "(if sa_oneshot_only args then Inr []
            else rmapM (plan_capture benches args semantics case0 m l False)
              (filter (\<lambda>b. backend_allowed_for semantics case0 b \<and> \<not> skipped_backend args semantics b)
                (case_backends args semantics case0))) = Inr ps" and
      os: "(if (sa_include_oneshot args \<or> sa_oneshot_only args) \<and> oneshot_semantics semantics case0
            then rmapM (plan_capture benches args semantics case0 m l True) (oneshot_backends args)
            else Inr []) = Inr os" and "entries = ps @ os"
    unfolding plan_point_def rbind_eq_Inr by auto
  with assms(2) consider "entry \<in> set ps" | "entry \<in> set os" by auto
  then show ?thesis
  proof cases
    case 1
    with ps show ?thesis by (force dest: rmapM_set simp: planned_by_def split: if_splits intro: that)
  next
    case 2
    with os show ?thesis
      by (force dest: rmapM_set simp: planned_by_def oneshot_backends_def split: if_splits intro: that)
  qed
qed

lemma plan_case_chain:
  assumes "plan_case benches args semantics case0 = Inr entries" "1 < sa_residue_chain_length args"
  shows "cs_m case0 = cs_n case0 \<and> cs_n case0 = cs_k case0"
  using assms by (auto simp: plan_case_def exit_if_def rthen_eq_Inr check_eq_Inr)

lemma plan_case_entry:
  assumes "plan_case benches args semantics case0 = Inr entries" "entry \<in> set entries"
  obtains m l b oneshot where "plan_capture benches args semantics case0 m l oneshot b = Inr entry"
    "planned_by args semantics case0 m l oneshot b"
proof -
  from assms(1) have "rbind (rmapM (\<lambda>modulus.
         rbind (exact_wide_limb_counts_for semantics args) (\<lambda>counts.
         rbind (rmapM (plan_point benches args semantics case0 modulus) counts) (\<lambda>xs.
         Inr (concat xs)))) (finite_moduli_for semantics args)) (\<lambda>xs. Inr (concat xs)) = Inr entries"
    unfolding plan_case_def rthen_eq_Inr by blast
  from rmapM_concat_entry [OF this assms(2)] obtain m ys where "entry \<in> set ys"
      "rbind (exact_wide_limb_counts_for semantics args) (\<lambda>counts.
         rbind (rmapM (plan_point benches args semantics case0 m) counts) (\<lambda>xs. Inr (concat xs))) = Inr ys"
    by blast
  then obtain counts where
      "rbind (rmapM (plan_point benches args semantics case0 m) counts) (\<lambda>xs. Inr (concat xs)) = Inr ys"
    unfolding rbind_eq_Inr [of "exact_wide_limb_counts_for semantics args"] by blast
  from rmapM_concat_entry [OF this \<open>entry \<in> set ys\<close>] show ?thesis
    by (metis plan_point_entry that)
qed

lemma default_entries_semantics:
  assumes "default_sweep_command_entries args = Inr entries"
  shows "\<exists>benches cases u. check_chain (batch_filter args) (requested_semantics (batch_filter args)) = Inr u \<and>
    rbind (rmapM (plan_semantics benches (batch_filter args) cases)
       (requested_semantics (batch_filter args))) (\<lambda>xs. Inr (concat xs)) = Inr entries"
  using assms unfolding default_sweep_command_entries_def Let_def rbind_eq_Inr rthen_eq_Inr
  by (elim exE conjE) blast

lemma batch_filter_fields [simp]:
  "sa_residue_chain_length (batch_filter args) = sa_residue_chain_length args"
  "sa_out_root (batch_filter args) = sa_out_root args"
  "requested_semantics (batch_filter args) = requested_semantics args"
  "requested_pack_mode (batch_filter args) = requested_pack_mode args"
  "args_modes (batch_filter args) oneshot = args_modes args oneshot"
  by (simp_all add: batch_filter_def requested_semantics_def requested_pack_mode_def args_modes_def)

lemma plan_semantics_entry:
  assumes "plan_semantics benches args cases semantics = Inr entries" "entry \<in> set entries"
  obtains case0 entries' where "plan_case benches args semantics case0 = Inr entries'" "entry \<in> set entries'"
proof -
  from assms obtain active where
      "rbind (rmapM (plan_case benches args semantics) active) (\<lambda>xs. Inr (concat xs)) = Inr entries"
    unfolding plan_semantics_def
    by (cases "semantics = ''wrap-u64'' \<and> sa_adaptive_only args") (auto simp: rbind_eq_Inr [of "if _ then _ else _"])
  from rmapM_concat_entry [OF this assms(2)] show ?thesis by (metis that)
qed

lemma check_chain_semantics:
  assumes "check_chain args semantics_values = Inr u" "1 < sa_residue_chain_length args"
    "semantics \<in> set semantics_values"
  shows "semantics \<in> set RNS_CHAIN_SEMANTICS"
proof -
  from assms(1) have "all_sem semantics_values RNS_CHAIN_SEMANTICS \<or> \<not> 1 < sa_residue_chain_length args"
    unfolding check_chain_def rthen_eq_Inr exit_if_def check_eq_Inr by blast
  with assms(2,3) show ?thesis by (auto simp: all_sem_def list_all_iff)
qed


section \<open>Captures of one case have files of their own\<close>

definition point_keys :: "sweep_args \<Rightarrow> string \<Rightarrow> sweep_case \<Rightarrow> (bool \<times> string) list" where
  "point_keys args semantics case0 =
     (if sa_oneshot_only args then []
      else map (Pair False) (filter (\<lambda>b. backend_allowed_for semantics case0 b \<and>
        \<not> skipped_backend args semantics b) (case_backends args semantics case0))) @
     (if (sa_include_oneshot args \<or> sa_oneshot_only args) \<and> oneshot_semantics semantics case0
      then map (Pair True) (oneshot_backends args) else [])"

definition point_output ::
  "sweep_args \<Rightarrow> string \<Rightarrow> sweep_case \<Rightarrow> int option \<Rightarrow> int option \<Rightarrow> bool \<times> string \<Rightarrow> path" where
  "point_output args semantics case0 m l key =
     path_join (sa_out_root args) (capture_name semantics case0 (snd key) m
       (requested_pack_mode args) l (args_modes args (fst key)))"

lemma rmapM_outputs:
  assumes "rmapM (plan_capture benches args semantics case0 m l oneshot) bs = Inr es"
  shows "map cmd_output es = map (point_output args semantics case0 m l) (map (Pair oneshot) bs)"
proof -
  have "list_all2 (\<lambda>b e. plan_capture benches args semantics case0 m l oneshot b = Inr e) bs es"
    using assms by (simp add: rmapM_Inr_iff)
  then show ?thesis
    by (induction rule: list_all2_induct)
      (auto simp: plan_capture_def rbind_eq_Inr Let_def point_output_def)
qed

lemma plan_point_outputs:
  assumes "plan_point benches args semantics case0 m l = Inr entries"
  shows "map cmd_output entries = map (point_output args semantics case0 m l) (point_keys args semantics case0)"
proof -
  from assms obtain ps os where
      "(if sa_oneshot_only args then Inr []
            else rmapM (plan_capture benches args semantics case0 m l False)
              (filter (\<lambda>b. backend_allowed_for semantics case0 b \<and> \<not> skipped_backend args semantics b)
                (case_backends args semantics case0))) = Inr ps"
      "(if (sa_include_oneshot args \<or> sa_oneshot_only args) \<and> oneshot_semantics semantics case0
            then rmapM (plan_capture benches args semantics case0 m l True) (oneshot_backends args)
            else Inr []) = Inr os" and "entries = ps @ os"
    unfolding plan_point_def rbind_eq_Inr by auto
  then show ?thesis by (auto simp: point_keys_def dest!: rmapM_outputs split: if_splits)
qed

lemma plan_case_outputs:
  assumes "plan_case benches args semantics case0 = Inr entries" and "entries \<noteq> []"
  obtains counts where "exact_wide_limb_counts_for semantics args = Inr counts"
    "map cmd_output entries = concat (map (\<lambda>m. concat (map (\<lambda>l.
       map (point_output args semantics case0 m l) (point_keys args semantics case0)) counts))
       (finite_moduli_for semantics args))"
proof -
  have loop: "rbind (rmapM (\<lambda>modulus.
         rbind (exact_wide_limb_counts_for semantics args) (\<lambda>counts.
         rbind (rmapM (plan_point benches args semantics case0 modulus) counts) (\<lambda>xs.
         Inr (concat xs)))) (finite_moduli_for semantics args)) (\<lambda>xs. Inr (concat xs)) = Inr entries"
    using assms(1) unfolding plan_case_def rthen_eq_Inr by blast
  from assms(2) obtain e where "e \<in> set entries" by (cases entries) auto
  from rmapM_concat_entry [OF loop this] obtain counts where
      counts: "exact_wide_limb_counts_for semantics args = Inr counts"
    unfolding rbind_eq_Inr [of "exact_wide_limb_counts_for semantics args"] by blast
  have "map cmd_output entries = concat (map (\<lambda>m. concat (map (\<lambda>l.
       map (point_output args semantics case0 m l) (point_keys args semantics case0)) counts))
       (finite_moduli_for semantics args))"
    using loop unfolding counts rbind_Inr
    by (rule rmapM_concat_map) (erule rmapM_concat_map, erule plan_point_outputs)
  with counts show ?thesis by (rule that)
qed

lemma distinct_default_backends: "distinct (default_backends_for semantics case0)"
  by (simp add: default_backends_for_def backend_lists Let_def)

lemma distinct_wrap64_backends: "distinct (wrap64_backends_for args)"
  by (simp add: wrap64_backends_for_def backend_lists)

lemma distinct_case_backends: "distinct (sa_backends args) \<Longrightarrow> distinct (case_backends args semantics case0)"
  by (simp add: case_backends_def Let_def distinct_default_backends distinct_wrap64_backends)

lemma distinct_point_keys:
  assumes "distinct (sa_backends args)"
  shows "distinct (point_keys args semantics case0)"
proof -
  have "distinct (oneshot_backends args)"
    using assms by (simp add: oneshot_backends_def PUBLIC_ONESHOT_BACKENDS_def)
  with distinct_case_backends [OF assms] show ?thesis
    by (auto simp: point_keys_def distinct_map intro: inj_onI)
qed

lemma point_keys_known: "key \<in> set (point_keys args semantics case0) \<Longrightarrow> snd key \<in> set KNOWN_BACKENDS"
  by (auto simp: point_keys_def oneshot_backends_def PUBLIC_ONESHOT_BACKENDS_def dest: allowed_known
      split: if_splits) (auto simp: KNOWN_BACKENDS_def)

lemma modes_before_args:
  assumes "check_oneshot args = Inr u" "sa_include_oneshot args \<or> sa_oneshot_only args"
  shows "modes_before semantics (args_modes args o1) = modes_before semantics (args_modes args o2)"
proof -
  have "\<not> 1 < sa_residue_chain_length args"
    using assms unfolding check_oneshot_def by (simp add: rthen_eq_Inr exit_if_def check_eq_Inr)
  then show ?thesis by (simp add: modes_before_def args_modes_def)
qed

definition moduli_ok :: "sweep_args \<Rightarrow> bool" where
  "moduli_ok args \<longleftrightarrow> distinct (sa_modulus args) \<and> list_all (\<lambda>m. 0 \<le> m) (sa_modulus args)"

lemma finite_moduli_ok:
  assumes "moduli_ok args"
  shows "distinct (finite_moduli_for semantics args)"
    "m \<in> set (finite_moduli_for semantics args) \<Longrightarrow> nonneg_opt m"
    "m \<in> set (finite_moduli_for semantics args) \<Longrightarrow> m' \<in> set (finite_moduli_for semantics args) \<Longrightarrow>
      (m = None) = (m' = None)"
  using assms
  by (auto simp: finite_moduli_for_def moduli_ok_def DEFAULT_FINITE_RING_MODULI_def list_all_iff
      DEFAULT_FINITE_FIELD_MODULI_def distinct_map nonneg_opt_def split: if_splits)

lemma limb_counts_ok:
  assumes "exact_wide_limb_counts_for semantics args = Inr counts"
  shows "distinct counts" "l \<in> set counts \<Longrightarrow> nonneg_opt l"
    "l \<in> set counts \<Longrightarrow> l' \<in> set counts \<Longrightarrow> (l = None) = (l' = None)"
    "l \<in> set counts \<Longrightarrow> l \<noteq> None \<Longrightarrow> semantics \<in> set EXACT_WIDE_SEMANTICS"
  using limb_counts_range [OF assms] limb_counts_other [OF assms]
  by (cases "semantics \<in> set EXACT_WIDE_SEMANTICS";
      force simp: nonneg_opt_def distinct_map list_all_iff)+

lemma point_output_inj:
  assumes eq: "point_output args semantics case0 m l key = point_output args semantics case0 m' l' key'"
    and args: "check_oneshot args = Inr u" "moduli_ok args" "exact_wide_limb_counts_for semantics args = Inr counts"
    and m: "m \<in> set (finite_moduli_for semantics args)" "m' \<in> set (finite_moduli_for semantics args)"
    and l: "l \<in> set counts" "l' \<in> set counts"
    and key: "key \<in> set (point_keys args semantics case0)" "key' \<in> set (point_keys args semantics case0)"
  shows "m = m' \<and> l = l' \<and> key = key'"
proof -
  have name: "capture_name semantics case0 (snd key) m (requested_pack_mode args) l (args_modes args (fst key)) =
      capture_name semantics case0 (snd key') m' (requested_pack_mode args) l' (args_modes args (fst key'))"
    using eq by (simp add: point_output_def path_join_plain_inj capture_name_plain)
  note known = point_keys_known [OF key(1)] point_keys_known [OF key(2)]
  note point = capture_name_point [OF name known finite_moduli_ok(2) [OF args(2) m(1)]
      finite_moduli_ok(2) [OF args(2) m(2)] finite_moduli_ok(3) [OF args(2) m]
      limb_counts_ok(2) [OF args(3) l(1)] limb_counts_ok(2) [OF args(3) l(2)]
      limb_counts_ok(3) [OF args(3) l] limb_counts_ok(4) [OF args(3) l(1)]]
  have "fst key = fst key'"
  proof (cases "sa_include_oneshot args \<or> sa_oneshot_only args")
    case True
    from capture_name_oneshot [OF point(4) modes_before_args [OF args(1) True] known(1)]
    show ?thesis by (simp add: args_modes_def)
  next
    case False
    with key show ?thesis by (auto simp: point_keys_def)
  qed
  with point(1-3) show ?thesis by (simp add: prod_eq_iff)
qed

text \<open>C12: the captures the planner makes for one semantics and case have different files, when the
  backends and moduli asked for are different and the one-shot check has passed: no capture
  overwrites another.
\<close>

theorem planned_outputs_distinct:
  assumes "plan_case benches args semantics case0 = Inr entries" "check_oneshot args = Inr ()"
    and "distinct (sa_backends args)" "moduli_ok args"
  shows "distinct (map cmd_output entries)"
proof (cases "entries = []")
  case False
  from plan_case_outputs [OF assms(1) this] obtain counts where
      counts: "exact_wide_limb_counts_for semantics args = Inr counts" and
      outs: "map cmd_output entries = concat (map (\<lambda>m. concat (map (\<lambda>l.
       map (point_output args semantics case0 m l) (point_keys args semantics case0)) counts))
       (finite_moduli_for semantics args))" .
  note inj = point_output_inj [OF _ assms(2,4) counts]
  have "distinct (map (point_output args semantics case0 m l) (point_keys args semantics case0))"
    if "m \<in> set (finite_moduli_for semantics args)" "l \<in> set counts" for m l
    using distinct_point_keys [OF assms(3)] inj [OF _ that(1) that(1) that(2) that(2)]
    by (simp add: distinct_map inj_on_def)
  moreover have "m = m' \<and> l = l'"
    if "m \<in> set (finite_moduli_for semantics args)" "m' \<in> set (finite_moduli_for semantics args)"
      "l \<in> set counts" "l' \<in> set counts" "x \<in> point_output args semantics case0 m l ` set (point_keys args semantics case0)"
      "x \<in> point_output args semantics case0 m' l' ` set (point_keys args semantics case0)" for m m' l l' x
    using inj [OF _ that(1-4)] that(5,6) by auto
  ultimately show ?thesis
    unfolding outs using finite_moduli_ok(1) [OF assms(4)] limb_counts_ok(1) [OF counts]
    by (intro distinct_concat_map) (simp_all, blast+)
qed simp

section \<open>Examples\<close>

definition example_args :: sweep_args where
  "example_args = default_args\<lparr>sa_bench := Some (path_of ''bench''), sa_backends := [''cpu'', ''hip-direct''],
     sa_semantics := [''finite-ring-u8''], sa_shapes := [''64'']\<rparr>"

definition entry_names :: "sweep_command list res \<Rightarrow> string list" where
  "entry_names run = (case run of Inl _ \<Rightarrow> [] | Inr entries \<Rightarrow> map cmd_name entries)"

lemma example_plan:
  "entry_names (default_sweep_command_entries example_args) =
    [''finite-u8-ring-shape-64x64x64-64x64x64-mod251-cpu.json'',
     ''finite-u8-ring-shape-64x64x64-64x64x64-mod251-hip-direct.json'',
     ''finite-u8-ring-shape-64x64x64-64x64x64-mod255-cpu.json'',
     ''finite-u8-ring-shape-64x64x64-64x64x64-mod255-hip-direct.json'']"
  by code_simp

lemma example_case:
  "entry_names (plan_case [] example_args ''finite-u8-ring'' case64) =
    [''finite-u8-ring-64x64x64-64x64x64-mod251-cpu.json'',
     ''finite-u8-ring-64x64x64-64x64x64-mod251-hip-direct.json'',
     ''finite-u8-ring-64x64x64-64x64x64-mod255-cpu.json'',
     ''finite-u8-ring-64x64x64-64x64x64-mod255-hip-direct.json'']"
  by code_simp

lemma entry_names_Inr: "entry_names run \<noteq> [] \<Longrightarrow> \<exists>entries. run = Inr entries \<and> entries \<noteq> []"
  by (cases run) (auto simp: entry_names_def)


lemma planned_outputs_distinct_witness:
  "\<exists>entries. plan_case [] example_args ''finite-u8-ring'' case64 = Inr entries \<and> entries \<noteq> [] \<and>
     distinct (map cmd_output entries)"
proof -
  obtain entries where run: "plan_case [] example_args ''finite-u8-ring'' case64 = Inr entries" "entries \<noteq> []"
    using entry_names_Inr example_case by (metis list.discI)
  have "check_oneshot example_args = Inr ()" "distinct (sa_backends example_args)" "moduli_ok example_args"
    by code_simp+
  from planned_outputs_distinct [OF run(1) this] run show ?thesis by blast
qed

text \<open>C13: host batching forgets the requested backends. When none of them can batch, the filter empties
  the list, and an empty list means all backends: the plan is that of a sweep without \<open>--backend\<close>,
  with captures of \<open>hip-direct\<close> that nobody asked for.
\<close>

theorem host_batch_drops_request:
  assumes "1 < sa_host_api_batch_size args" "''hip-direct'' \<notin> set (sa_backends args)"
  shows "default_sweep_command_entries args = default_sweep_command_entries (args\<lparr>sa_backends := []\<rparr>)"
proof -
  have "filter (\<lambda>b. b = ''hip-direct'') (sa_backends args) = []"
    using assms(2) by (auto simp: filter_empty_conv)
  then have "batch_filter args = args\<lparr>sa_backends := []\<rparr>"
    using assms(1) by (cases args) (auto simp: batch_filter_def HOST_API_BATCH_BACKENDS_def)
  moreover have "batch_filter (args\<lparr>sa_backends := []\<rparr>) = args\<lparr>sa_backends := []\<rparr>"
    by (simp add: batch_filter_def)
  moreover have "check_host_batch (args\<lparr>sa_backends := []\<rparr>) = check_host_batch args"
    by (simp add: check_host_batch_def)
  ultimately show ?thesis by (simp add: default_sweep_command_entries_def)
qed

definition batch_args :: sweep_args where
  "batch_args = default_args\<lparr>sa_bench := Some (path_of ''bench''), sa_backends := [''cpu''],
     sa_semantics := [''bounded-i64''], sa_shapes := [''64''], sa_host_api_batch_size := 4\<rparr>"

lemma batch_plan:
  "entry_names (default_sweep_command_entries (batch_args\<lparr>sa_backends := []\<rparr>)) =
    [''bounded-i64-shape-64x64x64-64x64x64-hostbatch4-hip-direct.json'']"
  by code_simp

lemma host_batch_drops_request_witness:
  "sa_backends batch_args = [''cpu''] \<and>
   entry_names (default_sweep_command_entries batch_args) =
     [''bounded-i64-shape-64x64x64-64x64x64-hostbatch4-hip-direct.json'']"
proof -
  have "1 < sa_host_api_batch_size batch_args" "''hip-direct'' \<notin> set (sa_backends batch_args)"
      "sa_backends batch_args = [''cpu'']"
    by code_simp+
  with host_batch_drops_request [of batch_args] batch_plan show ?thesis by simp
qed

end
