(* ===== verification/Sweep_Exec.thy ===== *)
theory Sweep_Exec
  imports Sweep_Commands
begin

text \<open>
  \<open>tools/benchmark_sweep_lib/execution.py\<close>: loading and validating captures, running one benchmark
  command, and \<open>execute_sweep_entries\<close>, the loop that skips, copies, defers or runs each planned
  capture. \<open>tools/benchmark_schema/core.py\<close> gives \<open>load_capture\<close> and \<open>validate_capture\<close>.

  The file system is a function from paths to what the file holds. The list of validation errors of
  a capture is the argument \<open>errors_of\<close> (the validator is a component of its own), and the
  operating system's part of a run, the process that a command starts, is the argument \<open>proc\<close>: a
  function of the number of runs before it, so that equal commands may end differently. Progress
  messages are not modelled.
\<close>

section \<open>Captures\<close>

type_synonym files = "path \<Rightarrow> json_file"

type_synonym validator = "pydict \<Rightarrow> path \<Rightarrow> string list res"

definition load_capture :: "files \<Rightarrow> path \<Rightarrow> pydict res" where
  "load_capture files p =
     (let unreadable = (\<lambda>e. BenchmarkSchemaError (path_str p @ '': failed to read benchmark JSON: '' @ e))
      in case files p of
           Missing \<Rightarrow> Inl (unreadable (''[Errno 2] No such file or directory: '' @ repr_str (path_str p)))
         | Malformed message \<Rightarrow> Inl (unreadable message)
         | Parsed (PDict data) \<Rightarrow> Inr data
         | Parsed _ \<Rightarrow> Inl (BenchmarkSchemaError (path_str p @ '': benchmark JSON root must be an object'')))"

definition schema_version :: "pydict \<Rightarrow> int res" where
  "schema_version data =
     (case map_of data ''schema_version'' of
        None \<Rightarrow> Inl (BenchmarkSchemaError ''missing required field schema_version'')
      | Some v \<Rightarrow> raise_if (\<not> is_int_value v)
          (BenchmarkSchemaError ''schema_version must be an integer'') (Inr (int_of v)))"

definition validate_capture :: "validator \<Rightarrow> pydict \<Rightarrow> path \<Rightarrow> pydict res" where
  "validate_capture errors_of data p =
     rbind (errors_of data p) (\<lambda>errors.
     rthen (check (errors \<noteq> []) (BenchmarkSchemaError (join_with [CHR 10] errors)))
     (rbind (schema_version data) (\<lambda>version. Inr [(''schema_version'', PInt version)])))"

definition load_valid :: "validator \<Rightarrow> files \<Rightarrow> path \<Rightarrow> pydict res" where
  "load_valid errors_of files p =
     rbind (load_capture files p) (\<lambda>data. rthen (validate_capture errors_of data p) (Inr data))"

definition annotate_scenario_metadata ::
  "validator \<Rightarrow> path \<Rightarrow> pydict option \<Rightarrow> files \<Rightarrow> files res" where
  "annotate_scenario_metadata errors_of p scenario files =
     (case scenario of
        None \<Rightarrow> Inr files
      | Some s \<Rightarrow>
          rbind (load_capture files p) (\<lambda>data0.
          let data = dict_set ''scenario_metadata'' (PDict s) data0 in
          rthen (validate_capture errors_of data p) (Inr (files(p := Parsed (PDict data))))))"

definition existing_capture_valid :: "validator \<Rightarrow> files \<Rightarrow> path \<Rightarrow> bool res" where
  "existing_capture_valid errors_of files p =
     (if files p = Missing then Inr False
      else case load_valid errors_of files p of
             Inr _ \<Rightarrow> Inr True
           | Inl (BenchmarkSchemaError _) \<Rightarrow> Inr False
           | Inl (FileNotFoundError _) \<Rightarrow> Inr False
           | Inl e \<Rightarrow> Inl e)"

definition copy_capture :: "path \<Rightarrow> path \<Rightarrow> files \<Rightarrow> files res" where
  "copy_capture source destination files =
     raise_if (files source = Missing) (FileNotFoundError (path_str source))
       (Inr (files(destination := files source)))"

definition validate_paths :: "validator \<Rightarrow> files \<Rightarrow> path list \<Rightarrow> pydict list res" where
  "validate_paths errors_of files paths =
     rmapM (\<lambda>p. case load_valid errors_of files p of
        Inr data \<Rightarrow> Inr (dict_set ''_path'' (PStr (path_str p)) data)
      | Inl (BenchmarkSchemaError message) \<Rightarrow> Inl (SystemExit message)
      | Inl e \<Rightarrow> Inl e) paths"

section \<open>The autotune cache\<close>

text \<open>\<open>env\<close> is the process environment and \<open>windows\<close> says whether \<open>os.name\<close> is \<open>nt\<close>.\<close>

definition set_var :: "(string \<times> string) list \<Rightarrow> string \<Rightarrow> string option" where
  "set_var env name = (case map_of env name of None \<Rightarrow> None | Some v \<Rightarrow> if v = [] then None else Some v)"

definition first_set :: "(string \<times> string) list \<Rightarrow> string \<Rightarrow> string \<Rightarrow> string option" where
  "first_set env a b = (case set_var env a of Some v \<Rightarrow> Some v | None \<Rightarrow> set_var env b)"

definition autotune_cache_path :: "bool \<Rightarrow> (string \<times> string) list \<Rightarrow> path" where
  "autotune_cache_path windows env =
     (let fallback = (case first_set env ''XDG_CACHE_HOME'' ''HOME'' of
            Some base \<Rightarrow> fold (\<lambda>s p. path_join p s) [''.cache'', ''rns8-gemm'', ''autotune.json''] (path_of base)
          | None \<Rightarrow> path_join (path_of ''rns8-gemm'') ''autotune.json'')
      in case set_var env ''RNS8_AUTOTUNE_CACHE_PATH'' of
           Some override \<Rightarrow> path_of override
         | None \<Rightarrow>
             if windows
             then (case first_set env ''LOCALAPPDATA'' ''USERPROFILE'' of
                     Some base \<Rightarrow> fold (\<lambda>s p. path_join p s)
                       (if map_of env ''USERPROFILE'' = Some base
                        then [''AppData'', ''Local'', ''rns8-gemm'', ''autotune.json'']
                        else [''rns8-gemm'', ''autotune.json'']) (path_of base)
                   | None \<Rightarrow> fallback)
             else fallback)"

section \<open>Running one command\<close>

text \<open>
  A process exits with a code and its output, of which the last argument is the JSON reading, or is
  killed at the timeout; the float is the wall-clock duration.
\<close>

datatype process_end =
    Exited int string string pyfloat json_file
  | TimedOut string string pyfloat

definition name_stem :: "string \<Rightarrow> string" where
  "name_stem name =
     (let suffix = rev (takeWhile (\<lambda>c. c \<noteq> CHR ''.'') (rev name)) in
      if CHR ''.'' \<in> set name \<and> suffix \<noteq> [] \<and> length suffix + 1 < length name
      then take (length name - length suffix - 1) name else name)"

definition failed_path :: "path \<Rightarrow> path" where
  "failed_path p = Path (absolute p) (butlast (path_parts p) @ [name_stem (path_name p) @ ''.failed.json''])"

definition env_json :: "(string \<times> string) list option \<Rightarrow> pyval" where
  "env_json env = PDict (case env of None \<Rightarrow> [] | Some e \<Rightarrow> map (\<lambda>(k, v). (k, PStr v)) e)"

definition run_command ::
  "sweep_args \<Rightarrow> string list \<Rightarrow> path \<Rightarrow> (string \<times> string) list option \<Rightarrow> process_end \<Rightarrow> files \<Rightarrow>
   bool \<times> files" where
  "run_command args command out env proc files =
     (case proc of
        TimedOut out_text err_text duration \<Rightarrow>
          (False, files(failed_path out := Parsed (PDict
             [(''command'', PList (map PStr command)), (''environment'', env_json env),
              (''returncode'', PNone), (''timed_out'', PBool True),
              (''timeout_seconds'', case sa_capture_timeout_seconds args of None \<Rightarrow> PNone | Some t \<Rightarrow> PFloat t),
              (''duration_seconds'', PFloat duration),
              (''stdout'', PStr out_text), (''stderr'', PStr err_text)])))
      | Exited returncode out_text err_text duration content \<Rightarrow>
          if returncode \<noteq> 0
          then (False, files(failed_path out := Parsed (PDict
             [(''command'', PList (map PStr command)), (''environment'', env_json env),
              (''returncode'', PInt returncode), (''timed_out'', PBool False),
              (''duration_seconds'', PFloat duration),
              (''stdout'', PStr out_text), (''stderr'', PStr err_text)])))
          else (True, files(out := content)))"

section \<open>The loop\<close>

type_synonym dedupe_key = "string list \<times> (string \<times> string) list"

record exec_state =
  es_files :: files
  es_paths :: "path list"
  es_done :: "(dedupe_key \<times> path) list"
  es_skipped :: int
  es_attempted :: int
  es_completed :: int
  es_deduped :: int
  es_deferred :: int

definition initial_state :: "files \<Rightarrow> path list \<Rightarrow> exec_state" where
  "initial_state files paths =
     \<lparr>es_files = files, es_paths = paths, es_done = [], es_skipped = 0, es_attempted = 0,
      es_completed = 0, es_deduped = 0, es_deferred = 0\<rparr>"

definition remember :: "sweep_command \<Rightarrow> exec_state \<Rightarrow> exec_state" where
  "remember entry st =
     (case cpu_reference_dedupe_key entry of
        None \<Rightarrow> st
      | Some key \<Rightarrow> st\<lparr>es_done := dict_set key (cmd_output entry) (es_done st)\<rparr>)"

definition dedupe_source :: "sweep_command \<Rightarrow> exec_state \<Rightarrow> path option" where
  "dedupe_source entry st =
     (case cpu_reference_dedupe_key entry of None \<Rightarrow> None | Some key \<Rightarrow> map_of (es_done st) key)"

definition out_of_budget :: "sweep_args \<Rightarrow> exec_state \<Rightarrow> bool" where
  "out_of_budget args st \<longleftrightarrow>
     (case sa_max_new_captures args of None \<Rightarrow> False | Some n \<Rightarrow> n \<le> es_attempted st)"

text \<open>Annotate the entry's capture in the files and take its path as captured.\<close>

definition captured ::
  "validator \<Rightarrow> sweep_command \<Rightarrow> files \<Rightarrow> exec_state \<Rightarrow> exec_state res" where
  "captured errors_of entry files st =
     rbind (annotate_scenario_metadata errors_of (cmd_output entry) (cmd_scenario entry) files) (\<lambda>files'.
     Inr (st\<lparr>es_files := files', es_paths := es_paths st @ [cmd_output entry]\<rparr>))"

definition reuse_existing :: "validator \<Rightarrow> sweep_args \<Rightarrow> files \<Rightarrow> path \<Rightarrow> bool res" where
  "reuse_existing errors_of args files p =
     (if sa_skip_existing args then existing_capture_valid errors_of files p else Inr False)"

definition execute_entry ::
  "validator \<Rightarrow> (nat \<Rightarrow> string list \<Rightarrow> process_end) \<Rightarrow> sweep_args \<Rightarrow> exec_state \<Rightarrow> sweep_command \<Rightarrow>
   exec_state res" where
  "execute_entry errors_of proc args st entry =
     rbind (reuse_existing errors_of args (es_files st) (cmd_output entry)) (\<lambda>reuse.
     if reuse
     then rbind (captured errors_of entry (es_files st) st) (\<lambda>st'.
          Inr (remember entry (st'\<lparr>es_skipped := es_skipped st + 1\<rparr>)))
     else case dedupe_source entry st of
       Some source \<Rightarrow>
         rbind (copy_capture source (cmd_output entry) (es_files st)) (\<lambda>files.
         rbind (captured errors_of entry files st) (\<lambda>st'.
         Inr (st'\<lparr>es_deduped := es_deduped st + 1\<rparr>)))
     | None \<Rightarrow>
         if out_of_budget args st then Inr (st\<lparr>es_deferred := es_deferred st + 1\<rparr>)
         else let (ok, files) = run_command args (cmd_command entry) (cmd_output entry) (cmd_env entry)
                    (proc (nat (es_attempted st)) (cmd_command entry)) (es_files st);
                  st1 = st\<lparr>es_files := files, es_attempted := es_attempted st + 1\<rparr>
              in if ok
                 then rbind (captured errors_of entry files st1) (\<lambda>st'.
                      Inr (remember entry (st'\<lparr>es_completed := es_completed st + 1\<rparr>)))
                 else Inr st1)"

definition execute_sweep_entries ::
  "validator \<Rightarrow> (nat \<Rightarrow> string list \<Rightarrow> process_end) \<Rightarrow> sweep_args \<Rightarrow> files \<Rightarrow> path list \<Rightarrow>
   sweep_command list \<Rightarrow> exec_state res" where
  "execute_sweep_entries errors_of proc args files paths entries =
     rfoldM (execute_entry errors_of proc args) (initial_state files paths) entries"

text \<open>The dict the loop returns.\<close>

definition execution_stats :: "sweep_command list \<Rightarrow> exec_state \<Rightarrow> pydict" where
  "execution_stats entries st =
     [(''planned_captures'', PInt (int (length entries))),
      (''skipped_existing_captures'', PInt (es_skipped st)),
      (''new_captures_attempted'', PInt (es_attempted st)),
      (''new_captures_completed'', PInt (es_completed st)),
      (''deduped_cpu_captures'', PInt (es_deduped st)),
      (''deferred_captures'', PInt (es_deferred st))]"

section \<open>The loop as a state machine\<close>

text \<open>A configuration is the entries to come and the state; a step treats the first entry in one of five ways.\<close>

type_synonym exec_config = "sweep_command list \<times> exec_state"

inductive exec_step ::
  "validator \<Rightarrow> (nat \<Rightarrow> string list \<Rightarrow> process_end) \<Rightarrow> sweep_args \<Rightarrow> exec_config \<Rightarrow> exec_config \<Rightarrow> bool"
  for errors_of proc args where
  Skip: "exec_step errors_of proc args (entry # rest, st)
     (rest, remember entry (st'\<lparr>es_skipped := es_skipped st + 1\<rparr>))"
  if "reuse_existing errors_of args (es_files st) (cmd_output entry) = Inr True"
    "captured errors_of entry (es_files st) st = Inr st'"
| Dedupe: "exec_step errors_of proc args (entry # rest, st) (rest, st'\<lparr>es_deduped := es_deduped st + 1\<rparr>)"
  if "reuse_existing errors_of args (es_files st) (cmd_output entry) = Inr False"
    "dedupe_source entry st = Some source"
    "copy_capture source (cmd_output entry) (es_files st) = Inr files"
    "captured errors_of entry files st = Inr st'"
| Defer: "exec_step errors_of proc args (entry # rest, st) (rest, st\<lparr>es_deferred := es_deferred st + 1\<rparr>)"
  if "reuse_existing errors_of args (es_files st) (cmd_output entry) = Inr False"
    "dedupe_source entry st = None" "out_of_budget args st"
| Fail: "exec_step errors_of proc args (entry # rest, st)
     (rest, st\<lparr>es_files := files, es_attempted := es_attempted st + 1\<rparr>)"
  if "reuse_existing errors_of args (es_files st) (cmd_output entry) = Inr False"
    "dedupe_source entry st = None" "\<not> out_of_budget args st"
    "run_command args (cmd_command entry) (cmd_output entry) (cmd_env entry)
       (proc (nat (es_attempted st)) (cmd_command entry)) (es_files st) = (False, files)"
| Complete: "exec_step errors_of proc args (entry # rest, st)
     (rest, remember entry (st'\<lparr>es_completed := es_completed st + 1\<rparr>))"
  if "reuse_existing errors_of args (es_files st) (cmd_output entry) = Inr False"
    "dedupe_source entry st = None" "\<not> out_of_budget args st"
    "run_command args (cmd_command entry) (cmd_output entry) (cmd_env entry)
       (proc (nat (es_attempted st)) (cmd_command entry)) (es_files st) = (True, files)"
    "captured errors_of entry files
       (st\<lparr>es_files := files, es_attempted := es_attempted st + 1\<rparr>) = Inr st'"

inductive_cases exec_stepE: "exec_step errors_of proc args (entry # rest, st) c"
inductive_simps exec_step_Nil [simp]: "exec_step errors_of proc args ([], st) c"

lemma captured_fields:
  assumes "captured errors_of entry files st = Inr st'"
  obtains files' where "annotate_scenario_metadata errors_of (cmd_output entry) (cmd_scenario entry) files = Inr files'"
    "st' = st\<lparr>es_files := files', es_paths := es_paths st @ [cmd_output entry]\<rparr>"
  using assms by (auto simp: captured_def rbind_eq_Inr)

lemma remember_fields [simp]:
  "es_files (remember entry st) = es_files st" "es_paths (remember entry st) = es_paths st"
  "es_skipped (remember entry st) = es_skipped st" "es_attempted (remember entry st) = es_attempted st"
  "es_completed (remember entry st) = es_completed st" "es_deduped (remember entry st) = es_deduped st"
  "es_deferred (remember entry st) = es_deferred st"
  by (simp_all add: remember_def split: option.split)

lemma execute_entry_step:
  assumes "execute_entry errors_of proc args st entry = Inr st'"
  shows "exec_step errors_of proc args (entry # rest, st) (rest, st')"
proof -
  from assms obtain reuse where
      reuse: "reuse_existing errors_of args (es_files st) (cmd_output entry) = Inr reuse"
    by (auto simp: execute_entry_def rbind_eq_Inr)
  show ?thesis
  proof (cases reuse)
    case True
    with assms reuse show ?thesis
      by (auto simp: execute_entry_def rbind_eq_Inr intro: exec_step.intros)
  next
    case False
    obtain ok files where run: "run_command args (cmd_command entry) (cmd_output entry) (cmd_env entry)
       (proc (nat (es_attempted st)) (cmd_command entry)) (es_files st) = (ok, files)"
      by (cases "run_command args (cmd_command entry) (cmd_output entry) (cmd_env entry)
        (proc (nat (es_attempted st)) (cmd_command entry)) (es_files st)")
    with False assms reuse show ?thesis
      by (cases "dedupe_source entry st"; cases "out_of_budget args st"; cases ok)
        (auto simp: execute_entry_def rbind_eq_Inr intro: exec_step.intros)
  qed
qed

lemma step_execute_entry:
  assumes "exec_step errors_of proc args c c'"
  shows "\<exists>entry. fst c = entry # fst c' \<and> execute_entry errors_of proc args (snd c) entry = Inr (snd c')"
  using assms by (induction) (simp_all add: execute_entry_def)

lemma rfoldM_steps:
  "rfoldM (execute_entry errors_of proc args) s es = Inr st \<Longrightarrow>
   (exec_step errors_of proc args)\<^sup>*\<^sup>* (es, s) ([], st)"
proof (induction es arbitrary: s)
  case (Cons e es)
  then obtain s' where "execute_entry errors_of proc args s e = Inr s'"
      "(exec_step errors_of proc args)\<^sup>*\<^sup>* (es, s') ([], st)"
    by (auto simp: rbind_eq_Inr)
  then show ?case by (meson converse_rtranclp_into_rtranclp execute_entry_step)
qed simp

lemma steps_rfoldM:
  "(exec_step errors_of proc args)\<^sup>*\<^sup>* c d \<Longrightarrow> fst d = [] \<Longrightarrow>
   rfoldM (execute_entry errors_of proc args) (snd c) (fst c) = Inr (snd d)"
proof (induction rule: converse_rtranclp_induct)
  case (step c c')
  with step_execute_entry [OF step(1)] show ?case by auto
qed simp

lemma execute_steps:
  "execute_sweep_entries errors_of proc args files paths entries = Inr st \<Longrightarrow>
   (exec_step errors_of proc args)\<^sup>*\<^sup>* (entries, initial_state files paths) ([], st)"
  unfolding execute_sweep_entries_def by (rule rfoldM_steps)


section \<open>Accounting\<close>

text \<open>Every entry passed is in one counter, and the captured paths are counted too.\<close>

definition accounted :: "sweep_args \<Rightarrow> nat \<Rightarrow> path list \<Rightarrow> exec_config \<Rightarrow> bool" where
  "accounted args n paths c \<longleftrightarrow> (case c of (rest, st) \<Rightarrow>
     es_skipped st + es_deduped st + es_deferred st + es_attempted st + int (length rest) = int n \<and>
     0 \<le> es_completed st \<and> es_completed st \<le> es_attempted st \<and> 0 \<le> es_skipped st \<and>
     0 \<le> es_deduped st \<and> 0 \<le> es_deferred st \<and>
     int (length (es_paths st)) = int (length paths) + es_skipped st + es_deduped st + es_completed st \<and>
     (case sa_max_new_captures args of None \<Rightarrow> es_deferred st = 0
      | Some m \<Rightarrow> 0 \<le> m \<longrightarrow> es_attempted st \<le> m))"

lemma accounted_step:
  assumes "exec_step errors_of proc args c c'" "accounted args n paths c"
  shows "accounted args n paths c'"
  using assms
  by induction (auto simp: accounted_def out_of_budget_def elim!: captured_fields split: option.splits)

lemma steps_accounted:
  assumes "(exec_step errors_of proc args)\<^sup>*\<^sup>* c c'" "accounted args n paths c"
  shows "accounted args n paths c'"
  using assms by (induction rule: rtranclp_induct) (auto intro: accounted_step)

lemma accounted_initial: "accounted args (length entries) paths (entries, initial_state files paths)"
  by (simp add: accounted_def initial_state_def split: option.split)

text \<open>C15: the statistics add up: every planned capture is skipped, copied, deferred or attempted,
  completed ones are among the attempted, the budget is kept, nothing is deferred without one, and
  the list of captured paths grows by exactly the skipped, copied and completed captures.
\<close>

theorem execution_accounting:
  assumes "execute_sweep_entries errors_of proc args files paths entries = Inr st"
  shows "es_skipped st + es_deduped st + es_deferred st + es_attempted st = int (length entries) \<and>
    0 \<le> es_completed st \<and> es_completed st \<le> es_attempted st \<and>
    int (length (es_paths st)) = int (length paths) + es_skipped st + es_deduped st + es_completed st \<and>
    (case sa_max_new_captures args of None \<Rightarrow> es_deferred st = 0
     | Some m \<Rightarrow> 0 \<le> m \<longrightarrow> es_attempted st \<le> m)"
proof -
  have "accounted args (length entries) paths ([], st)"
    using assms execute_steps by (blast intro: steps_accounted accounted_initial)
  then show ?thesis by (simp add: accounted_def split: option.splits)
qed

section \<open>Running again\<close>

text \<open>The file of an entry holds a valid capture with the entry's scenario metadata.\<close>

definition capture_ready :: "validator \<Rightarrow> files \<Rightarrow> sweep_command \<Rightarrow> bool" where
  "capture_ready errors_of files entry \<longleftrightarrow>
     (case (load_valid errors_of files (cmd_output entry), cmd_scenario entry) of
        (Inr data, Some s) \<Rightarrow> map_of data ''scenario_metadata'' = Some (PDict s)
      | _ \<Rightarrow> False)"

lemma load_valid_Inr:
  "load_valid errors_of files p = Inr data \<longleftrightarrow>
   files p = Parsed (PDict data) \<and> (\<exists>u. validate_capture errors_of data p = Inr u)"
  by (auto simp: load_valid_def load_capture_def Let_def rbind_eq_Inr rthen_eq_Inr
      split: json_file.splits pyval.splits)

lemma annotate_ready:
  assumes "annotate_scenario_metadata errors_of (cmd_output entry) (cmd_scenario entry) files = Inr files'"
    and "cmd_scenario entry \<noteq> None"
  shows "capture_ready errors_of files' entry"
proof -
  from assms obtain s data u where "cmd_scenario entry = Some s"
      "validate_capture errors_of (dict_set ''scenario_metadata'' (PDict s) data) (cmd_output entry) = Inr u"
      "files' = files(cmd_output entry := Parsed (PDict (dict_set ''scenario_metadata'' (PDict s) data)))"
    by (auto simp: annotate_scenario_metadata_def rbind_eq_Inr rthen_eq_Inr Let_def)
  moreover from this have "load_valid errors_of files' (cmd_output entry) =
      Inr (dict_set ''scenario_metadata'' (PDict s) data)"
    by (simp add: load_valid_Inr)
  ultimately show ?thesis by (simp add: capture_ready_def)
qed

lemma annotate_frame:
  "annotate_scenario_metadata errors_of p scenario files = Inr files' \<Longrightarrow> q \<noteq> p \<Longrightarrow> files' q = files q"
  by (auto simp: annotate_scenario_metadata_def rbind_eq_Inr rthen_eq_Inr Let_def split: option.splits)

lemma run_command_frame:
  "run_command args command p env proc files = (ok, files') \<Longrightarrow> q \<noteq> p \<Longrightarrow> q \<noteq> failed_path p \<Longrightarrow>
   files' q = files q"
  by (auto simp: run_command_def split: process_end.splits if_splits)

lemma copy_frame: "copy_capture p q files = Inr files' \<Longrightarrow> r \<noteq> q \<Longrightarrow> files' r = files r"
  by (auto simp: copy_capture_def raise_if_eq_Inr)

text \<open>A step writes only the entry's file and its failure record.\<close>

lemma step_frame:
  assumes "exec_step errors_of proc args (entry # rest, st) (rest, st')"
    and "p \<noteq> cmd_output entry" "p \<noteq> failed_path (cmd_output entry)"
  shows "es_files st' p = es_files st p"
  using assms(1)
  by (cases rule: exec_stepE)
    (auto elim!: captured_fields dest!: annotate_frame [OF _ assms(2)] copy_frame [OF _ assms(2)]
      run_command_frame [OF _ assms(2,3)])

definition missed :: "exec_state \<Rightarrow> int" where
  "missed st = es_deferred st + es_attempted st - es_completed st"

lemma step_outcome:
  assumes "exec_step errors_of proc args (entry # rest, st) (rest, st')" "cmd_scenario entry \<noteq> None"
  shows "missed st' = missed st + 1 \<or> (missed st' = missed st \<and> capture_ready errors_of (es_files st') entry)"
  using assms(1)
  by (cases rule: exec_stepE) (auto elim!: captured_fields dest!: annotate_ready [OF _ assms(2)] simp: missed_def)

lemma missed_step: "exec_step errors_of proc args (entry # rest, st) (rest, st') \<Longrightarrow> missed st \<le> missed st'"
  by (cases rule: exec_stepE) (auto elim!: captured_fields simp: missed_def)

lemma missed_run: "rfoldM (execute_entry errors_of proc args) st entries = Inr st' \<Longrightarrow> missed st \<le> missed st'"
  by (erule rfoldM_invariant [where I = "\<lambda>s. missed st \<le> missed s"])
    (auto dest!: execute_entry_step [where rest = "[]"] missed_step)

text \<open>No entry writes into another's file: the outputs differ, and from the failure records too.\<close>

definition files_apart :: "sweep_command list \<Rightarrow> bool" where
  "files_apart entries \<longleftrightarrow> distinct (map cmd_output entries) \<and>
     list_all (\<lambda>e. list_all (\<lambda>e'. cmd_output e \<noteq> failed_path (cmd_output e')) entries) entries"

lemma files_apart_Cons:
  assumes "files_apart (entry # rest)"
  shows "files_apart rest" "e \<in> set rest \<Longrightarrow> cmd_output entry \<noteq> cmd_output e"
    "e \<in> set rest \<Longrightarrow> cmd_output entry \<noteq> failed_path (cmd_output e)"
  using assms by (auto simp: files_apart_def list_all_iff)

lemma run_frame:
  assumes "rfoldM (execute_entry errors_of proc args) st entries = Inr st'"
    and "\<And>e. e \<in> set entries \<Longrightarrow> p \<noteq> cmd_output e \<and> p \<noteq> failed_path (cmd_output e)"
  shows "es_files st' p = es_files st p"
  using assms(1)
  by (rule rfoldM_invariant [where I = "\<lambda>s. es_files s p = es_files st p"])
    (auto dest: assms(2) dest!: execute_entry_step [where rest = "[]"] step_frame [where p = p])

lemma capture_ready_cong:
  "files' (cmd_output entry) = files (cmd_output entry) \<Longrightarrow>
   capture_ready errors_of files' entry = capture_ready errors_of files entry"
  by (simp add: capture_ready_def load_valid_def load_capture_def)

lemma run_ready:
  assumes "rfoldM (execute_entry errors_of proc args) st entries = Inr st'" "missed st' = missed st"
    and "files_apart entries" "list_all (\<lambda>e. cmd_scenario e \<noteq> None) entries"
  shows "list_all (capture_ready errors_of (es_files st')) entries"
  using assms
proof (induction entries arbitrary: st)
  case (Cons entry rest)
  from Cons.prems(1) obtain s where s: "execute_entry errors_of proc args st entry = Inr s"
      "rfoldM (execute_entry errors_of proc args) s rest = Inr st'"
    by (auto simp: rbind_eq_Inr)
  note step = execute_entry_step [OF s(1), of rest]
  from missed_run [OF s(2)] missed_step [OF step] step_outcome [OF step] Cons.prems(2,4)
  have "missed s = missed st" and ready: "capture_ready errors_of (es_files s) entry" by auto
  with Cons.IH [OF s(2)] Cons.prems(2-4) files_apart_Cons(1)
  have "list_all (capture_ready errors_of (es_files st')) rest" by simp
  moreover have "es_files st' (cmd_output entry) = es_files s (cmd_output entry)"
    using run_frame [OF s(2)] files_apart_Cons(2,3) [OF Cons.prems(3)] by metis
  ultimately show ?case using ready capture_ready_cong [of "es_files st'" entry "es_files s"] by simp
qed simp

lemma dict_set_same: "map_of d k = Some v \<Longrightarrow> dict_set k v d = d"
  by (induction d) (auto split: if_splits)

lemma skip_ready:
  assumes "capture_ready errors_of (es_files st) entry" "sa_skip_existing args"
  shows "\<exists>st'. execute_entry errors_of proc args st entry = Inr st' \<and> es_files st' = es_files st \<and>
    es_attempted st' = es_attempted st \<and> es_skipped st' = es_skipped st + 1 \<and>
    es_paths st' = es_paths st @ [cmd_output entry]"
proof -
  from assms(1) obtain data s u where data: "es_files st (cmd_output entry) = Parsed (PDict data)"
      "validate_capture errors_of data (cmd_output entry) = Inr u" "cmd_scenario entry = Some s"
      "map_of data ''scenario_metadata'' = Some (PDict s)" "load_valid errors_of (es_files st) (cmd_output entry) = Inr data"
    by (auto simp: capture_ready_def load_valid_Inr split: sum.splits option.splits)
  then have "reuse_existing errors_of args (es_files st) (cmd_output entry) = Inr True"
    using assms(2) by (simp add: reuse_existing_def existing_capture_valid_def)
  moreover have "annotate_scenario_metadata errors_of (cmd_output entry) (cmd_scenario entry) (es_files st) =
      Inr (es_files st)"
    using data by (simp add: annotate_scenario_metadata_def load_capture_def dict_set_same fun_upd_idem)
  ultimately show ?thesis by (simp add: execute_entry_def captured_def)
qed

lemma skip_all:
  assumes "list_all (capture_ready errors_of (es_files st)) entries" "sa_skip_existing args"
  shows "\<exists>st'. rfoldM (execute_entry errors_of proc args) st entries = Inr st' \<and> es_files st' = es_files st \<and>
    es_attempted st' = es_attempted st \<and> es_skipped st' = es_skipped st + int (length entries) \<and>
    es_paths st' = es_paths st @ map cmd_output entries"
  using assms
proof (induction entries arbitrary: st)
  case (Cons entry rest)
  from Cons.prems have "capture_ready errors_of (es_files st) entry" by simp
  from skip_ready [OF this Cons.prems(2)] obtain s where
      s: "execute_entry errors_of proc args st entry = Inr s" "es_files s = es_files st"
      "es_attempted s = es_attempted st" "es_skipped s = es_skipped st + 1"
      "es_paths s = es_paths st @ [cmd_output entry]"
    by blast
  with Cons.IH [of s] Cons.prems show ?case by auto
qed simp


section \<open>Examples\<close>

text \<open>An empty directory, a benchmark that succeeds and a validator that accepts.\<close>

definition example_entries :: "sweep_command list" where
  "example_entries =
     [\<lparr>cmd_name = ''a-cpu.json'', cmd_command = [''bench'', ''--backend'', ''cpu''],
       cmd_output = path_of ''out/a-cpu.json'', cmd_scenario = Some [(''family'', PStr ''a'')], cmd_env = None\<rparr>,
      \<lparr>cmd_name = ''b-cpu.json'', cmd_command = [''bench'', ''--backend'', ''cpu''],
       cmd_output = path_of ''out/b-cpu.json'', cmd_scenario = Some [(''family'', PStr ''b'')], cmd_env = None\<rparr>]"

definition example_proc :: "nat \<Rightarrow> string list \<Rightarrow> process_end" where
  "example_proc n command =
     Exited 0 [] [] (FFin 1) (Parsed (PDict [(''schema_version'', PInt 4), (''k'', PInt (int n))]))"

definition example_validator :: validator where
  "example_validator data p = Inr []"

definition example_run :: "exec_state res" where
  "example_run = execute_sweep_entries example_validator example_proc default_args (\<lambda>p. Missing) []
     example_entries"

text \<open>The second entry has the command of the first and is copied.\<close>

lemma example_run_stats:
  "(case example_run of Inl _ \<Rightarrow> None
    | Inr st \<Rightarrow> Some (es_attempted st, es_completed st, es_deduped st, es_deferred st,
        map path_str (es_paths st), es_files st (path_of ''out/b-cpu.json''))) =
   Some (1, 1, 1, 0, [''out/a-cpu.json'', ''out/b-cpu.json''],
     Parsed (PDict [(''schema_version'', PInt 4), (''k'', PInt 0),
       (''scenario_metadata'', PDict [(''family'', PStr ''b'')])]))"
  by code_simp

lemma example_run_Inr: "\<exists>st. example_run = Inr st \<and> missed st = 0"
  using example_run_stats by (auto simp: missed_def split: sum.splits)

lemma execution_accounting_witness:
  "\<exists>st. example_run = Inr st \<and> es_skipped st + es_deduped st + es_deferred st + es_attempted st = 2"
proof -
  obtain st where "example_run = Inr st" using example_run_Inr by blast
  with execution_accounting [of example_validator example_proc default_args "\<lambda>p. Missing" "[]" example_entries st]
  show ?thesis by (simp add: example_run_def example_entries_def)
qed


section \<open>What the loop shares\<close>

lemma dedupe_key_command:
  "cpu_reference_dedupe_key entry = Some key \<Longrightarrow> fst key = cmd_command entry"
  by (auto simp: cpu_reference_dedupe_key_def Let_def split: if_splits)


text \<open>The entry of one command under given arguments.\<close>

definition cpu_entry :: "sweep_args \<Rightarrow> sweep_command" where
  "cpu_entry args = \<lparr>cmd_name = ''c'', cmd_command = command_for (path_of ''bench'') ''cpu'' ''bounded-i64'' case64
     None None args False, cmd_output = path_join (sa_out_root args) ''c'', cmd_scenario = None, cmd_env = None\<rparr>"

lemma cpu_entry_command:
  "cmd_command (cpu_entry args) =
   command_for (path_of ''bench'') ''cpu'' ''bounded-i64'' case64 None None args False"
  by (simp add: cpu_entry_def)


end
