(* ===== verification/Sweep_Lint.thy ===== *)
theory Sweep_Lint
  imports Sweep_Scenarios
begin

text \<open>
  \<open>tools/benchmark_sweep_lib/scenario_lint.py\<close>: the advisory checks on a loaded catalog. Each
  check of the loop body is a list of zero or more messages; their concatenation, item by item, is
  the list the code appends to.
\<close>

definition RELEASE_REVIEW_SCOPES :: "string list" where
  "RELEASE_REVIEW_SCOPES = [''release_review_candidate'', ''execution_path_evidence'']"

definition VALID_OUTPUT_DOMAINS :: "string list" where
  "VALID_OUTPUT_DOMAINS =
     [''host_export'', ''exact_wide_limb_host'', ''finite_u8_canonical_host'',
      ''finite_u8_canonical_host_export'', ''wrap64_host'', ''low64_wrap_u64_host_output'',
      ''residue_current_rns'', ''rns_residue_current'', ''residue_current_then_final_export'',
      ''residue_current_then_final_limb_export'', ''native_i64_u64_host'', ''native_i64_u64_current'',
      ''native_i64_host_output'', ''native_u64_host'', ''native_u64_host_output'',
      ''exact_wide_signed_limbs'', ''exact_wide_unsigned_limbs'']"

definition CHAIN_FAMILIES :: "string list" where
  "CHAIN_FAMILIES =
     [''rns-chain'', ''rns-chain-final-output'', ''rns-chain-final-output-broader'',
      ''fhe-lattice-proxies'', ''fhe-lattice-proxy-starfoundry'', ''exact-wide-output-chain'',
      ''exact-wide-output-chain-broader'', ''direct-hip-reuse-expansion'', ''residue-channel-fusion'']"

definition GRAPH_ONLY_FAMILIES :: "string list" where
  "GRAPH_ONLY_FAMILIES = [''hip-graph-replay'']"

definition REUSE_ONLY_FAMILIES :: "string list" where
  "REUSE_ONLY_FAMILIES =
     [''repeated-b'', ''reuse-contract'', ''direct-hip-reuse-expansion'', ''exact-wide-output-chain'',
      ''exact-wide-output-chain-broader'', ''hip-graph-replay'', ''fhe-lattice-proxies'',
      ''fhe-lattice-proxy-starfoundry'', ''resident-lifetime-arena'']"

definition when_msg :: "bool \<Rightarrow> string \<Rightarrow> string list" where
  "when_msg c t = (if c then [t] else [])"

definition release_review_error :: "string \<Rightarrow> scenario_item \<Rightarrow> string list" where
  "release_review_error label item =
     when_msg (si_promotion_eligibility item \<in> set RELEASE_REVIEW_SCOPES \<and>
         si_review_mode_expectation item \<notin> {''release'', ''release-or-smoke''})
       (label @ '': promotion_eligibility='' @ si_promotion_eligibility item @
        '' requires review_mode_expectation=release, got '' @ si_review_mode_expectation item)"

definition output_domain_error :: "string \<Rightarrow> scenario_item \<Rightarrow> string list" where
  "output_domain_error label item =
     when_msg (si_output_domain item \<notin> set VALID_OUTPUT_DOMAINS)
       (label @ '': unregistered output_domain='' @ si_output_domain item)"

definition next_op_error :: "string \<Rightarrow> scenario_item \<Rightarrow> string list" where
  "next_op_error label item =
     when_msg (si_output_domain item \<in> {''residue_current_rns'', ''rns_residue_current'',
           ''residue_current_then_final_export'', ''residue_current_then_final_limb_export''} \<and>
         si_next_op_hint item = None \<and> si_family item \<notin> set CHAIN_FAMILIES)
       (label @ '': residue_current_rns output requires next_op_hint'')"

text \<open>A sibling with the same semantics and shape that satisfies \<open>P\<close>.\<close>

definition has_baseline ::
  "(scenario_item \<Rightarrow> bool) \<Rightarrow> scenario_item \<Rightarrow> scenario_item list \<Rightarrow> bool" where
  "has_baseline P item items \<longleftrightarrow>
     list_ex (\<lambda>other. si_name other \<noteq> si_name item \<and> P other \<and>
       si_semantics other = si_semantics item \<and> si_case other = si_case item) items"

definition graph_baseline_error :: "string \<Rightarrow> scenario_item list \<Rightarrow> scenario_item \<Rightarrow> string list" where
  "graph_baseline_error label items item =
     when_msg (si_hip_graph_replay item \<and> si_family item \<notin> set GRAPH_ONLY_FAMILIES \<and>
         \<not> has_baseline (\<lambda>other. \<not> si_hip_graph_replay other) item items)
       (label @ '': hip_graph_replay requires a non-graph baseline '' @
        ''in the same scenario family with matching semantics/shape'')"

definition reuse_baseline_error :: "string \<Rightarrow> scenario_item list \<Rightarrow> scenario_item \<Rightarrow> string list" where
  "reuse_baseline_error label items item =
     when_msg (si_pack_mode item \<in> {''prepacked_reuse'', ''prepacked_reuse_a'', ''prepacked_reuse_b''} \<and>
         si_family item \<notin> set REUSE_ONLY_FAMILIES \<and>
         \<not> has_baseline (\<lambda>other. si_pack_mode other = ''per_repeat_repack'') item items)
       (label @ '': prepacked_reuse requires a per_repeat_repack baseline '' @
        ''in the same scenario family with matching semantics/shape'')"

definition supported_backends :: "string \<Rightarrow> string list" where
  "supported_backends semantics =
     (if semantics \<in> {''bounded-i64'', ''bounded-u64''} then BOUNDED_BACKENDS @ [''auto'']
      else if semantics \<in> {''exact-wide-signed'', ''exact-wide-unsigned''}
      then EXACT_WIDE_BACKENDS @ [''auto'']
      else if semantics \<in> {''finite-u8-ring'', ''finite-u8-field''} then FINITE_BACKENDS @ [''auto'']
      else if semantics = ''wrap-u64'' then WRAP64_BACKENDS @ [''auto'']
      else [])"

definition backend_errors :: "string \<Rightarrow> scenario_item \<Rightarrow> string list" where
  "backend_errors label item =
     concat (map (\<lambda>backend.
       when_msg (\<not> list_ex (eq_str backend) (supported_backends (si_semantics item)))
         (label @ '': backend='' @ py_str backend @ '' not supported for semantics='' @
          si_semantics item)) (item_backends item))"

definition prefix_range_error :: "string \<Rightarrow> scenario_item \<Rightarrow> string list" where
  "prefix_range_error label item =
     (case si_max_prefix item of
        None \<Rightarrow> []
      | Some p \<Rightarrow> when_msg (si_prefix_policy item = Some ''fixed-requested'' \<and> (p < 1 \<or> 28 < p))
          (label @ '': max_prefix='' @ show_int p @ '' out of valid range 1..28''))"

definition lint_item :: "string \<Rightarrow> scenario_item list \<Rightarrow> scenario_item \<Rightarrow> string list" where
  "lint_item family items item =
     (let label = family @ ''/'' @ si_name item in
      release_review_error label item @ output_domain_error label item @ next_op_error label item @
      graph_baseline_error label items item @ reuse_baseline_error label items item @
      backend_errors label item @ prefix_range_error label item)"

definition lint_catalog :: "(string \<times> scenario_item list) list \<Rightarrow> string list" where
  "lint_catalog catalog =
     concat (map (\<lambda>(family, items). concat (map (lint_item family items) items)) catalog)"

definition validate_scenario_catalog ::
  "string \<Rightarrow> (string \<times> json_file) list \<Rightarrow> string list res" where
  "validate_scenario_catalog directory files =
     rbind (load_scenario_data_catalog directory files) (\<lambda>catalog. Inr (lint_catalog catalog))"

section \<open>What a clean report means\<close>

lemma when_msg_Nil [simp]: "when_msg c t = [] \<longleftrightarrow> \<not> c"
  by (simp add: when_msg_def)

lemma lint_item_clean:
  "lint_item family items item = [] \<longleftrightarrow>
     release_review_error l item = [] \<and> output_domain_error l item = [] \<and> next_op_error l item = [] \<and>
     graph_baseline_error l items item = [] \<and> reuse_baseline_error l items item = [] \<and>
     backend_errors l item = [] \<and> prefix_range_error l item = []"
  by (auto simp: lint_item_def Let_def release_review_error_def output_domain_error_def
      next_op_error_def graph_baseline_error_def reuse_baseline_error_def backend_errors_def
      prefix_range_error_def split: option.splits)

lemma backend_errors_Nil:
  "backend_errors label item = [] \<longleftrightarrow>
     (\<forall>b \<in> set (item_backends item). \<exists>s \<in> set (supported_backends (si_semantics item)). b = PStr s)"
  by (auto simp: backend_errors_def list_ex_iff eq_str_iff)

lemma prefix_range_Nil:
  "prefix_range_error label item = [] \<longleftrightarrow>
     (si_prefix_policy item = Some ''fixed-requested'' \<longrightarrow>
        (\<forall>p. si_max_prefix item = Some p \<longrightarrow> 1 \<le> p \<and> p \<le> 28))"
  by (auto simp: prefix_range_error_def not_less split: option.splits)

definition lint_clean_item :: "scenario_item list \<Rightarrow> scenario_item \<Rightarrow> bool" where
  "lint_clean_item items item \<longleftrightarrow>
     (si_promotion_eligibility item \<in> set RELEASE_REVIEW_SCOPES \<longrightarrow>
        si_review_mode_expectation item = ''release'') \<and>
     si_output_domain item \<in> set VALID_OUTPUT_DOMAINS \<and>
     (si_hip_graph_replay item \<longrightarrow> si_family item \<in> set GRAPH_ONLY_FAMILIES \<or>
        (\<exists>other \<in> set items. \<not> si_hip_graph_replay other \<and> si_semantics other = si_semantics item \<and>
           si_case other = si_case item)) \<and>
     (\<forall>b \<in> set (item_backends item). \<exists>s \<in> set (supported_backends (si_semantics item)). b = PStr s) \<and>
     (si_prefix_policy item = Some ''fixed-requested'' \<longrightarrow>
        (\<forall>p. si_max_prefix item = Some p \<longrightarrow> 1 \<le> p \<and> p \<le> 28))"

lemma lint_clean_itemI:
  assumes "lint_item family items item = []"
    and "si_review_mode_expectation item \<in> set SCENARIO_REVIEW_MODES"
  shows "lint_clean_item items item"
proof -
  note parts = assms(1) [unfolded lint_item_clean [where l = "[]"] backend_errors_Nil prefix_range_Nil]
  from parts assms(2) have "si_promotion_eligibility item \<in> set RELEASE_REVIEW_SCOPES \<longrightarrow>
      si_review_mode_expectation item = ''release''"
    by (auto simp: release_review_error_def SCENARIO_REVIEW_MODES_def)
  moreover from parts have "si_output_domain item \<in> set VALID_OUTPUT_DOMAINS"
    by (simp add: output_domain_error_def)
  moreover from parts have "si_hip_graph_replay item \<longrightarrow> si_family item \<in> set GRAPH_ONLY_FAMILIES \<or>
      (\<exists>other \<in> set items. \<not> si_hip_graph_replay other \<and> si_semantics other = si_semantics item \<and>
         si_case other = si_case item)"
    by (auto simp: graph_baseline_error_def has_baseline_def list_ex_iff)
  ultimately show ?thesis using parts by (simp add: lint_clean_item_def)
qed

lemma sample_lints_clean:
  "\<exists>catalog. load_scenario_data_catalog ''d'' [(''f'', sample_file)] = Inr catalog \<and>
     lint_catalog catalog = [] \<and> catalog \<noteq> []"
proof -
  have "case load_scenario_data_catalog ''d'' [(''f'', sample_file)] of Inl _ \<Rightarrow> False
      | Inr catalog \<Rightarrow> lint_catalog catalog = [] \<and> catalog \<noteq> []"
    by code_simp
  then show ?thesis by (auto split: sum.splits)
qed

section \<open>Properties\<close>

text \<open>an empty lint report certifies the catalog: every item of every family satisfies the
  loader's invariant and the lint's own rules (release scopes are reviewed in release mode, the
  output domain is registered, a graph replay has a plain sibling of the same semantics and shape,
  every backend is one its semantics supports, a fixed prefix lies in 1..28).\<close>

theorem clean_lint_certifies:
  assumes "validate_scenario_catalog directory files = Inr []"
  shows "\<exists>catalog. load_scenario_data_catalog directory files = Inr catalog \<and>
           list_all (\<lambda>(family, items). list_all (\<lambda>item. item_ok item \<and> lint_clean_item items item) items)
             catalog"
proof -
  from assms obtain catalog where load: "load_scenario_data_catalog directory files = Inr catalog"
    and clean: "lint_catalog catalog = []"
    by (auto simp: validate_scenario_catalog_def rbind_eq_Inr)
  from load have ok: "catalog_ok catalog"
    unfolding load_scenario_data_catalog_def rbind_eq_Inr raise_if_eq_Inr
    by (elim exE conjE) (simp add: catalog_loop_ok)
  have "item_ok item \<and> lint_clean_item items item"
    if "(family, items) \<in> set catalog" "item \<in> set items" for family items item
  proof -
    from ok that have "item_ok item" by (auto simp: catalog_ok_def list_all_iff)
    moreover from clean that have "lint_item family items item = []"
      by (auto simp: lint_catalog_def)
    ultimately show ?thesis
      by (auto intro!: lint_clean_itemI simp: item_ok_def names_ok_def)
  qed
  with load show ?thesis by (auto simp: list_all_iff)
qed

theorem clean_lint_certifies_witness:
  "\<exists>catalog. load_scenario_data_catalog ''d'' [(''f'', sample_file)] = Inr catalog \<and>
     list_all (\<lambda>(family, items). list_all (\<lambda>item. item_ok item \<and> lint_clean_item items item) items)
       catalog"
proof (rule clean_lint_certifies)
  show "validate_scenario_catalog ''d'' [(''f'', sample_file)] = Inr []"
    using sample_lints_clean by (auto simp: validate_scenario_catalog_def)
qed

end
