(* ===== verification/Sweep_Cli.thy ===== *)
theory Sweep_Cli
  imports Sweep_Plan Sweep_Exec Sweep_Lint
begin

text \<open>
  \<open>tools/benchmark_sweep_lib/cli.py\<close> and the scenario manifest of \<open>reports.py\<close>: what a sweep writes
  before anything runs. The release preflight, the command plan, the manifest of scenario captures,
  and the outcomes of \<open>--list-scenarios\<close>, \<open>--lint-scenarios\<close> and \<open>--dry-run\<close>.

  A document that is written is a pair of a path and its content; a JSON document is its value
  before printing. The clock of the manifest is the argument \<open>now\<close>, and what lies below a directory
  is the argument \<open>json_below\<close>.
\<close>

section \<open>Capture discovery\<close>

text \<open>\<open>dict.fromkeys\<close> keeps the first occurrence of each path.\<close>

definition SKIP_JSON_NAMES :: "string list" where
  "SKIP_JSON_NAMES =
     [''review_report.json'', ''scenario_manifest.json'', ''autotune.json'', ''autotune-cache.json'',
      ''evidence_database.json'']"

definition is_skipped_json_candidate :: "path \<Rightarrow> bool" where
  "is_skipped_json_candidate p \<longleftrightarrow>
     (let name = path_name p in
      name \<in> set SKIP_JSON_NAMES \<or> ends_with ''.failed.json'' name \<or>
      ends_with ''autotune-cache.json'' name \<or> ends_with ''-isa-summary.json'' name)"

definition discover_capture_paths :: "(path \<Rightarrow> path list option) \<Rightarrow> path list \<Rightarrow> path list" where
  "discover_capture_paths json_below paths =
     unique (concat (map (\<lambda>p. case json_below p of
        Some candidates \<Rightarrow> filter (\<lambda>c. \<not> is_skipped_json_candidate c) candidates
      | None \<Rightarrow> [p]) paths))"

text \<open>\<open>captures\<close> and \<open>roots\<close> are the values of \<open>--capture\<close> and \<open>--capture-root\<close>.\<close>

definition review_capture_paths ::
  "(path \<Rightarrow> path list option) \<Rightarrow> (path \<Rightarrow> bool) \<Rightarrow> sweep_args \<Rightarrow> path list \<Rightarrow> path list \<Rightarrow> path list" where
  "review_capture_paths json_below exists args captures roots =
     (let paths = captures @ (if roots = [] then [] else discover_capture_paths json_below roots);
          default_root = path_join (sa_out_root args) ''scenarios'';
          more = (if sa_review_only args \<and> paths = [] \<and> exists default_root
                  then discover_capture_paths json_below [default_root] else [])
      in unique (paths @ more))"

section \<open>The release preflight\<close>

definition is_release_candidate :: "sweep_command \<Rightarrow> bool" where
  "is_release_candidate entry \<longleftrightarrow>
     (case cmd_scenario entry of None \<Rightarrow> False
      | Some scenario \<Rightarrow> eq_str (dget scenario ''promotion_eligibility'') ''release_review_candidate'')"

definition mode_warning :: "sweep_args \<Rightarrow> int \<Rightarrow> pydict list" where
  "mode_warning args count =
     (if sa_review_mode args \<noteq> ''release''
      then [[(''code'', PStr ''review_mode_not_release''), (''current'', PStr (sa_review_mode args)),
        (''expected'', PStr ''release''), (''affected_captures'', PInt count),
        (''detail'', PStr ''release-candidate captures cannot promote unless reviewed with --review-mode release'')]]
      else [])"

definition count_warning :: "string \<Rightarrow> int \<Rightarrow> int \<Rightarrow> int \<Rightarrow> string \<Rightarrow> pydict list" where
  "count_warning warning_code current minimum count detail =
     (if current < minimum
      then [[(''code'', PStr warning_code), (''current'', PInt current), (''minimum'', PInt minimum),
        (''affected_captures'', PInt count), (''detail'', PStr detail)]]
      else [])"

definition release_warnings :: "sweep_args \<Rightarrow> int \<Rightarrow> pydict list" where
  "release_warnings args count =
     mode_warning args count @
     count_warning ''warmups_below_release_minimum'' (sa_warmups args) RELEASE_MIN_WARMUPS count
       ''release-candidate captures need at least the release warmup count'' @
     count_warning ''repeats_below_release_minimum'' (sa_repeats args) RELEASE_MIN_REPEATS count
       ''release-candidate captures need at least the release repeat count''"

definition release_preflight_readiness :: "sweep_args \<Rightarrow> sweep_command list \<Rightarrow> pydict" where
  "release_preflight_readiness args entries =
     (let count = int (length (filter is_release_candidate entries)) in
      if count = 0
      then [(''release_candidate_captures'', PInt 0), (''release_ready'', PBool True),
            (''warnings'', PList [])]
      else let warnings = release_warnings args count in
           [(''release_candidate_captures'', PInt count), (''release_ready'', PBool (warnings = [])),
            (''warnings'', PList (map PDict warnings))])"

section \<open>The command plan\<close>

definition opt_dict :: "pydict option \<Rightarrow> pyval" where
  "opt_dict v = (case v of None \<Rightarrow> PNone | Some d \<Rightarrow> PDict d)"

definition plan_entry :: "sweep_command \<Rightarrow> pyval" where
  "plan_entry entry = PDict
     [(''name'', PStr (cmd_name entry)), (''output'', PStr (path_str (cmd_output entry))),
      (''command'', PList (map PStr (cmd_command entry))), (''environment'', env_json (cmd_env entry)),
      (''scenario'', opt_dict (cmd_scenario entry))]"

definition command_plan :: "sweep_command list \<Rightarrow> pydict option \<Rightarrow> pydict" where
  "command_plan entries readiness =
     [(''schema_version'', PInt 1), (''capture_count'', PInt (int (length entries))),
      (''entries'', PList (map plan_entry entries))] @
     (case readiness of None \<Rightarrow> [] | Some r \<Rightarrow> [(''release_readiness'', PDict r)])"

definition warning_line :: "pyval \<Rightarrow> string list" where
  "warning_line warning =
     (case warning of
        PDict d \<Rightarrow> [''# - '' @ py_str (dget_or d ''code'' (PStr ''release_warning'')) @ '': '' @
          py_str (dget_or d ''detail'' (PStr []))]
      | _ \<Rightarrow> [])"

definition env_text :: "(string \<times> string) list option \<Rightarrow> string" where
  "env_text env =
     (case env of None \<Rightarrow> []
      | Some e \<Rightarrow> if e = [] then []
          else join_with '' '' (map (\<lambda>(k, v). k @ CHR ''='' # v) (sort_key fst e)) @ '' '')"

definition plan_line :: "sweep_command \<Rightarrow> string" where
  "plan_line entry =
     CHR ''['' # cmd_name entry @ ''] '' @ env_text (cmd_env entry) @ join_with '' '' (cmd_command entry) @
     '' > '' @ path_str (cmd_output entry)"

definition command_plan_lines :: "sweep_command list \<Rightarrow> pydict option \<Rightarrow> string list" where
  "command_plan_lines entries readiness =
     (case readiness of None \<Rightarrow> []
      | Some r \<Rightarrow> (let warnings = dget r ''warnings'' in
          if truthy warnings
          then ''# RELEASE PREFLIGHT WARNINGS'' # concat (map warning_line (elems_of warnings)) @ [[]]
          else [])) @
     map plan_line entries"

definition newline :: string where
  "newline = [CHR 10]"

datatype document = Json pydict | Text string

definition write_command_plan ::
  "sweep_command list \<Rightarrow> path \<Rightarrow> pydict option \<Rightarrow> pydict \<times> (path \<times> document) list" where
  "write_command_plan entries out_root readiness =
     (let json_path = path_join out_root ''command_plan.json'';
          text_path = path_join out_root ''command_plan.txt'';
          lines = command_plan_lines entries readiness
      in ([(''command_plan'', PStr (path_str json_path)), (''command_plan_text'', PStr (path_str text_path))],
          [(json_path, Json (command_plan entries readiness)),
           (text_path, Text (join_with newline lines @ (if lines = [] then [] else newline)))]))"

section \<open>The scenario manifest\<close>

definition scenario_entries :: "sweep_command list \<Rightarrow> (sweep_command \<times> pydict) list" where
  "scenario_entries entries =
     concat (map (\<lambda>e. case cmd_scenario e of None \<Rightarrow> [] | Some s \<Rightarrow> [(e, s)]) entries)"

definition manifest_entry :: "sweep_command \<Rightarrow> pydict \<Rightarrow> pydict" where
  "manifest_entry entry scenario =
     dict_set ''command'' (PList (map PStr (cmd_command entry)))
       (dict_set ''capture_path'' (PStr (path_str (cmd_output entry)))
         (dict_set ''capture_name'' (PStr (cmd_name entry)) scenario))"

definition scenario_families :: "(sweep_command \<times> pydict) list \<Rightarrow> string list res" where
  "scenario_families entries =
     rbind (rmapM (\<lambda>(e, s). rbind (dindex s ''family'') (\<lambda>v. Inr (py_str v)))
       (filter (\<lambda>(e, s). s \<noteq> []) entries)) (\<lambda>names.
     Inr (sorted_set names))"

definition scenario_manifest :: "string \<Rightarrow> sweep_command list \<Rightarrow> sweep_args \<Rightarrow> pydict res" where
  "scenario_manifest now entries args =
     (let selected = scenario_entries entries in
     rbind (scenario_families selected) (\<lambda>families.
     Inr [(''schema_version'', PInt 1), (''generated_utc'', PStr now),
       (''scenario_request'', PList (map PStr (sa_scenario args))),
       (''scenario_families'', PList (map PStr families)),
       (''capture_count'', PInt (int (length selected))),
       (''review_mode'', PStr (sa_review_mode args)), (''warmups'', PInt (sa_warmups args)),
       (''repeats'', PInt (sa_repeats args)), (''seed'', PInt (sa_seed args)),
       (''entries'', PList (map (\<lambda>(e, s). PDict (manifest_entry e s)) selected))]))"

text \<open>The row of one entry; \<open>e[key]\<close> raises \<open>KeyError\<close>.\<close>

definition manifest_row :: "pydict \<Rightarrow> string res" where
  "manifest_row entry =
     rbind (dindex entry ''shape'') (\<lambda>shape.
     rbind (rmapM (dindex entry) [''family'', ''name'', ''semantics'']) (\<lambda>head_cells.
     rbind (rmapM (vindex shape) [''m'', ''n'', ''k'']) (\<lambda>dims.
     rbind (rmapM (dindex entry) [''backend'', ''pack_mode'', ''review_mode_expectation'',
       ''promotion_eligibility'', ''output_domain'', ''evidence_scope'', ''capture_name'']) (\<lambda>tail_cells.
     Inr (''| '' @ join_with '' | '' (map py_str head_cells @ [join_with ''x'' (map py_str dims)] @
       map py_str tail_cells) @ '' |'')))))"

definition write_scenario_manifest ::
  "string \<Rightarrow> sweep_command list \<Rightarrow> sweep_args \<Rightarrow> path \<Rightarrow> (pydict \<times> (path \<times> document) list) option res" where
  "write_scenario_manifest now entries args out_root =
     (if list_all (\<lambda>e. cmd_scenario e = None) entries then Inr None
      else
      rbind (scenario_manifest now entries args) (\<lambda>manifest.
      let selected = scenario_entries entries;
          json_path = path_join out_root ''scenario_manifest.json'';
          markdown_path = path_join out_root ''scenario_manifest.md'';
          item = (\<lambda>label v. ''- '' @ label @ '': `'' @ v @ ''`'');
          families = map str_of (elems_of (dget manifest ''scenario_families''))
      in
      rbind (rmapM (\<lambda>(e, s). manifest_row (manifest_entry e s)) selected) (\<lambda>rows.
      let lines = [''# RNS8 Scenario Benchmark Manifest'', [],
            item ''schema_version'' ''1'', item ''generated_utc'' now,
            item ''scenario_request'' (join_with '','' (sa_scenario args)),
            item ''scenario_families'' (join_with '','' families),
            item ''captures'' (show_int (int (length selected))),
            item ''review_mode'' (sa_review_mode args), item ''warmups'' (show_int (sa_warmups args)),
            item ''repeats'' (show_int (sa_repeats args)), item ''seed'' (show_int (sa_seed args)), [],
            ''| family | item | semantics | shape | backend | pack | review | promotion | output_domain | evidence_scope | capture |'',
            ''|---|---|---|---|---|---|---|---|---|---|---|''] @ rows
      in Inr (Some ([(''scenario_manifest'', PStr (path_str json_path)),
                     (''scenario_markdown'', PStr (path_str markdown_path))],
                    [(json_path, Json manifest), (markdown_path, Text (join_with newline lines @ newline))])))))"

section \<open>The modes without execution\<close>

definition list_scenarios_payload :: "(string \<times> scenario_item list) list \<Rightarrow> pydict" where
  "list_scenarios_payload catalog =
     [(''schema_version'', PInt 1), (''scenarios'', PList (map PStr (scenario_names catalog))),
      (''special_scenarios'', PList [PStr ''all'', PStr ''release-candidates'']),
      (''count'', PInt (int (length (scenario_names catalog))))]"

definition default_bench :: "sweep_args \<Rightarrow> sweep_args" where
  "default_bench args = (if sa_bench args = None then args\<lparr>sa_bench := Some (path_of ''rns8-bench'')\<rparr> else args)"

definition manifest_out ::
  "(pydict \<times> (path \<times> document) list) option \<Rightarrow> pydict \<Rightarrow> (path \<times> document) list \<Rightarrow>
   pydict \<times> (path \<times> document) list" where
  "manifest_out written result documents =
     (case written of None \<Rightarrow> (result, documents)
      | Some (paths, docs) \<Rightarrow> (dict_update result paths, docs @ documents))"

text \<open>\<open>main\<close> under \<open>--dry-run\<close>: what is printed and what is written.\<close>

definition main_dry_run ::
  "string \<Rightarrow> (string \<times> scenario_item list) list res \<Rightarrow> sweep_args \<Rightarrow>
   (pydict \<times> (path \<times> document) list) res" where
  "main_dry_run now catalog_run args0 =
     (let args = default_bench args0 in
     rbind (sweep_command_entries catalog_run args) (\<lambda>entries.
     rbind (write_scenario_manifest now entries args (sa_out_root args)) (\<lambda>manifest.
     let readiness = release_preflight_readiness args entries;
         (plan_paths, plan_docs) = write_command_plan entries (sa_out_root args) (Some readiness);
         result = [(''dry_run'', PBool True), (''planned_captures'', PInt (int (length entries))),
           (''scenario_request'', PList (map PStr (sa_scenario args))),
           (''release_readiness'', PDict readiness)] @ plan_paths
     in Inr (manifest_out manifest result plan_docs))))"

text \<open>\<open>main\<close> under \<open>--lint-scenarios\<close>; \<open>lint_run\<close> is the run of the lint of the catalog directory.\<close>

definition main_lint_scenarios ::
  "string \<Rightarrow> (string \<times> scenario_item list) list res \<Rightarrow> string list res \<Rightarrow> sweep_args \<Rightarrow>
   (pydict \<times> (path \<times> document) list) res" where
  "main_lint_scenarios now catalog_run lint_run args0 =
     (let args = default_bench (if sa_scenario args0 = [] then args0\<lparr>sa_scenario := [''all'']\<rparr> else args0) in
     rbind (sweep_command_entries catalog_run args) (\<lambda>entries.
     rbind (write_scenario_manifest now entries args (sa_out_root args)) (\<lambda>manifest.
     rbind lint_run (\<lambda>lint_errors.
     Inr (manifest_out manifest
       [(''scenario_lint'', PStr (if lint_errors = [] then ''ok'' else ''errors_found'')),
        (''scenario_lint_errors'', PList (map PStr lint_errors)),
        (''scenario_entries'', PInt (int (length entries))),
        (''scenario_request'', PList (map PStr (sa_scenario args)))] [])))))"

text \<open>The captures of a run, executed or only found, validated for the review.\<close>

definition main_captures ::
  "validator \<Rightarrow> (nat \<Rightarrow> string list \<Rightarrow> process_end) \<Rightarrow> (string \<times> scenario_item list) list res \<Rightarrow> sweep_args \<Rightarrow>
   files \<Rightarrow> path list \<Rightarrow> (pydict list \<times> pydict option) res" where
  "main_captures errors_of proc catalog_run args files capture_paths =
     rbind (if sa_review_only args then Inr (files, capture_paths, None)
       else rthen (check (sa_bench args = None) (SystemExit ''--bench is required unless --review-only is used''))
        (rbind (sweep_command_entries catalog_run args) (\<lambda>entries.
         rbind (execute_sweep_entries errors_of proc args files capture_paths entries) (\<lambda>st.
         Inr (es_files st, es_paths st, Some (execution_stats entries st))))))
     (\<lambda>(files', paths, stats).
     rbind (validate_paths errors_of files' paths) (\<lambda>captures.
     Inr (captures, stats)))"

section \<open>The preflight\<close>

text \<open>The preflight calls a plan ready exactly when it has no release candidate, or when the sweep
  runs in release mode with at least the release numbers of warmups and repeats.
\<close>

theorem preflight_ready:
  "dget (release_preflight_readiness args entries) ''release_ready'' =
   PBool (filter is_release_candidate entries = [] \<or>
     (sa_review_mode args = ''release'' \<and> RELEASE_MIN_WARMUPS \<le> sa_warmups args \<and>
      RELEASE_MIN_REPEATS \<le> sa_repeats args))"
  by (auto simp: release_preflight_readiness_def release_warnings_def mode_warning_def count_warning_def
      Let_def dget_def)

section \<open>Scenario metadata suffices for the manifest\<close>

definition manifest_ready :: "pydict \<Rightarrow> bool" where
  "manifest_ready s \<longleftrightarrow>
     list_all (has_key s) [''shape'', ''family'', ''name'', ''semantics'', ''backend'', ''pack_mode'',
       ''review_mode_expectation'', ''promotion_eligibility'', ''output_domain'', ''evidence_scope''] \<and>
     (case dget s ''shape'' of PDict d \<Rightarrow> list_all (has_key d) [''m'', ''n'', ''k''] | _ \<Rightarrow> False)"

lemma scenario_metadata_ready: "manifest_ready (scenario_metadata item b m l args oneshot)"
  by (simp add: manifest_ready_def scenario_metadata_def Let_def has_key_def dget_def)

lemma has_key_dict_set [simp]: "has_key (dict_set k v d) k' \<longleftrightarrow> k' = k \<or> has_key d k'"
  by (simp add: has_key_map_of)

lemma manifest_ready_dict_set: "manifest_ready s \<Longrightarrow> k \<noteq> ''shape'' \<Longrightarrow> manifest_ready (dict_set k v s)"
  by (auto simp: manifest_ready_def)

definition entry_ready :: "sweep_command \<Rightarrow> bool" where
  "entry_ready e \<longleftrightarrow> (case cmd_scenario e of None \<Rightarrow> True | Some s \<Rightarrow> manifest_ready s)"

lemma plan_item_backend_ready:
  assumes "plan_item_backend benches args item m l v = Inr es" "e \<in> set es"
  shows "entry_ready e"
  using assms
  by (auto simp: plan_item_backend_def plan_item_capture_def rbind_eq_Inr Let_def entry_ready_def
      scenario_metadata_ready split: pyval.splits if_splits)

lemma plan_item_loop:
  assumes "plan_item benches args item = Inr es" "e \<in> set es"
  shows "\<exists>backends moduli counts. rbind (rmapM (\<lambda>(modulus, count). rbind
       (rmapM (plan_item_backend benches args item modulus count) backends) (\<lambda>xs. Inr (concat xs)))
     (List.product moduli counts)) (\<lambda>xs. Inr (concat xs)) = Inr es"
proof -
  from assms(1) obtain backends where backends: "scenario_backends_for_item args item = Inr backends"
    by (auto simp: plan_item_def rbind_eq_Inr)
  with assms have "backends \<noteq> []" by (auto simp: plan_item_def)
  with assms(1) backends show ?thesis
    unfolding plan_item_def backends rbind_Inr Let_def
    by (simp only: if_False) (subst (asm) rbind_eq_Inr, blast)
qed

lemma plan_item_ready:
  assumes "plan_item benches args item = Inr es" "e \<in> set es"
  shows "entry_ready e"
proof -
  from plan_item_loop [OF assms] obtain backends moduli counts where
      "rbind (rmapM (\<lambda>(modulus, count). rbind
         (rmapM (plan_item_backend benches args item modulus count) backends) (\<lambda>xs. Inr (concat xs)))
       (List.product moduli counts)) (\<lambda>xs. Inr (concat xs)) = Inr es" by blast
  from rmapM_concat_entry [OF this assms(2)] obtain mc ys where ys: "e \<in> set ys"
      "(case mc of (modulus, count) \<Rightarrow> rbind
         (rmapM (plan_item_backend benches args item modulus count) backends) (\<lambda>xs. Inr (concat xs))) = Inr ys"
    by metis
  obtain modulus count where "mc = (modulus, count)" by (cases mc)
  with ys have "rbind (rmapM (plan_item_backend benches args item modulus count) backends)
      (\<lambda>xs. Inr (concat xs)) = Inr ys" by simp
  from rmapM_concat_entry [OF this ys(1)] show ?thesis using plan_item_backend_ready by metis
qed

lemma scenario_plan_loop:
  assumes "scenario_sweep_command_entries catalog_run args = Inr entries"
  shows "\<exists>benches items. rbind (rmapM (plan_item benches args) items) (\<lambda>xs. Inr (concat xs)) = Inr entries"
  using assms unfolding scenario_sweep_command_entries_def Let_def rthen_eq_Inr rbind_eq_Inr
  by (elim exE conjE) blast

lemma scenario_plan_ready:
  assumes "scenario_sweep_command_entries catalog_run args = Inr entries" "e \<in> set entries"
  shows "entry_ready e"
proof -
  from scenario_plan_loop [OF assms(1)] obtain benches items where
      "rbind (rmapM (plan_item benches args) items) (\<lambda>xs. Inr (concat xs)) = Inr entries" by blast
  from rmapM_concat_entry [OF this assms(2)] show ?thesis using plan_item_ready by metis
qed

lemma default_plan_ready:
  assumes "default_sweep_command_entries args = Inr entries" "e \<in> set entries"
  shows "entry_ready e"
proof -
  from default_entries_semantics [OF assms(1)] obtain benches cases where
      "rbind (rmapM (plan_semantics benches (batch_filter args) cases)
       (requested_semantics (batch_filter args))) (\<lambda>xs. Inr (concat xs)) = Inr entries" by blast
  from rmapM_concat_entry [OF this assms(2)] obtain semantics es where
      es: "plan_semantics benches (batch_filter args) cases semantics = Inr es" "e \<in> set es" by metis
  from plan_semantics_entry [OF es] obtain case0 es' where
      es': "plan_case benches (batch_filter args) semantics case0 = Inr es'" "e \<in> set es'" by metis
  show ?thesis
    by (rule plan_case_entry [OF es'])
      (auto simp: plan_capture_def rbind_eq_Inr Let_def entry_ready_def)
qed

lemma shard_entry_ready: "entry_ready e \<Longrightarrow> entry_ready (shard_entry env s e)"
  by (auto simp: entry_ready_def shard_entry_def Let_def manifest_ready_dict_set split: option.splits)

lemma visibility_ready:
  assumes "list_all entry_ready entries"
  shows "list_all entry_ready (apply_visibility_environment args entries)"
proof -
  have "entry_ready (e\<lparr>cmd_env := env\<rparr>) = entry_ready e" for e env by (simp add: entry_ready_def)
  with assms show ?thesis
    by (auto simp: apply_visibility_environment_def Let_def list_all_iff shard_entry_ready)
qed

lemma planned_ready:
  assumes "sweep_command_entries catalog_run args = Inr entries"
  shows "list_all entry_ready entries"
proof -
  from assms obtain es where es: "(if sa_scenario args \<noteq> [] then scenario_sweep_command_entries catalog_run args
      else default_sweep_command_entries args) = Inr es" "entries = apply_visibility_environment args es"
    unfolding sweep_command_entries_def by (auto simp: rbind_eq_Inr)
  then have "list_all entry_ready es"
    using scenario_plan_ready default_plan_ready by (auto simp: list_all_iff split: if_splits)
  with es(2) show ?thesis using visibility_ready by simp
qed

lemma rmapM_keys: "list_all (has_key d) ks \<Longrightarrow> \<exists>vs. rmapM (dindex d) ks = Inr vs"
  by (rule rmapM_total) (auto simp: list_all_iff dindex_has_key)

lemma manifest_row_total:
  assumes "manifest_ready s"
  shows "\<exists>row. manifest_row (manifest_entry e s) = Inr row"
proof -
  let ?d = "manifest_entry e s"
  have keys: "has_key ?d k" if "k = ''capture_name'' \<or> has_key s k" for k
    using that by (simp add: manifest_entry_def)
  from assms obtain sd where shape: "dindex ?d ''shape'' = Inr (PDict sd)" "list_all (has_key sd) [''m'', ''n'', ''k'']"
    by (auto simp: manifest_ready_def manifest_entry_def dindex_eq_Inr dget_def
        split: pyval.splits option.splits)
  then have "\<exists>vs. rmapM (vindex (PDict sd)) [''m'', ''n'', ''k''] = Inr vs"
    using rmapM_keys [OF shape(2)] by (simp add: vindex_def [abs_def])
  moreover have "\<exists>vs. rmapM (dindex ?d) [''family'', ''name'', ''semantics''] = Inr vs"
    "\<exists>vs. rmapM (dindex ?d) [''backend'', ''pack_mode'', ''review_mode_expectation'',
       ''promotion_eligibility'', ''output_domain'', ''evidence_scope'', ''capture_name''] = Inr vs"
    by (rule rmapM_keys, use assms in \<open>simp add: manifest_ready_def keys\<close>)+
  ultimately show ?thesis using shape(1) by (auto simp: manifest_row_def)
qed

lemma scenario_families_total:
  assumes "list_all (\<lambda>(e, s). manifest_ready s) es"
  shows "\<exists>families. scenario_families es = Inr families"
proof -
  have "\<exists>names. rmapM (\<lambda>(e, s). rbind (dindex s ''family'') (\<lambda>v. Inr (py_str v)))
      (filter (\<lambda>(e, s). s \<noteq> []) es) = Inr names"
    using assms
    by (intro rmapM_total) (fastforce simp: list_all_iff manifest_ready_def dest!: dindex_has_key [of _ "''family''"])
  then show ?thesis by (auto simp: scenario_families_def)
qed

lemma scenario_entries_ready:
  "list_all entry_ready entries \<Longrightarrow> list_all (\<lambda>(e, s). manifest_ready s) (scenario_entries entries)"
  by (auto simp: scenario_entries_def list_all_iff entry_ready_def split: option.splits)

lemma write_scenario_manifest_total:
  assumes "list_all entry_ready entries"
  shows "\<exists>written. write_scenario_manifest now entries args out_root = Inr written"
proof -
  note ready = scenario_entries_ready [OF assms]
  from scenario_families_total [OF ready] obtain manifest where
      manifest: "scenario_manifest now entries args = Inr manifest"
    by (auto simp: scenario_manifest_def Let_def)
  have "\<exists>rows. rmapM (\<lambda>(e, s). manifest_row (manifest_entry e s)) (scenario_entries entries) = Inr rows"
    using ready by (intro rmapM_total) (auto simp: list_all_iff intro: manifest_row_total)
  with manifest show ?thesis by (auto simp: write_scenario_manifest_def Let_def)
qed

section \<open>The dry run\<close>

text \<open>a dry run succeeds whenever planning does. It prints the number of planned captures, and the
  command plan it writes lists every planned entry with its command, in order.
\<close>

theorem dry_run_total:
  assumes "sweep_command_entries catalog_run (default_bench args) = Inr entries"
  shows "\<exists>result documents plan. main_dry_run now catalog_run args = Inr (result, documents) \<and>
    (path_join (sa_out_root args) ''command_plan.json'', Json plan) \<in> set documents \<and>
    dget plan ''capture_count'' = PInt (int (length entries)) \<and>
    dget plan ''entries'' = PList (map plan_entry entries)"
proof -
  have root: "sa_out_root (default_bench args) = sa_out_root args" by (simp add: default_bench_def)
  from write_scenario_manifest_total [OF planned_ready [OF assms]] obtain written where
      written: "write_scenario_manifest now entries (default_bench args) (sa_out_root args) = Inr written"
    by blast
  let ?readiness = "release_preflight_readiness (default_bench args) entries"
  let ?plan = "command_plan entries (Some ?readiness)"
  have plan: "dget ?plan ''capture_count'' = PInt (int (length entries)) \<and>
      dget ?plan ''entries'' = PList (map plan_entry entries)"
    by (simp add: command_plan_def dget_def)
  have docs: "(path_join (sa_out_root args) ''command_plan.json'', Json ?plan) \<in>
      set (snd (manifest_out written r (snd (write_command_plan entries (sa_out_root args) (Some ?readiness)))))" for r
    by (simp add: manifest_out_def write_command_plan_def Let_def split: option.split prod.split)
  have "\<exists>r. main_dry_run now catalog_run args = Inr (manifest_out written r
      (snd (write_command_plan entries (sa_out_root args) (Some ?readiness))))"
    unfolding main_dry_run_def Let_def assms rbind_Inr root written split_beta by blast
  then obtain r where "main_dry_run now catalog_run args = Inr (manifest_out written r
      (snd (write_command_plan entries (sa_out_root args) (Some ?readiness))))" by blast
  with docs [of r] plan show ?thesis by (metis prod.collapse)
qed

lemma dry_run_total_witness:
  "\<exists>result documents. main_dry_run ''now'' (Inr []) example_args = Inr (result, documents)"
proof -
  have bench: "default_bench example_args = example_args"
    by (simp add: default_bench_def example_args_def)
  obtain entries where "default_sweep_command_entries example_args = Inr entries"
    using entry_names_Inr example_plan by (metis list.discI)
  then have "sweep_command_entries (Inr []) (default_bench example_args) =
      Inr (apply_visibility_environment example_args entries)"
    unfolding bench by (simp add: sweep_command_entries_def) (simp add: example_args_def default_args_def)
  from dry_run_total [OF this, of "''now''"] show ?thesis by blast
qed

section \<open>Discovery\<close>

text \<open>
  of the JSON documents a sweep writes into its output root, discovery below that root skips
  the scenario manifest and the review report, but takes the command plan for a capture.
\<close>

theorem command_plan_discovered:
  "is_skipped_json_candidate (path_join out_root ''scenario_manifest.json'') \<and>
   is_skipped_json_candidate (path_join out_root ''review_report.json'') \<and>
   \<not> is_skipped_json_candidate (path_join out_root ''command_plan.json'')"
proof -
  have "plain_name ''scenario_manifest.json''" "plain_name ''review_report.json''" "plain_name ''command_plan.json''"
    by code_simp+
  then show ?thesis
    by (simp add: is_skipped_json_candidate_def path_name_join SKIP_JSON_NAMES_def) code_simp
qed

end
