(* ===== verification/Capture_Metadata.thy ===== *)
theory Capture_Metadata
  imports Sweep_Exec
begin

text \<open>
  \<open>tools/benchmark_sweep_lib/capture_metadata.py\<close>: what the review reads off a capture, the JSON
  document of one benchmark run. The contract key groups the captures that may be compared, the
  backend id names the route that was measured, and the source metadata says where it was measured.

  A capture is a dict whose fields may have any type: a field that is absent or of another type than
  expected falls back as the code does, and a value that cannot be hashed raises \<open>TypeError\<close>.
\<close>

section \<open>Fields\<close>

definition PLACEHOLDER_TARGET_IDS :: "string list" where
  "PLACEHOLDER_TARGET_IDS = PLACEHOLDER_GPU_TARGET_IDS"

text \<open>\<open>x if isinstance(x, dict) else {}\<close>.\<close>

definition dict_or_empty :: "pyval \<Rightarrow> pydict" where
  "dict_or_empty v = (case v of PDict d \<Rightarrow> d | _ \<Rightarrow> [])"

definition capture_backend_metadata :: "pydict \<Rightarrow> pydict" where
  "capture_backend_metadata capture = dict_or_empty (dget capture ''backend_metadata'')"

definition capture_timing_metadata :: "pydict \<Rightarrow> pydict" where
  "capture_timing_metadata capture = dict_or_empty (dget capture ''timing_metadata'')"

definition capture_device :: "pydict \<Rightarrow> pydict" where
  "capture_device capture = dict_or_empty (dget capture ''device'')"

definition capture_hip_toolchain :: "pydict \<Rightarrow> pydict" where
  "capture_hip_toolchain capture = dict_or_empty (dget capture ''hip_toolchain'')"

definition capture_compiler :: "pydict \<Rightarrow> pydict" where
  "capture_compiler capture = dict_or_empty (dget capture ''compiler'')"

definition capture_scenario_identity :: "pydict \<Rightarrow> string" where
  "capture_scenario_identity capture =
     (case dget capture ''scenario_metadata'' of
        PDict scenario \<Rightarrow>
          (let workflow = vget (dget scenario ''metadata'') ''workflow_name'' in
           join_with '';''
             [''family='' @ py_str (dget scenario ''family''),
              ''name='' @ py_str (dget scenario ''name''),
              ''promotion='' @ py_str (dget scenario ''promotion_eligibility''),
              ''output_domain='' @ py_str (dget scenario ''output_domain''),
              ''workflow='' @ py_str workflow,
              ''evidence_scope='' @ py_str (dget scenario ''evidence_scope'')])
      | _ \<Rightarrow> ''unspecified'')"

definition capture_checksum_policy :: "pydict \<Rightarrow> string" where
  "capture_checksum_policy capture =
     (case vget (vget (dget capture ''grouped_dispatch'') ''task_descriptor_contract'') ''checksum_policy'' of
        PStr s \<Rightarrow> s
      | _ \<Rightarrow> (case vget (dget capture ''host_api_batch'') ''checksum_policy'' of
            PStr s \<Rightarrow> s
          | _ \<Rightarrow> ''single_final_output_checksum''))"

definition positive_or_zero :: "pyval \<Rightarrow> int" where
  "positive_or_zero v = (if is_int_value v then int_of v else 0)"

definition capture_host_api_batch_size :: "pydict \<Rightarrow> int" where
  "capture_host_api_batch_size capture =
     (let host_batch = dget capture ''host_api_batch'' in
      if is_True (vget host_batch ''enabled'') then positive_or_zero (vget host_batch ''batch_size'') else 1)"

definition capture_grouped_dispatch_task_count :: "pydict \<Rightarrow> int" where
  "capture_grouped_dispatch_task_count capture =
     (let grouped = dget capture ''grouped_dispatch'' in
      if is_True (vget grouped ''requested'') then positive_or_zero (vget grouped ''task_count'') else 1)"

definition capture_grouped_dispatch_strategy :: "pydict \<Rightarrow> string" where
  "capture_grouped_dispatch_strategy capture =
     (let grouped = dget capture ''grouped_dispatch'' in
      if is_True (vget grouped ''requested'')
      then if is_nonempty_str (vget grouped ''execution_strategy'')
           then str_of (vget grouped ''execution_strategy'') else ''unknown''
      else ''none'')"

text \<open>A variant is named in its dict, or by a field of its own, or has the default name.\<close>

definition variant_name :: "pydict \<Rightarrow> string \<Rightarrow> string \<Rightarrow> string \<Rightarrow> string" where
  "variant_name capture variant_key name_key dflt =
     (if is_nonempty_str (vget (dget capture variant_key) ''name'')
      then str_of (vget (dget capture variant_key) ''name'')
      else if is_nonempty_str (dget capture name_key) then str_of (dget capture name_key) else dflt)"

definition capture_export_variant_name :: "pydict \<Rightarrow> string" where
  "capture_export_variant_name capture =
     variant_name capture ''export_variant'' ''export_variant_name'' ''default''"

definition capture_reconstruction_variant_name :: "pydict \<Rightarrow> string" where
  "capture_reconstruction_variant_name capture =
     variant_name capture ''reconstruction_variant'' ''reconstruction_variant_name'' ''default_garner''"

definition capture_pack_mode :: "pydict \<Rightarrow> string" where
  "capture_pack_mode capture =
     (let timing_mode = dget (capture_timing_metadata capture) ''pack_mode'';
          mode = (if is_None timing_mode then dget capture ''pack_mode'' else timing_mode)
      in if is_str mode then str_of mode
         else if is_True (dget capture ''reuse_packed_inputs'') then ''prepacked_reuse''
         else ''per_repeat_repack'')"

definition capture_prepack_reuse_strategy :: "pydict \<Rightarrow> string" where
  "capture_prepack_reuse_strategy capture =
     (let timing_strategy = dget (capture_timing_metadata capture) ''prepack_reuse_strategy'';
          strategy = (if is_None timing_strategy then dget capture ''prepack_reuse_strategy''
                      else timing_strategy)
      in if is_str strategy then str_of strategy
         else if is_True (dget capture ''reuse_packed_inputs'') then ''persistent_matrix_residency''
         else ''none'')"

definition capture_bound_source :: "pydict \<Rightarrow> string" where
  "capture_bound_source capture =
     (if is_str (dget capture ''bound_source'') then str_of (dget capture ''bound_source'')
      else ''static_profile'')"

definition capture_prepack_reuse_operands :: "pydict \<Rightarrow> string list" where
  "capture_prepack_reuse_operands capture =
     (let own = dget capture ''prepack_reuse_operands'';
          operands = (if is_list own then own
                      else dget (capture_timing_metadata capture) ''prepack_reuse_operands'');
          mode = capture_pack_mode capture
      in if is_list operands then map py_str (elems_of operands)
         else if mode = ''prepacked_reuse'' then [''A'', ''B'']
         else if mode = ''prepacked_reuse_a'' then [''A'']
         else if mode = ''prepacked_reuse_b'' then [''B'']
         else [])"

definition median_phase :: "pydict \<Rightarrow> string \<Rightarrow> pyfloat option res" where
  "median_phase capture phase =
     (case vget (vget (dget capture ''timing_summary_us'') phase) ''median'' of
        PFloat x \<Rightarrow> Inr (Some x)
      | PInt n \<Rightarrow> rbind (float_of_int n) (\<lambda>x. Inr (Some x))
      | PBool b \<Rightarrow> Inr (Some (FFin (if b then 1 else 0)))
      | _ \<Rightarrow> Inr None)"

section \<open>The contract key\<close>

definition field :: "string \<Rightarrow> string \<Rightarrow> string" where
  "field name v = name @ CHR ''='' # v"

definition residue_output_mode :: "pydict \<Rightarrow> pyval" where
  "residue_output_mode capture = dget_or capture ''residue_output_mode'' (PStr ''host_export'')"

definition next_op_contract :: "pydict \<Rightarrow> pyval" where
  "next_op_contract capture =
     (if py_eq (residue_output_mode capture) (PStr ''host_export'') then PStr ''host_export''
      else vget (dget capture ''requested_next_op'') ''resolved'')"

definition tile_contract :: "pydict \<Rightarrow> string \<Rightarrow> pyval" where
  "tile_contract capture extent =
     (if eq_str (dget capture ''semantics'') ''wrap_u64_mod_2_64'' then PStr ''wrap64_semantic_contract''
      else dget capture extent)"

text \<open>The parts after the scenario identity.\<close>

definition contract_parts :: "pydict \<Rightarrow> string list" where
  "contract_parts capture =
     [field ''checksum_policy'' (capture_checksum_policy capture),
      field ''host_api_batch_size'' (show_int (capture_host_api_batch_size capture)),
      field ''grouped_dispatch_task_count'' (show_int (capture_grouped_dispatch_task_count capture)),
      field ''grouped_dispatch_strategy'' (capture_grouped_dispatch_strategy capture),
      field ''semantics'' (py_str (dget capture ''semantics'')),
      field ''finite_modulus'' (py_str (dget capture ''finite_modulus'')),
      field ''bound_kind'' (py_str (dget capture ''bound_kind'')),
      field ''bound_mode'' (py_str (dget capture ''bound_mode'')),
      field ''bound'' (py_str (dget capture ''bound'')),
      field ''bound_source'' (capture_bound_source capture),
      field ''m'' (py_str (dget capture ''m'')),
      field ''n'' (py_str (dget capture ''n'')),
      field ''k'' (py_str (dget capture ''k'')),
      field ''output_logical_ld'' (py_str (dget_or capture ''output_logical_ld'' (dget capture ''n''))),
      field ''output_ld_padding'' (py_str (dget_or capture ''output_ld_padding'' (PInt 0))),
      field ''prefix'' (py_str (dget capture ''prefix'')),
      field ''layout'' (py_str (dget capture ''layout'')),
      field ''tile_m'' (py_str (tile_contract capture ''tile_m'')),
      field ''tile_n'' (py_str (tile_contract capture ''tile_n'')),
      field ''k_block'' (py_str (dget capture ''k_block_size'')),
      field ''exact_wide_limb_count'' (py_str (dget capture ''exact_wide_limb_count'')),
      field ''residue_chain_length'' (py_str (dget_or capture ''residue_chain_length'' (PInt 1))),
      field ''residue_output_mode'' (py_str (residue_output_mode capture)),
      field ''seed'' (py_str (dget capture ''seed'')),
      field ''input_distribution'' (py_str (dget capture ''input_distribution'')),
      field ''reuse_packed_inputs'' (py_str (PBool (is_True (dget capture ''reuse_packed_inputs'')))),
      field ''pack_mode'' (capture_pack_mode capture),
      field ''next_op_contract'' (py_str (next_op_contract capture)),
      field ''output_policy'' (py_str (vget (dget capture ''output_policy'') ''destination_layout'')),
      field ''status_handling'' (py_str (vget (dget capture ''output_policy'') ''status_handling'')),
      field ''export_variant'' (capture_export_variant_name capture),
      field ''reconstruction_variant'' (capture_reconstruction_variant_name capture),
      field ''fusion_mode'' (py_str (vget (dget capture ''timing_metadata'') ''fusion_mode'')),
      field ''residue_group_width'' (py_str (vget (dget capture ''timing_metadata'') ''residue_group_width'')),
      field ''tile_hash'' (py_str (vget (dget capture ''tile_bounds_u64'') ''hash_u64''))]"

definition capture_contract_key :: "pydict \<Rightarrow> string" where
  "capture_contract_key capture =
     join_with '';'' (field ''scenario_identity'' (capture_scenario_identity capture) # contract_parts capture)"

section \<open>The backend id\<close>

definition selected_kernel :: "pydict \<Rightarrow> string" where
  "selected_kernel capture =
     (if is_None (dget capture ''selected_kernel'') then [] else py_str (dget capture ''selected_kernel''))"

definition capture_execution_mode :: "pydict \<Rightarrow> string res" where
  "capture_execution_mode capture =
     (let own = dget capture ''benchmark_execution_mode'';
          mode = (if is_str own then own
                  else dget (capture_timing_metadata capture) ''benchmark_execution_mode'')
      in if is_str mode then Inr (str_of mode)
         else if eq_str (dget capture ''backend_requested'') WRAP64_ROCWMMA_CANDIDATE_BACKEND
         then Inr ''internal_wrap64_rocwmma_candidate''
         else rbind (in_str_set (dget capture ''benchmark'')
                [''rns8_bounded_gemm_public_oneshot'', ''rns8_finite_u8_public_oneshot'']) (\<lambda>oneshot.
              Inr (if oneshot then ''public_oneshot_transient_native_inputs''
                   else ''persistent_resident_matrices'')))"

text \<open>The suffix each execution mode gives the backend id.\<close>

definition MODE_SUFFIXES :: "(string \<times> string) list" where
  "MODE_SUFFIXES =
     [(''public_oneshot_transient_native_inputs'', ''-oneshot''),
      (''transient_uniform_small_i8_ab_inputs'', ''-transient-uniform-small''),
      (''benchmark_host_api_batch'', ''-hostbatch''),
      (''hip_graph_replay_resident_rns_chain'', ''-hipgraph''),
      (''hip_graph_replay_bounded_pack_gemm_export'', ''-hipgraph-pack-export''),
      (''hip_graph_replay_finite_u8_pack_gemm_export'', ''-hipgraph-finite-pack-export''),
      (''hip_graph_replay_exact_wide_pack_gemm_export'', ''-hipgraph-exact-wide-pack-export''),
      (''hip_graph_replay_wrap64_pack_gemm_export'', ''-hipgraph-wrap64-pack-export'')]"

definition backend_id :: "pydict \<Rightarrow> string res" where
  "backend_id capture =
     (if eq_str (dget capture ''backend_requested'') WRAP64_ROCWMMA_CANDIDATE_BACKEND
      then Inr WRAP64_ROCWMMA_CANDIDATE_BACKEND
      else let backend = py_str (dget capture ''backend_selected'');
               scenario = dget capture ''scenario_metadata'';
               sparse_input = is_True (vget scenario ''sparse_a_4_to_2'')
           in if sparse_input \<and> is_True (vget scenario ''sparse_a_4_to_2_dense_baseline'')
              then Inr (backend @ ''-dense-sparse-a-input'')
              else if sparse_input \<and> contains ''sparse_a'' (selected_kernel capture)
              then Inr (backend @ ''-sparse-a-runtime'')
              else rbind (capture_execution_mode capture) (\<lambda>mode.
                Inr (case map_of MODE_SUFFIXES mode of None \<Rightarrow> backend | Some suffix \<Rightarrow> backend @ suffix)))"

definition FAMILY_SUFFIXES :: "string list" where
  "FAMILY_SUFFIXES =
     [''-dense-sparse-a-input'', ''-sparse-a-runtime'', ''-transient-uniform-small'', ''-oneshot'',
      ''-hostbatch'', ''-hipgraph'', ''-hipgraph-pack-export'', ''-hipgraph-finite-pack-export'',
      ''-hipgraph-wrap64-pack-export'']"

definition backend_family_id :: "string \<Rightarrow> string" where
  "backend_family_id backend =
     (case find (\<lambda>suffix. ends_with suffix backend) FAMILY_SUFFIXES of
        Some suffix \<Rightarrow> take (length backend - length suffix) backend
      | None \<Rightarrow> backend)"

definition backend_requires_gpu_target :: "string \<Rightarrow> bool" where
  "backend_requires_gpu_target backend \<longleftrightarrow>
     backend_family_id backend \<notin> {''cpu-reference'', ''wrap64-byte-limb''}"

section \<open>Where a capture was measured\<close>

definition normalized_identity_text :: "pyval \<Rightarrow> string option" where
  "normalized_identity_text v =
     (if is_None v then None
      else let txt = strip (py_str v) in
           if lower txt \<in> set PLACEHOLDER_TARGET_IDS then None else Some txt)"

definition normalized_target_id :: "pyval \<Rightarrow> string option" where
  "normalized_target_id v =
     (if is_None v then None
      else let txt = strip (py_str v) in
           if lower txt \<in> set PLACEHOLDER_TARGET_IDS then None else Some txt)"

definition normalized_positive_int :: "pyval \<Rightarrow> string option" where
  "normalized_positive_int v =
     (if is_int_value v \<and> 0 < int_of v then Some (show_int (int_of v)) else None)"

definition normalized_compiler_identity :: "pydict \<Rightarrow> string option" where
  "normalized_compiler_identity capture =
     (let compiler = capture_compiler capture in
      case (normalized_identity_text (dget compiler ''id''), normalized_identity_text (dget compiler ''version'')) of
        (Some i, Some v) \<Rightarrow> Some (i @ '' '' @ v)
      | _ \<Rightarrow> None)"

definition opt_str :: "string option \<Rightarrow> pyval" where
  "opt_str v = (case v of None \<Rightarrow> PNone | Some s \<Rightarrow> PStr s)"

definition candidate_source_metadata :: "pydict \<Rightarrow> pydict res" where
  "candidate_source_metadata capture =
     (let metadata = capture_backend_metadata capture;
          timing = capture_timing_metadata capture;
          device = capture_device capture;
          toolchain = capture_hip_toolchain capture;
          compiler = capture_compiler capture
      in rbind (capture_execution_mode capture) (\<lambda>mode.
      Inr [(''target_id'', opt_str (normalized_target_id (dget device ''gcn_arch''))),
       (''device_name'', dget device ''name''),
       (''hip_runtime_version'', dget device ''hip_runtime_version''),
       (''hip_driver_version'', dget device ''hip_driver_version''),
       (''hip_sdk_or_rocm_version'', dget toolchain ''hip_sdk_or_rocm_version''),
       (''accelerator_library'', dget metadata ''accelerator_library''),
       (''accelerator_version'', dget metadata ''accelerator_version''),
       (''compiler'', PDict [(''id'', dget compiler ''id''), (''version'', dget compiler ''version'')]),
       (''configured_amdgpu_targets'', dget capture ''configured_amdgpu_targets''),
       (''git_commit'', dget capture ''git_commit''),
       (''benchmark'', dget capture ''benchmark''),
       (''benchmark_execution_mode'', PStr mode),
       (''seed'', dget capture ''seed''),
       (''warmups'', dget capture ''warmups''),
       (''repeats'', dget capture ''repeats''),
       (''layout'', dget capture ''layout''),
       (''output_logical_ld'', dget_or capture ''output_logical_ld'' (dget capture ''n'')),
       (''output_ld_padding'', dget_or capture ''output_ld_padding'' (PInt 0)),
       (''reuse_packed_inputs'', PBool (is_True (dget capture ''reuse_packed_inputs''))),
       (''pack_mode'', PStr (capture_pack_mode capture)),
       (''prepack_reuse_strategy'', PStr (capture_prepack_reuse_strategy capture)),
       (''prepack_setup_us'', dget capture ''prepack_setup_us''),
       (''bound_source'', PStr (capture_bound_source capture)),
       (''bound_discovery'', dget capture ''bound_discovery''),
       (''prefix'', dget capture ''prefix''),
       (''selected_prefix'', dget capture ''selected_prefix''),
       (''requested_max_prefix'', dget capture ''requested_max_prefix''),
       (''contract_prefix_policy'', dget capture ''contract_prefix_policy''),
       (''residue_plane_skip_fraction'', dget capture ''residue_plane_skip_fraction''),
       (''k_block_size'', dget capture ''k_block_size''),
       (''tile_m'', dget capture ''tile_m''),
       (''tile_n'', dget capture ''tile_n''),
       (''epilogue'', dget capture ''epilogue_type''),
       (''workspace_bytes'', dget_or metadata ''workspace_required_bytes'' (PInt 0)),
       (''autotune_key'', dget metadata ''autotune_key''),
       (''event_source'', dget timing ''gpu_event_timing_source''),
       (''event_source_scope'', dget timing ''gpu_event_timing_source_scope''),
       (''event_status'', dget timing ''gpu_event_timing_status''),
       (''event_phase_order'', dget timing ''gpu_event_phase_order'')]))"

text \<open>\<open>sorted({str(item.get(key)) for item in items if item.get(key)})\<close>.\<close>

definition distinct_texts :: "pydict list \<Rightarrow> string \<Rightarrow> pyval" where
  "distinct_texts items key =
     PList (map PStr (sorted_set (map py_str (filter truthy (map (\<lambda>item. dget item key) items)))))"

definition distinct_ints :: "pydict list \<Rightarrow> string \<Rightarrow> pyval" where
  "distinct_ints items key =
     PList (map PInt (sorted_set (map int_of (filter isinstance_int (map (\<lambda>item. dget item key) items)))))"

definition strings :: "string list \<Rightarrow> pyval" where
  "strings ss = PList (map PStr (sorted_set ss))"

definition compiler_text :: "pydict \<Rightarrow> string list" where
  "compiler_text item =
     (let compiler = capture_compiler item in
      if truthy (dget compiler ''id'') \<or> truthy (dget compiler ''version'')
      then [py_str (dget compiler ''id'') @ '' '' @ py_str (dget compiler ''version'')] else [])"

definition operand_text :: "pydict \<Rightarrow> string" where
  "operand_text item =
     (let joined = join_with ''/'' (capture_prepack_reuse_operands item)
      in if joined = [] then ''none'' else joined)"

definition event_source_text :: "pydict \<Rightarrow> string" where
  "event_source_text item =
     py_str (py_or (dget (capture_timing_metadata item) ''gpu_event_timing_source'') (PStr ''unavailable''))"

definition group_source_metadata :: "pydict list \<Rightarrow> pydict res" where
  "group_source_metadata items =
     rbind (rmapM candidate_source_metadata items) (\<lambda>source_items.
     rbind (rmapM capture_execution_mode items) (\<lambda>modes.
     Inr [(''target_ids'', distinct_texts source_items ''target_id''),
      (''hip_sdk_or_rocm_versions'', distinct_texts source_items ''hip_sdk_or_rocm_version''),
      (''accelerator_versions'', distinct_texts source_items ''accelerator_version''),
      (''configured_amdgpu_targets'', distinct_texts source_items ''configured_amdgpu_targets''),
      (''hip_runtime_versions'', distinct_texts source_items ''hip_runtime_version''),
      (''hip_driver_versions'', distinct_texts source_items ''hip_driver_version''),
      (''compilers'', strings (concat (map compiler_text items))),
      (''git_commits'', distinct_texts items ''git_commit''),
      (''seeds'', distinct_ints items ''seed''),
      (''warmups'', distinct_ints items ''warmups''),
      (''repeats'', distinct_ints items ''repeats''),
      (''reuse_packed_inputs'', PList (map PBool
         (sorted_set (map (\<lambda>item. is_True (dget item ''reuse_packed_inputs'')) items)))),
      (''benchmark_execution_modes'', strings modes),
      (''pack_modes'', strings (map capture_pack_mode items)),
      (''prepack_reuse_strategies'', strings (map capture_prepack_reuse_strategy items)),
      (''prepack_reuse_operands'', strings (map operand_text items)),
      (''event_sources'', strings (map event_source_text items))]))"

section \<open>The contract key separates contracts\<close>

text \<open>The fields of the key, the six of a scenario identity apart.\<close>

definition contract_fields :: "pydict \<Rightarrow> string list" where
  "contract_fields capture =
     split_on CHR '';'' (field ''scenario_identity'' (capture_scenario_identity capture)) @ contract_parts capture"

definition plain_contract :: "pydict \<Rightarrow> bool" where
  "plain_contract capture \<longleftrightarrow> list_all (\<lambda>p. CHR '';'' \<notin> set p) (contract_parts capture)"

lemma join_join:
  "xs \<noteq> [] \<Longrightarrow> join_with sep (join_with sep xs # ys) = join_with sep (xs @ ys)"
  by (cases ys) (simp_all add: join_with_append join_with_Cons)

lemma contract_key_fields:
  assumes "plain_contract capture"
  shows "split_on CHR '';'' (capture_contract_key capture) = contract_fields capture"
proof -
  let ?id = "field ''scenario_identity'' (capture_scenario_identity capture)"
  have "capture_contract_key capture = join_with '';'' (contract_fields capture)"
    unfolding capture_contract_key_def contract_fields_def
    by (subst join_split_on [of "CHR '';''" ?id, symmetric]) (simp add: join_join)
  moreover have "CHR '';'' \<notin> set f" if "f \<in> set (contract_fields capture)" for f
    using that assms by (auto simp: contract_fields_def plain_contract_def list_all_iff dest: split_on_parts)
  moreover have "contract_fields capture \<noteq> []" by (simp add: contract_fields_def)
  ultimately show ?thesis using split_on_join by metis
qed

lemma field_inj [simp]: "field name v = field name w \<longleftrightarrow> v = w"
  by (simp add: field_def)

lemma contract_parts_eq:
  assumes "capture_contract_key c = capture_contract_key d" "plain_contract c" "plain_contract d"
  shows "contract_parts c = contract_parts d"
proof -
  have "contract_fields c = contract_fields d"
    using contract_key_fields [OF assms(2)] contract_key_fields [OF assms(3)] assms(1) by simp
  moreover have "length (contract_parts c) = length (contract_parts d)"
    by (simp add: contract_parts_def)
  ultimately show ?thesis unfolding contract_fields_def by (metis append_eq_append_conv)
qed

text \<open>captures with one contract key may be compared: when no field contains a semicolon, they have
  the same scenario, semantics, shape, bound, prefix, chain, seed, packing and export contract.
\<close>

theorem contract_key_separates:
  assumes "capture_contract_key c = capture_contract_key d" "plain_contract c" "plain_contract d"
  shows "capture_scenario_identity c = capture_scenario_identity d \<and>
    capture_checksum_policy c = capture_checksum_policy d \<and>
    list_all (\<lambda>key. py_str (dget c key) = py_str (dget d key))
      [''semantics'', ''finite_modulus'', ''bound_kind'', ''bound_mode'', ''bound'', ''m'', ''n'', ''k'', ''prefix'',
       ''layout'', ''k_block_size'', ''exact_wide_limb_count'', ''seed'', ''input_distribution''] \<and>
    capture_bound_source c = capture_bound_source d \<and> capture_pack_mode c = capture_pack_mode d \<and>
    py_str (next_op_contract c) = py_str (next_op_contract d) \<and>
    capture_export_variant_name c = capture_export_variant_name d"
proof -
  have parts: "contract_parts c = contract_parts d" using assms by (rule contract_parts_eq)
  moreover have "capture_contract_key c = capture_contract_key d" by (rule assms(1))
  ultimately have "field ''scenario_identity'' (capture_scenario_identity c) =
      field ''scenario_identity'' (capture_scenario_identity d)"
    unfolding capture_contract_key_def by (simp add: join_with_Cons)
  with parts show ?thesis by (simp add: contract_parts_def)
qed

section \<open>The family of a backend id\<close>

lemma ends_with_iff: "ends_with p s \<longleftrightarrow> (\<exists>t. s = t @ p)"
proof
  assume "ends_with p s"
  then have "starts_with (rev p) (rev s)" by (simp add: ends_with_def)
  then obtain t where "rev s = rev p @ t" by (auto simp: starts_with_iff)
  then have "s = rev t @ p" by (metis rev_append rev_rev_ident)
  then show "\<exists>t. s = t @ p" ..
qed (auto simp: ends_with_def starts_with_iff)

lemma ends_with_append:
  "ends_with t (base @ s) \<Longrightarrow> ends_with t s \<or> ends_with s t"
  by (auto simp: ends_with_iff append_eq_append_conv2)

lemma family_suffixes_apart:
  "list_all (\<lambda>s. list_all (\<lambda>t. ends_with t s \<longrightarrow> t = s) FAMILY_SUFFIXES) FAMILY_SUFFIXES"
  by code_simp

lemma family_of_suffix:
  assumes "s \<in> set FAMILY_SUFFIXES"
  shows "backend_family_id (base @ s) = base"
proof -
  have only: "ends_with t (base @ s) \<longleftrightarrow> t = s" if "t \<in> set FAMILY_SUFFIXES" for t
    using ends_with_append [of t base s] family_suffixes_apart assms that
    by (auto simp: list_all_iff ends_with_iff [of s "base @ s"])
  have "find (\<lambda>t. ends_with t (base @ s)) FAMILY_SUFFIXES = Some s"
  proof (cases "find (\<lambda>t. ends_with t (base @ s)) FAMILY_SUFFIXES")
    case None
    with assms only show ?thesis by (auto simp: find_None_iff)
  next
    case (Some t)
    then have "t \<in> set FAMILY_SUFFIXES" "ends_with t (base @ s)"
      by (auto simp: find_Some_iff)
    with only Some show ?thesis by simp
  qed
  then show ?thesis by (simp add: backend_family_id_def)
qed

lemma family_of_plain:
  "list_all (\<lambda>t. \<not> ends_with t base) FAMILY_SUFFIXES \<Longrightarrow> backend_family_id base = base"
  by (auto simp: backend_family_id_def list_all_iff find_None_iff [THEN iffD2])

lemma mode_suffixes_known:
  "list_all (\<lambda>(mode, s). s \<in> set FAMILY_SUFFIXES \<or> mode = ''hip_graph_replay_exact_wide_pack_gemm_export'')
     MODE_SUFFIXES"
  by code_simp

lemma exact_wide_suffix_unknown:
  "list_all (\<lambda>t. \<not> ends_with t ''-hipgraph-exact-wide-pack-export'' \<and>
     \<not> ends_with ''-hipgraph-exact-wide-pack-export'' t) FAMILY_SUFFIXES"
  by code_simp

text \<open>the family of a capture's backend id is the backend the capture selected, for every execution
  mode except exact-wide graph replay and every selected backend whose own name has no mode suffix.
\<close>

theorem family_of_backend_id:
  assumes "backend_id capture = Inr b"
    and "\<not> eq_str (dget capture ''backend_requested'') WRAP64_ROCWMMA_CANDIDATE_BACKEND"
    and "capture_execution_mode capture \<noteq> Inr ''hip_graph_replay_exact_wide_pack_gemm_export''"
    and "list_all (\<lambda>t. \<not> ends_with t (py_str (dget capture ''backend_selected''))) FAMILY_SUFFIXES"
  shows "backend_family_id b = py_str (dget capture ''backend_selected'')"
proof -
  let ?base = "py_str (dget capture ''backend_selected'')"
  have "b = ?base \<or> (\<exists>s \<in> set FAMILY_SUFFIXES. b = ?base @ s)"
  proof -
    have "s \<in> set FAMILY_SUFFIXES" if "map_of MODE_SUFFIXES mode = Some s"
        "capture_execution_mode capture = Inr mode" for mode s
      using map_of_SomeD [OF that(1)] that(2) assms(3) mode_suffixes_known by (auto simp: list_all_iff)
    moreover have "''-dense-sparse-a-input'' \<in> set FAMILY_SUFFIXES" "''-sparse-a-runtime'' \<in> set FAMILY_SUFFIXES"
      by (simp_all add: FAMILY_SUFFIXES_def)
    ultimately show ?thesis
      using assms(1,2) unfolding backend_id_def Let_def
      by (auto simp: rbind_eq_Inr split: if_splits option.splits)
  qed
  then show ?thesis using family_of_suffix family_of_plain [OF assms(4)] by auto
qed

text \<open>
  in exact-wide graph replay the suffix stays: \<open>backend_family_id\<close> does not know it, and the
  family of such a capture is its whole backend id instead of the selected backend.
\<close>

theorem exact_wide_graph_family:
  assumes "capture_execution_mode capture = Inr ''hip_graph_replay_exact_wide_pack_gemm_export''"
    and "\<not> eq_str (dget capture ''backend_requested'') WRAP64_ROCWMMA_CANDIDATE_BACKEND"
    and "\<not> is_True (vget (dget capture ''scenario_metadata'') ''sparse_a_4_to_2'')"
  shows "\<exists>b. backend_id capture = Inr b \<and>
    b = py_str (dget capture ''backend_selected'') @ ''-hipgraph-exact-wide-pack-export'' \<and>
    backend_family_id b = b"
proof -
  let ?b = "py_str (dget capture ''backend_selected'') @ ''-hipgraph-exact-wide-pack-export''"
  have "map_of MODE_SUFFIXES ''hip_graph_replay_exact_wide_pack_gemm_export'' =
      Some ''-hipgraph-exact-wide-pack-export''"
    by code_simp
  then have "backend_id capture = Inr ?b" using assms by (simp add: backend_id_def Let_def)
  moreover have "list_all (\<lambda>t. \<not> ends_with t ?b) FAMILY_SUFFIXES"
    using exact_wide_suffix_unknown ends_with_append unfolding list_all_iff by blast
  ultimately show ?thesis using family_of_plain by blast
qed

section \<open>Examples\<close>

definition graph_capture :: "string \<Rightarrow> pydict" where
  "graph_capture mode =
     [(''semantics'', PStr ''exact_wide_signed''), (''m'', PInt 64), (''n'', PInt 64), (''k'', PInt 128),
      (''seed'', PInt 1), (''backend_selected'', PStr ''hip-direct''),
      (''benchmark_execution_mode'', PStr mode)]"

lemma contract_key_separates_witness:
  "capture_contract_key (graph_capture ''benchmark_host_api_batch'') = capture_contract_key (graph_capture ''none'') \<and>
   py_str (dget (graph_capture ''benchmark_host_api_batch'') ''k'') = py_str (dget (graph_capture ''none'') ''k'')"
proof -
  have plain: "plain_contract (graph_capture ''benchmark_host_api_batch'')" "plain_contract (graph_capture ''none'')"
    by code_simp+
  have "capture_contract_key (graph_capture ''benchmark_host_api_batch'') = capture_contract_key (graph_capture ''none'')"
    by code_simp
  with contract_key_separates [OF this plain] show ?thesis by simp
qed

lemma family_of_backend_id_witness:
  "\<exists>b. backend_id (graph_capture ''benchmark_host_api_batch'') = Inr b \<and> b = ''hip-direct-hostbatch'' \<and>
     backend_family_id b = ''hip-direct''"
proof -
  let ?c = "graph_capture ''benchmark_host_api_batch''"
  have id: "backend_id ?c = Inr ''hip-direct-hostbatch''" by code_simp
  have "\<not> eq_str (dget ?c ''backend_requested'') WRAP64_ROCWMMA_CANDIDATE_BACKEND"
    "capture_execution_mode ?c \<noteq> Inr ''hip_graph_replay_exact_wide_pack_gemm_export''"
    "list_all (\<lambda>t. \<not> ends_with t (py_str (dget ?c ''backend_selected''))) FAMILY_SUFFIXES"
    by code_simp+
  from family_of_backend_id [OF id this] id show ?thesis by (simp add: graph_capture_def dget_def)
qed

lemma exact_wide_graph_family_witness:
  "\<exists>b. backend_id (graph_capture ''hip_graph_replay_exact_wide_pack_gemm_export'') = Inr b \<and>
     backend_family_id b = b \<and> b \<noteq> ''hip-direct''"
proof -
  let ?c = "graph_capture ''hip_graph_replay_exact_wide_pack_gemm_export''"
  have "capture_execution_mode ?c = Inr ''hip_graph_replay_exact_wide_pack_gemm_export''"
    "\<not> eq_str (dget ?c ''backend_requested'') WRAP64_ROCWMMA_CANDIDATE_BACKEND"
    "\<not> is_True (vget (dget ?c ''scenario_metadata'') ''sparse_a_4_to_2'')"
    by code_simp+
  from exact_wide_graph_family [OF this] show ?thesis by (auto simp: graph_capture_def dget_def)
qed

end
