(* ===== verification/Py_Ops.thy ===== *)
theory Py_Ops
  imports Py_Repr "HOL-Library.Multiset"
begin

text \<open>
  Operations on Python values of unknown type, with the exceptions they raise: iteration, membership,
  conversion and comparison of numbers, sets of values, and grouping into a dict of lists.
\<close>

section \<open>Iteration and membership\<close>

text \<open>\<open>for x in v\<close>: a string yields its characters, a dict its keys.\<close>

definition py_iter :: "pyval \<Rightarrow> pyval list res" where
  "py_iter v = (case v of
       PList xs \<Rightarrow> Inr xs
     | PDict d \<Rightarrow> Inr (map (PStr \<circ> fst) d)
     | PStr s \<Rightarrow> Inr (map (\<lambda>c. PStr [c]) s)
     | _ \<Rightarrow> Inl TypeError)"

text \<open>\<open>s in v\<close> for a string \<open>s\<close>.\<close>

definition str_in :: "string \<Rightarrow> pyval \<Rightarrow> bool res" where
  "str_in s v = (case v of
       PList xs \<Rightarrow> Inr (list_ex (\<lambda>x. eq_str x s) xs)
     | PDict d \<Rightarrow> Inr (has_key d s)
     | PStr t \<Rightarrow> Inr (contains s t)
     | _ \<Rightarrow> Inl TypeError)"

text \<open>A set holds hashable values only; \<open>v in {...}\<close> hashes \<open>v\<close>.\<close>

definition hashable :: "pyval \<Rightarrow> bool" where
  "hashable v \<longleftrightarrow> \<not> is_list v \<and> \<not> is_dict v"

definition in_vals :: "pyval \<Rightarrow> pyval list \<Rightarrow> bool res" where
  "in_vals v xs = (if hashable v then Inr (list_ex (elem_eq v) xs) else Inl TypeError)"

fun distinct_vals_from :: "pyval list \<Rightarrow> pyval list \<Rightarrow> pyval list" where
  "distinct_vals_from seen [] = seen"
| "distinct_vals_from seen (v # vs) =
     distinct_vals_from (if list_ex (elem_eq v) seen then seen else v # seen) vs"

text \<open>\<open>len({v, ...})\<close>.\<close>

definition set_size :: "pyval list \<Rightarrow> nat res" where
  "set_size vs = (if list_all hashable vs then Inr (length (distinct_vals_from [] vs)) else Inl TypeError)"

section \<open>Numbers\<close>

definition val_lt :: "pyval \<Rightarrow> pyval \<Rightarrow> bool" where
  "val_lt a b = (case (num_of a, num_of b) of (Some x, Some y) \<Rightarrow> flt_lt x y | _ \<Rightarrow> False)"

definition val_le :: "pyval \<Rightarrow> pyval \<Rightarrow> bool" where
  "val_le a b = (case (num_of a, num_of b) of (Some x, Some y) \<Rightarrow> flt_le x y | _ \<Rightarrow> False)"

text \<open>\<open>int(v)\<close>.\<close>

definition py_int :: "pyval \<Rightarrow> int res" where
  "py_int v = (case v of
       PInt n \<Rightarrow> Inr n
     | PBool b \<Rightarrow> Inr (if b then 1 else 0)
     | PFloat (FFin x) \<Rightarrow> Inr (if x < 0 then - \<lfloor>- x\<rfloor> else \<lfloor>x\<rfloor>)
     | PFloat FNaN \<Rightarrow> Inl ValueError
     | PFloat _ \<Rightarrow> Inl OverflowError
     | PStr s \<Rightarrow> (case py_int10 s of None \<Rightarrow> Inl ValueError | Some n \<Rightarrow> Inr n)
     | _ \<Rightarrow> Inl TypeError)"

text \<open>\<open>s.isdigit()\<close>: decimal digits and superscripts.\<close>

definition isdigit :: "string \<Rightarrow> bool" where
  "isdigit s \<longleftrightarrow> s \<noteq> [] \<and> list_all (\<lambda>c. (48 \<le> code c \<and> code c \<le> 57) \<or> code c \<in> {178, 179, 185}) s"

text \<open>\<open>s.upper()\<close> of an ASCII string.\<close>

definition upper :: "string \<Rightarrow> string" where
  "upper s = map (\<lambda>c. if 97 \<le> code c \<and> code c \<le> 122 then char_of (code c - 32) else c) s"

section \<open>Sorted sets of strings, counters and groups\<close>

definition str_list :: "string list \<Rightarrow> pyval" where
  "str_list xs = PList (map PStr xs)"

definition opt_val :: "string option \<Rightarrow> pyval" where
  "opt_val v = (case v of None \<Rightarrow> PNone | Some s \<Rightarrow> PStr s)"

definition count_in :: "(string \<times> int) list \<Rightarrow> string \<Rightarrow> (string \<times> int) list" where
  "count_in d k = dict_set k ((case map_of d k of None \<Rightarrow> 0 | Some n \<Rightarrow> n) + 1) d"

definition count_strs :: "string list \<Rightarrow> (string \<times> int) list" where
  "count_strs ks = foldl count_in [] ks"

definition add_to_group :: "('k \<times> 'a list) list \<Rightarrow> 'k \<times> 'a \<Rightarrow> ('k \<times> 'a list) list" where
  "add_to_group d kx = dict_set (fst kx) ((case map_of d (fst kx) of None \<Rightarrow> [] | Some xs \<Rightarrow> xs) @ [snd kx]) d"

text \<open>\<open>groups[key(x)].append(x)\<close> for every \<open>x\<close>, on a \<open>defaultdict(list)\<close>.\<close>

definition group_on :: "('a \<Rightarrow> 'k) \<Rightarrow> 'a list \<Rightarrow> ('k \<times> 'a list) list" where
  "group_on f xs = foldl add_to_group [] (map (\<lambda>x. (f x, x)) xs)"

lemma filter_eq_Nil_iff: "filter P xs = [] \<longleftrightarrow> (\<forall>x\<in>set xs. \<not> P x)"
  by (simp add: filter_empty_conv)

lemma map_of_group_on:
  "map_of (group_on f xs) k = (let ys = filter (\<lambda>x. f x = k) xs in if ys = [] then None else Some ys)"
proof (induction xs rule: rev_induct)
  case Nil
  then show ?case by (simp add: group_on_def)
next
  case (snoc x xs)
  then show ?case
    by (auto simp: group_on_def add_to_group_def Let_def split: option.splits if_splits)
qed

lemma distinct_group_on: "distinct (map fst (group_on f xs))"
proof (induction xs rule: rev_induct)
  case (snoc x xs)
  have "group_on f (xs @ [x]) = add_to_group (group_on f xs) (f x, x)" by (simp add: group_on_def)
  with snoc show ?case
    using dict_wf_dict_set [of "[]"] by (simp add: add_to_group_def keys_dict_set)
qed (simp add: group_on_def)

lemma group_on_entry:
  "(k, ys) \<in> set (group_on f xs) \<longleftrightarrow> ys \<noteq> [] \<and> ys = filter (\<lambda>x. f x = k) xs"
proof -
  have "(k, ys) \<in> set (group_on f xs) \<longleftrightarrow> map_of (group_on f xs) k = Some ys"
    by (simp add: distinct_group_on map_of_eq_Some_iff)
  also have "\<dots> \<longleftrightarrow> ys \<noteq> [] \<and> ys = filter (\<lambda>x. f x = k) xs"
    unfolding map_of_group_on Let_def by auto
  finally show ?thesis .
qed

lemma elem_eq_PStr [simp]: "elem_eq (PStr t) (PStr s) \<longleftrightarrow> t = s"
  by (auto simp: elem_eq_def both_nan_def)

lemma distinct_vals_from_strs:
  "distinct seen \<Longrightarrow>
   length (distinct_vals_from (map PStr seen) (map PStr ss)) = card (set seen \<union> set ss)"
proof (induction ss arbitrary: seen)
  case Nil
  then show ?case by (simp add: distinct_card)
next
  case (Cons s ss)
  have "list_ex (elem_eq (PStr s)) (map PStr seen) \<longleftrightarrow> s \<in> set seen"
    by (auto simp: list_ex_iff)
  with Cons.IH [of seen] Cons.IH [of "s # seen"] Cons.prems show ?case
    by (simp add: insert_absorb)
qed

lemma set_size_strs: "set_size (map PStr ss) = Inr (card (set ss))"
  using distinct_vals_from_strs [of "[]" ss] by (simp add: set_size_def list_all_iff hashable_def)

lemma keys_group_on: "set (map fst (group_on f xs)) = f ` set xs"
proof -
  have "k \<in> set (map fst (group_on f xs)) \<longleftrightarrow> k \<in> f ` set xs" for k
    using map_of_eq_None_iff [of "group_on f xs" k] map_of_group_on [of f xs k]
    by (auto simp: Let_def filter_empty_conv image_iff split: if_splits)
  then show ?thesis by blast
qed

text \<open>The groups in the order of their keys.\<close>

lemma map_fst_sort_key: "map fst (sort_key fst d) = sort (map fst d)"
  by (rule properties_for_sort [symmetric]) (simp_all add: mset_map)

lemma sorted_group_on:
  "sort_key fst (group_on f xs) = map (\<lambda>k. (k, filter (\<lambda>x. f x = k) xs)) (sorted_set (map f xs))"
proof -
  let ?d = "group_on f xs"
  have "sort_key fst ?d = map (\<lambda>p. (fst p, filter (\<lambda>x. f x = fst p) xs)) (sort_key fst ?d)"
    by (rule map_idI [symmetric]) (auto simp: group_on_entry)
  also have "\<dots> = map (\<lambda>k. (k, filter (\<lambda>x. f x = k) xs)) (sort (map fst ?d))"
    by (simp flip: map_fst_sort_key)
  also have "sort (map fst ?d) = sorted_set (map f xs)"
    by (rule sorted_distinct_set_unique) (simp_all add: distinct_group_on keys_group_on flip: set_map)
  finally show ?thesis .
qed

end
