(* ===== verification/Py_Hash.thy ===== *)
theory Py_Hash
  imports Py_Repr "HOL-Library.Word" "HOL-Library.Multiset"
begin

text \<open>
  The parts of \<open>json\<close> and \<open>hashlib\<close> that fingerprints need: the compact text of
  \<open>json.dumps(v, sort_keys=True, separators=(",", ":"))\<close>, the UTF-8 bytes of a string of code
  points below 256, and SHA-256 over 32-bit words (FIPS 180-4) with its hexadecimal digest.
\<close>

section \<open>Sorted JSON\<close>

text \<open>What reading a text written with \<open>sort_keys=True\<close> gives: the keys of every dict ascend.\<close>

fun json_sorted :: "pyval \<Rightarrow> pyval" where
  "json_sorted (PList xs) = PList (map json_sorted xs)"
| "json_sorted (PDict d) = PDict (sort_key fst (map (\<lambda>p. (fst p, json_sorted (snd p))) d))"
| "json_sorted v = v"

section \<open>JSON text\<close>

definition json_escape_char :: "char \<Rightarrow> string" where
  "json_escape_char c =
     (let n = code c in
      if c = CHR 0x22 then [CHR 92, CHR 0x22]
      else if n = 92 then [CHR 92, CHR 92]
      else if n = 10 then [CHR 92, CHR ''n'']
      else if n = 13 then [CHR 92, CHR ''r'']
      else if n = 9 then [CHR 92, CHR ''t'']
      else if n = 12 then [CHR 92, CHR ''f'']
      else if n = 8 then [CHR 92, CHR ''b'']
      else if 32 \<le> n \<and> n < 127 then [c]
      else [CHR 92, CHR ''u'', CHR ''0'', CHR ''0'', hex_digit (n div 16), hex_digit (n mod 16)])"

definition json_string :: "string \<Rightarrow> string" where
  "json_string s = CHR 0x22 # concat (map json_escape_char s) @ [CHR 0x22]"

fun json_float :: "pyfloat \<Rightarrow> string" where
  "json_float (FFin x) = repr_float (FFin x)"
| "json_float FInf = ''Infinity''"
| "json_float FNegInf = ''-Infinity''"
| "json_float FNaN = ''NaN''"

fun json_text :: "pyval \<Rightarrow> string" where
  "json_text PNone = ''null''"
| "json_text (PBool b) = (if b then ''true'' else ''false'')"
| "json_text (PInt n) = show_int n"
| "json_text (PFloat x) = json_float x"
| "json_text (PStr s) = json_string s"
| "json_text (PList xs) = ''['' @ join_with '','' (map json_text xs) @ '']''"
| "json_text (PDict d) =
     ''{'' @ join_with '','' (map (\<lambda>p. json_string (fst p) @ '':'' @ json_text (snd p)) d) @ ''}''"

definition json_compact_sorted :: "pyval \<Rightarrow> string" where
  "json_compact_sorted v = json_text (json_sorted v)"

definition utf8 :: "string \<Rightarrow> nat list" where
  "utf8 s = concat (map (\<lambda>c. if code c < 128 then [code c]
     else [192 + code c div 64, 128 + code c mod 64]) s)"

section \<open>SHA-256\<close>

unbundle bit_operations_syntax

type_synonym word32 = "32 word"

definition sha_k :: "word32 list" where
  "sha_k =
     [1116352408, 1899447441, 3049323471, 3921009573, 961987163, 1508970993, 2453635748, 2870763221,
      3624381080, 310598401, 607225278, 1426881987, 1925078388, 2162078206, 2614888103, 3248222580,
      3835390401, 4022224774, 264347078, 604807628, 770255983, 1249150122, 1555081692, 1996064986,
      2554220882, 2821834349, 2952996808, 3210313671, 3336571891, 3584528711, 113926993, 338241895,
      666307205, 773529912, 1294757372, 1396182291, 1695183700, 1986661051, 2177026350, 2456956037,
      2730485921, 2820302411, 3259730800, 3345764771, 3516065817, 3600352804, 4094571909, 275423344,
      430227734, 506948616, 659060556, 883997877, 958139571, 1322822218, 1537002063, 1747873779,
      1955562222, 2024104815, 2227730452, 2361852424, 2428436474, 2756734187, 3204031479, 3329325298]"

definition sha_init :: "word32 list" where
  "sha_init = [1779033703, 3144134277, 1013904242, 2773480762, 1359893119, 2600822924, 528734635, 1541459225]"

definition sha_pad :: "nat list \<Rightarrow> nat list" where
  "sha_pad bytes =
     (let l = length bytes; bits = 8 * l
      in bytes @ [128] @ replicate ((119 - l mod 64) mod 64) 0
         @ map (\<lambda>i. bits div 256 ^ i mod 256) [7, 6, 5, 4, 3, 2, 1, 0])"

fun sha_words :: "nat list \<Rightarrow> word32 list" where
  "sha_words (a # b # c # d # r) = word_of_nat (((a * 256 + b) * 256 + c) * 256 + d) # sha_words r"
| "sha_words _ = []"

text \<open>The message schedule, newest word first.\<close>

definition sha_next_word :: "word32 list \<Rightarrow> word32" where
  "sha_next_word w =
     (let x = w ! 14; y = w ! 1;
          s0 = word_rotr 7 x XOR word_rotr 18 x XOR drop_bit 3 x;
          s1 = word_rotr 17 y XOR word_rotr 19 y XOR drop_bit 10 y
      in w ! 15 + s0 + w ! 6 + s1)"

fun sha_schedule :: "nat \<Rightarrow> word32 list \<Rightarrow> word32 list" where
  "sha_schedule 0 w = rev w"
| "sha_schedule (Suc n) w = sha_schedule n (sha_next_word w # w)"

fun sha_round :: "word32 list \<Rightarrow> word32 \<times> word32 \<Rightarrow> word32 list" where
  "sha_round [a, b, c, d, e, f, g, h] (k, w) =
     (let s1 = word_rotr 6 e XOR word_rotr 11 e XOR word_rotr 25 e;
          ch = (e AND f) XOR (NOT e AND g);
          t1 = h + s1 + ch + k + w;
          s0 = word_rotr 2 a XOR word_rotr 13 a XOR word_rotr 22 a;
          maj = (a AND b) XOR (a AND c) XOR (b AND c)
      in [t1 + s0 + maj, a, b, c, d + t1, e, f, g])"
| "sha_round s _ = s"

definition sha_block :: "word32 list \<Rightarrow> word32 list \<Rightarrow> word32 list" where
  "sha_block h block = map2 (+) h (foldl sha_round h (zip sha_k (sha_schedule 48 (rev block))))"

function sha_blocks :: "word32 list \<Rightarrow> word32 list \<Rightarrow> word32 list" where
  "sha_blocks h ws = (if ws = [] then h else sha_blocks (sha_block h (take 16 ws)) (drop 16 ws))"
  by auto
termination
  by (relation "measure (\<lambda>(h, ws). length ws)") auto

declare sha_blocks.simps [simp del]

definition hex8 :: "word32 \<Rightarrow> string" where
  "hex8 w = map (\<lambda>i. hex_digit (unat w div 16 ^ i mod 16)) [7, 6, 5, 4, 3, 2, 1, 0]"

definition sha256_hexdigest :: "nat list \<Rightarrow> string" where
  "sha256_hexdigest bytes = concat (map hex8 (sha_blocks sha_init (sha_words (sha_pad bytes))))"

text \<open>A digest always has 64 characters.\<close>

lemma length_sha_round: "length (sha_round s p) = length s"
  by (cases "(s, p)" rule: sha_round.cases) (simp_all add: Let_def)

lemma length_sha_rounds: "length (foldl sha_round s ps) = length s"
  by (induction ps arbitrary: s) (simp_all add: length_sha_round)

lemma length_sha_blocks: "length (sha_blocks h ws) = length h"
  by (induction h ws rule: sha_blocks.induct)
     (subst sha_blocks.simps, simp add: sha_block_def length_sha_rounds)

lemma length_sha256: "length (sha256_hexdigest bytes) = 64"
proof -
  have "length (concat (map hex8 ws)) = 8 * length ws" for ws
    by (induction ws) (simp_all add: hex8_def)
  then show ?thesis
    by (simp add: sha256_hexdigest_def length_sha_blocks) (simp add: sha_init_def)
qed

section \<open>Sorting the keys\<close>

definition keys_sorted :: "('k::linorder \<times> 'v) list \<Rightarrow> bool" where
  "keys_sorted d \<longleftrightarrow> sorted (map fst d)"

lemma map_of_distinct_eq:
  assumes "distinct (map fst xs)" "distinct (map fst ys)" "set xs = set ys"
  shows "map_of xs = map_of ys"
proof
  fix k
  show "map_of xs k = map_of ys k"
    using assms by (metis (no_types, lifting) map_of_eq_Some_iff not_None_eq)
qed

lemma distinct_fst_sort_key [simp]: "distinct (map fst (sort_key f d)) \<longleftrightarrow> distinct (map fst d)"
  by (rule mset_eq_imp_distinct_iff) simp

lemma map_of_sort_key: "distinct (map fst d) \<Longrightarrow> map_of (sort_key fst d) = map_of d"
  by (rule map_of_distinct_eq) simp_all

lemma map_of_map_snd: "map_of (map (\<lambda>p. (fst p, f (snd p))) d) k = map_option f (map_of d k)"
  by (induction d) auto

lemma json_sorted_get:
  "distinct (map fst d) \<Longrightarrow> map_of (items_of (json_sorted (PDict d))) k = map_option json_sorted (map_of d k)"
  by (simp add: map_of_sort_key comp_def map_of_map_snd)

lemma json_wf_sorted: "json_wf v \<Longrightarrow> json_wf (json_sorted v)"
proof (induction v)
  case (PDict d)
  then show ?case by (auto simp: list_all_iff comp_def)
qed (auto simp: list_all_iff)

lemma json_sorted_idem: "json_sorted (json_sorted v) = json_sorted v"
proof (induction v)
  case (PDict d)
  have "map (\<lambda>p. (fst p, json_sorted (snd p))) (sort_key fst (map (\<lambda>p. (fst p, json_sorted (snd p))) d))
      = sort_key fst (map (\<lambda>p. (fst p, json_sorted (snd p))) d)"
    using PDict by (intro map_idI) (auto intro: prod_eqI)
  then show ?case by (simp add: sort_key_id_if_sorted)
qed auto

lemma elem_eq_sorted: "json_wf v \<Longrightarrow> elem_eq v (json_sorted v)"
proof (induction v)
  case (PList xs)
  then show ?case by (auto simp: elem_eq_def list_all_iff list_all2_conv_all_nth)
next
  case (PDict d)
  have "elem_eq (snd p) (json_sorted (snd p))" if "p \<in> set d" for p
    using PDict.IH [OF that, of "snd p"] PDict.prems that by (cases p) (auto simp: list_all_iff)
  with PDict.prems show ?case
    by (simp add: list_all_iff map_of_snd elem_eq_def map_of_sort_key comp_def map_of_map_snd)
next
  case (PFloat x)
  then show ?case by (cases x) (auto simp: elem_eq_def both_nan_def flt_eq_def)
qed (auto simp: flt_eq_def elem_eq_def)

end
