(* ===== verification/Registry_Constants.thy ===== *)
theory Registry_Constants
  imports Main
begin

text \<open>
  The sets of \<open>tools/metadata_registry_constants.py\<close> that the checks of captures and of the autotune
  cache read, in the order of the file. A set is the list of its members.
\<close>

definition SCHEMA_BOUNDED_SEMANTICS :: "string list" where
  "SCHEMA_BOUNDED_SEMANTICS = [''bounded_i64'', ''bounded_u64'']"

definition SCHEMA_EXACT_WIDE_SEMANTICS :: "string list" where
  "SCHEMA_EXACT_WIDE_SEMANTICS = [''exact_wide_signed'', ''exact_wide_unsigned'']"

definition FINITE_U8_SEMANTICS :: "string list" where
  "FINITE_U8_SEMANTICS = [''finite_field_u8'', ''finite_ring_u8'']"

end
