(* ===== verification/Autotune_Cache.thy ===== *)
theory Autotune_Cache
  imports Sweep_Exec Py_Hash Registry_Constants
begin

text \<open>
  \<open>tools/install_autotune_cache.py\<close>: the checks of one reviewed cache entry, reading a cache, the gate
  of promotion ledgers, and \<open>install_cache\<close>, which merges reviewed sources into the destination cache
  by key and writes it sorted.

  Files are those of \<open>Sweep_Exec\<close>. A file that the tool writes holds the value that reading its text
  gives, so its dicts are sorted by key. A dict that the code looks up by autotune key is an
  insertion-ordered list of pairs.
\<close>

section \<open>Constants\<close>

definition REVIEWED_RELEASE_PREFIX :: string where
  "REVIEWED_RELEASE_PREFIX = ''reviewed_release_''"

definition LINUX_CDNA_TARGETS :: "string list" where
  "LINUX_CDNA_TARGETS = [''gfx90a'', ''gfx942'', ''gfx950'']"

definition PUBLIC_ACCELERATOR_AUTOTUNE_BACKENDS :: "string list" where
  "PUBLIC_ACCELERATOR_AUTOTUNE_BACKENDS = [''hipblaslt'', ''ck'', ''rocwmma'']"

definition NATIVE_VECTOR_AUTOTUNE_BACKEND :: string where
  "NATIVE_VECTOR_AUTOTUNE_BACKEND = ''hip-vector-alu-int64''"

definition PUBLIC_ACCELERATOR_AUTOTUNE_SEMANTICS :: "string list" where
  "PUBLIC_ACCELERATOR_AUTOTUNE_SEMANTICS =
     [''bounded_i64'', ''bounded_u64'', ''exact_wide_signed'', ''exact_wide_unsigned'',
      ''finite_ring_u8'', ''finite_field_u8'']"

definition CK_FINITE_SPECIALIZED_KERNELS :: "(int \<times> string) list" where
  "CK_FINITE_SPECIALIZED_KERNELS =
     [(251, ''ck_wmma_cshuffle_finite_u8_mod251_centered_epilogue_v2''),
      (255, ''ck_wmma_cshuffle_finite_u8_mod255_centered_epilogue_v2''),
      (256, ''ck_wmma_cshuffle_finite_u8_mod256_centered_epilogue_v2'')]"

definition ROCWMMA_FINITE_SPECIALIZED_KERNELS :: "(int \<times> string) list" where
  "ROCWMMA_FINITE_SPECIALIZED_KERNELS =
     [(251, ''rocwmma_i8_i32_signed_finite_u8_mod251_hot_residue_v2''),
      (255, ''rocwmma_i8_i32_signed_finite_u8_mod255_hot_residue_v2''),
      (256, ''rocwmma_i8_i32_signed_finite_u8_mod256_hot_residue_v2'')]"

section \<open>Where the cache is\<close>

definition join_all :: "path \<Rightarrow> string list \<Rightarrow> path" where
  "join_all p names = fold (\<lambda>s p. path_join p s) names p"

definition default_autotune_cache_path :: "bool \<Rightarrow> (string \<times> string) list \<Rightarrow> path" where
  "default_autotune_cache_path windows env =
     (let fallback = join_all (path_of ''rns8-gemm'') [''autotune.json'']
      in case set_var env ''RNS8_AUTOTUNE_CACHE_PATH'' of
           Some override \<Rightarrow> path_of override
         | None \<Rightarrow>
             if windows
             then (case set_var env ''LOCALAPPDATA'' of
                     Some local \<Rightarrow> join_all (path_of local) [''rns8-gemm'', ''autotune.json'']
                   | None \<Rightarrow>
                       (case set_var env ''USERPROFILE'' of
                          Some profile \<Rightarrow> join_all (path_of profile)
                            [''AppData'', ''Local'', ''rns8-gemm'', ''autotune.json'']
                        | None \<Rightarrow> fallback))
             else (case set_var env ''XDG_CACHE_HOME'' of
                     Some cache \<Rightarrow> join_all (path_of cache) [''rns8-gemm'', ''autotune.json'']
                   | None \<Rightarrow>
                       (case set_var env ''HOME'' of
                          Some home \<Rightarrow> join_all (path_of home) [''.cache'', ''rns8-gemm'', ''autotune.json'']
                        | None \<Rightarrow> fallback)))"

section \<open>Keys, fingerprints and targets\<close>

fun key_part :: "(string \<times> string) list \<Rightarrow> string \<Rightarrow> (string \<times> string) list" where
  "key_part kf part =
     (case split_once CHR ''='' part of
        None \<Rightarrow> kf
      | Some (name, v) \<Rightarrow> if name = [] then kf else dict_set name v kf)"

definition key_fields :: "string \<Rightarrow> (string \<times> string) list" where
  "key_fields key = foldl key_part [] (split_on CHR '';'' key)"

definition entry_fingerprint :: "pydict option \<Rightarrow> pyval" where
  "entry_fingerprint entry =
     (case entry of
        None \<Rightarrow> PNone
      | Some e \<Rightarrow> PStr (take 16 (sha256_hexdigest (utf8 (json_compact_sorted (PDict e))))))"

definition selector_key_hash :: "string \<Rightarrow> string" where
  "selector_key_hash selector_key = take 16 (sha256_hexdigest (utf8 selector_key))"

text \<open>\<open>(target_id or "").lower()\<close>.\<close>

definition target_text :: "pyval \<Rightarrow> string res" where
  "target_text v =
     (if \<not> truthy v then Inr [] else case v of PStr s \<Rightarrow> Inr (lower s) | _ \<Rightarrow> Inl AttributeError)"

definition target_class_for_id :: "pyval \<Rightarrow> string res" where
  "target_class_for_id target_id =
     rbind (target_text target_id) (\<lambda>target. Inr
       (if target \<in> set LINUX_CDNA_TARGETS then ''cdna''
        else if starts_with ''gfx10'' target \<or> starts_with ''gfx11'' target \<or> starts_with ''gfx12'' target
        then ''rdna''
        else if target \<noteq> [] then ''unknown'' else ''missing''))"

definition reviewed_release_status_for_target :: "string \<Rightarrow> string" where
  "reviewed_release_status_for_target target_id =
     (let target = lower target_id in
      if target = ''gfx1100'' then ''reviewed_release_same_contract_fastest_windows_gfx1100''
      else if target \<in> set LINUX_CDNA_TARGETS
      then ''reviewed_release_same_contract_fastest_linux_'' @ target
      else if starts_with ''gfx'' target
      then ''reviewed_release_same_contract_fastest_target_'' @ target
      else '''')"

section \<open>Field checks\<close>

definition cache_check :: "bool \<Rightarrow> string \<Rightarrow> unit res" where
  "cache_check bad message = check bad (CacheInstallError message)"

definition require_string :: "pydict \<Rightarrow> string \<Rightarrow> string res" where
  "require_string item name =
     rthen (cache_check (\<not> is_nonempty_str (dget item name)) (name @ '' must be a nonempty string''))
       (Inr (str_of (dget item name)))"

definition require_int :: "pydict \<Rightarrow> string \<Rightarrow> int \<Rightarrow> int res" where
  "require_int item name minimum =
     rthen (cache_check (\<not> isinstance_int (dget item name) \<or> int_of (dget item name) < minimum)
         (name @ '' must be an integer >= '' @ show_int minimum))
       (Inr (int_of (dget item name)))"

definition py_float :: "pyval \<Rightarrow> pyfloat res" where
  "py_float v = (case v of PFloat x \<Rightarrow> Inr x | _ \<Rightarrow> float_of_int (int_of v))"

definition require_number :: "pydict \<Rightarrow> string \<Rightarrow> pyfloat res" where
  "require_number item name =
     rthen (cache_check (\<not> isinstance_num (dget item name)) (name @ '' must be numeric''))
       (py_float (dget item name))"

definition require_key_field :: "(string \<times> string) list \<Rightarrow> string \<Rightarrow> string \<Rightarrow> unit res" where
  "require_key_field kf name expected =
     cache_check (map_of kf name \<noteq> Some expected) (''key_'' @ name @ ''_mismatch'')"

definition require_key_int :: "(string \<times> string) list \<Rightarrow> string \<Rightarrow> int \<Rightarrow> unit res" where
  "require_key_int kf name expected =
     (case map_of kf name of
        None \<Rightarrow> Inl (CacheInstallError (''missing_key_'' @ name))
      | Some v \<Rightarrow>
          (case py_int10 v of
             None \<Rightarrow> Inl (CacheInstallError (''invalid_key_'' @ name))
           | Some parsed \<Rightarrow> cache_check (parsed \<noteq> expected) (''key_'' @ name @ ''_mismatch'')))"

definition optional_key_field :: "(string \<times> string) list \<Rightarrow> string \<Rightarrow> string \<Rightarrow> unit res" where
  "optional_key_field kf name expected =
     (case map_of kf name of
        None \<Rightarrow> Inr ()
      | Some v \<Rightarrow> cache_check (v \<noteq> expected) (''key_'' @ name @ ''_mismatch''))"

definition optional_key_int :: "(string \<times> string) list \<Rightarrow> string \<Rightarrow> int \<Rightarrow> unit res" where
  "optional_key_int kf name expected =
     (if \<not> has_key kf name then Inr () else require_key_int kf name expected)"

section \<open>Backends, kernels and epilogues\<close>

definition reviewed_backend_supports_semantic_contract :: "string \<Rightarrow> string \<Rightarrow> bool" where
  "reviewed_backend_supports_semantic_contract backend semantic =
     (if backend = NATIVE_VECTOR_AUTOTUNE_BACKEND then semantic \<in> set SCHEMA_BOUNDED_SEMANTICS
      else backend \<in> set PUBLIC_ACCELERATOR_AUTOTUNE_BACKENDS
           \<and> semantic \<in> set PUBLIC_ACCELERATOR_AUTOTUNE_SEMANTICS)"

definition expected_vector_alu_kernel :: "string \<Rightarrow> int \<Rightarrow> int \<Rightarrow> int \<Rightarrow> string option" where
  "expected_vector_alu_kernel semantic m n k =
     (let gemv_n1 = n = 1 \<and> 4096 \<le> k;
          gemv_small_n = 1 < n \<and> n \<le> 8 \<and> 512 \<le> k
      in if semantic = ''bounded_i64''
         then Some (if gemv_n1 then ''hip_vector_alu_i64_gemv_n1_exact_192b_v1''
                    else if gemv_small_n then ''hip_vector_alu_i64_gemv_small_n_exact_192b_v1''
                    else ''hip_vector_alu_i64_exact_192b_v1'')
         else if semantic = ''bounded_u64''
         then Some (if gemv_n1 then ''hip_vector_alu_u64_gemv_n1_exact_192b_v1''
                    else if gemv_small_n then ''hip_vector_alu_u64_gemv_small_n_exact_192b_v1''
                    else ''hip_vector_alu_u64_exact_192b_v1'')
         else None)"

definition lookup_or :: "(int \<times> string) list \<Rightarrow> int \<Rightarrow> string \<Rightarrow> string" where
  "lookup_or table k v = (case map_of table k of None \<Rightarrow> v | Some w \<Rightarrow> w)"

definition reviewed_kernel_supported_for_contract ::
  "string \<Rightarrow> string \<Rightarrow> string \<Rightarrow> int \<Rightarrow> int \<Rightarrow> int \<Rightarrow> int \<Rightarrow> bool" where
  "reviewed_kernel_supported_for_contract backend semantic kern finite_modulus m n k =
     (if backend = NATIVE_VECTOR_AUTOTUNE_BACKEND
      then Some kern = expected_vector_alu_kernel semantic m n k
      else if backend = ''hipblaslt''
      then kern = ''hipblaslt_int8_i32_scratch_reduce_specialized_251_255_256_v2''
      else if backend = ''ck'' \<and> semantic \<in> set FINITE_U8_SEMANTICS
      then kern = lookup_or CK_FINITE_SPECIALIZED_KERNELS finite_modulus
             ''ck_wmma_cshuffle_finite_u8_static_modulus_centered_epilogue_v2''
      else if backend = ''ck'' \<and> semantic \<in> set SCHEMA_EXACT_WIDE_SEMANTICS
      then kern = ''ck_wmma_cshuffle_i8_i32_default_moduli_static_centered_epilogue_v3''
      else if backend = ''ck'' \<and> semantic \<in> set SCHEMA_BOUNDED_SEMANTICS
      then kern \<in> {''ck_wmma_cshuffle_i8_i32_default_moduli_static_centered_epilogue_v3'',
                      ''ck_wmma_cshuffle_tiled_i8_i32_default_moduli_static_centered_epilogue_v3''}
      else if backend = ''rocwmma'' \<and> semantic \<in> set FINITE_U8_SEMANTICS
      then kern = lookup_or ROCWMMA_FINITE_SPECIALIZED_KERNELS finite_modulus
             ''rocwmma_i8_i32_signed_finite_u8_hot_residue_v1''
      else if backend = ''rocwmma'' \<and> semantic \<in> set SCHEMA_EXACT_WIDE_SEMANTICS
      then kern = ''rocwmma_i8_i32_signed_mod251_255_256_hot_residue_v2''
      else if backend = ''rocwmma'' \<and> semantic \<in> set SCHEMA_BOUNDED_SEMANTICS
      then kern \<in> {''rocwmma_i8_i32_signed_mod251_255_256_hot_residue_v2'',
                      ''rocwmma_i8_i32_signed_tiled_mod251_255_256_hot_residue_v2''}
      else False)"

text \<open>The three epilogues of an accelerator, for finite, exact-wide and bounded contracts.\<close>

definition epilogue_table :: "string \<Rightarrow> (string \<times> string \<times> string) option" where
  "epilogue_table backend =
     (if backend = ''hipblaslt''
      then Some (''separate_i32_scratch_reduce_then_canonical_u8_export'',
                 ''separate_i32_scratch_reduce_rns_output'',
                 ''separate_i32_scratch_reduce_then_crt_export'')
      else if backend = ''ck''
      then Some (''ck_fused_i32_to_centered_residue_then_canonical_u8_export'',
                 ''ck_fused_i32_to_centered_residue_rns_output'',
                 ''ck_fused_i32_to_centered_residue_then_crt_export'')
      else if backend = ''rocwmma''
      then Some (''rocwmma_fused_i32_to_centered_residue_then_canonical_u8_export'',
                 ''rocwmma_fused_i32_to_centered_residue_rns_output'',
                 ''rocwmma_fused_i32_to_centered_residue_then_crt_export'')
      else None)"

definition reviewed_epilogue_supported_for_contract :: "string \<Rightarrow> string \<Rightarrow> string \<Rightarrow> bool" where
  "reviewed_epilogue_supported_for_contract backend semantic epilogue =
     (if backend = NATIVE_VECTOR_AUTOTUNE_BACKEND
      then semantic \<in> set SCHEMA_BOUNDED_SEMANTICS \<and> epilogue = ''direct_int64_export''
      else case epilogue_table backend of
             None \<Rightarrow> False
           | Some (small, wide, exact) \<Rightarrow>
               if semantic \<in> set FINITE_U8_SEMANTICS then epilogue = small
               else if semantic \<in> set SCHEMA_EXACT_WIDE_SEMANTICS then epilogue = wide
               else if semantic \<in> set SCHEMA_BOUNDED_SEMANTICS then epilogue = exact
               else False)"

section \<open>One entry\<close>

record entry_identity =
  ei_key :: string
  ei_backend :: string
  ei_kernel :: string
  ei_target :: string
  ei_version :: string
  ei_semantic :: string
  ei_layout :: string
  ei_epilogue :: string
  ei_family :: string

definition read_identity :: "pydict \<Rightarrow> entry_identity res" where
  "read_identity entry =
     rbind (require_string entry ''key'') (\<lambda>key.
     rbind (require_string entry ''selected_backend'') (\<lambda>backend.
     rbind (require_string entry ''selected_kernel'') (\<lambda>kern.
     rbind (require_string entry ''target_id'') (\<lambda>target.
     rbind (require_string entry ''hip_sdk_or_library_version'') (\<lambda>version.
     rbind (require_string entry ''semantic_contract'') (\<lambda>semantic.
     rbind (require_string entry ''layout'') (\<lambda>layout.
     rthen (require_string entry ''prefix_schedule_hash'') (
     rbind (require_string entry ''epilogue'') (\<lambda>epilogue.
     rbind (require_string entry ''kernel_family'') (\<lambda>family.
     Inr \<lparr>ei_key = key, ei_backend = backend, ei_kernel = kern, ei_target = target,
       ei_version = version, ei_semantic = semantic, ei_layout = layout, ei_epilogue = epilogue,
       ei_family = family\<rparr>))))))))))"

definition check_reviewed :: "pydict \<Rightarrow> entry_identity \<Rightarrow> unit res" where
  "check_reviewed entry ei =
     rbind (require_string entry ''validation_status'') (\<lambda>status.
     rthen (cache_check (\<not> is_True (dget entry ''performance_validated'')) ''performance_validated must be true'')
     (rthen (cache_check (\<not> starts_with REVIEWED_RELEASE_PREFIX status)
         ''validation_status must start with reviewed_release_'')
     (rthen (cache_check (reviewed_release_status_for_target (ei_target ei) = []
         \<or> status \<noteq> reviewed_release_status_for_target (ei_target ei)) ''validation_status_target_mismatch'')
     (rbind (require_int entry ''schema_version'' 0) (\<lambda>version.
     rthen (cache_check (version \<noteq> 1) ''entry schema_version must be 1'')
     (cache_check (\<not> reviewed_backend_supports_semantic_contract (ei_backend ei) (ei_semantic ei))
         ''unsupported_autotune_backend_semantic_contract''))))))"

record entry_shape =
  eh_m :: int
  eh_n :: int
  eh_k :: int
  eh_k_block :: int
  eh_tile_m :: int
  eh_tile_n :: int

definition read_shape :: "pydict \<Rightarrow> entry_shape res" where
  "read_shape entry =
     (let shape = dget entry ''shape'' in
      rthen (cache_check (\<not> is_dict shape) ''shape must be an object'') (
      rbind (require_int (items_of shape) ''m'' 1) (\<lambda>m.
      rbind (require_int (items_of shape) ''n'' 1) (\<lambda>n.
      rbind (require_int (items_of shape) ''k'' 1) (\<lambda>k.
      rbind (require_int entry ''k_block_size'' 0) (\<lambda>k_block.
      rbind (require_int entry ''tile_m'' 1) (\<lambda>tile_m.
      rbind (require_int entry ''tile_n'' 1) (\<lambda>tile_n.
      rthen (require_int entry ''workspace_bytes'' 0) (
      Inr \<lparr>eh_m = m, eh_n = n, eh_k = k, eh_k_block = k_block, eh_tile_m = tile_m,
        eh_tile_n = tile_n\<rparr>)))))))))"

definition check_medians :: "pydict \<Rightarrow> unit res" where
  "check_medians entry =
     (let medians = dget entry ''measured_medians_us'' in
      rthen (cache_check (\<not> is_dict medians) ''measured_medians_us must be an object'')
      (rthen (rforM (\<lambda>name. rthen (require_number (items_of medians) name) (Inr ()))
          [''pack'', ''rns_gemm'', ''crt_export'', ''end_to_end''])
      (rforM (\<lambda>name. if has_key (items_of medians) name
            then rthen (require_number (items_of medians) name) (Inr ()) else Inr ())
          [''pack_a'', ''pack_b''])))"

definition check_key :: "(string \<times> string) list \<Rightarrow> entry_identity \<Rightarrow> entry_shape \<Rightarrow> unit res" where
  "check_key kf ei eh =
     rthen (require_key_field kf ''backend'' (ei_backend ei))
     (rthen (require_key_field kf ''semantics'' (ei_semantic ei))
     (rthen (require_key_field kf ''kernel'' (ei_kernel ei))
     (rthen (require_key_field kf ''epilogue'' (ei_epilogue ei))
     (rthen (cache_check (ei_family ei \<noteq> ei_kernel ei) ''kernel_family_mismatch'')
     (rthen (require_key_int kf ''m'' (eh_m eh))
     (rthen (require_key_int kf ''n'' (eh_n eh))
     (rthen (require_key_int kf ''k'' (eh_k eh))
     (rthen (require_key_int kf ''tile_m'' (eh_tile_m eh))
     (rthen (require_key_int kf ''tile_n'' (eh_tile_n eh))
     (rthen (optional_key_int kf ''k_block_size'' (eh_k_block eh))
     (rthen (require_key_field kf ''target_id'' (ei_target ei))
     (rthen (optional_key_field kf ''target'' (ei_target ei))
     (rthen (optional_key_field kf ''version'' (ei_version ei))
     (rthen (optional_key_field kf ''hip_sdk_or_library_version'' (ei_version ei))
     (optional_key_field kf ''layout'' (ei_layout ei))))))))))))))))"

definition variant_of :: "pydict \<Rightarrow> string \<Rightarrow> string \<Rightarrow> string res" where
  "variant_of entry name v =
     (let w = dget_or entry name (PStr v) in
      rthen (cache_check (\<not> is_nonempty_str w) (name @ '' must be a nonempty string'')) (Inr (str_of w)))"

definition check_export_contract :: "pydict \<Rightarrow> (string \<times> string) list \<Rightarrow> unit res" where
  "check_export_contract entry kf =
     rbind (variant_of entry ''export_variant'' ''default'') (\<lambda>export.
     rbind (variant_of entry ''reconstruction_variant'' ''default_garner'') (\<lambda>reconstruction.
     rbind (variant_of entry ''cache_scope'' ''runtime_exact_autotune'') (\<lambda>scope.
     if export = ''default'' \<and> reconstruction = ''default_garner''
     then
       rthen (cache_check (scope \<noteq> ''runtime_exact_autotune'') ''default_export_contract_cache_scope_mismatch'')
       (rforM (\<lambda>stale. cache_check (has_key kf stale) (''unexpected_default_'' @ stale @ ''_key''))
         [''export_variant'', ''reconstruction_variant'', ''export_selector_hash''])
     else
       (let selector = dget entry ''export_selector_key'' in
        rthen (cache_check (scope \<noteq> ''selector_review_only_non_default'')
          ''non_default_export_contract_cache_scope_mismatch'')
        (rthen (cache_check (\<not> is_nonempty_str selector) ''missing_export_selector_key'')
        (rthen (cache_check (\<not> eq_str (dget entry ''export_selector_hash'') (selector_key_hash (str_of selector)))
          ''export_selector_hash_mismatch'')
        (rthen (require_key_field kf ''export_variant'' export)
        (rthen (require_key_field kf ''reconstruction_variant'' reconstruction)
        (require_key_field kf ''export_selector_hash'' (selector_key_hash (str_of selector)))))))))))"

definition read_finite_modulus :: "pydict \<Rightarrow> string \<Rightarrow> (string \<times> string) list \<Rightarrow> pyval res" where
  "read_finite_modulus entry semantic kf =
     (let raw = dget_or entry ''finite_modulus'' (PInt 0);
          modulus = if is_None raw then PInt 0 else raw
      in rthen (cache_check (\<not> isinstance_int modulus \<or> int_of modulus < 0)
           ''finite_modulus must be an integer >= 0'')
         (rthen (if semantic \<in> {''finite_ring_u8'', ''finite_field_u8''}
                 then rthen (cache_check (int_of modulus = 0) ''missing_entry_finite_modulus'')
                        (require_key_int kf ''finite_modulus'' (int_of modulus))
                 else rthen (cache_check (int_of modulus \<noteq> 0) ''unexpected_entry_finite_modulus'')
                        (cache_check (has_key kf ''finite_modulus'') ''unexpected_key_finite_modulus''))
         (Inr modulus)))"

definition validate_entry_dict :: "pydict \<Rightarrow> pydict res" where
  "validate_entry_dict entry =
     rbind (read_identity entry) (\<lambda>ei.
     rthen (check_reviewed entry ei) (
     rbind (read_shape entry) (\<lambda>eh.
     rthen (check_medians entry)
     (let kf = key_fields (ei_key ei) in
      rthen (check_key kf ei eh)
      (rthen (check_export_contract entry kf) (
      rbind (read_finite_modulus entry (ei_semantic ei) kf) (\<lambda>modulus.
      rthen (cache_check (\<not> reviewed_kernel_supported_for_contract (ei_backend ei) (ei_semantic ei)
          (ei_kernel ei) (int_of modulus) (eh_m eh) (eh_n eh) (eh_k eh))
        ''unsupported_autotune_kernel_for_contract'')
      (rthen (cache_check (\<not> reviewed_epilogue_supported_for_contract (ei_backend ei) (ei_semantic ei)
          (ei_epilogue ei)) ''unsupported_autotune_epilogue_for_contract'')
      (Inr (dict_set ''finite_modulus'' modulus entry))))))))))"

definition entry_place :: "path \<Rightarrow> nat \<Rightarrow> string" where
  "entry_place source index = path_str source @ '': entry '' @ show_nat index"

definition validate_entry :: "path \<Rightarrow> nat \<times> pyval \<Rightarrow> pydict res" where
  "validate_entry source iv =
     (case iv of (index, v) \<Rightarrow>
      case v of
        PDict entry \<Rightarrow>
          (case validate_entry_dict entry of
             Inl (CacheInstallError message) \<Rightarrow> Inl (CacheInstallError (entry_place source index @ '': '' @ message))
           | r \<Rightarrow> r)
      | _ \<Rightarrow> Inl (CacheInstallError (entry_place source index @ '' must be an object'')))"

section \<open>Reading caches and ledgers\<close>

definition indexed :: "'a list \<Rightarrow> (nat \<times> 'a) list" where
  "indexed xs = zip [0..<length xs] xs"

definition read_cache :: "files \<Rightarrow> path \<Rightarrow> bool \<Rightarrow> pydict list res" where
  "read_cache fs p allow_missing =
     (case fs p of
        Missing \<Rightarrow> if allow_missing then Inr [] else Inl (FileNotFoundError (path_str p))
      | Malformed _ \<Rightarrow> Inl ValueError
      | Parsed root_value \<Rightarrow>
          (let entries = vget root_value ''entries'' in
           rthen (cache_check (\<not> is_dict root_value) (path_str p @ '': root must be an object''))
           (rthen (cache_check (\<not> py_eq (vget root_value ''schema_version'') (PInt 1))
             (path_str p @ '': schema_version must be 1''))
           (rthen (cache_check (\<not> is_list entries) (path_str p @ '': entries must be an array''))
           (rmapM (validate_entry p) (indexed (elems_of entries)))))))"

type_synonym ledger = "(string \<times> pydict) list"

definition ledger_row :: "path \<Rightarrow> ledger \<Rightarrow> nat \<times> pyval \<Rightarrow> ledger res" where
  "ledger_row p by_key iv =
     (case iv of (index, v) \<Rightarrow>
      let place = path_str p @ '': promotion ledger entry '' @ show_nat index;
          key = str_of (vget v ''autotune_key'')
      in rthen (cache_check (\<not> is_dict v) (place @ '' must be an object''))
         (rthen (cache_check (\<not> is_nonempty_str (vget v ''autotune_key'')) (place @ '' missing autotune_key''))
         (rthen (cache_check (has_key by_key key)
            (path_str p @ '': duplicate promotion ledger autotune_key '' @ key))
         (Inr (dict_set key (items_of v) by_key)))))"

definition read_promotion_ledger :: "files \<Rightarrow> path \<Rightarrow> ledger res" where
  "read_promotion_ledger fs p =
     (let unreadable = (\<lambda>e. CacheInstallError (path_str p @ '': failed to read promotion ledger: '' @ e))
      in case fs p of
           Missing \<Rightarrow> Inl (unreadable (''[Errno 2] No such file or directory: '' @ repr_str (path_str p)))
         | Malformed message \<Rightarrow> Inl (unreadable message)
         | Parsed root_value \<Rightarrow>
             (let entries = vget root_value ''entries'' in
              rthen (cache_check (\<not> is_dict root_value) (path_str p @ '': promotion ledger root must be an object''))
              (rthen (cache_check (\<not> is_list entries) (path_str p @ '': promotion ledger entries must be an array''))
              (rfoldM (ledger_row p) [] (indexed (elems_of entries))))))"

section \<open>The gate of promotion ledgers\<close>

definition add_ledger_entry :: "path \<Rightarrow> ledger \<Rightarrow> string \<times> pydict \<Rightarrow> ledger res" where
  "add_ledger_entry p ledgers ke =
     (case ke of (key, row) \<Rightarrow>
      rthen (cache_check (case map_of ledgers key of None \<Rightarrow> False | Some old \<Rightarrow> \<not> py_eq (PDict old) (PDict row))
          (path_str p @ '': conflicting promotion ledger entry for '' @ key))
        (Inr (dict_set key row ledgers)))"

definition collect_ledgers :: "files \<Rightarrow> path list \<Rightarrow> ledger res" where
  "collect_ledgers fs paths =
     rfoldM (\<lambda>ledgers p. rbind (read_promotion_ledger fs p) (\<lambda>rows.
       rfoldM (add_ledger_entry p) ledgers rows)) [] paths"

definition check_ledger_row :: "bool \<Rightarrow> bool \<Rightarrow> pydict \<Rightarrow> string \<Rightarrow> pydict \<Rightarrow> unit res" where
  "check_ledger_row variance target entry key row =
     (let blockers = dget row ''promotion_blockers'';
          target_id = lower (py_str (py_or (dget entry ''target_id'') (PStr [])))
      in rthen (cache_check (\<not> is_list blockers) (''promotion_ledger_blockers_malformed:'' @ key))
         (rthen (cache_check (elems_of blockers \<noteq> [])
            (''promotion_ledger_blocked:'' @ key @ '':'' @ join_with '','' (map py_str (elems_of blockers))))
         (rthen (cache_check (\<not> is_True (dget row ''performance_validated''))
            (''promotion_ledger_not_performance_validated:'' @ key))
         (rthen (if variance
            then rthen (cache_check (\<not> is_True (dget row ''variance_gate_available''))
                   (''promotion_ledger_missing_variance_gate:'' @ key))
                 (cache_check (\<not> is_True (dget row ''variance_gate_ready''))
                   (''promotion_ledger_variance_gate_not_ready:'' @ key))
            else Inr ())
         (if target \<or> target_id \<in> set LINUX_CDNA_TARGETS
            then rthen (cache_check (\<not> is_True (dget row ''target_validation_gate_available''))
                   (''promotion_ledger_missing_target_validation_gate:'' @ key))
                 (rthen (cache_check (\<not> is_True (dget row ''target_validation_gate_ready''))
                   (''promotion_ledger_target_validation_gate_not_ready:'' @ key))
                 (cache_check (\<not> is_True (dget row ''target_cache_eligible''))
                   (''promotion_ledger_target_cache_not_eligible:'' @ key)))
            else Inr ())))))"

text \<open>\<open>entry["key"]\<close>, a string in every validated entry.\<close>

definition entry_key :: "pydict \<Rightarrow> string" where
  "entry_key entry = str_of (dget entry ''key'')"

definition validate_promotion_ledger_gate ::
  "files \<Rightarrow> pydict list \<Rightarrow> path list \<Rightarrow> bool \<Rightarrow> bool \<Rightarrow> unit res" where
  "validate_promotion_ledger_gate fs source_entries ledger_paths variance target =
     rbind (collect_ledgers fs ledger_paths) (\<lambda>ledgers.
     rthen (cache_check (variance \<and> ledger_paths = [])
       ''--require-variance-gate requires at least one --promotion-ledger'')
     (rforM (\<lambda>entry.
        case map_of ledgers (entry_key entry) of
          None \<Rightarrow> Inl (CacheInstallError (''missing_promotion_ledger_entry:'' @ entry_key entry))
        | Some row \<Rightarrow> check_ledger_row variance target entry (entry_key entry) row) source_entries))"

section \<open>Writing and summarising\<close>

definition write_cache :: "path \<Rightarrow> pydict list \<Rightarrow> files \<Rightarrow> files" where
  "write_cache p entries fs =
     fs(p := Parsed (json_sorted (PDict [(''schema_version'', PInt 1), (''entries'', PList (map PDict entries))])))"

definition shape_family_of :: "pydict \<Rightarrow> string" where
  "shape_family_of entry =
     (let shape = items_of (dget entry ''shape'');
          dims = map (dget shape) [''m'', ''n'', ''k'']
      in if list_all isinstance_int dims
         then (let max_dim = Max (set (map int_of dims))
               in if max_dim \<le> 128 then ''small'' else if max_dim \<le> 1024 then ''medium'' else ''large'')
         else ''unknown'')"

definition text_or :: "pydict \<Rightarrow> string \<Rightarrow> string \<Rightarrow> string" where
  "text_or entry name v = py_str (py_or (dget entry name) (PStr v))"

definition coverage_key :: "pydict \<Rightarrow> string list res" where
  "coverage_key entry =
     rbind (target_class_for_id (PStr (text_or entry ''target_id'' ''unknown''))) (\<lambda>target_class. Inr
       [text_or entry ''semantic_contract'' ''unknown'', shape_family_of entry,
        text_or entry ''selected_backend'' ''unknown'', target_class,
        text_or entry ''export_variant'' ''default'',
        text_or entry ''reconstruction_variant'' ''default_garner''])"

definition count_key :: "(string list \<times> nat) list \<Rightarrow> string list \<Rightarrow> (string list \<times> nat) list" where
  "count_key groups key =
     dict_set key ((case map_of groups key of None \<Rightarrow> 0 | Some n \<Rightarrow> n) + 1) groups"

definition coverage_row :: "string list \<times> nat \<Rightarrow> pyval" where
  "coverage_row kn =
     PDict (zip [''semantic_contract'', ''shape_family'', ''backend'', ''target_class'', ''export_variant'',
        ''reconstruction_variant''] (map PStr (fst kn)) @ [(''entry_count'', PInt (int (snd kn)))])"

definition cache_coverage_summary :: "pydict list \<Rightarrow> pyval list res" where
  "cache_coverage_summary entries =
     rbind (rmapM coverage_key entries) (\<lambda>keys.
     Inr (map coverage_row (sort_key fst (foldl count_key [] keys))))"

section \<open>Installing\<close>

record install_options =
  io_dry_run :: bool
  io_replace_existing :: bool
  io_promotion_ledgers :: "path list"
  io_require_variance_gate :: bool
  io_require_target_validation_gate :: bool
  io_allow_selector_review_cache :: bool

definition read_existing :: "files \<Rightarrow> path \<Rightarrow> install_options \<Rightarrow> pydict list res" where
  "read_existing fs destination opts =
     (if io_replace_existing opts then Inr []
      else case read_cache fs destination True of
             Inl (CacheInstallError message) \<Rightarrow> Inl (CacheInstallError
               (path_str destination @ '': existing cache failed reviewed-cache validation; ''
                @ ''rerun with --replace-existing to discard existing entries: '' @ message))
           | r \<Rightarrow> r)"

definition add_by_key :: "(string \<times> pydict) list \<Rightarrow> pydict \<Rightarrow> (string \<times> pydict) list" where
  "add_by_key d entry = dict_set (entry_key entry) entry d"

definition by_key :: "pydict list \<Rightarrow> (string \<times> pydict) list" where
  "by_key entries = foldl add_by_key [] entries"

definition source_of_keys :: "(path \<times> pydict list) list \<Rightarrow> (string \<times> string) list" where
  "source_of_keys sources =
     foldl (\<lambda>d (p, entries). foldl (\<lambda>d entry. dict_set (entry_key entry) (path_str p) d) d entries) [] sources"

definition check_runtime_scope :: "pydict list \<Rightarrow> unit res" where
  "check_runtime_scope entries =
     rforM (\<lambda>entry. cache_check
       (\<not> eq_str (dget_or entry ''cache_scope'' (PStr ''runtime_exact_autotune'')) ''runtime_exact_autotune'')
       (''selector_review_only_cache_entry_not_runtime_installable:'' @ text_or entry ''key'' ''<missing>'')) entries"

definition effective_variance :: "install_options \<Rightarrow> bool" where
  "effective_variance opts \<longleftrightarrow> io_require_variance_gate opts \<or> io_promotion_ledgers opts \<noteq> []"

definition check_gates :: "files \<Rightarrow> pydict list \<Rightarrow> install_options \<Rightarrow> unit res" where
  "check_gates fs entries opts =
     rthen (if io_allow_selector_review_cache opts then Inr () else check_runtime_scope entries)
     (rthen (cache_check (\<not> io_dry_run opts \<and> io_promotion_ledgers opts = [])
       ''promotion_ledger_required_for_cache_install'')
     (if io_promotion_ledgers opts \<noteq> []
      then validate_promotion_ledger_gate fs entries (io_promotion_ledgers opts) (effective_variance opts)
             (io_require_target_validation_gate opts)
      else if effective_variance opts
      then Inl (CacheInstallError ''--require-variance-gate requires at least one --promotion-ledger'')
      else if io_require_target_validation_gate opts
      then Inl (CacheInstallError ''--require-target-validation-gate requires at least one --promotion-ledger'')
      else Inr ()))"

definition history_row ::
  "install_options \<Rightarrow> (string \<times> string) list \<Rightarrow> pydict option \<Rightarrow> pydict \<Rightarrow> pyval res" where
  "history_row opts source_by_key old entry =
     rbind (target_class_for_id (dget entry ''target_id'')) (\<lambda>target_class. Inr (PDict
       [(''action'', PStr (if old \<noteq> None then ''replace'' else ''add'')),
        (''key'', PStr (entry_key entry)),
        (''old_entry_fingerprint'', entry_fingerprint old),
        (''new_entry_fingerprint'', entry_fingerprint (Some entry)),
        (''selected_backend'', dget entry ''selected_backend''),
        (''selected_kernel'', dget entry ''selected_kernel''),
        (''semantic_contract'', dget entry ''semantic_contract''),
        (''target_id'', dget entry ''target_id''),
        (''target_class'', PStr target_class),
        (''export_variant'', dget_or entry ''export_variant'' (PStr ''default'')),
        (''reconstruction_variant'', dget_or entry ''reconstruction_variant'' (PStr ''default_garner'')),
        (''export_selector_hash'', dget entry ''export_selector_hash''),
        (''cache_scope'', dget_or entry ''cache_scope'' (PStr ''runtime_exact_autotune'')),
        (''evidence_source'', case map_of source_by_key (entry_key entry) of None \<Rightarrow> PNone | Some p \<Rightarrow> PStr p),
        (''updated_utc'', dget entry ''updated_utc''),
        (''validation_status'', dget entry ''validation_status''),
        (''validation_command_family'', PStr (if io_promotion_ledgers opts \<noteq> []
           then ''reviewed_release_with_promotion_ledger'' else ''reviewed_release_cache_validation_only''))]))"

definition merge_entry ::
  "install_options \<Rightarrow> (string \<times> string) list \<Rightarrow> (string \<times> pydict) list \<times> pyval list \<Rightarrow> pydict \<Rightarrow>
   ((string \<times> pydict) list \<times> pyval list) res" where
  "merge_entry opts source_by_key mh entry =
     (let old = map_of (fst mh) (entry_key entry);
          unchanged = (case old of None \<Rightarrow> False | Some e \<Rightarrow> py_eq (PDict e) (PDict entry))
      in rbind (if unchanged then Inr (snd mh)
                else rbind (history_row opts source_by_key old entry) (\<lambda>row. Inr (snd mh @ [row])))
           (\<lambda>history. Inr (add_by_key (fst mh) entry, history)))"

definition merged_in_order :: "(string \<times> pydict) list \<Rightarrow> pydict list" where
  "merged_in_order merged = map (\<lambda>k. the (map_of merged k)) (sort (map fst merged))"

definition replaced_count :: "(string \<times> pydict) list \<Rightarrow> pydict list \<Rightarrow> nat" where
  "replaced_count merged existing =
     length (filter (\<lambda>k. \<not> list_ex (\<lambda>e. elem_eq (PDict (the (map_of merged k))) (PDict e)) existing)
       (map fst (by_key existing)))"

definition added_count :: "(string \<times> pydict) list \<Rightarrow> pydict list \<Rightarrow> nat" where
  "added_count merged existing =
     length (filter (\<lambda>k. \<not> has_key (by_key existing) k) (map fst merged))"

definition read_sources :: "files \<Rightarrow> path list \<Rightarrow> (path \<times> pydict list) list res" where
  "read_sources fs sources =
     rmapM (\<lambda>p. rbind (read_cache fs p False) (\<lambda>entries. Inr (p, entries))) sources"

definition install_report ::
  "path list \<Rightarrow> path \<Rightarrow> install_options \<Rightarrow> pydict list \<Rightarrow> pydict list \<Rightarrow> (string \<times> pydict) list \<Rightarrow>
   pyval list \<Rightarrow> pyval list \<Rightarrow> pydict" where
  "install_report sources destination opts existing reviewed merged history coverage =
     [(''destination'', PStr (path_str destination)),
      (''dry_run'', PBool (io_dry_run opts)),
      (''replace_existing'', PBool (io_replace_existing opts)),
      (''sources'', PList (map (PStr \<circ> path_str) sources)),
      (''promotion_ledgers'', PList (map (PStr \<circ> path_str) (io_promotion_ledgers opts))),
      (''require_variance_gate'', PBool (effective_variance opts)),
      (''require_target_validation_gate'', PBool (io_require_target_validation_gate opts)),
      (''allow_selector_review_cache'', PBool (io_allow_selector_review_cache opts)),
      (''source_entries'', PInt (int (length reviewed))),
      (''existing_entries'', PInt (int (length existing))),
      (''installed_entries'', PInt (int (length (merged_in_order merged)))),
      (''added_entries'', PInt (int (added_count merged existing))),
      (''replaced_entries'', PInt (int (replaced_count merged existing))),
      (''replacement_history'', PList history),
      (''cache_coverage'', PList coverage)]"

definition install_cache ::
  "path list \<Rightarrow> path \<Rightarrow> install_options \<Rightarrow> files \<Rightarrow> (pydict \<times> files) res" where
  "install_cache sources destination opts fs =
     rbind (read_existing fs destination opts) (\<lambda>existing.
     rbind (read_sources fs sources) (\<lambda>read.
     let reviewed = concat (map snd read); source_by_key = source_of_keys read in
     rthen (check_gates fs reviewed opts) (
     rbind (rfoldM (merge_entry opts source_by_key) (by_key existing, []) reviewed) (\<lambda>mh.
     let ordered = merged_in_order (fst mh) in
     rbind (cache_coverage_summary ordered) (\<lambda>coverage. Inr
       (install_report sources destination opts existing reviewed (fst mh) (snd mh) coverage,
        if io_dry_run opts then fs else write_cache destination ordered fs))))))"

text \<open>\<open>main\<close>, after \<open>argparse\<close>.\<close>

definition install_main ::
  "path list \<Rightarrow> path option \<Rightarrow> install_options \<Rightarrow> bool \<Rightarrow> (string \<times> string) list \<Rightarrow> files \<Rightarrow>
   (pydict \<times> files) res" where
  "install_main sources destination opts windows env fs =
     install_cache sources
       (case destination of None \<Rightarrow> default_autotune_cache_path windows env | Some p \<Rightarrow> p) opts fs"

section \<open>Where the sweep looks and where the tool installs\<close>

lemma join_all_parts:
  assumes "list_all plain_name names"
  shows "path_parts (join_all p names) = path_parts p @ names"
  using assms by (induction names arbitrary: p) (simp_all add: join_all_def path_join_plain)

lemma cache_names_plain:
  "plain_name ''rns8-gemm''" "plain_name ''autotune.json''" "plain_name ''.cache''"
  by (simp_all add: plain_name_def)

lemma join_all_differs:
  "join_all p [''rns8-gemm'', ''autotune.json''] \<noteq> join_all p [''.cache'', ''rns8-gemm'', ''autotune.json'']"
  by (auto simp: join_all_parts cache_names_plain dest!: arg_cong [where f = path_parts])

text \<open>
  Outside Windows, the cache that the sweep tool looks for and the cache that the installer writes by
  default are different files exactly when \<open>XDG_CACHE_HOME\<close> is set and \<open>RNS8_AUTOTUNE_CACHE_PATH\<close> is not:
  the sweep tool then adds a \<open>.cache\<close> directory that the installer does not.
\<close>

theorem cache_paths_differ:
  "default_autotune_cache_path False env \<noteq> autotune_cache_path False env
   \<longleftrightarrow> set_var env ''RNS8_AUTOTUNE_CACHE_PATH'' = None \<and> set_var env ''XDG_CACHE_HOME'' \<noteq> None"
  using join_all_differs
  by (auto simp: default_autotune_cache_path_def autotune_cache_path_def first_set_def join_all_def Let_def
      split: option.splits)

section \<open>Validation looks at scalars only\<close>

lemma json_sorted_scalar [simp]:
  "is_nonempty_str (json_sorted v) = is_nonempty_str v"
  "str_of (json_sorted v) = str_of v"
  "isinstance_int (json_sorted v) = isinstance_int v"
  "isinstance_num (json_sorted v) = isinstance_num v"
  "int_of (json_sorted v) = int_of v"
  "is_dict (json_sorted v) = is_dict v"
  "is_list (json_sorted v) = is_list v"
  "is_True (json_sorted v) = is_True v"
  "py_float (json_sorted v) = py_float v"
  "eq_str (json_sorted v) s = eq_str v s"
  "json_sorted v = PNone \<longleftrightarrow> v = PNone"
  "isinstance_int v \<Longrightarrow> json_sorted v = v"
  by (cases v; simp add: is_True_def py_float_def eq_str_def)+

definition sorted_dict :: "pydict \<Rightarrow> pydict" where
  "sorted_dict d = items_of (json_sorted (PDict d))"

lemma json_sorted_PDict: "json_sorted (PDict d) = PDict (sorted_dict d)"
  by (simp add: sorted_dict_def)

lemma map_of_sorted_dict: "dict_wf d \<Longrightarrow> map_of (sorted_dict d) k = map_option json_sorted (map_of d k)"
  by (simp only: sorted_dict_def json_sorted_get dict_wf_def)

lemma dget_sorted_dict: "dict_wf d \<Longrightarrow> dget (sorted_dict d) k = json_sorted (dget d k)"
  by (simp add: dget_def map_of_sorted_dict split: option.split)

lemma dget_or_sorted_dict:
  "dict_wf d \<Longrightarrow> json_sorted v = v \<Longrightarrow> dget_or (sorted_dict d) k v = json_sorted (dget_or d k v)"
  by (simp add: dget_or_def map_of_sorted_dict split: option.split)

lemma has_key_sorted_dict: "dict_wf d \<Longrightarrow> has_key (sorted_dict d) k = has_key d k"
  by (simp add: has_key_map_of map_of_sorted_dict)

lemma dict_wf_sorted: "dict_wf d \<Longrightarrow> dict_wf (sorted_dict d)"
  by (simp add: sorted_dict_def dict_wf_def comp_def)

lemma items_of_json_sorted: "is_dict v \<Longrightarrow> items_of (json_sorted v) = sorted_dict (items_of v)"
  by (cases v) (simp_all add: sorted_dict_def)

lemmas sorted_dict_simps =
  dget_sorted_dict dget_or_sorted_dict has_key_sorted_dict items_of_json_sorted

lemma require_string_sorted [simp]: "dict_wf d \<Longrightarrow> require_string (sorted_dict d) name = require_string d name"
  by (simp add: require_string_def sorted_dict_simps)

lemma require_int_sorted [simp]: "dict_wf d \<Longrightarrow> require_int (sorted_dict d) name l = require_int d name l"
  by (simp add: require_int_def sorted_dict_simps)

lemma require_number_sorted [simp]:
  "dict_wf d \<Longrightarrow> require_number (sorted_dict d) name = require_number d name"
  by (simp add: require_number_def sorted_dict_simps)

lemma json_wf_dget: "json_wf (PDict d) \<Longrightarrow> json_wf (dget d k)"
  by (auto simp: dget_def list_all_iff split: option.split dest!: map_of_SomeD)

lemma json_wf_items: "json_wf v \<Longrightarrow> dict_wf (items_of v)"
  by (cases v) (simp_all add: dict_wf_def)

lemma cache_check_rthen_cong:
  "(\<not> c \<Longrightarrow> a = b) \<Longrightarrow> rthen (cache_check c e) a = rthen (cache_check c e) b"
  by (cases c) (simp_all add: cache_check_def)

lemma read_identity_sorted: "dict_wf d \<Longrightarrow> read_identity (sorted_dict d) = read_identity d"
  by (simp add: read_identity_def)

lemma check_reviewed_sorted: "dict_wf d \<Longrightarrow> check_reviewed (sorted_dict d) ei = check_reviewed d ei"
  by (simp add: check_reviewed_def dget_sorted_dict)

lemma read_shape_sorted: "json_wf (PDict d) \<Longrightarrow> read_shape (sorted_dict d) = read_shape d"
  using json_wf_items [OF json_wf_dget [of d "''shape''"]]
  by (cases "is_dict (dget d ''shape'')")
     (simp_all add: read_shape_def Let_def sorted_dict_simps dict_wf_def cache_check_def)

lemma check_medians_sorted: "json_wf (PDict d) \<Longrightarrow> check_medians (sorted_dict d) = check_medians d"
  using json_wf_items [OF json_wf_dget [of d "''measured_medians_us''"]]
  by (cases "is_dict (dget d ''measured_medians_us'')")
     (simp_all add: check_medians_def Let_def sorted_dict_simps dict_wf_def cache_check_def)

lemma variant_of_sorted: "dict_wf d \<Longrightarrow> variant_of (sorted_dict d) name v = variant_of d name v"
  by (simp add: variant_of_def Let_def dget_or_sorted_dict)

lemma check_export_contract_sorted:
  "dict_wf d \<Longrightarrow> check_export_contract (sorted_dict d) kf = check_export_contract d kf"
  by (simp add: check_export_contract_def variant_of_sorted dget_sorted_dict Let_def cong: if_cong)

lemma read_finite_modulus_sorted:
  assumes "dict_wf d" shows "read_finite_modulus (sorted_dict d) s kf = read_finite_modulus d s kf"
proof (cases "isinstance_int (dget_or d ''finite_modulus'' (PInt 0))")
  case True
  then show ?thesis by (simp add: read_finite_modulus_def Let_def assms dget_or_sorted_dict)
next
  case False
  then show ?thesis
    by (cases "dget_or d ''finite_modulus'' (PInt 0) = PNone")
       (simp_all add: read_finite_modulus_def Let_def assms dget_or_sorted_dict cache_check_def)
qed

section \<open>A validated entry validates again\<close>

lemma dget_or_dict_set [simp]:
  "dget_or (dict_set k v d) k' w = (if k' = k then v else dget_or d k' w)"
  by (simp add: dget_or_def)

lemma dict_set_known: "map_of d k = Some v \<Longrightarrow> dict_set k v d = d"
  by (induction d) (auto split: if_splits)

lemma dict_set_twice: "dict_set k v (dict_set k v d) = dict_set k v d"
  by (rule dict_set_known) simp

lemma require_string_set [simp]: "name \<noteq> k \<Longrightarrow> require_string (dict_set k v d) name = require_string d name"
  by (simp add: require_string_def)

lemma require_int_set [simp]: "name \<noteq> k \<Longrightarrow> require_int (dict_set k v d) name l = require_int d name l"
  by (simp add: require_int_def)

lemma variant_of_set [simp]: "name \<noteq> k \<Longrightarrow> variant_of (dict_set k v d) name w = variant_of d name w"
  by (simp add: variant_of_def)

lemma checks_ignore_modulus:
  "read_identity (dict_set ''finite_modulus'' v d) = read_identity d"
  "check_reviewed (dict_set ''finite_modulus'' v d) ei = check_reviewed d ei"
  "read_shape (dict_set ''finite_modulus'' v d) = read_shape d"
  "check_medians (dict_set ''finite_modulus'' v d) = check_medians d"
  "check_export_contract (dict_set ''finite_modulus'' v d) kf = check_export_contract d kf"
  by (simp_all add: read_identity_def check_reviewed_def read_shape_def check_medians_def
      check_export_contract_def Let_def cong: if_cong)

lemma read_finite_modulus_fixpoint:
  "read_finite_modulus d s kf = Inr v \<Longrightarrow> read_finite_modulus (dict_set ''finite_modulus'' v d) s kf = Inr v"
  by (auto simp: read_finite_modulus_def Let_def res_simps split: if_splits)

lemma read_finite_modulus_int: "read_finite_modulus d s kf = Inr v \<Longrightarrow> isinstance_int v"
  by (auto simp: read_finite_modulus_def Let_def res_simps cache_check_def split: if_splits)

lemma validate_entry_dict_obtain:
  assumes "validate_entry_dict d = Inr e"
  obtains ei eh v where
    "e = dict_set ''finite_modulus'' v d"
    "read_identity d = Inr ei" "check_reviewed d ei = Inr ()" "read_shape d = Inr eh"
    "check_medians d = Inr ()" "check_key (key_fields (ei_key ei)) ei eh = Inr ()"
    "check_export_contract d (key_fields (ei_key ei)) = Inr ()"
    "read_finite_modulus d (ei_semantic ei) (key_fields (ei_key ei)) = Inr v"
    "reviewed_kernel_supported_for_contract (ei_backend ei) (ei_semantic ei) (ei_kernel ei) (int_of v)
       (eh_m eh) (eh_n eh) (eh_k eh)"
    "reviewed_epilogue_supported_for_contract (ei_backend ei) (ei_semantic ei) (ei_epilogue ei)"
  using assms
  by (auto simp: validate_entry_dict_def Let_def rbind_eq_Inr rthen_eq_Inr cache_check_def check_eq_Inr)

lemma validate_again:
  assumes "validate_entry_dict d = Inr e"
  shows "validate_entry_dict e = Inr e"
  using assms
  by (elim validate_entry_dict_obtain)
     (simp add: validate_entry_dict_def checks_ignore_modulus read_finite_modulus_fixpoint dict_set_twice
       cache_check_def)

lemma validate_sorted:
  assumes "validate_entry_dict d = Inr d" "json_wf (PDict d)"
  shows "validate_entry_dict (sorted_dict d) = Inr (sorted_dict d)"
proof -
  from assms(2) have wf: "dict_wf d" by (simp add: dict_wf_def)
  from assms(1) obtain ei eh v where e: "d = dict_set ''finite_modulus'' v d"
    "read_identity d = Inr ei" "check_reviewed d ei = Inr ()" "read_shape d = Inr eh"
    "check_medians d = Inr ()" "check_key (key_fields (ei_key ei)) ei eh = Inr ()"
    "check_export_contract d (key_fields (ei_key ei)) = Inr ()"
    "read_finite_modulus d (ei_semantic ei) (key_fields (ei_key ei)) = Inr v"
    "reviewed_kernel_supported_for_contract (ei_backend ei) (ei_semantic ei) (ei_kernel ei) (int_of v)
       (eh_m eh) (eh_n eh) (eh_k eh)"
    "reviewed_epilogue_supported_for_contract (ei_backend ei) (ei_semantic ei) (ei_epilogue ei)"
    by (rule validate_entry_dict_obtain)
  have "map_of d ''finite_modulus'' = Some v"
    by (subst e(1)) simp
  then have "map_of (sorted_dict d) ''finite_modulus'' = Some v"
    using read_finite_modulus_int [OF e(8)] by (simp add: map_of_sorted_dict wf)
  then have "dict_set ''finite_modulus'' v (sorted_dict d) = sorted_dict d"
    by (rule dict_set_known)
  with e(2-) assms(2) wf show ?thesis
    by (simp add: validate_entry_dict_def read_identity_sorted check_reviewed_sorted read_shape_sorted
        check_medians_sorted check_export_contract_sorted read_finite_modulus_sorted cache_check_def)
qed

section \<open>Reading what was written\<close>

lemma validate_entry_Inr: "validate_entry p (i, v) = Inr e \<longleftrightarrow> (\<exists>d. v = PDict d \<and> validate_entry_dict d = Inr e)"
  by (auto simp: validate_entry_def split: pyval.splits sum.splits exc.splits)

lemma rmapM_indexed:
  assumes "\<And>i x. x \<in> set xs \<Longrightarrow> f (i, x) = Inr (g x)"
  shows "rmapM f (indexed xs) = Inr (map g xs)"
proof -
  have "rmapM f (zip [j..<j + length xs] xs) = Inr (map g xs)" for j
    using assms
  proof (induction xs arbitrary: j)
    case (Cons x xs)
    from Cons.IH [of "Suc j"] Cons.prems show ?case by (simp add: upt_conv_Cons del: upt_Suc)
  qed simp
  from this [of 0] show ?thesis by (simp add: indexed_def)
qed

lemma snd_indexed: "iv \<in> set (indexed xs) \<Longrightarrow> snd iv \<in> set xs"
  by (cases iv) (auto simp: indexed_def dest: set_zip_rightD)

text \<open>An entry that a cache holds: validated, and read from JSON.\<close>

definition cached :: "pydict \<Rightarrow> bool" where
  "cached e \<longleftrightarrow> validate_entry_dict e = Inr e \<and> json_wf (PDict e)"

definition files_wf :: "files \<Rightarrow> bool" where
  "files_wf fs \<longleftrightarrow> (\<forall>p v. fs p = Parsed v \<longrightarrow> json_wf v)"

lemma json_wf_dict_set: "json_wf (PDict d) \<Longrightarrow> json_wf v \<Longrightarrow> json_wf (PDict (dict_set k v d))"
  by (simp add: list_all_iff set_dict_set keys_dict_set)

lemma validated_cached:
  assumes "validate_entry_dict d = Inr e" "json_wf (PDict d)"
  shows "cached e"
proof -
  from assms(1) obtain v where "e = dict_set ''finite_modulus'' v d" "isinstance_int v"
    by (rule validate_entry_dict_obtain) (use read_finite_modulus_int in blast)
  moreover have "json_wf v" using \<open>isinstance_int v\<close> by (cases v) simp_all
  ultimately show ?thesis
    using validate_again [OF assms(1)] assms(2) json_wf_dict_set unfolding cached_def by blast
qed

lemma read_cache_cached:
  assumes "read_cache fs p missing = Inr es" "files_wf fs" "e \<in> set es"
  shows "cached e"
proof -
  from assms(1, 3) obtain r where r: "fs p = Parsed r" and es: "is_list (vget r ''entries'')"
    "rmapM (validate_entry p) (indexed (elems_of (vget r ''entries''))) = Inr es"
    by (auto simp: read_cache_def Let_def res_simps cache_check_def split: json_file.splits if_splits)
  from assms(2) r have wf: "json_wf r" by (simp add: files_wf_def)
  obtain iv where iv: "iv \<in> set (indexed (elems_of (vget r ''entries'')))" "validate_entry p iv = Inr e"
    using rmapM_set [OF es(2)] assms(3) by blast
  then obtain d where d: "snd iv = PDict d" "validate_entry_dict d = Inr e"
    using validate_entry_Inr [of p "fst iv" "snd iv" e] by auto
  have "json_wf (vget r ''entries'')"
    using wf by (cases r) (simp_all add: vget_def json_wf_dget dget_def [of "[]"])
  with es(1) have "list_all json_wf (elems_of (vget r ''entries''))"
    by (cases "vget r ''entries''") simp_all
  with snd_indexed [OF iv(1)] d(1) have "json_wf (PDict d)" by (metis list_all_iff)
  with d(2) show ?thesis by (rule validated_cached)
qed

lemma cached_sorted: "cached e \<Longrightarrow> cached (sorted_dict e)"
  using validate_sorted [of e] json_wf_sorted [of "PDict e"] by (simp add: cached_def sorted_dict_def)

lemma cached_wf: "cached e \<Longrightarrow> dict_wf e"
  by (simp add: cached_def dict_wf_def)

lemma entry_key_sorted [simp]: "dict_wf e \<Longrightarrow> entry_key (sorted_dict e) = entry_key e"
  by (simp add: entry_key_def dget_sorted_dict)

lemma sorted_dict_idem: "sorted_dict (sorted_dict d) = sorted_dict d"
  using json_sorted_idem [of "PDict d"] by (simp add: sorted_dict_def)

lemma write_cache_eq:
  "write_cache p es fs = fs(p := Parsed (PDict
     [(''entries'', PList (map (PDict \<circ> sorted_dict) es)), (''schema_version'', PInt 1)]))"
  by (simp add: write_cache_def json_sorted_PDict comp_def)
     (simp add: sorted_dict_def json_sorted_PDict)

lemma read_written_cache:
  assumes "\<And>e. e \<in> set es \<Longrightarrow> cached e"
  shows "read_cache (write_cache p es fs) p missing = Inr (map sorted_dict es)"
proof -
  have "rmapM (validate_entry p) (indexed (map (PDict \<circ> sorted_dict) es))
      = Inr (map items_of (map (PDict \<circ> sorted_dict) es))"
    using cached_sorted [OF assms]
    by (intro rmapM_indexed) (auto simp: validate_entry_Inr cached_def)
  then show ?thesis
    by (simp add: read_cache_def write_cache_eq vget_def dget_def cache_check_def comp_def flt_eq_def)
qed

section \<open>The merge\<close>

text \<open>The entry that a list of entries gives a key: the last one.\<close>

definition last_entry :: "pydict list \<Rightarrow> string \<Rightarrow> pydict option" where
  "last_entry es k = find (\<lambda>e. entry_key e = k) (rev es)"

definition keyed :: "(string \<times> pydict) list \<Rightarrow> bool" where
  "keyed d \<longleftrightarrow> dict_wf d \<and> (\<forall>k e. map_of d k = Some e \<longrightarrow> entry_key e = k)"

lemma find_append: "find P (xs @ ys) = (case find P xs of None \<Rightarrow> find P ys | Some x \<Rightarrow> Some x)"
  by (induction xs) auto

lemma last_entry_snoc: "last_entry (es @ [e]) k = (if entry_key e = k then Some e else last_entry es k)"
  by (simp add: last_entry_def)

lemma map_of_by_key_append:
  "map_of (foldl add_by_key (by_key es) fs) = last_entry (es @ fs)"
proof -
  have "map_of (foldl add_by_key [] es) = last_entry es" for es
    by (induction es rule: rev_induct)
       (auto simp: last_entry_snoc add_by_key_def last_entry_def fun_eq_iff)
  from this [of "es @ fs"] show ?thesis by (simp add: by_key_def)
qed

lemma keyed_add: "keyed d \<Longrightarrow> keyed (add_by_key d e)"
  by (simp add: keyed_def add_by_key_def dict_wf_dict_set)

lemma keyed_fold: "keyed d \<Longrightarrow> keyed (foldl add_by_key d es)"
  by (induction es arbitrary: d) (simp_all add: keyed_add)

lemma keyed_by_key: "keyed (foldl add_by_key (by_key es) fs)"
  unfolding by_key_def by (intro keyed_fold) (simp add: keyed_def dict_wf_def)

lemma merge_entry_fst: "merge_entry opts src mh e = Inr mh' \<Longrightarrow> fst mh' = add_by_key (fst mh) e"
  by (auto simp: merge_entry_def Let_def rbind_eq_Inr split: if_splits)

lemma merge_fst:
  "rfoldM (merge_entry opts src) mh es = Inr mh' \<Longrightarrow> fst mh' = foldl add_by_key (fst mh) es"
  by (induction es arbitrary: mh) (auto simp: rbind_eq_Inr dest: merge_entry_fst)

lemma merge_total:
  assumes "\<And>e. e \<in> set es \<Longrightarrow> cached e"
  shows "\<exists>mh'. rfoldM (merge_entry opts src) mh es = Inr mh'"
proof (rule rfoldM_total)
  fix mh e assume "e \<in> set es"
  then obtain ei where "read_identity e = Inr ei"
    using assms by (auto simp: cached_def elim: validate_entry_dict_obtain)
  then have "is_nonempty_str (dget e ''target_id'')"
    by (auto simp: read_identity_def rbind_eq_Inr rthen_eq_Inr require_string_def cache_check_def res_simps)
  then have "\<exists>c. target_class_for_id (dget e ''target_id'') = Inr c"
    by (auto simp: target_class_for_id_def target_text_def is_nonempty_str_iff)
  then show "\<exists>mh'. merge_entry opts src mh e = Inr mh'"
    by (auto simp: merge_entry_def history_row_def Let_def)
qed

lemma cache_coverage_total: "\<exists>rows. cache_coverage_summary es = Inr rows"
proof -
  have "\<exists>ks. rmapM coverage_key es = Inr ks"
    by (rule rmapM_total) (auto simp: coverage_key_def target_class_for_id_def target_text_def)
  then show ?thesis by (auto simp: cache_coverage_summary_def)
qed

lemma merged_in_order_keys:
  "keyed d \<Longrightarrow> map entry_key (merged_in_order d) = sort (map fst d)"
  by (auto simp: merged_in_order_def keyed_def dict_wf_def comp_def intro!: map_idI)

lemma merged_in_order_find:
  assumes "keyed d" shows "find (\<lambda>e. entry_key e = k) (merged_in_order d) = map_of d k"
proof -
  have dist: "distinct (map fst d)" using assms by (simp add: keyed_def dict_wf_def)
  have "find (\<lambda>e. entry_key e = k) (map (\<lambda>k. the (map_of d k)) ks) = (if k \<in> set ks then map_of d k else None)"
    if "set ks \<subseteq> set (map fst d)" for ks
    using that
  proof (induction ks)
    case (Cons j ks)
    then obtain e where "map_of d j = Some e" by (auto simp: dist map_of_eq_Some_iff)
    with Cons assms show ?case by (auto simp: keyed_def)
  qed simp
  from this [of "sort (map fst d)"] show ?thesis
    using map_of_eq_None_iff [of d k] by (cases "k \<in> set (map fst d)") (simp_all add: merged_in_order_def)
qed

section \<open>What an installation did\<close>

lemma install_cache_obtain:
  assumes "install_cache sources destination opts fs = Inr (report, fs')"
  obtains existing read history coverage merged where
    "read_existing fs destination opts = Inr existing"
    "read_sources fs sources = Inr read"
    "check_gates fs (concat (map snd read)) opts = Inr ()"
    "merged = foldl add_by_key (by_key existing) (concat (map snd read))"
    "report = install_report sources destination opts existing (concat (map snd read)) merged history coverage"
    "fs' = (if io_dry_run opts then fs else write_cache destination (merged_in_order merged) fs)"
proof -
  from assms obtain existing read mh coverage where
    "read_existing fs destination opts = Inr existing" "read_sources fs sources = Inr read"
    "check_gates fs (concat (map snd read)) opts = Inr ()"
    and mh: "rfoldM (merge_entry opts (source_of_keys read)) (by_key existing, []) (concat (map snd read)) = Inr mh"
    and "report = install_report sources destination opts existing (concat (map snd read)) (fst mh) (snd mh) coverage"
    "fs' = (if io_dry_run opts then fs else write_cache destination (merged_in_order (fst mh)) fs)"
    unfolding install_cache_def Let_def rbind_eq_Inr rthen_eq_Inr by auto
  with merge_fst [OF mh] that show thesis by (metis fst_conv)
qed

lemma read_sources_iff:
  "read_sources fs sources = Inr read \<longleftrightarrow>
     list_all2 (\<lambda>p r. fst r = p \<and> read_cache fs p False = Inr (snd r)) sources read"
  unfolding read_sources_def rmapM_Inr_iff rbind_eq_Inr by (intro list.rel_cong refl) auto

lemma read_sources_entry:
  assumes "read_sources fs sources = Inr read" "e \<in> set (concat (map snd read))"
  shows "\<exists>p es. p \<in> set sources \<and> read_cache fs p False = Inr es \<and> e \<in> set es"
proof -
  from assms(2) obtain r where r: "r \<in> set read" "e \<in> set (snd r)" by auto
  then obtain i where i: "i < length read" "e \<in> set (snd (read ! i))" by (metis in_set_conv_nth)
  with assms(1) have "i < length sources" "read_cache fs (sources ! i) False = Inr (snd (read ! i))"
    by (auto simp: read_sources_iff list_all2_conv_all_nth)
  with i show ?thesis by (meson nth_mem)
qed

lemma read_sources_has:
  assumes "read_sources fs sources = Inr read" "p \<in> set sources" "read_cache fs p False = Inr es" "e \<in> set es"
  shows "e \<in> set (concat (map snd read))"
proof -
  from assms(2) obtain i where i: "i < length sources" "sources ! i = p" by (auto simp: in_set_conv_nth)
  with assms(1, 3) have "i < length read" "snd (read ! i) = es"
    by (auto simp: read_sources_iff list_all2_conv_all_nth)
  then have "es \<in> set (map snd read)" by (metis length_map nth_map nth_mem)
  with assms(4) show ?thesis by auto
qed

lemma read_existing_cached:
  "read_existing fs p opts = Inr es \<Longrightarrow> files_wf fs \<Longrightarrow> e \<in> set es \<Longrightarrow> cached e"
  by (rule read_cache_cached [of fs p True es])
     (auto simp: read_existing_def split: if_splits sum.splits exc.splits)

lemma merged_cached:
  assumes "read_existing fs destination opts = Inr existing" "read_sources fs sources = Inr read" "files_wf fs"
    "e \<in> set (existing @ concat (map snd read))"
  shows "cached e"
  using assms(4) read_existing_cached [OF assms(1, 3)] read_sources_entry [OF assms(2)]
    read_cache_cached [OF _ assms(3)]
  by (metis Un_iff set_append)

lemma last_entry_in: "last_entry es k = Some e \<Longrightarrow> e \<in> set es"
  by (metis find_Some_iff last_entry_def nth_mem set_rev)

lemma merged_in_order_set:
  "keyed d \<Longrightarrow> e \<in> set (merged_in_order d) \<Longrightarrow> \<exists>k. map_of d k = Some e"
  by (auto simp: merged_in_order_def keyed_def dict_wf_def map_of_eq_Some_iff)

lemma ordered_cached:
  assumes "read_existing fs destination opts = Inr existing" "read_sources fs sources = Inr read" "files_wf fs"
    "e \<in> set (merged_in_order (foldl add_by_key (by_key existing) (concat (map snd read))))"
  shows "cached e"
  using merged_in_order_set [OF keyed_by_key assms(4)] merged_cached [OF assms(1-3)] last_entry_in
  by (metis map_of_by_key_append)

definition runtime_scope :: "pydict \<Rightarrow> bool" where
  "runtime_scope e \<longleftrightarrow> dget_or e ''cache_scope'' (PStr ''runtime_exact_autotune'') = PStr ''runtime_exact_autotune''"

lemma check_gates_rows:
  assumes "check_gates fs es opts = Inr ()" "\<not> io_dry_run opts"
  shows "(io_allow_selector_review_cache opts \<or> (\<forall>e\<in>set es. runtime_scope e))
    \<and> (\<exists>ledgers. collect_ledgers fs (io_promotion_ledgers opts) = Inr ledgers
        \<and> (\<forall>e\<in>set es. \<exists>row. map_of ledgers (entry_key e) = Some row
             \<and> check_ledger_row True (io_require_target_validation_gate opts) e (entry_key e) row = Inr ()))"
  using assms
  by (auto simp: check_gates_def check_runtime_scope_def validate_promotion_ledger_gate_def cache_check_def
      effective_variance_def res_simps list_all_iff runtime_scope_def eq_str_iff split: if_splits option.splits)

lemma check_ledger_row_ready:
  "check_ledger_row True target e k row = Inr () \<Longrightarrow>
     dget row ''promotion_blockers'' = PList [] \<and> is_True (dget row ''performance_validated'')
   \<and> is_True (dget row ''variance_gate_available'') \<and> is_True (dget row ''variance_gate_ready'')"
  by (cases "dget row ''promotion_blockers''") (simp_all add: check_ledger_row_def Let_def cache_check_def res_simps)


text \<open>C19:
  After an installation the destination reads back, its entries pass validation again, stand in strictly
  ascending order of their keys, and each key holds the last entry that the old cache followed by the
  sources in order has for it, with the keys of its objects sorted.
\<close>

theorem installed_cache_reads_back:
  assumes "install_cache sources destination opts fs = Inr (report, fs')" and "\<not> io_dry_run opts"
    and "files_wf fs"
  shows "\<exists>existing read installed. read_existing fs destination opts = Inr existing
    \<and> read_sources fs sources = Inr read
    \<and> read_cache fs' destination False = Inr installed
    \<and> sorted (map entry_key installed) \<and> distinct (map entry_key installed)
    \<and> (\<forall>k. find (\<lambda>e. entry_key e = k) installed
            = map_option sorted_dict (last_entry (existing @ concat (map snd read)) k))"
proof -
  from assms(1) obtain existing read merged where r:
    "read_existing fs destination opts = Inr existing" "read_sources fs sources = Inr read"
    and merged: "merged = foldl add_by_key (by_key existing) (concat (map snd read))"
    and fs': "fs' = (if io_dry_run opts then fs else write_cache destination (merged_in_order merged) fs)"
    by (rule install_cache_obtain)
  let ?es = "merged_in_order merged"
  have keyed: "keyed merged" by (simp add: merged keyed_by_key)
  have ok: "cached e" if "e \<in> set ?es" for e
    using ordered_cached [OF r assms(3)] that by (simp add: merged)
  have keys: "map entry_key (map sorted_dict ?es) = sort (map fst merged)"
  proof -
    have "map (entry_key \<circ> sorted_dict) ?es = map entry_key ?es"
      using ok by (intro map_cong) (simp_all add: cached_wf)
    then show ?thesis using merged_in_order_keys [OF keyed] by simp
  qed
  have "read_cache fs' destination False = Inr (map sorted_dict ?es)"
    using ok by (simp add: fs' assms(2) read_written_cache)
  moreover have "find (\<lambda>e. entry_key e = k) (map sorted_dict ?es) = map_option sorted_dict (map_of merged k)" for k
  proof -
    have "find (\<lambda>e. entry_key e = k) (map sorted_dict es) = map_option sorted_dict (find (\<lambda>e. entry_key e = k) es)"
      if "\<And>e. e \<in> set es \<Longrightarrow> cached e" for es
      using that by (induction es) (simp_all add: cached_wf)
    with ok show ?thesis by (simp add: merged_in_order_find keyed)
  qed
  moreover have "distinct (map fst merged)" using keyed by (simp add: keyed_def dict_wf_def)
  ultimately show ?thesis
    using r keys by (metis distinct_sort map_of_by_key_append merged sorted_sort)
qed

section \<open>Installing again\<close>

lemma install_cache_total:
  assumes "read_existing fs destination opts = Inr existing" "read_sources fs sources = Inr read"
    "check_gates fs (concat (map snd read)) opts = Inr ()" "files_wf fs"
    "merged = foldl add_by_key (by_key existing) (concat (map snd read))"
  shows "\<exists>history coverage. install_cache sources destination opts fs = Inr
    (install_report sources destination opts existing (concat (map snd read)) merged history coverage,
     if io_dry_run opts then fs else write_cache destination (merged_in_order merged) fs)"
proof -
  obtain mh where mh:
    "rfoldM (merge_entry opts (source_of_keys read)) (by_key existing, []) (concat (map snd read)) = Inr mh"
    using merge_total [of "concat (map snd read)"] merged_cached [OF assms(1, 2, 4)]
    by (metis UnCI set_append)
  obtain coverage where "cache_coverage_summary (merged_in_order (fst mh)) = Inr coverage"
    using cache_coverage_total by blast
  with mh merge_fst [OF mh] assms show ?thesis by (auto simp: install_cache_def Let_def)
qed

lemma read_cache_cong: "fs p = gs p \<Longrightarrow> read_cache fs p missing = read_cache gs p missing"
  by (simp add: read_cache_def)

lemma read_sources_cong: "(\<And>p. p \<in> set ps \<Longrightarrow> fs p = gs p) \<Longrightarrow> read_sources fs ps = read_sources gs ps"
  unfolding read_sources_def by (intro rmapM_cong refl) (metis read_cache_cong)

lemma collect_ledgers_cong:
  "(\<And>p. p \<in> set ps \<Longrightarrow> fs p = gs p) \<Longrightarrow> collect_ledgers fs ps = collect_ledgers gs ps"
proof -
  have "rfoldM (\<lambda>l p. rbind (read_promotion_ledger fs p) (\<lambda>rows. rfoldM (add_ledger_entry p) l rows)) l ps
      = rfoldM (\<lambda>l p. rbind (read_promotion_ledger gs p) (\<lambda>rows. rfoldM (add_ledger_entry p) l rows)) l ps"
    if "\<And>p. p \<in> set ps \<Longrightarrow> fs p = gs p" for l
    using that by (induction ps arbitrary: l) (simp_all add: read_promotion_ledger_def)
  then show "(\<And>p. p \<in> set ps \<Longrightarrow> fs p = gs p) \<Longrightarrow> ?thesis" by (simp add: collect_ledgers_def)
qed

lemma last_entry_append:
  "last_entry (xs @ ys) k = (case last_entry ys k of None \<Rightarrow> last_entry xs k | Some e \<Rightarrow> Some e)"
  by (simp add: last_entry_def find_append split: option.split)

lemma last_entry_distinct: "distinct (map entry_key es) \<Longrightarrow> last_entry es k = find (\<lambda>e. entry_key e = k) es"
proof (induction es rule: rev_induct)
  case (snoc e es)
  have "find (\<lambda>x. entry_key x = entry_key e) es = None"
    using snoc.prems unfolding find_None_iff by (metis distinct_append image_eqI in_set_conv_decomp
        list.set_map list.simps(9) map_append not_distinct_conv_prefix)
  with snoc show ?case by (auto simp: last_entry_snoc find_append split: option.split)
qed (simp add: last_entry_def)

lemma find_map_sorted:
  "(\<And>e. e \<in> set es \<Longrightarrow> cached e) \<Longrightarrow>
   find (\<lambda>e. entry_key e = k) (map sorted_dict es) = map_option sorted_dict (find (\<lambda>e. entry_key e = k) es)"
  by (induction es) (simp_all add: cached_wf)

lemma last_entry_installed:
  assumes "keyed d" "\<And>e. e \<in> set (merged_in_order d) \<Longrightarrow> cached e"
  shows "last_entry (map sorted_dict (merged_in_order d)) k = map_option sorted_dict (map_of d k)"
proof -
  have "map (entry_key \<circ> sorted_dict) (merged_in_order d) = map entry_key (merged_in_order d)"
    using assms(2) by (intro map_cong) (simp_all add: cached_wf)
  then have "distinct (map entry_key (map sorted_dict (merged_in_order d)))"
    using merged_in_order_keys [OF assms(1)] assms(1) by (simp add: keyed_def dict_wf_def)
  then show ?thesis
    by (simp add: last_entry_distinct find_map_sorted [OF assms(2)] merged_in_order_find [OF assms(1)])
qed

lemma merged_in_order_cong:
  assumes "keyed d" "keyed d'" "\<And>k. map_option f (map_of d k) = map_option f (map_of d' k)"
  shows "map f (merged_in_order d) = map f (merged_in_order d')"
proof -
  have "set (map fst d) = set (map fst d')"
    using assms(3) by (metis (no_types, lifting) map_of_eq_None_iff option.map_disc_iff set_eqI list.set_map)
  then have keys: "sort (map fst d) = sort (map fst d')"
    using assms(1, 2) by (simp add: keyed_def dict_wf_def sorted_distinct_set_unique)
  have "f (the (map_of d k)) = f (the (map_of d' k))" if "k \<in> set (map fst d)" for k
    using assms(3) [of k] that map_of_eq_None_iff [of d k] by (cases "map_of d k"; cases "map_of d' k") auto
  then show ?thesis by (simp add: merged_in_order_def keys [symmetric])
qed

lemma files_wf_written:
  assumes "files_wf fs" "\<And>e. e \<in> set es \<Longrightarrow> cached e"
  shows "files_wf (write_cache p es fs)"
proof -
  have "json_wf (PList (map (PDict \<circ> sorted_dict) es))"
    using cached_sorted [OF assms(2)] unfolding json_wf.simps(1) list_all_iff cached_def by fastforce
  with assms(1) show ?thesis by (simp add: files_wf_def write_cache_eq)
qed

lemma added_count_zero:
  assumes "\<And>k. map_of merged k \<noteq> None \<Longrightarrow> map_of (by_key existing) k \<noteq> None"
  shows "added_count merged existing = 0"
  using assms by (force simp: added_count_def filter_empty_conv has_key_map_of map_of_eq_None_iff)

text \<open>C20:
  Installing the same sources a second time changes nothing: when neither a source nor a ledger is the
  destination and the old cache is kept, the second run succeeds, leaves every file as the first run did,
  and reports no added and no replaced entry.
\<close>

theorem reinstall_changes_nothing:
  assumes "install_cache sources destination opts fs = Inr (report, fs')"
    and "\<not> io_dry_run opts" and "\<not> io_replace_existing opts" and "files_wf fs"
    and "destination \<notin> set sources \<union> set (io_promotion_ledgers opts)"
  shows "\<exists>report'. install_cache sources destination opts fs' = Inr (report', fs')
    \<and> dget report' ''added_entries'' = PInt 0 \<and> dget report' ''replaced_entries'' = PInt 0"
proof -
  from assms(1) obtain existing read merged where ex: "read_existing fs destination opts = Inr existing"
    and rd: "read_sources fs sources = Inr read" and gates: "check_gates fs (concat (map snd read)) opts = Inr ()"
    and merged: "merged = foldl add_by_key (by_key existing) (concat (map snd read))"
    and fs': "fs' = (if io_dry_run opts then fs else write_cache destination (merged_in_order merged) fs)"
    by (rule install_cache_obtain)
  let ?es = "merged_in_order merged" and ?new = "concat (map snd read)"
  let ?ex' = "map sorted_dict ?es"
  let ?merged' = "foldl add_by_key (by_key ?ex') ?new"
  have fs'_eq: "fs' = write_cache destination ?es fs" using fs' assms(2) by simp
  have ok: "cached e" if "e \<in> set ?es" for e
    using ordered_cached [OF ex rd assms(4)] that by (simp add: merged)
  have keyed: "keyed merged" "keyed ?merged'" by (simp_all add: merged keyed_by_key)
  have same: "fs' p = fs p" if "p \<noteq> destination" for p using that by (simp add: fs'_eq write_cache_eq)
  have ex': "read_existing fs' destination opts = Inr ?ex'"
    using assms(3) ok by (simp add: read_existing_def fs'_eq read_written_cache)
  have rd': "read_sources fs' sources = Inr read"
    using rd read_sources_cong [of sources fs' fs] same assms(5) by (metis UnCI)
  have "collect_ledgers fs' (io_promotion_ledgers opts) = collect_ledgers fs (io_promotion_ledgers opts)"
    using assms(5) by (intro collect_ledgers_cong same) auto
  then have gates': "check_gates fs' ?new opts = Inr ()"
    using gates by (simp add: check_gates_def validate_promotion_ledger_gate_def cong: if_cong)
  have wf': "files_wf fs'" using files_wf_written [OF assms(4) ok] by (simp add: fs'_eq)
  have merged_of: "map_of merged k = last_entry (existing @ ?new) k" for k
    by (simp only: merged map_of_by_key_append)
  have merged'_of: "map_of ?merged' k = (case last_entry ?new k of
      None \<Rightarrow> map_option sorted_dict (map_of merged k) | Some e \<Rightarrow> Some e)" for k
    by (simp only: map_of_by_key_append last_entry_append last_entry_installed [OF keyed(1) ok])
  have agree: "map_option sorted_dict (map_of ?merged' k) = map_option sorted_dict (map_of merged k)" for k
    by (simp add: merged'_of merged_of last_entry_append option.map_comp comp_def sorted_dict_idem
        split: option.split)
  have "map sorted_dict (merged_in_order ?merged') = map sorted_dict ?es"
    using keyed agree by (intro merged_in_order_cong)
  then have written: "write_cache destination (merged_in_order ?merged') fs' = fs'"
    by (simp add: fs'_eq write_cache_eq flip: map_map)
  have by_ex': "map_of (by_key ?ex') k = map_option sorted_dict (map_of merged k)" for k
    using map_of_by_key_append [of ?ex' "[]"] last_entry_installed [OF keyed(1) ok] by simp
  have "added_count ?merged' ?ex' = 0"
    using agree by (intro added_count_zero) (metis by_ex' option.map_disc_iff)
  moreover have "replaced_count ?merged' ?ex' = 0"
  proof -
    have "\<exists>e\<in>set ?ex'. elem_eq (PDict (the (map_of ?merged' k))) (PDict e)" if "k \<in> set (map fst (by_key ?ex'))" for k
    proof -
      have "map_of (by_key ?ex') k \<noteq> None" using that unfolding map_of_eq_None_iff by simp
      then obtain e where e: "map_of merged k = Some e" unfolding by_ex' by auto
      then have "last_entry ?ex' k = Some (sorted_dict e)"
        by (simp add: last_entry_installed [OF keyed(1) ok])
      then have in_ex': "sorted_dict e \<in> set ?ex'" by (rule last_entry_in)
      from agree [of k] e obtain x where x: "map_of ?merged' k = Some x" "sorted_dict x = sorted_dict e" by auto
      have "json_wf (PDict x)"
        using merged_cached [OF ex' rd' wf', of x] last_entry_in [of "?ex' @ ?new" k x] x(1)
        unfolding map_of_by_key_append cached_def by blast
      then have "elem_eq (PDict x) (PDict (sorted_dict x))"
        using elem_eq_sorted [of "PDict x"] by (simp add: sorted_dict_def)
      with in_ex' x show ?thesis by auto
    qed
    then show ?thesis by (auto simp: replaced_count_def filter_empty_conv list_ex_iff)
  qed
  ultimately show ?thesis
    using install_cache_total [OF ex' rd' gates' wf' refl] assms(2) written
    by (auto simp: install_report_def dget_def)
qed

section \<open>An installation\<close>

text \<open>A reviewed entry for gfx1100, the ledger row that promotes it, and an empty destination.\<close>

definition example_entry :: pydict where
  "example_entry =
     [(''key'', PStr (''backend=hipblaslt;semantics=bounded_i64;''
         @ ''kernel=hipblaslt_int8_i32_scratch_reduce_specialized_251_255_256_v2;''
         @ ''epilogue=separate_i32_scratch_reduce_then_crt_export;m=64;n=64;k=64;tile_m=16;tile_n=16;''
         @ ''target_id=gfx1100'')),
      (''selected_backend'', PStr ''hipblaslt''),
      (''selected_kernel'', PStr ''hipblaslt_int8_i32_scratch_reduce_specialized_251_255_256_v2''),
      (''target_id'', PStr ''gfx1100''),
      (''hip_sdk_or_library_version'', PStr ''6.2''),
      (''semantic_contract'', PStr ''bounded_i64''),
      (''layout'', PStr ''row_major''),
      (''prefix_schedule_hash'', PStr ''p9''),
      (''epilogue'', PStr ''separate_i32_scratch_reduce_then_crt_export''),
      (''kernel_family'', PStr ''hipblaslt_int8_i32_scratch_reduce_specialized_251_255_256_v2''),
      (''validation_status'', PStr ''reviewed_release_same_contract_fastest_windows_gfx1100''),
      (''performance_validated'', PBool True),
      (''schema_version'', PInt 1),
      (''shape'', PDict [(''m'', PInt 64), (''n'', PInt 64), (''k'', PInt 64)]),
      (''k_block_size'', PInt 0), (''tile_m'', PInt 16), (''tile_n'', PInt 16), (''workspace_bytes'', PInt 0),
      (''measured_medians_us'', PDict [(''pack'', PFloat (FFin 1)), (''rns_gemm'', PFloat (FFin 2)),
         (''crt_export'', PFloat (FFin 1)), (''end_to_end'', PFloat (FFin 4))]),
      (''finite_modulus'', PInt 0)]"

definition example_row :: pydict where
  "example_row =
     [(''autotune_key'', dget example_entry ''key''), (''promotion_blockers'', PList []),
      (''performance_validated'', PBool True), (''variance_gate_available'', PBool True),
      (''variance_gate_ready'', PBool True)]"

definition example_files :: files where
  "example_files p =
     (if p = path_of ''reviewed.json''
      then Parsed (PDict [(''schema_version'', PInt 1), (''entries'', PList [PDict example_entry])])
      else if p = path_of ''ledger.json'' then Parsed (PDict [(''entries'', PList [PDict example_row])])
      else Missing)"

definition example_options :: install_options where
  "example_options =
     \<lparr>io_dry_run = False, io_replace_existing = False, io_promotion_ledgers = [path_of ''ledger.json''],
      io_require_variance_gate = False, io_require_target_validation_gate = False,
      io_allow_selector_review_cache = False\<rparr>"

lemma example_paths:
  "path_of ''reviewed.json'' = Path False [''reviewed.json'']" "path_of ''ledger.json'' = Path False [''ledger.json'']"
  "path_of ''cache.json'' = Path False [''cache.json'']"
  by (simp_all add: path_of_plain plain_name_def)

lemma example_entry_valid: "validate_entry_dict example_entry = Inr example_entry"
  by code_simp

lemma example_reads:
  "read_existing example_files (path_of ''cache.json'') example_options = Inr []"
  "read_sources example_files [path_of ''reviewed.json''] = Inr [(path_of ''reviewed.json'', [example_entry])]"
  by (simp_all add: read_existing_def example_options_def read_cache_def example_files_def example_paths
      read_sources_def vget_def dget_def cache_check_def flt_eq_def indexed_def validate_entry_def
      example_entry_valid)

lemma example_gates: "check_gates example_files [example_entry] example_options = Inr ()"
proof -
  have "collect_ledgers example_files [path_of ''ledger.json''] = Inr [(entry_key example_entry, example_row)]"
    by (simp add: collect_ledgers_def read_promotion_ledger_def example_files_def example_paths vget_def
        dget_def cache_check_def indexed_def ledger_row_def add_ledger_entry_def example_row_def entry_key_def
        example_entry_def has_key_def)
  moreover have "check_ledger_row True False example_entry (entry_key example_entry) example_row = Inr ()"
    by code_simp
  moreover have "check_runtime_scope [example_entry] = Inr ()"
    by code_simp
  ultimately show ?thesis
    by (simp add: check_gates_def example_options_def cache_check_def validate_promotion_ledger_gate_def
        effective_variance_def)
qed

lemma example_files_wf: "files_wf example_files"
  by (simp add: files_wf_def example_files_def) (simp add: example_entry_def example_row_def dget_def)

lemma example_install:
  "\<exists>report fs'. install_cache [path_of ''reviewed.json''] (path_of ''cache.json'') example_options example_files
     = Inr (report, fs')"
proof -
  have "check_gates example_files (concat (map snd [(path_of ''reviewed.json'', [example_entry])])) example_options
      = Inr ()" using example_gates by simp
  from install_cache_total [OF example_reads this example_files_wf refl] show ?thesis by blast
qed


theorem installed_cache_reads_back_witness:
  "\<exists>report fs' installed. install_cache [path_of ''reviewed.json''] (path_of ''cache.json'') example_options
       example_files = Inr (report, fs')
    \<and> read_cache fs' (path_of ''cache.json'') False = Inr installed"
proof -
  obtain report fs' where i:
    "install_cache [path_of ''reviewed.json''] (path_of ''cache.json'') example_options example_files = Inr (report, fs')"
    using example_install by blast
  from installed_cache_reads_back [OF i _ example_files_wf] i show ?thesis
    by (auto simp: example_options_def)
qed

theorem reinstall_changes_nothing_witness:
  "\<exists>report report' fs'. install_cache [path_of ''reviewed.json''] (path_of ''cache.json'') example_options
       example_files = Inr (report, fs')
    \<and> install_cache [path_of ''reviewed.json''] (path_of ''cache.json'') example_options fs' = Inr (report', fs')
    \<and> dget report' ''added_entries'' = PInt 0"
proof -
  obtain report fs' where i:
    "install_cache [path_of ''reviewed.json''] (path_of ''cache.json'') example_options example_files = Inr (report, fs')"
    using example_install by blast
  from reinstall_changes_nothing [OF i _ _ example_files_wf] i show ?thesis
    by (auto simp: example_options_def example_paths)
qed

end
