(* ===== verification/Target_Validation.thy ===== *)
theory Target_Validation
  imports Py_Ops Autotune_Cache Capture_Metadata
begin

text \<open>
  \<open>tools/target_validation_report.py\<close>: rows of validation evidence from captures and from status records,
  grouped by operating system, GPU target and toolchain, and the eligibility of each group for the
  autotune cache.

  \<open>system\<close> stands for \<open>platform.system()\<close>, the list of schema errors of a capture and the files are those
  of \<open>Sweep_Exec\<close>. The Markdown rendering of the report is not modelled.
\<close>

section \<open>Constants\<close>

text \<open>Target, tier, family and role.\<close>

definition SUPPORTED_TARGETS :: "(string \<times> string \<times> string \<times> string) list" where
  "SUPPORTED_TARGETS =
     [(''gfx1030'', ''W2'', ''RDNA2'', ''functional HIP regression''),
      (''gfx1100'', ''W0'', ''RDNA3'', ''local Windows bring-up and RDNA3 optimization''),
      (''gfx1200'', ''W1'', ''RDNA4'', ''current consumer matrix-core target''),
      (''gfx1201'', ''W1'', ''RDNA4'', ''current consumer matrix-core target''),
      (''gfx90a'', ''I2'', ''CDNA2'', ''supported CDNA2 cluster target''),
      (''gfx942'', ''I1'', ''CDNA3'', ''previous-generation Instinct production''),
      (''gfx950'', ''I0'', ''CDNA4'', ''current Instinct production'')]"

definition LINUX_RDNA_TARGETS :: "string list" where
  "LINUX_RDNA_TARGETS = [''gfx1030'', ''gfx1100'', ''gfx1200'', ''gfx1201'']"

definition READY_STATES :: "pyval list" where
  "READY_STATES = map PStr [''pass'', ''passed'', ''ok'', ''available'', ''captured'', ''complete'', ''success'']
     @ [PBool True]"

definition NOT_READY_STATES :: "pyval list" where
  "NOT_READY_STATES = map PStr [''fail'', ''failed'', ''missing'', ''unavailable'', ''not_run'',
     ''not-requested'', ''unknown''] @ [PBool False, PNone]"

definition VALIDATION_PHASES :: "string list" where
  "VALIDATION_PHASES = [''build'', ''ctest'', ''smoke'', ''release_capture'', ''profiler'']"

definition TARGET_POLICY :: string where
  "TARGET_POLICY = ''target_validation_is_per_os_gpu_toolchain_group_only''"

definition NO_CROSS_TARGET_POLICY :: string where
  "NO_CROSS_TARGET_POLICY = ''windows_rdna_cdna_evidence_groups_are_not_interchangeable''"

section \<open>Targets\<close>

definition clean_string :: "pyval \<Rightarrow> string option" where
  "clean_string v = (case v of PStr s \<Rightarrow> if strip s = [] then None else Some (strip s) | _ \<Rightarrow> None)"

definition is_hex :: "char \<Rightarrow> bool" where
  "is_hex c \<longleftrightarrow> (48 \<le> code c \<and> code c \<le> 57) \<or> (97 \<le> code c \<and> code c \<le> 102) \<or> (65 \<le> code c \<and> code c \<le> 70)"

text \<open>\<open>re.search(r"gfx[0-9a-fA-F]+", s)\<close>.\<close>

fun find_gfx :: "string \<Rightarrow> string option" where
  "find_gfx [] = None"
| "find_gfx (c # cs) =
     (let digits = takeWhile is_hex (drop 3 (c # cs)) in
      if starts_with ''gfx'' (c # cs) \<and> digits \<noteq> [] then Some (''gfx'' @ digits) else find_gfx cs)"

definition canonical_target :: "pyval \<Rightarrow> string option" where
  "canonical_target v =
     (case clean_string v of
        None \<Rightarrow> None
      | Some s \<Rightarrow> Some (case find_gfx s of Some g \<Rightarrow> lower g | None \<Rightarrow> lower s))"

definition target_class_of :: "string option \<Rightarrow> string option \<Rightarrow> string" where
  "target_class_of target family =
     (if (\<exists>t\<in>set LINUX_CDNA_TARGETS. target = Some t) then ''cdna''
      else if (\<exists>t\<in>set LINUX_RDNA_TARGETS. target = Some t)
        \<or> (case family of None \<Rightarrow> False | Some f \<Rightarrow> starts_with ''RDNA'' f) then ''rdna''
      else if (case target of None \<Rightarrow> False | Some t \<Rightarrow> t \<noteq> []) then ''unknown_gpu''
      else ''unknown'')"

definition target_family :: "string option \<Rightarrow> pydict" where
  "target_family target_id =
     (let target = canonical_target (opt_val target_id);
          metadata = map_of SUPPORTED_TARGETS (case target of None \<Rightarrow> '''' | Some t \<Rightarrow> t);
          family = map_option (\<lambda>(tier, family, role). family) metadata;
          target_class = target_class_of target family
      in [(''target_id'', opt_val target),
          (''target_family'', PStr (case family of None \<Rightarrow> upper target_class | Some f \<Rightarrow> f)),
          (''target_class'', PStr target_class),
          (''target_tier'', opt_val (map_option (\<lambda>(tier, family, role). tier) metadata)),
          (''target_role'', opt_val (map_option (\<lambda>(tier, family, role). role) metadata)),
          (''supported_target'', PBool (metadata \<noteq> None))])"

section \<open>Operating system and keys\<close>

definition os_of_text :: "string \<Rightarrow> string" where
  "os_of_text lowered =
     (if contains ''windows'' lowered \<or> lowered \<in> {''win32'', ''win64'', ''nt''} then ''windows''
      else if contains ''linux'' lowered \<or> contains ''ubuntu'' lowered \<or> contains ''debian'' lowered
      then ''linux'' else lowered)"

definition os_of_system :: "string \<Rightarrow> string" where
  "os_of_system platform_system =
     (let system = lower platform_system in
      if starts_with ''win'' system then ''windows''
      else if system = ''linux'' then ''linux''
      else if system \<noteq> [] then system else ''unknown'')"

text \<open>\<open>re.match(r"^[A-Za-z]:[\\/]", s)\<close>.\<close>

definition is_drive_path :: "string \<Rightarrow> bool" where
  "is_drive_path s = (case s of
       c # d # e # _ \<Rightarrow> ((65 \<le> code c \<and> code c \<le> 90) \<or> (97 \<le> code c \<and> code c \<le> 122))
         \<and> d = CHR '':'' \<and> (code e = 92 \<or> e = CHR ''/'')
     | _ \<Rightarrow> False)"

definition os_of_capture :: "pydict \<Rightarrow> string option" where
  "os_of_capture capture =
     (let compiler_id = lower (text_or (capture_compiler capture) ''id'' '''');
          toolchain = capture_hip_toolchain capture;
          hip_root = py_str (py_or (py_or (dget toolchain ''hip_root'') (dget toolchain ''hipcc_path'')) (PStr ''''))
      in if compiler_id \<in> {''msvc'', ''clang-cl''} \<or> is_drive_path hip_root \<or> ends_with ''.exe'' hip_root
         then Some ''windows''
         else if starts_with ''/'' hip_root \<or> compiler_id \<in> {''gcc'', ''clang''} then Some ''linux''
         else None)"

definition infer_host_os :: "string \<Rightarrow> pydict option \<Rightarrow> pydict option \<Rightarrow> string" where
  "infer_host_os system capture record0 =
     (case (case record0 of None \<Rightarrow> None
            | Some r \<Rightarrow> (case List.map_filter (\<lambda>key. clean_string (dget r key)) [''host_os'', ''os'', ''platform''] of
                 [] \<Rightarrow> None | v # _ \<Rightarrow> Some (os_of_text (lower v)))) of
        Some os \<Rightarrow> os
      | None \<Rightarrow>
          (case (case capture of None \<Rightarrow> None | Some c \<Rightarrow> os_of_capture c) of
             Some os \<Rightarrow> os
           | None \<Rightarrow> os_of_system system))"

definition or_unknown :: "string option \<Rightarrow> string" where
  "or_unknown v = (case v of None \<Rightarrow> ''unknown'' | Some s \<Rightarrow> if s = [] then ''unknown'' else s)"

definition evidence_group_key :: "string \<Rightarrow> string option \<Rightarrow> string option \<Rightarrow> string" where
  "evidence_group_key host_os target_id version =
     ''os='' @ host_os @ '';target='' @ or_unknown target_id @ '';toolchain='' @ or_unknown version"

definition target_cache_key :: "string option \<Rightarrow> pyval \<Rightarrow> string option \<Rightarrow> pyval \<Rightarrow> string" where
  "target_cache_key target_id device_name version hip_runtime_version =
     ''arch='' @ or_unknown target_id @ '';device_name='' @ or_unknown (clean_string device_name)
     @ '';hip_sdk_or_rocm='' @ or_unknown version
     @ '';hip_runtime='' @ (if is_None hip_runtime_version then ''unknown'' else py_str hip_runtime_version)"

definition target_instance_id :: "string \<Rightarrow> pyval \<Rightarrow> pyval \<Rightarrow> string" where
  "target_instance_id cache_key device_index visibility =
     cache_key @ '';device_index='' @ (if is_None device_index then ''unknown'' else py_str device_index)
     @ '';visibility='' @ (case clean_string visibility of None \<Rightarrow> ''runtime-default-visible-devices'' | Some s \<Rightarrow> s)"

section \<open>Phases and accelerators\<close>

definition status_text :: "pyval \<Rightarrow> string res" where
  "status_text v =
     (case clean_string v of
        Some s \<Rightarrow> Inr (lower s)
      | None \<Rightarrow>
          rbind (in_vals v READY_STATES) (\<lambda>ready. if ready then Inr ''pass''
          else rbind (in_vals v NOT_READY_STATES) (\<lambda>not_ready. if not_ready then Inr ''missing''
          else Inr (lower (strip (py_str v))))))"

definition phase_status :: "pydict \<Rightarrow> string \<Rightarrow> string res" where
  "phase_status record0 phase =
     (let containers = [dict_or_empty (dget record0 ''evidence''), dict_or_empty (dget record0 ''validation''), record0];
          found = List.map_filter (\<lambda>c. if has_key c phase then Some (dget c phase)
            else if has_key c (phase @ ''_status'') then Some (dget c (phase @ ''_status'')) else None) containers
      in case found of [] \<Rightarrow> Inr ''missing'' | v # _ \<Rightarrow> status_text v)"

definition phase_ready :: "string \<Rightarrow> bool" where
  "phase_ready status \<longleftrightarrow>
     status \<in> {''pass'', ''passed'', ''ok'', ''available'', ''captured'', ''complete'', ''success''}"

definition accelerators_from_capture :: "pydict \<Rightarrow> pydict" where
  "accelerators_from_capture capture =
     (let metadata = capture_backend_metadata capture;
          backend = dget capture ''backend_selected'';
          library = dget metadata ''accelerator_library'';
          base = (if is_str backend \<and> str_of backend \<in> {''hipblaslt'', ''ck'', ''rocwmma''}
            then [(str_of backend, PStr (if is_True (dget metadata ''compiled_kernel_available'')
                     then ''available'' else ''capture_present''))]
            else [])
      in if is_nonempty_str library \<and> \<not> has_key base (lower (str_of library))
         then dict_set (lower (str_of library)) (PStr ''capture_present'') base else base)"

definition accelerators_from_status :: "pydict \<Rightarrow> pydict res" where
  "accelerators_from_status record0 =
     (case py_or (dget record0 ''accelerators'') (dget record0 ''accelerator_status'') of
        PDict d \<Rightarrow> rbind (rmapM (\<lambda>(key, item). rbind (status_text item) (\<lambda>s. Inr (lower key, PStr s))) d)
          (\<lambda>pairs. Inr (dict_of pairs))
      | _ \<Rightarrow> Inr [])"

section \<open>Topology\<close>

definition int_or_none :: "pyval \<Rightarrow> pyval res" where
  "int_or_none v = (case v of
       PInt n \<Rightarrow> Inr (PInt n)
     | PStr s \<Rightarrow> if isdigit (dropWhile (\<lambda>c. c = CHR ''-'') (strip s))
         then rbind (py_int (PStr (strip s))) (\<lambda>n. Inr (PInt n)) else Inr PNone
     | _ \<Rightarrow> Inr PNone)"

definition bool_or_none :: "pyval \<Rightarrow> pyval" where
  "bool_or_none v = (case v of
       PBool b \<Rightarrow> PBool b
     | PStr s \<Rightarrow>
         (let lowered = lower (strip s) in
          if lowered \<in> {''1'', ''true'', ''yes'', ''ok'', ''available'', ''ready'', ''pass''} then PBool True
          else if lowered \<in> {''0'', ''false'', ''no'', ''missing'', ''unavailable'', ''not_ready'', ''fail''}
          then PBool False else PNone)
     | _ \<Rightarrow> PNone)"

definition not_none_or :: "pyval \<Rightarrow> pyval \<Rightarrow> pyval" where
  "not_none_or a b = (if is_None a then b else a)"

definition optional_topology_fields :: "pydict \<Rightarrow> pydict res" where
  "optional_topology_fields source =
     rbind (int_or_none (not_none_or (dget source ''rank'') (dget source ''RNS8_RANK''))) (\<lambda>rank0.
     rbind (int_or_none (not_none_or (dget source ''world_size'') (dget source ''RNS8_WORLD_SIZE''))) (\<lambda>world_size.
     rbind (int_or_none (dget source ''numa_node'')) (\<lambda>numa_node. Inr
       [(''multi_gpu_mode'', opt_val (clean_string (py_or (dget source ''multi_gpu_mode'') (dget source ''RNS8_MULTI_GPU_MODE'')))),
        (''rank'', rank0),
        (''world_size'', world_size),
        (''device_bdf'', opt_val (clean_string (py_or (py_or (dget source ''device_bdf'') (dget source ''pci_bdf''))
           (dget source ''pci_bus_id'')))),
        (''numa_node'', numa_node),
        (''xgmi_peers'', if is_list (dget source ''xgmi_peers'') then dget source ''xgmi_peers'' else PNone),
        (''rocprofv3_ready'', bool_or_none (dget source ''rocprofv3_ready'')),
        (''rccl_ready'', bool_or_none (dget source ''rccl_ready'')),
        (''rccl_tests_ready'', bool_or_none (dget source ''rccl_tests_ready''))])))"

section \<open>Rows\<close>

definition cache_eligibility_from_capture :: "pydict \<Rightarrow> pydict \<Rightarrow> string \<Rightarrow> pyval res" where
  "cache_eligibility_from_capture capture target host_os =
     (case dget_or capture ''comparison_baseline'' (PDict []) of
        PDict baseline \<Rightarrow>
          (let blockers =
             (if \<not> truthy (dget target ''target_id'') then [''missing_target_id''] else [])
             @ (if host_os = ''unknown'' then [''missing_host_os''] else [])
             @ (if \<not> is_True (dget (capture_backend_metadata capture) ''performance_validated'')
                then [''performance_not_validated''] else [])
             @ (if \<not> eq_str (dget baseline ''status'') ''reviewed_release_same_contract_baseline''
                then [''missing_reviewed_release_baseline''] else [])
           in Inr (PDict [(''eligible'', PBool (blockers = [])), (''blockers'', str_list blockers),
                (''scope'', PStr ''matching_os_target_toolchain_group_only'')]))
      | _ \<Rightarrow> Inl AttributeError)"

definition or_else :: "string option \<Rightarrow> string \<Rightarrow> string" where
  "or_else v s = (case v of None \<Rightarrow> s | Some t \<Rightarrow> t)"

definition capture_target_row :: "string \<Rightarrow> path \<Rightarrow> pydict \<Rightarrow> pydict res" where
  "capture_target_row system p capture =
     (let device = capture_device capture;
          target = dict_or_empty (dget capture ''target_variant'');
          toolchain = capture_hip_toolchain capture;
          metadata = capture_backend_metadata capture;
          target_id = canonical_target (py_or (dget target ''target_id'') (dget device ''gcn_arch''));
          family = target_family target_id;
          host_os = infer_host_os system (Some capture) None;
          version = clean_string (py_or (dget toolchain ''hip_sdk_or_rocm_version'') (dget metadata ''accelerator_version''));
          device_index = dget_or target ''device_index'' (dget_or device ''device_index'' (dget device ''device_id''));
          runtime_env = dict_or_empty (dget capture ''runtime_environment'');
          cache_key = or_else (clean_string (dget target ''target_cache_key''))
            (target_cache_key target_id
               (py_or (py_or (dget target ''device_name'') (dget device ''device_name'')) (dget device ''name''))
               version (dget device ''hip_runtime_version''));
          instance_id = or_else (clean_string (dget target ''target_instance_id''))
            (target_instance_id cache_key device_index (dget target ''review_group_key''))
      in rbind (optional_topology_fields (dict_update (dict_update device target) runtime_env)) (\<lambda>topology.
         rbind (cache_eligibility_from_capture capture family host_os) (\<lambda>eligibility. Inr (dict_of (
           [(''source_kind'', PStr ''capture''), (''path'', PStr (path_str p)),
            (''backend_selected'', dget capture ''backend_selected''),
            (''selected_kernel'', dget capture ''selected_kernel''), (''semantics'', dget capture ''semantics''),
            (''target_id'', opt_val target_id), (''target_namespace'', dget target ''target_namespace''),
            (''review_group_key'', dget target ''review_group_key''),
            (''target_validation_group'', PStr (evidence_group_key host_os target_id version)),
            (''host_os'', PStr host_os)]
           @ family @
           [(''device_index'', device_index), (''device_name'', dget device ''name''),
            (''visible_device_count'', dget_or target ''visible_device_count'' (dget_or device ''visible_device_count''
               (dget_or target ''visible_gpu_count'' (dget device ''visible_gpu_count'')))),
            (''visible_gpu_count'', dget_or target ''visible_gpu_count'' (dget_or device ''visible_gpu_count''
               (dget_or target ''visible_device_count'' (dget device ''visible_device_count'')))),
            (''node_gpu_count'', dget_or target ''node_gpu_count'' (dget device ''node_gpu_count''))]
           @ topology @
           [(''target_cache_key'', PStr cache_key), (''target_instance_id'', PStr instance_id),
            (''global_mem_bytes'', dget device ''global_mem_bytes''),
            (''hip_runtime_version'', dget device ''hip_runtime_version''),
            (''hip_driver_version'', dget device ''hip_driver_version''),
            (''hip_sdk_or_rocm_version'', opt_val version),
            (''accelerator_library'', dget metadata ''accelerator_library''),
            (''accelerator_version'', dget metadata ''accelerator_version''),
            (''configured_amdgpu_targets'', dget capture ''configured_amdgpu_targets''),
            (''accelerator_status'', PDict (accelerators_from_capture capture)),
            (''validation_phases'', PDict (map (\<lambda>phase. (phase,
               PStr (if phase = ''release_capture'' then ''pass'' else ''missing''))) VALIDATION_PHASES)),
            (''cache_eligibility'', eligibility), (''cross_target_promotion_allowed'', PBool False),
            (''validated_scope'', PStr ''this_os_target_toolchain_group_only'')])))))"

definition capture_target :: "validator \<Rightarrow> files \<Rightarrow> string \<Rightarrow> path \<Rightarrow> pydict res" where
  "capture_target errors_of fs system p =
     rbind (load_valid errors_of fs p) (\<lambda>capture. capture_target_row system p capture)"

section \<open>Status records\<close>

text \<open>\<open>json.loads(path.read_text())\<close>.\<close>

definition read_json :: "files \<Rightarrow> path \<Rightarrow> pyval res" where
  "read_json fs p = (case fs p of
       Missing \<Rightarrow> Inl (FileNotFoundError (path_str p))
     | Malformed _ \<Rightarrow> Inl ValueError
     | Parsed v \<Rightarrow> Inr v)"

definition dicts_in :: "pyval list \<Rightarrow> pydict list" where
  "dicts_in vs = List.map_filter (\<lambda>v. case v of PDict d \<Rightarrow> Some d | _ \<Rightarrow> None) vs"

definition status_records_from_json :: "files \<Rightarrow> path \<Rightarrow> pydict list res" where
  "status_records_from_json fs p =
     rbind (read_json fs p) (\<lambda>raw. case raw of
         PList xs \<Rightarrow> Inr (dicts_in xs)
       | PDict d \<Rightarrow>
           Inr (case filter is_list (map (dget d) [''records'', ''targets'', ''groups'', ''entries'']) of
                  [] \<Rightarrow> [d] | v # _ \<Rightarrow> dicts_in (elems_of v))
       | _ \<Rightarrow> Inl (RuntimeError (''unsupported target status JSON shape: '' @ path_str p)))"

definition status_target :: "string \<Rightarrow> path \<Rightarrow> pydict \<Rightarrow> nat \<Rightarrow> pydict res" where
  "status_target system p record0 index =
     (let target_id = canonical_target (py_or (py_or (dget record0 ''target_id'') (dget record0 ''gcn_arch''))
            (dget record0 ''target''));
          family = target_family target_id;
          host_os = infer_host_os system None (Some record0);
          toolchain = dict_or_empty (dget record0 ''hip_toolchain'');
          version = clean_string (py_or (py_or (py_or (dget record0 ''hip_sdk_or_rocm_version'')
            (dget record0 ''rocm_version'')) (dget toolchain ''hip_sdk_or_rocm_version'')) (dget toolchain ''rocm_version''));
          cache = dict_or_empty (dget record0 ''cache_eligibility'');
          device_index = dget record0 ''device_index'';
          cache_key = or_else (clean_string (dget record0 ''target_cache_key''))
            (target_cache_key target_id (py_or (dget record0 ''device_name'') (dget record0 ''gpu_name'')) version
               (dget record0 ''hip_runtime_version''))
      in rbind (rmapM (\<lambda>phase. rbind (phase_status record0 phase) (\<lambda>s. Inr (phase, PStr s))) VALIDATION_PHASES) (\<lambda>phases.
         rbind (py_iter (dget_or cache ''blockers'' (PList []))) (\<lambda>raw_blockers.
         rbind (optional_topology_fields record0) (\<lambda>topology.
         rbind (accelerators_from_status record0) (\<lambda>accelerators.
         let eligible = is_True (dget cache ''eligible'');
             blockers = map str_of (filter is_str raw_blockers)
               @ (if eligible then [] else [''status_record_not_cache_eligible''])
         in Inr (dict_of (
           [(''source_kind'', PStr ''target_status''), (''path'', PStr (path_str p)), (''record_index'', PInt (int index)),
            (''target_id'', opt_val target_id),
            (''target_validation_group'', PStr (evidence_group_key host_os target_id version)),
            (''host_os'', PStr host_os)]
           @ family @
           [(''device_index'', device_index),
            (''device_name'', py_or (dget record0 ''device_name'') (dget record0 ''gpu_name'')),
            (''visible_device_count'', dget_or record0 ''visible_device_count'' (dget record0 ''visible_gpu_count'')),
            (''visible_gpu_count'', dget_or record0 ''visible_gpu_count'' (dget record0 ''visible_device_count'')),
            (''node_gpu_count'', dget record0 ''node_gpu_count'')]
           @ topology @
           [(''target_cache_key'', PStr cache_key),
            (''target_instance_id'', PStr (or_else (clean_string (dget record0 ''target_instance_id''))
               (target_instance_id cache_key device_index (dget record0 ''visibility'')))),
            (''global_mem_bytes'', py_or (dget record0 ''global_mem_bytes'') (dget record0 ''memory_bytes'')),
            (''hip_runtime_version'', dget record0 ''hip_runtime_version''),
            (''hip_driver_version'', py_or (dget record0 ''hip_driver_version'') (dget record0 ''driver_version'')),
            (''hip_sdk_or_rocm_version'', opt_val version),
            (''configured_amdgpu_targets'',
               py_or (dget record0 ''configured_amdgpu_targets'') (dget record0 ''amdgpu_targets'')),
            (''clock_power_caveat'', dget record0 ''clock_power_caveat''),
            (''accelerator_status'', PDict accelerators), (''validation_phases'', PDict phases),
            (''cache_eligibility'', PDict [(''eligible'', PBool (eligible \<and> blockers = [])),
               (''blockers'', str_list (sorted_set blockers)),
               (''scope'', PStr ''matching_os_target_toolchain_group_only'')]),
            (''cross_target_promotion_allowed'', PBool False),
            (''validated_scope'', PStr ''this_os_target_toolchain_group_only'')])))))))"

definition load_status_targets :: "files \<Rightarrow> string \<Rightarrow> path list \<Rightarrow> pydict list res" where
  "load_status_targets fs system paths =
     rbind (rmapM (\<lambda>p. rbind (status_records_from_json fs p) (\<lambda>records.
        rmapM (\<lambda>(index, r). status_target system p r index) (indexed records))) paths) (\<lambda>rows. Inr (concat rows))"

section \<open>Groups\<close>

text \<open>The status of a phase in a row, \<open>str((row.get("validation_phases") or {}).get(phase) or "missing")\<close>.\<close>

definition row_phase :: "string \<Rightarrow> pydict \<Rightarrow> string" where
  "row_phase phase row = py_str (py_or (vget (dget row ''validation_phases'') phase) (PStr ''missing''))"

definition merge_phase_status :: "pydict list \<Rightarrow> string \<Rightarrow> string" where
  "merge_phase_status rows phase =
     (let statuses = map (row_phase phase) rows in
      if list_ex phase_ready statuses then ''pass''
      else if list_ex (\<lambda>s. s \<notin> {''missing'', ''not_run'', ''not-requested'', ''unknown''}) statuses
      then hd (sort statuses) else ''missing'')"

definition merge_accelerators :: "pydict list \<Rightarrow> pydict" where
  "merge_accelerators rows =
     map (\<lambda>(name, ss). (name, str_list (sorted_set (map snd ss))))
       (sort_key fst (group_on fst (concat (map (\<lambda>row.
          map (\<lambda>(name, status). (lower name, py_str status)) (items_of (dget row ''accelerator_status''))) rows))))"

definition counts_dict :: "(string \<times> int) list \<Rightarrow> pyval" where
  "counts_dict d = PDict (map (\<lambda>(k, n). (k, PInt n)) d)"

definition phase_status_counts :: "pydict list \<Rightarrow> pydict" where
  "phase_status_counts rows =
     map (\<lambda>phase. (phase, counts_dict (count_strs (map (row_phase phase) rows)))) VALIDATION_PHASES"

definition is_eligible :: "pydict \<Rightarrow> bool" where
  "is_eligible row \<longleftrightarrow> is_True (vget (dget row ''cache_eligibility'') ''eligible'')"

text \<open>\<open>{row.get(name) for row in rows if row.get(name)}\<close>.\<close>

definition truthy_values :: "pydict list \<Rightarrow> string \<Rightarrow> pyval list" where
  "truthy_values rows name = filter truthy (map (\<lambda>row. dget row name) rows)"

definition group_blockers :: "pydict list \<Rightarrow> pydict \<Rightarrow> nat \<Rightarrow> nat \<Rightarrow> nat \<Rightarrow> string list" where
  "group_blockers rows phases targets cache_keys oses =
     (if \<not> list_ex is_eligible rows then [''no_cache_eligible_capture_or_status''] else [])
     @ (if \<not> list_ex (\<lambda>row. is_True (dget row ''supported_target'')) rows then [''unsupported_target''] else [])
     @ map (\<lambda>phase. phase @ ''_not_ready'')
         (filter (\<lambda>phase. \<not> phase_ready (py_str (dget_or phases phase (PStr ''missing'')))) VALIDATION_PHASES)
     @ (if targets \<noteq> 1 then [''ambiguous_target_group''] else [])
     @ (if 1 < cache_keys then [''ambiguous_target_cache_key''] else [])
     @ (if oses \<noteq> 1 then [''ambiguous_host_os_group''] else [])"

definition group_cache_eligibility :: "pydict list \<Rightarrow> pydict \<Rightarrow> pyval res" where
  "group_cache_eligibility rows phases =
     rbind (set_size (truthy_values rows ''target_id'')) (\<lambda>targets.
     rbind (set_size (truthy_values rows ''target_cache_key'')) (\<lambda>cache_keys.
     rbind (set_size (truthy_values rows ''host_os'')) (\<lambda>oses.
     let blockers = group_blockers rows phases targets cache_keys oses
     in Inr (PDict [(''eligible'', PBool (blockers = [])), (''blockers'', str_list (sorted_set blockers)),
          (''scope'', PStr ''matching_os_target_toolchain_group_only''),
          (''cross_target_promotion_allowed'', PBool False)]))))"

definition sorted_counts :: "string list \<Rightarrow> pyval" where
  "sorted_counts ks = counts_dict (sort_key fst (count_strs ks))"

definition coverage_summary :: "pydict list \<Rightarrow> pydict" where
  "coverage_summary groups =
     (let ids = (\<lambda>gs. map (\<lambda>g. dget g ''target_validation_group'') gs);
          eligible = ids (filter is_eligible groups);
          incomplete = ids (filter (\<lambda>g. \<not> is_eligible g) groups);
          texts = (\<lambda>vs. str_list (sort (map py_str (filter truthy vs))))
      in [(''host_os_group_counts'', sorted_counts (map (\<lambda>g. text_or g ''host_os'' ''unknown'') groups)),
          (''target_class_group_counts'', sorted_counts (map (\<lambda>g. text_or g ''target_class'' ''unknown'') groups)),
          (''target_id_group_counts'', sorted_counts (map (\<lambda>g. text_or g ''target_id'' ''unknown'') groups)),
          (''cache_eligible_group_count'', PInt (int (length eligible))), (''cache_eligible_groups'', texts eligible),
          (''incomplete_group_count'', PInt (int (length incomplete))), (''incomplete_groups'', texts incomplete),
          (''cross_target_promotion_allowed'', PBool False),
          (''policy'', PStr ''summarizes_groups_without_merging_evidence_across_os_target_or_toolchain'')])"

text \<open>The sorted sets of texts of a field: of its values that are not None, or of those that are true.\<close>

definition texts_not_none :: "pydict list \<Rightarrow> string \<Rightarrow> pyval" where
  "texts_not_none rows name =
     str_list (sorted_set (map py_str (filter (\<lambda>v. \<not> is_None v) (map (\<lambda>row. dget row name) rows))))"

definition lower_texts_not_none :: "pydict list \<Rightarrow> string \<Rightarrow> pyval" where
  "lower_texts_not_none rows name =
     str_list (sorted_set (map (lower \<circ> py_str) (filter (\<lambda>v. \<not> is_None v) (map (\<lambda>row. dget row name) rows))))"

definition texts_true :: "pydict list \<Rightarrow> string \<Rightarrow> pyval" where
  "texts_true rows name = str_list (sorted_set (map py_str (truthy_values rows name)))"

definition row_group :: "pydict \<Rightarrow> string" where
  "row_group row =
     py_str (py_or (py_or (dget row ''target_validation_group'') (dget row ''target_id'')) (PStr ''unknown''))"

definition is_kind :: "string \<Rightarrow> pydict \<Rightarrow> bool" where
  "is_kind kind row \<longleftrightarrow> eq_str (dget row ''source_kind'') kind"

definition report_group :: "string \<Rightarrow> pydict list \<Rightarrow> pydict res" where
  "report_group key rows =
     (let phases = map (\<lambda>phase. (phase, PStr (merge_phase_status rows phase))) VALIDATION_PHASES;
          representative = (case rows of [] \<Rightarrow> [] | row # _ \<Rightarrow> row);
          of_first = (\<lambda>name. (name, dget representative name))
      in rbind (group_cache_eligibility rows phases) (\<lambda>eligibility. Inr (
         [(''target_validation_group'', PStr key), of_first ''host_os'', of_first ''target_id'',
          of_first ''target_family'', of_first ''target_class'', of_first ''target_tier'', of_first ''supported_target'',
          (''hip_sdk_or_rocm_versions'', texts_not_none rows ''hip_sdk_or_rocm_version''),
          (''hip_runtime_versions'', texts_not_none rows ''hip_runtime_version''),
          (''hip_driver_versions'', texts_not_none rows ''hip_driver_version''),
          (''global_mem_bytes_values'', texts_not_none rows ''global_mem_bytes''),
          (''device_names'', texts_true rows ''device_name''),
          (''device_indices'', texts_not_none rows ''device_index''),
          (''visible_device_counts'', texts_not_none rows ''visible_device_count''),
          (''visible_gpu_counts'', texts_not_none rows ''visible_gpu_count''),
          (''node_gpu_counts'', texts_not_none rows ''node_gpu_count''),
          (''multi_gpu_modes'', texts_true rows ''multi_gpu_mode''),
          (''ranks'', texts_not_none rows ''rank''), (''world_sizes'', texts_not_none rows ''world_size''),
          (''device_bdfs'', texts_true rows ''device_bdf''), (''numa_nodes'', texts_not_none rows ''numa_node''),
          (''rocprofv3_ready_values'', lower_texts_not_none rows ''rocprofv3_ready''),
          (''rccl_ready_values'', lower_texts_not_none rows ''rccl_ready''),
          (''rccl_tests_ready_values'', lower_texts_not_none rows ''rccl_tests_ready''),
          (''target_cache_keys'', texts_true rows ''target_cache_key''),
          (''target_instance_ids'', texts_true rows ''target_instance_id''),
          (''configured_amdgpu_targets'', texts_true rows ''configured_amdgpu_targets''),
          (''validation_phases'', PDict phases), (''phase_status_counts'', PDict (phase_status_counts rows)),
          (''accelerator_status'', PDict (merge_accelerators rows)), (''cache_eligibility'', eligibility),
          (''capture_count'', PInt (int (length (filter (is_kind ''capture'') rows)))),
          (''status_record_count'', PInt (int (length (filter (is_kind ''target_status'') rows)))),
          (''cross_target_promotion_allowed'', PBool False), (''source_kinds'', texts_true rows ''source_kind''),
          (''rows'', PList (map PDict rows))])))"

definition validation_rows :: "validator \<Rightarrow> files \<Rightarrow> string \<Rightarrow> path list \<Rightarrow> path list \<Rightarrow> pydict list res" where
  "validation_rows errors_of fs system captures status_paths =
     rbind (rmapM (capture_target errors_of fs system) captures) (\<lambda>rows.
     rbind (load_status_targets fs system status_paths) (\<lambda>status_rows. Inr (rows @ status_rows)))"

definition report_groups :: "pydict list \<Rightarrow> pydict list res" where
  "report_groups rows = rmapM (\<lambda>(key, rs). report_group key rs) (sort_key fst (group_on row_group rows))"

definition build_validation_report ::
  "validator \<Rightarrow> files \<Rightarrow> string \<Rightarrow> path list \<Rightarrow> path list \<Rightarrow> pydict res" where
  "build_validation_report errors_of fs system captures status_paths =
     rbind (validation_rows errors_of fs system captures status_paths) (\<lambda>rows.
     rbind (report_groups rows) (\<lambda>groups. Inr
       [(''schema_version'', PInt 2), (''policy'', PStr TARGET_POLICY),
        (''cross_target_policy'', PStr NO_CROSS_TARGET_POLICY),
        (''capture_count'', PInt (int (length captures))),
        (''status_record_count'', PInt (int (length rows) - int (length captures))),
        (''group_count'', PInt (int (length groups))),
        (''coverage_summary'', PDict (coverage_summary groups)),
        (''groups'', PList (map PDict groups))]))"

section \<open>What a row holds\<close>

definition evidence_row :: "pydict \<Rightarrow> bool" where
  "evidence_row row \<longleftrightarrow>
     (\<exists>target. dget row ''target_id'' = opt_val target) \<and>
     (\<exists>os. os \<noteq> [] \<and> dget row ''host_os'' = PStr os) \<and>
     (\<exists>key. dget row ''target_cache_key'' = PStr key) \<and>
     (\<exists>group. group \<noteq> [] \<and> dget row ''target_validation_group'' = PStr group)"

lemma lower_Nil_iff [simp]: "lower s = [] \<longleftrightarrow> s = []"
  by (simp add: lower_def)

lemma clean_string_nonempty: "clean_string v = Some s \<Longrightarrow> s \<noteq> []"
  by (auto simp: clean_string_def split: pyval.splits if_splits)

lemma os_of_text_nonempty: "s \<noteq> [] \<Longrightarrow> os_of_text s \<noteq> []"
  by (simp add: os_of_text_def)

lemma os_of_system_nonempty: "os_of_system s \<noteq> []"
  by (simp add: os_of_system_def Let_def)

lemma os_of_capture_nonempty: "os_of_capture c \<noteq> Some []"
  by (simp add: os_of_capture_def Let_def)

lemma os_of_clean_nonempty: "clean_string v = Some s \<Longrightarrow> os_of_text (lower s) \<noteq> []"
  using clean_string_nonempty [of v s] os_of_text_nonempty [of "lower s"] by simp

lemma infer_host_os_nonempty: "infer_host_os system capture r \<noteq> []"
  using os_of_system_nonempty [of system] os_of_capture_nonempty
  by (auto simp: infer_host_os_def map_filter_simps os_of_clean_nonempty split: option.splits)

lemma evidence_group_key_nonempty [simp]: "evidence_group_key os t v \<noteq> []"
  by (simp add: evidence_group_key_def)

lemma dget_dict_of: "dget (dict_of d) k = (case map_of (rev d) k of None \<Rightarrow> PNone | Some v \<Rightarrow> v)"
  by (simp add: dget_def)

lemma optional_topology_keys:
  "optional_topology_fields d = Inr t \<Longrightarrow> map fst t =
     [''multi_gpu_mode'', ''rank'', ''world_size'', ''device_bdf'', ''numa_node'', ''xgmi_peers'',
      ''rocprofv3_ready'', ''rccl_ready'', ''rccl_tests_ready'']"
  by (auto simp: optional_topology_fields_def rbind_eq_Inr)

lemma map_of_optional_topology:
  assumes "optional_topology_fields d = Inr t" "k \<notin> {''multi_gpu_mode'', ''rank'', ''world_size'', ''device_bdf'',
    ''numa_node'', ''xgmi_peers'', ''rocprofv3_ready'', ''rccl_ready'', ''rccl_tests_ready''}"
  shows "map_of (rev t) k = None"
  using assms(2) by (auto simp: map_of_eq_None_iff optional_topology_keys [OF assms(1)] simp flip: set_map)

lemma target_family_fields:
  "map_of (rev (target_family t)) ''target_id'' = Some (opt_val (canonical_target (opt_val t)))"
  "map_of (rev (target_family t)) ''host_os'' = None"
  "map_of (rev (target_family t)) ''target_cache_key'' = None"
  "map_of (rev (target_family t)) ''target_validation_group'' = None"
  by (simp_all add: target_family_def Let_def)

lemma capture_row_evidence:
  assumes "capture_target errors_of fs system p = Inr row" shows "evidence_row row"
proof -
  from assms obtain capture where "capture_target_row system p capture = Inr row"
    by (auto simp: capture_target_def rbind_eq_Inr)
  then show ?thesis
    by (auto simp: capture_target_row_def Let_def rbind_eq_Inr evidence_row_def dget_dict_of
        map_of_optional_topology target_family_fields map_add_def infer_host_os_nonempty)
qed

lemma status_row_evidence:
  assumes "status_target system p r i = Inr row" shows "evidence_row row"
  using assms
  by (auto simp: status_target_def Let_def rbind_eq_Inr evidence_row_def dget_dict_of
      map_of_optional_topology target_family_fields map_add_def infer_host_os_nonempty)

lemma validation_rows_evidence:
  assumes "validation_rows errors_of fs system captures stats = Inr rows" "row \<in> set rows"
  shows "evidence_row row"
proof -
  from assms(1) obtain crows srows where c: "rmapM (capture_target errors_of fs system) captures = Inr crows"
    and s: "load_status_targets fs system stats = Inr srows" and rows: "rows = crows @ srows"
    by (auto simp: validation_rows_def rbind_eq_Inr)
  show ?thesis
  proof (cases "row \<in> set crows")
    case True
    with rmapM_set [OF c] show ?thesis by (blast dest: capture_row_evidence)
  next
    case False
    with assms(2) rows have "row \<in> set srows" by simp
    with s obtain yss ys where y: "rmapM (\<lambda>p. rbind (status_records_from_json fs p) (\<lambda>records.
        rmapM (\<lambda>(index, r). status_target system p r index) (indexed records))) stats = Inr yss"
      "ys \<in> set yss" "row \<in> set ys"
      by (auto simp: load_status_targets_def rbind_eq_Inr)
    from rmapM_set [OF y(1)] y(2) obtain p records where
      "rmapM (\<lambda>(index, r). status_target system p r index) (indexed records) = Inr ys"
      by (auto simp: rbind_eq_Inr) blast
    from rmapM_set [OF this y(3)] obtain i r where "status_target system p r i = Inr row" by auto
    then show ?thesis by (rule status_row_evidence)
  qed
qed

section \<open>What a report certifies\<close>

lemma truthy_opt_val: "truthy (opt_val v) \<longleftrightarrow> (\<exists>s. v = Some s \<and> s \<noteq> [])"
  by (auto simp: opt_val_def split: option.split)

lemma text_values_size:
  assumes "\<And>row. row \<in> set rows \<Longrightarrow> \<exists>v. dget row name = opt_val v" "set_size (truthy_values rows name) = Inr n"
  shows "n = card {s. s \<noteq> [] \<and> (\<exists>row\<in>set rows. dget row name = PStr s)}"
proof -
  have "PStr (str_of v) = v" if "v \<in> set (truthy_values rows name)" for v
    using that assms(1) by (force simp: truthy_values_def opt_val_def split: option.splits)
  then have strs: "map PStr (map str_of (truthy_values rows name)) = truthy_values rows name"
    by (simp add: map_idI)
  have "set (map str_of (truthy_values rows name)) = {s. s \<noteq> [] \<and> (\<exists>row\<in>set rows. dget row name = PStr s)}"
    using assms(1) by (force simp: truthy_values_def opt_val_def split: option.splits)
  moreover have "n = card (set (map str_of (truthy_values rows name)))"
    using assms(2) set_size_strs [of "map str_of (truthy_values rows name)"] strs by simp
  ultimately show ?thesis by simp
qed

lemma merged_phase_ready: "phase_ready (merge_phase_status rows phase) \<longleftrightarrow> list_ex (phase_ready \<circ> row_phase phase) rows"
proof -
  let ?ss = "map (row_phase phase) rows"
  have "\<not> phase_ready (hd (sort ?ss))" if "\<not> list_ex phase_ready ?ss" "?ss \<noteq> []"
    using that by (metis hd_in_set list_ex_iff set_empty set_sort)
  moreover have "\<not> phase_ready ''missing''" "phase_ready ''pass''" by (simp_all add: phase_ready_def)
  moreover have "?ss \<noteq> []" if "list_ex P ?ss" for P using that by (cases rows) simp_all
  ultimately show ?thesis
    by (simp add: merge_phase_status_def Let_def list_ex_iff)
qed

lemma report_groups_members:
  assumes "report_groups rows = Inr groups" "grp \<in> set groups"
  shows "\<exists>key rs. rs = filter (\<lambda>row. row_group row = key) rows \<and> rs \<noteq> [] \<and> report_group key rs = Inr grp"
proof -
  have "\<exists>p\<in>set (sort_key fst (group_on row_group rows)). report_group (fst p) (snd p) = Inr grp"
    using rmapM_set [OF assms(1) [unfolded report_groups_def] assms(2)] by (simp add: case_prod_beta)
  then show ?thesis
    unfolding sorted_group_on by (auto simp: filter_empty_conv)
qed

lemma report_group_fields:
  assumes "report_group key rows = Inr grp"
  shows "dget grp ''rows'' = PList (map PDict rows)" "dget grp ''target_validation_group'' = PStr key"
    "\<exists>eligibility. dget grp ''cache_eligibility'' = eligibility \<and>
       group_cache_eligibility rows (map (\<lambda>phase. (phase, PStr (merge_phase_status rows phase))) VALIDATION_PHASES)
         = Inr eligibility"
  using assms by (auto simp: report_group_def Let_def rbind_eq_Inr dget_def)

lemma if_single_Nil: "(if c then [x] else []) = [] \<longleftrightarrow> \<not> c"
  by simp

lemma group_eligible:
  assumes "group_cache_eligibility rows phases = Inr e" "is_True (vget e ''eligible'')"
  shows "set_size (truthy_values rows ''target_id'') = Inr 1" "set_size (truthy_values rows ''host_os'') = Inr 1"
    "list_ex is_eligible rows" "list_ex (\<lambda>row. is_True (dget row ''supported_target'')) rows"
    "\<forall>phase\<in>set VALIDATION_PHASES. phase_ready (py_str (dget_or phases phase (PStr ''missing'')))"
proof -
  from assms(1) obtain targets cache_keys oses where sizes:
    "set_size (truthy_values rows ''target_id'') = Inr targets" "set_size (truthy_values rows ''host_os'') = Inr oses"
    and "vget e ''eligible'' = PBool (group_blockers rows phases targets cache_keys oses = [])"
    unfolding group_cache_eligibility_def Let_def rbind_eq_Inr by (auto simp: vget_def dget_def)
  with assms(2) have "group_blockers rows phases targets cache_keys oses = []"
    by (simp add: is_True_iff)
  note all = this [unfolded group_blockers_def append_is_Nil_conv if_single_Nil]
  from all sizes show "set_size (truthy_values rows ''target_id'') = Inr 1"
    "set_size (truthy_values rows ''host_os'') = Inr 1" by simp_all
  from all show "list_ex is_eligible rows" "list_ex (\<lambda>row. is_True (dget row ''supported_target'')) rows"
    "\<forall>phase\<in>set VALIDATION_PHASES. phase_ready (py_str (dget_or phases phase (PStr ''missing'')))"
    by (simp_all add: filter_empty_conv)
qed


text \<open>C24:
  The groups of the report are the rows split by their validation group, in ascending order of the
  groups: every row is in exactly the group that it names, in the order in which it was read.
\<close>

theorem report_groups_partition:
  assumes "build_validation_report errors_of fs system captures stats = Inr report"
  shows "\<exists>rows. validation_rows errors_of fs system captures stats = Inr rows
    \<and> map (\<lambda>g. (vget g ''target_validation_group'', vget g ''rows'')) (elems_of (dget report ''groups''))
      = map (\<lambda>key. (PStr key,
          PList (map PDict (filter (\<lambda>row. dget row ''target_validation_group'' = PStr key) rows))))
        (sorted_set (map (\<lambda>row. str_of (dget row ''target_validation_group'')) rows))"
proof -
  from assms obtain rows groups where rows: "validation_rows errors_of fs system captures stats = Inr rows"
    and groups: "report_groups rows = Inr groups" and report: "dget report ''groups'' = PList (map PDict groups)"
    by (auto simp: build_validation_report_def rbind_eq_Inr dget_def)
  have named: "row_group row = str_of (dget row ''target_validation_group'')"
      "dget row ''target_validation_group'' = PStr key \<longleftrightarrow> row_group row = key" if "row \<in> set rows" for row key
    using validation_rows_evidence [OF rows that] by (auto simp: evidence_row_def row_group_def py_or_def)
  have "list_all2 (\<lambda>key g. report_group key (filter (\<lambda>row. row_group row = key) rows) = Inr g)
      (sorted_set (map row_group rows)) groups"
    using groups by (simp add: report_groups_def rmapM_Inr_iff sorted_group_on list_all2_map1)
  then have "map (\<lambda>g. (dget g ''target_validation_group'', dget g ''rows'')) groups
      = map (\<lambda>key. (PStr key, PList (map PDict (filter (\<lambda>row. row_group row = key) rows)))) (sorted_set (map row_group rows))"
    by (induction rule: list_all2_induct) (simp_all add: report_group_fields(1, 2))
  moreover have "map row_group rows = map (\<lambda>row. str_of (dget row ''target_validation_group'')) rows"
    using named(1) by simp
  moreover have "filter (\<lambda>row. row_group row = key) rows
      = filter (\<lambda>row. dget row ''target_validation_group'' = PStr key) rows" for key
    using named(2) by (intro filter_cong) auto
  ultimately show ?thesis
    using rows by (simp add: report vget_def comp_def)
qed

section \<open>A report\<close>

definition gfx_record :: "string \<Rightarrow> pydict" where
  "gfx_record target =
     [(''target_id'', PStr target), (''host_os'', PStr ''Ubuntu 24.04''), (''rocm_version'', PStr ''6.2''),
      (''validation'', PDict (map (\<lambda>phase. (phase, PBool True)) VALIDATION_PHASES)),
      (''cache_eligibility'', PDict [(''eligible'', PBool True)])]"

definition status_files :: files where
  "status_files p = (if p = path_of ''status.json'' then Parsed (PDict (gfx_record ''gfx942:sramecc+'')) else Missing)"

definition no_errors :: validator where
  "no_errors capture p = Inr []"

lemma status_rows:
  "\<exists>row. validation_rows no_errors status_files ''Linux'' [] [path_of ''status.json''] = Inr [row]
     \<and> status_target ''Linux'' (path_of ''status.json'') (gfx_record ''gfx942:sramecc+'') 0 = Inr row"
proof -
  have "returns (status_target ''Linux'' (path_of ''status.json'') (gfx_record ''gfx942:sramecc+'') 0)" by code_simp
  moreover have "status_records_from_json status_files (path_of ''status.json'') = Inr [gfx_record ''gfx942:sramecc+'']"
    by (simp add: status_records_from_json_def read_json_def status_files_def gfx_record_def dget_def)
  ultimately show ?thesis
    by (auto simp: returns_iff validation_rows_def load_status_targets_def indexed_def)
qed

lemma status_group:
  "case status_target ''Linux'' (path_of ''status.json'') (gfx_record ''gfx942:sramecc+'') 0 of Inl _ \<Rightarrow> False
    | Inr row \<Rightarrow> (case report_groups [row] of Inr [g] \<Rightarrow> is_eligible g | _ \<Rightarrow> False)"
  by code_simp

lemma status_report_eligible:
  "\<exists>report grp. build_validation_report no_errors status_files ''Linux'' [] [path_of ''status.json''] = Inr report
     \<and> PDict grp \<in> set (elems_of (dget report ''groups'')) \<and> is_eligible grp"
  using status_rows status_group
  by (auto simp: build_validation_report_def dget_def split: sum.splits list.splits)


theorem report_groups_partition_witness:
  "\<exists>report rows. build_validation_report no_errors status_files ''Linux'' [] [path_of ''status.json''] = Inr report
     \<and> map (\<lambda>g. (vget g ''target_validation_group'', vget g ''rows'')) (elems_of (dget report ''groups''))
      = map (\<lambda>key. (PStr key,
          PList (map PDict (filter (\<lambda>row. dget row ''target_validation_group'' = PStr key) rows))))
        (sorted_set (map (\<lambda>row. str_of (dget row ''target_validation_group'')) rows))"
  using status_report_eligible report_groups_partition by meson

text \<open>
  The spelling of the target decides the group although the row shows the same target: a record for
  \<open>GFX942:sramecc+\<close> and one for \<open>gfx942:sramecc+\<close> give rows with the same \<open>target_id\<close>, the first in a group
  of its own.
\<close>

theorem uppercase_target_splits_group:
  "case (status_target ''Linux'' (path_of ''a.json'') (gfx_record ''GFX942:sramecc+'') 0,
         status_target ''Linux'' (path_of ''a.json'') (gfx_record ''gfx942:sramecc+'') 1) of
     (Inr upper_row, Inr lower_row) \<Rightarrow>
       dget upper_row ''target_id'' = PStr ''gfx942'' \<and> dget lower_row ''target_id'' = PStr ''gfx942''
       \<and> dget upper_row ''target_validation_group'' = PStr ''os=linux;target=gfx942:sramecc+;toolchain=6.2''
       \<and> dget lower_row ''target_validation_group'' = PStr ''os=linux;target=gfx942;toolchain=6.2''
   | _ \<Rightarrow> False"
  by code_simp

end
