(* ===== verification/Promotion_Ledger.thy ===== *)
theory Promotion_Ledger
  imports Target_Validation
begin

text \<open>
  \<open>tools/promotion_ledger.py\<close>: one ledger entry per reviewed capture, with everything that stands between
  the capture and the autotune cache as a list of blockers, and the summary of the ledger.

  \<open>resolve\<close> stands for \<open>Path.resolve\<close>, which depends on the working directory and on symbolic links;
  \<open>errors_of\<close>, \<open>fs\<close> and \<open>system\<close> are those of \<open>Target_Validation\<close>. The Markdown rendering is not modelled.
\<close>

section \<open>Constants and keys\<close>

definition MIN_SPEEDUP_MARGIN :: pyval where
  "MIN_SPEEDUP_MARGIN = PFloat (rnd64 (51 / 50))"

lemma ilog2_102: "ilog2 (51 / 50) = 0"
  by code_simp

lemma floor_102: "\<lfloor>51 / 50 * 4503599627370496 :: rat\<rfloor> = 4593671619917905"
  by (rule floor_unique) simp_all

lemma MIN_SPEEDUP_MARGIN_code [code]:
  "MIN_SPEEDUP_MARGIN = PFloat (FFin (4593671619917906 / 4503599627370496))"
  using floor_102 by (simp add: MIN_SPEEDUP_MARGIN_def rnd64_def ilog2_102 Let_def pow2_def round_half_even_def)

definition PRODUCTION_BACKENDS :: "string list" where
  "PRODUCTION_BACKENDS = [''cpu-reference'', ''hip-direct'', ''hip-vector-alu-int64'']"

definition ACCELERATOR_BACKENDS :: "string list" where
  "ACCELERATOR_BACKENDS = [''ck'', ''rocwmma'', ''hipblaslt'', ''amdgpu-builtins'']"

definition backend_class :: "pyval \<Rightarrow> string res" where
  "backend_class backend =
     rbind (in_str_set backend PRODUCTION_BACKENDS) (\<lambda>production.
     if production then Inr ''production''
     else rbind (in_str_set backend ACCELERATOR_BACKENDS) (\<lambda>accelerator.
       Inr (if accelerator then ''accelerator'' else ''unknown'')))"

definition path_key :: "(path \<Rightarrow> path) \<Rightarrow> path \<Rightarrow> string" where
  "path_key resolve p = path_str (resolve p)"

section \<open>Loading the evidence\<close>

text \<open>The dicts that iterating \<open>d.get(name, [])\<close> meets.\<close>

definition dicts_under :: "string \<Rightarrow> pydict \<Rightarrow> pydict list res" where
  "dicts_under name d = rbind (py_iter (dget_or d name (PList []))) (\<lambda>vs. Inr (dicts_in vs))"

text \<open>What each report whose root is an object contributes.\<close>

definition from_reports :: "files \<Rightarrow> (pydict \<Rightarrow> 'a list res) \<Rightarrow> path list \<Rightarrow> 'a list res" where
  "from_reports fs f paths =
     rbind (rmapM (\<lambda>p. rbind (read_json fs p) (\<lambda>data. case data of PDict d \<Rightarrow> f d | _ \<Rightarrow> Inr [])) paths)
       (\<lambda>xss. Inr (concat xss))"

definition load_cache_entries :: "files \<Rightarrow> path option \<Rightarrow> pydict list res" where
  "load_cache_entries fs path_opt =
     (case path_opt of None \<Rightarrow> Inr []
      | Some p \<Rightarrow>
          if fs p = Missing then Inr []
          else rbind (read_json fs p) (\<lambda>data. Inr (dicts_in (elems_of (vget data ''entries'')))))"

type_synonym evidence = "(string \<times> pydict) list"

definition by_capture :: "(pydict \<Rightarrow> string option) \<Rightarrow> pydict list \<Rightarrow> evidence" where
  "by_capture key entries =
     foldl (\<lambda>d e. case key e of None \<Rightarrow> d | Some k \<Rightarrow> dict_set k e d) [] entries"

definition capture_field_key :: "(path \<Rightarrow> path) \<Rightarrow> pyval \<Rightarrow> string option" where
  "capture_field_key resolve v = (if is_nonempty_str v then Some (path_key resolve (path_of (str_of v))) else None)"

definition load_review_entries :: "(path \<Rightarrow> path) \<Rightarrow> files \<Rightarrow> path list \<Rightarrow> evidence res" where
  "load_review_entries resolve fs paths =
     rbind (from_reports fs (\<lambda>d. rbind (dicts_under ''groups'' d) (\<lambda>groups.
        rbind (rmapM (dicts_under ''candidates'') groups) (\<lambda>css. Inr (concat css)))) paths)
     (\<lambda>candidates. Inr (by_capture (\<lambda>c. capture_field_key resolve (dget c ''capture'')) candidates))"

definition load_variance_entries :: "(path \<Rightarrow> path) \<Rightarrow> files \<Rightarrow> path list \<Rightarrow> evidence res" where
  "load_variance_entries resolve fs paths =
     rbind (from_reports fs (dicts_under ''entries'') paths) (\<lambda>entries. Inr (by_capture (\<lambda>e.
        if is_nonempty_str (dget e ''capture_key'') then Some (str_of (dget e ''capture_key''))
        else capture_field_key resolve (dget e ''capture'')) entries))"

definition load_counter_entries :: "(path \<Rightarrow> path) \<Rightarrow> files \<Rightarrow> path list \<Rightarrow> evidence res" where
  "load_counter_entries resolve fs paths =
     rbind (from_reports fs (dicts_under ''entries'') paths) (\<lambda>entries. Inr (by_capture (\<lambda>e.
        let name = py_str (py_or (py_or (dget e ''capture'') (dget e ''source_capture'')) (PStr ''''))
        in if name = [] then None else Some (path_key resolve (path_of name))) entries))"

definition counter_resource_summary :: "pydict option \<Rightarrow> pyval" where
  "counter_resource_summary entry =
     (case entry of None \<Rightarrow> PNone
      | Some e \<Rightarrow> PDict (map (\<lambda>name. (name, dget e name))
          [''vgpr'', ''sgpr'', ''lds_bytes'', ''scratch_bytes'', ''occupancy'', ''matrix_instruction_histogram'',
           ''wait_state_signals'', ''global_memory_traffic_bytes'']))"

definition load_target_validation_groups :: "files \<Rightarrow> path list \<Rightarrow> evidence res" where
  "load_target_validation_groups fs paths =
     rbind (from_reports fs (dicts_under ''groups'') paths) (\<lambda>groups. Inr (by_capture (\<lambda>g.
        let key = py_or (dget g ''target_validation_group'') (dget g ''review_group_key'')
        in if is_nonempty_str key then Some (str_of key) else None) groups))"

definition load_shape_family_shadow_reports :: "files \<Rightarrow> path list \<Rightarrow> pydict list res" where
  "load_shape_family_shadow_reports fs paths = from_reports fs (\<lambda>d. Inr [d]) paths"

section \<open>Shape-family recommendations\<close>

definition boundary_rejected :: "pydict \<Rightarrow> bool res" where
  "boundary_rejected item =
     (if truthy (dget item ''rejected_boundary_candidates'') then Inr True
      else str_in ''same_family_entries_rejected_by_boundary'' (py_or (dget item ''promotion_blockers'') (PList [])))"

definition exact_cache_hit :: "pydict \<Rightarrow> bool" where
  "exact_cache_hit item \<longleftrightarrow> is_True (dget item ''recommendation_is_exact_cache_hit'')"

definition shape_family_shadow_summary :: "pydict list \<Rightarrow> pydict res" where
  "shape_family_shadow_summary reports =
     rbind (rmapM (\<lambda>report. rbind (py_iter (dget_or report ''boundary_fields'' (PList []))) (\<lambda>fs.
        rbind (dicts_under ''recommendations'' report) (\<lambda>rs. Inr (map str_of (filter is_nonempty_str fs), rs)))) reports) (\<lambda>parts.
     let recommendations = concat (map snd parts);
         count = (\<lambda>P. PInt (int (length (filter P recommendations))))
     in rbind (rmapM boundary_rejected recommendations) (\<lambda>rejected. Inr
       [(''report_count'', PInt (int (length reports))),
        (''recommendation_count'', PInt (int (length recommendations))),
        (''exact_cache_hit_count'', count exact_cache_hit),
        (''non_exact_recommendation_count'',
           count (\<lambda>item. is_True (dget item ''would_recommend'') \<and> \<not> exact_cache_hit item)),
        (''missing_same_family_count'', count (\<lambda>item. \<not> is_True (dget item ''would_recommend''))),
        (''blocked_recommendation_count'', count (\<lambda>item. \<not> is_True (dget item ''promotion_eligible'')
           \<or> \<not> is_True (dget item ''runtime_routing_allowed''))),
        (''boundary_rejected_recommendation_count'', PInt (int (length (filter id rejected)))),
        (''boundary_fields'', str_list (sorted_set (concat (map fst parts)))),
        (''policy'', PStr ''shape_family_shadow_non_routing_blocking_metadata_only'')]))"

definition shape_family_recommendation_index :: "pydict list \<Rightarrow> (string \<times> pydict list) list res" where
  "shape_family_recommendation_index reports =
     rbind (rmapM (dicts_under ''recommendations'') reports) (\<lambda>rss. Inr
       (group_on (\<lambda>r. str_of (dget r ''basis_cache_key''))
         (filter (\<lambda>r. is_nonempty_str (dget r ''basis_cache_key'')) (concat rss))))"

definition feature_lane_requested :: "pydict \<Rightarrow> bool" where
  "feature_lane_requested item \<longleftrightarrow>
     is_True (dget item ''requested'') \<or> is_True (dget item ''enabled'') \<or> is_True (dget item ''used'')
     \<or> (let status = py_or (dget item ''capture_status'') (dget item ''status'')
        in is_str status \<and> str_of status \<notin> {''not_requested'', ''not_applicable''})"

definition optional_selector_hash :: "pyval \<Rightarrow> pyval" where
  "optional_selector_hash v = (if is_nonempty_str v then PStr (selector_key_hash (str_of v)) else PNone)"

section \<open>One entry\<close>

text \<open>The non-empty strings that iterating a value meets.\<close>

definition texts_under :: "string \<Rightarrow> pydict \<Rightarrow> string list res" where
  "texts_under name d =
     rbind (py_iter (dget_or d name (PList []))) (\<lambda>vs. Inr (map str_of (filter is_nonempty_str vs)))"

text \<open>The evidence that a gate reads: its blockers, whether it is ready, and the values it reports.\<close>

record review_evidence =
  rv_blockers :: "string list"
  rv_promotable :: bool
  rv_speedup :: pyval

definition read_review :: "pydict option \<Rightarrow> review_evidence res" where
  "read_review reviewed =
     (case reviewed of
        None \<Rightarrow> Inr \<lparr>rv_blockers = [], rv_promotable = False, rv_speedup = PNone\<rparr>
      | Some r \<Rightarrow>
          rbind (texts_under ''promotion_blockers'' r) (\<lambda>blockers. Inr
            \<lparr>rv_blockers = blockers,
             rv_promotable = is_True (dget r ''promotable'') \<and> blockers = [],
             rv_speedup = (if isinstance_num (dget r ''speedup_vs_direct_hip'') then dget r ''speedup_vs_direct_hip''
               else dget r ''speedup_vs_vector_alu'')\<rparr>))"

definition entry_speedup :: "review_evidence \<Rightarrow> pydict \<Rightarrow> pyval" where
  "entry_speedup rv baseline =
     (if isinstance_num (rv_speedup rv) then rv_speedup rv
      else dget baseline ''speedup_vs_baseline_median_end_to_end'')"

definition speedup_blockers :: "pyval \<Rightarrow> string list" where
  "speedup_blockers speedup =
     (if \<not> isinstance_num speedup \<or> val_lt speedup MIN_SPEEDUP_MARGIN
      then [''missing_or_narrow_speedup_margin''] else [])"

record variance_evidence =
  va_blockers :: "string list"
  va_ready :: pyval
  va_margin :: pyval
  va_noise :: pyval

definition read_variance :: "bool \<Rightarrow> pyval \<Rightarrow> pydict option \<Rightarrow> variance_evidence res" where
  "read_variance gate speedup variance =
     (case variance of
        None \<Rightarrow> Inr \<lparr>va_blockers = (if gate then [''missing_variance_gate_entry''] else []), va_ready = PNone,
          va_margin = PNone, va_noise = PNone\<rparr>
      | Some v \<Rightarrow>
          rbind (texts_under ''blockers'' v) (\<lambda>blockers.
          let ready = is_True (dget v ''promotion_ready''); margin = dget v ''required_speedup_margin'' in Inr
            \<lparr>va_blockers = map (\<lambda>b. ''variance_blocker:'' @ b) blockers
               @ (if \<not> ready \<and> \<not> truthy (dget v ''blockers'') then [''variance_gate_not_ready''] else [])
               @ (if isinstance_num speedup \<and> isinstance_num margin \<and> val_le speedup margin
                  then [''speedup_inside_variance_margin''] else []),
             va_ready = PBool ready, va_margin = margin,
             va_noise = dget v ''observed_max_relative_noise''\<rparr>))"

record target_evidence =
  te_blockers :: "string list"
  te_ready :: pyval
  te_eligible :: pyval
  te_cache_blockers :: "string list"

definition read_target_gate :: "bool \<Rightarrow> pydict option \<Rightarrow> target_evidence res" where
  "read_target_gate supplied target =
     (case target of
        None \<Rightarrow> Inr \<lparr>te_blockers = (if supplied then [''missing_target_validation_group''] else []),
          te_ready = PNone, te_eligible = PNone, te_cache_blockers = []\<rparr>
      | Some t \<Rightarrow>
          (let eligibility = dict_or_empty (dget t ''cache_eligibility'');
               eligible = is_True (dget eligibility ''eligible'')
           in rbind (texts_under ''blockers'' eligibility) (\<lambda>blockers. Inr
                \<lparr>te_blockers = map (\<lambda>b. ''target_validation_blocker:'' @ b) blockers,
                 te_ready = PBool (eligible \<and> blockers = []), te_eligible = PBool eligible,
                 te_cache_blockers = blockers\<rparr>)))"

definition FEATURE_SCOPED_NON_PROMOTING :: "string list" where
  "FEATURE_SCOPED_NON_PROMOTING =
     [''grouped_dispatch'', ''hip_graph_replay'', ''cpu_small_shape_selector'', ''incremental_result_cache'']"

definition feature_blockers :: "pydict \<Rightarrow> string \<Rightarrow> string list" where
  "feature_blockers capture name =
     (case dget capture name of
        PDict item \<Rightarrow>
          (if is_False (dget item ''promotion_eligible'')
              \<and> (name \<notin> set FEATURE_SCOPED_NON_PROMOTING \<or> feature_lane_requested item)
           then [name @ ''_non_promoting''] else [])
          @ (if name = ''modulus_set'' \<and> truthy (dget item ''cache_promotion_blocker'')
             then [py_str (dget item ''cache_promotion_blocker'')] else [])
          @ (if name = ''export_variant'' \<and> \<not> truthy (dget item ''selector_key'')
             then [''export_selector_key_missing''] else [])
          @ (if name = ''export_variant'' \<and> \<not> truthy (dget item ''stale_entry_reason'')
             then [''export_selector_stale_reason_missing''] else [])
      | _ \<Rightarrow> [])"

definition FEATURE_OBJECTS :: "string list" where
  "FEATURE_OBJECTS =
     [''modulus_set'', ''export_variant'', ''reconstruction_variant'', ''grouped_dispatch'', ''hip_graph_replay'',
      ''cpu_small_shape_selector'', ''incremental_result_cache'']"

definition tile_blockers :: "pydict \<Rightarrow> string list res" where
  "tile_blockers capture =
     (case dget capture ''tile_shape_variant'' of
        PDict tile \<Rightarrow>
          rbind (in_vals (dget tile ''k_block_policy'') [PNone, PStr ''auto'']) (\<lambda>plain. Inr (
            (if \<not> plain then [''non_default_k_block_policy_requires_same_target_counter_review''] else [])
            @ (if is_None (dget tile ''accumulator_safety_key'')
               then [''tile_shape_accumulator_safety_key_missing''] else [])))
      | _ \<Rightarrow> Inr [])"

definition nonzero :: "pydict \<Rightarrow> string \<Rightarrow> bool res" where
  "nonzero d name = rbind (py_int (py_or (dget d name) (PInt 0))) (\<lambda>n. Inr (n \<noteq> 0))"

definition arena_blockers :: "pydict \<Rightarrow> string list res" where
  "arena_blockers capture =
     (case dget capture ''workspace_arena'' of
        PDict arena \<Rightarrow>
          if \<not> truthy (dget arena ''enabled'') then Inr []
          else rbind (case dget arena ''measured_repeat_allocation_delta'' of
                 PDict delta \<Rightarrow> ror (nonzero delta ''allocate_calls'')
                   (ror (nonzero delta ''free_calls'') (nonzero delta ''allocated_bytes''))
               | _ \<Rightarrow> Inr False) (\<lambda>moved. Inr (
            (if \<not> is_True (dget arena ''measured_repeat_allocation_free'')
             then [''workspace_arena_repeat_allocation_not_free''] else [])
            @ (if moved then [''workspace_arena_repeat_allocation_delta_nonzero''] else [])))
      | _ \<Rightarrow> Inr [])"

definition cache_scope_of :: "string \<Rightarrow> string \<Rightarrow> string" where
  "cache_scope_of export reconstruction =
     (if export = ''default'' \<and> reconstruction = ''default_garner'' then ''runtime_exact_autotune''
      else ''selector_review_only_non_default'')"

definition named_variant :: "pydict \<Rightarrow> string \<Rightarrow> string" where
  "named_variant variant v = text_or variant ''name'' v"

record ledger_evidence =
  le_review :: "pydict option"
  le_variance :: "pydict option"
  le_variance_supplied :: bool
  le_variance_required :: bool
  le_target :: "pydict option"
  le_target_supplied :: bool
  le_recommendations :: "pydict list"

definition capture_blockers ::
  "ledger_evidence \<Rightarrow> pydict \<Rightarrow> review_evidence \<Rightarrow> variance_evidence \<Rightarrow> target_evidence \<Rightarrow> string list res" where
  "capture_blockers le capture rv va te =
     (let metadata = capture_backend_metadata capture;
          baseline = dict_or_empty (dget capture ''comparison_baseline'');
          export = named_variant (dict_or_empty (dget capture ''export_variant'')) ''default'';
          reconstruction = named_variant (dict_or_empty (dget capture ''reconstruction_variant'')) ''default_garner''
      in rbind (tile_blockers capture) (\<lambda>tile.
         rbind (arena_blockers capture) (\<lambda>arena. Inr (
           (if \<not> truthy (dget metadata ''autotune_key'') then [''missing_autotune_key''] else [])
           @ map (\<lambda>b. ''review_blocker:'' @ b) (rv_blockers rv)
           @ (if \<not> is_True (dget metadata ''performance_validated'') \<and> \<not> rv_promotable rv
              then [''not_performance_validated''] else [])
           @ (if \<not> eq_str (dget baseline ''status'') ''reviewed_release_same_contract_baseline'' \<and> \<not> rv_promotable rv
              then [''missing_release_reviewed_baseline''] else [])
           @ speedup_blockers (entry_speedup rv baseline)
           @ va_blockers va @ te_blockers te
           @ concat (map (feature_blockers capture) FEATURE_OBJECTS) @ tile @ arena
           @ (if cache_scope_of export reconstruction \<noteq> ''runtime_exact_autotune''
              then [''selector_review_only_not_runtime_cache_route''] else [])))))"

definition ledger_entry ::
  "path \<Rightarrow> pydict \<Rightarrow> pydict \<Rightarrow> ledger_evidence \<Rightarrow> review_evidence \<Rightarrow> variance_evidence \<Rightarrow> target_evidence \<Rightarrow>
   string list \<Rightarrow> string list \<Rightarrow> string \<Rightarrow> pydict" where
  "ledger_entry p capture target_row le rv va te blockers family_blockers class0 =
     (let metadata = capture_backend_metadata capture;
          export_variant = dict_or_empty (dget capture ''export_variant'');
          export = named_variant export_variant ''default'';
          reconstruction = named_variant (dict_or_empty (dget capture ''reconstruction_variant'')) ''default_garner'';
          selector = dget export_variant ''selector_key'';
          speedup = entry_speedup rv (dict_or_empty (dget capture ''comparison_baseline'')) in
       [(''path'', PStr (path_str p)), (''autotune_key'', dget metadata ''autotune_key''),
        (''backend_class'', PStr class0), (''backend_selected'', dget capture ''backend_selected''),
        (''selected_kernel'', dget capture ''selected_kernel''), (''semantic_contract'', dget capture ''semantics''),
        (''shape'', PDict [(''m'', dget capture ''m''), (''n'', dget capture ''n''), (''k'', dget capture ''k'')]),
        (''target_id'', dget target_row ''target_id''), (''target_class'', dget target_row ''target_class''),
        (''target_family'', dget target_row ''target_family''), (''host_os'', dget target_row ''host_os''),
        (''target_validation_group'', dget target_row ''target_validation_group''),
        (''target_validation_gate_available'', PBool (le_target le \<noteq> None)),
        (''target_validation_gate_ready'', te_ready te), (''target_cache_eligible'', te_eligible te),
        (''target_cache_blockers'', str_list (sorted_set (te_cache_blockers te))),
        (''validation_status'', dget metadata ''capability_status''),
        (''performance_validated'', PBool (is_True (dget metadata ''performance_validated'') \<or> rv_promotable rv)),
        (''review_report_promotable'', PBool (rv_promotable rv)), (''speedup_margin'', speedup),
        (''variance_gate_available'', PBool (le_variance le \<noteq> None)), (''variance_gate_ready'', va_ready va),
        (''variance_required_speedup_margin'', va_margin va),
        (''variance_observed_max_relative_noise'', va_noise va),
        (''promotion_blockers'', str_list (sorted_set blockers)),
        (''export_variant'', PStr export), (''reconstruction_variant'', PStr reconstruction),
        (''export_selector_key'', selector), (''export_selector_hash'', optional_selector_hash selector),
        (''export_selector_policy'', dget export_variant ''selector_policy''),
        (''export_cache_visibility'', dget export_variant ''cache_visibility''),
        (''export_stale_entry_reason'', dget export_variant ''stale_entry_reason''),
        (''cache_scope'', PStr (cache_scope_of export reconstruction)),
        (''shape_family_recommendation_status'', PStr (if le_recommendations le \<noteq> []
           then ''exact_cache_entry_shadow_basis_non_routing'' else ''exact_cache_only_no_family_routing'')),
        (''shape_family_shadow_query_count'', PInt (int (length (le_recommendations le)))),
        (''shape_family_shadow_blockers'', str_list (sorted_set family_blockers))])"

definition capture_entry ::
  "validator \<Rightarrow> files \<Rightarrow> string \<Rightarrow> path \<Rightarrow> ledger_evidence \<Rightarrow> pydict res" where
  "capture_entry errors_of fs system p le =
     rbind (load_valid errors_of fs p) (\<lambda>capture.
     rbind (capture_target errors_of fs system p) (\<lambda>target_row.
     rbind (read_review (le_review le)) (\<lambda>rv.
     rbind (read_variance (le_variance_required le \<or> le_variance_supplied le)
       (entry_speedup rv (dict_or_empty (dget capture ''comparison_baseline''))) (le_variance le)) (\<lambda>va.
     rbind (read_target_gate (le_target_supplied le) (le_target le)) (\<lambda>te.
     rbind (capture_blockers le capture rv va te) (\<lambda>blockers.
     rbind (rmapM (texts_under ''promotion_blockers'') (le_recommendations le)) (\<lambda>family_blockers.
     rbind (backend_class (dget capture ''backend_selected'')) (\<lambda>class0.
     Inr (ledger_entry p capture target_row le rv va te blockers (concat family_blockers) class0)))))))))"

section \<open>The ledger\<close>

definition stale_reason :: "string \<Rightarrow> string list" where
  "stale_reason s =
     (if contains ''target'' s then [''target_id_or_target_validation_mismatch'']
      else if contains ''variance'' s \<or> contains ''margin'' s \<or> contains ''speedup'' s
      then [''margin_below_required_threshold'']
      else if contains ''kernel'' s then [''selected_kernel_mismatch'']
      else if contains ''epilogue'' s then [''epilogue_mismatch'']
      else if contains ''workspace'' s then [''workspace_mismatch'']
      else if contains ''export_selector'' s \<or> contains ''export_variant'' s \<or> contains ''reconstruction_variant'' s
        \<or> contains ''selector_review'' s then [''export_selector_contract_mismatch'']
      else if contains ''schema'' s then [''schema_mismatch'']
      else if contains ''review'' s \<or> contains ''evidence'' s \<or> contains ''performance'' s
      then [''evidence_missing_or_not_promoted''] else [])"

definition stale_invalidation_reasons :: "string list \<Rightarrow> string list" where
  "stale_invalidation_reasons blockers =
     (let reasons = concat (map stale_reason blockers)
      in sorted_set (if reasons = [] \<and> blockers \<noteq> [] then [''promotion_blockers_present''] else reasons))"

definition blockers_of :: "pydict \<Rightarrow> string list" where
  "blockers_of entry = map str_of (elems_of (dget entry ''promotion_blockers''))"

definition ledger_coverage_key :: "pydict \<Rightarrow> string list" where
  "ledger_coverage_key entry =
     [text_or entry ''semantic_contract'' ''unknown'', shape_family_of entry,
      text_or entry ''backend_selected'' ''unknown'', text_or entry ''target_class'' ''unknown'',
      text_or entry ''target_id'' ''unknown'', text_or entry ''export_variant'' ''default'',
      text_or entry ''reconstruction_variant'' ''default_garner'']"

definition ledger_coverage_row :: "string list \<times> pydict list \<Rightarrow> pyval" where
  "ledger_coverage_row kg =
     (let count = (\<lambda>P. PInt (int (length (filter P (snd kg))))) in
      PDict (zip [''semantic_contract'', ''shape_family'', ''backend'', ''target_class'', ''target_id'',
          ''export_variant'', ''reconstruction_variant''] (map PStr (fst kg))
        @ [(''entry_count'', count (\<lambda>_. True)),
           (''installed_count'', count (\<lambda>e. is_True (dget e ''installed_cache_entry''))),
           (''eligible_count'', count (\<lambda>e. \<not> truthy (dget e ''promotion_blockers''))),
           (''blocked_count'', count (\<lambda>e. truthy (dget e ''promotion_blockers'')))]))"

definition cache_coverage :: "pydict list \<Rightarrow> pyval list" where
  "cache_coverage entries = map ledger_coverage_row (sort_key fst (group_on ledger_coverage_key entries))"

text \<open>
  The second pass over one entry. \<open>counter_entry\<close> is what the counter reports say under the key that the
  code computes, which is that of the last capture for every entry.
\<close>

definition finish_entry :: "string list \<Rightarrow> bool \<Rightarrow> pydict option \<Rightarrow> pydict \<Rightarrow> pydict res" where
  "finish_entry cache_keys counters_supplied counter_entry entry =
     (let key = dget entry ''autotune_key'' in
      rbind (if truthy key then in_str_set key cache_keys else Inr False) (\<lambda>installed.
      let blockers = blockers_of entry
            @ (if truthy key \<and> \<not> installed then [''missing_installed_cache_entry''] else []);
          e1 = dict_set ''installed_cache_entry'' (PBool installed) entry;
          e2 = dict_set ''promotion_blockers'' (str_list blockers) e1;
          e3 = dict_set ''stale_invalidation_reasons'' (str_list (stale_invalidation_reasons blockers)) e2;
          e4 = dict_set ''counter_resource_summary'' (counter_resource_summary counter_entry) e3
      in Inr (if counter_entry = None \<and> counters_supplied
              then dict_set ''promotion_blockers'' (str_list (blockers @ [''missing_counter_evidence''])) e4
              else e4)))"

record ledger_options =
  lo_cache :: "path option"
  lo_reviews :: "path list"
  lo_variances :: "path list"
  lo_targets :: "path list"
  lo_shapes :: "path list"
  lo_counters :: "path list"
  lo_require_variance :: bool

definition count_where :: "(pydict \<Rightarrow> bool) \<Rightarrow> pydict list \<Rightarrow> pyval" where
  "count_where P es = PInt (int (length (filter P es)))"

definition in_class :: "string \<Rightarrow> pydict \<Rightarrow> bool" where
  "in_class c e \<longleftrightarrow> eq_str (dget e ''backend_class'') c"

definition unblocked :: "pydict \<Rightarrow> bool" where
  "unblocked e \<longleftrightarrow> \<not> truthy (dget e ''promotion_blockers'')"

definition recommendations_for ::
  "files \<Rightarrow> (string \<times> pydict list) list \<Rightarrow> path \<Rightarrow> pydict list res" where
  "recommendations_for fs index p =
     rbind (load_capture fs p) (\<lambda>capture.
     let key = dget (capture_backend_metadata capture) ''autotune_key'' in Inr
       (if is_str key then (case map_of index (str_of key) of None \<Rightarrow> [] | Some rs \<Rightarrow> rs) else []))"

definition evidence_for ::
  "(path \<Rightarrow> path) \<Rightarrow> ledger_options \<Rightarrow> evidence \<Rightarrow> evidence \<Rightarrow> evidence \<Rightarrow> (string \<times> pydict list) list \<Rightarrow>
   path \<Rightarrow> pydict \<Rightarrow> ledger_evidence" where
  "evidence_for resolve lo reviewed variance target_groups by_path p target_row =
     \<lparr>le_review = map_of reviewed (path_key resolve p), le_variance = map_of variance (path_key resolve p),
      le_variance_supplied = lo_variances lo \<noteq> [], le_variance_required = lo_require_variance lo,
      le_target = map_of target_groups (py_str (dget target_row ''target_validation_group'')),
      le_target_supplied = lo_targets lo \<noteq> [],
      le_recommendations = (case map_of (rev by_path) (path_key resolve p) of None \<Rightarrow> [] | Some rs \<Rightarrow> rs)\<rparr>"

definition ledger_entries ::
  "(path \<Rightarrow> path) \<Rightarrow> validator \<Rightarrow> files \<Rightarrow> string \<Rightarrow> path list \<Rightarrow> ledger_options \<Rightarrow> pydict list \<Rightarrow> pydict list res" where
  "ledger_entries resolve errors_of fs system captures lo shape_reports =
     rbind (load_review_entries resolve fs (lo_reviews lo)) (\<lambda>reviewed.
     rbind (load_variance_entries resolve fs (lo_variances lo)) (\<lambda>variance.
     rbind (load_target_validation_groups fs (lo_targets lo)) (\<lambda>target_groups.
     rbind (load_counter_entries resolve fs (lo_counters lo)) (\<lambda>counter.
     rbind (shape_family_recommendation_index shape_reports) (\<lambda>index.
     rbind (rmapM (\<lambda>p. rbind (recommendations_for fs index p) (\<lambda>rs. Inr (path_key resolve p, rs))) captures) (\<lambda>by_path.
     rbind (rmapM (\<lambda>p. rbind (capture_target errors_of fs system p) (\<lambda>target_row.
        capture_entry errors_of fs system p
          (evidence_for resolve lo reviewed variance target_groups by_path p target_row))) captures) (\<lambda>entries.
     rbind (load_cache_entries fs (lo_cache lo)) (\<lambda>cache_entries.
     rmapM (finish_entry (map str_of (filter is_str (map (\<lambda>e. dget e ''key'') cache_entries))) (lo_counters lo \<noteq> [])
         (map_of counter (path_key resolve (last captures)))) entries))))))))"

definition build_ledger ::
  "(path \<Rightarrow> path) \<Rightarrow> validator \<Rightarrow> files \<Rightarrow> string \<Rightarrow> path list \<Rightarrow> ledger_options \<Rightarrow> pydict res" where
  "build_ledger resolve errors_of fs system captures lo =
     rbind (load_shape_family_shadow_reports fs (lo_shapes lo)) (\<lambda>shape_reports.
     rbind (ledger_entries resolve errors_of fs system captures lo shape_reports) (\<lambda>entries.
     rbind (load_cache_entries fs (lo_cache lo)) (\<lambda>cache_entries.
     rbind (shape_family_shadow_summary shape_reports) (\<lambda>summary. Inr
       [(''schema_version'', PInt 1),
        (''policy'', PStr ''reviewed_release_evidence_required_for_autotune_promotion''),
        (''cache_path'', case lo_cache lo of None \<Rightarrow> PNone | Some p \<Rightarrow> PStr (path_str p)),
        (''review_report_count'', PInt (int (length (lo_reviews lo)))),
        (''variance_report_count'', PInt (int (length (lo_variances lo)))),
        (''require_variance_gate'', PBool (lo_require_variance lo)),
        (''target_validation_report_count'', PInt (int (length (lo_targets lo)))),
        (''shape_family_shadow_report_count'', PInt (int (length (lo_shapes lo)))),
        (''counter_report_count'', PInt (int (length (lo_counters lo)))),
        (''shape_family_shadow_summary'', PDict summary),
        (''cache_entry_count'', PInt (int (length cache_entries))),
        (''entries'', PList (map PDict entries)),
        (''cache_coverage'', PList (cache_coverage entries)),
        (''blocked_count'', count_where (\<lambda>e. \<not> unblocked e) entries),
        (''production_route_count'', count_where (in_class ''production'') entries),
        (''accelerator_route_count'', count_where (in_class ''accelerator'') entries),
        (''production_promotable_count'', count_where (\<lambda>e. in_class ''production'' e \<and> unblocked e) entries),
        (''accelerator_promotable_count'', count_where (\<lambda>e. in_class ''accelerator'' e \<and> unblocked e) entries)]))))"

section \<open>What an entry says\<close>

lemma ledger_entry_fields:
  fixes p capture target_row le rv va te blockers family_blockers class0
  defines "e \<equiv> ledger_entry p capture target_row le rv va te blockers family_blockers class0"
  shows "dict_wf e" "dget e ''promotion_blockers'' = str_list (sorted_set blockers)"
    "dget e ''performance_validated''
       = PBool (is_True (dget (capture_backend_metadata capture) ''performance_validated'') \<or> rv_promotable rv)"
    "dget e ''speedup_margin'' = entry_speedup rv (dict_or_empty (dget capture ''comparison_baseline''))"
    "dget e ''variance_gate_ready'' = va_ready va" "dget e ''variance_required_speedup_margin'' = va_margin va"
    "dget e ''variance_gate_available'' = PBool (le_variance le \<noteq> None)"
    "dget e ''autotune_key'' = dget (capture_backend_metadata capture) ''autotune_key''"
    "dget e ''cache_scope'' = PStr (cache_scope_of
       (named_variant (dict_or_empty (dget capture ''export_variant'')) ''default'')
       (named_variant (dict_or_empty (dget capture ''reconstruction_variant'')) ''default_garner''))"
  by (simp_all add: e_def ledger_entry_def Let_def dict_wf_def dget_def)

lemma capture_entry_obtain:
  assumes "capture_entry errors_of fs system p le = Inr entry"
  obtains capture target_row rv va te blockers family_blockers class0 where
    "entry = ledger_entry p capture target_row le rv va te blockers family_blockers class0"
    "read_review (le_review le) = Inr rv"
    "read_variance (le_variance_required le \<or> le_variance_supplied le)
       (entry_speedup rv (dict_or_empty (dget capture ''comparison_baseline''))) (le_variance le) = Inr va"
    "capture_blockers le capture rv va te = Inr blockers"
  using assms unfolding capture_entry_def rbind_eq_Inr by (elim exE conjE) (rule that, auto)

text \<open>What an entry without blockers has: evidence for the promotion, and a speedup outside the noise.\<close>

definition well_evidenced :: "pydict \<Rightarrow> bool" where
  "well_evidenced e \<longleftrightarrow>
     truthy (dget e ''autotune_key'')
   \<and> dget e ''performance_validated'' = PBool True
   \<and> isinstance_num (dget e ''speedup_margin'') \<and> \<not> val_lt (dget e ''speedup_margin'') MIN_SPEEDUP_MARGIN
   \<and> dget e ''cache_scope'' = PStr ''runtime_exact_autotune''"

definition clears_noise :: "pydict \<Rightarrow> bool" where
  "clears_noise e \<longleftrightarrow>
     \<not> (isinstance_num (dget e ''variance_required_speedup_margin'')
        \<and> val_le (dget e ''speedup_margin'') (dget e ''variance_required_speedup_margin''))"

lemma read_variance_clear:
  assumes "read_variance gate speedup v = Inr va" "va_blockers va = []" "isinstance_num speedup"
  shows "\<not> (isinstance_num (va_margin va) \<and> val_le speedup (va_margin va))"
  using assms by (auto simp: read_variance_def Let_def rbind_eq_Inr split: option.splits if_splits)

lemma capture_blockers_Nil:
  assumes "capture_blockers le capture rv va te = Inr []"
  shows "truthy (dget (capture_backend_metadata capture) ''autotune_key'')"
    "is_True (dget (capture_backend_metadata capture) ''performance_validated'') \<or> rv_promotable rv"
    "isinstance_num (entry_speedup rv (dict_or_empty (dget capture ''comparison_baseline'')))"
    "\<not> val_lt (entry_speedup rv (dict_or_empty (dget capture ''comparison_baseline''))) MIN_SPEEDUP_MARGIN"
    "va_blockers va = []" "te_blockers te = []"
    "cache_scope_of (named_variant (dict_or_empty (dget capture ''export_variant'')) ''default'')
       (named_variant (dict_or_empty (dget capture ''reconstruction_variant'')) ''default_garner'')
     = ''runtime_exact_autotune''"
  using assms
  unfolding capture_blockers_def Let_def rbind_eq_Inr sum.inject append_is_Nil_conv if_single_Nil speedup_blockers_def
  by auto

lemma capture_entry_unblocked:
  assumes "capture_entry errors_of fs system p le = Inr entry" "blockers_of entry = []"
  shows "well_evidenced entry" "clears_noise entry"
proof -
  from assms(1) obtain capture target_row rv va te blockers family_blockers class0 where
    e: "entry = ledger_entry p capture target_row le rv va te blockers family_blockers class0"
    and va: "read_variance (le_variance_required le \<or> le_variance_supplied le)
       (entry_speedup rv (dict_or_empty (dget capture ''comparison_baseline''))) (le_variance le) = Inr va"
    and b: "capture_blockers le capture rv va te = Inr blockers"
    by (rule capture_entry_obtain)
  have "blockers = []" using assms(2) by (simp add: e blockers_of_def ledger_entry_fields str_list_def)
  note none = capture_blockers_Nil [OF b [unfolded this]]
  show "well_evidenced entry" using none by (simp add: e well_evidenced_def ledger_entry_fields)
  show "clears_noise entry"
    using read_variance_clear [OF va none(5) none(3)] by (simp add: e clears_noise_def ledger_entry_fields)
qed

text \<open>The second pass adds blockers and fields of its own, and leaves the others alone.\<close>

lemma finish_entry_facts:
  assumes "finish_entry keys counters counter_entry entry = Inr e"
  shows "blockers_of e = [] \<Longrightarrow> blockers_of entry = []"
    "dget e ''counter_resource_summary'' = counter_resource_summary counter_entry"
    "name \<notin> {''installed_cache_entry'', ''promotion_blockers'', ''stale_invalidation_reasons'',
       ''counter_resource_summary''} \<Longrightarrow> dget e name = dget entry name"
    "dict_wf entry \<Longrightarrow> dict_wf e"
  using assms
  by (auto simp: finish_entry_def Let_def rbind_eq_Inr blockers_of_def str_list_def comp_def dict_wf_dict_set
      split: if_splits)

lemma ledger_entries_members:
  assumes "ledger_entries resolve errors_of fs system captures lo shape_reports = Inr entries" "e \<in> set entries"
  shows "\<exists>p le entry keys counter. capture_entry errors_of fs system p le = Inr entry
    \<and> load_counter_entries resolve fs (lo_counters lo) = Inr counter
    \<and> finish_entry keys (lo_counters lo \<noteq> []) (map_of counter (path_key resolve (last captures))) entry = Inr e"
proof -
  from assms(1) obtain raw cache counter reviewed variance groups by_path where
    counter: "load_counter_entries resolve fs (lo_counters lo) = Inr counter"
    and raw: "rmapM (\<lambda>p. rbind (capture_target errors_of fs system p) (\<lambda>row. capture_entry errors_of fs system p
        (evidence_for resolve lo reviewed variance groups by_path p row))) captures = Inr raw"
    and fin: "rmapM (finish_entry (map str_of (filter is_str (map (\<lambda>e. dget e ''key'') cache))) (lo_counters lo \<noteq> []) (map_of counter (path_key resolve (last captures)))) raw
      = Inr entries"
    unfolding ledger_entries_def rbind_eq_Inr by (elim exE conjE) blast
  from rmapM_set [OF fin assms(2)] obtain entry where
    entry: "entry \<in> set raw" "finish_entry (map str_of (filter is_str (map (\<lambda>e. dget e ''key'') cache)))
       (lo_counters lo \<noteq> []) (map_of counter (path_key resolve (last captures))) entry = Inr e"
    by blast
  moreover from rmapM_set [OF raw entry(1)] obtain p le where "capture_entry errors_of fs system p le = Inr entry"
    by (auto simp: rbind_eq_Inr)
  ultimately show ?thesis using counter by blast
qed

lemma build_ledger_entries:
  assumes "build_ledger resolve errors_of fs system captures lo = Inr ledger"
  obtains shape_reports entries where
    "ledger_entries resolve errors_of fs system captures lo shape_reports = Inr entries"
    "dget ledger ''entries'' = PList (map PDict entries)" "dict_wf ledger"
  using assms unfolding build_ledger_def rbind_eq_Inr
  by (elim exE conjE) (rule that, auto simp: dget_def dict_wf_def)

lemma build_ledger_member:
  assumes "build_ledger resolve errors_of fs system captures lo = Inr ledger"
    and "PDict e \<in> set (elems_of (dget ledger ''entries''))"
  shows "\<exists>p le entry keys counter. capture_entry errors_of fs system p le = Inr entry
    \<and> load_counter_entries resolve fs (lo_counters lo) = Inr counter
    \<and> finish_entry keys (lo_counters lo \<noteq> []) (map_of counter (path_key resolve (last captures))) entry = Inr e"
proof -
  from assms(1) obtain shape_reports entries where
    entries: "ledger_entries resolve errors_of fs system captures lo shape_reports = Inr entries"
    and "dget ledger ''entries'' = PList (map PDict entries)" by (rule build_ledger_entries)
  with assms(2) have "e \<in> set entries" by auto
  with ledger_entries_members [OF entries] show ?thesis by blast
qed

lemma member_unblocked:
  assumes "build_ledger resolve errors_of fs system captures lo = Inr ledger"
    and "PDict e \<in> set (elems_of (dget ledger ''entries''))" and "blockers_of e = []"
  shows "dict_wf e \<and> well_evidenced e \<and> clears_noise e"
proof -
  from build_ledger_member [OF assms(1, 2)] obtain p le entry keys counter where
    entry: "capture_entry errors_of fs system p le = Inr entry"
    and fin: "finish_entry keys (lo_counters lo \<noteq> []) (map_of counter (path_key resolve (last captures))) entry = Inr e"
    by blast
  have "blockers_of entry = []" using finish_entry_facts(1) [OF fin assms(3)] .
  note ok = capture_entry_unblocked [OF entry this]
  have "dict_wf entry" using entry by (rule capture_entry_obtain) (simp add: ledger_entry_fields)
  with ok finish_entry_facts(4) [OF fin] show ?thesis
    by (simp add: well_evidenced_def clears_noise_def finish_entry_facts(3) [OF fin])
qed


text \<open>
  Every entry of a ledger is given the counter evidence of the last capture, whatever its own capture is:
  the loop that attaches it looks the evidence up under the variable of an earlier loop.
\<close>

theorem counters_of_last_capture:
  assumes "build_ledger resolve errors_of fs system captures lo = Inr ledger"
    and "PDict e \<in> set (elems_of (dget ledger ''entries''))"
  shows "\<exists>counter. load_counter_entries resolve fs (lo_counters lo) = Inr counter
    \<and> dget e ''counter_resource_summary''
      = counter_resource_summary (map_of counter (path_key resolve (last captures)))"
proof -
  from build_ledger_member [OF assms] obtain entry keys counter where
    "load_counter_entries resolve fs (lo_counters lo) = Inr counter"
    and fin: "finish_entry keys (lo_counters lo \<noteq> []) (map_of counter (path_key resolve (last captures))) entry = Inr e"
    by blast
  have "dget e ''counter_resource_summary''
      = counter_resource_summary (map_of counter (path_key resolve (last captures)))"
    using fin by (rule finish_entry_facts)
  with \<open>load_counter_entries resolve fs (lo_counters lo) = Inr counter\<close> show ?thesis by blast
qed

section \<open>From the ledger to the cache\<close>

lemma json_sorted_num: "isinstance_num v \<Longrightarrow> json_sorted v = v"
  by (cases v) simp_all

lemma json_sorted_eq_scalar:
  "json_sorted v = PStr s \<longleftrightarrow> v = PStr s" "json_sorted v = PBool b \<longleftrightarrow> v = PBool b"
  "json_sorted v = PList [] \<longleftrightarrow> v = PList []"
  by (cases v; simp)+

lemma truthy_sorted: "truthy (json_sorted v) \<longleftrightarrow> truthy v"
  by (cases v) (simp_all, metis length_0_conv length_map length_sort)

lemma val_compare_sorted [simp]:
  "val_lt (json_sorted v) w \<longleftrightarrow> val_lt v w" "val_le (json_sorted v) (json_sorted w) \<longleftrightarrow> val_le v w"
  by (cases v; cases w; simp add: val_lt_def val_le_def)+

lemma evidence_sorted:
  assumes "dict_wf e"
  shows "well_evidenced (sorted_dict e) \<longleftrightarrow> well_evidenced e" "clears_noise (sorted_dict e) \<longleftrightarrow> clears_noise e"
  using assms
  by (simp_all add: well_evidenced_def clears_noise_def dget_sorted_dict truthy_sorted json_sorted_eq_scalar)

lemma ledger_row_adds:
  assumes "ledger_row p d iv = Inr d'"
  shows "\<exists>r. snd iv = PDict r \<and> d' = dict_set (str_of (dget r ''autotune_key'')) r d"
  using assms by (cases iv) (auto simp: ledger_row_def Let_def res_simps cache_check_def is_dict_iff vget_def)

lemma dict_set_subset: "p \<in> set (dict_set k v d) \<Longrightarrow> p = (k, v) \<or> p \<in> set d"
  by (induction d) (auto split: if_splits)

lemma read_promotion_ledger_member:
  assumes "read_promotion_ledger fs p = Inr rows" "fs p = Parsed v" "(k, row) \<in> set rows"
  shows "PDict row \<in> set (elems_of (vget v ''entries'')) \<and> str_of (dget row ''autotune_key'') = k"
proof -
  let ?vs = "elems_of (vget v ''entries'')"
  let ?I = "\<lambda>d. \<forall>q\<in>set d. PDict (snd q) \<in> set ?vs \<and> str_of (dget (snd q) ''autotune_key'') = fst q"
  have "rfoldM (ledger_row p) [] (indexed ?vs) = Inr rows"
    using assms(1, 2) by (auto simp: read_promotion_ledger_def Let_def res_simps)
  then have "?I rows"
  proof (rule rfoldM_invariant)
    fix d iv d' assume d: "?I d" and iv: "iv \<in> set (indexed ?vs)" and "ledger_row p d iv = Inr d'"
    from ledger_row_adds [OF this(3)] obtain r where
      r: "snd iv = PDict r" "d' = dict_set (str_of (dget r ''autotune_key'')) r d" by blast
    from snd_indexed [OF iv] r(1) have "PDict r \<in> set ?vs" by simp
    with d show "?I d'" unfolding r(2) by (auto dest!: dict_set_subset)
  qed simp
  with assms(3) show ?thesis by force
qed

lemma collect_ledgers_member:
  assumes "collect_ledgers fs paths = Inr ledgers" "map_of ledgers k = Some row"
  shows "\<exists>p\<in>set paths. \<exists>rows. read_promotion_ledger fs p = Inr rows \<and> (k, row) \<in> set rows"
proof -
  let ?I = "\<lambda>d. \<forall>k row. map_of d k = Some row \<longrightarrow>
     (\<exists>p\<in>set paths. \<exists>rows. read_promotion_ledger fs p = Inr rows \<and> (k, row) \<in> set rows)"
  have "?I ledgers"
    using assms(1) unfolding collect_ledgers_def
  proof (rule rfoldM_invariant)
    fix d p d' assume d: "?I d" and p: "p \<in> set paths"
      and "rbind (read_promotion_ledger fs p) (\<lambda>rows. rfoldM (add_ledger_entry p) d rows) = Inr d'"
    then obtain rows where rows: "read_promotion_ledger fs p = Inr rows" and "rfoldM (add_ledger_entry p) d rows = Inr d'"
      by (auto simp: rbind_eq_Inr)
    from this(2) d show "?I d'"
    proof (rule rfoldM_invariant)
      fix d x d' assume "?I d" "x \<in> set rows" "add_ledger_entry p d x = Inr d'"
      with p rows show "?I d'"
        by (cases x) (auto simp: add_ledger_entry_def res_simps cache_check_def split: if_splits; blast)
    qed
  qed simp
  with assms(2) show ?thesis by blast
qed

text \<open>A ledger file as the ledger tool writes it.\<close>

definition written_ledger :: "json_file \<Rightarrow> bool" where
  "written_ledger f \<longleftrightarrow> (\<exists>resolve errors_of fs system captures lo ledger.
     build_ledger resolve errors_of fs system captures lo = Inr ledger \<and> f = Parsed (json_sorted (PDict ledger)))"

lemma member_wf:
  assumes "build_ledger resolve errors_of fs system captures lo = Inr ledger"
    and "PDict e \<in> set (elems_of (dget ledger ''entries''))"
  shows "dict_wf e"
proof -
  from build_ledger_member [OF assms] obtain p le entry keys counter where
    entry: "capture_entry errors_of fs system p le = Inr entry"
    and fin: "finish_entry keys (lo_counters lo \<noteq> []) (map_of counter (path_key resolve (last captures))) entry = Inr e"
    by blast
  have "dict_wf entry" using entry by (rule capture_entry_obtain) (simp add: ledger_entry_fields)
  with finish_entry_facts(4) [OF fin] show ?thesis .
qed

lemma written_ledger_row:
  assumes "written_ledger (fs p)" "read_promotion_ledger fs p = Inr rows" "(k, row) \<in> set rows"
    and "dget row ''promotion_blockers'' = PList []"
  shows "str_of (dget row ''autotune_key'') = k \<and> well_evidenced row \<and> clears_noise row"
proof -
  from assms(1) obtain resolve errors_of gs system captures lo ledger where
    built: "build_ledger resolve errors_of gs system captures lo = Inr ledger"
    and content: "fs p = Parsed (json_sorted (PDict ledger))" unfolding written_ledger_def by blast
  from built obtain entries where entries: "dget ledger ''entries'' = PList (map PDict entries)" and wf: "dict_wf ledger"
    by (rule build_ledger_entries)
  note row = read_promotion_ledger_member [OF assms(2) content assms(3)]
  have "vget (json_sorted (PDict ledger)) ''entries'' = PList (map (PDict \<circ> sorted_dict) entries)"
    by (simp only: vget_def json_sorted_PDict items_of.simps dget_sorted_dict [OF wf] entries)
       (simp add: sorted_dict_def)
  with row obtain e where e: "e \<in> set entries" "row = sorted_dict e" by auto
  then have mem: "PDict e \<in> set (elems_of (dget ledger ''entries''))" by (simp add: entries)
  have "dict_wf e" using built mem by (rule member_wf)
  then have "blockers_of e = []"
    using assms(4) by (simp add: e(2) dget_sorted_dict json_sorted_eq_scalar blockers_of_def)
  with member_unblocked [OF built mem] row show ?thesis by (simp add: e(2) evidence_sorted)
qed


section \<open>A ledger\<close>

definition ledger_capture :: pydict where
  "ledger_capture =
     [(''schema_version'', PInt 4), (''backend_selected'', PStr ''hipblaslt''),
      (''selected_kernel'', dget example_entry ''selected_kernel''), (''semantics'', PStr ''bounded_i64''),
      (''m'', PInt 64), (''n'', PInt 64), (''k'', PInt 64),
      (''target_variant'', PDict [(''target_id'', PStr ''gfx1100'')]),
      (''backend_metadata'', PDict [(''autotune_key'', dget example_entry ''key''), (''performance_validated'', PBool True)]),
      (''comparison_baseline'', PDict [(''status'', PStr ''reviewed_release_same_contract_baseline''),
         (''speedup_vs_baseline_median_end_to_end'', PInt 2)]),
      (''raw_timings_us'', PDict [(''end_to_end'', PList (replicate 9 (PInt 100)))]),
      (''timing_summary_us'', PDict [(''end_to_end'', PDict [(''median'', PInt 100), (''p95'', PInt 100)])])]"

text \<open>The files around a variance report.\<close>

definition ledger_files_with :: "pydict \<Rightarrow> files" where
  "ledger_files_with variance p =
     (if p = path_of ''capture.json'' then Parsed (PDict ledger_capture)
      else if p = path_of ''variance.json'' then Parsed (PDict variance)
      else if p = path_of ''candidate.json'' then Parsed (PDict [(''entries'', PList [PDict example_entry])])
      else Missing)"

definition variance_row :: pydict where
  "variance_row = [(''capture_key'', PStr ''capture.json''), (''promotion_ready'', PBool True),
     (''required_speedup_margin'', PInt 1)]"

definition ledger_files :: files where
  "ledger_files = ledger_files_with [(''entries'', PList [PDict variance_row])]"

definition ledger_opts :: ledger_options where
  "ledger_opts = \<lparr>lo_cache = Some (path_of ''candidate.json''), lo_reviews = [],
     lo_variances = [path_of ''variance.json''], lo_targets = [], lo_shapes = [], lo_counters = [],
     lo_require_variance = True\<rparr>"

lemma ledger_capture_loads: "load_valid no_errors (ledger_files_with v) (path_of ''capture.json'') = Inr ledger_capture"
  by (simp add: load_valid_def load_capture_def ledger_files_with_def validate_capture_def no_errors_def
      schema_version_def) (simp add: ledger_capture_def is_int_value_def)

lemma capture_target_total:
  assumes "load_valid errors_of fs p = Inr c" "is_dict (dget_or c ''comparison_baseline'' (PDict []))"
    "optional_topology_fields (dict_update (dict_update (capture_device c) (dict_or_empty (dget c ''target_variant'')))
       (dict_or_empty (dget c ''runtime_environment''))) = Inr t"
  shows "\<exists>row. capture_target errors_of fs system p = Inr row"
proof -
  have "\<exists>e. cache_eligibility_from_capture c family os = Inr e" for family os
    using assms(2) by (auto simp: cache_eligibility_from_capture_def is_dict_iff Let_def)
  then show ?thesis
    using assms(1, 3) unfolding capture_target_def capture_target_row_def Let_def by (simp add: rbind_eq_Inr)
qed

lemma ledger_capture_target:
  "\<exists>row. capture_target no_errors (ledger_files_with v) ''Linux'' (path_of ''capture.json'') = Inr row"
proof -
  have "returns (optional_topology_fields (dict_update (dict_update (capture_device ledger_capture)
      (dict_or_empty (dget ledger_capture ''target_variant''))) (dict_or_empty (dget ledger_capture ''runtime_environment''))))"
    by code_simp
  then obtain t where "optional_topology_fields (dict_update (dict_update (capture_device ledger_capture)
      (dict_or_empty (dget ledger_capture ''target_variant''))) (dict_or_empty (dget ledger_capture ''runtime_environment'')))
     = Inr t" by (auto simp: returns_iff)
  moreover have "is_dict (dget_or ledger_capture ''comparison_baseline'' (PDict []))" by code_simp
  ultimately show ?thesis using capture_target_total [OF ledger_capture_loads] by blast
qed

definition ledger_va :: variance_evidence where
  "ledger_va = \<lparr>va_blockers = [], va_ready = PBool True, va_margin = PInt 1, va_noise = PNone\<rparr>"

definition ledger_rv :: review_evidence where
  "ledger_rv = \<lparr>rv_blockers = [], rv_promotable = False, rv_speedup = PNone\<rparr>"

lemma ledger_speedup: "entry_speedup ledger_rv (dict_or_empty (dget ledger_capture ''comparison_baseline'')) = PInt 2"
  by (simp add: entry_speedup_def ledger_rv_def ledger_capture_def dget_def dict_or_empty_def)

lemma ledger_capture_blockers:
  assumes "va_blockers va = []" "te_blockers te = []"
  shows "capture_blockers le ledger_capture ledger_rv va te = Inr []"
proof -
  have "speedup_blockers (PInt 2) = []"
    by (simp add: speedup_blockers_def MIN_SPEEDUP_MARGIN_code val_lt_def)
  moreover have "concat (map (feature_blockers ledger_capture) FEATURE_OBJECTS) = []"
    "tile_blockers ledger_capture = Inr []" "arena_blockers ledger_capture = Inr []"
    "truthy (dget (capture_backend_metadata ledger_capture) ''autotune_key'')"
    "is_True (dget (capture_backend_metadata ledger_capture) ''performance_validated'')"
    "eq_str (dget (dict_or_empty (dget ledger_capture ''comparison_baseline'')) ''status'')
       ''reviewed_release_same_contract_baseline''"
    "cache_scope_of (named_variant (dict_or_empty (dget ledger_capture ''export_variant'')) ''default'')
       (named_variant (dict_or_empty (dget ledger_capture ''reconstruction_variant'')) ''default_garner'')
     = ''runtime_exact_autotune''"
    by code_simp+
  ultimately show ?thesis
    using assms by (simp add: capture_blockers_def Let_def ledger_speedup) (simp add: ledger_rv_def)
qed

lemma ledger_evidence_loads:
  "load_review_entries id (ledger_files_with v) [] = Inr []" "load_target_validation_groups (ledger_files_with v) [] = Inr []"
  "load_counter_entries id (ledger_files_with v) [] = Inr []"
  "recommendations_for (ledger_files_with v) [] (path_of ''capture.json'') = Inr []"
  "load_cache_entries (ledger_files_with v) (Some (path_of ''candidate.json'')) = Inr [example_entry]"
  "path_key id (path_of ''capture.json'') = ''capture.json''"
  by code_simp+

lemma ledger_capture_entry:
  assumes va: "\<And>gate. read_variance gate (PInt 2) (le_variance le) = Inr va" "va_blockers va = []"
    and "le_review le = None" "le_target le = None" "\<not> le_target_supplied le"
    "le_recommendations le = []"
  shows "\<exists>target_row class0 te. capture_entry no_errors (ledger_files_with v) ''Linux'' (path_of ''capture.json'') le
     = Inr (ledger_entry (path_of ''capture.json'') ledger_capture target_row le ledger_rv va te [] [] class0)"
proof -
  obtain row where row: "capture_target no_errors (ledger_files_with v) ''Linux'' (path_of ''capture.json'') = Inr row"
    using ledger_capture_target by blast
  have rv: "read_review None = Inr ledger_rv" by (simp add: read_review_def ledger_rv_def)
  obtain te where te: "read_target_gate False None = Inr te" "te_blockers te = []"
    by (simp add: read_target_gate_def)
  have "returns (backend_class (dget ledger_capture ''backend_selected''))" by code_simp
  then obtain class0 where "backend_class (dget ledger_capture ''backend_selected'') = Inr class0"
    by (auto simp: returns_iff)
  with assms row rv te ledger_capture_blockers [OF va(2) te(2)] show ?thesis
    by (simp add: capture_entry_def ledger_capture_loads ledger_speedup) blast
qed

lemma ledger_example_with:
  assumes loads: "load_variance_entries id (ledger_files_with v) [path_of ''variance.json''] = Inr [(''capture.json'', vrow)]"
    and va: "\<And>gate. read_variance gate (PInt 2) (Some vrow) = Inr va" "va_blockers va = []" "va_ready va = PBool True"
  obtains ledger e where
    "build_ledger id no_errors (ledger_files_with v) ''Linux'' [path_of ''capture.json''] ledger_opts = Inr ledger"
    "dget ledger ''entries'' = PList [PDict e]" "dget e ''promotion_blockers'' = PList []"
    "dget e ''autotune_key'' = dget example_entry ''key''" "dget e ''performance_validated'' = PBool True"
    "dget e ''variance_gate_available'' = PBool True" "dget e ''variance_gate_ready'' = PBool True"
proof -
  let ?p = "path_of ''capture.json''"
  obtain row where row: "capture_target no_errors (ledger_files_with v) ''Linux'' ?p = Inr row"
    using ledger_capture_target by blast
  let ?le = "evidence_for id ledger_opts [] [(''capture.json'', vrow)] [] [(''capture.json'', [])] ?p row"
  have "\<exists>target_row class0 te. capture_entry no_errors (ledger_files_with v) ''Linux'' ?p ?le
     = Inr (ledger_entry ?p ledger_capture target_row ?le ledger_rv va te [] [] class0)"
    by (rule ledger_capture_entry) (simp_all add: evidence_for_def ledger_evidence_loads ledger_opts_def va)
  then obtain target_row class0 te where
    entry: "capture_entry no_errors (ledger_files_with v) ''Linux'' ?p ?le
     = Inr (ledger_entry ?p ledger_capture target_row ?le ledger_rv va te [] [] class0)" by blast
  let ?e = "ledger_entry ?p ledger_capture target_row ?le ledger_rv va te [] [] class0"
  have key: "dget ledger_capture ''backend_metadata'' = PDict [(''autotune_key'', dget example_entry ''key''),
      (''performance_validated'', PBool True)]" "dget example_entry ''key'' = PStr (entry_key example_entry)"
      "entry_key example_entry \<noteq> []" by code_simp+
  then have fields: "dget ?e ''autotune_key'' = PStr (entry_key example_entry)"
      "dget ?e ''performance_validated'' = PBool True" "dget ?e ''variance_gate_available'' = PBool True"
      "dget ?e ''variance_gate_ready'' = PBool True" "blockers_of ?e = []"
    by (simp_all add: ledger_entry_fields capture_backend_metadata_def dict_or_empty_def evidence_for_def
        ledger_evidence_loads va blockers_of_def str_list_def is_True_def) (simp_all add: dget_def is_True_def)
  have "in_str_set (PStr (entry_key example_entry)) [entry_key example_entry] = Inr True"
    by (simp add: in_str_set_def)
  then obtain e where e: "finish_entry [entry_key example_entry] False None ?e = Inr e"
      "dget e ''promotion_blockers'' = PList []"
    using fields key(3) by (auto simp: finish_entry_def Let_def str_list_def)
  note same = finish_entry_facts(3) [OF e(1)]
  have empty: "shape_family_recommendation_index [] = Inr []" "from_reports (ledger_files_with v) f [] = Inr []" for f
    by (simp_all add: shape_family_recommendation_index_def group_on_def from_reports_def)
  have "ledger_entries id no_errors (ledger_files_with v) ''Linux'' [?p] ledger_opts [] = Inr [e]"
    using row entry e(1) key(2)
    by (simp add: ledger_entries_def empty ledger_evidence_loads) (simp add: ledger_opts_def ledger_evidence_loads loads)
  then obtain ledger where ledger: "build_ledger id no_errors (ledger_files_with v) ''Linux'' [?p] ledger_opts = Inr ledger"
      "dget ledger ''entries'' = PList [PDict e]"
    by (simp add: build_ledger_def load_shape_family_shadow_reports_def ledger_opts_def empty
        ledger_evidence_loads loads shape_family_shadow_summary_def dget_def)
  from that [OF ledger e(2)] fields key(2) show thesis by (simp add: same)
qed

lemma ledger_example:
  obtains ledger e where
    "build_ledger id no_errors ledger_files ''Linux'' [path_of ''capture.json''] ledger_opts = Inr ledger"
    "dget ledger ''entries'' = PList [PDict e]" "dget e ''promotion_blockers'' = PList []"
    "dget e ''autotune_key'' = dget example_entry ''key''" "dget e ''performance_validated'' = PBool True"
    "dget e ''variance_gate_available'' = PBool True" "dget e ''variance_gate_ready'' = PBool True"
proof -
  have loads: "load_variance_entries id ledger_files [path_of ''variance.json''] = Inr [(''capture.json'', variance_row)]"
    by code_simp
  have va: "read_variance gate (PInt 2) (Some variance_row) = Inr ledger_va" for gate
    by (simp add: read_variance_def variance_row_def ledger_va_def texts_under_def dget_def dget_or_def py_iter_def
        val_le_def flt_le_def flt_eq_def is_True_def)
  show thesis
  proof (rule ledger_example_with [OF loads [unfolded ledger_files_def] va])
    show "va_blockers ledger_va = []" "va_ready ledger_va = PBool True" by (simp_all add: ledger_va_def)
  qed (rule that [unfolded ledger_files_def])
qed


theorem counters_of_last_capture_witness:
  "\<exists>ledger e counter. build_ledger id no_errors ledger_files ''Linux'' [path_of ''capture.json''] ledger_opts = Inr ledger
    \<and> PDict e \<in> set (elems_of (dget ledger ''entries''))
    \<and> dget e ''counter_resource_summary'' = counter_resource_summary (map_of counter ''capture.json'')"
proof -
  obtain ledger e where ex:
    "build_ledger id no_errors ledger_files ''Linux'' [path_of ''capture.json''] ledger_opts = Inr ledger"
    "dget ledger ''entries'' = PList [PDict e]"
    by (rule ledger_example)
  then have "PDict e \<in> set (elems_of (dget ledger ''entries''))" by simp
  moreover have "path_key id (last [path_of ''capture.json'']) = ''capture.json''" by code_simp
  ultimately show ?thesis using counters_of_last_capture [OF ex(1)] ex(1) by metis
qed

lemma install_cache_runs:
  assumes "read_existing fs destination opts = Inr existing" "read_sources fs sources = Inr read"
    "check_gates fs (concat (map snd read)) opts = Inr ()" "\<And>e. e \<in> set (concat (map snd read)) \<Longrightarrow> cached e"
    "merged = foldl add_by_key (by_key existing) (concat (map snd read))"
  shows "\<exists>history coverage. install_cache sources destination opts fs = Inr
    (install_report sources destination opts existing (concat (map snd read)) merged history coverage,
     if io_dry_run opts then fs else write_cache destination (merged_in_order merged) fs)"
proof -
  obtain mh where mh:
    "rfoldM (merge_entry opts (source_of_keys read)) (by_key existing, []) (concat (map snd read)) = Inr mh"
    using merge_total [OF assms(4)] by blast
  obtain coverage where "cache_coverage_summary (merged_in_order (fst mh)) = Inr coverage"
    using cache_coverage_total by blast
  with mh merge_fst [OF mh] assms show ?thesis by (auto simp: install_cache_def Let_def)
qed

definition evidence_files :: "pydict \<Rightarrow> files" where
  "evidence_files ledger = example_files(path_of ''ledger.json'' := Parsed (json_sorted (PDict ledger)))"




end
