(* ===== verification/Review_Rules.thy ===== *)
theory Review_Rules
  imports Capture_Metadata Py_Ops
begin

text \<open>
  The rules of \<open>tools/benchmark_sweep_lib/review.py\<close> that look at one capture: which baselines its
  semantics needs, and what its metadata lacks for a promotion (routes, kernels, operand contracts,
  exports). A rule returns the blockers it adds, in the code's order, or the exception that a value of
  another type raises on the way.
\<close>

section \<open>Constants\<close>

definition BOUNDED_SEMANTIC_IDS :: "string list" where
  "BOUNDED_SEMANTIC_IDS = [''bounded_i64'', ''bounded_u64'']"

definition FINITE_U8_SEMANTIC_IDS :: "string list" where
  "FINITE_U8_SEMANTIC_IDS = [''finite_ring_u8'', ''finite_field_u8'']"

definition EXACT_WIDE_SEMANTIC_IDS :: "string list" where
  "EXACT_WIDE_SEMANTIC_IDS = [''exact_wide_signed'', ''exact_wide_unsigned'']"

definition REUSE_EVIDENCE_PROMOTION_SCOPES :: "string list" where
  "REUSE_EVIDENCE_PROMOTION_SCOPES = [''explicit_reuse_contract_only'', ''reuse_contract_evidence_only'']"

definition GRAPH_EVIDENCE_PROMOTION_SCOPES :: "string list" where
  "GRAPH_EVIDENCE_PROMOTION_SCOPES = [''hip_graph_replay_evidence_only'']"

definition CORRECTNESS_ANCHOR_REFERENCE_BACKENDS :: "string list" where
  "CORRECTNESS_ANCHOR_REFERENCE_BACKENDS = [''cpu-reference'', ''wrap64-byte-limb'']"

definition REUSE_PACK_MODES :: "string list" where
  "REUSE_PACK_MODES = [''prepacked_reuse'', ''prepacked_reuse_a'', ''prepacked_reuse_b'']"

definition GRAPH_REPLAY_EXECUTION_MODES :: "string list" where
  "GRAPH_REPLAY_EXECUTION_MODES =
     [''hip_graph_replay_resident_rns_chain'', ''hip_graph_replay_bounded_pack_gemm_export'',
      ''hip_graph_replay_finite_u8_pack_gemm_export'', ''hip_graph_replay_exact_wide_pack_gemm_export'',
      ''hip_graph_replay_wrap64_pack_gemm_export'']"

definition AMDGPU_BUILTIN_MATRIX_FAMILIES :: "string list" where
  "AMDGPU_BUILTIN_MATRIX_FAMILIES = [''mfma'', ''smfmac'', ''wmma'', ''swmmac'']"

definition FINAL_OUTPUT_EXPORT_SEMANTICS :: "string list" where
  "FINAL_OUTPUT_EXPORT_SEMANTICS = [''bounded_i64'', ''bounded_u64'', ''exact_wide_signed'', ''exact_wide_unsigned'']"

definition ROUTE_METADATA_BLOCKERS :: "string list" where
  "ROUTE_METADATA_BLOCKERS =
     [''missing_direct_hip_skinny_gemv_kernel_identity'', ''missing_direct_hip_skinny_gemv_execution_mode'',
      ''missing_vector_alu_skinny_gemv_kernel_identity'', ''missing_vector_alu_skinny_gemv_execution_mode'',
      ''missing_skinny_gemv_gpu_event_phase'', ''missing_native_to_rns_bridge_forced_metadata'',
      ''missing_native_to_rns_handoff_scope'', ''missing_native_to_rns_phase_availability'',
      ''missing_vector_to_rns_chain_metadata'', ''vector_to_rns_chain_control_mode_mismatch'',
      ''missing_vector_to_rns_chain_producer_backend'', ''missing_vector_to_rns_chain_consumer_backend'',
      ''missing_vector_to_rns_chain_phase_scope'', ''missing_sparse_a_4_to_2_scenario_contract'',
      ''sparse_a_k_not_divisible_by_4'', ''missing_sparse_a_4_to_2_input_distribution'',
      ''missing_sparse_a_runtime_kernel_identity'', ''dense_sparse_a_baseline_used_sparse_kernel'',
      ''missing_sparse_a_matrix_instruction_sparsity'', ''missing_sparse_a_matrix_instruction_family'',
      ''missing_amdgpu_builtin_operand_signedness_contract'', ''missing_amdgpu_builtin_a_value_contract'',
      ''missing_amdgpu_builtin_b_value_contract'', ''missing_sparse_a_contract_metadata'',
      ''missing_sparse_a_dense_b_contract'', ''missing_sparse_a_compression_index_layout'',
      ''missing_rdna_integer_modifier_policy'', ''missing_sparse_a_4_to_2_autotune_contract'',
      ''amdgpu_builtin_selected_kernel_semantic_target_mismatch'',
      ''amdgpu_builtin_tile_variant_kernel_mismatch'', ''amdgpu_builtin_tile_variant_family_mismatch'',
      ''amdgpu_builtin_tile_variant_shape_mismatch'', ''amdgpu_builtin_tile_variant_dtype_mismatch'']"

definition NATIVE_TO_RNS_EXECUTION_MODES :: "string list" where
  "NATIVE_TO_RNS_EXECUTION_MODES =
     [''auto_native_to_rns_bridge'', ''vector_native_to_direct_rns_chain'',
      ''vector_native_host_export_repack_direct_rns_chain'']"

section \<open>Lists of blockers\<close>

text \<open>\<open>if c: blockers.append(b)\<close>, and the blockers of several rules one after the other.\<close>

definition block_if :: "bool \<Rightarrow> string \<Rightarrow> string list" where
  "block_if c b = (if c then [b] else [])"

definition block_if_not :: "bool res \<Rightarrow> string \<Rightarrow> string list res" where
  "block_if_not c b = rbind c (\<lambda>ok. Inr (block_if (\<not> ok) b))"

definition rconcat :: "'a list res list \<Rightarrow> 'a list res" where
  "rconcat ms = rbind (rmapM (\<lambda>m. m) ms) (\<lambda>xss. Inr (concat xss))"

lemma block_if_Nil [simp]: "block_if c b = [] \<longleftrightarrow> \<not> c"
  by (simp add: block_if_def)

lemma set_block_if [simp]: "x \<in> set (block_if c b) \<longleftrightarrow> c \<and> x = b"
  by (auto simp: block_if_def)

lemma rconcat_Nil [simp]: "rconcat [] = Inr []"
  by (simp add: rconcat_def)

lemma rconcat_Cons [simp]: "rconcat (m # ms) = rbind m (\<lambda>xs. rbind (rconcat ms) (\<lambda>ys. Inr (xs @ ys)))"
  by (simp add: rconcat_def rbind_def split: sum.splits)

text \<open>\<open>v == s\<close> where \<open>s\<close> is a string or \<open>None\<close>.\<close>

definition eq_opt :: "pyval \<Rightarrow> string option \<Rightarrow> bool" where
  "eq_opt v s = (case s of None \<Rightarrow> is_None v | Some t \<Rightarrow> eq_str v t)"

section \<open>Baselines\<close>

definition required_baselines :: "pyval \<Rightarrow> string list res" where
  "required_baselines semantics =
     rbind (in_str_set semantics BOUNDED_SEMANTIC_IDS) (\<lambda>bounded_sem.
     if bounded_sem then Inr [''cpu-reference'', ''hip-direct'', ''hip-vector-alu-int64'']
     else rbind (in_str_set semantics FINITE_U8_SEMANTIC_IDS) (\<lambda>finite_sem.
     if finite_sem then Inr [''cpu-reference'', ''hip-direct'']
     else rbind (in_str_set semantics EXACT_WIDE_SEMANTIC_IDS) (\<lambda>wide.
     if wide then Inr [''cpu-reference'', ''hip-direct'']
     else if eq_str semantics ''wrap_u64_mod_2_64'' then Inr [''wrap64-byte-limb'', ''hip-direct'']
     else Inr [])))"

definition residue_chain_group :: "pydict list \<Rightarrow> bool" where
  "residue_chain_group items \<longleftrightarrow>
     list_ex (\<lambda>item. let v = dget_or item ''residue_chain_length'' (PInt 1) in is_int_value v \<and> 1 < int_of v) items"

definition truthy_int :: "pyval \<Rightarrow> bool" where
  "truthy_int v \<longleftrightarrow> is_int_value v \<and> 0 < int_of v"

definition autotune_key_has_all :: "pydict \<Rightarrow> string list \<Rightarrow> bool" where
  "autotune_key_has_all meta tokens \<longleftrightarrow>
     (case dget meta ''autotune_key'' of PStr key \<Rightarrow> list_all (\<lambda>t. contains t key) tokens | _ \<Rightarrow> False)"

section \<open>Matrix instructions of the builtin backend\<close>

definition requires_amdgpu_builtin_matrix_isa_proof :: "string \<Rightarrow> pydict \<Rightarrow> bool" where
  "requires_amdgpu_builtin_matrix_isa_proof backend_family meta \<longleftrightarrow>
     (let family = dget meta ''matrix_instruction_family'' in
      backend_family = ''amdgpu-builtins'' \<and> is_str family \<and> str_of family \<in> set AMDGPU_BUILTIN_MATRIX_FAMILIES)"

text \<open>\<open>str(selected_kernel(capture) or metadata.get("selected_kernel") or "")\<close>.\<close>

definition kernel_name :: "pydict \<Rightarrow> pydict \<Rightarrow> string" where
  "kernel_name capture meta =
     (if selected_kernel capture \<noteq> [] then selected_kernel capture
      else py_str (py_or (dget meta ''selected_kernel'') (PStr [])))"

definition KERNEL_TOKENS :: "(string \<times> string) list" where
  "KERNEL_TOKENS =
     [(''smfmac_i32_32x32x32_i8'', ''v_smfmac_i32_32x32x32_i8''), (''smfmac_i32_16x16x64_i8'', ''v_smfmac_i32_16x16x64_i8''),
      (''mfma_i32_32x32x16_i8'', ''v_mfma_i32_32x32x16_i8''), (''mfma_i32_16x16x32_i8'', ''v_mfma_i32_16x16x32_i8''),
      (''swmmac_i32_16x16x32_iu4'', ''v_swmmac_i32_16x16x32_iu4''), (''swmmac_i32_16x16x32_iu8'', ''v_swmmac_i32_16x16x32_iu8''),
      (''wmma_i32_16x16x16_iu4'', ''v_wmma_i32_16x16x16_iu4''), (''wmma_i32_16x16x16_iu8'', ''v_wmma_i32_16x16x16_iu8'')]"

definition expected_amdgpu_builtin_matrix_mnemonic :: "pydict \<Rightarrow> pydict \<Rightarrow> string option" where
  "expected_amdgpu_builtin_matrix_mnemonic capture meta =
     (case find (\<lambda>tm. contains (fst tm) (kernel_name capture meta)) KERNEL_TOKENS of
        Some tm \<Rightarrow> Some (snd tm)
      | None \<Rightarrow>
          (let family = dget meta ''matrix_instruction_family'';
               shape = dget meta ''matrix_instruction_shape'';
               dtype = dget meta ''matrix_instruction_dtype''
           in if is_str family \<and> str_of family \<in> set AMDGPU_BUILTIN_MATRIX_FAMILIES
                \<and> is_nonempty_str shape \<and> is_nonempty_str dtype
              then Some (''v_'' @ str_of family @ ''_i32_'' @ str_of shape @ ''_'' @ str_of dtype)
              else None))"

definition amdgpu_builtin_target_family :: "pydict \<Rightarrow> string option" where
  "amdgpu_builtin_target_family capture =
     (case dget (capture_device capture) ''gcn_arch'' of
        PStr target \<Rightarrow>
          if starts_with ''gfx942'' target then Some ''cdna3''
          else if starts_with ''gfx110'' target then Some ''rdna3''
          else if target \<in> {''gfx1200'', ''gfx1201''} then Some ''rdna4''
          else None
      | _ \<Rightarrow> None)"

definition capture_semantics_are_finite_u8 :: "pydict \<Rightarrow> bool res" where
  "capture_semantics_are_finite_u8 capture = in_str_set (dget capture ''semantics'') FINITE_U8_SEMANTIC_IDS"

definition allowed_kernels_of :: "string \<Rightarrow> bool \<Rightarrow> string list option" where
  "allowed_kernels_of target_family is_finite =
     (if target_family = ''cdna3'' then Some
        ((if is_finite
          then [''amdgpu_builtin_cdna3_mfma_i32_16x16x32_i8_finite_u8_epilogue_v1'',
                ''amdgpu_builtin_cdna3_mfma_i32_32x32x16_i8_finite_u8_epilogue_v1'']
          else [''amdgpu_builtin_cdna3_mfma_i32_16x16x32_i8_centered_epilogue_v1'',
                ''amdgpu_builtin_cdna3_mfma_i32_32x32x16_i8_centered_epilogue_v1''])
         @ [''amdgpu_builtin_cdna3_smfmac_i32_16x16x64_i8_sparse_a_v1'',
            ''amdgpu_builtin_cdna3_smfmac_i32_32x32x32_i8_sparse_a_v1''])
      else if target_family = ''rdna3'' then Some
        (if is_finite then [''amdgpu_builtin_rdna3_wmma_i32_16x16x16_iu8_finite_u8_epilogue_v1'']
         else [''amdgpu_builtin_rdna3_wmma_i32_16x16x16_iu8_centered_epilogue_v1''])
      else if target_family = ''rdna4'' then Some
        ((if is_finite then [''amdgpu_builtin_rdna4_wmma_i32_16x16x16_iu8_finite_u8_epilogue_v1'']
          else [''amdgpu_builtin_rdna4_wmma_i32_16x16x16_iu8_centered_epilogue_v1''])
         @ [''amdgpu_builtin_rdna4_swmmac_i32_16x16x32_iu8_sparse_a_v1''])
      else None)"

definition amdgpu_builtin_allowed_selected_kernels :: "pydict \<Rightarrow> string list option res" where
  "amdgpu_builtin_allowed_selected_kernels capture =
     (case amdgpu_builtin_target_family capture of
        None \<Rightarrow> Inr None
      | Some family \<Rightarrow> rbind (capture_semantics_are_finite_u8 capture) (\<lambda>is_finite.
          Inr (allowed_kernels_of family is_finite)))"

definition amdgpu_builtin_selected_kernel_blockers :: "pydict \<Rightarrow> string \<Rightarrow> pydict \<Rightarrow> string list res" where
  "amdgpu_builtin_selected_kernel_blockers capture backend_family meta =
     (let family = dget meta ''matrix_instruction_family'';
          mismatch = [''amdgpu_builtin_selected_kernel_semantic_target_mismatch'']
      in if backend_family \<noteq> ''amdgpu-builtins'' then Inr []
         else if \<not> is_str family \<or> str_of family \<notin> set AMDGPU_BUILTIN_MATRIX_FAMILIES then Inr []
         else rbind (amdgpu_builtin_allowed_selected_kernels capture) (\<lambda>allowed.
           Inr (case allowed of None \<Rightarrow> mismatch
                | Some names \<Rightarrow> if kernel_name capture meta \<in> set names then [] else mismatch)))"

definition amdgpu_matrix_operand_signedness :: "pydict \<Rightarrow> string option res" where
  "amdgpu_matrix_operand_signedness meta =
     (let dtype = dget meta ''matrix_instruction_dtype'' in
      rbind (in_str_set dtype [''i8'', ''iu8'']) (\<lambda>i8.
        Inr (if i8 then Some ''signed_i8x_signed_i8''
             else if eq_str dtype ''iu4'' then Some ''signed_i4x_signed_i4_research_only'' else None)))"

definition amdgpu_matrix_sparse_contract :: "pydict \<Rightarrow> string option" where
  "amdgpu_matrix_sparse_contract meta =
     (if eq_str (dget meta ''matrix_instruction_sparsity'') ''structured_4_2''
      then Some ''a_4_to_2_structured_k_v1'' else None)"

definition known_matrix_family :: "pydict \<Rightarrow> bool res" where
  "known_matrix_family meta =
     in_str_set (dget meta ''matrix_instruction_family'') AMDGPU_BUILTIN_MATRIX_FAMILIES"

definition amdgpu_matrix_a_value_contract :: "pydict \<Rightarrow> pydict \<Rightarrow> string option res" where
  "amdgpu_matrix_a_value_contract capture meta =
     rbind (known_matrix_family meta) (\<lambda>known.
     if \<not> known then Inr None
     else rbind (capture_semantics_are_finite_u8 capture) (\<lambda>is_finite. Inr (Some
       (if amdgpu_matrix_sparse_contract meta \<noteq> None
        then (if is_finite then ''unsigned_u8_public_values_centered_for_matrix_core''
              else ''signed_i8_centered_residue_planes'')
        else (if is_finite then ''dense_a_public_u8_centered_for_matrix_core''
              else ''dense_a_centered_i8_residue_planes'')))))"

definition amdgpu_matrix_b_value_contract :: "pydict \<Rightarrow> pydict \<Rightarrow> string option res" where
  "amdgpu_matrix_b_value_contract capture meta =
     rbind (known_matrix_family meta) (\<lambda>known.
     if \<not> known then Inr None
     else rbind (capture_semantics_are_finite_u8 capture) (\<lambda>is_finite. Inr (Some
       (if is_finite then ''dense_b_public_u8_centered_for_matrix_core''
        else ''dense_b_centered_i8_residue_planes''))))"

definition amdgpu_rdna_integer_modifier_policy :: "pydict \<Rightarrow> pyval res" where
  "amdgpu_rdna_integer_modifier_policy meta =
     rbind (in_str_set (dget meta ''matrix_instruction_family'') [''wmma'', ''swmmac'']) (\<lambda>rdna. Inr
       (if \<not> rdna then PNone
        else PDict [(''NEG[0]'', PStr ''A operand signedness: 0 unsigned, 1 signed''),
          (''NEG[1]'', PStr ''B operand signedness: 0 unsigned, 1 signed''),
          (''NEG[2]'', PStr ''must be zero for integer WMMA/SWMMAC''),
          (''NEG_HI'', PStr ''must be zero for integer WMMA/SWMMAC'')]))"

definition amdgpu_builtin_matrix_contract_blockers :: "pydict \<Rightarrow> string \<Rightarrow> pydict \<Rightarrow> string list res" where
  "amdgpu_builtin_matrix_contract_blockers capture backend_family meta =
     (if backend_family \<noteq> ''amdgpu-builtins'' then Inr []
      else rbind (known_matrix_family meta) (\<lambda>known.
      if \<not> known then Inr []
      else rconcat
        [rbind (amdgpu_matrix_operand_signedness meta) (\<lambda>v. Inr (block_if
           (\<not> eq_opt (dget meta ''matrix_operand_signedness'') v) ''missing_amdgpu_builtin_operand_signedness_contract'')),
         rbind (amdgpu_matrix_a_value_contract capture meta) (\<lambda>v. Inr (block_if
           (\<not> eq_opt (dget meta ''matrix_a_value_contract'') v) ''missing_amdgpu_builtin_a_value_contract'')),
         rbind (amdgpu_matrix_b_value_contract capture meta) (\<lambda>v. Inr (block_if
           (\<not> eq_opt (dget meta ''matrix_b_value_contract'') v) ''missing_amdgpu_builtin_b_value_contract'')),
         rbind (amdgpu_rdna_integer_modifier_policy meta) (\<lambda>v. Inr (block_if
           (\<not> py_eq (dget meta ''matrix_rdna_integer_modifier_policy'') v) ''missing_rdna_integer_modifier_policy''))]))"

section \<open>Exports\<close>

definition final_output_blockers :: "pyval \<Rightarrow> string list res" where
  "final_output_blockers v = (case v of
       PDict exact_output \<Rightarrow> rconcat
         [block_if_not (in_str_set (dget exact_output ''requested_final_output'')
            [''native_i64_u64_host'', ''exact_wide_limb_host'']) ''final_output_contract_not_host_output'',
          Inr (block_if (\<not> is_nonempty_str (dget exact_output ''kernel_identity''))
            ''missing_final_output_kernel_identity'')]
     | _ \<Rightarrow> Inr [''missing_final_output_contract_metadata''])"

definition none_or_unknown :: "pyval \<Rightarrow> bool res" where
  "none_or_unknown v = in_vals v [PNone, PStr ''unknown'']"

definition export_variant_blockers :: "pyval \<Rightarrow> string list res" where
  "export_variant_blockers v = (case v of
       PDict export_variant \<Rightarrow> rconcat
         [Inr (block_if (\<not> is_nonempty_str (dget export_variant ''selected_kernel'')) ''missing_export_kernel_identity''),
          Inr (block_if (\<not> eq_str (dget export_variant ''final_output_mode'') ''final_host_output'')
            ''export_variant_not_final_host_output''),
          rbind (none_or_unknown (dget export_variant ''output_layout'')) (\<lambda>bad.
            Inr (block_if bad ''missing_export_output_layout'')),
          rbind (none_or_unknown (dget export_variant ''d2h_policy'')) (\<lambda>bad.
            Inr (block_if bad ''missing_export_d2h_policy''))]
     | _ \<Rightarrow> Inr [''missing_export_variant_metadata''])"

definition reconstruction_variant_blockers :: "pyval \<Rightarrow> string list" where
  "reconstruction_variant_blockers v = (case v of
       PDict reconstruction \<Rightarrow>
         (let prefix_count = dget reconstruction ''prefix_count'' in
          block_if (\<not> is_nonempty_str (dget reconstruction ''kernel_identity'')) ''missing_reconstruction_kernel_identity''
          @ block_if (\<not> is_int_value prefix_count \<or> int_of prefix_count < 0) ''missing_reconstruction_prefix_count'')
     | _ \<Rightarrow> [''missing_reconstruction_variant_metadata''])"

definition final_output_export_metadata_blockers :: "pydict \<Rightarrow> pyval \<Rightarrow> bool \<Rightarrow> string list res" where
  "final_output_export_metadata_blockers capture semantics accelerator =
     rbind (if accelerator then in_str_set semantics FINAL_OUTPUT_EXPORT_SEMANTICS else Inr False) (\<lambda>exports.
     let exact_output = dget capture ''exact_output_contract'' in
     if \<not> exports
       \<or> eq_str (vget exact_output ''output_domain_after_measured_repeats'') ''rns_residue_current''
       \<or> \<not> eq_str (dget_or capture ''residue_output_mode'' (PStr ''host_export'')) ''host_export''
     then Inr []
     else rconcat [final_output_blockers exact_output, export_variant_blockers (dget capture ''export_variant''),
       Inr (reconstruction_variant_blockers (dget capture ''reconstruction_variant''))])"

section \<open>Skinny products\<close>

text \<open>What the kernel name and the execution mode of a product with few columns must show.\<close>

definition skinny_route_blockers :: "string \<Rightarrow> bool \<Rightarrow> string \<Rightarrow> string \<Rightarrow> string list" where
  "skinny_route_blockers backend_family n1 kname mode =
     (if backend_family = ''hip-direct''
      then block_if (\<not> contains (if n1 then ''gemv_n1'' else ''gemv_small_n'') kname)
             ''missing_direct_hip_skinny_gemv_kernel_identity''
           @ block_if (mode \<noteq> (if n1 then ''direct_hip_skinny_gemv_n1_resident_rns''
                               else ''direct_hip_skinny_gemv_small_n_resident_rns''))
             ''missing_direct_hip_skinny_gemv_execution_mode''
      else block_if (\<not> contains (if n1 then ''gemv_n1'' else ''gemv_small_n'') kname)
             ''missing_vector_alu_skinny_gemv_kernel_identity''
           @ block_if (\<not> contains (if n1 then ''gemv_n1'' else ''gemv_small_n'') mode)
             ''missing_vector_alu_skinny_gemv_execution_mode'')"

definition has_gemv_phase :: "pydict \<Rightarrow> bool" where
  "has_gemv_phase timing =
     (let order = dget timing ''gpu_event_phase_order''
      in is_list order \<and> list_ex (\<lambda>phase. contains ''gemv'' (py_str phase)) (elems_of order))"

definition skinny_gemv_metadata_blockers :: "pydict \<Rightarrow> pyval \<Rightarrow> string \<Rightarrow> string list res" where
  "skinny_gemv_metadata_blockers capture semantics backend_family =
     (let n = dget capture ''n'' in
      rbind (in_str_set semantics BOUNDED_SEMANTIC_IDS) (\<lambda>bounded_sem.
      if \<not> bounded_sem \<or> \<not> is_int_value n \<or> int_of n < 1 then Inr []
      else if backend_family \<notin> {''hip-direct'', ''hip-vector-alu-int64''} then Inr []
      else if 8 < int_of n then Inr []
      else rbind (capture_execution_mode capture) (\<lambda>mode. Inr
        (skinny_route_blockers backend_family (int_of n = 1) (selected_kernel capture) mode
         @ block_if (\<not> has_gemv_phase (capture_timing_metadata capture)) ''missing_skinny_gemv_gpu_event_phase''))))"

section \<open>From native inputs to residues\<close>

definition bridge_blockers :: "pydict \<Rightarrow> string list" where
  "bridge_blockers timing =
     block_if (\<not> is_True (dget timing ''native_to_rns_bridge_forced'')) ''missing_native_to_rns_bridge_forced_metadata''
     @ block_if (\<not> eq_str (vget (vget (dget timing ''phase_availability'') ''native_to_rns_bridge'') ''scope'')
         ''device_native_to_rns_conversion_inside_rns_gemm'') ''missing_native_to_rns_handoff_scope''"

definition chain_blockers :: "string \<Rightarrow> pydict \<Rightarrow> string list" where
  "chain_blockers mode timing =
     (let expected_control = (if mode = ''vector_native_host_export_repack_direct_rns_chain''
            then ''host_export_repack_control'' else ''fused_device_native_to_rns'') in
      block_if (\<not> is_True (dget timing ''vector_to_rns_chain'')) ''missing_vector_to_rns_chain_metadata''
      @ block_if (\<not> eq_str (dget timing ''vector_to_rns_chain_control_mode'') expected_control)
          ''vector_to_rns_chain_control_mode_mismatch''
      @ block_if (\<not> eq_str (dget timing ''vector_to_rns_chain_producer_backend'') ''hip-vector-alu-int64'')
          ''missing_vector_to_rns_chain_producer_backend''
      @ block_if (\<not> eq_str (dget timing ''vector_to_rns_chain_consumer_backend'') ''hip-direct'')
          ''missing_vector_to_rns_chain_consumer_backend''
      @ block_if (\<not> is_dict (vget (dget timing ''phase_availability'') ''vector_to_rns_chain''))
          ''missing_vector_to_rns_chain_phase_scope'')"

definition native_to_rns_handoff_metadata_blockers :: "pydict \<Rightarrow> pyval \<Rightarrow> string \<Rightarrow> string list res" where
  "native_to_rns_handoff_metadata_blockers capture semantics backend_family =
     rbind (capture_execution_mode capture) (\<lambda>mode.
     rbind (in_str_set semantics BOUNDED_SEMANTIC_IDS) (\<lambda>bounded_sem.
     let timing = capture_timing_metadata capture in
     Inr (if \<not> bounded_sem \<or> backend_family \<noteq> ''hip-direct'' \<or> mode \<notin> set NATIVE_TO_RNS_EXECUTION_MODES then []
          else block_if (\<not> is_dict (dget timing ''phase_availability'')) ''missing_native_to_rns_phase_availability''
            @ (if mode = ''auto_native_to_rns_bridge'' then bridge_blockers timing
               else chain_blockers mode timing))))"

text \<open>\<open>float(v)\<close> of a number, \<open>None\<close> for anything else; the second form excludes the booleans.\<close>

definition float_or_none :: "pyval \<Rightarrow> pyfloat option res" where
  "float_or_none v = (case v of
       PFloat x \<Rightarrow> Inr (Some x)
     | PInt n \<Rightarrow> rbind (float_of_int n) (\<lambda>x. Inr (Some x))
     | PBool b \<Rightarrow> Inr (Some (FFin (if b then 1 else 0)))
     | _ \<Rightarrow> Inr None)"

definition number_or_none :: "pyval \<Rightarrow> pyfloat option res" where
  "number_or_none v = (if is_bool v then Inr None else float_or_none v)"

definition float_val :: "pyfloat option \<Rightarrow> pyval" where
  "float_val x = (case x of None \<Rightarrow> PNone | Some y \<Rightarrow> PFloat y)"

definition gpu_event_median :: "pydict \<Rightarrow> string \<Rightarrow> pyfloat option res" where
  "gpu_event_median capture label =
     float_or_none (vget (vget (dget capture ''gpu_event_timing_summary_us'') label) ''median'')"

definition native_to_rns_handoff_diagnostics :: "pydict \<Rightarrow> pyval res" where
  "native_to_rns_handoff_diagnostics capture =
     rbind (capture_execution_mode capture) (\<lambda>mode.
     if mode \<notin> set NATIVE_TO_RNS_EXECUTION_MODES then Inr PNone
     else
      let label = (if eq_str (dget capture ''semantics'') ''bounded_u64'' then ''native_u64_to_rns_kernel''
                   else ''native_i64_to_rns_kernel'');
          timing = capture_timing_metadata capture in
      rbind (gpu_event_median capture label) (\<lambda>conversion.
      rbind (gpu_event_median capture ''vector_to_rns_host_repack_a'') (\<lambda>repack.
      rbind (gpu_event_median capture ''vector_alu_output_d2h'') (\<lambda>d2h.
      rbind (gpu_event_median capture ''rns_gemm_kernel_group'') (\<lambda>gemm. Inr (PDict
        [(''execution_mode'', PStr mode),
         (''control_mode'', dget timing ''vector_to_rns_chain_control_mode''),
         (''producer_backend'', dget timing ''vector_to_rns_chain_producer_backend''),
         (''consumer_backend'', dget timing ''vector_to_rns_chain_consumer_backend''),
         (''consumer_k'', dget timing ''vector_to_rns_chain_consumer_k''),
         (''conversion_event_label'', PStr label),
         (''conversion_median_us'', float_val conversion), (''host_repack_median_us'', float_val repack),
         (''vector_output_d2h_median_us'', float_val d2h), (''consumer_gemm_median_us'', float_val gemm),
         (''conversion_share_of_consumer_gemm'', float_val (case (conversion, gemm) of
            (Some c, Some g) \<Rightarrow> if flt_lt (FFin 0) g then Some (flt_div c g) else None
          | _ \<Rightarrow> None))]))))))"

section \<open>Structured sparsity\<close>

definition sparse_key_tokens :: "bool \<Rightarrow> string list" where
  "sparse_key_tokens is_finite =
     [''sparse_contract=a_4_to_2_structured_k_v1'', ''sparse_operand=A'', ''sparse_group_size=4'',
      ''sparse_nonzeros_per_group=2'', ''sparse_index_layout=canonical_2bit_k_groups_v1'',
      ''sparse_value_signedness='' @ (if is_finite then ''unsigned_u8'' else ''signed_i8''), ''dense_operand=B'']"

definition sparse_builtin_blockers :: "pydict \<Rightarrow> string list res" where
  "sparse_builtin_blockers meta = rconcat
     [Inr (block_if (\<not> eq_str (dget meta ''matrix_instruction_sparsity'') ''structured_4_2'')
        ''missing_sparse_a_matrix_instruction_sparsity''),
      block_if_not (in_str_set (dget meta ''matrix_instruction_family'') [''smfmac'', ''swmmac''])
        ''missing_sparse_a_matrix_instruction_family'',
      Inr (block_if (\<not> eq_str (dget meta ''matrix_sparse_contract'') ''a_4_to_2_structured_k_v1'')
        ''missing_sparse_a_contract_metadata''),
      Inr (block_if (\<not> eq_str (dget meta ''matrix_sparse_dense_operand'') ''B'') ''missing_sparse_a_dense_b_contract''),
      Inr (block_if (\<not> eq_str (dget meta ''matrix_sparse_a_compression_index_layout'')
        ''canonical_2bit_k_groups_v1_low2_first_value_high2_second_value'') ''missing_sparse_a_compression_index_layout'')]"

definition sparse_a_4_to_2_contract_blockers :: "pydict \<Rightarrow> string \<Rightarrow> string \<Rightarrow> pydict \<Rightarrow> string list res" where
  "sparse_a_4_to_2_contract_blockers capture backend backend_family meta =
     (let sparse_scenario = is_True (vget (dget capture ''scenario_metadata'') ''sparse_a_4_to_2'');
          sparse_kernel = contains ''sparse_a'' (selected_kernel capture);
          sparse_runtime = ends_with ''-sparse-a-runtime'' backend;
          dense_baseline = ends_with ''-dense-sparse-a-input'' backend;
          k = dget capture ''k''
      in if \<not> sparse_scenario \<and> \<not> sparse_kernel \<and> \<not> sparse_runtime \<and> \<not> dense_baseline then Inr []
         else rconcat
           [Inr (block_if (\<not> sparse_scenario) ''missing_sparse_a_4_to_2_scenario_contract''),
            Inr (block_if (\<not> truthy_int k \<or> int_of k mod 4 \<noteq> 0) ''sparse_a_k_not_divisible_by_4''),
            Inr (block_if (\<not> contains ''sparse_a_4_to_2'' (py_str (dget_or capture ''input_distribution'' (PStr []))))
              ''missing_sparse_a_4_to_2_input_distribution''),
            Inr (block_if (sparse_runtime \<and> \<not> sparse_kernel) ''missing_sparse_a_runtime_kernel_identity''),
            Inr (block_if (dense_baseline \<and> sparse_kernel) ''dense_sparse_a_baseline_used_sparse_kernel''),
            (if backend_family = ''amdgpu-builtins'' \<and> sparse_runtime then sparse_builtin_blockers meta else Inr []),
            rbind (capture_semantics_are_finite_u8 capture) (\<lambda>is_finite. Inr (block_if
              (\<not> autotune_key_has_all meta (sparse_key_tokens is_finite))
              ''missing_sparse_a_4_to_2_autotune_contract''))])"

section \<open>Tile variants\<close>

definition TILE_EXPECTATIONS :: "(string \<times> string \<times> string \<times> string \<times> string) list" where
  "TILE_EXPECTATIONS =
     [(''amdgpu-cdna3-mfma-16x16x32'', ''mfma_i32_16x16x32_i8'', ''mfma'', ''16x16x32'', ''i8''),
      (''amdgpu-cdna3-mfma-32x32x16'', ''mfma_i32_32x32x16_i8'', ''mfma'', ''32x32x16'', ''i8'')]"

definition amdgpu_builtin_tile_variant_blockers :: "pydict \<Rightarrow> pydict \<Rightarrow> string list res" where
  "amdgpu_builtin_tile_variant_blockers capture meta =
     rbind (backend_id capture) (\<lambda>backend.
     let name = vget (dget capture ''tile_shape_variant'') ''name'' in Inr
      (if backend_family_id backend \<noteq> ''amdgpu-builtins'' \<or> \<not> is_str name then []
       else case map_of TILE_EXPECTATIONS (str_of name) of
         None \<Rightarrow> []
       | Some (token, family, shape, dtype) \<Rightarrow>
           block_if (\<not> contains token (selected_kernel capture)) ''amdgpu_builtin_tile_variant_kernel_mismatch''
           @ block_if (\<not> eq_str (dget meta ''matrix_instruction_family'') family)
               ''amdgpu_builtin_tile_variant_family_mismatch''
           @ block_if (\<not> eq_str (dget meta ''matrix_instruction_shape'') shape)
               ''amdgpu_builtin_tile_variant_shape_mismatch''
           @ block_if (\<not> eq_str (dget meta ''matrix_instruction_dtype'') dtype)
               ''amdgpu_builtin_tile_variant_dtype_mismatch''))"

section \<open>Scopes and groups\<close>

definition correctness_anchor_reference_capture :: "pydict \<Rightarrow> bool res" where
  "correctness_anchor_reference_capture capture =
     rbind (backend_id capture) (\<lambda>backend.
     let cpu_parallel = dget capture ''cpu_parallel'' in Inr
      (backend_family_id backend \<in> set CORRECTNESS_ANCHOR_REFERENCE_BACKENDS
       \<and> (is_True (vget cpu_parallel ''correctness_anchor'')
          \<or> eq_str (vget cpu_parallel ''reference_mode'') ''correctness-anchor'')))"

definition capture_scenario_promotion_scope :: "pydict \<Rightarrow> string option" where
  "capture_scenario_promotion_scope capture =
     (let scenario = dget capture ''scenario_metadata'';
          eligibility = vget scenario ''promotion_eligibility'';
          scope = vget (vget scenario ''metadata'') ''promotion_scope''
      in if is_nonempty_str eligibility then Some (str_of eligibility)
         else if is_nonempty_str scope then Some (str_of scope) else None)"

definition autotune_promotable_scope :: "pydict \<Rightarrow> bool" where
  "autotune_promotable_scope capture \<longleftrightarrow>
     capture_scenario_promotion_scope capture \<in> {None, Some ''release_review_candidate''}"

definition scenario_promotion_blockers :: "pydict \<Rightarrow> string list" where
  "scenario_promotion_blockers capture =
     (if autotune_promotable_scope capture then [] else [''scenario_scope_not_autotune_promotable''])"

definition capture_prepacked_reuse :: "pydict \<Rightarrow> bool" where
  "capture_prepacked_reuse capture \<longleftrightarrow>
     capture_pack_mode capture \<in> set REUSE_PACK_MODES \<or> is_True (dget capture ''reuse_packed_inputs'')"

definition capture_hip_graph_replay :: "pydict \<Rightarrow> bool res" where
  "capture_hip_graph_replay capture =
     rbind (capture_execution_mode capture) (\<lambda>mode. Inr (mode \<in> set GRAPH_REPLAY_EXECUTION_MODES))"

definition reuse_evidence_group :: "pydict list \<Rightarrow> bool" where
  "reuse_evidence_group items \<longleftrightarrow>
     items \<noteq> [] \<and> list_all (\<lambda>item. capture_pack_mode item \<noteq> ''per_repeat_repack'') items
     \<and> list_ex (\<lambda>item. \<exists>s\<in>set REUSE_EVIDENCE_PROMOTION_SCOPES. capture_scenario_promotion_scope item = Some s) items"

definition rany :: "('a \<Rightarrow> bool res) \<Rightarrow> 'a list \<Rightarrow> bool res" where
  "rany f xs = foldr (\<lambda>x r. ror (f x) r) xs (Inr False)"

definition required_baselines_for_group :: "pyval \<Rightarrow> pydict list \<Rightarrow> string list res" where
  "required_baselines_for_group semantics items =
     (if \<not> list_ex autotune_promotable_scope items then Inr []
      else if reuse_evidence_group items \<or> list_ex capture_prepacked_reuse items then Inr []
      else rbind (if list_ex (\<lambda>item. \<exists>s\<in>set GRAPH_EVIDENCE_PROMOTION_SCOPES.
                      capture_scenario_promotion_scope item = Some s) items
                  then Inr True else rany capture_hip_graph_replay items) (\<lambda>graph.
        if graph then Inr []
        else rbind (required_baselines semantics) (\<lambda>required.
          rbind (in_str_set semantics BOUNDED_SEMANTIC_IDS) (\<lambda>bounded_sem. Inr
            (if bounded_sem \<and> residue_chain_group items
             then filter (\<lambda>b. b \<noteq> ''hip-vector-alu-int64'') required else required)))))"

end
