(* ===== verification/Review_Timing.thy ===== *)
theory Review_Timing
  imports Review_Rules
begin

text \<open>
  The measured times of \<open>tools/benchmark_sweep_lib/review.py\<close>: medians and ratios per phase, setup costs
  of prepacked inputs and captured graphs, the break-even number of repeats, the baselines a candidate
  is compared with, and the reviews of the two kinds of capture that pay a setup before they repeat.
\<close>

section \<open>Floats\<close>

fun flt_mul :: "pyfloat \<Rightarrow> pyfloat \<Rightarrow> pyfloat" where
  "flt_mul (FFin a) (FFin b) = rnd64 (a * b)"
| "flt_mul FNaN _ = FNaN"
| "flt_mul _ FNaN = FNaN"
| "flt_mul (FFin a) x = (if a = 0 then FNaN else if 0 < a then x else flt_neg x)"
| "flt_mul x (FFin a) = (if a = 0 then FNaN else if 0 < a then x else flt_neg x)"
| "flt_mul FInf x = x"
| "flt_mul FNegInf x = flt_neg x"

definition flt_abs :: "pyfloat \<Rightarrow> pyfloat" where
  "flt_abs x = (if flt_lt x (FFin 0) then flt_neg x else x)"

text \<open>\<open>sum(xs)\<close> of floats: the compensated sum of CPython, started at the integer zero.\<close>

fun comp_sum :: "pyfloat \<Rightarrow> pyfloat \<Rightarrow> pyfloat list \<Rightarrow> pyfloat" where
  "comp_sum s c [] = (if \<not> flt_is_zero c \<and> flt_finite c then flt_add s c else s)"
| "comp_sum s c (x # xs) =
     (let t = flt_add s x;
          d = (if flt_le (flt_abs x) (flt_abs s) then flt_add (flt_sub s t) x else flt_add (flt_sub x t) s)
      in comp_sum t (flt_add c d) xs)"

definition float_sum :: "pyfloat list \<Rightarrow> pyfloat" where
  "float_sum xs = comp_sum (FFin 0) (FFin 0) xs"

text \<open>\<open>if x\<close> of a float or \<open>None\<close>, and \<open>a / b if a and b else None\<close>.\<close>

definition nonzero_float :: "pyfloat option \<Rightarrow> bool" where
  "nonzero_float x = (case x of None \<Rightarrow> False | Some y \<Rightarrow> \<not> flt_is_zero y)"

definition ratio_of :: "pyfloat option \<Rightarrow> pyfloat option \<Rightarrow> pyfloat option" where
  "ratio_of a b = (if nonzero_float a \<and> nonzero_float b then Some (flt_div (the a) (the b)) else None)"

text \<open>\<open>a / b if a is not None and b not in (None, 0.0) else None\<close>.\<close>

definition share_of :: "pyfloat option \<Rightarrow> pyfloat option \<Rightarrow> pyfloat option" where
  "share_of a b = (case a of None \<Rightarrow> None | Some x \<Rightarrow> if nonzero_float b then Some (flt_div x (the b)) else None)"

definition both_le :: "pyfloat option \<Rightarrow> pyfloat option \<Rightarrow> bool" where
  "both_le a b = (case (a, b) of (Some x, Some y) \<Rightarrow> flt_le x y | _ \<Rightarrow> False)"

text \<open>\<open>min(xs, key=f)\<close> and \<open>max(xs, key=f)\<close> keep the first of equal elements, and never replace by a NaN.\<close>

definition min_float :: "('a \<Rightarrow> pyfloat) \<Rightarrow> 'a \<Rightarrow> 'a list \<Rightarrow> 'a" where
  "min_float f x xs = foldl (\<lambda>b y. if flt_lt (f y) (f b) then y else b) x xs"

definition max_float :: "('a \<Rightarrow> pyfloat) \<Rightarrow> 'a \<Rightarrow> 'a list \<Rightarrow> 'a" where
  "max_float f x xs = foldl (\<lambda>b y. if flt_lt (f b) (f y) then y else b) x xs"

lemma min_float_in: "min_float f x xs \<in> set (x # xs)"
proof (induction xs rule: rev_induct)
  case (snoc y ys)
  then show ?case by (auto simp: min_float_def)
qed (simp add: min_float_def)

section \<open>Phases\<close>

definition REVIEW_PHASES :: "string list" where
  "REVIEW_PHASES = [''pack'', ''rns_gemm'', ''crt_export'', ''end_to_end'']"

definition DIAGNOSTIC_PHASES :: "string list" where
  "DIAGNOSTIC_PHASES = REVIEW_PHASES @ [''pack_a'', ''pack_b'']"

text \<open>A capture that may be missing; an empty dict counts as missing too.\<close>

definition median_if :: "pydict option \<Rightarrow> string \<Rightarrow> pyfloat option res" where
  "median_if capture phase =
     (case capture of None \<Rightarrow> Inr None | Some c \<Rightarrow> if c = [] then Inr None else median_phase c phase)"

definition phase_ratio :: "pydict \<Rightarrow> pydict option \<Rightarrow> pydict option \<Rightarrow> string \<Rightarrow> (string \<times> pyval) res" where
  "phase_ratio item direct vector phase =
     rbind (median_phase item phase) (\<lambda>v.
     rbind (median_if direct phase) (\<lambda>d.
     rbind (median_if vector phase) (\<lambda>w. Inr (phase, PDict
       [(''median_us'', float_val v), (''speedup_vs_direct_hip'', float_val (ratio_of d v)),
        (''speedup_vs_vector_alu'', float_val (ratio_of w v))]))))"

definition phase_ratios :: "pydict \<Rightarrow> pydict option \<Rightarrow> pydict option \<Rightarrow> pydict res" where
  "phase_ratios item direct vector = rmapM (phase_ratio item direct vector) DIAGNOSTIC_PHASES"

definition phase_medians_for_capture :: "pydict \<Rightarrow> pydict res" where
  "phase_medians_for_capture capture =
     rbind (rmapM (\<lambda>phase. rbind (median_phase capture phase) (\<lambda>v. Inr (phase, v))) DIAGNOSTIC_PHASES) (\<lambda>rows.
     Inr (concat (map (\<lambda>(phase, v). case v of None \<Rightarrow> [] | Some x \<Rightarrow> [(phase, PFloat x)]) rows)))"

definition scenario_values :: "pydict list \<Rightarrow> string \<Rightarrow> string list" where
  "scenario_values items key =
     sorted_set (concat (map (\<lambda>item. let v = vget (dget item ''scenario_metadata'') key in
       if is_nonempty_str v then [str_of v] else []) items))"

definition square_family :: "int \<Rightarrow> string" where
  "square_family m =
     (if m \<le> 128 then ''small_square'' else if m \<le> 512 then ''medium_square''
      else if m \<le> 1024 then ''large_square'' else ''very_large_square'')"

definition shape_family :: "pyval \<Rightarrow> pyval \<Rightarrow> pyval \<Rightarrow> string" where
  "shape_family mv nv kv =
     (if \<not> (is_int_value mv \<and> is_int_value nv \<and> is_int_value kv) then ''unknown''
      else let m = int_of mv; n = int_of nv; k = int_of kv in
        if n = 1 then ''skinny_n1''
        else if n \<le> 16 then ''skinny_n_le16''
        else if m = n \<and> n = k then square_family m
        else if m = n then ''square_mn_rectangular_k''
        else if 2048 \<le> max m (max n k) then ''large_rectangular''
        else ''rectangular'')"

definition primary_loss_step ::
  "pydict \<Rightarrow> pydict \<Rightarrow> string option \<times> pyfloat \<Rightarrow> string \<Rightarrow> (string option \<times> pyfloat) res" where
  "primary_loss_step item direct worst phase =
     rbind (median_phase item phase) (\<lambda>v.
     rbind (median_phase direct phase) (\<lambda>b. Inr
       (case (v, b) of
          (Some x, Some y) \<Rightarrow>
            if \<not> flt_le y (FFin 0) \<and> flt_lt (snd worst) (flt_div x y) then (Some phase, flt_div x y) else worst
        | _ \<Rightarrow> worst)))"

definition primary_loss_phase :: "pydict \<Rightarrow> pydict option \<Rightarrow> string option res" where
  "primary_loss_phase item direct =
     (case direct of None \<Rightarrow> Inr None
      | Some d \<Rightarrow> rbind (rfoldM (primary_loss_step item d) (None, FFin 0) REVIEW_PHASES) (\<lambda>w. Inr (fst w)))"

section \<open>Where the time goes\<close>

definition classification :: "string \<Rightarrow> pyval \<Rightarrow> pyval \<Rightarrow> pydict" where
  "classification c phase share = [(''class'', PStr c), (''phase'', phase), (''share'', share)]"

definition bound_class :: "string \<Rightarrow> string" where
  "bound_class phase =
     (if phase = ''pack'' then ''pack_bound'' else if phase = ''rns_gemm'' then ''compute_bound'' else ''export_bound'')"

definition classify_shares :: "pyfloat \<Rightarrow> (string \<times> pyfloat) \<Rightarrow> pydict" where
  "classify_shares overhead largest =
     (if flt_le (rnd64 (1/4)) overhead \<and> flt_lt (snd largest) overhead
      then classification ''launch_or_api_bound'' (PStr ''unattributed_overhead'') (PFloat overhead)
      else if flt_lt (snd largest) (rnd64 (2/5))
      then classification ''mixed_bound'' (PStr (fst largest)) (PFloat (snd largest))
      else classification (bound_class (fst largest)) (PStr (fst largest)) (PFloat (snd largest)))"

definition bottleneck_classification :: "pydict \<Rightarrow> pydict res" where
  "bottleneck_classification capture =
     rbind (median_phase capture ''end_to_end'') (\<lambda>e2e.
     rbind (rmapM (\<lambda>phase. rbind (median_phase capture phase) (\<lambda>v. Inr (phase, v)))
        [''pack'', ''rns_gemm'', ''crt_export'']) (\<lambda>rows.
     let timed = concat (map (\<lambda>(phase, v). case v of None \<Rightarrow> []
           | Some x \<Rightarrow> if flt_lt (FFin 0) x then [(phase, x)] else []) rows) in Inr
     (case (e2e, timed) of
        (Some t, first # rest) \<Rightarrow>
          if flt_is_zero t \<or> flt_le t (FFin 0) then classification ''unknown'' PNone PNone
          else let shares = map (\<lambda>(phase, x). (phase, flt_div x t)) timed;
                   gap = flt_sub t (float_sum (map snd timed));
                   overhead = flt_div (if flt_lt (FFin 0) gap then gap else FFin 0) t
               in classify_shares overhead (max_float snd (hd shares) (tl shares))
      | _ \<Rightarrow> classification ''unknown'' PNone PNone)))"

definition dominant_operand :: "pyfloat option \<Rightarrow> pyfloat option \<Rightarrow> pyval" where
  "dominant_operand pack_a pack_b =
     (case (pack_a, pack_b) of
        (Some a, Some b) \<Rightarrow>
          PStr (if flt_lt (flt_mul b (rnd64 (11/10))) a then ''A''
                else if flt_lt (flt_mul a (rnd64 (11/10))) b then ''B'' else ''balanced'')
      | _ \<Rightarrow> PNone)"

definition pack_phase_diagnostics :: "pydict \<Rightarrow> pydict res" where
  "pack_phase_diagnostics capture =
     rbind (median_phase capture ''end_to_end'') (\<lambda>e2e.
     rbind (median_phase capture ''pack'') (\<lambda>pack.
     rbind (median_phase capture ''pack_a'') (\<lambda>pack_a.
     rbind (median_phase capture ''pack_b'') (\<lambda>pack_b.
     let plan = dict_or_empty (dget capture ''plan_packing'') in Inr
     [(''pack_median_us'', float_val pack), (''pack_a_median_us'', float_val pack_a),
      (''pack_b_median_us'', float_val pack_b), (''pack_share_of_end_to_end'', float_val (share_of pack e2e)),
      (''split_available'', PBool (pack_a \<noteq> None \<and> pack_b \<noteq> None)),
      (''dominant_operand'', dominant_operand pack_a pack_b),
      (''pack_mode'', PStr (capture_pack_mode capture)),
      (''pack_layout'', dget (capture_timing_metadata capture) ''pack_layout''),
      (''source_versioned_inputs'', dget plan ''source_versioned_inputs''),
      (''same_source_version_pack_elision_available'', dget plan ''same_source_version_pack_elision_available''),
      (''a_pack_workspace_bytes'', dget plan ''a_pack_workspace_bytes''),
      (''b_pack_workspace_bytes'', dget plan ''b_pack_workspace_bytes'')]))))"

section \<open>Release captures and checksums\<close>

definition release_capture_satisfied :: "pydict \<Rightarrow> bool" where
  "release_capture_satisfied capture \<longleftrightarrow>
     (let warmups = dget capture ''warmups''; repeats = dget capture ''repeats''
      in isinstance_int warmups \<and> isinstance_int repeats
         \<and> RELEASE_MIN_WARMUPS \<le> int_of warmups \<and> RELEASE_MIN_REPEATS \<le> int_of repeats)"

definition capture_checksum :: "pydict option \<Rightarrow> pyval" where
  "capture_checksum capture =
     (case capture of None \<Rightarrow> PNone
      | Some c \<Rightarrow> if \<not> is_None (dget c ''checksum_u64'') then dget c ''checksum_u64'' else dget c ''checksum'')"

definition checksum_match_blockers :: "pydict \<Rightarrow> pydict option \<Rightarrow> string \<Rightarrow> string list" where
  "checksum_match_blockers candidate baseline label =
     (let a = capture_checksum (Some candidate); b = capture_checksum baseline
      in block_if (baseline \<noteq> None \<and> \<not> is_None a \<and> \<not> is_None b \<and> \<not> py_eq a b)
           (''checksum_mismatch_vs_'' @ label))"

definition reference_checksum_for_group :: "(string \<times> pydict) list \<Rightarrow> string option \<times> pyval" where
  "reference_checksum_for_group by_backend =
     (let checksum = (\<lambda>b. capture_checksum (map_of by_backend b)) in
      case find (\<lambda>b. \<not> is_None (checksum b))
             ([''cpu-reference'', ''wrap64-byte-limb'', ''hip-direct''] @ sort (map fst by_backend)) of
        None \<Rightarrow> (None, PNone) | Some b \<Rightarrow> (Some b, checksum b))"

section \<open>Setup costs\<close>

definition numeric_capture_value :: "pydict \<Rightarrow> string \<Rightarrow> pyfloat option res" where
  "numeric_capture_value capture key = number_or_none (dget capture key)"

definition graph_numeric_value :: "pydict \<Rightarrow> string \<Rightarrow> pyfloat option res" where
  "graph_numeric_value capture key = number_or_none (vget (dget capture ''hip_graph_replay'') key)"

definition reuse_contract_numeric_value :: "pydict \<Rightarrow> string \<Rightarrow> pyfloat option res" where
  "reuse_contract_numeric_value capture key = number_or_none (vget (dget capture ''reuse_contract'') key)"

definition PREPACK_SETUP_BREAKDOWN_KEYS :: "string list" where
  "PREPACK_SETUP_BREAKDOWN_KEYS = [''pack_a'', ''pack_b'', ''runtime_cache'', ''unclassified'']"

fun breakdown_from :: "pydict \<Rightarrow> string list \<Rightarrow> (string \<times> pyfloat) list option res" where
  "breakdown_from d [] = Inr (Some [])"
| "breakdown_from d (key # keys) =
     rbind (number_or_none (dget d key)) (\<lambda>v. case v of
       None \<Rightarrow> Inr None
     | Some x \<Rightarrow> rbind (breakdown_from d keys) (\<lambda>rest. Inr (map_option ((#) (key, x)) rest)))"

definition prepack_setup_breakdown_us :: "pydict \<Rightarrow> (string \<times> pyfloat) list option res" where
  "prepack_setup_breakdown_us capture =
     (let own = dget capture ''prepack_setup_breakdown_us'';
          v = (if is_dict own then own else vget (dget capture ''reuse_contract'') ''setup_breakdown_us'')
      in if is_dict v then breakdown_from (items_of v) PREPACK_SETUP_BREAKDOWN_KEYS else Inr None)"

definition prepack_setup_primary_phase :: "pydict \<Rightarrow> string option res" where
  "prepack_setup_primary_phase capture =
     rbind (prepack_setup_breakdown_us capture) (\<lambda>breakdown. Inr
       (case breakdown of
          Some (first # rest) \<Rightarrow>
            (let (phase, x) = max_float snd first rest in Some (if flt_lt (FFin 0) x then phase else ''none''))
        | _ \<Rightarrow> None))"

text \<open>The first of several readings that is not \<open>None\<close>.\<close>

fun first_number :: "pyfloat option res list \<Rightarrow> pyfloat option res" where
  "first_number [] = Inr None"
| "first_number (m # ms) = rbind m (\<lambda>v. case v of None \<Rightarrow> first_number ms | Some x \<Rightarrow> Inr (Some x))"

definition prepack_cost :: "pydict \<Rightarrow> pyfloat option res" where
  "prepack_cost capture = first_number
     [reuse_contract_numeric_value capture ''setup_cost_us'', numeric_capture_value capture ''avg_prepack_setup_us'',
      numeric_capture_value capture ''prepack_setup_us'']"

definition setup_cost_us :: "pydict \<Rightarrow> bool \<Rightarrow> pyfloat option res" where
  "setup_cost_us capture include_graph_setup =
     rbind (if capture_prepacked_reuse capture
            then rbind (prepack_cost capture) (\<lambda>p. Inr (map_option (flt_add (FFin 0)) p))
            else Inr (Some (FFin 0))) (\<lambda>setup.
     case setup of None \<Rightarrow> Inr None
     | Some s \<Rightarrow>
         if \<not> include_graph_setup then Inr (Some s)
         else rbind (graph_numeric_value capture ''capture_us'') (\<lambda>c.
              rbind (graph_numeric_value capture ''instantiate_us'') (\<lambda>i.
              Inr (case (c, i) of (Some x, Some y) \<Rightarrow> Some (flt_add s (flt_add x y)) | _ \<Rightarrow> None))))"

text \<open>\<open>float(repeats)\<close> where \<open>repeats\<close> is the text of a positive integer.\<close>

definition repeats_float :: "pydict \<Rightarrow> pyfloat option" where
  "repeats_float capture =
     (let v = dget capture ''repeats'' in if is_int_value v \<and> 0 < int_of v then Some (rnd64 (of_int (int_of v))) else None)"

definition setup_inclusive_end_to_end_us :: "pydict \<Rightarrow> bool \<Rightarrow> pyfloat option res" where
  "setup_inclusive_end_to_end_us capture include_graph_setup =
     rbind (if capture_prepacked_reuse capture \<and> \<not> include_graph_setup
            then reuse_contract_numeric_value capture ''setup_inclusive_median_end_to_end_us'' else Inr None) (\<lambda>recorded.
     case recorded of Some r \<Rightarrow> Inr (Some r)
     | None \<Rightarrow>
        rbind (median_phase capture ''end_to_end'') (\<lambda>median.
        case (median, repeats_float capture) of
          (Some x, Some r) \<Rightarrow>
            rbind (setup_cost_us capture include_graph_setup) (\<lambda>setup.
              Inr (map_option (\<lambda>s. flt_add x (flt_div s r)) setup))
        | _ \<Rightarrow> Inr None))"

text \<open>\<open>math.floor\<close>.\<close>

definition flt_floor :: "pyfloat \<Rightarrow> int res" where
  "flt_floor x = (case x of FFin r \<Rightarrow> Inr \<lfloor>r\<rfloor> | FNaN \<Rightarrow> Inl ValueError | _ \<Rightarrow> Inl OverflowError)"

definition break_even_of :: "pyfloat \<Rightarrow> pyfloat \<Rightarrow> pyfloat \<Rightarrow> pyfloat \<Rightarrow> int option res" where
  "break_even_of baseline_median candidate_median baseline_setup candidate_setup =
     (if flt_eq candidate_median baseline_median
      then Inr (if flt_lt candidate_setup baseline_setup then Some 1 else None)
      else if flt_lt baseline_median candidate_median then Inr None
      else let delta = flt_sub baseline_median candidate_median;
               setup_delta = flt_sub candidate_setup baseline_setup
           in if flt_le setup_delta (FFin 0) then Inr (Some 1)
              else rbind (flt_floor (flt_div setup_delta delta)) (\<lambda>n. Inr (Some (max 1 (n + 1)))))"

definition break_even_repeat_count ::
  "pyfloat option \<Rightarrow> pyfloat option \<Rightarrow> pyfloat option \<Rightarrow> pyfloat option \<Rightarrow> int option res" where
  "break_even_repeat_count baseline_median candidate_median baseline_setup candidate_setup =
     (case (baseline_median, candidate_median, baseline_setup, candidate_setup) of
        (Some bm, Some cm, Some bs, Some cs) \<Rightarrow> break_even_of bm cm bs cs
      | _ \<Rightarrow> Inr None)"

definition selection_end_to_end_us :: "pydict \<Rightarrow> pyfloat option res" where
  "selection_end_to_end_us capture =
     rbind (capture_hip_graph_replay capture) (\<lambda>graph.
     if graph then setup_inclusive_end_to_end_us capture True
     else if capture_prepacked_reuse capture then setup_inclusive_end_to_end_us capture False
     else median_phase capture ''end_to_end'')"

section \<open>Baselines with the same contract\<close>

definition setup_parts :: "pydict \<Rightarrow> string list" where
  "setup_parts capture =
     [field ''checksum_policy'' (capture_checksum_policy capture),
      field ''host_api_batch_size'' (show_int (capture_host_api_batch_size capture)),
      field ''grouped_dispatch_task_count'' (show_int (capture_grouped_dispatch_task_count capture)),
      field ''grouped_dispatch_strategy'' (capture_grouped_dispatch_strategy capture),
      field ''semantics'' (py_str (dget capture ''semantics'')),
      field ''finite_modulus'' (py_str (dget capture ''finite_modulus'')),
      field ''bound_kind'' (py_str (dget capture ''bound_kind'')),
      field ''bound_mode'' (py_str (dget capture ''bound_mode'')),
      field ''bound'' (py_str (dget capture ''bound'')),
      field ''bound_source'' (capture_bound_source capture),
      field ''m'' (py_str (dget capture ''m'')), field ''n'' (py_str (dget capture ''n'')),
      field ''k'' (py_str (dget capture ''k'')),
      field ''output_logical_ld'' (py_str (dget_or capture ''output_logical_ld'' (dget capture ''n''))),
      field ''output_ld_padding'' (py_str (dget_or capture ''output_ld_padding'' (PInt 0))),
      field ''prefix'' (py_str (dget capture ''prefix'')), field ''layout'' (py_str (dget capture ''layout'')),
      field ''tile_m'' (py_str (tile_contract capture ''tile_m'')),
      field ''tile_n'' (py_str (tile_contract capture ''tile_n'')),
      field ''k_block'' (py_str (dget capture ''k_block_size'')),
      field ''exact_wide_limb_count'' (py_str (dget capture ''exact_wide_limb_count'')),
      field ''residue_chain_length'' (py_str (dget_or capture ''residue_chain_length'' (PInt 1))),
      field ''residue_output_mode'' (py_str (residue_output_mode capture)),
      field ''seed'' (py_str (dget capture ''seed'')),
      field ''input_distribution'' (py_str (dget capture ''input_distribution'')),
      field ''next_op_contract'' (py_str (next_op_contract capture)),
      field ''output_policy'' (py_str (vget (dget capture ''output_policy'') ''destination_layout'')),
      field ''status_handling'' (py_str (vget (dget capture ''output_policy'') ''status_handling'')),
      field ''export_variant'' (capture_export_variant_name capture),
      field ''reconstruction_variant'' (capture_reconstruction_variant_name capture),
      field ''fusion_mode'' (py_str (vget (dget capture ''timing_metadata'') ''fusion_mode'')),
      field ''residue_group_width'' (py_str (vget (dget capture ''timing_metadata'') ''residue_group_width'')),
      field ''tile_hash'' (py_str (vget (dget capture ''tile_bounds_u64'') ''hash_u64''))]"

definition setup_comparison_key :: "pydict \<Rightarrow> bool \<Rightarrow> string" where
  "setup_comparison_key capture include_pack_mode =
     join_with '';'' (setup_parts capture @
       (if include_pack_mode
        then [field ''reuse_packed_inputs'' (py_str (PBool (is_True (dget capture ''reuse_packed_inputs'')))),
              field ''pack_mode'' (capture_pack_mode capture)]
        else []))"

definition fastest_capture :: "pydict list \<Rightarrow> bool \<Rightarrow> pydict option res" where
  "fastest_capture captures include_graph_setup =
     rbind (rmapM (\<lambda>c. rbind (setup_inclusive_end_to_end_us c include_graph_setup) (\<lambda>t. Inr (c, t))) captures) (\<lambda>rows.
     let timed = concat (map (\<lambda>(c, t). case t of None \<Rightarrow> []
           | Some x \<Rightarrow> [(c, if flt_is_zero x then FInf else x)]) rows) in Inr
     (case timed of [] \<Rightarrow> None | first # rest \<Rightarrow> Some (fst (min_float snd first rest))))"

definition graph_status_available :: "pydict \<Rightarrow> bool" where
  "graph_status_available capture \<longleftrightarrow>
     eq_str (vget (dget capture ''hip_graph_replay'') ''status'') ''available''
     \<and> eq_str (vget (dget capture ''hip_graph_replay'') ''capture_status'') ''replayed''"

record setup_tags =
  st_family :: string
  st_graph_baseline :: bool
  st_nonreuse :: bool

definition setup_tags_of :: "pydict \<Rightarrow> setup_tags res" where
  "setup_tags_of capture =
     rbind (backend_id capture) (\<lambda>backend.
     rbind (correctness_anchor_reference_capture capture) (\<lambda>anchor.
     rbind (if anchor then Inr True else capture_hip_graph_replay capture) (\<lambda>no_baseline.
     rbind (if capture_prepacked_reuse capture then Inr True else capture_hip_graph_replay capture) (\<lambda>reuse.
     Inr \<lparr>st_family = backend_family_id backend, st_graph_baseline = \<not> no_baseline, st_nonreuse = \<not> reuse \<and> \<not> anchor\<rparr>))))"

record setup_indexes =
  sx_nonreuse_backend :: "((string \<times> string) \<times> pydict list) list"
  sx_nonreuse :: "(string \<times> pydict list) list"
  sx_graph :: "((string \<times> string) \<times> pydict list) list"

definition build_setup_baseline_indexes :: "pydict list \<Rightarrow> setup_indexes res" where
  "build_setup_baseline_indexes captures =
     rbind (rmapM (\<lambda>c. rbind (setup_tags_of c) (\<lambda>t. Inr (c, t))) captures) (\<lambda>tagged.
     let grouped = (\<lambda>P key. map (\<lambda>(k, cts). (k, map fst cts)) (group_on key (filter P tagged))) in Inr
     \<lparr>sx_nonreuse_backend = grouped (\<lambda>(c, t). st_nonreuse t) (\<lambda>(c, t). (setup_comparison_key c False, st_family t)),
      sx_nonreuse = map (\<lambda>(k, cts). (k, map fst cts)) (group_on (\<lambda>(c, t). setup_comparison_key c False)
        (filter (\<lambda>(c, t). st_nonreuse t \<and> st_family t \<noteq> ''cpu-reference'') tagged)),
      sx_graph = grouped (\<lambda>(c, t). st_graph_baseline t) (\<lambda>(c, t). (setup_comparison_key c True, st_family t))\<rparr>)"

definition lookup_captures :: "('k \<times> pydict list) list \<Rightarrow> 'k \<Rightarrow> pydict list" where
  "lookup_captures index k = (case map_of index k of None \<Rightarrow> [] | Some cs \<Rightarrow> cs)"

section \<open>Reviews of captures with a setup\<close>

definition family_of_capture :: "pydict option \<Rightarrow> pyval res" where
  "family_of_capture capture =
     (case capture of None \<Rightarrow> Inr PNone
      | Some c \<Rightarrow> if c = [] then Inr PNone
          else rbind (backend_id c) (\<lambda>b. Inr (PStr (backend_family_id b))))"

definition path_of_capture :: "pydict option \<Rightarrow> pyval" where
  "path_of_capture capture = (case capture of None \<Rightarrow> PNone | Some c \<Rightarrow> dget c ''_path'')"

definition baseline_blockers :: "pydict option \<Rightarrow> string \<Rightarrow> string \<Rightarrow> string list" where
  "baseline_blockers baseline missing unreviewed =
     (case baseline of None \<Rightarrow> [missing] | Some c \<Rightarrow> block_if (\<not> release_capture_satisfied c) unreviewed)"

definition reuse_blockers ::
  "pydict \<Rightarrow> pydict option \<Rightarrow> pydict option \<Rightarrow> pyfloat option \<Rightarrow> pyfloat option \<Rightarrow> pyfloat option \<Rightarrow> string list" where
  "reuse_blockers capture same_backend best_nonreuse candidate_setup same_time best_time =
     baseline_blockers same_backend ''missing_same_backend_nonreuse_baseline'' ''same_backend_nonreuse_not_release_review''
     @ baseline_blockers best_nonreuse ''missing_best_nonreuse_contract_baseline'' ''best_nonreuse_not_release_review''
     @ block_if (candidate_setup = None) ''missing_prepack_setup_inclusive_timing''
     @ block_if (both_le same_time candidate_setup) ''reuse_not_faster_than_same_backend_setup_inclusive''
     @ block_if (both_le best_time candidate_setup) ''reuse_not_faster_than_best_nonreuse_setup_inclusive''
     @ checksum_match_blockers capture same_backend ''same_backend_nonreuse''
     @ checksum_match_blockers capture best_nonreuse ''best_nonreuse''"

definition breakdown_val :: "(string \<times> pyfloat) list option \<Rightarrow> pyval" where
  "breakdown_val b = (case b of None \<Rightarrow> PNone | Some ps \<Rightarrow> PDict (map (\<lambda>(k, x). (k, PFloat x)) ps))"

definition prepacked_reuse_review :: "pydict \<Rightarrow> pydict option \<Rightarrow> pydict option \<Rightarrow> pydict res" where
  "prepacked_reuse_review capture same_backend best_nonreuse =
     rbind (setup_inclusive_end_to_end_us capture False) (\<lambda>candidate_setup.
     rbind (median_phase capture ''end_to_end'') (\<lambda>candidate_median.
     rbind (median_if same_backend ''end_to_end'') (\<lambda>same_time.
     rbind (median_if best_nonreuse ''end_to_end'') (\<lambda>best_time.
     rbind (setup_cost_us capture False) (\<lambda>prepack_setup.
     rbind (prepack_setup_breakdown_us capture) (\<lambda>breakdown.
     rbind (prepack_setup_primary_phase capture) (\<lambda>primary.
     rbind (family_of_capture same_backend) (\<lambda>same_family.
     rbind (family_of_capture best_nonreuse) (\<lambda>best_family.
     let amortized = (case (prepack_setup, repeats_float capture) of
           (Some p, Some r) \<Rightarrow> Some (flt_div p r) | _ \<Rightarrow> None) in Inr
     [(''setup_inclusive_median_end_to_end_us'', float_val candidate_setup),
      (''candidate_median_end_to_end_us'', float_val candidate_median),
      (''prepack_setup_us'', float_val prepack_setup),
      (''prepack_setup_breakdown_us'', breakdown_val breakdown),
      (''prepack_setup_primary_phase'', opt_str primary),
      (''declared_repeat_count'', opt_str (normalized_positive_int (dget capture ''repeats''))),
      (''setup_amortized_us'', float_val amortized),
      (''setup_share_of_setup_inclusive'', float_val (share_of amortized candidate_setup)),
      (''same_backend_nonreuse_backend'', same_family),
      (''same_backend_nonreuse_capture'', path_of_capture same_backend),
      (''same_backend_nonreuse_median_end_to_end_us'', float_val same_time),
      (''best_nonreuse_backend'', best_family),
      (''best_nonreuse_capture'', path_of_capture best_nonreuse),
      (''best_nonreuse_median_end_to_end_us'', float_val best_time),
      (''speedup_vs_same_backend_setup_inclusive'', float_val (share_of same_time candidate_setup)),
      (''speedup_vs_best_nonreuse_setup_inclusive'', float_val (share_of best_time candidate_setup)),
      (''blockers'', str_list (sorted_set
         (reuse_blockers capture same_backend best_nonreuse candidate_setup same_time best_time)))])))))))))"

definition inclusive_if :: "pydict option \<Rightarrow> pyfloat option res" where
  "inclusive_if capture =
     (case capture of None \<Rightarrow> Inr None
      | Some c \<Rightarrow> if c = [] then Inr None else setup_inclusive_end_to_end_us c False)"

definition setup_cost_if :: "pydict option \<Rightarrow> pyfloat option res" where
  "setup_cost_if capture =
     (case capture of None \<Rightarrow> Inr None | Some c \<Rightarrow> if c = [] then Inr None else setup_cost_us c False)"

definition graph_blockers :: "pydict \<Rightarrow> pydict option \<Rightarrow> pyfloat option \<Rightarrow> pyfloat option \<Rightarrow> string list" where
  "graph_blockers capture baseline graph_setup baseline_setup =
     baseline_blockers baseline ''missing_same_contract_non_graph_baseline'' ''non_graph_baseline_not_release_review''
     @ block_if (graph_setup = None \<or> baseline_setup = None) ''missing_graph_setup_inclusive_timing''
     @ block_if (\<not> graph_status_available capture) ''graph_replay_not_available''
     @ block_if (both_le baseline_setup graph_setup) ''graph_not_faster_than_non_graph_setup_inclusive''
     @ checksum_match_blockers capture baseline ''non_graph_baseline''"

text \<open>The declared repeats, and a setup divided by them: \<open>float\<close> of a huge count overflows.\<close>

definition declared_repeats :: "pydict \<Rightarrow> int option" where
  "declared_repeats capture =
     (let v = dget capture ''repeats'' in if is_int_value v \<and> 0 < int_of v then Some (int_of v) else None)"

definition per_repeat :: "pyfloat option \<Rightarrow> int option \<Rightarrow> pyfloat option res" where
  "per_repeat setup repeats =
     (case (setup, repeats) of
        (Some s, Some n) \<Rightarrow> rbind (float_of_int n) (\<lambda>r. Inr (Some (flt_div s r)))
      | _ \<Rightarrow> Inr None)"

definition difference_of :: "pyfloat option \<Rightarrow> pyfloat option \<Rightarrow> pyfloat option" where
  "difference_of a b = (case (a, b) of (Some x, Some y) \<Rightarrow> Some (flt_sub x y) | _ \<Rightarrow> None)"

definition int_val :: "int option \<Rightarrow> pyval" where
  "int_val n = (case n of None \<Rightarrow> PNone | Some m \<Rightarrow> PInt m)"

definition hip_graph_replay_review :: "pydict \<Rightarrow> pydict option \<Rightarrow> pydict res" where
  "hip_graph_replay_review capture baseline =
     rbind (setup_inclusive_end_to_end_us capture True) (\<lambda>graph_setup.
     rbind (inclusive_if baseline) (\<lambda>baseline_setup.
     rbind (median_phase capture ''end_to_end'') (\<lambda>graph_median.
     rbind (median_if baseline ''end_to_end'') (\<lambda>baseline_median.
     rbind (setup_cost_us capture True) (\<lambda>graph_total.
     rbind (setup_cost_if baseline) (\<lambda>baseline_total.
     rbind (break_even_repeat_count baseline_median graph_median baseline_total graph_total) (\<lambda>break_even.
     let repeats = declared_repeats capture in
     rbind (graph_numeric_value capture ''capture_us'') (\<lambda>capture_us.
     rbind (graph_numeric_value capture ''instantiate_us'') (\<lambda>instantiate_us.
     rbind (per_repeat graph_total repeats) (\<lambda>graph_share.
     rbind (family_of_capture baseline) (\<lambda>baseline_family.
     rbind (if nonzero_float baseline_setup then per_repeat baseline_total repeats else Inr None) (\<lambda>baseline_share. Inr
     [(''setup_inclusive_median_end_to_end_us'', float_val graph_setup),
      (''candidate_median_end_to_end_us'', float_val graph_median),
      (''graph_capture_us'', float_val capture_us), (''graph_instantiate_us'', float_val instantiate_us),
      (''graph_total_setup_us'', float_val graph_total),
      (''graph_setup_amortized_us'', float_val graph_share),
      (''graph_setup_share_of_setup_inclusive'', float_val (share_of graph_share graph_setup)),
      (''baseline_backend'', baseline_family), (''baseline_capture'', path_of_capture baseline),
      (''baseline_median_end_to_end_us'', float_val baseline_median),
      (''baseline_total_setup_us'', float_val baseline_total),
      (''baseline_setup_inclusive_median_end_to_end_us'', float_val baseline_setup),
      (''baseline_setup_share_of_setup_inclusive'', float_val (share_of baseline_share baseline_setup)),
      (''steady_state_delta_us'', float_val (difference_of baseline_median graph_median)),
      (''graph_setup_overhead_vs_baseline_us'', float_val (difference_of graph_total baseline_total)),
      (''break_even_repeat_count'', int_val break_even), (''declared_repeat_count'', int_val repeats),
      (''declared_repeats_meet_break_even'', PBool (case (repeats, break_even) of
         (Some r, Some b) \<Rightarrow> b \<le> r | _ \<Rightarrow> False)),
      (''speedup_vs_non_graph_setup_inclusive'', float_val (share_of baseline_setup graph_setup)),
      (''blockers'', str_list (sorted_set (graph_blockers capture baseline graph_setup baseline_setup)))]))))))))))))"

section \<open>Break-even\<close>

text \<open>The total cost of \<open>k\<close> repeats after a setup.\<close>

definition total_cost :: "rat \<Rightarrow> rat \<Rightarrow> int \<Rightarrow> rat" where
  "total_cost setup median k = setup + of_int k * median"

lemma cost_less_iff:
  assumes "cm < bm"
  shows "total_cost cs cm k < total_cost bs bm k \<longleftrightarrow> (cs - bs) / (bm - cm) < of_int k"
  using assms by (simp add: total_cost_def divide_less_eq algebra_simps)

text \<open>C28:
  When a captured graph repeats faster than its baseline and no rounding occurs, the reported break-even
  count is the least number of repeats from which the graph, its capture and instantiation included,
  costs less than the baseline with its own setup.
\<close>

theorem break_even_least:
  assumes "cm < bm" and "flt_sub (FFin bm) (FFin cm) = FFin (bm - cm)" and "flt_sub (FFin cs) (FFin bs) = FFin (cs - bs)"
    and "rnd64 ((cs - bs) / (bm - cm)) = FFin ((cs - bs) / (bm - cm))"
  shows "\<exists>n\<ge>1. break_even_repeat_count (Some (FFin bm)) (Some (FFin cm)) (Some (FFin bs)) (Some (FFin cs)) = Inr (Some n)
    \<and> (\<forall>k\<ge>1. total_cost cs cm k < total_cost bs bm k \<longleftrightarrow> n \<le> k)"
proof (cases "cs \<le> bs")
  case True
  then have "(cs - bs) / (bm - cm) \<le> 0" using assms(1) by (simp add: divide_nonpos_pos)
  then have "total_cost cs cm k < total_cost bs bm k" if "1 \<le> k" for k
    using that by (simp add: cost_less_iff [OF assms(1)])
  moreover have "break_even_repeat_count (Some (FFin bm)) (Some (FFin cm)) (Some (FFin bs)) (Some (FFin cs)) = Inr (Some 1)"
    using assms True by (auto simp: break_even_repeat_count_def break_even_of_def flt_eq_def flt_le_def Let_def)
  ultimately show ?thesis by auto
next
  case False
  let ?q = "(cs - bs) / (bm - cm)"
  have q: "0 < ?q" using assms(1) False by (simp add: divide_pos_pos)
  have "break_even_repeat_count (Some (FFin bm)) (Some (FFin cm)) (Some (FFin bs)) (Some (FFin cs))
      = Inr (Some (max 1 (\<lfloor>?q\<rfloor> + 1)))"
    using assms False by (auto simp: break_even_repeat_count_def break_even_of_def flt_eq_def flt_le_def flt_floor_def Let_def)
  moreover have "total_cost cs cm k < total_cost bs bm k \<longleftrightarrow> \<lfloor>?q\<rfloor> + 1 \<le> k" for k
    by (simp only: cost_less_iff [OF assms(1)]) linarith
  moreover have "0 \<le> \<lfloor>?q\<rfloor>" using q by linarith
  ultimately show ?thesis by (intro exI [of _ "\<lfloor>?q\<rfloor> + 1"]) auto
qed

theorem break_even_least_witness:
  "\<exists>n\<ge>1. break_even_repeat_count (Some (FFin 10)) (Some (FFin 8)) (Some (FFin 1)) (Some (FFin 9)) = Inr (Some n)
    \<and> (\<forall>k\<ge>1. total_cost 9 8 k < total_cost 1 10 k \<longleftrightarrow> n \<le> k)"
proof (rule break_even_least)
  show "flt_sub (FFin 10) (FFin 8) = FFin (10 - 8)" using rnd64_int [of 2] by (simp add: flt_sub_def)
  show "flt_sub (FFin 9) (FFin 1) = FFin (9 - 1)" using rnd64_int [of 8] by (simp add: flt_sub_def)
  show "rnd64 ((9 - 1) / (10 - 8)) = FFin ((9 - 1) / (10 - 8))" using rnd64_int [of 4] by simp
qed simp

end
