(* ===== verification/Review_Summary.thy ===== *)
theory Review_Summary
  imports Review_Timing Autotune_Cache "HOL-Library.Product_Lexorder"
begin

text \<open>
  The summary of a review in \<open>tools/benchmark_sweep_lib/review.py\<close>: counts of blockers, loss phases and
  bottlenecks over all groups, the examples it shows, and the list of work it proposes. A group and its
  candidates are the dicts of the report; each group contributes a \<open>summary_part\<close>, and the counters
  count the contributions in the order of the loop.
\<close>

section \<open>Counters\<close>

definition tally_key :: "('k \<times> int) list \<Rightarrow> 'k \<Rightarrow> ('k \<times> int) list" where
  "tally_key d k = dict_set k ((case map_of d k of None \<Rightarrow> 0 | Some n \<Rightarrow> n) + 1) d"

definition counter_of :: "'k list \<Rightarrow> ('k \<times> int) list" where
  "counter_of ks = foldl tally_key [] ks"

definition counter_get :: "('k \<times> int) list \<Rightarrow> 'k \<Rightarrow> int" where
  "counter_get d k = (case map_of d k of None \<Rightarrow> 0 | Some n \<Rightarrow> n)"

text \<open>\<open>Counter.most_common()\<close>: by falling count, equal counts in the order of their first occurrence.\<close>

definition most_common :: "('k \<times> int) list \<Rightarrow> ('k \<times> int) list" where
  "most_common d = sort_key (\<lambda>p. - snd p) d"

definition counter_dict :: "(string \<times> int) list \<Rightarrow> pyval" where
  "counter_dict d = PDict (map (\<lambda>(k, n). (k, PInt n)) (most_common d))"

definition nest_count :: "(string \<times> (string \<times> int) list) list \<Rightarrow> (string \<times> string) \<times> int \<Rightarrow>
    (string \<times> (string \<times> int) list) list" where
  "nest_count nested entry =
     (case entry of ((outer, inner), n) \<Rightarrow>
        dict_set outer (dict_set inner n (case map_of nested outer of None \<Rightarrow> [] | Some d \<Rightarrow> d)) nested)"

definition nested_counter :: "((string \<times> string) \<times> int) list \<Rightarrow> pyval" where
  "nested_counter counter =
     PDict (map (\<lambda>(outer, d). (outer, PDict (map (\<lambda>(inner, n). (inner, PInt n)) d)))
       (foldl nest_count [] (most_common counter)))"

section \<open>Rows about one candidate\<close>

definition compact_candidate_route :: "pydict \<Rightarrow> pydict \<Rightarrow> pydict" where
  "compact_candidate_route grp candidate_row =
     [(''semantics'', dget grp ''semantics''),
      (''shape'', PDict (dict_or_empty (dget grp ''shape''))),
      (''shape_family'', dget grp ''shape_family''),
      (''scenario_families'', py_or (dget grp ''scenario_families'') (PList [])),
      (''backend'', dget candidate_row ''backend''),
      (''selected_kernel'', dget candidate_row ''selected_kernel''),
      (''median_end_to_end_us'', dget candidate_row ''median_end_to_end_us''),
      (''selection_end_to_end_us'', dget candidate_row ''selection_end_to_end_us''),
      (''speedup_vs_direct_hip'', dget candidate_row ''speedup_vs_direct_hip''),
      (''primary_loss_phase_vs_direct_hip'', dget candidate_row ''primary_loss_phase_vs_direct_hip''),
      (''bottleneck'', dget candidate_row ''bottleneck''),
      (''capture'', dget candidate_row ''capture'')]"

definition group_scenario_families :: "pydict \<Rightarrow> string list" where
  "group_scenario_families grp =
     (let names = map str_of (filter is_nonempty_str (elems_of (dget grp ''scenario_families'')))
      in if names = [] then [''unknown''] else names)"

text \<open>The slowest phase against the direct route, over the phases that have a diagnosis.\<close>

definition summary_speedups :: "pydict \<Rightarrow> (string \<times> pyval) list" where
  "summary_speedups diagnostics =
     concat (map (\<lambda>phase. case dget diagnostics phase of
       PDict d \<Rightarrow> [(phase, dget d ''speedup_vs_direct_hip'')] | _ \<Rightarrow> []) REVIEW_PHASES)"

definition slowest_step :: "string option \<times> pyfloat \<Rightarrow> string \<times> pyval \<Rightarrow> (string option \<times> pyfloat) res" where
  "slowest_step worst phase_speedup =
     (let (phase, speedup) = phase_speedup in
      rbind (if isinstance_num speedup \<and> val_lt (PInt 0) speedup then float_or_none speedup else Inr None) (\<lambda>v. Inr
      (case v of
         None \<Rightarrow> worst
       | Some x \<Rightarrow> let over = flt_div (FFin 1) x in
           if flt_lt (FFin 1) over \<and> flt_lt (snd worst) over then (Some phase, over) else worst)))"

definition phase_ratio_summary_for_candidate :: "pydict \<Rightarrow> pydict res" where
  "phase_ratio_summary_for_candidate candidate_row =
     (let speedups = summary_speedups (dict_or_empty (dget candidate_row ''phase_diagnostics'')) in
      rbind (rfoldM slowest_step (None, FFin 0) speedups) (\<lambda>worst. Inr
        [(''backend'', dget candidate_row ''backend''), (''selected_kernel'', dget candidate_row ''selected_kernel''),
         (''slowest_phase_vs_direct_hip'', opt_str (fst worst)),
         (''slowest_phase_candidate_over_direct'',
            (if fst worst = None then PNone else PFloat (snd worst))),
         (''phase_speedups_vs_direct_hip'', PDict speedups)]))"

section \<open>Proposed work\<close>

definition work_row :: "string \<Rightarrow> string \<Rightarrow> string \<Rightarrow> pydict" where
  "work_row priority work reason =
     [(''priority'', PStr priority), (''work'', PStr work), (''reason'', PStr reason)]"

definition WORK_OF_BLOCKER :: "(string \<times> string) list" where
  "WORK_OF_BLOCKER =
     [(''reuse_not_faster_than_same_backend_setup_inclusive'', ''reduce_prepack_setup_or_reuse_steady_state_cost''),
      (''reuse_not_faster_than_best_nonreuse_setup_inclusive'',
       ''reduce_prepack_setup_or_raise_declared_reuse_count_with_contract_evidence''),
      (''graph_not_faster_than_non_graph_setup_inclusive'', ''improve_graph_replay_break_even_or_keep_graph_benchmark_only''),
      (''missing_graph_setup_inclusive_timing'', ''fix_graph_setup_inclusive_timing_metadata''),
      (''missing_amdgpu_builtin_matrix_isa_histogram'', ''attach_compiled_matrix_isa_reports_before_builtin_promotion''),
      (''missing_selected_amdgpu_builtin_matrix_instruction'',
       ''compile_selected_amdgpu_builtin_kernel_with_expected_matrix_instruction''),
      (''missing_final_output_contract_metadata'', ''attach_final_output_contract_metadata_before_promotion''),
      (''missing_final_output_kernel_identity'', ''attach_final_output_kernel_identity_before_promotion''),
      (''missing_export_variant_metadata'', ''attach_export_variant_metadata_before_promotion''),
      (''missing_export_kernel_identity'', ''attach_export_kernel_identity_before_promotion''),
      (''export_variant_not_final_host_output'', ''reclassify_residue_current_or_capture_final_host_output''),
      (''missing_export_output_layout'', ''attach_export_output_layout_before_promotion''),
      (''missing_export_d2h_policy'', ''attach_export_d2h_policy_before_promotion''),
      (''missing_reconstruction_variant_metadata'', ''attach_reconstruction_variant_metadata_before_promotion''),
      (''missing_reconstruction_kernel_identity'', ''attach_reconstruction_kernel_identity_before_promotion''),
      (''missing_reconstruction_prefix_count'', ''attach_reconstruction_prefix_count_before_promotion''),
      (''missing_direct_hip_skinny_gemv_kernel_identity'', ''select_direct_hip_skinny_gemv_kernel_before_promotion''),
      (''missing_direct_hip_skinny_gemv_execution_mode'', ''route_direct_hip_skinny_captures_through_gemv_mode''),
      (''missing_vector_alu_skinny_gemv_kernel_identity'', ''select_vector_alu_skinny_gemv_kernel_before_promotion''),
      (''missing_vector_alu_skinny_gemv_execution_mode'', ''route_vector_alu_skinny_captures_through_gemv_mode''),
      (''missing_skinny_gemv_gpu_event_phase'', ''attach_skinny_gemv_gpu_event_phase_timing''),
      (''missing_native_to_rns_bridge_forced_metadata'', ''attach_native_to_rns_bridge_forced_metadata''),
      (''missing_native_to_rns_handoff_scope'', ''attach_native_to_rns_handoff_phase_scope''),
      (''missing_native_to_rns_phase_availability'', ''attach_native_to_rns_phase_availability_metadata''),
      (''missing_vector_to_rns_chain_metadata'', ''attach_vector_to_rns_chain_metadata''),
      (''vector_to_rns_chain_control_mode_mismatch'', ''fix_vector_to_rns_chain_control_mode_metadata''),
      (''missing_vector_to_rns_chain_producer_backend'', ''attach_vector_to_rns_chain_producer_backend''),
      (''missing_vector_to_rns_chain_consumer_backend'', ''attach_vector_to_rns_chain_consumer_backend''),
      (''missing_vector_to_rns_chain_phase_scope'', ''attach_vector_to_rns_chain_phase_scope''),
      (''missing_sparse_a_4_to_2_scenario_contract'', ''route_sparse_a_captures_through_explicit_sparse_contract_scenarios''),
      (''sparse_a_k_not_divisible_by_4'', ''fix_sparse_a_shapes_to_k_divisible_by_4''),
      (''missing_sparse_a_4_to_2_input_distribution'', ''attach_sparse_a_4_to_2_input_distribution_metadata''),
      (''missing_sparse_a_runtime_kernel_identity'', ''compile_sparse_a_matrix_core_runtime_kernel''),
      (''dense_sparse_a_baseline_used_sparse_kernel'', ''separate_dense_sparse_input_baseline_from_sparse_runtime_kernel''),
      (''missing_sparse_a_matrix_instruction_sparsity'', ''attach_sparse_a_matrix_instruction_sparsity_metadata''),
      (''missing_sparse_a_matrix_instruction_family'', ''attach_sparse_a_smfmac_or_swmmac_family_metadata''),
      (''missing_amdgpu_builtin_operand_signedness_contract'', ''attach_amdgpu_builtin_operand_signedness_contract''),
      (''missing_amdgpu_builtin_a_value_contract'', ''attach_amdgpu_builtin_a_value_contract''),
      (''missing_amdgpu_builtin_b_value_contract'', ''attach_amdgpu_builtin_dense_b_value_contract''),
      (''missing_sparse_a_contract_metadata'', ''attach_sparse_a_contract_metadata''),
      (''missing_sparse_a_dense_b_contract'', ''attach_sparse_a_dense_b_contract_metadata''),
      (''missing_sparse_a_compression_index_layout'', ''attach_sparse_a_compression_index_layout_metadata''),
      (''missing_rdna_integer_modifier_policy'', ''attach_rdna_integer_modifier_policy_metadata''),
      (''missing_sparse_a_4_to_2_autotune_contract'', ''attach_sparse_a_4_to_2_autotune_contract_metadata''),
      (''amdgpu_builtin_selected_kernel_semantic_target_mismatch'',
       ''align_amdgpu_builtin_selected_kernel_with_semantics_and_target''),
      (''amdgpu_builtin_tile_variant_kernel_mismatch'', ''align_amdgpu_builtin_tile_variant_with_selected_kernel''),
      (''amdgpu_builtin_tile_variant_family_mismatch'', ''align_amdgpu_builtin_tile_variant_family_metadata''),
      (''amdgpu_builtin_tile_variant_shape_mismatch'', ''align_amdgpu_builtin_tile_variant_shape_metadata''),
      (''amdgpu_builtin_tile_variant_dtype_mismatch'', ''align_amdgpu_builtin_tile_variant_dtype_metadata''),
      (''not_faster_than_direct_hip'', ''optimize_accelerator_loss_phase_or_keep_direct_hip_production_winner''),
      (''not_faster_than_vector_alu'', ''specialize_native_vector_or_small_shape_path_before_matrix_engine_promotion'')]"

record summary_counts =
  sc_missing_baselines :: nat
  sc_checksum_mismatches :: nat
  sc_actionable :: "(string \<times> int) list"
  sc_loss_phases :: "(string \<times> int) list"
  sc_bottlenecks :: "(string \<times> int) list"
  sc_pack_split :: "(string \<times> int) list"
  sc_pack_dominant :: "(string \<times> int) list"
  sc_pack_rows :: "pydict list"
  sc_direct_hip_wins :: nat
  sc_promotable :: nat

definition row_if :: "bool \<Rightarrow> pydict \<Rightarrow> pydict list" where
  "row_if c row = (if c then [row] else [])"

definition counted_row :: "int \<Rightarrow> string \<Rightarrow> (string \<Rightarrow> string) \<Rightarrow> pydict list" where
  "counted_row n work reason = row_if (n \<noteq> 0) (work_row ''P1'' work (reason (show_int n)))"

definition native_pack_row :: "pydict \<Rightarrow> bool res" where
  "native_pack_row row =
     (if contains ''native'' (lower (py_str (py_or (dget row ''pack_layout'') (PStr [])))) then Inr True
      else rbind (py_iter (py_or (dget row ''scenario_families'') (PList []))) (\<lambda>families.
        Inr (list_ex (\<lambda>v. contains ''native'' (lower (py_str v))) families)))"

definition pack_work :: "summary_counts \<Rightarrow> pydict list res" where
  "pack_work sc =
     rbind (rmapM native_pack_row (sc_pack_rows sc)) (\<lambda>native.
     let missing_elision = int (length (filter (\<lambda>row. is_True (dget row ''source_versioned_inputs'')
           \<and> \<not> is_True (dget row ''same_source_version_pack_elision_available'')) (sc_pack_rows sc)));
         dominant = (\<lambda>(operand, work). counted_row (counter_get (sc_pack_dominant sc) operand) work
           (\<lambda>n. ''pack_dominant_operand:'' @ operand @ ''='' @ n)) in Inr
     (counted_row (counter_get (sc_pack_split sc) ''split_missing'')
        ''attach_pack_a_b_phase_split_timing_before_pack_kernel_work''
        (\<lambda>n. n @ '' pack-bearing candidates still lack A/B split timing'')
      @ concat (map dominant
          [(''A'', ''optimize_a_side_pack_kernel_or_prepack_a_reuse''),
           (''B'', ''optimize_b_side_pack_kernel_or_prepack_b_reuse''),
           (''balanced'', ''optimize_balanced_pack_path_or_fuse_native_pack_gemm'')])
      @ counted_row missing_elision ''enable_source_versioned_pack_elision_for_repeated_inputs''
          (\<lambda>n. n @ '' source-versioned pack rows cannot elide same-version repack'')
      @ counted_row (int (length (filter (\<lambda>b. b) native)))
          ''implement_fused_native_pack_plus_gemm_for_native_input_workloads''
          (\<lambda>n. n @ '' pack-heavy rows involve native input or native-to-RNS layouts'')))"

definition has_unresolved_work :: "summary_counts \<Rightarrow> bool" where
  "has_unresolved_work sc \<longleftrightarrow>
     sc_checksum_mismatches sc \<noteq> 0 \<or> sc_missing_baselines sc \<noteq> 0 \<or> sc_actionable sc \<noteq> []
     \<or> sc_loss_phases sc \<noteq> [] \<or> sc_direct_hip_wins sc \<noteq> 0 \<or> sc_promotable sc = 0"

definition review_next_work :: "summary_counts \<Rightarrow> pydict list res" where
  "review_next_work sc =
     rbind (if has_unresolved_work sc then pack_work sc else Inr []) (\<lambda>pack_rows. Inr
     (row_if (sc_checksum_mismatches sc \<noteq> 0)
        (work_row ''P0'' ''fix_checksum_mismatches_before_performance_promotion''
           (show_nat (sc_checksum_mismatches sc) @ '' review groups have candidate checksum mismatches''))
      @ row_if (sc_missing_baselines sc \<noteq> 0)
        (work_row ''P0'' ''fix_missing_required_baselines_or_reclassify_invalid_scenarios''
           (show_nat (sc_missing_baselines sc) @ '' review groups are missing required baselines''))
      @ concat (map (\<lambda>(blocker, work). counted_row (counter_get (sc_actionable sc) blocker) work
          (\<lambda>n. blocker @ ''='' @ n)) WORK_OF_BLOCKER)
      @ pack_rows
      @ map (\<lambda>(phase, n). work_row ''P1'' (''optimize_'' @ phase @ ''_phase'')
          (show_int n @ '' actionable accelerator candidates report '' @ phase @ '' as primary loss phase''))
          (take 3 (most_common (sc_loss_phases sc)))
      @ (if has_unresolved_work sc
         then map (\<lambda>(bottleneck, n). work_row ''P1'' (''address_'' @ bottleneck)
            (show_int n @ '' fastest routes or actionable candidates classify as '' @ bottleneck))
            (filter (\<lambda>(bottleneck, n). bottleneck \<noteq> ''unknown'') (take 3 (most_common (sc_bottlenecks sc))))
         else [])
      @ row_if (sc_direct_hip_wins sc \<noteq> 0 \<and> sc_promotable sc = 0)
          (work_row ''P1'' ''treat_direct_hip_as_current_production_winner_and_target_accelerator_loss_phases''
             (''Direct HIP is fastest production route in '' @ show_nat (sc_direct_hip_wins sc)
              @ '' groups and no accelerator entries promoted''))))"

section \<open>Contributions\<close>

record candidate_part =
  cp_blockers :: "string list"
  cp_pack_split :: "string list"
  cp_pack_dominant :: "string list"
  cp_pack_rows :: "pydict list"
  cp_actionable :: "string list"
  cp_loss :: "(string \<times> string \<times> string \<times> string \<times> string list \<times> pydict) list"
  cp_bottleneck :: "string list"
  cp_setup :: "pydict list"

definition bottleneck_class :: "pydict \<Rightarrow> string" where
  "bottleneck_class row =
     py_str (py_or (dget (dict_or_empty (dget row ''bottleneck'')) ''class'') (PStr ''unknown''))"

definition pack_row :: "pydict \<Rightarrow> pydict \<Rightarrow> pydict \<Rightarrow> pydict" where
  "pack_row grp candidate_row diagnostics =
     map (\<lambda>name. (name, dget grp name)) [''semantics'', ''shape'', ''shape_family'', ''scenario_families'']
     @ map (\<lambda>name. (name, dget candidate_row name)) [''backend'', ''selected_kernel'', ''capture'']
     @ map (\<lambda>name. (name, dget diagnostics name))
         [''pack_median_us'', ''pack_a_median_us'', ''pack_b_median_us'', ''pack_share_of_end_to_end'',
          ''split_available'', ''dominant_operand'', ''pack_mode'', ''pack_layout'', ''source_versioned_inputs'',
          ''same_source_version_pack_elision_available'']"

definition is_actionable :: "pydict \<Rightarrow> string list \<Rightarrow> bool res" where
  "is_actionable candidate_row blockers =
     (if is_True (dget candidate_row ''accelerator_backend'')
         \<or> list_ex (\<lambda>b. b \<in> set ROUTE_METADATA_BLOCKERS) blockers
      then in_vals (dget candidate_row ''scenario_promotion_scope'') [PNone, PStr ''release_review_candidate'']
      else Inr False)"

definition setup_row :: "pydict \<Rightarrow> pydict \<Rightarrow> pydict" where
  "setup_row grp candidate_row =
     compact_candidate_route grp candidate_row
     @ [(''prepacked_reuse_review'', dget candidate_row ''prepacked_reuse_review''),
        (''hip_graph_replay_review'', dget candidate_row ''hip_graph_replay_review''),
        (''promotion_blockers'', py_or (dget candidate_row ''promotion_blockers'') (PList []))]"

definition candidate_part_of :: "pydict \<Rightarrow> pydict \<Rightarrow> candidate_part res" where
  "candidate_part_of grp candidate_row =
     (let blockers = map py_str (elems_of (dget candidate_row ''promotion_blockers''));
          diagnostics = dget candidate_row ''pack_diagnostics'';
          d = items_of diagnostics;
          share = dget d ''pack_share_of_end_to_end'';
          phase = dget candidate_row ''primary_loss_phase_vs_direct_hip'' in
      rbind (is_actionable candidate_row blockers) (\<lambda>actionable. Inr
      \<lparr>cp_blockers = blockers,
       cp_pack_split = (if \<not> is_dict diagnostics then []
         else if is_True (dget d ''split_available'') then [''split_available''] else [''split_missing'']),
       cp_pack_dominant = (if is_dict diagnostics \<and> is_nonempty_str (dget d ''dominant_operand'')
         then [str_of (dget d ''dominant_operand'')] else []),
       cp_pack_rows = (if is_dict diagnostics \<and> isinstance_num share \<and> val_lt (PInt 0) share
         then [pack_row grp candidate_row d] else []),
       cp_actionable = (if actionable
         then filter (\<lambda>b. b \<notin> {''not_accelerator_backend'', ''scenario_scope_not_autotune_promotable''}) blockers
         else []),
       cp_loss = (if actionable \<and> is_nonempty_str phase
         then [(str_of phase, text_or candidate_row ''backend'' ''unknown'', text_or grp ''semantics'' ''unknown'',
                text_or grp ''shape_family'' ''unknown'', group_scenario_families grp,
                compact_candidate_route grp candidate_row)]
         else []),
       cp_bottleneck = (if actionable then [bottleneck_class candidate_row] else []),
       cp_setup = (if is_dict (dget candidate_row ''prepacked_reuse_review'')
           \<or> is_dict (dget candidate_row ''hip_graph_replay_review'')
         then [setup_row grp candidate_row] else [])\<rparr>))"

record summary_part =
  sp_missing :: bool
  sp_mismatch :: bool
  sp_production :: "string list"
  sp_accelerator :: "string list"
  sp_bottleneck :: "string list"
  sp_direct_hip :: "pydict list"
  sp_candidates :: "candidate_part list"

definition as_dict :: "pyval \<Rightarrow> pydict res" where
  "as_dict v = (case v of PDict d \<Rightarrow> Inr d | _ \<Rightarrow> Inl AttributeError)"

definition summary_part_of :: "pydict \<Rightarrow> summary_part res" where
  "summary_part_of grp =
     (let production = dget grp ''fastest_production_route''; accelerator = dget grp ''fastest_accelerator_route'' in
      rbind (py_iter (dget_or grp ''candidates'' (PList []))) (\<lambda>rows.
      rbind (rmapM (\<lambda>v. rbind (as_dict v) (candidate_part_of grp)) rows) (\<lambda>parts. Inr
      \<lparr>sp_missing = truthy (dget grp ''missing_required_baselines''),
       sp_mismatch = truthy (dget grp ''checksum_mismatches''),
       sp_production = (if is_dict production then [py_str (vget production ''backend'')] else []),
       sp_accelerator = (if is_dict accelerator then [py_str (vget accelerator ''backend'')] else []),
       sp_bottleneck = (if is_dict production then [bottleneck_class (items_of production)] else [])
         @ concat (map cp_bottleneck parts),
       sp_direct_hip = (if is_dict production \<and> eq_str (vget production ''backend'') ''hip-direct''
         then [compact_candidate_route grp (items_of production)] else []),
       sp_candidates = parts\<rparr>)))"

section \<open>The summary\<close>

text \<open>Sorting by falling share: the shares are positive numbers.\<close>

definition share_key :: "pydict \<Rightarrow> int \<times> rat" where
  "share_key row = (case num_of (dget row ''pack_share_of_end_to_end'') of
       Some FInf \<Rightarrow> (- 1, 0) | Some (FFin r) \<Rightarrow> (0, - r) | _ \<Rightarrow> (0, 0))"

definition dict_list :: "pydict list \<Rightarrow> pyval" where
  "dict_list ds = PList (map PDict ds)"

definition summary_dict ::
  "nat \<Rightarrow> summary_part list \<Rightarrow> summary_counts \<Rightarrow> pydict list \<Rightarrow> pydict" where
  "summary_dict group_count parts sc next_work =
     (let cands = concat (map sp_candidates parts);
          losses = concat (map cp_loss cands);
          pairs = (\<lambda>f. nested_counter (counter_of (concat (map f losses)))) in
      [(''group_count'', PInt (int group_count)),
       (''promotable_autotune_entry_count'', PInt (int (sc_promotable sc))),
       (''missing_required_baseline_group_count'', PInt (int (sc_missing_baselines sc))),
       (''checksum_mismatch_group_count'', PInt (int (sc_checksum_mismatches sc))),
       (''review_blocker_counts'', counter_dict (counter_of (concat (map cp_blockers cands)))),
       (''actionable_blocker_counts'', counter_dict (sc_actionable sc)),
       (''loss_phase_counts'', counter_dict (sc_loss_phases sc)),
       (''loss_phase_by_backend'', pairs (\<lambda>(phase, backend, _). [(backend, phase)])),
       (''loss_phase_by_semantics'', pairs (\<lambda>(phase, _, semantics, _). [(semantics, phase)])),
       (''loss_phase_by_shape_family'', pairs (\<lambda>(phase, _, _, family, _). [(family, phase)])),
       (''loss_phase_by_scenario_family'',
          pairs (\<lambda>(phase, _, _, _, families, _). map (\<lambda>f. (f, phase)) families)),
       (''bottleneck_counts'', counter_dict (sc_bottlenecks sc)),
       (''fastest_production_route_counts'', counter_dict (counter_of (concat (map sp_production parts)))),
       (''fastest_accelerator_route_counts'', counter_dict (counter_of (concat (map sp_accelerator parts)))),
       (''direct_hip_production_wins'', dict_list (concat (map sp_direct_hip parts))),
       (''loss_phase_examples'', dict_list (take 40 (map (\<lambda>(_, _, _, _, _, row). row) losses))),
       (''setup_sensitive_candidates'', dict_list (take 40 (concat (map cp_setup cands)))),
       (''pack_split_counts'', counter_dict (sc_pack_split sc)),
       (''pack_dominant_operand_counts'', counter_dict (sc_pack_dominant sc)),
       (''pack_diagnostics'', dict_list (take 40 (sort_key share_key (sc_pack_rows sc)))),
       (''next_work'', dict_list next_work)])"

definition summary_counts_of :: "summary_part list \<Rightarrow> nat \<Rightarrow> summary_counts" where
  "summary_counts_of parts promotable =
     (let cands = concat (map sp_candidates parts) in
      \<lparr>sc_missing_baselines = length (filter sp_missing parts),
       sc_checksum_mismatches = length (filter sp_mismatch parts),
       sc_actionable = counter_of (concat (map cp_actionable cands)),
       sc_loss_phases = counter_of (map fst (concat (map cp_loss cands))),
       sc_bottlenecks = counter_of (concat (map sp_bottleneck parts)),
       sc_pack_split = counter_of (concat (map cp_pack_split cands)),
       sc_pack_dominant = counter_of (concat (map cp_pack_dominant cands)),
       sc_pack_rows = concat (map cp_pack_rows cands),
       sc_direct_hip_wins = length (concat (map sp_direct_hip parts)),
       sc_promotable = promotable\<rparr>)"

definition build_review_summary :: "pydict list \<Rightarrow> pydict list \<Rightarrow> pydict res" where
  "build_review_summary groups promotable_entries =
     rbind (rmapM summary_part_of groups) (\<lambda>parts.
     let sc = summary_counts_of parts (length promotable_entries) in
     rbind (review_next_work sc) (\<lambda>next_work. Inr (summary_dict (length groups) parts sc next_work)))"

end
