(* ===== verification/Capture_Review.thy ===== *)
theory Capture_Review
  imports Review_Summary Target_Validation
begin

text \<open>
  \<open>review_captures\<close> of \<open>tools/benchmark_sweep_lib/review.py\<close>: captures with one contract key form a group,
  every capture of a group becomes a candidate with the blockers of its promotion, and the fastest
  candidate without a blocker becomes the group's promotable cache entry.

  The clock (\<open>now\<close>, the formatted UTC time) is a parameter. \<open>isa_index\<close> is the index of ISA reports by
  backend and target; of a report only the histogram of matrix instructions is read.
\<close>

section \<open>Matrix instructions\<close>

definition BACKEND_ALIASES :: "(string \<times> string) list" where
  "BACKEND_ALIASES =
     [(''direct-hip'', ''direct-hip''), (''hip-direct'', ''direct-hip''), (''hip'', ''direct-hip''),
      (''hipblaslt'', ''hipblaslt''), (''ck'', ''ck''), (''rocwmma'', ''rocwmma''), (''wmma'', ''rocwmma''),
      (''amdgpu-builtins'', ''amdgpu-builtins''), (''amdgpu-builtin'', ''amdgpu-builtins''),
      (''amdgpu_builtins'', ''amdgpu-builtins''), (''vector-alu'', ''vector-alu''),
      (''vector-alu-int64'', ''vector-alu''), (''hip-vector-alu-int64'', ''vector-alu''),
      (''hip-vector-alu-int64-baseline'', ''vector-alu''), (''wrap64'', ''wrap64''), (''wrap64-byte-limb'', ''wrap64'')]"

definition normalized_backend :: "string \<Rightarrow> string option" where
  "normalized_backend backend =
     (if backend = [] then None
      else Some (case map_of BACKEND_ALIASES (lower backend) of None \<Rightarrow> lower backend | Some b \<Rightarrow> b))"

definition normalized_target :: "pyval \<Rightarrow> string option" where
  "normalized_target v =
     (if \<not> is_nonempty_str v \<or> lower (str_of v) \<in> {''none'', ''unknown''} then None
      else Some (takeWhile (\<lambda>c. c \<noteq> CHR '':'') (takeWhile (\<lambda>c. c \<noteq> CHR '','')
        (takeWhile (\<lambda>c. c \<noteq> CHR '';'') (lower (str_of v))))))"

definition isa_index_key :: "string \<Rightarrow> string option \<Rightarrow> string" where
  "isa_index_key backend tgt =
     backend @ ''|'' @ (case tgt of None \<Rightarrow> ''*'' | Some t \<Rightarrow> if t = [] then ''*'' else t)"

text \<open>A count that is no integer is left out; \<open>int\<close> of an infinity raises.\<close>

definition add_instruction :: "(string \<times> int) list \<Rightarrow> string \<times> pyval \<Rightarrow> (string \<times> int) list res" where
  "add_instruction histogram nc =
     (case py_int (snd nc) of
        Inr n \<Rightarrow> Inr (dict_set (fst nc) ((case map_of histogram (fst nc) of None \<Rightarrow> 0 | Some m \<Rightarrow> m) + n) histogram)
      | Inl OverflowError \<Rightarrow> Inl OverflowError
      | Inl _ \<Rightarrow> Inr histogram)"

definition aggregate_histogram :: "pydict list \<Rightarrow> pyval res" where
  "aggregate_histogram reports =
     (if reports = [] then Inr PNone
      else rbind (rfoldM add_instruction []
          (concat (map (\<lambda>r. items_of (dget r ''isa_matrix_instruction_histogram'')) reports))) (\<lambda>histogram.
        Inr (PDict (map (\<lambda>(k, n). (k, PInt n)) (sort_key fst histogram)))))"

definition lookup_isa_histogram :: "(string \<times> pydict list) list \<Rightarrow> string \<Rightarrow> pyval \<Rightarrow> pyval res" where
  "lookup_isa_histogram index backend tgt =
     (case normalized_backend backend of
        None \<Rightarrow> aggregate_histogram []
      | Some b \<Rightarrow> aggregate_histogram
          (case map_of index (isa_index_key b (normalized_target tgt)) of
             Some exact \<Rightarrow> exact
           | None \<Rightarrow> (case map_of index (isa_index_key b None) of Some reports \<Rightarrow> reports | None \<Rightarrow> [])))"

definition HISTOGRAM_PLACES :: "(string \<times> string) list" where
  "HISTOGRAM_PLACES = concat (map (\<lambda>key. map (Pair key)
       [''matrix_instruction_histogram'', ''matrix_instruction_counts'', ''mnemonic_histogram''])
     [''gpu_isa_report'', ''isa_report'', ''backend_isa_report'', ''compiled_isa''])"

definition matrix_instruction_histogram :: "(string \<times> pydict list) list option \<Rightarrow> pydict \<Rightarrow> pydict res" where
  "matrix_instruction_histogram isa_index capture =
     (let own = dget capture ''matrix_instruction_histogram'';
          nested = filter is_dict (map (\<lambda>(key, name). vget (dget capture key) name) HISTOGRAM_PLACES)
      in if is_dict own then Inr (items_of own)
         else if nested \<noteq> [] then Inr (items_of (hd nested))
         else case isa_index of None \<Rightarrow> Inr []
         | Some index \<Rightarrow> rbind (backend_id capture) (\<lambda>backend.
             rbind (lookup_isa_histogram index (backend_family_id backend)
               (py_or (dget (capture_device capture) ''gcn_arch'') (dget capture ''configured_amdgpu_targets'')))
             (\<lambda>h. Inr (items_of h))))"

section \<open>Facts about a group\<close>

text \<open>What each backend reports of some identity: complete when all do, compatible when they agree.\<close>

type_synonym identities = "(string \<times> string option) list"

definition identity_missing :: "identities \<Rightarrow> string list" where
  "identity_missing ids = sort (map fst (filter (\<lambda>p. snd p = None) ids))"

definition identity_complete :: "identities \<Rightarrow> bool" where
  "identity_complete ids \<longleftrightarrow> identity_missing ids = []"

definition identity_values :: "identities \<Rightarrow> string list" where
  "identity_values ids = remdups (concat (map (\<lambda>p. case snd p of None \<Rightarrow> [] | Some s \<Rightarrow> if s = [] then [] else [s]) ids))"

definition identity_compatible :: "identities \<Rightarrow> bool" where
  "identity_compatible ids \<longleftrightarrow> identity_complete ids \<and> length (identity_values ids) \<le> 1"

definition identity_blockers :: "identities \<Rightarrow> string \<Rightarrow> string \<Rightarrow> string list" where
  "identity_blockers ids missing mismatch =
     (if \<not> identity_complete ids then [missing] else block_if (\<not> identity_compatible ids) mismatch)"

record group_facts =
  gf_by_backend :: "(string \<times> pydict) list"
  gf_duplicates :: "string list"
  gf_semantics :: pyval
  gf_required :: "string list"
  gf_missing :: "string list"
  gf_targets :: identities
  gf_configured :: identities
  gf_toolchains :: identities
  gf_runtimes :: identities
  gf_drivers :: identities
  gf_compilers :: identities
  gf_commits :: identities
  gf_warmups :: identities
  gf_repeats :: identities
  gf_release :: bool
  gf_reference :: "string option \<times> pyval"

text \<open>The first capture of each backend.\<close>

definition first_by_backend :: "(string \<times> pydict) list \<Rightarrow> (string \<times> pydict) list" where
  "first_by_backend rows = map (\<lambda>(b, cs). (b, snd (hd cs))) (group_on fst rows)"

definition repeated_backends :: "(string \<times> pydict) list \<Rightarrow> string list" where
  "repeated_backends rows = sort (map fst (filter (\<lambda>(b, cs). 1 < length cs) (group_on fst rows)))"

definition ids_of :: "(pydict \<Rightarrow> string option) \<Rightarrow> (string \<times> pydict) list \<Rightarrow> identities" where
  "ids_of f rows = map (\<lambda>(b, c). (b, f c)) rows"

text \<open>\<open>capture.get("device", {}).get("gcn_arch")\<close>.\<close>

definition device_target :: "pydict \<Rightarrow> pyval res" where
  "device_target capture = rbind (as_dict (dget_or capture ''device'' (PDict []))) (\<lambda>d. Inr (dget d ''gcn_arch''))"

text \<open>The facts of a group from its rows, the targets read of its GPU rows, and the rows that were timed.\<close>

definition facts_record ::
  "string \<Rightarrow> (string \<times> pydict) list \<Rightarrow> pyval \<Rightarrow> string list \<Rightarrow> identities \<Rightarrow> (string \<times> pydict) list \<Rightarrow> group_facts" where
  "facts_record review_mode rows semantics required targets timed =
     (let by_backend = first_by_backend rows;
          gpu = filter (\<lambda>(b, c). backend_requires_gpu_target b) by_backend in
     \<lparr>gf_by_backend = by_backend, gf_duplicates = repeated_backends rows, gf_semantics = semantics,
      gf_required = required, gf_missing = filter (\<lambda>b. \<not> has_key by_backend b) required,
      gf_targets = targets,
      gf_configured = ids_of (\<lambda>c. normalized_target_id (dget c ''configured_amdgpu_targets'')) gpu,
      gf_toolchains = ids_of (\<lambda>c. normalized_target_id (dget (capture_hip_toolchain c) ''hip_sdk_or_rocm_version'')) gpu,
      gf_runtimes = ids_of (\<lambda>c. normalized_positive_int (dget (capture_device c) ''hip_runtime_version'')) gpu,
      gf_drivers = ids_of (\<lambda>c. normalized_positive_int (dget (capture_device c) ''hip_driver_version'')) gpu,
      gf_compilers = ids_of normalized_compiler_identity by_backend,
      gf_commits = ids_of (\<lambda>c. normalized_identity_text (dget c ''git_commit'')) by_backend,
      gf_warmups = ids_of (\<lambda>c. normalized_positive_int (dget c ''warmups'')) timed,
      gf_repeats = ids_of (\<lambda>c. normalized_positive_int (dget c ''repeats'')) timed,
      gf_release = (review_mode = ''release'' \<and> timed \<noteq> [] \<and> list_all (\<lambda>(b, c). release_capture_satisfied c) timed),
      gf_reference = reference_checksum_for_group by_backend\<rparr>)"

definition backend_rows :: "pydict list \<Rightarrow> (string \<times> pydict) list res" where
  "backend_rows items = rmapM (\<lambda>c. rbind (backend_id c) (\<lambda>b. Inr (b, c))) items"

definition group_facts_of :: "string \<Rightarrow> pydict list \<Rightarrow> group_facts res" where
  "group_facts_of review_mode items =
     rbind (backend_rows items) (\<lambda>rows.
     let by_backend = first_by_backend rows; semantics = dget (hd items) ''semantics'' in
     rbind (required_baselines_for_group semantics items) (\<lambda>required.
     rbind (rmapM (\<lambda>(b, c). rbind (device_target c) (\<lambda>v. Inr (b, normalized_target_id v)))
       (filter (\<lambda>(b, c). backend_requires_gpu_target b) by_backend)) (\<lambda>targets.
     rbind (rmapM (\<lambda>(b, c). rbind (correctness_anchor_reference_capture c) (\<lambda>anchor. Inr (anchor, b, c))) by_backend) (\<lambda>tagged.
     Inr (facts_record review_mode rows semantics required targets (map snd (filter (\<lambda>(anchor, _). \<not> anchor) tagged)))))))"

section \<open>Blockers of a candidate\<close>

record route_facts =
  rf_accelerator :: bool
  rf_internal :: bool
  rf_prepacked_reuse :: bool
  rf_oneshot :: bool
  rf_host_batch :: bool
  rf_graph :: bool
  rf_gpu_events :: bool
  rf_end_to_end :: "pyfloat option"
  rf_cpu :: "pyfloat option"
  rf_direct :: "pyfloat option"
  rf_vector :: "pyfloat option"

definition timing_blockers :: "route_facts \<Rightarrow> string list" where
  "timing_blockers rf =
     block_if (rf_end_to_end rf = None) ''missing_end_to_end_timing''
     @ block_if (both_le (rf_cpu rf) (rf_end_to_end rf)) ''not_faster_than_cpu_reference''
     @ (if rf_direct rf = None then [''missing_direct_hip_timing'']
        else block_if (both_le (rf_direct rf) (rf_end_to_end rf)) ''not_faster_than_direct_hip'')
     @ block_if (both_le (rf_vector rf) (rf_end_to_end rf)) ''not_faster_than_vector_alu''"

definition promotion_blockers :: "group_facts \<Rightarrow> route_facts \<Rightarrow> string list" where
  "promotion_blockers gf rf =
     block_if (gf_missing gf \<noteq> []) ''missing_required_baselines''
     @ block_if (\<not> gf_release gf) ''not_release_review''
     @ identity_blockers (gf_targets gf) ''missing_gpu_target_id'' ''gpu_target_mismatch''
     @ identity_blockers (gf_configured gf) ''missing_configured_gpu_target'' ''configured_gpu_target_mismatch''
     @ identity_blockers (gf_toolchains gf) ''missing_hip_toolchain_version'' ''hip_toolchain_version_mismatch''
     @ identity_blockers (gf_runtimes gf) ''missing_hip_runtime_version'' ''hip_runtime_version_mismatch''
     @ identity_blockers (gf_drivers gf) ''missing_hip_driver_version'' ''hip_driver_version_mismatch''
     @ identity_blockers (gf_compilers gf) ''missing_compiler_identity'' ''compiler_identity_mismatch''
     @ identity_blockers (gf_commits gf) ''missing_git_commit'' ''git_commit_mismatch''
     @ identity_blockers (gf_warmups gf) ''missing_warmup_count'' ''warmup_count_mismatch''
     @ identity_blockers (gf_repeats gf) ''missing_repeat_count'' ''repeat_count_mismatch''
     @ block_if (gf_duplicates gf \<noteq> []) ''duplicate_backend_capture''
     @ block_if (\<not> rf_accelerator rf) ''not_accelerator_backend''
     @ block_if (rf_internal rf) ''internal_candidate_not_public_backend''
     @ block_if (rf_prepacked_reuse rf) ''prepacked_reuse_not_autotune_promotable''
     @ block_if (rf_oneshot rf) ''oneshot_api_capture_not_autotune_promotable''
     @ block_if (rf_host_batch rf) ''host_api_batch_not_autotune_promotable''
     @ block_if (rf_graph rf) ''hip_graph_replay_not_autotune_promotable''
     @ block_if (rf_accelerator rf \<and> \<not> rf_gpu_events rf) ''missing_required_gpu_events''
     @ (if rf_accelerator rf then timing_blockers rf else [])"

definition capture_gpu_events_available :: "pydict \<Rightarrow> bool" where
  "capture_gpu_events_available capture \<longleftrightarrow>
     (let timing = capture_timing_metadata capture in
      is_True (dget timing ''gpu_event_timing'') \<and> eq_str (dget timing ''gpu_event_timing_status'') ''available''
      \<and> truthy (dget timing ''gpu_event_timing_source'') \<and> is_list (dget timing ''gpu_event_phase_order''))"

text \<open>The times of a candidate and of the captures it is compared with.\<close>

record candidate_times =
  ct_end_to_end :: "pyfloat option"
  ct_selection :: "pyfloat option"
  ct_cpu :: "pyfloat option"
  ct_direct :: "pyfloat option"
  ct_vector :: "pyfloat option"
  ct_direct_base :: "pydict option"
  ct_vector_base :: "pydict option"
  ct_same_backend :: "pydict option"
  ct_best_nonreuse :: "pydict option"
  ct_graph_base :: "pydict option"

text \<open>\<open>first or fallback\<close> of captures: an empty dict is false.\<close>

definition capture_or :: "pydict option \<Rightarrow> pydict option res \<Rightarrow> pydict option res" where
  "capture_or first fallback = (case first of Some c \<Rightarrow> if c \<noteq> [] then Inr (Some c) else fallback | None \<Rightarrow> fallback)"

definition timed_cpu_capture :: "group_facts \<Rightarrow> pydict option res" where
  "timed_cpu_capture gf =
     (case map_of (gf_by_backend gf) ''cpu-reference'' of
        None \<Rightarrow> Inr None
      | Some c \<Rightarrow> rbind (correctness_anchor_reference_capture c) (\<lambda>anchor. Inr (if anchor then None else Some c)))"

definition candidate_times_of :: "group_facts \<Rightarrow> setup_indexes \<Rightarrow> pydict \<Rightarrow> string \<Rightarrow> candidate_times res" where
  "candidate_times_of gf sx item family =
     (let setup_key = setup_comparison_key item False; graph_key = setup_comparison_key item True;
          nonreuse = (\<lambda>f. fastest_capture (lookup_captures (sx_nonreuse_backend sx) (setup_key, f)) False) in
      rbind (median_phase item ''end_to_end'') (\<lambda>e2e.
      rbind (selection_end_to_end_us item) (\<lambda>selection.
      rbind (timed_cpu_capture gf) (\<lambda>cpu_capture.
      rbind (nonreuse family) (\<lambda>same_backend.
      rbind (fastest_capture (lookup_captures (sx_nonreuse sx) setup_key) False) (\<lambda>best.
      rbind (fastest_capture (lookup_captures (sx_graph sx) (graph_key, family)) False) (\<lambda>graph_base.
      rbind (capture_or (map_of (gf_by_backend gf) ''hip-direct'') (nonreuse ''hip-direct'')) (\<lambda>direct_base.
      rbind (capture_or (map_of (gf_by_backend gf) ''hip-vector-alu-int64'') (nonreuse ''hip-vector-alu-int64'')) (\<lambda>vector_base.
      rbind (median_if cpu_capture ''end_to_end'') (\<lambda>cpu.
      rbind (median_if direct_base ''end_to_end'') (\<lambda>direct.
      rbind (median_if vector_base ''end_to_end'') (\<lambda>vector. Inr
      \<lparr>ct_end_to_end = e2e, ct_selection = selection, ct_cpu = cpu, ct_direct = direct, ct_vector = vector,
       ct_direct_base = direct_base, ct_vector_base = vector_base, ct_same_backend = same_backend,
       ct_best_nonreuse = best, ct_graph_base = graph_base\<rparr>))))))))))))"

definition setup_reviews :: "pydict \<Rightarrow> candidate_times \<Rightarrow> (pydict option \<times> pydict option) res" where
  "setup_reviews item ct =
     rbind (if capture_prepacked_reuse item
            then rbind (prepacked_reuse_review item (ct_same_backend ct) (ct_best_nonreuse ct)) (\<lambda>r. Inr (Some r))
            else Inr None) (\<lambda>prepack.
     rbind (capture_hip_graph_replay item) (\<lambda>graph.
     rbind (if graph then rbind (hip_graph_replay_review item (ct_graph_base ct)) (\<lambda>r. Inr (Some r)) else Inr None)
     (\<lambda>graph_review. Inr (prepack, graph_review))))"

definition review_blockers :: "pydict option \<Rightarrow> string list" where
  "review_blockers review =
     (case review of None \<Rightarrow> [] | Some r \<Rightarrow> map str_of (elems_of (dget r ''blockers'')))"

definition scope_blockers ::
  "group_facts \<Rightarrow> pydict \<Rightarrow> string \<Rightarrow> string \<Rightarrow> candidate_times \<Rightarrow> pydict option \<times> pydict option \<Rightarrow> string list res" where
  "scope_blockers gf item backend mode ct reviews =
     (if \<not> autotune_promotable_scope item then Inr []
      else rbind (in_str_set (gf_semantics gf) BOUNDED_SEMANTIC_IDS) (\<lambda>bounded_sem. Inr
        (promotion_blockers gf
          \<lparr>rf_accelerator = is_True (dget (capture_backend_metadata item) ''accelerator_backend''),
           rf_internal = backend = WRAP64_ROCWMMA_CANDIDATE_BACKEND, rf_prepacked_reuse = False,
           rf_oneshot = mode = ''public_oneshot_transient_native_inputs'',
           rf_host_batch = mode = ''benchmark_host_api_batch'', rf_graph = False,
           rf_gpu_events = capture_gpu_events_available item, rf_end_to_end = ct_selection ct, rf_cpu = ct_cpu ct,
           rf_direct = ct_direct ct, rf_vector = (if bounded_sem then ct_vector ct else None)\<rparr>
         @ review_blockers (fst reviews) @ review_blockers (snd reviews))))"

text \<open>\<open>v <= 0\<close>, a \<open>TypeError\<close> unless \<open>v\<close> is a number.\<close>

definition not_positive :: "pyval \<Rightarrow> bool res" where
  "not_positive v = (case num_of v of None \<Rightarrow> Inl TypeError | Some x \<Rightarrow> Inr (flt_le x (FFin 0)))"

definition isa_blockers :: "string \<Rightarrow> pydict \<Rightarrow> pydict \<Rightarrow> pydict \<Rightarrow> string list res" where
  "isa_blockers family item meta histogram =
     (if \<not> requires_amdgpu_builtin_matrix_isa_proof family meta then Inr []
      else if histogram = [] then Inr [''missing_amdgpu_builtin_matrix_isa_histogram'']
      else case expected_amdgpu_builtin_matrix_mnemonic item meta of
        None \<Rightarrow> Inr [''missing_selected_amdgpu_builtin_matrix_instruction'']
      | Some mnemonic \<Rightarrow>
          if mnemonic = [] then Inr [''missing_selected_amdgpu_builtin_matrix_instruction'']
          else rbind (not_positive (dget_or histogram mnemonic (PInt 0))) (\<lambda>none.
            Inr (block_if none ''missing_selected_amdgpu_builtin_matrix_instruction'')))"

definition checksum_blockers :: "pyval \<Rightarrow> pyval \<Rightarrow> string list" where
  "checksum_blockers item_checksum reference =
     (if is_None item_checksum then [''missing_checksum'']
      else if is_None reference then [''missing_reference_checksum'']
      else block_if (\<not> py_eq item_checksum reference) ''checksum_mismatch_vs_reference'')"

definition evidence_blockers :: "group_facts \<Rightarrow> pydict \<Rightarrow> string \<Rightarrow> pydict \<Rightarrow> string list res" where
  "evidence_blockers gf item backend histogram =
     (let meta = capture_backend_metadata item; family = backend_family_id backend; semantics = gf_semantics gf;
          accelerator = is_True (dget meta ''accelerator_backend'')
      in rconcat
        [isa_blockers family item meta histogram,
         final_output_export_metadata_blockers item semantics accelerator,
         skinny_gemv_metadata_blockers item semantics family,
         native_to_rns_handoff_metadata_blockers item semantics family,
         amdgpu_builtin_matrix_contract_blockers item family meta,
         amdgpu_builtin_selected_kernel_blockers item family meta,
         sparse_a_4_to_2_contract_blockers item backend family meta,
         amdgpu_builtin_tile_variant_blockers item meta,
         Inr (checksum_blockers (capture_checksum (Some item)) (snd (gf_reference gf))),
         Inr (scenario_promotion_blockers item)])"

section \<open>Candidates\<close>

definition only_dict :: "pyval \<Rightarrow> pyval" where
  "only_dict v = (if is_dict v then v else PNone)"

definition review_val :: "pydict option \<Rightarrow> pyval" where
  "review_val r = (case r of None \<Rightarrow> PNone | Some d \<Rightarrow> PDict d)"

text \<open>The parts of a candidate that do not depend on its blockers.\<close>

record candidate_views =
  cv_source :: pydict
  cv_ratios :: pydict
  cv_medians :: pydict
  cv_pack :: pydict
  cv_handoff :: pyval
  cv_bottleneck :: pydict

definition candidate_views_of :: "pydict \<Rightarrow> candidate_times \<Rightarrow> candidate_views res" where
  "candidate_views_of item ct =
     rbind (candidate_source_metadata item) (\<lambda>source.
     rbind (phase_ratios item (ct_direct_base ct) (ct_vector_base ct)) (\<lambda>ratios.
     rbind (phase_medians_for_capture item) (\<lambda>medians.
     rbind (pack_phase_diagnostics item) (\<lambda>pack.
     rbind (native_to_rns_handoff_diagnostics item) (\<lambda>handoff.
     rbind (bottleneck_classification item) (\<lambda>bottleneck. Inr
     \<lparr>cv_source = source, cv_ratios = ratios, cv_medians = medians, cv_pack = pack, cv_handoff = handoff,
      cv_bottleneck = bottleneck\<rparr>))))))"

definition matrix_fields :: "pydict \<Rightarrow> pydict" where
  "matrix_fields meta = map (\<lambda>name. (name, dget meta name))
     [''matrix_instruction_family'', ''matrix_instruction_shape'', ''matrix_instruction_dtype'',
      ''matrix_instruction_sparsity'', ''matrix_operand_signedness'', ''matrix_a_value_contract'',
      ''matrix_b_value_contract'', ''matrix_sparse_contract'', ''matrix_sparse_dense_operand'',
      ''matrix_sparse_a_compression_index_layout'', ''matrix_rdna_integer_modifier_policy'']"

definition candidate_dict ::
  "group_facts \<Rightarrow> pydict \<Rightarrow> string \<Rightarrow> candidate_times \<Rightarrow> pydict option \<times> pydict option \<Rightarrow> pydict \<Rightarrow>
   candidate_views \<Rightarrow> string option \<Rightarrow> string list \<Rightarrow> pydict" where
  "candidate_dict gf item backend ct reviews histogram cv loss_phase blockers =
     (let meta = capture_backend_metadata item;
          checksum = capture_checksum (Some item);
          reference = snd (gf_reference gf);
          promotable = (blockers = []) in
      [(''backend'', PStr backend), (''selected_kernel'', PStr (selected_kernel item)),
       (''capture'', dget item ''_path''), (''source_metadata'', PDict (cv_source cv)),
       (''scenario_promotion_scope'', opt_str (capture_scenario_promotion_scope item)),
       (''accelerator_backend'', PBool (is_True (dget meta ''accelerator_backend''))),
       (''release_review_capture'', PBool (release_capture_satisfied item)),
       (''checksum'', checksum), (''checksum_reference_backend'', opt_str (fst (gf_reference gf))),
       (''checksum_reference'', reference),
       (''checksum_matches_reference'', PBool (\<not> is_None checksum \<and> \<not> is_None reference \<and> py_eq checksum reference)),
       (''median_end_to_end_us'', float_val (ct_end_to_end ct)),
       (''selection_end_to_end_us'', float_val (ct_selection ct)),
       (''setup_comparison_key'', PStr (setup_comparison_key item False)),
       (''phase_diagnostics'', PDict (cv_ratios cv)), (''phase_medians_us'', PDict (cv_medians cv)),
       (''pack_diagnostics'', PDict (cv_pack cv)), (''native_to_rns_handoff_diagnostics'', cv_handoff cv),
       (''tile_shape_variant'', vget (dget item ''tile_shape_variant'') ''name''),
       (''speedup_vs_direct_hip'', float_val (ratio_of (ct_direct ct) (ct_selection ct))),
       (''speedup_vs_vector_alu'', float_val (ratio_of (ct_vector ct) (ct_selection ct))),
       (''exact_output_contract'', only_dict (dget item ''exact_output_contract'')),
       (''export_variant'', only_dict (dget item ''export_variant'')),
       (''reconstruction_variant'', only_dict (dget item ''reconstruction_variant'')),
       (''prepacked_reuse_review'', review_val (fst reviews)),
       (''runtime_prepack_cache'', vget (dget item ''reuse_contract'') ''runtime_prepack_cache''),
       (''hip_graph_replay_review'', review_val (snd reviews)),
       (''matrix_instruction_histogram'', PDict histogram)]
      @ matrix_fields meta
      @ [(''expected_matrix_instruction_mnemonic'', opt_str (expected_amdgpu_builtin_matrix_mnemonic item meta)),
         (''promotable'', PBool promotable), (''promotion_blockers'', str_list blockers),
         (''promotion_reason'', PStr (if promotable then ''beats_required_same_contract_gpu_baselines'' else ''blocked'')),
         (''primary_loss_phase_vs_direct_hip'', opt_str loss_phase),
         (''bottleneck'', PDict (cv_bottleneck cv)),
         (''cache_write_status'', PStr (if promotable then ''eligible_after_review'' else ''not_eligible''))])"

definition review_candidate ::
  "group_facts \<Rightarrow> setup_indexes \<Rightarrow> (string \<times> pydict list) list option \<Rightarrow> pydict \<Rightarrow> pydict res" where
  "review_candidate gf sx isa_index item =
     rbind (backend_id item) (\<lambda>backend.
     rbind (capture_execution_mode item) (\<lambda>mode.
     rbind (candidate_times_of gf sx item (backend_family_id backend)) (\<lambda>ct.
     rbind (setup_reviews item ct) (\<lambda>reviews.
     rbind (matrix_instruction_histogram isa_index item) (\<lambda>histogram.
     rbind (scope_blockers gf item backend mode ct reviews) (\<lambda>scoped.
     rbind (evidence_blockers gf item backend histogram) (\<lambda>evidence.
     let blockers = scoped @ evidence in
     rbind (candidate_views_of item ct) (\<lambda>cv.
     rbind (if blockers = [] then Inr None else primary_loss_phase item (ct_direct_base ct)) (\<lambda>loss_phase.
     Inr (candidate_dict gf item backend ct reviews histogram cv loss_phase blockers))))))))))"

section \<open>Routes and the winner\<close>

definition FATAL_BLOCKERS :: "string list" where
  "FATAL_BLOCKERS =
     [''missing_required_baselines'', ''not_release_review'', ''missing_gpu_target_id'', ''gpu_target_mismatch'',
      ''missing_configured_gpu_target'', ''configured_gpu_target_mismatch'', ''missing_hip_toolchain_version'',
      ''hip_toolchain_version_mismatch'', ''missing_hip_runtime_version'', ''hip_runtime_version_mismatch'',
      ''missing_hip_driver_version'', ''hip_driver_version_mismatch'', ''missing_compiler_identity'',
      ''compiler_identity_mismatch'', ''missing_git_commit'', ''git_commit_mismatch'', ''missing_warmup_count'',
      ''warmup_count_mismatch'', ''missing_repeat_count'', ''repeat_count_mismatch'', ''duplicate_backend_capture'',
      ''internal_candidate_not_public_backend'', ''prepacked_reuse_not_autotune_promotable'',
      ''oneshot_api_capture_not_autotune_promotable'', ''host_api_batch_not_autotune_promotable'',
      ''hip_graph_replay_not_autotune_promotable'', ''missing_checksum'', ''missing_reference_checksum'',
      ''checksum_mismatch_vs_reference'', ''scenario_scope_not_autotune_promotable'',
      ''missing_direct_hip_skinny_gemv_kernel_identity'', ''missing_direct_hip_skinny_gemv_execution_mode'',
      ''missing_vector_alu_skinny_gemv_kernel_identity'', ''missing_vector_alu_skinny_gemv_execution_mode'',
      ''missing_skinny_gemv_gpu_event_phase'', ''missing_native_to_rns_bridge_forced_metadata'',
      ''missing_native_to_rns_handoff_scope'', ''missing_native_to_rns_phase_availability'',
      ''missing_vector_to_rns_chain_metadata'', ''vector_to_rns_chain_control_mode_mismatch'',
      ''missing_vector_to_rns_chain_producer_backend'', ''missing_vector_to_rns_chain_consumer_backend'',
      ''missing_vector_to_rns_chain_phase_scope'', ''missing_sparse_a_4_to_2_scenario_contract'',
      ''sparse_a_k_not_divisible_by_4'', ''missing_sparse_a_4_to_2_input_distribution'',
      ''missing_sparse_a_runtime_kernel_identity'', ''dense_sparse_a_baseline_used_sparse_kernel'',
      ''missing_sparse_a_matrix_instruction_sparsity'', ''missing_sparse_a_matrix_instruction_family'',
      ''missing_sparse_a_4_to_2_autotune_contract'', ''amdgpu_builtin_tile_variant_kernel_mismatch'',
      ''amdgpu_builtin_tile_variant_family_mismatch'', ''amdgpu_builtin_tile_variant_shape_mismatch'',
      ''amdgpu_builtin_tile_variant_dtype_mismatch'']"

definition review_route_candidate :: "pydict \<Rightarrow> bool res" where
  "review_route_candidate candidate_row =
     rbind (py_iter (dget_or candidate_row ''promotion_blockers'' (PList []))) (\<lambda>blockers.
     rbind (in_vals (dget candidate_row ''scenario_promotion_scope'') [PNone, PStr ''release_review_candidate'']) (\<lambda>scoped.
     Inr (scoped \<and> is_True (dget candidate_row ''release_review_capture'')
       \<and> is_True (dget candidate_row ''checksum_matches_reference'')
       \<and> \<not> is_None (dget candidate_row ''selection_end_to_end_us'')
       \<and> list_all (\<lambda>b. py_str b \<notin> set FATAL_BLOCKERS) blockers)))"

text \<open>\<open>min(rows, key=...)\<close> over numbered rows by their selection time; the comparison needs numbers.\<close>

definition num_lt :: "pyval \<Rightarrow> pyval \<Rightarrow> bool res" where
  "num_lt a b = (if isinstance_num a \<and> isinstance_num b then Inr (val_lt a b) else Inl TypeError)"

definition selection_of :: "nat \<times> pydict \<Rightarrow> pyval" where
  "selection_of row = dget (snd row) ''selection_end_to_end_us''"

definition fastest_step :: "nat \<times> pydict \<Rightarrow> nat \<times> pydict \<Rightarrow> (nat \<times> pydict) res" where
  "fastest_step best row =
     rbind (num_lt (selection_of row) (selection_of best)) (\<lambda>faster. Inr (if faster then row else best))"

definition fastest_row :: "(nat \<times> pydict) list \<Rightarrow> (nat \<times> pydict) option res" where
  "fastest_row rows =
     (case rows of [] \<Rightarrow> Inr None
      | first # rest \<Rightarrow> rbind (rfoldM fastest_step first rest) (\<lambda>best. Inr (Some best)))"

definition fastest_route :: "(nat \<times> pydict) list \<Rightarrow> bool \<Rightarrow> (nat \<times> pydict) option res" where
  "fastest_route rows accelerator_only =
     rbind (rmapM (\<lambda>row. rbind (review_route_candidate (snd row)) (\<lambda>ok. Inr (row, ok))) rows) (\<lambda>tagged.
     fastest_row (map fst (filter (\<lambda>(row, ok). ok \<and>
       (if accelerator_only then is_True (dget (snd row) ''accelerator_backend'')
        else \<not> eq_str (dget (snd row) ''backend'') ''cpu-reference'')) tagged)))"

definition demote :: "pydict \<Rightarrow> pydict" where
  "demote row =
     dict_set ''cache_write_status'' (PStr ''not_eligible'')
       (dict_set ''promotion_reason'' (PStr ''blocked'')
         (dict_set ''promotion_blockers'' (PList [PStr ''not_fastest_promotable_accelerator''])
           (dict_set ''promotable'' (PBool False) row)))"

definition is_promotable :: "pydict \<Rightarrow> bool" where
  "is_promotable row \<longleftrightarrow> truthy (dget row ''promotable'')"

text \<open>Every promotable candidate other than the fastest is demoted.\<close>

definition settle :: "(nat \<times> pydict) option \<Rightarrow> (nat \<times> pydict) list \<Rightarrow> pydict list" where
  "settle fastest rows =
     (case fastest of None \<Rightarrow> map snd rows
      | Some best \<Rightarrow> map (\<lambda>row. if fst row \<noteq> fst best \<and> is_promotable (snd row) then demote (snd row) else snd row) rows)"

definition promotable_entry :: "pydict \<Rightarrow> pydict \<Rightarrow> pydict res" where
  "promotable_entry source best =
     rbind (candidate_source_metadata source) (\<lambda>source_metadata.
     let meta = capture_backend_metadata source in Inr
     [(''source_capture'', dget source ''_path''), (''autotune_key'', dget meta ''autotune_key''),
      (''selected_backend'', dget best ''backend''), (''selected_kernel'', dget best ''selected_kernel''),
      (''median_end_to_end_us'', dget best ''median_end_to_end_us''),
      (''selection_end_to_end_us'', dget best ''selection_end_to_end_us''),
      (''target_id'', dget source_metadata ''target_id''),
      (''hip_sdk_or_rocm_version'', dget source_metadata ''hip_sdk_or_rocm_version''),
      (''accelerator_library'', dget meta ''accelerator_library''),
      (''accelerator_version'', dget meta ''accelerator_version''),
      (''workspace_bytes'', dget_or meta ''workspace_required_bytes'' (PInt 0)),
      (''winner_rationale'', PStr ''fastest_promotable_same_contract_accelerator''),
      (''cache_write_status'', PStr ''pending'')])"

definition winner_entry :: "group_facts \<Rightarrow> (nat \<times> pydict) option \<Rightarrow> pydict list res" where
  "winner_entry gf fastest =
     (case fastest of None \<Rightarrow> Inr []
      | Some best \<Rightarrow> (case map_of (gf_by_backend gf) (str_of (dget (snd best) ''backend'')) of
            None \<Rightarrow> Inr []
          | Some source \<Rightarrow> rbind (promotable_entry source (snd best)) (\<lambda>e. Inr [e])))"

section \<open>Groups\<close>

definition ids_val :: "identities \<Rightarrow> pyval" where
  "ids_val ids = PDict (map (\<lambda>(b, v). (b, opt_str v)) ids)"

definition RELEASE_REQUIREMENTS :: pyval where
  "RELEASE_REQUIREMENTS = PDict [(''min_warmups'', PInt RELEASE_MIN_WARMUPS), (''min_repeats'', PInt RELEASE_MIN_REPEATS)]"

text \<open>What the report says of one identity.\<close>

definition identity_fields :: "string \<Rightarrow> string \<Rightarrow> string \<Rightarrow> identities \<Rightarrow> pydict" where
  "identity_fields plural missing single ids =
     [(plural, ids_val ids), (missing, str_list (identity_missing ids)),
      (single @ ''_complete'', PBool (identity_complete ids)),
      (single @ ''_compatible'', PBool (identity_compatible ids))]"

definition group_identity_fields :: "group_facts \<Rightarrow> pydict" where
  "group_identity_fields gf =
     [(''gpu_targets'', ids_val (gf_targets gf)), (''missing_gpu_targets'', str_list (identity_missing (gf_targets gf))),
      (''gpu_target_identity_complete'', PBool (identity_complete (gf_targets gf))),
      (''gpu_target_compatible'', PBool (identity_compatible (gf_targets gf))),
      (''configured_gpu_targets'', ids_val (gf_configured gf)),
      (''missing_configured_gpu_targets'', str_list (identity_missing (gf_configured gf))),
      (''configured_target_identity_complete'', PBool (identity_complete (gf_configured gf))),
      (''configured_target_compatible'', PBool (identity_compatible (gf_configured gf)))]
     @ identity_fields ''hip_toolchain_versions'' ''missing_hip_toolchain_versions'' ''hip_toolchain_version'' (gf_toolchains gf)
     @ identity_fields ''hip_runtime_versions'' ''missing_hip_runtime_versions'' ''hip_runtime_version'' (gf_runtimes gf)
     @ identity_fields ''hip_driver_versions'' ''missing_hip_driver_versions'' ''hip_driver_version'' (gf_drivers gf)
     @ identity_fields ''compiler_identities'' ''missing_compiler_identities'' ''compiler_identity'' (gf_compilers gf)
     @ identity_fields ''git_commits'' ''missing_git_commits'' ''git_commit_identity'' (gf_commits gf)
     @ identity_fields ''warmup_counts'' ''missing_warmup_counts'' ''warmup_count'' (gf_warmups gf)
     @ identity_fields ''repeat_counts'' ''missing_repeat_counts'' ''repeat_count'' (gf_repeats gf)"

definition checksums_of :: "group_facts \<Rightarrow> (string \<times> pyval) list" where
  "checksums_of gf = map (\<lambda>(b, c). (b, capture_checksum (Some c))) (gf_by_backend gf)"

definition missing_checksums :: "group_facts \<Rightarrow> string list" where
  "missing_checksums gf = sort (map fst (filter (\<lambda>(b, v). is_None v) (checksums_of gf)))"

definition checksum_mismatches :: "group_facts \<Rightarrow> string list" where
  "checksum_mismatches gf =
     (let reference = snd (gf_reference gf) in
      sort (map fst (filter (\<lambda>(b, v). \<not> is_None reference \<and> \<not> is_None v \<and> \<not> py_eq v reference) (checksums_of gf))))"

definition checksum_fields :: "group_facts \<Rightarrow> pydict" where
  "checksum_fields gf =
     [(''duplicate_backends'', str_list (gf_duplicates gf)),
      (''checksum_reference_backend'', opt_str (fst (gf_reference gf))),
      (''checksum_reference'', snd (gf_reference gf)), (''checksum_by_backend'', PDict (checksums_of gf)),
      (''missing_checksums'', str_list (missing_checksums gf)),
      (''checksum_mismatches'', str_list (checksum_mismatches gf)),
      (''checksum_consistent'', PBool (\<not> is_None (snd (gf_reference gf)) \<and> missing_checksums gf = []
         \<and> checksum_mismatches gf = []))]"

text \<open>A route of the report is the candidate itself, so it shows what became of it.\<close>

definition settled_row :: "pydict list \<Rightarrow> (nat \<times> pydict) option \<Rightarrow> pyval" where
  "settled_row rows best = (case best of None \<Rightarrow> PNone | Some row \<Rightarrow> PDict (rows ! fst row))"

record group_result =
  gr_candidates :: "pydict list"
  gr_fastest :: "(nat \<times> pydict) option"
  gr_production :: "(nat \<times> pydict) option"
  gr_accelerator :: "(nat \<times> pydict) option"
  gr_entries :: "pydict list"

definition judge_group ::
  "setup_indexes \<Rightarrow> (string \<times> pydict list) list option \<Rightarrow> group_facts \<Rightarrow> pydict list \<Rightarrow> group_result res" where
  "judge_group sx isa_index gf items =
     rbind (rmapM (review_candidate gf sx isa_index) items) (\<lambda>candidates.
     let rows = zip [0..<length candidates] candidates in
     rbind (fastest_route rows False) (\<lambda>production.
     rbind (fastest_route rows True) (\<lambda>accelerator.
     rbind (fastest_row (filter (\<lambda>row. is_promotable (snd row)) rows)) (\<lambda>fastest.
     rbind (winner_entry gf fastest) (\<lambda>entries. Inr
     \<lparr>gr_candidates = settle fastest rows, gr_fastest = fastest, gr_production = production,
      gr_accelerator = accelerator, gr_entries = entries\<rparr>)))))"

definition scopes_of :: "pydict list \<Rightarrow> string list" where
  "scopes_of items = sorted_set (concat (map (\<lambda>item.
     case capture_scenario_promotion_scope item of None \<Rightarrow> [] | Some s \<Rightarrow> [s]) items))"

definition group_medians :: "pydict list \<Rightarrow> pydict res" where
  "group_medians items =
     rbind (rmapM (\<lambda>item. rbind (backend_id item) (\<lambda>b. rbind (phase_medians_for_capture item) (\<lambda>m.
       Inr (b @ ''/'' @ selected_kernel item, PDict m)))) items) (\<lambda>rows. Inr (dict_of rows))"

definition group_dict ::
  "string \<Rightarrow> string \<Rightarrow> pydict list \<Rightarrow> group_facts \<Rightarrow> group_result \<Rightarrow> pydict \<Rightarrow> pydict \<Rightarrow> pydict list \<Rightarrow> pydict" where
  "group_dict review_mode key items gf gr medians source ratio_rows =
     (let first = hd items; rows = gr_candidates gr in
      [(''contract_key'', PStr key), (''semantics'', gf_semantics gf), (''finite_modulus'', dget first ''finite_modulus''),
       (''shape'', PDict [(''m'', dget first ''m''), (''n'', dget first ''n''), (''k'', dget first ''k'')]),
       (''shape_family'', PStr (shape_family (dget first ''m'') (dget first ''n'') (dget first ''k''))),
       (''capture_count'', PInt (int (length items))),
       (''scenario_families'', str_list (scenario_values items ''family'')),
       (''scenario_names'', str_list (scenario_values items ''name'')), (''source_metadata'', PDict source),
       (''review_mode'', PStr review_mode), (''release_review_satisfied'', PBool (gf_release gf)),
       (''release_review_requirements'', RELEASE_REQUIREMENTS),
       (''required_baselines'', str_list (gf_required gf)),
       (''missing_required_baselines'', str_list (gf_missing gf))]
      @ group_identity_fields gf @ checksum_fields gf
      @ [(''scenario_promotion_scopes'', str_list (scopes_of items)), (''phase_medians_us'', PDict medians),
         (''phase_ratio_summary'', dict_list ratio_rows),
         (''fastest_promotable'', settled_row rows (gr_fastest gr)),
         (''fastest_production_route'', settled_row rows (gr_production gr)),
         (''fastest_accelerator_route'', settled_row rows (gr_accelerator gr)),
         (''candidates'', dict_list rows)])"

definition review_group ::
  "string \<Rightarrow> setup_indexes \<Rightarrow> (string \<times> pydict list) list option \<Rightarrow> string \<times> pydict list \<Rightarrow> (pydict \<times> pydict list) res" where
  "review_group review_mode sx isa_index kitems =
     (let (key, items) = kitems in
      rbind (group_facts_of review_mode items) (\<lambda>gf.
      rbind (group_medians items) (\<lambda>medians.
      rbind (judge_group sx isa_index gf items) (\<lambda>gr.
      rbind (group_source_metadata items) (\<lambda>source.
      rbind (rmapM phase_ratio_summary_for_candidate (gr_candidates gr)) (\<lambda>ratio_rows. Inr
      (group_dict review_mode key items gf gr medians source ratio_rows, gr_entries gr)))))))"

definition report_dict :: "string \<Rightarrow> string \<Rightarrow> pydict list \<Rightarrow> pydict list \<Rightarrow> pydict \<Rightarrow> pydict" where
  "report_dict review_mode now groups entries summary =
     [(''schema_version'', PInt 3), (''review_mode'', PStr review_mode),
      (''release_review_requirements'', RELEASE_REQUIREMENTS), (''reviewed_utc'', PStr now),
      (''group_count'', PInt (int (length groups))), (''groups'', dict_list groups),
      (''promotable_autotune_entries'', dict_list entries), (''summary'', PDict summary),
      (''cache_write'', PDict [(''requested'', PBool False), (''path'', PNone), (''entries_written'', PInt 0),
         (''status'', PStr ''not_requested'')])]"

definition review_captures ::
  "string \<Rightarrow> string \<Rightarrow> (string \<times> pydict list) list option \<Rightarrow> pydict list \<Rightarrow> pydict res" where
  "review_captures now review_mode isa_index captures =
     (if review_mode \<notin> {''smoke'', ''release''} then Inl ValueError
      else rbind (build_setup_baseline_indexes captures) (\<lambda>sx.
        rbind (rmapM (review_group review_mode sx isa_index) (sort_key fst (group_on capture_contract_key captures))) (\<lambda>results.
        let groups = map fst results; entries = concat (map snd results) in
        rbind (build_review_summary groups entries) (\<lambda>summary.
        Inr (report_dict review_mode now groups entries summary)))))"

section \<open>What a clear candidate shows\<close>

lemma identity_blockers_Nil: "identity_blockers ids missing mismatch = [] \<longleftrightarrow> identity_compatible ids"
  by (auto simp: identity_blockers_def identity_compatible_def)

text \<open>A candidate that is faster than everything it is compared with.\<close>

definition beats :: "pyfloat \<Rightarrow> pyfloat option \<Rightarrow> bool" where
  "beats t other \<longleftrightarrow> (case other of None \<Rightarrow> True | Some x \<Rightarrow> \<not> flt_le x t)"

lemma promotion_blockers_Nil:
  assumes "promotion_blockers gf rf = []"
  obtains t d where "gf_missing gf = []" "gf_release gf" "gf_duplicates gf = []" "rf_accelerator rf" "rf_gpu_events rf"
    "rf_end_to_end rf = Some t" "rf_direct rf = Some d" "\<not> flt_le d t" "beats t (rf_cpu rf)" "beats t (rf_vector rf)"
    "list_all identity_compatible [gf_targets gf, gf_configured gf, gf_toolchains gf, gf_runtimes gf, gf_drivers gf,
       gf_compilers gf, gf_commits gf, gf_warmups gf, gf_repeats gf]"
proof -
  have acc: "rf_accelerator rf" using assms by (simp add: promotion_blockers_def)
  with assms have times: "timing_blockers rf = []" by (simp add: promotion_blockers_def)
  then obtain t d where td: "rf_end_to_end rf = Some t" "rf_direct rf = Some d"
    by (auto simp: timing_blockers_def split: if_splits)
  with times have "\<not> flt_le d t" "beats t (rf_cpu rf)" "beats t (rf_vector rf)"
    by (auto simp: timing_blockers_def both_le_def beats_def split: option.splits if_splits)
  with td acc assms that show thesis
    by (simp add: promotion_blockers_def identity_blockers_Nil)
qed

lemma checksum_blockers_Nil: "checksum_blockers c r = [] \<Longrightarrow> \<not> is_None c \<and> \<not> is_None r \<and> py_eq c r"
  by (simp add: checksum_blockers_def split: if_splits)

lemma evidence_blockers_Nil:
  assumes "evidence_blockers gf item backend histogram = Inr []"
  shows "autotune_promotable_scope item"
    "checksum_blockers (capture_checksum (Some item)) (snd (gf_reference gf)) = []"
  using assms by (auto simp: evidence_blockers_def Let_def rbind_eq_Inr scenario_promotion_blockers_def split: if_splits)

lemma review_candidate_obtain:
  assumes "review_candidate gf sx isa_index item = Inr row"
  obtains backend mode ct reviews histogram scoped evidence cv loss_phase where
    "backend_id item = Inr backend"
    "candidate_times_of gf sx item (backend_family_id backend) = Inr ct"
    "scope_blockers gf item backend mode ct reviews = Inr scoped"
    "evidence_blockers gf item backend histogram = Inr evidence"
    "row = candidate_dict gf item backend ct reviews histogram cv loss_phase (scoped @ evidence)"
  using assms unfolding review_candidate_def rbind_eq_Inr Let_def by (elim exE conjE) blast

lemma candidate_dict_fields:
  fixes gf item backend ct reviews histogram cv loss_phase blockers
  defines "row \<equiv> candidate_dict gf item backend ct reviews histogram cv loss_phase blockers"
  shows "dget row ''promotable'' = PBool (blockers = [])" "dget row ''promotion_blockers'' = str_list blockers"
    "dget row ''backend'' = PStr backend" "dget row ''selection_end_to_end_us'' = float_val (ct_selection ct)"
    "dget row ''capture'' = dget item ''_path''"
  by (simp_all add: row_def candidate_dict_def matrix_fields_def Let_def dget_def)

text \<open>What the review has established of a promotable candidate.\<close>

definition justified :: "group_facts \<Rightarrow> setup_indexes \<Rightarrow> pydict \<Rightarrow> candidate_times \<Rightarrow> bool" where
  "justified gf sx item ct \<longleftrightarrow>
     gf_release gf \<and> gf_missing gf = [] \<and> gf_duplicates gf = [] \<and> autotune_promotable_scope item
     \<and> is_True (dget (capture_backend_metadata item) ''accelerator_backend'') \<and> capture_gpu_events_available item
     \<and> (\<exists>t d. ct_selection ct = Some t \<and> ct_direct ct = Some d \<and> \<not> flt_le d t \<and> beats t (ct_cpu ct))
     \<and> checksum_blockers (capture_checksum (Some item)) (snd (gf_reference gf)) = []"

lemma candidate_promotable:
  assumes "review_candidate gf sx isa_index item = Inr row" "is_promotable row"
  obtains backend ct where "backend_id item = Inr backend" "dget row ''backend'' = PStr backend"
    "candidate_times_of gf sx item (backend_family_id backend) = Inr ct" "justified gf sx item ct"
    "dget row ''selection_end_to_end_us'' = float_val (ct_selection ct)"
proof -
  from review_candidate_obtain [OF assms(1)] obtain backend mode ct reviews histogram scoped evidence cv loss_phase where
    b: "backend_id item = Inr backend" and t: "candidate_times_of gf sx item (backend_family_id backend) = Inr ct"
    and s: "scope_blockers gf item backend mode ct reviews = Inr scoped"
    and e: "evidence_blockers gf item backend histogram = Inr evidence"
    and row: "row = candidate_dict gf item backend ct reviews histogram cv loss_phase (scoped @ evidence)" .
  from assms(2) have nil: "scoped = []" "evidence = []"
    by (simp_all add: is_promotable_def row candidate_dict_fields)
  note ev = evidence_blockers_Nil [OF e [unfolded nil]]
  from s ev(1) nil(1) obtain bounded_sem where "promotion_blockers gf
      \<lparr>rf_accelerator = is_True (dget (capture_backend_metadata item) ''accelerator_backend''),
       rf_internal = backend = WRAP64_ROCWMMA_CANDIDATE_BACKEND, rf_prepacked_reuse = False,
       rf_oneshot = mode = ''public_oneshot_transient_native_inputs'',
       rf_host_batch = mode = ''benchmark_host_api_batch'', rf_graph = False,
       rf_gpu_events = capture_gpu_events_available item, rf_end_to_end = ct_selection ct, rf_cpu = ct_cpu ct,
       rf_direct = ct_direct ct, rf_vector = (if bounded_sem then ct_vector ct else None)\<rparr> = []"
    (is "promotion_blockers gf ?rf = []")
    by (auto simp: scope_blockers_def rbind_eq_Inr)
  then have "justified gf sx item ct"
  proof (rule promotion_blockers_Nil)
    fix t d
    assume "gf_missing gf = []" "gf_release gf" "gf_duplicates gf = []"
    moreover assume "rf_accelerator ?rf" "rf_gpu_events ?rf" "rf_end_to_end ?rf = Some t" "rf_direct ?rf = Some d"
      "\<not> flt_le d t" "beats t (rf_cpu ?rf)"
    ultimately show ?thesis using ev by (simp add: justified_def)
  qed
  with b t show thesis by (intro that) (simp_all add: row candidate_dict_fields)
qed

section \<open>The fastest row\<close>

definition slower_than :: "nat \<times> pydict \<Rightarrow> nat \<times> pydict \<Rightarrow> bool" where
  "slower_than best row \<longleftrightarrow> \<not> val_lt (selection_of row) (selection_of best)"

lemma val_lt_irrefl: "\<not> val_lt a a"
  by (simp add: val_lt_def split: option.splits)

lemma val_lt_trans: "val_lt a b \<Longrightarrow> val_lt b c \<Longrightarrow> val_lt a c"
  by (auto simp: val_lt_def dest: flt_lt_trans split: option.splits)

lemma fastest_step_eq:
  "fastest_step first row = Inr b \<Longrightarrow> b = (if val_lt (selection_of row) (selection_of first) then row else first)"
  by (simp add: fastest_step_def num_lt_def split: if_splits)

lemma fastest_fold:
  "rfoldM fastest_step first rest = Inr best \<Longrightarrow> best \<in> set (first # rest)
   \<and> (best = first \<or> val_lt (selection_of best) (selection_of first)) \<and> (\<forall>row\<in>set rest. slower_than best row)"
proof (induction rest arbitrary: first)
  case (Cons row rest)
  from Cons.prems obtain b where step: "fastest_step first row = Inr b" and rest: "rfoldM fastest_step b rest = Inr best"
    unfolding rfoldM.simps rbind_eq_Inr by blast
  from Cons.IH [OF rest] have best: "best = b \<or> best \<in> set rest"
    "best = b \<or> val_lt (selection_of best) (selection_of b)" "\<forall>r\<in>set rest. slower_than best r" by auto
  show ?case
  proof (cases "val_lt (selection_of row) (selection_of first)")
    case True
    with fastest_step_eq [OF step] have "b = row" by simp
    with True best(2) have "val_lt (selection_of best) (selection_of first)" "slower_than best row"
      unfolding slower_than_def using val_lt_trans val_lt_irrefl by blast+
    with best \<open>b = row\<close> show ?thesis by auto
  next
    case False
    with fastest_step_eq [OF step] have "b = first" by simp
    with False best(2) have "slower_than best row"
      unfolding slower_than_def using val_lt_trans by blast
    with best \<open>b = first\<close> show ?thesis by auto
  qed
qed simp

lemma fastest_row_Some:
  assumes "fastest_row rows = Inr (Some best)"
  shows "best \<in> set rows" "\<And>row. row \<in> set rows \<Longrightarrow> slower_than best row"
proof -
  obtain first rest where rows: "rows = first # rest"
    using assms by (cases rows) (simp_all add: fastest_row_def)
  with assms have "rbind (rfoldM fastest_step first rest) (\<lambda>best. Inr (Some best)) = Inr (Some best)"
    by (simp only: fastest_row_def list.case)
  then obtain b where b: "rfoldM fastest_step first rest = Inr b" "Some b = Some best"
    unfolding rbind_eq_Inr sum.inject by blast
  then have "rfoldM fastest_step first rest = Inr best" by (simp only: option.inject)
  note best = fastest_fold [OF this]
  then show "best \<in> set rows" using rows by simp
  have "slower_than best first"
    using best val_lt_trans val_lt_irrefl unfolding slower_than_def by blast
  with best rows show "slower_than best row" if "row \<in> set rows" for row using that by auto
qed

lemma fastest_row_None: "fastest_row rows = Inr None \<Longrightarrow> rows = []"
  by (auto simp: fastest_row_def rbind_eq_Inr split: list.splits)

section \<open>Where a verdict comes from\<close>

lemma map_of_first_by_backend:
  "map_of (first_by_backend rows) b = (case filter (\<lambda>r. fst r = b) rows of [] \<Rightarrow> None | r # _ \<Rightarrow> Some (snd r))"
  by (simp add: first_by_backend_def map_of_map map_of_group_on Let_def split: list.splits)

lemma map_of_first_by_backend_in: "map_of (first_by_backend rows) b = Some c \<Longrightarrow> (b, c) \<in> set rows"
  by (auto simp: map_of_first_by_backend filter_eq_Cons_iff split: list.splits)

lemma single_backend:
  assumes "repeated_backends rows = []" "(b, c) \<in> set rows"
  shows "map_of (first_by_backend rows) b = Some c"
proof -
  let ?f = "filter (\<lambda>r. fst r = b) rows"
  have c: "(b, c) \<in> set ?f" using assms by simp
  then have ne: "?f \<noteq> []" by (force simp: filter_empty_conv)
  then have f: "(b, ?f) \<in> set (group_on fst rows)" unfolding group_on_entry by (intro conjI refl)
  from assms(1) have "length (filter (\<lambda>(b, cs). 1 < length cs) (group_on fst rows)) = 0"
    unfolding repeated_backends_def by (simp only: length_sort length_map flip: length_0_conv)
  then have "\<not> 1 < length ?f" using f by (fastforce simp: filter_empty_conv)
  moreover have "0 < length ?f" using ne by (rule length_greater_0_conv [THEN iffD2])
  ultimately have "length ?f = 1" by linarith
  then obtain r where "?f = [r]" by (auto simp: length_Suc_conv)
  with c have "?f = [(b, c)]" by (simp del: set_filter)
  then show ?thesis by (simp add: map_of_first_by_backend)
qed

lemma backend_rows_entry:
  assumes "backend_rows items = Inr rows"
  shows "(b, c) \<in> set rows \<longleftrightarrow> c \<in> set items \<and> backend_id c = Inr b"
  using assms unfolding backend_rows_def
proof (induction items arbitrary: rows)
  case (Cons x xs)
  then show ?case by (auto simp: rbind_eq_Inr)
qed simp

lemma group_facts_obtain:
  assumes "group_facts_of mode items = Inr gf"
  obtains rows where "backend_rows items = Inr rows" "gf_by_backend gf = first_by_backend rows"
    "gf_duplicates gf = repeated_backends rows"
    "gf_reference gf = reference_checksum_for_group (first_by_backend rows)"
    "gf_release gf \<Longrightarrow> mode = ''release''"
proof -
  from assms obtain rows semantics required targets timed where rows: "backend_rows items = Inr rows"
    and gf: "gf = facts_record mode rows semantics required targets timed"
    unfolding group_facts_of_def rbind_eq_Inr Let_def sum.inject by blast
  show thesis by (rule that [OF rows]) (simp_all add: gf facts_record_def Let_def)
qed

lemma reference_checksum_from:
  assumes "snd (reference_checksum_for_group (first_by_backend rows)) = v" "\<not> is_None v"
  obtains b r where "(b, r) \<in> set rows" "capture_checksum (Some r) = v"
proof -
  let ?c = "\<lambda>b. capture_checksum (map_of (first_by_backend rows) b)"
  from assms obtain b where b: "?c b = v"
    by (auto simp: reference_checksum_for_group_def Let_def split: option.splits)
  with assms(2) obtain r where "map_of (first_by_backend rows) b = Some r"
    by (cases "map_of (first_by_backend rows) b") (auto simp: capture_checksum_def)
  with b that show thesis using map_of_first_by_backend_in by force
qed

lemma min_float_mem: "fst (min_float snd r rs) \<in> fst ` set (r # rs)"
  using min_float_in [of snd r rs] by blast

lemma fastest_capture_in:
  assumes "fastest_capture cs graph = Inr (Some c)"
  shows "c \<in> set cs"
proof -
  let ?f = "\<lambda>c. rbind (setup_inclusive_end_to_end_us c graph) (\<lambda>t. Inr (c, t))"
  let ?timed = "\<lambda>rows. concat (map (\<lambda>(c, t). case t of None \<Rightarrow> [] | Some x \<Rightarrow> [(c, if flt_is_zero x then FInf else x)]) rows)"
  from assms obtain rows where rows: "rmapM ?f cs = Inr rows"
    and timed: "(case ?timed rows of [] \<Rightarrow> None | r # rs \<Rightarrow> Some (fst (min_float snd r rs))) = Some c"
    unfolding fastest_capture_def rbind_eq_Inr Let_def sum.inject by blast
  then obtain r rs where r: "?timed rows = r # rs" and c: "c = fst (min_float snd r rs)"
    by (cases "?timed rows") (simp_all only: list.case option.simps)
  have "c \<in> fst ` set (r # rs)" using c min_float_mem by blast
  also have "\<dots> \<subseteq> fst ` set rows" unfolding r [symmetric] by (force split: option.splits)
  finally obtain t where "(c, t) \<in> set rows" by auto
  from rmapM_set [OF rows this] show ?thesis by (auto simp: rbind_eq_Inr)
qed

lemma nonreuse_lookup:
  assumes "build_setup_baseline_indexes captures = Inr sx"
    and "c \<in> set (lookup_captures (sx_nonreuse_backend sx) (k, f))"
  obtains b where "c \<in> set captures" "setup_comparison_key c False = k" "backend_id c = Inr b" "backend_family_id b = f"
proof -
  let ?tag = "\<lambda>c. rbind (setup_tags_of c) (\<lambda>t. Inr (c, t))"
  let ?key = "\<lambda>(c, t). (setup_comparison_key c False, st_family t)"
  from assms(1) obtain tagged where tagged: "rmapM ?tag captures = Inr tagged"
    and sx: "sx_nonreuse_backend sx = map (\<lambda>(k, cts). (k, map fst cts)) (group_on ?key (filter (\<lambda>(c, t). st_nonreuse t) tagged))"
    by (auto simp: build_setup_baseline_indexes_def rbind_eq_Inr Let_def)
  from assms(2) obtain t where "(c, t) \<in> set tagged" and key: "?key (c, t) = (k, f)"
    unfolding sx lookup_captures_def by (auto simp: map_of_map map_of_group_on Let_def split: if_splits)
  with rmapM_set [OF tagged] have "c \<in> set captures" "setup_tags_of c = Inr t" by (auto simp: rbind_eq_Inr)
  with key that show thesis by (auto simp: setup_tags_of_def rbind_eq_Inr)
qed

definition of_family :: "pydict \<Rightarrow> string \<Rightarrow> bool" where
  "of_family c f \<longleftrightarrow> (\<exists>b. backend_id c = Inr b \<and> backend_family_id b = f)"

lemma candidate_direct:
  assumes "candidate_times_of gf sx item family = Inr ct" and "ct_direct ct = Some d"
  obtains c where "median_phase c ''end_to_end'' = Inr (Some d)"
    "map_of (gf_by_backend gf) ''hip-direct'' = Some c
     \<or> c \<in> set (lookup_captures (sx_nonreuse_backend sx) (setup_comparison_key item False, ''hip-direct''))"
proof -
  let ?nonreuse = "fastest_capture (lookup_captures (sx_nonreuse_backend sx) (setup_comparison_key item False, ''hip-direct'')) False"
  from assms obtain base where base: "capture_or (map_of (gf_by_backend gf) ''hip-direct'') ?nonreuse = Inr base"
    and d: "median_if base ''end_to_end'' = Inr (Some d)"
    unfolding candidate_times_of_def rbind_eq_Inr Let_def by (elim exE conjE) auto
  from d obtain c where c: "base = Some c" "median_phase c ''end_to_end'' = Inr (Some d)"
    by (auto simp: median_if_def split: option.splits if_splits)
  from base c(1) have "map_of (gf_by_backend gf) ''hip-direct'' = Some c \<or> ?nonreuse = Inr (Some c)"
    by (auto simp: capture_or_def split: option.splits if_splits)
  with c(2) that show thesis using fastest_capture_in by blast
qed

lemma candidate_selection: "candidate_times_of gf sx item family = Inr ct \<Longrightarrow> selection_end_to_end_us item = Inr (ct_selection ct)"
  unfolding candidate_times_of_def rbind_eq_Inr Let_def by (elim exE conjE) auto

lemma review_captures_obtain:
  assumes "review_captures now mode isa_index captures = Inr report"
  obtains sx results where "build_setup_baseline_indexes captures = Inr sx"
    "rmapM (review_group mode sx isa_index) (sort_key fst (group_on capture_contract_key captures)) = Inr results"
    "dget report ''groups'' = dict_list (map fst results)"
    "dget report ''promotable_autotune_entries'' = dict_list (concat (map snd results))"
  using assms by (auto simp: review_captures_def report_dict_def dget_def rbind_eq_Inr Let_def split: if_splits)

lemma review_group_obtain:
  assumes "review_group mode sx isa_index (key, items) = Inr (g, es)"
  obtains gf gr medians source ratio_rows where "group_facts_of mode items = Inr gf"
    "judge_group sx isa_index gf items = Inr gr" "es = gr_entries gr"
    "g = group_dict mode key items gf gr medians source ratio_rows"
  using assms by (auto simp: review_group_def rbind_eq_Inr)

lemma judge_group_obtain:
  assumes "judge_group sx isa_index gf items = Inr gr"
  obtains candidates where "rmapM (review_candidate gf sx isa_index) items = Inr candidates"
    "fastest_row (filter (\<lambda>row. is_promotable (snd row)) (zip [0..<length candidates] candidates)) = Inr (gr_fastest gr)"
    "winner_entry gf (gr_fastest gr) = Inr (gr_entries gr)"
    "gr_candidates gr = settle (gr_fastest gr) (zip [0..<length candidates] candidates)"
  using assms by (auto simp: judge_group_def rbind_eq_Inr Let_def)

lemma snd_numbered: "snd ` set (zip [0..<length xs] xs) = set xs"
  by (simp flip: set_map)

lemma judge_entry:
  assumes "judge_group sx isa_index gf items = Inr gr" "e \<in> set (gr_entries gr)"
  obtains item row source where "item \<in> set items" "review_candidate gf sx isa_index item = Inr row" "is_promotable row"
    "map_of (gf_by_backend gf) (str_of (dget row ''backend'')) = Some source" "promotable_entry source row = Inr e"
proof -
  from judge_group_obtain [OF assms(1)] obtain candidates where
    cands: "rmapM (review_candidate gf sx isa_index) items = Inr candidates"
    and fastest: "fastest_row (filter (\<lambda>row. is_promotable (snd row)) (zip [0..<length candidates] candidates)) = Inr (gr_fastest gr)"
    and entry: "winner_entry gf (gr_fastest gr) = Inr (gr_entries gr)" .
  from entry assms(2) obtain best where best: "gr_fastest gr = Some best"
    by (cases "gr_fastest gr") (auto simp: winner_entry_def)
  with entry assms(2) obtain source where source: "map_of (gf_by_backend gf) (str_of (dget (snd best) ''backend'')) = Some source"
    "promotable_entry source (snd best) = Inr e"
    by (cases "map_of (gf_by_backend gf) (str_of (dget (snd best) ''backend''))")
      (auto simp: winner_entry_def rbind_eq_Inr dest!: sym [of "[_]"])
  from fastest_row_Some(1) [OF fastest [unfolded best]]
  have "is_promotable (snd best)" "snd best \<in> set candidates"
    using snd_numbered [of candidates] by auto
  with rmapM_set [OF cands] source that show thesis by blast
qed

text \<open>What the captures of a review show of a capture that became a cache entry.\<close>

definition faster_than_direct :: "pydict list \<Rightarrow> pydict \<Rightarrow> pyfloat \<Rightarrow> bool" where
  "faster_than_direct captures c t \<longleftrightarrow>
     (\<exists>direct\<in>set captures. of_family direct ''hip-direct''
        \<and> (capture_contract_key direct = capture_contract_key c \<or> setup_comparison_key direct False = setup_comparison_key c False)
        \<and> (\<exists>d. median_phase direct ''end_to_end'' = Inr (Some d) \<and> \<not> flt_le d t))"

definition same_checksum :: "pydict list \<Rightarrow> pydict \<Rightarrow> bool" where
  "same_checksum captures c \<longleftrightarrow>
     (\<exists>r\<in>set captures. capture_contract_key r = capture_contract_key c
        \<and> \<not> is_None (capture_checksum (Some r)) \<and> py_eq (capture_checksum (Some c)) (capture_checksum (Some r)))"

lemma group_members:
  assumes "(key, items) \<in> set (sort_key fst (group_on capture_contract_key captures))" "c \<in> set items"
  shows "c \<in> set captures" "capture_contract_key c = key"
  using assms by (auto simp: group_on_entry)

lemma backend_family_direct: "backend_family_id ''hip-direct'' = ''hip-direct''"
  by code_simp


section \<open>One winner per group\<close>

lemma filter_same_key:
  "distinct (map fst rows) \<Longrightarrow> x \<in> set rows \<Longrightarrow> filter (\<lambda>r. fst r = fst x) rows = [x]"
proof (induction rows)
  case (Cons r rows)
  then show ?case by (cases "r = x") (auto simp: filter_empty_conv image_iff dest!: bspec)
qed simp

lemma demote_fields:
  "dget (demote row) ''promotable'' = PBool False"
  "dget (demote row) ''promotion_blockers'' = PList [PStr ''not_fastest_promotable_accelerator'']"
  by (simp_all add: demote_def dget_dict_set)

lemma demoted_not_promotable [simp]: "\<not> is_promotable (demote row)"
  by (simp add: is_promotable_def demote_fields)

lemma settle_promotable:
  assumes "fastest_row (filter (\<lambda>row. is_promotable (snd row)) rows) = Inr fastest" and "distinct (map fst rows)"
  shows "filter is_promotable (settle fastest rows) = (case fastest of None \<Rightarrow> [] | Some best \<Rightarrow> [snd best])"
proof (cases fastest)
  case None
  with fastest_row_None assms(1) have "filter (\<lambda>row. is_promotable (snd row)) rows = []" by blast
  with None show ?thesis by (auto simp: settle_def filter_empty_conv)
next
  case (Some best)
  let ?g = "\<lambda>row. if fst row \<noteq> fst best \<and> is_promotable (snd row) then demote (snd row) else snd row"
  from fastest_row_Some(1) [OF assms(1) [unfolded Some]]
  have best: "best \<in> set rows" "is_promotable (snd best)" by simp_all
  have "filter is_promotable (map ?g rows) = map ?g (filter (is_promotable \<circ> ?g) rows)" by (rule filter_map)
  also have "filter (is_promotable \<circ> ?g) rows = filter (\<lambda>r. is_promotable (snd r)) (filter (\<lambda>r. fst r = fst best) rows)"
    by (auto intro!: filter_cong split: if_splits)
  also have "\<dots> = [best]" using best by (simp add: filter_same_key [OF assms(2) best(1)])
  finally show ?thesis using Some by (simp add: settle_def)
qed

lemma settled_nth:
  assumes "best \<in> set (zip [0..<length cs] cs)"
  shows "settle (Some best) (zip [0..<length cs] cs) ! fst best = snd best"
  using assms by (auto simp: settle_def set_zip)

definition blockers_match :: "pydict \<Rightarrow> bool" where
  "blockers_match row \<longleftrightarrow> (is_promotable row \<longleftrightarrow> dget row ''promotion_blockers'' = PList [])"

lemma candidate_blockers_match:
  assumes "review_candidate gf sx isa_index item = Inr row"
  shows "blockers_match row"
  by (rule review_candidate_obtain [OF assms])
    (simp add: blockers_match_def is_promotable_def candidate_dict_fields str_list_def)

lemma settle_blockers_match:
  assumes "\<And>row. row \<in> snd ` set rows \<Longrightarrow> blockers_match row" "row \<in> set (settle fastest rows)"
  shows "blockers_match row"
  using assms by (auto simp: settle_def blockers_match_def demote_fields split: option.splits if_splits)

lemma judge_group_winner:
  assumes "judge_group sx isa_index gf items = Inr gr"
  shows "filter is_promotable (gr_candidates gr) = (case gr_fastest gr of None \<Rightarrow> [] | Some best \<Rightarrow> [snd best])"
    and "settled_row (gr_candidates gr) (gr_fastest gr) = (case gr_fastest gr of None \<Rightarrow> PNone | Some best \<Rightarrow> PDict (snd best))"
    and "\<And>row. row \<in> set (gr_candidates gr) \<Longrightarrow> blockers_match row"
    and "length (gr_candidates gr) = length items"
    and "\<And>item row. item \<in> set items \<Longrightarrow> review_candidate gf sx isa_index item = Inr row \<Longrightarrow> is_promotable row
      \<Longrightarrow> \<exists>best. gr_fastest gr = Some best \<and> \<not> val_lt (dget row ''selection_end_to_end_us'') (selection_of best)"
proof -
  from judge_group_obtain [OF assms] obtain candidates where
    cands: "rmapM (review_candidate gf sx isa_index) items = Inr candidates"
    and fastest: "fastest_row (filter (\<lambda>row. is_promotable (snd row)) (zip [0..<length candidates] candidates)) = Inr (gr_fastest gr)"
    and settled: "gr_candidates gr = settle (gr_fastest gr) (zip [0..<length candidates] candidates)" .
  show "filter is_promotable (gr_candidates gr) = (case gr_fastest gr of None \<Rightarrow> [] | Some best \<Rightarrow> [snd best])"
    unfolding settled by (rule settle_promotable [OF fastest]) simp
  show "settled_row (gr_candidates gr) (gr_fastest gr) = (case gr_fastest gr of None \<Rightarrow> PNone | Some best \<Rightarrow> PDict (snd best))"
  proof (cases "gr_fastest gr")
    case (Some best)
    with fastest_row_Some(1) [OF fastest [unfolded Some]] have "best \<in> set (zip [0..<length candidates] candidates)" by simp
    from settled_nth [OF this] show ?thesis by (simp add: settled_row_def settled Some)
  qed (simp add: settled_row_def)
  have "blockers_match row" if "row \<in> set candidates" for row
    using rmapM_set [OF cands that] candidate_blockers_match by blast
  then show "blockers_match row" if "row \<in> set (gr_candidates gr)" for row
    using that settle_blockers_match [of "zip [0..<length candidates] candidates"] unfolding settled snd_numbered by blast
  show "length (gr_candidates gr) = length items"
    using rmapM_length [OF cands] by (simp add: settled settle_def split: option.splits)
  fix item row
  assume row: "item \<in> set items" "review_candidate gf sx isa_index item = Inr row" "is_promotable row"
  with cands have "row \<in> set candidates"
    by (auto simp: rmapM_Inr_iff list_all2_conv_all_nth in_set_conv_nth)
  then have "row \<in> snd ` set (zip [0..<length candidates] candidates)" by (simp only: snd_numbered)
  then obtain i where i: "(i, row) \<in> set (filter (\<lambda>row. is_promotable (snd row)) (zip [0..<length candidates] candidates))"
    using row(3) by auto
  then obtain best where best: "gr_fastest gr = Some best"
    using fastest_row_None [of "filter (\<lambda>row. is_promotable (snd row)) (zip [0..<length candidates] candidates)"] fastest
    by (cases "gr_fastest gr") (fastforce, blast)
  have "slower_than best (i, row)" by (rule fastest_row_Some(2) [OF fastest [unfolded best] i])
  then show "\<exists>best. gr_fastest gr = Some best \<and> \<not> val_lt (dget row ''selection_end_to_end_us'') (selection_of best)"
    by (auto simp: best slower_than_def selection_of_def)
qed

lemma group_dict_rows:
  fixes mode key items gf gr medians source ratio_rows
  defines "g \<equiv> group_dict mode key items gf gr medians source ratio_rows"
  shows "dget g ''candidates'' = dict_list (gr_candidates gr)"
    "dget g ''fastest_promotable'' = settled_row (gr_candidates gr) (gr_fastest gr)"
    "dget g ''capture_count'' = PInt (int (length items))"
  by (simp_all add: g_def group_dict_def Let_def dget_def group_identity_fields_def identity_fields_def checksum_fields_def)

definition promotable_rows :: "pydict \<Rightarrow> pyval list" where
  "promotable_rows g = filter (\<lambda>v. truthy (vget v ''promotable'')) (elems_of (dget g ''candidates''))"


section \<open>The summary of reviewed groups never fails\<close>

text \<open>What the summary relies on in a candidate and in a group.\<close>

definition summarizable :: "pydict \<Rightarrow> bool" where
  "summarizable row \<longleftrightarrow> hashable (dget row ''scenario_promotion_scope'')
     \<and> (\<forall>phase d. dget (dict_or_empty (dget row ''phase_diagnostics'')) phase = PDict d
          \<longrightarrow> (\<exists>x. dget d ''speedup_vs_direct_hip'' = float_val x))"

definition reviewed_group :: "pydict \<Rightarrow> bool" where
  "reviewed_group g \<longleftrightarrow> (\<exists>rows families. dget g ''candidates'' = dict_list rows
     \<and> dget g ''scenario_families'' = str_list families \<and> list_all summarizable rows)"

lemma phase_ratios_speedup:
  assumes "phase_ratios item direct vector = Inr ratios" "dget ratios phase = PDict d"
  shows "\<exists>x. dget d ''speedup_vs_direct_hip'' = float_val x"
proof -
  from assms(2) have "(phase, PDict d) \<in> set ratios"
    by (auto simp: dget_def dest: map_of_SomeD split: option.splits)
  from rmapM_set [OF assms(1) [unfolded phase_ratios_def] this] show ?thesis
    by (auto simp: phase_ratio_def rbind_eq_Inr dget_def)
qed

lemma candidate_summarizable:
  assumes "review_candidate gf sx isa_index item = Inr row"
  shows "summarizable row"
proof -
  from assms obtain backend ct reviews histogram cv loss_phase blockers where
    row: "row = candidate_dict gf item backend ct reviews histogram cv loss_phase blockers"
    and cv: "candidate_views_of item ct = Inr cv"
    unfolding review_candidate_def rbind_eq_Inr Let_def by (elim exE conjE) blast
  from cv have "phase_ratios item (ct_direct_base ct) (ct_vector_base ct) = Inr (cv_ratios cv)"
    by (auto simp: candidate_views_of_def rbind_eq_Inr)
  note ratios = phase_ratios_speedup [OF this]
  have "dget row ''phase_diagnostics'' = PDict (cv_ratios cv)"
    "dget row ''scenario_promotion_scope'' = opt_str (capture_scenario_promotion_scope item)"
    by (simp_all add: row candidate_dict_def Let_def dget_def)
  then show ?thesis
    using ratios by (auto simp: summarizable_def dict_or_empty_def opt_str_def hashable_def split: option.splits)
qed

lemma demote_summarizable: "summarizable row \<Longrightarrow> summarizable (demote row)"
  by (simp add: summarizable_def demote_def)

lemma settle_summarizable:
  assumes "\<And>row. row \<in> snd ` set rows \<Longrightarrow> summarizable row"
  shows "list_all summarizable (settle fastest rows)"
  using assms demote_summarizable by (auto simp: settle_def list_all_iff split: option.splits)

lemma judge_group_summarizable:
  assumes "judge_group sx isa_index gf items = Inr gr"
  shows "list_all summarizable (gr_candidates gr)"
proof -
  from judge_group_obtain [OF assms] obtain candidates where
    cands: "rmapM (review_candidate gf sx isa_index) items = Inr candidates"
    and settled: "gr_candidates gr = settle (gr_fastest gr) (zip [0..<length candidates] candidates)" .
  have "summarizable row" if "row \<in> set candidates" for row
    using rmapM_set [OF cands that] candidate_summarizable by blast
  then show ?thesis unfolding settled by (intro settle_summarizable) (simp only: snd_numbered)
qed

lemma reviewed_group_of:
  assumes "review_group mode sx isa_index (key, items) = Inr (g, es)"
  shows "reviewed_group g"
proof -
  from review_group_obtain [OF assms] obtain gf gr medians source ratio_rows where
    gr: "judge_group sx isa_index gf items = Inr gr" and g: "g = group_dict mode key items gf gr medians source ratio_rows" .
  have "dget g ''scenario_families'' = str_list (scenario_values items ''family'')"
    by (simp add: g group_dict_def Let_def dget_def)
  with judge_group_summarizable [OF gr] show ?thesis
    by (auto simp: reviewed_group_def g group_dict_rows)
qed

lemma candidate_part_total:
  assumes "summarizable row"
  shows "\<exists>part. candidate_part_of grp row = Inr part"
proof -
  have "\<exists>b. is_actionable row blockers = Inr b" for blockers
    using assms by (auto simp: is_actionable_def in_vals_def summarizable_def)
  then obtain b where "is_actionable row (map py_str (elems_of (dget row ''promotion_blockers''))) = Inr b" by blast
  then show ?thesis unfolding candidate_part_of_def Let_def by (simp only: rbind_Inr) blast
qed

lemma pack_rows_families:
  "candidate_part_of grp row = Inr part \<Longrightarrow> r \<in> set (cp_pack_rows part)
   \<Longrightarrow> dget r ''scenario_families'' = dget grp ''scenario_families''"
  unfolding candidate_part_of_def rbind_eq_Inr Let_def sum.inject
  by (elim exE conjE, hypsubst) (simp add: pack_row_def dget_def split: if_split_asm)

lemma summary_part_total:
  assumes "reviewed_group g"
  shows "\<exists>part. summary_part_of g = Inr part"
proof -
  from assms obtain rows families where g: "dget g ''candidates'' = dict_list rows"
    "dget g ''scenario_families'' = str_list families" "list_all summarizable rows"
    by (auto simp: reviewed_group_def)
  let ?f = "\<lambda>v. rbind (as_dict v) (candidate_part_of g)"
  have "\<exists>parts. rmapM ?f (map PDict rows) = Inr parts"
    by (rule rmapM_total) (use g(3) candidate_part_total in \<open>auto simp: as_dict_def list_all_iff\<close>)
  then obtain parts where parts: "rmapM ?f (map PDict rows) = Inr parts" ..
  have iter: "py_iter (dget_or g ''candidates'' (PList [])) = Inr (map PDict rows)"
    using g(1) by (auto simp: dget_or_def dget_def py_iter_def dict_list_def split: option.splits)
  with parts show ?thesis by (simp add: summary_part_of_def Let_def)
qed

lemma summary_part_families:
  assumes "summary_part_of g = Inr part" "reviewed_group g" "c \<in> set (sp_candidates part)" "r \<in> set (cp_pack_rows c)"
  shows "\<exists>families. dget r ''scenario_families'' = str_list families"
proof -
  from assms(1) obtain rows where "rmapM (\<lambda>v. rbind (as_dict v) (candidate_part_of g)) rows = Inr (sp_candidates part)"
    by (auto simp: summary_part_of_def rbind_eq_Inr Let_def)
  from rmapM_set [OF this assms(3)] obtain row where "candidate_part_of g row = Inr c" by (auto simp: rbind_eq_Inr)
  from pack_rows_families [OF this assms(4)] assms(2) show ?thesis by (auto simp: reviewed_group_def)
qed

lemma phase_ratio_summary_total:
  assumes "summarizable row"
  shows "\<exists>r. phase_ratio_summary_for_candidate row = Inr r"
proof -
  let ?d = "dict_or_empty (dget row ''phase_diagnostics'')"
  have "\<exists>x. v = float_val x" if "(phase, v) \<in> set (summary_speedups ?d)" for phase v
    using assms that by (auto simp: summary_speedups_def summarizable_def split: pyval.splits)
  then have "\<exists>worst. rfoldM slowest_step (None, FFin 0) (summary_speedups ?d) = Inr worst"
    by (intro rfoldM_total) (fastforce simp: slowest_step_def float_val_def float_or_none_def split: option.splits)
  then show ?thesis by (auto simp: phase_ratio_summary_for_candidate_def Let_def)
qed

lemma native_pack_row_total:
  "dget r ''scenario_families'' = str_list families \<Longrightarrow> \<exists>b. native_pack_row r = Inr b"
  by (cases families) (auto simp: native_pack_row_def py_or_def py_iter_def str_list_def)

lemma review_next_work_total:
  assumes "\<And>r. r \<in> set (sc_pack_rows sc) \<Longrightarrow> \<exists>families. dget r ''scenario_families'' = str_list families"
  shows "\<exists>work. review_next_work sc = Inr work"
proof -
  have "\<exists>native. rmapM native_pack_row (sc_pack_rows sc) = Inr native"
    by (rule rmapM_total) (use assms native_pack_row_total in blast)
  then show ?thesis by (auto simp: review_next_work_def pack_work_def Let_def)
qed

lemma build_review_summary_total:
  assumes "\<And>g. g \<in> set groups \<Longrightarrow> reviewed_group g"
  shows "\<exists>summary. build_review_summary groups entries = Inr summary"
proof -
  have "\<exists>parts. rmapM summary_part_of groups = Inr parts"
    by (rule rmapM_total) (use assms summary_part_total in blast)
  then obtain parts where parts: "rmapM summary_part_of groups = Inr parts" ..
  have "\<exists>families. dget r ''scenario_families'' = str_list families"
    if "part \<in> set parts" "c \<in> set (sp_candidates part)" "r \<in> set (cp_pack_rows c)" for part c r
  proof -
    from rmapM_set [OF parts that(1)] obtain g where "g \<in> set groups" "summary_part_of g = Inr part" by blast
    with assms that(2,3) show ?thesis by (blast intro: summary_part_families)
  qed
  then have "\<exists>work. review_next_work (summary_counts_of parts (length entries)) = Inr work"
    by (intro review_next_work_total) (auto simp: summary_counts_of_def Let_def)
  with parts show ?thesis by (auto simp: build_review_summary_def Let_def)
qed

text \<open>C27:
  A review fails for three reasons only: an unknown mode, a capture that the baseline index cannot read,
  or a group that cannot be judged, and it fails with their exception. Summing up the groups never
  fails.
\<close>

theorem review_fails_only_in_groups:
  "review_captures now mode isa_index captures = Inl e \<longleftrightarrow>
     (if mode \<notin> {''smoke'', ''release''} then e = ValueError
      else case build_setup_baseline_indexes captures of
        Inl x \<Rightarrow> e = x
      | Inr sx \<Rightarrow> rmapM (review_group mode sx isa_index) (sort_key fst (group_on capture_contract_key captures)) = Inl e)"
proof -
  have total: "build_review_summary (map fst results) entries \<noteq> Inl x"
    if run: "rmapM (review_group mode sx isa_index) kitems = Inr results" for sx kitems results entries x
  proof -
    have "reviewed_group g" if g: "g \<in> set (map fst results)" for g
    proof -
      from g obtain es where "(g, es) \<in> set results" by auto
      from rmapM_set [OF run this] show ?thesis using reviewed_group_of by auto
    qed
    from build_review_summary_total [OF this] show ?thesis by (metis sum.distinct(1))
  qed
  show ?thesis
    by (auto simp: review_captures_def Let_def rbind_eq_Inl total split: sum.splits)
qed

end
