(* ===== verification/Review_Cache.thy ===== *)
theory Review_Cache
  imports Capture_Review
begin

text \<open>
  What \<open>tools/benchmark_sweep_lib/review.py\<close> does with a finished review: the cache entry of a promoted
  capture, the cache file that the entries are merged into, and the write status that the report shows.
  The report is a dict that the code updates in place; here every update returns the new report.
\<close>

section \<open>Cache entries\<close>

definition flag_digit :: "pyval \<Rightarrow> string" where
  "flag_digit v = (if truthy v then ''1'' else ''0'')"

definition cache_schedule_hash :: "pydict \<Rightarrow> string" where
  "cache_schedule_hash capture =
     (let schedule = dict_or_empty (dget capture ''schedule_metadata'');
          tile_bounds = dict_or_empty (dget capture ''tile_bounds_u64'');
          selected_prefix = dget_or capture ''selected_prefix'' (dget schedule ''max_selected_prefix'');
          requested_max_prefix = dget_or capture ''requested_max_prefix'' (dget capture ''prefix'');
          prefix_policy = dget_or capture ''contract_prefix_policy'' (PStr ''legacy_v4_unspecified'')
      in join_with '';''
        [field ''tile_rows'' (py_str (dget schedule ''tile_rows'')), field ''tile_cols'' (py_str (dget schedule ''tile_cols'')),
         field ''selected_prefix'' (py_str selected_prefix), field ''requested_max_prefix'' (py_str requested_max_prefix),
         field ''prefix_policy'' (py_str prefix_policy), field ''bound_source'' (capture_bound_source capture),
         field ''groups'' (py_str (dget schedule ''prefix_group_count'')),
         field ''adaptive_prefix'' (flag_digit (dget schedule ''adaptive_prefix_active'')),
         field ''adaptive_skip'' (flag_digit (dget schedule ''adaptive_skip_active'')),
         field ''schedule_flags'' (py_str (dget_or schedule ''flags'' (PInt 0))),
         field ''zero_output_tiles'' (py_str (dget_or schedule ''zero_output_tile_count'' (PInt 0))),
         field ''zero_a_rows'' (py_str (dget_or schedule ''zero_a_row_proof_count'' (PInt 0))),
         field ''zero_b_cols'' (py_str (dget_or schedule ''zero_b_col_proof_count'' (PInt 0))),
         field ''zero_row_col_products'' (py_str (dget_or schedule ''zero_row_col_product_count'' (PInt 0))),
         field ''tile_bound_hash'' (py_str (dget_or tile_bounds ''hash_u64'' (PInt 0)))])"

definition review_selector_hash :: "pyval \<Rightarrow> string option" where
  "review_selector_hash v = (if is_nonempty_str v then Some (selector_key_hash (str_of v)) else None)"

text \<open>A non-default export or reconstruction makes the runtime key one of its own.\<close>

definition cache_key :: "pyval \<Rightarrow> string \<Rightarrow> string \<Rightarrow> string option \<Rightarrow> pyval" where
  "cache_key key export reconstruction selector_hash =
     (case selector_hash of
        Some h \<Rightarrow>
          if is_nonempty_str key \<and> h \<noteq> [] \<and> \<not> (export = ''default'' \<and> reconstruction = ''default_garner'')
          then PStr (join_with '';'' [str_of key, field ''export_variant'' export,
                 field ''reconstruction_variant'' reconstruction, field ''export_selector_hash'' h])
          else key
      | None \<Rightarrow> key)"

definition median_or_zero :: "pydict \<Rightarrow> string \<Rightarrow> (string \<times> pyval) res" where
  "median_or_zero capture phase =
     rbind (median_phase capture phase) (\<lambda>v. Inr (phase, PFloat (case v of None \<Rightarrow> FFin 0 | Some x \<Rightarrow> x)))"

definition CACHE_MEDIANS :: "string list" where
  "CACHE_MEDIANS = [''pack'', ''pack_a'', ''pack_b'', ''rns_gemm'', ''crt_export'', ''end_to_end'']"

definition cache_entry_dict :: "string \<Rightarrow> pydict \<Rightarrow> string \<Rightarrow> pyval \<Rightarrow> pyval \<Rightarrow> pydict \<Rightarrow> pydict" where
  "cache_entry_dict now capture validation_status setup_us inclusive_us medians =
     (let meta = dict_or_empty (dget capture ''backend_metadata'');
          export_variant = dict_or_empty (dget capture ''export_variant'');
          export = text_or export_variant ''name'' ''default'';
          reconstruction = text_or (dict_or_empty (dget capture ''reconstruction_variant'')) ''name'' ''default_garner'';
          selector = dget export_variant ''selector_key'';
          selector_hash = review_selector_hash selector;
          device = dict_or_empty (dget capture ''device'');
          toolchain = dict_or_empty (dget capture ''hip_toolchain'') in
      [(''key'', cache_key (dget meta ''autotune_key'') export reconstruction selector_hash),
       (''selected_backend'', dget capture ''backend_selected''), (''selected_kernel'', dget capture ''selected_kernel''),
       (''target_id'', PStr (case normalized_target_id (dget device ''gcn_arch'') of
          None \<Rightarrow> ''cpu'' | Some t \<Rightarrow> if t = [] then ''cpu'' else t)),
       (''hip_sdk_or_library_version'', py_or (py_or (dget meta ''accelerator_version'')
          (dget toolchain ''hip_sdk_or_rocm_version'')) (PStr ''unknown'')),
       (''semantic_contract'', dget capture ''semantics''),
       (''finite_modulus'', py_or (dget capture ''finite_modulus'') (PInt 0)),
       (''shape'', PDict [(''m'', dget capture ''m''), (''n'', dget capture ''n''), (''k'', dget capture ''k'')]),
       (''layout'', dget capture ''layout''), (''prefix_schedule_hash'', PStr (cache_schedule_hash capture)),
       (''k_block_size'', dget capture ''k_block_size''), (''tile_m'', dget capture ''tile_m''),
       (''tile_n'', dget capture ''tile_n''), (''epilogue'', dget meta ''epilogue_mode''),
       (''kernel_family'', py_or (dget meta ''selected_kernel'') (dget capture ''selected_kernel'')),
       (''workspace_bytes'', dget_or meta ''workspace_required_bytes'' (PInt 0)),
       (''export_variant'', PStr export), (''reconstruction_variant'', PStr reconstruction),
       (''export_selector_key'', selector), (''export_selector_hash'', opt_str selector_hash),
       (''export_selector_policy'', dget export_variant ''selector_policy''),
       (''export_cache_visibility'', dget export_variant ''cache_visibility''),
       (''export_stale_entry_reason'', dget export_variant ''stale_entry_reason''),
       (''cache_scope'', PStr (if export = ''default'' \<and> reconstruction = ''default_garner''
          then ''runtime_exact_autotune'' else ''selector_review_only_non_default'')),
       (''pack_mode'', PStr (capture_pack_mode capture)),
       (''reuse_packed_inputs'', PBool (capture_prepacked_reuse capture)),
       (''prepack_reuse_operands'', dget capture ''prepack_reuse_operands''),
       (''prepack_reuse_strategy'', dget capture ''prepack_reuse_strategy''),
       (''prepack_setup_us'', setup_us), (''setup_inclusive_median_end_to_end_us'', inclusive_us),
       (''measured_medians_us'', PDict medians), (''performance_validated'', PBool True),
       (''validation_status'', PStr validation_status), (''schema_version'', PInt 1), (''updated_utc'', PStr now)])"

definition cache_entry_from_capture :: "string \<Rightarrow> pydict \<Rightarrow> string \<Rightarrow> pydict res" where
  "cache_entry_from_capture now capture validation_status =
     rbind (numeric_capture_value capture ''avg_prepack_setup_us'') (\<lambda>setup.
     rbind (selection_end_to_end_us capture) (\<lambda>inclusive.
     rbind (rmapM (median_or_zero capture) CACHE_MEDIANS) (\<lambda>medians.
     Inr (cache_entry_dict now capture validation_status (float_val setup) (float_val inclusive) medians))))"

definition review_status_for_target :: "string \<Rightarrow> string" where
  "review_status_for_target tgt =
     (if tgt = ''gfx1100'' then ''reviewed_release_same_contract_fastest_windows_gfx1100''
      else if tgt \<in> {''gfx90a'', ''gfx942'', ''gfx950''} then ''reviewed_release_same_contract_fastest_linux_'' @ tgt
      else if starts_with ''gfx'' tgt then ''reviewed_release_same_contract_fastest_target_'' @ tgt
      else ''reviewed_release_unknown_target'')"

section \<open>Writing the cache\<close>

text \<open>A dict whose keys are values: equal keys share an entry, and a list or dict is no key.\<close>

fun vset :: "pyval \<Rightarrow> 'v \<Rightarrow> (pyval \<times> 'v) list \<Rightarrow> (pyval \<times> 'v) list" where
  "vset k v [] = [(k, v)]"
| "vset k v ((k', v') # d) = (if elem_eq k k' then (k', v) # d else (k', v') # vset k v d)"

definition add_entry :: "(pyval \<times> pydict) list \<Rightarrow> pydict \<Rightarrow> (pyval \<times> pydict) list res" where
  "add_entry d e = (if hashable (dget e ''key'') then Inr (vset (dget e ''key'') e d) else Inl TypeError)"

definition capture_target_id :: "pydict \<Rightarrow> string" where
  "capture_target_id capture =
     (case normalized_target_id (dget (dict_or_empty (dget capture ''device'')) ''gcn_arch'') of
        None \<Rightarrow> ''cpu'' | Some t \<Rightarrow> if t = [] then ''cpu'' else t)"

definition entry_for :: "string \<Rightarrow> pydict list \<Rightarrow> pyval \<Rightarrow> pydict list res" where
  "entry_for now captures item =
     (if \<not> is_dict item then Inr []
      else case find (\<lambda>c. py_str (dget c ''_path'') = py_str (vget item ''source_capture'')) (rev captures) of
        None \<Rightarrow> Inr []
      | Some capture \<Rightarrow>
          if capture = [] then Inr []
          else rbind (cache_entry_from_capture now capture (review_status_for_target (capture_target_id capture))) (\<lambda>e.
            Inr (if truthy (dget e ''key'') then [e] else [])))"

definition existing_entries :: "files \<Rightarrow> path \<Rightarrow> pydict list res" where
  "existing_entries fs p =
     (if fs p = Missing then Inr []
      else rbind (read_json fs p) (\<lambda>existing. Inr (dicts_in (elems_of (vget existing ''entries'')))))"

definition mark_item :: "string \<Rightarrow> pyval \<Rightarrow> pyval" where
  "mark_item status v = (case v of PDict d \<Rightarrow> PDict (dict_set ''cache_write_status'' (PStr status) d) | _ \<Rightarrow> v)"

definition mark_entries :: "string \<Rightarrow> pydict \<Rightarrow> pydict" where
  "mark_entries status report =
     (case dget report ''promotable_autotune_entries'' of
        PList items \<Rightarrow> dict_set ''promotable_autotune_entries'' (PList (map (mark_item status) items)) report
      | _ \<Rightarrow> report)"

definition write_promoted_cache_entries ::
  "string \<Rightarrow> pydict \<Rightarrow> pydict list \<Rightarrow> path \<Rightarrow> files \<Rightarrow> (nat \<times> pydict \<times> files) res" where
  "write_promoted_cache_entries now report captures p fs =
     rbind (rmapM (entry_for now captures) (elems_of (dget report ''promotable_autotune_entries''))) (\<lambda>rows.
     let entries = concat rows in
     if entries = [] then Inr (0, report, fs)
     else rbind (existing_entries fs p) (\<lambda>old.
       rbind (rfoldM add_entry [] (filter (\<lambda>e. truthy (dget e ''key'')) old)) (\<lambda>kept.
       rbind (rfoldM add_entry kept entries) (\<lambda>merged.
       Inr (length entries, mark_entries ''written'' report, write_cache p (map snd merged) fs)))))"

section \<open>The write status\<close>

definition written_sources :: "pyval list \<Rightarrow> string list" where
  "written_sources items =
     map (\<lambda>v. py_str (vget v ''source_capture''))
       (filter (\<lambda>v. is_dict v \<and> eq_str (vget v ''cache_write_status'') ''written'' \<and> truthy (vget v ''source_capture'')) items)"

definition mark_candidate :: "string list \<Rightarrow> pyval \<Rightarrow> pyval" where
  "mark_candidate sources v =
     (if \<not> is_dict v then v
      else if py_str (vget v ''capture'') \<in> set sources then mark_item ''written'' v
      else if truthy (vget v ''promotable'') then mark_item ''pending'' v
      else v)"

text \<open>The routes of a group are objects of its candidate list, so they change with it.\<close>

definition ROUTE_FIELDS :: "string list" where
  "ROUTE_FIELDS = [''fastest_promotable'', ''fastest_production_route'', ''fastest_accelerator_route'']"

definition mark_route :: "string list \<Rightarrow> pydict \<Rightarrow> string \<times> pyval \<Rightarrow> string \<times> pyval" where
  "mark_route sources grp kv =
     (let rows = elems_of (dget grp ''candidates'') in
      (fst kv,
       if fst kv = ''candidates'' then PList (map (mark_candidate sources) rows)
       else if fst kv \<in> set ROUTE_FIELDS \<and> snd kv \<in> set rows then mark_candidate sources (snd kv)
       else snd kv))"

definition mark_group :: "string list \<Rightarrow> pyval \<Rightarrow> pyval" where
  "mark_group sources v = (case v of PDict grp \<Rightarrow> PDict (map (mark_route sources grp) grp) | _ \<Rightarrow> v)"

definition attach_cache_write_status :: "pydict \<Rightarrow> bool \<Rightarrow> path \<Rightarrow> nat \<Rightarrow> pydict" where
  "attach_cache_write_status report requested p entries_written =
     (let noted = dict_set ''cache_write'' (PDict
            [(''requested'', PBool requested), (''path'', if requested then PStr (path_str p) else PNone),
             (''entries_written'', PInt (int entries_written)),
             (''status'', PStr (if requested \<and> entries_written \<noteq> 0 then ''written''
                else if requested then ''no_promotable_entries'' else ''not_requested''))]) report;
          sources = written_sources (elems_of (dget report ''promotable_autotune_entries''))
      in if \<not> requested then mark_entries ''not_requested'' noted
         else dict_set ''groups'' (PList (map (mark_group sources) (elems_of (dget report ''groups'')))) noted)"

section \<open>What the installer makes of a written entry\<close>

text \<open>The review and the installer derive the same status exactly from lower-case GPU targets.\<close>

lemma review_status_agrees:
  "review_status_for_target t = reviewed_release_status_for_target t \<longleftrightarrow> starts_with ''gfx'' t \<and> lower t = t"
proof -
  have low: "lower ''gfx1100'' = ''gfx1100''" "lower ''gfx90a'' = ''gfx90a''" "lower ''gfx942'' = ''gfx942''"
    "lower ''gfx950'' = ''gfx950''" by code_simp+
  have gfx: "starts_with ''gfx'' ''gfx1100''" "starts_with ''gfx'' ''gfx90a''" "starts_with ''gfx'' ''gfx942''"
    "starts_with ''gfx'' ''gfx950''" by code_simp+
  have cdna: "set LINUX_CDNA_TARGETS = {''gfx90a'', ''gfx942'', ''gfx950''}" by code_simp
  show ?thesis
  proof (cases "starts_with ''gfx'' t \<and> lower t = t")
    case True
    then show ?thesis by (simp add: review_status_for_target_def reviewed_release_status_for_target_def cdna)
  next
    case False
    then have t: "t \<noteq> ''gfx1100''" "t \<notin> {''gfx90a'', ''gfx942'', ''gfx950''}" using low gfx by auto
    show ?thesis
    proof (cases "starts_with ''gfx'' t")
      case True
      with False have "lower t \<noteq> t" by simp
      with True t show ?thesis by (simp add: review_status_for_target_def reviewed_release_status_for_target_def cdna Let_def)
    next
      case False
      with t show ?thesis by (simp add: review_status_for_target_def reviewed_release_status_for_target_def cdna Let_def)
    qed
  qed
qed

lemma cache_entry_fields:
  assumes "cache_entry_from_capture now capture status = Inr e"
  shows "dget e ''validation_status'' = PStr status" "dget e ''performance_validated'' = PBool True"
    "dget e ''schema_version'' = PInt 1" "dget e ''target_id'' = PStr (capture_target_id capture)"
proof -
  from assms obtain cost inclusive medians where "e = cache_entry_dict now capture status cost inclusive medians"
    by (auto simp: cache_entry_from_capture_def rbind_eq_Inr)
  then show "dget e ''validation_status'' = PStr status" "dget e ''performance_validated'' = PBool True"
    "dget e ''schema_version'' = PInt 1" "dget e ''target_id'' = PStr (capture_target_id capture)"
    by (simp_all add: cache_entry_dict_def capture_target_id_def Let_def dget_def)
qed

lemma read_identity_target: "read_identity e = Inr ei \<Longrightarrow> dget e ''target_id'' = PStr t \<Longrightarrow> ei_target ei = t"
  by (auto simp: read_identity_def require_string_def cache_check_def res_simps)

lemma review_status_prefix: "starts_with REVIEWED_RELEASE_PREFIX (review_status_for_target t)"
  by (simp add: review_status_for_target_def REVIEWED_RELEASE_PREFIX_def)

lemma review_status_nonempty [simp]: "review_status_for_target t \<noteq> []"
  by (simp add: review_status_for_target_def)

text \<open>C29:
  The entry that a review writes for a promoted capture passes the installer's review checks (validated,
  reviewed for its target, a backend that is reviewed for the semantics) exactly when the capture's
  target is a GPU target in lower case and the backend is reviewed for the semantics.
\<close>

theorem written_entry_reviewed:
  assumes "cache_entry_from_capture now capture (review_status_for_target (capture_target_id capture)) = Inr e"
    and "read_identity e = Inr ei"
  shows "check_reviewed e ei = Inr () \<longleftrightarrow>
    starts_with ''gfx'' (capture_target_id capture) \<and> lower (capture_target_id capture) = capture_target_id capture
    \<and> reviewed_backend_supports_semantic_contract (ei_backend ei) (ei_semantic ei)"
proof -
  let ?t = "capture_target_id capture"
  note e = cache_entry_fields [OF assms(1)]
  have "ei_target ei = ?t" by (rule read_identity_target [OF assms(2) e(4)])
  moreover have "reviewed_release_status_for_target ?t \<noteq> [] \<and> review_status_for_target ?t = reviewed_release_status_for_target ?t
      \<longleftrightarrow> starts_with ''gfx'' ?t \<and> lower ?t = ?t"
    using review_status_agrees [of ?t] review_status_nonempty [of ?t] by metis
  ultimately show ?thesis
    using review_status_prefix [of ?t] review_status_nonempty [of ?t]
    by (auto simp: check_reviewed_def e require_string_def require_int_def cache_check_def is_True_iff res_simps)
qed

definition promoted_capture :: pydict where
  "promoted_capture =
     [(''backend_selected'', PStr ''ck''), (''selected_kernel'', PStr ''k1''), (''semantics'', PStr ''finite_ring_u8''),
      (''layout'', PStr ''row_major''), (''device'', PDict [(''gcn_arch'', PStr ''gfx1100'')]),
      (''backend_metadata'', PDict [(''autotune_key'', PStr ''key''), (''epilogue_mode'', PStr ''e'')])]"

theorem written_entry_reviewed_witness:
  "\<exists>e ei. cache_entry_from_capture ''now'' promoted_capture (review_status_for_target ''gfx1100'') = Inr e
     \<and> read_identity e = Inr ei \<and> check_reviewed e ei = Inr ()"
proof -
  have target: "capture_target_id promoted_capture = ''gfx1100''" by code_simp
  have "case cache_entry_from_capture ''now'' promoted_capture (review_status_for_target ''gfx1100'') of Inl _ \<Rightarrow> False
    | Inr e \<Rightarrow> (case read_identity e of Inl _ \<Rightarrow> False
        | Inr ei \<Rightarrow> reviewed_backend_supports_semantic_contract (ei_backend ei) (ei_semantic ei))"
    by code_simp
  then obtain e ei where run: "cache_entry_from_capture ''now'' promoted_capture (review_status_for_target ''gfx1100'') = Inr e"
    "read_identity e = Inr ei" and ok: "reviewed_backend_supports_semantic_contract (ei_backend ei) (ei_semantic ei)"
    by (auto split: sum.splits)
  have "starts_with ''gfx'' ''gfx1100''" "lower ''gfx1100'' = ''gfx1100''" by code_simp+
  with written_entry_reviewed [of "''now''" promoted_capture e ei] run ok show ?thesis by (auto simp: target)
qed

end
