(* ===== verification/Review_Example.thy ===== *)
theory Review_Example
  imports Review_Cache
begin

text \<open>
  A review of three captures of one finite-ring product: the CPU reference, direct HIP, and a CK kernel
  that is twice as fast. It shows that the properties of \<open>Capture_Review\<close> speak about reviews that
  promote something.
\<close>

section \<open>Three captures\<close>

definition example_common :: pydict where
  "example_common =
     [(''semantics'', PStr ''finite_ring_u8''), (''checksum_u64'', PInt 7), (''git_commit'', PStr ''c1''),
      (''m'', PInt 64), (''n'', PInt 64), (''k'', PInt 64), (''warmups'', PInt 3), (''repeats'', PInt 30),
      (''configured_amdgpu_targets'', PStr ''gfx1100''),
      (''compiler'', PDict [(''id'', PStr ''Clang''), (''version'', PStr ''19'')]),
      (''device'', PDict [(''gcn_arch'', PStr ''gfx1100''), (''hip_runtime_version'', PInt 6), (''hip_driver_version'', PInt 6)]),
      (''hip_toolchain'', PDict [(''hip_sdk_or_rocm_version'', PStr ''6.2'')]),
      (''timing_metadata'', PDict [(''gpu_event_timing'', PBool True), (''gpu_event_timing_status'', PStr ''available''),
         (''gpu_event_timing_source'', PStr ''hip''), (''gpu_event_phase_order'', PList [])])]"

definition example_capture :: "string \<Rightarrow> bool \<Rightarrow> int \<Rightarrow> pydict" where
  "example_capture backend accelerator median =
     [(''_path'', PStr backend), (''backend_selected'', PStr backend),
      (''backend_metadata'', PDict [(''accelerator_backend'', PBool accelerator), (''autotune_key'', PStr ''key'')]),
      (''timing_summary_us'', PDict [(''end_to_end'', PDict [(''median'', PInt median)])])] @ example_common"

definition cpu_example :: pydict where "cpu_example = example_capture ''cpu-reference'' False 80"
definition direct_example :: pydict where "direct_example = example_capture ''hip-direct'' False 40"
definition ck_example :: pydict where "ck_example = example_capture ''ck'' True 20"

definition example_captures :: "pydict list" where
  "example_captures = [cpu_example, direct_example, ck_example]"

lemmas example_defs = cpu_example_def direct_example_def ck_example_def

text \<open>The keys are the same for the three captures; their text does not matter.\<close>

lemma example_dget:
  "k \<notin> {''_path'', ''backend_selected'', ''backend_metadata'', ''timing_summary_us''}
   \<Longrightarrow> dget (example_capture b a n) k = dget example_common k"
  by (simp add: example_capture_def dget_def)

lemma example_dget_or:
  "k \<notin> {''_path'', ''backend_selected'', ''backend_metadata'', ''timing_summary_us''}
   \<Longrightarrow> dget_or (example_capture b a n) k v = dget_or example_common k v"
  by (simp add: example_capture_def dget_or_def)

lemmas accessor_defs = capture_scenario_identity_def capture_checksum_policy_def capture_host_api_batch_size_def
  capture_grouped_dispatch_task_count_def capture_grouped_dispatch_strategy_def capture_bound_source_def
  capture_pack_mode_def capture_prepack_reuse_strategy_def capture_prepack_reuse_operands_def
  capture_timing_metadata_def variant_name_def
  capture_export_variant_name_def capture_reconstruction_variant_name_def tile_contract_def
  residue_output_mode_def next_op_contract_def

lemma parts_example:
  "setup_parts (example_capture b a n) = setup_parts (example_capture b' a' n')"
  "contract_parts (example_capture b a n) = contract_parts (example_capture b' a' n')"
  "capture_scenario_identity (example_capture b a n) = capture_scenario_identity (example_capture b' a' n')"
  "capture_pack_mode (example_capture b a n) = capture_pack_mode (example_capture b' a' n')"
  "dget (example_capture b a n) ''reuse_packed_inputs'' = dget (example_capture b' a' n') ''reuse_packed_inputs''"
  by (simp_all add: setup_parts_def contract_parts_def accessor_defs example_dget example_dget_or cong: if_cong pyval.case_cong)

definition example_setup :: "bool \<Rightarrow> string" where
  "example_setup = setup_comparison_key (example_capture [] False 0)"

definition example_contract :: string where
  "example_contract = capture_contract_key (example_capture [] False 0)"

lemma setup_key_example: "setup_comparison_key (example_capture b a n) = example_setup"
  unfolding example_setup_def setup_comparison_key_def fun_eq_iff
  using parts_example(1,4,5) [of b a n "[]" False 0] by (simp only: simp_thms)

lemma contract_key_example: "capture_contract_key (example_capture b a n) = example_contract"
  unfolding example_contract_def capture_contract_key_def
  using parts_example(2,3) [of b a n "[]" False 0] by (simp only: simp_thms)

lemma distinct_examples: "cpu_example \<noteq> direct_example" "cpu_example \<noteq> ck_example" "direct_example \<noteq> ck_example"
  by (simp_all add: example_defs example_capture_def)

lemma example_groups:
  "sort_key fst (group_on capture_contract_key example_captures) = [(example_contract, example_captures)]"
  by (simp add: example_captures_def group_on_def add_to_group_def contract_key_example example_defs)

section \<open>The facts of the group\<close>

definition on_gpu :: "string \<Rightarrow> identities" where
  "on_gpu v = [(''hip-direct'', Some v), (''ck'', Some v)]"

definition on_all :: "string \<Rightarrow> identities" where
  "on_all v = (''cpu-reference'', Some v) # on_gpu v"

definition example_facts :: group_facts where
  "example_facts =
     \<lparr>gf_by_backend = [(''cpu-reference'', cpu_example), (''hip-direct'', direct_example), (''ck'', ck_example)],
      gf_duplicates = [], gf_semantics = PStr ''finite_ring_u8'', gf_required = [''cpu-reference'', ''hip-direct''],
      gf_missing = [], gf_targets = on_gpu ''gfx1100'', gf_configured = on_gpu ''gfx1100'', gf_toolchains = on_gpu ''6.2'',
      gf_runtimes = on_gpu ''6'', gf_drivers = on_gpu ''6'', gf_compilers = on_all ''Clang 19'', gf_commits = on_all ''c1'',
      gf_warmups = on_all ''3'', gf_repeats = on_all ''30'', gf_release = True,
      gf_reference = (Some ''cpu-reference'', PInt 7)\<rparr>"

lemma facts_example: "group_facts_of ''release'' example_captures = Inr example_facts"
  by code_simp

section \<open>The times of the candidates\<close>

lemma tags_example:
  "setup_tags_of cpu_example = Inr \<lparr>st_family = ''cpu-reference'', st_graph_baseline = True, st_nonreuse = True\<rparr>"
  "setup_tags_of direct_example = Inr \<lparr>st_family = ''hip-direct'', st_graph_baseline = True, st_nonreuse = True\<rparr>"
  "setup_tags_of ck_example = Inr \<lparr>st_family = ''ck'', st_graph_baseline = True, st_nonreuse = True\<rparr>"
  by code_simp+

lemma backend_example:
  "backend_id cpu_example = Inr ''cpu-reference''" "backend_id direct_example = Inr ''hip-direct''"
  "backend_id ck_example = Inr ''ck''" "backend_family_id ''cpu-reference'' = ''cpu-reference''"
  "backend_family_id ''hip-direct'' = ''hip-direct''" "backend_family_id ''ck'' = ''ck''"
  by code_simp+

lemma median_example:
  "median_phase cpu_example ''end_to_end'' = Inr (Some (FFin 80))"
  "median_phase direct_example ''end_to_end'' = Inr (Some (FFin 40))"
  "median_phase ck_example ''end_to_end'' = Inr (Some (FFin 20))"
  by code_simp+

lemma selection_example:
  "selection_end_to_end_us cpu_example = Inr (Some (FFin 80))"
  "selection_end_to_end_us direct_example = Inr (Some (FFin 40))"
  "selection_end_to_end_us ck_example = Inr (Some (FFin 20))"
  by code_simp+

lemma inclusive_example:
  "setup_inclusive_end_to_end_us cpu_example False = Inr (Some (FFin 80))"
  "setup_inclusive_end_to_end_us direct_example False = Inr (Some (FFin 40))"
  "setup_inclusive_end_to_end_us ck_example False = Inr (Some (FFin 20))"
  by code_simp+

definition example_index :: "string \<Rightarrow> ((string \<times> string) \<times> pydict list) list" where
  "example_index k = [((k, ''cpu-reference''), [cpu_example]), ((k, ''hip-direct''), [direct_example]), ((k, ''ck''), [ck_example])]"

definition example_indexes :: setup_indexes where
  "example_indexes =
     \<lparr>sx_nonreuse_backend = example_index (example_setup False),
      sx_nonreuse = [(example_setup False, [direct_example, ck_example])],
      sx_graph = example_index (example_setup True)\<rparr>"

lemma setup_keys: "setup_comparison_key cpu_example = example_setup" "setup_comparison_key direct_example = example_setup"
  "setup_comparison_key ck_example = example_setup"
  by (simp_all add: example_defs setup_key_example)

lemma indexes_example: "build_setup_baseline_indexes example_captures = Inr example_indexes"
  by (simp add: build_setup_baseline_indexes_def example_captures_def tags_example setup_keys
    group_on_def add_to_group_def example_indexes_def example_index_def)

definition example_times :: "pydict \<Rightarrow> rat \<Rightarrow> candidate_times" where
  "example_times c x =
     \<lparr>ct_end_to_end = Some (FFin x), ct_selection = Some (FFin x), ct_cpu = Some (FFin 80), ct_direct = Some (FFin 40),
      ct_vector = None, ct_direct_base = Some direct_example, ct_vector_base = None, ct_same_backend = Some c,
      ct_best_nonreuse = Some ck_example, ct_graph_base = Some c\<rparr>"

lemma nonempty_example: "cpu_example \<noteq> []" "direct_example \<noteq> []" "ck_example \<noteq> []"
  by (simp_all add: example_defs example_capture_def)

lemma timed_cpu_example: "timed_cpu_capture example_facts = Inr (Some cpu_example)"
  by code_simp

lemma fastest_examples:
  "fastest_capture [] False = Inr None" "fastest_capture [cpu_example] False = Inr (Some cpu_example)"
  "fastest_capture [direct_example] False = Inr (Some direct_example)"
  "fastest_capture [ck_example] False = Inr (Some ck_example)"
  "fastest_capture [direct_example, ck_example] False = Inr (Some ck_example)"
  by (simp_all add: fastest_capture_def inclusive_example min_float_def flt_is_zero_def)

lemma times_example:
  "candidate_times_of example_facts example_indexes cpu_example ''cpu-reference'' = Inr (example_times cpu_example 80)"
  "candidate_times_of example_facts example_indexes direct_example ''hip-direct'' = Inr (example_times direct_example 40)"
  "candidate_times_of example_facts example_indexes ck_example ''ck'' = Inr (example_times ck_example 20)"
  by (simp_all add: candidate_times_of_def Let_def setup_keys example_indexes_def example_index_def lookup_captures_def
    fastest_examples median_example selection_example timed_cpu_example capture_or_def nonempty_example median_if_def
    example_times_def) (simp_all add: example_facts_def nonempty_example fastest_examples median_example)

section \<open>The candidates\<close>

lemma mode_example:
  "capture_execution_mode cpu_example = Inr ''persistent_resident_matrices''"
  "capture_execution_mode direct_example = Inr ''persistent_resident_matrices''"
  "capture_execution_mode ck_example = Inr ''persistent_resident_matrices''"
  by code_simp+

lemma reviews_example:
  "setup_reviews cpu_example ct = Inr (None, None)" "setup_reviews direct_example ct = Inr (None, None)"
  "setup_reviews ck_example ct = Inr (None, None)"
  by code_simp+

lemma histogram_example:
  "matrix_instruction_histogram None cpu_example = Inr []" "matrix_instruction_histogram None direct_example = Inr []"
  "matrix_instruction_histogram None ck_example = Inr []"
  by code_simp+

lemma cpu_scope: "scope_blockers example_facts cpu_example ''cpu-reference'' ''persistent_resident_matrices''
    (example_times cpu_example 80) (None, None) = Inr [''not_accelerator_backend'']"
  by code_simp

lemma direct_scope: "scope_blockers example_facts direct_example ''hip-direct'' ''persistent_resident_matrices''
    (example_times direct_example 40) (None, None) = Inr [''not_accelerator_backend'']"
  by code_simp

lemma ck_scope: "scope_blockers example_facts ck_example ''ck'' ''persistent_resident_matrices''
    (example_times ck_example 20) (None, None) = Inr []"
  by code_simp

lemma cpu_evidence: "evidence_blockers example_facts cpu_example ''cpu-reference'' [] = Inr []"
  by code_simp

lemma direct_evidence: "evidence_blockers example_facts direct_example ''hip-direct'' [] = Inr []"
  by code_simp

lemma ck_evidence: "evidence_blockers example_facts ck_example ''ck'' [] = Inr []"
  by code_simp

lemma views_example:
  "returns (candidate_views_of cpu_example (example_times cpu_example 80))"
  "returns (candidate_views_of direct_example (example_times direct_example 40))"
  "returns (candidate_views_of ck_example (example_times ck_example 20))"
  by code_simp+

lemma loss_example:
  "returns (primary_loss_phase cpu_example (Some direct_example))" "returns (primary_loss_phase direct_example (Some direct_example))"
  by code_simp+

text \<open>What the rest of the review reads of a candidate; its views stay abstract.\<close>

definition example_row :: "pydict \<Rightarrow> string \<Rightarrow> rat \<Rightarrow> candidate_views \<Rightarrow> string option \<Rightarrow> string list \<Rightarrow> pydict" where
  "example_row c b x cv loss blockers = candidate_dict example_facts c b (example_times c x) (None, None) [] cv loss blockers"

lemma direct_base: "ct_direct_base (example_times c x) = Some direct_example"
  by (simp add: example_times_def)

lemma cpu_row: "\<exists>cv loss. review_candidate example_facts example_indexes None cpu_example
    = Inr (example_row cpu_example ''cpu-reference'' 80 cv loss [''not_accelerator_backend''])"
  using views_example(1) loss_example(1) unfolding returns_iff
  by (elim exE) (simp add: review_candidate_def backend_example mode_example times_example reviews_example histogram_example
    cpu_scope cpu_evidence example_row_def Let_def direct_base, blast)

lemma direct_row: "\<exists>cv loss. review_candidate example_facts example_indexes None direct_example
    = Inr (example_row direct_example ''hip-direct'' 40 cv loss [''not_accelerator_backend''])"
  using views_example(2) loss_example(2) unfolding returns_iff
  by (elim exE) (simp add: review_candidate_def backend_example mode_example times_example reviews_example histogram_example
    direct_scope direct_evidence example_row_def Let_def direct_base, blast)

lemma ck_row: "\<exists>cv. review_candidate example_facts example_indexes None ck_example
    = Inr (example_row ck_example ''ck'' 20 cv None [])"
  using views_example(3)
  by (auto simp: review_candidate_def backend_example mode_example times_example reviews_example histogram_example
    ck_scope ck_evidence example_row_def returns_iff Let_def)

lemma release_example: "release_capture_satisfied cpu_example" "release_capture_satisfied direct_example"
  "release_capture_satisfied ck_example"
  by code_simp+

lemma scope_example: "capture_scenario_promotion_scope cpu_example = None"
  "capture_scenario_promotion_scope direct_example = None" "capture_scenario_promotion_scope ck_example = None"
  by code_simp+

lemma checksum_example: "capture_checksum (Some cpu_example) = PInt 7" "capture_checksum (Some direct_example) = PInt 7"
  "capture_checksum (Some ck_example) = PInt 7"
  by code_simp+

lemma row_fields:
  "dget (example_row c b x cv loss blockers) ''promotion_blockers'' = str_list blockers"
  "dget_or (example_row c b x cv loss blockers) ''promotion_blockers'' v = str_list blockers"
  "dget (example_row c b x cv loss blockers) ''promotable'' = PBool (blockers = [])"
  "dget (example_row c b x cv loss blockers) ''backend'' = PStr b"
  "dget (example_row c b x cv loss blockers) ''scenario_promotion_scope'' = opt_str (capture_scenario_promotion_scope c)"
  "dget (example_row c b x cv loss blockers) ''release_review_capture'' = PBool (release_capture_satisfied c)"
  "dget (example_row c b x cv loss blockers) ''selection_end_to_end_us'' = PFloat (FFin x)"
  "dget (example_row c b x cv loss blockers) ''accelerator_backend'' = PBool (is_True (dget (capture_backend_metadata c) ''accelerator_backend''))"
  "dget (example_row c b x cv loss blockers) ''checksum_matches_reference''
     = PBool (\<not> is_None (capture_checksum (Some c)) \<and> py_eq (capture_checksum (Some c)) (PInt 7))"
  by (simp_all add: example_row_def candidate_dict_def example_times_def example_facts_def float_val_def
    matrix_fields_def Let_def dget_def dget_or_def)

lemma route_example:
  assumes "capture_scenario_promotion_scope c = None" "release_capture_satisfied c" "capture_checksum (Some c) = PInt 7"
    and "set blockers \<subseteq> {''not_accelerator_backend''}"
  shows "review_route_candidate (example_row c b x cv loss blockers) = Inr True"
proof -
  have "''not_accelerator_backend'' \<notin> set FATAL_BLOCKERS" by code_simp
  then have "list_all (\<lambda>b. py_str b \<notin> set FATAL_BLOCKERS) (map PStr blockers)"
    using assms(4) by (auto simp: list_all_iff)
  then show ?thesis
    using assms(1-3) by (simp add: review_route_candidate_def row_fields opt_str_def in_vals_def py_iter_def str_list_def
      hashable_def elem_eq_def is_True_iff flt_eq_def)
qed

section \<open>The report\<close>

lemma medians_example: "returns (group_medians example_captures)"
  by code_simp

lemma source_example: "returns (group_source_metadata example_captures)"
  by code_simp

lemma promotable_example: "is_promotable (example_row c b x cv loss blockers) \<longleftrightarrow> blockers = []"
  by (simp add: is_promotable_def row_fields)

lemma accelerator_example:
  "\<not> is_True (dget (capture_backend_metadata cpu_example) ''accelerator_backend'')"
  "\<not> is_True (dget (capture_backend_metadata direct_example) ''accelerator_backend'')"
  "is_True (dget (capture_backend_metadata ck_example) ''accelerator_backend'')"
  by code_simp+

lemma entry_example: "returns (promotable_entry ck_example row)"
  by code_simp

lemma judge_example:
  obtains gr e where "judge_group example_indexes None example_facts example_captures = Inr gr" "gr_entries gr = [e]"
proof -
  obtain cv1 l1 cv2 l2 cv3 where rows:
    "review_candidate example_facts example_indexes None cpu_example
       = Inr (example_row cpu_example ''cpu-reference'' 80 cv1 l1 [''not_accelerator_backend''])"
    "review_candidate example_facts example_indexes None direct_example
       = Inr (example_row direct_example ''hip-direct'' 40 cv2 l2 [''not_accelerator_backend''])"
    "review_candidate example_facts example_indexes None ck_example = Inr (example_row ck_example ''ck'' 20 cv3 None [])"
    using cpu_row direct_row ck_row by blast
  note route = route_example [OF scope_example(1) release_example(1) checksum_example(1)]
    route_example [OF scope_example(2) release_example(2) checksum_example(2)]
    route_example [OF scope_example(3) release_example(3) checksum_example(3)]
  have upt: "[0..<Suc (Suc (Suc 0))] = [0, 1, 2]" by code_simp
  obtain e where e: "promotable_entry ck_example (example_row ck_example ''ck'' 20 cv3 None []) = Inr e"
    using entry_example by (auto simp: returns_iff)
  have gpu: "map_of (gf_by_backend example_facts) ''ck'' = Some ck_example" by (simp add: example_facts_def)
  have "\<exists>gr. judge_group example_indexes None example_facts example_captures = Inr gr \<and> gr_entries gr = [e]"
    by (simp add: judge_group_def example_captures_def rows upt fastest_route_def route row_fields accelerator_example
      fastest_row_def fastest_step_def num_lt_def selection_of_def promotable_example winner_entry_def gpu e)
  then show thesis using that by blast
qed

lemma example_promotes:
  obtains report g e where "review_captures ''now'' ''release'' None example_captures = Inr report"
    "dget report ''groups'' = PList [PDict g]" "dget report ''promotable_autotune_entries'' = PList [PDict e]"
proof -
  obtain gr e where gr: "judge_group example_indexes None example_facts example_captures = Inr gr" "gr_entries gr = [e]"
    by (rule judge_example)
  obtain medians source where ms: "group_medians example_captures = Inr medians" "group_source_metadata example_captures = Inr source"
    using medians_example source_example by (auto simp: returns_iff)
  have "\<exists>rows. rmapM phase_ratio_summary_for_candidate (gr_candidates gr) = Inr rows"
    by (rule rmapM_total) (use judge_group_summarizable [OF gr(1)] phase_ratio_summary_total in \<open>auto simp: list_all_iff\<close>)
  then obtain g where g: "review_group ''release'' example_indexes None (example_contract, example_captures) = Inr (g, [e])"
    by (auto simp: review_group_def facts_example ms gr)
  from build_review_summary_total [of "[g]" "[e]"] reviewed_group_of [OF g] obtain summary where
    "build_review_summary [g] [e] = Inr summary" by auto
  with g that show thesis
    by (simp add: review_captures_def example_groups indexes_example report_dict_def dget_def dict_list_def)
qed



end
