(* ===== verification/Schema_Monad.thy ===== *)
theory Schema_Monad
  imports Review_Timing
begin

text \<open>
  The setting of \<open>tools/benchmark_schema\<close>. A validator reads the capture \<open>self.data\<close> and appends
  messages to \<open>self.errors\<close>; nothing else changes. A method is a function of the capture whose result
  is the list of messages it appends, in order, with the value it returns, or the exception that
  leaves it: \<open>'a chk\<close>. \<open>self._error(m)\<close> is \<open>report m\<close>; the path the messages are prefixed with is
  added by \<open>validation_errors\<close>.

  \<^item> \<open>cseq\<close> runs statements in order, \<open>whenp\<close> and \<open>cwhen\<close> are an \<open>if\<close> without \<open>else\<close> whose condition is
    pure, or may raise or report; \<open>cif\<close> is the two-sided form. \<open>cfor\<close> and \<open>cfold\<close> are loops.
  \<^item> \<open>all_of\<close>, \<open>any_of\<close> are \<open>and\<close>, \<open>or\<close> over such conditions, evaluated from the left and stopped at the
    first that decides.
  \<^item> The operations at the end raise what Python raises when the value has a type the code did not test
    for.
\<close>

type_synonym 'a chk = "(string list \<times> 'a) res"

definition cret :: "'a \<Rightarrow> 'a chk" where
  "cret x = Inr ([], x)"

definition report :: "string \<Rightarrow> unit chk" where
  "report m = Inr ([m], ())"

definition skip :: "unit chk" where
  "skip = Inr ([], ())"

definition craise :: "exc \<Rightarrow> 'a chk" where
  "craise e = Inl e"

definition cbind :: "'a chk \<Rightarrow> ('a \<Rightarrow> 'b chk) \<Rightarrow> 'b chk" where
  "cbind m f = (case m of Inl e \<Rightarrow> Inl e
     | Inr (es, x) \<Rightarrow> (case f x of Inl e \<Rightarrow> Inl e | Inr (es', y) \<Rightarrow> Inr (es @ es', y)))"

definition cmap :: "('a \<Rightarrow> 'b) \<Rightarrow> 'a chk \<Rightarrow> 'b chk" where
  "cmap f m = cbind m (\<lambda>x. cret (f x))"

definition cthen :: "'a chk \<Rightarrow> 'b chk \<Rightarrow> 'b chk" where
  "cthen m k = cbind m (\<lambda>_. k)"

definition cvoid :: "'a chk \<Rightarrow> unit chk" where
  "cvoid m = cmap (\<lambda>_. ()) m"

definition lift :: "'a res \<Rightarrow> 'a chk" where
  "lift m = (case m of Inl e \<Rightarrow> Inl e | Inr x \<Rightarrow> Inr ([], x))"

primrec cseq :: "unit chk list \<Rightarrow> unit chk" where
  "cseq [] = skip"
| "cseq (m # ms) = cthen m (cseq ms)"

definition whenp :: "bool \<Rightarrow> unit chk \<Rightarrow> unit chk" where
  "whenp c m = (if c then m else skip)"

definition cif :: "bool chk \<Rightarrow> 'a chk \<Rightarrow> 'a chk \<Rightarrow> 'a chk" where
  "cif c a b = cbind c (\<lambda>x. if x then a else b)"

definition cwhen :: "bool chk \<Rightarrow> unit chk \<Rightarrow> unit chk" where
  "cwhen c m = cif c m skip"

definition cnot :: "bool chk \<Rightarrow> bool chk" where
  "cnot c = cmap Not c"

primrec all_of :: "bool chk list \<Rightarrow> bool chk" where
  "all_of [] = cret True"
| "all_of (c # cs) = cif c (all_of cs) (cret False)"

primrec any_of :: "bool chk list \<Rightarrow> bool chk" where
  "any_of [] = cret False"
| "any_of (c # cs) = cif c (cret True) (any_of cs)"

definition cfor :: "'a list \<Rightarrow> ('a \<Rightarrow> unit chk) \<Rightarrow> unit chk" where
  "cfor xs f = cseq (map f xs)"

primrec cfold :: "('s \<Rightarrow> 'a \<Rightarrow> 's chk) \<Rightarrow> 's \<Rightarrow> 'a list \<Rightarrow> 's chk" where
  "cfold f s [] = cret s"
| "cfold f s (x # xs) = cbind (f s x) (\<lambda>s'. cfold f s' xs)"

definition call_in :: "('a \<Rightarrow> bool chk) \<Rightarrow> 'a list \<Rightarrow> bool chk" where
  "call_in p xs = all_of (map p xs)"

definition cany_in :: "('a \<Rightarrow> bool chk) \<Rightarrow> 'a list \<Rightarrow> bool chk" where
  "cany_in p xs = any_of (map p xs)"

section \<open>What a run reports\<close>

text \<open>\<open>ok m\<close>: the run returns and reports nothing.\<close>

definition ok :: "'a chk \<Rightarrow> bool" where
  "ok m \<longleftrightarrow> (case m of Inl _ \<Rightarrow> False | Inr (es, _) \<Rightarrow> es = [])"

named_theorems ok_simps \<open>when a validator accepts\<close>

lemma ok_cret [simp, ok_simps]: "ok (cret x)"
  by (simp add: ok_def cret_def)

lemma ok_skip [simp, ok_simps]: "ok skip"
  by (simp add: ok_def skip_def)

lemma ok_report [simp, ok_simps]: "\<not> ok (report m)"
  by (simp add: ok_def report_def)

lemma cret_inject [simp]: "cret x = cret y \<longleftrightarrow> x = y"
  by (simp add: cret_def)

lemma ok_iff: "ok m \<longleftrightarrow> (\<exists>x. m = cret x)"
  by (auto simp: ok_def cret_def split: sum.splits prod.splits)

lemma cbind_cret [simp]: "cbind (cret x) f = f x"
  by (simp add: cbind_def cret_def split: sum.splits prod.splits)

lemma cbind_Inl [simp]: "cbind (Inl e) f = Inl e"
  by (simp add: cbind_def)

lemma ok_cbind: "ok (cbind m f) \<longleftrightarrow> (\<exists>x. m = cret x \<and> ok (f x))"
  by (auto simp: ok_def cbind_def cret_def split: sum.splits prod.splits)

lemma ok_cthen [ok_simps]: "ok (cthen m k) \<longleftrightarrow> ok m \<and> ok k"
  by (auto simp: cthen_def ok_cbind ok_iff [of m])

lemma ok_cseq: "ok (cseq ms) \<longleftrightarrow> (\<forall>m \<in> set ms. ok m)"
  by (induction ms) (auto simp: ok_cthen)

lemma ok_whenp [ok_simps]: "ok (whenp c m) \<longleftrightarrow> (c \<longrightarrow> ok m)"
  by (simp add: whenp_def)

lemma ok_cfor: "ok (cfor xs f) \<longleftrightarrow> (\<forall>x \<in> set xs. ok (f x))"
  by (simp add: cfor_def ok_cseq)

lemma ok_cseqD: "ok (cseq ms) \<Longrightarrow> m \<in> set ms \<Longrightarrow> ok m"
  by (simp add: ok_cseq)

lemma ok_cif: "ok (cif c a b) \<longleftrightarrow> (\<exists>x. c = cret x \<and> (if x then ok a else ok b))"
  by (auto simp: cif_def ok_cbind)

lemma ok_cwhen: "ok (cwhen c m) \<longleftrightarrow> c = cret False \<or> (c = cret True \<and> ok m)"
  by (cases "\<exists>x. c = cret x") (auto simp: cwhen_def ok_cif)

lemma cif_cret [simp]: "cif (cret c) a b = (if c then a else b)"
  by (simp add: cif_def)

lemma cwhen_cret [simp]: "cwhen (cret c) m = whenp c m"
  by (simp add: cwhen_def whenp_def)

lemma cmap_cret [simp]: "cmap f (cret x) = cret (f x)"
  by (simp add: cmap_def)

lemma cnot_cret [simp]: "cnot (cret c) = cret (\<not> c)"
  by (simp add: cnot_def)

lemma cthen_cret [simp]: "cthen (cret x) k = k"
  by (simp add: cthen_def)

lemma cthen_skip [simp]: "cthen skip k = k"
  by (simp add: cthen_def skip_def flip: cret_def)

lemma whenp_True [simp]: "whenp True m = m"
  by (simp add: whenp_def)

lemma whenp_False [simp]: "whenp False m = skip"
  by (simp add: whenp_def)

lemma all_of_eq_True: "all_of cs = cret True \<longleftrightarrow> (\<forall>c \<in> set cs. c = cret True)"
proof (induction cs)
  case (Cons c cs)
  have "cif c (all_of cs) (cret False) = cret True \<longleftrightarrow> c = cret True \<and> all_of cs = cret True"
    by (auto simp: cif_def cbind_def cret_def split: sum.splits prod.splits if_splits)
  with Cons show ?case by simp
qed simp

section \<open>Operations that may raise\<close>

text \<open>\<open>v in {s1, s2, ...}\<close>, for strings and for other hashable constants; \<open>v in [s1, s2, ...]\<close>.\<close>

definition c_in :: "pyval \<Rightarrow> string list \<Rightarrow> bool chk" where
  "c_in v ss = lift (in_str_set v ss)"

definition c_in_vals :: "pyval \<Rightarrow> pyval list \<Rightarrow> bool chk" where
  "c_in_vals v xs = lift (in_vals v xs)"

definition in_strs :: "pyval \<Rightarrow> string list \<Rightarrow> bool" where
  "in_strs v ss \<longleftrightarrow> (case v of PStr s \<Rightarrow> s \<in> set ss | _ \<Rightarrow> False)"

text \<open>\<open>s in v\<close> for a string constant, on any value and on a list.\<close>

definition c_str_in :: "string \<Rightarrow> pyval \<Rightarrow> bool chk" where
  "c_str_in s v = lift (str_in s v)"

definition str_mem :: "string \<Rightarrow> pyval \<Rightarrow> bool" where
  "str_mem s v \<longleftrightarrow> list_ex (\<lambda>x. eq_str x s) (elems_of v)"

text \<open>\<open>v.get(k)\<close> of a value that may not be a dict.\<close>

definition c_get :: "pyval \<Rightarrow> string \<Rightarrow> pyval chk" where
  "c_get v k = (case v of PDict d \<Rightarrow> cret (dget d k) | _ \<Rightarrow> craise AttributeError)"

definition c_get_or :: "pyval \<Rightarrow> string \<Rightarrow> pyval \<Rightarrow> pyval chk" where
  "c_get_or v k w = (case v of PDict d \<Rightarrow> cret (dget_or d k w) | _ \<Rightarrow> craise AttributeError)"

text \<open>\<open>TABLE.get(v)\<close>, \<open>TABLE.get(v, default)\<close> and \<open>v in TABLE\<close> for a table of constants.\<close>

definition lookup_or :: "('k \<times> 'v) list \<Rightarrow> 'k \<Rightarrow> 'v \<Rightarrow> 'v" where
  "lookup_or d k x = (case map_of d k of None \<Rightarrow> x | Some y \<Rightarrow> y)"

definition c_lookup :: "(string \<times> 'v) list \<Rightarrow> pyval \<Rightarrow> 'v option chk" where
  "c_lookup d v = (if hashable v then cret (case v of PStr s \<Rightarrow> map_of d s | _ \<Rightarrow> None)
     else craise TypeError)"

definition c_lookup_or :: "(string \<times> 'v) list \<Rightarrow> pyval \<Rightarrow> 'v \<Rightarrow> 'v chk" where
  "c_lookup_or d v x = cmap (\<lambda>r. case r of None \<Rightarrow> x | Some y \<Rightarrow> y) (c_lookup d v)"

definition c_has_key :: "(string \<times> 'v) list \<Rightarrow> pyval \<Rightarrow> bool chk" where
  "c_has_key d v = cmap (\<lambda>r. r \<noteq> None) (c_lookup d v)"

definition c_index :: "('k \<times> 'v) list \<Rightarrow> 'k \<Rightarrow> 'v chk" where
  "c_index d k = (case map_of d k of None \<Rightarrow> craise (KeyError []) | Some x \<Rightarrow> cret x)"

text \<open>\<open>a < b\<close> and \<open>a <= b\<close>: numbers by value, strings by their characters, lists element by element;
  other types cannot be ordered.\<close>

fun py_less :: "bool \<Rightarrow> pyval \<Rightarrow> pyval \<Rightarrow> bool res" where
  "py_less strict (PStr s) (PStr t) = Inr (if strict then s < t else s \<le> t)"
| "py_less strict (PList (x # xs)) (PList (y # ys)) =
     (if elem_eq x y then py_less strict (PList xs) (PList ys) else py_less strict x y)"
| "py_less strict (PList []) (PList ys) = Inr (\<not> strict \<or> ys \<noteq> [])"
| "py_less strict (PList (x # xs)) (PList []) = Inr False"
| "py_less strict a b =
     (if num_of a \<noteq> None \<and> num_of b \<noteq> None then Inr (if strict then val_lt a b else val_le a b)
      else Inl TypeError)"

definition c_lt :: "pyval \<Rightarrow> pyval \<Rightarrow> bool chk" where
  "c_lt a b = lift (py_less True a b)"

definition c_le :: "pyval \<Rightarrow> pyval \<Rightarrow> bool chk" where
  "c_le a b = lift (py_less False a b)"

text \<open>\<open>math.isfinite(float(v))\<close> for a number, and the double it is read as.\<close>

definition num_float :: "pyval \<Rightarrow> pyfloat" where
  "num_float v = (case v of PFloat x \<Rightarrow> x | _ \<Rightarrow> rnd64 (of_int (int_of v)))"

definition c_float :: "pyval \<Rightarrow> pyfloat chk" where
  "c_float v = (case v of PFloat x \<Rightarrow> cret x
     | PInt n \<Rightarrow> lift (float_of_int n)
     | PBool b \<Rightarrow> cret (FFin (of_bool b))
     | _ \<Rightarrow> craise TypeError)"

definition c_is_number :: "pyval \<Rightarrow> bool chk" where
  "c_is_number v =
     (if isinstance_num v \<and> \<not> is_bool v then cmap flt_finite (c_float v) else cret False)"

text \<open>\<open>m / n\<close> of integers is the double nearest to the exact quotient.\<close>

definition c_int_div :: "int \<Rightarrow> int \<Rightarrow> pyfloat chk" where
  "c_int_div m n =
     (if n = 0 then craise ZeroDivisionError
      else case rnd64 (of_int m / of_int n) of FFin r \<Rightarrow> cret (FFin r) | _ \<Rightarrow> craise OverflowError)"

definition c_fdiv :: "pyfloat \<Rightarrow> pyfloat \<Rightarrow> pyfloat chk" where
  "c_fdiv a b = (if flt_is_zero b then craise ZeroDivisionError else cret (flt_div a b))"

text \<open>
  \<open>a * b\<close>: numbers by value (an integer product is exact, a float product is rounded), a string or a
  list is repeated.
\<close>

definition repeat_list :: "int \<Rightarrow> 'a list \<Rightarrow> 'a list" where
  "repeat_list n xs = concat (replicate (nat n) xs)"

fun c_mul :: "pyval \<Rightarrow> pyval \<Rightarrow> pyval chk" where
  "c_mul (PStr s) b = (if isinstance_int b then cret (PStr (repeat_list (int_of b) s)) else craise TypeError)"
| "c_mul (PList xs) b = (if isinstance_int b then cret (PList (repeat_list (int_of b) xs)) else craise TypeError)"
| "c_mul a (PStr s) = (if isinstance_int a then cret (PStr (repeat_list (int_of a) s)) else craise TypeError)"
| "c_mul a (PList xs) = (if isinstance_int a then cret (PList (repeat_list (int_of a) xs)) else craise TypeError)"
| "c_mul a b =
     (if isinstance_int a \<and> isinstance_int b then cret (PInt (int_of a * int_of b))
      else if isinstance_num a \<and> isinstance_num b
      then cbind (c_float a) (\<lambda>x. cbind (c_float b) (\<lambda>y. cret (PFloat (flt_mul x y))))
      else craise TypeError)"

text \<open>\<open>a + b\<close> and \<open>a - b\<close> of two values: numbers, and for \<open>+\<close> also two strings or two lists.\<close>

definition num_op :: "(int \<Rightarrow> int \<Rightarrow> int) \<Rightarrow> (pyfloat \<Rightarrow> pyfloat \<Rightarrow> pyfloat) \<Rightarrow> pyval \<Rightarrow> pyval \<Rightarrow> pyval chk" where
  "num_op f g a b =
     (if isinstance_int a \<and> isinstance_int b then cret (PInt (f (int_of a) (int_of b)))
      else if isinstance_num a \<and> isinstance_num b
      then cbind (c_float a) (\<lambda>x. cbind (c_float b) (\<lambda>y. cret (PFloat (g x y))))
      else craise TypeError)"

fun c_add :: "pyval \<Rightarrow> pyval \<Rightarrow> pyval chk" where
  "c_add (PStr s) (PStr t) = cret (PStr (s @ t))"
| "c_add (PList xs) (PList ys) = cret (PList (xs @ ys))"
| "c_add a b = num_op (+) flt_add a b"

definition c_sub :: "pyval \<Rightarrow> pyval \<Rightarrow> pyval chk" where
  "c_sub a b = num_op (-) flt_sub a b"

text \<open>\<open>max(0, v)\<close> of a number.\<close>

definition max_zero :: "pyval \<Rightarrow> pyval" where
  "max_zero v = (if val_lt (PInt 0) v then v else PInt 0)"

definition c_int :: "pyval \<Rightarrow> int chk" where
  "c_int v = lift (py_int v)"

text \<open>\<open>TABLE[v]\<close>, \<open>v['k']\<close>, and \<open>set(v) == {...}\<close> for a list \<open>v\<close>.\<close>

definition c_index_val :: "(string \<times> 'v) list \<Rightarrow> pyval \<Rightarrow> 'v chk" where
  "c_index_val d v = cbind (c_lookup d v) (\<lambda>r. case r of None \<Rightarrow> craise (KeyError (py_str v)) | Some x \<Rightarrow> cret x)"

definition c_vindex :: "pyval \<Rightarrow> string \<Rightarrow> pyval chk" where
  "c_vindex v k = lift (vindex v k)"

definition c_same_set :: "pyval list \<Rightarrow> string list \<Rightarrow> bool chk" where
  "c_same_set vs ss =
     (if list_all hashable vs
      then cret (list_all (\<lambda>v. in_strs v ss) vs \<and> list_all (\<lambda>s. list_ex (\<lambda>v. eq_str v s) vs) ss)
      else craise TypeError)"

definition rstrip_char :: "char \<Rightarrow> string \<Rightarrow> string" where
  "rstrip_char c s = rev (dropWhile (\<lambda>x. x = c) (rev s))"

definition opt_strs_val :: "(string \<times> string) list option \<Rightarrow> pyval" where
  "opt_strs_val d = (case d of None \<Rightarrow> PNone | Some xs \<Rightarrow> PDict (map (\<lambda>(k, s). (k, PStr s)) xs))"

text \<open>A string, list or dict known to be present.\<close>

definition opt_list :: "'a list option \<Rightarrow> 'a list" where
  "opt_list v = (case v of None \<Rightarrow> [] | Some xs \<Rightarrow> xs)"

definition opt_of :: "pyval \<Rightarrow> string option" where
  "opt_of v = (case v of PStr s \<Rightarrow> Some s | _ \<Rightarrow> None)"

text \<open>
  \<open>a is b\<close> of two values of one parsed document: \<open>None\<close>, the booleans, the integers from -5 to 256, the
  strings of at most one character and the parsed constants are single objects, other values are not.
\<close>

definition same_object :: "pyval \<Rightarrow> pyval \<Rightarrow> bool" where
  "same_object a b \<longleftrightarrow> a = b \<and> (case a of
       PNone \<Rightarrow> True
     | PBool _ \<Rightarrow> True
     | PInt n \<Rightarrow> - 5 \<le> n \<and> n \<le> 256
     | PStr s \<Rightarrow> length s \<le> 1
     | PFloat x \<Rightarrow> \<not> flt_finite x
     | _ \<Rightarrow> False)"

definition strs_of :: "pyval \<Rightarrow> string list" where
  "strs_of v = map str_of (elems_of v)"

definition enum_ints :: "'a list \<Rightarrow> (int \<times> 'a) list" where
  "enum_ints xs = zip (map int [0..<length xs]) xs"

definition insert_at :: "int \<Rightarrow> 'a \<Rightarrow> 'a list \<Rightarrow> 'a list" where
  "insert_at i x xs = take (nat i) xs @ x # drop (nat i) xs"

text \<open>\<open>xs.index(x)\<close> of an element that is present.\<close>

definition index_of :: "'a \<Rightarrow> 'a list \<Rightarrow> int" where
  "index_of x xs = int (length (takeWhile (\<lambda>y. y \<noteq> x) xs))"

definition two_digits :: "int \<Rightarrow> string" where
  "two_digits n = (if n < 10 then CHR ''0'' # show_int n else show_int n)"

definition opt_truthy :: "string option \<Rightarrow> bool" where
  "opt_truthy v \<longleftrightarrow> (case v of None \<Rightarrow> False | Some s \<Rightarrow> s \<noteq> [])"

definition opt_in :: "string option \<Rightarrow> string list \<Rightarrow> bool" where
  "opt_in v ss \<longleftrightarrow> (case v of None \<Rightarrow> False | Some s \<Rightarrow> s \<in> set ss)"

lemma c_in_cret: "c_in v ss = cret b \<longleftrightarrow> in_str_set v ss = Inr b"
  by (auto simp: c_in_def lift_def cret_def split: sum.splits)

lemma c_in_PStr [simp]: "c_in (PStr s) ss = cret (s \<in> set ss)"
  by (simp add: c_in_def in_str_set_def lift_def cret_def)

end
