(* ===== verification/Schema_Constants.thy ===== *)
theory Schema_Constants
  imports Schema_Monad
begin

text \<open>
  The constants the capture schema is checked against: the sets of
  \<open>tools/metadata_registry_constants.py\<close> it reads, and the constants of
  \<open>tools/benchmark_schema/core_shared.py\<close>. A set is the list of its members in the order of the source,
  a table is an association list.
\<close>

unbundle bit_operations_syntax

section \<open>Sets of the metadata registry\<close>

definition BENCHMARK_EXECUTION_MODES :: "string list" where
  "BENCHMARK_EXECUTION_MODES =
     [''auto_native_to_rns_bridge'', ''benchmark_grouped_dispatch_evidence'',
      ''benchmark_hip_graph_replay_evidence'', ''benchmark_host_api_batch'',
      ''benchmark_owned_vector_alu_gemv_n1_native_buffers'',
      ''benchmark_owned_vector_alu_gemv_small_n_native_buffers'',
      ''benchmark_owned_vector_alu_native_buffers'',
      ''benchmark_streaming_overlap_resident_b_pipeline'',
      ''direct_hip_skinny_gemv_n1_resident_rns'', ''direct_hip_skinny_gemv_small_n_resident_rns'',
      ''hip_graph_replay_bounded_pack_gemm_export'',
      ''hip_graph_replay_exact_wide_pack_gemm_export'',
      ''hip_graph_replay_finite_u8_pack_gemm_export'', ''hip_graph_replay_resident_rns_chain'',
      ''hip_graph_replay_wrap64_pack_gemm_export'', ''internal_wrap64_rocwmma_candidate'',
      ''persistent_resident_matrices'', ''public_oneshot_transient_native_inputs'',
      ''public_runtime_vector_alu_gemv_n1_native_buffers'',
      ''public_runtime_vector_alu_gemv_small_n_native_buffers'',
      ''public_runtime_vector_alu_native_buffers'',
      ''resident_sparse_a_explicit_4_to_2_contract_dense_b_rns'',
      ''residue_chain_final_host_export'', ''residue_chain_independent_final_host_export'',
      ''residue_channel_fusion_native_inputs'', ''residue_current_rns_chain'',
      ''transient_native_a_resident_b_reuse'', ''transient_native_b_resident_a_reuse'',
      ''transient_uniform_small_i8_a_resident_i8_b_reuse'',
      ''transient_uniform_small_i8_ab_inputs'',
      ''transient_uniform_small_i8_b_resident_i8_a_reuse'',
      ''vector_native_host_export_repack_direct_rns_chain'', ''vector_native_to_direct_rns_chain'']"

definition BOUND_SOURCES :: "string list" where
  "BOUND_SOURCES = [''input_scan'', ''static_profile'']"

definition BOUND_DISCOVERY_SOURCES :: "string list" where
  "BOUND_DISCOVERY_SOURCES =
     [''input_exact_tile_bounds'', ''input_row_column_abs_summary'', ''static_profile_contract'']"

definition BOUND_KINDS :: "string list" where
  "BOUND_KINDS =
     [''global_max_abs'', ''global_max_unsigned'', ''input_range_and_k'', ''none'',
      ''per_tile_max_abs'', ''per_tile_max_unsigned'']"

definition PACK_MODES :: "string list" where
  "PACK_MODES =
     [''per_repeat_repack'', ''prepacked_reuse'', ''prepacked_reuse_a'', ''prepacked_reuse_b'']"

definition NEXT_OP_HINTS :: "string list" where
  "NEXT_OP_HINTS =
     [''auto'', ''final-export'', ''native-gemm'', ''native-to-rns'', ''reuse-b'', ''rns-gemm'']"

definition FUSION_MODES :: "string list" where
  "FUSION_MODES = [''none'', ''residue_channel_width3_experimental_benchmark_only'']"

definition REUSE_OPERAND_ROLES :: "string list" where
  "REUSE_OPERAND_ROLES = [''A'', ''A+B'', ''B'', ''none'']"

definition GRAPH_REPLAY_STATUSES :: "string list" where
  "GRAPH_REPLAY_STATUSES =
     [''captured'', ''not_requested'', ''replayed'', ''unsupported_stream_capture_not_executed'']"

definition STREAMING_OVERLAP_STATUSES :: "string list" where
  "STREAMING_OVERLAP_STATUSES =
     [''executed'', ''metadata_only_unsupported_for_execution_path'', ''not_requested'']"

definition WORKLOAD_PROXY_FAMILIES :: "string list" where
  "WORKLOAD_PROXY_FAMILIES =
     [''dense_exact_arithmetic_proxy'', ''fhe_lattice_proxy'', ''not_requested'']"

definition SELECTOR_REJECTION_REASONS :: "string list" where
  "SELECTOR_REJECTION_REASONS =
     [''backend not compiled'', ''identity/runtime mismatch'', ''no exact entry'',
      ''per-tile unsupported'', ''probe failed'', ''slower than selected'',
      ''unsupported semantics'', ''unvalidated entry'', ''workspace mismatch'']"

definition PREPACK_REUSE_STRATEGIES :: "string list" where
  "PREPACK_REUSE_STRATEGIES =
     [''none'', ''persistent_matrix_residency'', ''rocwmma_reusable_b_cache'']"

definition CONTRACT_PREFIX_POLICIES :: "string list" where
  "CONTRACT_PREFIX_POLICIES =
     [''fixed_requested'', ''fixed_requested_residue_chain'', ''minimum_proven'',
      ''per_tile_minimum'', ''semantic_specific_no_rns_prefix'']"

definition RNS_PREFIX_SEMANTICS :: "string list" where
  "RNS_PREFIX_SEMANTICS =
     [''bounded_i64'', ''bounded_u64'', ''exact_wide_signed'', ''exact_wide_unsigned'']"

definition NON_RNS_PREFIX_SEMANTICS :: "string list" where
  "NON_RNS_PREFIX_SEMANTICS = [''finite_field_u8'', ''finite_ring_u8'', ''wrap_u64_mod_2_64'']"

definition HIP_RESIDENT_BACKENDS :: "string list" where
  "HIP_RESIDENT_BACKENDS =
     [''amdgpu-builtins'', ''ck'', ''hip-direct'', ''hip-vector-alu-int64'', ''hipblaslt'',
      ''rocwmma'']"

definition CURRENT_CORRECTNESS_BACKENDS :: "string list" where
  "CURRENT_CORRECTNESS_BACKENDS = [''cpu-reference'', ''hip-direct'', ''wrap64-byte-limb'']"

definition BACKEND_REQUESTED_VALUES :: "string list" where
  "BACKEND_REQUESTED_VALUES =
     [''amdgpu-builtins'', ''auto'', ''ck'', ''cpu-reference'', ''hip-direct'',
      ''hip-vector-alu-int64'', ''hipblaslt'', ''rocwmma'', ''rocwmma-wrap64-candidate'',
      ''wrap64-byte-limb'']"

definition BACKEND_SELECTED_VALUES :: "string list" where
  "BACKEND_SELECTED_VALUES =
     [''amdgpu-builtins'', ''ck'', ''cpu-reference'', ''hip-direct'', ''hip-vector-alu-int64'',
      ''hipblaslt'', ''rocwmma'', ''wrap64-byte-limb'']"

definition GROUPED_DISPATCH_STATUSES :: "string list" where
  "GROUPED_DISPATCH_STATUSES =
     [''executed'', ''metadata_only_unsupported_for_execution_path'', ''not_requested'']"

definition SCHEMA_GROUPED_DISPATCH_EXECUTION_STRATEGIES :: "string list" where
  "SCHEMA_GROUPED_DISPATCH_EXECUTION_STRATEGIES =
     [''device_grouped_exact_wide_export_kernel_batched_d2h'',
      ''device_grouped_pack_and_exact_wide_export_kernels_batched_d2h'',
      ''device_grouped_pack_gemm_and_bounded_export_kernels_batched_d2h'',
      ''device_grouped_pack_gemm_and_exact_wide_export_kernels_batched_d2h'',
      ''device_grouped_pack_gemm_and_finite_export_kernel_batched_d2h'',
      ''device_grouped_pack_gemm_host_exports'', ''host_phase_loop_batched_exact_wide_export_d2h'',
      ''host_phase_loop_per_task_export'', ''not_requested'']"

definition GROUPED_DISPATCH_BATCHED_EXACT_WIDE_EXPORT_STRATEGIES :: "string list" where
  "GROUPED_DISPATCH_BATCHED_EXACT_WIDE_EXPORT_STRATEGIES =
     [''device_grouped_exact_wide_export_kernel_batched_d2h'',
      ''device_grouped_pack_and_exact_wide_export_kernels_batched_d2h'',
      ''device_grouped_pack_gemm_and_exact_wide_export_kernels_batched_d2h'',
      ''host_phase_loop_batched_exact_wide_export_d2h'']"

definition GROUPED_DISPATCH_BATCHED_BOUNDED_EXPORT_STRATEGIES :: "string list" where
  "GROUPED_DISPATCH_BATCHED_BOUNDED_EXPORT_STRATEGIES =
     [''device_grouped_pack_gemm_and_bounded_export_kernels_batched_d2h'']"

definition GROUPED_DISPATCH_BATCHED_FINITE_EXPORT_STRATEGIES :: "string list" where
  "GROUPED_DISPATCH_BATCHED_FINITE_EXPORT_STRATEGIES =
     [''device_grouped_pack_gemm_and_finite_export_kernel_batched_d2h'']"

definition GROUPED_TASK_DESCRIPTOR_LAYOUTS :: "string list" where
  "GROUPED_TASK_DESCRIPTOR_LAYOUTS =
     [''not_requested'', ''same_contract_bucketed_resident_task_triplets_v1'',
      ''same_shape_resident_task_triplets_v1'']"

definition GROUPED_TASK_BUCKET_POLICIES :: "string list" where
  "GROUPED_TASK_BUCKET_POLICIES =
     [''not_requested'', ''same_contract_shape_buckets'', ''single_same_shape_bucket'']"

definition GROUPED_TASK_SOURCE_VERSION_POLICIES :: "string list" where
  "GROUPED_TASK_SOURCE_VERSION_POLICIES =
     [''not_requested'', ''per_task_monotonic_source_version_repack'']"

definition GROUPED_TASK_WORKSPACE_POLICIES :: "string list" where
  "GROUPED_TASK_WORKSPACE_POLICIES = [''not_requested'', ''one_workspace_per_task_shared_plan'']"

definition GROUPED_TASK_MATRIX_OWNERSHIP_POLICIES :: "string list" where
  "GROUPED_TASK_MATRIX_OWNERSHIP_POLICIES =
     [''benchmark_owns_all_task_triplets_until_capture_end'', ''not_requested'']"

definition GROUPED_TASK_DESCRIPTOR_REUSE_POLICIES :: "string list" where
  "GROUPED_TASK_DESCRIPTOR_REUSE_POLICIES =
     [''not_requested'', ''reuse_after_shape_workspace_source_validation'']"

definition GROUPED_TASK_STRIDE_POLICIES :: "string list" where
  "GROUPED_TASK_STRIDE_POLICIES =
     [''matrix_ld_matches_logical_shape_host_output_ld_explicit'', ''not_requested'']"

definition GROUPED_TASK_OUTPUT_CURRENTNESS_POLICIES :: "string list" where
  "GROUPED_TASK_OUTPUT_CURRENTNESS_POLICIES =
     [''device_residue_current_after_grouped_gemm_host_output_after_export'', ''not_requested'']"

definition GROUPED_TASK_LIFETIME_POLICIES :: "string list" where
  "GROUPED_TASK_LIFETIME_POLICIES =
     [''not_requested'', ''task_matrices_and_workspaces_destroyed_after_capture'']"

definition GROUPED_TASK_CHECKSUM_POLICIES :: "string list" where
  "GROUPED_TASK_CHECKSUM_POLICIES = [''combined_per_task_checksum_u64'', ''not_requested'']"

definition GROUPED_TASK_STATUS_POLICIES :: "string list" where
  "GROUPED_TASK_STATUS_POLICIES = [''fail_fast_per_task_operation_status'', ''not_requested'']"

definition GROUPED_TASK_DEVICE_DESCRIPTOR_POLICIES :: "string list" where
  "GROUPED_TASK_DEVICE_DESCRIPTOR_POLICIES =
     [''device_pointer_tables_and_compact_slabs'', ''host_resident_task_loop'', ''not_requested'']"

definition GROUPED_STRATEGY_DEVICE_DESCRIPTOR_POLICIES :: "(string \<times> string) list" where
  "GROUPED_STRATEGY_DEVICE_DESCRIPTOR_POLICIES =
     [(''device_grouped_exact_wide_export_kernel_batched_d2h'',
       ''device_pointer_tables_and_compact_slabs''),
      (''device_grouped_pack_and_exact_wide_export_kernels_batched_d2h'',
       ''device_pointer_tables_and_compact_slabs''),
      (''device_grouped_pack_gemm_and_bounded_export_kernels_batched_d2h'',
       ''device_pointer_tables_and_compact_slabs''),
      (''device_grouped_pack_gemm_and_exact_wide_export_kernels_batched_d2h'',
       ''device_pointer_tables_and_compact_slabs''),
      (''device_grouped_pack_gemm_and_finite_export_kernel_batched_d2h'',
       ''device_pointer_tables_and_compact_slabs''),
      (''device_grouped_pack_gemm_host_exports'', ''device_pointer_tables_and_compact_slabs''),
      (''host_phase_loop_batched_exact_wide_export_d2h'', ''host_resident_task_loop''),
      (''host_phase_loop_per_task_export'', ''host_resident_task_loop''),
      (''not_requested'', ''not_requested'')]"

definition OUTPUT_DESTINATION_LAYOUTS :: "string list" where
  "OUTPUT_DESTINATION_LAYOUTS = [''contiguous_row_major'', ''padded_row_major'']"

definition STATUS_HANDLING :: "string list" where
  "STATUS_HANDLING = [''not_applicable'', ''required'', ''structurally_elided'']"

definition OUTPUT_CONTRACT_DOMAINS :: "string list" where
  "OUTPUT_CONTRACT_DOMAINS =
     [''exact_wide_limb_host'', ''finite_u8_host'', ''native_i64_u64_host'',
      ''rns_residue_current'', ''wrap64_u64_host'']"

definition DIRECT_HIP_EXPORT_STAGING_POLICIES :: "string list" where
  "DIRECT_HIP_EXPORT_STAGING_POLICIES =
     [''disabled_by_RNS8_HIP_PINNED_EXPORT_STAGING'',
      ''exact_wide_signed_forced_only_local_gfx1100_padded_staging_loses'',
      ''forced_for_large_outputs_by_RNS8_HIP_PINNED_EXPORT_STAGING'',
      ''large_padded_outputs_only_default'', ''not_applicable'',
      ''wrap64_forced_only_pending_padded_staging_evidence'']"

definition PACK_LAYOUTS :: "string list" where
  "PACK_LAYOUTS =
     [''finite_u8_centered_residue'', ''matrix_engine_transient_pack_layout'',
      ''native_i64_row_major'', ''native_i8_row_major_residue_channel_width3'',
      ''native_i8_row_major_uniform_small'', ''native_u64_row_major'',
      ''resident_rns_residue_planes'', ''transient_backend_pack_layout'',
      ''wrap64_byte_limb_planes'']"

definition RESIDUE_GROUP_LAYOUTS :: "string list" where
  "RESIDUE_GROUP_LAYOUTS =
     [''first_prefix9_moduli_contiguous_width3_groups'', ''one_modulus_per_residue_plane'']"

definition TARGET_NAMESPACES :: "string list" where
  "TARGET_NAMESPACES =
     [''cpu'', ''gfx1100'', ''gfx11xx'', ''gfx12xx'', ''gfx9xx_gfx94x'', ''unknown'']"

definition SCHEMA_PLACEHOLDER_GPU_TARGET_IDS :: "string list" where
  "SCHEMA_PLACEHOLDER_GPU_TARGET_IDS =
     [[], ''cpu'', ''n/a'', ''none'', ''not_applicable'', ''null'', ''unknown'']"

definition DIRECT_HIP_GPU_EVENT_SCOPES :: "string list" where
  "DIRECT_HIP_GPU_EVENT_SCOPES =
     [''direct_hip_bounded_adaptive_default_stream_backend_operation_groups'',
      ''direct_hip_default_stream_backend_operation_groups'',
      ''direct_hip_native_to_rns_bridge_default_stream_operation_groups'',
      ''direct_hip_oneshot_default_stream_operation_groups'',
      ''direct_hip_oneshot_resident_fallback_default_stream_operation_groups'',
      ''direct_hip_streaming_overlap_multistream_operation_groups'',
      ''direct_hip_vector_native_host_repack_chain_default_stream_operation_groups'',
      ''direct_hip_vector_native_to_rns_chain_default_stream_operation_groups'',
      ''direct_hip_wrap64_byte_gemm36_default_stream_backend_operation_groups'']"

definition HIPBLASLT_GPU_EVENT_SCOPES :: "string list" where
  "HIPBLASLT_GPU_EVENT_SCOPES = [''hipblaslt_baseline_default_stream_backend_operation_groups'']"

definition ACCELERATOR_GPU_EVENT_SCOPES :: "string list" where
  "ACCELERATOR_GPU_EVENT_SCOPES =
     [''accelerator_backend_default_stream_deep_kernel_events_with_direct_hip_pack_export'',
      ''accelerator_backend_default_stream_operation_groups_with_direct_hip_pack_export'',
      ''ck_default_stream_backend_operation_groups'',
      ''hipblaslt_baseline_default_stream_backend_operation_groups'',
      ''rocwmma_default_stream_backend_operation_groups'',
      ''rocwmma_wrap64_byte_gemm36_candidate_default_stream_operation_groups'']"

definition VECTOR_ALU_GPU_EVENT_SCOPES :: "string list" where
  "VECTOR_ALU_GPU_EVENT_SCOPES = [''vector_alu_default_stream_native_int64_operation_groups'']"

definition CK_DEEP_GPU_EVENT_LABELS :: "string list" where
  "CK_DEEP_GPU_EVENT_LABELS =
     [''ck_add_centered_kernel'', ''ck_copy_centered_kernel'', ''ck_pack_a_kernel'',
      ''ck_pack_b_kernel'', ''ck_wmma_cshuffle_matmul'', ''ck_zero_output_tile_memset'']"

definition ROCWMMA_DEEP_GPU_EVENT_LABELS :: "string list" where
  "ROCWMMA_DEEP_GPU_EVENT_LABELS =
     [''rocwmma_matmul_kernel'', ''rocwmma_matmul_prepacked_b_kernel'', ''rocwmma_pack_a_kernel'',
      ''rocwmma_pack_a_prepacked_b_kernel'', ''rocwmma_pack_b_kernel'',
      ''rocwmma_zero_output_tile_memset'']"

definition AMDGPU_BUILTIN_DEEP_GPU_EVENT_LABELS :: "string list" where
  "AMDGPU_BUILTIN_DEEP_GPU_EVENT_LABELS =
     [''amdgpu_builtin_cdna3_mfma_i32_16x16x32_i8_finite_kernel'',
      ''amdgpu_builtin_cdna3_mfma_i32_16x16x32_i8_kernel'',
      ''amdgpu_builtin_cdna3_mfma_i32_32x32x16_i8_finite_kernel'',
      ''amdgpu_builtin_cdna3_mfma_i32_32x32x16_i8_kernel'',
      ''amdgpu_builtin_cdna3_smfmac_i32_16x16x64_i8_sparse_a_finite_kernel'',
      ''amdgpu_builtin_cdna3_smfmac_i32_16x16x64_i8_sparse_a_kernel'',
      ''amdgpu_builtin_cdna3_smfmac_i32_32x32x32_i8_sparse_a_finite_kernel'',
      ''amdgpu_builtin_cdna3_smfmac_i32_32x32x32_i8_sparse_a_kernel'',
      ''amdgpu_builtin_rdna3_wmma_i32_16x16x16_iu8_finite_kernel'',
      ''amdgpu_builtin_rdna3_wmma_i32_16x16x16_iu8_kernel'',
      ''amdgpu_builtin_rdna4_swmmac_i32_16x16x32_iu8_sparse_a_finite_kernel'',
      ''amdgpu_builtin_rdna4_swmmac_i32_16x16x32_iu8_sparse_a_kernel'',
      ''amdgpu_builtin_rdna4_wmma_i32_16x16x16_iu8_finite_kernel'',
      ''amdgpu_builtin_rdna4_wmma_i32_16x16x16_iu8_kernel'']"

definition GENERATED_REDUCER_IDENTITIES :: "string list" where
  "GENERATED_REDUCER_IDENTITIES =
     [''direct_hip_finite_modulus_251_fixed_reducer_v1'',
      ''direct_hip_finite_modulus_255_fixed_reducer_v1'',
      ''direct_hip_finite_modulus_256_fixed_reducer_v1'',
      ''direct_hip_fixed_prefix_18_generated_reducer_v1'',
      ''direct_hip_fixed_prefix_1_generated_reducer_v1'',
      ''direct_hip_fixed_prefix_20_generated_reducer_v1'',
      ''direct_hip_fixed_prefix_2_generated_reducer_v1'',
      ''direct_hip_fixed_prefix_3_generated_reducer_v1'',
      ''direct_hip_fixed_prefix_4_generated_reducer_v1'',
      ''direct_hip_fixed_prefix_5_generated_reducer_v1'',
      ''direct_hip_fixed_prefix_6_generated_reducer_v1'',
      ''direct_hip_fixed_prefix_7_generated_reducer_v1'',
      ''direct_hip_fixed_prefix_8_generated_reducer_v1'',
      ''direct_hip_fixed_prefix_9_generated_reducer_v1'', ''not_applicable'']"

definition GENERATED_REDUCER_IDENTITY_PATTERNS :: "string list" where
  "GENERATED_REDUCER_IDENTITY_PATTERNS = [''direct_hip_finite_modulus_[0-9]+_fixed_reducer_v1'']"

definition SELECTED_KERNELS :: "string list" where
  "SELECTED_KERNELS =
     [''amdgpu_builtin_cdna3_mfma_i32_16x16x32_i8_centered_epilogue_v1'',
      ''amdgpu_builtin_cdna3_mfma_i32_16x16x32_i8_finite_u8_epilogue_v1'',
      ''amdgpu_builtin_cdna3_mfma_i32_32x32x16_i8_centered_epilogue_v1'',
      ''amdgpu_builtin_cdna3_mfma_i32_32x32x16_i8_finite_u8_epilogue_v1'',
      ''amdgpu_builtin_cdna3_smfmac_i32_16x16x64_i8_sparse_a_v1'',
      ''amdgpu_builtin_cdna3_smfmac_i32_32x32x32_i8_sparse_a_v1'',
      ''amdgpu_builtin_rdna3_wmma_i32_16x16x16_iu4_research_v1'',
      ''amdgpu_builtin_rdna3_wmma_i32_16x16x16_iu8_centered_epilogue_v1'',
      ''amdgpu_builtin_rdna3_wmma_i32_16x16x16_iu8_finite_u8_epilogue_v1'',
      ''amdgpu_builtin_rdna4_swmmac_i32_16x16x32_iu4_sparse_a_research_v1'',
      ''amdgpu_builtin_rdna4_swmmac_i32_16x16x32_iu8_sparse_a_v1'',
      ''amdgpu_builtin_rdna4_wmma_i32_16x16x16_iu8_centered_epilogue_v1'',
      ''amdgpu_builtin_rdna4_wmma_i32_16x16x16_iu8_finite_u8_epilogue_v1'',
      ''ck_wmma_cshuffle_finite_u8_mod251_centered_epilogue_v2'',
      ''ck_wmma_cshuffle_finite_u8_mod255_centered_epilogue_v2'',
      ''ck_wmma_cshuffle_finite_u8_mod256_centered_epilogue_v2'',
      ''ck_wmma_cshuffle_finite_u8_static_modulus_centered_epilogue_v2'',
      ''ck_wmma_cshuffle_i8_i32_default_moduli_static_centered_epilogue_v3'',
      ''ck_wmma_cshuffle_tiled_i8_i32_default_moduli_static_centered_epilogue_v3'',
      ''cpu_reference'', ''direct_hip_grouped_active_prefix_schedule_rns_gemm_v3'',
      ''direct_hip_native_a_finite_u8_gemm_mod251_v1'',
      ''direct_hip_native_a_finite_u8_gemm_mod255_v1'',
      ''direct_hip_native_a_finite_u8_gemm_mod256_v1'', ''direct_hip_native_a_finite_u8_gemm_v1'',
      ''direct_hip_native_a_i64_colpair_prefix9_reuse_b_grouped_rns_gemm_v2'',
      ''direct_hip_native_a_i64_prefix9_reuse_b_grouped_rns_gemm_v1'',
      ''direct_hip_native_a_u64_colpair_prefix9_reuse_b_grouped_rns_gemm_v2'',
      ''direct_hip_native_a_u64_prefix9_reuse_b_grouped_rns_gemm_v1'',
      ''direct_hip_native_b_i64_colpair_prefix9_reuse_a_grouped_rns_gemm_v1'',
      ''direct_hip_native_b_u64_colpair_prefix9_reuse_a_grouped_rns_gemm_v1'',
      ''direct_hip_native_finite_u8_gemm_mod251_v1'',
      ''direct_hip_native_finite_u8_gemm_mod255_v1'',
      ''direct_hip_native_finite_u8_gemm_mod256_v1'', ''direct_hip_native_finite_u8_gemm_v1'',
      ''direct_hip_pack_i64_4wide_coalesced_v1'', ''direct_hip_persistent_small_gemm_rns_v1'',
      ''direct_hip_persistent_small_pack_i64_v1'', ''direct_hip_prefix20_grouped_rns_gemm_v1'',
      ''direct_hip_prefix9_grouped_rns_gemm_v1'',
      ''direct_hip_prefix9_native_input_colpair_grouped_rns_gemm_v2'',
      ''direct_hip_prefix9_native_input_grouped_rns_gemm_v1'',
      ''direct_hip_prefix9_rns_gemv_n1_i64_v1'', ''direct_hip_prefix9_rns_gemv_n1_u64_v1'',
      ''direct_hip_prefix9_rns_gemv_small_n_i64_v1'',
      ''direct_hip_prefix9_rns_gemv_small_n_u64_v1'',
      ''direct_hip_tiled_active_prefix_rns_gemm_v2'',
      ''direct_hip_tiled_active_prefix_zero_row_col_skip_rns_gemm_v1'',
      ''direct_hip_tiled_active_prefix_zero_skip_rns_gemm_v3'',
      ''direct_hip_tiled_active_prefix_zero_tile_row_col_skip_rns_gemm_v1'',
      ''direct_hip_tiled_finite_u8_gemm_mod251_v1'', ''direct_hip_tiled_finite_u8_gemm_mod255_v1'',
      ''direct_hip_tiled_finite_u8_gemm_mod256_v1'', ''direct_hip_tiled_finite_u8_gemm_v1'',
      ''direct_hip_tiled_rns_gemm_v1'',
      ''direct_hip_uniform_small_i8_ab_colpair_prefix9_residue_channel_width3_experimental_v0'',
      ''direct_hip_uniform_small_i8_ab_colpair_prefix9_reuse_a_grouped_rns_gemm_v1'',
      ''direct_hip_uniform_small_i8_ab_colpair_prefix9_reuse_b_grouped_rns_gemm_v2'',
      ''direct_hip_uniform_small_i8_ab_colpair_prefix9_transient_grouped_rns_gemm_v1'',
      ''direct_hip_wrap64_byte_gemm36_u32acc_colpair_2d_v5'',
      ''direct_hip_wrap64_byte_gemm36_u32acc_tiled_2d_v4'',
      ''direct_hip_wrap64_byte_gemm36_u64acc_tiled_2d_v4'', ''hip_vector_alu_i64_exact_192b_v1'',
      ''hip_vector_alu_i64_gemv_n1_exact_192b_v1'',
      ''hip_vector_alu_i64_gemv_small_n_exact_192b_v1'', ''hip_vector_alu_u64_exact_192b_v1'',
      ''hip_vector_alu_u64_gemv_n1_exact_192b_v1'',
      ''hip_vector_alu_u64_gemv_small_n_exact_192b_v1'',
      ''hipblaslt_int8_i32_scratch_reduce_specialized_251_255_256_v2'',
      ''rocwmma_i8_i32_signed_finite_u8_hot_residue_v1'',
      ''rocwmma_i8_i32_signed_finite_u8_mod251_hot_residue_v2'',
      ''rocwmma_i8_i32_signed_finite_u8_mod255_hot_residue_v2'',
      ''rocwmma_i8_i32_signed_finite_u8_mod256_hot_residue_v2'',
      ''rocwmma_i8_i32_signed_mod251_255_256_hot_residue_v2'',
      ''rocwmma_i8_i32_signed_tiled_mod251_255_256_hot_residue_v2'',
      ''rocwmma_wrap64_byte_gemm36_candidate_v0'']"

definition VECTOR_ALU_SELECTED_KERNELS :: "string list" where
  "VECTOR_ALU_SELECTED_KERNELS =
     [''hip_vector_alu_i64_exact_192b_v1'', ''hip_vector_alu_i64_gemv_n1_exact_192b_v1'',
      ''hip_vector_alu_i64_gemv_small_n_exact_192b_v1'', ''hip_vector_alu_u64_exact_192b_v1'',
      ''hip_vector_alu_u64_gemv_n1_exact_192b_v1'',
      ''hip_vector_alu_u64_gemv_small_n_exact_192b_v1'']"

definition CK_SELECTED_KERNELS :: "string list" where
  "CK_SELECTED_KERNELS =
     [''ck_wmma_cshuffle_finite_u8_mod251_centered_epilogue_v2'',
      ''ck_wmma_cshuffle_finite_u8_mod255_centered_epilogue_v2'',
      ''ck_wmma_cshuffle_finite_u8_mod256_centered_epilogue_v2'',
      ''ck_wmma_cshuffle_finite_u8_static_modulus_centered_epilogue_v2'',
      ''ck_wmma_cshuffle_i8_i32_default_moduli_static_centered_epilogue_v3'',
      ''ck_wmma_cshuffle_tiled_i8_i32_default_moduli_static_centered_epilogue_v3'']"

definition ROCWMMA_SELECTED_KERNELS :: "string list" where
  "ROCWMMA_SELECTED_KERNELS =
     [''rocwmma_i8_i32_signed_finite_u8_hot_residue_v1'',
      ''rocwmma_i8_i32_signed_finite_u8_mod251_hot_residue_v2'',
      ''rocwmma_i8_i32_signed_finite_u8_mod255_hot_residue_v2'',
      ''rocwmma_i8_i32_signed_finite_u8_mod256_hot_residue_v2'',
      ''rocwmma_i8_i32_signed_mod251_255_256_hot_residue_v2'',
      ''rocwmma_i8_i32_signed_tiled_mod251_255_256_hot_residue_v2'']"

definition BOUNDED_I64_EXPORT_KERNELS :: "string list" where
  "BOUNDED_I64_EXPORT_KERNELS =
     [''cpu_reference_export_i64'', ''hip_direct_export_i64_device'',
      ''hip_direct_export_i64_grouped_device'', ''hip_direct_export_i64_tiled_device'',
      ''vector_alu_output_d2h'']"

definition BOUNDED_U64_EXPORT_KERNELS :: "string list" where
  "BOUNDED_U64_EXPORT_KERNELS =
     [''cpu_reference_export_u64'', ''hip_direct_export_u64_device'',
      ''hip_direct_export_u64_grouped_device'', ''hip_direct_export_u64_tiled_device'',
      ''vector_alu_output_d2h'']"

definition EXACT_WIDE_SIGNED_EXPORT_KERNELS :: "string list" where
  "EXACT_WIDE_SIGNED_EXPORT_KERNELS =
     [''cpu_reference_export_exact_wide_signed_limbs'',
      ''hip_direct_export_exact_wide_signed_fixed_prefix18_fixed_limbs_device'',
      ''hip_direct_export_exact_wide_signed_fixed_prefix18_variable_limbs_device'',
      ''hip_direct_export_exact_wide_signed_fixed_prefix20_fixed_limbs_device'',
      ''hip_direct_export_exact_wide_signed_fixed_prefix20_variable_limbs_device'',
      ''hip_direct_export_exact_wide_signed_limbs_device'',
      ''hip_direct_export_exact_wide_signed_tree_crt_limbs_device'']"

definition EXACT_WIDE_UNSIGNED_EXPORT_KERNELS :: "string list" where
  "EXACT_WIDE_UNSIGNED_EXPORT_KERNELS =
     [''cpu_reference_export_exact_wide_unsigned_limbs'',
      ''hip_direct_export_exact_wide_unsigned_fixed_prefix18_fixed_limbs_device'',
      ''hip_direct_export_exact_wide_unsigned_fixed_prefix18_variable_limbs_device'',
      ''hip_direct_export_exact_wide_unsigned_fixed_prefix20_fixed_limbs_device'',
      ''hip_direct_export_exact_wide_unsigned_fixed_prefix20_variable_limbs_device'',
      ''hip_direct_export_exact_wide_unsigned_limbs_device'',
      ''hip_direct_export_exact_wide_unsigned_tree_crt_limbs_device'']"

definition COMPARISON_BASELINE_STATUSES :: "string list" where
  "COMPARISON_BASELINE_STATUSES =
     [''missing_reviewed_same_contract_baseline'', ''required_not_recorded'',
      ''reviewed_release_same_contract_baseline'', ''reviewed_same_contract_baseline'']"

definition RELEASE_GATE_REVIEW_STATUSES :: "string list" where
  "RELEASE_GATE_REVIEW_STATUSES =
     [''not_requested'', ''pending_reviewed_summary'', ''reviewed_blocked'', ''reviewed_passed'']"

section \<open>Constants of the schema\<close>

definition SCHEMA_VERSION :: "int" where
  "SCHEMA_VERSION = 4"

definition WRAP64_HIP_U32_ACCUMULATOR_MAX_K :: "int" where
  "WRAP64_HIP_U32_ACCUMULATOR_MAX_K = 4096"

definition WRAP64_HIP_COLPAIR_MIN_DIMENSION :: "int" where
  "WRAP64_HIP_COLPAIR_MIN_DIMENSION = 256"

definition WRAP64_LOW_PRODUCT_DIAGONALS :: "int" where
  "WRAP64_LOW_PRODUCT_DIAGONALS = 8"

definition WRAP64_HIP_U32_KERNEL :: "string" where
  "WRAP64_HIP_U32_KERNEL = ''direct_hip_wrap64_byte_gemm36_u32acc_tiled_2d_v4''"

definition WRAP64_HIP_U64_KERNEL :: "string" where
  "WRAP64_HIP_U64_KERNEL = ''direct_hip_wrap64_byte_gemm36_u64acc_tiled_2d_v4''"

definition WRAP64_HIP_U32_COLPAIR_KERNEL :: "string" where
  "WRAP64_HIP_U32_COLPAIR_KERNEL = ''direct_hip_wrap64_byte_gemm36_u32acc_colpair_2d_v5''"

definition BASELINE_STATUS_REVIEWED :: "string" where
  "BASELINE_STATUS_REVIEWED = ''reviewed_same_contract_baseline''"

definition BASELINE_STATUS_RELEASE_REVIEWED :: "string" where
  "BASELINE_STATUS_RELEASE_REVIEWED = ''reviewed_release_same_contract_baseline''"

definition REVIEWED_BASELINE_STATUSES :: "string list" where
  "REVIEWED_BASELINE_STATUSES = [BASELINE_STATUS_REVIEWED, BASELINE_STATUS_RELEASE_REVIEWED]"

definition TIMING_PHASES :: "string list" where
  "TIMING_PHASES =
     [''planning'', ''scheduling'', ''matrix_alloc'', ''pack'', ''rns_gemm'', ''crt_export'',
      ''end_to_end'']"

definition GLOBAL_BOUND_TIMING_PHASE :: "string" where
  "GLOBAL_BOUND_TIMING_PHASE = ''global_bound_scan''"

definition PER_TILE_TIMING_PHASE :: "string" where
  "PER_TILE_TIMING_PHASE = ''tile_bound_scan''"

definition REPEATED_TIMING_PHASES :: "string list" where
  "REPEATED_TIMING_PHASES = [''pack'', ''rns_gemm'', ''crt_export'', ''end_to_end'']"

definition OPTIONAL_REPEATED_TIMING_PHASES :: "string list" where
  "OPTIONAL_REPEATED_TIMING_PHASES = [''pack_a'', ''pack_b'']"

definition TILE_SCHEDULE_ZERO_OUTPUT :: "int" where
  "TILE_SCHEDULE_ZERO_OUTPUT = 1"

definition TILE_SCHEDULE_ZERO_ROW_COL_PRODUCT :: "int" where
  "TILE_SCHEDULE_ZERO_ROW_COL_PRODUCT = 2"

definition TILE_SCHEDULE_KNOWN_FLAGS :: "int" where
  "TILE_SCHEDULE_KNOWN_FLAGS = TILE_SCHEDULE_ZERO_OUTPUT OR TILE_SCHEDULE_ZERO_ROW_COL_PRODUCT"

definition PACK_MODE_OPERANDS :: "(string \<times> string list) list" where
  "PACK_MODE_OPERANDS =
     [(''per_repeat_repack'', []),
      (''prepacked_reuse'', [''A'', ''B'']),
      (''prepacked_reuse_a'', [''A'']),
      (''prepacked_reuse_b'', [''B''])]"

definition PREFIX_POLICY_FIELDS :: "string list" where
  "PREFIX_POLICY_FIELDS =
     [''selected_prefix'', ''requested_max_prefix'', ''contract_prefix_policy'',
      ''residue_planes_requested'', ''residue_planes_selected'', ''residue_planes_skipped'',
      ''residue_plane_skip_fraction'']"

definition OLD_ACCELERATOR_GPU_EVENT_SCOPE :: "string" where
  "OLD_ACCELERATOR_GPU_EVENT_SCOPE =
     ''accelerator_backend_default_stream_operation_groups_with_direct_hip_pack_export''"

definition DEEP_ACCELERATOR_GPU_EVENT_SCOPE :: "string" where
  "DEEP_ACCELERATOR_GPU_EVENT_SCOPE =
     ''accelerator_backend_default_stream_deep_kernel_events_with_direct_hip_pack_export''"

definition DIRECT_HIP_FINITE_GENERIC_KERNEL :: "string" where
  "DIRECT_HIP_FINITE_GENERIC_KERNEL = ''direct_hip_tiled_finite_u8_gemm_v1''"

definition DIRECT_HIP_FINITE_SPECIALIZED_KERNELS :: "(int \<times> string) list" where
  "DIRECT_HIP_FINITE_SPECIALIZED_KERNELS =
     [(251, ''direct_hip_tiled_finite_u8_gemm_mod251_v1''),
      (255, ''direct_hip_tiled_finite_u8_gemm_mod255_v1''),
      (256, ''direct_hip_tiled_finite_u8_gemm_mod256_v1'')]"

definition DIRECT_HIP_FINITE_ONESHOT_GENERIC_KERNEL :: "string" where
  "DIRECT_HIP_FINITE_ONESHOT_GENERIC_KERNEL = ''direct_hip_native_finite_u8_gemm_v1''"

definition DIRECT_HIP_FINITE_ONESHOT_SPECIALIZED_KERNELS :: "(int \<times> string) list" where
  "DIRECT_HIP_FINITE_ONESHOT_SPECIALIZED_KERNELS =
     [(251, ''direct_hip_native_finite_u8_gemm_mod251_v1''),
      (255, ''direct_hip_native_finite_u8_gemm_mod255_v1''),
      (256, ''direct_hip_native_finite_u8_gemm_mod256_v1'')]"

definition CK_FINITE_GENERIC_KERNEL :: "string" where
  "CK_FINITE_GENERIC_KERNEL = ''ck_wmma_cshuffle_finite_u8_static_modulus_centered_epilogue_v2''"

definition SCHEMA_CK_FINITE_SPECIALIZED_KERNELS :: "(int \<times> string) list" where
  "SCHEMA_CK_FINITE_SPECIALIZED_KERNELS =
     [(251, ''ck_wmma_cshuffle_finite_u8_mod251_centered_epilogue_v2''),
      (255, ''ck_wmma_cshuffle_finite_u8_mod255_centered_epilogue_v2''),
      (256, ''ck_wmma_cshuffle_finite_u8_mod256_centered_epilogue_v2'')]"

definition CK_FINITE_STATIC_MODULI :: "int list" where
  "CK_FINITE_STATIC_MODULI =
     [127, 131, 137, 139, 149, 151, 157, 163, 167, 173, 179, 181, 191, 193, 197, 199, 211, 217, 223,
      227, 229, 233, 239, 241, 243, 247, 251, 253, 255, 256]"

definition ROCWMMA_FINITE_GENERIC_KERNEL :: "string" where
  "ROCWMMA_FINITE_GENERIC_KERNEL = ''rocwmma_i8_i32_signed_finite_u8_hot_residue_v1''"

definition SCHEMA_ROCWMMA_FINITE_SPECIALIZED_KERNELS :: "(int \<times> string) list" where
  "SCHEMA_ROCWMMA_FINITE_SPECIALIZED_KERNELS =
     [(251, ''rocwmma_i8_i32_signed_finite_u8_mod251_hot_residue_v2''),
      (255, ''rocwmma_i8_i32_signed_finite_u8_mod255_hot_residue_v2''),
      (256, ''rocwmma_i8_i32_signed_finite_u8_mod256_hot_residue_v2'')]"

definition ROCWMMA_FINITE_STATIC_MODULI :: "int list" where
  "ROCWMMA_FINITE_STATIC_MODULI = CK_FINITE_STATIC_MODULI"

definition DIRECT_HIP_FINITE_NATIVE_A_REUSE_B_GENERIC_KERNEL :: "string" where
  "DIRECT_HIP_FINITE_NATIVE_A_REUSE_B_GENERIC_KERNEL = ''direct_hip_native_a_finite_u8_gemm_v1''"

definition DIRECT_HIP_FINITE_NATIVE_A_REUSE_B_SPECIALIZED_KERNELS :: "(int \<times> string) list" where
  "DIRECT_HIP_FINITE_NATIVE_A_REUSE_B_SPECIALIZED_KERNELS =
     [(251, ''direct_hip_native_a_finite_u8_gemm_mod251_v1''),
      (255, ''direct_hip_native_a_finite_u8_gemm_mod255_v1''),
      (256, ''direct_hip_native_a_finite_u8_gemm_mod256_v1'')]"

definition DIRECT_HIP_RECIPROCAL_ISA_EVIDENCE :: "string" where
  "DIRECT_HIP_RECIPROCAL_ISA_EVIDENCE = ''rns8_hip_direct_reciprocal_isa_gate''"

definition DIRECT_HIP_BOUNDED_ONESHOT_KERNEL_V1 :: "string" where
  "DIRECT_HIP_BOUNDED_ONESHOT_KERNEL_V1 = ''direct_hip_prefix9_native_input_grouped_rns_gemm_v1''"

definition DIRECT_HIP_BOUNDED_ONESHOT_KERNEL_LARGE_COLPAIR_V2 :: "string" where
  "DIRECT_HIP_BOUNDED_ONESHOT_KERNEL_LARGE_COLPAIR_V2 =
     ''direct_hip_prefix9_native_input_colpair_grouped_rns_gemm_v2''"

definition DIRECT_HIP_BOUNDED_ONESHOT_EPILOGUE :: "string" where
  "DIRECT_HIP_BOUNDED_ONESHOT_EPILOGUE = ''native_input_centered_residue_then_crt_export''"

definition DIRECT_HIP_BOUNDED_ONESHOT_WORKSPACE :: "string" where
  "DIRECT_HIP_BOUNDED_ONESHOT_WORKSPACE = ''transient_native_inputs_to_resident_rns_output''"

definition DIRECT_HIP_BOUNDED_ONESHOT_RESIDENT_FALLBACK_KERNEL :: "string" where
  "DIRECT_HIP_BOUNDED_ONESHOT_RESIDENT_FALLBACK_KERNEL =
     ''direct_hip_grouped_active_prefix_schedule_rns_gemm_v3''"

definition DIRECT_HIP_BOUNDED_ONESHOT_RESIDENT_FALLBACK_EPILOGUE :: "string" where
  "DIRECT_HIP_BOUNDED_ONESHOT_RESIDENT_FALLBACK_EPILOGUE =
     ''fused_centered_residue_then_crt_export''"

definition DIRECT_HIP_BOUNDED_ONESHOT_RESIDENT_FALLBACK_WORKSPACE :: "string" where
  "DIRECT_HIP_BOUNDED_ONESHOT_RESIDENT_FALLBACK_WORKSPACE = ''resident_device_buffers''"

definition DIRECT_HIP_BOUNDED_NATIVE_A_REUSE_B_KERNELS :: "(string \<times> string) list" where
  "DIRECT_HIP_BOUNDED_NATIVE_A_REUSE_B_KERNELS =
     [(''bounded_i64'', ''direct_hip_native_a_i64_prefix9_reuse_b_grouped_rns_gemm_v1''),
      (''bounded_u64'', ''direct_hip_native_a_u64_prefix9_reuse_b_grouped_rns_gemm_v1'')]"

definition DIRECT_HIP_BOUNDED_NATIVE_A_REUSE_B_LARGE_COLPAIR_KERNELS :: "(string \<times> string) list" where
  "DIRECT_HIP_BOUNDED_NATIVE_A_REUSE_B_LARGE_COLPAIR_KERNELS =
     [(''bounded_i64'', ''direct_hip_native_a_i64_colpair_prefix9_reuse_b_grouped_rns_gemm_v2''),
      (''bounded_u64'', ''direct_hip_native_a_u64_colpair_prefix9_reuse_b_grouped_rns_gemm_v2'')]"

definition DIRECT_HIP_BOUNDED_UNIFORM_SMALL_NATIVE_A_REUSE_B_KERNELS :: "(string \<times> string) list" where
  "DIRECT_HIP_BOUNDED_UNIFORM_SMALL_NATIVE_A_REUSE_B_KERNELS =
     [(''bounded_i64'',
       ''direct_hip_uniform_small_i8_ab_colpair_prefix9_reuse_b_grouped_rns_gemm_v2''),
      (''bounded_u64'',
       ''direct_hip_uniform_small_i8_ab_colpair_prefix9_reuse_b_grouped_rns_gemm_v2'')]"

definition DIRECT_HIP_BOUNDED_UNIFORM_SMALL_REUSE_A_KERNELS :: "(string \<times> string) list" where
  "DIRECT_HIP_BOUNDED_UNIFORM_SMALL_REUSE_A_KERNELS =
     [(''bounded_i64'',
       ''direct_hip_uniform_small_i8_ab_colpair_prefix9_reuse_a_grouped_rns_gemm_v1''),
      (''bounded_u64'',
       ''direct_hip_uniform_small_i8_ab_colpair_prefix9_reuse_a_grouped_rns_gemm_v1'')]"

definition DIRECT_HIP_BOUNDED_UNIFORM_SMALL_TRANSIENT_KERNELS :: "(string \<times> string) list" where
  "DIRECT_HIP_BOUNDED_UNIFORM_SMALL_TRANSIENT_KERNELS =
     [(''bounded_i64'',
       ''direct_hip_uniform_small_i8_ab_colpair_prefix9_transient_grouped_rns_gemm_v1''),
      (''bounded_u64'',
       ''direct_hip_uniform_small_i8_ab_colpair_prefix9_transient_grouped_rns_gemm_v1'')]"

definition DIRECT_HIP_BOUNDED_RESIDUE_CHANNEL_FUSION_KERNELS :: "(string \<times> string) list" where
  "DIRECT_HIP_BOUNDED_RESIDUE_CHANNEL_FUSION_KERNELS =
     [(''bounded_i64'',
       ''direct_hip_uniform_small_i8_ab_colpair_prefix9_residue_channel_width3_experimental_v0''),
      (''bounded_u64'',
       ''direct_hip_uniform_small_i8_ab_colpair_prefix9_residue_channel_width3_experimental_v0'')]"

definition DIRECT_HIP_BOUNDED_NATIVE_B_REUSE_A_KERNELS :: "(string \<times> string) list" where
  "DIRECT_HIP_BOUNDED_NATIVE_B_REUSE_A_KERNELS =
     [(''bounded_i64'', ''direct_hip_native_b_i64_colpair_prefix9_reuse_a_grouped_rns_gemm_v1''),
      (''bounded_u64'', ''direct_hip_native_b_u64_colpair_prefix9_reuse_a_grouped_rns_gemm_v1'')]"

definition DIRECT_HIP_BOUNDED_SKINNY_GEMV_N1_KERNELS :: "(string \<times> string) list" where
  "DIRECT_HIP_BOUNDED_SKINNY_GEMV_N1_KERNELS =
     [(''bounded_i64'', ''direct_hip_prefix9_rns_gemv_n1_i64_v1''),
      (''bounded_u64'', ''direct_hip_prefix9_rns_gemv_n1_u64_v1'')]"

definition DIRECT_HIP_BOUNDED_SKINNY_GEMV_SMALL_N_KERNELS :: "(string \<times> string) list" where
  "DIRECT_HIP_BOUNDED_SKINNY_GEMV_SMALL_N_KERNELS =
     [(''bounded_i64'', ''direct_hip_prefix9_rns_gemv_small_n_i64_v1''),
      (''bounded_u64'', ''direct_hip_prefix9_rns_gemv_small_n_u64_v1'')]"

definition DIRECT_HIP_BOUNDED_NATIVE_A_REUSE_B_EPILOGUE :: "string" where
  "DIRECT_HIP_BOUNDED_NATIVE_A_REUSE_B_EPILOGUE =
     ''native_a_centered_resident_b_residue_then_crt_export''"

definition DIRECT_HIP_BOUNDED_UNIFORM_SMALL_NATIVE_A_REUSE_B_EPILOGUE :: "string" where
  "DIRECT_HIP_BOUNDED_UNIFORM_SMALL_NATIVE_A_REUSE_B_EPILOGUE =
     ''uniform_small_i8_ab_resident_b_residue_then_crt_export''"

definition DIRECT_HIP_BOUNDED_UNIFORM_SMALL_REUSE_A_EPILOGUE :: "string" where
  "DIRECT_HIP_BOUNDED_UNIFORM_SMALL_REUSE_A_EPILOGUE =
     ''uniform_small_i8_ab_resident_a_residue_then_crt_export''"

definition DIRECT_HIP_BOUNDED_UNIFORM_SMALL_TRANSIENT_EPILOGUE :: "string" where
  "DIRECT_HIP_BOUNDED_UNIFORM_SMALL_TRANSIENT_EPILOGUE =
     ''uniform_small_i8_ab_transient_residue_then_crt_export''"

definition DIRECT_HIP_BOUNDED_RESIDUE_CHANNEL_FUSION_EPILOGUE :: "string" where
  "DIRECT_HIP_BOUNDED_RESIDUE_CHANNEL_FUSION_EPILOGUE =
     ''width3_residue_fusion_transient_then_crt_export''"

definition DIRECT_HIP_BOUNDED_NATIVE_B_REUSE_A_EPILOGUE :: "string" where
  "DIRECT_HIP_BOUNDED_NATIVE_B_REUSE_A_EPILOGUE =
     ''resident_a_native_b_centered_residue_then_crt_export''"

definition DIRECT_HIP_BOUNDED_SKINNY_GEMV_N1_EPILOGUE :: "string" where
  "DIRECT_HIP_BOUNDED_SKINNY_GEMV_N1_EPILOGUE =
     ''resident_rns_gemv_n1_centered_residue_then_crt_export''"

definition DIRECT_HIP_BOUNDED_SKINNY_GEMV_SMALL_N_EPILOGUE :: "string" where
  "DIRECT_HIP_BOUNDED_SKINNY_GEMV_SMALL_N_EPILOGUE =
     ''resident_rns_gemv_small_n_centered_residue_then_crt_export''"

definition DIRECT_HIP_BOUNDED_NATIVE_A_REUSE_B_WORKSPACE :: "string" where
  "DIRECT_HIP_BOUNDED_NATIVE_A_REUSE_B_WORKSPACE = ''transient_native_a_resident_rns_b_output''"

definition DIRECT_HIP_BOUNDED_UNIFORM_SMALL_REUSE_A_WORKSPACE :: "string" where
  "DIRECT_HIP_BOUNDED_UNIFORM_SMALL_REUSE_A_WORKSPACE = ''transient_i8_b_resident_i8_a_rns_output''"

definition DIRECT_HIP_BOUNDED_UNIFORM_SMALL_TRANSIENT_WORKSPACE :: "string" where
  "DIRECT_HIP_BOUNDED_UNIFORM_SMALL_TRANSIENT_WORKSPACE =
     ''transient_i8_a_transient_i8_b_rns_output''"

definition DIRECT_HIP_BOUNDED_RESIDUE_CHANNEL_FUSION_WORKSPACE :: "string" where
  "DIRECT_HIP_BOUNDED_RESIDUE_CHANNEL_FUSION_WORKSPACE =
     ''width3_residue_fusion_transient_i8_inputs''"

definition DIRECT_HIP_BOUNDED_NATIVE_B_REUSE_A_WORKSPACE :: "string" where
  "DIRECT_HIP_BOUNDED_NATIVE_B_REUSE_A_WORKSPACE = ''transient_native_b_resident_rns_a_output''"

definition DIRECT_HIP_BOUNDED_SKINNY_GEMV_N1_WORKSPACE :: "string" where
  "DIRECT_HIP_BOUNDED_SKINNY_GEMV_N1_WORKSPACE = ''resident_rns_inputs_skinny_n1_output''"

definition DIRECT_HIP_BOUNDED_SKINNY_GEMV_SMALL_N_WORKSPACE :: "string" where
  "DIRECT_HIP_BOUNDED_SKINNY_GEMV_SMALL_N_WORKSPACE = ''resident_rns_inputs_skinny_n_le8_output''"

definition DIRECT_HIP_FINITE_ONESHOT_EPILOGUE :: "string" where
  "DIRECT_HIP_FINITE_ONESHOT_EPILOGUE = ''native_u8_centered_residue_then_canonical_u8_export''"

definition DIRECT_HIP_FINITE_ONESHOT_WORKSPACE :: "string" where
  "DIRECT_HIP_FINITE_ONESHOT_WORKSPACE = ''transient_native_u8_inputs_to_resident_finite_output''"

definition DIRECT_HIP_FINITE_NATIVE_A_REUSE_B_EPILOGUE :: "string" where
  "DIRECT_HIP_FINITE_NATIVE_A_REUSE_B_EPILOGUE =
     ''native_a_centered_resident_b_residue_then_canonical_u8_export''"

definition DIRECT_HIP_FINITE_NATIVE_A_REUSE_B_WORKSPACE :: "string" where
  "DIRECT_HIP_FINITE_NATIVE_A_REUSE_B_WORKSPACE =
     ''transient_native_u8_a_resident_finite_b_output''"

definition DIRECT_HIP_FINITE_SPECIALIZED_ISA_EVIDENCE :: "string" where
  "DIRECT_HIP_FINITE_SPECIALIZED_ISA_EVIDENCE =
     ''rns8_hip_direct_finite_specialized_reducer_isa_gate_no_divide''"

definition DIRECT_HIP_ADAPTIVE_GROUPED_SCHEDULE_KERNEL_V3 :: "string" where
  "DIRECT_HIP_ADAPTIVE_GROUPED_SCHEDULE_KERNEL_V3 =
     ''direct_hip_grouped_active_prefix_schedule_rns_gemm_v3''"

definition DIRECT_HIP_ADAPTIVE_ZERO_SKIP_KERNEL_V3 :: "string" where
  "DIRECT_HIP_ADAPTIVE_ZERO_SKIP_KERNEL_V3 =
     ''direct_hip_tiled_active_prefix_zero_skip_rns_gemm_v3''"

definition DIRECT_HIP_ADAPTIVE_ZERO_ROW_COL_SKIP_KERNEL_V1 :: "string" where
  "DIRECT_HIP_ADAPTIVE_ZERO_ROW_COL_SKIP_KERNEL_V1 =
     ''direct_hip_tiled_active_prefix_zero_row_col_skip_rns_gemm_v1''"

definition DIRECT_HIP_ADAPTIVE_ZERO_TILE_ROW_COL_SKIP_KERNEL_V1 :: "string" where
  "DIRECT_HIP_ADAPTIVE_ZERO_TILE_ROW_COL_SKIP_KERNEL_V1 =
     ''direct_hip_tiled_active_prefix_zero_tile_row_col_skip_rns_gemm_v1''"

definition WRAP64_ROCWMMA_CANDIDATE_KERNEL :: "string" where
  "WRAP64_ROCWMMA_CANDIDATE_KERNEL = ''rocwmma_wrap64_byte_gemm36_candidate_v0''"

definition INT32_MAX :: "int" where
  "INT32_MAX = 2147483647"

definition UINT32_MAX :: "int" where
  "UINT32_MAX = 4294967295"

definition DIRECT_HIP_ONESHOT_GPU_EVENT_PHASES :: "string list" where
  "DIRECT_HIP_ONESHOT_GPU_EVENT_PHASES =
     [''oneshot_native_input_h2d'', ''rns_gemm_kernel_group'', ''rns_gemm'',
      ''crt_export_status_memset'', ''crt_export_kernel'', ''crt_export_status_d2h'',
      ''crt_export_d2h'', ''crt_export'', ''oneshot_api_gpu'']"

definition DIRECT_HIP_ONESHOT_RESIDENT_FALLBACK_GPU_EVENT_PHASES :: "string list" where
  "DIRECT_HIP_ONESHOT_RESIDENT_FALLBACK_GPU_EVENT_PHASES =
     [''pack_h2d'', ''pack_kernel'', ''pack'', ''rns_gemm_kernel_group'', ''rns_gemm'',
      ''crt_export_status_memset'', ''crt_export_kernel'', ''crt_export_status_d2h'',
      ''crt_export_d2h'', ''crt_export'', ''oneshot_api_gpu'']"

definition DIRECT_HIP_FINITE_ONESHOT_GPU_EVENT_PHASES :: "string list" where
  "DIRECT_HIP_FINITE_ONESHOT_GPU_EVENT_PHASES =
     [''oneshot_native_input_h2d'', ''finite_native_gemm_kernel'', ''rns_gemm'',
      ''finite_export_kernel'', ''finite_export_d2h'', ''crt_export'', ''oneshot_api_gpu'']"

end
