(* ===== verification/Schema_Shared.thy ===== *)
theory Schema_Shared
  imports Schema_Constants
begin

text \<open>
  The functions of \<open>tools/benchmark_schema/core_shared.py\<close> and \<open>gpu_events.py\<close>: numeric comparison of
  timings, the kernels a wrap64 shape may use, and the event labels each accelerator reports.
\<close>

section \<open>Identities\<close>

text \<open>\<open>type(value) is int\<close> holds of an integer that is not a boolean.\<close>

definition wrap64_hip_shape_supports_colpair_kernel :: "pyval \<Rightarrow> pyval \<Rightarrow> pyval \<Rightarrow> bool" where
  "wrap64_hip_shape_supports_colpair_kernel m n k \<longleftrightarrow>
     list_all is_int_value [m, n, k] \<and>
     0 < int_of k \<and> int_of k \<le> WRAP64_HIP_U32_ACCUMULATOR_MAX_K \<and>
     WRAP64_HIP_COLPAIR_MIN_DIMENSION \<le> int_of m \<and> WRAP64_HIP_COLPAIR_MIN_DIMENSION \<le> int_of n"

definition wrap64_hip_allowed_kernels :: "pyval \<Rightarrow> pyval \<Rightarrow> pyval \<Rightarrow> string list" where
  "wrap64_hip_allowed_kernels m n k =
     (if wrap64_hip_shape_supports_colpair_kernel m n k
      then [WRAP64_HIP_U32_KERNEL, WRAP64_HIP_U32_COLPAIR_KERNEL]
      else if is_int_value k \<and> 0 < int_of k \<and> int_of k \<le> WRAP64_HIP_U32_ACCUMULATOR_MAX_K
      then [WRAP64_HIP_U32_KERNEL]
      else [WRAP64_HIP_U64_KERNEL])"

definition has_concrete_gpu_target_id :: "pyval \<Rightarrow> bool" where
  "has_concrete_gpu_target_id v \<longleftrightarrow>
     (case v of PStr s \<Rightarrow> lower (strip s) \<notin> set SCHEMA_PLACEHOLDER_GPU_TARGET_IDS | _ \<Rightarrow> False)"

text \<open>
  The reducer identities: a name of the list, or \<open>direct_hip_finite_modulus_[0-9]+_fixed_reducer_v1\<close>.
  A pattern ending in \<open>$\<close> also matches before a final newline.
\<close>

definition drop_newline :: "string \<Rightarrow> string" where
  "drop_newline s = (if s \<noteq> [] \<and> code (last s) = 10 then butlast s else s)"

definition is_digit :: "char \<Rightarrow> bool" where
  "is_digit c \<longleftrightarrow> 48 \<le> code c \<and> code c \<le> 57"

definition after :: "string \<Rightarrow> string \<Rightarrow> string option" where
  "after p s = (if starts_with p s then Some (drop (length p) s) else None)"

definition matches_fixed_reducer :: "string \<Rightarrow> bool" where
  "matches_fixed_reducer s \<longleftrightarrow>
     (case after ''direct_hip_finite_modulus_'' s of
        None \<Rightarrow> False
      | Some t \<Rightarrow> is_digit (hd (t @ ''_'')) \<and> dropWhile is_digit t = ''_fixed_reducer_v1'')"

definition matches_generated_reducer :: "string \<Rightarrow> bool" where
  "matches_generated_reducer s \<longleftrightarrow>
     list_ex (\<lambda>t. t \<in> set GENERATED_REDUCER_IDENTITIES \<or> matches_fixed_reducer t) [s, drop_newline s]"

text \<open>\<open>ck_prefix_NN_OP\<close> and \<open>rocwmma_prefix_NN_OP\<close> with two digits and an operation of the list.\<close>

definition matches_prefix_event :: "string \<Rightarrow> string list \<Rightarrow> string \<Rightarrow> bool" where
  "matches_prefix_event p ops s \<longleftrightarrow>
     (case after p s of
        Some (a # b # c # t) \<Rightarrow> is_digit a \<and> is_digit b \<and> c = CHR ''_'' \<and> t \<in> set ops
      | _ \<Rightarrow> False)"

definition CK_PREFIX_EVENT_OPS :: "string list" where
  "CK_PREFIX_EVENT_OPS = [''pack_a'', ''pack_b'', ''matmul'', ''copy_centered'', ''add_centered'']"

definition ROCWMMA_PREFIX_EVENT_OPS :: "string list" where
  "ROCWMMA_PREFIX_EVENT_OPS =
     [''pack_a'', ''pack_b'', ''matmul'', ''pack_a_prepacked_b'', ''matmul_prepacked_b'']"

definition matches_ck_prefix_event :: "string \<Rightarrow> bool" where
  "matches_ck_prefix_event s \<longleftrightarrow>
     list_ex (matches_prefix_event ''ck_prefix_'' CK_PREFIX_EVENT_OPS) [s, drop_newline s]"

definition matches_rocwmma_prefix_event :: "string \<Rightarrow> bool" where
  "matches_rocwmma_prefix_event s \<longleftrightarrow>
     list_ex (matches_prefix_event ''rocwmma_prefix_'' ROCWMMA_PREFIX_EVENT_OPS) [s, drop_newline s]"

definition is_deep_accelerator_gpu_event_label :: "string \<Rightarrow> bool" where
  "is_deep_accelerator_gpu_event_label phase \<longleftrightarrow>
     phase \<in> set CK_DEEP_GPU_EVENT_LABELS \<or>
     phase \<in> set ROCWMMA_DEEP_GPU_EVENT_LABELS \<or>
     phase \<in> set AMDGPU_BUILTIN_DEEP_GPU_EVENT_LABELS \<or>
     matches_ck_prefix_event phase \<or>
     matches_rocwmma_prefix_event phase"

section \<open>Numbers\<close>

text \<open>\<open>sorted(values)\<close> of floats, and the entry \<open>int(p * (n - 1) + 0.999999)\<close> of it.\<close>

definition sorted_floats :: "pyfloat list \<Rightarrow> pyfloat list" where
  "sorted_floats xs = foldr (\<lambda>x ys. takeWhile (\<lambda>y. flt_lt y x) ys @ x # dropWhile (\<lambda>y. flt_lt y x) ys) xs []"

definition percentile_index :: "pyfloat \<Rightarrow> nat \<Rightarrow> nat" where
  "percentile_index p n =
     (case flt_add (flt_mul p (rnd64 (of_nat n - 1))) (rnd64 (999999 / 1000000)) of
        FFin r \<Rightarrow> nat \<lfloor>r\<rfloor>
      | _ \<Rightarrow> 0)"

definition percentile :: "pyfloat list \<Rightarrow> pyfloat \<Rightarrow> pyfloat" where
  "percentile xs p = (if xs = [] then FFin 0 else sorted_floats xs ! percentile_index p (length xs))"

definition average_of :: "pyfloat list \<Rightarrow> pyfloat" where
  "average_of xs =
     (if xs = [] then FFin 0 else flt_div (float_sum xs) (rnd64 (of_nat (length xs))))"

text \<open>\<open>math.isclose(a, b, rel_tol=1e-5, abs_tol=1e-2)\<close>.\<close>

definition isclose :: "pyfloat \<Rightarrow> pyfloat \<Rightarrow> pyfloat \<Rightarrow> pyfloat \<Rightarrow> bool" where
  "isclose rel abs_tol a b \<longleftrightarrow>
     flt_eq a b \<or>
     (flt_finite a \<and> flt_finite b \<and>
      (let diff = flt_abs (flt_sub b a) in
       flt_le diff (flt_abs (flt_mul rel b)) \<or> flt_le diff (flt_abs (flt_mul rel a)) \<or>
       flt_le diff abs_tol))"

definition close_to :: "pyfloat \<Rightarrow> pyfloat \<Rightarrow> bool" where
  "close_to actual expected = isclose (rnd64 (1 / 100000)) (rnd64 (1 / 100)) actual expected"

text \<open>\<open>while divisor * divisor <= value\<close>, from \<open>divisor = 2\<close>; the divisor grows until its square passes
  the value.\<close>

function no_divisor_from :: "int \<Rightarrow> int \<Rightarrow> bool" where
  "no_divisor_from v d =
     (if 0 < d \<and> d * d \<le> v
      then (if v mod d = 0 then False else no_divisor_from v (d + 1))
      else True)"
  by pat_completeness auto
termination
proof (relation "measure (\<lambda>(v, d). nat (v + 1 - d))")
  fix v d :: int
  assume h: "0 < d \<and> d * d \<le> v" "\<not> v mod d = 0"
  then have "d * 1 \<le> d * d" by (intro mult_left_mono) simp_all
  with h have "d \<le> v" by linarith
  then show "((v, d + 1), (v, d)) \<in> measure (\<lambda>(v, d). nat (v + 1 - d))" by simp
qed simp

declare no_divisor_from.simps [simp del]

definition is_prime_modulus :: "int \<Rightarrow> bool" where
  "is_prime_modulus v \<longleftrightarrow> \<not> (v < 2 \<or> 251 < v) \<and> no_divisor_from v 2"

section \<open>Event labels\<close>

definition wrap64_hip_expected_gemm_event_label :: "pyval \<Rightarrow> string" where
  "wrap64_hip_expected_gemm_event_label selected_kernel' =
     (if eq_str selected_kernel' WRAP64_HIP_U32_COLPAIR_KERNEL
      then ''wrap64_byte_gemm36_colpair_2d_kernel''
      else ''wrap64_byte_gemm36_tiled_2d_kernel'')"

definition output_destination_layout :: "pyval \<Rightarrow> string" where
  "output_destination_layout padding =
     (if py_eq padding (PInt 0) then ''contiguous_row_major'' else ''padded_row_major'')"

definition prefix_event_label :: "string \<Rightarrow> int \<Rightarrow> string \<Rightarrow> string" where
  "prefix_event_label prefix index suffix = prefix @ two_digits index @ ''_'' @ suffix"

definition ck_deep_gpu_event_phases :: "int \<Rightarrow> bool \<Rightarrow> string list" where
  "ck_deep_gpu_event_phases prefix_count zero_output_tiles =
     (let phases = [''ck_pack_a_kernel'', ''ck_pack_b_kernel'', ''ck_wmma_cshuffle_matmul'',
                    ''ck_copy_centered_kernel'', ''ck_add_centered_kernel''] in
      let phases = (if zero_output_tiles
                    then phases @ [''ck_zero_output_tile_memset'']
                    else phases) in
      foldl
        (\<lambda>phases index.
         phases @
         [prefix_event_label ''ck_prefix_'' index ''pack_a'',
          prefix_event_label ''ck_prefix_'' index ''pack_b'',
          prefix_event_label ''ck_prefix_'' index ''matmul'',
          prefix_event_label ''ck_prefix_'' index ''copy_centered'',
          prefix_event_label ''ck_prefix_'' index ''add_centered''])
        phases
        [0..prefix_count - 1])"

definition rocwmma_deep_gpu_event_phases :: "int \<Rightarrow> bool \<Rightarrow> bool \<Rightarrow> string list" where
  "rocwmma_deep_gpu_event_phases prefix_count use_prepacked_b zero_output_tiles =
     (if use_prepacked_b
      then let phases = [''rocwmma_pack_a_prepacked_b_kernel'',
                         ''rocwmma_matmul_prepacked_b_kernel''] in
           let phases = (if zero_output_tiles
                         then phases @ [''rocwmma_zero_output_tile_memset'']
                         else phases) in
           foldl
             (\<lambda>phases index.
              phases @
              [prefix_event_label ''rocwmma_prefix_'' index ''pack_a_prepacked_b'',
               prefix_event_label ''rocwmma_prefix_'' index ''matmul_prepacked_b''])
             phases
             [0..prefix_count - 1]
      else let phases = [''rocwmma_pack_a_kernel'', ''rocwmma_pack_b_kernel'',
                         ''rocwmma_matmul_kernel''] in
           let phases = (if zero_output_tiles
                         then phases @ [''rocwmma_zero_output_tile_memset'']
                         else phases) in
           foldl
             (\<lambda>phases index.
              phases @
              [prefix_event_label ''rocwmma_prefix_'' index ''pack_a'',
               prefix_event_label ''rocwmma_prefix_'' index ''pack_b'',
               prefix_event_label ''rocwmma_prefix_'' index ''matmul''])
             phases
             [0..prefix_count - 1])"

definition vector_gpu_event_phases :: "pyval \<Rightarrow> pyval \<Rightarrow> string list" where
  "vector_gpu_event_phases semantics selected_kernel' =
     (let kernel' = (if eq_str selected_kernel' ''hip_vector_alu_i64_gemv_n1_exact_192b_v1''
                     then ''vector_alu_i64_gemv_n1_kernel''
                     else if eq_str
                               selected_kernel'
                               ''hip_vector_alu_i64_gemv_small_n_exact_192b_v1''
                     then ''vector_alu_i64_gemv_small_n_kernel''
                     else if eq_str selected_kernel' ''hip_vector_alu_u64_gemv_n1_exact_192b_v1''
                     then ''vector_alu_u64_gemv_n1_kernel''
                     else if eq_str
                               selected_kernel'
                               ''hip_vector_alu_u64_gemv_small_n_exact_192b_v1''
                     then ''vector_alu_u64_gemv_small_n_kernel''
                     else if eq_str semantics ''bounded_i64'' \<or>
                             eq_str selected_kernel' ''hip_vector_alu_i64_exact_192b_v1''
                     then ''vector_alu_i64_kernel''
                     else ''vector_alu_u64_kernel'') in
      [''vector_alu_pack_a_h2d'', ''vector_alu_pack_b_h2d'', ''pack'', ''vector_alu_status_memset'',
       kernel', ''rns_gemm'', ''vector_alu_status_d2h'', ''vector_alu_output_d2h'', ''crt_export''])"

definition amdgpu_builtin_gpu_event_label :: "pyval \<Rightarrow> pyval \<Rightarrow> string chk" where
  "amdgpu_builtin_gpu_event_label selected_kernel' semantics =
     (let kernel' = if is_str selected_kernel' then str_of selected_kernel' else [] in
      cbind (c_in semantics [''finite_ring_u8'', ''finite_field_u8'']) (\<lambda>finite'.
      cret
        (if contains ''cdna3_mfma_i32_32x32x16_i8'' kernel'
         then if finite'
              then ''amdgpu_builtin_cdna3_mfma_i32_32x32x16_i8_finite_kernel''
              else ''amdgpu_builtin_cdna3_mfma_i32_32x32x16_i8_kernel''
         else if contains ''cdna3_mfma_i32_16x16x32_i8_finite'' kernel'
         then ''amdgpu_builtin_cdna3_mfma_i32_16x16x32_i8_finite_kernel''
         else if contains ''cdna3_mfma_i32_16x16x32_i8'' kernel'
         then ''amdgpu_builtin_cdna3_mfma_i32_16x16x32_i8_kernel''
         else if contains ''rdna3_wmma_i32_16x16x16_iu8_finite'' kernel'
         then ''amdgpu_builtin_rdna3_wmma_i32_16x16x16_iu8_finite_kernel''
         else if contains ''rdna3_wmma_i32_16x16x16_iu8'' kernel'
         then ''amdgpu_builtin_rdna3_wmma_i32_16x16x16_iu8_kernel''
         else if contains ''rdna4_wmma_i32_16x16x16_iu8_finite'' kernel'
         then ''amdgpu_builtin_rdna4_wmma_i32_16x16x16_iu8_finite_kernel''
         else if contains ''rdna4_wmma_i32_16x16x16_iu8'' kernel'
         then ''amdgpu_builtin_rdna4_wmma_i32_16x16x16_iu8_kernel''
         else if contains ''cdna3_smfmac_i32_16x16x64_i8'' kernel'
         then if finite'
              then ''amdgpu_builtin_cdna3_smfmac_i32_16x16x64_i8_sparse_a_finite_kernel''
              else ''amdgpu_builtin_cdna3_smfmac_i32_16x16x64_i8_sparse_a_kernel''
         else if contains ''rdna4_swmmac_i32_16x16x32_iu8'' kernel'
         then if finite'
              then ''amdgpu_builtin_rdna4_swmmac_i32_16x16x32_iu8_sparse_a_finite_kernel''
              else ''amdgpu_builtin_rdna4_swmmac_i32_16x16x32_iu8_sparse_a_kernel''
         else ''amdgpu_builtin_rns_matrix_core_kernel'')))"

definition amdgpu_builtin_deep_gpu_event_phases :: "pyval \<Rightarrow> pyval \<Rightarrow> string list chk" where
  "amdgpu_builtin_deep_gpu_event_phases selected_kernel' semantics =
     cmap (\<lambda>x. [x]) (amdgpu_builtin_gpu_event_label selected_kernel' semantics)"

end
