(* ===== verification/Schema_Predicates.thy ===== *)
theory Schema_Predicates
  imports Schema_Shared
begin

text \<open>
  \<open>tools/benchmark_schema/validator_predicates.py\<close>, with the phase list, the residue-chain fields of
  \<open>validator_schedule.py\<close> and \<open>_require\<close> of \<open>validator_base_fields.py\<close>: which kind of capture a document is.
  A predicate that tests \<open>semantics in {...}\<close> raises \<open>TypeError\<close> when the field is a list or an object,
  and one that reads the residue-chain fields reports what is wrong with them.
\<close>

text \<open>\<open>self._require(key, kind)\<close>: the value, with a message where it is missing or of another kind.\<close>

definition kind_error :: "string \<Rightarrow> string \<Rightarrow> pyval \<Rightarrow> unit chk" where
  "kind_error key kind v =
     (if kind = ''str'' then whenp (\<not> is_str v) (report (key @ '' must be a string''))
      else if kind = ''int'' then whenp (\<not> is_int_value v) (report (key @ '' must be an integer''))
      else if kind = ''number'' then cwhen (cnot (c_is_number v)) (report (key @ '' must be a finite number''))
      else if kind = ''bool'' then whenp (\<not> is_bool v) (report (key @ '' must be a boolean''))
      else if kind = ''dict'' then whenp (\<not> is_dict v) (report (key @ '' must be an object''))
      else skip)"

definition require :: "pydict \<Rightarrow> string \<Rightarrow> string \<Rightarrow> pyval chk" where
  "require data key kind =
     (if \<not> has_key data key
      then cthen (report (''missing required field '' @ key)) (cret PNone)
      else cthen (kind_error key kind (dget data key)) (cret (dget data key)))"

section \<open>Phases and residue chains\<close>

definition timing_phases :: "pydict \<Rightarrow> string list" where
  "timing_phases data =
     (let phases = TIMING_PHASES in
      let phases = (if eq_str (dget data ''bound_source'') ''input_scan'' \<and>
                       eq_str (dget_or data ''bound_mode'' (PStr ''global'')) ''global''
                    then GLOBAL_BOUND_TIMING_PHASE # phases
                    else phases) in
      if eq_str (dget data ''bound_mode'') ''per_tile''
      then insert_at (index_of ''matrix_alloc'' phases) PER_TILE_TIMING_PHASE phases
      else phases)"

definition residue_chain_length :: "pydict \<Rightarrow> int chk" where
  "residue_chain_length data =
     (let value = dget_or data ''residue_chain_length'' (PInt 1) in
      if \<not> is_int_value value \<or> int_of value < 1
      then cthen
             (report ''residue_chain_length must be a positive integer'')
           (cret 1)
      else cret (int_of value))"

definition validated_output_mode :: "pydict \<Rightarrow> string chk" where
  "validated_output_mode data =
     (let value = dget_or data ''residue_output_mode'' (PStr ''host_export'') in
      if \<not> is_str value
      then cthen
             (report ''residue_output_mode must be a string'')
           (cret ''host_export'')
      else if str_of value \<notin> set [''host_export'', ''residue_current_rns'']
      then cthen
             (report ''residue_output_mode must be host_export or residue_current_rns'')
           (cret ''host_export'')
      else cret (str_of value))"

definition is_residue_current_chain_capture :: "pydict \<Rightarrow> bool chk" where
  "is_residue_current_chain_capture data =
     any_of
       [cmap (\<lambda>x. x = ''residue_current_rns'') (validated_output_mode data),
        cret (eq_str (dget data ''epilogue_type'') ''residue_current_rns_output'')]"

definition is_wrap64_rocwmma_candidate :: "pydict \<Rightarrow> bool" where
  "is_wrap64_rocwmma_candidate data \<longleftrightarrow>
     eq_str (dget data ''semantics'') ''wrap_u64_mod_2_64'' \<and>
     eq_str (dget data ''backend_selected'') ''rocwmma'' \<and>
     eq_str (dget data ''selected_kernel'') WRAP64_ROCWMMA_CANDIDATE_KERNEL \<and>
     eq_str (dget data ''backend_requested'') ''rocwmma-wrap64-candidate''"

definition is_vector_alu_runtime_capture :: "pydict \<Rightarrow> bool" where
  "is_vector_alu_runtime_capture data \<longleftrightarrow>
     eq_str (dget data ''backend_selected'') ''hip-vector-alu-int64'' \<and>
     eq_str (dget data ''benchmark'') ''rns8_bounded_gemm_hip_vector_alu_int64_runtime''"

definition is_vector_alu_gemv_n1_capture :: "pydict \<Rightarrow> bool chk" where
  "is_vector_alu_gemv_n1_capture data =
     all_of
       [cret (eq_str (dget data ''backend_selected'') ''hip-vector-alu-int64''),
        c_in (dget data ''semantics'') [''bounded_i64'', ''bounded_u64''],
        cret
          (py_eq (dget data ''n'') (PInt 1) \<and>
           is_int_value (dget data ''k'') \<and>
           4096 \<le> int_of (dget data ''k''))]"

definition is_vector_alu_gemv_small_n_capture :: "pydict \<Rightarrow> bool chk" where
  "is_vector_alu_gemv_small_n_capture data =
     all_of
       [cret (eq_str (dget data ''backend_selected'') ''hip-vector-alu-int64''),
        c_in (dget data ''semantics'') [''bounded_i64'', ''bounded_u64''],
        cret
          (is_int_value (dget data ''n'') \<and>
           (1 < int_of (dget data ''n'') \<and> int_of (dget data ''n'') \<le> 8) \<and>
           is_int_value (dget data ''k'') \<and>
           512 \<le> int_of (dget data ''k''))]"

definition benchmark_execution_mode :: "pydict \<Rightarrow> string chk" where
  "benchmark_execution_mode data =
     (let mode = dget data ''benchmark_execution_mode'' in
      let mode = (if is_None mode
                  then let metadata' = dget data ''timing_metadata'' in
                       if is_dict metadata'
                       then vget metadata' ''benchmark_execution_mode''
                       else mode
                  else mode) in
      if is_str mode
      then cret (str_of mode)
      else if is_wrap64_rocwmma_candidate data
      then cret ''internal_wrap64_rocwmma_candidate''
      else if is_vector_alu_runtime_capture data
      then cret ''public_runtime_vector_alu_native_buffers''
      else if eq_str (dget data ''benchmark'') ''rns8_hip_graph_replay_resident_rns_chain''
      then cret ''hip_graph_replay_resident_rns_chain''
      else if eq_str (dget data ''benchmark'') ''rns8_hip_graph_replay_bounded_pack_gemm_export''
      then cret ''hip_graph_replay_bounded_pack_gemm_export''
      else if eq_str (dget data ''benchmark'') ''rns8_hip_graph_replay_finite_u8_pack_gemm_export''
      then cret ''hip_graph_replay_finite_u8_pack_gemm_export''
      else if eq_str (dget data ''benchmark'') ''rns8_hip_graph_replay_exact_wide_pack_gemm_export''
      then cret ''hip_graph_replay_exact_wide_pack_gemm_export''
      else if eq_str (dget data ''benchmark'') ''rns8_hip_graph_replay_wrap64_pack_gemm_export''
      then cret ''hip_graph_replay_wrap64_pack_gemm_export''
      else cif (c_in
                  (dget data ''benchmark'')
                  [''rns8_bounded_gemm_public_oneshot'', ''rns8_finite_u8_public_oneshot''])
             (cret ''public_oneshot_transient_native_inputs'')
             (if eq_str (dget data ''backend_selected'') ''hip-vector-alu-int64''
              then cif (is_vector_alu_gemv_n1_capture data)
                     (cret
                        (if is_vector_alu_runtime_capture data
                         then ''public_runtime_vector_alu_gemv_n1_native_buffers''
                         else ''benchmark_owned_vector_alu_gemv_n1_native_buffers''))
                   (cif (is_vector_alu_gemv_small_n_capture data)
                     (cret
                        (if is_vector_alu_runtime_capture data
                         then ''public_runtime_vector_alu_gemv_small_n_native_buffers''
                         else ''benchmark_owned_vector_alu_gemv_small_n_native_buffers''))
                     (cret ''benchmark_owned_vector_alu_native_buffers''))
              else cret ''persistent_resident_matrices''))"

definition is_bounded_oneshot_capture :: "pydict \<Rightarrow> bool chk" where
  "is_bounded_oneshot_capture data =
     all_of
       [any_of
          [cmap
             (\<lambda>mode. mode = ''public_oneshot_transient_native_inputs'')
             (benchmark_execution_mode data),
           cret (eq_str (dget data ''benchmark'') ''rns8_bounded_gemm_public_oneshot'')],
        c_in (dget data ''semantics'') [''bounded_i64'', ''bounded_u64'']]"

definition is_direct_hip_bounded_native_input_oneshot_capture :: "pydict \<Rightarrow> bool chk" where
  "is_direct_hip_bounded_native_input_oneshot_capture data =
     all_of
       [is_bounded_oneshot_capture data,
        cret
          (eq_str (dget data ''backend_selected'') ''hip-direct'' \<and>
           (py_eq (dget data ''selected_prefix'') (dget data ''prefix'') \<and>
            py_eq (dget data ''prefix'') (PInt 9)))]"

definition is_direct_hip_bounded_resident_fallback_oneshot_capture :: "pydict \<Rightarrow> bool chk" where
  "is_direct_hip_bounded_resident_fallback_oneshot_capture data =
     (let selected = dget data ''selected_prefix'';
          requested = dget data ''prefix'';
          schedule = dget data ''schedule_metadata'';
          schedule_selected = if is_dict schedule
                              then vget schedule ''max_selected_prefix''
                              else PNone
      in all_of
           [is_bounded_oneshot_capture data,
            cret
              (eq_str (dget data ''backend_selected'') ''hip-direct'' \<and>
               is_int_value selected \<and>
               is_int_value requested \<and>
               0 < int_of selected \<and>
               int_of selected < int_of requested \<and>
               py_eq selected schedule_selected)])"

definition is_finite_oneshot_capture :: "pydict \<Rightarrow> bool chk" where
  "is_finite_oneshot_capture data =
     all_of
       [any_of
          [cmap
             (\<lambda>mode. mode = ''public_oneshot_transient_native_inputs'')
             (benchmark_execution_mode data),
           cret (eq_str (dget data ''benchmark'') ''rns8_finite_u8_public_oneshot'')],
        c_in (dget data ''semantics'') [''finite_ring_u8'', ''finite_field_u8'']]"

definition is_public_oneshot_capture :: "pydict \<Rightarrow> bool chk" where
  "is_public_oneshot_capture data =
     any_of [is_bounded_oneshot_capture data, is_finite_oneshot_capture data]"

definition is_direct_hip_bounded_native_a_reuse_b_capture :: "pydict \<Rightarrow> bool chk" where
  "is_direct_hip_bounded_native_a_reuse_b_capture data =
     all_of
       [cret (eq_str (dget data ''backend_selected'') ''hip-direct''),
        c_in (dget data ''semantics'') [''bounded_i64'', ''bounded_u64''],
        cret
          (eq_str (dget data ''pack_mode'') ''prepacked_reuse_b'' \<and>
           eq_str (dget data ''prepack_reuse_strategy'') ''persistent_matrix_residency''),
        cmap
          (\<lambda>mode. mode \<in>
           set [''transient_native_a_resident_b_reuse'',
                ''transient_uniform_small_i8_a_resident_i8_b_reuse''])
          (benchmark_execution_mode data)]"

definition is_direct_hip_bounded_native_a_reuse_b_uniform_small :: "pydict \<Rightarrow> bool" where
  "is_direct_hip_bounded_native_a_reuse_b_uniform_small data \<longleftrightarrow>
     (let semantics = dget data ''semantics'';
          distribution = dget data ''input_distribution''
      in eq_str semantics ''bounded_i64'' \<and> eq_str distribution ''signed_uniform_-16_16'' \<or>
         eq_str semantics ''bounded_u64'' \<and> eq_str distribution ''unsigned_uniform_0_16'')"

definition is_direct_hip_bounded_native_a_reuse_b_large_colpair :: "pydict \<Rightarrow> bool chk" where
  "is_direct_hip_bounded_native_a_reuse_b_large_colpair data =
     all_of
       [c_in (dget data ''semantics'') [''bounded_i64'', ''bounded_u64''],
        cret
          (\<not> is_direct_hip_bounded_native_a_reuse_b_uniform_small data \<and>
           is_int_value (dget data ''m'') \<and>
           is_int_value (dget data ''n'') \<and>
           is_int_value (dget data ''k'') \<and>
           512 \<le> int_of (dget data ''m'') \<and>
           512 \<le> int_of (dget data ''n'') \<and>
           512 \<le> int_of (dget data ''k''))]"

definition is_direct_hip_bounded_uniform_small_reuse_a_capture :: "pydict \<Rightarrow> bool chk" where
  "is_direct_hip_bounded_uniform_small_reuse_a_capture data =
     all_of
       [cret (eq_str (dget data ''backend_selected'') ''hip-direct''),
        c_in (dget data ''semantics'') [''bounded_i64'', ''bounded_u64''],
        cret
          (eq_str (dget data ''pack_mode'') ''prepacked_reuse_a'' \<and>
           eq_str (dget data ''prepack_reuse_strategy'') ''persistent_matrix_residency''),
        cmap
          (\<lambda>mode. mode = ''transient_uniform_small_i8_b_resident_i8_a_reuse'')
          (benchmark_execution_mode data),
        cret (is_direct_hip_bounded_native_a_reuse_b_uniform_small data)]"

definition is_direct_hip_bounded_uniform_small_transient_capture :: "pydict \<Rightarrow> bool chk" where
  "is_direct_hip_bounded_uniform_small_transient_capture data =
     all_of
       [cret (eq_str (dget data ''backend_selected'') ''hip-direct''),
        c_in (dget data ''semantics'') [''bounded_i64'', ''bounded_u64''],
        cret
          (eq_str (dget data ''pack_mode'') ''per_repeat_repack'' \<and>
           eq_str (dget data ''prepack_reuse_strategy'') ''none''),
        cmap
          (\<lambda>mode. mode = ''transient_uniform_small_i8_ab_inputs'')
          (benchmark_execution_mode data),
        cret (is_direct_hip_bounded_native_a_reuse_b_uniform_small data)]"

definition is_direct_hip_native_to_rns_bridge_capture :: "pydict \<Rightarrow> bool chk" where
  "is_direct_hip_native_to_rns_bridge_capture data =
     all_of
       [cret (eq_str (dget data ''backend_selected'') ''hip-direct''),
        c_in (dget data ''semantics'') [''bounded_i64'', ''bounded_u64''],
        cmap (\<lambda>mode. mode = ''auto_native_to_rns_bridge'') (benchmark_execution_mode data)]"

definition is_direct_hip_vector_to_rns_chain_capture :: "pydict \<Rightarrow> bool chk" where
  "is_direct_hip_vector_to_rns_chain_capture data =
     all_of
       [cret (eq_str (dget data ''backend_selected'') ''hip-direct''),
        c_in (dget data ''semantics'') [''bounded_i64'', ''bounded_u64''],
        cmap
          (\<lambda>mode. mode \<in>
           set [''vector_native_to_direct_rns_chain'',
                ''vector_native_host_export_repack_direct_rns_chain''])
          (benchmark_execution_mode data)]"

definition is_direct_hip_vector_to_rns_host_repack_control_capture :: "pydict \<Rightarrow> bool chk" where
  "is_direct_hip_vector_to_rns_host_repack_control_capture data =
     all_of
       [cret (eq_str (dget data ''backend_selected'') ''hip-direct''),
        c_in (dget data ''semantics'') [''bounded_i64'', ''bounded_u64''],
        cmap
          (\<lambda>mode. mode = ''vector_native_host_export_repack_direct_rns_chain'')
          (benchmark_execution_mode data)]"

definition is_direct_hip_bounded_residue_channel_fusion_capture :: "pydict \<Rightarrow> bool chk" where
  "is_direct_hip_bounded_residue_channel_fusion_capture data =
     all_of
       [cret (eq_str (dget data ''backend_selected'') ''hip-direct''),
        c_in (dget data ''semantics'') [''bounded_i64'', ''bounded_u64''],
        cret
          (eq_str
             (dget data ''benchmark'')
             ''rns8_bounded_gemm_residue_channel_fusion_experiment''),
        cmap
          (\<lambda>mode. mode = ''residue_channel_fusion_native_inputs'')
          (benchmark_execution_mode data),
        cret
          (eq_str (dget data ''pack_mode'') ''per_repeat_repack'' \<and>
           eq_str (dget data ''prepack_reuse_strategy'') ''none'')]"

definition is_host_api_batch_capture :: "pydict \<Rightarrow> bool chk" where
  "is_host_api_batch_capture data =
     cmap (\<lambda>mode. mode = ''benchmark_host_api_batch'') (benchmark_execution_mode data)"

definition is_grouped_dispatch_capture :: "pydict \<Rightarrow> bool chk" where
  "is_grouped_dispatch_capture data =
     cmap
       (\<lambda>mode. mode = ''benchmark_grouped_dispatch_evidence'')
       (benchmark_execution_mode data)"

definition is_hip_graph_replay_capture :: "pydict \<Rightarrow> bool chk" where
  "is_hip_graph_replay_capture data =
     cmap
       (\<lambda>mode. mode \<in>
        set [''hip_graph_replay_resident_rns_chain'', ''hip_graph_replay_bounded_pack_gemm_export'',
             ''hip_graph_replay_finite_u8_pack_gemm_export'',
             ''hip_graph_replay_exact_wide_pack_gemm_export'',
             ''hip_graph_replay_wrap64_pack_gemm_export''])
       (benchmark_execution_mode data)"

definition is_streaming_overlap_capture :: "pydict \<Rightarrow> bool" where
  "is_streaming_overlap_capture data \<longleftrightarrow>
     (let overlap = dget data ''streaming_overlap'' in
      is_dict overlap \<and>
      is_True (vget overlap ''requested'') \<and>
      eq_str (vget overlap ''capture_status'') ''executed'')"

definition is_residue_chain_final_export_capture :: "pydict \<Rightarrow> bool chk" where
  "is_residue_chain_final_export_capture data =
     all_of
       [cmap (\<lambda>len. 1 < len) (residue_chain_length data),
        cmap (\<lambda>x. x = ''host_export'') (validated_output_mode data),
        cret (is_True (dget data ''residue_chain_final_export'')),
        cmap
          (\<lambda>mode. mode \<in>
           set [''residue_chain_final_host_export'', ''residue_chain_independent_final_host_export''])
          (benchmark_execution_mode data)]"

definition is_residue_chain_independent_final_export_capture :: "pydict \<Rightarrow> bool chk" where
  "is_residue_chain_independent_final_export_capture data =
     all_of
       [cmap (\<lambda>len. 1 < len) (residue_chain_length data),
        cmap (\<lambda>x. x = ''host_export'') (validated_output_mode data),
        cret
          (is_True (dget data ''residue_chain_final_export'') \<and>
           is_True (dget data ''residue_chain_independent_final_export'')),
        cmap
          (\<lambda>mode. mode = ''residue_chain_independent_final_host_export'')
          (benchmark_execution_mode data)]"

definition is_direct_hip_bounded_native_b_reuse_a_large_colpair_capture :: "pydict \<Rightarrow> bool chk" where
  "is_direct_hip_bounded_native_b_reuse_a_large_colpair_capture data =
     all_of
       [cret (eq_str (dget data ''backend_selected'') ''hip-direct''),
        c_in (dget data ''semantics'') [''bounded_i64'', ''bounded_u64''],
        cret
          (eq_str (dget data ''pack_mode'') ''prepacked_reuse_a'' \<and>
           eq_str (dget data ''prepack_reuse_strategy'') ''persistent_matrix_residency''),
        cmap
          (\<lambda>mode. mode = ''transient_native_b_resident_a_reuse'')
          (benchmark_execution_mode data),
        cret
          (\<not> is_direct_hip_bounded_native_a_reuse_b_uniform_small data \<and>
           is_int_value (dget data ''m'') \<and>
           is_int_value (dget data ''n'') \<and>
           is_int_value (dget data ''k'') \<and>
           512 \<le> int_of (dget data ''m'') \<and>
           512 \<le> int_of (dget data ''n'') \<and>
           512 \<le> int_of (dget data ''k''))]"

definition is_direct_hip_bounded_skinny_gemv_n1_capture :: "pydict \<Rightarrow> bool chk" where
  "is_direct_hip_bounded_skinny_gemv_n1_capture data =
     all_of
       [cret (eq_str (dget data ''backend_selected'') ''hip-direct''),
        c_in (dget data ''semantics'') [''bounded_i64'', ''bounded_u64''],
        cret
          (py_eq (dget data ''n'') (PInt 1) \<and>
           (py_eq (dget data ''prefix'') (dget data ''selected_prefix'') \<and>
            py_eq (dget data ''selected_prefix'') (PInt 9)) \<and>
           eq_str (dget data ''pack_mode'') ''per_repeat_repack'' \<and>
           eq_str (dget data ''prepack_reuse_strategy'') ''none''),
        cmap
          (\<lambda>mode. mode = ''direct_hip_skinny_gemv_n1_resident_rns'')
          (benchmark_execution_mode data)]"

definition is_direct_hip_bounded_skinny_gemv_small_n_capture :: "pydict \<Rightarrow> bool chk" where
  "is_direct_hip_bounded_skinny_gemv_small_n_capture data =
     all_of
       [cret (eq_str (dget data ''backend_selected'') ''hip-direct''),
        c_in (dget data ''semantics'') [''bounded_i64'', ''bounded_u64''],
        cret
          (is_int_value (dget data ''n'') \<and>
           (1 < int_of (dget data ''n'') \<and> int_of (dget data ''n'') \<le> 8) \<and>
           (py_eq (dget data ''prefix'') (dget data ''selected_prefix'') \<and>
            py_eq (dget data ''selected_prefix'') (PInt 9)) \<and>
           eq_str (dget data ''pack_mode'') ''per_repeat_repack'' \<and>
           eq_str (dget data ''prepack_reuse_strategy'') ''none''),
        cmap
          (\<lambda>mode. mode = ''direct_hip_skinny_gemv_small_n_resident_rns'')
          (benchmark_execution_mode data)]"

definition is_direct_hip_finite_native_a_reuse_b_capture :: "pydict \<Rightarrow> bool chk" where
  "is_direct_hip_finite_native_a_reuse_b_capture data =
     all_of
       [cret (eq_str (dget data ''backend_selected'') ''hip-direct''),
        c_in (dget data ''semantics'') [''finite_ring_u8'', ''finite_field_u8''],
        cret
          (eq_str (dget data ''pack_mode'') ''prepacked_reuse_b'' \<and>
           eq_str (dget data ''prepack_reuse_strategy'') ''persistent_matrix_residency'')]"

end
