(* ===== verification/Schema_Modes.thy ===== *)
theory Schema_Modes
  imports Schema_Predicates
begin

text \<open>
  \<open>tools/benchmark_schema/execution_modes.py\<close>: what a capture of a grouped dispatch, of a host API batch and
  of a HIP graph replay must record, and what other captures must not claim.
\<close>

definition SINGLE_GROUPED_DESCRIPTOR_LAYOUT :: "string" where
  "SINGLE_GROUPED_DESCRIPTOR_LAYOUT = ''same_shape_resident_task_triplets_v1''"

definition BUCKETED_GROUPED_DESCRIPTOR_LAYOUT :: "string" where
  "BUCKETED_GROUPED_DESCRIPTOR_LAYOUT = ''same_contract_bucketed_resident_task_triplets_v1''"

definition SINGLE_GROUPED_BUCKET_POLICY :: "string" where
  "SINGLE_GROUPED_BUCKET_POLICY = ''single_same_shape_bucket''"

definition BUCKETED_GROUPED_BUCKET_POLICY :: "string" where
  "BUCKETED_GROUPED_BUCKET_POLICY = ''same_contract_shape_buckets''"

definition require_graph_full_path_phase_metadata :: "pydict \<Rightarrow> pyval \<Rightarrow> string \<Rightarrow> (string \<times> string list) list \<Rightarrow> unit chk" where
  "require_graph_full_path_phase_metadata data metadata' label required_notes =
     (if \<not> is_dict metadata'
      then report (label @ '' hip_graph_replay captures must include timing_metadata'')
      else let phase_order = vget metadata' ''phase_order'';
               required_order = [''pack'', ''rns_gemm'', ''crt_export'', ''end_to_end''];
               notes = vget metadata' ''phase_notes''
           in cseq
                [if \<not> is_list phase_order \<or>
                    list_ex (\<lambda>phase. \<not> str_mem phase phase_order) required_order
                 then report
                        (label @
                         '' hip_graph_replay captures must include pack/rns_gemm/crt_export/end_to_end phase_order'')
                 else whenp
                        (\<not> py_eq
                           (PList
                              (filter
                                 (\<lambda>phase. in_strs phase required_order)
                                 (elems_of phase_order)))
                           (str_list required_order))
                        (report
                           (label @
                            '' hip_graph_replay phase_order must preserve pack, rns_gemm, crt_export, end_to_end order'')),
                 if \<not> is_dict notes
                 then report
                        (label @
                         '' hip_graph_replay captures must include timing_metadata.phase_notes'')
                 else cfor required_notes (\<lambda>(phase, required_substrings).
                        let note = vget notes phase in
                        if \<not> is_str note
                        then report
                               (label @
                                '' hip_graph_replay phase note '' @
                                phase @
                                '' must be a string'')
                        else let missing = filter
                                             (\<lambda>substring.
                                              \<not> contains substring (str_of note))
                                             required_substrings in
                             whenp
                               (missing \<noteq> [])
                               (report
                                  ((label @
                                    '' hip_graph_replay phase note '' @
                                    phase @
                                    '' must describe '') @
                                   join_with '', '' required_substrings)))])"

definition grouped_export_checks :: "pydict \<Rightarrow> pyval \<Rightarrow> pyval \<Rightarrow> pyval \<Rightarrow> unit chk" where
  "grouped_export_checks data strategy batched_export slab_bytes =
     (if is_True batched_export
      then cseq
             [cif (c_in strategy GROUPED_DISPATCH_BATCHED_EXACT_WIDE_EXPORT_STRATEGIES)
                (cseq
                   [cwhen
                      (cnot
                         (c_in
                            (dget data ''semantics'')
                            [''exact_wide_signed'', ''exact_wide_unsigned'']))
                      (report
                         ''grouped_dispatch exact-wide batched export is only valid for exact-wide semantics''),
                    whenp
                      (\<not> eq_str
                         (dget data ''exact_wide_export_status_check'')
                         ''elided_full_width_device_reconstruction'')
                      (report
                         ''grouped_dispatch exact-wide batched export requires structurally elided exact-wide status'')])
              (cif (c_in strategy GROUPED_DISPATCH_BATCHED_BOUNDED_EXPORT_STRATEGIES)
                (cseq
                   [cwhen
                      (cnot (c_in (dget data ''semantics'') [''bounded_i64'', ''bounded_u64'']))
                      (report
                         ''grouped_dispatch bounded batched export is only valid for bounded semantics''),
                    whenp
                      (\<not> is_None (dget data ''exact_wide_export_status_check''))
                      (report
                         ''grouped_dispatch bounded batched export must not declare exact-wide status handling'')])
              (cif (c_in strategy GROUPED_DISPATCH_BATCHED_FINITE_EXPORT_STRATEGIES)
                (cseq
                   [cwhen
                      (cnot
                         (c_in (dget data ''semantics'') [''finite_ring_u8'', ''finite_field_u8'']))
                      (report
                         ''grouped_dispatch finite batched export is only valid for finite-u8 semantics''),
                    whenp
                      (\<not> is_None (dget data ''exact_wide_export_status_check''))
                      (report
                         ''grouped_dispatch finite batched export must not declare exact-wide status handling'')])
                (report
                   ''grouped_dispatch batched export requires a registered batched export strategy''))),
              whenp
                (\<not> is_int_value slab_bytes \<or> int_of slab_bytes \<le> 0)
                (report
                   ''grouped_dispatch batched export requires a positive device_output_slab_bytes'')]
      else cwhen
             (c_in
                strategy
                ((GROUPED_DISPATCH_BATCHED_EXACT_WIDE_EXPORT_STRATEGIES @
                  GROUPED_DISPATCH_BATCHED_BOUNDED_EXPORT_STRATEGIES) @
                 GROUPED_DISPATCH_BATCHED_FINITE_EXPORT_STRATEGIES))
             (report
                ''grouped_dispatch batched export strategy requires batched_export_enabled=true''))"

definition grouped_bucket_checks :: "pydict \<Rightarrow> pyval \<Rightarrow> pyval \<Rightarrow> pyval \<Rightarrow> string \<Rightarrow> pyval \<Rightarrow> pyval \<Rightarrow> unit chk" where
  "grouped_bucket_checks data task_count task_descriptor semantics expected_output_domain bucket_policy bucket_count =
     whenp
       (eq_str bucket_policy BUCKETED_GROUPED_BUCKET_POLICY)
       (let buckets = vget task_descriptor ''buckets'' in
        if \<not> is_list buckets \<or>
           \<not> py_eq (PInt (int (length (elems_of buckets)))) bucket_count
        then report ''bucketed grouped task descriptor buckets must match bucket_count''
        else let expected_offset = 0 in
             cbind (cfold
                      (\<lambda>expected_offset (bucket_index, bucket).
                       if \<not> is_dict bucket
                       then cthen
                              (report
                                 ''bucketed grouped task descriptor bucket entries must be objects'')
                            (cret expected_offset)
                       else let bucket_tasks = vget bucket ''task_count'' in
                            cthen
                              (cseq
                                 [whenp
                                    (\<not> py_eq
                                       (vget bucket ''bucket_index'')
                                       (PInt bucket_index))
                                    (report
                                       ''bucketed grouped task descriptor bucket_index must be contiguous''),
                                  whenp
                                    (\<not> py_eq
                                       (vget bucket ''task_offset'')
                                       (PInt expected_offset))
                                    (report
                                       ''bucketed grouped task descriptor task_offset must be contiguous'')])
                            (cbind (if \<not> is_int_value bucket_tasks \<or>
                                       int_of bucket_tasks \<le> 1
                                    then cthen
                                           (report
                                              ''bucketed grouped task descriptor bucket task_count must exceed one'')
                                         (cret expected_offset)
                                    else cret
                                           (expected_offset +
                                            int_of bucket_tasks)) (\<lambda>expected_offset.
                             cthen
                               (cseq
                                  [whenp
                                     (\<not> is_str (vget bucket ''shape_key'') \<or>
                                      \<not> truthy (vget bucket ''shape_key''))
                                     (report
                                        ''bucketed grouped task descriptor bucket shape_key must be a string''),
                                   whenp
                                     (\<not> py_eq (vget bucket ''semantics'') semantics)
                                     (report
                                        ''bucketed grouped task descriptor bucket semantics must match capture semantics''),
                                   whenp
                                     (\<not> eq_str
                                        (vget bucket ''output_domain'')
                                        expected_output_domain)
                                     (report
                                        ''bucketed grouped task descriptor bucket output_domain must match capture output contract'')])
                             (cret expected_offset))))
                      expected_offset
                      (enum_ints (elems_of buckets))) (\<lambda>expected_offset.
             whenp
               (is_int_value task_count \<and> \<not> py_eq (PInt expected_offset) task_count)
               (report
                  ''bucketed grouped task descriptor bucket task counts must sum to task_count'')))"

definition grouped_descriptor_checks :: "pydict \<Rightarrow> pyval \<Rightarrow> pyval \<Rightarrow> pyval \<Rightarrow> unit chk" where
  "grouped_descriptor_checks data task_count strategy task_descriptor =
     (if \<not> is_dict task_descriptor
      then report
             ''benchmark_grouped_dispatch_evidence captures must include task_descriptor_contract''
      else let semantics = dget data ''semantics'';
               expected_output_domain = ''native_i64_u64_host''
           in cbind (cif (c_in semantics [''finite_ring_u8'', ''finite_field_u8''])
                       (cret ''finite_u8_host'')
                       (cbind (cif (c_in semantics [''exact_wide_signed'', ''exact_wide_unsigned''])
                                 (cret ''exact_wide_limb_host'')
                                 (cret expected_output_domain)) (\<lambda>expected_output_domain.
                        cret expected_output_domain))) (\<lambda>expected_output_domain.
              let descriptor_layout = vget task_descriptor ''descriptor_layout'';
                  bucket_policy = vget task_descriptor ''bucket_policy'';
                  bucket_count = vget task_descriptor ''bucket_count'';
                  selected_prefix = dget_or data ''selected_prefix'' (dget data ''prefix'');
                  expected_shape_key = ''m='' @
                                       py_str (dget data ''m'') @
                                       '';n='' @
                                       py_str (dget data ''n'') @
                                       '';k='' @
                                       py_str (dget data ''k'') @
                                       '';tile_m='' @
                                       py_str (dget data ''tile_m'') @
                                       '';tile_n='' @
                                       py_str (dget data ''tile_n'') @
                                       '';prefix='' @
                                       py_str selected_prefix
              in cseq
                   [if eq_str bucket_policy SINGLE_GROUPED_BUCKET_POLICY
                    then cseq
                           [whenp
                              (\<not> eq_str descriptor_layout SINGLE_GROUPED_DESCRIPTOR_LAYOUT)
                              (report
                                 ''single grouped task descriptors must use same_shape_resident_task_triplets_v1''),
                            whenp
                              (\<not> py_eq bucket_count (PInt 1))
                              (report ''single grouped task descriptor bucket_count must be 1'')]
                    else if eq_str bucket_policy BUCKETED_GROUPED_BUCKET_POLICY
                    then cseq
                           [whenp
                              (\<not> eq_str descriptor_layout BUCKETED_GROUPED_DESCRIPTOR_LAYOUT)
                              (report
                                 ''bucketed grouped task descriptors must use same_contract_bucketed_resident_task_triplets_v1''),
                            whenp
                              (\<not> is_int_value bucket_count \<or> int_of bucket_count < 2)
                              (report
                                 ''bucketed grouped task descriptor bucket_count must be at least 2'')]
                    else report
                           ''grouped task descriptor must use a known executable bucket policy'',
                    whenp
                      (is_int_value task_count \<and>
                       \<not> py_eq (vget task_descriptor ''task_count'') task_count)
                      (report
                         ''grouped task descriptor task_count must match grouped_dispatch.task_count''),
                    if eq_str bucket_policy SINGLE_GROUPED_BUCKET_POLICY
                    then whenp
                           (\<not> is_True (vget task_descriptor ''same_shape_required''))
                           (report ''single grouped task descriptor must require same_shape'')
                    else whenp
                           (\<not> is_False (vget task_descriptor ''same_shape_required''))
                           (report
                              ''bucketed grouped task descriptor must not require same_shape''),
                    whenp
                      (eq_str bucket_policy SINGLE_GROUPED_BUCKET_POLICY \<and>
                       \<not> eq_str (vget task_descriptor ''shape_key'') expected_shape_key)
                      (report
                         ''grouped task descriptor shape_key must match capture shape/tile/prefix''),
                    grouped_bucket_checks
                      data
                      task_count
                      task_descriptor
                      semantics
                      expected_output_domain
                      bucket_policy
                      bucket_count,
                    whenp
                      (\<not> py_eq (vget task_descriptor ''semantics'') semantics)
                      (report ''grouped task descriptor semantics must match capture semantics''),
                    whenp
                      (\<not> eq_str
                         (vget task_descriptor ''output_domain'')
                         expected_output_domain)
                      (report
                         ''grouped task descriptor output_domain must match capture output contract''),
                    whenp
                      (\<not> eq_str
                         (vget task_descriptor ''source_version_policy'')
                         ''per_task_monotonic_source_version_repack'')
                      (report
                         ''grouped task descriptor source_version_policy must require per-task repack versions''),
                    whenp
                      (\<not> eq_str
                         (vget task_descriptor ''workspace_policy'')
                         ''one_workspace_per_task_shared_plan'')
                      (report
                         ''grouped task descriptor workspace_policy must be one workspace per task''),
                    whenp
                      (\<not> eq_str
                         (vget task_descriptor ''matrix_ownership_policy'')
                         ''benchmark_owns_all_task_triplets_until_capture_end'')
                      (report
                         ''grouped task descriptor matrix_ownership_policy must be benchmark-owned''),
                    whenp
                      (\<not> eq_str
                         (vget task_descriptor ''descriptor_reuse_policy'')
                         ''reuse_after_shape_workspace_source_validation'')
                      (report
                         ''grouped task descriptor descriptor_reuse_policy must require validated reuse''),
                    whenp
                      (\<not> eq_str
                         (vget task_descriptor ''stride_policy'')
                         ''matrix_ld_matches_logical_shape_host_output_ld_explicit'')
                      (report
                         ''grouped task descriptor stride_policy must declare explicit matrix/output strides''),
                    whenp
                      (\<not> eq_str
                         (vget task_descriptor ''output_currentness_policy'')
                         ''device_residue_current_after_grouped_gemm_host_output_after_export'')
                      (report
                         ''grouped task descriptor output_currentness_policy must bind device-current outputs''),
                    whenp
                      (\<not> eq_str
                         (vget task_descriptor ''lifetime_policy'')
                         ''task_matrices_and_workspaces_destroyed_after_capture'')
                      (report
                         ''grouped task descriptor lifetime_policy must describe capture lifetime''),
                    whenp
                      (\<not> eq_str
                         (vget task_descriptor ''checksum_policy'')
                         ''combined_per_task_checksum_u64'')
                      (report
                         ''grouped task descriptor checksum_policy must combine per-task checksums''),
                    whenp
                      (\<not> eq_str
                         (vget task_descriptor ''status_policy'')
                         ''fail_fast_per_task_operation_status'')
                      (report
                         ''grouped task descriptor status_policy must fail fast on per-task operation status''),
                    cbind (c_lookup_or
                             GROUPED_STRATEGY_DEVICE_DESCRIPTOR_POLICIES
                             strategy
                             ''host_resident_task_loop'') (\<lambda>expected_device_policy.
                    whenp
                      (\<not> eq_str
                         (vget task_descriptor ''device_descriptor_policy'')
                         expected_device_policy)
                      (report
                         ''grouped task descriptor device_descriptor_policy must match execution strategy''))]))"

definition grouped_capture_checks :: "pydict \<Rightarrow> pyval \<Rightarrow> bool \<Rightarrow> pyval \<Rightarrow> unit chk" where
  "grouped_capture_checks data grouped is_grouped task_count =
     whenp
       is_grouped
       (let strategy = vget grouped ''execution_strategy'';
            batched_export = vget grouped ''batched_export_enabled'';
            slab_bytes = vget grouped ''device_output_slab_bytes'';
            batch = dget data ''host_api_batch'';
            task_descriptor = vget grouped ''task_descriptor_contract'';
            metadata' = dget data ''timing_metadata''
        in cseq
             [whenp
                (\<not> eq_str
                   (dget data ''benchmark'')
                   ''rns8_grouped_dispatch_persistent_resident'')
                (report
                   ''benchmark_grouped_dispatch_evidence captures must use benchmark=rns8_grouped_dispatch_persistent_resident''),
              whenp
                (\<not> eq_str (dget data ''backend_selected'') ''hip-direct'')
                (report
                   ''benchmark_grouped_dispatch_evidence captures must use backend_selected=hip-direct''),
              whenp
                (\<not> is_True (vget grouped ''requested''))
                (report
                   ''benchmark_grouped_dispatch_evidence captures must set grouped_dispatch.requested=true''),
              whenp
                (\<not> is_int_value task_count \<or> int_of task_count \<le> 1)
                (report
                   ''benchmark_grouped_dispatch_evidence captures must use grouped_dispatch.task_count > 1''),
              whenp
                (\<not> eq_str (vget grouped ''capture_status'') ''executed'')
                (report
                   ''benchmark_grouped_dispatch_evidence captures must set grouped_dispatch.capture_status=executed''),
              whenp
                (\<not> is_None (vget grouped ''unsupported_reason''))
                (report
                   ''benchmark_grouped_dispatch_evidence captures must set grouped_dispatch.unsupported_reason=null''),
              whenp
                (\<not> is_False (vget grouped ''promotion_eligible''))
                (report
                   ''benchmark_grouped_dispatch_evidence captures must set grouped_dispatch.promotion_eligible=false''),
              whenp
                (\<not> is_None strategy \<and> eq_str strategy ''not_requested'')
                (report
                   ''benchmark_grouped_dispatch_evidence captures must declare an executed grouped strategy''),
              grouped_export_checks data strategy batched_export slab_bytes,
              whenp
                (eq_str (dget data ''semantics'') ''wrap_u64_mod_2_64'')
                (report
                   ''benchmark_grouped_dispatch_evidence captures must not use wrap_u64_mod_2_64''),
              whenp
                (\<not> is_False (dget data ''reuse_packed_inputs''))
                (report
                   ''benchmark_grouped_dispatch_evidence captures must not use packed-input reuse''),
              whenp
                (\<not> eq_str (dget data ''pack_mode'') ''per_repeat_repack'')
                (report
                   ''benchmark_grouped_dispatch_evidence captures must use pack_mode=per_repeat_repack''),
              cwhen
                (any_of
                   [cmap (\<lambda>len. len \<noteq> 1) (residue_chain_length data),
                    cmap (\<lambda>x. x \<noteq> ''host_export'') (validated_output_mode data)])
                (report
                   ''benchmark_grouped_dispatch_evidence captures must use host_export residue_chain_length=1''),
              whenp
                (\<not> eq_str (dget data ''bound_mode'') ''global'')
                (report
                   ''benchmark_grouped_dispatch_evidence captures must use bound_mode=global''),
              cwhen
                (cnot (c_in_vals (dget data ''bound_source'') [PNone, PStr ''static_profile'']))
                (report
                   ''benchmark_grouped_dispatch_evidence captures must use bound_source=static_profile''),
              if \<not> is_dict batch
              then report
                     ''benchmark_grouped_dispatch_evidence captures must include disabled host_api_batch metadata''
              else whenp
                     (\<not> is_False (vget batch ''enabled'') \<or>
                      \<not> py_eq (vget batch ''batch_size'') (PInt 1))
                     (report
                        ''benchmark_grouped_dispatch_evidence captures must keep host_api_batch disabled''),
              grouped_descriptor_checks data task_count strategy task_descriptor,
              whenp
                (is_dict metadata')
                (let notes = vget metadata' ''phase_notes'' in
                 cseq
                   [whenp
                      (\<not> is_True (vget metadata' ''grouped_dispatch_enabled''))
                      (report
                         ''timing_metadata.grouped_dispatch_enabled must be true for grouped dispatch captures''),
                    whenp
                      (is_int_value task_count \<and>
                       \<not> py_eq (vget metadata' ''grouped_dispatch_task_count'') task_count)
                      (report
                         ''timing_metadata.grouped_dispatch_task_count must match grouped_dispatch.task_count''),
                    cwhen
                      (all_of
                         [cret (\<not> is_None strategy),
                          cnot
                            (c_in_vals
                               (vget metadata' ''grouped_dispatch_execution_strategy'')
                               [PNone, strategy])])
                      (report
                         ''timing_metadata.grouped_dispatch_execution_strategy must match grouped_dispatch''),
                    cwhen
                      (all_of
                         [cret (\<not> is_None batched_export),
                          cnot
                            (c_in_vals
                               (vget metadata' ''grouped_dispatch_batched_export_enabled'')
                               [PNone, batched_export])])
                      (report
                         ''timing_metadata.grouped_dispatch_batched_export_enabled must match grouped_dispatch''),
                    cwhen
                      (all_of
                         [cret (is_int_value slab_bytes),
                          cnot
                            (c_in_vals
                               (vget metadata' ''grouped_dispatch_device_output_slab_bytes'')
                               [PNone, slab_bytes])])
                      (report
                         ''timing_metadata.grouped_dispatch_device_output_slab_bytes must match grouped_dispatch''),
                    if \<not> is_dict notes
                    then report
                           ''benchmark_grouped_dispatch_evidence captures must include timing_metadata.phase_notes''
                    else cfor [''pack'', ''rns_gemm'', ''crt_export'', ''end_to_end''] (\<lambda>phase.
                           let note = vget notes phase in
                           whenp
                             (\<not> is_str note \<or>
                              \<not> contains ''aggregate'' (str_of note) \<or>
                              \<not> contains ''grouped'' (str_of note))
                             (report
                                (''benchmark_grouped_dispatch_evidence phase note '' @
                                 phase @
                                 '' must describe aggregate grouped timing'')))])])"

definition validate_grouped_dispatch_metadata :: "pydict \<Rightarrow> unit chk" where
  "validate_grouped_dispatch_metadata data =
     (let grouped = dget data ''grouped_dispatch'' in
      cbind (is_grouped_dispatch_capture data) (\<lambda>is_grouped.
      if is_None grouped
      then whenp
             is_grouped
             (report
                ''benchmark_grouped_dispatch_evidence captures must include grouped_dispatch metadata'')
      else whenp
             (\<not> (\<not> is_dict grouped))
             (let task_count = vget grouped ''task_count'' in
              grouped_capture_checks data grouped is_grouped task_count)))"

definition validate_host_api_batch_metadata :: "pydict \<Rightarrow> unit chk" where
  "validate_host_api_batch_metadata data =
     (let batch = dget data ''host_api_batch'' in
      cbind (is_host_api_batch_capture data) (\<lambda>is_batch.
      if is_None batch
      then whenp
             is_batch
             (report ''benchmark_host_api_batch captures must include host_api_batch metadata'')
      else if \<not> is_dict batch
      then report ''host_api_batch must be an object''
      else let enabled = vget batch ''enabled'' in
           if \<not> is_bool enabled
           then report ''host_api_batch.enabled must be a boolean''
           else let batch_size = vget batch ''batch_size'';
                    tasks_per_repeat = vget batch ''tasks_per_measured_repeat'';
                    total_tasks = vget batch ''total_measured_tasks'';
                    repeats = dget data ''repeats'';
                    expected_batch_size = if \<not> is_batch then PInt 1 else PNone;
                    expected_setup = if is_batch
                                     then ''one_shared_plan_per_capture_one_resident_matrix_workspace_triplet_per_task''
                                     else ''single_task_default_benchmark_mode'';
                    expected_timing = if is_batch
                                      then ''aggregate_batch_totals_per_measured_repeat''
                                      else ''single_call_totals_per_measured_repeat'';
                    expected_checksum = if is_batch
                                        then ''fnv1a_over_final_task_output_checksums''
                                        else ''single_final_output_checksum'';
                    metadata' = dget data ''timing_metadata''
                in cseq
                     [whenp
                        (\<not> py_eq enabled (PBool is_batch))
                        (let expected = if is_batch then ''true'' else ''false'' in
                         report
                           (''host_api_batch.enabled must be '' @
                            expected @
                            '' for this benchmark_execution_mode'')),
                      cfor [(''batch_size'', batch_size),
                            (''tasks_per_measured_repeat'', tasks_per_repeat),
                            (''total_measured_tasks'', total_tasks)] (\<lambda>(key, value).
                        whenp
                          (\<not> is_int_value value \<or> int_of value \<le> 0)
                          (report (''host_api_batch.'' @ key @ '' must be a positive integer''))),
                      whenp
                        (is_int_value batch_size \<and>
                         is_int_value tasks_per_repeat \<and>
                         \<not> py_eq tasks_per_repeat batch_size)
                        (report
                           ''host_api_batch.tasks_per_measured_repeat must equal host_api_batch.batch_size''),
                      whenp
                        (is_int_value batch_size \<and>
                         is_int_value repeats \<and>
                         is_int_value total_tasks \<and>
                         \<not> py_eq total_tasks (PInt (int_of batch_size * int_of repeats)))
                        (report
                           ''host_api_batch.total_measured_tasks must equal batch_size * repeats''),
                      whenp
                        (\<not> is_None expected_batch_size \<and>
                         \<not> py_eq batch_size expected_batch_size)
                        (report ''non-batch captures must use host_api_batch.batch_size=1''),
                      whenp
                        (is_batch \<and> is_int_value batch_size \<and> int_of batch_size \<le> 1)
                        (report
                           ''benchmark_host_api_batch captures must use host_api_batch.batch_size > 1''),
                      cfor [(''setup_scope'', expected_setup),
                            (''timing_policy'', expected_timing),
                            (''checksum_policy'', expected_checksum)] (\<lambda>(key, expected).
                        whenp
                          (\<not> eq_str (vget batch key) expected)
                          (report (''host_api_batch.'' @ key @ '' must be '' @ expected))),
                      whenp
                        (is_dict metadata')
                        (cseq
                           [whenp
                              (\<not> same_object
                                 (vget metadata' ''host_api_batch_enabled'')
                                 enabled)
                              (report
                                 ''timing_metadata.host_api_batch_enabled must match host_api_batch.enabled''),
                            whenp
                              (\<not> py_eq (vget metadata' ''host_api_batch_size'') batch_size)
                              (report
                                 ''timing_metadata.host_api_batch_size must match host_api_batch.batch_size'')]),
                      whenp
                        is_batch
                        (cseq
                           [whenp
                              (\<not> eq_str
                                 (dget data ''benchmark'')
                                 ''rns8_host_api_batch_persistent_resident'')
                              (report
                                 ''benchmark_host_api_batch captures must use benchmark=rns8_host_api_batch_persistent_resident''),
                            whenp
                              (eq_str (dget data ''semantics'') ''wrap_u64_mod_2_64'')
                              (report
                                 ''benchmark_host_api_batch captures must not use wrap_u64_mod_2_64''),
                            whenp
                              (\<not> is_False (dget data ''reuse_packed_inputs''))
                              (report
                                 ''benchmark_host_api_batch captures must not use packed-input reuse''),
                            whenp
                              (\<not> eq_str (dget data ''pack_mode'') ''per_repeat_repack'')
                              (report
                                 ''benchmark_host_api_batch captures must use pack_mode=per_repeat_repack''),
                            cwhen
                              (any_of
                                 [cmap (\<lambda>len. len \<noteq> 1) (residue_chain_length data),
                                  cmap
                                    (\<lambda>x. x \<noteq> ''host_export'')
                                    (validated_output_mode data)])
                              (report
                                 ''benchmark_host_api_batch captures must use host_export residue_chain_length=1''),
                            whenp
                              (\<not> eq_str (dget data ''bound_mode'') ''global'')
                              (report
                                 ''benchmark_host_api_batch captures must use bound_mode=global''),
                            cwhen
                              (cnot
                                 (c_in_vals
                                    (dget data ''bound_source'')
                                    [PNone, PStr ''static_profile'']))
                              (report
                                 ''benchmark_host_api_batch captures must use bound_source=static_profile''),
                            let metadata' = dget data ''timing_metadata'' in
                            whenp
                              (is_dict metadata')
                              (let notes = vget metadata' ''phase_notes'' in
                               if \<not> is_dict notes
                               then report
                                      ''benchmark_host_api_batch captures must include timing_metadata.phase_notes''
                               else cfor [''pack'', ''rns_gemm'', ''crt_export'', ''end_to_end''] (\<lambda>phase.
                                      let note = vget notes phase in
                                      whenp
                                        (\<not> is_str note \<or>
                                         \<not> contains ''aggregate'' (str_of note))
                                        (report
                                           (''benchmark_host_api_batch phase note '' @
                                            phase @
                                            '' must describe aggregate batch timing''))))]),
                      cfor [(''avg_pack_per_task_us'', ''avg_pack_us''),
                            (''avg_rns_gemm_per_task_us'', ''avg_rns_gemm_us''),
                            (''avg_crt_export_per_task_us'', ''avg_crt_export_us''),
                            (''avg_end_to_end_per_task_us'',
                             ''avg_end_to_end_us'')] (\<lambda>(field', source).
                        let value = dget data field';
                            source_value = dget data source
                        in whenp
                             (\<not> is_None value)
                             (cif (cnot (c_is_number value))
                                (report (field' @ '' must be a finite number''))
                                (let denominator = batch_size;
                                     denominator_name = ''host_api_batch.batch_size'';
                                     grouped = dget data ''grouped_dispatch''
                                 in cbind (cif (all_of
                                                  [is_grouped_dispatch_capture data,
                                                   cret
                                                     (is_dict grouped \<and>
                                                      is_int_value (vget grouped ''task_count''))])
                                             (cret
                                                (let denominator = vget grouped ''task_count'' in
                                                 let denominator_name = ''grouped_dispatch.task_count'' in
                                                 (denominator, denominator_name)))
                                             (cret
                                                (denominator,
                                                 denominator_name))) (\<lambda>(denominator, denominator_name).
                                    cwhen
                                      (all_of
                                         [c_is_number source_value,
                                          cret (is_int_value denominator)])
                                      (cbind (cbind
                                                (c_float denominator)
                                                (\<lambda>x.
                                                 c_fdiv
                                                   (num_float source_value)
                                                   x)) (\<lambda>expected.
                                       whenp
                                         (\<not> close_to (num_float value) expected)
                                         (report
                                            (field' @
                                             '' must equal '' @
                                             source @
                                             '' / '' @
                                             denominator_name))))))))]))"

definition graph_benchmark_checks :: "pydict \<Rightarrow> bool \<Rightarrow> bool \<Rightarrow> bool \<Rightarrow> bool \<Rightarrow> bool \<Rightarrow> unit chk" where
  "graph_benchmark_checks data resident_chain_graph bounded_full_graph finite_full_graph exact_wide_full_graph wrap64_full_graph =
     (if resident_chain_graph
      then whenp
             (\<not> eq_str (dget data ''benchmark'') ''rns8_hip_graph_replay_resident_rns_chain'')
             (report
                ''resident-chain hip_graph_replay captures must use benchmark=rns8_hip_graph_replay_resident_rns_chain'')
      else if bounded_full_graph
      then whenp
             (\<not> eq_str
                (dget data ''benchmark'')
                ''rns8_hip_graph_replay_bounded_pack_gemm_export'')
             (report
                ''bounded pack/GEMM/export hip_graph_replay captures must use benchmark=rns8_hip_graph_replay_bounded_pack_gemm_export'')
      else if finite_full_graph
      then whenp
             (\<not> eq_str
                (dget data ''benchmark'')
                ''rns8_hip_graph_replay_finite_u8_pack_gemm_export'')
             (report
                ''finite-u8 pack/GEMM/export hip_graph_replay captures must use benchmark=rns8_hip_graph_replay_finite_u8_pack_gemm_export'')
      else if exact_wide_full_graph
      then whenp
             (\<not> eq_str
                (dget data ''benchmark'')
                ''rns8_hip_graph_replay_exact_wide_pack_gemm_export'')
             (report
                ''exact-wide pack/GEMM/export hip_graph_replay captures must use benchmark=rns8_hip_graph_replay_exact_wide_pack_gemm_export'')
      else if wrap64_full_graph
      then whenp
             (\<not> eq_str
                (dget data ''benchmark'')
                ''rns8_hip_graph_replay_wrap64_pack_gemm_export'')
             (report
                ''wrap64 pack/GEMM/export hip_graph_replay captures must use benchmark=rns8_hip_graph_replay_wrap64_pack_gemm_export'')
      else report ''hip_graph_replay captures must use a registered graph replay execution mode'')"

definition graph_wrap64_mode_checks :: "pydict \<Rightarrow> pyval \<Rightarrow> pyval \<Rightarrow> pyval \<Rightarrow> int \<Rightarrow> bool \<Rightarrow> unit chk" where
  "graph_wrap64_mode_checks data graph' caveat metadata' chain_length wrap64_full_graph =
     whenp
       wrap64_full_graph
       (cseq
          [whenp
             (\<not> eq_str (dget data ''semantics'') ''wrap_u64_mod_2_64'')
             (report
                ''wrap64 pack/GEMM/export hip_graph_replay captures must use wrap_u64_mod_2_64 semantics''),
           whenp
             (\<not> is_False (dget data ''reuse_packed_inputs''))
             (report
                ''wrap64 pack/GEMM/export hip_graph_replay captures must use reuse_packed_inputs=false''),
           whenp
             (\<not> eq_str (dget data ''pack_mode'') ''per_repeat_repack'')
             (report
                ''wrap64 pack/GEMM/export hip_graph_replay captures must use pack_mode=per_repeat_repack''),
           whenp
             (\<not> py_eq (dget data ''prepack_reuse_operands'') (PList []))
             (report
                ''wrap64 pack/GEMM/export hip_graph_replay captures must not reuse packed operands''),
           whenp
             (\<not> eq_str (dget data ''prepack_reuse_strategy'') ''none'')
             (report
                ''wrap64 pack/GEMM/export hip_graph_replay captures must use prepack_reuse_strategy=none''),
           cwhen
             (any_of
                [cret (chain_length \<noteq> 1),
                 cmap (\<lambda>x. x \<noteq> ''host_export'') (validated_output_mode data)])
             (report
                ''wrap64 pack/GEMM/export hip_graph_replay captures must use host_export residue_chain_length=1''),
           whenp
             (\<not> eq_str (vget graph' ''scope'') ''direct_hip_wrap64_pack_gemm_export'')
             (report
                ''wrap64 pack/GEMM/export hip_graph_replay captures must set hip_graph_replay.scope=direct_hip_wrap64_pack_gemm_export''),
           whenp
             (\<not> py_eq (vget graph' ''captured_chain_length'') (PInt 1))
             (report ''wrap64 pack/GEMM/export hip_graph_replay.captured_chain_length must be 1''),
           whenp
             (\<not> eq_str
                (vget graph' ''timing_policy'')
                ''raw_timings_us.end_to_end_measure_one_full_wrap64_pack_gemm_export_hipGraphLaunch_plus_stream_sync'')
             (report
                ''wrap64 pack/GEMM/export hip_graph_replay.timing_policy is stale or unsupported''),
           whenp
             (\<not> eq_str
                (vget graph' ''setup_policy'')
                ''capture_and_instantiate_before_warmups_no_prepack_reuse'')
             (report
                ''wrap64 pack/GEMM/export hip_graph_replay.setup_policy is stale or unsupported''),
           whenp
             (\<not> eq_str
                (vget graph' ''final_export_policy'')
                ''wrap64_low64_export_and_output_d2h_captured_inside_graph_each_repeat'')
             (report
                ''wrap64 pack/GEMM/export hip_graph_replay.final_export_policy is stale or unsupported''),
           whenp
             (\<not> is_str caveat \<or>
              \<not> contains
                ''wrap64 byte-limb pack, byte-GEMM36, low64 export, and output D2H''
                (str_of caveat))
             (report
                ''wrap64 pack/GEMM/export hip_graph_replay.caveat must describe graph replay scope''),
           require_graph_full_path_phase_metadata
             data
             metadata'
             ''wrap64 pack/GEMM/export''
             [(''pack'', [''captured inside one HIP Graph launch'']),
              (''rns_gemm'', [''captured inside one HIP Graph launch'', ''wrap64 byte-limb'']),
              (''crt_export'', [''wrap64 low64 export kernel'', ''output D2H'']),
              (''end_to_end'',
               [''hipGraphLaunch'', ''wrap64'', ''byte-limb pack'', ''byte-GEMM36'',
                ''low64 export'', ''D2H''])]])"

definition graph_wide_mode_checks :: "pydict \<Rightarrow> pyval \<Rightarrow> pyval \<Rightarrow> pyval \<Rightarrow> int \<Rightarrow> bool \<Rightarrow> bool \<Rightarrow> unit chk" where
  "graph_wide_mode_checks data graph' caveat metadata' chain_length exact_wide_full_graph wrap64_full_graph =
     (if exact_wide_full_graph
      then cseq
             [cwhen
                (cnot
                   (c_in
                      (dget data ''semantics'')
                      [''exact_wide_signed'', ''exact_wide_unsigned'']))
                (report
                   ''exact-wide pack/GEMM/export hip_graph_replay captures must use exact-wide semantics''),
              whenp
                (\<not> is_False (dget data ''reuse_packed_inputs''))
                (report
                   ''exact-wide pack/GEMM/export hip_graph_replay captures must use reuse_packed_inputs=false''),
              whenp
                (\<not> eq_str (dget data ''pack_mode'') ''per_repeat_repack'')
                (report
                   ''exact-wide pack/GEMM/export hip_graph_replay captures must use pack_mode=per_repeat_repack''),
              whenp
                (\<not> py_eq (dget data ''prepack_reuse_operands'') (PList []))
                (report
                   ''exact-wide pack/GEMM/export hip_graph_replay captures must not reuse packed operands''),
              whenp
                (\<not> eq_str (dget data ''prepack_reuse_strategy'') ''none'')
                (report
                   ''exact-wide pack/GEMM/export hip_graph_replay captures must use prepack_reuse_strategy=none''),
              cwhen
                (any_of
                   [cret (chain_length \<noteq> 1),
                    cmap (\<lambda>x. x \<noteq> ''host_export'') (validated_output_mode data)])
                (report
                   ''exact-wide pack/GEMM/export hip_graph_replay captures must use host_export residue_chain_length=1''),
              whenp
                (\<not> py_eq (dget data ''exact_wide_limb_count'') (PInt 4))
                (report
                   ''exact-wide pack/GEMM/export hip_graph_replay captures currently require exact_wide_limb_count=4''),
              whenp
                (\<not> eq_str (vget graph' ''scope'') ''direct_hip_exact_wide_pack_gemm_export'')
                (report
                   ''exact-wide pack/GEMM/export hip_graph_replay captures must set hip_graph_replay.scope=direct_hip_exact_wide_pack_gemm_export''),
              whenp
                (\<not> py_eq (vget graph' ''captured_chain_length'') (PInt 1))
                (report
                   ''exact-wide pack/GEMM/export hip_graph_replay.captured_chain_length must be 1''),
              whenp
                (\<not> eq_str
                   (vget graph' ''timing_policy'')
                   ''raw_timings_us.end_to_end_measure_one_full_exact_wide_pack_gemm_export_hipGraphLaunch_plus_stream_sync'')
                (report
                   ''exact-wide pack/GEMM/export hip_graph_replay.timing_policy is stale or unsupported''),
              whenp
                (\<not> eq_str
                   (vget graph' ''setup_policy'')
                   ''capture_and_instantiate_before_warmups_no_prepack_reuse'')
                (report
                   ''exact-wide pack/GEMM/export hip_graph_replay.setup_policy is stale or unsupported''),
              whenp
                (\<not> eq_str
                   (vget graph' ''final_export_policy'')
                   ''exact_wide_limb_export_and_output_d2h_captured_inside_graph_each_repeat'')
                (report
                   ''exact-wide pack/GEMM/export hip_graph_replay.final_export_policy is stale or unsupported''),
              whenp
                (\<not> is_str caveat \<or>
                 \<not> contains
                   ''exact-wide pack, one RNS GEMM, fixed-width exact limb export''
                   (str_of caveat))
                (report
                   ''exact-wide pack/GEMM/export hip_graph_replay.caveat must describe graph replay scope''),
              require_graph_full_path_phase_metadata
                data
                metadata'
                ''exact-wide pack/GEMM/export''
                [(''pack'', [''captured inside one HIP Graph launch'']),
                 (''rns_gemm'',
                  [''captured inside one HIP Graph launch'', ''Direct-HIP exact-wide'']),
                 (''crt_export'',
                  [''exact-wide limb export kernel'', ''status D2H'', ''output D2H'']),
                 (''end_to_end'',
                  [''hipGraphLaunch'', ''exact-wide'', ''pack'', ''RNS GEMM'', ''limb export'',
                   ''D2H''])]]
      else graph_wrap64_mode_checks data graph' caveat metadata' chain_length wrap64_full_graph)"

definition graph_finite_mode_checks :: "pydict \<Rightarrow> pyval \<Rightarrow> pyval \<Rightarrow> pyval \<Rightarrow> int \<Rightarrow> bool \<Rightarrow> bool \<Rightarrow> bool \<Rightarrow> unit chk" where
  "graph_finite_mode_checks data graph' caveat metadata' chain_length finite_full_graph exact_wide_full_graph wrap64_full_graph =
     (if finite_full_graph
      then cseq
             [cwhen
                (cnot (c_in (dget data ''semantics'') [''finite_ring_u8'', ''finite_field_u8'']))
                (report
                   ''finite-u8 pack/GEMM/export hip_graph_replay captures must use finite-u8 semantics''),
              whenp
                (\<not> is_False (dget data ''reuse_packed_inputs''))
                (report
                   ''finite-u8 pack/GEMM/export hip_graph_replay captures must use reuse_packed_inputs=false''),
              whenp
                (\<not> eq_str (dget data ''pack_mode'') ''per_repeat_repack'')
                (report
                   ''finite-u8 pack/GEMM/export hip_graph_replay captures must use pack_mode=per_repeat_repack''),
              whenp
                (\<not> py_eq (dget data ''prepack_reuse_operands'') (PList []))
                (report
                   ''finite-u8 pack/GEMM/export hip_graph_replay captures must not reuse packed operands''),
              whenp
                (\<not> eq_str (dget data ''prepack_reuse_strategy'') ''none'')
                (report
                   ''finite-u8 pack/GEMM/export hip_graph_replay captures must use prepack_reuse_strategy=none''),
              cwhen
                (any_of
                   [cret (chain_length \<noteq> 1),
                    cmap (\<lambda>x. x \<noteq> ''host_export'') (validated_output_mode data)])
                (report
                   ''finite-u8 pack/GEMM/export hip_graph_replay captures must use host_export residue_chain_length=1''),
              whenp
                (\<not> isinstance_int (dget data ''finite_modulus'') \<or>
                 int_of (dget data ''finite_modulus'') \<le> 1)
                (report
                   ''finite-u8 pack/GEMM/export hip_graph_replay captures must record finite_modulus''),
              whenp
                (\<not> eq_str (vget graph' ''scope'') ''direct_hip_finite_u8_pack_gemm_export'')
                (report
                   ''finite-u8 pack/GEMM/export hip_graph_replay captures must set hip_graph_replay.scope=direct_hip_finite_u8_pack_gemm_export''),
              whenp
                (\<not> py_eq (vget graph' ''captured_chain_length'') (PInt 1))
                (report
                   ''finite-u8 pack/GEMM/export hip_graph_replay.captured_chain_length must be 1''),
              whenp
                (\<not> eq_str
                   (vget graph' ''timing_policy'')
                   ''raw_timings_us.end_to_end_measure_one_full_finite_pack_gemm_export_hipGraphLaunch_plus_stream_sync'')
                (report
                   ''finite-u8 pack/GEMM/export hip_graph_replay.timing_policy is stale or unsupported''),
              whenp
                (\<not> eq_str
                   (vget graph' ''setup_policy'')
                   ''capture_and_instantiate_before_warmups_no_prepack_reuse'')
                (report
                   ''finite-u8 pack/GEMM/export hip_graph_replay.setup_policy is stale or unsupported''),
              whenp
                (\<not> eq_str
                   (vget graph' ''final_export_policy'')
                   ''finite_canonical_export_and_output_d2h_captured_inside_graph_each_repeat'')
                (report
                   ''finite-u8 pack/GEMM/export hip_graph_replay.final_export_policy is stale or unsupported''),
              whenp
                (\<not> is_str caveat \<or>
                 \<not> contains
                   ''finite-u8 pack, one modular GEMM, canonical finite export, and output D2H''
                   (str_of caveat))
                (report
                   ''finite-u8 pack/GEMM/export hip_graph_replay.caveat must describe graph replay scope''),
              require_graph_full_path_phase_metadata
                data
                metadata'
                ''finite-u8 pack/GEMM/export''
                [(''pack'', [''captured inside one HIP Graph launch'']),
                 (''rns_gemm'',
                  [''captured inside one HIP Graph launch'', ''Direct-HIP finite-u8'']),
                 (''crt_export'', [''finite export kernel'', ''output D2H'']),
                 (''end_to_end'',
                  [''hipGraphLaunch'', ''finite-u8'', ''pack'', ''modular GEMM'',
                   ''canonical export'', ''D2H''])]]
      else graph_wide_mode_checks
             data
             graph'
             caveat
             metadata'
             chain_length
             exact_wide_full_graph
             wrap64_full_graph)"

definition graph_full_mode_checks :: "pydict \<Rightarrow> pyval \<Rightarrow> pyval \<Rightarrow> pyval \<Rightarrow> int \<Rightarrow> bool \<Rightarrow> bool \<Rightarrow> bool \<Rightarrow> bool \<Rightarrow> unit chk" where
  "graph_full_mode_checks data graph' caveat metadata' chain_length bounded_full_graph finite_full_graph exact_wide_full_graph wrap64_full_graph =
     (if bounded_full_graph
      then cseq
             [cwhen
                (cnot (c_in (dget data ''semantics'') [''bounded_i64'', ''bounded_u64'']))
                (report
                   ''bounded pack/GEMM/export hip_graph_replay captures must use bounded semantics''),
              whenp
                (\<not> is_False (dget data ''reuse_packed_inputs''))
                (report
                   ''bounded pack/GEMM/export hip_graph_replay captures must use reuse_packed_inputs=false''),
              whenp
                (\<not> eq_str (dget data ''pack_mode'') ''per_repeat_repack'')
                (report
                   ''bounded pack/GEMM/export hip_graph_replay captures must use pack_mode=per_repeat_repack''),
              whenp
                (\<not> py_eq (dget data ''prepack_reuse_operands'') (PList []))
                (report
                   ''bounded pack/GEMM/export hip_graph_replay captures must not reuse packed operands''),
              whenp
                (\<not> eq_str (dget data ''prepack_reuse_strategy'') ''none'')
                (report
                   ''bounded pack/GEMM/export hip_graph_replay captures must use prepack_reuse_strategy=none''),
              cwhen
                (any_of
                   [cret (chain_length \<noteq> 1),
                    cmap (\<lambda>x. x \<noteq> ''host_export'') (validated_output_mode data)])
                (report
                   ''bounded pack/GEMM/export hip_graph_replay captures must use host_export residue_chain_length=1''),
              whenp
                (\<not> eq_str (vget graph' ''scope'') ''direct_hip_bounded_pack_gemm_export'')
                (report
                   ''bounded pack/GEMM/export hip_graph_replay captures must set hip_graph_replay.scope=direct_hip_bounded_pack_gemm_export''),
              whenp
                (\<not> py_eq (vget graph' ''captured_chain_length'') (PInt 1))
                (report
                   ''bounded pack/GEMM/export hip_graph_replay.captured_chain_length must be 1''),
              whenp
                (\<not> eq_str
                   (vget graph' ''timing_policy'')
                   ''raw_timings_us.end_to_end_measure_one_full_pack_gemm_export_hipGraphLaunch_plus_stream_sync'')
                (report
                   ''bounded pack/GEMM/export hip_graph_replay.timing_policy is stale or unsupported''),
              whenp
                (\<not> eq_str
                   (vget graph' ''setup_policy'')
                   ''capture_and_instantiate_before_warmups_no_prepack_reuse'')
                (report
                   ''bounded pack/GEMM/export hip_graph_replay.setup_policy is stale or unsupported''),
              whenp
                (\<not> eq_str
                   (vget graph' ''final_export_policy'')
                   ''logical_export_and_output_d2h_captured_inside_graph_each_repeat'')
                (report
                   ''bounded pack/GEMM/export hip_graph_replay.final_export_policy is stale or unsupported''),
              whenp
                (\<not> is_str caveat \<or>
                 \<not> contains
                   ''pack, one RNS GEMM, export status, export kernel, and output D2H''
                   (str_of caveat))
                (report
                   ''bounded pack/GEMM/export hip_graph_replay.caveat must describe graph replay scope''),
              require_graph_full_path_phase_metadata
                data
                metadata'
                ''bounded pack/GEMM/export''
                [(''pack'', [''captured inside one HIP Graph launch'']),
                 (''rns_gemm'', [''captured inside one HIP Graph launch'', ''Direct-HIP bounded'']),
                 (''crt_export'',
                  [''status memset'', ''export kernel'', ''status D2H'', ''output D2H'']),
                 (''end_to_end'',
                  [''hipGraphLaunch'', ''pack'', ''RNS GEMM'', ''export'', ''status'', ''D2H''])]]
      else graph_finite_mode_checks
             data
             graph'
             caveat
             metadata'
             chain_length
             finite_full_graph
             exact_wide_full_graph
             wrap64_full_graph)"

definition graph_mode_checks :: "pydict \<Rightarrow> pyval \<Rightarrow> pyval \<Rightarrow> pyval \<Rightarrow> int \<Rightarrow> bool \<Rightarrow> bool \<Rightarrow> bool \<Rightarrow> bool \<Rightarrow> bool \<Rightarrow> unit chk" where
  "graph_mode_checks data graph' caveat metadata' chain_length resident_chain_graph bounded_full_graph finite_full_graph exact_wide_full_graph wrap64_full_graph =
     (if resident_chain_graph
      then cseq
             [cwhen
                (cnot
                   (c_in
                      (dget data ''semantics'')
                      [''bounded_i64'', ''bounded_u64'', ''exact_wide_signed'',
                       ''exact_wide_unsigned'']))
                (report
                   ''resident-chain hip_graph_replay captures must use bounded or exact-wide RNS semantics''),
              whenp
                (\<not> is_True (dget data ''reuse_packed_inputs''))
                (report
                   ''resident-chain hip_graph_replay captures must use reuse_packed_inputs=true''),
              whenp
                (\<not> eq_str (dget data ''pack_mode'') ''prepacked_reuse'')
                (report
                   ''resident-chain hip_graph_replay captures must use pack_mode=prepacked_reuse''),
              whenp
                (\<not> py_eq (dget data ''prepack_reuse_operands'') (str_list [''A'', ''B'']))
                (report ''resident-chain hip_graph_replay captures must reuse operands A and B''),
              whenp
                (\<not> eq_str
                   (dget data ''prepack_reuse_strategy'')
                   ''persistent_matrix_residency'')
                (report
                   ''resident-chain hip_graph_replay captures must use prepack_reuse_strategy=persistent_matrix_residency''),
              cwhen
                (any_of
                   [cret (chain_length \<le> 1),
                    cmap
                      (\<lambda>x. x \<noteq> ''residue_current_rns'')
                      (validated_output_mode data)])
                (report
                   ''resident-chain hip_graph_replay captures must use residue-current chain output''),
              whenp
                (\<not> eq_str
                   (vget graph' ''scope'')
                   ''direct_hip_reused_inputs_residue_current_rns_chain'')
                (report
                   ''resident-chain hip_graph_replay captures must set hip_graph_replay.scope=direct_hip_reused_inputs_residue_current_rns_chain''),
              whenp
                (\<not> py_eq (vget graph' ''captured_chain_length'') (PInt chain_length))
                (report
                   ''resident-chain hip_graph_replay.captured_chain_length must match residue_chain_length''),
              whenp
                (\<not> eq_str
                   (vget graph' ''timing_policy'')
                   ''raw_timings_us.rns_gemm_and_end_to_end_measure_one_hipGraphLaunch_plus_stream_sync'')
                (report ''resident-chain hip_graph_replay.timing_policy is stale or unsupported''),
              whenp
                (\<not> eq_str
                   (vget graph' ''setup_policy'')
                   ''A_B_prepack_before_capture_capture_and_instantiate_before_warmups'')
                (report ''resident-chain hip_graph_replay.setup_policy is stale or unsupported''),
              whenp
                (\<not> eq_str
                   (vget graph' ''final_export_policy'')
                   ''one_final_logical_export_after_measured_repeats_for_checksum_only'')
                (report
                   ''resident-chain hip_graph_replay.final_export_policy is stale or unsupported''),
              whenp
                (\<not> is_str caveat \<or>
                 \<not> contains ''resident Direct-HIP RNS GEMM launches only'' (str_of caveat))
                (report
                   ''resident-chain hip_graph_replay.caveat must describe graph replay scope'')]
      else graph_full_mode_checks
             data
             graph'
             caveat
             metadata'
             chain_length
             bounded_full_graph
             finite_full_graph
             exact_wide_full_graph
             wrap64_full_graph)"

definition validate_hip_graph_replay_metadata :: "pydict \<Rightarrow> unit chk" where
  "validate_hip_graph_replay_metadata data =
     (let graph' = dget data ''hip_graph_replay'' in
      cbind (is_hip_graph_replay_capture data) (\<lambda>is_graph.
      if is_None graph'
      then whenp
             is_graph
             (report
                ''hip_graph_replay_resident_rns_chain captures must include hip_graph_replay metadata'')
      else if \<not> is_dict graph'
      then report ''hip_graph_replay must be an object''
      else let caveat = vget graph' ''caveat'';
               metadata' = dget data ''timing_metadata'';
               repeats = dget data ''repeats'';
               warmups = dget data ''warmups''
           in cseq
                [cfor [''requested'', ''available'', ''used''] (\<lambda>key.
                   whenp
                     (\<not> is_bool (vget graph' key))
                     (report (''hip_graph_replay.'' @ key @ '' must be a boolean''))),
                 cfor [''status'', ''scope'', ''timing_policy'', ''setup_policy'',
                       ''final_export_policy''] (\<lambda>key.
                   whenp
                     (\<not> is_str (vget graph' key))
                     (report (''hip_graph_replay.'' @ key @ '' must be a string''))),
                 cfor [''capture_us'', ''instantiate_us'', ''graph_launches_per_measured_repeat'',
                       ''total_graph_launches'', ''captured_chain_length''] (\<lambda>key.
                   whenp
                     (\<not> is_int_value (vget graph' key) \<or> int_of (vget graph' key) < 0)
                     (report (''hip_graph_replay.'' @ key @ '' must be a nonnegative integer''))),
                 whenp
                   (\<not> is_None caveat \<and> \<not> is_str caveat)
                   (report ''hip_graph_replay.caveat must be a string or null''),
                 cbind (residue_chain_length data) (\<lambda>chain_length.
                 if \<not> is_graph
                 then cseq
                        [cfor [''requested'', ''available'', ''used''] (\<lambda>key.
                           whenp
                             (\<not> is_False (vget graph' key))
                             (report
                                (''non-graph captures must set hip_graph_replay.'' @
                                 key @
                                 ''=false''))),
                         whenp
                           (\<not> eq_str (vget graph' ''status'') ''not_requested'')
                           (report
                              ''non-graph captures must set hip_graph_replay.status=not_requested''),
                         whenp
                           (\<not> eq_str (vget graph' ''scope'') ''not_applicable'')
                           (report
                              ''non-graph captures must set hip_graph_replay.scope=not_applicable''),
                         cfor [''capture_us'', ''instantiate_us'',
                               ''graph_launches_per_measured_repeat'', ''total_graph_launches'',
                               ''captured_chain_length''] (\<lambda>key.
                           whenp
                             (\<not> py_eq (vget graph' key) (PInt 0))
                             (report
                                (''non-graph captures must set hip_graph_replay.'' @
                                 key @
                                 ''=0''))),
                         cfor [''timing_policy'', ''setup_policy'', ''final_export_policy''] (\<lambda>key.
                           whenp
                             (\<not> eq_str (vget graph' key) ''not_applicable'')
                             (report
                                (''non-graph captures must set hip_graph_replay.'' @
                                 key @
                                 ''=not_applicable''))),
                         whenp
                           (is_dict metadata')
                           (let enabled = vget metadata' ''hip_graph_replay_enabled'' in
                            whenp
                              (\<not> is_None enabled \<and> \<not> is_False enabled)
                              (report
                                 ''non-graph captures must set timing_metadata.hip_graph_replay_enabled=false''))]
                 else cbind (benchmark_execution_mode data) (\<lambda>execution_mode.
                      let resident_chain_graph = execution_mode =
                                                 ''hip_graph_replay_resident_rns_chain'';
                          bounded_full_graph = execution_mode =
                                               ''hip_graph_replay_bounded_pack_gemm_export'';
                          finite_full_graph = execution_mode =
                                              ''hip_graph_replay_finite_u8_pack_gemm_export'';
                          exact_wide_full_graph = execution_mode =
                                                  ''hip_graph_replay_exact_wide_pack_gemm_export'';
                          wrap64_full_graph = execution_mode =
                                              ''hip_graph_replay_wrap64_pack_gemm_export''
                      in cseq
                           [graph_benchmark_checks
                              data
                              resident_chain_graph
                              bounded_full_graph
                              finite_full_graph
                              exact_wide_full_graph
                              wrap64_full_graph,
                            whenp
                              (\<not> eq_str (dget data ''backend_selected'') ''hip-direct'' \<or>
                               \<not> eq_str (dget data ''backend_requested'') ''hip-direct'')
                              (report
                                 ''hip_graph_replay captures must request and select backend hip-direct''),
                            whenp
                              (\<not> eq_str (dget data ''bound_mode'') ''global'')
                              (report ''hip_graph_replay captures must use bound_mode=global''),
                            cwhen
                              (cnot
                                 (c_in_vals
                                    (dget data ''bound_source'')
                                    [PNone, PStr ''static_profile'']))
                              (report ''hip_graph_replay captures must use static-profile bounds''),
                            cfor [''requested'', ''available'', ''used''] (\<lambda>key.
                              whenp
                                (\<not> is_True (vget graph' key))
                                (report
                                   (''hip_graph_replay captures must set hip_graph_replay.'' @
                                    key @
                                    ''=true''))),
                            whenp
                              (\<not> eq_str (vget graph' ''status'') ''available'')
                              (report
                                 ''hip_graph_replay captures must set hip_graph_replay.status=available''),
                            cfor [''capture_us'', ''instantiate_us''] (\<lambda>key.
                              whenp
                                (is_int_value (vget graph' key) \<and>
                                 int_of (vget graph' key) \<le> 0)
                                (report
                                   (''hip_graph_replay.'' @
                                    key @
                                    '' must be positive for executed graph replay captures''))),
                            whenp
                              (\<not> py_eq
                                 (vget graph' ''graph_launches_per_measured_repeat'')
                                 (PInt 1))
                              (report
                                 ''hip_graph_replay captures must launch one graph per measured repeat''),
                            whenp
                              (is_int_value repeats \<and>
                               is_int_value warmups \<and>
                               \<not> py_eq
                                 (vget graph' ''total_graph_launches'')
                                 (PInt (int_of repeats + int_of warmups)))
                              (report
                                 ''hip_graph_replay.total_graph_launches must equal warmups + repeats''),
                            graph_mode_checks
                              data
                              graph'
                              caveat
                              metadata'
                              chain_length
                              resident_chain_graph
                              bounded_full_graph
                              finite_full_graph
                              exact_wide_full_graph
                              wrap64_full_graph,
                            whenp
                              (\<not> (\<not> is_dict metadata'))
                              (cseq
                                 [whenp
                                    (\<not> is_True (vget metadata' ''hip_graph_replay_enabled''))
                                    (report
                                       ''hip_graph_replay captures must set timing_metadata.hip_graph_replay_enabled=true''),
                                  whenp
                                    (\<not> py_eq
                                       (vget metadata' ''hip_graph_replay_status'')
                                       (vget graph' ''status''))
                                    (report
                                       ''timing_metadata.hip_graph_replay_status must match hip_graph_replay.status''),
                                  whenp
                                    (\<not> py_eq
                                       (vget metadata' ''hip_graph_replay_scope'')
                                       (vget graph' ''scope''))
                                    (report
                                       ''timing_metadata.hip_graph_replay_scope must match hip_graph_replay.scope''),
                                  whenp
                                    (\<not> py_eq
                                       (vget metadata' ''hip_graph_capture_us'')
                                       (vget graph' ''capture_us''))
                                    (report
                                       ''timing_metadata.hip_graph_capture_us must match hip_graph_replay.capture_us''),
                                  whenp
                                    (\<not> py_eq
                                       (vget metadata' ''hip_graph_instantiate_us'')
                                       (vget graph' ''instantiate_us''))
                                    (report
                                       ''timing_metadata.hip_graph_instantiate_us must match hip_graph_replay.instantiate_us''),
                                  whenp
                                    (\<not> py_eq
                                       (vget metadata' ''hip_graph_total_launches'')
                                       (vget graph' ''total_graph_launches''))
                                    (report
                                       ''timing_metadata.hip_graph_total_launches must match hip_graph_replay.total_graph_launches''),
                                  whenp
                                    (\<not> is_False (vget metadata' ''gpu_event_timing''))
                                    (report
                                       ''hip_graph_replay captures must report gpu_event_timing=false''),
                                  whenp
                                    (\<not> eq_str
                                       (vget metadata' ''gpu_event_timing_reason'')
                                       ''hip_graph_replay_wall_clock_only'')
                                    (report
                                       ''hip_graph_replay captures must report gpu_event_timing_reason=hip_graph_replay_wall_clock_only''),
                                  whenp
                                    (\<not> eq_str
                                       (vget metadata' ''gpu_event_timing_status'')
                                       ''not_requested_graph_replay'')
                                    (report
                                       ''hip_graph_replay captures must report gpu_event_timing_status=not_requested_graph_replay'')])]))]))"

end
