(* ===== verification/Schema_Backend.thy ===== *)
theory Schema_Backend
  imports Schema_Predicates
begin

text \<open>
  \<open>tools/benchmark_schema/backend_metadata.py\<close>: the backend description of a capture against the backend that
  was selected, with the matrix instruction an AMDGPU builtin kernel stands for.
\<close>

definition amdgpu_builtin_matrix_family :: "string \<Rightarrow> string option" where
  "amdgpu_builtin_matrix_family selected_kernel' =
     (if contains ''_mfma_'' selected_kernel'
      then Some ''mfma''
      else if contains ''_smfmac_'' selected_kernel'
      then Some ''smfmac''
      else if contains ''_swmmac_'' selected_kernel'
      then Some ''swmmac''
      else if contains ''_wmma_'' selected_kernel' then Some ''wmma'' else None)"

definition amdgpu_builtin_matrix_shape :: "string \<Rightarrow> string option" where
  "amdgpu_builtin_matrix_shape selected_kernel' =
     (case find (\<lambda>shape. contains
       shape
       selected_kernel') [''32x32x32'', ''32x32x16'', ''16x16x64'', ''16x16x32'', ''16x16x16''] of
        Some shape \<Rightarrow> Some shape
      | None \<Rightarrow> None)"

definition amdgpu_builtin_matrix_dtype :: "string \<Rightarrow> string option" where
  "amdgpu_builtin_matrix_dtype selected_kernel' =
     (case find (\<lambda>dtype. contains
       (''_'' @ dtype)
       selected_kernel') [''iu4'', ''iu8'', ''i8''] of
        Some dtype \<Rightarrow> Some dtype
      | None \<Rightarrow> None)"

definition amdgpu_builtin_matrix_sparsity :: "string option \<Rightarrow> string option" where
  "amdgpu_builtin_matrix_sparsity family =
     (if family = None
      then None
      else Some
             (if opt_list family \<in> set [''smfmac'', ''swmmac'']
              then ''structured_4_2''
              else ''dense''))"

definition semantics_are_finite_u8 :: "pydict \<Rightarrow> bool chk" where
  "semantics_are_finite_u8 data =
     c_in (dget data ''semantics'') [''finite_ring_u8'', ''finite_field_u8'']"

definition builtin_target_family :: "pydict \<Rightarrow> string option" where
  "builtin_target_family data =
     (let device = dget data ''device'';
          target = if is_dict device then vget device ''gcn_arch'' else PNone
      in if \<not> is_str target
         then None
         else if starts_with ''gfx942'' (str_of target)
         then Some ''cdna3''
         else if starts_with ''gfx110'' (str_of target)
         then Some ''rdna3''
         else if str_of target \<in> set [''gfx1200'', ''gfx1201''] then Some ''rdna4'' else None)"

definition builtin_allowed_selected_kernels :: "pydict \<Rightarrow> string list option chk" where
  "builtin_allowed_selected_kernels data =
     (let target_family' = builtin_target_family data in
      if target_family' = None
      then cret None
      else cbind (semantics_are_finite_u8 data) (\<lambda>finite'.
           cret
             (if opt_list target_family' = ''cdna3''
              then let dense = if finite'
                               then [''amdgpu_builtin_cdna3_mfma_i32_16x16x32_i8_finite_u8_epilogue_v1'',
                                     ''amdgpu_builtin_cdna3_mfma_i32_32x32x16_i8_finite_u8_epilogue_v1'']
                               else [''amdgpu_builtin_cdna3_mfma_i32_16x16x32_i8_centered_epilogue_v1'',
                                     ''amdgpu_builtin_cdna3_mfma_i32_32x32x16_i8_centered_epilogue_v1''] in
                   Some
                     (dense @
                      [''amdgpu_builtin_cdna3_smfmac_i32_16x16x64_i8_sparse_a_v1'',
                       ''amdgpu_builtin_cdna3_smfmac_i32_32x32x32_i8_sparse_a_v1''])
              else if opt_list target_family' = ''rdna3''
              then Some
                     (if finite'
                      then [''amdgpu_builtin_rdna3_wmma_i32_16x16x16_iu8_finite_u8_epilogue_v1'']
                      else [''amdgpu_builtin_rdna3_wmma_i32_16x16x16_iu8_centered_epilogue_v1''])
              else if opt_list target_family' = ''rdna4''
              then let dense = if finite'
                               then [''amdgpu_builtin_rdna4_wmma_i32_16x16x16_iu8_finite_u8_epilogue_v1'']
                               else [''amdgpu_builtin_rdna4_wmma_i32_16x16x16_iu8_centered_epilogue_v1''] in
                   Some (dense @ [''amdgpu_builtin_rdna4_swmmac_i32_16x16x32_iu8_sparse_a_v1''])
              else None)))"

definition amdgpu_builtin_matrix_operand_signedness :: "string \<Rightarrow> string option" where
  "amdgpu_builtin_matrix_operand_signedness selected_kernel' =
     (let dtype = amdgpu_builtin_matrix_dtype selected_kernel' in
      if opt_in dtype [''i8'', ''iu8'']
      then Some ''signed_i8x_signed_i8''
      else if dtype = Some ''iu4'' then Some ''signed_i4x_signed_i4_research_only'' else None)"

definition amdgpu_builtin_matrix_sparse_contract :: "string \<Rightarrow> string option" where
  "amdgpu_builtin_matrix_sparse_contract selected_kernel' =
     (let family = amdgpu_builtin_matrix_family selected_kernel' in
      if amdgpu_builtin_matrix_sparsity family = Some ''structured_4_2''
      then Some ''a_4_to_2_structured_k_v1''
      else None)"

definition amdgpu_builtin_matrix_sparse_dense_operand :: "string \<Rightarrow> string option" where
  "amdgpu_builtin_matrix_sparse_dense_operand selected_kernel' =
     (if opt_truthy (amdgpu_builtin_matrix_sparse_contract selected_kernel')
      then Some ''B''
      else None)"

definition amdgpu_builtin_matrix_sparse_index_layout :: "string \<Rightarrow> string option" where
  "amdgpu_builtin_matrix_sparse_index_layout selected_kernel' =
     (if opt_truthy (amdgpu_builtin_matrix_sparse_contract selected_kernel')
      then Some ''canonical_2bit_k_groups_v1_low2_first_value_high2_second_value''
      else None)"

definition amdgpu_builtin_matrix_a_value_contract :: "pydict \<Rightarrow> string \<Rightarrow> string option chk" where
  "amdgpu_builtin_matrix_a_value_contract data selected_kernel' =
     (if amdgpu_builtin_matrix_family selected_kernel' = None
      then cret None
      else cbind (semantics_are_finite_u8 data) (\<lambda>finite'.
           cret
             (if opt_truthy (amdgpu_builtin_matrix_sparse_contract selected_kernel')
              then Some
                     (if finite'
                      then ''unsigned_u8_public_values_centered_for_matrix_core''
                      else ''signed_i8_centered_residue_planes'')
              else Some
                     (if finite'
                      then ''dense_a_public_u8_centered_for_matrix_core''
                      else ''dense_a_centered_i8_residue_planes''))))"

definition amdgpu_builtin_matrix_b_value_contract :: "pydict \<Rightarrow> string \<Rightarrow> string option chk" where
  "amdgpu_builtin_matrix_b_value_contract data selected_kernel' =
     (if amdgpu_builtin_matrix_family selected_kernel' = None
      then cret None
      else cmap
             (\<lambda>x. Some x)
             (cif
                (semantics_are_finite_u8 data)
                (cret ''dense_b_public_u8_centered_for_matrix_core'')
                (cret ''dense_b_centered_i8_residue_planes'')))"

definition amdgpu_builtin_rdna_integer_modifier_policy :: "string \<Rightarrow> (string \<times> string) list option" where
  "amdgpu_builtin_rdna_integer_modifier_policy selected_kernel' =
     (if \<not> opt_in (amdgpu_builtin_matrix_family selected_kernel') [''wmma'', ''swmmac'']
      then None
      else Some
             [(''NEG[0]'', ''A operand signedness: 0 unsigned, 1 signed''),
              (''NEG[1]'', ''B operand signedness: 0 unsigned, 1 signed''),
              (''NEG[2]'', ''must be zero for integer WMMA/SWMMAC''),
              (''NEG_HI'', ''must be zero for integer WMMA/SWMMAC'')])"

definition autotune_key_contains_all :: "pydict \<Rightarrow> string list \<Rightarrow> bool" where
  "autotune_key_contains_all metadata' tokens \<longleftrightarrow>
     (let key = dget metadata' ''autotune_key'' in
      is_str key \<and> list_all (\<lambda>token. contains token (str_of key)) tokens)"

definition correctness_backend_checks :: "pydict \<Rightarrow> pyval \<Rightarrow> pyval \<Rightarrow> unit chk" where
  "correctness_backend_checks data metadata' selected_backend =
     cwhen
       (c_in selected_backend CURRENT_CORRECTNESS_BACKENDS)
       (cseq
          [whenp
             (\<not> is_False (vget metadata' ''accelerator_backend''))
             (report
                ''current correctness backends must set backend_metadata.accelerator_backend=false''),
           whenp
             (\<not> is_True (vget metadata' ''correctness_backend''))
             (report
                ''current correctness backends must set backend_metadata.correctness_backend=true''),
           whenp
             (\<not> is_False (vget metadata' ''matrix_engine_backend''))
             (report
                ''current correctness backends must set backend_metadata.matrix_engine_backend=false''),
           whenp
             (\<not> is_True (vget metadata' ''compiled_kernel_available''))
             (report
                ''current correctness backends must set backend_metadata.compiled_kernel_available=true''),
           whenp
             (\<not> is_True (vget metadata' ''exact_differential_validated''))
             (report
                ''current correctness backends must set backend_metadata.exact_differential_validated=true''),
           whenp
             (\<not> is_False (vget metadata' ''performance_validated''))
             (report
                ''current correctness backends must set backend_metadata.performance_validated=false''),
           whenp
             (\<not> eq_str
                (vget metadata' ''capability_status'')
                ''implemented_correctness_backend'')
             (report
                ''current correctness backends must use capability_status=implemented_correctness_backend'')])"

definition hipblaslt_checks :: "pydict \<Rightarrow> pyval \<Rightarrow> pyval \<Rightarrow> unit chk" where
  "hipblaslt_checks data metadata' selected_backend =
     whenp
       (eq_str selected_backend ''hipblaslt'')
       (let expected = [(''selected_kernel'',
                         ''hipblaslt_int8_i32_scratch_reduce_specialized_251_255_256_v2''),
                        (''accelerator_library'', ''hipBLASLt''),
                        (''capability_status'', ''implemented_baseline_backend''),
                        (''workspace_mode'', ''resident_device_buffers_with_hipblaslt_scratch''),
                        (''isa_evidence'',
                         ''hipblaslt_library_int8_matmul_specialized_reduce_251_255_256'')];
            bool_expected = [(''accelerator_backend'', True),
                             (''correctness_backend'', True),
                             (''matrix_engine_backend'', True),
                             (''compiled_kernel_available'', True),
                             (''exact_differential_validated'', True)];
            epilogue = vget metadata' ''epilogue_mode''
        in cseq
             [cfor expected (\<lambda>(key, value).
                whenp
                  (\<not> eq_str (vget metadata' key) value)
                  (report
                     (''hipBLASLt captures must use backend_metadata.'' @ key @ ''='' @ value))),
              cfor bool_expected (\<lambda>(key, value).
                whenp
                  (vget metadata' key \<noteq> PBool value)
                  (report
                     (''hipBLASLt captures must use backend_metadata.'' @
                      key @
                      ''='' @
                      py_str (PBool value)))),
              cwhen
                (cnot
                   (c_in
                      epilogue
                      [''separate_i32_scratch_reduce_then_crt_export'',
                       ''separate_i32_scratch_reduce_rns_output'',
                       ''separate_i32_scratch_reduce_then_canonical_u8_export'']))
                (report
                   ''hipBLASLt captures must report a separate INT32 scratch reduction epilogue'')])"

definition vector_alu_checks :: "pydict \<Rightarrow> pyval \<Rightarrow> pyval \<Rightarrow> unit chk" where
  "vector_alu_checks data metadata' selected_backend =
     whenp
       (eq_str selected_backend ''hip-vector-alu-int64'')
       (let runtime_capture = is_vector_alu_runtime_capture data;
            expected = [(''accelerator_library'', ''HIP runtime''),
                        (''capability_status'',
                         if runtime_capture
                         then ''implemented_native_bounded_vector_backend''
                         else ''benchmark_only_vector_alu_baseline''),
                        (''epilogue_mode'', ''direct_int64_export''),
                        (''workspace_mode'',
                         if runtime_capture
                         then ''native_device_i64_u64_buffers''
                         else ''benchmark_owned_device_buffers''),
                        (''isa_evidence'',
                         ''source_level_192bit_limb_accumulator_no_matrix_engine'')]
        in cseq
             [cfor expected (\<lambda>(key, value).
                whenp
                  (\<not> eq_str (vget metadata' key) value)
                  (report
                     (''hip-vector-alu-int64 captures must use backend_metadata.'' @
                      key @
                      ''='' @
                      value))),
              cwhen
                (cnot (c_in (vget metadata' ''selected_kernel'') VECTOR_ALU_SELECTED_KERNELS))
                (report
                   ''hip-vector-alu-int64 captures must report a known vector-ALU selected_kernel''),
              cbind (all_of
                       [cret (py_eq (dget data ''n'') (PInt 1)),
                        c_le (PInt 4096) (dget_or data ''k'' (PInt 0))]) (\<lambda>gemv_n1.
              let gemv_small_n = is_int_value (dget data ''n'') \<and>
                                 (1 < int_of (dget data ''n'') \<and>
                                  int_of (dget data ''n'') \<le> 8) \<and>
                                 is_int_value (dget data ''k'') \<and>
                                 512 \<le> int_of (dget data ''k'');
                  expected_kernel = if eq_str (dget data ''semantics'') ''bounded_i64'' \<and>
                                       gemv_n1
                                    then ''hip_vector_alu_i64_gemv_n1_exact_192b_v1''
                                    else if eq_str (dget data ''semantics'') ''bounded_i64'' \<and>
                                            gemv_small_n
                                         then ''hip_vector_alu_i64_gemv_small_n_exact_192b_v1''
                                         else if eq_str (dget data ''semantics'') ''bounded_i64''
                                              then ''hip_vector_alu_i64_exact_192b_v1''
                                              else if gemv_n1
                                                   then ''hip_vector_alu_u64_gemv_n1_exact_192b_v1''
                                                   else if gemv_small_n
                                                        then ''hip_vector_alu_u64_gemv_small_n_exact_192b_v1''
                                                        else ''hip_vector_alu_u64_exact_192b_v1'';
                  bool_expected = [(''accelerator_backend'', False),
                                   (''correctness_backend'', True),
                                   (''matrix_engine_backend'', False),
                                   (''compiled_kernel_available'', True),
                                   (''exact_differential_validated'', True),
                                   (''performance_validated'', False)]
              in cseq
                   [whenp
                      (\<not> eq_str (vget metadata' ''selected_kernel'') expected_kernel)
                      (report
                         (''hip-vector-alu-int64 captures must use selected_kernel='' @
                          expected_kernel)),
                    cfor bool_expected (\<lambda>(key, value).
                      whenp
                        (vget metadata' key \<noteq> PBool value)
                        (report
                           (''hip-vector-alu-int64 captures must use backend_metadata.'' @
                            key @
                            ''='' @
                            py_str (PBool value))))])])"

definition amdgpu_builtin_checks :: "pydict \<Rightarrow> pyval \<Rightarrow> pyval \<Rightarrow> unit chk" where
  "amdgpu_builtin_checks data metadata' selected_backend =
     whenp
       (eq_str selected_backend ''amdgpu-builtins'')
       (let amdgpu_kernel = py_str (py_or (vget metadata' ''selected_kernel'') (PStr [])) in
        cseq
          [cwhen
             (any_of
                [cnot (c_in (vget metadata' ''selected_kernel'') SELECTED_KERNELS),
                 cret
                   (\<not> starts_with
                      ''amdgpu_builtin_''
                      (py_str (vget metadata' ''selected_kernel'')))])
             (report
                ''amdgpu-builtins captures must report a registered amdgpu_builtin_* selected_kernel''),
           whenp
             (contains ''_research_'' amdgpu_kernel)
             (report
                ''research-only amdgpu-builtins kernels cannot be reported as executed runtime captures''),
           cbind (builtin_allowed_selected_kernels data) (\<lambda>allowed_kernels.
           cseq
             [if allowed_kernels = None
              then report ''amdgpu-builtins captures require a supported device.gcn_arch target''
              else whenp
                     (amdgpu_kernel \<notin> set (opt_list allowed_kernels))
                     (report
                        ''amdgpu-builtins selected_kernel must match capture semantics and device target''),
              cbind (cbind
                       (amdgpu_builtin_matrix_a_value_contract data amdgpu_kernel)
                       (\<lambda>x.
                        cmap
                          (\<lambda>x'. [(''matrix_instruction_family'',
                                          amdgpu_builtin_matrix_family amdgpu_kernel),
                                         (''matrix_instruction_shape'',
                                          amdgpu_builtin_matrix_shape amdgpu_kernel),
                                         (''matrix_instruction_dtype'',
                                          amdgpu_builtin_matrix_dtype amdgpu_kernel),
                                         (''matrix_operand_signedness'',
                                          amdgpu_builtin_matrix_operand_signedness amdgpu_kernel),
                                         (''matrix_a_value_contract'', x),
                                         (''matrix_b_value_contract'', x'),
                                         (''matrix_sparse_contract'',
                                          amdgpu_builtin_matrix_sparse_contract amdgpu_kernel),
                                         (''matrix_sparse_dense_operand'',
                                          amdgpu_builtin_matrix_sparse_dense_operand amdgpu_kernel),
                                         (''matrix_sparse_a_compression_index_layout'',
                                          amdgpu_builtin_matrix_sparse_index_layout amdgpu_kernel)])
                          (amdgpu_builtin_matrix_b_value_contract
                             data
                             amdgpu_kernel))) (\<lambda>expected_matrix.
              cbind (cmap
                       (\<lambda>x. amdgpu_builtin_matrix_sparsity x)
                       (c_index
                          expected_matrix
                          ''matrix_instruction_family'')) (\<lambda>item_value.
              let expected_matrix = dict_set
                                      ''matrix_instruction_sparsity''
                                      item_value
                                      expected_matrix in
              let expected_rdna_policy = amdgpu_builtin_rdna_integer_modifier_policy
                                           amdgpu_kernel in
              cseq
                [cfor expected_matrix (\<lambda>(key, value).
                   whenp
                     (\<not> py_eq (vget metadata' key) (opt_val value))
                     (report
                        (''amdgpu-builtins captures must use backend_metadata.'' @
                         key @
                         ''='' @
                         py_str (opt_val value)))),
                 whenp
                   (\<not> py_eq
                      (vget metadata' ''matrix_rdna_integer_modifier_policy'')
                      (opt_strs_val expected_rdna_policy))
                   (report
                      ''amdgpu-builtins captures must report the expected RDNA integer modifier policy''),
                 whenp
                   (\<not> eq_str (vget metadata' ''accelerator_library'') ''AMDGPU builtins'')
                   (report
                      ''amdgpu-builtins captures must use accelerator_library=AMDGPU builtins''),
                 whenp
                   (\<not> eq_str
                      (vget metadata' ''capability_status'')
                      ''implemented_opt_in_amdgpu_builtin_backend'')
                   (report
                      ''amdgpu-builtins captures must use capability_status=implemented_opt_in_amdgpu_builtin_backend''),
                 whenp
                   (\<not> starts_with
                      ''amdgpu_builtin_''
                      (py_str (dget_or (items_of metadata') ''epilogue_mode'' (PStr []))))
                   (report ''amdgpu-builtins captures must report an amdgpu_builtin_* epilogue''),
                 cbind (c_in
                          (dget data ''semantics'')
                          [''finite_ring_u8'', ''finite_field_u8'']) (\<lambda>finite_sparse_capture.
                 let expected_workspace = if contains ''sparse_a'' amdgpu_kernel
                                          then if finite_sparse_capture
                                               then ''resident_sparse_a_explicit_4_to_2_contract_dense_b_finite_u8''
                                               else ''resident_sparse_a_explicit_4_to_2_contract_dense_b_rns''
                                          else ''resident_device_buffers_direct_amdgpu_builtin_matrix_core_no_dense_pack_workspace'';
                     expected_isa = if contains ''sparse_a'' amdgpu_kernel
                                    then ''amdgpu_builtin_sparse_a_matrix_core_isa_gate_no_divide''
                                    else ''amdgpu_builtin_matrix_isa_gate_no_divide'';
                     bool_expected = [(''accelerator_backend'', True),
                                      (''correctness_backend'', True),
                                      (''matrix_engine_backend'', True),
                                      (''compiled_kernel_available'', True),
                                      (''exact_differential_validated'', True)]
                 in cseq
                      [whenp
                         (\<not> eq_str (vget metadata' ''workspace_mode'') expected_workspace)
                         (report
                            (''amdgpu-builtins captures must use workspace_mode='' @
                             expected_workspace)),
                       whenp
                         (\<not> eq_str (vget metadata' ''isa_evidence'') expected_isa)
                         (report
                            (''amdgpu-builtins captures must use isa_evidence='' @ expected_isa)),
                       whenp
                         (contains ''sparse_a'' amdgpu_kernel)
                         (let sparse_value_signedness = if finite_sparse_capture
                                                        then ''unsigned_u8''
                                                        else ''signed_i8'';
                              required_sparse_tokens = [''sparse_contract=a_4_to_2_structured_k_v1'',
                                                        ''sparse_operand=A'',
                                                        ''sparse_group_size=4'',
                                                        ''sparse_nonzeros_per_group=2'',
                                                        ''sparse_index_layout=canonical_2bit_k_groups_v1'',
                                                        ''sparse_value_signedness='' @
                                                        sparse_value_signedness,
                                                        ''dense_operand=B'']
                          in whenp
                               (\<not> autotune_key_contains_all
                                  (items_of metadata')
                                  required_sparse_tokens)
                               (report
                                  (''amdgpu-builtins sparse captures must include '' @
                                   sparse_value_signedness @
                                   '' sparse-A contract tokens in backend_metadata.autotune_key''))),
                       cfor bool_expected (\<lambda>(key, value).
                         whenp
                           (vget metadata' key \<noteq> PBool value)
                           (report
                              (''amdgpu-builtins captures must use backend_metadata.'' @
                               key @
                               ''='' @
                               py_str (PBool value))))])]))])])"

definition validate_backend_metadata :: "pydict \<Rightarrow> unit chk" where
  "validate_backend_metadata data =
     cbind (require data ''backend_metadata'' ''dict'') (\<lambda>metadata'.
     whenp
       (\<not> (\<not> is_dict metadata'))
       (let selected_backend = dget data ''backend_selected'';
            selected_kernel_for_source = dget data ''selected_kernel'';
            sparse_a_capture = is_str selected_kernel_for_source \<and>
                               contains ''sparse_a'' (str_of selected_kernel_for_source)
        in cbind (if is_wrap64_rocwmma_candidate data
                  then cret ''rns8_bench_wrap64_rocwmma_candidate''
                  else if sparse_a_capture
                       then cret ''rns8_bench_explicit_sparse_a_4_to_2_path''
                       else cif
                              (is_public_oneshot_capture data)
                              (cret ''rns8_bench_public_oneshot_api'')
                              (cif
                                 (is_direct_hip_bounded_residue_channel_fusion_capture data)
                                 (cret ''rns8_bench_residue_channel_fusion_path'')
                                 (cif
                                    (is_direct_hip_bounded_uniform_small_transient_capture data)
                                    (cret ''rns8_bench_uniform_small_i8_ab_transient_path'')
                                    (cif
                                       (all_of
                                          [is_direct_hip_bounded_native_a_reuse_b_capture data,
                                           cret
                                             (is_direct_hip_bounded_native_a_reuse_b_uniform_small
                                                data)])
                                       (cret ''rns8_bench_uniform_small_i8_ab_reuse_b_path'')
                                       (cif
                                          (is_direct_hip_bounded_uniform_small_reuse_a_capture data)
                                          (cret ''rns8_bench_uniform_small_i8_ab_reuse_a_path'')
                                          (cif
                                             (is_direct_hip_bounded_native_b_reuse_a_large_colpair_capture
                                                data)
                                             (cret ''rns8_bench_native_b_reuse_a_path'')
                                             (cif
                                                (is_direct_hip_bounded_skinny_gemv_small_n_capture
                                                   data)
                                                (cret ''rns8_bench_skinny_gemv_small_n_path'')
                                                (cif
                                                   (is_direct_hip_bounded_skinny_gemv_n1_capture
                                                      data)
                                                   (cret ''rns8_bench_skinny_gemv_n1_path'')
                                                   (cif
                                                      (any_of
                                                         [is_direct_hip_bounded_native_a_reuse_b_capture
                                                            data,
                                                          is_direct_hip_finite_native_a_reuse_b_capture
                                                            data])
                                                      (cret ''rns8_bench_native_a_reuse_b_path'')
                                                      (cret
                                                         (if is_vector_alu_runtime_capture data
                                                          then ''rns8_get_plan_backend_info''
                                                          else if eq_str
                                                                    selected_backend
                                                                    ''hip-vector-alu-int64''
                                                               then ''rns8_bench_vector_alu_baseline''
                                                               else ''rns8_get_plan_backend_info''))))))))))) (\<lambda>expected_source.
           let selected_kernel' = vget metadata' ''selected_kernel'';
               workspace_bytes = vget metadata' ''workspace_required_bytes''
           in cseq
                [whenp
                   (\<not> eq_str (vget metadata' ''source'') expected_source)
                   (report (''backend_metadata.source must be '' @ expected_source)),
                 whenp
                   (\<not> is_str selected_kernel' \<or> \<not> truthy selected_kernel')
                   (report ''backend_metadata.selected_kernel must be a nonempty string''),
                 whenp
                   (\<not> py_eq (dget data ''selected_kernel'') selected_kernel')
                   (report ''selected_kernel must match backend_metadata.selected_kernel''),
                 cfor [''accelerator_backend'', ''correctness_backend'', ''matrix_engine_backend'',
                       ''compiled_kernel_available'', ''exact_differential_validated'',
                       ''performance_validated''] (\<lambda>key.
                   whenp
                     (\<not> is_bool (vget metadata' key))
                     (report (''backend_metadata.'' @ key @ '' must be a boolean''))),
                 cfor [''accelerator_library'', ''accelerator_version'', ''capability_status'',
                       ''epilogue_mode'', ''workspace_mode'', ''isa_evidence'', ''autotune_key''] (\<lambda>key.
                   let value = vget metadata' key in
                   whenp
                     (\<not> is_None value \<and> \<not> is_str value)
                     (report (''backend_metadata.'' @ key @ '' must be a string or null''))),
                 cfor [''capability_status'', ''epilogue_mode'', ''workspace_mode'',
                       ''isa_evidence'', ''autotune_key''] (\<lambda>key.
                   let value = vget metadata' key in
                   whenp
                     (\<not> is_str value \<or> \<not> truthy value)
                     (report (''backend_metadata.'' @ key @ '' must be a nonempty string''))),
                 whenp
                   (\<not> is_int_value workspace_bytes \<or> int_of workspace_bytes < 0)
                   (report
                      ''backend_metadata.workspace_required_bytes must be a nonnegative integer''),
                 correctness_backend_checks data metadata' selected_backend,
                 hipblaslt_checks data metadata' selected_backend,
                 vector_alu_checks data metadata' selected_backend,
                 amdgpu_builtin_checks data metadata' selected_backend])))"

end
