(* ===== verification/Schema_Output.thy ===== *)
theory Schema_Output
  imports Schema_Predicates
begin

text \<open>
  \<open>tools/benchmark_schema/output_policies.py\<close>: the leading dimension, padding and destination layout of the
  exported matrix, and the staging policy of the export.
\<close>

definition validate_output_layout_metadata :: "pydict \<Rightarrow> pydict \<Rightarrow> unit chk" where
  "validate_output_layout_metadata data metadata' =
     (let present = list_ex
                      (\<lambda>key. has_key data key)
                      [''output_logical_ld'', ''output_ld_padding''] \<or>
                    list_ex
                      (\<lambda>key. has_key metadata' key)
                      [''benchmark_output_destination_layout'', ''benchmark_output_logical_ld'',
                       ''benchmark_output_ld_padding''] in
      whenp
        (\<not> (\<not> present))
        (let n = dget data ''n'';
             output_ld = dget data ''output_logical_ld'';
             padding = dget data ''output_ld_padding''
         in if \<not> is_int_value output_ld \<or> int_of output_ld \<le> 0
            then report ''output_logical_ld must be a positive integer''
            else if \<not> is_int_value padding \<or> int_of padding < 0
            then report ''output_ld_padding must be a nonnegative integer''
            else let layout = dget metadata' ''benchmark_output_destination_layout'';
                     staging_policy = dget metadata' ''direct_hip_export_staging_policy''
                 in cseq
                      [whenp
                         (is_int_value n \<and>
                          \<not> py_eq output_ld (PInt (int_of n + int_of padding)))
                         (report ''output_logical_ld must equal n + output_ld_padding''),
                       cif (cnot (c_in layout OUTPUT_DESTINATION_LAYOUTS))
                         (report
                            (''timing_metadata.benchmark_output_destination_layout must be one of '' @
                             py_str (str_list (sorted_set OUTPUT_DESTINATION_LAYOUTS))))
                         (let expected_layout = if py_eq padding (PInt 0)
                                                then ''contiguous_row_major''
                                                else ''padded_row_major'' in
                          whenp
                            (\<not> eq_str layout expected_layout)
                            (report
                               (''timing_metadata.benchmark_output_destination_layout must be '' @
                                expected_layout))),
                       whenp
                         (\<not> py_eq (dget metadata' ''benchmark_output_logical_ld'') output_ld)
                         (report
                            ''timing_metadata.benchmark_output_logical_ld must match output_logical_ld''),
                       whenp
                         (\<not> py_eq (dget metadata' ''benchmark_output_ld_padding'') padding)
                         (report
                            ''timing_metadata.benchmark_output_ld_padding must match output_ld_padding''),
                       cwhen
                         (cnot (c_in staging_policy DIRECT_HIP_EXPORT_STAGING_POLICIES))
                         (report
                            (''timing_metadata.direct_hip_export_staging_policy must be one of '' @
                             py_str (str_list (sorted_set DIRECT_HIP_EXPORT_STAGING_POLICIES))))]))"

end
