(* ===== verification/Schema_Contract.thy ===== *)
theory Schema_Contract
  imports Schema_Output
begin

text \<open>
  \<open>tools/benchmark_schema/contract_metadata.py\<close>: the contract objects of a capture, one section of
  \<open>validate_contract_metadata\<close> per definition. An object that is absent is accepted.
\<close>

text \<open>The loop of \<open>_validate_setup_breakdown\<close> stops at the first part that is not a nonnegative number.\<close>

fun breakdown_parts :: "string \<Rightarrow> pyval \<Rightarrow> string list \<Rightarrow> (string \<times> pyfloat) list \<Rightarrow>
    (string \<times> pyfloat) list option chk" where
  "breakdown_parts fld v [] parts = cret (Some parts)"
| "breakdown_parts fld v (key # keys) parts =
     cif (all_of [c_is_number (vget v key), cret (val_le (PInt 0) (vget v key))])
       (breakdown_parts fld v keys (dict_set key (num_float (vget v key)) parts))
       (cthen (report (fld @ ''.'' @ key @ '' must be a nonnegative number'')) (cret None))"

definition unknown_parts :: "string \<Rightarrow> pyval \<Rightarrow> unit chk" where
  "unknown_parts fld v =
     (let extra = sort (filter (\<lambda>key. key \<notin> set PREPACK_SETUP_BREAKDOWN_KEYS) (map fst (items_of v)))
      in whenp (extra \<noteq> []) (report (fld @ '' has unknown keys: '' @ py_str (str_list extra))))"

definition setup_breakdown :: "(pyfloat \<Rightarrow> pyfloat \<Rightarrow> bool) \<Rightarrow> string \<Rightarrow> pyval \<Rightarrow> string \<Rightarrow> pyval \<Rightarrow>
    (string \<times> pyfloat) list option chk" where
  "setup_breakdown same cost_name v fld setup_cost =
     (if is_None v then cret None
      else if \<not> is_dict v
      then cthen (report (fld @ '' must be an object or null'')) (cret None)
      else cbind (breakdown_parts fld v PREPACK_SETUP_BREAKDOWN_KEYS []) (\<lambda>parts.
      (case parts of
         None \<Rightarrow> cret None
       | Some breakdown \<Rightarrow> cthen (cseq
           [unknown_parts fld v,
            cwhen (c_is_number setup_cost)
              (whenp (\<not> same (float_sum (map snd breakdown)) (num_float setup_cost))
                (report (fld @ '' must sum to '' @ cost_name)))])
           (cret (Some breakdown)))))"

text \<open>\<open>abs(total - float(setup_cost)) > 1.0e-6\<close> is the test here, \<open>_close\<close> in \<open>reuse_timing.py\<close>.\<close>

definition validate_setup_breakdown :: "pydict \<Rightarrow> pyval \<Rightarrow> string \<Rightarrow> pyval \<Rightarrow>
    (string \<times> pyfloat) list option chk" where
  "validate_setup_breakdown data v fld setup_cost =
     setup_breakdown (\<lambda>total cost. \<not> flt_lt (rnd64 (1 / 1000000)) (flt_abs (flt_sub total cost)))
       ''reuse_contract.setup_cost_us'' v fld setup_cost"

definition validate_prepack_setup_breakdown :: "pydict \<Rightarrow> pyval \<Rightarrow> string \<Rightarrow> pyval \<Rightarrow>
    (string \<times> pyfloat) list option chk" where
  "validate_prepack_setup_breakdown data v fld setup_cost =
     setup_breakdown close_to ''prepack setup cost'' v fld setup_cost"

text \<open>The fields of a serialized cache key \<open>prepack-v2;k=v;...\<close>, \<open>None\<close> where it is malformed.\<close>

fun split_key_fields :: "string list \<Rightarrow> (string \<times> string) list \<Rightarrow> (string \<times> string) list option" where
  "split_key_fields [] found = Some found"
| "split_key_fields (part # parts) found =
     (case split_once CHR ''='' part of
        None \<Rightarrow> None
      | Some (key, v) \<Rightarrow>
          if key = [] \<or> has_key found key then None else split_key_fields parts (dict_set key v found))"

definition prepack_cache_key_fields :: "pyval \<Rightarrow> (string \<times> string) list option" where
  "prepack_cache_key_fields v =
     (case v of
        PStr s \<Rightarrow> if starts_with ''prepack-v2;'' s then split_key_fields (tl (split_on CHR '';'' s)) [] else None
      | _ \<Rightarrow> None)"

section \<open>The contract objects\<close>

definition validate_counter_snapshot :: "pydict \<Rightarrow> string \<Rightarrow> pyval \<Rightarrow> unit chk" where
  "validate_counter_snapshot data label value =
     (if \<not> is_dict value
      then report (label @ '' must be an object'')
      else cfor [''allocate_calls'', ''free_calls'', ''allocated_bytes''] (\<lambda>key.
             let item = vget value key in
             whenp
               (\<not> is_int_value item \<or> int_of item < 0)
               (report (label @ ''.'' @ key @ '' must be a nonnegative integer''))))"

definition EXPORT_OUTPUT_LAYOUTS :: "string list" where
  "EXPORT_OUTPUT_LAYOUTS =
     [''unknown'', ''scalar_i64'', ''scalar_u64'', ''finite_u8'', ''fixed_u64_limbs'']"

definition EXPORT_SELECTOR_STATUS_POLICIES :: "string list" where
  "EXPORT_SELECTOR_STATUS_POLICIES = [''unknown'', ''none'', ''range_checked_status_buffer'']"

definition EXPORT_D2H_POLICIES :: "string list" where
  "EXPORT_D2H_POLICIES =
     [''unknown'', ''host_ld_padded'', ''compact_contiguous'', ''device_residue_current'']"

definition EXPORT_FINAL_OUTPUT_MODES :: "string list" where
  "EXPORT_FINAL_OUTPUT_MODES =
     [''final_host_output'', ''residue_chain_no_final_export'', ''chain_internal_residue_output'']"

definition REVIEWABLE_EXPORT_VARIANTS :: "string list" where
  "REVIEWABLE_EXPORT_VARIANTS = [''default'', ''exact-wide-fixed-limb-export'']"

definition ERROR_DETECTION_MODES :: "string list" where
  "ERROR_DETECTION_MODES =
     [''not_requested'', ''deterministic_error_check'', ''probabilistic_product_check'',
      ''redundant_residue_check'', ''certificate_check'']"

definition ERROR_DETECTION_FINAL_STATUSES :: "string list" where
  "ERROR_DETECTION_FINAL_STATUSES =
     [''checksum_recorded_reference_required'', ''reference_required'',
      ''exact_cpu_reference_compared'', ''passed'']"

definition CPU_SELECTOR_ROLES :: "string list" where
  "CPU_SELECTOR_ROLES =
     [''not_requested'', ''cpu_baseline'', ''comparison_candidate'', ''unsupported_accelerator'']"

definition RESIDENT_REDESIGN_DIMENSIONS :: "string list" where
  "RESIDENT_REDESIGN_DIMENSIONS =
     [''data_layout'', ''tile_shape'', ''export_interaction'', ''schedule_upload'',
      ''workspace_reuse'']"

definition check_prepack_cache_key :: "pydict \<Rightarrow> pyval \<Rightarrow> (string \<times> string) list option \<Rightarrow> unit chk" where
  "check_prepack_cache_key data runtime_cache cache_key_fields =
     (if cache_key_fields = None
      then report ''runtime prepack cache cache_key must be a prepack-v2 serialized identity''
      else let strict_cache_fields = [(''backend'', vget runtime_cache ''backend''),
                                      (''semantics'', vget runtime_cache ''semantics''),
                                      (''operand'', vget runtime_cache ''operand_role''),
                                      (''m'', dget data ''m''),
                                      (''n'', dget data ''n''),
                                      (''k'', dget data ''k''),
                                      (''source_version'', vget runtime_cache ''source_version''),
                                      (''hip_device_id'', vget runtime_cache ''hip_device_id''),
                                      (''matrix_rows'', vget runtime_cache ''matrix_rows''),
                                      (''matrix_cols'', vget runtime_cache ''matrix_cols''),
                                      (''prefix'', vget runtime_cache ''max_prefix''),
                                      (''finite_modulus'', vget runtime_cache ''finite_modulus''),
                                      (''matrix_layout'',
                                       vget runtime_cache ''matrix_layout_version'')];
               soft_cache_fields = [(''operand_layout'',
                                     vget runtime_cache ''operand_layout_version''),
                                    (''plan_fingerprint'', vget runtime_cache ''plan_fingerprint''),
                                    (''hash'', vget runtime_cache ''cache_key_hash'')]
           in cseq
                [cfor strict_cache_fields (\<lambda>(key, expected).
                   whenp
                     (map_of (opt_list cache_key_fields) key \<noteq> Some (py_str expected))
                     (report
                        (''runtime prepack cache cache_key must include '' @
                         key @
                         ''='' @
                         py_str expected))),
                 cfor soft_cache_fields (\<lambda>(key, expected).
                   let actual = map_of (opt_list cache_key_fields) key in
                   whenp
                     (actual \<noteq> None \<and>
                      py_str expected \<notin> set [opt_list actual, []] \<and>
                      \<not> starts_with
                        (rstrip_char (CHR ''_'') (opt_list actual))
                        (py_str expected) \<and>
                      \<not> starts_with (py_str expected) (opt_list actual))
                     (report
                        (''runtime prepack cache cache_key '' @
                         key @
                         ''='' @
                         opt_list actual @
                         '' != expected '' @
                         py_str expected))),
                 cfor [''target_id'', ''kernel'', ''prepack_kernel'', ''prefix_schedule_hash'',
                       ''tile_m'', ''tile_n'', ''operand_tile_m'', ''operand_tile_n'',
                       ''k_block_size'', ''k_block_cap''] (\<lambda>key.
                   whenp
                     (\<not> opt_truthy (map_of (opt_list cache_key_fields) key))
                     (report (''runtime prepack cache cache_key must include nonempty '' @ key)))])"

definition check_runtime_prepack_cache :: "pydict \<Rightarrow> pyval \<Rightarrow> unit chk" where
  "check_runtime_prepack_cache data runtime_cache =
     (if \<not> is_dict runtime_cache
      then report ''reuse_contract.runtime_prepack_cache must be an object or null''
      else let source_version = vget runtime_cache ''source_version'';
               cache_max_prefix = vget runtime_cache ''max_prefix'';
               residue_policy = py_or (dget data ''residue_count_policy'') (PDict [])
           in cseq
                [cfor [''source'', ''backend'', ''semantics'', ''operand_role'',
                       ''matrix_layout_version'', ''operand_layout_version'', ''cache_scope'',
                       ''cache_key'', ''detail''] (\<lambda>key.
                   whenp
                     (\<not> is_str (vget runtime_cache key))
                     (report
                        (''reuse_contract.runtime_prepack_cache.'' @ key @ '' must be a string''))),
                 cfor [''cache_key_valid'', ''reusable_prepack_cache_available'',
                       ''production_prepack_cache_available''] (\<lambda>key.
                   whenp
                     (\<not> is_bool (vget runtime_cache key))
                     (report
                        (''reuse_contract.runtime_prepack_cache.'' @
                         key @
                         '' must be a boolean''))),
                 cfor [''hip_device_id'', ''matrix_rows'', ''matrix_cols'', ''k'', ''max_prefix'',
                       ''finite_modulus'', ''source_version'', ''plan_fingerprint'',
                       ''cache_key_hash'', ''device_bytes'', ''operand_pack_bytes''] (\<lambda>key.
                   let value = vget runtime_cache key in
                   whenp
                     (\<not> is_int_value value)
                     (report
                        (''reuse_contract.runtime_prepack_cache.'' @
                         key @
                         '' must be an integer''))),
                 whenp
                   (\<not> eq_str (vget runtime_cache ''source'') ''rns8_get_prepack_cache_info'')
                   (report
                      ''reuse_contract.runtime_prepack_cache.source must be rns8_get_prepack_cache_info''),
                 whenp
                   (\<not> eq_str (vget runtime_cache ''backend'') ''rocwmma'')
                   (report ''runtime prepack cache captures must report backend=rocwmma''),
                 whenp
                   (\<not> eq_str (vget runtime_cache ''operand_role'') ''B'')
                   (report ''runtime prepack cache captures must report operand_role=B''),
                 whenp
                   (\<not> is_True (vget runtime_cache ''cache_key_valid''))
                   (report ''runtime prepack cache captures must report cache_key_valid=true''),
                 whenp
                   (\<not> is_True (vget runtime_cache ''reusable_prepack_cache_available''))
                   (report
                      ''runtime prepack cache captures must report reusable_prepack_cache_available=true''),
                 whenp
                   (is_int_value source_version \<and> int_of source_version \<le> 0)
                   (report ''runtime prepack cache captures must report nonzero source_version''),
                 whenp
                   (\<not> py_eq (vget runtime_cache ''backend'') (dget data ''backend_selected''))
                   (report ''runtime prepack cache backend must match backend_selected''),
                 whenp
                   (\<not> py_eq (vget runtime_cache ''semantics'') (dget data ''semantics''))
                   (report ''runtime prepack cache semantics must match capture semantics''),
                 whenp
                   (\<not> py_eq (vget runtime_cache ''matrix_rows'') (dget data ''k''))
                   (report
                      ''runtime prepack cache matrix_rows must match capture k for B operand''),
                 whenp
                   (\<not> py_eq (vget runtime_cache ''matrix_cols'') (dget data ''n''))
                   (report
                      ''runtime prepack cache matrix_cols must match capture n for B operand''),
                 cbind (c_get_or
                          residue_policy
                          ''selected_prefix''
                          (dget data ''prefix'')) (\<lambda>capture_prefix.
                 let expected_modulus = py_or (dget data ''finite_modulus'') (PInt 0);
                     cache_key_fields = prepack_cache_key_fields
                                          (dget_or
                                             (items_of runtime_cache)
                                             ''cache_key''
                                             (PStr []));
                     device_bytes = vget runtime_cache ''device_bytes'';
                     operand_pack_bytes = vget runtime_cache ''operand_pack_bytes''
                 in cseq
                      [if \<not> is_None cache_max_prefix \<and> \<not> is_None capture_prefix
                       then cwhen
                              (c_lt cache_max_prefix capture_prefix)
                              (report
                                 ''runtime prepack cache max_prefix must be >= selected prefix'')
                       else whenp
                              (\<not> py_eq cache_max_prefix capture_prefix)
                              (report
                                 ''runtime prepack cache max_prefix must match selected prefix''),
                       whenp
                         (\<not> py_eq (vget runtime_cache ''finite_modulus'') expected_modulus)
                         (report
                            ''runtime prepack cache finite_modulus must match capture finite_modulus''),
                       whenp
                         (py_eq (vget runtime_cache ''cache_key_hash'') (PInt 0))
                         (report ''runtime prepack cache cache_key_hash must be nonzero''),
                       check_prepack_cache_key data runtime_cache cache_key_fields,
                       whenp
                         (is_int_value device_bytes \<and> int_of device_bytes \<le> 0)
                         (report ''runtime prepack cache device_bytes must be positive''),
                       whenp
                         (is_int_value operand_pack_bytes \<and> int_of operand_pack_bytes \<le> 0)
                         (report ''runtime prepack cache operand_pack_bytes must be positive''),
                       whenp
                         (is_int_value device_bytes \<and>
                          is_int_value operand_pack_bytes \<and>
                          int_of device_bytes < int_of operand_pack_bytes)
                         (report
                            ''runtime prepack cache operand_pack_bytes must not exceed device_bytes''),
                       cwhen
                         (all_of
                            [cret
                               (is_True
                                  (vget runtime_cache ''production_prepack_cache_available'')),
                             cnot
                               (c_in (dget data ''semantics'') [''bounded_i64'', ''bounded_u64''])])
                         (report
                            ''runtime production prepack cache is allowed only for bounded i64/u64 captures'')])])"

definition check_reuse_contract :: "pydict \<Rightarrow> unit chk" where
  "check_reuse_contract data =
     (let reuse = dget data ''reuse_contract'' in
      whenp
        (\<not> is_None reuse)
        (if \<not> is_dict reuse
         then report ''reuse_contract must be an object''
         else let setup_cost = vget reuse ''setup_cost_us'' in
              cseq
                [whenp
                   (\<not> is_bool (vget reuse ''enabled''))
                   (report ''reuse_contract.enabled must be a boolean''),
                 cwhen
                   (cnot (c_in (vget reuse ''operand_role'') REUSE_OPERAND_ROLES))
                   (report
                      (''reuse_contract.operand_role must be one of '' @
                       py_str (str_list (sorted_set REUSE_OPERAND_ROLES)))),
                 cfor [''source_version_inputs'', ''setup_scope'', ''output_domain'', ''next_op'',
                       ''target_fingerprint'', ''backend_fingerprint'', ''workspace_fingerprint''] (\<lambda>key.
                   whenp
                     (\<not> is_str (vget reuse key))
                     (report (''reuse_contract.'' @ key @ '' must be a string''))),
                 cwhen
                   (cnot (c_in (vget reuse ''output_domain'') OUTPUT_CONTRACT_DOMAINS))
                   (report
                      (''reuse_contract.output_domain must be one of '' @
                       py_str (str_list (sorted_set OUTPUT_CONTRACT_DOMAINS)))),
                 cwhen
                   (all_of
                      [cret (\<not> is_None setup_cost),
                       any_of [cnot (c_is_number setup_cost), cret (val_lt setup_cost (PInt 0))]])
                   (report ''reuse_contract.setup_cost_us must be a nonnegative number or null''),
                 cbind (validate_setup_breakdown
                          data
                          (vget reuse ''setup_breakdown_us'')
                          ''reuse_contract.setup_breakdown_us''
                          setup_cost) (\<lambda>setup_breakdown'.
                 let top_level_breakdown = dget data ''prepack_setup_breakdown_us'';
                     repeats = vget reuse ''measured_repeat_count'';
                     break_even = vget reuse ''break_even_repeat_count'';
                     invalidation = vget reuse ''invalidation_reasons'';
                     runtime_cache = vget reuse ''runtime_prepack_cache''
                 in cseq
                      [cwhen
                         (all_of
                            [cret
                               (setup_breakdown' \<noteq> None \<and>
                                \<not> is_None top_level_breakdown),
                             cmap
                               (\<lambda>x. \<not> py_eq
                                  (breakdown_val (Some (opt_list setup_breakdown')))
                                  (breakdown_val x))
                               (validate_setup_breakdown
                                  data
                                  top_level_breakdown
                                  ''prepack_setup_breakdown_us''
                                  setup_cost)])
                         (report
                            ''reuse_contract.setup_breakdown_us must match prepack_setup_breakdown_us''),
                       cfor [''setup_amortized_us'', ''repeat_median_end_to_end_us'',
                             ''setup_inclusive_median_end_to_end_us''] (\<lambda>key.
                         let value = vget reuse key in
                         cwhen
                           (all_of
                              [cret (\<not> is_None value),
                               any_of [cnot (c_is_number value), cret (val_lt value (PInt 0))]])
                           (report
                              (''reuse_contract.'' @
                               key @
                               '' must be a nonnegative number or null''))),
                       whenp
                         (has_key (items_of reuse) ''setup_inclusive_policy'' \<and>
                          \<not> eq_str
                            (vget reuse ''setup_inclusive_policy'')
                            ''one_time_setup_amortized_over_measured_repeats'')
                         (report
                            ''reuse_contract.setup_inclusive_policy must be one_time_setup_amortized_over_measured_repeats''),
                       whenp
                         (\<not> is_int_value repeats \<or> int_of repeats \<le> 0)
                         (report
                            ''reuse_contract.measured_repeat_count must be a positive integer''),
                       cwhen
                         (all_of
                            [cret (\<not> is_None break_even),
                             any_of
                               [cnot (c_is_number break_even), cret (val_le break_even (PInt 0))]])
                         (report
                            ''reuse_contract.break_even_repeat_count must be positive or null''),
                       whenp
                         (\<not> is_bool (vget reuse ''promotion_eligible''))
                         (report ''reuse_contract.promotion_eligible must be a boolean''),
                       cfor [''production_runtime_prepack_cache_available'',
                             ''setup_inclusive_cache_promotion_candidate''] (\<lambda>key.
                         let value = vget reuse key in
                         whenp
                           (\<not> is_None value \<and> \<not> is_bool value)
                           (report
                              (''reuse_contract.'' @ key @ '' must be a boolean when present''))),
                       whenp
                         (\<not> is_list invalidation \<or>
                          \<not> list_all (\<lambda>item. is_str item) (elems_of invalidation))
                         (report
                            ''reuse_contract.invalidation_reasons must be an array of strings''),
                       whenp
                         (eq_str
                            (dget data ''prepack_reuse_strategy'')
                            ''rocwmma_reusable_b_cache'' \<and>
                          is_None runtime_cache)
                         (report
                            ''rocwmma reusable B-cache captures must include reuse_contract.runtime_prepack_cache''),
                       whenp
                         (\<not> is_None runtime_cache)
                         (check_runtime_prepack_cache data runtime_cache)])]))"

definition check_exact_output_contract :: "pydict \<Rightarrow> unit chk" where
  "check_exact_output_contract data =
     (let exact_output = dget data ''exact_output_contract'' in
      whenp
        (\<not> is_None exact_output)
        (if \<not> is_dict exact_output
         then report ''exact_output_contract must be an object''
         else let limb_count = vget exact_output ''limb_count'' in
              cseq
                [cwhen
                   (cnot
                      (c_in (vget exact_output ''requested_final_output'') OUTPUT_CONTRACT_DOMAINS))
                   (report
                      (''exact_output_contract.requested_final_output must be one of '' @
                       py_str (str_list (sorted_set OUTPUT_CONTRACT_DOMAINS)))),
                 cif (c_in
                        (dget data ''semantics'')
                        [''exact_wide_signed'', ''exact_wide_unsigned''])
                   (whenp
                      (\<not> is_int_value limb_count \<or>
                       \<not> (1 \<le> int_of limb_count \<and> int_of limb_count \<le> 32))
                      (report
                         ''exact_output_contract.limb_count must be in [1, 32] for exact-wide captures''))
                   (whenp
                      (\<not> is_None limb_count)
                      (report
                         ''exact_output_contract.limb_count must be null outside exact-wide captures'')),
                 cwhen
                   (cnot (c_in (vget exact_output ''status_policy'') STATUS_HANDLING))
                   (report
                      (''exact_output_contract.status_policy must be one of '' @
                       py_str (str_list (sorted_set STATUS_HANDLING)))),
                 cwhen
                   (cnot
                      (c_in
                         (vget exact_output ''output_domain_after_measured_repeats'')
                         OUTPUT_CONTRACT_DOMAINS))
                   (report
                      ''exact_output_contract.output_domain_after_measured_repeats must be a known output domain''),
                 whenp
                   (\<not> is_bool (vget exact_output ''final_checksum_export_after_repeats''))
                   (report
                      ''exact_output_contract.final_checksum_export_after_repeats must be a boolean'')]))"

definition check_export_variant :: "pydict \<Rightarrow> unit chk" where
  "check_export_variant data =
     (let export_variant = dget data ''export_variant'' in
      whenp
        (\<not> is_None export_variant)
        (if \<not> is_dict export_variant
         then report ''export_variant must be an object''
         else let selector_source = vget export_variant ''selector_source'';
                  selector_key = vget export_variant ''selector_key'';
                  final_output_mode = vget export_variant ''final_output_mode'';
                  output_layout = vget export_variant ''output_layout'';
                  selector_status = vget export_variant ''selector_status_policy'';
                  d2h_policy = vget export_variant ''d2h_policy'';
                  selected_export_kernel = vget export_variant ''selected_kernel'';
                  limb_count = vget export_variant ''limb_count''
              in cseq
                   [whenp
                      (\<not> is_str (vget export_variant ''name'') \<or>
                       \<not> truthy (vget export_variant ''name''))
                      (report ''export_variant.name must be a nonempty string''),
                    cfor [''source'', ''status_policy'', ''constants_placement''] (\<lambda>key.
                      whenp
                        (\<not> is_str (vget export_variant key))
                        (report (''export_variant.'' @ key @ '' must be a string''))),
                    cwhen
                      (cnot (c_in (vget export_variant ''status_policy'') STATUS_HANDLING))
                      (report
                         (''export_variant.status_policy must be one of '' @
                          py_str (str_list (sorted_set STATUS_HANDLING)))),
                    whenp
                      (\<not> is_None selector_source \<and> \<not> is_str selector_source)
                      (report ''export_variant.selector_source must be a string when present''),
                    cfor [''selector_policy'', ''semantic_contract'', ''backend'', ''target_id'',
                          ''prefix_contract'', ''signedness'', ''cache_visibility''] (\<lambda>key.
                      whenp
                        (has_key (items_of export_variant) key \<and>
                         \<not> is_str (vget export_variant key))
                        (report (''export_variant.'' @ key @ '' must be a string when present''))),
                    whenp
                      (\<not> is_None selector_key \<and> \<not> is_str selector_key)
                      (report ''export_variant.selector_key must be a string or null''),
                    cwhen
                      (all_of
                         [cret (\<not> is_None final_output_mode),
                          cnot (c_in final_output_mode EXPORT_FINAL_OUTPUT_MODES)])
                      (report
                         (''export_variant.final_output_mode must be one of '' @
                          py_str (str_list (sorted_set EXPORT_FINAL_OUTPUT_MODES)))),
                    cfor [''stale_entry_reason'', ''status_elision_reason''] (\<lambda>key.
                      whenp
                        (\<not> is_None (vget export_variant key) \<and>
                         \<not> is_str (vget export_variant key))
                        (report (''export_variant.'' @ key @ '' must be a string or null''))),
                    cwhen
                      (all_of
                         [cret (\<not> is_None output_layout),
                          cnot (c_in output_layout EXPORT_OUTPUT_LAYOUTS)])
                      (report
                         (''export_variant.output_layout must be one of '' @
                          py_str (str_list (sorted_set EXPORT_OUTPUT_LAYOUTS)))),
                    cwhen
                      (all_of
                         [cret (\<not> is_None selector_status),
                          cnot (c_in selector_status EXPORT_SELECTOR_STATUS_POLICIES)])
                      (report
                         (''export_variant.selector_status_policy must be one of '' @
                          py_str (str_list (sorted_set EXPORT_SELECTOR_STATUS_POLICIES)))),
                    cwhen
                      (all_of
                         [cret (\<not> is_None d2h_policy),
                          cnot (c_in d2h_policy EXPORT_D2H_POLICIES)])
                      (report
                         (''export_variant.d2h_policy must be one of '' @
                          py_str (str_list (sorted_set EXPORT_D2H_POLICIES)))),
                    whenp
                      (\<not> is_None selected_export_kernel \<and>
                       \<not> is_str selected_export_kernel)
                      (report ''export_variant.selected_kernel must be a string or null''),
                    cfor [''requires_tile_metadata'', ''all_zero_tiled_output''] (\<lambda>key.
                      whenp
                        (has_key (items_of export_variant) key \<and>
                         \<not> is_bool (vget export_variant key))
                        (report (''export_variant.'' @ key @ '' must be a boolean when present''))),
                    whenp
                      (\<not> is_None limb_count \<and>
                       (\<not> is_int_value limb_count \<or>
                        \<not> (1 \<le> int_of limb_count \<and> int_of limb_count \<le> 32)))
                      (report ''export_variant.limb_count must be in [1, 32] or null''),
                    whenp
                      (\<not> is_bool (vget export_variant ''promotion_eligible''))
                      (report ''export_variant.promotion_eligible must be a boolean''),
                    cwhen
                      (all_of
                         [cret (truthy selected_export_kernel \<and> truthy selector_key),
                          cnot
                            (c_str_in
                               (''selected_kernel='' @ py_str selected_export_kernel)
                               selector_key)])
                      (report ''export_variant.selector_key must include selected_kernel''),
                    cwhen
                      (all_of
                         [cret
                            (truthy (vget export_variant ''semantic_contract'') \<and>
                             truthy selector_key),
                          cbind
                            (cmap
                               (\<lambda>x. ''semantics='' @ py_str x)
                               (c_vindex export_variant ''semantic_contract''))
                            (\<lambda>x.
                             cnot (c_str_in x selector_key))])
                      (report ''export_variant.selector_key must include semantic_contract''),
                    cbind (all_of
                             [cret
                                (eq_str
                                   (vget export_variant ''name'')
                                   ''exact-wide-fixed-limb-export''),
                              c_in
                                (dget data ''semantics'')
                                [''exact_wide_signed'', ''exact_wide_unsigned''],
                              cret
                                (py_eq
                                   (vget export_variant ''semantic_contract'')
                                   (dget data ''semantics'') \<and>
                                 eq_str output_layout ''fixed_u64_limbs'' \<and>
                                 is_int_value limb_count \<and>
                                 (eq_str
                                    (vget export_variant ''selector_status_policy'')
                                    ''range_checked_status_buffer'' \<or>
                                  eq_str
                                    (vget export_variant ''selector_status_policy'')
                                    ''none'' \<and>
                                  is_str (vget export_variant ''status_elision_reason'') \<and>
                                  truthy (vget export_variant ''status_elision_reason''))),
                              c_in
                                (vget export_variant ''d2h_policy'')
                                [''host_ld_padded'', ''compact_contiguous''],
                              cret
                                (eq_str
                                   final_output_mode
                                   ''final_host_output'')]) (\<lambda>reviewable_fixed_limb.
                    let blocker = vget export_variant ''promotion_blocker'' in
                    cseq
                      [whenp
                         (is_True (vget export_variant ''promotion_eligible''))
                         (cwhen
                            (any_of
                               [cnot
                                  (c_in (vget export_variant ''name'') REVIEWABLE_EXPORT_VARIANTS),
                                cret
                                  (\<not> eq_str (vget export_variant ''name'') ''default'' \<and>
                                   \<not> reviewable_fixed_limb)])
                            (report
                               ''export_variant.promotion_eligible=true is allowed only for default or exact-wide fixed-limb selector captures'')),
                       whenp
                         (is_True (vget export_variant ''promotion_eligible'') \<and>
                          \<not> is_None blocker)
                         (report
                            ''promotion-eligible export_variant captures must set promotion_blocker=null''),
                       whenp
                         (is_False (vget export_variant ''promotion_eligible'') \<and>
                          \<not> eq_str (vget export_variant ''name'') ''default'' \<and>
                          \<not> is_str blocker)
                         (report
                            ''non-promoting export_variant captures must declare promotion_blocker'')])]))"

definition check_reconstruction_variant :: "pydict \<Rightarrow> unit chk" where
  "check_reconstruction_variant data =
     (let reconstruction = dget data ''reconstruction_variant'' in
      whenp
        (\<not> is_None reconstruction)
        (if \<not> is_dict reconstruction
         then report ''reconstruction_variant must be an object''
         else let prefix_count = vget reconstruction ''prefix_count'';
                  blocker = vget reconstruction ''promotion_blocker''
              in cseq
                   [cfor [''name'', ''family'', ''controller''] (\<lambda>key.
                      whenp
                        (\<not> is_str (vget reconstruction key) \<or>
                         \<not> truthy (vget reconstruction key))
                        (report
                           (''reconstruction_variant.'' @ key @ '' must be a nonempty string''))),
                    whenp
                      (\<not> is_int_value prefix_count \<or> int_of prefix_count < 0)
                      (report
                         ''reconstruction_variant.prefix_count must be a nonnegative integer''),
                    whenp
                      (\<not> is_bool (vget reconstruction ''promotion_eligible''))
                      (report ''reconstruction_variant.promotion_eligible must be a boolean''),
                    whenp
                      (\<not> eq_str (vget reconstruction ''name'') ''default_garner'' \<and>
                       is_True (vget reconstruction ''promotion_eligible''))
                      (report
                         ''experimental reconstruction_variant captures must set promotion_eligible=false''),
                    whenp
                      (\<not> eq_str (vget reconstruction ''name'') ''default_garner'' \<and>
                       \<not> is_str blocker)
                      (report
                         ''experimental reconstruction_variant captures must declare promotion_blocker'')]))"

definition check_modulus_set :: "pydict \<Rightarrow> unit chk" where
  "check_modulus_set data =
     (let modulus_set = dget data ''modulus_set'' in
      whenp
        (\<not> is_None modulus_set)
        (if \<not> is_dict modulus_set
         then report ''modulus_set must be an object''
         else let name = vget modulus_set ''name'' in
              cseq
                [whenp
                   (\<not> is_str name \<or>
                    \<not> eq_str name ''default'' \<and>
                    \<not> starts_with ''experimental:'' (str_of name))
                   (report ''modulus_set.name must be default or experimental:NAME''),
                 whenp
                   (\<not> is_bool (vget modulus_set ''experimental''))
                   (report ''modulus_set.experimental must be a boolean''),
                 cfor [''source'', ''execution_ladder'', ''pairwise_coprime_proof'',
                       ''reducer_cost_hint''] (\<lambda>key.
                   whenp
                     (\<not> is_str (vget modulus_set key))
                     (report (''modulus_set.'' @ key @ '' must be a string''))),
                 cfor [''runtime_selectable'', ''search_report_required''] (\<lambda>key.
                   whenp
                     (has_key (items_of modulus_set) key \<and>
                      \<not> is_bool (vget modulus_set key))
                     (report (''modulus_set.'' @ key @ '' must be a boolean when present''))),
                 whenp
                   (has_key (items_of modulus_set) ''default_change_gate'' \<and>
                    \<not> is_str (vget modulus_set ''default_change_gate''))
                   (report ''modulus_set.default_change_gate must be a string when present''),
                 cfor [''product_bits'', ''prefix_count''] (\<lambda>key.
                   let value = vget modulus_set key in
                   whenp
                     (\<not> is_int_value value \<or> int_of value < 0)
                     (report (''modulus_set.'' @ key @ '' must be a nonnegative integer''))),
                 whenp
                   (eq_str name ''default'' \<and>
                    \<not> is_False (vget modulus_set ''experimental''))
                   (report ''modulus_set.experimental must be false for default''),
                 whenp
                   (\<not> eq_str name ''default'')
                   (cseq
                      [whenp
                         (\<not> is_str (vget modulus_set ''cache_promotion_blocker''))
                         (report
                            ''experimental modulus_set captures must declare cache_promotion_blocker''),
                       whenp
                         (\<not> is_False (vget modulus_set ''runtime_selectable''))
                         (report
                            ''experimental modulus_set captures must set runtime_selectable=false''),
                       whenp
                         (\<not> is_True (vget modulus_set ''search_report_required''))
                         (report
                            ''experimental modulus_set captures must set search_report_required=true''),
                       whenp
                         (\<not> eq_str
                            (vget modulus_set ''default_change_gate'')
                            ''spec_cache_schema_proof_and_same_target_review_required'')
                         (report
                            ''experimental modulus_set captures must declare the default-change gate'')])]))"

definition check_residue_count_policy :: "pydict \<Rightarrow> unit chk" where
  "check_residue_count_policy data =
     (let residue_policy = dget data ''residue_count_policy'' in
      whenp
        (\<not> is_None residue_policy)
        (if \<not> is_dict residue_policy
         then report ''residue_count_policy must be an object''
         else cseq
                [cfor [''policy'', ''autotune_scope''] (\<lambda>key.
                   whenp
                     (\<not> is_str (vget residue_policy key))
                     (report (''residue_count_policy.'' @ key @ '' must be a string''))),
                 cfor [''requested_prefix'', ''selected_prefix'', ''minimum_range_prefix'',
                       ''redundant_residue_count''] (\<lambda>key.
                   let value = vget residue_policy key in
                   whenp
                     (\<not> is_int_value value \<or> int_of value < 0)
                     (report
                        (''residue_count_policy.'' @ key @ '' must be a nonnegative integer''))),
                 whenp
                   (has_key (items_of residue_policy) ''promotion_eligible'' \<and>
                    \<not> is_bool (vget residue_policy ''promotion_eligible''))
                   (report
                      ''residue_count_policy.promotion_eligible must be a boolean when present''),
                 whenp
                   (is_int_value (dget data ''selected_prefix'') \<and>
                    \<not> py_eq
                      (vget residue_policy ''selected_prefix'')
                      (dget data ''selected_prefix''))
                   (report ''residue_count_policy.selected_prefix must match selected_prefix''),
                 whenp
                   (is_int_value (dget data ''requested_max_prefix'') \<and>
                    \<not> py_eq
                      (vget residue_policy ''requested_prefix'')
                      (dget data ''requested_max_prefix''))
                   (report
                      ''residue_count_policy.requested_prefix must match requested_max_prefix''),
                 cbind (cmap
                          (\<lambda>x. max_zero x)
                          (c_sub
                             (dget_or (items_of residue_policy) ''selected_prefix'' (PInt 0))
                             (dget_or
                                (items_of residue_policy)
                                ''minimum_range_prefix''
                                (PInt 0)))) (\<lambda>expected_redundant.
                 cseq
                   [whenp
                      (\<not> py_eq
                         (vget residue_policy ''redundant_residue_count'')
                         expected_redundant)
                      (report
                         ''residue_count_policy.redundant_residue_count must equal selected_prefix - minimum_range_prefix''),
                    whenp
                      (eq_str
                         (vget residue_policy ''autotune_scope'')
                         ''evidence_only_non_promoting'')
                      (cseq
                         [whenp
                            (\<not> is_False (vget residue_policy ''promotion_eligible''))
                            (report
                               ''evidence-only residue_count_policy captures must set promotion_eligible=false''),
                          whenp
                            (\<not> is_str (vget residue_policy ''cache_promotion_blocker''))
                            (report
                               ''evidence-only residue_count_policy captures must declare cache_promotion_blocker'')]),
                    whenp
                      (eq_str
                         (vget residue_policy ''autotune_scope'')
                         ''current_exact_cache'' \<and>
                       is_False (vget residue_policy ''promotion_eligible''))
                      (report
                         ''current_exact_cache residue_count_policy captures must not force promotion_eligible=false'')])]))"

definition check_tile_shape_variant :: "pydict \<Rightarrow> unit chk" where
  "check_tile_shape_variant data =
     (let tile_variant = dget data ''tile_shape_variant'' in
      whenp
        (\<not> is_None tile_variant)
        (if \<not> is_dict tile_variant
         then report ''tile_shape_variant must be an object''
         else let identity = vget tile_variant ''selected_kernel_identity'';
                  selected_kernel' = dget data ''selected_kernel'';
                  safety_key = vget tile_variant ''accumulator_safety_key''
              in cseq
                   [whenp
                      (\<not> is_str (vget tile_variant ''name'') \<or>
                       \<not> truthy (vget tile_variant ''name''))
                      (report ''tile_shape_variant.name must be a nonempty string''),
                    cfor [''resource_report_key'', ''shape_family_bucket'',
                          ''stale_kernel_rejection''] (\<lambda>key.
                      whenp
                        (\<not> is_str (vget tile_variant key))
                        (report (''tile_shape_variant.'' @ key @ '' must be a string''))),
                    cfor [''k_block_policy'', ''split_k_mode'', ''accumulator_safety_key'',
                          ''resource_report_required''] (\<lambda>key.
                      whenp
                        (has_key (items_of tile_variant) key \<and>
                         \<not> is_str (vget tile_variant key))
                        (report (''tile_shape_variant.'' @ key @ '' must be a string''))),
                    cfor [''tile_m'', ''tile_n'', ''tile_k''] (\<lambda>key.
                      let value = vget tile_variant key in
                      whenp
                        (\<not> is_int_value value \<or> int_of value \<le> 0)
                        (report (''tile_shape_variant.'' @ key @ '' must be a positive integer''))),
                    whenp
                      (\<not> py_eq (vget tile_variant ''tile_m'') (dget data ''tile_m''))
                      (report ''tile_shape_variant.tile_m must match tile_m''),
                    whenp
                      (\<not> py_eq (vget tile_variant ''tile_n'') (dget data ''tile_n''))
                      (report ''tile_shape_variant.tile_n must match tile_n''),
                    whenp
                      (is_int_value (dget data ''k_block_size'') \<and>
                       \<not> py_eq (vget tile_variant ''tile_k'') (dget data ''k_block_size''))
                      (report ''tile_shape_variant.tile_k must match k_block_size''),
                    whenp
                      (\<not> is_None identity \<and> \<not> py_eq identity selected_kernel')
                      (report
                         ''tile_shape_variant.selected_kernel_identity must match selected_kernel''),
                    cwhen
                      (all_of
                         [cret (truthy safety_key),
                          cnot
                            (c_str_in
                               (''k_block_size='' @ py_str (vget tile_variant ''tile_k''))
                               safety_key)])
                      (report
                         ''tile_shape_variant.accumulator_safety_key must include tile_k k_block_size'')]))"

definition check_task_buckets :: "pydict \<Rightarrow> pyval \<Rightarrow> unit chk" where
  "check_task_buckets data buckets =
     whenp
       (\<not> is_None buckets)
       (if \<not> is_list buckets
        then report ''grouped_dispatch.task_descriptor_contract.buckets must be an array''
        else cfor (enum_ints (elems_of buckets)) (\<lambda>(index, bucket).
               if \<not> is_dict bucket
               then report
                      ''grouped_dispatch.task_descriptor_contract.buckets entries must be objects''
               else cseq
                      [whenp
                         (\<not> py_eq (vget bucket ''bucket_index'') (PInt index))
                         (report
                            ''grouped_dispatch.task_descriptor_contract.buckets bucket_index must be contiguous''),
                       cfor [''task_offset'', ''task_count''] (\<lambda>key.
                         let value = vget bucket key in
                         whenp
                           (\<not> is_int_value value \<or> int_of value < 0)
                           (report
                              (''grouped_dispatch.task_descriptor_contract.buckets.'' @
                               key @
                               '' must be a nonnegative integer''))),
                       cfor [''shape_key'', ''semantics''] (\<lambda>key.
                         whenp
                           (\<not> is_str (vget bucket key))
                           (report
                              (''grouped_dispatch.task_descriptor_contract.buckets.'' @
                               key @
                               '' must be a string''))),
                       cwhen
                         (cnot (c_in (vget bucket ''output_domain'') OUTPUT_CONTRACT_DOMAINS))
                         (report
                            ''grouped_dispatch.task_descriptor_contract.buckets.output_domain must be a known output domain'')]))"

definition check_task_descriptor :: "pydict \<Rightarrow> pyval \<Rightarrow> unit chk" where
  "check_task_descriptor data task_descriptor =
     (if \<not> is_dict task_descriptor
      then report ''grouped_dispatch.task_descriptor_contract must be an object''
      else let descriptor_layout = vget task_descriptor ''descriptor_layout'';
               bucket_policy = vget task_descriptor ''bucket_policy'';
               bucket_count = vget task_descriptor ''bucket_count'';
               descriptor_task_count = vget task_descriptor ''task_count'';
               buckets = vget task_descriptor ''buckets''
           in cseq
                [whenp
                   (\<not> py_eq (vget task_descriptor ''schema_version'') (PInt 1))
                   (report ''grouped_dispatch.task_descriptor_contract.schema_version must be 1''),
                 cwhen
                   (cnot (c_in descriptor_layout GROUPED_TASK_DESCRIPTOR_LAYOUTS))
                   (report
                      ''grouped_dispatch.task_descriptor_contract.descriptor_layout must be known''),
                 cwhen
                   (cnot (c_in bucket_policy GROUPED_TASK_BUCKET_POLICIES))
                   (report
                      ''grouped_dispatch.task_descriptor_contract.bucket_policy must be known''),
                 whenp
                   (\<not> is_int_value bucket_count \<or> int_of bucket_count < 0)
                   (report
                      ''grouped_dispatch.task_descriptor_contract.bucket_count must be nonnegative''),
                 whenp
                   (\<not> is_int_value descriptor_task_count \<or>
                    int_of descriptor_task_count \<le> 0)
                   (report
                      ''grouped_dispatch.task_descriptor_contract.task_count must be positive''),
                 whenp
                   (\<not> is_bool (vget task_descriptor ''same_shape_required''))
                   (report
                      ''grouped_dispatch.task_descriptor_contract.same_shape_required must be a boolean''),
                 cfor [''shape_key'', ''semantics''] (\<lambda>key.
                   whenp
                     (\<not> is_str (vget task_descriptor key))
                     (report
                        (''grouped_dispatch.task_descriptor_contract.'' @
                         key @
                         '' must be a string''))),
                 cwhen
                   (cnot (c_in (vget task_descriptor ''output_domain'') OUTPUT_CONTRACT_DOMAINS))
                   (report
                      ''grouped_dispatch.task_descriptor_contract.output_domain must be a known output domain''),
                 cwhen
                   (cnot
                      (c_in
                         (vget task_descriptor ''source_version_policy'')
                         GROUPED_TASK_SOURCE_VERSION_POLICIES))
                   (report
                      ''grouped_dispatch.task_descriptor_contract.source_version_policy must be known''),
                 cwhen
                   (cnot
                      (c_in
                         (vget task_descriptor ''workspace_policy'')
                         GROUPED_TASK_WORKSPACE_POLICIES))
                   (report
                      ''grouped_dispatch.task_descriptor_contract.workspace_policy must be known''),
                 cwhen
                   (cnot
                      (c_in
                         (vget task_descriptor ''matrix_ownership_policy'')
                         GROUPED_TASK_MATRIX_OWNERSHIP_POLICIES))
                   (report
                      ''grouped_dispatch.task_descriptor_contract.matrix_ownership_policy must be known''),
                 cwhen
                   (cnot
                      (c_in
                         (vget task_descriptor ''descriptor_reuse_policy'')
                         GROUPED_TASK_DESCRIPTOR_REUSE_POLICIES))
                   (report
                      ''grouped_dispatch.task_descriptor_contract.descriptor_reuse_policy must be known''),
                 cwhen
                   (cnot
                      (c_in (vget task_descriptor ''stride_policy'') GROUPED_TASK_STRIDE_POLICIES))
                   (report
                      ''grouped_dispatch.task_descriptor_contract.stride_policy must be known''),
                 cwhen
                   (cnot
                      (c_in
                         (vget task_descriptor ''output_currentness_policy'')
                         GROUPED_TASK_OUTPUT_CURRENTNESS_POLICIES))
                   (report
                      ''grouped_dispatch.task_descriptor_contract.output_currentness_policy must be known''),
                 cwhen
                   (cnot
                      (c_in
                         (vget task_descriptor ''lifetime_policy'')
                         GROUPED_TASK_LIFETIME_POLICIES))
                   (report
                      ''grouped_dispatch.task_descriptor_contract.lifetime_policy must be known''),
                 cwhen
                   (cnot
                      (c_in
                         (vget task_descriptor ''checksum_policy'')
                         GROUPED_TASK_CHECKSUM_POLICIES))
                   (report
                      ''grouped_dispatch.task_descriptor_contract.checksum_policy must be known''),
                 cwhen
                   (cnot
                      (c_in (vget task_descriptor ''status_policy'') GROUPED_TASK_STATUS_POLICIES))
                   (report
                      ''grouped_dispatch.task_descriptor_contract.status_policy must be known''),
                 cwhen
                   (cnot
                      (c_in
                         (vget task_descriptor ''device_descriptor_policy'')
                         GROUPED_TASK_DEVICE_DESCRIPTOR_POLICIES))
                   (report
                      ''grouped_dispatch.task_descriptor_contract.device_descriptor_policy must be known''),
                 whenp
                   (\<not> is_False (vget task_descriptor ''promotion_eligible''))
                   (report
                      ''grouped_dispatch.task_descriptor_contract.promotion_eligible must be false''),
                 check_task_buckets data buckets])"

definition check_grouped_dispatch :: "pydict \<Rightarrow> unit chk" where
  "check_grouped_dispatch data =
     (let grouped = dget data ''grouped_dispatch'' in
      whenp
        (\<not> is_None grouped)
        (if \<not> is_dict grouped
         then report ''grouped_dispatch must be an object''
         else let task_count = vget grouped ''task_count'';
                  strategy = vget grouped ''execution_strategy'';
                  batched_export = vget grouped ''batched_export_enabled'';
                  slab_bytes = vget grouped ''device_output_slab_bytes'';
                  task_descriptor = vget grouped ''task_descriptor_contract''
              in cseq
                   [whenp
                      (\<not> is_bool (vget grouped ''requested''))
                      (report ''grouped_dispatch.requested must be a boolean''),
                    whenp
                      (\<not> is_int_value task_count \<or> int_of task_count \<le> 0)
                      (report ''grouped_dispatch.task_count must be a positive integer''),
                    cfor [''descriptor_identity'', ''source_hash'', ''output_hash'', ''setup_scope''] (\<lambda>key.
                      whenp
                        (\<not> is_str (vget grouped key))
                        (report (''grouped_dispatch.'' @ key @ '' must be a string''))),
                    cwhen
                      (all_of
                         [cret (\<not> is_None strategy),
                          cnot (c_in strategy SCHEMA_GROUPED_DISPATCH_EXECUTION_STRATEGIES)])
                      (report
                         ''grouped_dispatch.execution_strategy must be a known grouped strategy''),
                    whenp
                      (\<not> is_None batched_export \<and> \<not> is_bool batched_export)
                      (report ''grouped_dispatch.batched_export_enabled must be a boolean''),
                    whenp
                      (\<not> is_None slab_bytes \<and>
                       (\<not> is_int_value slab_bytes \<or> int_of slab_bytes < 0))
                      (report
                         ''grouped_dispatch.device_output_slab_bytes must be a nonnegative integer''),
                    cwhen
                      (cnot (c_in (vget grouped ''capture_status'') GROUPED_DISPATCH_STATUSES))
                      (report
                         (''grouped_dispatch.capture_status must be one of '' @
                          py_str (str_list (sorted_set GROUPED_DISPATCH_STATUSES)))),
                    cwhen
                      (all_of
                         [cret (truthy task_count),
                          c_lt (PInt 1) task_count,
                          cret (\<not> is_True (vget grouped ''requested''))])
                      (report ''grouped_dispatch.requested must be true when task_count > 1''),
                    cwhen
                      (all_of
                         [cret (truthy task_count),
                          c_lt (PInt 1) task_count,
                          cret (\<not> is_False (vget grouped ''promotion_eligible''))])
                      (report
                         ''grouped_dispatch task_count > 1 must set promotion_eligible=false''),
                    whenp
                      (\<not> is_None task_descriptor)
                      (check_task_descriptor data task_descriptor)]))"

definition check_graph_replay :: "pydict \<Rightarrow> unit chk" where
  "check_graph_replay data =
     (let graph' = dget data ''hip_graph_replay'' in
      whenp
        (\<not> is_None graph')
        (if \<not> is_dict graph'
         then report ''hip_graph_replay must be an object''
         else cseq
                [whenp
                   (\<not> is_bool (vget graph' ''requested''))
                   (report ''hip_graph_replay.requested must be a boolean''),
                 cfor [''descriptor_identity'', ''plan_identity'', ''setup_scope''] (\<lambda>key.
                   whenp
                     (\<not> is_str (vget graph' key))
                     (report (''hip_graph_replay.'' @ key @ '' must be a string''))),
                 cwhen
                   (cnot (c_in (vget graph' ''capture_status'') GRAPH_REPLAY_STATUSES))
                   (report
                      (''hip_graph_replay.capture_status must be one of '' @
                       py_str (str_list (sorted_set GRAPH_REPLAY_STATUSES)))),
                 whenp
                   (is_True (vget graph' ''requested'') \<and>
                    \<not> is_False (vget graph' ''promotion_eligible''))
                   (report
                      ''hip_graph_replay requested captures must set promotion_eligible=false''),
                 whenp
                   (is_True (vget graph' ''requested''))
                   (let metadata' = dget data ''backend_metadata'';
                        expected_plan_identity = if is_dict metadata'
                                                 then vget metadata' ''autotune_key''
                                                 else PNone;
                        expected_descriptor = ''fixed_plan_workspace_descriptor:m='' @
                                              py_str (dget data ''m'') @
                                              '';n='' @
                                              py_str (dget data ''n'') @
                                              '';k='' @
                                              py_str (dget data ''k'')
                    in cseq
                         [whenp
                            (is_str expected_plan_identity \<and>
                             \<not> py_eq (vget graph' ''plan_identity'') expected_plan_identity)
                            (report
                               ''hip_graph_replay.plan_identity must match backend_metadata.autotune_key''),
                          whenp
                            (\<not> eq_str
                               (vget graph' ''descriptor_identity'')
                               expected_descriptor)
                            (report
                               ''hip_graph_replay.descriptor_identity must match capture m/n/k'')])]))"

definition check_requested_scheduler :: "pydict \<Rightarrow> pyval \<Rightarrow> unit chk" where
  "check_requested_scheduler data adaptive =
     whenp
       (is_True (vget adaptive ''requested''))
       (cseq
          [whenp
             (\<not> eq_str
                (vget adaptive ''strategy'')
                ''prefix_tile_zero_mask_grouped_descriptors'')
             (report
                ''adaptive_grouped_scheduler requested captures must declare the grouped descriptor strategy''),
           cwhen
             (c_le (dget_or (items_of adaptive) ''group_count'' (PInt 0)) (PInt 0))
             (report
                ''adaptive_grouped_scheduler requested captures must have a positive group_count''),
           cwhen
             (c_le (dget_or (items_of adaptive) ''active_tile_count'' (PInt 0)) (PInt 0))
             (report
                ''adaptive_grouped_scheduler requested captures must have a positive active_tile_count''),
           whenp
             (eq_str (dget data ''backend_selected'') ''hip-direct'' \<and>
              eq_str
                (dget data ''selected_kernel'')
                ''direct_hip_grouped_active_prefix_schedule_rns_gemm_v3'')
             (cseq
                [whenp
                   (\<not> eq_str (vget adaptive ''capture_status'') ''executed'')
                   (report
                      ''adaptive_grouped_scheduler direct-HIP grouped-kernel captures must set capture_status=executed''),
                 whenp
                   (\<not> is_None (vget adaptive ''unsupported_reason''))
                   (report
                      ''adaptive_grouped_scheduler executed captures must set unsupported_reason=null''),
                 cwhen
                   (c_le (dget_or (items_of adaptive) ''active_entry_count'' (PInt 0)) (PInt 0))
                   (report
                      ''adaptive_grouped_scheduler executed captures must have a positive active_entry_count''),
                 whenp
                   (\<not> py_eq (vget adaptive ''aggregate_launch_count_model'') (PInt 1))
                   (report
                      ''adaptive_grouped_scheduler executed captures must model one aggregate GEMM event group''),
                 whenp
                   (\<not> eq_str
                      (vget adaptive ''event_scope'')
                      ''aggregate_rns_gemm_kernel_group_per_measured_repeat'')
                   (report
                      ''adaptive_grouped_scheduler executed captures must declare the aggregate GEMM event scope'')])])"

definition check_adaptive_scheduler :: "pydict \<Rightarrow> unit chk" where
  "check_adaptive_scheduler data =
     (let adaptive = dget data ''adaptive_grouped_scheduler'' in
      whenp
        (\<not> is_None adaptive)
        (if \<not> is_dict adaptive
         then report ''adaptive_grouped_scheduler must be an object''
         else cseq
                [whenp
                   (\<not> is_bool (vget adaptive ''requested''))
                   (report ''adaptive_grouped_scheduler.requested must be a boolean''),
                 cfor [''strategy'', ''descriptor_identity'', ''selected_prefix_histogram''] (\<lambda>key.
                   whenp
                     (\<not> is_str (vget adaptive key))
                     (report (''adaptive_grouped_scheduler.'' @ key @ '' must be a string''))),
                 cfor [''group_count'', ''active_prefix_count'', ''active_tile_count'',
                       ''active_entry_count'', ''zero_tile_count'',
                       ''independent_launch_count_model'', ''aggregate_launch_count_model''] (\<lambda>key.
                   let value = vget adaptive key in
                   whenp
                     (\<not> is_int_value value \<or> int_of value < 0)
                     (report
                        (''adaptive_grouped_scheduler.'' @
                         key @
                         '' must be a nonnegative integer''))),
                 cwhen
                   (any_of
                      [cnot (c_is_number (vget adaptive ''launch_reduction_ratio'')),
                       cret (val_lt (vget adaptive ''launch_reduction_ratio'') (PInt 0))])
                   (report
                      ''adaptive_grouped_scheduler.launch_reduction_ratio must be a nonnegative number''),
                 whenp
                   (\<not> is_str (vget adaptive ''event_scope''))
                   (report ''adaptive_grouped_scheduler.event_scope must be a string''),
                 cwhen
                   (cnot (c_in (vget adaptive ''capture_status'') GROUPED_DISPATCH_STATUSES))
                   (report
                      (''adaptive_grouped_scheduler.capture_status must be one of '' @
                       py_str (str_list (sorted_set GROUPED_DISPATCH_STATUSES)))),
                 whenp
                   (is_True (vget adaptive ''requested'') \<and>
                    \<not> is_False (vget adaptive ''promotion_eligible''))
                   (report
                      ''adaptive_grouped_scheduler requested captures must set promotion_eligible=false''),
                 check_requested_scheduler data adaptive]))"

definition check_resident_redesign :: "pydict \<Rightarrow> unit chk" where
  "check_resident_redesign data =
     (let resident_redesign = dget data ''resident_redesign'' in
      whenp
        (\<not> is_None resident_redesign)
        (if \<not> is_dict resident_redesign
         then report ''resident_redesign must be an object''
         else let enabled = vget resident_redesign ''enabled'';
                  candidate = vget resident_redesign ''candidate'';
                  dimensions = vget resident_redesign ''dimensions'';
                  blocker = vget resident_redesign ''cache_promotion_blocker''
              in cseq
                   [whenp
                      (\<not> is_bool enabled)
                      (report ''resident_redesign.enabled must be a boolean''),
                    if is_True enabled
                    then whenp
                           (\<not> is_str candidate \<or> \<not> truthy candidate)
                           (report
                              ''resident_redesign.candidate must be a nonempty string when enabled'')
                    else whenp
                           (\<not> is_None candidate)
                           (report ''resident_redesign.candidate must be null when disabled''),
                    if \<not> is_list dimensions \<or>
                       \<not> list_all
                         (\<lambda>item. is_str item \<and> truthy item)
                         (elems_of dimensions)
                    then report
                           ''resident_redesign.dimensions must be an array of nonempty strings''
                    else let unknown' = sorted_set
                                          (filter
                                             (\<lambda>x. x \<notin> set RESIDENT_REDESIGN_DIMENSIONS)
                                             (remdups (strs_of dimensions))) in
                         cseq
                           [whenp
                              (unknown' \<noteq> [])
                              (report
                                 (''resident_redesign.dimensions contains unknown values: '' @
                                  py_str (str_list unknown'))),
                            whenp
                              (is_True enabled \<and> \<not> truthy dimensions)
                              (report
                                 ''resident_redesign.dimensions must be nonempty when enabled''),
                            whenp
                              (is_False enabled \<and> truthy dimensions)
                              (report
                                 ''resident_redesign.dimensions must be empty when disabled'')],
                    whenp
                      (\<not> is_str (vget resident_redesign ''policy'') \<or>
                       \<not> truthy (vget resident_redesign ''policy''))
                      (report ''resident_redesign.policy must be a nonempty string''),
                    whenp
                      (\<not> is_True (vget resident_redesign ''resource_evidence_required''))
                      (report ''resident_redesign.resource_evidence_required must be true''),
                    whenp
                      (\<not> is_False (vget resident_redesign ''promotion_eligible''))
                      (report ''resident_redesign captures must set promotion_eligible=false''),
                    if is_True enabled
                    then whenp
                           (\<not> is_str blocker \<or> \<not> truthy blocker)
                           (report
                              ''resident_redesign.cache_promotion_blocker must be a nonempty string when enabled'')
                    else whenp
                           (\<not> is_None blocker)
                           (report
                              ''resident_redesign.cache_promotion_blocker must be null when disabled'')]))"

definition check_resident_lifetime :: "pydict \<Rightarrow> unit chk" where
  "check_resident_lifetime data =
     (let resident = dget data ''resident_lifetime'' in
      whenp
        (\<not> is_None resident)
        (if \<not> is_dict resident
         then report ''resident_lifetime must be an object''
         else cseq
                [whenp
                   (\<not> is_bool (vget resident ''enabled''))
                   (report ''resident_lifetime.enabled must be a boolean''),
                 cfor [''matrix_roles'', ''source_version_policy'', ''current_storage_state'',
                       ''output_domain'', ''workspace_identity'', ''stale_source_rejection''] (\<lambda>key.
                   whenp
                     (\<not> is_str (vget resident key))
                     (report (''resident_lifetime.'' @ key @ '' must be a string''))),
                 cwhen
                   (cnot (c_in (vget resident ''output_domain'') OUTPUT_CONTRACT_DOMAINS))
                   (report ''resident_lifetime.output_domain must be a known output domain''),
                 whenp
                   (\<not> is_False (vget resident ''promotion_eligible''))
                   (report ''resident_lifetime captures must set promotion_eligible=false'')]))"

definition check_workspace_arena :: "pydict \<Rightarrow> unit chk" where
  "check_workspace_arena data =
     (let arena = dget data ''workspace_arena'' in
      whenp
        (\<not> is_None arena)
        (if \<not> is_dict arena
         then report ''workspace_arena must be an object''
         else cseq
                [whenp
                   (\<not> is_bool (vget arena ''enabled''))
                   (report ''workspace_arena.enabled must be a boolean''),
                 cfor [''arena_identity'', ''source_version_policy'', ''stream_safety''] (\<lambda>key.
                   whenp
                     (\<not> is_str (vget arena key))
                     (report (''workspace_arena.'' @ key @ '' must be a string''))),
                 cfor [''size_bytes'', ''high_water_mark_bytes'', ''suballocation_count''] (\<lambda>key.
                   let value = vget arena key in
                   whenp
                     (\<not> is_int_value value \<or> int_of value < 0)
                     (report (''workspace_arena.'' @ key @ '' must be a nonnegative integer''))),
                 whenp
                   (\<not> is_bool (vget arena ''measured_repeat_allocation_free''))
                   (report ''workspace_arena.measured_repeat_allocation_free must be a boolean''),
                 cfor [''setup_allocation_delta'', ''measured_repeat_allocation_delta''] (\<lambda>key.
                   whenp
                     (\<not> is_None (vget arena key))
                     (validate_counter_snapshot
                        data
                        (''workspace_arena.'' @ key)
                        (vget arena key))),
                 whenp
                   (\<not> is_False (vget arena ''promotion_eligible''))
                   (report ''workspace_arena captures must set promotion_eligible=false'')]))"

definition check_streaming_overlap :: "pydict \<Rightarrow> unit chk" where
  "check_streaming_overlap data =
     (let overlap = dget data ''streaming_overlap'' in
      whenp
        (\<not> is_None overlap)
        (if \<not> is_dict overlap
         then report ''streaming_overlap must be an object''
         else cseq
                [whenp
                   (\<not> is_bool (vget overlap ''requested''))
                   (report ''streaming_overlap.requested must be a boolean''),
                 cfor [''pipeline'', ''buffering'', ''dependency_contract'', ''transfer_policy''] (\<lambda>key.
                   whenp
                     (\<not> is_str (vget overlap key))
                     (report (''streaming_overlap.'' @ key @ '' must be a string''))),
                 cfor [''stream_count'', ''buffer_count'', ''measured_repeat_count'',
                       ''batch_wall_us'', ''per_repeat_pipeline_us''] (\<lambda>key.
                   let value = vget overlap key in
                   whenp
                     (\<not> is_int_value value \<or> int_of value < 0)
                     (report (''streaming_overlap.'' @ key @ '' must be a nonnegative integer''))),
                 whenp
                   (\<not> is_bool (vget overlap ''explicit_dependency_events''))
                   (report ''streaming_overlap.explicit_dependency_events must be a boolean''),
                 whenp
                   (\<not> is_str (vget overlap ''stage_event_scope''))
                   (report ''streaming_overlap.stage_event_scope must be a string''),
                 cwhen
                   (cnot (c_in (vget overlap ''capture_status'') STREAMING_OVERLAP_STATUSES))
                   (report
                      (''streaming_overlap.capture_status must be one of '' @
                       py_str (str_list (sorted_set STREAMING_OVERLAP_STATUSES)))),
                 whenp
                   (is_True (vget overlap ''requested'') \<and>
                    \<not> is_False (vget overlap ''promotion_eligible''))
                   (report
                      ''streaming_overlap requested captures must set promotion_eligible=false''),
                 if eq_str (vget overlap ''capture_status'') ''executed''
                 then let stream_count = vget overlap ''stream_count'';
                          buffer_count = vget overlap ''buffer_count'';
                          measured_repeat_count = vget overlap ''measured_repeat_count'';
                          batch_wall_us = vget overlap ''batch_wall_us'';
                          per_repeat_pipeline_us = vget overlap ''per_repeat_pipeline_us''
                      in cseq
                           [whenp
                              (\<not> is_True (vget overlap ''requested''))
                              (report
                                 ''executed streaming_overlap captures must set requested=true''),
                            whenp
                              (is_int_value stream_count \<and> int_of stream_count < 3)
                              (report
                                 ''executed streaming_overlap captures must use at least three streams''),
                            whenp
                              (is_int_value buffer_count \<and> int_of buffer_count < 2)
                              (report
                                 ''executed streaming_overlap captures must use at least two buffers''),
                            whenp
                              (is_int_value measured_repeat_count \<and>
                               \<not> py_eq measured_repeat_count (dget data ''repeats''))
                              (report
                                 ''streaming_overlap.measured_repeat_count must match repeats when executed''),
                            whenp
                              (is_int_value batch_wall_us \<and> int_of batch_wall_us \<le> 0)
                              (report
                                 ''executed streaming_overlap captures must record batch_wall_us > 0''),
                            whenp
                              (is_int_value per_repeat_pipeline_us \<and>
                               int_of per_repeat_pipeline_us \<le> 0)
                              (report
                                 ''executed streaming_overlap captures must record per_repeat_pipeline_us > 0''),
                            whenp
                              (\<not> is_True (vget overlap ''explicit_dependency_events''))
                              (report
                                 ''executed streaming_overlap captures must set explicit_dependency_events=true''),
                            whenp
                              (\<not> eq_str
                                 (vget overlap ''stage_event_scope'')
                                 ''direct_hip_streaming_overlap_multistream_operation_groups'')
                              (report
                                 ''executed streaming_overlap captures must use stage_event_scope=direct_hip_streaming_overlap_multistream_operation_groups''),
                            whenp
                              (\<not> is_None (vget overlap ''unsupported_reason''))
                              (report
                                 ''executed streaming_overlap captures must set unsupported_reason=null'')]
                 else whenp
                        (is_True (vget overlap ''requested''))
                        (whenp
                           (\<not> is_str (vget overlap ''unsupported_reason'') \<or>
                            \<not> truthy (vget overlap ''unsupported_reason''))
                           (report
                              ''requested non-executed streaming_overlap captures must include unsupported_reason''))]))"

definition check_workload_proxy :: "pydict \<Rightarrow> unit chk" where
  "check_workload_proxy data =
     (let proxy = dget data ''workload_proxy'' in
      whenp
        (\<not> is_None proxy)
        (if \<not> is_dict proxy
         then report ''workload_proxy must be an object''
         else cseq
                [whenp
                   (\<not> is_bool (vget proxy ''enabled''))
                   (report ''workload_proxy.enabled must be a boolean''),
                 cwhen
                   (cnot (c_in (vget proxy ''family'') WORKLOAD_PROXY_FAMILIES))
                   (report
                      (''workload_proxy.family must be one of '' @
                       py_str (str_list (sorted_set WORKLOAD_PROXY_FAMILIES)))),
                 cfor [''label'', ''tower_role'', ''reuse_profile'', ''transform_role'',
                       ''output_domain_requirement''] (\<lambda>key.
                   whenp
                     (\<not> is_str (vget proxy key))
                     (report (''workload_proxy.'' @ key @ '' must be a string''))),
                 cwhen
                   (cnot (c_in (vget proxy ''output_domain_requirement'') OUTPUT_CONTRACT_DOMAINS))
                   (report
                      ''workload_proxy.output_domain_requirement must be a known output domain''),
                 whenp
                   (\<not> is_False (vget proxy ''compatibility_claim''))
                   (report ''workload_proxy.compatibility_claim must be false'')]))"

definition check_release_gate :: "pydict \<Rightarrow> unit chk" where
  "check_release_gate data =
     (let release_gate = dget data ''release_gate'' in
      whenp
        (\<not> is_None release_gate)
        (if \<not> is_dict release_gate
         then report ''release_gate must be an object''
         else let blockers = vget release_gate ''blockers'' in
              cseq
                [whenp
                   (\<not> is_str (vget release_gate ''name'') \<or>
                    \<not> truthy (vget release_gate ''name''))
                   (report ''release_gate.name must be a nonempty string''),
                 whenp
                   (\<not> is_bool (vget release_gate ''requested''))
                   (report ''release_gate.requested must be a boolean''),
                 cfor [''classification_tier'', ''cpu_reference_policy'', ''memory_cap_policy'',
                       ''resume_policy''] (\<lambda>key.
                   whenp
                     (\<not> is_str (vget release_gate key))
                     (report (''release_gate.'' @ key @ '' must be a string''))),
                 cwhen
                   (cnot (c_in (vget release_gate ''review_status'') RELEASE_GATE_REVIEW_STATUSES))
                   (report
                      (''release_gate.review_status must be one of '' @
                       py_str (str_list (sorted_set RELEASE_GATE_REVIEW_STATUSES)))),
                 whenp
                   (\<not> is_bool (vget release_gate ''cache_eligible''))
                   (report ''release_gate.cache_eligible must be a boolean''),
                 whenp
                   (\<not> is_list blockers \<or>
                    \<not> list_all (\<lambda>item. is_str item) (elems_of blockers))
                   (report ''release_gate.blockers must be an array of strings'')]))"

definition check_verification_amortization :: "pydict \<Rightarrow> unit chk" where
  "check_verification_amortization data =
     (let amortization = dget data ''verification_amortization'' in
      whenp
        (\<not> is_None amortization)
        (if \<not> is_dict amortization
         then report ''verification_amortization must be an object''
         else cseq
                [whenp
                   (\<not> is_bool (vget amortization ''enabled''))
                   (report ''verification_amortization.enabled must be a boolean''),
                 cfor [''policy'', ''reused_reference_structure'', ''final_exact_comparison_status''] (\<lambda>key.
                   whenp
                     (\<not> is_str (vget amortization key))
                     (report (''verification_amortization.'' @ key @ '' must be a string''))),
                 whenp
                   (\<not> is_True (vget amortization ''final_exact_comparison_required''))
                   (report
                      ''verification_amortization.final_exact_comparison_required must be true''),
                 whenp
                   (\<not> is_False (vget amortization ''promotion_eligible''))
                   (report
                      ''verification_amortization captures must set promotion_eligible=false'')]))"

definition check_error_detection :: "pydict \<Rightarrow> unit chk" where
  "check_error_detection data =
     (let error_detection = dget data ''error_detection_policy'' in
      whenp
        (\<not> is_None error_detection)
        (if \<not> is_dict error_detection
         then report ''error_detection_policy must be an object''
         else let rounds = vget error_detection ''verification_rounds'' in
              cseq
                [whenp
                   (\<not> is_bool (vget error_detection ''enabled''))
                   (report ''error_detection_policy.enabled must be a boolean''),
                 cfor [''policy'', ''mode'', ''verification_basis'', ''false_negative_policy'',
                       ''final_exact_comparison_status''] (\<lambda>key.
                   whenp
                     (\<not> is_str (vget error_detection key))
                     (report (''error_detection_policy.'' @ key @ '' must be a string''))),
                 cwhen
                   (cnot (c_in (vget error_detection ''mode'') ERROR_DETECTION_MODES))
                   (report
                      (''error_detection_policy.mode must be one of '' @
                       py_str (str_list (sorted_set ERROR_DETECTION_MODES)))),
                 whenp
                   (\<not> is_int_value rounds \<or> int_of rounds < 0)
                   (report
                      ''error_detection_policy.verification_rounds must be a nonnegative integer''),
                 cfor [''rng_seed_recorded'', ''final_exact_comparison_required'',
                       ''research_only'', ''default_exact_api_unchanged'',
                       ''runtime_routing_allowed'', ''cache_eligible'', ''promotion_eligible''] (\<lambda>key.
                   whenp
                     (\<not> is_bool (vget error_detection key))
                     (report (''error_detection_policy.'' @ key @ '' must be a boolean''))),
                 whenp
                   (is_True (vget error_detection ''enabled''))
                   (cseq
                      [whenp
                         (\<not> truthy (vget error_detection ''policy'') \<or>
                          eq_str (vget error_detection ''policy'') ''none'')
                         (report
                            ''enabled error_detection_policy.policy must be a nonempty non-none string''),
                       whenp
                         (eq_str (vget error_detection ''mode'') ''not_requested'')
                         (report ''enabled error_detection_policy.mode must not be not_requested''),
                       cwhen
                         (c_in (vget error_detection ''verification_basis'') [[], ''none''])
                         (report
                            ''enabled error_detection_policy.verification_basis must describe the verification basis''),
                       cwhen
                         (c_in (vget error_detection ''false_negative_policy'') [[], ''none''])
                         (report
                            ''enabled error_detection_policy.false_negative_policy must describe false-negative policy''),
                       whenp
                         (\<not> is_True (vget error_detection ''final_exact_comparison_required''))
                         (report
                            ''error_detection_policy.final_exact_comparison_required must be true''),
                       cwhen
                         (cnot
                            (c_in
                               (vget error_detection ''final_exact_comparison_status'')
                               ERROR_DETECTION_FINAL_STATUSES))
                         (report
                            ''error_detection_policy.final_exact_comparison_status must record exact/reference status''),
                       whenp
                         (\<not> is_True (vget error_detection ''research_only''))
                         (report
                            ''enabled error_detection_policy captures must set research_only=true''),
                       whenp
                         (\<not> is_True (vget error_detection ''default_exact_api_unchanged''))
                         (report
                            ''enabled error_detection_policy captures must keep default_exact_api_unchanged=true''),
                       whenp
                         (\<not> is_False (vget error_detection ''runtime_routing_allowed''))
                         (report
                            ''enabled error_detection_policy captures must set runtime_routing_allowed=false''),
                       whenp
                         (\<not> is_False (vget error_detection ''cache_eligible''))
                         (report
                            ''enabled error_detection_policy captures must set cache_eligible=false''),
                       whenp
                         (\<not> is_False (vget error_detection ''promotion_eligible''))
                         (report
                            ''enabled error_detection_policy captures must set promotion_eligible=false''),
                       whenp
                         (eq_str (vget error_detection ''mode'') ''probabilistic_product_check'')
                         (cseq
                            [whenp
                               (\<not> is_True (vget error_detection ''rng_seed_recorded''))
                               (report
                                  ''probabilistic error_detection_policy captures must set rng_seed_recorded=true''),
                             whenp
                               (\<not> is_int_value rounds \<or> int_of rounds \<le> 0)
                               (report
                                  ''probabilistic error_detection_policy captures must set positive verification_rounds'')])])]))"

definition check_cpu_selector :: "pydict \<Rightarrow> unit chk" where
  "check_cpu_selector data =
     (let cpu_selector = dget data ''cpu_small_shape_selector'' in
      whenp
        (\<not> is_None cpu_selector)
        (if \<not> is_dict cpu_selector
         then report ''cpu_small_shape_selector must be an object''
         else cseq
                [whenp
                   (\<not> is_bool (vget cpu_selector ''enabled''))
                   (report ''cpu_small_shape_selector.enabled must be a boolean''),
                 cfor [''policy'', ''candidate_role'', ''boundary_key'', ''threshold_scope'',
                       ''selector_explanation''] (\<lambda>key.
                   whenp
                     (\<not> is_str (vget cpu_selector key))
                     (report (''cpu_small_shape_selector.'' @ key @ '' must be a string''))),
                 cwhen
                   (cnot (c_in (vget cpu_selector ''candidate_role'') CPU_SELECTOR_ROLES))
                   (report
                      (''cpu_small_shape_selector.candidate_role must be one of '' @
                       py_str (str_list (sorted_set CPU_SELECTOR_ROLES)))),
                 cfor [''cpu_reference_required'', ''release_review_required'',
                       ''runtime_routing_allowed'', ''cache_eligible'', ''promotion_eligible''] (\<lambda>key.
                   whenp
                     (\<not> is_bool (vget cpu_selector key))
                     (report (''cpu_small_shape_selector.'' @ key @ '' must be a boolean''))),
                 whenp
                   (is_True (vget cpu_selector ''enabled''))
                   (cseq
                      [cwhen
                         (c_in (vget cpu_selector ''policy'') [[], ''none''])
                         (report
                            ''enabled cpu_small_shape_selector.policy must be a nonempty non-none string''),
                       whenp
                         (eq_str (vget cpu_selector ''candidate_role'') ''not_requested'')
                         (report
                            ''enabled cpu_small_shape_selector.candidate_role must not be not_requested''),
                       whenp
                         (\<not> truthy (vget cpu_selector ''boundary_key''))
                         (report
                            ''enabled cpu_small_shape_selector.boundary_key must be nonempty''),
                       whenp
                         (\<not> is_True (vget cpu_selector ''cpu_reference_required''))
                         (report
                            ''enabled cpu_small_shape_selector captures must require a CPU reference''),
                       whenp
                         (\<not> is_True (vget cpu_selector ''release_review_required''))
                         (report
                            ''enabled cpu_small_shape_selector captures must require release review''),
                       whenp
                         (\<not> is_False (vget cpu_selector ''runtime_routing_allowed''))
                         (report
                            ''enabled cpu_small_shape_selector captures must set runtime_routing_allowed=false''),
                       whenp
                         (\<not> is_False (vget cpu_selector ''cache_eligible''))
                         (report
                            ''enabled cpu_small_shape_selector captures must set cache_eligible=false''),
                       whenp
                         (\<not> is_False (vget cpu_selector ''promotion_eligible''))
                         (report
                            ''enabled cpu_small_shape_selector captures must set promotion_eligible=false'')])]))"

definition check_enabled_cache :: "pydict \<Rightarrow> pyval \<Rightarrow> unit chk" where
  "check_enabled_cache data incremental =
     whenp
       (is_True (vget incremental ''enabled''))
       (let scenario = py_or (dget data ''scenario_metadata'') (PDict []) in
        cbind (c_get scenario ''promotion_eligibility'') (\<lambda>promotion_scope.
        let public_contract = is_True (vget incremental ''public_contract_available'') in
        cseq
          [cwhen
             (c_in (vget incremental ''policy'') [[], ''none''])
             (report
                ''enabled incremental_result_cache.policy must be a nonempty non-none string''),
           cfor [''source_identity_policy'', ''source_version_policy'', ''dirty_region_policy'',
                 ''result_lifetime_policy'', ''checksum_policy'', ''partial_recompute_policy''] (\<lambda>key.
             cwhen
               (c_in (vget incremental key) [[], ''none''])
               (report
                  (''enabled incremental_result_cache.'' @ key @ '' must describe the contract''))),
           whenp
             (\<not> is_True (vget incremental ''final_exact_comparison_required''))
             (report ''incremental_result_cache.final_exact_comparison_required must be true''),
           cwhen
             (cnot
                (c_in
                   (vget incremental ''final_exact_comparison_status'')
                   ERROR_DETECTION_FINAL_STATUSES))
             (report
                ''incremental_result_cache.final_exact_comparison_status must record exact/reference status''),
           whenp
             (\<not> is_True (vget incremental ''default_gemm_unchanged''))
             (report
                ''enabled incremental_result_cache captures must keep default_gemm_unchanged=true''),
           if public_contract
           then let regions = vget incremental ''dirty_regions'' in
                cseq
                  [whenp
                     (\<not> eq_str promotion_scope ''result_cache_contract_candidate'')
                     (report
                        ''public incremental_result_cache captures must use result_cache_contract_candidate eligibility''),
                   whenp
                     (\<not> is_True (vget incremental ''runtime_routing_allowed''))
                     (report
                        ''public incremental_result_cache captures must set runtime_routing_allowed=true''),
                   whenp
                     (\<not> is_True (vget incremental ''cache_eligible''))
                     (report
                        ''public incremental_result_cache captures must set cache_eligible=true''),
                   whenp
                     (\<not> is_True (vget incremental ''promotion_eligible''))
                     (report
                        ''public incremental_result_cache captures must set promotion_eligible=true''),
                   cfor [''a_matrix_instance_id'', ''b_matrix_instance_id'', ''a_source_version'',
                         ''b_source_version'', ''result_cache_key_fingerprint'',
                         ''dirty_region_count'', ''recomputed_region_count'',
                         ''copied_from_cache_bytes'', ''cache_allocation_bytes''] (\<lambda>key.
                     whenp
                       (\<not> has_key (items_of incremental) key)
                       (report
                          (''public incremental_result_cache.'' @ key @ '' must be present''))),
                   whenp
                     (\<not> is_True (vget incremental ''stale_rejection_covered''))
                     (report
                        ''public incremental_result_cache.stale_rejection_covered must be true''),
                   if \<not> is_list regions \<or> \<not> truthy regions
                   then report
                          ''public incremental_result_cache.dirty_regions must be a nonempty list''
                   else cfor (enum_ints (elems_of regions)) (\<lambda>(index, region).
                          if \<not> is_dict region
                          then report
                                 (''incremental_result_cache.dirty_regions['' @
                                  show_int index @
                                  ''] must be an object'')
                          else let row_offset = vget region ''row_offset'';
                                   col_offset = vget region ''col_offset'';
                                   row_extent = vget region ''row_extent'';
                                   col_extent = vget region ''col_extent''
                               in cseq
                                    [cfor [''row_offset'', ''col_offset'', ''row_extent'',
                                           ''col_extent''] (\<lambda>key.
                                       whenp
                                         (\<not> isinstance_int (vget region key))
                                         (report
                                            (''incremental_result_cache.dirty_regions['' @
                                             show_int index @
                                             ''].'' @
                                             key @
                                             '' must be an integer''))),
                                     cwhen
                                       (all_of
                                          [cret
                                             (isinstance_int row_offset \<and>
                                              isinstance_int row_extent),
                                           any_of
                                             [cret
                                                (int_of row_offset < 0 \<or>
                                                 int_of row_extent \<le> 0),
                                              c_lt
                                                (dget_or data ''m'' (PInt 0))
                                                (PInt (int_of row_offset + int_of row_extent))]])
                                       (report
                                          (''incremental_result_cache.dirty_regions['' @
                                           show_int index @
                                           ''] rows out of bounds'')),
                                     cwhen
                                       (all_of
                                          [cret
                                             (isinstance_int col_offset \<and>
                                              isinstance_int col_extent),
                                           any_of
                                             [cret
                                                (int_of col_offset < 0 \<or>
                                                 int_of col_extent \<le> 0),
                                              c_lt
                                                (dget_or data ''n'' (PInt 0))
                                                (PInt (int_of col_offset + int_of col_extent))]])
                                       (report
                                          (''incremental_result_cache.dirty_regions['' @
                                           show_int index @
                                           ''] columns out of bounds''))])]
           else cseq
                  [whenp
                     (\<not> is_False (vget incremental ''runtime_routing_allowed''))
                     (report
                        ''research incremental_result_cache captures must set runtime_routing_allowed=false''),
                   whenp
                     (\<not> is_False (vget incremental ''cache_eligible''))
                     (report
                        ''research incremental_result_cache captures must set cache_eligible=false''),
                   whenp
                     (\<not> is_False (vget incremental ''promotion_eligible''))
                     (report
                        ''research incremental_result_cache captures must set promotion_eligible=false'')]]))"

definition check_incremental_cache :: "pydict \<Rightarrow> unit chk" where
  "check_incremental_cache data =
     (let incremental = dget data ''incremental_result_cache'' in
      whenp
        (\<not> is_None incremental)
        (if \<not> is_dict incremental
         then report ''incremental_result_cache must be an object''
         else cseq
                [whenp
                   (\<not> is_bool (vget incremental ''enabled''))
                   (report ''incremental_result_cache.enabled must be a boolean''),
                 cfor [''policy'', ''source_identity_policy'', ''source_version_policy'',
                       ''dirty_region_policy'', ''result_lifetime_policy'', ''checksum_policy'',
                       ''partial_recompute_policy'', ''final_exact_comparison_status''] (\<lambda>key.
                   whenp
                     (\<not> is_str (vget incremental key))
                     (report (''incremental_result_cache.'' @ key @ '' must be a string''))),
                 cfor [''final_exact_comparison_required'', ''public_contract_available'',
                       ''default_gemm_unchanged'', ''runtime_routing_allowed'', ''cache_eligible'',
                       ''promotion_eligible''] (\<lambda>key.
                   whenp
                     (\<not> is_bool (vget incremental key))
                     (report (''incremental_result_cache.'' @ key @ '' must be a boolean''))),
                 check_enabled_cache data incremental]))"

definition validate_contract_metadata :: "pydict \<Rightarrow> unit chk" where
  "validate_contract_metadata data =
     cseq
       [check_reuse_contract data,
        check_exact_output_contract data,
        check_export_variant data,
        check_reconstruction_variant data,
        check_modulus_set data,
        check_residue_count_policy data,
        check_tile_shape_variant data,
        check_grouped_dispatch data,
        check_graph_replay data,
        check_adaptive_scheduler data,
        check_resident_redesign data,
        check_resident_lifetime data,
        check_workspace_arena data,
        check_streaming_overlap data,
        check_workload_proxy data,
        check_release_gate data,
        check_verification_amortization data,
        check_error_detection data,
        check_cpu_selector data,
        check_incremental_cache data]"

end
