(* ===== verification/Schema_Helper.thy ===== *)
theory Schema_Helper
  imports Schema_Contract
begin

text \<open>
  \<open>tools/benchmark_schema/helper_metadata.py\<close>: pack layout, fusion and reducer metadata, plan packing and
  lowering, output policy, target and selector descriptions, and allocation counters.
\<close>

text \<open>A target name counts as concrete here by its spelling alone, unlike in \<open>core_shared.py\<close>.\<close>

definition is_concrete_target_id :: "pyval \<Rightarrow> bool" where
  "is_concrete_target_id v \<longleftrightarrow>
     (case v of
        PStr s \<Rightarrow> s \<noteq> [] \<and> \<not> starts_with ''unknown'' s \<and> s \<noteq> ''not_recorded''
      | _ \<Rightarrow> False)"

definition helper_timing_checks :: "pydict \<Rightarrow> unit chk" where
  "helper_timing_checks data =
     (let metadata' = dget data ''timing_metadata'' in
      whenp
        (is_dict metadata')
        (let pack_layout = vget metadata' ''pack_layout'';
             fusion_mode = vget metadata' ''fusion_mode'';
             residue_width = vget metadata' ''residue_group_width'';
             residue_layout = vget metadata' ''residue_group_layout'';
             reducer = vget metadata' ''generated_reducer_identity'';
             batch_enabled = vget metadata' ''host_api_batch_enabled'';
             batch_size = vget metadata' ''host_api_batch_size'';
             grouped_strategy = vget metadata' ''grouped_dispatch_execution_strategy'';
             grouped_batched_export = vget metadata' ''grouped_dispatch_batched_export_enabled'';
             grouped_slab_bytes = vget metadata' ''grouped_dispatch_device_output_slab_bytes''
         in cseq
              [cwhen
                 (all_of [cret (\<not> is_None pack_layout), cnot (c_in pack_layout PACK_LAYOUTS)])
                 (report
                    (''timing_metadata.pack_layout must be one of '' @
                     py_str (str_list (sorted_set PACK_LAYOUTS)))),
               cwhen
                 (all_of [cret (\<not> is_None fusion_mode), cnot (c_in fusion_mode FUSION_MODES)])
                 (report
                    (''timing_metadata.fusion_mode must be one of '' @
                     py_str (str_list (sorted_set FUSION_MODES)))),
               whenp
                 (\<not> is_None residue_width \<and>
                  (\<not> is_int_value residue_width \<or> int_of residue_width \<le> 0))
                 (report ''timing_metadata.residue_group_width must be a positive integer''),
               cwhen
                 (all_of
                    [cret (\<not> is_None residue_layout),
                     cnot (c_in residue_layout RESIDUE_GROUP_LAYOUTS)])
                 (report
                    (''timing_metadata.residue_group_layout must be one of '' @
                     py_str (str_list (sorted_set RESIDUE_GROUP_LAYOUTS)))),
               whenp
                 (\<not> is_None reducer)
                 (cseq
                    [whenp
                       (\<not> is_str reducer \<or>
                        \<not> matches_generated_reducer (str_of reducer))
                       (report
                          ''timing_metadata.generated_reducer_identity must be a declared reducer identity''),
                     whenp
                       (eq_str reducer ''generic'' \<or>
                        eq_str reducer ''direct_hip_generic_reducer'')
                       (report
                          ''timing_metadata.generated_reducer_identity must not use stale generic identities'')]),
               whenp
                 (eq_str fusion_mode ''residue_channel_width3_experimental_benchmark_only'')
                 (cseq
                    [cwhen
                       (cmap
                          (\<lambda>mode. mode \<noteq> ''residue_channel_fusion_native_inputs'')
                          (benchmark_execution_mode data))
                       (report
                          ''residue-channel fusion metadata requires benchmark_execution_mode=residue_channel_fusion_native_inputs''),
                     whenp
                       (\<not> eq_str pack_layout ''native_i8_row_major_residue_channel_width3'')
                       (report
                          ''residue-channel fusion captures must use pack_layout=native_i8_row_major_residue_channel_width3''),
                     whenp
                       (\<not> py_eq residue_width (PInt 3))
                       (report
                          ''residue-channel fusion captures must use residue_group_width=3'')]),
               whenp
                 (\<not> is_None batch_enabled \<and> \<not> is_bool batch_enabled)
                 (report ''timing_metadata.host_api_batch_enabled must be a boolean''),
               whenp
                 (\<not> is_None batch_size \<and>
                  (\<not> is_int_value batch_size \<or> int_of batch_size \<le> 0))
                 (report ''timing_metadata.host_api_batch_size must be a positive integer''),
               cwhen
                 (all_of
                    [cret (\<not> is_None grouped_strategy),
                     cnot (c_in grouped_strategy SCHEMA_GROUPED_DISPATCH_EXECUTION_STRATEGIES)])
                 (report
                    ''timing_metadata.grouped_dispatch_execution_strategy must be a known grouped strategy''),
               whenp
                 (\<not> is_None grouped_batched_export \<and>
                  \<not> is_bool grouped_batched_export)
                 (report
                    ''timing_metadata.grouped_dispatch_batched_export_enabled must be a boolean''),
               whenp
                 (\<not> is_None grouped_slab_bytes \<and>
                  (\<not> is_int_value grouped_slab_bytes \<or> int_of grouped_slab_bytes < 0))
                 (report
                    ''timing_metadata.grouped_dispatch_device_output_slab_bytes must be a nonnegative integer'')]))"

definition plan_packing_checks :: "pydict \<Rightarrow> unit chk" where
  "plan_packing_checks data =
     (let plan_packing = dget data ''plan_packing'' in
      whenp
        (\<not> is_None plan_packing)
        (if \<not> is_dict plan_packing
         then report ''plan_packing must be an object or null''
         else cseq
                [cfor [''source'', ''backend'', ''semantics'', ''input_domain_name'',
                       ''output_domain_name'', ''next_op_hint''] (\<lambda>key.
                   whenp
                     (\<not> is_str (vget plan_packing key))
                     (report (''plan_packing.'' @ key @ '' must be a string''))),
                 cfor [''uses_resident_matrix_inputs'', ''uses_transient_pack_workspace'',
                       ''uses_matrix_engine_pack_layout'', ''reusable_prepack_cache_available'',
                       ''production_prepack_cache_available'', ''output_host_current'',
                       ''output_device_current'', ''source_versioned_inputs'',
                       ''same_source_version_pack_elision_available''] (\<lambda>key.
                   whenp
                     (\<not> is_bool (vget plan_packing key))
                     (report (''plan_packing.'' @ key @ '' must be a boolean''))),
                 cfor [''flags'', ''next_op_flags'', ''a_pack_workspace_bytes'',
                       ''b_pack_workspace_bytes'', ''accumulator_workspace_bytes'',
                       ''library_workspace_bytes'', ''total_transient_workspace_bytes''] (\<lambda>key.
                   let value = vget plan_packing key in
                   whenp
                     (\<not> is_int_value value \<or> int_of value < 0)
                     (report (''plan_packing.'' @ key @ '' must be a nonnegative integer'')))]))"

definition plan_lowering_checks :: "pydict \<Rightarrow> unit chk" where
  "plan_lowering_checks data =
     (let plan_lowering = dget data ''plan_lowering'' in
      whenp
        (\<not> is_None plan_lowering)
        (if \<not> is_dict plan_lowering
         then report ''plan_lowering must be an object or null''
         else cseq
                [cfor [''source'', ''operation'', ''semantic_contract'', ''backend_family'',
                       ''input_domain'', ''output_domain'', ''desired_output'',
                       ''schedule_strategy'', ''packing_strategy'', ''reuse_strategy'',
                       ''conversion_strategy'', ''lowering_path''] (\<lambda>key.
                   whenp
                     (\<not> is_str (vget plan_lowering key))
                     (report (''plan_lowering.'' @ key @ '' must be a string''))),
                 cfor [''final_export_available'', ''rns_continuation_available'',
                       ''native_continuation_available'', ''native_to_rns_available'',
                       ''reusable_b_prepack_available''] (\<lambda>key.
                   whenp
                     (\<not> is_bool (vget plan_lowering key))
                     (report (''plan_lowering.'' @ key @ '' must be a boolean'')))]))"

definition output_policy_checks :: "pydict \<Rightarrow> pyval \<Rightarrow> unit chk" where
  "output_policy_checks data output_policy =
     whenp
       (\<not> is_None output_policy)
       (if \<not> is_dict output_policy
        then report ''output_policy must be an object''
        else cseq
               [cwhen
                  (cnot
                     (c_in (vget output_policy ''destination_layout'') OUTPUT_DESTINATION_LAYOUTS))
                  (report
                     (''output_policy.destination_layout must be one of '' @
                      py_str (str_list (sorted_set OUTPUT_DESTINATION_LAYOUTS)))),
                whenp
                  (\<not> eq_str
                     (vget output_policy ''destination_layout'')
                     (output_destination_layout (dget_or data ''output_ld_padding'' (PInt 0))))
                  (report ''output_policy.destination_layout must match output_ld_padding''),
                cfor [''logical_ld'', ''ld_padding''] (\<lambda>key.
                  let value = vget output_policy key in
                  whenp
                    (\<not> is_int_value value \<or> int_of value < 0)
                    (report (''output_policy.'' @ key @ '' must be a nonnegative integer''))),
                whenp
                  (is_int_value (dget data ''output_logical_ld'') \<and>
                   \<not> py_eq
                     (vget output_policy ''logical_ld'')
                     (dget data ''output_logical_ld''))
                  (report ''output_policy.logical_ld must match output_logical_ld''),
                whenp
                  (\<not> py_eq
                     (vget output_policy ''ld_padding'')
                     (dget data ''output_ld_padding''))
                  (report ''output_policy.ld_padding must match output_ld_padding''),
                cwhen
                  (cnot (c_in (vget output_policy ''status_handling'') STATUS_HANDLING))
                  (report
                     (''output_policy.status_handling must be one of '' @
                      py_str (str_list (sorted_set STATUS_HANDLING)))),
                whenp
                  (\<not> is_str (vget output_policy ''status_event_policy''))
                  (report ''output_policy.status_event_policy must be a string'')])"

definition residue_current_checks :: "pydict \<Rightarrow> pyval \<Rightarrow> pyval \<Rightarrow> unit chk" where
  "residue_current_checks data requested_next_op output_policy =
     cwhen
       (is_residue_current_chain_capture data)
       (cseq
          [if \<not> is_dict requested_next_op
           then report ''residue-current chain captures must declare requested_next_op''
           else whenp
                  (\<not> eq_str (vget requested_next_op ''resolved'') ''rns-gemm'')
                  (report
                     ''residue-current chain captures must declare requested_next_op.resolved=rns-gemm''),
           if \<not> is_dict output_policy
           then report ''residue-current chain captures must declare output_policy''
           else cseq
                  [whenp
                     (\<not> is_False (vget output_policy ''per_repeat_logical_export''))
                     (report
                        ''residue-current chain captures must declare output_policy.per_repeat_logical_export=false''),
                   whenp
                     (\<not> is_True (vget output_policy ''final_checksum_export_after_repeats''))
                     (report
                        ''residue-current chain captures must declare output_policy.final_checksum_export_after_repeats=true''),
                   whenp
                     (\<not> eq_str
                        (vget output_policy ''status_handling'')
                        ''structurally_elided'')
                     (report
                        ''residue-current chain captures must declare output_policy.status_handling=structurally_elided'')]])"

definition chain_final_export_checks :: "pydict \<Rightarrow> pyval \<Rightarrow> pyval \<Rightarrow> unit chk" where
  "chain_final_export_checks data requested_next_op output_policy =
     cwhen
       (is_residue_chain_final_export_capture data)
       (cseq
          [if \<not> is_dict requested_next_op
           then report ''residue-chain final-export captures must declare requested_next_op''
           else whenp
                  (\<not> eq_str (vget requested_next_op ''resolved'') ''final-export'')
                  (report
                     ''residue-chain final-export captures must declare requested_next_op.resolved=final-export''),
           if \<not> is_dict output_policy
           then report ''residue-chain final-export captures must declare output_policy''
           else cseq
                  [whenp
                     (\<not> is_True (vget output_policy ''per_repeat_logical_export''))
                     (report
                        ''residue-chain final-export captures must declare output_policy.per_repeat_logical_export=true''),
                   whenp
                     (\<not> is_False (vget output_policy ''final_checksum_export_after_repeats''))
                     (report
                        ''residue-chain final-export captures must declare output_policy.final_checksum_export_after_repeats=false'')]])"

definition target_variant_checks :: "pydict \<Rightarrow> pyval \<Rightarrow> unit chk" where
  "target_variant_checks data target_variant =
     whenp
       (\<not> is_None target_variant)
       (if \<not> is_dict target_variant
        then report ''target_variant must be an object''
        else let target_id = vget target_variant ''target_id'';
                 namespace = vget target_variant ''target_namespace''
             in cseq
                  [whenp
                     (\<not> is_str target_id)
                     (report ''target_variant.target_id must be a string''),
                   cwhen
                     (cnot (c_in namespace TARGET_NAMESPACES))
                     (report
                        (''target_variant.target_namespace must be one of '' @
                         py_str (str_list (sorted_set TARGET_NAMESPACES)))),
                   cwhen
                     (c_in (dget data ''backend_selected'') HIP_RESIDENT_BACKENDS)
                     (cseq
                        [whenp
                           (\<not> is_concrete_target_id target_id)
                           (report
                              ''HIP captures with target_variant must include concrete target_variant.target_id''),
                         whenp
                           (eq_str namespace ''unknown'')
                           (report
                              ''HIP captures with target_variant must use a concrete target_namespace'')]),
                   cfor [''review_group_key'', ''configured_amdgpu_targets''] (\<lambda>key.
                     whenp
                       (\<not> is_str (vget target_variant key))
                       (report (''target_variant.'' @ key @ '' must be a string''))),
                   cfor [''target_arch'', ''target_cache_key'', ''target_instance_id'',
                         ''device_name''] (\<lambda>key.
                     whenp
                       (has_key (items_of target_variant) key \<and>
                        \<not> is_str (vget target_variant key))
                       (report (''target_variant.'' @ key @ '' must be a string''))),
                   cfor [''device_index'', ''visible_device_count'', ''node_gpu_count''] (\<lambda>key.
                     whenp
                       (has_key (items_of target_variant) key \<and>
                        \<not> is_int_value (vget target_variant key))
                       (report (''target_variant.'' @ key @ '' must be an integer'')))])"

definition auto_selector_checks :: "pydict \<Rightarrow> pyval \<Rightarrow> unit chk" where
  "auto_selector_checks data auto_selector =
     whenp
       (\<not> is_None auto_selector)
       (if \<not> is_dict auto_selector
        then report ''auto_selector must be an object''
        else let selected_key = vget auto_selector ''selected_key'';
                 vocabulary = vget auto_selector ''rejection_reason_vocabulary'';
                 rejected = vget auto_selector ''rejected_candidates''
             in cseq
                  [cfor [''source'', ''requested_backend'', ''selected_backend'',
                         ''fallback_reason''] (\<lambda>key.
                     whenp
                       (\<not> is_str (vget auto_selector key))
                       (report (''auto_selector.'' @ key @ '' must be a string''))),
                   whenp
                     (\<not> is_None selected_key \<and> \<not> is_str selected_key)
                     (report ''auto_selector.selected_key must be a string or null''),
                   cwhen
                     (any_of
                        [cret (\<not> is_list vocabulary),
                         cnot (c_same_set (elems_of vocabulary) SELECTOR_REJECTION_REASONS)])
                     (report
                        ''auto_selector.rejection_reason_vocabulary must match fixed rejection reasons''),
                   whenp
                     (\<not> is_None rejected)
                     (if \<not> is_list rejected
                      then report ''auto_selector.rejected_candidates must be an array''
                      else cfor (enum_ints (elems_of rejected)) (\<lambda>(index, item).
                             if \<not> is_dict item
                             then report
                                    (''auto_selector.rejected_candidates['' @
                                     show_int index @
                                     ''] must be an object'')
                             else cwhen
                                    (cnot (c_in (vget item ''reason'') SELECTOR_REJECTION_REASONS))
                                    (report
                                       (''auto_selector.rejected_candidates['' @
                                        show_int index @
                                        ''].reason must be a fixed rejection reason''))))])"

definition device_allocation_checks :: "pydict \<Rightarrow> pyval \<Rightarrow> unit chk" where
  "device_allocation_checks data device_allocation =
     whenp
       (\<not> is_None device_allocation)
       (if \<not> is_dict device_allocation
        then report ''device_allocation must be an object''
        else cseq
               [whenp
                  (\<not> is_bool (vget device_allocation ''tracking_available''))
                  (report ''device_allocation.tracking_available must be a boolean''),
                cfor [''source'', ''setup_scope'', ''source_version_inputs''] (\<lambda>key.
                  whenp
                    (\<not> is_str (vget device_allocation key))
                    (report (''device_allocation.'' @ key @ '' must be a string''))),
                validate_counter_snapshot
                  data
                  ''device_allocation.before''
                  (vget device_allocation ''before''),
                whenp
                  (\<not> is_None (vget device_allocation ''after_warmups''))
                  (validate_counter_snapshot
                     data
                     ''device_allocation.after_warmups''
                     (vget device_allocation ''after_warmups'')),
                validate_counter_snapshot
                  data
                  ''device_allocation.after_repeats''
                  (vget device_allocation ''after_repeats''),
                validate_counter_snapshot
                  data
                  ''device_allocation.setup_delta''
                  (vget device_allocation ''setup_delta''),
                whenp
                  (\<not> is_None (vget device_allocation ''measured_repeat_delta''))
                  (validate_counter_snapshot
                     data
                     ''device_allocation.measured_repeat_delta''
                     (vget device_allocation ''measured_repeat_delta''))])"

definition validate_helper_lane_metadata :: "pydict \<Rightarrow> unit chk" where
  "validate_helper_lane_metadata data =
     (let requested_next_op = dget data ''requested_next_op'';
          output_policy = dget data ''output_policy'';
          target_variant = dget data ''target_variant'';
          helper_lane_surface_present = list_ex
                                          (\<lambda>key. has_key data key)
                                          [''plan_packing'', ''plan_lowering'',
                                           ''requested_next_op'', ''output_policy'',
                                           ''auto_selector'', ''device_allocation'',
                                           ''reuse_contract'', ''exact_output_contract'',
                                           ''export_variant'', ''reconstruction_variant'',
                                           ''modulus_set'', ''residue_count_policy'',
                                           ''tile_shape_variant'', ''grouped_dispatch'',
                                           ''adaptive_grouped_scheduler'', ''hip_graph_replay'',
                                           ''resident_lifetime'', ''workspace_arena'',
                                           ''streaming_overlap'', ''workload_proxy'',
                                           ''release_gate'', ''verification_amortization'',
                                           ''error_detection_policy'', ''cpu_small_shape_selector'',
                                           ''incremental_result_cache''];
          auto_selector = dget data ''auto_selector'';
          device_allocation = dget data ''device_allocation''
      in cseq
           [helper_timing_checks data,
            plan_packing_checks data,
            plan_lowering_checks data,
            whenp
              (\<not> is_None requested_next_op)
              (if \<not> is_dict requested_next_op
               then report ''requested_next_op must be an object''
               else cseq
                      [cwhen
                         (cnot (c_in (vget requested_next_op ''requested'') NEXT_OP_HINTS))
                         (report
                            (''requested_next_op.requested must be one of '' @
                             py_str (str_list (sorted_set NEXT_OP_HINTS)))),
                       cwhen
                         (cnot
                            (c_in
                               (vget requested_next_op ''resolved'')
                               (filter (\<lambda>x. x \<notin> set [''auto'']) NEXT_OP_HINTS)))
                         (report
                            (''requested_next_op.resolved must be one of '' @
                             py_str
                               (str_list
                                  (sorted_set
                                     (filter
                                        (\<lambda>x. x \<notin> set [''auto''])
                                        NEXT_OP_HINTS))))),
                       cwhen
                         (cnot
                            (c_in
                               (vget requested_next_op ''source'')
                               [''cli'', ''benchmark_default'']))
                         (report ''requested_next_op.source must be cli or benchmark_default'')]),
            output_policy_checks data output_policy,
            residue_current_checks data requested_next_op output_policy,
            chain_final_export_checks data requested_next_op output_policy,
            cwhen
              (all_of
                 [cret (is_None target_variant \<and> helper_lane_surface_present),
                  c_in (dget data ''backend_selected'') HIP_RESIDENT_BACKENDS])
              (report ''HIP helper-lane captures must include target_variant''),
            target_variant_checks data target_variant,
            auto_selector_checks data auto_selector,
            device_allocation_checks data device_allocation])"

end
