(* ===== verification/Schema_Schedule.thy ===== *)
theory Schema_Schedule
  imports Schema_Predicates
begin

text \<open>
  \<open>tools/benchmark_schema/validator_schedule.py\<close>: the tile schedule, the phases that were timed, where the
  bounds come from, the residue prefix policy, and the adaptive per-tile schedule.
\<close>

unbundle bit_operations_syntax

definition validate_phase_availability :: "pydict \<Rightarrow> pydict \<Rightarrow> unit chk" where
  "validate_phase_availability data metadata' =
     (let availability = dget metadata' ''phase_availability'' in
      if \<not> is_dict availability
      then report ''timing_metadata.phase_availability must be an object''
      else let scheduling = vget availability ''scheduling'';
               global_bound_scan = vget availability GLOBAL_BOUND_TIMING_PHASE;
               input_scan = eq_str (dget data ''bound_source'') ''input_scan'';
               global_input_scan = input_scan \<and>
                                   eq_str
                                     (dget_or data ''bound_mode'' (PStr ''global''))
                                     ''global'';
               per_tile = eq_str (dget data ''bound_mode'') ''per_tile'';
               tile_bound_scan = vget availability PER_TILE_TIMING_PHASE;
               reuse_packed = is_True (dget data ''reuse_packed_inputs'');
               prepack = vget availability ''prepack_setup'';
               reduction = vget availability ''reduction''
           in cseq
                [if \<not> is_dict scheduling
                 then report ''timing_metadata.phase_availability.scheduling must be an object''
                 else let expected_scope = if is_wrap64_rocwmma_candidate data
                                           then ''benchmark_static_wrap64_rocwmma_candidate_schedule''
                                           else ''one_time_schedule_info_query'' in
                      cseq
                        [whenp
                           (\<not> is_True (vget scheduling ''timed''))
                           (report
                              ''timing_metadata.phase_availability.scheduling.timed must be true''),
                         whenp
                           (\<not> eq_str (vget scheduling ''timing_key'') ''scheduling'')
                           (report
                              ''timing_metadata.phase_availability.scheduling.timing_key must be scheduling''),
                         whenp
                           (\<not> eq_str (vget scheduling ''scope'') expected_scope)
                           (report
                              (''timing_metadata.phase_availability.scheduling.scope must be '' @
                               expected_scope)),
                         whenp
                           (\<not> is_str (vget scheduling ''reason'') \<or>
                            \<not> truthy (vget scheduling ''reason''))
                           (report
                              ''timing_metadata.phase_availability.scheduling.reason must be a nonempty string'')],
                 if global_input_scan \<and> \<not> is_dict global_bound_scan
                 then report
                        ''timing_metadata.phase_availability.global_bound_scan must be an object for input_scan captures''
                 else whenp
                        (\<not> is_None global_bound_scan)
                        (if \<not> is_dict global_bound_scan
                         then report
                                ''timing_metadata.phase_availability.global_bound_scan must be an object''
                         else let expected_timed = global_input_scan;
                                  expected_key = if global_input_scan
                                                 then Some GLOBAL_BOUND_TIMING_PHASE
                                                 else None;
                                  expected_scope = if global_input_scan
                                                   then ''input_row_column_abs_summary''
                                                   else ''not_applicable_static_profile''
                              in cseq
                                   [whenp
                                      (vget global_bound_scan ''timed'' \<noteq>
                                       PBool expected_timed)
                                      (report
                                         (''timing_metadata.phase_availability.global_bound_scan.timed must be '' @
                                          lower (py_str (PBool expected_timed)))),
                                    whenp
                                      (\<not> py_eq
                                         (vget global_bound_scan ''timing_key'')
                                         (opt_val expected_key))
                                      (report
                                         (''timing_metadata.phase_availability.global_bound_scan.timing_key must be '' @
                                          py_str (opt_val expected_key))),
                                    whenp
                                      (\<not> eq_str
                                         (vget global_bound_scan ''scope'')
                                         expected_scope)
                                      (report
                                         (''timing_metadata.phase_availability.global_bound_scan.scope must be '' @
                                          expected_scope)),
                                    whenp
                                      (\<not> is_str (vget global_bound_scan ''reason'') \<or>
                                       \<not> truthy (vget global_bound_scan ''reason''))
                                      (report
                                         ''timing_metadata.phase_availability.global_bound_scan.reason must be a nonempty string'')]),
                 if per_tile \<and> \<not> is_dict tile_bound_scan
                 then report
                        ''timing_metadata.phase_availability.tile_bound_scan must be an object for per-tile captures''
                 else whenp
                        (\<not> is_None tile_bound_scan)
                        (if \<not> is_dict tile_bound_scan
                         then report
                                ''timing_metadata.phase_availability.tile_bound_scan must be an object''
                         else let expected_timed = per_tile;
                                  expected_key = if per_tile
                                                 then Some PER_TILE_TIMING_PHASE
                                                 else None;
                                  expected_scope = if per_tile
                                                   then ''exact_seeded_input_prepass''
                                                   else ''not_applicable_global_bound''
                              in cseq
                                   [whenp
                                      (vget tile_bound_scan ''timed'' \<noteq> PBool expected_timed)
                                      (report
                                         (''timing_metadata.phase_availability.tile_bound_scan.timed must be '' @
                                          lower (py_str (PBool expected_timed)))),
                                    whenp
                                      (\<not> py_eq
                                         (vget tile_bound_scan ''timing_key'')
                                         (opt_val expected_key))
                                      (report
                                         (''timing_metadata.phase_availability.tile_bound_scan.timing_key must be '' @
                                          py_str (opt_val expected_key))),
                                    whenp
                                      (\<not> eq_str
                                         (vget tile_bound_scan ''scope'')
                                         expected_scope)
                                      (report
                                         (''timing_metadata.phase_availability.tile_bound_scan.scope must be '' @
                                          expected_scope)),
                                    whenp
                                      (\<not> is_str (vget tile_bound_scan ''reason'') \<or>
                                       \<not> truthy (vget tile_bound_scan ''reason''))
                                      (report
                                         ''timing_metadata.phase_availability.tile_bound_scan.reason must be a nonempty string'')]),
                 if reuse_packed \<and> \<not> is_dict prepack
                 then report
                        ''timing_metadata.phase_availability.prepack_setup must be an object for prepacked reuse''
                 else whenp
                        (\<not> is_None prepack)
                        (if \<not> is_dict prepack
                         then report
                                ''timing_metadata.phase_availability.prepack_setup must be an object''
                         else let expected_timed = reuse_packed;
                                  expected_key = if reuse_packed
                                                 then Some ''prepack_setup_us''
                                                 else None;
                                  expected_scope = if reuse_packed
                                                   then ''one_time_before_warmups''
                                                   else ''not_requested_per_repeat_repack'';
                                  expected_breakdown_key = if reuse_packed
                                                           then Some ''prepack_setup_breakdown_us''
                                                           else None
                              in cseq
                                   [whenp
                                      (vget prepack ''timed'' \<noteq> PBool expected_timed)
                                      (report
                                         (''timing_metadata.phase_availability.prepack_setup.timed must be '' @
                                          lower (py_str (PBool expected_timed)))),
                                    whenp
                                      (\<not> py_eq
                                         (vget prepack ''timing_key'')
                                         (opt_val expected_key))
                                      (report
                                         (''timing_metadata.phase_availability.prepack_setup.timing_key must be '' @
                                          py_str (opt_val expected_key))),
                                    whenp
                                      (has_key (items_of prepack) ''breakdown_key'' \<and>
                                       \<not> py_eq
                                         (vget prepack ''breakdown_key'')
                                         (opt_val expected_breakdown_key))
                                      (report
                                         (''timing_metadata.phase_availability.prepack_setup.breakdown_key must be '' @
                                          py_str (opt_val expected_breakdown_key))),
                                    whenp
                                      (\<not> eq_str (vget prepack ''scope'') expected_scope)
                                      (report
                                         (''timing_metadata.phase_availability.prepack_setup.scope must be '' @
                                          expected_scope)),
                                    whenp
                                      (\<not> is_str (vget prepack ''reason'') \<or>
                                       \<not> truthy (vget prepack ''reason''))
                                      (report
                                         ''timing_metadata.phase_availability.prepack_setup.reason must be a nonempty string'')]),
                 if \<not> is_dict reduction
                 then report ''timing_metadata.phase_availability.reduction must be an object''
                 else cseq
                        [whenp
                           (\<not> is_False (vget reduction ''timed''))
                           (report
                              ''timing_metadata.phase_availability.reduction.timed must be false''),
                         whenp
                           (\<not> is_None (vget reduction ''timing_key''))
                           (report
                              ''timing_metadata.phase_availability.reduction.timing_key must be null''),
                         let expected_scope = (if eq_str
                                                    (dget data ''semantics'')
                                                    ''wrap_u64_mod_2_64''
                                               then ''not_applicable_wrap64_byte_limb''
                                               else if eq_str
                                                         (dget data ''backend_selected'')
                                                         ''hipblaslt''
                                               then ''separate_hipblaslt_i32_scratch_residue_reduce''
                                               else if eq_str
                                                         (dget data ''backend_selected'')
                                                         ''hip-vector-alu-int64''
                                               then if is_vector_alu_runtime_capture data
                                                    then ''not_applicable_native_vector_output''
                                                    else ''not_applicable_direct_int64_export''
                                               else ''fused_into_rns_gemm'') in
                         cseq
                           [whenp
                              (\<not> eq_str (vget reduction ''scope'') expected_scope)
                              (report
                                 (''timing_metadata.phase_availability.reduction.scope must be '' @
                                  expected_scope)),
                            whenp
                              (\<not> is_str (vget reduction ''reason'') \<or>
                               \<not> truthy (vget reduction ''reason''))
                              (report
                                 ''timing_metadata.phase_availability.reduction.reason must be a nonempty string'')]]])"

definition validate_tile_value :: "pydict \<Rightarrow> string \<Rightarrow> pyval \<Rightarrow> unit chk" where
  "validate_tile_value data key value =
     (if \<not> is_int_value value
      then report (key @ '' must be an integer'')
      else if is_wrap64_rocwmma_candidate data
      then whenp
             (\<not> py_eq value (PInt 16))
             (report (key @ '' must be 16 for rocWMMA wrap64 candidate captures''))
      else whenp
             (int_of value < 64 \<or>
              512 < int_of value \<or>
              int_of value AND int_of value - 1 \<noteq> 0)
             (report (key @ '' must be a power of two from 64 through 512'')))"

definition row_col_count_checks :: "pydict \<Rightarrow> pyval \<Rightarrow> pyval \<Rightarrow> pyval \<Rightarrow> pyval \<Rightarrow> pyval \<Rightarrow> pyval \<Rightarrow> pyval \<Rightarrow> bool \<Rightarrow> unit chk" where
  "row_col_count_checks data flags zero_a_rows zero_b_cols zero_row_col_products planner_zero_a_rows planner_zero_b_cols planner_zero_row_col_products row_col_counts_valid =
     whenp
       row_col_counts_valid
       (let m_value = dget data ''m'';
            n_value = dget data ''n'';
            row_col_flag = is_int_value flags \<and>
                           int_of flags AND TILE_SCHEDULE_ZERO_ROW_COL_PRODUCT \<noteq> 0
        in cseq
             [whenp
                (is_int_value m_value \<and> int_of m_value < int_of zero_a_rows)
                (report ''schedule_metadata.zero_a_row_proof_count must be <= m''),
              whenp
                (is_int_value n_value \<and> int_of n_value < int_of zero_b_cols)
                (report ''schedule_metadata.zero_b_col_proof_count must be <= n''),
              whenp
                (is_int_value m_value \<and> is_int_value n_value)
                (let expected_products = int_of zero_a_rows * int_of n_value +
                                         (int_of m_value - int_of zero_a_rows) *
                                         int_of zero_b_cols in
                 cseq
                   [whenp
                      (\<not> py_eq zero_row_col_products (PInt expected_products))
                      (report
                         ''schedule_metadata.zero_row_col_product_count must match zero row/column product coverage''),
                    whenp
                      (int_of m_value * int_of n_value < int_of zero_row_col_products)
                      (report ''schedule_metadata.zero_row_col_product_count must be <= m*n'')]),
              whenp
                (0 < int_of zero_row_col_products \<and> \<not> row_col_flag)
                (report
                   ''schedule_metadata zero_row_col_product_count requires ZERO_ROW_COL_PRODUCT schedule flag''),
              whenp
                (py_eq zero_row_col_products (PInt 0) \<and> row_col_flag)
                (report
                   ''schedule_metadata ZERO_ROW_COL_PRODUCT flag requires zero_row_col_product_count > 0''),
              cbind (all_of
                       [c_in (dget data ''semantics'') [''bounded_i64'', ''bounded_u64''],
                        cret
                          (eq_str
                             (dget data ''bound_mode'')
                             ''per_tile'')]) (\<lambda>per_tile_bounded.
              whenp
                (\<not> per_tile_bounded \<and>
                 (\<not> py_eq zero_a_rows (PInt 0) \<or>
                  \<not> py_eq zero_b_cols (PInt 0) \<or>
                  \<not> py_eq zero_row_col_products (PInt 0) \<or>
                  \<not> py_eq planner_zero_a_rows (PInt 0) \<or>
                  \<not> py_eq planner_zero_b_cols (PInt 0) \<or>
                  \<not> py_eq planner_zero_row_col_products (PInt 0) \<or>
                  row_col_flag))
                (report
                   ''non-per-tile bounded captures must use zero row/column proof counts of 0''))])"

definition validate_schedule_metadata :: "pydict \<Rightarrow> unit chk" where
  "validate_schedule_metadata data =
     cseq
       [validate_tile_value data ''tile_m'' (dget data ''tile_m''),
        validate_tile_value data ''tile_n'' (dget data ''tile_n''),
        cbind (require data ''schedule_metadata'' ''dict'') (\<lambda>schedule.
        whenp
          (\<not> (\<not> is_dict schedule))
          (let expected_source = if is_wrap64_rocwmma_candidate data
                                 then ''rns8_bench_wrap64_rocwmma_candidate_static_schedule''
                                 else ''rns8_get_plan_schedule_info'';
               schedule_bound_kind = vget schedule ''bound_kind'';
               bound_contract = vget schedule ''bound_contract'';
               tile_rows = vget schedule ''tile_rows'';
               tile_cols = vget schedule ''tile_cols'';
               tile_count = vget schedule ''tile_count'';
               min_required = vget schedule ''min_required_prefix'';
               max_required = vget schedule ''max_required_prefix'';
               min_selected = vget schedule ''min_selected_prefix'';
               max_selected = vget schedule ''max_selected_prefix'';
               flags = vget schedule ''flags'';
               zero_count = vget schedule ''zero_output_tile_count'';
               zero_fraction = vget schedule ''zero_output_tile_fraction'';
               zero_planes = vget schedule ''zero_output_selected_residue_planes'';
               zero_active = vget schedule ''zero_output_skip_active'';
               zero_a_rows = vget schedule ''zero_a_row_proof_count'';
               zero_b_cols = vget schedule ''zero_b_col_proof_count'';
               zero_row_col_products = vget schedule ''zero_row_col_product_count'';
               planner_zero_a_rows = vget schedule ''planner_zero_a_row_count'';
               planner_zero_b_cols = vget schedule ''planner_zero_b_col_count'';
               planner_zero_row_col_products = vget schedule ''planner_zero_row_col_product_count'';
               row_col_counts_valid = is_int_value zero_a_rows \<and>
                                      is_int_value zero_b_cols \<and>
                                      is_int_value zero_row_col_products \<and>
                                      is_int_value planner_zero_a_rows \<and>
                                      is_int_value planner_zero_b_cols \<and>
                                      is_int_value planner_zero_row_col_products
           in cseq
                [whenp
                   (\<not> eq_str (vget schedule ''source'') expected_source)
                   (report (''schedule_metadata.source must be '' @ expected_source)),
                 whenp
                   (\<not> is_None schedule_bound_kind)
                   (if \<not> is_str schedule_bound_kind \<or>
                       str_of schedule_bound_kind \<notin> set BOUND_KINDS
                    then report
                           (''schedule_metadata.bound_kind must be one of '' @
                            py_str (str_list (sorted_set BOUND_KINDS)))
                    else whenp
                           (\<not> py_eq schedule_bound_kind (dget data ''bound_kind''))
                           (report ''schedule_metadata.bound_kind must match bound_kind'')),
                 cfor [''effective_bound'', ''lhs_bound'', ''rhs_bound''] (\<lambda>key.
                   let value = vget schedule key in
                   whenp
                     (\<not> is_None value \<and>
                      (\<not> is_int_value value \<or> int_of value < 0))
                     (report (''schedule_metadata.'' @ key @ '' must be a nonnegative integer''))),
                 whenp
                   (\<not> is_None bound_contract \<and> \<not> is_str bound_contract)
                   (report ''schedule_metadata.bound_contract must be a string''),
                 if eq_str schedule_bound_kind ''input_range_and_k''
                 then cseq
                        [whenp
                           (\<not> eq_str
                              (vget schedule ''bound_contract'')
                              ''input_range_and_k_derived_output_bound'')
                           (report
                              ''input-range schedules must declare the derived output bound contract''),
                         cfor [''effective_bound'', ''lhs_bound'', ''rhs_bound''] (\<lambda>key.
                           whenp
                             (\<not> is_int_value (vget schedule key))
                             (report (''input-range schedules require schedule_metadata.'' @ key)))]
                 else whenp
                        (\<not> is_None schedule_bound_kind)
                        (cfor [''lhs_bound'', ''rhs_bound''] (\<lambda>key.
                           whenp
                             (is_int_value (vget schedule key) \<and>
                              \<not> py_eq (vget schedule key) (PInt 0))
                             (report
                                (''non-input-range schedules must use schedule_metadata.'' @
                                 key @
                                 ''=0'')))),
                 cfor [''tile_m'', ''tile_n'', ''tile_rows'', ''tile_cols'', ''tile_count'',
                       ''min_required_prefix'', ''max_required_prefix'', ''min_selected_prefix'',
                       ''max_selected_prefix'', ''prefix_group_count'', ''range_bit_length''] (\<lambda>key.
                   whenp
                     (\<not> is_int_value (vget schedule key))
                     (report (''schedule_metadata.'' @ key @ '' must be an integer''))),
                 cfor [''adaptive_prefix_active'', ''adaptive_skip_active'',
                       ''adaptive_execution_applied''] (\<lambda>key.
                   whenp
                     (\<not> is_bool (vget schedule key))
                     (report (''schedule_metadata.'' @ key @ '' must be a boolean''))),
                 whenp
                   (\<not> py_eq (vget schedule ''tile_m'') (dget data ''tile_m''))
                   (report ''schedule_metadata.tile_m must match tile_m''),
                 whenp
                   (\<not> py_eq (vget schedule ''tile_n'') (dget data ''tile_n''))
                   (report ''schedule_metadata.tile_n must match tile_n''),
                 whenp
                   (is_int_value tile_rows \<and>
                    is_int_value tile_cols \<and>
                    is_int_value tile_count)
                   (whenp
                      (int_of tile_rows \<le> 0 \<or>
                       int_of tile_cols \<le> 0 \<or>
                       \<not> py_eq tile_count (PInt (int_of tile_rows * int_of tile_cols)))
                      (report
                         ''schedule_metadata tile grid must have positive rows/cols and matching tile_count'')),
                 whenp
                   (is_int_value min_required \<and>
                    is_int_value max_required \<and>
                    int_of max_required < int_of min_required)
                   (report
                      ''schedule_metadata min_required_prefix must be <= max_required_prefix''),
                 whenp
                   (is_int_value min_selected \<and>
                    is_int_value max_selected \<and>
                    int_of max_selected < int_of min_selected)
                   (report
                      ''schedule_metadata min_selected_prefix must be <= max_selected_prefix''),
                 whenp
                   (\<not> is_None flags)
                   (if \<not> is_int_value flags \<or> int_of flags < 0
                    then report ''schedule_metadata.flags must be a nonnegative integer''
                    else whenp
                           (int_of flags AND NOT TILE_SCHEDULE_KNOWN_FLAGS \<noteq> 0)
                           (report
                              ''schedule_metadata.flags contains unknown tile schedule flags'')),
                 cfor [(''zero_a_row_proof_count'', zero_a_rows),
                       (''zero_b_col_proof_count'', zero_b_cols),
                       (''zero_row_col_product_count'', zero_row_col_products),
                       (''planner_zero_a_row_count'', planner_zero_a_rows),
                       (''planner_zero_b_col_count'', planner_zero_b_cols),
                       (''planner_zero_row_col_product_count'',
                        planner_zero_row_col_products)] (\<lambda>(key, value).
                   whenp
                     (\<not> is_int_value value \<or> int_of value < 0)
                     (report (''schedule_metadata.'' @ key @ '' must be a nonnegative integer''))),
                 whenp
                   (\<not> is_None zero_count)
                   (if \<not> is_int_value zero_count \<or> int_of zero_count < 0
                    then report
                           ''schedule_metadata.zero_output_tile_count must be a nonnegative integer''
                    else whenp
                           (is_int_value tile_count \<and> int_of tile_count < int_of zero_count)
                           (report
                              ''schedule_metadata.zero_output_tile_count must be <= tile_count'')),
                 whenp
                   (\<not> is_None zero_fraction)
                   (cif (any_of
                           [cnot (c_is_number zero_fraction),
                            cret
                              (val_lt zero_fraction (PFloat (FFin 0)) \<or>
                               val_lt (PFloat (FFin 1)) zero_fraction)])
                      (report
                         ''schedule_metadata.zero_output_tile_fraction must be between 0 and 1'')
                      (whenp
                         (is_int_value zero_count \<and>
                          is_int_value tile_count \<and>
                          0 < int_of tile_count)
                         (cbind (c_int_div
                                   (int_of zero_count)
                                   (int_of tile_count)) (\<lambda>expected.
                          whenp
                            (flt_lt
                               (rnd64 (1 / 1000000))
                               (flt_abs (flt_sub (num_float zero_fraction) expected)))
                            (report
                               ''schedule_metadata.zero_output_tile_fraction must match zero_output_tile_count/tile_count''))))),
                 whenp
                   (\<not> is_None zero_planes)
                   (whenp
                      (\<not> is_int_value zero_planes \<or> int_of zero_planes < 0)
                      (report
                         ''schedule_metadata.zero_output_selected_residue_planes must be a nonnegative integer'')),
                 whenp
                   (\<not> is_None zero_active)
                   (if \<not> is_bool zero_active
                    then report ''schedule_metadata.zero_output_skip_active must be a boolean''
                    else whenp
                           (is_int_value zero_count \<and>
                            \<not> py_eq zero_active (PBool (0 < int_of zero_count)))
                           (report
                              ''schedule_metadata.zero_output_skip_active must match zero_output_tile_count > 0'')),
                 if is_int_value zero_count
                 then cseq
                        [whenp
                           (0 < int_of zero_count \<and>
                            (\<not> is_int_value flags \<or>
                             int_of flags AND TILE_SCHEDULE_ZERO_OUTPUT = 0))
                           (report
                              ''schedule_metadata zero_output_tile_count requires ZERO_OUTPUT schedule flag''),
                         whenp
                           (py_eq zero_count (PInt 0) \<and>
                            is_int_value flags \<and>
                            int_of flags AND TILE_SCHEDULE_ZERO_OUTPUT \<noteq> 0)
                           (report
                              ''schedule_metadata ZERO_OUTPUT flag requires zero_output_tile_count > 0'')]
                 else whenp
                        (is_int_value flags \<and>
                         int_of flags AND TILE_SCHEDULE_ZERO_OUTPUT \<noteq> 0)
                        (report
                           ''schedule_metadata ZERO_OUTPUT flag requires zero_output_tile_count''),
                 whenp
                   (is_int_value zero_planes \<and>
                    is_int_value zero_count \<and>
                    py_eq zero_count (PInt 0) \<and>
                    \<not> py_eq zero_planes (PInt 0))
                   (report
                      ''schedule_metadata.zero_output_selected_residue_planes must be zero when no zero tiles are skipped''),
                 whenp
                   (is_int_value zero_a_rows \<and>
                    is_int_value planner_zero_a_rows \<and>
                    \<not> py_eq zero_a_rows planner_zero_a_rows)
                   (report
                      ''schedule_metadata planner_zero_a_row_count must match zero_a_row_proof_count''),
                 whenp
                   (is_int_value zero_b_cols \<and>
                    is_int_value planner_zero_b_cols \<and>
                    \<not> py_eq zero_b_cols planner_zero_b_cols)
                   (report
                      ''schedule_metadata planner_zero_b_col_count must match zero_b_col_proof_count''),
                 whenp
                   (is_int_value zero_row_col_products \<and>
                    is_int_value planner_zero_row_col_products \<and>
                    \<not> py_eq zero_row_col_products planner_zero_row_col_products)
                   (report
                      ''schedule_metadata planner_zero_row_col_product_count must match zero_row_col_product_count''),
                 row_col_count_checks
                   data
                   flags
                   zero_a_rows
                   zero_b_cols
                   zero_row_col_products
                   planner_zero_a_rows
                   planner_zero_b_cols
                   planner_zero_row_col_products
                   row_col_counts_valid]))]"

definition validate_bound_discovery_metadata :: "pydict \<Rightarrow> unit chk" where
  "validate_bound_discovery_metadata data =
     (let bound_source = dget data ''bound_source'';
          discovery = dget data ''bound_discovery'';
          semantics = dget data ''semantics'';
          bound_mode = dget_or data ''bound_mode'' (PStr ''global'')
      in cseq
           [whenp
              (\<not> is_None bound_source)
              (whenp
                 (\<not> is_str bound_source \<or> str_of bound_source \<notin> set BOUND_SOURCES)
                 (report
                    (''bound_source must be one of '' @
                     py_str (str_list (sorted_set BOUND_SOURCES))))),
            if is_None discovery
            then whenp
                   (eq_str bound_source ''input_scan'')
                   (report ''input_scan captures must include bound_discovery'')
            else cif (cnot (c_in semantics [''bounded_i64'', ''bounded_u64'']))
                   (report ''bound_discovery is only valid for bounded captures'')
                   (if \<not> is_dict discovery
                    then report ''bound_discovery must be an object or null''
                    else let source = vget discovery ''source'';
                             static_bound = vget discovery ''static_bound'';
                             selected_bound = vget discovery ''selected_bound'';
                             top_bound = dget data ''bound''
                         in cseq
                              [whenp
                                 (\<not> is_str source \<or>
                                  str_of source \<notin> set BOUND_DISCOVERY_SOURCES)
                                 (report
                                    (''bound_discovery.source must be one of '' @
                                     py_str (str_list (sorted_set BOUND_DISCOVERY_SOURCES)))),
                               cfor [''static_bound'', ''selected_bound''] (\<lambda>key.
                                 let value = vget discovery key in
                                 whenp
                                   (\<not> is_int_value value \<or> int_of value < 0)
                                   (report
                                      (''bound_discovery.'' @
                                       key @
                                       '' must be a nonnegative integer''))),
                               whenp
                                 (is_int_value selected_bound \<and>
                                  is_int_value top_bound \<and>
                                  \<not> py_eq selected_bound top_bound)
                                 (report ''bound_discovery.selected_bound must match bound''),
                               whenp
                                 (is_int_value static_bound \<and>
                                  is_int_value selected_bound \<and>
                                  int_of static_bound < int_of selected_bound \<and>
                                  \<not> py_eq static_bound (PInt 0))
                                 (report
                                    ''bound_discovery.selected_bound must not exceed static_bound''),
                               if eq_str source ''static_profile_contract''
                               then cseq
                                      [cwhen
                                         (cnot
                                            (c_in_vals
                                               bound_source
                                               [PNone, PStr ''static_profile'']))
                                         (report
                                            ''static_profile_contract captures must use bound_source=static_profile''),
                                       cfor [''discovered_global_bound'',
                                             ''candidate_row_sum_col_max'',
                                             ''candidate_row_max_col_sum'', ''row_abs_sum_max'',
                                             ''row_abs_max'', ''col_abs_sum_max'', ''col_abs_max'',
                                             ''zero_row_count'', ''zero_col_count''] (\<lambda>key.
                                         whenp
                                           (\<not> is_None (vget discovery key))
                                           (report
                                              (''static_profile_contract captures must use bound_discovery.'' @
                                               key @
                                               ''=null'')))]
                               else if eq_str source ''input_exact_tile_bounds''
                               then let tile_bounds = dget data ''tile_bounds_u64'' in
                                    cseq
                                      [whenp
                                         (\<not> eq_str bound_source ''input_scan'')
                                         (report
                                            ''input_exact_tile_bounds captures must use bound_source=input_scan''),
                                       whenp
                                         (\<not> eq_str bound_mode ''per_tile'')
                                         (report
                                            ''input_exact_tile_bounds captures must use bound_mode=per_tile''),
                                       cfor [''discovered_global_bound'',
                                             ''candidate_row_sum_col_max'',
                                             ''candidate_row_max_col_sum'', ''row_abs_sum_max'',
                                             ''row_abs_max'', ''col_abs_sum_max'', ''col_abs_max'',
                                             ''zero_row_count'', ''zero_col_count''] (\<lambda>key.
                                         whenp
                                           (\<not> is_None (vget discovery key))
                                           (report
                                              (''input_exact_tile_bounds captures must use bound_discovery.'' @
                                               key @
                                               ''=null''))),
                                       if \<not> is_dict tile_bounds
                                       then report
                                              ''input_exact_tile_bounds captures must include tile_bounds_u64''
                                       else whenp
                                              (\<not> eq_str
                                                 (vget tile_bounds ''source'')
                                                 ''exact_seeded_input_prepass'')
                                              (report
                                                 ''input_exact_tile_bounds captures must use tile_bounds_u64.source=exact_seeded_input_prepass''),
                                       whenp
                                         (is_int_value selected_bound \<and>
                                          \<not> py_eq selected_bound (PInt 0))
                                         (report
                                            ''input_exact_tile_bounds captures must use selected_bound=0'')]
                               else let discovered = vget discovery ''discovered_global_bound'';
                                        candidate_a = vget discovery ''candidate_row_sum_col_max'';
                                        candidate_b = vget discovery ''candidate_row_max_col_sum''
                                    in cseq
                                         [whenp
                                            (\<not> eq_str bound_source ''input_scan'')
                                            (report
                                               ''input_row_column_abs_summary captures must use bound_source=input_scan''),
                                          whenp
                                            (\<not> eq_str bound_mode ''global'')
                                            (report
                                               ''input_row_column_abs_summary captures must use bound_mode=global''),
                                          cfor [''discovered_global_bound'',
                                                ''candidate_row_sum_col_max'',
                                                ''candidate_row_max_col_sum'', ''row_abs_sum_max'',
                                                ''row_abs_max'', ''col_abs_sum_max'',
                                                ''col_abs_max'', ''zero_row_count'',
                                                ''zero_col_count''] (\<lambda>key.
                                            let value = vget discovery key in
                                            whenp
                                              (\<not> is_int_value value \<or> int_of value < 0)
                                              (report
                                                 (''bound_discovery.'' @
                                                  key @
                                                  '' must be a nonnegative integer''))),
                                          whenp
                                            (is_int_value discovered \<and>
                                             is_int_value candidate_a \<and>
                                             is_int_value candidate_b)
                                            (let expected = min
                                                              (int_of candidate_a)
                                                              (int_of candidate_b) in
                                             let expected = (if is_int_value static_bound \<and>
                                                                \<not> py_eq static_bound (PInt 0)
                                                             then min expected (int_of static_bound)
                                                             else expected) in
                                             whenp
                                               (\<not> py_eq discovered (PInt expected))
                                               (report
                                                  ''bound_discovery.discovered_global_bound must equal the minimum safe candidate bound'')),
                                          whenp
                                            (is_int_value discovered \<and>
                                             is_int_value selected_bound \<and>
                                             \<not> py_eq discovered selected_bound)
                                            (report
                                               ''input_scan bound_discovery.discovered_global_bound must match selected_bound''),
                                          whenp
                                            (is_int_value (vget discovery ''zero_row_count'') \<and>
                                             is_int_value (dget data ''m''))
                                            (whenp
                                               (int_of (dget data ''m'') <
                                                int_of (vget discovery ''zero_row_count''))
                                               (report
                                                  ''bound_discovery.zero_row_count must be <= m'')),
                                          whenp
                                            (is_int_value (vget discovery ''zero_col_count'') \<and>
                                             is_int_value (dget data ''n''))
                                            (whenp
                                               (int_of (dget data ''n'') <
                                                int_of (vget discovery ''zero_col_count''))
                                               (report
                                                  ''bound_discovery.zero_col_count must be <= n''))]])])"

definition validate_prefix_policy_metadata :: "pydict \<Rightarrow> unit chk" where
  "validate_prefix_policy_metadata data =
     (let present = filter (\<lambda>field'. has_key data field') PREFIX_POLICY_FIELDS in
      if present \<noteq> [] \<and> int (length present) \<noteq> int (length PREFIX_POLICY_FIELDS)
      then let missing = sorted_set
                           (filter (\<lambda>x. x \<notin> set present) PREFIX_POLICY_FIELDS) in
           report
             (''prefix policy metadata fields must be complete; missing '' @
              py_str (str_list missing))
      else whenp
             (\<not> (\<not> present \<noteq> []))
             (let semantics = dget data ''semantics'';
                  bound_mode = dget_or data ''bound_mode'' (PStr ''global'');
                  schedule = dget data ''schedule_metadata'';
                  prefix = dget data ''prefix'';
                  selected = dget data ''selected_prefix'';
                  requested = dget data ''requested_max_prefix'';
                  policy = dget data ''contract_prefix_policy'';
                  planes_requested = dget data ''residue_planes_requested'';
                  planes_selected = dget data ''residue_planes_selected'';
                  planes_skipped = dget data ''residue_planes_skipped'';
                  skip_fraction = dget data ''residue_plane_skip_fraction''
              in cseq
                   [cfor [''selected_prefix'', ''requested_max_prefix'',
                          ''residue_planes_requested'', ''residue_planes_selected'',
                          ''residue_planes_skipped''] (\<lambda>key.
                      whenp
                        (\<not> is_int_value (dget data key) \<or> int_of (dget data key) < 0)
                        (report (key @ '' must be a nonnegative integer''))),
                    cwhen
                      (any_of
                         [cnot (c_is_number skip_fraction),
                          cret
                            (flt_lt (num_float skip_fraction) (FFin 0) \<or>
                             flt_lt (FFin 1) (num_float skip_fraction))])
                      (report ''residue_plane_skip_fraction must be a number in [0, 1]''),
                    whenp
                      (\<not> is_str policy \<or>
                       str_of policy \<notin> set CONTRACT_PREFIX_POLICIES)
                      (report
                         (''contract_prefix_policy must be one of '' @
                          py_str (str_list (sorted_set CONTRACT_PREFIX_POLICIES)))),
                    whenp
                      (is_int_value prefix \<and>
                       is_int_value requested \<and>
                       \<not> py_eq requested prefix)
                      (report ''requested_max_prefix must match prefix''),
                    cif (c_in semantics NON_RNS_PREFIX_SEMANTICS)
                      (cseq
                         [whenp
                            (\<not> py_eq selected (PInt 0) \<or>
                             \<not> py_eq requested (PInt 0) \<or>
                             \<not> py_eq planes_requested (PInt 0) \<or>
                             \<not> py_eq planes_selected (PInt 0) \<or>
                             \<not> py_eq planes_skipped (PInt 0))
                            (report
                               ''non-RNS captures must report zero prefix policy plane counts''),
                          whenp
                            (\<not> eq_str policy ''semantic_specific_no_rns_prefix'')
                            (report
                               ''non-RNS captures must use contract_prefix_policy=semantic_specific_no_rns_prefix''),
                          cwhen
                            (all_of
                               [c_is_number skip_fraction,
                                cret (\<not> close_to (num_float skip_fraction) (FFin 0))])
                            (report ''non-RNS captures must use residue_plane_skip_fraction=0'')])
                    (cif (c_in semantics RNS_PREFIX_SEMANTICS)
                      (let expected_skipped = if is_int_value requested \<and> is_int_value selected
                                              then PInt (max (int_of requested - int_of selected) 0)
                                              else PNone in
                       cseq
                         [whenp
                            (is_int_value prefix \<and> int_of prefix \<le> 0)
                            (report ''RNS captures with prefix policy metadata must use prefix>0''),
                          whenp
                            (is_int_value selected \<and>
                             is_int_value prefix \<and>
                             int_of prefix < int_of selected)
                            (report ''selected_prefix must be <= prefix''),
                          whenp
                            (is_dict schedule)
                            (cseq
                               [whenp
                                  (\<not> py_eq (vget schedule ''max_selected_prefix'') selected)
                                  (report
                                     ''selected_prefix must match schedule_metadata.max_selected_prefix''),
                                whenp
                                  (is_int_value selected \<and>
                                   0 < int_of selected \<and>
                                   is_int_value (vget schedule ''min_selected_prefix'') \<and>
                                   int_of selected < int_of (vget schedule ''min_selected_prefix''))
                                  (report
                                     ''schedule_metadata.min_selected_prefix must be <= selected_prefix'')]),
                          whenp
                            (\<not> is_None expected_skipped \<and>
                             \<not> py_eq planes_skipped expected_skipped)
                            (report
                               ''residue_planes_skipped must equal requested_max_prefix - selected_prefix''),
                          whenp
                            (is_int_value requested \<and> \<not> py_eq planes_requested requested)
                            (report ''residue_planes_requested must match requested_max_prefix''),
                          whenp
                            (is_int_value selected \<and> \<not> py_eq planes_selected selected)
                            (report ''residue_planes_selected must match selected_prefix''),
                          whenp
                            (is_int_value requested \<and>
                             0 < int_of requested \<and>
                             \<not> is_None expected_skipped)
                            (cbind (cbind
                                      (c_float expected_skipped)
                                      (\<lambda>x.
                                       cbind
                                         (c_float requested)
                                         (\<lambda>x'.
                                          c_fdiv x x'))) (\<lambda>expected_fraction.
                             cwhen
                               (all_of
                                  [c_is_number skip_fraction,
                                   cret
                                     (\<not> close_to (num_float skip_fraction) expected_fraction)])
                               (report
                                  ''residue_plane_skip_fraction must match skipped/requested''))),
                          whenp
                            (eq_str policy ''semantic_specific_no_rns_prefix'')
                            (report ''RNS captures must not use semantic_specific_no_rns_prefix''),
                          whenp
                            (eq_str policy ''per_tile_minimum'' \<and>
                             \<not> eq_str bound_mode ''per_tile'')
                            (report
                               ''contract_prefix_policy=per_tile_minimum requires bound_mode=per_tile''),
                          cwhen
                            (all_of
                               [c_in policy [''minimum_proven'', ''fixed_requested_residue_chain''],
                                cret (\<not> eq_str bound_mode ''global'')])
                            (report
                               (''contract_prefix_policy='' @
                                py_str policy @
                                '' requires bound_mode=global'')),
                          cwhen
                            (all_of
                               [c_in
                                  policy
                                  [''fixed_requested'', ''fixed_requested_residue_chain''],
                                cret (is_int_value selected \<and> is_int_value prefix)])
                            (whenp
                               (\<not> py_eq selected prefix \<or>
                                \<not> py_eq planes_skipped (PInt 0))
                               (report
                                  (''contract_prefix_policy='' @
                                   py_str policy @
                                   '' requires selected_prefix=prefix''))),
                          whenp
                            (eq_str policy ''minimum_proven'' \<and> is_dict schedule)
                            (cseq
                               [whenp
                                  (is_True (vget schedule ''adaptive_execution_applied''))
                                  (report
                                     ''global minimum_proven captures must not apply adaptive execution''),
                                whenp
                                  (\<not> py_eq (vget schedule ''prefix_group_count'') (PInt 1))
                                  (report
                                     ''global minimum_proven captures must use one uniform selected prefix group'')])])
                      (report
                         (''prefix policy metadata is not supported for semantics '' @
                          py_str semantics)))]))"

definition validate_v4_tile_bounds :: "pydict \<Rightarrow> pyval \<Rightarrow> pyval \<Rightarrow> unit chk" where
  "validate_v4_tile_bounds data semantics schedule =
     (let tile_bounds = dget data ''tile_bounds_u64'' in
      if \<not> is_dict tile_bounds
      then report ''tile_bounds_u64 must be an object for per-tile adaptive captures''
      else let expected_pattern = if eq_str semantics ''bounded_i64''
                                  then ''exact_output_tile_max_abs_v1''
                                  else ''exact_output_tile_max_unsigned_v1'';
               count' = vget tile_bounds ''count'';
               minimum = vget tile_bounds ''min'';
               maximum = vget tile_bounds ''max''
           in cseq
                [cfor [''source'', ''pattern'', ''order''] (\<lambda>key.
                   whenp
                     (\<not> is_str (vget tile_bounds key) \<or>
                      \<not> truthy (vget tile_bounds key))
                     (report (''tile_bounds_u64.'' @ key @ '' must be a nonempty string''))),
                 whenp
                   (\<not> eq_str (vget tile_bounds ''source'') ''exact_seeded_input_prepass'')
                   (report ''tile_bounds_u64.source must be exact_seeded_input_prepass''),
                 whenp
                   (\<not> eq_str (vget tile_bounds ''pattern'') expected_pattern)
                   (report (''tile_bounds_u64.pattern must be '' @ expected_pattern)),
                 whenp
                   (\<not> eq_str (vget tile_bounds ''order'') ''row_major_output_tiles'')
                   (report ''tile_bounds_u64.order must be row_major_output_tiles''),
                 cfor [''count'', ''min'', ''max'', ''hash_u64''] (\<lambda>key.
                   whenp
                     (\<not> is_int_value (vget tile_bounds key))
                     (report (''tile_bounds_u64.'' @ key @ '' must be an integer''))),
                 whenp
                   (is_int_value count' \<and> int_of count' \<le> 0)
                   (report ''tile_bounds_u64.count must be positive''),
                 whenp
                   (is_int_value minimum \<and> int_of minimum < 0)
                   (report ''tile_bounds_u64.min must be nonnegative''),
                 whenp
                   (is_int_value maximum \<and> int_of maximum < 0)
                   (report ''tile_bounds_u64.max must be nonnegative''),
                 whenp
                   (is_int_value minimum \<and>
                    is_int_value maximum \<and>
                    int_of maximum < int_of minimum)
                   (report ''tile_bounds_u64.min must be <= max''),
                 whenp
                   (eq_str semantics ''bounded_i64'' \<and>
                    is_int_value maximum \<and>
                    2 ^ 63 < int_of maximum)
                   (report ''bounded_i64 tile_bounds_u64.max must be <= 2^63''),
                 whenp
                   (is_int_value (vget tile_bounds ''hash_u64'') \<and>
                    int_of (vget tile_bounds ''hash_u64'') < 0)
                   (report ''tile_bounds_u64.hash_u64 must be nonnegative''),
                 whenp
                   (is_dict schedule \<and>
                    is_int_value count' \<and>
                    is_int_value (vget schedule ''tile_count''))
                   (whenp
                      (\<not> py_eq count' (vget schedule ''tile_count''))
                      (report ''tile_bounds_u64.count must match schedule_metadata.tile_count''))])"

definition adaptive_kernel_checks :: "pydict \<Rightarrow> pyval \<Rightarrow> pyval \<Rightarrow> unit chk" where
  "adaptive_kernel_checks data schedule selected_kernel' =
     (if \<not> is_str selected_kernel' \<or> \<not> truthy selected_kernel'
      then report ''per-tile adaptive captures must report selected_kernel''
      else let selected_backend = dget data ''backend_selected'';
               zero_output_tiles = is_int_value (vget schedule ''zero_output_tile_count'') \<and>
                                   0 < int_of (vget schedule ''zero_output_tile_count'');
               zero_row_col_products = is_int_value
                                         (vget schedule ''zero_row_col_product_count'') \<and>
                                       0 < int_of (vget schedule ''zero_row_col_product_count'')
           in let direct_hip_expected_kernel = (if zero_output_tiles \<and> zero_row_col_products
                                                then DIRECT_HIP_ADAPTIVE_ZERO_TILE_ROW_COL_SKIP_KERNEL_V1
                                                else if zero_output_tiles
                                                then DIRECT_HIP_ADAPTIVE_ZERO_SKIP_KERNEL_V3
                                                else if zero_row_col_products
                                                then DIRECT_HIP_ADAPTIVE_ZERO_ROW_COL_SKIP_KERNEL_V1
                                                else DIRECT_HIP_ADAPTIVE_GROUPED_SCHEDULE_KERNEL_V3) in
              cbind (c_in
                       (dget data ''semantics'')
                       [''finite_ring_u8'', ''finite_field_u8'']) (\<lambda>finite_semantics.
              let amdgpu_expected_kernel = if finite_semantics
                                           then ''amdgpu_builtin_cdna3_mfma_i32_16x16x32_i8_finite_u8_epilogue_v1''
                                           else ''amdgpu_builtin_cdna3_mfma_i32_16x16x32_i8_centered_epilogue_v1'';
                  device = dget data ''device'';
                  target = if is_dict device then vget device ''gcn_arch'' else PNone
              in cbind (if is_str target \<and> starts_with ''gfx110'' (str_of target)
                        then cret
                               (if finite_semantics
                                then ''amdgpu_builtin_rdna3_wmma_i32_16x16x16_iu8_finite_u8_epilogue_v1''
                                else ''amdgpu_builtin_rdna3_wmma_i32_16x16x16_iu8_centered_epilogue_v1'')
                        else cbind (cif (c_in target [''gfx1200'', ''gfx1201''])
                                      (cret
                                         (if finite_semantics
                                          then ''amdgpu_builtin_rdna4_wmma_i32_16x16x16_iu8_finite_u8_epilogue_v1''
                                          else ''amdgpu_builtin_rdna4_wmma_i32_16x16x16_iu8_centered_epilogue_v1''))
                                      (cret
                                         (if is_str target \<and>
                                             starts_with ''gfx942'' (str_of target) \<and>
                                             is_int_value (dget data ''m'') \<and>
                                             is_int_value (dget data ''n'') \<and>
                                             is_int_value (dget data ''k'') \<and>
                                             128 \<le> int_of (dget data ''m'') \<and>
                                             128 \<le> int_of (dget data ''n'') \<and>
                                             128 \<le> int_of (dget data ''k'')
                                          then if finite_semantics
                                               then ''amdgpu_builtin_cdna3_mfma_i32_32x32x16_i8_finite_u8_epilogue_v1''
                                               else ''amdgpu_builtin_cdna3_mfma_i32_32x32x16_i8_centered_epilogue_v1''
                                          else amdgpu_expected_kernel))) (\<lambda>amdgpu_expected_kernel.
                             cret amdgpu_expected_kernel)) (\<lambda>amdgpu_expected_kernel.
                 let expected_kernels = [(''hip-direct'', direct_hip_expected_kernel),
                                         (''ck'',
                                          ''ck_wmma_cshuffle_tiled_i8_i32_default_moduli_static_centered_epilogue_v3''),
                                         (''rocwmma'',
                                          ''rocwmma_i8_i32_signed_tiled_mod251_255_256_hot_residue_v2''),
                                         (''amdgpu-builtins'', amdgpu_expected_kernel)] in
                 cbind (c_lookup expected_kernels selected_backend) (\<lambda>expected_kernel.
                 cseq
                   [whenp
                      (expected_kernel \<noteq> None \<and>
                       \<not> eq_str selected_kernel' (opt_list expected_kernel))
                      (report
                         (''per-tile adaptive '' @
                          py_str selected_backend @
                          '' captures must use selected_kernel='' @
                          opt_list expected_kernel)),
                    whenp
                      (eq_str selected_backend ''hip-vector-alu-int64'' \<and>
                       str_of selected_kernel' \<notin> set VECTOR_ALU_SELECTED_KERNELS)
                      (report
                         ''per-tile adaptive hip-vector-alu-int64 captures must use a known vector-ALU selected_kernel'')]))))"

definition adaptive_event_scope_checks :: "pydict \<Rightarrow> unit chk" where
  "adaptive_event_scope_checks data =
     (let metadata' = dget data ''timing_metadata'' in
      whenp
        (is_dict metadata')
        (if eq_str (dget data ''backend_selected'') ''hip-direct''
         then let expected_scope = ''direct_hip_bounded_adaptive_default_stream_backend_operation_groups'' in
              cseq
                [whenp
                   (\<not> is_True (vget metadata' ''gpu_event_timing''))
                   (report
                      ''direct-HIP per-tile adaptive captures must include HIP event timings''),
                 whenp
                   (\<not> eq_str (vget metadata' ''gpu_event_timing_source_scope'') expected_scope)
                   (report
                      (''timing_metadata.gpu_event_timing_source_scope must be '' @
                       expected_scope))]
         else if eq_str (dget data ''backend_selected'') ''ck''
         then let expected_scope = ''accelerator_backend_default_stream_deep_kernel_events_with_direct_hip_pack_export'' in
              cseq
                [whenp
                   (\<not> is_True (vget metadata' ''gpu_event_timing''))
                   (report
                      ''CK per-tile adaptive captures must include HIP event operation-group timings''),
                 whenp
                   (\<not> eq_str (vget metadata' ''gpu_event_timing_source_scope'') expected_scope)
                   (report
                      (''timing_metadata.gpu_event_timing_source_scope must be '' @
                       expected_scope))]
         else if eq_str (dget data ''backend_selected'') ''rocwmma''
         then let expected_scope = ''accelerator_backend_default_stream_deep_kernel_events_with_direct_hip_pack_export'' in
              cseq
                [whenp
                   (\<not> is_True (vget metadata' ''gpu_event_timing''))
                   (report
                      ''rocWMMA per-tile adaptive captures must include HIP event operation-group timings''),
                 whenp
                   (\<not> eq_str (vget metadata' ''gpu_event_timing_source_scope'') expected_scope)
                   (report
                      (''timing_metadata.gpu_event_timing_source_scope must be '' @
                       expected_scope))]
         else if eq_str (dget data ''backend_selected'') ''amdgpu-builtins''
         then let expected_scope = ''accelerator_backend_default_stream_deep_kernel_events_with_direct_hip_pack_export'' in
              cseq
                [whenp
                   (\<not> is_True (vget metadata' ''gpu_event_timing''))
                   (report
                      ''AMDGPU builtin per-tile adaptive captures must include HIP event operation-group timings''),
                 whenp
                   (\<not> eq_str (vget metadata' ''gpu_event_timing_source_scope'') expected_scope)
                   (report
                      (''timing_metadata.gpu_event_timing_source_scope must be '' @
                       expected_scope))]
         else whenp
                (eq_str (dget data ''backend_selected'') ''hip-vector-alu-int64'')
                (let expected_scope = ''vector_alu_default_stream_native_int64_operation_groups'' in
                 cseq
                   [whenp
                      (\<not> is_True (vget metadata' ''gpu_event_timing''))
                      (report
                         ''vector-ALU per-tile adaptive captures must include HIP event operation-group timings''),
                    whenp
                      (\<not> eq_str
                         (vget metadata' ''gpu_event_timing_source_scope'')
                         expected_scope)
                      (report
                         (''timing_metadata.gpu_event_timing_source_scope must be '' @
                          expected_scope))])))"

definition adaptive_backend_checks :: "pydict \<Rightarrow> unit chk" where
  "adaptive_backend_checks data =
     (let backend_metadata = dget data ''backend_metadata'' in
      whenp
        (is_dict backend_metadata)
        (let expected_epilogues = [(''ck'', ''ck_fused_i32_to_centered_residue_then_crt_export''),
                                   (''rocwmma'',
                                    ''rocwmma_fused_i32_to_centered_residue_then_crt_export''),
                                   (''amdgpu-builtins'',
                                    ''amdgpu_builtin_fused_i32_to_centered_residue_then_chained_crt_export''),
                                   (''hip-vector-alu-int64'', ''direct_int64_export'')] in
         cbind (c_lookup_or
                  expected_epilogues
                  (dget data ''backend_selected'')
                  ''fused_centered_residue_then_crt_export'') (\<lambda>expected_epilogue.
         let expected_workspaces = [(''cpu-reference'', ''host_reference_workspace''),
                                    (''rocwmma'',
                                     ''resident_device_buffers_with_rocwmma_pack_workspace''),
                                    (''amdgpu-builtins'',
                                     ''resident_device_buffers_direct_amdgpu_builtin_matrix_core_no_dense_pack_workspace''),
                                    (''hip-vector-alu-int64'',
                                     if is_vector_alu_runtime_capture data
                                     then ''native_device_i64_u64_buffers''
                                     else ''benchmark_owned_device_buffers'')] in
         cseq
           [whenp
              (\<not> eq_str (vget backend_metadata ''epilogue_mode'') expected_epilogue)
              (report
                 (''per-tile adaptive captures must use backend_metadata.epilogue_mode='' @
                  expected_epilogue)),
            cbind (c_lookup_or
                     expected_workspaces
                     (dget data ''backend_selected'')
                     ''resident_device_buffers_with_active_prefix_tiled_schedule'') (\<lambda>expected_workspace.
            let expected_isas = [(''cpu-reference'', ''not_applicable_cpu''),
                                 (''ck'', ''ck_cshuffle_int8_matrix_isa_gate_no_divide''),
                                 (''rocwmma'', ''rocwmma_i8_matrix_isa_gate_no_divide''),
                                 (''amdgpu-builtins'',
                                  ''amdgpu_builtin_matrix_isa_gate_no_divide''),
                                 (''hip-vector-alu-int64'',
                                  ''source_level_192bit_limb_accumulator_no_matrix_engine'')] in
            cseq
              [if eq_str (dget data ''backend_selected'') ''ck''
               then cwhen
                      (cnot
                         (c_in
                            (vget backend_metadata ''workspace_mode'')
                            [''resident_device_buffers_with_ck_canonical_pack_workspace'',
                             ''resident_device_buffers_with_ck_centered_pack_workspace'']))
                      (report
                         ''per-tile adaptive CK captures must use a known CK pack workspace mode'')
               else whenp
                      (\<not> eq_str (vget backend_metadata ''workspace_mode'') expected_workspace)
                      (report
                         (''per-tile adaptive captures must use backend_metadata.workspace_mode='' @
                          expected_workspace)),
               cbind (c_lookup_or
                        expected_isas
                        (dget data ''backend_selected'')
                        ''rns8_hip_direct_reciprocal_isa_gate'') (\<lambda>expected_isa.
               whenp
                 (\<not> eq_str (vget backend_metadata ''isa_evidence'') expected_isa)
                 (report
                    (''per-tile adaptive captures must use backend_metadata.isa_evidence='' @
                     expected_isa)))])])))"

definition validate_v4_adaptive_schedule :: "pydict \<Rightarrow> pyval \<Rightarrow> pyval \<Rightarrow> unit chk" where
  "validate_v4_adaptive_schedule data prefix schedule =
     whenp
       (\<not> (\<not> is_dict schedule))
       (let selected_backend_for_schedule = dget data ''backend_selected'';
            vector_runtime_comparator = eq_str
                                          selected_backend_for_schedule
                                          ''hip-vector-alu-int64'' \<and>
                                        is_vector_alu_runtime_capture data;
            selected_kernel' = dget data ''selected_kernel'';
            prefix_group_count = vget schedule ''prefix_group_count'';
            max_selected = vget schedule ''max_selected_prefix'';
            min_selected = vget schedule ''min_selected_prefix'';
            adaptive_prefix_expected = is_int_value prefix_group_count \<and>
                                       1 < int_of prefix_group_count;
            adaptive_skip_expected = is_int_value max_selected \<and>
                                     is_int_value prefix \<and>
                                     int_of max_selected < int_of prefix
        in cseq
             [if vector_runtime_comparator
              then whenp
                     (\<not> is_False (vget schedule ''adaptive_execution_applied''))
                     (report
                        ''per-tile adaptive vector runtime captures must set schedule_metadata.adaptive_execution_applied=false'')
              else whenp
                     (\<not> is_True (vget schedule ''adaptive_execution_applied''))
                     (report
                        ''per-tile adaptive captures must set schedule_metadata.adaptive_execution_applied=true''),
              adaptive_kernel_checks data schedule selected_kernel',
              whenp
                (is_bool (vget schedule ''adaptive_prefix_active'') \<and>
                 \<not> py_eq
                   (vget schedule ''adaptive_prefix_active'')
                   (PBool adaptive_prefix_expected))
                (report
                   ''schedule_metadata.adaptive_prefix_active must match prefix_group_count > 1''),
              whenp
                (is_bool (vget schedule ''adaptive_skip_active'') \<and>
                 \<not> py_eq
                   (vget schedule ''adaptive_skip_active'')
                   (PBool adaptive_skip_expected))
                (report
                   ''schedule_metadata.adaptive_skip_active must match max_selected_prefix < prefix''),
              whenp
                (is_int_value prefix_group_count \<and> int_of prefix_group_count \<le> 0)
                (report ''per-tile adaptive captures must use at least one prefix group''),
              whenp
                (is_int_value min_selected \<and> int_of min_selected \<le> 0)
                (report
                   ''schedule_metadata.min_selected_prefix must be positive for per-tile adaptive captures''),
              whenp
                (is_int_value max_selected \<and>
                 is_int_value prefix \<and>
                 int_of prefix < int_of max_selected)
                (report ''schedule_metadata.max_selected_prefix must be <= prefix''),
              whenp
                (\<not> is_True (vget schedule ''adaptive_prefix_active'') \<and>
                 \<not> is_True (vget schedule ''adaptive_skip_active''))
                (report
                   ''per-tile adaptive captures must apply prefix grouping or prefix skipping''),
              adaptive_event_scope_checks data,
              adaptive_backend_checks data])"

end
