(* ===== verification/Schema_Semantics.thy ===== *)
theory Schema_Semantics
  imports Schema_Schedule
begin

text \<open>
  \<open>semantic_contracts.py\<close> and the four \<open>semantic_*.py\<close>: what a capture must state for its arithmetic
  semantics. \<open>semantic_ctx\<close> is the dict \<open>ctx\<close> that \<open>validate_semantic_contract\<close> passes to them.
\<close>

record semantic_ctx =
  ctx_semantics :: pyval
  ctx_prefix :: pyval
  ctx_packed_layout :: pyval
  ctx_schedule :: pyval
  ctx_backend_metadata :: pyval
  ctx_k_value :: int
  ctx_bound_mode :: pyval
  ctx_residue_chain_length :: int
  ctx_residue_output_mode :: string
  ctx_status_check :: pyval
  ctx_prefix_policy :: pyval
  ctx_metadata :: pyval

definition bounded_hip_oneshot_checks :: "pydict \<Rightarrow> pyval \<Rightarrow> unit chk" where
  "bounded_hip_oneshot_checks data backend_metadata =
     whenp
       (eq_str (dget data ''backend_selected'') ''hip-direct'')
       (cbind (is_direct_hip_bounded_native_input_oneshot_capture
                 data) (\<lambda>native_input_oneshot.
        cbind (is_direct_hip_bounded_resident_fallback_oneshot_capture
                 data) (\<lambda>resident_fallback_oneshot.
        let expected_kernel = DIRECT_HIP_BOUNDED_ONESHOT_RESIDENT_FALLBACK_KERNEL;
            expected_epilogue = DIRECT_HIP_BOUNDED_ONESHOT_RESIDENT_FALLBACK_EPILOGUE;
            expected_workspace = DIRECT_HIP_BOUNDED_ONESHOT_RESIDENT_FALLBACK_WORKSPACE
        in cseq
             [whenp
                (\<not> native_input_oneshot \<and> \<not> resident_fallback_oneshot)
                (report
                   ''direct-HIP one-shot bounded captures must use either prefix-9 native-input metadata or selected-prefix resident fallback metadata''),
              cbind (if native_input_oneshot
                     then let expected_kernel = DIRECT_HIP_BOUNDED_ONESHOT_KERNEL_V1 in
                          cbind (call_in
                                   (\<lambda>dim'.
                                    cmap
                                      (\<lambda>x. 512 \<le> x)
                                      (c_int (dget_or data dim' (PInt 0))))
                                   [''m'', ''n'', ''k'']) (\<lambda>large_oneshot_shape.
                          cret
                            (let expected_kernel = (if large_oneshot_shape
                                                    then DIRECT_HIP_BOUNDED_ONESHOT_KERNEL_LARGE_COLPAIR_V2
                                                    else expected_kernel) in
                             let expected_epilogue = DIRECT_HIP_BOUNDED_ONESHOT_EPILOGUE in
                             let expected_workspace = DIRECT_HIP_BOUNDED_ONESHOT_WORKSPACE in
                             (expected_kernel, expected_epilogue, expected_workspace)))
                     else cret
                            (expected_kernel,
                             expected_epilogue,
                             expected_workspace)) (\<lambda>(expected_kernel, expected_epilogue, expected_workspace).
              cseq
                [whenp
                   (\<not> eq_str (dget data ''selected_kernel'') expected_kernel)
                   (report
                      (''direct-HIP one-shot bounded captures must use selected_kernel='' @
                       expected_kernel)),
                 whenp
                   (is_dict backend_metadata)
                   (cseq
                      [whenp
                         (\<not> eq_str (vget backend_metadata ''epilogue_mode'') expected_epilogue)
                         (report
                            (''direct-HIP one-shot bounded captures must use backend_metadata.epilogue_mode='' @
                             expected_epilogue)),
                       whenp
                         (\<not> eq_str
                            (vget backend_metadata ''workspace_mode'')
                            expected_workspace)
                         (report
                            (''direct-HIP one-shot bounded captures must use backend_metadata.workspace_mode='' @
                             expected_workspace)),
                       whenp
                         (\<not> eq_str
                            (vget backend_metadata ''isa_evidence'')
                            DIRECT_HIP_RECIPROCAL_ISA_EVIDENCE)
                         (report
                            (''direct-HIP one-shot bounded captures must use backend_metadata.isa_evidence='' @
                             DIRECT_HIP_RECIPROCAL_ISA_EVIDENCE))]),
                 let metadata' = dget data ''timing_metadata'' in
                 cseq
                   [whenp
                      (native_input_oneshot \<and>
                       is_dict metadata' \<and>
                       is_True (vget metadata' ''gpu_event_timing''))
                      (let expected_scope = ''direct_hip_oneshot_default_stream_operation_groups'' in
                       whenp
                         (\<not> eq_str
                            (vget metadata' ''gpu_event_timing_source_scope'')
                            expected_scope)
                         (report
                            (''timing_metadata.gpu_event_timing_source_scope must be '' @
                             expected_scope))),
                    whenp
                      (resident_fallback_oneshot \<and>
                       is_dict metadata' \<and>
                       is_True (vget metadata' ''gpu_event_timing''))
                      (let expected_scope = ''direct_hip_oneshot_resident_fallback_default_stream_operation_groups'' in
                       whenp
                         (\<not> eq_str
                            (vget metadata' ''gpu_event_timing_source_scope'')
                            expected_scope)
                         (report
                            (''direct-HIP one-shot captures must use timing_metadata.gpu_event_timing_source_scope='' @
                             expected_scope @
                             '' for resident fallback metadata'')))]])])))"

definition bounded_oneshot_checks :: "pydict \<Rightarrow> pyval \<Rightarrow> pyval \<Rightarrow> int \<Rightarrow> string \<Rightarrow> bool \<Rightarrow> unit chk" where
  "bounded_oneshot_checks data backend_metadata bound_mode residue_chain_length' residue_output_mode' oneshot_capture =
     whenp
       oneshot_capture
       (cseq
          [whenp
             (\<not> eq_str (dget data ''benchmark'') ''rns8_bounded_gemm_public_oneshot'')
             (report ''one-shot captures must use benchmark=rns8_bounded_gemm_public_oneshot''),
           cwhen
             (cmap
                (\<lambda>mode. mode \<noteq> ''public_oneshot_transient_native_inputs'')
                (benchmark_execution_mode data))
             (report
                ''one-shot captures must use benchmark_execution_mode=public_oneshot_transient_native_inputs''),
           cwhen
             (cnot (c_in (dget data ''backend_selected'') [''cpu-reference'', ''hip-direct'']))
             (report ''one-shot bounded captures must select cpu-reference or hip-direct''),
           cwhen
             (cnot
                (c_in
                   (dget data ''backend_requested'')
                   [''cpu-reference'', ''cpu'', ''hip-direct'']))
             (report ''one-shot bounded captures must request cpu or hip-direct''),
           whenp
             (\<not> eq_str bound_mode ''global'')
             (report ''one-shot bounded captures must use bound_mode=global''),
           whenp
             (residue_chain_length' \<noteq> 1 \<or> residue_output_mode' \<noteq> ''host_export'')
             (report ''one-shot bounded captures must use host_export residue_chain_length=1''),
           whenp
             (is_True (dget data ''reuse_packed_inputs''))
             (report ''one-shot bounded captures must not use packed-input reuse''),
           cwhen
             (cnot (c_in_vals (dget data ''pack_mode'') [PNone, PStr ''per_repeat_repack'']))
             (report ''one-shot bounded captures must use pack_mode=per_repeat_repack''),
           cwhen
             (cnot (c_in_vals (dget data ''prepack_reuse_strategy'') [PNone, PStr ''none'']))
             (report ''one-shot bounded captures must use prepack_reuse_strategy=none''),
           bounded_hip_oneshot_checks data backend_metadata])"

definition native_a_reuse_b_checks :: "pydict \<Rightarrow> pyval \<Rightarrow> pyval \<Rightarrow> pyval \<Rightarrow> int \<Rightarrow> string \<Rightarrow> bool \<Rightarrow> unit chk" where
  "native_a_reuse_b_checks data semantics backend_metadata bound_mode residue_chain_length' residue_output_mode' native_a_reuse_b_capture =
     whenp
       native_a_reuse_b_capture
       (let uniform_small = is_direct_hip_bounded_native_a_reuse_b_uniform_small data in
        cseq
          [whenp
             (\<not> eq_str bound_mode ''global'')
             (report ''direct-HIP bounded native-A reuse-B captures must use bound_mode=global''),
           whenp
             (residue_chain_length' \<noteq> 1 \<or> residue_output_mode' \<noteq> ''host_export'')
             (report
                ''direct-HIP bounded native-A reuse-B captures must use host_export residue_chain_length=1''),
           cbind (if uniform_small
                  then c_index_val
                         DIRECT_HIP_BOUNDED_UNIFORM_SMALL_NATIVE_A_REUSE_B_KERNELS
                         semantics
                  else c_index_val
                         DIRECT_HIP_BOUNDED_NATIVE_A_REUSE_B_KERNELS
                         semantics) (\<lambda>expected_kernel.
           cbind (cif (is_direct_hip_bounded_native_a_reuse_b_large_colpair data)
                    (cbind (c_index_val
                              DIRECT_HIP_BOUNDED_NATIVE_A_REUSE_B_LARGE_COLPAIR_KERNELS
                              semantics) (\<lambda>expected_kernel.
                     cret expected_kernel))
                    (cret expected_kernel)) (\<lambda>expected_kernel.
           let expected_epilogue = if uniform_small
                                   then DIRECT_HIP_BOUNDED_UNIFORM_SMALL_NATIVE_A_REUSE_B_EPILOGUE
                                   else DIRECT_HIP_BOUNDED_NATIVE_A_REUSE_B_EPILOGUE;
               expected_input_profile = if uniform_small
                                        then ''uniform-small''
                                        else ''adaptive-bands''
           in cseq
                [whenp
                   (\<not> eq_str (dget data ''selected_kernel'') expected_kernel)
                   (report
                      (''direct-HIP bounded native-A reuse-B captures must use selected_kernel='' @
                       expected_kernel)),
                 whenp
                   (is_dict backend_metadata)
                   (let autotune_key = vget backend_metadata ''autotune_key'' in
                    cseq
                      [whenp
                         (\<not> eq_str (vget backend_metadata ''epilogue_mode'') expected_epilogue)
                         (report
                            (''direct-HIP bounded native-A reuse-B captures must use backend_metadata.epilogue_mode='' @
                             expected_epilogue)),
                       whenp
                         (\<not> eq_str
                            (vget backend_metadata ''workspace_mode'')
                            DIRECT_HIP_BOUNDED_NATIVE_A_REUSE_B_WORKSPACE)
                         (report
                            (''direct-HIP bounded native-A reuse-B captures must use backend_metadata.workspace_mode='' @
                             DIRECT_HIP_BOUNDED_NATIVE_A_REUSE_B_WORKSPACE)),
                       whenp
                         (\<not> eq_str
                            (vget backend_metadata ''isa_evidence'')
                            DIRECT_HIP_RECIPROCAL_ISA_EVIDENCE)
                         (report
                            (''direct-HIP bounded native-A reuse-B captures must use backend_metadata.isa_evidence='' @
                             DIRECT_HIP_RECIPROCAL_ISA_EVIDENCE)),
                       whenp
                         (is_str autotune_key)
                         (let normalized_key = '';'' @ py_str autotune_key @ '';'';
                              required_parts = [(''kernel'', expected_kernel),
                                                (''epilogue'', expected_epilogue),
                                                (''input_profile'', expected_input_profile)]
                          in cfor required_parts (\<lambda>(key, value).
                               whenp
                                 (\<not> contains
                                    ('';'' @ key @ ''='' @ value @ '';'')
                                    normalized_key)
                                 (report
                                    (''direct-HIP bounded native-A reuse-B backend_metadata.autotune_key must include '' @
                                     key @
                                     ''='' @
                                     value))))])]))])"

definition uniform_small_reuse_a_checks :: "pydict \<Rightarrow> pyval \<Rightarrow> pyval \<Rightarrow> pyval \<Rightarrow> int \<Rightarrow> string \<Rightarrow> unit chk" where
  "uniform_small_reuse_a_checks data semantics backend_metadata bound_mode residue_chain_length' residue_output_mode' =
     cwhen
       (is_direct_hip_bounded_uniform_small_reuse_a_capture data)
       (cseq
          [whenp
             (\<not> eq_str bound_mode ''global'')
             (report
                ''direct-HIP bounded uniform-small reuse-A captures must use bound_mode=global''),
           whenp
             (residue_chain_length' \<noteq> 1 \<or> residue_output_mode' \<noteq> ''host_export'')
             (report
                ''direct-HIP bounded uniform-small reuse-A captures must use host_export residue_chain_length=1''),
           cbind (c_index_val
                    DIRECT_HIP_BOUNDED_UNIFORM_SMALL_REUSE_A_KERNELS
                    semantics) (\<lambda>expected_kernel.
           let expected_epilogue = DIRECT_HIP_BOUNDED_UNIFORM_SMALL_REUSE_A_EPILOGUE in
           cseq
             [whenp
                (\<not> eq_str (dget data ''selected_kernel'') expected_kernel)
                (report
                   (''direct-HIP bounded uniform-small reuse-A captures must use selected_kernel='' @
                    expected_kernel)),
              whenp
                (is_dict backend_metadata)
                (let autotune_key = vget backend_metadata ''autotune_key'' in
                 cseq
                   [whenp
                      (\<not> eq_str (vget backend_metadata ''epilogue_mode'') expected_epilogue)
                      (report
                         (''direct-HIP bounded uniform-small reuse-A captures must use backend_metadata.epilogue_mode='' @
                          expected_epilogue)),
                    whenp
                      (\<not> eq_str
                         (vget backend_metadata ''workspace_mode'')
                         DIRECT_HIP_BOUNDED_UNIFORM_SMALL_REUSE_A_WORKSPACE)
                      (report
                         (''direct-HIP bounded uniform-small reuse-A captures must use backend_metadata.workspace_mode='' @
                          DIRECT_HIP_BOUNDED_UNIFORM_SMALL_REUSE_A_WORKSPACE)),
                    whenp
                      (\<not> eq_str
                         (vget backend_metadata ''isa_evidence'')
                         DIRECT_HIP_RECIPROCAL_ISA_EVIDENCE)
                      (report
                         (''direct-HIP bounded uniform-small reuse-A captures must use backend_metadata.isa_evidence='' @
                          DIRECT_HIP_RECIPROCAL_ISA_EVIDENCE)),
                    whenp
                      (is_str autotune_key)
                      (let normalized_key = '';'' @ py_str autotune_key @ '';'';
                           required_parts = [(''kernel'', expected_kernel),
                                             (''epilogue'', expected_epilogue),
                                             (''input_profile'', ''uniform-small'')]
                       in cfor required_parts (\<lambda>(key, value).
                            whenp
                              (\<not> contains ('';'' @ key @ ''='' @ value @ '';'') normalized_key)
                              (report
                                 (''direct-HIP bounded uniform-small reuse-A backend_metadata.autotune_key must include '' @
                                  key @
                                  ''='' @
                                  value))))])])])"

definition channel_fusion_checks :: "pydict \<Rightarrow> pyval \<Rightarrow> pyval \<Rightarrow> pyval \<Rightarrow> int \<Rightarrow> string \<Rightarrow> unit chk" where
  "channel_fusion_checks data semantics backend_metadata bound_mode residue_chain_length' residue_output_mode' =
     cwhen
       (is_direct_hip_bounded_residue_channel_fusion_capture data)
       (cseq
          [whenp
             (\<not> eq_str bound_mode ''global'')
             (report ''direct-HIP residue-channel fusion captures must use bound_mode=global''),
           whenp
             (residue_chain_length' \<noteq> 1 \<or> residue_output_mode' \<noteq> ''host_export'')
             (report
                ''direct-HIP residue-channel fusion captures must use host_export residue_chain_length=1''),
           whenp
             (is_True (dget data ''reuse_packed_inputs''))
             (report
                ''direct-HIP residue-channel fusion captures must not use packed-input reuse''),
           cbind (c_index_val
                    DIRECT_HIP_BOUNDED_RESIDUE_CHANNEL_FUSION_KERNELS
                    semantics) (\<lambda>expected_kernel.
           let expected_epilogue = DIRECT_HIP_BOUNDED_RESIDUE_CHANNEL_FUSION_EPILOGUE in
           cseq
             [whenp
                (\<not> eq_str (dget data ''selected_kernel'') expected_kernel)
                (report
                   (''direct-HIP residue-channel fusion captures must use selected_kernel='' @
                    expected_kernel)),
              whenp
                (is_dict backend_metadata)
                (let autotune_key = vget backend_metadata ''autotune_key'' in
                 cseq
                   [whenp
                      (\<not> eq_str (vget backend_metadata ''epilogue_mode'') expected_epilogue)
                      (report
                         (''direct-HIP residue-channel fusion captures must use backend_metadata.epilogue_mode='' @
                          expected_epilogue)),
                    whenp
                      (\<not> eq_str
                         (vget backend_metadata ''workspace_mode'')
                         DIRECT_HIP_BOUNDED_RESIDUE_CHANNEL_FUSION_WORKSPACE)
                      (report
                         (''direct-HIP residue-channel fusion captures must use backend_metadata.workspace_mode='' @
                          DIRECT_HIP_BOUNDED_RESIDUE_CHANNEL_FUSION_WORKSPACE)),
                    whenp
                      (\<not> eq_str
                         (vget backend_metadata ''isa_evidence'')
                         DIRECT_HIP_RECIPROCAL_ISA_EVIDENCE)
                      (report
                         (''direct-HIP residue-channel fusion captures must use backend_metadata.isa_evidence='' @
                          DIRECT_HIP_RECIPROCAL_ISA_EVIDENCE)),
                    whenp
                      (is_str autotune_key)
                      (let normalized_key = '';'' @ py_str autotune_key @ '';'';
                           required_parts = [(''kernel'', expected_kernel),
                                             (''epilogue'', expected_epilogue),
                                             (''input_profile'', ''uniform-small''),
                                             (''execution'',
                                              ''residue_channel_fusion_native_inputs'')]
                       in cfor required_parts (\<lambda>(key, value).
                            whenp
                              (\<not> contains ('';'' @ key @ ''='' @ value @ '';'') normalized_key)
                              (report
                                 (''direct-HIP residue-channel fusion backend_metadata.autotune_key must include '' @
                                  key @
                                  ''='' @
                                  value))))])])])"

definition uniform_small_transient_checks :: "pydict \<Rightarrow> pyval \<Rightarrow> pyval \<Rightarrow> pyval \<Rightarrow> int \<Rightarrow> string \<Rightarrow> unit chk" where
  "uniform_small_transient_checks data semantics backend_metadata bound_mode residue_chain_length' residue_output_mode' =
     cwhen
       (is_direct_hip_bounded_uniform_small_transient_capture data)
       (cseq
          [whenp
             (\<not> eq_str bound_mode ''global'')
             (report
                ''direct-HIP bounded uniform-small transient captures must use bound_mode=global''),
           whenp
             (residue_chain_length' \<noteq> 1 \<or> residue_output_mode' \<noteq> ''host_export'')
             (report
                ''direct-HIP bounded uniform-small transient captures must use host_export residue_chain_length=1''),
           whenp
             (is_True (dget data ''reuse_packed_inputs''))
             (report
                ''direct-HIP bounded uniform-small transient captures must not use packed-input reuse''),
           cbind (c_index_val
                    DIRECT_HIP_BOUNDED_UNIFORM_SMALL_TRANSIENT_KERNELS
                    semantics) (\<lambda>expected_kernel.
           let expected_epilogue = DIRECT_HIP_BOUNDED_UNIFORM_SMALL_TRANSIENT_EPILOGUE in
           cseq
             [whenp
                (\<not> eq_str (dget data ''selected_kernel'') expected_kernel)
                (report
                   (''direct-HIP bounded uniform-small transient captures must use selected_kernel='' @
                    expected_kernel)),
              whenp
                (is_dict backend_metadata)
                (let autotune_key = vget backend_metadata ''autotune_key'' in
                 cseq
                   [whenp
                      (\<not> eq_str (vget backend_metadata ''epilogue_mode'') expected_epilogue)
                      (report
                         (''direct-HIP bounded uniform-small transient captures must use backend_metadata.epilogue_mode='' @
                          expected_epilogue)),
                    whenp
                      (\<not> eq_str
                         (vget backend_metadata ''workspace_mode'')
                         DIRECT_HIP_BOUNDED_UNIFORM_SMALL_TRANSIENT_WORKSPACE)
                      (report
                         (''direct-HIP bounded uniform-small transient captures must use backend_metadata.workspace_mode='' @
                          DIRECT_HIP_BOUNDED_UNIFORM_SMALL_TRANSIENT_WORKSPACE)),
                    whenp
                      (\<not> eq_str
                         (vget backend_metadata ''isa_evidence'')
                         DIRECT_HIP_RECIPROCAL_ISA_EVIDENCE)
                      (report
                         (''direct-HIP bounded uniform-small transient captures must use backend_metadata.isa_evidence='' @
                          DIRECT_HIP_RECIPROCAL_ISA_EVIDENCE)),
                    whenp
                      (is_str autotune_key)
                      (let normalized_key = '';'' @ py_str autotune_key @ '';'';
                           required_parts = [(''kernel'', expected_kernel),
                                             (''epilogue'', expected_epilogue),
                                             (''input_profile'', ''uniform-small''),
                                             (''execution'',
                                              ''transient_uniform_small_i8_ab_inputs'')]
                       in cfor required_parts (\<lambda>(key, value).
                            whenp
                              (\<not> contains ('';'' @ key @ ''='' @ value @ '';'') normalized_key)
                              (report
                                 (''direct-HIP bounded uniform-small transient backend_metadata.autotune_key must include '' @
                                  key @
                                  ''='' @
                                  value))))])])])"

definition native_b_reuse_a_checks :: "pydict \<Rightarrow> pyval \<Rightarrow> pyval \<Rightarrow> pyval \<Rightarrow> int \<Rightarrow> string \<Rightarrow> unit chk" where
  "native_b_reuse_a_checks data semantics backend_metadata bound_mode residue_chain_length' residue_output_mode' =
     cwhen
       (is_direct_hip_bounded_native_b_reuse_a_large_colpair_capture data)
       (cseq
          [whenp
             (\<not> eq_str bound_mode ''global'')
             (report ''direct-HIP bounded native-B reuse-A captures must use bound_mode=global''),
           whenp
             (residue_chain_length' \<noteq> 1 \<or> residue_output_mode' \<noteq> ''host_export'')
             (report
                ''direct-HIP bounded native-B reuse-A captures must use host_export residue_chain_length=1''),
           cbind (c_index_val
                    DIRECT_HIP_BOUNDED_NATIVE_B_REUSE_A_KERNELS
                    semantics) (\<lambda>expected_kernel.
           let expected_epilogue = DIRECT_HIP_BOUNDED_NATIVE_B_REUSE_A_EPILOGUE in
           cseq
             [whenp
                (\<not> eq_str (dget data ''selected_kernel'') expected_kernel)
                (report
                   (''direct-HIP bounded native-B reuse-A captures must use selected_kernel='' @
                    expected_kernel)),
              whenp
                (is_dict backend_metadata)
                (let autotune_key = vget backend_metadata ''autotune_key'' in
                 cseq
                   [whenp
                      (\<not> eq_str (vget backend_metadata ''epilogue_mode'') expected_epilogue)
                      (report
                         (''direct-HIP bounded native-B reuse-A captures must use backend_metadata.epilogue_mode='' @
                          expected_epilogue)),
                    whenp
                      (\<not> eq_str
                         (vget backend_metadata ''workspace_mode'')
                         DIRECT_HIP_BOUNDED_NATIVE_B_REUSE_A_WORKSPACE)
                      (report
                         (''direct-HIP bounded native-B reuse-A captures must use backend_metadata.workspace_mode='' @
                          DIRECT_HIP_BOUNDED_NATIVE_B_REUSE_A_WORKSPACE)),
                    whenp
                      (\<not> eq_str
                         (vget backend_metadata ''isa_evidence'')
                         DIRECT_HIP_RECIPROCAL_ISA_EVIDENCE)
                      (report
                         (''direct-HIP bounded native-B reuse-A captures must use backend_metadata.isa_evidence='' @
                          DIRECT_HIP_RECIPROCAL_ISA_EVIDENCE)),
                    whenp
                      (is_str autotune_key)
                      (let normalized_key = '';'' @ py_str autotune_key @ '';'';
                           required_parts = [(''kernel'', expected_kernel),
                                             (''epilogue'', expected_epilogue),
                                             (''input_profile'', ''adaptive-bands'')]
                       in cfor required_parts (\<lambda>(key, value).
                            whenp
                              (\<not> contains ('';'' @ key @ ''='' @ value @ '';'') normalized_key)
                              (report
                                 (''direct-HIP bounded native-B reuse-A backend_metadata.autotune_key must include '' @
                                  key @
                                  ''='' @
                                  value))))])])])"

definition gemv_n1_checks :: "pydict \<Rightarrow> pyval \<Rightarrow> pyval \<Rightarrow> pyval \<Rightarrow> int \<Rightarrow> string \<Rightarrow> unit chk" where
  "gemv_n1_checks data semantics backend_metadata bound_mode residue_chain_length' residue_output_mode' =
     cwhen
       (is_direct_hip_bounded_skinny_gemv_n1_capture data)
       (cseq
          [whenp
             (\<not> eq_str bound_mode ''global'')
             (report ''direct-HIP skinny GEMV N=1 captures must use bound_mode=global''),
           whenp
             (residue_chain_length' \<noteq> 1 \<or> residue_output_mode' \<noteq> ''host_export'')
             (report
                ''direct-HIP skinny GEMV N=1 captures must use host_export residue_chain_length=1''),
           cbind (c_index_val
                    DIRECT_HIP_BOUNDED_SKINNY_GEMV_N1_KERNELS
                    semantics) (\<lambda>expected_kernel.
           let expected_epilogue = DIRECT_HIP_BOUNDED_SKINNY_GEMV_N1_EPILOGUE in
           cseq
             [whenp
                (\<not> eq_str (dget data ''selected_kernel'') expected_kernel)
                (report
                   (''direct-HIP skinny GEMV N=1 captures must use selected_kernel='' @
                    expected_kernel)),
              whenp
                (is_dict backend_metadata)
                (let autotune_key = vget backend_metadata ''autotune_key'' in
                 cseq
                   [whenp
                      (\<not> eq_str (vget backend_metadata ''epilogue_mode'') expected_epilogue)
                      (report
                         (''direct-HIP skinny GEMV N=1 captures must use backend_metadata.epilogue_mode='' @
                          expected_epilogue)),
                    whenp
                      (\<not> eq_str
                         (vget backend_metadata ''workspace_mode'')
                         DIRECT_HIP_BOUNDED_SKINNY_GEMV_N1_WORKSPACE)
                      (report
                         (''direct-HIP skinny GEMV N=1 captures must use backend_metadata.workspace_mode='' @
                          DIRECT_HIP_BOUNDED_SKINNY_GEMV_N1_WORKSPACE)),
                    whenp
                      (\<not> eq_str
                         (vget backend_metadata ''isa_evidence'')
                         DIRECT_HIP_RECIPROCAL_ISA_EVIDENCE)
                      (report
                         (''direct-HIP skinny GEMV N=1 captures must use backend_metadata.isa_evidence='' @
                          DIRECT_HIP_RECIPROCAL_ISA_EVIDENCE)),
                    whenp
                      (is_str autotune_key)
                      (let normalized_key = '';'' @ py_str autotune_key @ '';'';
                           required_parts = [(''kernel'', expected_kernel),
                                             (''epilogue'', expected_epilogue),
                                             (''execution'',
                                              ''direct_hip_skinny_gemv_n1_resident_rns'')]
                       in cfor required_parts (\<lambda>(key, value).
                            whenp
                              (\<not> contains ('';'' @ key @ ''='' @ value @ '';'') normalized_key)
                              (report
                                 (''direct-HIP skinny GEMV N=1 backend_metadata.autotune_key must include '' @
                                  key @
                                  ''='' @
                                  value))))])])])"

definition gemv_small_n_checks :: "pydict \<Rightarrow> pyval \<Rightarrow> pyval \<Rightarrow> pyval \<Rightarrow> int \<Rightarrow> string \<Rightarrow> unit chk" where
  "gemv_small_n_checks data semantics backend_metadata bound_mode residue_chain_length' residue_output_mode' =
     cwhen
       (is_direct_hip_bounded_skinny_gemv_small_n_capture data)
       (cseq
          [whenp
             (\<not> eq_str bound_mode ''global'')
             (report ''direct-HIP skinny GEMV small-N captures must use bound_mode=global''),
           whenp
             (residue_chain_length' \<noteq> 1 \<or> residue_output_mode' \<noteq> ''host_export'')
             (report
                ''direct-HIP skinny GEMV small-N captures must use host_export residue_chain_length=1''),
           cbind (c_index_val
                    DIRECT_HIP_BOUNDED_SKINNY_GEMV_SMALL_N_KERNELS
                    semantics) (\<lambda>expected_kernel.
           let expected_epilogue = DIRECT_HIP_BOUNDED_SKINNY_GEMV_SMALL_N_EPILOGUE in
           cseq
             [whenp
                (\<not> eq_str (dget data ''selected_kernel'') expected_kernel)
                (report
                   (''direct-HIP skinny GEMV small-N captures must use selected_kernel='' @
                    expected_kernel)),
              whenp
                (is_dict backend_metadata)
                (let autotune_key = vget backend_metadata ''autotune_key'' in
                 cseq
                   [whenp
                      (\<not> eq_str (vget backend_metadata ''epilogue_mode'') expected_epilogue)
                      (report
                         (''direct-HIP skinny GEMV small-N captures must use backend_metadata.epilogue_mode='' @
                          expected_epilogue)),
                    whenp
                      (\<not> eq_str
                         (vget backend_metadata ''workspace_mode'')
                         DIRECT_HIP_BOUNDED_SKINNY_GEMV_SMALL_N_WORKSPACE)
                      (report
                         (''direct-HIP skinny GEMV small-N captures must use backend_metadata.workspace_mode='' @
                          DIRECT_HIP_BOUNDED_SKINNY_GEMV_SMALL_N_WORKSPACE)),
                    whenp
                      (\<not> eq_str
                         (vget backend_metadata ''isa_evidence'')
                         DIRECT_HIP_RECIPROCAL_ISA_EVIDENCE)
                      (report
                         (''direct-HIP skinny GEMV small-N captures must use backend_metadata.isa_evidence='' @
                          DIRECT_HIP_RECIPROCAL_ISA_EVIDENCE)),
                    whenp
                      (is_str autotune_key)
                      (let normalized_key = '';'' @ py_str autotune_key @ '';'';
                           required_parts = [(''kernel'', expected_kernel),
                                             (''epilogue'', expected_epilogue),
                                             (''execution'',
                                              ''direct_hip_skinny_gemv_small_n_resident_rns'')]
                       in cfor required_parts (\<lambda>(key, value).
                            whenp
                              (\<not> contains ('';'' @ key @ ''='' @ value @ '';'') normalized_key)
                              (report
                                 (''direct-HIP skinny GEMV small-N backend_metadata.autotune_key must include '' @
                                  key @
                                  ''='' @
                                  value))))])])])"

definition vector_gemv_n1_checks :: "pydict \<Rightarrow> unit chk" where
  "vector_gemv_n1_checks data =
     cwhen
       (is_vector_alu_gemv_n1_capture data)
       (let expected_modes = [''public_runtime_vector_alu_gemv_n1_native_buffers'',
                              ''benchmark_owned_vector_alu_gemv_n1_native_buffers''];
            packing = dget data ''plan_packing''
        in cseq
             [cwhen
                (cmap
                   (\<lambda>mode. mode \<notin> set expected_modes)
                   (benchmark_execution_mode data))
                (report ''vector-ALU GEMV N=1 captures must use a vector-GEMV execution mode''),
              whenp
                (is_dict packing)
                (cseq
                   [whenp
                      (\<not> eq_str
                         (vget packing ''output_domain_name'')
                         ''native_i64_u64_current'')
                      (report
                         ''vector-ALU GEMV N=1 captures must declare plan_packing.output_domain_name=native_i64_u64_current''),
                    whenp
                      (\<not> is_True (vget packing ''output_device_current''))
                      (report
                         ''vector-ALU GEMV N=1 captures must leave native output current on device'')])])"

definition vector_gemv_small_n_checks :: "pydict \<Rightarrow> unit chk" where
  "vector_gemv_small_n_checks data =
     cwhen
       (is_vector_alu_gemv_small_n_capture data)
       (let expected_modes = [''public_runtime_vector_alu_gemv_small_n_native_buffers'',
                              ''benchmark_owned_vector_alu_gemv_small_n_native_buffers''];
            packing = dget data ''plan_packing''
        in cseq
             [cwhen
                (cmap
                   (\<lambda>mode. mode \<notin> set expected_modes)
                   (benchmark_execution_mode data))
                (report
                   ''vector-ALU GEMV small-N captures must use a vector-GEMV small-N execution mode''),
              whenp
                (is_dict packing)
                (cseq
                   [whenp
                      (\<not> eq_str
                         (vget packing ''output_domain_name'')
                         ''native_i64_u64_current'')
                      (report
                         ''vector-ALU GEMV small-N captures must declare plan_packing.output_domain_name=native_i64_u64_current''),
                    whenp
                      (\<not> is_True (vget packing ''output_device_current''))
                      (report
                         ''vector-ALU GEMV small-N captures must leave native output current on device'')])])"

definition native_bridge_checks :: "pydict \<Rightarrow> unit chk" where
  "native_bridge_checks data =
     cwhen
       (is_direct_hip_native_to_rns_bridge_capture data)
       (let metadata' = dget data ''timing_metadata'' in
        cseq
          [whenp
             (\<not> eq_str (dget data ''benchmark'') ''rns8_bounded_gemm_native_to_rns_bridge'')
             (report
                ''native-to-RNS bridge captures must use benchmark=rns8_bounded_gemm_native_to_rns_bridge''),
           whenp
             (\<not> eq_str (dget data ''backend_requested'') ''auto'')
             (report ''native-to-RNS bridge captures must use backend_requested=auto''),
           whenp
             (\<not> eq_str (dget data ''pack_mode'') ''per_repeat_repack'')
             (report ''native-to-RNS bridge captures must use pack_mode=per_repeat_repack''),
           whenp
             (\<not> is_False (dget data ''reuse_packed_inputs''))
             (report ''native-to-RNS bridge captures must not use packed-input reuse''),
           whenp
             (is_dict metadata' \<and>
              \<not> is_True (vget metadata' ''native_to_rns_bridge_forced''))
             (report
                ''native-to-RNS bridge captures must set timing_metadata.native_to_rns_bridge_forced=true'')])"

definition vector_chain_checks :: "pydict \<Rightarrow> unit chk" where
  "vector_chain_checks data =
     cwhen
       (is_direct_hip_vector_to_rns_chain_capture data)
       (let metadata' = dget data ''timing_metadata'' in
        cbind (is_direct_hip_vector_to_rns_host_repack_control_capture
                 data) (\<lambda>host_repack_control.
        let expected_benchmark = if host_repack_control
                                 then ''rns8_bounded_gemm_vector_to_rns_chain_host_repack_control''
                                 else ''rns8_bounded_gemm_vector_to_rns_chain'';
            pack_mode = dget data ''pack_mode'';
            expected_reuse = eq_str pack_mode ''prepacked_reuse_b'';
            expected_strategy = if expected_reuse then ''persistent_matrix_residency'' else ''none''
        in cseq
             [whenp
                (\<not> eq_str (dget data ''benchmark'') expected_benchmark)
                (report
                   (''vector-to-RNS chain captures must use benchmark='' @ expected_benchmark)),
              whenp
                (\<not> eq_str (dget data ''backend_requested'') ''auto'')
                (report ''vector-to-RNS chain captures must use backend_requested=auto''),
              cwhen
                (cnot (c_in pack_mode [''per_repeat_repack'', ''prepacked_reuse_b'']))
                (report
                   ''vector-to-RNS chain captures must use pack_mode=per_repeat_repack or prepacked_reuse_b''),
              whenp
                (dget data ''reuse_packed_inputs'' \<noteq> PBool expected_reuse)
                (report
                   ''vector-to-RNS chain captures must set reuse_packed_inputs to match consumer-B reuse''),
              whenp
                (\<not> eq_str (dget data ''prepack_reuse_strategy'') expected_strategy)
                (report
                   (''vector-to-RNS chain captures must use prepack_reuse_strategy='' @
                    expected_strategy)),
              whenp
                (is_dict metadata')
                (let expected_control_mode = if host_repack_control
                                             then ''host_export_repack_control''
                                             else ''fused_device_native_to_rns'' in
                 cseq
                   [whenp
                      (\<not> is_True (vget metadata' ''vector_to_rns_chain''))
                      (report
                         ''vector-to-RNS chain captures must set timing_metadata.vector_to_rns_chain=true''),
                    whenp
                      (\<not> eq_str
                         (vget metadata' ''vector_to_rns_chain_control_mode'')
                         expected_control_mode)
                      (report
                         (''vector-to-RNS chain captures must set timing_metadata.vector_to_rns_chain_control_mode='' @
                          expected_control_mode)),
                    whenp
                      (\<not> is_False (vget metadata' ''native_to_rns_bridge_forced''))
                      (report
                         ''vector-to-RNS chain captures must set timing_metadata.native_to_rns_bridge_forced=false''),
                    whenp
                      (\<not> py_eq (vget metadata' ''pack_mode'') pack_mode)
                      (report
                         ''vector-to-RNS chain captures must keep timing_metadata.pack_mode in sync''),
                    whenp
                      (\<not> eq_str (vget metadata' ''prepack_reuse_strategy'') expected_strategy)
                      (report
                         ''vector-to-RNS chain captures must keep timing_metadata.prepack_reuse_strategy in sync'')])]))"

definition overlap_capture_checks :: "pydict \<Rightarrow> pyval \<Rightarrow> int \<Rightarrow> string \<Rightarrow> bool \<Rightarrow> unit chk" where
  "overlap_capture_checks data bound_mode residue_chain_length' residue_output_mode' streaming_overlap_capture =
     whenp
       streaming_overlap_capture
       (let metadata' = dget data ''timing_metadata'' in
        let operands = dget data ''prepack_reuse_operands'' in
        cseq
          [whenp
             (\<not> eq_str
                (dget data ''benchmark'')
                ''rns8_streaming_overlap_resident_b_pipeline'')
             (report
                ''streaming-overlap captures must use benchmark=rns8_streaming_overlap_resident_b_pipeline''),
           whenp
             (\<not> eq_str
                (dget data ''benchmark_execution_mode'')
                ''benchmark_streaming_overlap_resident_b_pipeline'')
             (report
                ''streaming-overlap captures must use benchmark_execution_mode=benchmark_streaming_overlap_resident_b_pipeline''),
           whenp
             (\<not> eq_str (dget data ''backend_selected'') ''hip-direct'' \<or>
              \<not> eq_str (dget data ''backend_requested'') ''hip-direct'')
             (report ''streaming-overlap captures must request and select hip-direct''),
           whenp
             (\<not> eq_str bound_mode ''global'')
             (report ''streaming-overlap captures must use bound_mode=global''),
           whenp
             (residue_chain_length' \<noteq> 1 \<or> residue_output_mode' \<noteq> ''host_export'')
             (report ''streaming-overlap captures must use host_export residue_chain_length=1''),
           whenp
             (\<not> eq_str (dget data ''pack_mode'') ''prepacked_reuse_b'')
             (report ''streaming-overlap captures must use pack_mode=prepacked_reuse_b''),
           whenp
             (\<not> is_True (dget data ''reuse_packed_inputs'') \<or>
              \<not> py_eq operands (str_list [''B'']))
             (report ''streaming-overlap captures must reuse packed B''),
           whenp
             (is_list operands \<and> str_mem ''A'' operands)
             (report ''streaming-overlap captures must not reuse packed A''),
           whenp
             (\<not> eq_str (dget data ''prepack_reuse_strategy'') ''persistent_matrix_residency'')
             (report
                ''streaming-overlap captures must keep B resident through persistent_matrix_residency''),
           whenp
             (is_dict metadata' \<and> is_True (vget metadata' ''gpu_event_timing''))
             (let expected_scope = ''direct_hip_streaming_overlap_multistream_operation_groups'' in
              whenp
                (\<not> eq_str (vget metadata' ''gpu_event_timing_source_scope'') expected_scope)
                (report
                   (''timing_metadata.gpu_event_timing_source_scope must be '' @
                    expected_scope)))])"

definition bounded_chain_checks :: "pydict \<Rightarrow> pyval \<Rightarrow> pyval \<Rightarrow> int \<Rightarrow> string \<Rightarrow> unit chk" where
  "bounded_chain_checks data semantics bound_mode residue_chain_length' residue_output_mode' =
     cbind (if 1 < residue_chain_length'
            then cbind (if residue_output_mode' = ''residue_current_rns''
                        then cret ''residue_current_rns_output''
                        else let expected_epilogue_type = ''crt_export'' in
                             cthen
                               (cwhen
                                  (cmap
                                     (\<lambda>mode. mode \<notin>
                                      set [''residue_chain_final_host_export'',
                                           ''residue_chain_independent_final_host_export''])
                                     (benchmark_execution_mode data))
                                  (report
                                     ''bounded residue-chain final-export captures must use benchmark_execution_mode=residue_chain_final_host_export or residue_chain_independent_final_host_export''))
                             (cret expected_epilogue_type)) (\<lambda>expected_epilogue_type.
                 cthen
                   (cseq
                      [whenp
                         (\<not> eq_str bound_mode ''global'')
                         (report ''bounded residue chains must use bound_mode=global''),
                       cwhen
                         (c_in (dget data ''backend_selected'') [''hip-vector-alu-int64''])
                         (report ''bounded residue chains must not select hip-vector-alu-int64''),
                       whenp
                         (\<not> py_eq (dget data ''m'') (dget data ''n'') \<or>
                          \<not> py_eq (dget data ''n'') (dget data ''k''))
                         (report ''bounded residue chains must use square m=n=k shapes'')])
                 (cret expected_epilogue_type))
            else let expected_epilogue_type = if eq_str
                                                   (dget data ''backend_selected'')
                                                   ''hip-vector-alu-int64''
                                              then ''direct_int64_export''
                                              else ''crt_export'' in
                 cthen
                   (whenp
                      (residue_output_mode' \<noteq> ''host_export'')
                      (report
                         ''bounded host-export captures must use residue_output_mode=host_export''))
                 (cret expected_epilogue_type)) (\<lambda>expected_epilogue_type.
     whenp
       (\<not> eq_str (dget data ''epilogue_type'') expected_epilogue_type)
       (report
          (py_str semantics @ '' captures must use '' @ expected_epilogue_type @ '' epilogue'')))"

definition bound_mode_checks :: "pydict \<Rightarrow> pyval \<Rightarrow> pyval \<Rightarrow> pyval \<Rightarrow> pyval \<Rightarrow> pyval \<Rightarrow> pyval \<Rightarrow> bool \<Rightarrow> bool \<Rightarrow> unit chk" where
  "bound_mode_checks data semantics prefix schedule backend_metadata bound_mode prefix_policy oneshot_capture streaming_overlap_capture =
     (if eq_str bound_mode ''global''
      then let expected_bound_kind = if eq_str semantics ''bounded_i64''
                                     then ''global_max_abs''
                                     else ''global_max_unsigned'' in
           cseq
             [whenp
                (\<not> eq_str (dget data ''bound_kind'') expected_bound_kind)
                (report
                   (py_str semantics @ '' captures must use bound_kind='' @ expected_bound_kind)),
              whenp
                (\<not> is_None (dget data ''tile_bounds_u64''))
                (report (py_str semantics @ '' global captures must use tile_bounds_u64=null'')),
              whenp
                (eq_str (dget data ''backend_selected'') ''hip-direct'' \<and>
                 \<not> oneshot_capture)
                (let metadata' = dget data ''timing_metadata'' in
                 whenp
                   (is_dict metadata' \<and> is_True (vget metadata' ''gpu_event_timing''))
                   (cbind (if streaming_overlap_capture
                           then cret ''direct_hip_streaming_overlap_multistream_operation_groups''
                           else cbind (cif (is_direct_hip_native_to_rns_bridge_capture data)
                                         (cret
                                            ''direct_hip_native_to_rns_bridge_default_stream_operation_groups'')
                                         (cbind (cif (is_direct_hip_vector_to_rns_chain_capture
                                                        data)
                                                   (cbind (cif
                                                             (is_direct_hip_vector_to_rns_host_repack_control_capture
                                                                data)
                                                             (cret
                                                                ''direct_hip_vector_native_host_repack_chain_default_stream_operation_groups'')
                                                             (cret
                                                                ''direct_hip_vector_native_to_rns_chain_default_stream_operation_groups'')) (\<lambda>expected_scope.
                                                    cret expected_scope))
                                                   (cret
                                                      ''direct_hip_default_stream_backend_operation_groups'')) (\<lambda>expected_scope.
                                          cret expected_scope))) (\<lambda>expected_scope.
                                cret expected_scope)) (\<lambda>expected_scope.
                    whenp
                      (\<not> eq_str
                         (vget metadata' ''gpu_event_timing_source_scope'')
                         expected_scope)
                      (report
                         (''timing_metadata.gpu_event_timing_source_scope must be '' @
                          expected_scope))))),
              whenp
                (eq_str (dget data ''backend_selected'') ''hipblaslt'')
                (let metadata' = dget data ''timing_metadata'' in
                 cseq
                   [whenp
                      (is_dict metadata' \<and> is_True (vget metadata' ''gpu_event_timing''))
                      (let expected_scope = ''hipblaslt_baseline_default_stream_backend_operation_groups'' in
                       whenp
                         (\<not> eq_str
                            (vget metadata' ''gpu_event_timing_source_scope'')
                            expected_scope)
                         (report
                            (''timing_metadata.gpu_event_timing_source_scope must be '' @
                             expected_scope))),
                    whenp
                      (is_dict backend_metadata)
                      (whenp
                         (\<not> eq_str
                            (vget backend_metadata ''epilogue_mode'')
                            ''separate_i32_scratch_reduce_then_crt_export'')
                         (report
                            ''hipBLASLt bounded captures must use backend_metadata.epilogue_mode=separate_i32_scratch_reduce_then_crt_export''))]),
              whenp
                (is_dict schedule \<and> is_int_value prefix)
                (cseq
                   [if eq_str prefix_policy ''minimum_proven''
                    then cseq
                           [whenp
                              (\<not> py_eq
                                 (vget schedule ''min_selected_prefix'')
                                 (vget schedule ''max_selected_prefix''))
                              (report
                                 (py_str semantics @
                                  '' minimum_proven global captures must use one selected prefix'')),
                            cwhen
                              (c_lt prefix (vget schedule ''max_selected_prefix''))
                              (report
                                 (py_str semantics @
                                  '' selected schedule prefix must be <= prefix''))]
                    else whenp
                           (\<not> py_eq (vget schedule ''min_selected_prefix'') prefix \<or>
                            \<not> py_eq (vget schedule ''max_selected_prefix'') prefix)
                           (report
                              (py_str semantics @
                               '' captures must use fixed selected schedule prefix equal to prefix'')),
                    whenp
                      (\<not> py_eq (vget schedule ''prefix_group_count'') (PInt 1))
                      (report (py_str semantics @ '' captures must use one fixed prefix group'')),
                    whenp
                      (is_True (vget schedule ''adaptive_execution_applied''))
                      (report
                         (py_str semantics @
                          '' global captures must not apply adaptive execution''))])]
      else whenp
             (eq_str bound_mode ''per_tile'')
             (let expected_bound_kind = if eq_str semantics ''bounded_i64''
                                        then ''per_tile_max_abs''
                                        else ''per_tile_max_unsigned'' in
              cseq
                [whenp
                   (\<not> eq_str (dget data ''bound_kind'') expected_bound_kind)
                   (report
                      (py_str semantics @
                       '' per-tile captures must use bound_kind='' @
                       expected_bound_kind)),
                 cwhen
                   (cnot
                      (c_in
                         (dget data ''backend_selected'')
                         [''cpu-reference'', ''hip-direct'', ''ck'', ''rocwmma'',
                          ''amdgpu-builtins'', ''hip-vector-alu-int64'']))
                   (report
                      ''per-tile adaptive captures must select cpu-reference, hip-direct, ck, rocwmma, amdgpu-builtins, or hip-vector-alu-int64 backend''),
                 whenp
                   (\<not> py_eq (dget data ''bound'') (PInt 0))
                   (report ''per-tile adaptive captures must use bound=0''),
                 validate_v4_tile_bounds data semantics schedule,
                 if eq_str prefix_policy ''fixed_requested''
                 then whenp
                        (is_dict schedule \<and> is_int_value prefix)
                        (cseq
                           [whenp
                              (\<not> py_eq (vget schedule ''min_selected_prefix'') prefix \<or>
                               \<not> py_eq (vget schedule ''max_selected_prefix'') prefix)
                              (report
                                 ''fixed-requested per-tile captures must use selected schedule prefix equal to prefix''),
                            whenp
                              (\<not> py_eq (vget schedule ''prefix_group_count'') (PInt 1))
                              (report
                                 ''fixed-requested per-tile captures must use one selected prefix group''),
                            whenp
                              (\<not> is_False (vget schedule ''adaptive_prefix_active'') \<or>
                               \<not> is_False (vget schedule ''adaptive_skip_active''))
                              (report
                                 ''fixed-requested per-tile captures must not set adaptive prefix flags''),
                            whenp
                              (\<not> is_False (vget schedule ''adaptive_execution_applied''))
                              (report
                                 ''fixed-requested per-tile captures must not apply adaptive execution'')])
                 else validate_v4_adaptive_schedule data prefix schedule]))"

definition validate_bounded_contract :: "pydict \<Rightarrow> semantic_ctx \<Rightarrow> unit chk" where
  "validate_bounded_contract data ctx =
     (let semantics = ctx_semantics ctx;
          prefix = ctx_prefix ctx;
          packed_layout = ctx_packed_layout ctx;
          schedule = ctx_schedule ctx;
          backend_metadata = ctx_backend_metadata ctx;
          bound_mode = ctx_bound_mode ctx;
          residue_chain_length' = ctx_residue_chain_length ctx;
          residue_output_mode' = ctx_residue_output_mode ctx;
          prefix_policy = ctx_prefix_policy ctx;
          metadata' = ctx_metadata ctx
      in cbind (is_bounded_oneshot_capture data) (\<lambda>oneshot_capture.
         cbind (is_direct_hip_bounded_native_a_reuse_b_capture
                  data) (\<lambda>native_a_reuse_b_capture.
         let streaming_overlap_capture = is_streaming_overlap_capture data;
             expected_export_kernels = if eq_str semantics ''bounded_i64''
                                       then BOUNDED_I64_EXPORT_KERNELS
                                       else BOUNDED_U64_EXPORT_KERNELS;
             export_variant = dget data ''export_variant'';
             export_kernel = PNone
         in cbind (if is_dict export_variant
                   then let export_kernel = vget export_variant ''selected_kernel'' in
                        cthen
                          (cwhen
                             (cnot (c_in export_kernel expected_export_kernels))
                             (report
                                (py_str semantics @
                                 '' export_variant.selected_kernel must be a registered bounded export kernel'')))
                        (cret export_kernel)
                   else cret export_kernel) (\<lambda>export_kernel.
            let exact_output = dget data ''exact_output_contract'';
                reconstruction = dget data ''reconstruction_variant'';
                expected_native_layout = if eq_str semantics ''bounded_i64''
                                         then ''native_i64_rowmajor_v1''
                                         else ''native_u64_rowmajor_v1''
            in cseq
                 [whenp
                    (is_dict exact_output)
                    (let contract_kernel = vget exact_output ''kernel_identity'' in
                     cseq
                       [cwhen
                          (cnot (c_in contract_kernel expected_export_kernels))
                          (report
                             (py_str semantics @
                              '' exact_output_contract.kernel_identity must be a registered bounded export kernel'')),
                        whenp
                          (\<not> is_None export_kernel \<and>
                           \<not> py_eq contract_kernel export_kernel)
                          (report
                             ''exact_output_contract.kernel_identity must match export_variant.selected_kernel'')]),
                  whenp
                    (is_dict reconstruction)
                    (let reconstruction_kernel = vget reconstruction ''kernel_identity'' in
                     cseq
                       [cwhen
                          (cnot (c_in reconstruction_kernel expected_export_kernels))
                          (report
                             (py_str semantics @
                              '' reconstruction_variant.kernel_identity must be a registered bounded export kernel'')),
                        whenp
                          (\<not> is_None export_kernel \<and>
                           \<not> py_eq reconstruction_kernel export_kernel)
                          (report
                             ''reconstruction_variant.kernel_identity must match export_variant.selected_kernel'')]),
                  bounded_oneshot_checks
                    data
                    backend_metadata
                    bound_mode
                    residue_chain_length'
                    residue_output_mode'
                    oneshot_capture,
                  native_a_reuse_b_checks
                    data
                    semantics
                    backend_metadata
                    bound_mode
                    residue_chain_length'
                    residue_output_mode'
                    native_a_reuse_b_capture,
                  uniform_small_reuse_a_checks
                    data
                    semantics
                    backend_metadata
                    bound_mode
                    residue_chain_length'
                    residue_output_mode',
                  channel_fusion_checks
                    data
                    semantics
                    backend_metadata
                    bound_mode
                    residue_chain_length'
                    residue_output_mode',
                  uniform_small_transient_checks
                    data
                    semantics
                    backend_metadata
                    bound_mode
                    residue_chain_length'
                    residue_output_mode',
                  native_b_reuse_a_checks
                    data
                    semantics
                    backend_metadata
                    bound_mode
                    residue_chain_length'
                    residue_output_mode',
                  gemv_n1_checks
                    data
                    semantics
                    backend_metadata
                    bound_mode
                    residue_chain_length'
                    residue_output_mode',
                  gemv_small_n_checks
                    data
                    semantics
                    backend_metadata
                    bound_mode
                    residue_chain_length'
                    residue_output_mode',
                  whenp
                    (is_int_value prefix \<and> int_of prefix \<le> 0)
                    (report (py_str semantics @ '' captures must use a positive prefix'')),
                  vector_gemv_n1_checks data,
                  vector_gemv_small_n_checks data,
                  if is_vector_alu_runtime_capture data
                  then whenp
                         (\<not> eq_str packed_layout expected_native_layout)
                         (report
                            (py_str semantics @
                             '' runtime vector captures must use packed_layout_version='' @
                             expected_native_layout))
                  else whenp
                         (\<not> is_None packed_layout)
                         (report
                            (py_str semantics @ '' captures must use packed_layout_version=null'')),
                  native_bridge_checks data,
                  vector_chain_checks data,
                  overlap_capture_checks
                    data
                    bound_mode
                    residue_chain_length'
                    residue_output_mode'
                    streaming_overlap_capture,
                  bounded_chain_checks
                    data
                    semantics
                    bound_mode
                    residue_chain_length'
                    residue_output_mode',
                  bound_mode_checks
                    data
                    semantics
                    prefix
                    schedule
                    backend_metadata
                    bound_mode
                    prefix_policy
                    oneshot_capture
                    streaming_overlap_capture]))))"

definition wide_chain_checks :: "pydict \<Rightarrow> pyval \<Rightarrow> int \<Rightarrow> string \<Rightarrow> unit chk" where
  "wide_chain_checks data semantics residue_chain_length' residue_output_mode' =
     cbind (if 1 < residue_chain_length'
            then cbind (if residue_output_mode' = ''residue_current_rns''
                        then cret ''residue_current_rns_output''
                        else let expected_epilogue_type = if eq_str semantics ''exact_wide_signed''
                                                          then ''exact_wide_signed_limb_export''
                                                          else ''exact_wide_unsigned_limb_export'' in
                             cthen
                               (cwhen
                                  (cmap
                                     (\<lambda>mode. mode \<notin>
                                      set [''residue_chain_final_host_export'',
                                           ''residue_chain_independent_final_host_export''])
                                     (benchmark_execution_mode data))
                                  (report
                                     ''exact-wide residue-chain final-export captures must use benchmark_execution_mode=residue_chain_final_host_export or residue_chain_independent_final_host_export''))
                             (cret expected_epilogue_type)) (\<lambda>expected_epilogue_type.
                 cthen
                   (whenp
                      (\<not> py_eq (dget data ''m'') (dget data ''n'') \<or>
                       \<not> py_eq (dget data ''n'') (dget data ''k''))
                      (report ''exact-wide residue chains must use square m=n=k shapes''))
                 (cret expected_epilogue_type))
            else let expected_epilogue_type = if eq_str semantics ''exact_wide_signed''
                                              then ''exact_wide_signed_limb_export''
                                              else ''exact_wide_unsigned_limb_export'' in
                 cthen
                   (whenp
                      (residue_output_mode' \<noteq> ''host_export'')
                      (report
                         ''exact-wide host-export captures must use residue_output_mode=host_export''))
                 (cret expected_epilogue_type)) (\<lambda>expected_epilogue_type.
     whenp
       (\<not> eq_str (dget data ''epilogue_type'') expected_epilogue_type)
       (report (''exact-wide captures must use '' @ expected_epilogue_type @ '' epilogue'')))"

definition wide_limb_checks :: "pydict \<Rightarrow> pyval \<Rightarrow> pyval \<Rightarrow> pyval \<Rightarrow> unit chk" where
  "wide_limb_checks data semantics status_check limb_count =
     (if \<not> is_int_value limb_count \<or> int_of limb_count < 1 \<or> 32 < int_of limb_count
      then report ''exact-wide captures must use exact_wide_limb_count in [1, 32]''
      else whenp
             (\<not> is_None status_check)
             (let expected_status_check = if eq_str semantics ''exact_wide_signed'' \<and>
                                             int_of limb_count < 3 \<or>
                                             eq_str semantics ''exact_wide_unsigned'' \<and>
                                             int_of limb_count < 3
                                          then ''required_for_range_check''
                                          else ''elided_full_width_device_reconstruction'' in
              cseq
                [whenp
                   (\<not> eq_str status_check expected_status_check)
                   (report (''exact_wide_export_status_check must be '' @ expected_status_check)),
                 whenp
                   (eq_str status_check ''elided_full_width_device_reconstruction'')
                   (let event_timings = dget data ''gpu_event_timings_us'' in
                    whenp
                      (is_dict event_timings)
                      (cfor [''exact_wide_export_status_memset'', ''exact_wide_export_status_d2h''] (\<lambda>phase.
                         let values = vget event_timings phase in
                         cwhen
                           (all_of
                              [cret (is_list values),
                               cany_in
                                 (\<lambda>value.
                                  all_of
                                    [c_is_number value,
                                     cret (\<not> flt_eq (num_float value) (FFin 0))])
                                 (elems_of values)])
                           (report
                              (''exact-wide status-elided captures must report gpu_event_timings_us.'' @
                               phase @
                               '' as zero'')))))]))"

definition wide_backend_checks :: "pydict \<Rightarrow> pyval \<Rightarrow> unit chk" where
  "wide_backend_checks data backend_metadata =
     whenp
       (is_dict backend_metadata)
       (let backend = dget data ''backend_selected'';
            expected_epilogues = [(''hipblaslt'', ''separate_i32_scratch_reduce_rns_output''),
                                  (''ck'', ''ck_fused_i32_to_centered_residue_rns_output''),
                                  (''rocwmma'',
                                   ''rocwmma_fused_i32_to_centered_residue_rns_output''),
                                  (''amdgpu-builtins'',
                                   ''amdgpu_builtin_fused_i32_to_centered_residue_rns_output'')];
            selected_kernel' = py_str (py_or (dget data ''selected_kernel'') (PStr []))
        in let expected_epilogues = (if eq_str backend ''amdgpu-builtins'' \<and>
                                        contains ''sparse_a'' selected_kernel'
                                     then dict_set
                                            ''amdgpu-builtins''
                                            ''amdgpu_builtin_sparse_a_fused_i32_to_centered_residue_rns_output''
                                            expected_epilogues
                                     else expected_epilogues) in
           let expected_backend_epilogue = map_of expected_epilogues (py_str backend) in
           whenp
             (expected_backend_epilogue \<noteq> None \<and>
              \<not> eq_str
                (vget backend_metadata ''epilogue_mode'')
                (opt_list expected_backend_epilogue))
             (report
                (''exact-wide '' @
                 py_str backend @
                 '' captures must use backend_metadata.epilogue_mode='' @
                 opt_list expected_backend_epilogue)))"

definition validate_exact_wide_contract :: "pydict \<Rightarrow> semantic_ctx \<Rightarrow> unit chk" where
  "validate_exact_wide_contract data ctx =
     (let semantics = ctx_semantics ctx;
          prefix = ctx_prefix ctx;
          packed_layout = ctx_packed_layout ctx;
          schedule = ctx_schedule ctx;
          backend_metadata = ctx_backend_metadata ctx;
          bound_mode = ctx_bound_mode ctx;
          residue_chain_length' = ctx_residue_chain_length ctx;
          residue_output_mode' = ctx_residue_output_mode ctx;
          status_check = ctx_status_check ctx;
          prefix_policy = ctx_prefix_policy ctx;
          metadata' = ctx_metadata ctx;
          limb_count = dget data ''exact_wide_limb_count'';
          expected_export_kernels = if eq_str semantics ''exact_wide_signed''
                                    then EXACT_WIDE_SIGNED_EXPORT_KERNELS
                                    else EXACT_WIDE_UNSIGNED_EXPORT_KERNELS;
          export_variant = dget data ''export_variant'';
          export_kernel = PNone
      in cseq
           [cwhen
              (cnot
                 (c_in
                    (dget data ''backend_selected'')
                    [''cpu-reference'', ''hip-direct'', ''hipblaslt'', ''ck'', ''rocwmma'',
                     ''amdgpu-builtins'']))
              (report
                 ''exact-wide captures must select cpu-reference, hip-direct, hipblaslt, ck, rocwmma, or amdgpu-builtins backend''),
            whenp
              (\<not> eq_str bound_mode ''global'')
              (report ''exact-wide captures must use bound_mode=global''),
            whenp
              (\<not> eq_str (dget data ''bound_kind'') ''none'' \<or>
               \<not> py_eq (dget data ''bound'') (PInt 0))
              (report ''exact-wide captures must use bound_kind=none and bound=0''),
            whenp
              (\<not> is_None (dget data ''tile_bounds_u64''))
              (report ''exact-wide captures must use tile_bounds_u64=null''),
            whenp
              (is_int_value prefix \<and> int_of prefix \<le> 0)
              (report ''exact-wide captures must use a positive prefix''),
            whenp
              (\<not> is_None packed_layout)
              (report ''exact-wide captures must use packed_layout_version=null''),
            wide_chain_checks data semantics residue_chain_length' residue_output_mode',
            whenp
              (\<not> is_None (dget data ''finite_modulus''))
              (report ''exact-wide captures must use finite_modulus=null''),
            wide_limb_checks data semantics status_check limb_count,
            cbind (if is_dict export_variant
                   then let export_kernel = vget export_variant ''selected_kernel'' in
                        cthen
                          (cwhen
                             (cnot (c_in export_kernel expected_export_kernels))
                             (report
                                (py_str semantics @
                                 '' export_variant.selected_kernel must be a registered exact-wide export kernel'')))
                        (cret export_kernel)
                   else cret export_kernel) (\<lambda>export_kernel.
            let exact_output = dget data ''exact_output_contract'';
                reconstruction = dget data ''reconstruction_variant''
            in cseq
                 [whenp
                    (is_dict exact_output)
                    (let contract_kernel = vget exact_output ''kernel_identity'' in
                     cseq
                       [cwhen
                          (cnot (c_in contract_kernel expected_export_kernels))
                          (report
                             (py_str semantics @
                              '' exact_output_contract.kernel_identity must be a registered exact-wide export kernel'')),
                        whenp
                          (\<not> is_None export_kernel \<and>
                           \<not> py_eq contract_kernel export_kernel)
                          (report
                             ''exact_output_contract.kernel_identity must match export_variant.selected_kernel'')]),
                  whenp
                    (is_dict reconstruction)
                    (let reconstruction_kernel = vget reconstruction ''kernel_identity'' in
                     cseq
                       [cwhen
                          (cnot (c_in reconstruction_kernel expected_export_kernels))
                          (report
                             (py_str semantics @
                              '' reconstruction_variant.kernel_identity must be a registered exact-wide export kernel'')),
                        whenp
                          (\<not> is_None export_kernel \<and>
                           \<not> py_eq reconstruction_kernel export_kernel)
                          (report
                             ''reconstruction_variant.kernel_identity must match export_variant.selected_kernel'')]),
                  whenp
                    (is_dict schedule \<and> is_int_value prefix)
                    (cseq
                       [if eq_str prefix_policy ''minimum_proven''
                        then cseq
                               [whenp
                                  (\<not> py_eq
                                     (vget schedule ''min_selected_prefix'')
                                     (vget schedule ''max_selected_prefix''))
                                  (report
                                     ''exact-wide minimum_proven captures must use one selected prefix''),
                                cwhen
                                  (c_lt prefix (vget schedule ''max_selected_prefix''))
                                  (report
                                     ''exact-wide selected schedule prefix must be <= prefix'')]
                        else whenp
                               (\<not> py_eq (vget schedule ''min_selected_prefix'') prefix \<or>
                                \<not> py_eq (vget schedule ''max_selected_prefix'') prefix)
                               (report
                                  ''exact-wide captures must use fixed selected schedule prefix equal to prefix''),
                        whenp
                          (\<not> py_eq (vget schedule ''prefix_group_count'') (PInt 1))
                          (report ''exact-wide captures must use one fixed prefix group''),
                        whenp
                          (is_True (vget schedule ''adaptive_execution_applied''))
                          (report ''exact-wide captures must not apply adaptive execution'')]),
                  wide_backend_checks data backend_metadata,
                  let metadata' = dget data ''timing_metadata'' in
                  whenp
                    (is_dict metadata' \<and> is_True (vget metadata' ''gpu_event_timing''))
                    (cseq
                       [whenp
                          (eq_str (dget data ''backend_selected'') ''hip-direct'')
                          (let expected_scope = ''direct_hip_default_stream_backend_operation_groups'' in
                           whenp
                             (\<not> eq_str
                                (vget metadata' ''gpu_event_timing_source_scope'')
                                expected_scope)
                             (report
                                (''timing_metadata.gpu_event_timing_source_scope must be '' @
                                 expected_scope))),
                        whenp
                          (eq_str (dget data ''backend_selected'') ''hipblaslt'')
                          (let expected_scope = ''hipblaslt_baseline_default_stream_backend_operation_groups'' in
                           whenp
                             (\<not> eq_str
                                (vget metadata' ''gpu_event_timing_source_scope'')
                                expected_scope)
                             (report
                                (''timing_metadata.gpu_event_timing_source_scope must be '' @
                                 expected_scope)))])])])"

definition finite_oneshot_checks :: "pydict \<Rightarrow> bool \<Rightarrow> unit chk" where
  "finite_oneshot_checks data finite_oneshot_capture =
     whenp
       finite_oneshot_capture
       (cseq
          [whenp
             (\<not> eq_str (dget data ''benchmark'') ''rns8_finite_u8_public_oneshot'')
             (report ''finite one-shot captures must use benchmark=rns8_finite_u8_public_oneshot''),
           cwhen
             (cmap
                (\<lambda>mode. mode \<noteq> ''public_oneshot_transient_native_inputs'')
                (benchmark_execution_mode data))
             (report
                ''finite one-shot captures must use benchmark_execution_mode=public_oneshot_transient_native_inputs''),
           cwhen
             (cnot (c_in (dget data ''backend_selected'') [''cpu-reference'', ''hip-direct'']))
             (report ''finite one-shot captures must select cpu-reference or hip-direct''),
           cwhen
             (cnot
                (c_in
                   (dget data ''backend_requested'')
                   [''cpu-reference'', ''cpu'', ''hip-direct'']))
             (report ''finite one-shot captures must request cpu or hip-direct''),
           whenp
             (is_True (dget data ''reuse_packed_inputs''))
             (report ''finite one-shot captures must not use packed-input reuse''),
           cwhen
             (cnot (c_in_vals (dget data ''pack_mode'') [PNone, PStr ''per_repeat_repack'']))
             (report ''finite one-shot captures must use pack_mode=per_repeat_repack''),
           cwhen
             (cnot (c_in_vals (dget data ''prepack_reuse_strategy'') [PNone, PStr ''none'']))
             (report ''finite one-shot captures must use prepack_reuse_strategy=none'')])"

definition finite_kernel_checks :: "pydict \<Rightarrow> pydict \<Rightarrow> bool \<Rightarrow> pyval \<Rightarrow> unit chk" where
  "finite_kernel_checks data backend_metadata finite_oneshot_capture modulus =
     whenp
       (eq_str (dget data ''backend_selected'') ''hip-direct'' \<and> is_int_value modulus)
       (cbind (is_direct_hip_finite_native_a_reuse_b_capture
                 data) (\<lambda>native_a_reuse_b_capture.
        let specialized_kernel = if finite_oneshot_capture
                                 then map_of
                                        DIRECT_HIP_FINITE_ONESHOT_SPECIALIZED_KERNELS
                                        (int_of modulus)
                                 else if native_a_reuse_b_capture
                                      then map_of
                                             DIRECT_HIP_FINITE_NATIVE_A_REUSE_B_SPECIALIZED_KERNELS
                                             (int_of modulus)
                                      else map_of
                                             DIRECT_HIP_FINITE_SPECIALIZED_KERNELS
                                             (int_of modulus);
            generic_kernel = if finite_oneshot_capture
                             then DIRECT_HIP_FINITE_ONESHOT_GENERIC_KERNEL
                             else if native_a_reuse_b_capture
                                  then DIRECT_HIP_FINITE_NATIVE_A_REUSE_B_GENERIC_KERNEL
                                  else DIRECT_HIP_FINITE_GENERIC_KERNEL
        in cseq
             [if specialized_kernel \<noteq> None
              then cseq
                     [whenp
                        (\<not> eq_str
                           (dget data ''selected_kernel'')
                           (opt_list specialized_kernel))
                        (report
                           (''direct-HIP finite-u8 modulus '' @
                            py_str modulus @
                            '' captures must use selected_kernel='' @
                            opt_list specialized_kernel)),
                      whenp
                        (\<not> eq_str
                           (dget backend_metadata ''isa_evidence'')
                           DIRECT_HIP_FINITE_SPECIALIZED_ISA_EVIDENCE)
                        (report
                           (''direct-HIP finite-u8 specialized captures must use backend_metadata.isa_evidence='' @
                            DIRECT_HIP_FINITE_SPECIALIZED_ISA_EVIDENCE))]
              else cseq
                     [whenp
                        (\<not> eq_str (dget data ''selected_kernel'') generic_kernel)
                        (report
                           (''direct-HIP generic finite-u8 captures must use selected_kernel='' @
                            generic_kernel)),
                      whenp
                        (\<not> eq_str
                           (dget backend_metadata ''isa_evidence'')
                           DIRECT_HIP_RECIPROCAL_ISA_EVIDENCE)
                        (report
                           (''direct-HIP generic finite-u8 captures must use backend_metadata.isa_evidence='' @
                            DIRECT_HIP_RECIPROCAL_ISA_EVIDENCE))],
              if finite_oneshot_capture
              then cseq
                     [whenp
                        (\<not> eq_str
                           (dget backend_metadata ''epilogue_mode'')
                           DIRECT_HIP_FINITE_ONESHOT_EPILOGUE)
                        (report
                           (''direct-HIP finite one-shot captures must use backend_metadata.epilogue_mode='' @
                            DIRECT_HIP_FINITE_ONESHOT_EPILOGUE)),
                      whenp
                        (\<not> eq_str
                           (dget backend_metadata ''workspace_mode'')
                           DIRECT_HIP_FINITE_ONESHOT_WORKSPACE)
                        (report
                           (''direct-HIP finite one-shot captures must use backend_metadata.workspace_mode='' @
                            DIRECT_HIP_FINITE_ONESHOT_WORKSPACE))]
              else whenp
                     native_a_reuse_b_capture
                     (cseq
                        [whenp
                           (\<not> eq_str
                              (dget backend_metadata ''epilogue_mode'')
                              DIRECT_HIP_FINITE_NATIVE_A_REUSE_B_EPILOGUE)
                           (report
                              (''direct-HIP finite native-A reuse-B captures must use backend_metadata.epilogue_mode='' @
                               DIRECT_HIP_FINITE_NATIVE_A_REUSE_B_EPILOGUE)),
                         whenp
                           (\<not> eq_str
                              (dget backend_metadata ''workspace_mode'')
                              DIRECT_HIP_FINITE_NATIVE_A_REUSE_B_WORKSPACE)
                           (report
                              (''direct-HIP finite native-A reuse-B captures must use backend_metadata.workspace_mode='' @
                               DIRECT_HIP_FINITE_NATIVE_A_REUSE_B_WORKSPACE))])]))"

definition finite_event_checks :: "pydict \<Rightarrow> pyval \<Rightarrow> bool \<Rightarrow> unit chk" where
  "finite_event_checks data metadata' finite_oneshot_capture =
     whenp
       (is_dict metadata' \<and> is_True (vget metadata' ''gpu_event_timing''))
       (cseq
          [whenp
             (eq_str (dget data ''backend_selected'') ''hip-direct'')
             (let expected_scope = if finite_oneshot_capture
                                   then ''direct_hip_oneshot_default_stream_operation_groups''
                                   else ''direct_hip_default_stream_backend_operation_groups'' in
              whenp
                (\<not> eq_str (vget metadata' ''gpu_event_timing_source_scope'') expected_scope)
                (report
                   (''timing_metadata.gpu_event_timing_source_scope must be '' @ expected_scope))),
           whenp
             (eq_str (dget data ''backend_selected'') ''hipblaslt'')
             (let expected_scope = ''hipblaslt_baseline_default_stream_backend_operation_groups'' in
              whenp
                (\<not> eq_str (vget metadata' ''gpu_event_timing_source_scope'') expected_scope)
                (report
                   (''timing_metadata.gpu_event_timing_source_scope must be '' @
                    expected_scope)))])"

definition validate_finite_u8_contract :: "pydict \<Rightarrow> semantic_ctx \<Rightarrow> unit chk" where
  "validate_finite_u8_contract data ctx =
     (let semantics = ctx_semantics ctx;
          prefix = ctx_prefix ctx;
          packed_layout = ctx_packed_layout ctx;
          schedule = ctx_schedule ctx;
          backend_metadata = ctx_backend_metadata ctx;
          bound_mode = ctx_bound_mode ctx;
          metadata' = ctx_metadata ctx
      in cbind (is_finite_oneshot_capture data) (\<lambda>finite_oneshot_capture.
         let distribution = dget data ''input_distribution'';
             allowed_distributions = [''u8_binary_0_1'', ''u8_sparse_90pct_zero_uniform_nonzero'',
                                      ''u8_low_hamming_powers_of_two_mod_q'',
                                      ''u8_small_centered_minus2_2_mod_q'',
                                      ''u8_full_uniform_0_modulus_minus_1'',
                                      ''u8_uniform_0_modulus_minus_1'',
                                      ''u8_sparse_a_4_to_2_structured_k_groups_exactly_two_nonzero_per_group''];
             modulus = dget data ''finite_modulus'';
             raw_metadata = dget data ''backend_metadata''
         in cseq
              [finite_oneshot_checks data finite_oneshot_capture,
               cwhen
                 (cnot
                    (c_in
                       (dget data ''backend_selected'')
                       [''cpu-reference'', ''hip-direct'', ''hipblaslt'', ''ck'', ''rocwmma'',
                        ''amdgpu-builtins'']))
                 (report
                    ''finite-u8 captures must select cpu-reference, hip-direct, hipblaslt, ck, rocwmma, or amdgpu-builtins backend''),
               whenp
                 (\<not> eq_str bound_mode ''global'')
                 (report ''finite-u8 captures must use bound_mode=global''),
               whenp
                 (\<not> eq_str (dget data ''bound_kind'') ''none'' \<or>
                  \<not> py_eq (dget data ''bound'') (PInt 0))
                 (report ''finite-u8 captures must use bound_kind=none and bound=0''),
               whenp
                 (\<not> is_None (dget data ''tile_bounds_u64''))
                 (report ''finite-u8 captures must use tile_bounds_u64=null''),
               whenp
                 (\<not> py_eq prefix (PInt 0))
                 (report ''finite-u8 captures must use prefix=0''),
               whenp
                 (\<not> is_None packed_layout)
                 (report ''finite-u8 captures must use packed_layout_version=null''),
               whenp
                 (\<not> eq_str (dget data ''epilogue_type'') ''canonical_u8_export'')
                 (report ''finite-u8 captures must use canonical_u8_export epilogue''),
               cwhen
                 (cnot (c_in distribution allowed_distributions))
                 (report ''finite-u8 captures must use a registered finite input_distribution''),
               if \<not> is_int_value modulus
               then report ''finite-u8 captures must include integer finite_modulus''
               else if eq_str semantics ''finite_ring_u8'' \<and>
                       (int_of modulus < 2 \<or> 256 < int_of modulus)
               then report ''finite_ring_u8 finite_modulus must be in [2, 256]''
               else whenp
                      (eq_str semantics ''finite_field_u8'' \<and>
                       \<not> is_prime_modulus (int_of modulus))
                      (report ''finite_field_u8 finite_modulus must be prime and <= 251''),
               let backend_metadata = if is_dict raw_metadata then items_of raw_metadata else [] in
               let autotune_key = dget backend_metadata ''autotune_key'' in
               cseq
                 [whenp
                    (is_str autotune_key \<and> is_int_value modulus)
                    (let required_field = '';finite_modulus='' @ py_str modulus @ '';'';
                         normalized_key = '';'' @ py_str autotune_key @ '';''
                     in whenp
                          (\<not> contains required_field normalized_key)
                          (report
                             ''finite-u8 backend_metadata.autotune_key must include finite_modulus'')),
                  finite_kernel_checks data backend_metadata finite_oneshot_capture modulus,
                  whenp
                    (eq_str (dget data ''backend_selected'') ''ck'' \<and> is_int_value modulus)
                    (let expected_kernel = lookup_or
                                             SCHEMA_CK_FINITE_SPECIALIZED_KERNELS
                                             (int_of modulus)
                                             CK_FINITE_GENERIC_KERNEL in
                     cseq
                       [whenp
                          (\<not> int_of modulus \<in> set CK_FINITE_STATIC_MODULI)
                          (report
                             (''CK finite-u8 modulus '' @
                              py_str modulus @
                              '' captures are unsupported by the static CK reducer set'')),
                        whenp
                          (\<not> eq_str (dget data ''selected_kernel'') expected_kernel)
                          (report
                             (''CK finite-u8 modulus '' @
                              py_str modulus @
                              '' captures must use selected_kernel='' @
                              expected_kernel))]),
                  whenp
                    (eq_str (dget data ''backend_selected'') ''rocwmma'' \<and>
                     is_int_value modulus)
                    (let expected_kernel = lookup_or
                                             SCHEMA_ROCWMMA_FINITE_SPECIALIZED_KERNELS
                                             (int_of modulus)
                                             ROCWMMA_FINITE_GENERIC_KERNEL in
                     cseq
                       [whenp
                          (\<not> int_of modulus \<in> set ROCWMMA_FINITE_STATIC_MODULI)
                          (report
                             (''rocWMMA finite-u8 modulus '' @
                              py_str modulus @
                              '' captures are unsupported by the static rocWMMA reducer set'')),
                        whenp
                          (\<not> eq_str (dget data ''selected_kernel'') expected_kernel)
                          (report
                             (''rocWMMA finite-u8 modulus '' @
                              py_str modulus @
                              '' captures must use selected_kernel='' @
                              expected_kernel))]),
                  whenp
                    (is_dict schedule)
                    (cseq
                       [cfor [''min_required_prefix'', ''max_required_prefix'',
                              ''min_selected_prefix'', ''max_selected_prefix''] (\<lambda>key.
                          whenp
                            (\<not> py_eq (vget schedule key) (PInt 0))
                            (report
                               (''finite-u8 captures must use schedule_metadata.'' @
                                key @
                                ''=0''))),
                        whenp
                          (\<not> py_eq (vget schedule ''prefix_group_count'') (PInt 0))
                          (report
                             ''finite-u8 captures must use schedule_metadata.prefix_group_count=0''),
                        whenp
                          (is_True (vget schedule ''adaptive_execution_applied''))
                          (report ''finite-u8 captures must not apply adaptive execution'')]),
                  let metadata' = dget data ''timing_metadata'' in
                  finite_event_checks data metadata' finite_oneshot_capture]]))"

definition validate_wrap64_contract :: "pydict \<Rightarrow> semantic_ctx \<Rightarrow> unit chk" where
  "validate_wrap64_contract data ctx =
     (let prefix = ctx_prefix ctx;
          packed_layout = ctx_packed_layout ctx;
          schedule = ctx_schedule ctx;
          backend_metadata = ctx_backend_metadata ctx;
          k_value = ctx_k_value ctx;
          bound_mode = ctx_bound_mode ctx;
          metadata' = ctx_metadata ctx;
          is_candidate = is_wrap64_rocwmma_candidate data
      in cseq
           [cwhen
              (all_of
                 [cnot
                    (c_in (dget data ''backend_selected'') [''wrap64-byte-limb'', ''hip-direct'']),
                  cret (\<not> is_candidate)])
              (report
                 ''wrap64 captures must select wrap64-byte-limb, hip-direct, or rocWMMA candidate backend''),
            whenp
              (\<not> eq_str bound_mode ''global'')
              (report ''wrap64 captures must use bound_mode=global''),
            whenp
              (eq_str (dget data ''backend_selected'') ''hip-direct'')
              (let allowed_kernels = wrap64_hip_allowed_kernels
                                       (dget data ''m'')
                                       (dget data ''n'')
                                       (PInt k_value) in
               cseq
                 [whenp
                    (\<not> in_strs (dget data ''selected_kernel'') allowed_kernels)
                    (report
                       (''direct-HIP wrap64 captures must use selected_kernel in '' @
                        py_str (str_list (sort allowed_kernels)))),
                  whenp
                    (is_dict backend_metadata)
                    (let expected_isa = ''wrap64_byte_gemm36_isa_gate_no_variable_divide_no_matrix_engine'' in
                     cseq
                       [whenp
                          (\<not> eq_str
                             (vget backend_metadata ''epilogue_mode'')
                             ''low64_wrap_export'')
                          (report
                             ''direct-HIP wrap64 captures must use backend_metadata.epilogue_mode=low64_wrap_export''),
                        whenp
                          (\<not> eq_str
                             (vget backend_metadata ''workspace_mode'')
                             ''resident_device_buffers'')
                          (report
                             ''direct-HIP wrap64 captures must use backend_metadata.workspace_mode=resident_device_buffers''),
                        whenp
                          (\<not> eq_str (vget backend_metadata ''isa_evidence'') expected_isa)
                          (report
                             (''direct-HIP wrap64 captures must use backend_metadata.isa_evidence='' @
                              expected_isa))])]),
            whenp
              is_candidate
              (cseq
                 [whenp
                    (\<not> eq_str (dget data ''selected_kernel'') WRAP64_ROCWMMA_CANDIDATE_KERNEL)
                    (report
                       (''rocWMMA wrap64 candidate captures must use selected_kernel='' @
                        WRAP64_ROCWMMA_CANDIDATE_KERNEL)),
                  whenp
                    (is_dict backend_metadata)
                    (cseq
                       [whenp
                          (\<not> eq_str
                             (vget backend_metadata ''epilogue_mode'')
                             ''low64_wrap_export'')
                          (report
                             ''rocWMMA wrap64 candidate captures must use backend_metadata.epilogue_mode=low64_wrap_export''),
                        whenp
                          (\<not> eq_str
                             (vget backend_metadata ''workspace_mode'')
                             ''benchmark_owned_compact_byte_limb_device_buffers'')
                          (report
                             ''rocWMMA wrap64 candidate captures must use backend_metadata.workspace_mode=benchmark_owned_compact_byte_limb_device_buffers'')])]),
            whenp
              (\<not> eq_str (dget data ''bound_kind'') ''none'' \<or>
               \<not> py_eq (dget data ''bound'') (PInt 0))
              (report ''wrap64 captures must use bound_kind=none and bound=0''),
            whenp
              (\<not> is_None (dget data ''tile_bounds_u64''))
              (report ''wrap64 captures must use tile_bounds_u64=null''),
            whenp (\<not> py_eq prefix (PInt 0)) (report ''wrap64 captures must use prefix=0''),
            whenp
              (\<not> eq_str packed_layout ''byte_limb_v1'')
              (report ''wrap64 captures must use packed_layout_version=byte_limb_v1''),
            whenp
              (\<not> eq_str (dget data ''epilogue_type'') ''low64_wrap_export'')
              (report ''wrap64 captures must use low64_wrap_export epilogue''),
            whenp
              (is_dict schedule)
              (cseq
                 [cfor [''min_required_prefix'', ''max_required_prefix'', ''min_selected_prefix'',
                        ''max_selected_prefix''] (\<lambda>key.
                    whenp
                      (\<not> py_eq (vget schedule key) (PInt 0))
                      (report (''wrap64 captures must use schedule_metadata.'' @ key @ ''=0''))),
                  whenp
                    (\<not> py_eq (vget schedule ''prefix_group_count'') (PInt 0))
                    (report ''wrap64 captures must use schedule_metadata.prefix_group_count=0'')]),
            whenp
              (eq_str (dget data ''backend_selected'') ''hip-direct'')
              (let metadata' = dget data ''timing_metadata'' in
               whenp
                 (is_dict metadata' \<and> is_True (vget metadata' ''gpu_event_timing''))
                 (let expected_scope = ''direct_hip_wrap64_byte_gemm36_default_stream_backend_operation_groups'' in
                  whenp
                    (\<not> eq_str
                       (vget metadata' ''gpu_event_timing_source_scope'')
                       expected_scope)
                    (report
                       (''timing_metadata.gpu_event_timing_source_scope must be '' @
                        expected_scope)))),
            whenp
              is_candidate
              (let metadata' = dget data ''timing_metadata'' in
               whenp
                 (is_dict metadata' \<and> is_True (vget metadata' ''gpu_event_timing''))
                 (let expected_scope = ''rocwmma_wrap64_byte_gemm36_candidate_default_stream_operation_groups'' in
                  whenp
                    (\<not> eq_str
                       (vget metadata' ''gpu_event_timing_source_scope'')
                       expected_scope)
                    (report
                       (''timing_metadata.gpu_event_timing_source_scope must be '' @
                        expected_scope))))])"

definition validate_semantic_contract :: "pydict \<Rightarrow> unit chk" where
  "validate_semantic_contract data =
     (let semantics = dget data ''semantics'';
          prefix = dget data ''prefix'';
          packed_layout = dget data ''packed_layout_version'';
          schedule = dget data ''schedule_metadata'';
          backend_metadata = dget data ''backend_metadata'';
          k = dget data ''k'';
          k_value = if is_int_value k \<and> 0 < int_of k then int_of k else 0;
          bound_mode = dget_or data ''bound_mode'' (PStr ''global'')
      in cbind (residue_chain_length data) (\<lambda>residue_chain_length'.
         cbind (validated_output_mode data) (\<lambda>residue_output_mode'.
         let residue_chain_final_export = dget data ''residue_chain_final_export'';
             residue_chain_independent_final_export = dget
                                                        data
                                                        ''residue_chain_independent_final_export'';
             status_check = dget data ''exact_wide_export_status_check'';
             prefix_policy = dget data ''contract_prefix_policy'';
             metadata' = dget data ''timing_metadata'';
             rns_chain_semantics = [''bounded_i64'', ''bounded_u64'', ''exact_wide_signed'',
                                    ''exact_wide_unsigned''];
             ctx = \<lparr>ctx_semantics = semantics,
                           ctx_prefix = prefix,
                           ctx_packed_layout = packed_layout,
                           ctx_schedule = schedule,
                           ctx_backend_metadata = backend_metadata,
                           ctx_k_value = k_value,
                           ctx_bound_mode = bound_mode,
                           ctx_residue_chain_length = residue_chain_length',
                           ctx_residue_output_mode = residue_output_mode',
                           ctx_status_check = status_check,
                           ctx_prefix_policy = prefix_policy,
                           ctx_metadata = metadata'\<rparr>;
             applicable = dget data ''per_modulus_gemm_estimate_applicable''
         in cseq
              [cwhen
                 (cnot (c_in bound_mode [''global'', ''per_tile'']))
                 (report ''bound_mode must be global or per_tile''),
               whenp
                 (\<not> is_None residue_chain_final_export \<and>
                  \<not> is_bool residue_chain_final_export)
                 (report ''residue_chain_final_export must be a boolean''),
               whenp
                 (\<not> is_None residue_chain_independent_final_export \<and>
                  \<not> is_bool residue_chain_independent_final_export)
                 (report ''residue_chain_independent_final_export must be a boolean''),
               cwhen
                 (all_of
                    [cret (\<not> is_None status_check),
                     cnot (c_in semantics [''exact_wide_signed'', ''exact_wide_unsigned''])])
                 (report
                    ''exact_wide_export_status_check must be null outside exact-wide captures''),
               cwhen
                 (all_of
                    [cret (1 < residue_chain_length'), cnot (c_in semantics rns_chain_semantics)])
                 (report
                    ''residue_chain_length > 1 captures must use bounded or exact-wide RNS semantics''),
               whenp
                 (residue_output_mode' = ''residue_current_rns'' \<and>
                  residue_chain_length' \<le> 1)
                 (report
                    ''residue_output_mode=residue_current_rns requires residue_chain_length > 1''),
               whenp
                 (residue_chain_length' = 1 \<and> residue_output_mode' \<noteq> ''host_export'')
                 (report
                    ''residue_chain_length=1 captures must use residue_output_mode=host_export''),
               whenp
                 (1 < residue_chain_length' \<and> is_bool residue_chain_final_export)
                 (let expected_final_export = residue_output_mode' = ''host_export'' in
                  whenp
                    (residue_chain_final_export \<noteq> PBool expected_final_export)
                    (report
                       ''residue_chain_final_export must match residue_output_mode for chain captures'')),
               if is_True residue_chain_independent_final_export
               then cseq
                      [cwhen
                         (cnot
                            (c_in
                               semantics
                               [''bounded_i64'', ''bounded_u64'', ''exact_wide_signed'',
                                ''exact_wide_unsigned'']))
                         (report
                            ''independent final-output residue-chain captures require bounded or exact-wide RNS semantics''),
                       whenp
                         (residue_chain_length' \<le> 1 \<or>
                          residue_output_mode' \<noteq> ''host_export'')
                         (report
                            ''independent final-output residue-chain captures must use host_export residue_chain_length > 1''),
                       whenp
                         (\<not> is_True residue_chain_final_export)
                         (report
                            ''independent final-output residue-chain captures must set residue_chain_final_export=true''),
                       cwhen
                         (cmap
                            (\<lambda>mode. mode \<noteq>
                             ''residue_chain_independent_final_host_export'')
                            (benchmark_execution_mode data))
                         (report
                            ''independent final-output residue-chain captures must use benchmark_execution_mode=residue_chain_independent_final_host_export''),
                       whenp
                         (\<not> eq_str (dget data ''pack_mode'') ''per_repeat_repack'')
                         (report
                            ''independent final-output residue-chain captures must use pack_mode=per_repeat_repack''),
                       whenp
                         (\<not> is_False (dget data ''reuse_packed_inputs''))
                         (report
                            ''independent final-output residue-chain captures must not use packed-input reuse''),
                       whenp
                         (\<not> list_ex
                            (elem_eq (dget data ''prepack_reuse_operands''))
                            [PNone, PList []])
                         (report
                            ''independent final-output residue-chain captures must not declare reused operands''),
                       cwhen
                         (cnot
                            (c_in_vals
                               (dget data ''prepack_reuse_strategy'')
                               [PNone, PStr ''none'']))
                         (report
                            ''independent final-output residue-chain captures must use prepack_reuse_strategy=none''),
                       whenp
                         (is_dict metadata')
                         (cseq
                            [whenp
                               (\<not> is_True
                                  (vget metadata' ''residue_chain_independent_final_export''))
                               (report
                                  ''independent final-output residue-chain captures must set timing_metadata.residue_chain_independent_final_export=true''),
                             whenp
                               (\<not> is_True (vget metadata' ''residue_chain_final_export''))
                               (report
                                  ''independent final-output residue-chain captures must set timing_metadata.residue_chain_final_export=true'')])]
               else cwhen
                      (cmap
                         (\<lambda>mode. mode = ''residue_chain_independent_final_host_export'')
                         (benchmark_execution_mode data))
                      (report
                         ''benchmark_execution_mode=residue_chain_independent_final_host_export requires residue_chain_independent_final_export=true''),
               if eq_str semantics ''wrap_u64_mod_2_64''
               then validate_wrap64_contract data ctx
               else cif (c_in semantics [''bounded_i64'', ''bounded_u64''])
                      (validate_bounded_contract data ctx)
                    (cif (c_in semantics [''exact_wide_signed'', ''exact_wide_unsigned''])
                      (validate_exact_wide_contract data ctx)
                    (cif (c_in semantics [''finite_ring_u8'', ''finite_field_u8''])
                      (validate_finite_u8_contract data ctx)
                      (whenp
                         (is_str semantics)
                         (report (''unsupported benchmark semantics '' @ py_str semantics))))),
               if \<not> is_None applicable \<and> \<not> is_bool applicable
               then report ''per_modulus_gemm_estimate_applicable must be a boolean''
               else whenp
                      (is_bool applicable \<and> is_int_value prefix)
                      (cbind (all_of
                                [cret (0 < int_of prefix),
                                 cnot (is_public_oneshot_capture data),
                                 cnot
                                   (all_of
                                      [c_in semantics [''bounded_i64'', ''bounded_u64''],
                                       cret (eq_str bound_mode ''per_tile'')]),
                                 cnot (is_direct_hip_vector_to_rns_chain_capture data),
                                 cnot (is_host_api_batch_capture data),
                                 cnot (is_grouped_dispatch_capture data),
                                 cnot (is_hip_graph_replay_capture data),
                                 cret
                                   (\<not> is_streaming_overlap_capture data \<and>
                                    \<not> eq_str
                                      (dget data ''backend_selected'')
                                      ''hip-vector-alu-int64'')]) (\<lambda>expected_applicable.
                       whenp
                         (\<not> py_eq applicable (PBool expected_applicable))
                         (report
                            ''per_modulus_gemm_estimate_applicable must match the fixed-prefix contract'')))])))"

end
