(* ===== verification/Schema_Timing.thy ===== *)
theory Schema_Timing
  imports Schema_Contract
begin

text \<open>
  \<open>tools/benchmark_schema/reuse_timing.py\<close> and \<open>validator_timing_events.py\<close>: the raw timings, their summaries
  and averages, packed-input reuse, and the event labels a backend is expected to report. A table of raw
  timings maps a phase to its repeats.
\<close>

definition validate_pack_reuse_fields :: "pydict \<Rightarrow> (string \<times> pyfloat list) list \<Rightarrow> unit chk" where
  "validate_pack_reuse_fields data raw_timings =
     (let reuse_value = dget_or data ''reuse_packed_inputs'' (PBool False);
          reuse_packed = is_True reuse_value;
          pack_mode = dget data ''pack_mode'';
          metadata' = dget data ''timing_metadata'';
          operands = dget data ''prepack_reuse_operands'';
          strategy = dget data ''prepack_reuse_strategy'';
          prepack_setup = dget data ''prepack_setup_us'';
          avg_prepack_setup = dget data ''avg_prepack_setup_us'';
          prepack_setup_breakdown = dget data ''prepack_setup_breakdown_us''
      in cseq
           [whenp
              (has_key data ''reuse_packed_inputs'' \<and> \<not> is_bool reuse_value)
              (report ''reuse_packed_inputs must be a boolean''),
            whenp
              (\<not> is_None pack_mode)
              (cif (cnot (c_in pack_mode PACK_MODES))
                 (report
                    (''pack_mode must be one of '' @ py_str (str_list (sorted_set PACK_MODES))))
                 (if reuse_packed \<and> eq_str pack_mode ''per_repeat_repack''
                  then report ''pack_mode must describe a prepacked reuse mode''
                  else whenp
                         (\<not> reuse_packed \<and> \<not> eq_str pack_mode ''per_repeat_repack'')
                         (report ''pack_mode must be per_repeat_repack''))),
            whenp
              (is_dict metadata')
              (let metadata_mode = vget metadata' ''pack_mode'';
                   metadata_operands = vget metadata' ''prepack_reuse_operands'';
                   metadata_strategy = vget metadata' ''prepack_reuse_strategy''
               in cseq
                    [whenp
                       (\<not> is_None metadata_mode)
                       (cseq
                          [cif (cnot (c_in metadata_mode PACK_MODES))
                             (report
                                (''timing_metadata.pack_mode must be one of '' @
                                 py_str (str_list (sorted_set PACK_MODES))))
                             (if reuse_packed \<and> eq_str metadata_mode ''per_repeat_repack''
                              then report
                                     ''timing_metadata.pack_mode must describe a prepacked reuse mode''
                              else whenp
                                     (\<not> reuse_packed \<and>
                                      \<not> eq_str metadata_mode ''per_repeat_repack'')
                                     (report
                                        ''timing_metadata.pack_mode must be per_repeat_repack'')),
                           whenp
                             (\<not> is_None pack_mode \<and> \<not> py_eq metadata_mode pack_mode)
                             (report ''timing_metadata.pack_mode must match pack_mode'')]),
                     cwhen
                       (all_of
                          [cret (\<not> is_None metadata_operands \<and> is_str pack_mode),
                           c_has_key PACK_MODE_OPERANDS pack_mode])
                       (cwhen
                          (cmap
                             (\<lambda>x. \<not> py_eq metadata_operands (str_list x))
                             (c_index PACK_MODE_OPERANDS (str_of pack_mode)))
                          (report ''timing_metadata.prepack_reuse_operands must match pack_mode'')),
                     whenp
                       (\<not> is_None metadata_strategy)
                       (cwhen
                          (cnot (c_in metadata_strategy PREPACK_REUSE_STRATEGIES))
                          (report
                             (''timing_metadata.prepack_reuse_strategy must be one of '' @
                              py_str (str_list (sorted_set PREPACK_REUSE_STRATEGIES)))))]),
            cwhen
              (all_of
                 [cret (\<not> is_None operands \<and> is_str pack_mode),
                  c_has_key PACK_MODE_OPERANDS pack_mode])
              (cwhen
                 (cmap
                    (\<lambda>x. \<not> py_eq operands (str_list x))
                    (c_index PACK_MODE_OPERANDS (str_of pack_mode)))
                 (report ''prepack_reuse_operands must match pack_mode'')),
            whenp
              (\<not> is_None strategy)
              (cseq
                 [cwhen
                    (cnot (c_in strategy PREPACK_REUSE_STRATEGIES))
                    (report
                       (''prepack_reuse_strategy must be one of '' @
                        py_str (str_list (sorted_set PREPACK_REUSE_STRATEGIES)))),
                  let metadata' = dget data ''timing_metadata'' in
                  cseq
                    [whenp
                       (is_dict metadata' \<and>
                        \<not> is_None (vget metadata' ''prepack_reuse_strategy''))
                       (whenp
                          (\<not> py_eq (vget metadata' ''prepack_reuse_strategy'') strategy)
                          (report
                             ''timing_metadata.prepack_reuse_strategy must match prepack_reuse_strategy'')),
                     whenp
                       (reuse_packed \<and> eq_str strategy ''none'')
                       (report
                          ''prepacked reuse captures must not use prepack_reuse_strategy=none''),
                     whenp
                       (\<not> reuse_packed \<and> \<not> eq_str strategy ''none'')
                       (report ''per-repeat repack captures must use prepack_reuse_strategy=none''),
                     whenp
                       (eq_str strategy ''rocwmma_reusable_b_cache'')
                       (cseq
                          [whenp
                             (\<not> eq_str pack_mode ''prepacked_reuse_b'')
                             (report
                                ''rocwmma_reusable_b_cache captures must use pack_mode=prepacked_reuse_b''),
                           whenp
                             (\<not> is_None operands \<and>
                              \<not> py_eq operands (str_list [''B'']))
                             (report
                                ''rocwmma_reusable_b_cache captures must reuse only operand B''),
                           whenp
                             (\<not> eq_str (dget data ''backend_selected'') ''rocwmma'')
                             (report
                                ''rocwmma_reusable_b_cache captures must select backend_selected=rocwmma'')])]]),
            if reuse_packed
            then cseq
                   [whenp
                      (\<not> is_int_value prepack_setup \<or> int_of prepack_setup < 0)
                      (report
                         ''prepacked reuse captures must include nonnegative integer prepack_setup_us''),
                    cif (cnot (c_is_number avg_prepack_setup))
                      (report ''prepacked reuse captures must include avg_prepack_setup_us'')
                      (cwhen
                         (all_of
                            [cret (is_int_value prepack_setup),
                             cnot
                               (cmap
                                  (\<lambda>x. close_to (num_float avg_prepack_setup) x)
                                  (c_float prepack_setup))])
                         (report ''avg_prepack_setup_us must match prepack_setup_us'')),
                    cbind (if \<not> is_None prepack_setup_breakdown
                           then validate_prepack_setup_breakdown
                                  data
                                  prepack_setup_breakdown
                                  ''prepack_setup_breakdown_us''
                                  prepack_setup
                           else cret None) (\<lambda>breakdown.
                    cseq
                      [cif (all_of
                              [cret
                                 (breakdown \<noteq> None \<and>
                                  eq_str pack_mode ''prepacked_reuse_a''),
                               cmap
                                 (\<lambda>x. \<not> flt_eq x (FFin 0))
                                 (c_index (opt_list breakdown) ''pack_b'')])
                         (report
                            ''prepacked_reuse_a captures must report prepack_setup_breakdown_us.pack_b=0'')
                         (cwhen
                            (all_of
                               [cret
                                  (breakdown \<noteq> None \<and>
                                   eq_str pack_mode ''prepacked_reuse_b''),
                                cmap
                                  (\<lambda>x. \<not> flt_eq x (FFin 0))
                                  (c_index (opt_list breakdown) ''pack_a'')])
                            (report
                               ''prepacked_reuse_b captures must report prepack_setup_breakdown_us.pack_a=0'')),
                       whenp
                         (eq_str pack_mode ''prepacked_reuse'')
                         (let pack_values = map_of raw_timings ''pack'';
                              event_timings = dget data ''gpu_event_timings_us''
                          in cseq
                               [whenp
                                  (pack_values \<noteq> None \<and>
                                   list_ex
                                     (\<lambda>value. \<not> flt_eq value (FFin 0))
                                     (opt_list pack_values))
                                  (report
                                     ''prepacked reuse captures must report raw_timings_us.pack as zero-valued repeats''),
                                whenp
                                  (is_dict event_timings)
                                  (cfor [''pack_h2d'', ''pack_kernel'', ''finite_pack_h2d'',
                                         ''finite_pack_kernel'', ''pack''] (\<lambda>phase.
                                     let values = vget event_timings phase in
                                     cwhen
                                       (all_of
                                          [cret (is_list values),
                                           cany_in
                                             (\<lambda>value.
                                              all_of
                                                [c_is_number value,
                                                 cret (\<not> flt_eq (num_float value) (FFin 0))])
                                             (elems_of values)])
                                       (report
                                          (''prepacked reuse captures must report gpu_event_timings_us.'' @
                                           phase @
                                           '' as zero''))))])])]
            else cseq
                   [whenp
                      (has_key data ''prepack_setup_us'' \<and> \<not> is_None prepack_setup)
                      (report ''per-repeat repack captures must use prepack_setup_us=null''),
                    whenp
                      (has_key data ''avg_prepack_setup_us'' \<and>
                       \<not> is_None avg_prepack_setup)
                      (report ''per-repeat repack captures must use avg_prepack_setup_us=null''),
                    whenp
                      (has_key data ''prepack_setup_breakdown_us'' \<and>
                       \<not> is_None prepack_setup_breakdown)
                      (report
                         ''per-repeat repack captures must use prepack_setup_breakdown_us=null'')]])"

definition validate_residue_current_timings :: "pydict \<Rightarrow> (string \<times> pyfloat list) list \<Rightarrow> unit chk" where
  "validate_residue_current_timings data raw_timings =
     cwhen
       (cnot (cnot (is_residue_current_chain_capture data)))
       (let values = map_of raw_timings ''crt_export'';
            avg_export = dget data ''avg_crt_export_us''
        in cseq
             [whenp
                (\<not> values \<noteq> None \<or>
                 list_ex (\<lambda>value. \<not> flt_eq value (FFin 0)) (opt_list values))
                (report
                   ''residue-current chain captures must report raw_timings_us.crt_export as zero-valued repeats''),
              cwhen
                (all_of
                   [c_is_number avg_export, cret (\<not> flt_eq (num_float avg_export) (FFin 0))])
                (report ''residue-current chain captures must report avg_crt_export_us=0'')])"

definition validate_bounded_oneshot_timings :: "pydict \<Rightarrow> (string \<times> pyfloat list) list \<Rightarrow> unit chk" where
  "validate_bounded_oneshot_timings data raw_timings =
     cwhen
       (cnot (cnot (is_public_oneshot_capture data)))
       (let gemm_values = map_of raw_timings ''rns_gemm'';
            e2e_values = map_of raw_timings ''end_to_end''
        in cseq
             [cfor [(''pack'', ''avg_pack_us''),
                    (''crt_export'', ''avg_crt_export_us''),
                    (''matrix_alloc'', ''avg_matrix_alloc_us'')] (\<lambda>(phase, field').
                let values = map_of raw_timings phase;
                    average_value = dget data field'
                in cseq
                     [whenp
                        (\<not> values \<noteq> None \<or>
                         list_ex (\<lambda>value. \<not> flt_eq value (FFin 0)) (opt_list values))
                        (report
                           (''public one-shot captures must report raw_timings_us.'' @
                            phase @
                            '' as zero-valued'')),
                      cwhen
                        (all_of
                           [c_is_number average_value,
                            cret (\<not> flt_eq (num_float average_value) (FFin 0))])
                        (report (''public one-shot captures must report '' @ field' @ ''=0''))]),
              whenp
                (gemm_values \<noteq> None \<and>
                 e2e_values \<noteq> None \<and>
                 \<not> py_eq
                   (PList (map PFloat (opt_list gemm_values)))
                   (PList (map PFloat (opt_list e2e_values))))
                (report
                   ''public one-shot captures must report raw_timings_us.rns_gemm equal to end_to_end'')])"

definition is_all_zero_direct_hip_adaptive_capture :: "pydict \<Rightarrow> bool chk" where
  "is_all_zero_direct_hip_adaptive_capture data =
     (let schedule = dget data ''schedule_metadata'' in
      if \<not> is_dict schedule
      then cret False
      else let tile_count = vget schedule ''tile_count'';
               zero_count = vget schedule ''zero_output_tile_count''
           in all_of
                [cret (eq_str (dget data ''backend_selected'') ''hip-direct''),
                 c_in (dget data ''semantics'') [''bounded_i64'', ''bounded_u64''],
                 cret
                   (is_True (vget schedule ''adaptive_execution_applied'') \<and>
                    is_int_value tile_count \<and>
                    0 < int_of tile_count \<and>
                    is_int_value zero_count \<and>
                    py_eq zero_count tile_count)])"

definition validate_all_zero_direct_hip_adaptive_timings :: "pydict \<Rightarrow> (string \<times> pyfloat list) list \<Rightarrow> unit chk" where
  "validate_all_zero_direct_hip_adaptive_timings data raw_timings =
     cwhen
       (cnot (cnot (is_all_zero_direct_hip_adaptive_capture data)))
       (let values = map_of raw_timings ''pack'';
            avg_pack = dget data ''avg_pack_us''
        in cseq
             [whenp
                (\<not> values \<noteq> None \<or>
                 list_ex (\<lambda>value. \<not> flt_eq value (FFin 0)) (opt_list values))
                (report
                   ''all-zero direct-HIP adaptive captures must report raw_timings_us.pack as zero-valued repeats''),
              cwhen
                (all_of [c_is_number avg_pack, cret (\<not> flt_eq (num_float avg_pack) (FFin 0))])
                (report ''all-zero direct-HIP adaptive captures must report avg_pack_us=0'')])"

definition validate_raw_timings :: "pydict \<Rightarrow> (string \<times> pyfloat list) list chk" where
  "validate_raw_timings data =
     cbind (require data ''raw_timings_us'' ''dict'') (\<lambda>raw.
     let repeats = dget data ''repeats'';
         result = []
     in if \<not> is_dict raw \<or> \<not> is_int_value repeats
        then cret result
        else cbind (cfold
                      (\<lambda>result phase.
                       let values = vget raw phase in
                       if \<not> is_list values
                       then cthen
                              (report (''raw_timings_us.'' @ phase @ '' must be an array''))
                            (cret result)
                       else let expected_length = if phase \<in> set REPEATED_TIMING_PHASES
                                                  then repeats
                                                  else PInt 1;
                                parsed = []
                            in cthen
                                 (whenp
                                    (\<not> py_eq
                                       (PInt (int (length (elems_of values))))
                                       expected_length)
                                    (report
                                       (''raw_timings_us.'' @
                                        phase @
                                        '' length '' @
                                        show_int (int (length (elems_of values))) @
                                        '' does not match expected '' @
                                        py_str expected_length)))
                               (cbind (cfold
                                         (\<lambda>parsed (index, value).
                                          cbind (if \<not> is_int_value value \<or> int_of value < 0
                                                 then cthen
                                                        (report
                                                           (''raw_timings_us.'' @
                                                            phase @
                                                            ''['' @
                                                            show_int index @
                                                            ''] must be a nonnegative integer''))
                                                      (cret parsed)
                                                 else cbind (c_float value) (\<lambda>appended.
                                                      cret (parsed @ [appended]))) (\<lambda>parsed.
                                          cret parsed))
                                         parsed
                                         (enum_ints (elems_of values))) (\<lambda>parsed.
                                cret (dict_set phase parsed result))))
                      result
                      (timing_phases data)) (\<lambda>result.
             cbind (cfold
                      (\<lambda>result phase.
                       if \<not> has_key (items_of raw) phase
                       then cret result
                       else let values = vget raw phase in
                            if \<not> is_list values
                            then cthen
                                   (report (''raw_timings_us.'' @ phase @ '' must be an array''))
                                 (cret result)
                            else let parsed = [] in
                                 cthen
                                   (whenp
                                      (\<not> py_eq (PInt (int (length (elems_of values)))) repeats)
                                      (report
                                         (''raw_timings_us.'' @
                                          phase @
                                          '' length '' @
                                          show_int (int (length (elems_of values))) @
                                          '' does not match expected '' @
                                          py_str repeats)))
                                 (cbind (cfold
                                           (\<lambda>parsed (index, value).
                                            cbind (if \<not> is_int_value value \<or>
                                                      int_of value < 0
                                                   then cthen
                                                          (report
                                                             (''raw_timings_us.'' @
                                                              phase @
                                                              ''['' @
                                                              show_int index @
                                                              ''] must be a nonnegative integer''))
                                                        (cret parsed)
                                                   else cbind (c_float value) (\<lambda>appended.
                                                        cret
                                                          (parsed @ [appended]))) (\<lambda>parsed.
                                            cret parsed))
                                           parsed
                                           (enum_ints (elems_of values))) (\<lambda>parsed.
                                  cret (dict_set phase parsed result))))
                      result
                      (sorted_set OPTIONAL_REPEATED_TIMING_PHASES)) (\<lambda>result.
             cret result)))"

definition validate_timing_summaries :: "pydict \<Rightarrow> (string \<times> pyfloat list) list \<Rightarrow> string \<Rightarrow> string list \<Rightarrow> unit chk" where
  "validate_timing_summaries data raw_values summary_key phases =
     cbind (require data summary_key ''dict'') (\<lambda>summary.
     whenp
       (\<not> (\<not> is_dict summary))
       (cfor phases (\<lambda>phase.
          let item = vget summary phase in
          if \<not> is_dict item
          then report (summary_key @ ''.'' @ phase @ '' must be an object'')
          else let values = map_of raw_values phase in
               cseq
                 [cfor [''avg'', ''median'', ''p95''] (\<lambda>key.
                    cwhen
                      (cnot (c_is_number (vget item key)))
                      (report
                         (summary_key @
                          ''.'' @
                          phase @
                          ''.'' @
                          key @
                          '' must be a finite number''))),
                  whenp
                    (\<not> values = None)
                    (let expected = [(''avg'', average_of (opt_list values)),
                                     (''median'', percentile (opt_list values) (rnd64 (1 / 2))),
                                     (''p95'', percentile (opt_list values) (rnd64 (19 / 20)))] in
                     cfor expected (\<lambda>(key, expected_value).
                       let actual = vget item key in
                       cwhen
                         (all_of
                            [c_is_number actual,
                             cret (\<not> close_to (num_float actual) expected_value)])
                         (report
                            (summary_key @
                             ''.'' @
                             phase @
                             ''.'' @
                             key @
                             ''='' @
                             py_str actual @
                             '' does not match raw '' @
                             key @
                             '' '' @
                             py_str (PFloat expected_value)))))])))"

definition validate_top_level_averages :: "pydict \<Rightarrow> (string \<times> pyfloat list) list \<Rightarrow> unit chk" where
  "validate_top_level_averages data raw_timings =
     (let fields' = [(''avg_planning_us'', ''planning''),
                     (''avg_matrix_alloc_us'', ''matrix_alloc''),
                     (''avg_pack_us'', ''pack''),
                     (''avg_rns_gemm_us'', ''rns_gemm''),
                     (''avg_crt_export_us'', ''crt_export''),
                     (''avg_end_to_end_us'', ''end_to_end'')] in
      let fields' = (if GLOBAL_BOUND_TIMING_PHASE \<in> set (timing_phases data)
                     then (''avg_global_bound_scan_us'', GLOBAL_BOUND_TIMING_PHASE) # fields'
                     else fields') in
      let fields' = insert_at 1 (''avg_scheduling_us'', ''scheduling'') fields' in
      let fields' = (if PER_TILE_TIMING_PHASE \<in> set (timing_phases data)
                     then insert_at 2 (''avg_tile_bound_scan_us'', PER_TILE_TIMING_PHASE) fields'
                     else fields') in
      let fields' = (if has_key raw_timings ''pack_a''
                     then fields' @ [(''avg_pack_a_us'', ''pack_a'')]
                     else fields') in
      let fields' = (if has_key raw_timings ''pack_b''
                     then fields' @ [(''avg_pack_b_us'', ''pack_b'')]
                     else fields') in
      cseq
        [cfor fields' (\<lambda>(field', phase).
           cbind (require data field' ''number'') (\<lambda>value.
           let values = map_of raw_timings phase in
           cwhen
             (all_of
                [c_is_number value,
                 cret
                   (values \<noteq> None \<and>
                    \<not> close_to (num_float value) (average_of (opt_list values)))])
             (report
                (field' @
                 ''='' @
                 py_str value @
                 '' does not match raw average '' @
                 py_str (PFloat (average_of (opt_list values))))))),
         cbind (require data ''schedule_query_us'' ''number'') (\<lambda>schedule_query.
         let scheduling_values = map_of raw_timings ''scheduling'';
             prefix = dget_or data ''selected_prefix'' (dget data ''prefix'');
             applicable = dget data ''per_modulus_gemm_estimate_applicable''
         in cseq
              [cwhen
                 (all_of
                    [c_is_number schedule_query,
                     cret
                       (scheduling_values \<noteq> None \<and>
                        \<not> close_to
                          (num_float schedule_query)
                          (average_of (opt_list scheduling_values)))])
                 (report
                    (''schedule_query_us='' @
                     py_str schedule_query @
                     '' does not match raw average '' @
                     py_str (PFloat (average_of (opt_list scheduling_values))))),
               whenp
                 (has_key raw_timings PER_TILE_TIMING_PHASE)
                 (cbind (require data ''tile_bound_scan_us'' ''number'') (\<lambda>tile_bound_scan.
                  let tile_bound_values = map_of raw_timings PER_TILE_TIMING_PHASE in
                  cwhen
                    (all_of
                       [c_is_number tile_bound_scan,
                        cret
                          (tile_bound_values \<noteq> None \<and>
                           \<not> close_to
                             (num_float tile_bound_scan)
                             (average_of (opt_list tile_bound_values)))])
                    (report
                       (''tile_bound_scan_us='' @
                        py_str tile_bound_scan @
                        '' does not match raw average '' @
                        py_str (PFloat (average_of (opt_list tile_bound_values))))))),
               whenp
                 (has_key raw_timings GLOBAL_BOUND_TIMING_PHASE)
                 (cbind (require
                           data
                           ''global_bound_scan_us''
                           ''number'') (\<lambda>global_bound_scan.
                  let global_bound_values = map_of raw_timings GLOBAL_BOUND_TIMING_PHASE in
                  cwhen
                    (all_of
                       [c_is_number global_bound_scan,
                        cret
                          (global_bound_values \<noteq> None \<and>
                           \<not> close_to
                             (num_float global_bound_scan)
                             (average_of (opt_list global_bound_values)))])
                    (report
                       (''global_bound_scan_us='' @
                        py_str global_bound_scan @
                        '' does not match raw average '' @
                        py_str (PFloat (average_of (opt_list global_bound_values))))))),
               cbind (require
                        data
                        ''avg_per_modulus_gemm_estimate_us''
                        ''number'') (\<lambda>per_modulus.
               let gemm_values = map_of raw_timings ''rns_gemm'' in
               cwhen
                 (all_of
                    [c_is_number per_modulus,
                     cret
                       (is_int_value prefix \<and>
                        gemm_values \<noteq> None \<and>
                        \<not> is_False applicable)])
                 (cbind (if 0 < int_of prefix
                         then cbind
                                (c_float prefix)
                                (\<lambda>x.
                                 c_fdiv (average_of (opt_list gemm_values)) x)
                         else cret (average_of (opt_list gemm_values))) (\<lambda>expected.
                  whenp
                    (\<not> close_to (num_float per_modulus) expected)
                    (report
                       (''avg_per_modulus_gemm_estimate_us='' @
                        py_str per_modulus @
                        '' does not match expected '' @
                        py_str (PFloat expected))))))])])"

definition gpu_event_selected_prefix_count :: "pydict \<Rightarrow> int chk" where
  "gpu_event_selected_prefix_count data =
     (let semantics = dget data ''semantics'' in
      cif (c_in semantics [''finite_ring_u8'', ''finite_field_u8'', ''wrap_u64_mod_2_64''])
        (cret 0)
        (cret
           (let schedule = dget data ''schedule_metadata'' in
            if is_dict schedule
            then let max_selected = vget schedule ''max_selected_prefix'' in
                 if is_int_value max_selected \<and> 0 < int_of max_selected
                 then int_of max_selected
                 else let prefix = dget data ''prefix'' in
                      if is_int_value prefix \<and> 0 < int_of prefix then int_of prefix else 0
            else let prefix = dget data ''prefix'' in
                 if is_int_value prefix \<and> 0 < int_of prefix then int_of prefix else 0)))"

definition uses_rocwmma_prepacked_b_cache :: "pydict \<Rightarrow> bool" where
  "uses_rocwmma_prepacked_b_cache data \<longleftrightarrow>
     (if eq_str (dget data ''prepack_reuse_strategy'') ''rocwmma_reusable_b_cache''
      then True
      else let metadata' = dget data ''timing_metadata'' in
           is_dict metadata' \<and>
           eq_str (vget metadata' ''prepack_reuse_strategy'') ''rocwmma_reusable_b_cache'')"

definition expected_vector_gpu_event_phases :: "pydict \<Rightarrow> string list" where
  "expected_vector_gpu_event_phases data =
     vector_gpu_event_phases (dget data ''semantics'') (dget data ''selected_kernel'')"

definition expected_builtin_event_phases :: "pydict \<Rightarrow> string list chk" where
  "expected_builtin_event_phases data =
     amdgpu_builtin_deep_gpu_event_phases (dget data ''selected_kernel'') (dget data ''semantics'')"

definition expected_accelerator_deep_gpu_event_phases :: "pydict \<Rightarrow> string list option chk" where
  "expected_accelerator_deep_gpu_event_phases data =
     (let backend = dget data ''backend_selected'' in
      cif (any_of
             [cnot (c_in backend [''ck'', ''rocwmma'', ''amdgpu-builtins'']),
              cret (is_wrap64_rocwmma_candidate data)])
        (cret None)
        (let semantics = dget data ''semantics'';
             selected_kernel' = dget data ''selected_kernel'';
             sparse_amdgpu_capture = eq_str backend ''amdgpu-builtins'' \<and>
                                     is_str selected_kernel' \<and>
                                     contains ''sparse_a'' (str_of selected_kernel');
             use_prepacked_b = eq_str backend ''rocwmma'' \<and>
                               uses_rocwmma_prepacked_b_cache data;
             gemm_group = if use_prepacked_b
                          then ''rns_gemm_prepacked_b_kernel_group''
                          else ''rns_gemm_kernel_group''
         in cif (c_in semantics [''finite_ring_u8'', ''finite_field_u8''])
              (let phases = (if sparse_amdgpu_capture
                             then [''sparse_a_values_h2d'', ''sparse_a_indices_h2d'',
                                   ''finite_pack_h2d'', ''finite_pack_kernel'', ''pack'']
                             else [''finite_pack_h2d'', ''finite_pack_kernel'', ''pack'']) in
               if \<not> eq_str backend ''amdgpu-builtins''
               then cret
                      (let phases = phases @
                                    [''rns_gemm_kernel_group'', ''rns_gemm'',
                                     ''finite_export_kernel'', ''finite_export_d2h'', ''crt_export''] in
                       Some phases)
               else let phases = (if sparse_amdgpu_capture \<and>
                                     str_of semantics \<notin>
                                     set [''finite_ring_u8'', ''finite_field_u8'']
                                  then [''sparse_a_values_h2d'', ''sparse_a_indices_h2d''] @ phases
                                  else phases) in
                    cbind (gpu_event_selected_prefix_count data) (\<lambda>prefix_count.
                    let schedule = dget data ''schedule_metadata'';
                        zero_output_tiles = is_dict schedule \<and>
                                            is_int_value
                                              (vget schedule ''zero_output_tile_count'') \<and>
                                            0 < int_of (vget schedule ''zero_output_tile_count'')
                    in cbind (if eq_str backend ''ck''
                              then cret
                                     (let phases = phases @ [gemm_group] in
                                      phases @
                                      ck_deep_gpu_event_phases prefix_count zero_output_tiles)
                              else cbind (if eq_str backend ''rocwmma''
                                          then cret
                                                 (let phases = phases @ [gemm_group] in
                                                  phases @
                                                  rocwmma_deep_gpu_event_phases
                                                    prefix_count
                                                    use_prepacked_b
                                                    zero_output_tiles)
                                          else cbind (expected_builtin_event_phases
                                                        data) (\<lambda>extension.
                                               cret (phases @ extension))) (\<lambda>phases.
                                   cret phases)) (\<lambda>phases.
                       let phases = phases @ [''rns_gemm''] in
                       cif (is_residue_current_chain_capture data)
                         (cret (Some phases))
                         (cret
                            (let phases = (if str_of semantics \<in>
                                              set [''finite_ring_u8'', ''finite_field_u8'']
                                           then phases @
                                                [''finite_export_kernel'', ''finite_export_d2h'',
                                                 ''crt_export'']
                                           else if str_of semantics \<in>
                                                   set [''exact_wide_signed'',
                                                        ''exact_wide_unsigned'']
                                           then phases @
                                                [''exact_wide_export_status_memset'',
                                                 ''exact_wide_export_kernel'',
                                                 ''exact_wide_export_status_d2h'',
                                                 ''exact_wide_export_d2h'', ''crt_export'']
                                           else phases @
                                                [''crt_export_status_memset'',
                                                 ''crt_export_kernel'', ''crt_export_status_d2h'',
                                                 ''crt_export_d2h'', ''crt_export'']) in
                             Some phases)))))
              (cbind (cif (c_in semantics [''exact_wide_signed'', ''exact_wide_unsigned''])
                        (cret [''pack_h2d'', ''pack_kernel'', ''pack''])
                        (cret [''pack_h2d'', ''pack_kernel'', ''pack''])) (\<lambda>phases.
               cbind (cif (all_of
                             [cret sparse_amdgpu_capture,
                              cnot (c_in semantics [''finite_ring_u8'', ''finite_field_u8''])])
                        (cret ([''sparse_a_values_h2d'', ''sparse_a_indices_h2d''] @ phases))
                        (cret phases)) (\<lambda>phases.
               cbind (gpu_event_selected_prefix_count data) (\<lambda>prefix_count.
               let schedule = dget data ''schedule_metadata'';
                   zero_output_tiles = is_dict schedule \<and>
                                       is_int_value
                                         (vget schedule ''zero_output_tile_count'') \<and>
                                       0 < int_of (vget schedule ''zero_output_tile_count'')
               in cbind (if eq_str backend ''ck''
                         then cret
                                (let phases = phases @ [gemm_group] in
                                 phases @ ck_deep_gpu_event_phases prefix_count zero_output_tiles)
                         else cbind (if eq_str backend ''rocwmma''
                                     then cret
                                            (let phases = phases @ [gemm_group] in
                                             phases @
                                             rocwmma_deep_gpu_event_phases
                                               prefix_count
                                               use_prepacked_b
                                               zero_output_tiles)
                                     else cbind (expected_builtin_event_phases
                                                   data) (\<lambda>extension.
                                          cret (phases @ extension))) (\<lambda>phases.
                              cret phases)) (\<lambda>phases.
                  let phases = phases @ [''rns_gemm''] in
                  cif (is_residue_current_chain_capture data)
                    (cret (Some phases))
                    (cbind (cif (c_in semantics [''finite_ring_u8'', ''finite_field_u8''])
                              (cret
                                 (phases @
                                  [''finite_export_kernel'', ''finite_export_d2h'', ''crt_export'']))
                              (cbind (cif (c_in
                                             semantics
                                             [''exact_wide_signed'', ''exact_wide_unsigned''])
                                        (cret
                                           (phases @
                                            [''exact_wide_export_status_memset'',
                                             ''exact_wide_export_kernel'',
                                             ''exact_wide_export_status_d2h'',
                                             ''exact_wide_export_d2h'', ''crt_export'']))
                                        (cret
                                           (phases @
                                            [''crt_export_status_memset'', ''crt_export_kernel'',
                                             ''crt_export_status_d2h'', ''crt_export_d2h'',
                                             ''crt_export'']))) (\<lambda>phases.
                               cret phases))) (\<lambda>phases.
                     cret (Some phases))))))))))"

end
