(* ===== verification/Schema_Events.thy ===== *)
theory Schema_Events
  imports Schema_Timing
begin

text \<open>
  \<open>tools/benchmark_schema/gpu_event_validation.py\<close>: the GPU event phases of a capture, their timings and
  the status checks among them.
\<close>

definition gpu_event_phases :: "pydict \<Rightarrow> pydict \<Rightarrow> string list chk" where
  "gpu_event_phases data metadata' =
     (let phase_order = dget metadata' ''gpu_event_phase_order'' in
      if \<not> is_list phase_order \<or>
         \<not> list_all (\<lambda>item. is_str item) (elems_of phase_order)
      then cthen
             (report
                ''timing_metadata.gpu_event_phase_order must be an array of strings when events are available'')
           (cret [])
      else if int (length (remdups (strs_of phase_order))) \<noteq>
              int (length (elems_of phase_order))
      then cthen
             (report ''timing_metadata.gpu_event_phase_order must not contain duplicates'')
           (cret [])
      else cret (strs_of phase_order))"

definition finite_oneshot_event_phases :: "pydict \<Rightarrow> string list \<Rightarrow> unit chk" where
  "finite_oneshot_event_phases data phases =
     (let expected = DIRECT_HIP_FINITE_ONESHOT_GPU_EVENT_PHASES in
      whenp
        (phases \<noteq> expected)
        (let missing = filter (\<lambda>phase. phase \<notin> set phases) expected;
             extra = filter (\<lambda>phase. phase \<notin> set expected) phases
         in cseq
              [whenp
                 (missing \<noteq> [])
                 (report
                    (''direct-HIP finite one-shot GPU event phase set is incomplete; missing '' @
                     join_with '', '' missing)),
               whenp
                 (extra \<noteq> [])
                 (report
                    (''direct-HIP finite one-shot GPU event phase set contains undeclared phases: '' @
                     join_with '', '' extra)),
               whenp
                 (\<not> missing \<noteq> [] \<and> \<not> extra \<noteq> [])
                 (report
                    ''direct-HIP finite one-shot GPU event phase order must match the public API operation order'')]))"

definition bounded_oneshot_event_phases :: "pydict \<Rightarrow> string list \<Rightarrow> unit chk" where
  "bounded_oneshot_event_phases data phases =
     (let expected = DIRECT_HIP_ONESHOT_GPU_EVENT_PHASES in
      whenp
        (phases \<noteq> expected)
        (let missing = filter (\<lambda>phase. phase \<notin> set phases) expected;
             extra = filter (\<lambda>phase. phase \<notin> set expected) phases
         in cseq
              [whenp
                 (missing \<noteq> [])
                 (report
                    (''direct-HIP one-shot GPU event phase set is incomplete; missing '' @
                     join_with '', '' missing)),
               whenp
                 (extra \<noteq> [])
                 (report
                    (''direct-HIP one-shot GPU event phase set contains undeclared phases: '' @
                     join_with '', '' extra)),
               whenp
                 (\<not> missing \<noteq> [] \<and> \<not> extra \<noteq> [])
                 (report
                    ''direct-HIP one-shot GPU event phase order must match the public API operation order'')]))"

definition resident_fallback_event_phases :: "pydict \<Rightarrow> string list \<Rightarrow> unit chk" where
  "resident_fallback_event_phases data phases =
     (let expected = DIRECT_HIP_ONESHOT_RESIDENT_FALLBACK_GPU_EVENT_PHASES in
      whenp
        (phases \<noteq> expected)
        (let missing = filter (\<lambda>phase. phase \<notin> set phases) expected;
             extra = filter (\<lambda>phase. phase \<notin> set expected) phases
         in cseq
              [whenp
                 (missing \<noteq> [])
                 (report
                    (''direct-HIP one-shot resident fallback GPU event phase set is incomplete; missing '' @
                     join_with '', '' missing)),
               whenp
                 (extra \<noteq> [])
                 (report
                    (''direct-HIP one-shot resident fallback GPU event phase set contains undeclared phases: '' @
                     join_with '', '' extra)),
               whenp
                 (\<not> missing \<noteq> [] \<and> \<not> extra \<noteq> [])
                 (report
                    ''direct-HIP one-shot resident fallback GPU event phase order must match the resident pack/GEMM/export order'')]))"

definition channel_fusion_event_phases :: "pydict \<Rightarrow> string list \<Rightarrow> unit chk" where
  "channel_fusion_event_phases data phases =
     (let expected = [''bounded_uniform_small_i8_a_h2d'', ''bounded_uniform_small_i8_b_h2d'',
                      ''pack'', ''bounded_uniform_small_i8_ab_transient_gemm_kernel_group'',
                      ''rns_gemm'', ''crt_export_status_memset'', ''crt_export_kernel'',
                      ''crt_export_status_d2h'', ''crt_export_d2h'', ''crt_export''] in
      whenp
        (phases \<noteq> expected)
        (let missing = filter (\<lambda>phase. phase \<notin> set phases) expected;
             extra = filter (\<lambda>phase. phase \<notin> set expected) phases
         in cseq
              [whenp
                 (missing \<noteq> [])
                 (report
                    (''direct-HIP residue-channel fusion GPU event phase set is incomplete; missing '' @
                     join_with '', '' missing)),
               whenp
                 (extra \<noteq> [])
                 (report
                    (''direct-HIP residue-channel fusion GPU event phase set contains undeclared phases: '' @
                     join_with '', '' extra)),
               whenp
                 (\<not> missing \<noteq> [] \<and> \<not> extra \<noteq> [])
                 (report
                    ''direct-HIP residue-channel fusion GPU event phase order must match the operation order'')]))"

definition uniform_transient_event_phases :: "pydict \<Rightarrow> string list \<Rightarrow> unit chk" where
  "uniform_transient_event_phases data phases =
     (let expected = [''bounded_uniform_small_i8_a_h2d'', ''bounded_uniform_small_i8_b_h2d'',
                      ''pack'', ''bounded_uniform_small_i8_ab_transient_gemm_kernel_group'',
                      ''rns_gemm'', ''crt_export_status_memset'', ''crt_export_kernel'',
                      ''crt_export_status_d2h'', ''crt_export_d2h'', ''crt_export''] in
      whenp
        (phases \<noteq> expected)
        (let missing = filter (\<lambda>phase. phase \<notin> set phases) expected;
             extra = filter (\<lambda>phase. phase \<notin> set expected) phases
         in cseq
              [whenp
                 (missing \<noteq> [])
                 (report
                    (''direct-HIP bounded uniform-small transient GPU event phase set is incomplete; missing '' @
                     join_with '', '' missing)),
               whenp
                 (extra \<noteq> [])
                 (report
                    (''direct-HIP bounded uniform-small transient GPU event phase set contains undeclared phases: '' @
                     join_with '', '' extra)),
               whenp
                 (\<not> missing \<noteq> [] \<and> \<not> extra \<noteq> [])
                 (report
                    ''direct-HIP bounded uniform-small transient GPU event phase order must match the operation order'')]))"

definition overlap_event_phases :: "pydict \<Rightarrow> string list \<Rightarrow> unit chk" where
  "overlap_event_phases data phases =
     (let expected = [''pack_h2d'', ''pack_kernel'', ''pack'', ''rns_gemm_kernel_group'',
                      ''rns_gemm'', ''crt_export_status_memset'', ''crt_export_kernel'',
                      ''crt_export_status_d2h'', ''crt_export_d2h'', ''crt_export''] in
      whenp
        (phases \<noteq> expected)
        (let missing = filter (\<lambda>phase. phase \<notin> set phases) expected;
             extra = filter (\<lambda>phase. phase \<notin> set expected) phases
         in cseq
              [whenp
                 (missing \<noteq> [])
                 (report
                    (''direct-HIP streaming-overlap GPU event phase set is incomplete; missing '' @
                     join_with '', '' missing)),
               whenp
                 (extra \<noteq> [])
                 (report
                    (''direct-HIP streaming-overlap GPU event phase set contains undeclared phases: '' @
                     join_with '', '' extra)),
               whenp
                 (\<not> missing \<noteq> [] \<and> \<not> extra \<noteq> [])
                 (report
                    ''direct-HIP streaming-overlap GPU event phase order must match the pipeline stage order'')]))"

definition native_a_event_phases :: "pydict \<Rightarrow> string list \<Rightarrow> unit chk" where
  "native_a_event_phases data phases =
     (let gemm_event = if is_direct_hip_bounded_native_a_reuse_b_uniform_small data
                       then ''bounded_uniform_small_i8_ab_colpair_reuse_b_gemm_kernel_group''
                       else ''bounded_native_a_reuse_b_gemm_kernel_group'' in
      cbind (cif (is_direct_hip_bounded_native_a_reuse_b_large_colpair data)
               (cret ''bounded_native_a_colpair_reuse_b_gemm_kernel_group'')
               (cret gemm_event)) (\<lambda>gemm_event.
      let expected = [''pack_h2d'', ''pack_kernel'', ''pack'', gemm_event, ''rns_gemm'',
                      ''crt_export_status_memset'', ''crt_export_kernel'',
                      ''crt_export_status_d2h'', ''crt_export_d2h'', ''crt_export''] in
      whenp
        (phases \<noteq> expected)
        (let missing = filter (\<lambda>phase. phase \<notin> set phases) expected;
             extra = filter (\<lambda>phase. phase \<notin> set expected) phases
         in cseq
              [whenp
                 (missing \<noteq> [])
                 (report
                    (''direct-HIP bounded native-A reuse-B GPU event phase set is incomplete; missing '' @
                     join_with '', '' missing)),
               whenp
                 (extra \<noteq> [])
                 (report
                    (''direct-HIP bounded native-A reuse-B GPU event phase set contains undeclared phases: '' @
                     join_with '', '' extra)),
               whenp
                 (\<not> missing \<noteq> [] \<and> \<not> extra \<noteq> [])
                 (report
                    ''direct-HIP bounded native-A reuse-B GPU event phase order must match the operation order'')])))"

definition uniform_reuse_a_event_phases :: "pydict \<Rightarrow> string list \<Rightarrow> unit chk" where
  "uniform_reuse_a_event_phases data phases =
     (let expected = [''pack_h2d'', ''pack_kernel'', ''pack'',
                      ''bounded_uniform_small_i8_ab_colpair_reuse_a_gemm_kernel_group'',
                      ''rns_gemm'', ''crt_export_status_memset'', ''crt_export_kernel'',
                      ''crt_export_status_d2h'', ''crt_export_d2h'', ''crt_export''] in
      whenp
        (phases \<noteq> expected)
        (let missing = filter (\<lambda>phase. phase \<notin> set phases) expected;
             extra = filter (\<lambda>phase. phase \<notin> set expected) phases
         in cseq
              [whenp
                 (missing \<noteq> [])
                 (report
                    (''direct-HIP bounded uniform-small reuse-A GPU event phase set is incomplete; missing '' @
                     join_with '', '' missing)),
               whenp
                 (extra \<noteq> [])
                 (report
                    (''direct-HIP bounded uniform-small reuse-A GPU event phase set contains undeclared phases: '' @
                     join_with '', '' extra)),
               whenp
                 (\<not> missing \<noteq> [] \<and> \<not> extra \<noteq> [])
                 (report
                    ''direct-HIP bounded uniform-small reuse-A GPU event phase order must match the operation order'')]))"

definition native_b_event_phases :: "pydict \<Rightarrow> string list \<Rightarrow> unit chk" where
  "native_b_event_phases data phases =
     (let expected = [''pack_h2d'', ''pack_kernel'', ''pack'',
                      ''bounded_native_b_colpair_reuse_a_gemm_kernel_group'', ''rns_gemm'',
                      ''crt_export_status_memset'', ''crt_export_kernel'',
                      ''crt_export_status_d2h'', ''crt_export_d2h'', ''crt_export''] in
      whenp
        (phases \<noteq> expected)
        (let missing = filter (\<lambda>phase. phase \<notin> set phases) expected;
             extra = filter (\<lambda>phase. phase \<notin> set expected) phases
         in cseq
              [whenp
                 (missing \<noteq> [])
                 (report
                    (''direct-HIP bounded native-B reuse-A GPU event phase set is incomplete; missing '' @
                     join_with '', '' missing)),
               whenp
                 (extra \<noteq> [])
                 (report
                    (''direct-HIP bounded native-B reuse-A GPU event phase set contains undeclared phases: '' @
                     join_with '', '' extra)),
               whenp
                 (\<not> missing \<noteq> [] \<and> \<not> extra \<noteq> [])
                 (report
                    ''direct-HIP bounded native-B reuse-A GPU event phase order must match the operation order'')]))"

definition gemv_n1_event_phases :: "pydict \<Rightarrow> string list \<Rightarrow> unit chk" where
  "gemv_n1_event_phases data phases =
     (let expected = [''pack_h2d'', ''pack_kernel'', ''pack'', ''rns_gemv_n1_kernel_group'',
                      ''rns_gemm'', ''crt_export_status_memset'', ''crt_export_kernel'',
                      ''crt_export_status_d2h'', ''crt_export_d2h'', ''crt_export''] in
      whenp
        (phases \<noteq> expected)
        (let missing = filter (\<lambda>phase. phase \<notin> set phases) expected;
             extra = filter (\<lambda>phase. phase \<notin> set expected) phases
         in cseq
              [whenp
                 (missing \<noteq> [])
                 (report
                    (''direct-HIP skinny GEMV N=1 GPU event phase set is incomplete; missing '' @
                     join_with '', '' missing)),
               whenp
                 (extra \<noteq> [])
                 (report
                    (''direct-HIP skinny GEMV N=1 GPU event phase set contains undeclared phases: '' @
                     join_with '', '' extra)),
               whenp
                 (\<not> missing \<noteq> [] \<and> \<not> extra \<noteq> [])
                 (report
                    ''direct-HIP skinny GEMV N=1 GPU event phase order must match the operation order'')]))"

definition gemv_small_n_event_phases :: "pydict \<Rightarrow> string list \<Rightarrow> unit chk" where
  "gemv_small_n_event_phases data phases =
     (let expected = [''pack_h2d'', ''pack_kernel'', ''pack'', ''rns_gemv_small_n_kernel_group'',
                      ''rns_gemm'', ''crt_export_status_memset'', ''crt_export_kernel'',
                      ''crt_export_status_d2h'', ''crt_export_d2h'', ''crt_export''] in
      whenp
        (phases \<noteq> expected)
        (let missing = filter (\<lambda>phase. phase \<notin> set phases) expected;
             extra = filter (\<lambda>phase. phase \<notin> set expected) phases
         in cseq
              [whenp
                 (missing \<noteq> [])
                 (report
                    (''direct-HIP skinny GEMV small-N GPU event phase set is incomplete; missing '' @
                     join_with '', '' missing)),
               whenp
                 (extra \<noteq> [])
                 (report
                    (''direct-HIP skinny GEMV small-N GPU event phase set contains undeclared phases: '' @
                     join_with '', '' extra)),
               whenp
                 (\<not> missing \<noteq> [] \<and> \<not> extra \<noteq> [])
                 (report
                    ''direct-HIP skinny GEMV small-N GPU event phase order must match the operation order'')]))"

definition native_bridge_event_phases :: "pydict \<Rightarrow> string list \<Rightarrow> unit chk" where
  "native_bridge_event_phases data phases =
     (let conversion_event = if eq_str (dget data ''semantics'') ''bounded_i64''
                             then ''native_i64_to_rns_kernel''
                             else ''native_u64_to_rns_kernel'';
          expected = [''pack_h2d'', ''pack_kernel'', ''pack'', conversion_event,
                      ''rns_gemm_kernel_group'', ''rns_gemm'', ''crt_export_status_memset'',
                      ''crt_export_kernel'', ''crt_export_status_d2h'', ''crt_export_d2h'',
                      ''crt_export'']
      in whenp
           (phases \<noteq> expected)
           (let missing = filter (\<lambda>phase. phase \<notin> set phases) expected;
                extra = filter (\<lambda>phase. phase \<notin> set expected) phases
            in cseq
                 [whenp
                    (missing \<noteq> [])
                    (report
                       (''direct-HIP native-to-RNS bridge GPU event phase set is incomplete; missing '' @
                        join_with '', '' missing)),
                  whenp
                    (extra \<noteq> [])
                    (report
                       (''direct-HIP native-to-RNS bridge GPU event phase set contains undeclared phases: '' @
                        join_with '', '' extra)),
                  whenp
                    (\<not> missing \<noteq> [] \<and> \<not> extra \<noteq> [])
                    (report
                       ''direct-HIP native-to-RNS bridge GPU event phase order must match the operation order'')]))"

definition vector_chain_event_phases :: "pydict \<Rightarrow> string list \<Rightarrow> unit chk" where
  "vector_chain_event_phases data phases =
     (let conversion_event = if eq_str (dget data ''semantics'') ''bounded_i64''
                             then ''native_i64_to_rns_kernel''
                             else ''native_u64_to_rns_kernel'';
          signed' = eq_str (dget data ''semantics'') ''bounded_i64''
      in cbind (cif (all_of
                       [cret (py_eq (dget data ''n'') (PInt 1)),
                        c_le (PInt 4096) (dget_or data ''k'' (PInt 0))])
                  (cret
                     (if signed'
                      then ''vector_alu_i64_gemv_n1_kernel''
                      else ''vector_alu_u64_gemv_n1_kernel''))
                  (cbind (cif (all_of
                                 [cret
                                    (isinstance_int (dget data ''n'') \<and>
                                     (1 < int_of (dget data ''n'') \<and>
                                      int_of (dget data ''n'') \<le> 8)),
                                  c_le (PInt 512) (dget_or data ''k'' (PInt 0))])
                            (cret
                               (if signed'
                                then ''vector_alu_i64_gemv_small_n_kernel''
                                else ''vector_alu_u64_gemv_small_n_kernel''))
                            (cret
                               (if signed'
                                then ''vector_alu_i64_kernel''
                                else ''vector_alu_u64_kernel''))) (\<lambda>vector_kernel.
                   cret vector_kernel))) (\<lambda>vector_kernel.
         cbind (cif (is_direct_hip_vector_to_rns_host_repack_control_capture data)
                  (cret
                     [''vector_alu_pack_a_h2d'', ''vector_alu_pack_b_h2d'', ''pack_h2d'',
                      ''pack_kernel'', ''pack'', ''vector_alu_status_memset'', vector_kernel,
                      ''vector_alu_status_d2h'', ''vector_alu_output_d2h'',
                      ''vector_to_rns_host_repack_a'', ''rns_gemm_kernel_group'', ''rns_gemm'',
                      ''crt_export_status_memset'', ''crt_export_kernel'',
                      ''crt_export_status_d2h'', ''crt_export_d2h'', ''crt_export''])
                  (cret
                     [''vector_alu_pack_a_h2d'', ''vector_alu_pack_b_h2d'', ''pack_h2d'',
                      ''pack_kernel'', ''pack'', ''vector_alu_status_memset'', vector_kernel,
                      ''vector_alu_status_d2h'', conversion_event, ''rns_gemm_kernel_group'',
                      ''rns_gemm'', ''crt_export_status_memset'', ''crt_export_kernel'',
                      ''crt_export_status_d2h'', ''crt_export_d2h'', ''crt_export''])) (\<lambda>expected.
         whenp
           (phases \<noteq> expected)
           (let missing = filter (\<lambda>phase. phase \<notin> set phases) expected;
                extra = filter (\<lambda>phase. phase \<notin> set expected) phases
            in cseq
                 [whenp
                    (missing \<noteq> [])
                    (report
                       (''direct-HIP vector-to-RNS chain GPU event phase set is incomplete; missing '' @
                        join_with '', '' missing)),
                  whenp
                    (extra \<noteq> [])
                    (report
                       (''direct-HIP vector-to-RNS chain GPU event phase set contains undeclared phases: '' @
                        join_with '', '' extra)),
                  whenp
                    (\<not> missing \<noteq> [] \<and> \<not> extra \<noteq> [])
                    (report
                       ''direct-HIP vector-to-RNS chain GPU event phase order must match the operation order'')]))))"

definition wrap64_event_phases :: "pydict \<Rightarrow> string list \<Rightarrow> unit chk" where
  "wrap64_event_phases data phases =
     (let expected = [''pack_h2d'',
                      ''pack_kernel'',
                      ''pack'',
                      wrap64_hip_expected_gemm_event_label (dget data ''selected_kernel''),
                      ''rns_gemm'',
                      ''wrap64_export_kernel'',
                      ''wrap64_export_d2h'',
                      ''crt_export''] in
      whenp
        (phases \<noteq> expected)
        (let missing = filter (\<lambda>phase. phase \<notin> set phases) expected;
             extra = filter (\<lambda>phase. phase \<notin> set expected) phases
         in cseq
              [whenp
                 (missing \<noteq> [])
                 (report
                    (''direct-HIP wrap64 GPU event phase set is incomplete; missing '' @
                     join_with '', '' missing)),
               whenp
                 (extra \<noteq> [])
                 (report
                    (''direct-HIP wrap64 GPU event phase set contains undeclared phases: '' @
                     join_with '', '' extra)),
               whenp
                 (\<not> missing \<noteq> [] \<and> \<not> extra \<noteq> [])
                 (report
                    ''direct-HIP wrap64 GPU event phase order must match the operation order'')]))"

definition vector_event_phases :: "pydict \<Rightarrow> string list \<Rightarrow> unit chk" where
  "vector_event_phases data phases =
     (let expected = expected_vector_gpu_event_phases data in
      whenp
        (phases \<noteq> expected)
        (let missing = filter (\<lambda>phase. phase \<notin> set phases) expected;
             extra = filter (\<lambda>phase. phase \<notin> set expected) phases
         in cseq
              [whenp
                 (missing \<noteq> [])
                 (report
                    (''vector-ALU GPU event phase set is incomplete; missing '' @
                     join_with '', '' missing)),
               whenp
                 (extra \<noteq> [])
                 (report
                    (''vector-ALU GPU event phase set contains undeclared phases: '' @
                     join_with '', '' extra)),
               whenp
                 (\<not> missing \<noteq> [] \<and> \<not> extra \<noteq> [])
                 (report
                    ''vector-ALU GPU event phase order must match the native int64 operation order'')]))"

definition validate_expected_gpu_event_phases :: "pydict \<Rightarrow> pyval \<Rightarrow> string list \<Rightarrow> unit chk" where
  "validate_expected_gpu_event_phases data scope phases =
     (let backend = dget data ''backend_selected'' in
      cif (all_of [is_finite_oneshot_capture data, cret (eq_str backend ''hip-direct'')])
        (finite_oneshot_event_phases data phases)
      (cif (all_of
              [is_direct_hip_bounded_native_input_oneshot_capture data,
               cret (eq_str backend ''hip-direct'')])
        (bounded_oneshot_event_phases data phases)
      (cif (all_of
              [is_direct_hip_bounded_resident_fallback_oneshot_capture data,
               cret (eq_str backend ''hip-direct'')])
        (resident_fallback_event_phases data phases)
      (cif (is_direct_hip_bounded_residue_channel_fusion_capture data)
        (channel_fusion_event_phases data phases)
      (cif (is_direct_hip_bounded_uniform_small_transient_capture data)
        (uniform_transient_event_phases data phases)
        (if is_streaming_overlap_capture data
         then overlap_event_phases data phases
         else cif (is_direct_hip_bounded_native_a_reuse_b_capture data)
                (native_a_event_phases data phases)
              (cif (is_direct_hip_bounded_uniform_small_reuse_a_capture data)
                (uniform_reuse_a_event_phases data phases)
              (cif (is_direct_hip_bounded_native_b_reuse_a_large_colpair_capture data)
                (native_b_event_phases data phases)
              (cif (is_direct_hip_bounded_skinny_gemv_n1_capture data)
                (gemv_n1_event_phases data phases)
              (cif (is_direct_hip_bounded_skinny_gemv_small_n_capture data)
                (gemv_small_n_event_phases data phases)
              (cif (is_direct_hip_native_to_rns_bridge_capture data)
                (native_bridge_event_phases data phases)
              (cif (is_direct_hip_vector_to_rns_chain_capture data)
                (vector_chain_event_phases data phases)
                (if eq_str (dget data ''semantics'') ''wrap_u64_mod_2_64'' \<and>
                    eq_str backend ''hip-direct''
                 then wrap64_event_phases data phases
                 else if eq_str backend ''hip-vector-alu-int64''
                 then vector_event_phases data phases
                 else cwhen
                        (cnot
                           (any_of
                              [cnot (c_in backend [''ck'', ''rocwmma'', ''amdgpu-builtins'']),
                               cret (is_wrap64_rocwmma_candidate data)]))
                        (let deep_labels = filter
                                             (\<lambda>phase.
                                              is_deep_accelerator_gpu_event_label phase)
                                             phases in
                         if eq_str scope OLD_ACCELERATOR_GPU_EVENT_SCOPE
                         then whenp
                                (deep_labels \<noteq> [])
                                (report
                                   (''deep accelerator GPU event labels require timing_metadata.gpu_event_timing_source_scope='' @
                                    DEEP_ACCELERATOR_GPU_EVENT_SCOPE))
                         else whenp
                                (\<not> (\<not> eq_str scope DEEP_ACCELERATOR_GPU_EVENT_SCOPE))
                                (cbind (expected_accelerator_deep_gpu_event_phases
                                          data) (\<lambda>expected.
                                 whenp
                                   (\<not> (expected = None \<or> phases = opt_list expected))
                                   (let missing = filter
                                                    (\<lambda>phase. phase \<notin> set phases)
                                                    (opt_list expected);
                                        extra = filter
                                                  (\<lambda>phase.
                                                   phase \<notin> set (opt_list expected))
                                                  phases
                                    in cseq
                                         [whenp
                                            (missing \<noteq> [])
                                            (report
                                               (''deep accelerator GPU event phase set is incomplete; missing '' @
                                                join_with '', '' missing)),
                                          whenp
                                            (extra \<noteq> [])
                                            (report
                                               (''deep accelerator GPU event phase set contains undeclared phases: '' @
                                                join_with '', '' extra)),
                                          whenp
                                            (\<not> missing \<noteq> [] \<and>
                                             \<not> extra \<noteq> [])
                                            (report
                                               ''deep accelerator GPU event phase order must match the selected backend operation order'')])))))))))))))))))"

definition expected_status_event_labels :: "pydict \<Rightarrow> string list chk" where
  "expected_status_event_labels data =
     (let backend = dget data ''backend_selected'';
          semantics = dget data ''semantics''
      in if eq_str backend ''hip-vector-alu-int64''
         then cret [''vector_alu_status_memset'', ''vector_alu_status_d2h'']
         else cif (c_in semantics [''exact_wide_signed'', ''exact_wide_unsigned''])
                (cret [''exact_wide_export_status_memset'', ''exact_wide_export_status_d2h''])
              (cif (c_in semantics [''bounded_i64'', ''bounded_u64''])
                (cret [''crt_export_status_memset'', ''crt_export_status_d2h''])
                (cret [])))"

definition known_status_event_labels :: "pydict \<Rightarrow> string list" where
  "known_status_event_labels data =
     [''crt_export_status_memset'', ''crt_export_status_d2h'', ''exact_wide_export_status_memset'',
      ''exact_wide_export_status_d2h'', ''vector_alu_status_memset'', ''vector_alu_status_d2h'']"

definition validate_status_event_consistency :: "pydict \<Rightarrow> string list \<Rightarrow> (string \<times> pyfloat list) list \<Rightarrow> unit chk" where
  "validate_status_event_consistency data phases parsed =
     (let output_policy = dget data ''output_policy'' in
      whenp
        (\<not> (\<not> is_dict output_policy))
        (let handling = vget output_policy ''status_handling'';
             phase_set = remdups phases
         in cbind (expected_status_event_labels data) (\<lambda>expected.
            let known_present = sorted_set
                                  (filter
                                     (\<lambda>x. x \<in> set phase_set)
                                     (known_status_event_labels data)) in
            if eq_str handling ''required''
            then cfor expected (\<lambda>label.
                   whenp
                     (label \<notin> set phase_set)
                     (report
                        (''output_policy.status_handling=required requires GPU event phase '' @
                         label)))
            else if eq_str handling ''not_applicable''
            then cfor known_present (\<lambda>label.
                   report
                     (''output_policy.status_handling=not_applicable forbids GPU event phase '' @
                      label))
            else whenp
                   (eq_str handling ''structurally_elided'')
                   (cfor known_present (\<lambda>label.
                      let values = lookup_or parsed label [] in
                      whenp
                        (list_ex (\<lambda>value. \<not> flt_eq value (FFin 0)) values)
                        (report
                           (''output_policy.status_handling=structurally_elided requires gpu_event_timings_us.'' @
                            label @
                            '' to be zero-filled when present'')))))))"

definition validate_gpu_events :: "pydict \<Rightarrow> unit chk" where
  "validate_gpu_events data =
     (let metadata' = dget data ''timing_metadata'' in
      whenp
        (\<not> (\<not> is_dict metadata'))
        (let enabled = vget metadata' ''gpu_event_timing'';
             repeats = dget data ''repeats''
         in whenp
              (\<not> (\<not> is_bool enabled \<or> \<not> is_int_value repeats))
              (let selected_backend = dget data ''backend_selected'' in
               cbind (is_residue_current_chain_capture data) (\<lambda>residue_current_chain.
               let timings = dget data ''gpu_event_timings_us'';
                   summary = dget data ''gpu_event_timing_summary_us''
               in cseq
                    [cwhen
                       (all_of
                          [c_in
                             selected_backend
                             [''ck'', ''rocwmma'', ''amdgpu-builtins'', ''hip-vector-alu-int64''],
                           cret (\<not> is_True enabled \<and> \<not> residue_current_chain)])
                       (report
                          (py_str selected_backend @
                           '' captures must include HIP event operation-group timings'')),
                     if \<not> truthy enabled
                     then cseq
                            [whenp
                               (\<not> is_None timings)
                               (report
                                  ''gpu_event_timings_us must be null when gpu_event_timing is false''),
                             whenp
                               (\<not> is_None summary)
                               (report
                                  ''gpu_event_timing_summary_us must be null when gpu_event_timing is false''),
                             whenp
                               (\<not> is_None (vget metadata' ''gpu_event_phase_order''))
                               (report
                                  ''timing_metadata.gpu_event_phase_order must be null when events are unavailable''),
                             whenp
                               (\<not> is_None (vget metadata' ''gpu_event_timing_source''))
                               (report
                                  ''timing_metadata.gpu_event_timing_source must be null when events are unavailable''),
                             whenp
                               (\<not> is_None (vget metadata' ''gpu_event_timing_source_scope''))
                               (report
                                  ''timing_metadata.gpu_event_timing_source_scope must be null when events are unavailable'')]
                     else let source = vget metadata' ''gpu_event_timing_source'';
                              scope = vget metadata' ''gpu_event_timing_source_scope''
                          in cseq
                               [if \<not> is_str source
                                then report
                                       ''timing_metadata.gpu_event_timing_source must be a string when events are available''
                                else whenp
                                       (\<not> eq_str source ''hipEventElapsedTime'')
                                       (report
                                          ''timing_metadata.gpu_event_timing_source must be hipEventElapsedTime''),
                                if \<not> is_str scope
                                then report
                                       ''timing_metadata.gpu_event_timing_source_scope must be a string when events are available''
                                else if eq_str selected_backend ''hip-direct'' \<and>
                                        str_of scope \<notin> set DIRECT_HIP_GPU_EVENT_SCOPES
                                then let expected = join_with
                                                      '', ''
                                                      (sorted_set DIRECT_HIP_GPU_EVENT_SCOPES) in
                                     report
                                       (''timing_metadata.gpu_event_timing_source_scope must be a known direct-HIP scope: '' @
                                        expected)
                                else if eq_str selected_backend ''hipblaslt'' \<and>
                                        str_of scope \<notin> set HIPBLASLT_GPU_EVENT_SCOPES
                                then let expected = join_with
                                                      '', ''
                                                      (sorted_set HIPBLASLT_GPU_EVENT_SCOPES) in
                                     report
                                       (''timing_metadata.gpu_event_timing_source_scope must be a known hipBLASLt scope: '' @
                                        expected)
                                else cif (all_of
                                            [c_in
                                               selected_backend
                                               [''ck'', ''rocwmma'', ''amdgpu-builtins''],
                                             cret
                                               (str_of scope \<notin>
                                                set ACCELERATOR_GPU_EVENT_SCOPES)])
                                       (let expected = join_with
                                                         '', ''
                                                         (sorted_set
                                                            ACCELERATOR_GPU_EVENT_SCOPES) in
                                        report
                                          (''timing_metadata.gpu_event_timing_source_scope must be a known accelerator scope: '' @
                                           expected))
                                       (whenp
                                          (eq_str selected_backend ''hip-vector-alu-int64'' \<and>
                                           str_of scope \<notin> set VECTOR_ALU_GPU_EVENT_SCOPES)
                                          (let expected = join_with
                                                            '', ''
                                                            (sorted_set
                                                               VECTOR_ALU_GPU_EVENT_SCOPES) in
                                           report
                                             (''timing_metadata.gpu_event_timing_source_scope must be a known vector-ALU scope: '' @
                                              expected))),
                                if \<not> is_dict timings
                                then report
                                       ''gpu_event_timings_us must be an object when gpu_event_timing is true''
                                else cbind (gpu_event_phases
                                              data
                                              (items_of metadata')) (\<lambda>phases.
                                     whenp
                                       (\<not> (\<not> phases \<noteq> []))
                                       (let phase_set = remdups phases;
                                            timing_keys = remdups (map fst (items_of timings));
                                            parsed = []
                                        in cseq
                                             [validate_expected_gpu_event_phases data scope phases,
                                              whenp
                                                (set timing_keys \<noteq> set phase_set)
                                                (cseq
                                                   [cfor (sorted_set
                                                            (filter
                                                               (\<lambda>x. x \<notin> set timing_keys)
                                                               phase_set)) (\<lambda>phase.
                                                      report
                                                        (''gpu_event_timings_us.'' @
                                                         phase @
                                                         '' must be an array'')),
                                                    cfor (sorted_set
                                                            (filter
                                                               (\<lambda>x. x \<notin> set phase_set)
                                                               timing_keys)) (\<lambda>phase.
                                                      report
                                                        (''gpu_event_timings_us contains undeclared phase '' @
                                                         phase))]),
                                              whenp
                                                (is_dict summary)
                                                (let summary_keys = remdups
                                                                      (map
                                                                         fst
                                                                         (items_of summary)) in
                                                 whenp
                                                   (set summary_keys \<noteq> set phase_set)
                                                   (cseq
                                                      [cfor (sorted_set
                                                               (filter
                                                                  (\<lambda>x. x \<notin> set summary_keys)
                                                                  phase_set)) (\<lambda>phase.
                                                         report
                                                           (''gpu_event_timing_summary_us.'' @
                                                            phase @
                                                            '' must be an object'')),
                                                       cfor (sorted_set
                                                               (filter
                                                                  (\<lambda>x. x \<notin> set phase_set)
                                                                  summary_keys)) (\<lambda>phase.
                                                         report
                                                           (''gpu_event_timing_summary_us contains undeclared phase '' @
                                                            phase))])),
                                              cbind (cfold
                                                       (\<lambda>parsed phase.
                                                        let values = vget timings phase in
                                                        if \<not> is_list values
                                                        then cthen
                                                               (report
                                                                  (''gpu_event_timings_us.'' @
                                                                   phase @
                                                                   '' must be an array''))
                                                             (cret parsed)
                                                        else let parsed_values = [] in
                                                             cthen
                                                               (whenp
                                                                  (\<not> py_eq
                                                                     (PInt
                                                                        (int
                                                                           (length
                                                                              (elems_of values))))
                                                                     repeats)
                                                                  (report
                                                                     (''gpu_event_timings_us.'' @
                                                                      phase @
                                                                      '' length '' @
                                                                      show_int
                                                                        (int
                                                                           (length
                                                                              (elems_of values))) @
                                                                      '' does not match repeats '' @
                                                                      py_str repeats)))
                                                             (cbind (cfold
                                                                       (\<lambda>parsed_values (index, value).
                                                                        cbind (cif (any_of
                                                                                      [cnot
                                                                                         (c_is_number
                                                                                            value),
                                                                                       cret
                                                                                         (flt_lt
                                                                                            (num_float
                                                                                               value)
                                                                                            (FFin
                                                                                               0))])
                                                                                 (cthen
                                                                                    (report
                                                                                       (''gpu_event_timings_us.'' @
                                                                                        phase @
                                                                                        ''['' @
                                                                                        show_int
                                                                                          index @
                                                                                        ''] must be a nonnegative finite number''))
                                                                                  (cret
                                                                                     parsed_values))
                                                                                 (cret
                                                                                    (parsed_values @
                                                                                     [num_float
                                                                                       value]))) (\<lambda>parsed_values.
                                                                        cret parsed_values))
                                                                       parsed_values
                                                                       (enum_ints
                                                                          (elems_of
                                                                             values))) (\<lambda>parsed_values.
                                                              cret
                                                                (dict_set
                                                                   phase
                                                                   parsed_values
                                                                   parsed))))
                                                       parsed
                                                       phases) (\<lambda>parsed.
                                              cseq
                                                [validate_status_event_consistency
                                                   data
                                                   phases
                                                   parsed,
                                                 validate_timing_summaries
                                                   data
                                                   parsed
                                                   ''gpu_event_timing_summary_us''
                                                   phases,
                                                 cwhen
                                                   (is_all_zero_direct_hip_adaptive_capture data)
                                                   (cfor [''pack_h2d'', ''pack_kernel'', ''pack''] (\<lambda>phase.
                                                      let values = map_of parsed phase in
                                                      whenp
                                                        (values \<noteq> None \<and>
                                                         list_ex
                                                           (\<lambda>value.
                                                            \<not> flt_eq value (FFin 0))
                                                           (opt_list values))
                                                        (report
                                                           (''all-zero direct-HIP adaptive captures must report gpu_event_timings_us.'' @
                                                            phase @
                                                            '' as zero''))))])]))]]))))"

end
