(* ===== verification/Schema_Base.thy ===== *)
theory Schema_Base
  imports Schema_Modes Schema_Backend Schema_Helper Schema_Semantics Schema_Events
begin

text \<open>
  \<open>tools/benchmark_schema/validator_base_fields.py\<close>: the required fields and their types, the accumulator
  contract, the comparison baseline, and \<open>_validate_v4\<close>, which runs every check of a version 4 capture.
\<close>

definition expected_accumulator_contract :: "pydict \<Rightarrow> pydict chk" where
  "expected_accumulator_contract data =
     (let selected_backend = dget data ''backend_selected'';
          semantics = dget data ''semantics'';
          k = dget data ''k'';
          k_value = if is_int_value k \<and> 0 < int_of k then int_of k else 0
      in if eq_str selected_backend ''hip-vector-alu-int64''
         then cret
                [(''uses_int32_inner_product'', PBool False),
                 (''k_block_size'', PInt k_value),
                 (''k_block_cap'', PInt 0),
                 (''max_lhs_abs'', PInt 0),
                 (''max_rhs_abs'', PInt 0),
                 (''max_product'', PInt 0),
                 (''accumulator_type'', PStr ''software_192bit_limb''),
                 (''signedness'',
                  PStr
                    (if eq_str semantics ''bounded_i64''
                     then ''signed_i64x_signed_i64''
                     else ''unsigned_u64x_unsigned_u64'')),
                 (''input_domain'',
                  PStr
                    (if eq_str semantics ''bounded_i64''
                     then ''native_i64_values''
                     else ''native_u64_values'')),
                 (''modulus_policy'', PStr ''native_exact_integer_output''),
                 (''modulus'', PInt 0),
                 (''status'', PStr ''exact_192bit_limb_no_int32_k_cap'')]
         else if is_wrap64_rocwmma_candidate data
         then cret
                [(''uses_int32_inner_product'', PBool True),
                 (''k_block_size'', PInt k_value),
                 (''k_block_cap'', PInt 32768),
                 (''max_lhs_abs'', PInt 255),
                 (''max_rhs_abs'', PInt 255),
                 (''max_product'', PInt (255 * 255)),
                 (''accumulator_type'', PStr ''int32_then_int64_diagonal''),
                 (''signedness'', PStr ''unsigned_u8x_unsigned_u8''),
                 (''input_domain'', PStr ''compact_u8_byte_limb_pairs''),
                 (''modulus_policy'', PStr ''mod_2_64_wraparound_byte_limb''),
                 (''modulus'', PInt 0),
                 (''status'', PStr ''safe_int32_byte_limb_gemm36_k_block'')]
         else if eq_str semantics ''wrap_u64_mod_2_64'' \<and>
                 eq_str selected_backend ''hip-direct'' \<and>
                 (0 < k_value \<and> k_value \<le> WRAP64_HIP_U32_ACCUMULATOR_MAX_K)
         then cret
                [(''uses_int32_inner_product'', PBool False),
                 (''k_block_size'', PInt k_value),
                 (''k_block_cap'', PInt WRAP64_HIP_U32_ACCUMULATOR_MAX_K),
                 (''max_lhs_abs'', PInt 255),
                 (''max_rhs_abs'', PInt 255),
                 (''max_product'', PInt (255 * 255)),
                 (''accumulator_type'', PStr ''uint32_low_diagonal_then_uint64_carry''),
                 (''signedness'', PStr ''unsigned_byte_limb''),
                 (''input_domain'', PStr ''uint8_byte_limb_pairs''),
                 (''modulus_policy'', PStr ''mod_2_64_wraparound_byte_limb''),
                 (''modulus'', PInt 0),
                 (''status'', PStr ''safe_uint32_byte_limb_gemm36_k_block'')]
         else if eq_str semantics ''wrap_u64_mod_2_64''
         then cret
                [(''uses_int32_inner_product'', PBool False),
                 (''k_block_size'', PInt k_value),
                 (''k_block_cap'', PInt 0),
                 (''max_lhs_abs'', PInt 0),
                 (''max_rhs_abs'', PInt 0),
                 (''max_product'', PInt 0),
                 (''accumulator_type'', PStr ''uint64_wraparound_byte_limb''),
                 (''signedness'', PStr ''unsigned_byte_limb''),
                 (''input_domain'', PStr ''uint8_byte_limb_pairs''),
                 (''modulus_policy'', PStr ''mod_2_64_wraparound_byte_limb''),
                 (''modulus'', PInt 0),
                 (''status'', PStr ''exact_mod_2_64_byte_limb_no_int32_k_cap'')]
         else let cap = if eq_str selected_backend ''ck'' then 32768 else 65536 in
              cbind (cif
                       (c_in semantics [''finite_ring_u8'', ''finite_field_u8''])
                       (cret (dget data ''finite_modulus''))
                       (cret (PInt 0))) (\<lambda>modulus.
              let modulus = (if \<not> is_int_value modulus then 0 else int_of modulus) in
              cbind
                (cmap
                   (\<lambda>x. PStr x)
                   (cif
                      (c_in semantics [''finite_ring_u8'', ''finite_field_u8''])
                      (cret ''centered_i8_finite_u8_residues'')
                      (cret ''centered_i8_rns_residue_planes'')))
                (\<lambda>x.
                 cmap
                   (\<lambda>x'. [(''uses_int32_inner_product'', PBool True),
                                  (''k_block_size'',
                                   PInt (if 0 < k_value then min k_value cap else 0)),
                                  (''k_block_cap'', PInt cap),
                                  (''max_lhs_abs'', PInt 128),
                                  (''max_rhs_abs'', PInt 128),
                                  (''max_product'', PInt (128 * 128)),
                                  (''accumulator_type'', PStr ''int32''),
                                  (''signedness'', PStr ''signed_i8x_signed_i8''),
                                  (''input_domain'', x),
                                  (''modulus_policy'', x'),
                                  (''modulus'', PInt modulus),
                                  (''status'', PStr ''safe_int32_k_block_split'')])
                   (cmap
                      (\<lambda>x. PStr x)
                      (cif
                         (c_in semantics [''finite_ring_u8'', ''finite_field_u8''])
                         (cret ''finite_u8_modulus'')
                         (cret ''selected_rns_modulus_ladder''))))))"

definition validate_accumulator_safety :: "pydict \<Rightarrow> pydict \<Rightarrow> unit chk" where
  "validate_accumulator_safety data metadata' =
     (let safety = dget metadata' ''accumulator_safety'' in
      if \<not> is_dict safety
      then report ''backend_metadata.accumulator_safety must be an object''
      else cseq
             [cfor [''input_domain'', ''signedness'', ''accumulator_type'', ''modulus_policy'',
                    ''status''] (\<lambda>key.
                whenp
                  (\<not> is_str (vget safety key) \<or> \<not> truthy (vget safety key))
                  (report
                     (''backend_metadata.accumulator_safety.'' @
                      key @
                      '' must be a nonempty string''))),
              cfor [''k_block_size'', ''k_block_cap'', ''modulus'', ''max_lhs_abs'',
                    ''max_rhs_abs'', ''max_product''] (\<lambda>key.
                let value = vget safety key in
                whenp
                  (\<not> is_int_value value \<or> int_of value < 0)
                  (report
                     (''backend_metadata.accumulator_safety.'' @
                      key @
                      '' must be a nonnegative integer''))),
              cfor [''uses_int32_inner_product'', ''safe_for_k_block''] (\<lambda>key.
                whenp
                  (\<not> is_bool (vget safety key))
                  (report
                     (''backend_metadata.accumulator_safety.'' @ key @ '' must be a boolean''))),
              cbind (expected_accumulator_contract data) (\<lambda>expected.
              let autotune_key = dget metadata' ''autotune_key'' in
              cseq
                [cfor expected (\<lambda>(key, value).
                   whenp
                     (\<not> py_eq (vget safety key) value)
                     (report
                        (''backend_metadata.accumulator_safety.'' @
                         key @
                         '' must be '' @
                         py_str value))),
                 whenp
                   (\<not> py_eq (dget data ''k_block_size'') (vget safety ''k_block_size''))
                   (report
                      ''k_block_size must match backend_metadata.accumulator_safety.k_block_size''),
                 cwhen
                   (cmap
                      (\<lambda>x. \<not> py_eq (vget safety ''max_product'') x)
                      (c_mul (vget safety ''max_lhs_abs'') (vget safety ''max_rhs_abs'')))
                   (report
                      ''backend_metadata.accumulator_safety.max_product must equal max_lhs_abs*max_rhs_abs''),
                 if is_True (vget safety ''uses_int32_inner_product'')
                 then let k_block_size = vget safety ''k_block_size'';
                          k_block_cap = vget safety ''k_block_cap'';
                          max_product = vget safety ''max_product''
                      in cseq
                           [whenp
                              (is_int_value k_block_size \<and>
                               is_int_value k_block_cap \<and>
                               int_of k_block_cap < int_of k_block_size)
                              (report
                                 ''int32 accumulator k_block_size must not exceed k_block_cap''),
                            whenp
                              (is_int_value k_block_size \<and>
                               is_int_value max_product \<and>
                               0 < int_of k_block_size)
                              (whenp
                                 (INT32_MAX < int_of max_product * int_of k_block_size)
                                 (report ''int32 accumulator contract exceeds int32 range'')),
                            whenp
                              (\<not> is_True (vget safety ''safe_for_k_block''))
                              (report
                                 ''int32 accumulator captures must set safe_for_k_block=true'')]
                 else let uint32_diagonal_accumulator = eq_str
                                                          (vget safety ''accumulator_type'')
                                                          ''uint32_low_diagonal_then_uint64_carry'' in
                      cseq
                        [if uint32_diagonal_accumulator
                         then let k_block_size = vget safety ''k_block_size'';
                                  k_block_cap = vget safety ''k_block_cap'';
                                  max_product = vget safety ''max_product''
                              in cseq
                                   [whenp
                                      (is_int_value k_block_size \<and>
                                       is_int_value k_block_cap \<and>
                                       int_of k_block_cap < int_of k_block_size)
                                      (report
                                         ''uint32 diagonal accumulator k_block_size must not exceed k_block_cap''),
                                    whenp
                                      (is_int_value k_block_size \<and>
                                       is_int_value max_product \<and>
                                       0 < int_of k_block_size)
                                      (whenp
                                         (UINT32_MAX <
                                          int_of max_product * WRAP64_LOW_PRODUCT_DIAGONALS *
                                          int_of k_block_size)
                                         (report
                                            ''uint32 diagonal accumulator contract exceeds uint32 range''))]
                         else whenp
                                (\<not> py_eq (vget safety ''k_block_cap'') (PInt 0))
                                (report ''non-int32 accumulator captures must use k_block_cap=0''),
                         whenp
                           (\<not> is_True (vget safety ''safe_for_k_block''))
                           (report
                              ''non-int32 accumulator captures must set safe_for_k_block=true'')],
                 whenp
                   (is_str autotune_key)
                   (let normalized_key = '';'' @ py_str autotune_key @ '';'';
                        selected_backend = dget data ''backend_selected'';
                        expected_target_id = None
                    in cbind (cif (c_in selected_backend HIP_RESIDENT_BACKENDS)
                                (cret
                                   (let device = dget data ''device'';
                                        target_id = if is_dict device
                                                    then vget device ''gcn_arch''
                                                    else PNone
                                    in if has_concrete_gpu_target_id target_id
                                       then let expected_target_id = py_str target_id in
                                            Some expected_target_id
                                       else expected_target_id))
                                (cbind (cif (c_in selected_backend BACKEND_SELECTED_VALUES)
                                          (cret
                                             (let expected_target_id = ''cpu'' in
                                              Some expected_target_id))
                                          (cret expected_target_id)) (\<lambda>expected_target_id.
                                 cret expected_target_id))) (\<lambda>expected_target_id.
                       let required_key_fields = [(''accumulator_type'',
                                                   vget safety ''accumulator_type''),
                                                  (''accumulator_signedness'',
                                                   vget safety ''signedness''),
                                                  (''accumulator_modulus_policy'',
                                                   vget safety ''modulus_policy''),
                                                  (''k_block_size'', vget safety ''k_block_size''),
                                                  (''k_block_cap'', vget safety ''k_block_cap'')];
                           schedule = dget data ''schedule_metadata''
                       in cseq
                            [whenp
                               (expected_target_id \<noteq> None \<and>
                                \<not> contains
                                  ('';target_id='' @ opt_list expected_target_id @ '';'')
                                  normalized_key)
                               (report
                                  (''backend_metadata.autotune_key must include target_id='' @
                                   opt_list expected_target_id)),
                             cfor required_key_fields (\<lambda>(key, value).
                               whenp
                                 (\<not> contains
                                    ('';'' @ key @ ''='' @ py_str value @ '';'')
                                    normalized_key)
                                 (report
                                    (''backend_metadata.autotune_key must include '' @
                                     key @
                                     ''='' @
                                     py_str value))),
                             whenp
                               (is_dict schedule \<and>
                                is_int_value (vget schedule ''zero_row_col_product_count''))
                               (whenp
                                  (0 < int_of (vget schedule ''zero_row_col_product_count''))
                                  (cfor [(''schedule_flags'', vget schedule ''flags''),
                                         (''zero_a_rows'',
                                          vget schedule ''zero_a_row_proof_count''),
                                         (''zero_b_cols'',
                                          vget schedule ''zero_b_col_proof_count''),
                                         (''zero_row_col_products'',
                                          vget
                                            schedule
                                            ''zero_row_col_product_count'')] (\<lambda>(key, value).
                                     whenp
                                       (\<not> contains
                                          ('';'' @ key @ ''='' @ py_str value @ '';'')
                                          normalized_key)
                                       (report
                                          (''backend_metadata.autotune_key must include '' @
                                           key @
                                           ''='' @
                                           py_str value)))))]))])])"

definition validate_nonnegative_ints :: "pydict \<Rightarrow> unit chk" where
  "validate_nonnegative_ints data =
     (let repeats = dget data ''repeats'' in
      cseq
        [cfor [''bound'', ''prefix'', ''tile_m'', ''tile_n'', ''k_block_size'', ''seed'',
               ''warmups'', ''repeats'', ''checksum_u64'', ''output_ld_padding''] (\<lambda>key.
           let value = dget data key in
           whenp
             (is_int_value value \<and> int_of value < 0)
             (report (key @ '' must be nonnegative''))),
         cfor [''m'', ''n'', ''k''] (\<lambda>key.
           let value = dget data key in
           whenp
             (is_int_value value \<and> int_of value \<le> 0)
             (report (key @ '' must be positive''))),
         whenp
           (is_int_value repeats \<and> int_of repeats \<le> 0)
           (report ''repeats must be positive'')])"

definition validate_hip_toolchain :: "pydict \<Rightarrow> unit chk" where
  "validate_hip_toolchain data =
     cbind (require data ''hip_toolchain'' ''dict'') (\<lambda>toolchain.
     whenp
       (\<not> (\<not> is_dict toolchain))
       (let enabled = vget toolchain ''enabled'' in
        cseq
          [whenp (\<not> is_bool enabled) (report ''hip_toolchain.enabled must be a boolean''),
           cfor [''hip_root'', ''hipcc_path'', ''hipcc_version'', ''hip_sdk_or_rocm_version'',
                 ''version_source''] (\<lambda>key.
             let value = vget toolchain key in
             whenp
               (\<not> is_None value \<and> \<not> is_str value)
               (report (''hip_toolchain.'' @ key @ '' must be a string or null''))),
           whenp
             (is_False enabled)
             (cfor [''hipcc_path'', ''hipcc_version'', ''version_source''] (\<lambda>key.
                whenp
                  (\<not> is_None (vget toolchain key))
                  (report
                     (''hip_toolchain.'' @
                      key @
                      '' must be null when hip_toolchain.enabled is false'')))),
           cwhen
             (c_in (dget data ''backend_selected'') HIP_RESIDENT_BACKENDS)
             (cseq
                [whenp
                   (\<not> is_True enabled)
                   (report ''HIP backend captures must set hip_toolchain.enabled=true''),
                 cfor [''hip_root'', ''hipcc_path'', ''hipcc_version'', ''version_source''] (\<lambda>key.
                   let value = vget toolchain key in
                   whenp
                     (\<not> is_str value \<or> \<not> truthy value)
                     (report
                        (''HIP backend captures must include nonempty hip_toolchain.'' @ key))),
                 whenp
                   (\<not> eq_str (vget toolchain ''version_source'') ''hipcc --version'')
                   (report
                      ''HIP backend captures must use hip_toolchain.version_source=hipcc --version'')])]))"

definition validate_nested_metadata :: "pydict \<Rightarrow> unit chk" where
  "validate_nested_metadata data =
     cbind (require data ''compiler'' ''dict'') (\<lambda>compiler.
     cseq
       [whenp
          (is_dict compiler)
          (cfor [''id'', ''version''] (\<lambda>key.
             whenp
               (\<not> is_str (vget compiler key))
               (report (''compiler.'' @ key @ '' must be a string'')))),
        validate_hip_toolchain data,
        cbind (require data ''device'' ''dict'') (\<lambda>device.
        let runtime_environment = dget data ''runtime_environment'' in
        cseq
          [whenp
             (is_dict device)
             (cseq
                [cfor [''device_id'', ''hip_available'', ''hip_runtime_version'',
                       ''hip_driver_version'', ''global_mem_bytes''] (\<lambda>key.
                   whenp
                     (\<not> is_int_value (vget device key))
                     (report (''device.'' @ key @ '' must be an integer''))),
                 cfor [''device_index'', ''visible_device_count'', ''node_gpu_count''] (\<lambda>key.
                   whenp
                     (has_key (items_of device) key \<and> \<not> is_int_value (vget device key))
                     (report (''device.'' @ key @ '' must be an integer''))),
                 cfor [''name'', ''gcn_arch''] (\<lambda>key.
                   whenp
                     (\<not> is_str (vget device key))
                     (report (''device.'' @ key @ '' must be a string''))),
                 cfor [''device_name'', ''target_arch'', ''target_cache_key'',
                       ''target_instance_id''] (\<lambda>key.
                   whenp
                     (has_key (items_of device) key \<and> \<not> is_str (vget device key))
                     (report (''device.'' @ key @ '' must be a string''))),
                 whenp
                   (has_key (items_of device) ''device_index'' \<and>
                    \<not> py_eq (vget device ''device_index'') (vget device ''device_id''))
                   (report ''device.device_index must match device.device_id''),
                 whenp
                   (has_key (items_of device) ''device_name'' \<and>
                    \<not> py_eq (vget device ''device_name'') (vget device ''name''))
                   (report ''device.device_name must match device.name''),
                 whenp
                   (has_key (items_of device) ''target_arch'' \<and>
                    \<not> py_eq (vget device ''target_arch'') (vget device ''gcn_arch''))
                   (report ''device.target_arch must match device.gcn_arch''),
                 cwhen
                   (c_in (dget data ''backend_selected'') HIP_RESIDENT_BACKENDS)
                   (let device_id = vget device ''device_id'' in
                    cseq
                      [whenp
                         (\<not> has_concrete_gpu_target_id (vget device ''gcn_arch''))
                         (report
                            ''HIP backend captures must include non-placeholder device.gcn_arch''),
                       whenp
                         (\<not> py_eq (vget device ''hip_available'') (PInt 1))
                         (report ''HIP backend captures must use device.hip_available=1''),
                       whenp
                         (is_int_value device_id \<and> int_of device_id < 0)
                         (report ''HIP backend captures must use a nonnegative device.device_id''),
                       cfor [''visible_device_count'', ''node_gpu_count''] (\<lambda>key.
                         whenp
                           (has_key (items_of device) key \<and>
                            is_int_value (vget device key) \<and>
                            int_of (vget device key) < 0)
                           (report
                              (''HIP backend captures must use a nonnegative device.'' @ key)))])]),
           whenp
             (\<not> is_None runtime_environment)
             (if \<not> is_dict runtime_environment
              then report ''runtime_environment must be an object''
              else cfor [''HIP_VISIBLE_DEVICES'', ''ROCR_VISIBLE_DEVICES'', ''GPU_DEVICE_ORDINAL'',
                         ''ROCM_PATH'', ''HIP_PATH'', ''LD_LIBRARY_PATH'', ''RNS8_MULTI_GPU_MODE'',
                         ''RNS8_RANK'', ''RNS8_WORLD_SIZE''] (\<lambda>key.
                     let value = vget runtime_environment key in
                     whenp
                       (\<not> is_None value \<and> \<not> is_str value)
                       (report (''runtime_environment.'' @ key @ '' must be a string or null'')))),
           cbind (require data ''timing_metadata'' ''dict'') (\<lambda>metadata'.
           whenp
             (is_dict metadata')
             (let metadata_mode = vget metadata' ''benchmark_execution_mode'';
                  phase_order = vget metadata' ''phase_order'';
                  expected_phases = timing_phases data;
                  gpu_phase_order = vget metadata' ''gpu_event_phase_order''
              in cseq
                   [whenp
                      (\<not> eq_str (vget metadata' ''unit'') ''microseconds'')
                      (report ''timing_metadata.unit must be microseconds''),
                    cfor [''source'', ''source_scope'', ''gpu_event_timing_reason''] (\<lambda>key.
                      whenp
                        (\<not> is_str (vget metadata' key))
                        (report (''timing_metadata.'' @ key @ '' must be a string''))),
                    whenp
                      (has_key (items_of metadata') ''gpu_event_timing_status'' \<and>
                       \<not> is_str (vget metadata' ''gpu_event_timing_status''))
                      (report ''timing_metadata.gpu_event_timing_status must be a string''),
                    whenp
                      (\<not> is_bool (vget metadata' ''gpu_event_timing''))
                      (report ''timing_metadata.gpu_event_timing must be a boolean''),
                    validate_output_layout_metadata data (items_of metadata'),
                    whenp
                      (\<not> is_None metadata_mode)
                      (cif (cnot (c_in metadata_mode BENCHMARK_EXECUTION_MODES))
                         (report
                            (''timing_metadata.benchmark_execution_mode must be one of '' @
                             py_str (str_list (sorted_set BENCHMARK_EXECUTION_MODES))))
                         (whenp
                            (\<not> is_None (dget data ''benchmark_execution_mode'') \<and>
                             \<not> py_eq metadata_mode (dget data ''benchmark_execution_mode''))
                            (report
                               ''timing_metadata.benchmark_execution_mode must match benchmark_execution_mode''))),
                    whenp
                      (\<not> py_eq phase_order (str_list expected_phases))
                      (report
                         (''timing_metadata.phase_order must be '' @
                          py_str (str_list expected_phases))),
                    validate_phase_availability data (items_of metadata'),
                    whenp
                      (\<not> is_None gpu_phase_order)
                      (if \<not> is_list gpu_phase_order \<or>
                          \<not> list_all (\<lambda>item. is_str item) (elems_of gpu_phase_order)
                       then report
                              ''timing_metadata.gpu_event_phase_order must be an array of strings''
                       else whenp
                              (int (length (remdups (strs_of gpu_phase_order))) \<noteq>
                               int (length (elems_of gpu_phase_order)))
                              (report
                                 ''timing_metadata.gpu_event_phase_order must not contain duplicates''))]))])])"

definition ck_capture_checks :: "pydict \<Rightarrow> pydict \<Rightarrow> pyval \<Rightarrow> unit chk" where
  "ck_capture_checks data metadata' selected_backend =
     whenp
       (eq_str selected_backend ''ck'')
       (let expected = [(''accelerator_library'', ''Composable Kernel''),
                        (''accelerator_version'', ''repo-local release/rocm-rel-7.1''),
                        (''capability_status'', ''implemented_opt_in_ck_backend''),
                        (''isa_evidence'', ''ck_cshuffle_int8_matrix_isa_gate_no_divide'')];
            bool_expected = [(''accelerator_backend'', True),
                             (''correctness_backend'', True),
                             (''matrix_engine_backend'', True),
                             (''compiled_kernel_available'', True),
                             (''exact_differential_validated'', True)];
            epilogue = dget metadata' ''epilogue_mode''
        in cseq
             [cfor expected (\<lambda>(key, value).
                whenp
                  (\<not> eq_str (dget metadata' key) value)
                  (report (''CK captures must use backend_metadata.'' @ key @ ''='' @ value))),
              cwhen
                (cnot
                   (c_in
                      (dget metadata' ''workspace_mode'')
                      [''resident_device_buffers_with_ck_canonical_pack_workspace'',
                       ''resident_device_buffers_with_ck_centered_pack_workspace'']))
                (report ''CK captures must use a known CK pack workspace mode''),
              cwhen
                (cnot (c_in (dget metadata' ''selected_kernel'') CK_SELECTED_KERNELS))
                (report ''CK captures must report a known CK selected_kernel''),
              cfor bool_expected (\<lambda>(key, value).
                whenp
                  (dget metadata' key \<noteq> PBool value)
                  (report
                     (''CK captures must use backend_metadata.'' @
                      key @
                      ''='' @
                      py_str (PBool value)))),
              cwhen
                (cnot
                   (c_in
                      epilogue
                      [''ck_fused_i32_to_centered_residue_then_crt_export'',
                       ''ck_fused_i32_to_centered_residue_rns_output'',
                       ''ck_fused_i32_to_centered_residue_then_canonical_u8_export'']))
                (report ''CK captures must report a fused CK centered-residue epilogue'')])"

definition rocwmma_capture_checks :: "pydict \<Rightarrow> pydict \<Rightarrow> pyval \<Rightarrow> unit chk" where
  "rocwmma_capture_checks data metadata' selected_backend =
     whenp
       (eq_str selected_backend ''rocwmma'')
       (if is_wrap64_rocwmma_candidate data
        then let expected = [(''selected_kernel'', WRAP64_ROCWMMA_CANDIDATE_KERNEL),
                             (''accelerator_library'', ''rocWMMA''),
                             (''accelerator_version'', ''repo-local release/rocm-rel-7.1''),
                             (''capability_status'', ''internal_wrap64_matrix_engine_candidate''),
                             (''epilogue_mode'', ''low64_wrap_export''),
                             (''workspace_mode'',
                              ''benchmark_owned_compact_byte_limb_device_buffers''),
                             (''isa_evidence'',
                              ''rocwmma_wrap64_byte_gemm36_matrix_isa_gate_no_divide'')];
                 bool_expected = [(''accelerator_backend'', True),
                                  (''correctness_backend'', False),
                                  (''matrix_engine_backend'', True),
                                  (''compiled_kernel_available'', True),
                                  (''exact_differential_validated'', True),
                                  (''performance_validated'', False)]
             in cseq
                  [cfor expected (\<lambda>(key, value).
                     whenp
                       (\<not> eq_str (dget metadata' key) value)
                       (report
                          (''rocWMMA wrap64 candidate captures must use backend_metadata.'' @
                           key @
                           ''='' @
                           value))),
                   cfor bool_expected (\<lambda>(key, value).
                     whenp
                       (dget metadata' key \<noteq> PBool value)
                       (report
                          (''rocWMMA wrap64 candidate captures must use backend_metadata.'' @
                           key @
                           ''='' @
                           py_str (PBool value))))]
        else let expected = [(''accelerator_library'', ''rocWMMA''),
                             (''accelerator_version'', ''repo-local release/rocm-rel-7.1''),
                             (''capability_status'', ''implemented_opt_in_rocwmma_backend''),
                             (''workspace_mode'',
                              ''resident_device_buffers_with_rocwmma_pack_workspace''),
                             (''isa_evidence'', ''rocwmma_i8_matrix_isa_gate_no_divide'')];
                 bool_expected = [(''accelerator_backend'', True),
                                  (''correctness_backend'', True),
                                  (''matrix_engine_backend'', True),
                                  (''compiled_kernel_available'', True),
                                  (''exact_differential_validated'', True)];
                 epilogue = dget metadata' ''epilogue_mode''
             in cseq
                  [cfor expected (\<lambda>(key, value).
                     whenp
                       (\<not> eq_str (dget metadata' key) value)
                       (report
                          (''rocWMMA captures must use backend_metadata.'' @ key @ ''='' @ value))),
                   cwhen
                     (cnot (c_in (dget metadata' ''selected_kernel'') ROCWMMA_SELECTED_KERNELS))
                     (report ''rocWMMA captures must report a known rocWMMA selected_kernel''),
                   cfor bool_expected (\<lambda>(key, value).
                     whenp
                       (dget metadata' key \<noteq> PBool value)
                       (report
                          (''rocWMMA captures must use backend_metadata.'' @
                           key @
                           ''='' @
                           py_str (PBool value)))),
                   cwhen
                     (cnot
                        (c_in
                           epilogue
                           [''rocwmma_fused_i32_to_centered_residue_then_crt_export'',
                            ''rocwmma_fused_i32_to_centered_residue_rns_output'',
                            ''rocwmma_fused_i32_to_centered_residue_then_canonical_u8_export'']))
                     (report
                        ''rocWMMA captures must report a fused rocWMMA centered-residue epilogue'')])"

definition validate_comparison_baseline :: "pydict \<Rightarrow> unit chk" where
  "validate_comparison_baseline data =
     cbind (require data ''comparison_baseline'' ''dict'') (\<lambda>baseline.
     whenp
       (\<not> (\<not> is_dict baseline))
       (let status = vget baseline ''status'';
            selected_reference = vget baseline ''selected_reference'';
            required = vget baseline ''required_before_speedup_claim'';
            raw_metadata = dget data ''backend_metadata'';
            metadata' = if is_dict raw_metadata then items_of raw_metadata else [];
            selected_backend = dget data ''backend_selected'';
            performance_validated = is_True (dget metadata' ''performance_validated'');
            derived_tops = dget data ''derived_tops_equivalent'';
            semantics = dget data ''semantics''
        in cseq
             [cwhen
                (cnot (c_in status COMPARISON_BASELINE_STATUSES))
                (report
                   ''comparison_baseline.status must describe reviewed or missing same-contract baseline evidence''),
              whenp
                (\<not> is_bool (vget baseline ''speedup_claimed''))
                (report ''comparison_baseline.speedup_claimed must be a boolean''),
              whenp
                (\<not> is_None selected_reference \<and> \<not> is_str selected_reference)
                (report ''comparison_baseline.selected_reference must be a string or null''),
              whenp
                (\<not> is_list required \<or>
                 \<not> list_all
                   (\<lambda>item. is_str item \<and> truthy item)
                   (elems_of required))
                (report
                   ''comparison_baseline.required_before_speedup_claim must be a nonempty string array''),
              whenp
                (\<not> is_str (vget baseline ''reason'') \<or>
                 \<not> truthy (vget baseline ''reason''))
                (report ''comparison_baseline.reason must be a nonempty string''),
              whenp
                (is_True (vget baseline ''speedup_claimed''))
                (cwhen
                   (any_of
                      [cnot (c_in status REVIEWED_BASELINE_STATUSES),
                       cret
                         (\<not> is_str selected_reference \<or> \<not> truthy selected_reference)])
                   (report
                      ''speedup claims require a reviewed same-contract comparison baseline'')),
              whenp
                (performance_validated \<and> \<not> eq_str status BASELINE_STATUS_RELEASE_REVIEWED)
                (report
                   ''performance_validated captures require comparison_baseline.status=reviewed_release_same_contract_baseline''),
              whenp
                (\<not> is_None derived_tops \<and>
                 \<not> eq_str status BASELINE_STATUS_RELEASE_REVIEWED)
                (report
                   ''derived_tops_equivalent requires a reviewed release same-contract comparison baseline''),
              cwhen
                (all_of
                   [c_in semantics [''bounded_i64'', ''bounded_u64''], cret (is_list required)])
                (let expected = [''same_contract_cpu_reference''] in
                 let expected = (if eq_str selected_backend ''hip-vector-alu-int64''
                                 then expected @ [''same_contract_direct_hip_correctness'']
                                 else let expected = expected @
                                                     [''same_contract_direct_hip_vector_alu_int64''] in
                                      if \<not> eq_str selected_backend ''hip-direct''
                                      then expected @ [''same_contract_direct_hip_correctness'']
                                      else expected) in
                 cbind (cif (is_bounded_oneshot_capture data)
                          (cret (expected @ [''same_contract_direct_hip_persistent_rns'']))
                          (cret expected)) (\<lambda>expected.
                 cfor expected (\<lambda>item.
                   whenp
                     (\<not> str_mem item required)
                     (report
                        (''bounded captures require comparison baseline prerequisite '' @ item))))),
              whenp
                (eq_str semantics ''wrap_u64_mod_2_64'' \<and> is_list required)
                (cfor [''same_contract_cpu_wrap64_byte_limb_reference'',
                       ''same_contract_direct_hip_wrap64_byte_gemm36''] (\<lambda>item.
                   whenp
                     (\<not> str_mem item required)
                     (report
                        (''wrap64 captures require comparison baseline prerequisite '' @ item)))),
              cwhen
                (all_of
                   [c_in semantics [''finite_ring_u8'', ''finite_field_u8''],
                    cret (is_list required)])
                (cseq
                   [whenp
                      (\<not> str_mem ''same_contract_cpu_reference'' required)
                      (report
                         ''finite-u8 captures require comparison baseline prerequisite same_contract_cpu_reference''),
                    whenp
                      (\<not> eq_str selected_backend ''hip-direct'' \<and>
                       \<not> str_mem ''same_contract_direct_hip_correctness'' required)
                      (report
                         ''finite-u8 captures require comparison baseline prerequisite same_contract_direct_hip_correctness''),
                    cwhen
                      (all_of
                         [is_finite_oneshot_capture data,
                          cret
                            (\<not> str_mem
                               ''same_contract_direct_hip_persistent_finite_u8''
                               required)])
                      (report
                         ''finite-u8 one-shot captures require comparison baseline prerequisite same_contract_direct_hip_persistent_finite_u8'')]),
              cwhen
                (all_of
                   [c_in semantics [''exact_wide_signed'', ''exact_wide_unsigned''],
                    cret (is_list required)])
                (cseq
                   [whenp
                      (\<not> str_mem ''same_contract_cpu_reference'' required)
                      (report
                         ''exact-wide captures require comparison baseline prerequisite same_contract_cpu_reference''),
                    whenp
                      (\<not> eq_str selected_backend ''hip-direct'' \<and>
                       \<not> str_mem ''same_contract_direct_hip_correctness'' required)
                      (report
                         ''exact-wide captures require comparison baseline prerequisite same_contract_direct_hip_correctness'')]),
              ck_capture_checks data metadata' selected_backend,
              rocwmma_capture_checks data metadata' selected_backend,
              whenp
                (eq_str selected_backend ''hip-direct'' \<and>
                 \<not> eq_str (dget metadata' ''accelerator_library'') ''HIP runtime'')
                (report
                   ''hip-direct captures must use backend_metadata.accelerator_library=HIP runtime''),
              cwhen
                (all_of
                   [cnot (c_in selected_backend HIP_RESIDENT_BACKENDS),
                    cnot (c_in_vals (dget metadata' ''accelerator_library'') [PNone, PStr []])])
                (report ''non-HIP correctness captures must not report an accelerator library''),
              validate_accumulator_safety data metadata']))"

definition validate_v4 :: "pydict \<Rightarrow> unit chk" where
  "validate_v4 data =
     (let selected_kernel' = dget data ''selected_kernel'';
          execution_mode = dget data ''benchmark_execution_mode'';
          selected_backend = dget data ''backend_selected'';
          requested_backend = dget data ''backend_requested''
      in cseq
           [cfor [''benchmark'', ''backend_requested'', ''backend_selected'', ''semantics'',
                  ''bound_kind'', ''epilogue_type'', ''input_distribution'', ''command_line'',
                  ''git_commit'', ''configured_amdgpu_targets'', ''timing_source'', ''timing_note''] (\<lambda>key.
              cvoid (require data key ''str'')),
            whenp
              (\<not> is_None selected_kernel' \<and> \<not> is_str selected_kernel')
              (report ''selected_kernel must be a string or null''),
            whenp
              (\<not> is_None execution_mode)
              (cif (cnot (c_in execution_mode BENCHMARK_EXECUTION_MODES))
                 (report
                    (''benchmark_execution_mode must be one of '' @
                     py_str (str_list (sorted_set BENCHMARK_EXECUTION_MODES))))
                 (cwhen
                    (all_of
                       [c_in
                          (dget data ''benchmark'')
                          [''rns8_bounded_gemm_public_oneshot'', ''rns8_finite_u8_public_oneshot''],
                        cret
                          (\<not> eq_str
                             execution_mode
                             ''public_oneshot_transient_native_inputs'')])
                    (report
                       ''one-shot benchmark captures must use benchmark_execution_mode=public_oneshot_transient_native_inputs''))),
            whenp
              (is_str selected_backend \<and>
               str_of selected_backend \<notin> set BACKEND_SELECTED_VALUES)
              (report
                 (''backend_selected must be one of '' @
                  py_str (str_list (sorted_set BACKEND_SELECTED_VALUES)))),
            whenp
              (is_str requested_backend \<and>
               str_of requested_backend \<notin> set BACKEND_REQUESTED_VALUES)
              (report
                 (''backend_requested must be one of '' @
                  py_str (str_list (sorted_set BACKEND_REQUESTED_VALUES)))),
            cvoid (require data ''bound_mode'' ''str''),
            cfor [''bound'', ''m'', ''n'', ''k'', ''prefix'', ''tile_m'', ''tile_n'',
                  ''k_block_size'', ''seed'', ''warmups'', ''repeats'', ''checksum_u64''] (\<lambda>key.
              cvoid (require data key ''int'')),
            validate_nonnegative_ints data,
            validate_nested_metadata data,
            validate_backend_metadata data,
            validate_helper_lane_metadata data,
            validate_contract_metadata data,
            validate_host_api_batch_metadata data,
            validate_grouped_dispatch_metadata data,
            validate_hip_graph_replay_metadata data,
            validate_comparison_baseline data,
            validate_schedule_metadata data,
            validate_bound_discovery_metadata data,
            validate_prefix_policy_metadata data,
            validate_semantic_contract data,
            cbind (validate_raw_timings data) (\<lambda>raw_timings.
            let timing_summary_phases = timing_phases data @
                                        filter
                                          (\<lambda>phase. has_key raw_timings phase)
                                          (sorted_set OPTIONAL_REPEATED_TIMING_PHASES) in
            cseq
              [validate_pack_reuse_fields data raw_timings,
               validate_residue_current_timings data raw_timings,
               validate_bounded_oneshot_timings data raw_timings,
               validate_all_zero_direct_hip_adaptive_timings data raw_timings,
               validate_timing_summaries
                 data
                 raw_timings
                 ''timing_summary_us''
                 timing_summary_phases,
               validate_top_level_averages data raw_timings,
               validate_gpu_events data])])"

end
