(* ===== verification/Capture_Schema.thy ===== *)
theory Capture_Schema
  imports Schema_Base
begin

text \<open>
  \<open>tools/benchmark_schema/core.py\<close> and \<open>cli.py\<close>: the validator as its callers see it. Loading a capture,
  reading its version and raising on a list of errors are those of \<open>Sweep_Exec\<close>, whose parameter
  \<open>errors_of\<close> is \<open>validation_errors\<close> here.
\<close>

section \<open>The validator\<close>

definition validate_document :: "pydict \<Rightarrow> unit chk" where
  "validate_document data =
     (case map_of data ''schema_version'' of
        None \<Rightarrow> report ''missing required field schema_version''
      | Some v \<Rightarrow>
          if \<not> is_int_value v then report ''schema_version must be an integer''
          else if int_of v \<noteq> SCHEMA_VERSION
          then report (''unsupported schema_version '' @ show_int (int_of v) @ ''; expected '' @ show_int SCHEMA_VERSION)
          else validate_v4 data)"

text \<open>Every message carries the path of the document.\<close>

definition validation_errors :: validator where
  "validation_errors data p =
     rbind (validate_document data) (\<lambda>(messages, _). Inr (map (\<lambda>m. path_str p @ '': '' @ m) messages))"

definition validate_capture_file :: "files \<Rightarrow> path \<Rightarrow> pydict res" where
  "validate_capture_file files p = rbind (load_capture files p) (\<lambda>data. validate_capture validation_errors data p)"

section \<open>The command line\<close>

text \<open>\<open>str.splitlines()\<close>: line feed, carriage return (one break with a line feed after it), and the other
  separators of a byte.\<close>

definition is_line_break :: "char \<Rightarrow> bool" where
  "is_line_break c \<longleftrightarrow> code c \<in> {10, 11, 12, 13, 28, 29, 30, 133}"

fun split_lines :: "string \<Rightarrow> string \<Rightarrow> string list" where
  "split_lines line [] = (if line = [] then [] else [rev line])"
| "split_lines line (c # cs) =
     (if code c = 13 then rev line # (case cs of d # ds \<Rightarrow> if code d = 10 then split_lines [] ds else split_lines [] cs
        | [] \<Rightarrow> [])
      else if is_line_break c then rev line # split_lines [] cs
      else split_lines (c # line) cs)"

text \<open>One entry of the report, and the report of all captures with the exit status.\<close>

datatype capture_verdict = Valid path int | Invalid path "string list"

definition verdict_of :: "files \<Rightarrow> path \<Rightarrow> capture_verdict res" where
  "verdict_of files p =
     (case validate_capture_file files p of
        Inr result \<Rightarrow> Inr (Valid p (int_of (dget result ''schema_version'')))
      | Inl (BenchmarkSchemaError message) \<Rightarrow> Inr (Invalid p (split_lines [] message))
      | Inl e \<Rightarrow> Inl e)"

definition messages_of :: "capture_verdict \<Rightarrow> string list" where
  "messages_of v = (case v of Valid _ _ \<Rightarrow> [] | Invalid _ messages \<Rightarrow> messages)"

definition verdict_item :: "capture_verdict \<Rightarrow> pyval" where
  "verdict_item v = (case v of
       Valid p n \<Rightarrow> PDict [(''path'', PStr (path_str p)), (''valid'', PBool True), (''schema_version'', PInt n)]
     | Invalid p messages \<Rightarrow>
         PDict [(''path'', PStr (path_str p)), (''valid'', PBool False), (''errors'', str_list messages)])"

text \<open>Without \<open>--json\<close> a line per valid capture and per message is printed.\<close>

definition verdict_lines :: "capture_verdict \<Rightarrow> string list" where
  "verdict_lines v = (case v of
       Valid p n \<Rightarrow> [path_str p @ '': valid schema v'' @ show_int n]
     | Invalid _ messages \<Rightarrow> messages)"

record schema_run =
  sr_report :: pyval
  sr_lines :: "string list"
  sr_status :: int

definition schema_main :: "files \<Rightarrow> path list \<Rightarrow> schema_run res" where
  "schema_main files captures =
     rbind (rmapM (verdict_of files) captures) (\<lambda>verdicts.
     let errors = concat (map messages_of verdicts) in
     Inr \<lparr>sr_report = PDict [(''valid'', PBool (errors = [])), (''captures'', PList (map verdict_item verdicts))],
          sr_lines = concat (map verdict_lines verdicts),
          sr_status = (if errors = [] then 0 else 1)\<rparr>)"

end
