(* ===== verification/Schema_Raises.thy ===== *)
theory Schema_Raises
  imports Capture_Schema
begin

text \<open>
  Which exceptions can leave the validator. A field of a type the code did not test for raises what the
  operation on it raises, and nothing else: \<open>tame m\<close> says so for one run, the rules \<open>tame\<close> carry it
  through the operators of \<open>Schema_Monad\<close>, and one application of them per method gives it for the whole
  validator.
\<close>

definition crashes :: "exc set" where
  "crashes = {TypeError, AttributeError, ValueError, OverflowError, ZeroDivisionError} \<union> range KeyError"

definition tame :: "'a chk \<Rightarrow> bool" where
  "tame m \<longleftrightarrow> (case m of Inl e \<Rightarrow> e \<in> crashes | Inr _ \<Rightarrow> True)"

lemma tame_iff: "tame m \<longleftrightarrow> (\<forall>e. m = Inl e \<longrightarrow> e \<in> crashes)"
  by (simp add: tame_def split: sum.splits)

named_theorems tame \<open>a run raises only \<open>crashes\<close>\<close>

lemma tame_cret [tame]: "tame (cret x)"
  by (simp add: tame_def cret_def)

lemma tame_skip [tame]: "tame skip"
  by (simp add: tame_def skip_def)

lemma tame_report [tame]: "tame (report s)"
  by (simp add: tame_def report_def)

lemma tame_craise: "e \<in> crashes \<Longrightarrow> tame (craise e)"
  by (simp add: tame_def craise_def)

lemma tame_lift: "(case m of Inl e \<Rightarrow> e \<in> crashes | Inr _ \<Rightarrow> True) \<Longrightarrow> tame (lift m)"
  by (simp add: tame_def lift_def split: sum.splits)

lemma tame_cbind [tame]: "tame m \<Longrightarrow> (\<And>x. tame (f x)) \<Longrightarrow> tame (cbind m f)"
  by (auto simp: tame_iff cbind_def split: sum.splits prod.splits)

lemma tame_cmap [tame]: "tame m \<Longrightarrow> tame (cmap f m)"
  unfolding cmap_def by (intro tame)

lemma tame_cthen [tame]: "tame m \<Longrightarrow> tame k \<Longrightarrow> tame (cthen m k)"
  unfolding cthen_def by (intro tame)

lemma tame_cvoid [tame]: "tame m \<Longrightarrow> tame (cvoid m)"
  unfolding cvoid_def by (intro tame)

lemma tame_if [tame]: "tame a \<Longrightarrow> tame b \<Longrightarrow> tame (if c then a else b)"
  by simp

lemma tame_Let [tame]: "(\<And>x. tame (f x)) \<Longrightarrow> tame (Let v f)"
  by simp

lemma tame_case_prod [tame]: "(\<And>x y. tame (f x y)) \<Longrightarrow> tame (case p of (x, y) \<Rightarrow> f x y)"
  by (simp split: prod.splits)

lemma tame_case_option [tame]: "tame a \<Longrightarrow> (\<And>x. tame (f x)) \<Longrightarrow> tame (case v of None \<Rightarrow> a | Some x \<Rightarrow> f x)"
  by (simp split: option.splits)

lemma tame_whenp [tame]: "tame m \<Longrightarrow> tame (whenp c m)"
  unfolding whenp_def by (intro tame)

lemma tame_cif [tame]: "tame c \<Longrightarrow> tame a \<Longrightarrow> tame b \<Longrightarrow> tame (cif c a b)"
  unfolding cif_def by (intro tame)

lemma tame_cwhen [tame]: "tame c \<Longrightarrow> tame m \<Longrightarrow> tame (cwhen c m)"
  unfolding cwhen_def by (intro tame)

lemma tame_cnot [tame]: "tame c \<Longrightarrow> tame (cnot c)"
  unfolding cnot_def by (intro tame)

lemma tame_cseq_Nil [tame]: "tame (cseq [])"
  by (simp add: tame)

lemma tame_cseq_Cons [tame]: "tame m \<Longrightarrow> tame (cseq ms) \<Longrightarrow> tame (cseq (m # ms))"
  by (simp add: tame)

lemma tame_all_of_Nil [tame]: "tame (all_of [])" and tame_any_of_Nil [tame]: "tame (any_of [])"
  by (simp_all add: tame)

lemma tame_all_of_Cons [tame]: "tame c \<Longrightarrow> tame (all_of cs) \<Longrightarrow> tame (all_of (c # cs))"
  by (simp add: tame)

lemma tame_any_of_Cons [tame]: "tame c \<Longrightarrow> tame (any_of cs) \<Longrightarrow> tame (any_of (c # cs))"
  by (simp add: tame)

lemma tame_cfor [tame]: "(\<And>x. tame (f x)) \<Longrightarrow> tame (cfor xs f)"
  by (induction xs) (simp_all add: cfor_def tame)

lemma tame_cfold [tame]: "(\<And>s x. tame (f s x)) \<Longrightarrow> tame (cfold f s xs)"
  by (induction xs arbitrary: s) (simp_all add: tame)

lemma tame_call_in [tame]: "(\<And>x. tame (p x)) \<Longrightarrow> tame (call_in p xs)"
  by (induction xs) (simp_all add: call_in_def tame)

lemma tame_cany_in [tame]: "(\<And>x. tame (p x)) \<Longrightarrow> tame (cany_in p xs)"
  by (induction xs) (simp_all add: cany_in_def tame)

section \<open>The operations that raise\<close>

lemma tame_c_in [tame]: "tame (c_in v ss)"
  unfolding c_in_def by (rule tame_lift) (simp add: in_str_set_def crashes_def split: pyval.splits)

lemma tame_c_in_vals [tame]: "tame (c_in_vals v xs)"
  unfolding c_in_vals_def by (rule tame_lift) (simp add: in_vals_def crashes_def)

lemma tame_c_str_in [tame]: "tame (c_str_in s v)"
  unfolding c_str_in_def by (rule tame_lift) (simp add: str_in_def crashes_def split: pyval.splits)

lemma tame_c_get [tame]: "tame (c_get v k)" and tame_c_get_or [tame]: "tame (c_get_or v k w)"
  by (simp_all add: c_get_def c_get_or_def tame_def cret_def craise_def crashes_def split: pyval.splits)

lemma tame_c_lookup [tame]: "tame (c_lookup d v)"
  by (simp add: c_lookup_def tame_def cret_def craise_def crashes_def)

lemma tame_c_lookup_or [tame]: "tame (c_lookup_or d v x)"
  unfolding c_lookup_or_def by (intro tame)

lemma tame_c_has_key [tame]: "tame (c_has_key d v)"
  unfolding c_has_key_def by (intro tame)

lemma tame_c_index [tame]: "tame (c_index d k)"
  by (simp add: c_index_def tame_def cret_def craise_def crashes_def split: option.splits)

lemma tame_py_less: "case py_less strict a b of Inl e \<Rightarrow> e \<in> crashes | Inr _ \<Rightarrow> True"
  by (induction strict a b rule: py_less.induct) (simp_all add: crashes_def)

lemma tame_c_lt [tame]: "tame (c_lt a b)" and tame_c_le [tame]: "tame (c_le a b)"
  unfolding c_lt_def c_le_def by (rule tame_lift, rule tame_py_less)+

lemma tame_c_float [tame]: "tame (c_float v)"
  by (simp add: c_float_def tame_def cret_def craise_def lift_def float_of_int_def crashes_def split: pyval.splits pyfloat.splits)

lemma tame_c_is_number [tame]: "tame (c_is_number v)"
  unfolding c_is_number_def by (intro tame)

lemma tame_c_int_div [tame]: "tame (c_int_div m n)"
  by (simp add: c_int_div_def tame_def cret_def craise_def crashes_def split: pyfloat.splits)

lemma tame_c_fdiv [tame]: "tame (c_fdiv a b)"
  by (simp add: c_fdiv_def tame_def cret_def craise_def crashes_def)

lemma tame_type_error [tame]: "tame (craise TypeError)"
  by (rule tame_craise) (simp add: crashes_def)

lemma tame_num_op [tame]: "tame (num_op f g a b)"
  unfolding num_op_def by (intro tame)

lemma tame_c_mul [tame]: "tame (c_mul a b)"
  by (cases "(a, b)" rule: c_mul.cases) (simp_all add: tame)

lemma tame_c_add [tame]: "tame (c_add a b)"
  by (cases "(a, b)" rule: c_add.cases) (simp_all add: tame)

lemma tame_c_sub [tame]: "tame (c_sub a b)"
  unfolding c_sub_def by (intro tame)

lemma tame_c_int [tame]: "tame (c_int v)"
  unfolding c_int_def by (rule tame_lift) (simp add: py_int_def crashes_def split: pyval.splits pyfloat.splits option.splits)

lemma tame_c_index_val [tame]: "tame (c_index_val d v)"
proof -
  have "tame (craise (KeyError s))" for s by (rule tame_craise) (simp add: crashes_def)
  then show ?thesis unfolding c_index_val_def by (intro tame)
qed

lemma tame_c_vindex [tame]: "tame (c_vindex v k)"
  unfolding c_vindex_def
  by (rule tame_lift) (simp add: vindex_def dindex_def crashes_def split: pyval.splits option.splits)

lemma tame_c_same_set [tame]: "tame (c_same_set vs ss)"
  unfolding c_same_set_def by (intro tame)

lemma tame_breakdown_parts [tame]: "tame (breakdown_parts s v keys found)"
  by (induction s v keys found rule: breakdown_parts.induct) (simp_all add: tame Let_def)

section \<open>\<open>Schema_Shared\<close>\<close>

lemma tame_amdgpu_builtin_gpu_event_label [tame]: "tame (amdgpu_builtin_gpu_event_label a b)"
  unfolding amdgpu_builtin_gpu_event_label_def by (intro tame)

lemma tame_amdgpu_builtin_deep_gpu_event_phases [tame]: "tame (amdgpu_builtin_deep_gpu_event_phases a b)"
  unfolding amdgpu_builtin_deep_gpu_event_phases_def by (intro tame)

section \<open>\<open>Schema_Predicates\<close>\<close>

lemma tame_kind_error [tame]: "tame (kind_error a b c)"
  unfolding kind_error_def by (intro tame)

lemma tame_require [tame]: "tame (require a b c)"
  unfolding require_def by (intro tame)

lemma tame_residue_chain_length [tame]: "tame (residue_chain_length a)"
  unfolding residue_chain_length_def by (intro tame)

lemma tame_validated_output_mode [tame]: "tame (validated_output_mode a)"
  unfolding validated_output_mode_def by (intro tame)

lemma tame_is_residue_current_chain_capture [tame]: "tame (is_residue_current_chain_capture a)"
  unfolding is_residue_current_chain_capture_def by (intro tame)

lemma tame_is_vector_alu_gemv_n1_capture [tame]: "tame (is_vector_alu_gemv_n1_capture a)"
  unfolding is_vector_alu_gemv_n1_capture_def by (intro tame)

lemma tame_is_vector_alu_gemv_small_n_capture [tame]: "tame (is_vector_alu_gemv_small_n_capture a)"
  unfolding is_vector_alu_gemv_small_n_capture_def by (intro tame)

lemma tame_benchmark_execution_mode [tame]: "tame (benchmark_execution_mode a)"
  unfolding benchmark_execution_mode_def by (intro tame)

lemma tame_is_bounded_oneshot_capture [tame]: "tame (is_bounded_oneshot_capture a)"
  unfolding is_bounded_oneshot_capture_def by (intro tame)

lemma tame_is_direct_hip_bounded_native_input_oneshot_capture [tame]: "tame (is_direct_hip_bounded_native_input_oneshot_capture a)"
  unfolding is_direct_hip_bounded_native_input_oneshot_capture_def by (intro tame)

lemma tame_is_direct_hip_bounded_resident_fallback_oneshot_capture [tame]: "tame (is_direct_hip_bounded_resident_fallback_oneshot_capture a)"
  unfolding is_direct_hip_bounded_resident_fallback_oneshot_capture_def by (intro tame)

lemma tame_is_finite_oneshot_capture [tame]: "tame (is_finite_oneshot_capture a)"
  unfolding is_finite_oneshot_capture_def by (intro tame)

lemma tame_is_public_oneshot_capture [tame]: "tame (is_public_oneshot_capture a)"
  unfolding is_public_oneshot_capture_def by (intro tame)

lemma tame_is_direct_hip_bounded_native_a_reuse_b_capture [tame]: "tame (is_direct_hip_bounded_native_a_reuse_b_capture a)"
  unfolding is_direct_hip_bounded_native_a_reuse_b_capture_def by (intro tame)

lemma tame_is_direct_hip_bounded_native_a_reuse_b_large_colpair [tame]: "tame (is_direct_hip_bounded_native_a_reuse_b_large_colpair a)"
  unfolding is_direct_hip_bounded_native_a_reuse_b_large_colpair_def by (intro tame)

lemma tame_is_direct_hip_bounded_uniform_small_reuse_a_capture [tame]: "tame (is_direct_hip_bounded_uniform_small_reuse_a_capture a)"
  unfolding is_direct_hip_bounded_uniform_small_reuse_a_capture_def by (intro tame)

lemma tame_is_direct_hip_bounded_uniform_small_transient_capture [tame]: "tame (is_direct_hip_bounded_uniform_small_transient_capture a)"
  unfolding is_direct_hip_bounded_uniform_small_transient_capture_def by (intro tame)

lemma tame_is_direct_hip_native_to_rns_bridge_capture [tame]: "tame (is_direct_hip_native_to_rns_bridge_capture a)"
  unfolding is_direct_hip_native_to_rns_bridge_capture_def by (intro tame)

lemma tame_is_direct_hip_vector_to_rns_chain_capture [tame]: "tame (is_direct_hip_vector_to_rns_chain_capture a)"
  unfolding is_direct_hip_vector_to_rns_chain_capture_def by (intro tame)

lemma tame_is_direct_hip_vector_to_rns_host_repack_control_capture [tame]: "tame (is_direct_hip_vector_to_rns_host_repack_control_capture a)"
  unfolding is_direct_hip_vector_to_rns_host_repack_control_capture_def by (intro tame)

lemma tame_is_direct_hip_bounded_residue_channel_fusion_capture [tame]: "tame (is_direct_hip_bounded_residue_channel_fusion_capture a)"
  unfolding is_direct_hip_bounded_residue_channel_fusion_capture_def by (intro tame)

lemma tame_is_host_api_batch_capture [tame]: "tame (is_host_api_batch_capture a)"
  unfolding is_host_api_batch_capture_def by (intro tame)

lemma tame_is_grouped_dispatch_capture [tame]: "tame (is_grouped_dispatch_capture a)"
  unfolding is_grouped_dispatch_capture_def by (intro tame)

lemma tame_is_hip_graph_replay_capture [tame]: "tame (is_hip_graph_replay_capture a)"
  unfolding is_hip_graph_replay_capture_def by (intro tame)

lemma tame_is_residue_chain_final_export_capture [tame]: "tame (is_residue_chain_final_export_capture a)"
  unfolding is_residue_chain_final_export_capture_def by (intro tame)

lemma tame_is_residue_chain_independent_final_export_capture [tame]: "tame (is_residue_chain_independent_final_export_capture a)"
  unfolding is_residue_chain_independent_final_export_capture_def by (intro tame)

lemma tame_is_direct_hip_bounded_native_b_reuse_a_large_colpair_capture [tame]: "tame (is_direct_hip_bounded_native_b_reuse_a_large_colpair_capture a)"
  unfolding is_direct_hip_bounded_native_b_reuse_a_large_colpair_capture_def by (intro tame)

lemma tame_is_direct_hip_bounded_skinny_gemv_n1_capture [tame]: "tame (is_direct_hip_bounded_skinny_gemv_n1_capture a)"
  unfolding is_direct_hip_bounded_skinny_gemv_n1_capture_def by (intro tame)

lemma tame_is_direct_hip_bounded_skinny_gemv_small_n_capture [tame]: "tame (is_direct_hip_bounded_skinny_gemv_small_n_capture a)"
  unfolding is_direct_hip_bounded_skinny_gemv_small_n_capture_def by (intro tame)

lemma tame_is_direct_hip_finite_native_a_reuse_b_capture [tame]: "tame (is_direct_hip_finite_native_a_reuse_b_capture a)"
  unfolding is_direct_hip_finite_native_a_reuse_b_capture_def by (intro tame)

section \<open>\<open>Schema_Output\<close>\<close>

lemma tame_validate_output_layout_metadata [tame]: "tame (validate_output_layout_metadata a b)"
  unfolding validate_output_layout_metadata_def by (intro tame)

section \<open>\<open>Schema_Contract\<close>\<close>

lemma tame_unknown_parts [tame]: "tame (unknown_parts a b)"
  unfolding unknown_parts_def by (intro tame)

lemma tame_setup_breakdown [tame]: "tame (setup_breakdown a b c d f)"
  unfolding setup_breakdown_def by (intro tame)

lemma tame_validate_setup_breakdown [tame]: "tame (validate_setup_breakdown a b c d)"
  unfolding validate_setup_breakdown_def by (intro tame)

lemma tame_validate_prepack_setup_breakdown [tame]: "tame (validate_prepack_setup_breakdown a b c d)"
  unfolding validate_prepack_setup_breakdown_def by (intro tame)

lemma tame_validate_counter_snapshot [tame]: "tame (validate_counter_snapshot a b c)"
  unfolding validate_counter_snapshot_def by (intro tame)

lemma tame_check_prepack_cache_key [tame]: "tame (check_prepack_cache_key a b c)"
  unfolding check_prepack_cache_key_def by (intro tame)

lemma tame_check_runtime_prepack_cache [tame]: "tame (check_runtime_prepack_cache a b)"
  unfolding check_runtime_prepack_cache_def by (intro tame)

lemma tame_check_reuse_contract [tame]: "tame (check_reuse_contract a)"
  unfolding check_reuse_contract_def by (intro tame)

lemma tame_check_exact_output_contract [tame]: "tame (check_exact_output_contract a)"
  unfolding check_exact_output_contract_def by (intro tame)

lemma tame_check_export_variant [tame]: "tame (check_export_variant a)"
  unfolding check_export_variant_def by (intro tame)

lemma tame_check_reconstruction_variant [tame]: "tame (check_reconstruction_variant a)"
  unfolding check_reconstruction_variant_def by (intro tame)

lemma tame_check_modulus_set [tame]: "tame (check_modulus_set a)"
  unfolding check_modulus_set_def by (intro tame)

lemma tame_check_residue_count_policy [tame]: "tame (check_residue_count_policy a)"
  unfolding check_residue_count_policy_def by (intro tame)

lemma tame_check_tile_shape_variant [tame]: "tame (check_tile_shape_variant a)"
  unfolding check_tile_shape_variant_def by (intro tame)

lemma tame_check_task_buckets [tame]: "tame (check_task_buckets a b)"
  unfolding check_task_buckets_def by (intro tame)

lemma tame_check_task_descriptor [tame]: "tame (check_task_descriptor a b)"
  unfolding check_task_descriptor_def by (intro tame)

lemma tame_check_grouped_dispatch [tame]: "tame (check_grouped_dispatch a)"
  unfolding check_grouped_dispatch_def by (intro tame)

lemma tame_check_graph_replay [tame]: "tame (check_graph_replay a)"
  unfolding check_graph_replay_def by (intro tame)

lemma tame_check_requested_scheduler [tame]: "tame (check_requested_scheduler a b)"
  unfolding check_requested_scheduler_def by (intro tame)

lemma tame_check_adaptive_scheduler [tame]: "tame (check_adaptive_scheduler a)"
  unfolding check_adaptive_scheduler_def by (intro tame)

lemma tame_check_resident_redesign [tame]: "tame (check_resident_redesign a)"
  unfolding check_resident_redesign_def by (intro tame)

lemma tame_check_resident_lifetime [tame]: "tame (check_resident_lifetime a)"
  unfolding check_resident_lifetime_def by (intro tame)

lemma tame_check_workspace_arena [tame]: "tame (check_workspace_arena a)"
  unfolding check_workspace_arena_def by (intro tame)

lemma tame_check_streaming_overlap [tame]: "tame (check_streaming_overlap a)"
  unfolding check_streaming_overlap_def by (intro tame)

lemma tame_check_workload_proxy [tame]: "tame (check_workload_proxy a)"
  unfolding check_workload_proxy_def by (intro tame)

lemma tame_check_release_gate [tame]: "tame (check_release_gate a)"
  unfolding check_release_gate_def by (intro tame)

lemma tame_check_verification_amortization [tame]: "tame (check_verification_amortization a)"
  unfolding check_verification_amortization_def by (intro tame)

lemma tame_check_error_detection [tame]: "tame (check_error_detection a)"
  unfolding check_error_detection_def by (intro tame)

lemma tame_check_cpu_selector [tame]: "tame (check_cpu_selector a)"
  unfolding check_cpu_selector_def by (intro tame)

lemma tame_check_enabled_cache [tame]: "tame (check_enabled_cache a b)"
  unfolding check_enabled_cache_def by (intro tame)

lemma tame_check_incremental_cache [tame]: "tame (check_incremental_cache a)"
  unfolding check_incremental_cache_def by (intro tame)

lemma tame_validate_contract_metadata [tame]: "tame (validate_contract_metadata a)"
  unfolding validate_contract_metadata_def by (intro tame)

section \<open>\<open>Schema_Modes\<close>\<close>

lemma tame_require_graph_full_path_phase_metadata [tame]: "tame (require_graph_full_path_phase_metadata a b c d)"
  unfolding require_graph_full_path_phase_metadata_def by (intro tame)

lemma tame_grouped_export_checks [tame]: "tame (grouped_export_checks a b c d)"
  unfolding grouped_export_checks_def by (intro tame)

lemma tame_grouped_bucket_checks [tame]: "tame (grouped_bucket_checks a b c d f g h)"
  unfolding grouped_bucket_checks_def by (intro tame)

lemma tame_grouped_descriptor_checks [tame]: "tame (grouped_descriptor_checks a b c d)"
  unfolding grouped_descriptor_checks_def by (intro tame)

lemma tame_grouped_capture_checks [tame]: "tame (grouped_capture_checks a b c d)"
  unfolding grouped_capture_checks_def by (intro tame)

lemma tame_validate_grouped_dispatch_metadata [tame]: "tame (validate_grouped_dispatch_metadata a)"
  unfolding validate_grouped_dispatch_metadata_def by (intro tame)

lemma tame_validate_host_api_batch_metadata [tame]: "tame (validate_host_api_batch_metadata a)"
  unfolding validate_host_api_batch_metadata_def by (intro tame)

lemma tame_graph_benchmark_checks [tame]: "tame (graph_benchmark_checks a b c d f g)"
  unfolding graph_benchmark_checks_def by (intro tame)

lemma tame_graph_wrap64_mode_checks [tame]: "tame (graph_wrap64_mode_checks a b c d f g)"
  unfolding graph_wrap64_mode_checks_def by (intro tame)

lemma tame_graph_wide_mode_checks [tame]: "tame (graph_wide_mode_checks a b c d f g h)"
  unfolding graph_wide_mode_checks_def by (intro tame)

lemma tame_graph_finite_mode_checks [tame]: "tame (graph_finite_mode_checks a b c d f g h i)"
  unfolding graph_finite_mode_checks_def by (intro tame)

lemma tame_graph_full_mode_checks [tame]: "tame (graph_full_mode_checks a b c d f g h i j)"
  unfolding graph_full_mode_checks_def by (intro tame)

lemma tame_graph_mode_checks [tame]: "tame (graph_mode_checks a b c d f g h i j k)"
  unfolding graph_mode_checks_def by (intro tame)

lemma tame_validate_hip_graph_replay_metadata [tame]: "tame (validate_hip_graph_replay_metadata a)"
  unfolding validate_hip_graph_replay_metadata_def by (intro tame)

section \<open>\<open>Schema_Backend\<close>\<close>

lemma tame_semantics_are_finite_u8 [tame]: "tame (semantics_are_finite_u8 a)"
  unfolding semantics_are_finite_u8_def by (intro tame)

lemma tame_builtin_allowed_selected_kernels [tame]: "tame (builtin_allowed_selected_kernels a)"
  unfolding builtin_allowed_selected_kernels_def by (intro tame)

lemma tame_amdgpu_builtin_matrix_a_value_contract [tame]: "tame (amdgpu_builtin_matrix_a_value_contract a b)"
  unfolding amdgpu_builtin_matrix_a_value_contract_def by (intro tame)

lemma tame_amdgpu_builtin_matrix_b_value_contract [tame]: "tame (amdgpu_builtin_matrix_b_value_contract a b)"
  unfolding amdgpu_builtin_matrix_b_value_contract_def by (intro tame)

lemma tame_correctness_backend_checks [tame]: "tame (correctness_backend_checks a b c)"
  unfolding correctness_backend_checks_def by (intro tame)

lemma tame_hipblaslt_checks [tame]: "tame (hipblaslt_checks a b c)"
  unfolding hipblaslt_checks_def by (intro tame)

lemma tame_vector_alu_checks [tame]: "tame (vector_alu_checks a b c)"
  unfolding vector_alu_checks_def by (intro tame)

lemma tame_amdgpu_builtin_checks [tame]: "tame (amdgpu_builtin_checks a b c)"
  unfolding amdgpu_builtin_checks_def by (intro tame)

lemma tame_validate_backend_metadata [tame]: "tame (validate_backend_metadata a)"
  unfolding validate_backend_metadata_def by (intro tame)

section \<open>\<open>Schema_Helper\<close>\<close>

lemma tame_helper_timing_checks [tame]: "tame (helper_timing_checks a)"
  unfolding helper_timing_checks_def by (intro tame)

lemma tame_plan_packing_checks [tame]: "tame (plan_packing_checks a)"
  unfolding plan_packing_checks_def by (intro tame)

lemma tame_plan_lowering_checks [tame]: "tame (plan_lowering_checks a)"
  unfolding plan_lowering_checks_def by (intro tame)

lemma tame_output_policy_checks [tame]: "tame (output_policy_checks a b)"
  unfolding output_policy_checks_def by (intro tame)

lemma tame_residue_current_checks [tame]: "tame (residue_current_checks a b c)"
  unfolding residue_current_checks_def by (intro tame)

lemma tame_chain_final_export_checks [tame]: "tame (chain_final_export_checks a b c)"
  unfolding chain_final_export_checks_def by (intro tame)

lemma tame_target_variant_checks [tame]: "tame (target_variant_checks a b)"
  unfolding target_variant_checks_def by (intro tame)

lemma tame_auto_selector_checks [tame]: "tame (auto_selector_checks a b)"
  unfolding auto_selector_checks_def by (intro tame)

lemma tame_device_allocation_checks [tame]: "tame (device_allocation_checks a b)"
  unfolding device_allocation_checks_def by (intro tame)

lemma tame_validate_helper_lane_metadata [tame]: "tame (validate_helper_lane_metadata a)"
  unfolding validate_helper_lane_metadata_def by (intro tame)

section \<open>\<open>Schema_Schedule\<close>\<close>

lemma tame_validate_phase_availability [tame]: "tame (validate_phase_availability a b)"
  unfolding validate_phase_availability_def by (intro tame)

lemma tame_validate_tile_value [tame]: "tame (validate_tile_value a b c)"
  unfolding validate_tile_value_def by (intro tame)

lemma tame_row_col_count_checks [tame]: "tame (row_col_count_checks a b c d f g h i j)"
  unfolding row_col_count_checks_def by (intro tame)

lemma tame_validate_schedule_metadata [tame]: "tame (validate_schedule_metadata a)"
  unfolding validate_schedule_metadata_def by (intro tame)

lemma tame_validate_bound_discovery_metadata [tame]: "tame (validate_bound_discovery_metadata a)"
  unfolding validate_bound_discovery_metadata_def by (intro tame)

lemma tame_validate_prefix_policy_metadata [tame]: "tame (validate_prefix_policy_metadata a)"
  unfolding validate_prefix_policy_metadata_def by (intro tame)

lemma tame_validate_v4_tile_bounds [tame]: "tame (validate_v4_tile_bounds a b c)"
  unfolding validate_v4_tile_bounds_def by (intro tame)

lemma tame_adaptive_kernel_checks [tame]: "tame (adaptive_kernel_checks a b c)"
  unfolding adaptive_kernel_checks_def by (intro tame)

lemma tame_adaptive_event_scope_checks [tame]: "tame (adaptive_event_scope_checks a)"
  unfolding adaptive_event_scope_checks_def by (intro tame)

lemma tame_adaptive_backend_checks [tame]: "tame (adaptive_backend_checks a)"
  unfolding adaptive_backend_checks_def by (intro tame)

lemma tame_validate_v4_adaptive_schedule [tame]: "tame (validate_v4_adaptive_schedule a b c)"
  unfolding validate_v4_adaptive_schedule_def by (intro tame)

section \<open>\<open>Schema_Semantics\<close>\<close>

lemma tame_bounded_hip_oneshot_checks [tame]: "tame (bounded_hip_oneshot_checks a b)"
  unfolding bounded_hip_oneshot_checks_def by (intro tame)

lemma tame_bounded_oneshot_checks [tame]: "tame (bounded_oneshot_checks a b c d f g)"
  unfolding bounded_oneshot_checks_def by (intro tame)

lemma tame_native_a_reuse_b_checks [tame]: "tame (native_a_reuse_b_checks a b c d f g h)"
  unfolding native_a_reuse_b_checks_def by (intro tame)

lemma tame_uniform_small_reuse_a_checks [tame]: "tame (uniform_small_reuse_a_checks a b c d f g)"
  unfolding uniform_small_reuse_a_checks_def by (intro tame)

lemma tame_channel_fusion_checks [tame]: "tame (channel_fusion_checks a b c d f g)"
  unfolding channel_fusion_checks_def by (intro tame)

lemma tame_uniform_small_transient_checks [tame]: "tame (uniform_small_transient_checks a b c d f g)"
  unfolding uniform_small_transient_checks_def by (intro tame)

lemma tame_native_b_reuse_a_checks [tame]: "tame (native_b_reuse_a_checks a b c d f g)"
  unfolding native_b_reuse_a_checks_def by (intro tame)

lemma tame_gemv_n1_checks [tame]: "tame (gemv_n1_checks a b c d f g)"
  unfolding gemv_n1_checks_def by (intro tame)

lemma tame_gemv_small_n_checks [tame]: "tame (gemv_small_n_checks a b c d f g)"
  unfolding gemv_small_n_checks_def by (intro tame)

lemma tame_vector_gemv_n1_checks [tame]: "tame (vector_gemv_n1_checks a)"
  unfolding vector_gemv_n1_checks_def by (intro tame)

lemma tame_vector_gemv_small_n_checks [tame]: "tame (vector_gemv_small_n_checks a)"
  unfolding vector_gemv_small_n_checks_def by (intro tame)

lemma tame_native_bridge_checks [tame]: "tame (native_bridge_checks a)"
  unfolding native_bridge_checks_def by (intro tame)

lemma tame_vector_chain_checks [tame]: "tame (vector_chain_checks a)"
  unfolding vector_chain_checks_def by (intro tame)

lemma tame_overlap_capture_checks [tame]: "tame (overlap_capture_checks a b c d f)"
  unfolding overlap_capture_checks_def by (intro tame)

lemma tame_bounded_chain_checks [tame]: "tame (bounded_chain_checks a b c d f)"
  unfolding bounded_chain_checks_def by (intro tame)

lemma tame_bound_mode_checks [tame]: "tame (bound_mode_checks a b c d f g h i j)"
  unfolding bound_mode_checks_def by (intro tame)

lemma tame_validate_bounded_contract [tame]: "tame (validate_bounded_contract a b)"
  unfolding validate_bounded_contract_def by (intro tame)

lemma tame_wide_chain_checks [tame]: "tame (wide_chain_checks a b c d)"
  unfolding wide_chain_checks_def by (intro tame)

lemma tame_wide_limb_checks [tame]: "tame (wide_limb_checks a b c d)"
  unfolding wide_limb_checks_def by (intro tame)

lemma tame_wide_backend_checks [tame]: "tame (wide_backend_checks a b)"
  unfolding wide_backend_checks_def by (intro tame)

lemma tame_validate_exact_wide_contract [tame]: "tame (validate_exact_wide_contract a b)"
  unfolding validate_exact_wide_contract_def by (intro tame)

lemma tame_finite_oneshot_checks [tame]: "tame (finite_oneshot_checks a b)"
  unfolding finite_oneshot_checks_def by (intro tame)

lemma tame_finite_kernel_checks [tame]: "tame (finite_kernel_checks a b c d)"
  unfolding finite_kernel_checks_def by (intro tame)

lemma tame_finite_event_checks [tame]: "tame (finite_event_checks a b c)"
  unfolding finite_event_checks_def by (intro tame)

lemma tame_validate_finite_u8_contract [tame]: "tame (validate_finite_u8_contract a b)"
  unfolding validate_finite_u8_contract_def by (intro tame)

lemma tame_validate_wrap64_contract [tame]: "tame (validate_wrap64_contract a b)"
  unfolding validate_wrap64_contract_def by (intro tame)

lemma tame_validate_semantic_contract [tame]: "tame (validate_semantic_contract a)"
  unfolding validate_semantic_contract_def by (intro tame)

section \<open>\<open>Schema_Timing\<close>\<close>

lemma tame_validate_pack_reuse_fields [tame]: "tame (validate_pack_reuse_fields a b)"
  unfolding validate_pack_reuse_fields_def by (intro tame)

lemma tame_validate_residue_current_timings [tame]: "tame (validate_residue_current_timings a b)"
  unfolding validate_residue_current_timings_def by (intro tame)

lemma tame_validate_bounded_oneshot_timings [tame]: "tame (validate_bounded_oneshot_timings a b)"
  unfolding validate_bounded_oneshot_timings_def by (intro tame)

lemma tame_is_all_zero_direct_hip_adaptive_capture [tame]: "tame (is_all_zero_direct_hip_adaptive_capture a)"
  unfolding is_all_zero_direct_hip_adaptive_capture_def by (intro tame)

lemma tame_validate_all_zero_direct_hip_adaptive_timings [tame]: "tame (validate_all_zero_direct_hip_adaptive_timings a b)"
  unfolding validate_all_zero_direct_hip_adaptive_timings_def by (intro tame)

lemma tame_validate_raw_timings [tame]: "tame (validate_raw_timings a)"
  unfolding validate_raw_timings_def by (intro tame)

lemma tame_validate_timing_summaries [tame]: "tame (validate_timing_summaries a b c d)"
  unfolding validate_timing_summaries_def by (intro tame)

lemma tame_validate_top_level_averages [tame]: "tame (validate_top_level_averages a b)"
  unfolding validate_top_level_averages_def by (intro tame)

lemma tame_gpu_event_selected_prefix_count [tame]: "tame (gpu_event_selected_prefix_count a)"
  unfolding gpu_event_selected_prefix_count_def by (intro tame)

lemma tame_expected_builtin_event_phases [tame]: "tame (expected_builtin_event_phases a)"
  unfolding expected_builtin_event_phases_def by (intro tame)

lemma tame_expected_accelerator_deep_gpu_event_phases [tame]: "tame (expected_accelerator_deep_gpu_event_phases a)"
  unfolding expected_accelerator_deep_gpu_event_phases_def by (intro tame)

section \<open>\<open>Schema_Events\<close>\<close>

lemma tame_gpu_event_phases [tame]: "tame (gpu_event_phases a b)"
  unfolding gpu_event_phases_def by (intro tame)

lemma tame_finite_oneshot_event_phases [tame]: "tame (finite_oneshot_event_phases a b)"
  unfolding finite_oneshot_event_phases_def by (intro tame)

lemma tame_bounded_oneshot_event_phases [tame]: "tame (bounded_oneshot_event_phases a b)"
  unfolding bounded_oneshot_event_phases_def by (intro tame)

lemma tame_resident_fallback_event_phases [tame]: "tame (resident_fallback_event_phases a b)"
  unfolding resident_fallback_event_phases_def by (intro tame)

lemma tame_channel_fusion_event_phases [tame]: "tame (channel_fusion_event_phases a b)"
  unfolding channel_fusion_event_phases_def by (intro tame)

lemma tame_uniform_transient_event_phases [tame]: "tame (uniform_transient_event_phases a b)"
  unfolding uniform_transient_event_phases_def by (intro tame)

lemma tame_overlap_event_phases [tame]: "tame (overlap_event_phases a b)"
  unfolding overlap_event_phases_def by (intro tame)

lemma tame_native_a_event_phases [tame]: "tame (native_a_event_phases a b)"
  unfolding native_a_event_phases_def by (intro tame)

lemma tame_uniform_reuse_a_event_phases [tame]: "tame (uniform_reuse_a_event_phases a b)"
  unfolding uniform_reuse_a_event_phases_def by (intro tame)

lemma tame_native_b_event_phases [tame]: "tame (native_b_event_phases a b)"
  unfolding native_b_event_phases_def by (intro tame)

lemma tame_gemv_n1_event_phases [tame]: "tame (gemv_n1_event_phases a b)"
  unfolding gemv_n1_event_phases_def by (intro tame)

lemma tame_gemv_small_n_event_phases [tame]: "tame (gemv_small_n_event_phases a b)"
  unfolding gemv_small_n_event_phases_def by (intro tame)

lemma tame_native_bridge_event_phases [tame]: "tame (native_bridge_event_phases a b)"
  unfolding native_bridge_event_phases_def by (intro tame)

lemma tame_vector_chain_event_phases [tame]: "tame (vector_chain_event_phases a b)"
  unfolding vector_chain_event_phases_def by (intro tame)

lemma tame_wrap64_event_phases [tame]: "tame (wrap64_event_phases a b)"
  unfolding wrap64_event_phases_def by (intro tame)

lemma tame_vector_event_phases [tame]: "tame (vector_event_phases a b)"
  unfolding vector_event_phases_def by (intro tame)

lemma tame_validate_expected_gpu_event_phases [tame]: "tame (validate_expected_gpu_event_phases a b c)"
  unfolding validate_expected_gpu_event_phases_def by (intro tame)

lemma tame_expected_status_event_labels [tame]: "tame (expected_status_event_labels a)"
  unfolding expected_status_event_labels_def by (intro tame)

lemma tame_validate_status_event_consistency [tame]: "tame (validate_status_event_consistency a b c)"
  unfolding validate_status_event_consistency_def by (intro tame)

lemma tame_validate_gpu_events [tame]: "tame (validate_gpu_events a)"
  unfolding validate_gpu_events_def by (intro tame)

section \<open>\<open>Schema_Base\<close>\<close>

lemma tame_expected_accumulator_contract [tame]: "tame (expected_accumulator_contract a)"
  unfolding expected_accumulator_contract_def by (intro tame)

lemma tame_validate_accumulator_safety [tame]: "tame (validate_accumulator_safety a b)"
  unfolding validate_accumulator_safety_def by (intro tame)

lemma tame_validate_nonnegative_ints [tame]: "tame (validate_nonnegative_ints a)"
  unfolding validate_nonnegative_ints_def by (intro tame)

lemma tame_validate_hip_toolchain [tame]: "tame (validate_hip_toolchain a)"
  unfolding validate_hip_toolchain_def by (intro tame)

lemma tame_validate_nested_metadata [tame]: "tame (validate_nested_metadata a)"
  unfolding validate_nested_metadata_def by (intro tame)

lemma tame_ck_capture_checks [tame]: "tame (ck_capture_checks a b c)"
  unfolding ck_capture_checks_def by (intro tame)

lemma tame_rocwmma_capture_checks [tame]: "tame (rocwmma_capture_checks a b c)"
  unfolding rocwmma_capture_checks_def by (intro tame)

lemma tame_validate_comparison_baseline [tame]: "tame (validate_comparison_baseline a)"
  unfolding validate_comparison_baseline_def by (intro tame)

lemma tame_validate_v4 [tame]: "tame (validate_v4 a)"
  unfolding validate_v4_def by (intro tame)

section \<open>The validator\<close>

lemma tame_validate_document: "tame (validate_document data)"
  unfolding validate_document_def by (intro tame)


end
