(* ===== verification/Schema_Accept.thy ===== *)
theory Schema_Accept
  imports Schema_Raises Modulus_Search "HOL-Library.Word" "HOL-Library.While_Combinator"
begin

text \<open>
  What acceptance proves. \<open>accepted_parts\<close> takes an accepted capture apart into the checks of
  \<open>_validate_v4\<close>, the lemmas after it read the fields off one check each, and the properties say what
  the fields mean for the computation that was measured.
\<close>

section \<open>The checks of an accepted capture\<close>

lemma int_value_iff: "is_int_value v \<longleftrightarrow> (\<exists>n. v = PInt n)"
  by (cases v) (simp_all add: is_int_value_def)

lemma True_iff: "is_True v \<longleftrightarrow> v = PBool True"
  by (cases v) (simp_all add: is_True_def)

lemma py_eq_PInt: "py_eq (PInt a) (PInt b) \<longleftrightarrow> a = b"
  by (simp add: flt_eq_def)

lemma accepted_iff:
  "validation_errors data p = Inr [] \<longleftrightarrow>
   map_of data ''schema_version'' = Some (PInt SCHEMA_VERSION) \<and> ok (validate_v4 data)"
proof -
  have "validation_errors data p = Inr [] \<longleftrightarrow> ok (validate_document data)"
    by (auto simp: validation_errors_def ok_def split: sum.splits prod.splits)
  also have "\<dots> \<longleftrightarrow> map_of data ''schema_version'' = Some (PInt SCHEMA_VERSION) \<and> ok (validate_v4 data)"
    by (auto simp: validate_document_def int_value_iff split: option.splits)
  finally show ?thesis .
qed

lemma accepted_v4: "validation_errors data p = Inr [] \<Longrightarrow> ok (validate_v4 data)"
  by (simp add: accepted_iff)

lemmas checks = ok_cseq list.set ball_simps Let_def simp_thms

lemma accepted_parts:
  assumes "validation_errors data p = Inr []"
  shows accepted_ints: "ok (validate_nonnegative_ints data)"
    and accepted_baseline: "ok (validate_comparison_baseline data)"
    and accepted_schedule: "ok (validate_schedule_metadata data)"
    and accepted_semantics: "ok (validate_semantic_contract data)"
  using accepted_v4 [OF assms] by (simp_all only: validate_v4_def checks)

lemma ok_cvoid: "ok (cvoid m) \<longleftrightarrow> ok m"
  by (auto simp: cvoid_def cmap_def ok_cbind ok_iff [of m])

lemma require_dict:
  "require data key ''dict'' = cret x \<Longrightarrow> x = dget data key \<and> is_dict x"
  by (auto simp: require_def kind_error_def cthen_def cbind_def whenp_def report_def cret_def skip_def split: if_splits)

lemma accepted_int_fields:
  assumes "validation_errors data p = Inr []"
    and "key \<in> {''bound'', ''m'', ''n'', ''k'', ''prefix'', ''tile_m'', ''tile_n'', ''k_block_size'', ''seed'',
      ''warmups'', ''repeats'', ''checksum_u64''}"
  shows "\<exists>i. dget data key = PInt i"
proof -
  have "ok (cfor [''bound'', ''m'', ''n'', ''k'', ''prefix'', ''tile_m'', ''tile_n'', ''k_block_size'', ''seed'',
      ''warmups'', ''repeats'', ''checksum_u64''] (\<lambda>key. cvoid (require data key ''int'')))"
    using accepted_v4 [OF assms(1)] by (simp only: validate_v4_def checks)
  then have "ok (cvoid (require data key ''int''))" using assms(2) unfolding ok_cfor by auto
  then have "ok (require data key ''int'')" by (simp only: ok_cvoid)
  then show ?thesis by (auto simp: require_def kind_error_def ok_cthen ok_whenp int_value_iff split: if_splits)
qed

lemma accepted_positive:
  assumes "validation_errors data p = Inr []" and "key \<in> {''m'', ''n'', ''k''}"
  shows "\<exists>i > 0. dget data key = PInt i"
proof -
  have "\<exists>i. dget data key = PInt i" using accepted_int_fields [OF assms(1), of key] assms(2) by auto
  moreover have "ok (whenp (is_int_value (dget data key) \<and> int_of (dget data key) \<le> 0) (report (key @ '' must be positive'')))"
    using accepted_ints [OF assms(1)] assms(2) by (simp only: validate_nonnegative_ints_def ok_cfor checks) blast
  ultimately show ?thesis by (auto simp: ok_whenp int_value_iff)
qed

section \<open>Accumulators\<close>

lemma accepted_safety:
  assumes "validation_errors data p = Inr []"
  shows "ok (validate_accumulator_safety data (items_of (dget data ''backend_metadata'')))"
proof -
  obtain baseline where baseline: "require data ''comparison_baseline'' ''dict'' = cret baseline"
    using accepted_baseline [OF assms] unfolding validate_comparison_baseline_def ok_cbind by blast
  then have dict: "is_dict baseline" using require_dict by blast
  have items: "(if is_dict v then items_of v else []) = items_of v" for v by (cases v) simp_all
  from accepted_baseline [OF assms] show ?thesis
    unfolding validate_comparison_baseline_def baseline cbind_cret ok_whenp Let_def items
    using dict by (simp only: checks)
qed

lemma safety_ints:
  assumes "ok (validate_accumulator_safety data meta)"
    and "key \<in> {''k_block_size'', ''k_block_cap'', ''modulus'', ''max_lhs_abs'', ''max_rhs_abs'', ''max_product''}"
  shows "\<exists>i \<ge> 0. vget (dget meta ''accumulator_safety'') key = PInt i"
proof -
  have dict: "is_dict (dget meta ''accumulator_safety'')"
    using assms(1) by (rule contrapos_pp) (simp add: validate_accumulator_safety_def Let_def)
  have "ok (cfor [''k_block_size'', ''k_block_cap'', ''modulus'', ''max_lhs_abs'', ''max_rhs_abs'', ''max_product'']
    (\<lambda>key. let value = vget (dget meta ''accumulator_safety'') key in
       whenp (\<not> is_int_value value \<or> int_of value < 0)
         (report (''backend_metadata.accumulator_safety.'' @ key @ '' must be a nonnegative integer''))))"
    using assms(1) dict by (simp only: validate_accumulator_safety_def if_False checks)
  then show ?thesis using assms(2) unfolding ok_cfor by (auto simp: ok_whenp int_value_iff Let_def)
qed

lemma safety_contract:
  assumes ok: "ok (validate_accumulator_safety data meta)"
    and int32: "vget (dget meta ''accumulator_safety'') ''uses_int32_inner_product'' = PBool True"
  defines "safety \<equiv> dget meta ''accumulator_safety''"
  shows "py_eq (dget data ''k_block_size'') (vget safety ''k_block_size'')"
    and "int_of (vget safety ''max_product'') = int_of (vget safety ''max_lhs_abs'') * int_of (vget safety ''max_rhs_abs'')"
    and "0 < int_of (vget safety ''k_block_size'') \<Longrightarrow>
      int_of (vget safety ''max_product'') * int_of (vget safety ''k_block_size'') \<le> INT32_MAX"
proof -
  have dict: "is_dict safety"
    using ok unfolding safety_def by (rule contrapos_pp) (simp add: validate_accumulator_safety_def Let_def)
  obtain expected where expected: "expected_accumulator_contract data = cret expected"
    using ok dict unfolding safety_def
    by (simp only: validate_accumulator_safety_def if_False ok_cbind checks) blast
  obtain k where k: "vget safety ''k_block_size'' = PInt k"
    using safety_ints [OF ok, of "''k_block_size''"] by (auto simp: safety_def)
  obtain lhs where lhs: "vget safety ''max_lhs_abs'' = PInt lhs"
    using safety_ints [OF ok, of "''max_lhs_abs''"] by (auto simp: safety_def)
  obtain rhs where rhs: "vget safety ''max_rhs_abs'' = PInt rhs"
    using safety_ints [OF ok, of "''max_rhs_abs''"] by (auto simp: safety_def)
  obtain prod where prod: "vget safety ''max_product'' = PInt prod"
    using safety_ints [OF ok, of "''max_product''"] by (auto simp: safety_def)
  have mul: "c_mul (PInt lhs) (PInt rhs) = cret (PInt (lhs * rhs))" by simp
  note body = ok [unfolded validate_accumulator_safety_def Let_def expected cbind_cret, folded safety_def]
  have "is_True (vget safety ''uses_int32_inner_product'')" using int32 by (simp add: safety_def True_iff)
  then have body: "py_eq (dget data ''k_block_size'') (vget safety ''k_block_size'')"
    "ok (cwhen (cmap (\<lambda>x. \<not> py_eq (vget safety ''max_product'') x)
        (c_mul (vget safety ''max_lhs_abs'') (vget safety ''max_rhs_abs'')))
        (report ''backend_metadata.accumulator_safety.max_product must equal max_lhs_abs*max_rhs_abs''))"
    "ok (whenp (is_int_value (vget safety ''k_block_size'') \<and> is_int_value (vget safety ''max_product'') \<and>
        0 < int_of (vget safety ''k_block_size''))
        (whenp (INT32_MAX < int_of (vget safety ''max_product'') * int_of (vget safety ''k_block_size''))
          (report ''int32 accumulator contract exceeds int32 range'')))"
    using body dict by (simp_all only: if_False if_True checks ok_whenp ok_report) blast+
  show "py_eq (dget data ''k_block_size'') (vget safety ''k_block_size'')" by (fact body(1))
  show "int_of (vget safety ''max_product'') = int_of (vget safety ''max_lhs_abs'') * int_of (vget safety ''max_rhs_abs'')"
    using body(2) by (simp add: lhs rhs prod ok_whenp py_eq_PInt del: py_eq.simps)
  show "0 < int_of (vget safety ''k_block_size'') \<Longrightarrow>
      int_of (vget safety ''max_product'') * int_of (vget safety ''k_block_size'') \<le> INT32_MAX"
    using body(3) by (simp add: k prod int_value_iff ok_whenp)
qed

lemma dot_bound:
  assumes "length xs \<le> k" "\<forall>(x, y) \<in> set xs. \<bar>x\<bar> \<le> a \<and> \<bar>y\<bar> \<le> b" "0 \<le> a" "0 \<le> (b::int)"
  shows "\<bar>\<Sum>(x, y) \<leftarrow> xs. x * y\<bar> \<le> a * b * int k"
proof -
  have "\<bar>\<Sum>(x, y) \<leftarrow> xs. x * y\<bar> \<le> a * b * int (length xs)"
    using assms(2)
  proof (induction xs)
    case (Cons xy xs)
    obtain x y where xy: "xy = (x, y)" by force
    have "\<bar>x * y\<bar> \<le> a * b" using Cons.prems xy assms(3) by (auto simp: abs_mult intro: mult_mono)
    with Cons xy show ?case by (simp add: algebra_simps)
  qed simp
  also have "\<dots> \<le> a * b * int k" using assms by (intro mult_left_mono) simp_all
  finally show ?thesis .
qed

lemma word_dot: "(\<Sum>(x, y) \<leftarrow> xs. word_of_int x * word_of_int y) = (word_of_int (\<Sum>(x, y) \<leftarrow> xs. x * y) :: 'a::len word)"
  by (induction xs) (auto simp: wi_hom_syms)

text \<open>C30: An accepted capture whose kernel accumulates in 32 bits never overflows: for every block of at
  most \<open>k_block_size\<close> pairs of operands within the recorded bounds, the inner product computed in 32-bit
  words is the exact one.\<close>

theorem accepted_accumulator_exact:
  fixes xs :: "(int \<times> int) list"
  assumes "validation_errors data p = Inr []"
    and "vget (vget (dget data ''backend_metadata'') ''accumulator_safety'') ''uses_int32_inner_product'' = PBool True"
    and "int (length xs) \<le> int_of (dget data ''k_block_size'')"
    and "\<forall>(x, y) \<in> set xs.
      \<bar>x\<bar> \<le> int_of (vget (vget (dget data ''backend_metadata'') ''accumulator_safety'') ''max_lhs_abs'') \<and>
      \<bar>y\<bar> \<le> int_of (vget (vget (dget data ''backend_metadata'') ''accumulator_safety'') ''max_rhs_abs'')"
  shows "sint (\<Sum>(x, y) \<leftarrow> xs. word_of_int x * word_of_int y :: 32 word) = (\<Sum>(x, y) \<leftarrow> xs. x * y)"
proof -
  let ?safety = "vget (dget data ''backend_metadata'') ''accumulator_safety''"
  note ok = accepted_safety [OF assms(1)]
  note contract = safety_contract [OF ok, folded vget_def, OF assms(2)]
  note ints = safety_ints [OF ok, folded vget_def]
  obtain k where k: "vget ?safety ''k_block_size'' = PInt k" "0 \<le> k" using ints [of "''k_block_size''"] by auto
  obtain a where a: "vget ?safety ''max_lhs_abs'' = PInt a" "0 \<le> a" using ints [of "''max_lhs_abs''"] by auto
  obtain b where b: "vget ?safety ''max_rhs_abs'' = PInt b" "0 \<le> b" using ints [of "''max_rhs_abs''"] by auto
  have "dget data ''k_block_size'' = PInt k"
    using contract(1) accepted_int_fields [OF assms(1), of "''k_block_size''"] k
    by (auto simp: py_eq_PInt simp del: py_eq.simps)
  then have "\<bar>\<Sum>(x, y) \<leftarrow> xs. x * y\<bar> \<le> a * b * int (nat k)"
    using assms(3,4) a b k by (intro dot_bound) auto
  moreover have "a * b * int (nat k) \<le> INT32_MAX"
    using contract(2,3) a b k by (cases "k = 0") (simp_all add: INT32_MAX_def)
  ultimately have "\<bar>\<Sum>(x, y) \<leftarrow> xs. x * y\<bar> \<le> 2147483647" by (simp add: INT32_MAX_def)
  then show ?thesis by (simp add: word_dot int_word_sint)
qed

section \<open>Tiles\<close>

lemma power_of_two_tile:
  fixes v :: int
  assumes "64 \<le> v" "v \<le> 512" "and v (v - 1) = 0"
  shows "v \<in> {64, 128, 256, 512}"
proof -
  have "list_all (\<lambda>v. and v (v - 1) = 0 \<longrightarrow> v \<in> {64, 128, 256, 512::int}) [64..512]" by code_simp
  moreover have "v \<in> set [64..512]" using assms by (simp only: set_upto atLeastAtMost_iff)
  ultimately show ?thesis using assms(3) unfolding list_all_iff by blast
qed

lemma accepted_tile:
  assumes "ok (validate_tile_value data key v)"
  shows "v \<in> PInt ` (if is_wrap64_rocwmma_candidate data then {16} else {64, 128, 256, 512})"
proof -
  obtain i where i: "v = PInt i" using assms by (auto simp: validate_tile_value_def int_value_iff split: if_splits)
  show ?thesis
  proof (cases "is_wrap64_rocwmma_candidate data")
    case True
    then show ?thesis using assms i by (auto simp: validate_tile_value_def ok_whenp int_value_iff flt_eq_def)
  next
    case False
    then have "64 \<le> i" "i \<le> 512" "and i (i - 1) = 0"
      using assms i by (auto simp: validate_tile_value_def ok_whenp int_value_iff)
    then show ?thesis using power_of_two_tile i False by auto
  qed
qed

lemma zero_count_checks:
  assumes ok: "ok (row_col_count_checks data flags (PInt r) (PInt c) (PInt z) pa pb pz True)"
    and m: "dget data ''m'' = PInt m" and n: "dget data ''n'' = PInt n"
  shows "r \<le> m" "c \<le> n" "z = r * n + (m - r) * c"
proof -
  have int: "is_int_value (PInt i)" for i by (simp add: int_value_iff)
  note body = ok [unfolded row_col_count_checks_def m n whenp_True checks ok_whenp int_of.simps]
  have "\<not> m < r" "\<not> n < c" using body int ok_report by blast+
  then show "r \<le> m" "c \<le> n" by simp_all
  have "py_eq (PInt z) (PInt (r * n + (m - r) * c))" using body int ok_report by blast
  then show "z = r * n + (m - r) * c" by (simp only: py_eq_PInt)
qed

lemma accepted_zero_counts:
  assumes "validation_errors data p = Inr []"
  defines "schedule \<equiv> dget data ''schedule_metadata''"
  shows "\<exists>r c z. 0 \<le> r \<and> 0 \<le> c \<and> vget schedule ''zero_a_row_proof_count'' = PInt r \<and>
    vget schedule ''zero_b_col_proof_count'' = PInt c \<and> vget schedule ''zero_row_col_product_count'' = PInt z \<and>
    r \<le> int_of (dget data ''m'') \<and> c \<le> int_of (dget data ''n'') \<and>
    z = r * int_of (dget data ''n'') + (int_of (dget data ''m'') - r) * c"
proof -
  note ok = accepted_schedule [OF assms(1)]
  obtain s where s: "require data ''schedule_metadata'' ''dict'' = cret s"
    using ok unfolding validate_schedule_metadata_def
    by (simp only: checks ok_cbind) blast
  then have "is_dict s" "s = schedule" using require_dict by (auto simp: schedule_def)
  note body = ok [unfolded validate_schedule_metadata_def ok_cseq list.set ball_simps s cbind_cret Let_def]
  let ?key = "\<lambda>k. vget schedule k"
  have ints: "ok (cfor [(''zero_a_row_proof_count'', ?key ''zero_a_row_proof_count''),
      (''zero_b_col_proof_count'', ?key ''zero_b_col_proof_count''),
      (''zero_row_col_product_count'', ?key ''zero_row_col_product_count''),
      (''planner_zero_a_row_count'', ?key ''planner_zero_a_row_count''),
      (''planner_zero_b_col_count'', ?key ''planner_zero_b_col_count''),
      (''planner_zero_row_col_product_count'', ?key ''planner_zero_row_col_product_count'')] (\<lambda>(key, value).
        whenp (\<not> is_int_value value \<or> int_of value < 0)
          (report (''schedule_metadata.'' @ key @ '' must be a nonnegative integer''))))"
    using body \<open>is_dict s\<close> unfolding \<open>s = schedule\<close> by (simp only: whenp_True checks)
  then obtain r c z where rcz: "?key ''zero_a_row_proof_count'' = PInt r" "0 \<le> r"
    "?key ''zero_b_col_proof_count'' = PInt c" "0 \<le> c" "?key ''zero_row_col_product_count'' = PInt z"
    by (auto simp: ok_cfor ok_whenp int_value_iff)
  from ints have "is_int_value (?key ''planner_zero_a_row_count'')" "is_int_value (?key ''planner_zero_b_col_count'')"
    "is_int_value (?key ''planner_zero_row_col_product_count'')"
    by (auto simp: ok_cfor ok_whenp)
  then have valid: "(is_int_value (?key ''zero_a_row_proof_count'') \<and> is_int_value (?key ''zero_b_col_proof_count'') \<and>
      is_int_value (?key ''zero_row_col_product_count'') \<and> is_int_value (?key ''planner_zero_a_row_count'') \<and>
      is_int_value (?key ''planner_zero_b_col_count'') \<and> is_int_value (?key ''planner_zero_row_col_product_count'')) = True"
    using rcz by (simp add: int_value_iff)
  have rc: "ok (row_col_count_checks data (?key ''flags'') (?key ''zero_a_row_proof_count'') (?key ''zero_b_col_proof_count'')
      (?key ''zero_row_col_product_count'') (?key ''planner_zero_a_row_count'') (?key ''planner_zero_b_col_count'')
      (?key ''planner_zero_row_col_product_count'') True)"
    using body \<open>is_dict s\<close> unfolding \<open>s = schedule\<close> valid by (simp only: whenp_True checks)
  obtain m n where mn: "dget data ''m'' = PInt m" "dget data ''n'' = PInt n"
    using accepted_positive [OF assms(1), of "''m''"] accepted_positive [OF assms(1), of "''n''"] by auto
  note counts = zero_count_checks [OF rc [unfolded rcz] mn]
  show ?thesis
    using rcz counts by (intro exI [of _ r] exI [of _ c] exI [of _ z] conjI) (simp_all only: mn int_of.simps)
qed

text \<open>The tiles of an accepted capture are the ones the kernels are built for: 16 for the rocWMMA wrap64
  candidate, and otherwise a power of two from 64 to 512, although the code tests this with a bit mask.\<close>

theorem accepted_tiles:
  assumes "validation_errors data p = Inr []"
  shows "{dget data ''tile_m'', dget data ''tile_n''} \<subseteq>
    PInt ` (if is_wrap64_rocwmma_candidate data then {16} else {64, 128, 256, 512})"
proof -
  have "ok (validate_tile_value data ''tile_m'' (dget data ''tile_m''))" "ok (validate_tile_value data ''tile_n'' (dget data ''tile_n''))"
    using accepted_schedule [OF assms] by (simp_all only: validate_schedule_metadata_def checks)
  then show ?thesis using accepted_tile by blast
qed

lemma card_rows_or_columns:
  assumes "R \<subseteq> {..<m}" "C \<subseteq> {..<n}"
  shows "card {(i, j). i < m \<and> j < n \<and> (i \<in> R \<or> j \<in> C)} = card R * n + (m - card R) * card C"
proof -
  have finR: "finite R" and finC: "finite C" using assms finite_subset by blast+
  have "{(i, j). i < m \<and> j < n \<and> (i \<in> R \<or> j \<in> C)} = R \<times> {..<n} \<union> ({..<m} - R) \<times> C" using assms by auto
  also have "card \<dots> = card (R \<times> {..<n}) + card (({..<m} - R) \<times> C)"
    using finR finC by (intro card_Un_disjoint) auto
  finally show ?thesis using assms finR by (simp add: card_cartesian_product card_Diff_subset)
qed

text \<open>C31: The recorded number of products a schedule may skip is the right one: when \<open>R\<close> are the proved zero
  rows of A and \<open>C\<close> the proved zero columns of B of an accepted capture, as many as its two proof counts
  say, then \<open>zero_row_col_product_count\<close> is the number of output cells in a row of \<open>R\<close> or a column of \<open>C\<close>.\<close>

theorem accepted_zero_products:
  assumes "validation_errors data p = Inr []"
    and "R \<subseteq> {..<nat (int_of (dget data ''m''))}" "C \<subseteq> {..<nat (int_of (dget data ''n''))}"
    and "vget (dget data ''schedule_metadata'') ''zero_a_row_proof_count'' = PInt (int (card R))"
    and "vget (dget data ''schedule_metadata'') ''zero_b_col_proof_count'' = PInt (int (card C))"
  shows "vget (dget data ''schedule_metadata'') ''zero_row_col_product_count'' =
    PInt (int (card {(i, j). i < nat (int_of (dget data ''m'')) \<and> j < nat (int_of (dget data ''n'')) \<and> (i \<in> R \<or> j \<in> C)}))"
proof -
  let ?m = "int_of (dget data ''m'')" and ?n = "int_of (dget data ''n'')"
  have pos: "0 < ?m" "0 < ?n"
    using accepted_positive [OF assms(1), of "''m''"] accepted_positive [OF assms(1), of "''n''"] by auto
  have "card R \<le> nat ?m" using card_mono [OF _ assms(2)] by simp
  then have "int (card R * nat ?n + (nat ?m - card R) * card C) = int (card R) * ?n + (?m - int (card R)) * int (card C)"
    using pos by (simp add: of_nat_diff)
  with accepted_zero_counts [OF assms(1)] assms(4,5) show ?thesis
    unfolding card_rows_or_columns [OF assms(2,3)] by force
qed

section \<open>Moduli\<close>

lemma no_divisor_from_iff:
  assumes "2 \<le> d" "\<forall>e. 2 \<le> e \<and> e < d \<longrightarrow> \<not> e dvd v"
  shows "no_divisor_from v d \<longleftrightarrow> (\<forall>e. 2 \<le> e \<and> e * e \<le> v \<longrightarrow> \<not> e dvd v)"
  using assms
proof (induction v d rule: no_divisor_from.induct)
  case (1 v d)
  show ?case
  proof (cases "d * d \<le> v")
    case False
    have "\<not> e dvd v" if "2 \<le> e" "e * e \<le> v" for e
    proof -
      have "e < d"
      proof (rule ccontr)
        assume "\<not> e < d"
        then have "d * d \<le> e * e" using 1(2) by (intro mult_mono) simp_all
        with False that(2) show False by simp
      qed
      with 1(3) that(1) show ?thesis by blast
    qed
    with False show ?thesis by (subst no_divisor_from.simps) auto
  next
    case small: True
    show ?thesis
    proof (cases "v mod d = 0")
      case True
      then show ?thesis using 1(2) small by (subst no_divisor_from.simps) (auto simp: dvd_eq_mod_eq_0)
    next
      case False
      have "\<forall>e. 2 \<le> e \<and> e < d + 1 \<longrightarrow> \<not> e dvd v"
        using 1(3) False by (metis dvd_eq_mod_eq_0 less_add_one linorder_neqE_linordered_idom zless_add1_eq)
      then show ?thesis using 1 small False by (subst no_divisor_from.simps) simp
    qed
  qed
qed

lemma prime_number_sqrt:
  assumes "1 < v"
  shows "prime_number v \<longleftrightarrow> (\<forall>e. 2 \<le> e \<and> e * e \<le> v \<longrightarrow> \<not> e dvd v)"
proof
  assume p: "prime_number v"
  show "\<forall>e. 2 \<le> e \<and> e * e \<le> v \<longrightarrow> \<not> e dvd v"
  proof (intro allI impI)
    fix e assume e: "2 \<le> e \<and> e * e \<le> v"
    then have "e * 1 < e * e" by (intro mult_strict_left_mono) simp_all
    with e have "1 < e \<and> e < v" by linarith
    with p show "\<not> e dvd v" by (simp add: prime_number_def)
  qed
next
  assume none: "\<forall>e. 2 \<le> e \<and> e * e \<le> v \<longrightarrow> \<not> e dvd v"
  have "\<not> d dvd v" if "1 < d" "d < v" for d
  proof
    assume "d dvd v"
    then obtain f where f: "v = d * f" by auto
    have "0 < d * f" using assms f by simp
    then have "0 < f" using that(1) by (simp add: zero_less_mult_iff)
    moreover have "f \<noteq> 1" using f that(2) by auto
    ultimately have "2 \<le> f" by simp
    show False
    proof (cases "d \<le> f")
      case True
      then have "d * d \<le> v" using f that(1) by (simp add: mult_left_mono)
      with none that(1) \<open>d dvd v\<close> show False by auto
    next
      case False
      then have "f * f \<le> v" using f \<open>2 \<le> f\<close> by (simp add: mult_right_mono)
      with none \<open>2 \<le> f\<close> f show False by auto
    qed
  qed
  then show "prime_number v" using assms by (simp add: prime_number_def)
qed

lemma prime_modulus_iff: "is_prime_modulus v \<longleftrightarrow> prime_number v \<and> v \<le> 251"
proof (cases "1 < v")
  case True
  have "no_divisor_from v 2 \<longleftrightarrow> prime_number v"
    unfolding prime_number_sqrt [OF True] by (rule no_divisor_from_iff) auto
  with True show ?thesis by (auto simp: is_prime_modulus_def)
qed (auto simp: is_prime_modulus_def prime_number_def)

text \<open>C35: The two primality tests of the tools agree on byte moduli: \<open>_is_prime_modulus\<close> of the schema
  validator accepts exactly the numbers up to 251 that \<open>is_prime\<close> of the modulus search calls prime.\<close>

theorem prime_tests_agree: "is_prime_modulus v \<longleftrightarrow> is_prime v \<and> v \<le> 251"
  by (simp add: prime_modulus_iff is_prime_iff)

lemma prime_inverse:
  assumes "prime_number q" "0 < a" "a < q"
  shows "\<exists>b. a * b mod q = 1"
proof -
  have "gcd a q \<le> a" using assms(2) by (simp add: zdvd_imp_le)
  moreover have "0 < gcd a q" using assms(2) by simp
  ultimately have "gcd a q = 1"
    using assms gcd_dvd2 [of a q] unfolding prime_number_def by (metis dual_order.strict_trans1 linorder_neqE_linordered_idom zless_add1_eq zless_imp_add1_zle add.left_neutral one_add_one order_le_less)
  then obtain u v where "u * a + v * q = 1" using bezout_int [of a q] by metis
  then have "a * u = 1 + q * (- v)" by (simp add: algebra_simps)
  then have "a * u mod q = 1 mod q" by (simp only: mod_mult_self2)
  then show ?thesis using assms(1) by (auto simp: prime_number_def)
qed

lemma accepted_finite_contract:
  assumes "validation_errors data p = Inr []" and "dget data ''semantics'' = PStr ''finite_field_u8''"
  shows "\<exists>ctx. ctx_semantics ctx = PStr ''finite_field_u8'' \<and> ok (validate_finite_u8_contract data ctx)"
proof -
  note ok = accepted_semantics [OF assms(1)]
  obtain n mode where chain: "residue_chain_length data = cret n" "validated_output_mode data = cret mode"
    using ok unfolding validate_semantic_contract_def Let_def by (auto simp: ok_cbind)
  note body = ok [unfolded validate_semantic_contract_def Let_def chain cbind_cret ok_cseq list.set ball_simps assms(2)]
  from body show ?thesis
    by (simp add: eq_str_def) (metis semantic_ctx.select_convs(1))
qed

text \<open>C32: The residues of an accepted finite-field capture form a field: its modulus is an integer of 2 to 251,
  and every residue but zero has an inverse.\<close>

theorem accepted_field_modulus:
  assumes "validation_errors data p = Inr []" and "dget data ''semantics'' = PStr ''finite_field_u8''"
  shows "\<exists>q. dget data ''finite_modulus'' = PInt q \<and> 2 \<le> q \<and> q \<le> 251 \<and>
    {a. 0 < a \<and> a < q \<and> \<not> (\<exists>b. a * b mod q = 1)} = {}"
proof -
  obtain ctx where ctx: "ctx_semantics ctx = PStr ''finite_field_u8''" "ok (validate_finite_u8_contract data ctx)"
    using accepted_finite_contract [OF assms] by blast
  obtain oneshot where "is_finite_oneshot_capture data = cret oneshot"
    using ctx(2) unfolding validate_finite_u8_contract_def Let_def by (auto simp: ok_cbind)
  note body = ctx(2) [unfolded validate_finite_u8_contract_def Let_def this cbind_cret ok_cseq list.set ball_simps ctx(1)]
  let ?q = "dget data ''finite_modulus''"
  have check: "ok (if \<not> is_int_value ?q then report ''finite-u8 captures must include integer finite_modulus''
      else if eq_str (PStr ''finite_field_u8'') ''finite_ring_u8'' \<and> (int_of ?q < 2 \<or> 256 < int_of ?q)
      then report ''finite_ring_u8 finite_modulus must be in [2, 256]''
      else whenp (eq_str (PStr ''finite_field_u8'') ''finite_field_u8'' \<and> \<not> is_prime_modulus (int_of ?q))
        (report ''finite_field_u8 finite_modulus must be prime and <= 251''))"
    using body by (simp only: simp_thms)
  then obtain q where q: "?q = PInt q" by (auto simp: int_value_iff split: if_splits)
  have "is_prime_modulus q" using check by (simp add: q eq_str_def ok_whenp is_int_value_def)
  then have "prime_number q" "q \<le> 251" by (simp_all add: prime_modulus_iff)
  then have "2 \<le> q" "{a. 0 < a \<and> a < q \<and> \<not> (\<exists>b. a * b mod q = 1)} = {}"
    using prime_inverse by (auto simp: prime_number_def)
  with q \<open>q \<le> 251\<close> show ?thesis by blast
qed


section \<open>Crashes and exit status\<close>

lemma cseq_raise:
  "\<exists>es. a = Inr (es, ()) \<Longrightarrow> \<exists>es. b = Inr (es, ()) \<Longrightarrow> c = Inl e \<Longrightarrow> cseq (a # b # c # ms) = Inl e"
  by (auto simp: cthen_def cbind_def)

lemma cfor_returns: "(\<And>x. \<exists>es. f x = Inr (es, ())) \<Longrightarrow> \<exists>es. cfor xs f = Inr (es, ())"
proof (induction xs)
  case (Cons x xs)
  then obtain es es' where "f x = Inr (es, ())" "cfor xs f = Inr (es', ())" by blast
  then show ?case by (simp add: cfor_def cthen_def cbind_def)
qed (simp add: cfor_def skip_def)

lemma require_str_returns: "\<exists>es. cvoid (require data key ''str'') = Inr (es, ())"
  by (simp add: require_def kind_error_def whenp_def cvoid_def cmap_def cthen_def cbind_def report_def skip_def cret_def)

lemma whenp_report_returns: "\<exists>es. whenp c (report m) = Inr (es, ())"
  by (simp add: whenp_def report_def skip_def)

text \<open>C37: The validator does not survive every capture it should reject: when \<open>benchmark_execution_mode\<close> is a list
  or an object, validation ends with a \<open>TypeError\<close>, not with a message.\<close>

theorem unhashable_mode_crashes:
  assumes "map_of data ''schema_version'' = Some (PInt SCHEMA_VERSION)"
    and "is_list (dget data ''benchmark_execution_mode'') \<or> is_dict (dget data ''benchmark_execution_mode'')"
  shows "validation_errors data p = Inl TypeError"
proof -
  let ?mode = "dget data ''benchmark_execution_mode''"
  have raises: "c_in ?mode ss = Inl TypeError" for ss
    using assms(2) by (cases ?mode) (auto simp: c_in_def in_str_set_def lift_def)
  have some: "\<not> is_None ?mode" using assms(2) by (cases ?mode) (auto simp: is_None_def)
  have "validate_v4 data = Inl TypeError"
    unfolding validate_v4_def Let_def
  proof (rule cseq_raise)
    show "\<exists>es. cfor keys (\<lambda>key. cvoid (require data key ''str'')) = Inr (es, ())" for keys
      by (rule cfor_returns, rule require_str_returns)
    show "\<exists>es. whenp c (report m) = Inr (es, ())" for c m by (rule whenp_report_returns)
    show "whenp (\<not> is_None ?mode) (cif (cnot (c_in ?mode ss)) u v) = Inl TypeError" for ss u v
      using some by (simp add: raises cif_def cnot_def cmap_def)
  qed
  then show ?thesis using assms(1) by (simp add: validation_errors_def validate_document_def is_int_value_def)
qed

lemma split_lines_nonempty: "s \<noteq> [] \<or> line \<noteq> [] \<Longrightarrow> split_lines line s \<noteq> []"
  by (induction line s rule: split_lines.induct) (simp_all split: list.splits)

lemma errors_nonempty:
  assumes "validation_errors data p = Inr errors" "errors \<noteq> []"
  shows "join_with [CHR 10] errors \<noteq> []"
proof -
  obtain messages u where "errors = map (\<lambda>m. path_str p @ '': '' @ m) messages"
    using assms(1) by (auto simp: validation_errors_def rbind_eq_Inr)
  with assms(2) show ?thesis by (cases messages rule: remdups_adj.cases) auto
qed

lemma verdict_valid_iff:
  assumes "verdict_of files p = Inr v"
  shows "messages_of v = [] \<longleftrightarrow> (\<exists>data. files p = Parsed (PDict data) \<and> validation_errors data p = Inr [])"
proof (cases "load_capture files p")
  case (Inl e)
  then obtain m where "e = BenchmarkSchemaError (path_str p @ m)" "m \<noteq> []"
    by (auto simp: load_capture_def Let_def split: json_file.splits pyval.splits)
  then have "messages_of v = split_lines [] (path_str p @ m)"
    using assms Inl by (auto simp: verdict_of_def validate_capture_file_def messages_of_def)
  then have "messages_of v \<noteq> []" using split_lines_nonempty [of "path_str p @ m" "[]"] \<open>m \<noteq> []\<close> by simp
  moreover have "files p \<noteq> Parsed (PDict data)" for data using Inl by (auto simp: load_capture_def Let_def)
  ultimately show ?thesis by blast
next
  case (Inr data)
  then have parsed: "files p = Parsed (PDict data)"
    by (auto simp: load_capture_def Let_def split: json_file.splits pyval.splits)
  obtain errors where errors: "validation_errors data p = Inr errors"
  proof (cases "validation_errors data p")
    case (Inl e)
    then have "e \<in> crashes"
      using tame_validate_document [of data] by (auto simp: tame_def validation_errors_def split: sum.splits prod.splits)
    then have "verdict_of files p = Inl e"
      using \<open>load_capture files p = Inr data\<close> Inl
      by (auto simp: verdict_of_def validate_capture_file_def validate_capture_def crashes_def)
    with assms show ?thesis by simp
  qed
  show ?thesis
  proof (cases "errors = []")
    case True
    then have "map_of data ''schema_version'' = Some (PInt SCHEMA_VERSION)" using errors by (simp add: accepted_iff)
    then have "messages_of v = []"
      using assms Inr errors True by (auto simp: verdict_of_def validate_capture_file_def validate_capture_def
          schema_version_def is_int_value_def check_def raise_if_def messages_of_def)
    with parsed errors True show ?thesis by auto
  next
    case False
    then have "messages_of v = split_lines [] (join_with [CHR 10] errors)"
      using assms Inr errors by (auto simp: verdict_of_def validate_capture_file_def validate_capture_def check_def
          raise_if_def messages_of_def)
    then have "messages_of v \<noteq> []"
      using split_lines_nonempty errors_nonempty [OF errors False] by simp
    with parsed errors False show ?thesis by simp
  qed
qed

text \<open>C33: The exit status of the schema tool tells valid captures apart: it is 0 exactly when every file named on
  the command line holds an object that the validator has nothing to report on; the report says so for
  each file.\<close>

theorem schema_main_status:
  assumes "schema_main files captures = Inr run"
  shows "sr_status run = (if {p \<in> set captures. \<not> (\<exists>data. files p = Parsed (PDict data) \<and> validation_errors data p = Inr [])} = {}
    then 0 else 1)"
proof -
  obtain verdicts where verdicts: "rmapM (verdict_of files) captures = Inr verdicts"
    and run: "sr_status run = (if concat (map messages_of verdicts) = [] then 0 else 1)"
    using assms by (auto simp: schema_main_def rbind_eq_Inr Let_def)
  have "list_all2 (\<lambda>p v. verdict_of files p = Inr v) captures verdicts"
    using verdicts by (simp add: rmapM_Inr_iff)
  then have "concat (map messages_of verdicts) = [] \<longleftrightarrow>
      {p \<in> set captures. \<not> (\<exists>data. files p = Parsed (PDict data) \<and> validation_errors data p = Inr [])} = {}"
    by (induction) (auto simp: verdict_valid_iff)
  with run show ?thesis by simp
qed

end
