(* ===== verification/Schema_Example.thy ===== *)
theory Schema_Example
  imports Schema_Accept
begin

text \<open>
  One accepted capture, a CPU run of a product over the field of seven elements, evaluated in the kernel
  for the witnesses. The validator is run from the outside in: the congruence rules \<open>run_cong\<close> keep the
  simplifier out of the branches, messages and continuations until the condition before them has a
  value, and the objects of the capture are constants whose lookups are rewrite rules.
\<close>

section \<open>Running a validator\<close>

lemma run_cong:
  "c = c' \<Longrightarrow> whenp c m = whenp c' m"
  "u = u' \<Longrightarrow> cif u a b = cif u' a b"
  "u = u' \<Longrightarrow> cwhen u m = cwhen u' m"
  "x = x' \<Longrightarrow> cthen x k = cthen x' k"
  "x = x' \<Longrightarrow> cbind x f = cbind x' f"
  "xs = xs' \<Longrightarrow> cfor xs g = cfor xs' g"
  by simp_all

lemma run_still:
  "cseq ms = cseq ms" "all_of us = all_of us" "any_of us = any_of us" "report s = report s"
  by (rule refl)+

lemmas run = run_cong run_still let_weak_cong

lemma cfor_Nil [simp]: "cfor [] f = skip"
  by (simp add: cfor_def)

lemma cfor_Cons [simp]: "cfor (x # xs) f = cthen (f x) (cfor xs f)"
  by (simp add: cfor_def)

lemma cvoid_cret [simp]: "cvoid (cret x) = skip"
  by (simp add: cvoid_def skip_def flip: cret_def)

lemma lift_Inr [simp]: "lift (Inr x) = cret x"
  by (simp add: lift_def cret_def)

lemma dget_Nil [simp]: "dget [] k = PNone"
  by (simp add: dget_def)

lemma dget_Cons [simp]: "dget ((a, v) # d) k = (if k = a then v else dget d k)"
  by (simp add: dget_def)

lemmas lookup_eval = dget_Cons list.inject list.distinct char.inject simp_thms if_True if_False

lemma has_key_Nil [simp]: "\<not> has_key [] k"
  by (simp add: has_key_def)

lemma has_key_Cons [simp]: "has_key ((a, v) # d) k \<longleftrightarrow> k = a \<or> has_key d k"
  by (simp add: has_key_def)

lemma dget_absent: "k \<notin> set (map fst d) \<Longrightarrow> dget d k = PNone"
  by (simp add: dget_def map_of_eq_None_iff [THEN iffD2])

lemma dget_or_keys: "dget_or d k w = (if k \<in> set (map fst d) then dget d k else w)"
  by (induction d) (auto simp: dget_def dget_or_def)

lemma has_key_keys: "has_key d k \<longleftrightarrow> k \<in> set (map fst d)"
  by (simp add: has_key_def)

lemma starts_with_Nil [simp]: "starts_with [] s"
  by (cases s) simp_all

lemma ilog2_999999: "ilog2 (999999 / 1000000) = - 1" "ilog2 (9007190247541737 / 9007199254740992) = - 1"
proof -
  have "quotient_of (999999 / 1000000) = (999999, 1000000)"
    "quotient_of (9007190247541737 / 9007199254740992) = (9007190247541737, 9007199254740992)"
    by code_simp+
  moreover have "bitlen 999999 = 20" "bitlen 1000000 = 20" "bitlen 9007190247541737 = 53" "bitlen 9007199254740992 = 54"
    by code_simp+
  ultimately show "ilog2 (999999 / 1000000) = - 1" "ilog2 (9007190247541737 / 9007199254740992) = - 1"
    by (simp_all add: ilog2_def pow2_def)
qed

lemma rnd64_999999:
  "rnd64 (999999 / 1000000) = FFin (9007190247541737 / 9007199254740992)"
  "rnd64 (9007190247541737 / 9007199254740992) = FFin (9007190247541737 / 9007199254740992)"
proof -
  have "\<lfloor>140737347617839644672 / 15625 :: rat\<rfloor> = 9007190247541737" by (simp add: floor_eq_iff)
  then show "rnd64 (999999 / 1000000) = FFin (9007190247541737 / 9007199254740992)"
    by (simp add: rnd64_def ilog2_999999 pow2_def Let_def round_half_even_def)
  show "rnd64 (9007190247541737 / 9007199254740992) = FFin (9007190247541737 / 9007199254740992)"
    by (simp add: rnd64_def ilog2_999999 pow2_def Let_def round_half_even_def)
qed

lemma percentile_index_one: "percentile_index (FFin p) (Suc 0) = 0"
  by (simp add: percentile_index_def rnd64_999999 floor_eq_iff)

lemma percentile_one [simp]: "percentile [x] (FFin p) = x"
  by (simp add: percentile_def sorted_floats_def percentile_index_one)

lemma close_to_same [simp]: "close_to (FFin a) (FFin a)"
  by (simp add: close_to_def isclose_def flt_eq_def)

lemmas run_defs =
  hashable_def str_list_def both_nan_def elem_eq_def val_lt_def val_le_def in_str_set_def in_vals_def
  is_int_value_def is_None_def is_True_def is_False_def eq_str_def vget_def flt_finite_def flt_eq_def
  c_in_vals_def in_strs_def c_str_in_def str_mem_def c_get_def c_get_or_def lookup_or_def c_lookup_def
  c_lookup_or_def c_has_key_def c_index_def c_lt_def c_le_def num_float_def c_float_def c_is_number_def
  c_int_div_def c_fdiv_def repeat_list_def num_op_def c_sub_def max_zero_def c_int_def c_index_val_def
  c_vindex_def c_same_set_def rstrip_char_def opt_strs_val_def opt_list_def opt_of_def strs_of_def
  enum_ints_def insert_at_def index_of_def opt_truthy_def opt_in_def call_in_def cany_in_def
  amdgpu_builtin_matrix_family_def amdgpu_builtin_matrix_shape_def amdgpu_builtin_matrix_dtype_def
  amdgpu_builtin_matrix_sparsity_def semantics_are_finite_u8_def builtin_target_family_def
  builtin_allowed_selected_kernels_def amdgpu_builtin_matrix_operand_signedness_def
  amdgpu_builtin_matrix_sparse_contract_def amdgpu_builtin_matrix_sparse_dense_operand_def
  amdgpu_builtin_matrix_sparse_index_layout_def amdgpu_builtin_matrix_a_value_contract_def
  amdgpu_builtin_matrix_b_value_contract_def amdgpu_builtin_rdna_integer_modifier_policy_def
  autotune_key_contains_all_def correctness_backend_checks_def hipblaslt_checks_def vector_alu_checks_def
  amdgpu_builtin_checks_def validate_backend_metadata_def expected_accumulator_contract_def
  validate_accumulator_safety_def validate_nonnegative_ints_def validate_hip_toolchain_def
  validate_nested_metadata_def ck_capture_checks_def rocwmma_capture_checks_def
  validate_comparison_baseline_def validate_v4_def BENCHMARK_EXECUTION_MODES_def BOUND_SOURCES_def
  BOUND_DISCOVERY_SOURCES_def BOUND_KINDS_def PACK_MODES_def NEXT_OP_HINTS_def FUSION_MODES_def
  REUSE_OPERAND_ROLES_def GRAPH_REPLAY_STATUSES_def STREAMING_OVERLAP_STATUSES_def
  WORKLOAD_PROXY_FAMILIES_def SELECTOR_REJECTION_REASONS_def PREPACK_REUSE_STRATEGIES_def
  CONTRACT_PREFIX_POLICIES_def RNS_PREFIX_SEMANTICS_def NON_RNS_PREFIX_SEMANTICS_def
  HIP_RESIDENT_BACKENDS_def CURRENT_CORRECTNESS_BACKENDS_def BACKEND_REQUESTED_VALUES_def
  BACKEND_SELECTED_VALUES_def GROUPED_DISPATCH_STATUSES_def SCHEMA_GROUPED_DISPATCH_EXECUTION_STRATEGIES_def
  GROUPED_DISPATCH_BATCHED_EXACT_WIDE_EXPORT_STRATEGIES_def
  GROUPED_DISPATCH_BATCHED_BOUNDED_EXPORT_STRATEGIES_def
  GROUPED_DISPATCH_BATCHED_FINITE_EXPORT_STRATEGIES_def GROUPED_TASK_DESCRIPTOR_LAYOUTS_def
  GROUPED_TASK_BUCKET_POLICIES_def GROUPED_TASK_SOURCE_VERSION_POLICIES_def
  GROUPED_TASK_WORKSPACE_POLICIES_def GROUPED_TASK_MATRIX_OWNERSHIP_POLICIES_def
  GROUPED_TASK_DESCRIPTOR_REUSE_POLICIES_def GROUPED_TASK_STRIDE_POLICIES_def
  GROUPED_TASK_OUTPUT_CURRENTNESS_POLICIES_def GROUPED_TASK_LIFETIME_POLICIES_def
  GROUPED_TASK_CHECKSUM_POLICIES_def GROUPED_TASK_STATUS_POLICIES_def
  GROUPED_TASK_DEVICE_DESCRIPTOR_POLICIES_def GROUPED_STRATEGY_DEVICE_DESCRIPTOR_POLICIES_def
  OUTPUT_DESTINATION_LAYOUTS_def STATUS_HANDLING_def OUTPUT_CONTRACT_DOMAINS_def
  DIRECT_HIP_EXPORT_STAGING_POLICIES_def PACK_LAYOUTS_def RESIDUE_GROUP_LAYOUTS_def TARGET_NAMESPACES_def
  SCHEMA_PLACEHOLDER_GPU_TARGET_IDS_def DIRECT_HIP_GPU_EVENT_SCOPES_def HIPBLASLT_GPU_EVENT_SCOPES_def
  ACCELERATOR_GPU_EVENT_SCOPES_def VECTOR_ALU_GPU_EVENT_SCOPES_def CK_DEEP_GPU_EVENT_LABELS_def
  ROCWMMA_DEEP_GPU_EVENT_LABELS_def AMDGPU_BUILTIN_DEEP_GPU_EVENT_LABELS_def GENERATED_REDUCER_IDENTITIES_def
  GENERATED_REDUCER_IDENTITY_PATTERNS_def SELECTED_KERNELS_def VECTOR_ALU_SELECTED_KERNELS_def
  CK_SELECTED_KERNELS_def ROCWMMA_SELECTED_KERNELS_def BOUNDED_I64_EXPORT_KERNELS_def
  BOUNDED_U64_EXPORT_KERNELS_def EXACT_WIDE_SIGNED_EXPORT_KERNELS_def EXACT_WIDE_UNSIGNED_EXPORT_KERNELS_def
  COMPARISON_BASELINE_STATUSES_def RELEASE_GATE_REVIEW_STATUSES_def SCHEMA_VERSION_def
  WRAP64_HIP_U32_ACCUMULATOR_MAX_K_def WRAP64_HIP_COLPAIR_MIN_DIMENSION_def WRAP64_LOW_PRODUCT_DIAGONALS_def
  WRAP64_HIP_U32_KERNEL_def WRAP64_HIP_U64_KERNEL_def WRAP64_HIP_U32_COLPAIR_KERNEL_def
  BASELINE_STATUS_REVIEWED_def BASELINE_STATUS_RELEASE_REVIEWED_def REVIEWED_BASELINE_STATUSES_def
  TIMING_PHASES_def GLOBAL_BOUND_TIMING_PHASE_def PER_TILE_TIMING_PHASE_def REPEATED_TIMING_PHASES_def
  OPTIONAL_REPEATED_TIMING_PHASES_def TILE_SCHEDULE_ZERO_OUTPUT_def TILE_SCHEDULE_ZERO_ROW_COL_PRODUCT_def
  TILE_SCHEDULE_KNOWN_FLAGS_def PACK_MODE_OPERANDS_def PREFIX_POLICY_FIELDS_def
  OLD_ACCELERATOR_GPU_EVENT_SCOPE_def DEEP_ACCELERATOR_GPU_EVENT_SCOPE_def
  DIRECT_HIP_FINITE_GENERIC_KERNEL_def DIRECT_HIP_FINITE_SPECIALIZED_KERNELS_def
  DIRECT_HIP_FINITE_ONESHOT_GENERIC_KERNEL_def DIRECT_HIP_FINITE_ONESHOT_SPECIALIZED_KERNELS_def
  CK_FINITE_GENERIC_KERNEL_def SCHEMA_CK_FINITE_SPECIALIZED_KERNELS_def CK_FINITE_STATIC_MODULI_def
  ROCWMMA_FINITE_GENERIC_KERNEL_def SCHEMA_ROCWMMA_FINITE_SPECIALIZED_KERNELS_def
  ROCWMMA_FINITE_STATIC_MODULI_def DIRECT_HIP_FINITE_NATIVE_A_REUSE_B_GENERIC_KERNEL_def
  DIRECT_HIP_FINITE_NATIVE_A_REUSE_B_SPECIALIZED_KERNELS_def DIRECT_HIP_RECIPROCAL_ISA_EVIDENCE_def
  DIRECT_HIP_BOUNDED_ONESHOT_KERNEL_V1_def DIRECT_HIP_BOUNDED_ONESHOT_KERNEL_LARGE_COLPAIR_V2_def
  DIRECT_HIP_BOUNDED_ONESHOT_EPILOGUE_def DIRECT_HIP_BOUNDED_ONESHOT_WORKSPACE_def
  DIRECT_HIP_BOUNDED_ONESHOT_RESIDENT_FALLBACK_KERNEL_def
  DIRECT_HIP_BOUNDED_ONESHOT_RESIDENT_FALLBACK_EPILOGUE_def
  DIRECT_HIP_BOUNDED_ONESHOT_RESIDENT_FALLBACK_WORKSPACE_def DIRECT_HIP_BOUNDED_NATIVE_A_REUSE_B_KERNELS_def
  DIRECT_HIP_BOUNDED_NATIVE_A_REUSE_B_LARGE_COLPAIR_KERNELS_def
  DIRECT_HIP_BOUNDED_UNIFORM_SMALL_NATIVE_A_REUSE_B_KERNELS_def
  DIRECT_HIP_BOUNDED_UNIFORM_SMALL_REUSE_A_KERNELS_def DIRECT_HIP_BOUNDED_UNIFORM_SMALL_TRANSIENT_KERNELS_def
  DIRECT_HIP_BOUNDED_RESIDUE_CHANNEL_FUSION_KERNELS_def DIRECT_HIP_BOUNDED_NATIVE_B_REUSE_A_KERNELS_def
  DIRECT_HIP_BOUNDED_SKINNY_GEMV_N1_KERNELS_def DIRECT_HIP_BOUNDED_SKINNY_GEMV_SMALL_N_KERNELS_def
  DIRECT_HIP_BOUNDED_NATIVE_A_REUSE_B_EPILOGUE_def
  DIRECT_HIP_BOUNDED_UNIFORM_SMALL_NATIVE_A_REUSE_B_EPILOGUE_def
  DIRECT_HIP_BOUNDED_UNIFORM_SMALL_REUSE_A_EPILOGUE_def
  DIRECT_HIP_BOUNDED_UNIFORM_SMALL_TRANSIENT_EPILOGUE_def
  DIRECT_HIP_BOUNDED_RESIDUE_CHANNEL_FUSION_EPILOGUE_def DIRECT_HIP_BOUNDED_NATIVE_B_REUSE_A_EPILOGUE_def
  DIRECT_HIP_BOUNDED_SKINNY_GEMV_N1_EPILOGUE_def DIRECT_HIP_BOUNDED_SKINNY_GEMV_SMALL_N_EPILOGUE_def
  DIRECT_HIP_BOUNDED_NATIVE_A_REUSE_B_WORKSPACE_def DIRECT_HIP_BOUNDED_UNIFORM_SMALL_REUSE_A_WORKSPACE_def
  DIRECT_HIP_BOUNDED_UNIFORM_SMALL_TRANSIENT_WORKSPACE_def
  DIRECT_HIP_BOUNDED_RESIDUE_CHANNEL_FUSION_WORKSPACE_def DIRECT_HIP_BOUNDED_NATIVE_B_REUSE_A_WORKSPACE_def
  DIRECT_HIP_BOUNDED_SKINNY_GEMV_N1_WORKSPACE_def DIRECT_HIP_BOUNDED_SKINNY_GEMV_SMALL_N_WORKSPACE_def
  DIRECT_HIP_FINITE_ONESHOT_EPILOGUE_def DIRECT_HIP_FINITE_ONESHOT_WORKSPACE_def
  DIRECT_HIP_FINITE_NATIVE_A_REUSE_B_EPILOGUE_def DIRECT_HIP_FINITE_NATIVE_A_REUSE_B_WORKSPACE_def
  DIRECT_HIP_FINITE_SPECIALIZED_ISA_EVIDENCE_def DIRECT_HIP_ADAPTIVE_GROUPED_SCHEDULE_KERNEL_V3_def
  DIRECT_HIP_ADAPTIVE_ZERO_SKIP_KERNEL_V3_def DIRECT_HIP_ADAPTIVE_ZERO_ROW_COL_SKIP_KERNEL_V1_def
  DIRECT_HIP_ADAPTIVE_ZERO_TILE_ROW_COL_SKIP_KERNEL_V1_def WRAP64_ROCWMMA_CANDIDATE_KERNEL_def INT32_MAX_def
  UINT32_MAX_def DIRECT_HIP_ONESHOT_GPU_EVENT_PHASES_def
  DIRECT_HIP_ONESHOT_RESIDENT_FALLBACK_GPU_EVENT_PHASES_def DIRECT_HIP_FINITE_ONESHOT_GPU_EVENT_PHASES_def
  unknown_parts_def setup_breakdown_def validate_setup_breakdown_def validate_prepack_setup_breakdown_def
  prepack_cache_key_fields_def validate_counter_snapshot_def EXPORT_OUTPUT_LAYOUTS_def
  EXPORT_SELECTOR_STATUS_POLICIES_def EXPORT_D2H_POLICIES_def EXPORT_FINAL_OUTPUT_MODES_def
  REVIEWABLE_EXPORT_VARIANTS_def ERROR_DETECTION_MODES_def ERROR_DETECTION_FINAL_STATUSES_def
  CPU_SELECTOR_ROLES_def RESIDENT_REDESIGN_DIMENSIONS_def check_prepack_cache_key_def
  check_runtime_prepack_cache_def check_reuse_contract_def check_exact_output_contract_def
  check_export_variant_def check_reconstruction_variant_def check_modulus_set_def
  check_residue_count_policy_def check_tile_shape_variant_def check_task_buckets_def
  check_task_descriptor_def check_grouped_dispatch_def check_graph_replay_def check_requested_scheduler_def
  check_adaptive_scheduler_def check_resident_redesign_def check_resident_lifetime_def
  check_workspace_arena_def check_streaming_overlap_def check_workload_proxy_def check_release_gate_def
  check_verification_amortization_def check_error_detection_def check_cpu_selector_def
  check_enabled_cache_def check_incremental_cache_def validate_contract_metadata_def gpu_event_phases_def
  finite_oneshot_event_phases_def bounded_oneshot_event_phases_def resident_fallback_event_phases_def
  channel_fusion_event_phases_def uniform_transient_event_phases_def overlap_event_phases_def
  native_a_event_phases_def uniform_reuse_a_event_phases_def native_b_event_phases_def
  gemv_n1_event_phases_def gemv_small_n_event_phases_def native_bridge_event_phases_def
  vector_chain_event_phases_def wrap64_event_phases_def vector_event_phases_def
  validate_expected_gpu_event_phases_def expected_status_event_labels_def known_status_event_labels_def
  validate_status_event_consistency_def validate_gpu_events_def is_concrete_target_id_def
  helper_timing_checks_def plan_packing_checks_def plan_lowering_checks_def output_policy_checks_def
  residue_current_checks_def chain_final_export_checks_def target_variant_checks_def auto_selector_checks_def
  device_allocation_checks_def validate_helper_lane_metadata_def SINGLE_GROUPED_DESCRIPTOR_LAYOUT_def
  BUCKETED_GROUPED_DESCRIPTOR_LAYOUT_def SINGLE_GROUPED_BUCKET_POLICY_def BUCKETED_GROUPED_BUCKET_POLICY_def
  require_graph_full_path_phase_metadata_def grouped_export_checks_def grouped_bucket_checks_def
  grouped_descriptor_checks_def grouped_capture_checks_def validate_grouped_dispatch_metadata_def
  validate_host_api_batch_metadata_def graph_benchmark_checks_def graph_wrap64_mode_checks_def
  graph_wide_mode_checks_def graph_finite_mode_checks_def graph_full_mode_checks_def graph_mode_checks_def
  validate_hip_graph_replay_metadata_def validate_output_layout_metadata_def kind_error_def require_def
  timing_phases_def residue_chain_length_def validated_output_mode_def is_residue_current_chain_capture_def
  is_wrap64_rocwmma_candidate_def is_vector_alu_runtime_capture_def is_vector_alu_gemv_n1_capture_def
  is_vector_alu_gemv_small_n_capture_def benchmark_execution_mode_def is_bounded_oneshot_capture_def
  is_direct_hip_bounded_native_input_oneshot_capture_def
  is_direct_hip_bounded_resident_fallback_oneshot_capture_def is_finite_oneshot_capture_def
  is_public_oneshot_capture_def is_direct_hip_bounded_native_a_reuse_b_capture_def
  is_direct_hip_bounded_native_a_reuse_b_uniform_small_def
  is_direct_hip_bounded_native_a_reuse_b_large_colpair_def
  is_direct_hip_bounded_uniform_small_reuse_a_capture_def
  is_direct_hip_bounded_uniform_small_transient_capture_def is_direct_hip_native_to_rns_bridge_capture_def
  is_direct_hip_vector_to_rns_chain_capture_def is_direct_hip_vector_to_rns_host_repack_control_capture_def
  is_direct_hip_bounded_residue_channel_fusion_capture_def is_host_api_batch_capture_def
  is_grouped_dispatch_capture_def is_hip_graph_replay_capture_def is_streaming_overlap_capture_def
  is_residue_chain_final_export_capture_def is_residue_chain_independent_final_export_capture_def
  is_direct_hip_bounded_native_b_reuse_a_large_colpair_capture_def
  is_direct_hip_bounded_skinny_gemv_n1_capture_def is_direct_hip_bounded_skinny_gemv_small_n_capture_def
  is_direct_hip_finite_native_a_reuse_b_capture_def crashes_def tame_def validate_phase_availability_def
  validate_tile_value_def row_col_count_checks_def validate_schedule_metadata_def
  validate_bound_discovery_metadata_def validate_prefix_policy_metadata_def validate_v4_tile_bounds_def
  adaptive_kernel_checks_def adaptive_event_scope_checks_def adaptive_backend_checks_def
  validate_v4_adaptive_schedule_def bounded_hip_oneshot_checks_def bounded_oneshot_checks_def
  native_a_reuse_b_checks_def uniform_small_reuse_a_checks_def channel_fusion_checks_def
  uniform_small_transient_checks_def native_b_reuse_a_checks_def gemv_n1_checks_def gemv_small_n_checks_def
  vector_gemv_n1_checks_def vector_gemv_small_n_checks_def native_bridge_checks_def vector_chain_checks_def
  overlap_capture_checks_def bounded_chain_checks_def bound_mode_checks_def validate_bounded_contract_def
  wide_chain_checks_def wide_limb_checks_def wide_backend_checks_def validate_exact_wide_contract_def
  finite_oneshot_checks_def finite_kernel_checks_def finite_event_checks_def validate_finite_u8_contract_def
  validate_wrap64_contract_def validate_semantic_contract_def wrap64_hip_shape_supports_colpair_kernel_def
  wrap64_hip_allowed_kernels_def has_concrete_gpu_target_id_def drop_newline_def is_digit_def after_def
  matches_fixed_reducer_def matches_generated_reducer_def matches_prefix_event_def CK_PREFIX_EVENT_OPS_def
  ROCWMMA_PREFIX_EVENT_OPS_def matches_ck_prefix_event_def matches_rocwmma_prefix_event_def
  is_deep_accelerator_gpu_event_label_def wrap64_hip_expected_gemm_event_label_def
  output_destination_layout_def prefix_event_label_def ck_deep_gpu_event_phases_def
  rocwmma_deep_gpu_event_phases_def vector_gpu_event_phases_def amdgpu_builtin_gpu_event_label_def
  amdgpu_builtin_deep_gpu_event_phases_def validate_pack_reuse_fields_def
  validate_residue_current_timings_def validate_bounded_oneshot_timings_def
  is_all_zero_direct_hip_adaptive_capture_def validate_all_zero_direct_hip_adaptive_timings_def
  validate_raw_timings_def validate_timing_summaries_def validate_top_level_averages_def
  gpu_event_selected_prefix_count_def uses_rocwmma_prepacked_b_cache_def expected_vector_gpu_event_phases_def
  expected_builtin_event_phases_def expected_accelerator_deep_gpu_event_phases_def validate_document_def
  validation_errors_def validate_capture_file_def is_line_break_def verdict_of_def messages_of_def
  verdict_item_def verdict_lines_def schema_main_def

section \<open>The capture\<close>


definition finite_capture_accumulator_safety :: pydict where
  "finite_capture_accumulator_safety =
    [(''input_domain'', PStr ''centered_i8_finite_u8_residues''),
     (''signedness'', PStr ''signed_i8x_signed_i8''), (''accumulator_type'', PStr ''int32''),
     (''modulus_policy'', PStr ''finite_u8_modulus''), (''modulus'', PInt 7),
     (''uses_int32_inner_product'', PBool True), (''k_block_size'', PInt 4), (''k_block_cap'', PInt 65536),
     (''max_lhs_abs'', PInt 128), (''max_rhs_abs'', PInt 128), (''max_product'', PInt 16384),
     (''safe_for_k_block'', PBool True), (''status'', PStr ''safe_int32_k_block_split'')]"

definition finite_capture_backend_metadata :: pydict where
  "finite_capture_backend_metadata =
    [(''source'', PStr ''rns8_get_plan_backend_info''), (''selected_kernel'', PStr ''cpu_finite''),
     (''accelerator_backend'', PBool False), (''correctness_backend'', PBool True),
     (''matrix_engine_backend'', PBool False), (''compiled_kernel_available'', PBool True),
     (''exact_differential_validated'', PBool True), (''performance_validated'', PBool False),
     (''accelerator_library'', PNone), (''accelerator_version'', PNone),
     (''capability_status'', PStr ''implemented_correctness_backend''), (''epilogue_mode'', PStr ''export''),
     (''workspace_mode'', PStr ''host''), (''workspace_required_bytes'', PInt 0),
     (''isa_evidence'', PStr ''none''),
     (''autotune_key'', PStr ''target_id=cpu;finite_modulus=7;accumulator_type=int32;accumulator_signedness=signed_i8x_signed_i8;accumulator_modulus_policy=finite_u8_modulus;k_block_size=4;k_block_cap=65536''),
     (''accumulator_safety'', PDict finite_capture_accumulator_safety)]"

definition finite_capture_schedule_metadata :: pydict where
  "finite_capture_schedule_metadata =
    [(''source'', PStr ''rns8_get_plan_schedule_info''), (''tile_m'', PInt 64), (''tile_n'', PInt 64),
     (''tile_rows'', PInt 1), (''tile_cols'', PInt 1), (''tile_count'', PInt 1),
     (''min_required_prefix'', PInt 0), (''max_required_prefix'', PInt 0), (''min_selected_prefix'', PInt 0),
     (''max_selected_prefix'', PInt 0), (''prefix_group_count'', PInt 0),
     (''adaptive_prefix_active'', PBool False), (''adaptive_skip_active'', PBool False),
     (''adaptive_execution_applied'', PBool False), (''range_bit_length'', PInt 0),
     (''zero_a_row_proof_count'', PInt 0), (''zero_b_col_proof_count'', PInt 0),
     (''zero_row_col_product_count'', PInt 0), (''planner_zero_a_row_count'', PInt 0),
     (''planner_zero_b_col_count'', PInt 0), (''planner_zero_row_col_product_count'', PInt 0)]"

definition finite_capture_compiler :: pydict where
  "finite_capture_compiler =
    [(''id'', PStr ''gcc''), (''version'', PStr ''14'')]"

definition finite_capture_hip_toolchain :: pydict where
  "finite_capture_hip_toolchain =
    [(''enabled'', PBool False), (''hip_root'', PNone), (''hipcc_path'', PNone), (''hipcc_version'', PNone),
     (''hip_sdk_or_rocm_version'', PNone), (''version_source'', PNone)]"

definition finite_capture_device :: pydict where
  "finite_capture_device =
    [(''device_id'', PInt 0), (''name'', PStr ''cpu''), (''gcn_arch'', PStr ''cpu''),
     (''hip_available'', PInt 0), (''hip_runtime_version'', PInt 0), (''hip_driver_version'', PInt 0),
     (''global_mem_bytes'', PInt 0)]"

definition finite_capture_comparison_baseline :: pydict where
  "finite_capture_comparison_baseline =
    [(''status'', PStr ''required_not_recorded''), (''speedup_claimed'', PBool False),
     (''selected_reference'', PNone),
     (''required_before_speedup_claim'', PList [PStr ''same_contract_cpu_reference'',
 PStr ''same_contract_direct_hip_correctness'']),
     (''reason'', PStr ''not reviewed'')]"

definition finite_capture_timing_metadata :: pydict where
  "finite_capture_timing_metadata =
    [(''unit'', PStr ''microseconds''), (''source'', PStr ''steady_clock''),
     (''source_scope'', PStr ''host_wall_clock''),
     (''phase_order'', PList [PStr ''planning'',
 PStr ''scheduling'',
 PStr ''matrix_alloc'',
 PStr ''pack'',
 PStr ''rns_gemm'',
 PStr ''crt_export'',
 PStr ''end_to_end'']),
     (''phase_availability'', PDict [(''scheduling'', PDict [(''timed'', PBool True),
 (''timing_key'', PStr ''scheduling''),
 (''scope'', PStr ''one_time_schedule_info_query''),
 (''reason'', PStr ''measured'')]),
 (''reduction'', PDict [(''timed'', PBool False),
 (''timing_key'', PNone),
 (''scope'', PStr ''fused_into_rns_gemm''),
 (''reason'', PStr ''measured'')])]),
     (''gpu_event_timing'', PBool False), (''gpu_event_timing_reason'', PStr ''cpu'')]"

definition finite_capture_raw_timings_us :: pydict where
  "finite_capture_raw_timings_us =
    [(''planning'', PList [PInt 2000]), (''scheduling'', PList [PInt 20]),
     (''matrix_alloc'', PList [PInt 200]), (''pack'', PList [PInt 40]), (''rns_gemm'', PList [PInt 80]),
     (''crt_export'', PList [PInt 60]), (''end_to_end'', PList [PInt 180])]"

definition finite_capture_timing_summary_us :: pydict where
  "finite_capture_timing_summary_us =
    [(''planning'', PDict [(''avg'', PInt 2000),
 (''median'', PInt 2000),
 (''p95'', PInt 2000)]),
     (''scheduling'', PDict [(''avg'', PInt 20),
 (''median'', PInt 20),
 (''p95'', PInt 20)]),
     (''matrix_alloc'', PDict [(''avg'', PInt 200),
 (''median'', PInt 200),
 (''p95'', PInt 200)]),
     (''pack'', PDict [(''avg'', PInt 40),
 (''median'', PInt 40),
 (''p95'', PInt 40)]),
     (''rns_gemm'', PDict [(''avg'', PInt 80),
 (''median'', PInt 80),
 (''p95'', PInt 80)]),
     (''crt_export'', PDict [(''avg'', PInt 60),
 (''median'', PInt 60),
 (''p95'', PInt 60)]),
     (''end_to_end'', PDict [(''avg'', PInt 180),
 (''median'', PInt 180),
 (''p95'', PInt 180)])]"

definition finite_capture :: pydict where
  "finite_capture =
    [(''schema_version'', PInt 4), (''benchmark'', PStr ''rns8_finite_u8_persistent_residue''),
     (''backend_requested'', PStr ''cpu-reference''), (''backend_selected'', PStr ''cpu-reference''),
     (''selected_kernel'', PStr ''cpu_finite''),
     (''backend_metadata'', PDict finite_capture_backend_metadata),
     (''semantics'', PStr ''finite_field_u8''), (''bound_kind'', PStr ''none''),
     (''bound_mode'', PStr ''global''), (''bound'', PInt 0), (''m'', PInt 4), (''n'', PInt 4),
     (''k'', PInt 4), (''prefix'', PInt 0), (''finite_modulus'', PInt 7), (''tile_m'', PInt 64),
     (''tile_n'', PInt 64), (''k_block_size'', PInt 4),
     (''schedule_metadata'', PDict finite_capture_schedule_metadata),
     (''epilogue_type'', PStr ''canonical_u8_export''), (''seed'', PInt 23), (''warmups'', PInt 1),
     (''repeats'', PInt 1), (''input_distribution'', PStr ''u8_uniform_0_modulus_minus_1''),
     (''command_line'', PStr ''rns8-bench''), (''git_commit'', PStr ''0''),
     (''compiler'', PDict finite_capture_compiler), (''configured_amdgpu_targets'', PStr ''none''),
     (''hip_toolchain'', PDict finite_capture_hip_toolchain), (''device'', PDict finite_capture_device),
     (''comparison_baseline'', PDict finite_capture_comparison_baseline),
     (''timing_source'', PStr ''steady_clock''), (''timing_note'', PStr ''host''),
     (''timing_metadata'', PDict finite_capture_timing_metadata), (''plan_us'', PInt 2000),
     (''avg_planning_us'', PInt 2000), (''schedule_query_us'', PInt 20), (''avg_scheduling_us'', PInt 20),
     (''matrix_alloc_us'', PInt 200), (''avg_matrix_alloc_us'', PInt 200), (''avg_pack_us'', PInt 40),
     (''avg_rns_gemm_us'', PInt 80), (''per_modulus_gemm_estimate_applicable'', PBool False),
     (''avg_per_modulus_gemm_estimate_us'', PInt 80), (''avg_crt_export_us'', PInt 60),
     (''avg_end_to_end_us'', PInt 180), (''raw_timings_us'', PDict finite_capture_raw_timings_us),
     (''timing_summary_us'', PDict finite_capture_timing_summary_us), (''checksum_u64'', PInt 123456789)]"

text \<open>Looking a key up, per object: a present key, the list of keys, and a key that is not there.\<close>

lemma finite_capture_accumulator_safety_get [simp]:
  "dget finite_capture_accumulator_safety ''input_domain'' = PStr ''centered_i8_finite_u8_residues''"
  "dget finite_capture_accumulator_safety ''signedness'' = PStr ''signed_i8x_signed_i8''"
  "dget finite_capture_accumulator_safety ''accumulator_type'' = PStr ''int32''"
  "dget finite_capture_accumulator_safety ''modulus_policy'' = PStr ''finite_u8_modulus''"
  "dget finite_capture_accumulator_safety ''modulus'' = PInt 7"
  "dget finite_capture_accumulator_safety ''uses_int32_inner_product'' = PBool True"
  "dget finite_capture_accumulator_safety ''k_block_size'' = PInt 4"
  "dget finite_capture_accumulator_safety ''k_block_cap'' = PInt 65536"
  "dget finite_capture_accumulator_safety ''max_lhs_abs'' = PInt 128"
  "dget finite_capture_accumulator_safety ''max_rhs_abs'' = PInt 128"
  "dget finite_capture_accumulator_safety ''max_product'' = PInt 16384"
  "dget finite_capture_accumulator_safety ''safe_for_k_block'' = PBool True"
  "dget finite_capture_accumulator_safety ''status'' = PStr ''safe_int32_k_block_split''"
  by (simp_all only: finite_capture_accumulator_safety_def lookup_eval)

lemma finite_capture_accumulator_safety_keys [simp]:
  "map fst finite_capture_accumulator_safety =
    [''input_domain'', ''signedness'', ''accumulator_type'', ''modulus_policy'', ''modulus'',
     ''uses_int32_inner_product'', ''k_block_size'', ''k_block_cap'', ''max_lhs_abs'', ''max_rhs_abs'',
     ''max_product'', ''safe_for_k_block'', ''status'']"
  by (simp add: finite_capture_accumulator_safety_def)

lemmas finite_capture_accumulator_safety_absent [simp] =
  dget_absent [of _ finite_capture_accumulator_safety] dget_or_keys [of finite_capture_accumulator_safety] has_key_keys [of finite_capture_accumulator_safety]

lemma finite_capture_backend_metadata_get [simp]:
  "dget finite_capture_backend_metadata ''source'' = PStr ''rns8_get_plan_backend_info''"
  "dget finite_capture_backend_metadata ''selected_kernel'' = PStr ''cpu_finite''"
  "dget finite_capture_backend_metadata ''accelerator_backend'' = PBool False"
  "dget finite_capture_backend_metadata ''correctness_backend'' = PBool True"
  "dget finite_capture_backend_metadata ''matrix_engine_backend'' = PBool False"
  "dget finite_capture_backend_metadata ''compiled_kernel_available'' = PBool True"
  "dget finite_capture_backend_metadata ''exact_differential_validated'' = PBool True"
  "dget finite_capture_backend_metadata ''performance_validated'' = PBool False"
  "dget finite_capture_backend_metadata ''accelerator_library'' = PNone"
  "dget finite_capture_backend_metadata ''accelerator_version'' = PNone"
  "dget finite_capture_backend_metadata ''capability_status'' = PStr ''implemented_correctness_backend''"
  "dget finite_capture_backend_metadata ''epilogue_mode'' = PStr ''export''"
  "dget finite_capture_backend_metadata ''workspace_mode'' = PStr ''host''"
  "dget finite_capture_backend_metadata ''workspace_required_bytes'' = PInt 0"
  "dget finite_capture_backend_metadata ''isa_evidence'' = PStr ''none''"
  "dget finite_capture_backend_metadata ''autotune_key'' = PStr ''target_id=cpu;finite_modulus=7;accumulator_type=int32;accumulator_signedness=signed_i8x_signed_i8;accumulator_modulus_policy=finite_u8_modulus;k_block_size=4;k_block_cap=65536''"
  "dget finite_capture_backend_metadata ''accumulator_safety'' = PDict finite_capture_accumulator_safety"
  by (simp_all only: finite_capture_backend_metadata_def lookup_eval)

lemma finite_capture_backend_metadata_keys [simp]:
  "map fst finite_capture_backend_metadata =
    [''source'', ''selected_kernel'', ''accelerator_backend'', ''correctness_backend'',
     ''matrix_engine_backend'', ''compiled_kernel_available'', ''exact_differential_validated'',
     ''performance_validated'', ''accelerator_library'', ''accelerator_version'', ''capability_status'',
     ''epilogue_mode'', ''workspace_mode'', ''workspace_required_bytes'', ''isa_evidence'', ''autotune_key'',
     ''accumulator_safety'']"
  by (simp add: finite_capture_backend_metadata_def)

lemmas finite_capture_backend_metadata_absent [simp] =
  dget_absent [of _ finite_capture_backend_metadata] dget_or_keys [of finite_capture_backend_metadata] has_key_keys [of finite_capture_backend_metadata]

lemma finite_capture_schedule_metadata_get [simp]:
  "dget finite_capture_schedule_metadata ''source'' = PStr ''rns8_get_plan_schedule_info''"
  "dget finite_capture_schedule_metadata ''tile_m'' = PInt 64"
  "dget finite_capture_schedule_metadata ''tile_n'' = PInt 64"
  "dget finite_capture_schedule_metadata ''tile_rows'' = PInt 1"
  "dget finite_capture_schedule_metadata ''tile_cols'' = PInt 1"
  "dget finite_capture_schedule_metadata ''tile_count'' = PInt 1"
  "dget finite_capture_schedule_metadata ''min_required_prefix'' = PInt 0"
  "dget finite_capture_schedule_metadata ''max_required_prefix'' = PInt 0"
  "dget finite_capture_schedule_metadata ''min_selected_prefix'' = PInt 0"
  "dget finite_capture_schedule_metadata ''max_selected_prefix'' = PInt 0"
  "dget finite_capture_schedule_metadata ''prefix_group_count'' = PInt 0"
  "dget finite_capture_schedule_metadata ''adaptive_prefix_active'' = PBool False"
  "dget finite_capture_schedule_metadata ''adaptive_skip_active'' = PBool False"
  "dget finite_capture_schedule_metadata ''adaptive_execution_applied'' = PBool False"
  "dget finite_capture_schedule_metadata ''range_bit_length'' = PInt 0"
  "dget finite_capture_schedule_metadata ''zero_a_row_proof_count'' = PInt 0"
  "dget finite_capture_schedule_metadata ''zero_b_col_proof_count'' = PInt 0"
  "dget finite_capture_schedule_metadata ''zero_row_col_product_count'' = PInt 0"
  "dget finite_capture_schedule_metadata ''planner_zero_a_row_count'' = PInt 0"
  "dget finite_capture_schedule_metadata ''planner_zero_b_col_count'' = PInt 0"
  "dget finite_capture_schedule_metadata ''planner_zero_row_col_product_count'' = PInt 0"
  by (simp_all only: finite_capture_schedule_metadata_def lookup_eval)

lemma finite_capture_schedule_metadata_keys [simp]:
  "map fst finite_capture_schedule_metadata =
    [''source'', ''tile_m'', ''tile_n'', ''tile_rows'', ''tile_cols'', ''tile_count'',
     ''min_required_prefix'', ''max_required_prefix'', ''min_selected_prefix'', ''max_selected_prefix'',
     ''prefix_group_count'', ''adaptive_prefix_active'', ''adaptive_skip_active'',
     ''adaptive_execution_applied'', ''range_bit_length'', ''zero_a_row_proof_count'',
     ''zero_b_col_proof_count'', ''zero_row_col_product_count'', ''planner_zero_a_row_count'',
     ''planner_zero_b_col_count'', ''planner_zero_row_col_product_count'']"
  by (simp add: finite_capture_schedule_metadata_def)

lemmas finite_capture_schedule_metadata_absent [simp] =
  dget_absent [of _ finite_capture_schedule_metadata] dget_or_keys [of finite_capture_schedule_metadata] has_key_keys [of finite_capture_schedule_metadata]

lemma finite_capture_compiler_get [simp]:
  "dget finite_capture_compiler ''id'' = PStr ''gcc''"
  "dget finite_capture_compiler ''version'' = PStr ''14''"
  by (simp_all only: finite_capture_compiler_def lookup_eval)

lemma finite_capture_compiler_keys [simp]:
  "map fst finite_capture_compiler =
    [''id'', ''version'']"
  by (simp add: finite_capture_compiler_def)

lemmas finite_capture_compiler_absent [simp] =
  dget_absent [of _ finite_capture_compiler] dget_or_keys [of finite_capture_compiler] has_key_keys [of finite_capture_compiler]

lemma finite_capture_hip_toolchain_get [simp]:
  "dget finite_capture_hip_toolchain ''enabled'' = PBool False"
  "dget finite_capture_hip_toolchain ''hip_root'' = PNone"
  "dget finite_capture_hip_toolchain ''hipcc_path'' = PNone"
  "dget finite_capture_hip_toolchain ''hipcc_version'' = PNone"
  "dget finite_capture_hip_toolchain ''hip_sdk_or_rocm_version'' = PNone"
  "dget finite_capture_hip_toolchain ''version_source'' = PNone"
  by (simp_all only: finite_capture_hip_toolchain_def lookup_eval)

lemma finite_capture_hip_toolchain_keys [simp]:
  "map fst finite_capture_hip_toolchain =
    [''enabled'', ''hip_root'', ''hipcc_path'', ''hipcc_version'', ''hip_sdk_or_rocm_version'',
     ''version_source'']"
  by (simp add: finite_capture_hip_toolchain_def)

lemmas finite_capture_hip_toolchain_absent [simp] =
  dget_absent [of _ finite_capture_hip_toolchain] dget_or_keys [of finite_capture_hip_toolchain] has_key_keys [of finite_capture_hip_toolchain]

lemma finite_capture_device_get [simp]:
  "dget finite_capture_device ''device_id'' = PInt 0"
  "dget finite_capture_device ''name'' = PStr ''cpu''"
  "dget finite_capture_device ''gcn_arch'' = PStr ''cpu''"
  "dget finite_capture_device ''hip_available'' = PInt 0"
  "dget finite_capture_device ''hip_runtime_version'' = PInt 0"
  "dget finite_capture_device ''hip_driver_version'' = PInt 0"
  "dget finite_capture_device ''global_mem_bytes'' = PInt 0"
  by (simp_all only: finite_capture_device_def lookup_eval)

lemma finite_capture_device_keys [simp]:
  "map fst finite_capture_device =
    [''device_id'', ''name'', ''gcn_arch'', ''hip_available'', ''hip_runtime_version'',
     ''hip_driver_version'', ''global_mem_bytes'']"
  by (simp add: finite_capture_device_def)

lemmas finite_capture_device_absent [simp] =
  dget_absent [of _ finite_capture_device] dget_or_keys [of finite_capture_device] has_key_keys [of finite_capture_device]

lemma finite_capture_comparison_baseline_get [simp]:
  "dget finite_capture_comparison_baseline ''status'' = PStr ''required_not_recorded''"
  "dget finite_capture_comparison_baseline ''speedup_claimed'' = PBool False"
  "dget finite_capture_comparison_baseline ''selected_reference'' = PNone"
  "dget finite_capture_comparison_baseline ''required_before_speedup_claim'' = PList [PStr ''same_contract_cpu_reference'',
 PStr ''same_contract_direct_hip_correctness'']"
  "dget finite_capture_comparison_baseline ''reason'' = PStr ''not reviewed''"
  by (simp_all only: finite_capture_comparison_baseline_def lookup_eval)

lemma finite_capture_comparison_baseline_keys [simp]:
  "map fst finite_capture_comparison_baseline =
    [''status'', ''speedup_claimed'', ''selected_reference'', ''required_before_speedup_claim'', ''reason'']"
  by (simp add: finite_capture_comparison_baseline_def)

lemmas finite_capture_comparison_baseline_absent [simp] =
  dget_absent [of _ finite_capture_comparison_baseline] dget_or_keys [of finite_capture_comparison_baseline] has_key_keys [of finite_capture_comparison_baseline]

lemma finite_capture_timing_metadata_get [simp]:
  "dget finite_capture_timing_metadata ''unit'' = PStr ''microseconds''"
  "dget finite_capture_timing_metadata ''source'' = PStr ''steady_clock''"
  "dget finite_capture_timing_metadata ''source_scope'' = PStr ''host_wall_clock''"
  "dget finite_capture_timing_metadata ''phase_order'' = PList [PStr ''planning'',
 PStr ''scheduling'',
 PStr ''matrix_alloc'',
 PStr ''pack'',
 PStr ''rns_gemm'',
 PStr ''crt_export'',
 PStr ''end_to_end'']"
  "dget finite_capture_timing_metadata ''phase_availability'' = PDict [(''scheduling'', PDict [(''timed'', PBool True),
 (''timing_key'', PStr ''scheduling''),
 (''scope'', PStr ''one_time_schedule_info_query''),
 (''reason'', PStr ''measured'')]),
 (''reduction'', PDict [(''timed'', PBool False),
 (''timing_key'', PNone),
 (''scope'', PStr ''fused_into_rns_gemm''),
 (''reason'', PStr ''measured'')])]"
  "dget finite_capture_timing_metadata ''gpu_event_timing'' = PBool False"
  "dget finite_capture_timing_metadata ''gpu_event_timing_reason'' = PStr ''cpu''"
  by (simp_all only: finite_capture_timing_metadata_def lookup_eval)

lemma finite_capture_timing_metadata_keys [simp]:
  "map fst finite_capture_timing_metadata =
    [''unit'', ''source'', ''source_scope'', ''phase_order'', ''phase_availability'', ''gpu_event_timing'',
     ''gpu_event_timing_reason'']"
  by (simp add: finite_capture_timing_metadata_def)

lemmas finite_capture_timing_metadata_absent [simp] =
  dget_absent [of _ finite_capture_timing_metadata] dget_or_keys [of finite_capture_timing_metadata] has_key_keys [of finite_capture_timing_metadata]

lemma finite_capture_raw_timings_us_get [simp]:
  "dget finite_capture_raw_timings_us ''planning'' = PList [PInt 2000]"
  "dget finite_capture_raw_timings_us ''scheduling'' = PList [PInt 20]"
  "dget finite_capture_raw_timings_us ''matrix_alloc'' = PList [PInt 200]"
  "dget finite_capture_raw_timings_us ''pack'' = PList [PInt 40]"
  "dget finite_capture_raw_timings_us ''rns_gemm'' = PList [PInt 80]"
  "dget finite_capture_raw_timings_us ''crt_export'' = PList [PInt 60]"
  "dget finite_capture_raw_timings_us ''end_to_end'' = PList [PInt 180]"
  by (simp_all only: finite_capture_raw_timings_us_def lookup_eval)

lemma finite_capture_raw_timings_us_keys [simp]:
  "map fst finite_capture_raw_timings_us =
    [''planning'', ''scheduling'', ''matrix_alloc'', ''pack'', ''rns_gemm'', ''crt_export'', ''end_to_end'']"
  by (simp add: finite_capture_raw_timings_us_def)

lemmas finite_capture_raw_timings_us_absent [simp] =
  dget_absent [of _ finite_capture_raw_timings_us] dget_or_keys [of finite_capture_raw_timings_us] has_key_keys [of finite_capture_raw_timings_us]

lemma finite_capture_timing_summary_us_get [simp]:
  "dget finite_capture_timing_summary_us ''planning'' = PDict [(''avg'', PInt 2000),
 (''median'', PInt 2000),
 (''p95'', PInt 2000)]"
  "dget finite_capture_timing_summary_us ''scheduling'' = PDict [(''avg'', PInt 20),
 (''median'', PInt 20),
 (''p95'', PInt 20)]"
  "dget finite_capture_timing_summary_us ''matrix_alloc'' = PDict [(''avg'', PInt 200),
 (''median'', PInt 200),
 (''p95'', PInt 200)]"
  "dget finite_capture_timing_summary_us ''pack'' = PDict [(''avg'', PInt 40),
 (''median'', PInt 40),
 (''p95'', PInt 40)]"
  "dget finite_capture_timing_summary_us ''rns_gemm'' = PDict [(''avg'', PInt 80),
 (''median'', PInt 80),
 (''p95'', PInt 80)]"
  "dget finite_capture_timing_summary_us ''crt_export'' = PDict [(''avg'', PInt 60),
 (''median'', PInt 60),
 (''p95'', PInt 60)]"
  "dget finite_capture_timing_summary_us ''end_to_end'' = PDict [(''avg'', PInt 180),
 (''median'', PInt 180),
 (''p95'', PInt 180)]"
  by (simp_all only: finite_capture_timing_summary_us_def lookup_eval)

lemma finite_capture_timing_summary_us_keys [simp]:
  "map fst finite_capture_timing_summary_us =
    [''planning'', ''scheduling'', ''matrix_alloc'', ''pack'', ''rns_gemm'', ''crt_export'', ''end_to_end'']"
  by (simp add: finite_capture_timing_summary_us_def)

lemmas finite_capture_timing_summary_us_absent [simp] =
  dget_absent [of _ finite_capture_timing_summary_us] dget_or_keys [of finite_capture_timing_summary_us] has_key_keys [of finite_capture_timing_summary_us]

lemma finite_capture_get [simp]:
  "dget finite_capture ''schema_version'' = PInt 4"
  "dget finite_capture ''benchmark'' = PStr ''rns8_finite_u8_persistent_residue''"
  "dget finite_capture ''backend_requested'' = PStr ''cpu-reference''"
  "dget finite_capture ''backend_selected'' = PStr ''cpu-reference''"
  "dget finite_capture ''selected_kernel'' = PStr ''cpu_finite''"
  "dget finite_capture ''backend_metadata'' = PDict finite_capture_backend_metadata"
  "dget finite_capture ''semantics'' = PStr ''finite_field_u8''"
  "dget finite_capture ''bound_kind'' = PStr ''none''"
  "dget finite_capture ''bound_mode'' = PStr ''global''"
  "dget finite_capture ''bound'' = PInt 0"
  "dget finite_capture ''m'' = PInt 4"
  "dget finite_capture ''n'' = PInt 4"
  "dget finite_capture ''k'' = PInt 4"
  "dget finite_capture ''prefix'' = PInt 0"
  "dget finite_capture ''finite_modulus'' = PInt 7"
  "dget finite_capture ''tile_m'' = PInt 64"
  "dget finite_capture ''tile_n'' = PInt 64"
  "dget finite_capture ''k_block_size'' = PInt 4"
  "dget finite_capture ''schedule_metadata'' = PDict finite_capture_schedule_metadata"
  "dget finite_capture ''epilogue_type'' = PStr ''canonical_u8_export''"
  "dget finite_capture ''seed'' = PInt 23"
  "dget finite_capture ''warmups'' = PInt 1"
  "dget finite_capture ''repeats'' = PInt 1"
  "dget finite_capture ''input_distribution'' = PStr ''u8_uniform_0_modulus_minus_1''"
  "dget finite_capture ''command_line'' = PStr ''rns8-bench''"
  "dget finite_capture ''git_commit'' = PStr ''0''"
  "dget finite_capture ''compiler'' = PDict finite_capture_compiler"
  "dget finite_capture ''configured_amdgpu_targets'' = PStr ''none''"
  "dget finite_capture ''hip_toolchain'' = PDict finite_capture_hip_toolchain"
  "dget finite_capture ''device'' = PDict finite_capture_device"
  "dget finite_capture ''comparison_baseline'' = PDict finite_capture_comparison_baseline"
  "dget finite_capture ''timing_source'' = PStr ''steady_clock''"
  "dget finite_capture ''timing_note'' = PStr ''host''"
  "dget finite_capture ''timing_metadata'' = PDict finite_capture_timing_metadata"
  "dget finite_capture ''plan_us'' = PInt 2000"
  "dget finite_capture ''avg_planning_us'' = PInt 2000"
  "dget finite_capture ''schedule_query_us'' = PInt 20"
  "dget finite_capture ''avg_scheduling_us'' = PInt 20"
  "dget finite_capture ''matrix_alloc_us'' = PInt 200"
  "dget finite_capture ''avg_matrix_alloc_us'' = PInt 200"
  "dget finite_capture ''avg_pack_us'' = PInt 40"
  "dget finite_capture ''avg_rns_gemm_us'' = PInt 80"
  "dget finite_capture ''per_modulus_gemm_estimate_applicable'' = PBool False"
  "dget finite_capture ''avg_per_modulus_gemm_estimate_us'' = PInt 80"
  "dget finite_capture ''avg_crt_export_us'' = PInt 60"
  "dget finite_capture ''avg_end_to_end_us'' = PInt 180"
  "dget finite_capture ''raw_timings_us'' = PDict finite_capture_raw_timings_us"
  "dget finite_capture ''timing_summary_us'' = PDict finite_capture_timing_summary_us"
  "dget finite_capture ''checksum_u64'' = PInt 123456789"
  by (simp_all only: finite_capture_def lookup_eval)

lemma finite_capture_keys [simp]:
  "map fst finite_capture =
    [''schema_version'', ''benchmark'', ''backend_requested'', ''backend_selected'', ''selected_kernel'',
     ''backend_metadata'', ''semantics'', ''bound_kind'', ''bound_mode'', ''bound'', ''m'', ''n'', ''k'',
     ''prefix'', ''finite_modulus'', ''tile_m'', ''tile_n'', ''k_block_size'', ''schedule_metadata'',
     ''epilogue_type'', ''seed'', ''warmups'', ''repeats'', ''input_distribution'', ''command_line'',
     ''git_commit'', ''compiler'', ''configured_amdgpu_targets'', ''hip_toolchain'', ''device'',
     ''comparison_baseline'', ''timing_source'', ''timing_note'', ''timing_metadata'', ''plan_us'',
     ''avg_planning_us'', ''schedule_query_us'', ''avg_scheduling_us'', ''matrix_alloc_us'',
     ''avg_matrix_alloc_us'', ''avg_pack_us'', ''avg_rns_gemm_us'', ''per_modulus_gemm_estimate_applicable'',
     ''avg_per_modulus_gemm_estimate_us'', ''avg_crt_export_us'', ''avg_end_to_end_us'', ''raw_timings_us'',
     ''timing_summary_us'', ''checksum_u64'']"
  by (simp add: finite_capture_def)

lemmas finite_capture_absent [simp] =
  dget_absent [of _ finite_capture] dget_or_keys [of finite_capture] has_key_keys [of finite_capture]

text \<open>The numbers and texts the checks compute from it.\<close>

lemma finite_capture_rounded [simp]:
  "rnd64 2000 = FFin 2000" "rnd64 20 = FFin 20" "rnd64 200 = FFin 200" "rnd64 40 = FFin 40"
  "rnd64 80 = FFin 80" "rnd64 60 = FFin 60" "rnd64 180 = FFin 180"
  by code_simp+

lemma finite_capture_floats [simp]:
  "float_of_int 2000 = Inr (FFin 2000)" "float_of_int 20 = Inr (FFin 20)" "float_of_int 200 = Inr (FFin 200)"
  "float_of_int 40 = Inr (FFin 40)" "float_of_int 80 = Inr (FFin 80)" "float_of_int 60 = Inr (FFin 60)"
  "float_of_int 180 = Inr (FFin 180)"
  by (simp_all add: float_of_int_def)

lemma finite_capture_averages [simp]:
  "average_of [FFin 2000] = FFin 2000" "average_of [FFin 20] = FFin 20" "average_of [FFin 200] = FFin 200"
  "average_of [FFin 40] = FFin 40" "average_of [FFin 80] = FFin 80" "average_of [FFin 60] = FFin 60"
  "average_of [FFin 180] = FFin 180"
  by code_simp+

lemma finite_capture_quantiles:
  "\<exists>p. rnd64 (1 / 2) = FFin p" "\<exists>p. rnd64 (19 / 20) = FFin p"
  by (simp_all add: rnd64_def Let_def split: if_splits) code_simp+

lemma percentile_half [simp]: "percentile [x] (rnd64 (1 / 2)) = x"
  using finite_capture_quantiles(1) by auto

lemma percentile_p95 [simp]: "percentile [x] (rnd64 (19 / 20)) = x"
  using finite_capture_quantiles(2) by auto

lemma finite_capture_texts [simp]:
  "py_str (PInt 4) = ''4''" "py_str (PInt 7) = ''7''" "py_str (PInt 65536) = ''65536''"
  "lower (strip ''cpu'') = ''cpu''" "sorted_set [''pack_a'', ''pack_b''] = [''pack_a'', ''pack_b'']"
  by code_simp+

lemma finite_capture_modulus [simp]: "is_prime_modulus 7"
  by code_simp

section \<open>The run\<close>

lemma nonnegative_ints_accepted [simp]: "validate_nonnegative_ints finite_capture = skip"
  by (simp add: run_defs Let_def cong: run split del: if_split)

lemma nested_metadata_accepted [simp]: "validate_nested_metadata finite_capture = skip"
  by (simp add: run_defs Let_def cong: run split del: if_split)

lemma backend_metadata_accepted [simp]: "validate_backend_metadata finite_capture = skip"
  by (simp add: run_defs Let_def cong: run split del: if_split)

lemma helper_lane_metadata_accepted [simp]: "validate_helper_lane_metadata finite_capture = skip"
  by (simp add: run_defs Let_def cong: run split del: if_split)

lemma contract_metadata_accepted [simp]: "validate_contract_metadata finite_capture = skip"
  by (simp add: run_defs Let_def cong: run split del: if_split)

lemma host_api_batch_metadata_accepted [simp]: "validate_host_api_batch_metadata finite_capture = skip"
  by (simp add: run_defs Let_def cong: run split del: if_split)

lemma grouped_dispatch_metadata_accepted [simp]: "validate_grouped_dispatch_metadata finite_capture = skip"
  by (simp add: run_defs Let_def cong: run split del: if_split)

lemma hip_graph_replay_metadata_accepted [simp]: "validate_hip_graph_replay_metadata finite_capture = skip"
  by (simp add: run_defs Let_def cong: run split del: if_split)

lemma comparison_baseline_accepted [simp]: "validate_comparison_baseline finite_capture = skip"
  by (simp add: run_defs Let_def cong: run split del: if_split)

lemma schedule_metadata_accepted [simp]: "validate_schedule_metadata finite_capture = skip"
  by (simp add: run_defs Let_def cong: run split del: if_split)

lemma bound_discovery_metadata_accepted [simp]: "validate_bound_discovery_metadata finite_capture = skip"
  by (simp add: run_defs Let_def cong: run split del: if_split)

lemma prefix_policy_metadata_accepted [simp]: "validate_prefix_policy_metadata finite_capture = skip"
  by (simp add: run_defs Let_def cong: run split del: if_split)

lemma semantic_contract_accepted [simp]: "validate_semantic_contract finite_capture = skip"
  by (simp add: run_defs Let_def cong: run split del: if_split)

lemma gpu_events_accepted [simp]: "validate_gpu_events finite_capture = skip"
  by (simp add: run_defs Let_def cong: run split del: if_split)

definition finite_capture_times :: "(string \<times> pyfloat list) list" where
  "finite_capture_times =
    [(''planning'', [FFin 2000]), (''scheduling'', [FFin 20]), (''matrix_alloc'', [FFin 200]),
     (''pack'', [FFin 40]), (''rns_gemm'', [FFin 80]), (''crt_export'', [FFin 60]), (''end_to_end'', [FFin 180])]"

lemma raw_timings_accepted [simp]: "validate_raw_timings finite_capture = cret finite_capture_times"
  by (simp add: run_defs finite_capture_times_def Let_def cong: run split del: if_split)

lemma pack_reuse_fields_accepted [simp]: "validate_pack_reuse_fields finite_capture finite_capture_times = skip"
  by (simp add: run_defs finite_capture_times_def Let_def cong: run split del: if_split)

lemma residue_current_timings_accepted [simp]: "validate_residue_current_timings finite_capture finite_capture_times = skip"
  by (simp add: run_defs finite_capture_times_def Let_def cong: run split del: if_split)

lemma bounded_oneshot_timings_accepted [simp]: "validate_bounded_oneshot_timings finite_capture finite_capture_times = skip"
  by (simp add: run_defs finite_capture_times_def Let_def cong: run split del: if_split)

lemma all_zero_direct_hip_adaptive_timings_accepted [simp]: "validate_all_zero_direct_hip_adaptive_timings finite_capture finite_capture_times = skip"
  by (simp add: run_defs finite_capture_times_def Let_def cong: run split del: if_split)

lemma top_level_averages_accepted [simp]: "validate_top_level_averages finite_capture finite_capture_times = skip"
  by (simp add: run_defs finite_capture_times_def Let_def cong: run split del: if_split)

lemma timing_summaries_accepted [simp]:
  "validate_timing_summaries finite_capture finite_capture_times ''timing_summary_us''
     (timing_phases finite_capture @
      filter (has_key finite_capture_times) (sorted_set OPTIONAL_REPEATED_TIMING_PHASES)) = skip"
  by (simp add: run_defs finite_capture_times_def Let_def cong: run split del: if_split)

lemma v4_accepted: "validate_v4 finite_capture = skip"
  by (simp add: validate_v4_def require_def kind_error_def is_int_value_def is_None_def BACKEND_SELECTED_VALUES_def
      BACKEND_REQUESTED_VALUES_def Let_def cong: run split del: if_split)

lemma finite_capture_accepted: "validate_document finite_capture = skip"
proof -
  have "map_of finite_capture ''schema_version'' = Some (PInt 4)" by (simp add: finite_capture_def)
  then show ?thesis by (simp add: validate_document_def is_int_value_def SCHEMA_VERSION_def v4_accepted)
qed

lemma finite_capture_valid: "validation_errors finite_capture p = Inr []"
  by (simp add: validation_errors_def finite_capture_accepted skip_def)

section \<open>Witnesses\<close>

lemma accepted_accumulator_exact_witness:
  "sint (\<Sum>(x, y) \<leftarrow> [(127, - 128), (- 3, 5), (100, 100)]. word_of_int x * word_of_int y :: 32 word) = - 6271"
  using accepted_accumulator_exact [OF finite_capture_valid, of "[(127, - 128), (- 3, 5), (100, 100)]"]
  by (simp add: vget_def)

lemma accepted_tiles_witness: "dget finite_capture ''tile_m'' \<in> PInt ` {16, 64, 128, 256, 512}"
  using accepted_tiles [OF finite_capture_valid] by (auto split: if_splits)

lemma accepted_zero_products_witness:
  "vget (dget finite_capture ''schedule_metadata'') ''zero_row_col_product_count'' =
   PInt (int (card {(i, j). i < (4::nat) \<and> j < (4::nat) \<and> (i \<in> {} \<or> j \<in> {})}))"
  using accepted_zero_products [OF finite_capture_valid, of "{}" "{}"] by (simp add: vget_def)

lemma accepted_field_modulus_witness: "{a. 0 < a \<and> a < (7::int) \<and> \<not> (\<exists>b. a * b mod 7 = 1)} = {}"
  using accepted_field_modulus [OF finite_capture_valid] by simp

lemma unhashable_mode_crashes_witness:
  "validation_errors [(''schema_version'', PInt 4), (''benchmark_execution_mode'', PList [])] (path_of ''capture.json'') = Inl TypeError"
  by (rule unhashable_mode_crashes) (simp_all add: SCHEMA_VERSION_def)

lemma schema_main_status_witness:
  "\<exists>run. schema_main (\<lambda>_. Parsed (PDict finite_capture)) [path_of ''capture.json''] = Inr run \<and> sr_status run = 0"
proof -
  have "schema_version finite_capture = Inr 4"
    by (simp add: schema_version_def finite_capture_def raise_if_def is_int_value_def)
  then obtain run where "schema_main (\<lambda>_. Parsed (PDict finite_capture)) [path_of ''capture.json''] = Inr run"
    by (simp add: schema_main_def verdict_of_def validate_capture_file_def load_capture_def validate_capture_def
        finite_capture_valid check_def raise_if_def Let_def)
  with schema_main_status [OF this] finite_capture_valid show ?thesis by auto
qed

end
