(* ===== verification/Result_Compare.thy ===== *)
theory Result_Compare
  imports Schema_Accept
begin

text \<open>
  \<open>tools/result_compare.py\<close>: two captures side by side. Every row of the report is a field of both captures
  and whether they agree; the verdict asks for agreement on the contract and, between two GPU
  captures, on the machine.
\<close>

section \<open>Fields\<close>

definition COMPARED_PHASES :: "string list" where
  "COMPARED_PHASES =
     [''global_bound_scan'', ''planning'', ''scheduling'', ''tile_bound_scan'', ''matrix_alloc'',
      ''prepack_setup'', ''pack'', ''rns_gemm'', ''per_modulus_gemm_estimate'', ''crt_export'',
      ''end_to_end'']"

definition CONTRACT_KEYS :: "string list" where
  "CONTRACT_KEYS =
     [''semantics'', ''bound_kind'', ''bound_mode'', ''bound'', ''m'', ''n'', ''k'', ''prefix'',
      ''bound_source'', ''selected_prefix'', ''requested_max_prefix'', ''contract_prefix_policy'',
      ''residue_planes_requested'', ''residue_planes_selected'', ''residue_planes_skipped'',
      ''residue_output_mode'', ''tile_m'', ''tile_n'', ''k_block_size'', ''schedule_metadata.bound_kind'',
      ''schedule_metadata.effective_bound'', ''schedule_metadata.lhs_bound'',
      ''schedule_metadata.rhs_bound'', ''schedule_metadata.bound_contract'',
      ''schedule_metadata.tile_rows'', ''schedule_metadata.tile_cols'', ''schedule_metadata.tile_count'',
      ''schedule_metadata.min_required_prefix'', ''schedule_metadata.max_required_prefix'',
      ''schedule_metadata.min_selected_prefix'', ''schedule_metadata.max_selected_prefix'',
      ''schedule_metadata.prefix_group_count'', ''schedule_metadata.adaptive_prefix_active'',
      ''schedule_metadata.adaptive_skip_active'', ''schedule_metadata.zero_a_row_proof_count'',
      ''schedule_metadata.zero_b_col_proof_count'', ''schedule_metadata.zero_row_col_product_count'',
      ''schedule_metadata.planner_zero_a_row_count'', ''schedule_metadata.planner_zero_b_col_count'',
      ''schedule_metadata.planner_zero_row_col_product_count'', ''schedule_metadata.range_bit_length'',
      ''tile_bounds_u64.source'', ''tile_bounds_u64.pattern'', ''tile_bounds_u64.order'',
      ''tile_bounds_u64.count'', ''tile_bounds_u64.min'', ''tile_bounds_u64.max'',
      ''tile_bounds_u64.hash_u64'', ''reuse_packed_inputs'', ''pack_mode'',
      ''output_policy.destination_layout'', ''output_policy.status_handling'',
      ''exact_output_contract.requested_final_output'', ''exact_output_contract.limb_count'',
      ''exact_output_contract.status_policy'', ''export_variant.name'',
      ''export_variant.semantic_contract'', ''export_variant.signedness'',
      ''export_variant.output_layout'', ''export_variant.selector_status_policy'',
      ''export_variant.d2h_policy'', ''export_variant.final_output_mode'', ''export_variant.selector_key'',
      ''reconstruction_variant.name'', ''modulus_set.name'', ''modulus_set.product_bits'',
      ''residue_count_policy.policy'', ''residue_count_policy.selected_prefix'',
      ''tile_shape_variant.name'', ''tile_shape_variant.tile_m'', ''tile_shape_variant.tile_n'',
      ''tile_shape_variant.tile_k'', ''tile_shape_variant.k_block_policy'',
      ''grouped_dispatch.task_count'', ''adaptive_grouped_scheduler.requested'',
      ''adaptive_grouped_scheduler.strategy'', ''resident_lifetime.enabled'',
      ''resident_lifetime.output_domain'', ''workspace_arena.enabled'', ''workspace_arena.stream_safety'',
      ''streaming_overlap.requested'', ''streaming_overlap.pipeline'', ''release_gate.name'',
      ''verification_amortization.policy'', ''workload_proxy.family'', ''workload_proxy.label'',
      ''prepack_reuse_operands'', ''prepack_reuse_strategy'', ''seed'', ''input_distribution'']"

definition EXPORT_SELECTOR_REVIEW_DIFF_KEYS :: "string list" where
  "EXPORT_SELECTOR_REVIEW_DIFF_KEYS =
     [''export_variant.name'', ''export_variant.selector_status_policy'', ''export_variant.d2h_policy'',
      ''export_variant.selector_key'', ''reconstruction_variant.name'']"

definition GPU_COMPATIBILITY_KEYS :: "string list" where
  "GPU_COMPATIBILITY_KEYS =
     [''compiler.id'', ''compiler.version'', ''configured_amdgpu_targets'', ''hip_toolchain.enabled'',
      ''hip_toolchain.hip_root'', ''hip_toolchain.hipcc_path'', ''hip_toolchain.hipcc_version'',
      ''hip_toolchain.hip_sdk_or_rocm_version'', ''device.gcn_arch'', ''device.hip_runtime_version'',
      ''device.hip_driver_version'', ''target_variant.target_id'', ''target_variant.target_namespace'']"

definition REFERENCE_BACKENDS :: "string list" where
  "REFERENCE_BACKENDS =
     [''cpu-reference'', ''wrap64-byte-limb'']"

definition BACKEND_EVIDENCE_KEYS :: "string list" where
  "BACKEND_EVIDENCE_KEYS =
     [''benchmark'', ''backend_requested'', ''backend_selected'', ''selected_kernel'',
      ''backend_metadata.source'', ''backend_metadata.selected_kernel'',
      ''backend_metadata.accelerator_backend'', ''backend_metadata.correctness_backend'',
      ''backend_metadata.matrix_engine_backend'', ''backend_metadata.compiled_kernel_available'',
      ''backend_metadata.exact_differential_validated'', ''backend_metadata.performance_validated'',
      ''backend_metadata.accelerator_library'', ''backend_metadata.accelerator_version'',
      ''backend_metadata.capability_status'', ''backend_metadata.epilogue_mode'',
      ''backend_metadata.workspace_mode'', ''backend_metadata.workspace_required_bytes'',
      ''backend_metadata.isa_evidence'', ''backend_metadata.autotune_key'', ''auto_selector.selected_key'',
      ''auto_selector.validated_hit'', ''epilogue_type'', ''packed_layout_version'',
      ''requested_next_op.resolved'', ''schedule_metadata.adaptive_execution_applied'',
      ''plan_packing.input_domain_name'', ''plan_packing.output_domain_name'',
      ''plan_packing.uses_transient_pack_workspace'', ''plan_packing.uses_matrix_engine_pack_layout'',
      ''plan_lowering.lowering_path'', ''reuse_contract.enabled'', ''reuse_contract.operand_role'',
      ''reuse_contract.setup_scope'', ''reuse_contract.backend_fingerprint'',
      ''reuse_contract.kernel_fingerprint'', ''reuse_contract.workspace_fingerprint'',
      ''export_variant.selected_kernel'', ''export_variant.selector_source'',
      ''export_variant.selector_policy'', ''export_variant.backend'', ''export_variant.target_id'',
      ''export_variant.prefix_contract'', ''export_variant.cache_visibility'',
      ''export_variant.stale_entry_reason'', ''export_variant.status_elision_reason'',
      ''export_variant.requires_tile_metadata'', ''export_variant.all_zero_tiled_output'',
      ''export_variant.constants_placement'', ''reconstruction_variant.family'',
      ''reconstruction_variant.controller'', ''modulus_set.reducer_cost_hint'',
      ''residue_count_policy.autotune_scope'', ''tile_shape_variant.selected_kernel_identity'',
      ''tile_shape_variant.resource_report_key'', ''tile_shape_variant.split_k_mode'',
      ''tile_shape_variant.accumulator_safety_key'', ''tile_shape_variant.resource_report_required'',
      ''grouped_dispatch.capture_status'', ''adaptive_grouped_scheduler.capture_status'',
      ''workspace_arena.measured_repeat_allocation_free'',
      ''workspace_arena.measured_repeat_allocation_delta.allocate_calls'',
      ''workspace_arena.measured_repeat_allocation_delta.allocated_bytes'',
      ''streaming_overlap.capture_status'', ''hip_graph_replay.requested'',
      ''hip_graph_replay.capture_status'', ''release_gate.review_status'', ''timing_metadata.pack_layout'',
      ''timing_metadata.fusion_mode'', ''timing_metadata.residue_group_width'',
      ''timing_metadata.residue_group_layout'', ''timing_metadata.generated_reducer_identity'',
      ''warmups'', ''repeats'', ''per_modulus_gemm_estimate_applicable'', ''timing_source'',
      ''timing_metadata.gpu_event_timing_source_scope'',
      ''timing_metadata.phase_availability.scheduling.scope'',
      ''timing_metadata.phase_availability.tile_bound_scan.scope'',
      ''timing_metadata.phase_availability.reduction.scope'', ''device_allocation.setup_scope'',
      ''target_variant.review_group_key'']"

text \<open>\<open>load_result\<close>: every failure of the loader and of the validator ends the program with its message.\<close>

definition load_result :: "validator \<Rightarrow> files \<Rightarrow> path \<Rightarrow> pydict res" where
  "load_result errors_of files p =
     (case rbind (load_capture files p) (\<lambda>data. rthen (validate_capture errors_of data p) (Inr data)) of
        Inl (BenchmarkSchemaError message) \<Rightarrow> Inl (SystemExit message)
      | r \<Rightarrow> r)"

fun dotted_parts :: "pyval \<Rightarrow> string list \<Rightarrow> pyval" where
  "dotted_parts v [] = v"
| "dotted_parts v (part # parts) = (if is_dict v then dotted_parts (vget v part) parts else PNone)"

definition dotted_get :: "pydict \<Rightarrow> string \<Rightarrow> pyval" where
  "dotted_get data key = dotted_parts (PDict data) (split_on CHR ''.'' key)"

definition contract_value :: "pydict \<Rightarrow> string \<Rightarrow> pyval" where
  "contract_value data key =
     (if key = ''reuse_packed_inputs'' then PBool (is_True (dget data ''reuse_packed_inputs''))
      else if key = ''pack_mode'' then PStr (capture_pack_mode data)
      else if key = ''prepack_reuse_strategy'' then PStr (capture_prepack_reuse_strategy data)
      else if key = ''bound_source'' then PStr (capture_bound_source data)
      else dotted_get data key)"

section \<open>Timings\<close>

text \<open>\<open>float(value)\<close> of a number.\<close>

definition float_of :: "pyval \<Rightarrow> pyfloat res" where
  "float_of v = (case v of PFloat x \<Rightarrow> Inr x | PBool b \<Rightarrow> Inr (FFin (of_bool b)) | _ \<Rightarrow> float_of_int (int_of v))"

definition missing_timing :: "path \<Rightarrow> string \<Rightarrow> exc" where
  "missing_timing p what = SystemExit (path_str p @ '': missing numeric timing for phase '' @ what)"

definition named_timing :: "pydict \<Rightarrow> bool \<Rightarrow> string \<Rightarrow> path \<Rightarrow> (pyfloat \<times> string) res" where
  "named_timing data bools key p =
     (if isinstance_num (dget data key) \<and> (bools \<or> \<not> is_bool (dget data key))
      then rbind (float_of (dget data key)) (\<lambda>x. Inr (x, key))
      else Inl (missing_timing p key))"

definition summary_timing :: "pydict \<Rightarrow> string \<Rightarrow> string \<Rightarrow> exc \<Rightarrow> (pyfloat \<times> string) res" where
  "summary_timing data summary phase missing =
     (let avg = vget (vget (dget data summary) phase) ''avg''
      in if isinstance_num avg
         then rbind (float_of avg) (\<lambda>x. Inr (x, summary @ ''.'' @ phase @ ''.avg''))
         else Inl missing)"

definition phase_timing :: "pydict \<Rightarrow> string \<Rightarrow> path \<Rightarrow> (pyfloat \<times> string) res" where
  "phase_timing data phase p =
     (if phase = ''per_modulus_gemm_estimate'' then named_timing data True ''avg_per_modulus_gemm_estimate_us'' p
      else if phase = ''prepack_setup'' then named_timing data False ''avg_prepack_setup_us'' p
      else summary_timing data ''timing_summary_us'' phase
        (missing_timing p (''timing_summary_us.'' @ phase @ ''.avg'')))"

definition is_proper_number :: "pyval \<Rightarrow> bool" where
  "is_proper_number v \<longleftrightarrow> isinstance_num v \<and> \<not> is_bool v"

definition phase_applicable :: "pydict \<Rightarrow> string \<Rightarrow> bool" where
  "phase_applicable data phase =
     (if phase = ''per_modulus_gemm_estimate''
      then (case dget data ''per_modulus_gemm_estimate_applicable'' of PBool b \<Rightarrow> b | _ \<Rightarrow> True)
      else if phase = ''prepack_setup'' then is_proper_number (dget data ''avg_prepack_setup_us'')
      else if phase = ''tile_bound_scan''
      then is_proper_number (dget data ''avg_tile_bound_scan_us'') \<and>
           is_dict (vget (dget data ''timing_summary_us'') ''tile_bound_scan'')
      else if phase = ''global_bound_scan''
      then is_proper_number (dget data ''avg_global_bound_scan_us'') \<and>
           is_dict (vget (dget data ''timing_summary_us'') ''global_bound_scan'')
      else True)"

text \<open>A phase that does not apply has no time; the quotient of two times exists unless the first is zero.\<close>

definition applicable_timing :: "pydict \<Rightarrow> string \<Rightarrow> path \<Rightarrow> (pyfloat option \<times> string) res" where
  "applicable_timing data phase p =
     (if phase_applicable data phase then rbind (phase_timing data phase p) (\<lambda>(x, source). Inr (Some x, source))
      else Inr (None, ''not_applicable''))"

definition opt_float :: "pyfloat option \<Rightarrow> pyval" where
  "opt_float v = (case v of None \<Rightarrow> PNone | Some x \<Rightarrow> PFloat x)"

definition delta_of :: "pyfloat option \<Rightarrow> pyfloat option \<Rightarrow> pyfloat option" where
  "delta_of base cand = (case (base, cand) of (Some x, Some y) \<Rightarrow> Some (flt_sub y x) | _ \<Rightarrow> None)"

definition time_ratio :: "pyfloat option \<Rightarrow> pyfloat option \<Rightarrow> pyfloat option" where
  "time_ratio base cand = (case (base, cand) of
       (Some x, Some y) \<Rightarrow> if flt_is_zero x then None else Some (flt_div y x)
     | _ \<Rightarrow> None)"

definition timing_row :: "pydict \<Rightarrow> pydict \<Rightarrow> path \<Rightarrow> path \<Rightarrow> string \<Rightarrow> (string \<times> pyval) res" where
  "timing_row baseline candidate bp cp phase =
     rbind (applicable_timing baseline phase bp) (\<lambda>(base, base_source).
     rbind (applicable_timing candidate phase cp) (\<lambda>(cand, cand_source).
     Inr (phase, PDict
       [(''baseline'', opt_float base), (''candidate'', opt_float cand),
        (''delta'', opt_float (delta_of base cand)), (''ratio'', opt_float (time_ratio base cand)),
        (''baseline_source'', PStr base_source), (''candidate_source'', PStr cand_source),
        (''baseline_applicable'', PBool (phase_applicable baseline phase)),
        (''candidate_applicable'', PBool (phase_applicable candidate phase))])))"

section \<open>Machines\<close>

definition selected_backend :: "pydict \<Rightarrow> string" where
  "selected_backend data =
     (let backend = dget data ''backend_selected'' in if is_None backend then [] else py_str backend)"

definition is_gpu_capture :: "pydict \<Rightarrow> bool" where
  "is_gpu_capture data =
     (let backend = selected_backend data; device = dget data ''device''
      in if backend \<in> set REFERENCE_BACKENDS then False
         else if is_False (vget (dget data ''hip_toolchain'') ''enabled'') then False
         else if is_dict device
         then lower (strip (py_str (py_or (vget device ''gcn_arch'') (PStr [])))) \<notin>
              {[], ''none'', ''cpu'', ''unknown'', ''not_applicable'', ''n/a'', ''null''}
         else backend \<notin> {[], ''cpu-reference''})"

definition gpu_event_phase_order :: "pydict \<Rightarrow> string list" where
  "gpu_event_phase_order data =
     (let order = dget (capture_timing_metadata data) ''gpu_event_phase_order''
      in if is_list order \<and> list_all is_str (elems_of order) then map str_of (elems_of order) else [])"

definition gpu_event_phase_timing :: "pydict \<Rightarrow> string \<Rightarrow> path \<Rightarrow> (pyfloat \<times> string) res" where
  "gpu_event_phase_timing data phase p =
     summary_timing data ''gpu_event_timing_summary_us'' phase
       (SystemExit (path_str p @ '': missing numeric GPU event timing for phase '' @ phase))"

definition event_row :: "pydict \<Rightarrow> pydict \<Rightarrow> path \<Rightarrow> path \<Rightarrow> string \<Rightarrow> (string \<times> pyval) res" where
  "event_row baseline candidate bp cp phase =
     rbind (gpu_event_phase_timing baseline phase bp) (\<lambda>(base, base_source).
     rbind (gpu_event_phase_timing candidate phase cp) (\<lambda>(cand, cand_source).
     Inr (phase, PDict
       [(''baseline'', PFloat base), (''candidate'', PFloat cand), (''delta'', PFloat (flt_sub cand base)),
        (''ratio'', opt_float (time_ratio (Some base) (Some cand))),
        (''baseline_source'', PStr base_source), (''candidate_source'', PStr cand_source)])))"

definition compare_gpu_events :: "pydict \<Rightarrow> pydict \<Rightarrow> path \<Rightarrow> path \<Rightarrow> pydict res" where
  "compare_gpu_events baseline candidate bp cp =
     (let base_meta = capture_timing_metadata baseline;
          cand_meta = capture_timing_metadata candidate;
          base_enabled = is_True (dget base_meta ''gpu_event_timing'');
          cand_enabled = is_True (dget cand_meta ''gpu_event_timing'');
          base_source = dget base_meta ''gpu_event_timing_source'';
          cand_source = dget cand_meta ''gpu_event_timing_source'';
          base_scope = dget base_meta ''gpu_event_timing_source_scope'';
          cand_scope = dget cand_meta ''gpu_event_timing_source_scope'';
          base_phases = gpu_event_phase_order baseline;
          cand_phases = gpu_event_phase_order candidate;
          source_match = py_eq base_source cand_source;
          scope_match = py_eq base_scope cand_scope;
          phases_match = base_phases = cand_phases;
          comparable = base_enabled \<and> cand_enabled \<and> source_match \<and> scope_match \<and> phases_match;
          reason = (if comparable then ''comparable''
            else if \<not> base_enabled \<or> \<not> cand_enabled then ''gpu_event_timing_not_enabled_for_both_captures''
            else if \<not> source_match then ''gpu_event_timing_source_mismatch''
            else if \<not> scope_match then ''gpu_event_timing_source_scope_mismatch''
            else if \<not> phases_match then ''gpu_event_phase_order_mismatch''
            else ''comparable'')
      in rbind (rmapM (event_row baseline candidate bp cp) (if comparable then base_phases else [])) (\<lambda>rows.
         Inr [(''comparable'', PBool comparable), (''reason'', PStr reason),
              (''baseline_enabled'', PBool base_enabled), (''candidate_enabled'', PBool cand_enabled),
              (''baseline_source'', base_source), (''candidate_source'', cand_source),
              (''baseline_source_scope'', base_scope), (''candidate_source_scope'', cand_scope),
              (''baseline_phase_order'', str_list base_phases), (''candidate_phase_order'', str_list cand_phases),
              (''timings'', PDict (dict_of rows))]))"

section \<open>The comparison\<close>

definition field_row :: "(pydict \<Rightarrow> string \<Rightarrow> pyval) \<Rightarrow> pydict \<Rightarrow> pydict \<Rightarrow> string \<Rightarrow> pydict" where
  "field_row get baseline candidate key =
     [(''baseline'', get baseline key), (''candidate'', get candidate key),
      (''match'', PBool (py_eq (get baseline key) (get candidate key)))]"

definition contract_row :: "bool \<Rightarrow> pydict \<Rightarrow> pydict \<Rightarrow> string \<Rightarrow> pydict" where
  "contract_row allow baseline candidate key =
     field_row contract_value baseline candidate key @
     [(''ignored_for_contract'', PBool (allow \<and> key \<in> set EXPORT_SELECTOR_REVIEW_DIFF_KEYS))]"

definition row_true :: "pydict \<Rightarrow> string \<Rightarrow> bool" where
  "row_true row k = truthy (dget row k)"

definition keyed_rows :: "(string \<Rightarrow> pydict) \<Rightarrow> string list \<Rightarrow> pyval" where
  "keyed_rows row keys = PDict (map (\<lambda>key. (key, PDict (row key))) keys)"

definition matching_contract :: "bool \<Rightarrow> pydict \<Rightarrow> pydict \<Rightarrow> bool" where
  "matching_contract allow baseline candidate \<longleftrightarrow>
     list_all (\<lambda>key. let row = contract_row allow baseline candidate key
        in row_true row ''match'' \<or> row_true row ''ignored_for_contract'') CONTRACT_KEYS"

definition gpu_compatible :: "pydict \<Rightarrow> pydict \<Rightarrow> bool" where
  "gpu_compatible baseline candidate \<longleftrightarrow>
     \<not> (is_gpu_capture baseline \<and> is_gpu_capture candidate) \<or>
     list_all (\<lambda>key. row_true (field_row dotted_get baseline candidate key) ''match'') GPU_COMPATIBILITY_KEYS"

definition compare :: "bool \<Rightarrow> pydict \<Rightarrow> pydict \<Rightarrow> path \<Rightarrow> path \<Rightarrow> pydict res" where
  "compare allow baseline candidate bp cp =
     rbind (rmapM (timing_row baseline candidate bp cp) COMPARED_PHASES) (\<lambda>timings.
     rbind (schema_version baseline) (\<lambda>baseline_version.
     rbind (schema_version candidate) (\<lambda>candidate_version.
     rbind (compare_gpu_events baseline candidate bp cp) (\<lambda>events.
     Inr [(''baseline'', PStr (path_str bp)), (''candidate'', PStr (path_str cp)),
          (''schema'', PDict [(''baseline_version'', PInt baseline_version), (''candidate_version'', PInt candidate_version)]),
          (''comparison_mode'', PStr (if allow then ''export_selector_review'' else ''strict_contract'')),
          (''matching_contract'', PBool (matching_contract allow baseline candidate)),
          (''gpu_compatible'', PBool (gpu_compatible baseline candidate)),
          (''gpu_compatibility_required'', PBool (is_gpu_capture baseline \<and> is_gpu_capture candidate)),
          (''contract'', keyed_rows (contract_row allow baseline candidate) CONTRACT_KEYS),
          (''gpu_compatibility'', keyed_rows (field_row dotted_get baseline candidate) GPU_COMPATIBILITY_KEYS),
          (''backend_evidence'', keyed_rows (field_row dotted_get baseline candidate) BACKEND_EVIDENCE_KEYS),
          (''timings'', PDict timings),
          (''gpu_event_timings'', PDict events)]))))"

text \<open>The program: the report with \<open>--json\<close>, and the exit status.\<close>

definition compare_main :: "validator \<Rightarrow> files \<Rightarrow> bool \<Rightarrow> path \<Rightarrow> path \<Rightarrow> (pydict \<times> int) res" where
  "compare_main errors_of files allow bp cp =
     rbind (load_result errors_of files bp) (\<lambda>baseline.
     rbind (load_result errors_of files cp) (\<lambda>candidate.
     rbind (compare allow baseline candidate bp cp) (\<lambda>report.
     Inr (report, if truthy (dget report ''matching_contract'') \<and> truthy (dget report ''gpu_compatible'') then 0 else 1))))"



section \<open>Two accepted captures\<close>

lemma cnot_eq: "cnot c = cret b \<longleftrightarrow> c = cret (\<not> b)"
  by (auto simp: cnot_def cmap_def cbind_def cret_def split: sum.splits prod.splits)

lemma number_check: "ok (cwhen (cnot (c_is_number v)) (report s)) \<longleftrightarrow> c_is_number v = cret True"
  by (simp add: ok_cwhen cnot_eq)

lemma float_of_number:
  assumes "c_is_number v = cret True"
  shows "is_proper_number v" "\<exists>x. float_of v = Inr x"
proof -
  show proper: "is_proper_number v" using assms by (simp add: c_is_number_def is_proper_number_def split: if_splits)
  then have "cmap flt_finite (c_float v) = cret True" using assms by (simp add: c_is_number_def is_proper_number_def)
  then show "\<exists>x. float_of v = Inr x" using proper
    by (cases v) (auto simp: is_proper_number_def float_of_def c_float_def lift_def cmap_def cret_def split: sum.splits)
qed

lemma required_number:
  assumes "ok (cbind (require data key ''number'') f)"
  shows "c_is_number (dget data key) = cret True"
proof -
  have "ok (require data key ''number'')" using assms unfolding ok_cbind ok_iff [of "require data key ''number''"] by blast
  then show ?thesis by (simp add: require_def kind_error_def ok_cthen number_check split: if_splits)
qed

lemma summary_number:
  assumes "ok (validate_timing_summaries data raw summary phases)" "phase \<in> set phases"
  shows "c_is_number (vget (vget (dget data summary) phase) ''avg'') = cret True"
proof -
  obtain d where d: "require data summary ''dict'' = cret d"
    using assms(1) unfolding validate_timing_summaries_def ok_cbind by blast
  then have "d = dget data summary" "is_dict d" using require_dict by blast+
  with assms show ?thesis
    unfolding validate_timing_summaries_def d cbind_cret
    by (auto simp: ok_cfor ok_cthen number_check Let_def split: if_splits)
qed

lemma accepted_timings:
  assumes "validation_errors data p = Inr []"
  shows accepted_events: "ok (validate_gpu_events data)"
    and accepted_averages: "\<exists>raw. ok (validate_top_level_averages data raw)"
    and accepted_reuse: "\<exists>raw. ok (validate_pack_reuse_fields data raw)"
    and accepted_summaries: "\<exists>raw phases. set (timing_phases data) \<subseteq> set phases \<and>
      ok (validate_timing_summaries data raw ''timing_summary_us'' phases)"
proof -
  obtain raw where raw: "validate_raw_timings data = cret raw"
    using accepted_v4 [OF assms] by (simp only: validate_v4_def checks ok_cbind) blast
  note body = accepted_v4 [OF assms, unfolded validate_v4_def Let_def ok_cseq list.set ball_simps raw cbind_cret]
  from body show "ok (validate_gpu_events data)" by blast
  from body have "ok (validate_top_level_averages data raw)" by blast
  then show "\<exists>raw. ok (validate_top_level_averages data raw)" by blast
  from body have "ok (validate_pack_reuse_fields data raw)" by blast
  then show "\<exists>raw. ok (validate_pack_reuse_fields data raw)" by blast
  from body have "ok (validate_timing_summaries data raw ''timing_summary_us''
    (timing_phases data @ filter (\<lambda>phase. has_key raw phase) (sorted_set OPTIONAL_REPEATED_TIMING_PHASES)))" by blast
  then show "\<exists>raw phases. set (timing_phases data) \<subseteq> set phases \<and>
      ok (validate_timing_summaries data raw ''timing_summary_us'' phases)"
    by (intro exI conjI [rotated], assumption) (simp only: set_append Un_upper1)
qed

lemma accepted_phase:
  "validation_errors data p = Inr [] \<Longrightarrow> phase \<in> set (timing_phases data) \<Longrightarrow>
   c_is_number (vget (vget (dget data ''timing_summary_us'') phase) ''avg'') = cret True"
  using accepted_summaries summary_number by blast

lemma accepted_per_modulus:
  assumes "validation_errors data p = Inr []"
  shows "c_is_number (dget data ''avg_per_modulus_gemm_estimate_us'') = cret True"
proof -
  obtain raw where raw: "ok (validate_top_level_averages data raw)" using accepted_averages [OF assms] by blast
  then obtain query where query: "require data ''schedule_query_us'' ''number'' = cret query"
    unfolding validate_top_level_averages_def by (simp only: checks ok_cbind) blast
  from raw show ?thesis
    unfolding validate_top_level_averages_def Let_def ok_cseq list.set ball_simps query cbind_cret
    using required_number by blast
qed

lemma accepted_prepack:
  assumes "validation_errors data p = Inr []" "is_proper_number (dget data ''avg_prepack_setup_us'')"
  shows "c_is_number (dget data ''avg_prepack_setup_us'') = cret True"
proof -
  let ?avg = "dget data ''avg_prepack_setup_us''"
  obtain raw where raw: "ok (validate_pack_reuse_fields data raw)" using accepted_reuse [OF assms(1)] by blast
  have "has_key data ''avg_prepack_setup_us'' \<and> \<not> is_None ?avg"
    using assms(2) by (cases ?avg) (auto simp: dget_def has_key_def is_proper_number_def is_None_def split: option.splits dest: map_of_SomeD intro: rev_image_eqI)
  show ?thesis
  proof (cases "is_True (dget_or data ''reuse_packed_inputs'' (PBool False))")
    case True
    then have "\<exists>m s. ok (cif (cnot (c_is_number ?avg)) (report s) m)"
      using raw unfolding validate_pack_reuse_fields_def Let_def by (simp only: checks if_True) blast
    then show ?thesis by (auto simp: ok_cif cnot_eq split: if_splits)
  next
    case False
    then have "\<exists>s. ok (whenp (has_key data ''avg_prepack_setup_us'' \<and> \<not> is_None ?avg) (report s))"
      using raw unfolding validate_pack_reuse_fields_def Let_def by (simp only: checks if_False) blast
    then show ?thesis using \<open>has_key data _ \<and> _\<close> by (simp add: ok_whenp)
  qed
qed

lemma accepted_event_phase:
  assumes "validation_errors data p = Inr []"
    and "is_True (dget (capture_timing_metadata data) ''gpu_event_timing'')"
    and "phase \<in> set (gpu_event_phase_order data)"
  shows "c_is_number (vget (vget (dget data ''gpu_event_timing_summary_us'') phase) ''avg'') = cret True"
proof -
  let ?meta = "dget data ''timing_metadata''"
  have dict: "is_dict ?meta" and items: "capture_timing_metadata data = items_of ?meta"
    and enabled: "vget ?meta ''gpu_event_timing'' = PBool True"
    using assms(2) by (cases ?meta; simp add: capture_timing_metadata_def dict_or_empty_def vget_def True_iff dget_def)+
  have "is_int_value (dget data ''repeats'')"
    using accepted_int_fields [OF assms(1), of "''repeats''"] by (auto simp: int_value_iff)
  with dict enabled have *: "(\<not> \<not> is_dict ?meta) = True" "(\<not> truthy (vget ?meta ''gpu_event_timing'')) = False"
    "(\<not> (\<not> is_bool (vget ?meta ''gpu_event_timing'') \<or> \<not> is_int_value (dget data ''repeats''))) = True"
    by simp_all
  note ok = accepted_events [OF assms(1), unfolded validate_gpu_events_def Let_def * whenp_True if_False]
  obtain chain where chain: "is_residue_current_chain_capture data = cret chain" using ok unfolding ok_cbind by blast
  note ok = ok [unfolded chain cbind_cret ok_cseq list.set ball_simps]
  have timings: "(\<not> is_dict (dget data ''gpu_event_timings_us'')) = False" using ok ok_report by (cases "is_dict (dget data ''gpu_event_timings_us'')") (simp_all only: if_True if_False simp_thms)
  note ok = ok [unfolded timings if_False]
  obtain phases where phases: "gpu_event_phases data (items_of ?meta) = cret phases" using ok unfolding ok_cbind by blast
  have order: "phases = gpu_event_phase_order data"
    using phases by (auto simp: gpu_event_phases_def gpu_event_phase_order_def items strs_of_def cret_def report_def
        cthen_def cbind_def Let_def split: if_splits)
  have "(\<not> \<not> phases \<noteq> []) = True" using assms(3) order by auto
  note ok = ok [unfolded phases cbind_cret this whenp_True ok_cseq list.set ball_simps]
  have "\<exists>parsed. ok (validate_timing_summaries data parsed ''gpu_event_timing_summary_us'' phases)"
    using ok unfolding ok_cbind ok_cseq list.set ball_simps by blast
  then show ?thesis using summary_number assms(3) order by blast
qed

text \<open>A scan of the operand bounds is timed when the bound was found by scanning; the validator then checks
  its times. \<open>undeclared_scans\<close> are the scans a capture has times for without having been one of them.\<close>

definition undeclared_scans :: "pydict \<Rightarrow> string list" where
  "undeclared_scans data =
     filter (\<lambda>phase. phase_applicable data phase \<and> phase \<notin> set (timing_phases data)) [''global_bound_scan'', ''tile_bound_scan'']"

lemma timing_phases_superset: "set TIMING_PHASES \<subseteq> set (timing_phases data)"
proof -
  have "set (insert_at i x xs) = insert x (set xs)" for i and x :: string and xs
  proof -
    have "set xs = set (take (nat i) xs) \<union> set (drop (nat i) xs)" by (metis append_take_drop_id set_append)
    then show ?thesis by (auto simp: insert_at_def)
  qed
  then show ?thesis by (auto simp: timing_phases_def Let_def)
qed

lemma rbind_total: "\<exists>x. m = Inr x \<Longrightarrow> (\<And>x. \<exists>y. f x = Inr y) \<Longrightarrow> \<exists>y. rbind m f = Inr y"
  by auto

lemma case_prod_total: "(\<And>x y. \<exists>z. f x y = Inr z) \<Longrightarrow> \<exists>z. (case xy of (x, y) \<Rightarrow> f x y) = Inr z"
  by (cases xy) simp

lemma named_timing_total:
  "c_is_number (dget data key) = cret True \<Longrightarrow> \<exists>r. named_timing data bools key p = Inr r"
  using float_of_number [of "dget data key"] by (simp add: named_timing_def is_proper_number_def rbind_total del: split_paired_Ex)

lemma summary_timing_total:
  "c_is_number (vget (vget (dget data summary) phase) ''avg'') = cret True \<Longrightarrow>
   \<exists>r. summary_timing data summary phase missing = Inr r"
  using float_of_number [of "vget (vget (dget data summary) phase) ''avg''"]
  by (simp add: summary_timing_def is_proper_number_def rbind_total Let_def del: split_paired_Ex)

lemma phase_timing_total:
  assumes "validation_errors data p = Inr []" "undeclared_scans data = []"
    and "phase \<in> set COMPARED_PHASES" "phase_applicable data phase"
  shows "\<exists>r. phase_timing data phase q = Inr r"
proof (cases "phase \<in> {''per_modulus_gemm_estimate'', ''prepack_setup''}")
  case True
  have "phase = ''prepack_setup'' \<Longrightarrow> is_proper_number (dget data ''avg_prepack_setup_us'')"
    using assms(4) by (simp add: phase_applicable_def)
  with True show ?thesis
    using named_timing_total accepted_per_modulus [OF assms(1)] accepted_prepack [OF assms(1)]
    by (auto simp: phase_timing_def)
next
  case False
  have split: "X \<subseteq> A \<union> B \<union> C \<Longrightarrow> x \<in> X \<Longrightarrow> x \<notin> C \<Longrightarrow> x \<in> A \<or> x \<in> B" for X A B C and x :: string
    by blast
  have "set COMPARED_PHASES \<subseteq> set TIMING_PHASES \<union> {''global_bound_scan'', ''tile_bound_scan''} \<union>
      {''per_modulus_gemm_estimate'', ''prepack_setup''}"
    by (simp only: COMPARED_PHASES_def TIMING_PHASES_def list.set insert_subset Un_iff insert_iff empty_subsetI simp_thms)
  then have "phase \<in> set TIMING_PHASES \<or> phase \<in> {''global_bound_scan'', ''tile_bound_scan''}"
    using assms(3) False by (rule split)
  moreover have "\<forall>phase \<in> {''global_bound_scan'', ''tile_bound_scan''}. phase_applicable data phase \<longrightarrow> phase \<in> set (timing_phases data)"
    using assms(2) unfolding undeclared_scans_def filter_empty_conv list.set by blast
  ultimately have "phase \<in> set (timing_phases data)"
    using assms(4) subsetD [OF timing_phases_superset] by metis
  with False show ?thesis
    using summary_timing_total accepted_phase [OF assms(1)] by (simp add: phase_timing_def)
qed

lemma applicable_timing_total:
  assumes "validation_errors data p = Inr []" "undeclared_scans data = []" "phase \<in> set COMPARED_PHASES"
  shows "\<exists>r. applicable_timing data phase q = Inr r"
  using phase_timing_total [OF assms]
  by (simp add: applicable_timing_def rbind_total case_prod_total del: split_paired_Ex)

lemma compare_gpu_events_total:
  assumes "validation_errors a p = Inr []" "validation_errors b q = Inr []"
  shows "\<exists>r. compare_gpu_events a b bp cp = Inr r"
proof -
  have "\<exists>r. event_row a b bp cp phase = Inr r"
    if "is_True (dget (capture_timing_metadata a) ''gpu_event_timing'')" "phase \<in> set (gpu_event_phase_order a)"
      "is_True (dget (capture_timing_metadata b) ''gpu_event_timing'')" "phase \<in> set (gpu_event_phase_order b)" for phase
    using accepted_event_phase [OF assms(1) that(1,2)] accepted_event_phase [OF assms(2) that(3,4)]
    by (simp add: event_row_def gpu_event_phase_timing_def rbind_total case_prod_total summary_timing_total del: split_paired_Ex)
  then have "\<exists>rows. rmapM (event_row a b bp cp)
    (if is_True (dget (capture_timing_metadata a) ''gpu_event_timing'') \<and>
        is_True (dget (capture_timing_metadata b) ''gpu_event_timing'') \<and> same_source \<and> same_scope \<and>
        gpu_event_phase_order a = gpu_event_phase_order b
     then gpu_event_phase_order a else []) = Inr rows" for same_source same_scope
    by (intro rmapM_total) (auto simp del: split_paired_Ex split: if_splits)
  then show ?thesis unfolding compare_gpu_events_def Let_def by (intro rbind_total) blast+
qed

lemma compare_total:
  assumes "validation_errors a p = Inr []" "validation_errors b q = Inr []"
    and "undeclared_scans a = []" "undeclared_scans b = []"
  shows "\<exists>result. compare allow a b bp cp = Inr result"
proof -
  have "\<exists>r. timing_row a b bp cp phase = Inr r" if "phase \<in> set COMPARED_PHASES" for phase
    using applicable_timing_total [OF assms(1,3) that] applicable_timing_total [OF assms(2,4) that]
    by (simp add: timing_row_def rbind_total case_prod_total del: split_paired_Ex)
  then obtain rows where "rmapM (timing_row a b bp cp) COMPARED_PHASES = Inr rows" using rmapM_total by blast
  moreover obtain events where "compare_gpu_events a b bp cp = Inr events" using compare_gpu_events_total assms(1,2) by blast
  moreover have "schema_version a = Inr SCHEMA_VERSION" "schema_version b = Inr SCHEMA_VERSION"
    using assms(1,2) by (simp_all add: accepted_iff schema_version_def is_int_value_def)
  ultimately show ?thesis by (simp add: compare_def)
qed

text \<open>C38: Two accepted captures can always be compared: when neither reports the time of a scan it did not
  declare, every phase, every event and both versions are found, so the comparison returns its report
  instead of stopping at a missing time.\<close>

theorem compare_returns:
  assumes "validation_errors a p = Inr []" "validation_errors b q = Inr []"
    and "undeclared_scans a = []" "undeclared_scans b = []"
  shows "\<exists>result. compare allow a b bp cp = Inr result"
  using compare_total [OF assms] .

section \<open>The exit status\<close>

lemma load_result_accepted:
  assumes "load_result validation_errors files p = Inr data"
  shows "files p = Parsed (PDict data)" "validation_errors data p = Inr []"
  using assms by (auto simp: load_result_def load_capture_def validate_capture_def res_simps Let_def
      split: json_file.splits pyval.splits sum.splits exc.splits if_splits)

lemma contract_agrees:
  assumes "matching_contract allow a b" "key \<in> set CONTRACT_KEYS"
    and "\<not> (allow \<and> key \<in> set EXPORT_SELECTOR_REVIEW_DIFF_KEYS)"
  shows "py_eq (contract_value a key) (contract_value b key)"
  using assms by (auto simp: matching_contract_def list_all_iff contract_row_def field_row_def row_true_def dget_def Let_def)

lemma gpu_agrees:
  assumes "gpu_compatible a b" "is_gpu_capture a" "is_gpu_capture b" "key \<in> set GPU_COMPATIBILITY_KEYS"
  shows "py_eq (dotted_get a key) (dotted_get b key)"
  using assms by (auto simp: gpu_compatible_def list_all_iff field_row_def row_true_def dget_def)

lemma compare_main_zero:
  assumes "compare_main validation_errors files allow bp cp = Inr (result, 0)"
  obtains a b where "files bp = Parsed (PDict a)" "files cp = Parsed (PDict b)"
    "validation_errors a bp = Inr []" "validation_errors b cp = Inr []"
    "matching_contract allow a b" "gpu_compatible a b"
proof -
  obtain a b where ab: "load_result validation_errors files bp = Inr a" "load_result validation_errors files cp = Inr b"
    and report: "compare allow a b bp cp = Inr result"
    and status: "truthy (dget result ''matching_contract'')" "truthy (dget result ''gpu_compatible'')"
    using assms by (auto simp: compare_main_def res_simps split: if_splits)
  have "matching_contract allow a b" "gpu_compatible a b"
    using report status by (auto simp: compare_def res_simps dget_def)
  with ab show thesis using load_result_accepted that by blast
qed

text \<open>The problem a capture measured: the fields that are compared as they are.\<close>

definition problem_keys :: "string list" where
  "problem_keys = [''m'', ''n'', ''k'', ''prefix'', ''bound'', ''seed'', ''tile_m'', ''tile_n'', ''k_block_size'']"

lemma problem_key:
  assumes "key \<in> set problem_keys"
  shows "key \<in> set CONTRACT_KEYS" "key \<notin> set EXPORT_SELECTOR_REVIEW_DIFF_KEYS" "contract_value data key = dget data key"
    and "validation_errors data p = Inr [] \<Longrightarrow> \<exists>i. dget data key = PInt i"
proof -
  have "list_all (\<lambda>key. key \<in> set CONTRACT_KEYS \<and> key \<in> {''bound'', ''m'', ''n'', ''k'', ''prefix'', ''tile_m'',
      ''tile_n'', ''k_block_size'', ''seed'', ''warmups'', ''repeats'', ''checksum_u64''}) problem_keys"
    by code_simp
  note * = bspec [OF this [unfolded list_all_iff] assms]
  show "key \<in> set CONTRACT_KEYS" by (rule * [THEN conjunct1])
  show "\<exists>i. dget data key = PInt i" if "validation_errors data p = Inr []"
    by (rule accepted_int_fields [OF that * [THEN conjunct2]])
  have "list_all (\<lambda>key. key \<notin> set EXPORT_SELECTOR_REVIEW_DIFF_KEYS \<and> split_on CHR ''.'' key = [key] \<and>
      key \<notin> {''reuse_packed_inputs'', ''pack_mode'', ''prepack_reuse_strategy'', ''bound_source''}) problem_keys"
    by code_simp
  note * = bspec [OF this [unfolded list_all_iff] assms]
  show "key \<notin> set EXPORT_SELECTOR_REVIEW_DIFF_KEYS" by (rule * [THEN conjunct1])
  from * show "contract_value data key = dget data key"
    unfolding contract_value_def dotted_get_def by (simp only: insert_iff empty_iff de_Morgan_disj if_False dotted_parts.simps is_dict.simps vget_def items_of.simps if_True)
qed

text \<open>A capture without a NaN agrees with itself.\<close>

fun nan_free :: "pyval \<Rightarrow> bool" where
  "nan_free (PFloat x) = (x \<noteq> FNaN)"
| "nan_free (PList xs) = list_all nan_free xs"
| "nan_free (PDict xs) = (distinct (map fst xs) \<and> list_all (\<lambda>p. nan_free (snd p)) xs)"
| "nan_free _ = True"

lemma nan_free_wf: "nan_free v \<Longrightarrow> json_wf v"
  by (induction v rule: nan_free.induct) (auto simp: list_all_iff)

lemma nan_free_eq: "nan_free v \<Longrightarrow> py_eq v v"
  using elem_eq_refl [OF nan_free_wf, of v] by (auto simp: elem_eq_def both_nan_def)

lemma nan_free_dget: "nan_free (PDict d) \<Longrightarrow> nan_free (dget d k)"
  by (auto simp: dget_def list_all_iff split: option.splits dest!: map_of_SomeD)

lemma nan_free_dotted: "nan_free v \<Longrightarrow> nan_free (dotted_parts v parts)"
proof (induction parts arbitrary: v)
  case (Cons part parts)
  then show ?case by (cases v) (simp_all add: vget_def nan_free_dget del: nan_free.simps(3))
qed simp

lemma contract_value_self:
  assumes "nan_free (PDict a)"
  shows "py_eq (contract_value a key) (contract_value a key)"
  using nan_free_dotted [OF assms] by (intro nan_free_eq) (simp add: contract_value_def dotted_get_def)

lemma matching_contract_self: "nan_free (PDict a) \<Longrightarrow> matching_contract allow a a"
  using contract_value_self
  by (simp add: matching_contract_def list_all_iff contract_row_def field_row_def row_true_def dget_def Let_def)

lemma compare_main_self:
  assumes "files p = Parsed (PDict a)" "validation_errors a p = Inr []" "undeclared_scans a = []"
    and "matching_contract allow a a" "gpu_compatible a a"
  shows "\<exists>result. compare_main validation_errors files allow p p = Inr (result, 0)"
proof -
  obtain result where result: "compare allow a a p p = Inr result" using compare_total [OF assms(2,2,3,3)] by blast
  then have "dget result ''matching_contract'' = PBool True" "dget result ''gpu_compatible'' = PBool True"
    using assms(4,5) by (auto simp: compare_def res_simps dget_def)
  moreover have "schema_version a = Inr SCHEMA_VERSION"
    using assms(2) by (simp add: accepted_iff schema_version_def is_int_value_def)
  then have "load_result validation_errors files p = Inr a"
    using assms(1,2) by (simp add: load_result_def load_capture_def validate_capture_def)
  ultimately show ?thesis using result by (simp add: compare_main_def)
qed


end
