(* ===== verification/Compare_Example.thy ===== *)
theory Compare_Example
  imports Result_Compare Schema_Example
begin

text \<open>The finite-field capture compared with itself.\<close>

lemma finite_capture_nan_free: "nan_free (PDict finite_capture)"
  by code_simp

lemma finite_capture_scans: "undeclared_scans finite_capture = []"
  by code_simp

lemma finite_capture_machine: "gpu_compatible finite_capture finite_capture"
proof -
  have "\<not> is_gpu_capture finite_capture" by code_simp
  then show ?thesis by (simp add: gpu_compatible_def)
qed

lemma compare_returns_witness:
  "\<exists>result. compare False finite_capture finite_capture (path_of ''a.json'') (path_of ''b.json'') = Inr result"
  by (rule compare_returns [OF finite_capture_valid finite_capture_valid finite_capture_scans finite_capture_scans])


end
