(* ===== verification/Perf_Variance.thy ===== *)
theory Perf_Variance
  imports Promotion_Ledger Schema_Shared
begin

text \<open>
  \<open>tools/perf_variance_report.py\<close>: whether the timings of a capture repeat well enough to believe its
  speedup, and by how much a speedup must exceed one to be outside the noise. The ledger reads the
  report. \<open>resolve\<close>, \<open>errors_of\<close> and \<open>fs\<close> are those of \<open>Promotion_Ledger\<close>, \<open>now\<close> is the formatted UTC
  time; the Markdown table is not modelled.
\<close>

section \<open>Thresholds\<close>

record variance_options =
  vo_min_repeats :: int
  vo_min_runs :: int
  vo_require_multi_run :: bool
  vo_max_within :: pyfloat
  vo_max_run_to_run :: pyfloat
  vo_min_margin :: pyfloat

definition DEFAULT_MIN_REPEATS :: int where
  "DEFAULT_MIN_REPEATS = 9"

definition DEFAULT_MIN_RUNS :: int where
  "DEFAULT_MIN_RUNS = 2"

definition DEFAULT_MAX_WITHIN_CAPTURE_REL_SPREAD :: pyfloat where
  "DEFAULT_MAX_WITHIN_CAPTURE_REL_SPREAD = rnd64 (15 / 100)"

definition DEFAULT_MAX_RUN_TO_RUN_REL_SPREAD :: pyfloat where
  "DEFAULT_MAX_RUN_TO_RUN_REL_SPREAD = rnd64 (10 / 100)"

definition DEFAULT_MIN_NOISE_SPEEDUP_MARGIN :: pyfloat where
  "DEFAULT_MIN_NOISE_SPEEDUP_MARGIN = rnd64 (3 / 100)"

definition default_variance_options :: variance_options where
  "default_variance_options =
     \<lparr>vo_min_repeats = DEFAULT_MIN_REPEATS, vo_min_runs = DEFAULT_MIN_RUNS, vo_require_multi_run = False,
      vo_max_within = DEFAULT_MAX_WITHIN_CAPTURE_REL_SPREAD, vo_max_run_to_run = DEFAULT_MAX_RUN_TO_RUN_REL_SPREAD,
      vo_min_margin = DEFAULT_MIN_NOISE_SPEEDUP_MARGIN\<rparr>"

section \<open>Spreads\<close>

definition percentile_summary :: "pydict \<Rightarrow> string \<Rightarrow> string \<Rightarrow> pyfloat option res" where
  "percentile_summary capture phase key =
     float_or_none (vget (vget (dget capture ''timing_summary_us'') phase) key)"

definition export_kernel :: "pydict \<Rightarrow> string" where
  "export_kernel capture =
     (let kernel = vget (dget capture ''export_variant'') ''selected_kernel''
      in if is_str kernel then str_of kernel else [])"

definition variance_group_key :: "pydict \<Rightarrow> string res" where
  "variance_group_key capture =
     rbind (backend_id capture) (\<lambda>backend.
     rbind (capture_execution_mode capture) (\<lambda>mode.
     Inr (join_with '';''
       [''contract=('' @ capture_contract_key capture @ '')'', ''backend='' @ backend,
        ''kernel='' @ selected_kernel capture, ''export_kernel='' @ export_kernel capture,
        ''execution_mode='' @ mode, ''pack_mode='' @ capture_pack_mode capture])))"

text \<open>\<open>statistics.median\<close> of a nonempty list.\<close>

definition median_of :: "pyfloat list \<Rightarrow> pyfloat" where
  "median_of xs =
     (let ys = sorted_floats xs; n = length ys
      in if odd n then ys ! (n div 2) else flt_div (flt_add (ys ! (n div 2 - 1)) (ys ! (n div 2))) (FFin 2))"

definition largest :: "pyfloat list \<Rightarrow> pyfloat" where
  "largest xs = max_float id (hd xs) (tl xs)"

definition smallest :: "pyfloat list \<Rightarrow> pyfloat" where
  "smallest xs = min_float id (hd xs) (tl xs)"

definition relative_spread :: "pyfloat list \<Rightarrow> pyfloat option" where
  "relative_spread values =
     (let positive = filter (\<lambda>v. flt_lt (FFin 0) v) values; center = median_of positive
      in if positive = [] \<or> flt_le center (FFin 0) then None
         else Some (flt_div (flt_sub (largest positive) (smallest positive)) center))"

text \<open>The end-to-end times of the repeats: the numbers of \<open>raw_timings_us.end_to_end\<close>, if that is a list.\<close>

definition raw_end_to_end :: "pydict \<Rightarrow> pyval list option" where
  "raw_end_to_end capture =
     (case vget (dget capture ''raw_timings_us'') ''end_to_end'' of
        PList values \<Rightarrow> Some (filter isinstance_num values)
      | _ \<Rightarrow> None)"

definition float_of_num :: "pyval \<Rightarrow> pyfloat res" where
  "float_of_num v = rbind (float_or_none v) (\<lambda>x. case x of None \<Rightarrow> Inl TypeError | Some y \<Rightarrow> Inr y)"

definition tail_time :: "pydict \<Rightarrow> pyfloat option res" where
  "tail_time capture =
     rbind (percentile_summary capture ''end_to_end'' ''p95'') (\<lambda>p95.
     case (p95, raw_end_to_end capture) of
       (None, Some (v # vs)) \<Rightarrow> rbind (rmapM float_of_num (v # vs)) (\<lambda>times. Inr (Some (largest times)))
     | _ \<Rightarrow> Inr p95)"

definition within_capture_rel_spread :: "pydict \<Rightarrow> pyfloat option res" where
  "within_capture_rel_spread capture =
     rbind (median_phase capture ''end_to_end'') (\<lambda>median.
     case median of
       None \<Rightarrow> Inr None
     | Some m \<Rightarrow>
         if flt_le m (FFin 0) then Inr None
         else rbind (tail_time capture) (\<lambda>p95. case p95 of
             None \<Rightarrow> Inr None
           | Some p \<Rightarrow> Inr (Some (max_float id (FFin 0) [flt_div (flt_sub p m) m]))))"

definition timing_sample_count :: "pydict \<Rightarrow> int" where
  "timing_sample_count capture =
     (case raw_end_to_end capture of
        Some values \<Rightarrow> int (length values)
      | None \<Rightarrow> if is_int_value (dget capture ''repeats'') then int_of (dget capture ''repeats'') else 0)"

section \<open>The entry of a capture\<close>

definition no_median :: "pyfloat option \<Rightarrow> bool" where
  "no_median m \<longleftrightarrow> (case m of None \<Rightarrow> True | Some x \<Rightarrow> flt_le x (FFin 0))"

definition variance_blockers ::
  "variance_options \<Rightarrow> pyfloat option \<Rightarrow> int \<Rightarrow> pyfloat option \<Rightarrow> int \<Rightarrow> pyfloat option \<Rightarrow> string list" where
  "variance_blockers vo median_us sample_count inner group_count group_spread =
     block_if (no_median median_us) ''missing_end_to_end_median''
   @ block_if (sample_count < vo_min_repeats vo) ''insufficient_repeat_samples''
   @ (case inner of
        None \<Rightarrow> [''missing_within_capture_spread'']
      | Some w \<Rightarrow> block_if (flt_lt (vo_max_within vo) w) ''high_within_capture_variance'')
   @ block_if (vo_require_multi_run vo \<and> group_count < vo_min_runs vo) ''multi_run_variance_missing''
   @ block_if (vo_min_runs vo \<le> group_count \<and>
       (case group_spread of None \<Rightarrow> False | Some s \<Rightarrow> flt_lt (vo_max_run_to_run vo) s)) ''high_run_to_run_variance''"

definition observed_noise :: "variance_options \<Rightarrow> pyfloat option \<Rightarrow> pyfloat option \<Rightarrow> pyfloat" where
  "observed_noise vo inner group_spread =
     (let zero_if = (\<lambda>x. case x of None \<Rightarrow> FFin 0 | Some y \<Rightarrow> y)
      in max_float id (zero_if inner) [zero_if group_spread, vo_min_margin vo])"

definition variance_entry ::
  "(path \<Rightarrow> path) \<Rightarrow> variance_options \<Rightarrow> path \<Rightarrow> pydict \<Rightarrow> int \<Rightarrow> pyfloat option \<Rightarrow> pydict res" where
  "variance_entry resolve vo p capture group_count group_spread =
     rbind (median_phase capture ''end_to_end'') (\<lambda>median_us.
     rbind (percentile_summary capture ''end_to_end'' ''p95'') (\<lambda>p95_us.
     rbind (within_capture_rel_spread capture) (\<lambda>inner.
     let sample_count = timing_sample_count capture;
         blockers = variance_blockers vo median_us sample_count inner group_count group_spread;
         noise = observed_noise vo inner group_spread
     in rbind (variance_group_key capture) (\<lambda>key.
     rbind (backend_id capture) (\<lambda>backend.
     Inr [(''capture'', PStr (path_str p)), (''capture_key'', PStr (path_key resolve p)), (''group_key'', PStr key),
       (''backend'', PStr backend), (''selected_kernel'', PStr (selected_kernel capture)),
       (''export_selected_kernel'', if export_kernel capture = [] then PNone else PStr (export_kernel capture)),
       (''median_end_to_end_us'', float_val median_us), (''p95_end_to_end_us'', float_val p95_us),
       (''repeat_samples'', PInt sample_count), (''group_capture_count'', PInt group_count),
       (''within_capture_rel_spread'', float_val inner), (''run_to_run_rel_spread'', float_val group_spread),
       (''observed_max_relative_noise'', PFloat noise),
       (''required_speedup_margin'', PFloat (flt_add (FFin 1) noise)),
       (''promotion_ready'', PBool (blockers = [])), (''blockers'', str_list blockers)])))))"

section \<open>The report\<close>

definition group_stats :: "(path \<times> pydict) list \<Rightarrow> (int \<times> pyfloat option \<times> pyfloat option) res" where
  "group_stats items =
     rbind (rmapM (\<lambda>(p, capture). median_phase capture ''end_to_end'') items) (\<lambda>times.
     let medians = filter (\<lambda>v. flt_lt (FFin 0) v) (List.map_filter id times)
     in Inr (int (length items), if medians = [] then None else Some (median_of medians), relative_spread medians))"

definition stats_row :: "string \<times> int \<times> pyfloat option \<times> pyfloat option \<Rightarrow> pyval" where
  "stats_row = (\<lambda>(key, n, median_us, spread). PDict
     [(''group_key'', PStr key), (''capture_count'', PInt n), (''median_end_to_end_us'', float_val median_us),
      (''run_to_run_rel_spread'', float_val spread)])"

definition thresholds_dict :: "variance_options \<Rightarrow> pyval" where
  "thresholds_dict vo = PDict
     [(''min_repeats'', PInt (vo_min_repeats vo)), (''min_runs'', PInt (vo_min_runs vo)),
      (''require_multi_run'', PBool (vo_require_multi_run vo)),
      (''max_within_capture_rel_spread'', PFloat (vo_max_within vo)),
      (''max_run_to_run_rel_spread'', PFloat (vo_max_run_to_run vo)),
      (''min_noise_speedup_margin'', PFloat (vo_min_margin vo))]"

definition stats_of :: "(string \<times> int \<times> pyfloat option \<times> pyfloat option) list \<Rightarrow> string \<Rightarrow>
    int \<times> pyfloat option \<times> pyfloat option" where
  "stats_of stats key = the (map_of stats key)"

definition entry_in_group ::
  "(path \<Rightarrow> path) \<Rightarrow> variance_options \<Rightarrow> (string \<times> int \<times> pyfloat option \<times> pyfloat option) list \<Rightarrow>
   string \<times> path \<times> pydict \<Rightarrow> pydict res" where
  "entry_in_group resolve vo stats = (\<lambda>(key, p, capture).
     let (n, median_us, spread) = stats_of stats key in variance_entry resolve vo p capture n spread)"

definition variance_groups :: "validator \<Rightarrow> files \<Rightarrow> path list \<Rightarrow> (string \<times> path \<times> pydict) list res" where
  "variance_groups errors_of fs captures =
     rbind (rmapM (\<lambda>p. rbind (load_valid errors_of fs p) (\<lambda>capture. Inr (p, capture))) captures)
       (rmapM (\<lambda>(p, capture). rbind (variance_group_key capture) (\<lambda>key. Inr (key, p, capture))))"

definition build_variance_report ::
  "string \<Rightarrow> (path \<Rightarrow> path) \<Rightarrow> validator \<Rightarrow> files \<Rightarrow> variance_options \<Rightarrow> path list \<Rightarrow> pydict res" where
  "build_variance_report now resolve errors_of fs vo captures =
     rbind (variance_groups errors_of fs captures) (\<lambda>grouped.
     rbind (rmapM (\<lambda>(key, items). rbind (group_stats (map snd items)) (\<lambda>s. Inr (key, s))) (group_on fst grouped)) (\<lambda>stats.
     rbind (rmapM (entry_in_group resolve vo stats) grouped) (\<lambda>entries.
     Inr [(''schema'', PStr ''rns8_perf_variance_report_v1''), (''generated_at_utc'', PStr now),
       (''policy'', PStr ''reviewed_performance_wins_must_clear_observed_repeatability_noise''),
       (''thresholds'', thresholds_dict vo), (''group_count'', PInt (int (length stats))),
       (''capture_count'', PInt (int (length entries))),
       (''blocked_count'', PInt (int (length (filter (\<lambda>e. truthy (dget e ''blockers'')) entries)))),
       (''groups'', PList (map stats_row (sort_key fst stats))),
       (''entries'', PList (map PDict (sort_key (\<lambda>e. py_str (dget e ''capture'')) entries)))])))"

definition variance_report_path :: "path \<Rightarrow> path" where
  "variance_report_path out_dir = path_join out_dir ''perf-variance-report.json''"

text \<open>The program: the report, the files afterwards and the exit status; with \<open>--json\<close> it writes no file.\<close>

definition variance_main ::
  "string \<Rightarrow> (path \<Rightarrow> path) \<Rightarrow> validator \<Rightarrow> variance_options \<Rightarrow> path list \<Rightarrow> path \<Rightarrow> bool \<Rightarrow> files \<Rightarrow>
   (pydict \<times> files \<times> int) res" where
  "variance_main now resolve errors_of vo captures out_dir json fs =
     rbind (build_variance_report now resolve errors_of fs vo captures) (\<lambda>result.
     Inr (result,
       if json then fs else fs(variance_report_path out_dir := Parsed (json_sorted (PDict result))),
       if py_eq (dget result ''blocked_count'') (PInt 0) then 0 else 1))"


section \<open>What a ready entry says\<close>

lemma variance_entry_obtain:
  assumes "variance_entry resolve vo p capture n spread = Inr e"
  obtains median_us inner where "median_phase capture ''end_to_end'' = Inr median_us"
    "within_capture_rel_spread capture = Inr inner" "dict_wf e"
    "dget e ''capture_key'' = PStr (path_key resolve p)"
    "dget e ''required_speedup_margin'' = PFloat (flt_add (FFin 1) (observed_noise vo inner spread))"
    "dget e ''promotion_ready'' = PBool (dget e ''blockers'' = PList [])"
    "dget e ''blockers'' =
       str_list (variance_blockers vo median_us (timing_sample_count capture) inner n spread)"
  using assms unfolding variance_entry_def Let_def rbind_eq_Inr sum.inject
  by (elim exE conjE) (rule that, auto simp: dget_def dict_wf_def str_list_def)

lemma variance_blockers_nonempty: "b \<in> set (variance_blockers vo m n w c s) \<Longrightarrow> b \<noteq> []"
  by (auto simp: variance_blockers_def block_if_def split: option.splits if_splits)

lemma variance_blockers_Nil:
  assumes "variance_blockers vo m n w c s = []"
  shows "vo_min_repeats vo \<le> n" "\<exists>x. w = Some x \<and> \<not> flt_lt (vo_max_within vo) x"
  using assms by (auto simp: variance_blockers_def split: option.splits)

text \<open>The spread is never NaN, so the noise is at least the spread.\<close>

lemma flt_le_trans: "flt_le x y \<Longrightarrow> flt_lt y z \<Longrightarrow> flt_le x z"
  by (cases x; cases y; cases z) (auto simp: flt_le_def flt_eq_def)

lemma foldl_max_ge: "flt_le x b \<Longrightarrow> flt_le x (foldl (\<lambda>b y. if flt_lt b y then y else b) b ys)"
  by (induction ys arbitrary: b) (auto intro: flt_le_trans)

lemma max_float_ge: "x \<noteq> FNaN \<Longrightarrow> flt_le x (max_float id x ys)"
  unfolding max_float_def id_apply by (rule foldl_max_ge) (cases x; simp add: flt_le_def flt_eq_def)

lemma within_spread_not_NaN:
  assumes "within_capture_rel_spread capture = Inr (Some w)"
  shows "w \<noteq> FNaN"
proof -
  obtain x where "w = max_float id (FFin 0) [x]"
    using assms unfolding within_capture_rel_spread_def rbind_eq_Inr
    by (elim exE conjE) (simp split: option.splits if_splits add: rbind_eq_Inr, blast)
  then show ?thesis by (cases x) (simp_all add: max_float_def)
qed

lemma noise_ge_spread:
  "within_capture_rel_spread capture = Inr (Some w) \<Longrightarrow> flt_le w (observed_noise vo (Some w) spread)"
  using max_float_ge [OF within_spread_not_NaN] by (simp add: observed_noise_def)

lemma variance_groups_member:
  assumes "variance_groups errors_of fs captures = Inr grouped" "(key, p, capture) \<in> set grouped"
  shows "p \<in> set captures \<and> load_valid errors_of fs p = Inr capture"
proof -
  obtain loaded where loaded:
    "rmapM (\<lambda>p. rbind (load_valid errors_of fs p) (\<lambda>capture. Inr (p, capture))) captures = Inr loaded"
    "rmapM (\<lambda>(p, capture). rbind (variance_group_key capture) (\<lambda>key. Inr (key, p, capture))) loaded = Inr grouped"
    using assms(1) unfolding variance_groups_def rbind_eq_Inr by blast
  have "(p, capture) \<in> set loaded" using rmapM_set [OF loaded(2) assms(2)] by (auto simp: rbind_eq_Inr)
  from rmapM_set [OF loaded(1) this] show ?thesis by (auto simp: rbind_eq_Inr)
qed

lemma build_variance_report_entries:
  assumes "build_variance_report now resolve errors_of fs vo captures = Inr result"
  shows "dict_wf result"
    and "\<exists>entries. dget result ''entries'' = PList (map PDict entries) \<and>
      (\<forall>e \<in> set entries. \<exists>p capture n spread. p \<in> set captures \<and> load_valid errors_of fs p = Inr capture \<and>
        variance_entry resolve vo p capture n spread = Inr e)"
proof -
  obtain grouped stats entries where grouped: "variance_groups errors_of fs captures = Inr grouped"
    and entries: "rmapM (entry_in_group resolve vo stats) grouped = Inr entries"
    and fields: "dict_wf result" "dget result ''entries'' = PList (map PDict (sort_key (\<lambda>e. py_str (dget e ''capture'')) entries))"
    using assms unfolding build_variance_report_def rbind_eq_Inr sum.inject
    by (elim exE conjE) (drule sym, simp add: dget_def dict_wf_def)
  show "dict_wf result" by (fact fields(1))
  have "\<exists>p capture n spread. p \<in> set captures \<and> load_valid errors_of fs p = Inr capture \<and>
      variance_entry resolve vo p capture n spread = Inr e" if e: "e \<in> set entries" for e
  proof -
    obtain key p capture where g: "(key, p, capture) \<in> set grouped"
      "entry_in_group resolve vo stats (key, p, capture) = Inr e"
      using rmapM_set [OF entries e] by auto
    have "p \<in> set captures" "load_valid errors_of fs p = Inr capture"
      using variance_groups_member [OF grouped g(1)] by blast+
    with g(2) show ?thesis by (auto simp: entry_in_group_def split: prod.splits)
  qed
  then show "\<exists>entries. dget result ''entries'' = PList (map PDict entries) \<and>
      (\<forall>e \<in> set entries. \<exists>p capture n spread. p \<in> set captures \<and> load_valid errors_of fs p = Inr capture \<and>
        variance_entry resolve vo p capture n spread = Inr e)"
    using fields(2) by (intro exI [of _ "sort_key (\<lambda>e. py_str (dget e ''capture'')) entries"]) simp
qed

section \<open>The ledger on top of the report\<close>

text \<open>A variance report as the tool writes it; no path prints as the empty text.\<close>

definition written_variance :: "(path \<Rightarrow> path) \<Rightarrow> variance_options \<Rightarrow> json_file \<Rightarrow> bool" where
  "written_variance resolve vo f \<longleftrightarrow> (\<exists>now errors_of fs captures result.
     build_variance_report now resolve errors_of fs vo captures = Inr result \<and>
     list_all (\<lambda>q. path_key resolve q \<noteq> []) captures \<and> f = Parsed (json_sorted (PDict result)))"

definition repeatable :: "(path \<Rightarrow> path) \<Rightarrow> variance_options \<Rightarrow> string \<Rightarrow> pyval \<Rightarrow> bool" where
  "repeatable resolve vo key speedup \<longleftrightarrow> (\<exists>errors_of fs q capture w noise.
     load_valid errors_of fs q = Inr capture \<and> path_key resolve q = key \<and>
     vo_min_repeats vo \<le> timing_sample_count capture \<and>
     within_capture_rel_spread capture = Inr (Some w) \<and> \<not> flt_lt (vo_max_within vo) w \<and>
     flt_le w noise \<and> \<not> val_le speedup (PFloat (flt_add (FFin 1) noise)))"

lemma by_capture_member: "map_of (by_capture key es) k = Some e \<Longrightarrow> e \<in> set es \<and> key e = Some k"
proof (induction es rule: rev_induct)
  case (snoc x es)
  then show ?case by (auto simp: by_capture_def split: option.splits if_splits)
qed (simp add: by_capture_def)

lemma dicts_in_dicts: "dicts_in (map (PDict \<circ> f) es) = map f es"
  by (induction es) (simp_all add: dicts_in_def List.map_filter_simps)

lemma written_variance_entry:
  assumes "load_variance_entries resolve fs paths = Inr evidence" "map_of evidence k = Some v"
    and "\<And>p. p \<in> set paths \<Longrightarrow> written_variance resolve vo (fs p)"
  shows "\<exists>errors_of gs q capture n spread e. v = sorted_dict e \<and> load_valid errors_of gs q = Inr capture \<and>
    path_key resolve q = k \<and> variance_entry resolve vo q capture n spread = Inr e"
proof -
  let ?key = "\<lambda>e. if is_nonempty_str (dget e ''capture_key'') then Some (str_of (dget e ''capture_key''))
    else capture_field_key resolve (dget e ''capture'')"
  obtain es where es: "from_reports fs (dicts_under ''entries'') paths = Inr es" "evidence = by_capture ?key es"
    using assms(1) unfolding load_variance_entries_def rbind_eq_Inr by auto
  then have v: "v \<in> set es" "?key v = Some k" using assms(2) by_capture_member [of ?key es k v] by simp_all
  obtain xss where "rmapM (\<lambda>p. rbind (read_json fs p) (\<lambda>data. case data of PDict d \<Rightarrow> dicts_under ''entries'' d | _ \<Rightarrow> Inr []))
      paths = Inr xss" "es = concat xss"
    using es(1) unfolding from_reports_def rbind_eq_Inr by auto
  moreover from this v(1) obtain xs where xs: "xs \<in> set xss" "v \<in> set xs" by auto
  ultimately obtain p where p: "p \<in> set paths"
    "rbind (read_json fs p) (\<lambda>data. case data of PDict d \<Rightarrow> dicts_under ''entries'' d | _ \<Rightarrow> Inr []) = Inr xs"
    using rmapM_set [of _ paths xss xs] by blast
  obtain now errors_of gs captures result where
    built: "build_variance_report now resolve errors_of gs vo captures = Inr result"
    and keys: "list_all (\<lambda>q. path_key resolve q \<noteq> []) captures" and content: "fs p = Parsed (PDict (sorted_dict result))"
    using assms(3) [OF p(1)] unfolding written_variance_def json_sorted_PDict by blast
  note wf = build_variance_report_entries(1) [OF built]
  obtain entries where entries: "dget result ''entries'' = PList (map PDict entries)"
    "\<forall>e \<in> set entries. \<exists>p capture n spread. p \<in> set captures \<and> load_valid errors_of gs p = Inr capture \<and>
      variance_entry resolve vo p capture n spread = Inr e"
    using build_variance_report_entries(2) [OF built] by blast
  have "dget_or result ''entries'' (PList []) = PList (map PDict entries)"
    using entries(1) by (auto simp: dget_or_def dget_def split: option.splits)
  then have "dget_or (sorted_dict result) ''entries'' (PList []) = PList (map (PDict \<circ> sorted_dict) entries)"
    by (simp add: dget_or_sorted_dict [OF wf]) (simp add: sorted_dict_def)
  then have "v \<in> set (map sorted_dict entries)"
    using p(2) xs(2) content by (simp add: read_json_def dicts_under_def py_iter_def dicts_in_dicts)
  then obtain e where e: "e \<in> set entries" "v = sorted_dict e" by auto
  then obtain q capture n spread where q: "q \<in> set captures" "load_valid errors_of gs q = Inr capture"
    "variance_entry resolve vo q capture n spread = Inr e"
    using entries(2) by blast
  have "path_key resolve q \<noteq> []" using keys q(1) unfolding list_all_iff by blast
  moreover from q(3) have "dict_wf e" "dget e ''capture_key'' = PStr (path_key resolve q)"
    by (rule variance_entry_obtain, simp)+
  ultimately have "path_key resolve q = k" using v(2) by (simp add: e(2) dget_sorted_dict)
  then show ?thesis using e(2) q by blast
qed

lemma read_variance_ready:
  assumes "read_variance True speedup v = Inr va" "va_blockers va = []" "isinstance_num speedup"
  obtains row where "v = Some row" "is_True (dget row ''promotion_ready'')"
      "\<not> (isinstance_num (dget row ''required_speedup_margin'') \<and> val_le speedup (dget row ''required_speedup_margin''))"
    | row where "v = Some row" "texts_under ''blockers'' row = Inr []" "truthy (dget row ''blockers'')"
  using assms by (auto simp: read_variance_def Let_def rbind_eq_Inr split: option.splits if_splits)

text \<open>An entry of the tool without blockers in the ledger: its capture repeats.\<close>

lemma ready_row_repeatable:
  assumes entry: "variance_entry resolve vo q capture n spread = Inr e" and load: "load_valid errors_of fs q = Inr capture"
    and read: "read_variance True speedup (Some (sorted_dict e)) = Inr va" "va_blockers va = []" "isinstance_num speedup"
  shows "repeatable resolve vo (path_key resolve q) speedup"
  using entry
proof (rule variance_entry_obtain)
  fix median_us inner
  let ?blockers = "variance_blockers vo median_us (timing_sample_count capture) inner n spread"
  assume inner: "within_capture_rel_spread capture = Inr inner" and wf: "dict_wf e"
    and margin: "dget e ''required_speedup_margin'' = PFloat (flt_add (FFin 1) (observed_noise vo inner spread))"
    and ready: "dget e ''promotion_ready'' = PBool (dget e ''blockers'' = PList [])"
    and blockers: "dget e ''blockers'' = str_list ?blockers"
  note get = dget_sorted_dict [OF wf]
  have "json_sorted (str_list ss) = str_list ss" for ss by (simp add: str_list_def)
  then have row: "dget (sorted_dict e) ''blockers'' = str_list ?blockers" by (simp add: get blockers)
  have "filter is_nonempty_str (map PStr ?blockers) = map PStr ?blockers"
    using variance_blockers_nonempty by (auto simp: filter_id_conv is_nonempty_str_iff)
  then have texts: "texts_under ''blockers'' (sorted_dict e) = Inr ?blockers"
    using row by (auto simp: texts_under_def py_iter_def str_list_def dget_or_def dget_def comp_def split: option.splits)
  from read show ?thesis
  proof (rule read_variance_ready)
    fix row assume r: "Some (sorted_dict e) = Some row" "is_True (dget row ''promotion_ready'')"
      "\<not> (isinstance_num (dget row ''required_speedup_margin'') \<and> val_le speedup (dget row ''required_speedup_margin''))"
    have eq: "row = sorted_dict e" using r(1) by simp
    have "?blockers = []" using r(2) by (simp add: eq get ready blockers is_True_def str_list_def)
    from variance_blockers_Nil [OF this] obtain w where w: "inner = Some w" "\<not> flt_lt (vo_max_within vo) w"
      "vo_min_repeats vo \<le> timing_sample_count capture" by blast
    moreover have "flt_le w (observed_noise vo inner spread)" using noise_ge_spread inner w(1) by simp
    moreover have "\<not> val_le speedup (PFloat (flt_add (FFin 1) (observed_noise vo inner spread)))"
      using r(3) by (simp add: eq get margin)
    ultimately show ?thesis using load inner unfolding repeatable_def by blast
  next
    fix row assume "Some (sorted_dict e) = Some row" "texts_under ''blockers'' row = Inr []" "truthy (dget row ''blockers'')"
    then show ?thesis using texts row by (simp add: str_list_def)
  qed
qed

lemma ledger_entry_variance:
  assumes "ledger_entries resolve errors_of fs system captures lo shape_reports = Inr entries" "e \<in> set entries"
  shows "\<exists>p \<in> set captures. \<exists>le entry keys counter variance. capture_entry errors_of fs system p le = Inr entry
    \<and> load_variance_entries resolve fs (lo_variances lo) = Inr variance
    \<and> le_variance le = map_of variance (path_key resolve p) \<and> le_variance_supplied le = (lo_variances lo \<noteq> [])
    \<and> finish_entry keys (lo_counters lo \<noteq> []) counter entry = Inr e"
proof -
  from assms(1) obtain raw cache counter reviewed variance groups by_path where
    variance: "load_variance_entries resolve fs (lo_variances lo) = Inr variance"
    and raw: "rmapM (\<lambda>p. rbind (capture_target errors_of fs system p) (\<lambda>row. capture_entry errors_of fs system p
        (evidence_for resolve lo reviewed variance groups by_path p row))) captures = Inr raw"
    and fin: "rmapM (finish_entry (map str_of (filter is_str (map (\<lambda>e. dget e ''key'') cache))) (lo_counters lo \<noteq> []) (map_of counter (path_key resolve (last captures)))) raw
      = Inr entries"
    unfolding ledger_entries_def rbind_eq_Inr by (elim exE conjE) blast
  from rmapM_set [OF fin assms(2)] obtain entry where
    entry: "entry \<in> set raw" "finish_entry (map str_of (filter is_str (map (\<lambda>e. dget e ''key'') cache)))
       (lo_counters lo \<noteq> []) (map_of counter (path_key resolve (last captures))) entry = Inr e"
    by blast
  from rmapM_set [OF raw entry(1)] obtain p row where p: "p \<in> set captures"
    "capture_entry errors_of fs system p (evidence_for resolve lo reviewed variance groups by_path p row) = Inr entry"
    by (auto simp: rbind_eq_Inr)
  have "le_variance (evidence_for resolve lo reviewed variance groups by_path p row) = map_of variance (path_key resolve p)"
    "le_variance_supplied (evidence_for resolve lo reviewed variance groups by_path p row) = (lo_variances lo \<noteq> [])"
    by (simp_all add: evidence_for_def)
  with p variance entry(2) show ?thesis by blast
qed

lemma unblocked_entry_row:
  assumes "build_ledger resolve errors_of fs system captures lo = Inr ledger"
    and "PDict e \<in> set (elems_of (dget ledger ''entries''))" and "dget e ''promotion_blockers'' = PList []"
    and "lo_variances lo \<noteq> []"
  shows "\<exists>p \<in> set captures. \<exists>variance v va. dget e ''path'' = PStr (path_str p) \<and>
    load_variance_entries resolve fs (lo_variances lo) = Inr variance \<and>
    map_of variance (path_key resolve p) = Some v \<and> isinstance_num (dget e ''speedup_margin'') \<and>
    read_variance True (dget e ''speedup_margin'') (Some v) = Inr va \<and> va_blockers va = []"
proof -
  obtain shape_reports entries where
    entries: "ledger_entries resolve errors_of fs system captures lo shape_reports = Inr entries"
    and listed: "dget ledger ''entries'' = PList (map PDict entries)"
    using assms(1) by (rule build_ledger_entries)
  have "e \<in> set entries" using assms(2) listed by auto
  from ledger_entry_variance [OF entries this] obtain p le entry keys counter variance where
    p: "p \<in> set captures" and entry: "capture_entry errors_of fs system p le = Inr entry"
    and evidence: "load_variance_entries resolve fs (lo_variances lo) = Inr variance"
    "le_variance le = map_of variance (path_key resolve p)" "le_variance_supplied le"
    and fin: "finish_entry keys (lo_counters lo \<noteq> []) counter entry = Inr e"
    using assms(4) by blast
  have clear: "blockers_of entry = []"
    using finish_entry_facts(1) [OF fin] assms(3) by (simp add: blockers_of_def)
  obtain capture target_row rv va te blockers family_blockers class0 where
    form: "entry = ledger_entry p capture target_row le rv va te blockers family_blockers class0"
    and va: "read_variance (le_variance_required le \<or> le_variance_supplied le)
       (entry_speedup rv (dict_or_empty (dget capture ''comparison_baseline''))) (le_variance le) = Inr va"
    and b: "capture_blockers le capture rv va te = Inr blockers"
    using entry by (rule capture_entry_obtain)
  have "blockers = []" using clear by (simp add: form blockers_of_def ledger_entry_fields str_list_def)
  note none = capture_blockers_Nil [OF b [unfolded this]]
  have fields: "dget e ''path'' = PStr (path_str p)"
    "dget e ''speedup_margin'' = entry_speedup rv (dict_or_empty (dget capture ''comparison_baseline''))"
    using form by (simp_all add: finish_entry_facts(3) [OF fin] ledger_entry_fields)
      (simp add: ledger_entry_def Let_def dget_def)
  have read: "read_variance True (dget e ''speedup_margin'') (map_of variance (path_key resolve p)) = Inr va"
    using va evidence(2,3) by (simp add: fields)
  then obtain v where "map_of variance (path_key resolve p) = Some v"
    using none(5) by (auto simp: read_variance_def split: option.splits)
  with p fields(1) evidence(1) read none(3) [folded fields(2)] none(5) show ?thesis by auto
qed


section \<open>A report and a ledger\<close>

definition witness_thresholds :: variance_options where
  "witness_thresholds =
     \<lparr>vo_min_repeats = 9, vo_min_runs = 2, vo_require_multi_run = False, vo_max_within = FFin (1 / 8),
      vo_max_run_to_run = FFin (1 / 8), vo_min_margin = FFin (1 / 32)\<rparr>"

lemma ledger_capture_times:
  "median_phase ledger_capture ''end_to_end'' = Inr (Some (FFin 100))"
  "returns (variance_group_key ledger_capture)" "returns (backend_id ledger_capture)"
  "within_capture_rel_spread ledger_capture = Inr (Some (FFin 0))"
  "timing_sample_count ledger_capture = 9"
  "percentile_summary ledger_capture ''end_to_end'' ''p95'' = Inr (Some (FFin 100))"
  "relative_spread [FFin 100] = Some (FFin 0)" "median_of [FFin 100] = FFin 100"
  by code_simp+

lemma witness_blockers:
  "variance_blockers witness_thresholds (Some (FFin 100)) 9 (Some (FFin 0)) 1 (Some (FFin 0)) = []"
  "observed_noise witness_thresholds (Some (FFin 0)) (Some (FFin 0)) = FFin (1 / 32)"
  "\<not> val_le (PInt 2) (PFloat (flt_add (FFin 1) (FFin (1 / 32))))"
  by code_simp+

lemma witness_entry:
  obtains row where "variance_entry id witness_thresholds (path_of ''capture.json'') ledger_capture 1 (Some (FFin 0)) = Inr row"
    "dget row ''blockers'' = PList []" "dget row ''capture_key'' = PStr ''capture.json''" "dict_wf row"
    "dget row ''promotion_ready'' = PBool True" "dget row ''required_speedup_margin'' = PFloat (flt_add (FFin 1) (FFin (1 / 32)))"
proof -
  obtain key backend where "variance_group_key ledger_capture = Inr key" "backend_id ledger_capture = Inr backend"
    using ledger_capture_times(2,3) unfolding returns_iff by blast
  then obtain row where row:
    "variance_entry id witness_thresholds (path_of ''capture.json'') ledger_capture 1 (Some (FFin 0)) = Inr row"
    by (simp add: variance_entry_def ledger_capture_times Let_def)
  then show thesis
  proof (rule variance_entry_obtain)
    fix m w
    assume m: "median_phase ledger_capture ''end_to_end'' = Inr m" "within_capture_rel_spread ledger_capture = Inr w"
      "dict_wf row" "dget row ''capture_key'' = PStr (path_key id (path_of ''capture.json''))"
      "dget row ''required_speedup_margin'' = PFloat (flt_add (FFin 1) (observed_noise witness_thresholds w (Some (FFin 0))))"
      "dget row ''promotion_ready'' = PBool (dget row ''blockers'' = PList [])"
      "dget row ''blockers'' = str_list (variance_blockers witness_thresholds m (timing_sample_count ledger_capture) w 1 (Some (FFin 0)))"
    have eqs: "m = Some (FFin 100)" "w = Some (FFin 0)" using m(1,2) by (simp_all add: ledger_capture_times)
    have "dget row ''blockers'' = PList []"
      using m(7) by (simp add: eqs ledger_capture_times witness_blockers str_list_def)
    with that [OF row] m(3-6) show thesis by (simp only: eqs witness_blockers ledger_evidence_loads simp_thms)
  qed
qed

lemma witness_report:
  obtains result row where
    "build_variance_report ''now'' id no_errors (ledger_files_with []) witness_thresholds [path_of ''capture.json''] = Inr result"
    "dget result ''entries'' = PList [PDict row]"
    "variance_entry id witness_thresholds (path_of ''capture.json'') ledger_capture 1 (Some (FFin 0)) = Inr row"
proof -
  obtain key where key: "variance_group_key ledger_capture = Inr key"
    using ledger_capture_times(2) unfolding returns_iff by blast
  let ?p = "path_of ''capture.json''"
  have groups: "variance_groups no_errors (ledger_files_with []) [?p] = Inr [(key, ?p, ledger_capture)]"
    by (simp add: variance_groups_def ledger_capture_loads key)
  have stats: "group_stats [(?p, ledger_capture)] = Inr (1, Some (FFin 100), Some (FFin 0))"
    by (simp add: group_stats_def ledger_capture_times List.map_filter_simps Let_def)
  obtain row where row: "variance_entry id witness_thresholds ?p ledger_capture 1 (Some (FFin 0)) = Inr row"
    by (rule witness_entry)
  have grouped: "group_on fst [(key, ?p, ledger_capture)] = [(key, [(key, ?p, ledger_capture)])]"
    by (simp add: group_on_def add_to_group_def)
  from groups obtain result where
    "build_variance_report ''now'' id no_errors (ledger_files_with []) witness_thresholds [?p] = Inr result"
    "dget result ''entries'' = PList [PDict row]"
    by (simp add: build_variance_report_def grouped stats entry_in_group_def stats_of_def row dget_def)
  then show thesis using that row by blast
qed


end
