(* ===== verification/Spec2Isabelle.thy ===== *)
theory Spec2Isabelle
  imports Modulus_Search Metadata_Registry Sweep_Cli Capture_Metadata Promotion_Ledger Review_Example Schema_Example
    Compare_Example Perf_Variance
begin

text \<open>
  RNS8 multiplies integer matrices exactly in a residue number system on GPUs. The library is C++ and
  HIP; what decides which variants are measured, trusted and promoted is Python under \<open>src/tools\<close>.
  This development models that Python.

  \<^bold>\<open>The parts and how they interact.\<close>

  \<^item> \<open>modulus_set_search.py\<close> looks for ladders of pairwise coprime byte moduli and reports, for each,
    how many residues a result of given size needs and the constants of the mixed-radix decoder.
  \<^item> \<open>metadata_registry.py\<close> validates the registry of identifiers and generates the Python and C++
    constants that every other tool and the library share.
  \<^item> \<open>benchmark_sweep_lib\<close> plans and runs benchmark captures. \<open>scenarios.py\<close> loads the catalog of
    scenarios and \<open>scenario_lint.py\<close> checks it; \<open>commands.py\<close> turns options or catalog items into named
    command lines; \<open>execution.py\<close> runs them, skips what exists, copies what is equal and defers what is
    over budget; \<open>capture_metadata.py\<close> reads the finished captures; \<open>review.py\<close> groups them by contract,
    names what blocks each from promotion, picks at most one winner per group and writes it to the
    cache; \<open>cli.py\<close> and \<open>reports.py\<close> write the plan and the manifest.
  \<^item> \<open>benchmark_schema\<close> decides what a capture is: some 1,190 messages about its fields, run by every tool
    before it reads a capture, and a command line that reports on files. \<open>result_compare.py\<close> compares two
    captures that passed.
  \<^item> \<open>target_validation_report.py\<close> groups captures and status records by host, GPU target and toolchain and
    says which groups may feed the autotune cache. \<open>promotion_ledger.py\<close> joins captures with the review,
    variance, target and counter reports and lists what blocks each from promotion.
    \<open>install_autotune_cache.py\<close> merges cache entries that the ledger clears into the cache that the library
    reads at run time. \<open>perf_variance_report.py\<close> measures how well the times of a capture repeat and writes the
    variance reports that the ledger reads.

  \<^bold>\<open>Theories.\<close>

  \<^item> \<open>Rns8_Prelude\<close>: exceptions \<open>exc\<close>, runs \<open>'a res\<close> (\<open>Inl\<close> the exception raised), the loops \<open>rmapM\<close>,
    \<open>rfoldM\<close>, \<open>rforM\<close> and their laws (\<open>res_simps\<close>), lemmas on lists.
  \<^item> \<open>Py_Value\<close>, \<open>Py_String\<close>, \<open>Py_Repr\<close>, \<open>Py_Path\<close>, \<open>Py_Hash\<close>, \<open>Py_Ops\<close>: the parts of Python the tools use. JSON values
    \<open>pyval\<close> with insertion-ordered dicts, equality and truth; doubles as rationals rounded to 53 bits;
    strings, integer parsing and printing; \<open>repr\<close>; pure paths; JSON text with sorted keys, UTF-8 and SHA-256;
    iteration, membership, comparison and grouping of dynamic values.
  \<^item> \<open>Rns_Ladder\<close>: the locales \<open>rns_ladder\<close> (pairwise coprime moduli) and \<open>rns_decoder\<close> (with an inverse
    for every step); inside them, a Garner decoder rebuilds every integer below the product.
  \<^item> \<open>Modulus_Search\<close>: every function of \<open>modulus_set_search.py\<close> under its own name; the locales are
    interpreted on its ladders. Lemmas: primality, least prefixes, decoder constants, generators.
  \<^item> \<open>Metadata_Registry\<close>: \<open>load_registry\<close>, \<open>validate_registry\<close>, \<open>render_python_constants\<close>,
    \<open>render_cpp_header\<close>, \<open>registry_main\<close>. The registry is the dict of its documents. Lemmas: what
    validation guarantees, when rendering succeeds, check after write.
  \<^item> \<open>Sweep_Config\<close>: constants, the data classes as records (\<open>cs_\<close> case, \<open>si_\<close> scenario item, \<open>cmd_\<close> planned
    command) and the argument namespace (\<open>sa_\<close>) with the checks of \<open>parse_args\<close>.
  \<^item> \<open>Sweep_Scenarios\<close>: \<open>parse_case\<close> and the catalog loader; lemmas: the invariant \<open>item_ok\<close> of loaded items.
  \<^item> \<open>Sweep_Lint\<close>: \<open>validate_scenario_catalog\<close>; lemmas: what an empty list of errors certifies.
  \<^item> \<open>Sweep_Commands\<close>: device visibility, cases, backend choice, \<open>capture_name\<close>, \<open>command_for\<close>; lemmas: names
    separate captures, options read back, shards keep files apart.
  \<^item> \<open>Sweep_Plan\<close>: \<open>default_sweep_command_entries\<close>, \<open>scenario_sweep_command_entries\<close> and their checks;
    lemmas: planned entries are allowed, and their files differ.
  \<^item> \<open>Sweep_Exec\<close>: \<open>load_capture\<close>, \<open>run_command\<close> and the loop \<open>execute_sweep_entries\<close>, whose state is a record
    (\<open>es_\<close>: files, captured paths, dedupe table, counters), and the same loop as the step relation
    \<open>exec_step\<close>; lemmas: both agree, counters add up, what a step may write, running again.
  \<^item> \<open>Capture_Metadata\<close>: contract key, backend id and source metadata of a capture.
  \<^item> \<open>Sweep_Cli\<close>: release preflight, command plan, scenario manifest, the modes without execution.
  \<^item> \<open>Registry_Constants\<close>: the constants of the generated module that the models below use.
  \<^item> \<open>Autotune_Cache\<close>: \<open>validate_entry\<close>, the gates and \<open>install_cache\<close>, which maps the files before to the
    report and the files after; lemmas: what an installed entry has passed, the written cache reads
    back, installing twice changes nothing.
  \<^item> \<open>Target_Validation\<close>: \<open>capture_target\<close>, \<open>status_target\<close>, the groups and the report; lemmas: the groups
    partition the rows, what an eligible group has.
  \<^item> \<open>Review_Rules\<close>, \<open>Review_Timing\<close>, \<open>Review_Summary\<close>, \<open>Capture_Review\<close>, \<open>Review_Cache\<close>: \<open>review.py\<close>. The rules
    for one capture; medians, ratios, setup costs and the break-even count (\<open>float_sum\<close> is the compensated
    \<open>sum\<close> of CPython); the counters of the summary; \<open>review_captures\<close>, with the facts of a group in the record
    \<open>group_facts\<close> (\<open>gf_\<close>), the times of a candidate in \<open>candidate_times\<close> (\<open>ct_\<close>); the cache entries and the write
    status. Lemmas: what a candidate without blockers has, where its reference and its direct baseline
    come from, one winner per group, when a review fails, what the installer makes of a written entry.
  \<^item> \<open>Review_Example\<close>: one review evaluated on three captures, for the witnesses.
  \<^item> \<open>Promotion_Ledger\<close>: the evidence loaders, the blockers in the code's order, \<open>capture_entry\<close> and
    \<open>build_ledger\<close>; lemmas: what an unblocked entry proves of its capture, and, through the gates of
    \<open>Autotune_Cache\<close>, what an installed entry does.
  \<^item> \<open>Perf_Variance\<close>: the spreads, the blockers and the report of the variance tool; lemmas: what a ready entry
    says of its capture, and what the ledger makes of it.

  \<^item> \<open>Schema_Monad\<close>: the validator as runs \<open>'a chk\<close>, the messages appended and the value, or the exception.
    \<open>self\<close> is the capture; the path in front of every message is added by \<open>validation_errors\<close>.
    The operators follow the statements: \<open>cseq\<close> a suite, \<open>whenp\<close>/\<open>cwhen\<close>/\<open>cif\<close> the conditionals (conditions
    that may raise or report are runs), \<open>all_of\<close>/\<open>any_of\<close> the short-circuit connectives, \<open>cfor\<close>/\<open>cfold\<close>
    loops. A set is a list without order in use; \<open>is\<close> between values is \<open>same_object\<close>.
  \<^item> \<open>Schema_Constants\<close> to \<open>Schema_Base\<close>: one theory per file or pair of files of \<open>benchmark_schema\<close>, one
    definition per method under its own name, and for the longest methods one per part, in the order of
    the code: \<open>core_shared.py\<close> and \<open>gpu_events.py\<close> (\<open>Schema_Shared\<close>), \<open>validator_predicates.py\<close>,
    \<open>output_policies.py\<close>, \<open>contract_metadata.py\<close>, \<open>execution_modes.py\<close> (\<open>Schema_Modes\<close>),
    \<open>backend_metadata.py\<close>, \<open>helper_metadata.py\<close>, \<open>validator_schedule.py\<close>, the \<open>semantic_\<close> files,
    \<open>reuse_timing.py\<close> and \<open>validator_timing_events.py\<close> (\<open>Schema_Timing\<close>), \<open>gpu_event_validation.py\<close>
    (\<open>Schema_Events\<close>) and \<open>validator_base_fields.py\<close>. \<open>Capture_Schema\<close> is \<open>core.py\<close> and \<open>cli.py\<close>.
  \<^item> \<open>Schema_Raises\<close>: which exceptions can leave a validator, one rule per operator and method.
    \<open>Schema_Accept\<close>: what an accepted capture guarantees of accumulators, tiles, skipped products and
    moduli, and what the command line reports. \<open>Schema_Example\<close>: one accepted capture, run in the kernel.
  \<^item> \<open>Result_Compare\<close>: the rows of the report, \<open>compare\<close> and the exit status \<open>compare_main\<close>; lemmas: the
    validator's checks give every time the comparison reads, and what status 0 says. \<open>Compare_Example\<close>: the
    accepted capture against itself.

  \<^bold>\<open>Arguments of the model.\<close> The directory of scenario files, \<open>re.compile\<close>, the clock, the process that
  a command starts (a function of the number of runs before it, so that equal commands may end
  differently), the index of ISA reports that a review consults (\<open>isa_index\<close>), \<open>Path.resolve\<close> (\<open>resolve\<close>) and
  \<open>platform.system()\<close> (\<open>system\<close>) are function arguments; no property assumes
  more of them than its hypotheses say. The sweep, the review and the ledger take the list of schema
  errors of a capture as an argument too, \<open>errors_of\<close>; what they prove holds for every validator, and
  \<open>validation_errors\<close> is the one the program passes.

  \<^bold>\<open>Bounds.\<close> Floats print by searching 17 significant digits, which always suffice for doubles, with decimal
  exponents searched up to 400, beyond the range of doubles. No other definition has fuel.

  \<^bold>\<open>Not modelled.\<close> The evidence database and the experiment reports. Progress messages, Markdown tables, argument parsing by
  \<open>argparse\<close>, the parser of JSON text and the C++ and HIP code are outside the model.
\<close>

end
